(* ===== verification/Hh_Prelude.thy ===== *)
theory Hh_Prelude
  imports Main "HOL-Library.Word"
begin

text \<open>
  Shared vocabulary of the development: the machine types of the C code, the exceptions it raises,
  operations as functions from a state to an outcome and a state, the \<open>while (1)\<close> loop, the byte
  memory of the shared segment with its 64-bit loads and stores, and the lemmas on words and
  masks that every component uses.
\<close>

unbundle bit_operations_syntax

named_theorems op_simps \<open>unfolding rules of the operation combinators\<close>

type_synonym u8 = "8 word"
type_synonym u32 = "32 word"
type_synonym u64 = "64 word"

subsection \<open>Exceptions\<close>

text \<open>
  \<open>hh_assert.h\<close> redefines \<open>assert\<close>: a false condition raises the OCaml exception
  \<open>C_assertion_failure\<close> with the location (file and line) or, for \<open>assert_with_message\<close>, the message.
  \<open>caml_raise_constant\<close> raises one of the exceptions registered in \<open>sharedMemory.ml\<close>,
  \<open>caml_failwith\<close> raises \<open>Failure\<close>, \<open>assert_sql\<close> raises \<open>Sql_assertion_failure\<close>. A raise leaves
  everything written before it in place. \<open>Invalid_access\<close> marks a dereference of NULL or of the
  write-in-progress marker and every other access outside the objects of the program: undefined
  behaviour in C (in practice a segmentation fault). \<open>Exit\<close> is \<open>exit(n)\<close>.
\<close>

datatype src_file = HH_SHARED_C | HH_SHARED_SQLITE_C

datatype assert_msg = LOCATION src_file nat | MESSAGE string

datatype hh_error =
    C_assertion_failure assert_msg
  | Hash_table_full
  | Dep_table_full
  | Heap_full
  | Sql_assertion_failure int
  | Failure string
  | Invalid_access
  | Exit int

subsection \<open>Operations\<close>

text \<open>
  An operation maps a state to \<open>None\<close> when it never returns, and otherwise to its outcome (an
  exception \<open>Inl\<close> or a result \<open>Inr\<close>) together with the state it leaves behind.
\<close>

type_synonym ('s, 'a) op = "'s \<Rightarrow> ((hh_error + 'a) \<times> 's) option"

definition ret :: "'a \<Rightarrow> ('s, 'a) op" where
  [op_simps]: "ret x s = Some (Inr x, s)"

definition throw :: "hh_error \<Rightarrow> ('s, 'a) op" where
  [op_simps]: "throw e s = Some (Inl e, s)"

definition op_bind :: "('s, 'a) op \<Rightarrow> ('a \<Rightarrow> ('s, 'b) op) \<Rightarrow> ('s, 'b) op" where
  [op_simps]: "op_bind m f s =
     (case m s of None \<Rightarrow> None
      | Some (Inl e, t) \<Rightarrow> Some (Inl e, t)
      | Some (Inr x, t) \<Rightarrow> f x t)"

definition op_seq :: "('s, unit) op \<Rightarrow> ('s, 'b) op \<Rightarrow> ('s, 'b) op" where
  [op_simps]: "op_seq m n = op_bind m (\<lambda>_. n)"

definition gets :: "('s \<Rightarrow> 'a) \<Rightarrow> ('s, 'a) op" where
  [op_simps]: "gets f s = Some (Inr (f s), s)"

definition modify :: "('s \<Rightarrow> 's) \<Rightarrow> ('s, unit) op" where
  [op_simps]: "modify f s = Some (Inr (), f s)"

definition assert_at :: "src_file \<Rightarrow> nat \<Rightarrow> ('s \<Rightarrow> bool) \<Rightarrow> ('s, unit) op" where
  [op_simps]: "assert_at file line P s =
     (if P s then Some (Inr (), s) else Some (Inl (C_assertion_failure (LOCATION file line)), s))"

abbreviation c_assert :: "nat \<Rightarrow> ('s \<Rightarrow> bool) \<Rightarrow> ('s, unit) op" where
  "c_assert \<equiv> assert_at HH_SHARED_C"

lemma op_bind_returns:
  "op_bind m f s = Some (Inr y, u) \<longleftrightarrow> (\<exists>x t. m s = Some (Inr x, t) \<and> f x t = Some (Inr y, u))"
  by (auto simp: op_bind_def split: option.splits prod.splits sum.splits)

lemma op_bind_raises:
  "op_bind m f s = Some (Inl e, u) \<longleftrightarrow>
     m s = Some (Inl e, u) \<or> (\<exists>x t. m s = Some (Inr x, t) \<and> f x t = Some (Inl e, u))"
  by (auto simp: op_bind_def split: option.splits prod.splits sum.splits)

text \<open>A \<open>for\<close> loop over a list of loop values; an exception leaves the loop.\<close>

fun for_each :: "'x list \<Rightarrow> ('x \<Rightarrow> ('s, unit) op) \<Rightarrow> ('s, unit) op" where
  "for_each [] f = ret ()"
| "for_each (x # xs) f = op_seq (f x) (for_each xs f)"

lemma op_seq_assoc: "op_seq (op_seq a b) c = op_seq a (op_seq b c)"
  by (auto simp: op_simps fun_eq_iff split: option.splits prod.splits sum.splits)

lemma op_seq_ret [simp]: "op_seq (ret ()) f = f" "op_seq f (ret ()) = f"
  by (auto simp: op_simps fun_eq_iff split: option.splits prod.splits sum.splits)

lemma for_each_snoc: "for_each (xs @ [x]) f = op_seq (for_each xs f) (f x)"
  by (induction xs) (simp_all add: op_seq_assoc)

subsection \<open>The endless loop\<close>

text \<open>
  \<open>while1 body\<close> is \<open>while (1)\<close> (and \<open>for (;;)\<close>): the body either leaves the loop with a result
  (\<open>Inl\<close>) or goes round with the next values of the loop variables (\<open>Inr\<close>). \<open>None\<close> is a loop
  that never ends.
\<close>

partial_function (option) while1 :: "('a \<Rightarrow> 'b + 'a) \<Rightarrow> 'a \<Rightarrow> 'b option" where
  "while1 body x = (case body x of Inl r \<Rightarrow> Some r | Inr y \<Rightarrow> while1 body y)"

declare while1.simps [code]

lemma while1_Inl: "body x = Inl r \<Longrightarrow> while1 body x = Some r"
  by (subst while1.simps) simp

lemma while1_Inr: "body x = Inr y \<Longrightarrow> while1 body x = while1 body y"
  by (subst while1.simps) simp

lemma while1_induct [consumes 1, case_names leave go_on]:
  assumes ret: "while1 body x = Some r"
    and leave: "\<And>x r. body x = Inl r \<Longrightarrow> P x r"
    and go_on: "\<And>x y r. body x = Inr y \<Longrightarrow> while1 body y = Some r \<Longrightarrow> P y r \<Longrightarrow> P x r"
  shows "P x r"
proof -
  have "(case (body, x) of (b, x) \<Rightarrow> \<lambda>r. b = body \<longrightarrow> P x r \<and> while1 body x = Some r) r"
  proof (rule while1.raw_induct)
    fix f b x r
    assume "\<And>b x r. f b x = Some r \<Longrightarrow> b = body \<longrightarrow> P x r \<and> while1 body x = Some r"
      and "(case b x of Inl r \<Rightarrow> Some r | Inr y \<Rightarrow> f b y) = Some r"
    then show "b = body \<longrightarrow> P x r \<and> while1 body x = Some r"
      using leave go_on by (auto split: sum.splits simp: while1_Inl while1_Inr)
  next
    show "(case (body, x) of (b, x) \<Rightarrow> while1 b x) = Some r" using ret by simp
  qed
  then show ?thesis by simp
qed

lemma while1_diverges:
  assumes step: "\<And>x. x \<in> A \<Longrightarrow> \<exists>y\<in>A. body x = Inr y" and "x \<in> A"
  shows "while1 body x = None"
proof (rule ccontr)
  assume "while1 body x \<noteq> None"
  then obtain r where "while1 body x = Some r" by auto
  then have "x \<notin> A" by (induction rule: while1_induct) (use step in force)+
  then show False using \<open>x \<in> A\<close> by simp
qed

text \<open>A loop whose variables run through \<open>f 0, f 1, \<dots>\<close> and leaves at the \<open>k\<close>-th round.\<close>

lemma while1_reaches:
  assumes "\<And>j. j < k \<Longrightarrow> body (f j) = Inr (f (Suc j))"
  shows "while1 body (f 0) = while1 body (f k)"
  using assms
proof (induction k)
  case (Suc k)
  then have "while1 body (f k) = while1 body (f (Suc k))" by (simp add: while1_Inr)
  with Suc show ?case by simp
qed simp

text \<open>A loop whose rounds are operations: a round raises, leaves with a result or goes round.\<close>

definition op_round :: "('x \<Rightarrow> ('s, 'r + 'x) op) \<Rightarrow> 'x \<times> 's \<Rightarrow> ((hh_error + 'r) \<times> 's) option + 'x \<times> 's" where
  "op_round body = (\<lambda>(x, s). case body x s of
      None \<Rightarrow> Inl None
    | Some (Inl e, t) \<Rightarrow> Inl (Some (Inl e, t))
    | Some (Inr (Inl r), t) \<Rightarrow> Inl (Some (Inr r, t))
    | Some (Inr (Inr y), t) \<Rightarrow> Inr (y, t))"

definition op_while :: "('x \<Rightarrow> ('s, 'r + 'x) op) \<Rightarrow> 'x \<Rightarrow> ('s, 'r) op" where
  "op_while body x s = Option.bind (while1 (op_round body) (x, s)) (\<lambda>r. r)"

lemma op_while_leave: "body x s = Some (Inr (Inl r), t) \<Longrightarrow> op_while body x s = Some (Inr r, t)"
  by (simp add: op_while_def while1_Inl op_round_def)

lemma op_while_raise: "body x s = Some (Inl e, t) \<Longrightarrow> op_while body x s = Some (Inl e, t)"
  by (simp add: op_while_def while1_Inl op_round_def)

lemma op_while_round: "body x s = Some (Inr (Inr y), t) \<Longrightarrow> op_while body x s = op_while body y t"
  by (simp add: op_while_def while1_Inr op_round_def)

subsection \<open>Bytes, 64-bit cells and the byte memory\<close>

text \<open>
  The shared segment is a function from addresses to bytes; \<open>load64\<close> and \<open>store64\<close> are the
  64-bit accesses of the C code on a little-endian machine (x86-64, AArch64). \<open>memmove\<close> covers
  overlapping ranges, \<open>memcpy\<close> writes a list of bytes.
\<close>

type_synonym memory = "nat \<Rightarrow> u8"

definition byte_of :: "u64 \<Rightarrow> nat \<Rightarrow> u8" where
  "byte_of v i = ucast (drop_bit (8 * i) v)"

definition word_of_bytes :: "(nat \<Rightarrow> u8) \<Rightarrow> u64" where
  "word_of_bytes f =
     ucast (f 0) OR push_bit 8 (ucast (f 1)) OR push_bit 16 (ucast (f 2)) OR push_bit 24 (ucast (f 3))
     OR push_bit 32 (ucast (f 4)) OR push_bit 40 (ucast (f 5)) OR push_bit 48 (ucast (f 6))
     OR push_bit 56 (ucast (f 7))"

definition load64 :: "memory \<Rightarrow> nat \<Rightarrow> u64" where
  "load64 m a = word_of_bytes (\<lambda>i. m (a + i))"

definition store64 :: "memory \<Rightarrow> nat \<Rightarrow> u64 \<Rightarrow> memory" where
  "store64 m a v = (\<lambda>x. if a \<le> x \<and> x < a + 8 then byte_of v (x - a) else m x)"

definition memmove :: "memory \<Rightarrow> nat \<Rightarrow> nat \<Rightarrow> nat \<Rightarrow> memory" where
  "memmove m dst src n = (\<lambda>x. if dst \<le> x \<and> x < dst + n then m (src + (x - dst)) else m x)"

definition memcpy :: "memory \<Rightarrow> nat \<Rightarrow> u8 list \<Rightarrow> memory" where
  "memcpy m dst bs = (\<lambda>x. if dst \<le> x \<and> x < dst + length bs then bs ! (x - dst) else m x)"

definition read_bytes :: "memory \<Rightarrow> nat \<Rightarrow> nat \<Rightarrow> u8 list" where
  "read_bytes m a n = map (\<lambda>i. m (a + i)) [0..<n]"

lemma bit_word_of_bytes:
  assumes "r < 8" and "q < 8"
  shows "bit (word_of_bytes f) (8 * q + r) \<longleftrightarrow> bit (f q) r"
proof -
  have [simp]: "\<not> bit (f i) n" if "8 \<le> n" for i n
    using that by (auto dest: bit_imp_le_length)
  have "q \<in> {0, 1, 2, 3, 4, 5, 6, 7}" using \<open>q < 8\<close> by auto
  then show ?thesis using \<open>r < 8\<close>
    by (elim insertE) (simp_all add: word_of_bytes_def bit_simps)
qed

lemma word_of_bytes_byte_of [simp]: "word_of_bytes (byte_of v) = v"
proof (rule bit_word_eqI)
  fix n assume "n < LENGTH(64)"
  then have "n = 8 * (n div 8) + n mod 8" "n mod 8 < 8" "n div 8 < 8" by auto
  then show "bit (word_of_bytes (byte_of v)) n \<longleftrightarrow> bit v n"
    using bit_word_of_bytes [of "n mod 8" "n div 8" "byte_of v"] by (simp add: byte_of_def bit_simps)
qed

lemma word_of_bytes_cong: "(\<And>i. i < 8 \<Longrightarrow> f i = g i) \<Longrightarrow> word_of_bytes f = word_of_bytes g"
  by (simp add: word_of_bytes_def)

lemma byte_of_word_of_bytes:
  assumes "i < 8"
  shows "byte_of (word_of_bytes f) i = f i"
  by (rule bit_word_eqI) (simp add: byte_of_def bit_simps bit_word_of_bytes assms)

lemma load64_cong: "(\<And>i. i < 8 \<Longrightarrow> m (a + i) = m' (b + i)) \<Longrightarrow> load64 m a = load64 m' b"
  unfolding load64_def by (rule word_of_bytes_cong) simp

lemma load64_store64_same [simp]: "load64 (store64 m a v) a = v"
proof -
  have "load64 (store64 m a v) a = word_of_bytes (byte_of v)"
    unfolding load64_def by (rule word_of_bytes_cong) (simp add: store64_def)
  then show ?thesis by simp
qed

lemma load64_store64_other [simp]:
  "a + 8 \<le> b \<or> b + 8 \<le> a \<Longrightarrow> load64 (store64 m a v) b = load64 m b"
  by (rule load64_cong) (auto simp: store64_def)

lemma store64_other: "x < a \<or> a + 8 \<le> x \<Longrightarrow> store64 m a v x = m x"
  by (auto simp: store64_def)

lemma store64_load64 [simp]: "store64 m a (load64 m a) = m"
  by (rule ext) (auto simp: store64_def load64_def byte_of_word_of_bytes)

lemma store64_twice [simp]: "store64 (store64 m a v) a w = store64 m a w"
  by (rule ext) (simp add: store64_def)

lemma memcpy_other: "x < a \<or> a + length bs \<le> x \<Longrightarrow> memcpy m a bs x = m x"
  by (auto simp: memcpy_def)

lemma load64_memcpy_other [simp]:
  "a + length bs \<le> b \<or> b + 8 \<le> a \<Longrightarrow> load64 (memcpy m a bs) b = load64 m b"
  by (rule load64_cong) (auto simp: memcpy_def)

lemma length_read_bytes [simp]: "length (read_bytes m a n) = n"
  by (simp add: read_bytes_def)

lemma read_bytes_nth [simp]: "i < n \<Longrightarrow> read_bytes m a n ! i = m (a + i)"
  by (simp add: read_bytes_def)

lemma read_bytes_cong:
  "(\<And>i. i < n \<Longrightarrow> m (a + i) = m' (b + i)) \<Longrightarrow> read_bytes m a n = read_bytes m' b n"
  by (simp add: read_bytes_def)

lemma read_bytes_memcpy [simp]: "read_bytes (memcpy m a bs) a (length bs) = bs"
  by (rule nth_equalityI) (simp_all add: memcpy_def)

lemma memcpy_read_bytes [simp]: "memcpy m a (read_bytes m a n) = m"
  by (rule ext) (auto simp: memcpy_def)

lemma read_bytes_append: "read_bytes m a (n + k) = read_bytes m a n @ read_bytes m (a + n) k"
  by (rule nth_equalityI) (auto simp: nth_append add.assoc)

subsection \<open>Masks\<close>

text \<open>Table sizes are powers of two, so \<open>x & (size - 1)\<close> is the remainder modulo the size.\<close>

lemma unat_pow2:
  assumes "k < 64"
  shows "unat (2 ^ k :: u64) = 2 ^ k"
proof -
  have "unat (word_of_nat (2 ^ k) :: u64) = 2 ^ k mod 2 ^ 64" unfolding unat_of_nat by simp
  also have "\<dots> = 2 ^ k" using assms by (intro mod_less power_strict_increasing) auto
  finally show ?thesis by simp
qed

lemma unat_and_mask:
  assumes "k < 64"
  shows "unat ((w::u64) AND (2 ^ k - 1)) = unat w mod 2 ^ k"
proof -
  have "w AND (2 ^ k - 1) = w mod 2 ^ k"
    by (simp flip: take_bit_eq_mask mask_eq_exp_minus_1 add: take_bit_eq_mod)
  then show ?thesis using assms by (simp add: unat_mod_distrib unat_pow2)
qed

lemma unat_plus_1_mod:
  "d \<le> 64 \<Longrightarrow> unat ((x::u64) + 1) mod 2 ^ d = (unat x + 1) mod 2 ^ d"
  "d \<le> 32 \<Longrightarrow> unat ((y::u32) + 1) mod 2 ^ d = (unat y + 1) mod 2 ^ d"
proof -
  assume "d \<le> 64"
  then have "(2::nat) ^ d dvd 2 ^ 64" by (rule le_imp_power_dvd)
  then show "unat (x + 1) mod 2 ^ d = (unat x + 1) mod 2 ^ d"
    by (simp add: unat_word_ariths mod_mod_cancel)
next
  assume "d \<le> 32"
  then have "(2::nat) ^ d dvd 2 ^ 32" by (rule le_imp_power_dvd)
  then show "unat (y + 1) mod 2 ^ d = (unat y + 1) mod 2 ^ d"
    by (simp add: unat_word_ariths mod_mod_cancel)
qed

lemma unat_and_mask_Suc:
  "d < 64 \<Longrightarrow> unat (((x::u64) + 1) AND (2 ^ d - 1)) = (unat x + 1) mod 2 ^ d"
  by (simp add: unat_and_mask unat_plus_1_mod)

text \<open>The same for a 32-bit slot number, widened for the mask and narrowed again.\<close>

lemma unat_ucast_32_mod: "d \<le> 32 \<Longrightarrow> unat (ucast (x::u64) :: u32) mod 2 ^ d = unat x mod 2 ^ d"
proof -
  assume "d \<le> 32"
  then have "(2::nat) ^ d dvd 2 ^ 32" by (rule le_imp_power_dvd)
  then show ?thesis
    by (simp add: unsigned_ucast_eq take_bit_eq_mod mod_mod_cancel)
qed

lemma unat_ucast_64: "unat (ucast (x::u32) :: u64) = unat x"
  using unsigned_less [of x, where 'a = nat] by (simp add: unsigned_ucast_eq take_bit_eq_mod)

lemma unat_mask_32:
  assumes "d \<le> 32"
  shows "unat (ucast ((ucast (x::u32) :: u64) AND (2 ^ d - 1)) :: u32) = unat x mod 2 ^ d"
proof -
  let ?y = "(ucast x :: u64) AND (2 ^ d - 1)"
  have y: "unat ?y = unat x mod 2 ^ d" using assms by (simp add: unat_and_mask unat_ucast_64)
  have "unat ?y \<le> unat x" by (simp add: y)
  also have "\<dots> < 2 ^ 32" using unsigned_less [of x, where 'a = nat] by simp
  finally show ?thesis using y by (simp add: unsigned_ucast_eq take_bit_eq_mod)
qed

lemma unat_plus_1_less: "(w::u64) < v \<Longrightarrow> unat (w + 1) = Suc (unat w)"
  using unsigned_less [of v, where 'a = nat] by (simp add: word_less_nat_alt unat_word_ariths)

lemma unat_plus_less: "unat (a::u64) + unat b < 2 ^ 64 \<Longrightarrow> unat (a + b) = unat a + unat b"
  by (simp add: unat_word_ariths)

lemma ucast_32_less: "(ucast (x::u32) :: u64) < 0x4000000000000000"
  using unsigned_less [of x, where 'a = nat] by (simp add: word_less_nat_alt unat_ucast_64)

lemma ucast_ucast_32: "ucast (ucast (x::u32) :: u64) = x"
  by (rule bit_word_eqI) (auto simp: bit_simps)

subsection \<open>Counting slots\<close>

lemma card_less_free: "card {i. i < n \<and> P i} < n \<Longrightarrow> \<exists>i<n. \<not> P i"
proof (rule ccontr)
  assume "card {i. i < n \<and> P i} < n" and "\<not> (\<exists>i<n. \<not> P i)"
  then have "{i. i < n \<and> P i} = {..<n}" by auto
  then show False using \<open>card {i. i < n \<and> P i} < n\<close> by simp
qed

lemma finite_slots [simp]: "finite {i. i < (n::nat) \<and> P i}"
  by (rule finite_subset [of _ "{..<n}"]) auto

lemma card_full:
  assumes "card {i. i < n \<and> P i} = n" and "i < n"
  shows "P i"
proof (rule ccontr)
  assume "\<not> P i"
  then have "{j. j < n \<and> P j} \<subset> {..<n}" using assms(2) by auto
  then have "card {j. j < n \<and> P j} < card {..<n}" by (rule psubset_card_mono [rotated]) simp
  then show False using assms(1) by simp
qed

lemma card_fill:
  assumes "p < (n::nat)" and "\<not> P p" and "Q p" and "\<And>i. i < n \<Longrightarrow> i \<noteq> p \<Longrightarrow> Q i = P i"
  shows "card {i. i < n \<and> Q i} = Suc (card {i. i < n \<and> P i})"
proof -
  have "{i. i < n \<and> Q i} = insert p {i. i < n \<and> P i}" using assms by auto
  then show ?thesis using assms(2) by simp
qed

lemma fold_count:
  "fold (\<lambda>i c. if P i then c + 1 else c) [0..<n] (0::u64) = word_of_nat (card {i. i < n \<and> P i})"
proof (induction n)
  case (Suc n)
  have "{i. i < Suc n \<and> P i} = (if P n then insert n {i. i < n \<and> P i} else {i. i < n \<and> P i})"
    by (auto simp: less_Suc_eq)
  then show ?case using Suc by (simp add: card_insert_if)
qed simp

end
