(* ===== verification/Hh_Dictionary.thy ===== *)
theory Hh_Dictionary
  imports Hh_Prelude
begin

text \<open>
  \<open>dictionary_compression_data.c\<close>: the ZSTD dictionary that \<open>hh_shared_init\<close> loads for compressing and
  decompressing heap entries. The C array is transcribed line by line: one list of bytes per source
  line, 150 lines per definition, and \<open>dictionary_compression_data\<close> is their concatenation. The code
  passes the array to ZSTD together with the separately declared \<open>dictionary_compression_data_length\<close>
  (\<open>init_zstd_compression\<close> in \<open>Hh_State\<close>); the two agree, so that ZSTD reads the array and nothing behind it.
\<close>

subsection \<open>The array\<close>

definition dictionary_rows_0 :: "u8 list list" where
  "dictionary_rows_0 =
  [[0x37, 0xa4, 0x30, 0xec, 0xfe, 0x1e, 0xcd, 0x70, 0x4a, 0x10, 0x68, 0x98],
   [0xd4, 0x01, 0x00, 0x5f, 0x3c, 0xc0, 0x17, 0x0f, 0xf0, 0xd5, 0x10, 0x0f],
   [0x40, 0x79, 0x19, 0xa5, 0x57, 0x3c, 0x04, 0xfe, 0x41, 0xe7, 0x52, 0x52],
   [0x9e, 0x15, 0x46, 0xe1, 0xd1, 0x87, 0x2a, 0xb2, 0x96, 0x91, 0x55, 0xf1],
   [0x6d, 0x1b, 0x6b, 0xdf, 0x43, 0x49, 0x0f, 0x11, 0xe2, 0xf0, 0x50, 0xd2],
   [0x4a, 0xd4, 0xd1, 0x7f, 0x48, 0xfc, 0x07, 0x62, 0x1d, 0x2a, 0xde, 0x7f],
   [0x48, 0xf4, 0xbf, 0xa4, 0x47, 0x51, 0x49, 0x92, 0x7b, 0xcb, 0x14, 0xd3],
   [0x04, 0x00, 0x0c, 0x16, 0x07, 0x05, 0xa3, 0xc1, 0x70, 0x28, 0x8e, 0x34],
   [0x59, 0x7d, 0x04, 0x40, 0x45, 0x92, 0x9a, 0x94, 0x9b, 0x13, 0xd0, 0x25],
   [0xf2, 0x68, 0x30, 0x90, 0xc3, 0x38, 0x0e, 0xc4, 0x28, 0x08, 0x83, 0x10],
   [0x32, 0x86, 0x10, 0x43, 0x8c, 0x31, 0x06, 0x19, 0x1a, 0x9a, 0x19, 0x00],
   [0x00, 0x00, 0x24, 0xeb, 0x4e, 0x06, 0x23, 0xb1, 0x48, 0x94, 0x93, 0x98],
   [0x52, 0x0a, 0x19, 0x85, 0x66, 0x46, 0x04, 0x00, 0x00, 0x00, 0x00, 0x01],
   [0x00, 0x00, 0x00, 0x04, 0x00, 0x00, 0x00, 0x08, 0x00, 0x00, 0x00, 0x6d],
   [0x61, 0x67, 0x65, 0x5f, 0x69, 0x6e, 0x74, 0x65, 0x72, 0x66, 0x61, 0x63],
   [0x65, 0x40, 0x90, 0xa0, 0xa0, 0xa0, 0x00, 0x50, 0x44, 0xa0, 0x00, 0x51],
   [0x61, 0xc0, 0x08, 0x00, 0x00, 0x20, 0x00, 0xa0, 0x04, 0x0f, 0xa0, 0x04],
   [0x0e, 0xa0, 0x04, 0x0d, 0xa0, 0x04, 0x0c, 0xa0, 0x32, 0x49, 0x6d, 0x61],
   [0x67, 0x65, 0x49, 0x6e, 0x74, 0x65, 0x72, 0x66, 0x61, 0x63, 0x65, 0x42],
   [0x61, 0x73, 0x65, 0xa0, 0x32, 0x61, 0x73, 0x79, 0x6e, 0x63, 0x5f, 0x76],
   [0x65, 0x72, 0x73, 0x69, 0x6f, 0x6e, 0x5f, 0x69, 0x6e, 0x66, 0x6f, 0x40],
   [0xa0, 0xa0, 0xa0, 0xa0, 0x00, 0x50, 0x61, 0xa0, 0x00, 0x50, 0x65, 0xb0],
   [0x2f, 0x24, 0x70, 0x61, 0x72, 0x61, 0x6d, 0x65, 0x74, 0x65, 0x72, 0x24],
   [0x73, 0x65, 0x6c, 0x66, 0x40, 0x40, 0x40, 0xa0, 0xa0, 0xa0, 0xa0, 0x00],
   [0x4e, 0x45, 0xa0, 0x00, 0x4e, 0x5a, 0x9c, 0x90, 0xb0, 0xa0, 0x04, 0x07],
   [0x9c, 0x90, 0xb0, 0xa0, 0x04, 0x0b, 0x9c, 0x91, 0x24, 0x75, 0x74, 0x69],
   [0x6c, 0x23, 0x65, 0x74, 0x63, 0x40, 0x35, 0x61, 0x73, 0x79, 0x6e, 0x63],
   [0x5f, 0x63, 0x61, 0x63, 0x68, 0x65, 0x64, 0x5f, 0x70, 0x72, 0x6f, 0x70],
   [0x65, 0x72, 0x74, 0x79, 0x40, 0xa0, 0xa0, 0xa0, 0xa0, 0x00, 0x4f, 0x45],
   [0xa0, 0x00, 0x4f, 0x53, 0x9c, 0x90, 0xb0, 0xa0, 0x04, 0x07, 0x9c, 0x91]] @
  [[0x23, 0x61, 0x62, 0x63, 0x2e, 0x61, 0x62, 0x73, 0x74, 0x72, 0x61, 0x63],
   [0x74, 0x6d, 0x65, 0x74, 0x68, 0x6f, 0x64, 0x40, 0x40, 0x90, 0xa0, 0xa0],
   [0xa0, 0x00, 0x50, 0x6a, 0xa0, 0x00, 0x50, 0x00, 0x4d, 0x9c, 0x90, 0xb0],
   [0xa0, 0xa0, 0xa0, 0x00, 0x50, 0x6a, 0xa0, 0x00, 0x50, 0x7c, 0x9c, 0x90],
   [0xb0, 0xa0, 0x04, 0x07, 0x9c, 0x91, 0x25, 0x6d, 0x65, 0x64, 0x69, 0x61],
   [0x2c, 0x73, 0x74, 0x6f, 0x72, 0x61, 0x67, 0x65, 0x5f, 0x6b, 0x65, 0x79],
   [0x73, 0x40, 0x30, 0x4d, 0x65, 0x64, 0x69, 0x61, 0x56, 0x65, 0x72, 0x73],
   [0x69, 0x6f, 0x6e, 0x49, 0x6e, 0x66, 0x6f, 0x40, 0x41, 0x40, 0x90, 0xa0],
   [0x04, 0x53, 0xa0, 0x04, 0x52, 0xa0, 0x04, 0x51, 0xa0, 0x04, 0x50, 0xa0],
   [0x04, 0x44, 0x40, 0x40, 0x40, 0x40, 0xa0, 0xa0, 0xa0, 0xa0, 0x00, 0x51],
   [0x48, 0xa0, 0x00, 0x51, 0x61, 0x9c, 0xa0, 0x90, 0xa0, 0xa0, 0xa0, 0x00],
   [0x51, 0x4e, 0xa0, 0x00, 0x51, 0x61, 0x9c, 0x91, 0x33, 0x4e, 0x6f, 0x74],
   [0x49, 0x6d, 0x70, 0x6c, 0x65, 0x6d, 0x65, 0x6e, 0x74, 0x65, 0x64, 0x45],
   [0x72, 0x72, 0x6f, 0x72, 0x40, 0xa0, 0xa0, 0x04, 0x0f, 0x9d, 0xa0, 0x41],
   [0x40, 0x40, 0x40, 0x84, 0x95, 0xa6, 0xbe, 0x00, 0x00, 0x00, 0x8f, 0x00],
   [0x00, 0x00, 0x2d, 0x00, 0x00, 0x00, 0x8d, 0x00, 0x00, 0x00, 0x8b, 0xc0],
   [0x90, 0xd0, 0x40, 0x40, 0xa0, 0xd0, 0x40, 0x90, 0x40, 0xf0, 0x90, 0xd0],
   [0x40, 0x90, 0x2f, 0x4e, 0x6f, 0x64, 0x65, 0x46, 0x69, 0x65, 0x6c, 0x64],
   [0x4f, 0x72, 0x45, 0x64, 0x67, 0x65, 0x08, 0x00, 0x00, 0x20, 0x00, 0x90],
   [0xa0, 0xa0, 0x40, 0x40, 0xa0, 0x40, 0x40, 0x90, 0x40, 0x90, 0xa0, 0x03],
   [0x3f, 0xff, 0xff, 0xff, 0xff, 0xff, 0xff, 0xff, 0x40, 0x90, 0x40, 0x90],
   [0x40, 0x90, 0xa0, 0x40, 0x40, 0x90, 0xa0, 0x40, 0x40, 0x90, 0x40, 0x40],
   [0x41, 0x90, 0x90, 0x40, 0x90, 0xa0, 0xa0, 0x40, 0x40, 0x04, 0x01, 0x90],
   [0x04, 0x0a, 0x90, 0x04, 0x09, 0x90, 0xb0, 0xa0, 0xa0, 0x03, 0xc0, 0x00],
   [0x00, 0x00, 0x00, 0x00, 0x00, 0x00, 0x03, 0x3f, 0xff, 0xff, 0xff, 0xff],
   [0xff, 0xff, 0xff, 0x40, 0xa0, 0x04, 0x02, 0x40, 0x40, 0x90, 0x40, 0x40],
   [0x41, 0x40, 0x40, 0x41, 0xa0, 0x40, 0x40, 0xb0, 0xb0, 0x90, 0x40, 0x90],
   [0x40, 0xa0, 0x04, 0x03, 0x04, 0x02, 0x04, 0x04, 0x40, 0x40, 0x84, 0x95],
   [0xa6, 0xbe, 0x00, 0x00, 0x00, 0x01, 0x00, 0x00, 0x00, 0x00, 0x00, 0x00],
   [0x00, 0x00, 0x00, 0x00, 0x00, 0x00, 0x40, 0x84, 0x95, 0xa6, 0xbe, 0x00]] @
  [[0x00, 0x02, 0x9a, 0x00, 0x00, 0x00, 0x93, 0x00, 0x00, 0x01, 0xe7, 0x00],
   [0x00, 0x01, 0xbd, 0xb0, 0xa0, 0x2a, 0x69, 0x67, 0x5f, 0x6e, 0x6f, 0x64],
   [0x65, 0x61, 0x70, 0x69, 0xa0, 0x25, 0x65, 0x64, 0x67, 0x65, 0x73, 0xa0],
   [0x09, 0x37, 0x66, 0x72, 0x6f, 0x6d, 0x5f, 0x6d, 0x65, 0x64, 0x69, 0x61],
   [0x5f, 0x74, 0x6f, 0x5f, 0x6d, 0x65, 0x64, 0x69, 0x61, 0x5f, 0x63, 0x6f],
   [0x6e, 0x74, 0x72, 0x6f, 0x6c, 0x5f, 0x65, 0x76, 0x65, 0x6e, 0x74, 0x5f],
   [0x6f, 0x6e, 0x5f, 0x64, 0x69, 0x72, 0x65, 0x63, 0x74, 0x5f, 0x61, 0x75],
   [0x64, 0x69, 0x6f, 0x5f, 0x6d, 0x65, 0x64, 0x69, 0x61, 0x40, 0x90, 0xa0],
   [0xa0, 0xa0, 0x00, 0x47, 0x44, 0xa0, 0x00, 0x48, 0x01, 0x00, 0xb1, 0xc0],
   [0x08, 0x00, 0x00, 0x20, 0x00, 0xa0, 0x04, 0x0d, 0xa0, 0x04, 0x0c, 0xa0],
   [0x04, 0x0b, 0xa0, 0x09, 0x3a, 0x45, 0x64, 0x67, 0x65, 0x53, 0x65, 0x6c],
   [0x65, 0x63, 0x74, 0x6f, 0x72, 0x46, 0x72, 0x6f, 0x6d, 0x4d, 0x65, 0x64],
   [0x69, 0x61, 0x54, 0x6f, 0x4d, 0x65, 0x64, 0x69, 0x61, 0x43, 0x6f, 0x6e],
   [0x74, 0x72, 0x6f, 0x6c, 0x45, 0x76, 0x65, 0x6e, 0x74, 0x4f, 0x6e, 0x44],
   [0x69, 0x72, 0x65, 0x63, 0x74, 0x41, 0x75, 0x64, 0x69, 0x6f, 0x4d, 0x65],
   [0x64, 0x69, 0x61, 0xa0, 0x2c, 0x6c, 0x61, 0x6d, 0x62, 0x64, 0x61, 0x5f],
   [0x71, 0x75, 0x65, 0x72, 0x79, 0x40, 0xa0, 0xa0, 0xa0, 0xa0, 0x00, 0x47],
   [0x55, 0xa0, 0x00, 0x47, 0x59, 0xb0, 0x2f, 0x24, 0x70, 0x61, 0x72, 0x61],
   [0x6d, 0x65, 0x74, 0x65, 0x72, 0x24, 0x73, 0x65, 0x6c, 0x66, 0x40, 0x40],
   [0x40, 0x40, 0x90, 0xa0, 0xa0, 0xa0, 0x00, 0x47, 0x5e, 0xa0, 0x00, 0x47],
   [0x00, 0x55, 0x9c, 0x90, 0xb0, 0xa0, 0x04, 0x07, 0x9c, 0x90, 0xb0, 0xa0],
   [0x04, 0x0b, 0x9c, 0x90, 0xb0, 0xa0, 0x04, 0x0f, 0x9c, 0x91, 0x04, 0x2d],
   [0x04, 0x2b, 0x40, 0x04, 0x29, 0x40, 0x09, 0x37, 0x45, 0x64, 0x67, 0x65],
   [0x46, 0x72, 0x6f, 0x6d, 0x4d, 0x65, 0x64, 0x69, 0x61, 0x54, 0x6f, 0x4d],
   [0x65, 0x64, 0x69, 0x61, 0x43, 0x6f, 0x6e, 0x74, 0x72, 0x6f, 0x6c, 0x45],
   [0x76, 0x65, 0x6e, 0x74, 0x4f, 0x6e, 0x44, 0x69, 0x72, 0x65, 0x63, 0x74],
   [0x41, 0x75, 0x64, 0x69, 0x6f, 0x4d, 0x65, 0x64, 0x69, 0x61, 0x51, 0x75],
   [0x65, 0x72, 0x79, 0x40, 0x40, 0x40, 0x90, 0xa0, 0x04, 0x30, 0xa0, 0x04],
   [0x2f, 0xa0, 0x04, 0x2e, 0xa0, 0x04, 0x23, 0x40, 0x40, 0x40, 0x40, 0xa0],
   [0xa0, 0xa0, 0xa0, 0x00, 0x48, 0x48, 0xa0, 0x00, 0x48, 0x01, 0x00, 0xb1]] @
  [[0x9d, 0xa0, 0x40, 0x90, 0xa0, 0xa0, 0xa0, 0x00, 0x48, 0x4f, 0xa0, 0x00],
   [0x48, 0x01, 0x00, 0xb1, 0x92, 0xa0, 0xa0, 0xa0, 0xa0, 0x00, 0x48, 0x4f],
   [0xa0, 0x00, 0x48, 0x00, 0x46, 0x9c, 0x90, 0xb0, 0xa0, 0x04, 0x07, 0x9c],
   [0x90, 0xb0, 0xa0, 0x04, 0x0b, 0x9c, 0x90, 0xb0, 0xa0, 0x04, 0x0f, 0x9c],
   [0x91, 0x04, 0x53, 0x04, 0x51, 0x40, 0x04, 0x4f, 0x40, 0x04, 0x26, 0x40],
   [0xa0, 0xa0, 0x40, 0xa0, 0xa0, 0xa0, 0x00, 0x48, 0x00, 0x47, 0xa0, 0x00],
   [0x48, 0x01, 0x00, 0xb0, 0x92, 0xa0, 0xa0, 0xa0, 0xa0, 0x00, 0x48, 0x00],
   [0x47, 0xa0, 0x00, 0x48, 0x00, 0x74, 0x9c, 0x90, 0xb0, 0xa0, 0xa0, 0xa0],
   [0x00, 0x48, 0x00, 0x47, 0xa0, 0x00, 0x48, 0x00, 0x59, 0x9c, 0x90, 0xb0],
   [0xa0, 0x04, 0x07, 0x74, 0x61, 0x67, 0x72, 0x61, 0x6d, 0x2e, 0x63, 0x6f],
   [0x6d, 0x2f, 0x6f, 0x72, 0x64, 0x65, 0x72, 0x5f, 0x74, 0x72, 0x61, 0x63],
   [0x6b, 0x69, 0x6e, 0x67, 0x2f, 0x3f, 0x6f, 0x72, 0x64, 0x65, 0x72, 0x5f],
   [0x69, 0x64, 0x3d, 0xa0, 0x91, 0xa0, 0xa0, 0xa0, 0x01, 0x00, 0xcb, 0x00],
   [0x63, 0xa0, 0x01, 0x00, 0xcb, 0x00, 0x6b, 0x9c, 0x91, 0x28, 0x4f, 0x52],
   [0x44, 0x45, 0x52, 0x5f, 0x49, 0x44, 0xa0, 0x90, 0xa0, 0xa0, 0xa0, 0x01],
   [0x00, 0xcb, 0x6d, 0xa0, 0x01, 0x00, 0xcb, 0x01, 0x00, 0x84, 0x25, 0x26],
   [0x72, 0x65, 0x66, 0x3d, 0xa0, 0x91, 0xa0, 0xa0, 0xa0, 0x01, 0x00, 0xcb],
   [0x00, 0x72, 0xa0, 0x01, 0x00, 0xcb, 0x01, 0x00, 0x82, 0x9c, 0x91, 0x30],
   [0x52, 0x45, 0x46, 0x45, 0x52, 0x52, 0x45, 0x52, 0x5f, 0x53, 0x55, 0x52],
   [0x46, 0x41, 0x43, 0x45, 0x40, 0xa0, 0xa0, 0xa0, 0xa0, 0xa0, 0x01, 0x00],
   [0xcc, 0x50, 0xa0, 0x01, 0x00, 0xcc, 0x6d, 0x94, 0x94, 0xa0, 0x3b, 0x65],
   [0x78, 0x70, 0x65, 0x63, 0x74, 0x65, 0x64, 0x5f, 0x61, 0x64, 0x64, 0x69],
   [0x74, 0x69, 0x6f, 0x6e, 0x61, 0x6c, 0x5f, 0x6c, 0x6f, 0x67, 0x67, 0x69],
   [0x6e, 0x67, 0x40, 0xa0, 0xa0, 0xa0, 0x01, 0x00, 0xcc, 0x6f, 0xa0, 0x01],
   [0x00, 0xcc, 0x71, 0x95, 0xa0, 0x40, 0x40, 0x40, 0x40, 0xa0, 0xa0, 0xa0],
   [0xa0, 0xa0, 0x01, 0x00, 0xce, 0x4c, 0xa0, 0x01, 0x00, 0xce, 0x00, 0x7f],
   [0x94, 0x94, 0xa0, 0x09, 0x71, 0x61, 0x6e, 0x64, 0x72, 0x6f, 0x69, 0x64],
   [0x5f, 0x68, 0x75, 0x62, 0x5f, 0x6f, 0x72, 0x64, 0x65, 0x72, 0x5f, 0x64],
   [0x65, 0x74, 0x61, 0x69, 0x6c, 0x73, 0x5f, 0x77, 0x69, 0x74, 0x68, 0x5f],
   [0x61, 0x64, 0x64, 0x69, 0x74, 0x69, 0x6f, 0x6e, 0x61, 0x6c, 0x5f, 0x6c]] @
  [[0x6f, 0x67, 0x67, 0x69, 0x6e, 0x67, 0x5f, 0x64, 0x61, 0x74, 0x61, 0x5f],
   [0x77, 0x69, 0x74, 0x68, 0x5f, 0x64, 0x65, 0x65, 0x70, 0x6c, 0x69, 0x6e],
   [0x6b, 0x5f, 0x64, 0x65, 0x73, 0x74, 0x69, 0x6e, 0x61, 0x74, 0x69, 0x6f],
   [0x6e, 0x5f, 0x77, 0x69, 0x74, 0x68, 0x5f, 0x64, 0x65, 0x65, 0x70, 0x6c],
   [0x69, 0x6e, 0x6b, 0x5f, 0x64, 0x65, 0x73, 0x74, 0x69, 0x6e, 0x61, 0x74],
   [0x69, 0x6f, 0x6e, 0x5f, 0x70, 0x61, 0x72, 0x61, 0x6d, 0x73, 0x40, 0xa0],
   [0xa0, 0xa0, 0x01, 0x00, 0xce, 0x01, 0x00, 0x81, 0xa0, 0x01, 0x00, 0xdd],
   [0x4d, 0x95, 0xa0, 0xa0, 0xa0, 0xa0, 0xa0, 0xa0, 0x01, 0x00, 0xcf, 0x50],
   [0xa0, 0x01, 0x00, 0xcf, 0x5e, 0x94, 0x94, 0xa0, 0x2c, 0x61, 0x70, 0x70],
   [0x5f, 0x70, 0x6c, 0x61, 0x74, 0x66, 0x6f, 0x72, 0x6d, 0x40, 0xa0, 0xa0],
   [0xa0, 0x01, 0x00, 0xcf, 0x60, 0xa0, 0x01, 0x00, 0xcf, 0x76, 0x9c, 0x90],
   [0xb0, 0xa0, 0xa0, 0xa0, 0x01, 0x00, 0xcf, 0x60, 0xa0, 0x01, 0x00, 0xcf],
   [0x6e, 0x9c, 0x91, 0x2e, 0x41, 0x70, 0x70, 0x4f, 0x53, 0x43, 0x6f, 0x6e],
   [0x73, 0x74, 0x61, 0x6e, 0x74, 0x73, 0x27, 0x41, 0x4e, 0x44, 0x52, 0x4f],
   [0x49, 0x44, 0x40, 0xa0, 0xa0, 0xa0, 0xa0, 0xa0, 0x01, 0x00, 0xd0, 0x50],
   [0xa0, 0x01, 0x00, 0xd0, 0x5c, 0x94, 0x94, 0xa0, 0x2a, 0x67, 0x65, 0x74],
   [0x5f, 0x70, 0x61, 0x72, 0x61, 0x6d, 0x73, 0x40, 0xa0, 0xa0, 0xa0, 0x01],
   [0x00, 0xd0, 0x5e, 0xa0, 0x01, 0x00, 0xd7, 0x51, 0x95, 0xa0, 0xa0, 0xa0],
   [0xa0, 0xa0, 0xa0, 0x01, 0x00, 0xd1, 0x54, 0xa0, 0x01, 0x00, 0xd1, 0x66],
   [0x94, 0x94, 0xa0, 0x30, 0x72, 0x65, 0x66, 0x65, 0x72, 0x72, 0x65, 0x72],
   [0x5f, 0x73, 0x75, 0x72, 0x66, 0x61, 0x63, 0x65, 0x40, 0xa0, 0xa0, 0xa0],
   [0x01, 0x00, 0xd1, 0x68, 0xa0, 0x01, 0x00, 0xd1, 0x78, 0x9c, 0x91, 0x30],
   [0x52, 0x45, 0x46, 0x45, 0x52, 0x52, 0x45, 0x52, 0x5f, 0x53, 0x55, 0x52],
   [0x46, 0x41, 0x43, 0x45, 0xa0, 0xa0, 0xa0, 0xa0, 0xa0, 0x01, 0x00, 0xd2],
   [0x54, 0xa0, 0x01, 0x00, 0xd2, 0x5e, 0x94, 0x94, 0xa0, 0x28, 0x6f, 0x72],
   [0x64, 0x65, 0x72, 0x5f, 0x69, 0x64, 0x40, 0xa0, 0xa0, 0xa0, 0x01, 0x00],
   [0xd2, 0x60, 0xa0, 0x01, 0x00, 0xd2, 0x68, 0x9c, 0x91, 0x28, 0x4f, 0x52],
   [0x44, 0x45, 0x52, 0x5f, 0x49, 0x44, 0xa0, 0xa0, 0xa0, 0xa0, 0xa0, 0x01],
   [0x00, 0xd3, 0x54, 0xa0, 0x01, 0x00, 0xd3, 0x64, 0x94, 0x94, 0xa0, 0x2e],
   [0x6f, 0x72, 0x64, 0x65, 0x72, 0x5f, 0x69, 0x74, 0x65, 0x6d, 0x5f, 0x69]]"

definition dictionary_rows_1 :: "u8 list list" where
  "dictionary_rows_1 =
  [[0x64, 0x73, 0x40, 0xa0, 0xa0, 0xa0, 0x01, 0x00, 0xd3, 0x66, 0xa0, 0x01],
   [0x00, 0xd3, 0x74, 0x9c, 0x91, 0x2e, 0x4f, 0x52, 0x44, 0x45, 0x52, 0x5f],
   [0x49, 0x54, 0x45, 0x4d, 0x5f, 0x49, 0x44, 0x53, 0xa0, 0xa0, 0xa0, 0xa0],
   [0xa0, 0x01, 0x00, 0xd4, 0x54, 0xa0, 0x01, 0x00, 0xd4, 0x6d, 0x94, 0x94],
   [0xa0, 0x37, 0x61, 0x64, 0x64, 0x69, 0x74, 0x69, 0x6f, 0x6e, 0x61, 0x6c],
   [0x5f, 0x6c, 0x6f, 0x67, 0x67, 0x69, 0x6e, 0x67, 0x5f, 0x64, 0x61, 0x74],
   [0x61, 0x40, 0xa0, 0xa0, 0xa0, 0x01, 0x00, 0xd4, 0x6f, 0xa0, 0x01, 0x00],
   [0xd4, 0x00, 0x46, 0x9c, 0x91, 0x37, 0x41, 0x44, 0x44, 0x49, 0x54, 0x49],
   [0x4f, 0x4e, 0x41, 0x4c, 0x5f, 0x4c, 0x4f, 0x47, 0x47, 0x49, 0x4e, 0x47],
   [0x5f, 0x44, 0x41, 0x54, 0x41, 0xa0, 0xa0, 0xa0, 0xa0, 0xa0, 0x01, 0x00],
   [0xd5, 0x54, 0xa0, 0x01, 0x00, 0xd5, 0x6a, 0x94, 0x94, 0xa0, 0x34, 0x64],
   [0x65, 0x65, 0x70, 0x6c, 0x69, 0x6e, 0x6b, 0x5f, 0x64, 0x65, 0x73, 0x74],
   [0x69, 0x6e, 0x61, 0x74, 0x69, 0x6f, 0x6e, 0x40, 0xa0, 0xa0, 0xa0, 0x01],
   [0x00, 0xd5, 0x6c, 0xa0, 0x01, 0x00, 0xd5, 0x00, 0x4e, 0x9c, 0x91, 0x09],
   [0x22, 0x44, 0x45, 0x45, 0x50, 0x4c, 0x49, 0x4e, 0x4b, 0x5f, 0x44, 0x45],
   [0x53, 0x54, 0x49, 0x4e, 0x41, 0x54, 0x49, 0x4f, 0x4e, 0x5f, 0x54, 0x52],
   [0x41, 0x43, 0x4b, 0x49, 0x4e, 0x47, 0x5f, 0x50, 0x41, 0x47, 0x45, 0xa0],
   [0xa0, 0xa0, 0xa0, 0xa0, 0x01, 0x00, 0xd6, 0x54, 0xa0, 0x01, 0x00, 0xd6],
   [0x71, 0x94, 0x94, 0xa0, 0x3b, 0x64, 0x65, 0x65, 0x70, 0x6c, 0x69, 0x6e],
   [0x6b, 0x5f, 0x64, 0x65, 0x73, 0x74, 0x69, 0x6e, 0x61, 0x74, 0x69, 0x6f],
   [0x6e, 0x5f, 0x70, 0x61, 0x72, 0x61, 0x6d, 0x73, 0x40, 0xa0, 0xa0, 0xa0],
   [0x01, 0x00, 0xd6, 0x73, 0xa0, 0x01, 0x00, 0xd6, 0x00, 0x4e, 0x9c, 0x91],
   [0x3b, 0x44, 0x45, 0x45, 0x50, 0x4c, 0x49, 0x4e, 0x4b, 0x5f, 0x44, 0x45],
   [0x53, 0x54, 0x49, 0x4e, 0x41, 0x54, 0x49, 0x4f, 0x4e, 0x5f, 0x50, 0x41],
   [0x52, 0x41, 0x4d, 0x53, 0x40, 0x40, 0xa0, 0xa0, 0xa0, 0xa0, 0xa0, 0x01],
   [0x00, 0xd8, 0x50, 0xa0, 0x01, 0x00, 0xd8, 0x5e, 0x94, 0x94, 0xa0, 0x2c],
   [0x6c, 0x61, 0x6e, 0x64, 0x69, 0x6e, 0x67, 0x5f, 0x73, 0x69, 0x74, 0x65],
   [0x40, 0xa0, 0xa0, 0xa0, 0x01, 0x00, 0xd8, 0x60, 0xa0, 0x01, 0x00, 0xd8],
   [0x00, 0x42, 0x9c, 0x91, 0x09, 0x22, 0x48, 0x75, 0x62, 0x4f, 0x72, 0x64],
   [0x65, 0x72, 0x44, 0x65, 0x74, 0x61, 0x69, 0x6c, 0x73, 0x44, 0x65, 0x65]] @
  [[0x70, 0x6c, 0x69, 0x6e, 0x6b, 0x4c, 0x61, 0x6e, 0x64, 0x69, 0x6e, 0x67],
   [0x53, 0x69, 0x74, 0x65, 0xa0, 0xa0, 0xa0, 0xa0, 0xa0, 0x01, 0x00, 0xd9],
   [0x50, 0xa0, 0x01, 0x00, 0xd9, 0x6e, 0x94, 0x94, 0xa0, 0x3c, 0x65, 0x78],
   [0x70, 0x65, 0x63, 0x74, 0x65, 0x64, 0x5f, 0x6d, 0x6f, 0x62, 0x69, 0x6c],
   [0x65, 0x5f, 0x72, 0x65, 0x64, 0x69, 0x72, 0x1d, 0xa5, 0xa0, 0x05, 0x1d],
   [0xa4, 0xa0, 0x05, 0x1d, 0xa3, 0xa0, 0x05, 0x1d, 0xa2, 0xa0, 0x05, 0x1d],
   [0xa1, 0xa0, 0x05, 0x1d, 0x92, 0xa0, 0x27, 0x5f, 0x74, 0x6f, 0x5f, 0x70],
   [0x79, 0x33, 0x40, 0xa0, 0xa0, 0xa0, 0xa0, 0x01, 0x01, 0xf3, 0x50, 0xa0],
   [0x01, 0x01, 0xf3, 0x54, 0xb0, 0x2f, 0x24, 0x70, 0x61, 0x72, 0x61, 0x6d],
   [0x65, 0x74, 0x65, 0x72, 0x24, 0x73, 0x65, 0x6c, 0x66, 0x40, 0x40, 0x40],
   [0x40, 0x90, 0xa0, 0xa0, 0xa0, 0x01, 0x01, 0xf3, 0x59, 0xa0, 0x01, 0x01],
   [0xf3, 0x00, 0x45, 0x9c, 0x90, 0xb0, 0xa0, 0x04, 0x07, 0x9c, 0x90, 0xb0],
   [0xa0, 0x04, 0x0b, 0x9c, 0x90, 0xb0, 0xa0, 0x04, 0x0f, 0x9c, 0x90, 0xb0],
   [0xa0, 0x04, 0x13, 0x9c, 0x90, 0xb0, 0xa0, 0x04, 0x17, 0x9c, 0x90, 0xb0],
   [0xa0, 0x04, 0x1b, 0x9c, 0x90, 0xb0, 0xa0, 0x04, 0x1f, 0x9c, 0x91, 0x05],
   [0x1d, 0xda, 0x05, 0x1d, 0xd8, 0x40, 0x05, 0x1d, 0xd6, 0x40, 0x05, 0x1d],
   [0xd4, 0x40, 0x05, 0x1d, 0xd2, 0x40, 0x05, 0x1d, 0xd0, 0x40, 0x05, 0x1d],
   [0xce, 0x40, 0x05, 0x1d, 0xbe, 0x40, 0x40, 0x40, 0x90, 0x05, 0x0d, 0x3a],
   [0x40, 0x40, 0x40, 0x40, 0xa0, 0xa0, 0xa0, 0xa0, 0x01, 0x01, 0xf4, 0x44],
   [0xa0, 0x01, 0x01, 0xf4, 0x00, 0x66, 0x93, 0xc0, 0x08, 0x00, 0x00, 0x20],
   [0x00, 0xa0, 0x05, 0x1d, 0xe4, 0xa0, 0x05, 0x1d, 0xe3, 0xa0, 0x05, 0x1d],
   [0xe2, 0xa0, 0x05, 0x1d, 0xe1, 0xa0, 0x05, 0x1d, 0xe0, 0xa0, 0x05, 0x1d],
   [0xdf, 0xa0, 0x05, 0x1d, 0xde, 0xa0, 0x05, 0x1d, 0xcf, 0xa0, 0x31, 0x5f],
   [0x74, 0x6f, 0x5f, 0x70, 0x79, 0x5f, 0x64, 0x65, 0x70, 0x72, 0x65, 0x63],
   [0x61, 0x74, 0x65, 0x64, 0x40, 0xa0, 0xa0, 0xa0, 0xa0, 0x01, 0x01, 0xf4],
   [0x5a, 0xa0, 0x01, 0x01, 0xf4, 0x5e, 0xb0, 0x2f, 0x24, 0x70, 0x61, 0x72],
   [0x61, 0x6d, 0x65, 0x74, 0x65, 0x72, 0x24, 0x73, 0x65, 0x6c, 0x66, 0x40],
   [0x40, 0x40, 0x40, 0x90, 0xa0, 0xa0, 0xa0, 0x01, 0x01, 0xf4, 0x63, 0xa0],
   [0x01, 0x01, 0xf4, 0x00, 0x61, 0x9c, 0x90, 0xb0, 0xa0, 0x04, 0x07, 0x9c],
   [0x90, 0xb0, 0xa0, 0x04, 0x0b, 0x9c, 0x91, 0x28, 0x4c, 0x6f, 0x67, 0x45]] @
  [[0x6e, 0x74, 0x72, 0x79, 0x26, 0x74, 0x74, 0x79, 0x70, 0x65, 0x73, 0x40],
   [0x09, 0x2c, 0x49, 0x6e, 0x73, 0x74, 0x61, 0x67, 0x72, 0x61, 0x6d, 0x41],
   [0x64, 0x73, 0x52, 0x65, 0x6e, 0x64, 0x65, 0x72, 0x4d, 0x69, 0x67, 0x72],
   [0x61, 0x74, 0x69, 0x6f, 0x6e, 0x4c, 0x6f, 0x67, 0x67, 0x65, 0x72, 0x53],
   [0x63, 0x75, 0x62, 0x61, 0x53, 0x74, 0x72, 0x75, 0x63, 0x74, 0x40, 0x40],
   [0x40, 0x90, 0x05, 0x0d, 0x66, 0x40, 0x40, 0x40, 0x40, 0x40, 0x40, 0x84],
   [0x95, 0xa6, 0xbe, 0x00, 0x00, 0x00, 0x1a, 0x00, 0x00, 0x00, 0x05, 0x00],
   [0x00, 0x00, 0x12, 0x00, 0x00, 0x00, 0x10, 0x90, 0xb0, 0xa0, 0xa0, 0x31],
   [0x6e, 0x6f, 0x64, 0x65, 0x61, 0x70, 0x69, 0x2e, 0x45, 0x64, 0x67, 0x65],
   [0x2e, 0x45, 0x64, 0x67, 0x65, 0x40, 0x40, 0x40, 0x40, 0x84, 0x95, 0xa6],
   [0xbe, 0x00, 0x00, 0x00, 0x2d, 0x00, 0x00, 0x00, 0x02, 0x00, 0x00, 0x00],
   [0x0e, 0x00, 0x00, 0x00, 0x09, 0x94, 0x09, 0x2a, 0x66, 0x61, 0x63, 0x65],
   [0x62, 0x6f, 0x6f, 0x6b, 0x2e, 0x73, 0x65, 0x61, 0x72, 0x63, 0x68, 0x2e],
   [0x66, 0x65, 0x61, 0x74, 0x75, 0x72, 0x65, 0x73, 0x2e, 0x74, 0x79, 0x70],
   [0x65, 0x73, 0x2e, 0x46, 0x65, 0x61, 0x74, 0x75, 0x72, 0x65, 0x4e, 0x61],
   [0x6d, 0x65, 0x84, 0x95, 0xa6, 0xbe, 0x00, 0x00, 0x00, 0x05, 0x00, 0x00],
   [0x00, 0x02, 0x00, 0x00, 0x00, 0x06, 0x00, 0x00, 0x00, 0x06, 0xa0, 0x40],
   [0xa0, 0x41, 0x40, 0x84, 0x95, 0xa6, 0xbe, 0x00, 0x00, 0x00, 0x01, 0x00],
   [0x00, 0x00, 0x00, 0x00, 0x00, 0x00, 0x00, 0x00, 0x00, 0x00, 0x00, 0x40],
   [0x84, 0x95, 0xa6, 0xbe, 0x00, 0x00, 0x00, 0xc5, 0x00, 0x00, 0x00, 0x38],
   [0x00, 0x00, 0x00, 0xae, 0x00, 0x00, 0x00, 0xa6, 0xb0, 0xa0, 0x27, 0x6e],
   [0x6f, 0x64, 0x65, 0x61, 0x70, 0x69, 0xa0, 0x27, 0x61, 0x73, 0x79, 0x6e],
   [0x63, 0x69, 0x6f, 0xa0, 0x2a, 0x6e, 0x6f, 0x64, 0x65, 0x73, 0x63, 0x68],
   [0x65, 0x6d, 0x61, 0xa0, 0x25, 0x74, 0x79, 0x70, 0x65, 0x73, 0x40, 0x90],
   [0xa0, 0xa0, 0xa0, 0x01, 0x10, 0xa4, 0x44, 0xa0, 0x01, 0x10, 0xa4, 0x61],
   [0xc0, 0x08, 0x00, 0x00, 0x20, 0x00, 0xa0, 0x04, 0x0f, 0xa0, 0x04, 0x0e],
   [0xa0, 0x04, 0x0d, 0xa0, 0x04, 0x0c, 0xa0, 0x2a, 0x53, 0x51, 0x4c, 0x4e],
   [0x6f, 0x43, 0x61, 0x63, 0x68, 0x65, 0xa0, 0x27, 0x5f, 0x5f, 0x73, 0x74],
   [0x72, 0x5f, 0x5f, 0x40, 0xa0, 0xa0, 0xa0, 0xa0, 0x01, 0x10, 0xa4, 0x50],
   [0xa0, 0x01, 0x10, 0xa4, 0x54, 0xb0, 0x2f, 0x24, 0x70, 0x61, 0x72, 0x61]] @
  [[0x6d, 0x65, 0x74, 0x65, 0x72, 0x24, 0x73, 0x65, 0x6c, 0x66, 0x40, 0x40],
   [0x40, 0x40, 0x90, 0xa0, 0xa0, 0xa0, 0x01, 0x10, 0xa4, 0x59, 0xa0, 0x01],
   [0x10, 0xa4, 0x5c, 0x9c, 0x91, 0x23, 0x73, 0x74, 0x72, 0x40, 0x40, 0x90],
   [0xa0, 0x04, 0x27, 0xa0, 0x04, 0x26, 0xa0, 0x04, 0x25, 0xa0, 0x04, 0x24],
   [0xa0, 0x04, 0x18, 0x40, 0x40, 0x40, 0x40, 0xa0, 0xa0, 0xa0, 0xa0, 0x01],
   [0x10, 0xa4, 0x5e, 0xa0, 0x01, 0x10, 0xa4, 0x61, 0x95, 0xa0, 0xa0, 0xa0],
   [0x01, 0x10, 0xa4, 0x5e, 0xa0, 0x01, 0x10, 0xa4, 0x61, 0x94, 0x41, 0x40],
   [0x40, 0x84, 0x95, 0xa6, 0xbe, 0x00, 0x00, 0x00, 0x01, 0x00, 0x00, 0x00],
   [0x00, 0x00, 0x00, 0x00, 0x00, 0x00, 0x00, 0x00, 0x00, 0x40, 0x84, 0x95],
   [0xa6, 0xbe, 0x00, 0x00, 0x00, 0x05, 0x00, 0x00, 0x00, 0x03, 0x00, 0x00],
   [0x00, 0x07, 0x00, 0x00, 0x00, 0x07, 0x90, 0xa0, 0x40, 0x90, 0x40, 0x84],
   [0x95, 0xa6, 0xbe, 0x00, 0x00, 0x00, 0x06, 0x00, 0x00, 0x00, 0x02, 0x00],
   [0x00, 0x00, 0x05, 0x00, 0x00, 0x00, 0x04, 0x94, 0x24, 0x62, 0x6f, 0x6f],
   [0x6c, 0x84, 0x95, 0xa6, 0xbe, 0x00, 0x00, 0x03, 0x39, 0x00, 0x00, 0x00],
   [0x40, 0x00, 0x00, 0x01, 0x4a, 0x00, 0x00, 0x00, 0xf1, 0x99, 0xa0, 0xa2],
   [0x09, 0x23, 0x6c, 0x69, 0x62, 0x63, 0x73, 0x74, 0x2e, 0x6d, 0x61, 0x74],
   [0x63, 0x68, 0x65, 0x72, 0x73, 0x2e, 0x5f, 0x6d, 0x61, 0x74, 0x63, 0x68],
   [0x65, 0x72, 0x5f, 0x62, 0x61, 0x73, 0x65, 0x2e, 0x41, 0x6c, 0x6c, 0x4f],
   [0x66, 0xa0, 0x90, 0x99, 0xa0, 0xa2, 0x09, 0x29, 0x6c, 0x69, 0x62, 0x63],
   [0x73, 0x74, 0x2e, 0x6d, 0x61, 0x74, 0x63, 0x68, 0x65, 0x72, 0x73, 0x2e],
   [0x5f, 0x6d, 0x61, 0x74, 0x63, 0x68, 0x65, 0x72, 0x5f, 0x62, 0x61, 0x73],
   [0x65, 0x2e, 0x4d, 0x61, 0x74, 0x63, 0x68, 0x49, 0x66, 0x54, 0x72, 0x75],
   [0x65, 0xa0, 0x90, 0x94, 0x09, 0x29, 0x6c, 0x69, 0x62, 0x63, 0x73, 0x74],
   [0x2e, 0x5f, 0x6e, 0x6f, 0x64, 0x65, 0x73, 0x2e, 0x77, 0x68, 0x69, 0x74],
   [0x65, 0x73, 0x70, 0x61, 0x63, 0x65, 0x2e, 0x53, 0x69, 0x6d, 0x70, 0x6c],
   [0x65, 0x57, 0x68, 0x69, 0x74, 0x65, 0x73, 0x70, 0x61, 0x63, 0x65, 0x40],
   [0xa0, 0x94, 0x09, 0x20, 0x6c, 0x69, 0x62, 0x63, 0x73, 0x74, 0x2e, 0x6d],
   [0x61, 0x74, 0x63, 0x68, 0x65, 0x72, 0x73, 0x2e, 0x53, 0x69, 0x6d, 0x70],
   [0x6c, 0x65, 0x57, 0x68, 0x69, 0x74, 0x65, 0x73, 0x70, 0x61, 0x63, 0x65],
   [0xa0, 0x94, 0x09, 0x2b, 0x6c, 0x69, 0x62, 0x63, 0x73, 0x74, 0x2e, 0x01]] @
  [[0xfc, 0xdc, 0x16, 0x73, 0x8a, 0xc1, 0x5a, 0x60, 0xc1, 0x5a, 0x00, 0x40],
   [0x90, 0x03, 0x08, 0x22, 0xa4, 0x0d, 0xab, 0x23, 0x9e, 0x1a, 0xc1, 0x00],
   [0x5a, 0x01, 0x00, 0x80, 0xc1, 0x01, 0x09, 0x5a, 0x01, 0x10, 0x00, 0x90],
   [0x03, 0xfa, 0xf0, 0x56, 0xa7, 0x1f, 0x12, 0xa9, 0x5a, 0x90, 0x03, 0x08],
   [0x11, 0xdf, 0x41, 0x7f, 0xc9, 0x99, 0x5a, 0x90, 0x03, 0x01, 0x8b, 0x79],
   [0xdb, 0x2b, 0xc4, 0x58, 0xda, 0xc1, 0x7a, 0x00, 0x40, 0x90, 0x03, 0x1d],
   [0x66, 0x4b, 0xe2, 0x60, 0x5e, 0xad, 0x3a, 0x90, 0x03, 0xfc, 0xed, 0xb0],
   [0x37, 0xe9, 0xd7, 0xe3, 0x7a, 0xc1, 0x46, 0x48, 0xc1, 0x46, 0x50, 0xc1],
   [0x46, 0x60, 0xc1, 0x46, 0x00, 0x40, 0xc1, 0x46, 0x01, 0x00, 0x80, 0xc1],
   [0x01, 0x01, 0x06, 0x01, 0x02, 0x00, 0x90, 0x03, 0xd5, 0x1f, 0xcd, 0x68],
   [0x6e, 0x9d, 0x75, 0x06, 0x90, 0x03, 0xea, 0xe0, 0xfa, 0x33, 0x46, 0x80],
   [0xbb, 0x06, 0x90, 0x03, 0x00, 0x7b, 0x69, 0x48, 0xfa, 0xdd, 0x3b, 0x86],
   [0xc1, 0x00, 0x46, 0x01, 0x00, 0x80, 0x90, 0x03, 0x12, 0x48, 0xa3, 0x79],
   [0xd6, 0x97, 0xee, 0x46, 0x90, 0x03, 0x07, 0x3c, 0x41, 0xa8, 0x40, 0xbf],
   [0xc9, 0xc6, 0xc1, 0x66, 0x00, 0x40, 0x90, 0x03, 0xef, 0x7c, 0x8e, 0xd2],
   [0xf2, 0x1a, 0x46, 0x26, 0x90, 0x03, 0x35, 0x97, 0x66, 0x5b, 0x69, 0x3f],
   [0x14, 0xe6, 0xc1, 0x56, 0x60, 0x90, 0x03, 0xc9, 0xdf, 0x23, 0x55, 0xd7],
   [0xab, 0xb7, 0xd6, 0xc1, 0x01, 0x01, 0x36, 0x01, 0x04, 0x00, 0x90, 0x03],
   [0x01, 0x2f, 0xf0, 0xd0, 0x4a, 0x59, 0xb1, 0x36, 0x90, 0x03, 0x25, 0x75],
   [0x80, 0x43, 0x20, 0x47, 0x25, 0x36, 0xc1, 0x4e, 0x50, 0xc1, 0x4e, 0x60],
   [0x90, 0x03, 0x10, 0x20, 0x87, 0x06, 0xb3, 0x88, 0xdd, 0x4e, 0xc1, 0x00],
   [0x6e, 0x01, 0x00, 0x80, 0x90, 0x03, 0xe9, 0x63, 0x73, 0xf7, 0xf3, 0x3c],
   [0x55, 0x6e, 0xc1, 0x01, 0x00, 0xee, 0x01, 0x01, 0x00, 0x90, 0x03, 0x2e],
   [0xed, 0x6b, 0xa9, 0xd0, 0xab, 0x50, 0xee, 0x90, 0x03, 0x2a, 0x29, 0x4d],
   [0xec, 0xb3, 0xec, 0x9f, 0xee, 0xc1, 0x5e, 0x60, 0xc1, 0x01, 0x00, 0xde],
   [0x01, 0x01, 0x00, 0x90, 0x03, 0xf8, 0x03, 0xdc, 0xf1, 0xd4, 0x86, 0x4c],
   [0xde, 0x90, 0x03, 0xf9, 0xf1, 0x23, 0x97, 0x01, 0x70, 0x4d, 0xde, 0xc1],
   [0x00, 0x7e, 0x01, 0x00, 0x80, 0x90, 0x03, 0x22, 0x60, 0xbe, 0x0e, 0x58],
   [0x91, 0x33, 0x7e, 0x90, 0x03, 0x0f, 0x83, 0x81, 0x80, 0x96, 0x83, 0xca],
   [0xfe, 0xc1, 0x41, 0x42, 0xc1, 0x41, 0x44, 0xc1, 0x41, 0x48, 0xc1, 0x41]]"

definition dictionary_rows_2 :: "u8 list list" where
  "dictionary_rows_2 =
  [[0x50, 0xc1, 0x00, 0x41, 0x01, 0x00, 0x80, 0x90, 0x03, 0xcf, 0x01, 0x69],
   [0x99, 0xec, 0xb9, 0x69, 0x41, 0x90, 0x03, 0x3f, 0xdb, 0x60, 0x97, 0xa8],
   [0xfc, 0x0f, 0xc1, 0xc1, 0x51, 0x60, 0xc1, 0x51, 0x00, 0x40, 0xc1, 0x51],
   [0x01, 0x00, 0x80, 0x90, 0x03, 0xc0, 0xe6, 0xa2, 0x93, 0xba, 0x10, 0x55],
   [0x11, 0x90, 0x03, 0x0a, 0xcd, 0x0d, 0x82, 0x25, 0x23, 0x55, 0x91, 0x90],
   [0x03, 0x24, 0x9f, 0x22, 0x78, 0x5f, 0x80, 0x4b, 0x51, 0xc1, 0x71, 0x00],
   [0x40, 0x90, 0x03, 0x03, 0x46, 0x3d, 0x4f, 0x17, 0xb0, 0xf1, 0x31, 0xc1],
   [0x00, 0x71, 0x01, 0x00, 0x80, 0x90, 0x03, 0xf2, 0x51, 0xe8, 0x13, 0x4f],
   [0xc2, 0x63, 0x71, 0x90, 0x03, 0xd5, 0xd7, 0xa0, 0x61, 0xce, 0x3b, 0x40],
   [0xf1, 0xc1, 0x49, 0x50, 0xc1, 0x49, 0x60, 0x90, 0x03, 0x3c, 0x13, 0x36],
   [0x9a, 0x35, 0xd0, 0x73, 0xc9, 0x90, 0x03, 0x17, 0xd3, 0x60, 0x1a, 0x09],
   [0x70, 0x76, 0x29, 0xc1, 0x59, 0x60, 0xc1, 0x59, 0x01, 0x01, 0x00, 0x90],
   [0x03, 0xf0, 0xad, 0x3b, 0x08, 0x93, 0x2d, 0x94, 0x19, 0xc1, 0x01, 0x01],
   [0x19, 0x01, 0x02, 0x00, 0x90, 0x03, 0x0e, 0x59, 0x5c, 0x04, 0x3a, 0xda],
   [0xe9, 0x19, 0x90, 0x03, 0x31, 0x3e, 0x37, 0x5a, 0xf6, 0x48, 0xb3, 0x19],
   [0x90, 0x03, 0x29, 0xe4, 0x40, 0x5f, 0xde, 0x5a, 0x7b, 0x39, 0xc1, 0x45],
   [0x48, 0xc1, 0x45, 0x50, 0xc1, 0x45, 0x60, 0xc1, 0x45, 0x00, 0x40, 0x90],
   [0x03, 0x2a, 0x0f, 0x46, 0xb2, 0x68, 0xfc, 0xce, 0x85, 0xc1, 0x00, 0x45],
   [0x01, 0x00, 0x80, 0x90, 0x03, 0xf9, 0x1a, 0x8d, 0xd3, 0x1a, 0xda, 0x0a],
   [0x45, 0x90, 0x03, 0x1f, 0x2c, 0xd7, 0xdc, 0x07, 0x5a, 0xe5, 0xc5, 0xc1],
   [0x65, 0x00, 0x40, 0x90, 0x03, 0xff, 0x53, 0xcc, 0xa3, 0xbf, 0x5e, 0xca],
   [0x25, 0xc1, 0x00, 0x65, 0x01, 0x00, 0x80, 0x90, 0x03, 0xc9, 0x97, 0xe0],
   [0xf9, 0x8e, 0x4f, 0x2d, 0x65, 0xc1, 0x01, 0x00, 0xe5, 0x01, 0x01, 0x00],
   [0x90, 0x03, 0x01, 0xba, 0xd3, 0x82, 0xca, 0x9a, 0x28, 0xe5, 0x90, 0x03],
   [0xea, 0x2f, 0xa6, 0xc2, 0x63, 0x6c, 0xc5, 0xe5, 0xc1, 0x55, 0x60, 0xc1],
   [0x55, 0x00, 0x40, 0x90, 0x03, 0xc2, 0xe7, 0x3d, 0xa2, 0x83, 0x7a, 0x7e],
   [0x15, 0x90, 0x03, 0x30, 0x40, 0x75, 0xa0, 0xd5, 0x07, 0x08, 0xd5, 0xc1],
   [0x75, 0x01, 0x01, 0x00, 0x90, 0x03, 0x1f, 0xc7, 0x7c, 0xe0, 0xe3, 0x62],
   [0xae, 0x35, 0x90, 0x03, 0xee, 0xca, 0xc7, 0xba, 0x5c, 0xdb, 0xff, 0x35],
   [0xc1, 0x4d, 0x50, 0xc1, 0x4d, 0x60, 0xc1, 0x4d, 0x00, 0x40, 0x90, 0x03]] @
  [[0x1e, 0xa1, 0x2f, 0x75, 0x57, 0x3e, 0x50, 0x0d, 0x90, 0x03, 0xed, 0xbc],
   [0x3d, 0x43, 0x50, 0xcb, 0x16, 0x4d, 0xc1, 0x6d, 0x00, 0x40, 0x90, 0x03],
   [0x22, 0xf9, 0x84, 0x68, 0xb3, 0x4d, 0x4e, 0xad, 0x90, 0x03, 0xe7, 0x27],
   [0x1d, 0x16, 0xb2, 0x4f, 0xf4, 0xed, 0xc1, 0x5d, 0x60, 0xc1, 0x5d, 0x00],
   [0x40, 0x90, 0x03, 0xde, 0x59, 0x7b, 0xbc, 0x23, 0x23, 0x39, 0x9d, 0x90],
   [0x03, 0x11, 0xad, 0xc3, 0x68, 0xdf, 0xaa, 0x4e, 0x5d, 0x90, 0x03, 0x1f],
   [0x7b, 0xb8, 0x59, 0xe6, 0xa6, 0xed, 0xbd, 0xc1, 0x43, 0x44, 0xc1, 0x43],
   [0x48, 0xc1, 0x43, 0x50, 0xc1, 0x43, 0x60, 0xc1, 0x43, 0x00, 0x40, 0xc1],
   [0x43, 0x01, 0x00, 0x80, 0x90, 0x03, 0xc5, 0x5d, 0x67, 0x0c, 0xce, 0xbf],
   [0xc4, 0x03, 0x90, 0x03, 0x0e, 0x14, 0x62, 0x18, 0x85, 0x22, 0xb4, 0x83],
   [0x90, 0x03, 0x23, 0xde, 0xe5, 0x28, 0x2b, 0xcd, 0x16, 0x43, 0xc1, 0x63],
   [0x00, 0x40, 0xc1, 0x01, 0x01, 0xa3, 0x01, 0x04, 0x00, 0x90, 0x03, 0x3b],
   [0x85, 0xd9, 0x69, 0xea, 0x1d, 0x31, 0xa3, 0x90, 0x03, 0x2b, 0xdb, 0x55],
   [0x57, 0xd1, 0x70, 0x4d, 0xa3, 0xc1, 0x00, 0x63, 0x01, 0x00, 0x80, 0xc1],
   [0x00, 0x63, 0x01, 0x01, 0x00, 0x90, 0x03, 0x03, 0x64, 0x1c, 0xfb, 0xfd],
   [0x4b, 0x20, 0x63, 0x90, 0x03, 0xc1, 0x63, 0x1c, 0xf2, 0xf6, 0xfb, 0x6d],
   [0x63, 0x90, 0x03, 0x32, 0xa9, 0x93, 0x42, 0xc6, 0x96, 0xc6, 0xe3, 0xc1],
   [0x53, 0x60, 0xc1, 0x00, 0x53, 0x01, 0x00, 0x80, 0x90, 0x03, 0xda, 0x44],
   [0xb8, 0xbc, 0xb4, 0x6c, 0x0d, 0x53, 0x90, 0x03, 0x0c, 0xb9, 0xca, 0x37],
   [0x3e, 0x43, 0x2a, 0xd3, 0xc1, 0x73, 0x00, 0x40, 0x90, 0x03, 0x0d, 0x3a],
   [0x16, 0x38, 0x9b, 0xa8, 0xb7, 0xb3, 0x90, 0x03, 0xf4, 0x8c, 0x69, 0x77],
   [0x02, 0x1b, 0x14, 0x73, 0xc1, 0x4b, 0x50, 0xc1, 0x4b, 0x60, 0x90, 0x03],
   [0x36, 0x40, 0xcb, 0xb7, 0x9c, 0x05, 0x72, 0x4b, 0x90, 0x03, 0xc0, 0x57],
   [0x0e, 0xb6, 0x20, 0x27, 0x71, 0x6b, 0xc1, 0x5b, 0x60, 0xc1, 0x5b, 0x00],
   [0x40, 0x90, 0x03, 0xc3, 0xfe, 0x40, 0xab, 0x75, 0x00, 0x63, 0x1b, 0xc1],
   [0x00, 0x5b, 0x01, 0x24, 0x70, 0x61, 0x72, 0x61, 0x6d, 0x65, 0x74, 0x65],
   [0x72, 0x24, 0x73, 0x65, 0x6c, 0x66, 0x40, 0x40, 0xa0, 0xa0, 0xa0, 0xa0],
   [0x61, 0x48, 0xa0, 0x61, 0x00, 0x61, 0xb0, 0x32, 0x24, 0x70, 0x61, 0x72],
   [0x61, 0x6d, 0x65, 0x74, 0x65, 0x72, 0x24, 0x72, 0x65, 0x71, 0x75, 0x65],
   [0x73, 0x74, 0x40, 0x90, 0xa0, 0xa0, 0xa0, 0x61, 0x51, 0xa0, 0x61, 0x00]] @
  [[0x61, 0x9c, 0x90, 0xb0, 0xa0, 0xa0, 0xa0, 0x61, 0x51, 0xa0, 0x61, 0x00],
   [0x49, 0x9c, 0x90, 0xb0, 0xa0, 0x04, 0x07, 0x9c, 0x90, 0xb0, 0xa0, 0x04],
   [0x0b, 0x9c, 0x91, 0x04, 0x9d, 0x04, 0x9c, 0x40, 0x04, 0x9b, 0x40, 0x37],
   [0x56, 0x65, 0x72, 0x69, 0x66, 0x79, 0x52, 0x61, 0x76, 0x65, 0x6e, 0x4d],
   [0x65, 0x64, 0x69, 0x61, 0x52, 0x65, 0x71, 0x75, 0x65, 0x73, 0x74, 0x40],
   [0xa0, 0xa0, 0xa0, 0xa0, 0x62, 0x48, 0xa0, 0x62, 0x00, 0x43, 0xb0, 0x36],
   [0x24, 0x70, 0x61, 0x72, 0x61, 0x6d, 0x65, 0x74, 0x65, 0x72, 0x24, 0x72],
   [0x70, 0x63, 0x5f, 0x6f, 0x70, 0x74, 0x69, 0x6f, 0x6e, 0x73, 0x90, 0xa0],
   [0xa0, 0xa0, 0x62, 0x00, 0x44, 0xa0, 0x62, 0x00, 0x48, 0x94, 0x40, 0x90],
   [0xa0, 0xa0, 0xa0, 0x62, 0x55, 0xa0, 0x62, 0x00, 0x43, 0x92, 0xa0, 0xa0],
   [0xa0, 0xa0, 0x62, 0x55, 0xa0, 0x62, 0x65, 0x9c, 0x90, 0xb0, 0xa0, 0x04],
   [0x07, 0x9c, 0x90, 0xb0, 0xa0, 0xa0, 0xa0, 0x62, 0x55, 0xa0, 0x62, 0x5c],
   [0x9c, 0x91, 0x04, 0x9a, 0x28, 0x4f, 0x70, 0x74, 0x69, 0x6f, 0x6e, 0x61],
   [0x6c, 0x40, 0x04, 0x99, 0x41, 0xa0, 0xa0, 0x40, 0xa0, 0xa0, 0xa0, 0x62],
   [0x66, 0xa0, 0x62, 0x00, 0x42, 0x9c, 0x90, 0xb0, 0xa0, 0xa0, 0xa0, 0x62],
   [0x66, 0xa0, 0x62, 0x77, 0x9c, 0x90, 0xb0, 0xa0, 0xa0, 0xa0, 0x62, 0x66],
   [0xa0, 0x62, 0x70, 0x9c, 0x90, 0xb0, 0xa0, 0xa0, 0xa0, 0x62, 0x66, 0xa0],
   [0x62, 0x6c, 0x9c, 0x91, 0x26, 0x74, 0x68, 0x72, 0x69, 0x66, 0x74, 0x23],
   [0x70, 0x79, 0x33, 0x40, 0x26, 0x63, 0x6f, 0x6d, 0x6d, 0x6f, 0x6e, 0x40],
   [0x2a, 0x52, 0x70, 0x63, 0x4f, 0x70, 0x74, 0x69, 0x6f, 0x6e, 0x73, 0x40],
   [0x40, 0x40, 0x40, 0x90, 0xa0, 0xa0, 0xa0, 0x63, 0x49, 0xa0, 0x63, 0x00],
   [0x5a, 0x9c, 0x90, 0xb0, 0xa0, 0xa0, 0xa0, 0x63, 0x49, 0xa0, 0x63, 0x00],
   [0x41, 0x9c, 0x90, 0xb0, 0xa0, 0x04, 0x07, 0x9c, 0x90, 0xb0, 0xa0, 0x04],
   [0x0b, 0x9c, 0x91, 0x04, 0xfb, 0x04, 0xfa, 0x40, 0x04, 0xf9, 0x40, 0x38],
   [0x56, 0x65, 0x72, 0x69, 0x66, 0x79, 0x52, 0x61, 0x76, 0x65, 0x6e, 0x4d],
   [0x65, 0x64, 0x69, 0x61, 0x52, 0x65, 0x73, 0x70, 0x6f, 0x6e, 0x73, 0x65],
   [0x40, 0x41, 0x40, 0x90, 0x04, 0x98, 0x40, 0x40, 0x40, 0x40, 0x04, 0x94],
   [0x40, 0x42, 0x84, 0x95, 0xa6, 0xbe, 0x00, 0x00, 0x00, 0x01, 0x00, 0x00],
   [0x00, 0x00, 0x00, 0x00, 0x00, 0x00, 0x00, 0x00, 0x00, 0x00, 0x40, 0x84],
   [0x95, 0xa6, 0xbe, 0x00, 0x00, 0x00, 0x01, 0x00, 0x00, 0x00, 0x00, 0x00]] @
  [[0x00, 0x00, 0x00, 0x00, 0x00, 0x00, 0x00, 0x40, 0x84, 0x95, 0xa6, 0xbe],
   [0x00, 0x00, 0x00, 0x6d, 0x00, 0x00, 0x00, 0x06, 0x00, 0x00, 0x00, 0x26],
   [0x00, 0x00, 0x00, 0x19, 0xa2, 0x2f, 0x74, 0x79, 0x70, 0x69, 0x6e, 0x67],
   [0x2e, 0x43, 0x6c, 0x61, 0x73, 0x73, 0x56, 0x61, 0x72, 0xa0, 0x90, 0x94],
   [0x09, 0x56, 0x66, 0x62, 0x63, 0x6f, 0x64, 0x65, 0x2e, 0x63, 0x6f, 0x6e],
   [0x66, 0x69, 0x67, 0x65, 0x72, 0x61, 0x74, 0x6f, 0x72, 0x2e, 0x73, 0x74],
   [0x72, 0x75, 0x63, 0x74, 0x73, 0x2e, 0x61, 0x64, 0x6d, 0x61, 0x72, 0x6b],
   [0x65, 0x74, 0x2e, 0x63, 0x6f, 0x6d, 0x6d, 0x6f, 0x6e, 0x2e, 0x6c, 0x69],
   [0x62, 0x61, 0x64, 0x6d, 0x61, 0x72, 0x6b, 0x65, 0x74, 0x5f, 0x63, 0x6f],
   [0x6d, 0x6d, 0x6f, 0x6e, 0x2e, 0x74, 0x74, 0x79, 0x70, 0x65, 0x73, 0x2e],
   [0x41, 0x64, 0x43, 0x6f, 0x6e, 0x76, 0x65, 0x72, 0x73, 0x69, 0x6f, 0x6e],
   [0x54, 0x79, 0x70, 0x65, 0x40, 0x84, 0x95, 0xa6, 0xbe, 0x00, 0x00, 0x00],
   [0x01, 0x00, 0x00, 0x00, 0x00, 0x00, 0x00, 0x00, 0x00, 0x00, 0x00, 0x00],
   [0x00, 0x40, 0x84, 0x95, 0xa6, 0xbe, 0x00, 0x00, 0x01, 0x65, 0x00, 0x00],
   [0x00, 0x24, 0x00, 0x00, 0x00, 0xb7, 0x00, 0x00, 0x00, 0x94, 0x90, 0xa0],
   [0xc0, 0x41, 0x08, 0x00, 0x00, 0x40, 0x00, 0x40, 0x40, 0x40, 0xb0, 0x09],
   [0x2c, 0x74, 0x65, 0x73, 0x74, 0x5f, 0x61, 0x64, 0x6a, 0x75, 0x73, 0x74],
   [0x5f, 0x63, 0x6f, 0x6d, 0x70, 0x6c, 0x65, 0x74, 0x69, 0x6f, 0x6e, 0x5f],
   [0x74, 0x65, 0x78, 0x74, 0x5f, 0x62, 0x61, 0x73, 0x65, 0x64, 0x5f, 0x6f],
   [0x6e, 0x5f, 0x63, 0x6f, 0x6e, 0x74, 0x65, 0x78, 0x74, 0x08, 0x00, 0x00],
   [0x30, 0x00, 0xa0, 0x40, 0x90, 0x90, 0xb0, 0x90, 0xa0, 0x27, 0x49, 0x50],
   [0x79, 0x74, 0x68, 0x6f, 0x6e, 0xa0, 0x28, 0x74, 0x65, 0x72, 0x6d, 0x69],
   [0x6e, 0x61, 0x6c, 0xa0, 0x25, 0x74, 0x65, 0x73, 0x74, 0x73, 0xa0, 0x34],
   [0x74, 0x65, 0x73, 0x74, 0x5f, 0x69, 0x6e, 0x74, 0x65, 0x72, 0x61, 0x63],
   [0x74, 0x69, 0x76, 0x73, 0x68, 0x65, 0x6c, 0x6c, 0xa0, 0x3a, 0x54, 0x65],
   [0x73, 0x74, 0x43, 0x6f, 0x6e, 0x74, 0x65, 0x78, 0x74, 0x41, 0x77, 0x61],
   [0x72, 0x65, 0x43, 0x6f, 0x6d, 0x70, 0x6c, 0x65, 0x74, 0x69, 0x6f, 0x6e],
   [0xa0, 0x04, 0x12, 0x40, 0xa0, 0x41, 0x90, 0xa0, 0x91, 0xb0, 0x2f, 0x24],
   [0x70, 0x61, 0x72, 0x61, 0x6d, 0x65, 0x74, 0x65, 0x72, 0x24, 0x73, 0x65],
   [0x6c, 0x66, 0x94, 0x09, 0x46, 0x49, 0x50, 0x79, 0x74, 0x68, 0x6f, 0x6e]] @
  [[0x2e, 0x74, 0x65, 0x72, 0x6d, 0x69, 0x6e, 0x61, 0x6c, 0x2e, 0x74, 0x65],
   [0x73, 0x74, 0x73, 0x2e, 0x74, 0x65, 0x73, 0x74, 0x5f, 0x69, 0x6e, 0x74],
   [0x65, 0x72, 0x61, 0x63, 0x74, 0x69, 0x76, 0x73, 0x68, 0x65, 0x6c, 0x6c],
   [0x2e, 0x54, 0x65, 0x73, 0x74, 0x43, 0x6f, 0x6e, 0x74, 0x65, 0x78, 0x74],
   [0x41, 0x77, 0x61, 0x72, 0x65, 0x43, 0x6f, 0x6d, 0x70, 0x6c, 0x65, 0x74],
   [0x69, 0x6f, 0x6e, 0x40, 0x40, 0x40, 0x40, 0x40, 0x40, 0x41, 0x40, 0x04],
   [0x1a, 0x09, 0x46, 0x49, 0x50, 0x79, 0x74, 0x68, 0x6f, 0x6e, 0x2e, 0x74],
   [0x65, 0x72, 0x6d, 0x69, 0x6e, 0x61, 0x6c, 0x2e, 0x74, 0x65, 0x73, 0x74],
   [0x73, 0x2e, 0x74, 0x65, 0x73, 0x74, 0x5f, 0x69, 0x6e, 0x74, 0x65, 0x72],
   [0x61, 0x63, 0x74, 0x69, 0x76, 0x73, 0x68, 0x65, 0x6c, 0x6c, 0x2e, 0x54],
   [0x65, 0x73, 0x74, 0x43, 0x6f, 0x6e, 0x74, 0x65, 0x78, 0x74, 0x41, 0x77],
   [0x61, 0x72, 0x65, 0x43, 0x6f, 0x6d, 0x70, 0x6c, 0x65, 0x74, 0x69, 0x6f],
   [0x6e, 0x40, 0x40, 0x90, 0xb0, 0x04, 0x17, 0x04, 0x0b, 0x40, 0x40, 0x40],
   [0x40, 0x40, 0x40, 0x40, 0x40, 0x40, 0x40, 0x40, 0x40, 0x40, 0x40, 0x40],
   [0x40, 0x50, 0x90, 0xa0, 0x04, 0x1f, 0x40, 0x84, 0x95, 0xa6, 0xbe, 0x00],
   [0x00, 0x00, 0x33, 0x00, 0x00, 0x00, 0x08, 0x00, 0x00, 0x00, 0x1e, 0x00],
   [0x00, 0x00, 0x19, 0x90, 0xb0, 0xa0, 0xa0, 0x37, 0x74, 0x68, 0x72, 0x69],
   [0x66, 0x74, 0x2e, 0x70, 0x79, 0x33, 0x2e, 0x74, 0x79, 0x70, 0x65, 0x73],
   [0x2e, 0x53, 0x74, 0x72, 0x75, 0x63, 0x74, 0x40, 0xa0, 0xa0, 0x2f, 0x74],
   [0x79, 0x70, 0x69, 0x6e, 0x67, 0x2e, 0x48, 0x61, 0x73, 0x68, 0x61, 0x62],
   [0x6c, 0x65, 0x40, 0x40, 0x40, 0x40, 0x84, 0xc1, 0xde, 0xc1, 0x7e, 0x00],
   [0x40, 0xc1, 0x7e, 0x01, 0x00, 0x80, 0xc1, 0x7e, 0x01, 0x01, 0x00, 0x90],
   [0x03, 0xfa, 0xb6, 0xfb, 0x2f, 0x56, 0x61, 0x44, 0x3e, 0xc1, 0x01, 0x01],
   [0x3e, 0x01, 0x02, 0x00, 0xc1, 0x01, 0x01, 0x3e, 0x01, 0x04, 0x00, 0x90],
   [0x03, 0x27, 0x62, 0x24, 0x56, 0x2c, 0x75, 0x41, 0x3e, 0x90, 0x03, 0xfa],
   [0x51, 0x3c, 0x48, 0xbd, 0xf5, 0xdd, 0x3e, 0x90, 0x03, 0x3e, 0xb8, 0x59],
   [0xa3, 0xfb, 0xfa, 0x2b, 0x3e, 0xc1, 0x01, 0x01, 0xbe, 0x01, 0x02, 0x00],
   [0x90, 0x03, 0x38, 0xdb, 0x69, 0xcf, 0xa1, 0x4e, 0x81, 0xbe, 0x90, 0x03],
   [0xfc, 0xa0, 0x47, 0x90, 0x77, 0x46, 0xaf, 0xbe, 0xc1, 0x00, 0x7e, 0x01],
   [0x00, 0x80, 0xc1, 0x00, 0x7e, 0x01, 0x01, 0x00, 0x90, 0x03, 0x37, 0x59]]"

definition dictionary_rows_3 :: "u8 list list" where
  "dictionary_rows_3 =
  [[0x62, 0x73, 0x55, 0x6f, 0xd8, 0x7e, 0x90, 0x03, 0x22, 0x60, 0xbe, 0x0e],
   [0x58, 0x91, 0x33, 0x7e, 0x90, 0x03, 0x0f, 0x83, 0x81, 0x80, 0x96, 0x83],
   [0xca, 0xfe, 0xc1, 0x41, 0x42, 0xc1, 0x41, 0x44, 0xc1, 0x41, 0x48, 0xc1],
   [0x41, 0x50, 0xc1, 0x41, 0x60, 0xc1, 0x41, 0x00, 0x40, 0xc1, 0x41, 0x01],
   [0x00, 0x80, 0xc1, 0x41, 0x01, 0x02, 0x00, 0x90, 0x03, 0x18, 0x4b, 0x9b],
   [0x7b, 0x00, 0xcf, 0xc8, 0x01, 0x90, 0x03, 0x35, 0x5c, 0x14, 0x6f, 0xbf],
   [0xc9, 0x4e, 0x01, 0x90, 0x03, 0x26, 0x76, 0x69, 0xc3, 0x56, 0xb1, 0x20],
   [0x81, 0xc1, 0x00, 0x41, 0x01, 0x00, 0x80, 0x90, 0x03, 0x21, 0x55, 0x4b],
   [0x11, 0x1e, 0xf6, 0x65, 0x41, 0x90, 0x03, 0x3f, 0xdb, 0x60, 0x97, 0xa8],
   [0xfc, 0x0f, 0xc1, 0xc1, 0x61, 0x00, 0x40, 0x90, 0x03, 0x35, 0x91, 0x00],
   [0x9d, 0x07, 0x4a, 0x3c, 0xa1, 0xc1, 0x01, 0x00, 0xe1, 0x01, 0x01, 0x00],
   [0xc1, 0x01, 0x00, 0xe1, 0x01, 0x04, 0x00, 0x90, 0x03, 0xe0, 0x31, 0xb5],
   [0xad, 0xce, 0x51, 0x78, 0xe1, 0x90, 0x03, 0xe9, 0xe8, 0xc9, 0x60, 0xd6],
   [0x80, 0xe4, 0xe1, 0x90, 0x03, 0x30, 0x0d, 0x83, 0xca, 0xe6, 0x09, 0x13],
   [0xe1, 0xc1, 0x51, 0x60, 0xc1, 0x51, 0x00, 0x40, 0xc1, 0x51, 0x01, 0x00],
   [0x80, 0x90, 0x03, 0xc0, 0xe6, 0xa2, 0x93, 0xba, 0x10, 0x55, 0x11, 0xc1],
   [0x01, 0x00, 0x91, 0x01, 0x01, 0x00, 0x90, 0x03, 0x0a, 0xcb, 0x01, 0x08],
   [0x66, 0x3d, 0x38, 0x91, 0x90, 0x03, 0x0a, 0xcd, 0x0d, 0x82, 0x25, 0x23],
   [0x55, 0x91, 0xc1, 0x00, 0x51, 0x01, 0x00, 0x80, 0xc1, 0x00, 0x51, 0x01],
   [0x01, 0x00, 0x90, 0x03, 0xd8, 0x2a, 0x41, 0x6d, 0x11, 0x8e, 0xc4, 0x51],
   [0xc1, 0x01, 0x01, 0x51, 0x01, 0x04, 0x00, 0x90, 0x03, 0xf3, 0x1b, 0x5a],
   [0x70, 0x47, 0x77, 0x01, 0x51, 0xc1, 0x01, 0x05, 0x51, 0x01, 0x10, 0x00],
   [0x90, 0x03, 0xc3, 0xd5, 0x45, 0xd6, 0xa0, 0x2b, 0xc5, 0x51, 0x90, 0x03],
   [0xc6, 0xf4, 0x12, 0x1e, 0xcc, 0xde, 0xb5, 0x51, 0x90, 0x03, 0xc7, 0x77],
   [0xba, 0xdd, 0xe7, 0x28, 0x2a, 0xd1, 0xc1, 0x71, 0x00, 0x40, 0xc1, 0x01],
   [0x01, 0x31, 0x01, 0x04, 0x00, 0x90, 0x03, 0x03, 0x46, 0x3d, 0x4f, 0x17],
   [0xb0, 0xf1, 0x31, 0x90, 0x03, 0x3c, 0x3f, 0xac, 0x79, 0xf2, 0x57, 0xb5],
   [0x31, 0xc1, 0x00, 0x71, 0x01, 0x00, 0x80, 0xc1, 0x01, 0x01, 0x71, 0x01],
   [0x04, 0x00, 0xc1, 0x01, 0x01, 0x71, 0x01, 0x08, 0x00, 0x90, 0x03, 0xd5],
   [0x7b, 0x77, 0xda, 0x10, 0xf9, 0xd1, 0x71, 0x90, 0x03, 0xf2, 0x3d, 0x57]] @
  [[0xee, 0x73, 0xff, 0x39, 0x71, 0x90, 0x03, 0xcb, 0xe9, 0x11, 0x3e, 0x7c],
   [0x77, 0x4d, 0x71, 0x90, 0x03, 0x14, 0x1e, 0x5b, 0x71, 0x4d, 0xcd, 0x41],
   [0xf1, 0xc1, 0x49, 0x50, 0xc1, 0x49, 0x60, 0xc1, 0x49, 0x00, 0x40, 0x90],
   [0x03, 0x27, 0x8a, 0x13, 0x97, 0x69, 0x26, 0x11, 0x09, 0xc1, 0x01, 0x00],
   [0xc9, 0x01, 0x01, 0x00, 0x90, 0x03, 0x25, 0xc6, 0xc4, 0x8f, 0x78, 0xc5],
   [0x6c, 0xc9, 0x90, 0x03, 0x3c, 0x13, 0x36, 0x9a, 0x35, 0xd0, 0x73, 0xc9],
   [0xc1, 0x69, 0x00, 0x40, 0xc1, 0x69, 0x01, 0x00, 0x80, 0x90, 0x03, 0xe4],
   [0x72, 0x9e, 0x99, 0x85, 0x0b, 0xf3, 0x29, 0x90, 0x03, 0x15, 0x22, 0xec],
   [0xd3, 0x4e, 0x98, 0x9c, 0xa9, 0xc1, 0x01, 0x00, 0xe9, 0x01, 0x01, 0x00],
   [0x90, 0x03, 0xce, 0xdb, 0xcc, 0x82, 0xb5, 0x7a, 0xa6, 0xe9, 0xc1, 0x01],
   [0x01, 0xe9, 0x01, 0x04, 0x00, 0x90, 0x03, 0xff, 0x8d, 0x73, 0x4c, 0xbc],
   [0x47, 0xc9, 0xe9, 0x90, 0x03, 0x04, 0x9f, 0x89, 0x8d, 0xe9, 0x98, 0x35],
   [0xe9, 0xc1, 0x59, 0x60, 0xc1, 0x59, 0x01, 0x00, 0x80, 0xc1, 0x59, 0x01],
   [0x01, 0x00, 0x90, 0x03, 0xf0, 0xad, 0x3b, 0x08, 0x93, 0x2d, 0x94, 0x19],
   [0xc1, 0x01, 0x01, 0x19, 0x01, 0x02, 0x00, 0x90, 0x03, 0x0e, 0x59, 0x5c],
   [0x04, 0x3a, 0xda, 0xe9, 0x19, 0x90, 0x03, 0x31, 0x3e, 0x37, 0x5a, 0xf6],
   [0x48, 0xb3, 0x19, 0xc1, 0x01, 0x00, 0x99, 0x01, 0x01, 0x00, 0x90, 0x03],
   [0xf1, 0xa3, 0x49, 0x27, 0xdd, 0x0c, 0x16, 0x99, 0x90, 0x03, 0xc7, 0x5e],
   [0x5b, 0x20, 0x33, 0xdb, 0x59, 0x99, 0xc1, 0x79, 0x00, 0x40, 0xc1, 0x79],
   [0x01, 0x00, 0x80, 0x90, 0x03, 0xf7, 0x5b, 0x0d, 0x30, 0x49, 0x3c, 0xe8],
   [0x39, 0xc1, 0x01, 0x01, 0xb9, 0x01, 0x02, 0x00, 0xc1, 0x01, 0x05, 0xb9],
   [0x01, 0x08, 0x00, 0x90, 0x03, 0xd9, 0x6b, 0xbb, 0x5b, 0xcc, 0xbe, 0x35],
   [0xb9, 0x90, 0x03, 0x1d, 0x8f, 0x16, 0x0f, 0x9f, 0x8b, 0x2d, 0xb9, 0x90],
   [0x03, 0xce, 0x4e, 0x92, 0xd4, 0x31, 0x84, 0xab, 0xb9, 0xc1, 0x00, 0x79],
   [0x01, 0x00, 0x80, 0x90, 0x03, 0xd9, 0xaf, 0x20, 0x88, 0xf5, 0xf6, 0xe0],
   [0x79, 0x90, 0x03, 0xc8, 0x03, 0x2c, 0xae, 0xb2, 0x03, 0x00, 0xf9, 0xc1],
   [0x45, 0x48, 0xc1, 0x45, 0x50, 0xc1, 0x45, 0x60, 0xc1, 0x45, 0x01, 0x00],
   [0x80, 0xc1, 0x45, 0x01, 0x01, 0x00, 0x90, 0x03, 0x36, 0x09, 0xae, 0x9d],
   [0x0c, 0x9a, 0xb4, 0x05, 0x90, 0x03, 0xc2, 0x7e, 0xd3, 0x34, 0x79, 0x9e],
   [0x13, 0x05, 0x90, 0x03, 0x1f, 0xc7, 0xa5, 0x06, 0x3e, 0x4c, 0xba, 0x85]] @
  [[0xc1, 0x65, 0x00, 0x40, 0xc1, 0x65, 0x01, 0x02, 0x00, 0x90, 0x03, 0xf5],
   [0xda, 0x34, 0x42, 0xc5, 0x0d, 0xbc, 0x25, 0x90, 0x03, 0xff, 0x53, 0xcc],
   [0xa3, 0xbf, 0x5e, 0xca, 0x25, 0xc1, 0x00, 0x65, 0x01, 0x00, 0x80, 0xc1],
   [0x01, 0x01, 0x65, 0x01, 0x02, 0x00, 0x90, 0x03, 0xc9, 0x97, 0xe0, 0xf9],
   [0x8e, 0x4f, 0x2d, 0x65, 0x90, 0x03, 0x1f, 0x79, 0x01, 0x8c, 0x84, 0xc0],
   [0x53, 0x65, 0x90, 0x03, 0xea, 0x2f, 0xa6, 0xc2, 0x63, 0x6c, 0xc5, 0xe5],
   [0xc1, 0x55, 0x60, 0xc1, 0x55, 0x00, 0x40, 0x90, 0x03, 0xd8, 0xc4, 0x2e],
   [0x2a, 0x75, 0xf3, 0xad, 0x15, 0x90, 0x03, 0x30, 0x40, 0x75, 0xa0, 0xd5],
   [0x07, 0x08, 0xd5, 0xc1, 0x75, 0x00, 0x40, 0xc1, 0x75, 0x01, 0x00, 0x80],
   [0xc1, 0x75, 0x01, 0x02, 0x00, 0x90, 0x03, 0x3d, 0x95, 0xc6, 0x69, 0x4d],
   [0xf9, 0xb4, 0x35, 0x90, 0x03, 0x07, 0x27, 0xf4, 0x85, 0x4c, 0x0c, 0x4a],
   [0x35, 0x90, 0x03, 0xe1, 0x6e, 0xee, 0x2f, 0x3e, 0xc8, 0x1e, 0xb5, 0xc1],
   [0x00, 0x75, 0x01, 0x00, 0x80, 0x90, 0x03, 0x17, 0x17, 0xf7, 0xac, 0x6f],
   [0x6e, 0x3d, 0x75, 0x90, 0x03, 0xfc, 0xe9, 0xc5, 0x30, 0xf6, 0x9a, 0xb9],
   [0xf5, 0xc1, 0x4d, 0x50, 0xc1, 0x4d, 0x60, 0xc1, 0x4d, 0x00, 0x40, 0xc1],
   [0x4d, 0x01, 0x00, 0x80, 0x90, 0x03, 0x1e, 0xa1, 0x2f, 0x75, 0x57, 0x61],
   [0x74, 0x66, 0x6f, 0x72, 0x6d, 0x5f, 0x6e, 0x61, 0x6d, 0x65, 0x90, 0xa0],
   [0xa0, 0xa0, 0x01, 0x01, 0x2b, 0x00, 0x47, 0xa0, 0x01, 0x01, 0x2b, 0x00],
   [0x4a, 0x94, 0x41, 0x90, 0xa0, 0xa0, 0xa0, 0x01, 0x01, 0x2b, 0x71, 0xa0],
   [0x01, 0x01, 0x2b, 0x00, 0x46, 0x92, 0xa0, 0xa0, 0xa0, 0xa0, 0x01, 0x01],
   [0x2b, 0x71, 0xa0, 0x01, 0x01, 0x2b, 0x00, 0x41, 0x9c, 0x90, 0xb0, 0xa0],
   [0x04, 0x07, 0x9c, 0x90, 0xb0, 0xa0, 0xa0, 0xa0, 0x01, 0x01, 0x2b, 0x71],
   [0xa0, 0x01, 0x01, 0x2b, 0x78, 0x9c, 0x91, 0x05, 0x51, 0xa9, 0x28, 0x4f],
   [0x70, 0x74, 0x69, 0x6f, 0x6e, 0x61, 0x6c, 0x40, 0x05, 0x50, 0xbf, 0x41],
   [0xa0, 0xa0, 0x40, 0xa0, 0xa0, 0xa0, 0x01, 0x01, 0x2b, 0x00, 0x42, 0xa0],
   [0x01, 0x01, 0x2b, 0x00, 0x45, 0x9c, 0x91, 0x23, 0x73, 0x74, 0x72, 0x40],
   [0xa0, 0xa0, 0xa0, 0xa0, 0x01, 0x01, 0x2c, 0x48, 0xa0, 0x01, 0x01, 0x2c],
   [0x00, 0x49, 0xb0, 0x09, 0x35, 0x24, 0x70, 0x61, 0x72, 0x61, 0x6d, 0x65],
   [0x74, 0x65, 0x72, 0x24, 0x73, 0x6f, 0x75, 0x72, 0x63, 0x65, 0x5f, 0x73],
   [0x65, 0x73, 0x73, 0x69, 0x6f, 0x6e, 0x5f, 0x75, 0x73, 0x65, 0x72, 0x5f]] @
  [[0x61, 0x67, 0x65, 0x6e, 0x74, 0x5f, 0x70, 0x6c, 0x61, 0x74, 0x66, 0x6f],
   [0x72, 0x6d, 0x5f, 0x76, 0x65, 0x72, 0x73, 0x69, 0x6f, 0x6e, 0x90, 0xa0],
   [0xa0, 0xa0, 0x01, 0x01, 0x2c, 0x00, 0x4a, 0xa0, 0x01, 0x01, 0x2c, 0x00],
   [0x4d, 0x94, 0x41, 0x90, 0xa0, 0xa0, 0xa0, 0x01, 0x01, 0x2c, 0x74, 0xa0],
   [0x01, 0x01, 0x2c, 0x00, 0x49, 0x92, 0xa0, 0xa0, 0xa0, 0xa0, 0x01, 0x01],
   [0x2c, 0x74, 0xa0, 0x01, 0x01, 0x2c, 0x00, 0x44, 0x9c, 0x90, 0xb0, 0xa0],
   [0x04, 0x07, 0x9c, 0x90, 0xb0, 0xa0, 0xa0, 0xa0, 0x01, 0x01, 0x2c, 0x74],
   [0xa0, 0x01, 0x01, 0x2c, 0x7b, 0x9c, 0x91, 0x05, 0x51, 0xd8, 0x28, 0x4f],
   [0x70, 0x74, 0x69, 0x6f, 0x6e, 0x61, 0x6c, 0x40, 0x05, 0x50, 0xee, 0x41],
   [0xa0, 0xa0, 0x40, 0xa0, 0xa0, 0xa0, 0x01, 0x01, 0x2c, 0x00, 0x45, 0xa0],
   [0x01, 0x01, 0x2c, 0x00, 0x48, 0x9c, 0x91, 0x23, 0x73, 0x74, 0x72, 0x40],
   [0xa0, 0xa0, 0xa0, 0xa0, 0x01, 0x01, 0x2d, 0x48, 0xa0, 0x01, 0x01, 0x2d],
   [0x7a, 0xb0, 0x09, 0x26, 0x24, 0x70, 0x61, 0x72, 0x61, 0x6d, 0x65, 0x74],
   [0x65, 0x72, 0x24, 0x73, 0x6f, 0x75, 0x72, 0x63, 0x65, 0x5f, 0x73, 0x65],
   [0x73, 0x73, 0x69, 0x6f, 0x6e, 0x5f, 0x76, 0x65, 0x74, 0x74, 0x65, 0x64],
   [0x5f, 0x76, 0x61, 0x6c, 0x75, 0x65, 0x90, 0xa0, 0xa0, 0xa0, 0x01, 0x01],
   [0x2d, 0x7b, 0xa0, 0x01, 0x01, 0x2d, 0x7e, 0x94, 0x41, 0x90, 0xa0, 0xa0],
   [0xa0, 0x01, 0x01, 0x2d, 0x65, 0xa0, 0x01, 0x01, 0x2d, 0x7a, 0x92, 0xa0],
   [0xa0, 0xa0, 0xa0, 0x01, 0x01, 0x2d, 0x65, 0xa0, 0x01, 0x01, 0x2d, 0x75],
   [0x9c, 0x90, 0xb0, 0xa0, 0x04, 0x07, 0x9c, 0x90, 0xb0, 0xa0, 0xa0, 0xa0],
   [0x01, 0x01, 0x2d, 0x65, 0xa0, 0x01, 0x01, 0x2d, 0x6c, 0x9c, 0x91, 0x05],
   [0x52, 0x07, 0x28, 0x4f, 0x70, 0x74, 0x69, 0x6f, 0x6e, 0x61, 0x6c, 0x40],
   [0x05, 0x51, 0x1d, 0x41, 0xa0, 0xa0, 0x40, 0xa0, 0xa0, 0xa0, 0x01, 0x01],
   [0x2d, 0x76, 0xa0, 0x01, 0x01, 0x2d, 0x79, 0x9c, 0x91, 0x23, 0x69, 0x6e],
   [0x74, 0x40, 0xa0, 0xa0, 0xa0, 0xa0, 0x01, 0x01, 0x2e, 0x48, 0xa0, 0x01],
   [0x01, 0x2e, 0x6e, 0xb0, 0x39, 0x24, 0x70, 0x61, 0x72, 0x61, 0x6d, 0x65],
   [0x74, 0x65, 0x72, 0x24, 0x73, 0x70, 0x72, 0x69, 0x6e, 0x6b, 0x6c, 0x65],
   [0x5f, 0x76, 0x61, 0x6c, 0x69, 0x64, 0x90, 0xa0, 0xa0, 0xa0, 0x01, 0x01],
   [0x2e, 0x6f, 0xa0, 0x01, 0x01, 0x2e, 0x72, 0x94, 0x41, 0x90, 0xa0, 0xa0],
   [0xa0, 0x01, 0x01, 0x2e, 0x58, 0xa0, 0x01, 0x01, 0x2e, 0x6e, 0x92, 0xa0]] @
  [[0xa0, 0xa0, 0xa0, 0x01, 0x01, 0x2e, 0x58, 0xa0, 0x01, 0x01, 0x2e, 0x68],
   [0x9c, 0x90, 0xb0, 0xa0, 0x04, 0x07, 0x9c, 0x90, 0xb0, 0xa0, 0xa0, 0xa0],
   [0x01, 0x01, 0x2e, 0x58, 0xa0, 0x01, 0x01, 0x2e, 0x5f, 0x9c, 0x91, 0x05],
   [0x52, 0x36, 0x28, 0x4f, 0x70, 0x74, 0x69, 0x6f, 0x6e, 0x61, 0x6c, 0x40],
   [0x05, 0x51, 0x4c, 0x41, 0xa0, 0xa0, 0x40, 0xa0, 0xa0, 0xa0, 0x01, 0x01],
   [0x2e, 0x69, 0xa0, 0x01, 0x01, 0x2e, 0x6d, 0x9c, 0x91, 0x24, 0x62, 0x6f],
   [0x6f, 0x6c, 0x40, 0xa0, 0xa0, 0xa0, 0xa0, 0x01, 0x01, 0x2f, 0x48, 0xa0],
   [0x01, 0x01, 0x2f, 0x70, 0xb0, 0x3c, 0x24, 0x70, 0x61, 0x72, 0x61, 0x6d],
   [0x65, 0x74, 0x65, 0x72, 0x24, 0x73, 0x70, 0x72, 0x69, 0x6e, 0x6b, 0x6c],
   [0x65, 0x5f, 0x76, 0x61, 0x6c, 0x69, 0x64, 0x69, 0x74, 0x79, 0x90, 0xa0],
   [0xa0, 0xa0, 0x01, 0x01, 0x2f, 0x71, 0xa0, 0x01, 0x01, 0x2f, 0x74, 0x94],
   [0x41, 0x90, 0xa0, 0xa0, 0xa0, 0x01, 0x01, 0x2f, 0x5b, 0xa0, 0x01, 0x01],
   [0x2f, 0x70, 0x92, 0xa0, 0xa0, 0xa0, 0xa0, 0x01, 0x01, 0x2f, 0x5b, 0xa0],
   [0x01, 0x01, 0x2f, 0x6b, 0x9c, 0x90, 0xb0, 0xa0, 0x04, 0x07, 0x9c, 0x90],
   [0xb0, 0xa0, 0xa0, 0xa0, 0x01, 0x01, 0x2f, 0x5b, 0xa0, 0x01, 0x01, 0x2f],
   [0x62, 0x9c, 0x91, 0x05, 0x52, 0x65, 0x28, 0x4f, 0x70, 0x74, 0x69, 0x6f],
   [0x6e, 0x61, 0x6c, 0x40, 0x05, 0x51, 0x7b, 0x41, 0xa0, 0xa0, 0x40, 0xa0],
   [0xa0, 0xa0, 0x01, 0x01, 0x2f, 0x6c, 0xa0, 0x01, 0x01, 0x2f, 0x6f, 0x9c],
   [0x91, 0x23, 0x73, 0x74, 0x72, 0x40, 0xa0, 0xa0, 0xa0, 0xa0, 0x01, 0x01],
   [0x30, 0x48, 0xa0, 0x01, 0x01, 0x30, 0x6e, 0xb0, 0x3a, 0x24, 0x70, 0x61],
   [0x72, 0x61, 0x6d, 0x65, 0x74, 0x65, 0x72, 0x24, 0x74, 0x63, 0x70, 0x5f],
   [0x66, 0x69, 0x6e, 0x67, 0x65, 0x72, 0x70, 0x72, 0x69, 0x6e, 0x74, 0x90],
   [0xa0, 0xa0, 0xa0, 0x01, 0x01, 0x30, 0x6f, 0xa0, 0x01, 0x01, 0x30, 0x72],
   [0x94, 0x41, 0x90, 0xa0, 0xa0, 0xa0, 0x01, 0x01, 0x30, 0x59, 0xa0, 0x01],
   [0x01, 0x30, 0x6e, 0x92, 0xa0, 0xa0, 0xa0, 0xa0, 0x01, 0x01, 0x30, 0x59],
   [0xa0, 0x01, 0x01, 0x30, 0x69, 0x9c, 0x90, 0xb0, 0xa0, 0x04, 0x07, 0x9c],
   [0x90, 0xb0, 0xa0, 0xa0, 0xa0, 0x01, 0x01, 0x30, 0x59, 0xa0, 0x01, 0x01],
   [0x30, 0x60, 0x9c, 0x91, 0x05, 0x52, 0x94, 0x28, 0x4f, 0x70, 0x74, 0x69],
   [0x6f, 0x6e, 0x61, 0x6c, 0x40, 0x05, 0x51, 0xaa, 0x41, 0xa0, 0xa0, 0x40],
   [0xa0, 0xa0, 0xa0, 0x01, 0x01, 0x30, 0x6a, 0xa0, 0x01, 0x01, 0x30, 0x6d]]"

definition dictionary_rows_4 :: "u8 list list" where
  "dictionary_rows_4 =
  [[0x9c, 0x91, 0x23, 0x73, 0x74, 0x72, 0x40, 0xa0, 0xa0, 0xa0, 0xa0, 0x01],
   [0x01, 0x31, 0x48, 0xa0, 0x01, 0x01, 0x31, 0x72, 0xb0, 0x3e, 0x24, 0x70],
   [0x61, 0x72, 0x61, 0x6d, 0x65, 0x74, 0x65, 0x72, 0x24, 0x74, 0x63, 0x70],
   [0x5f, 0x66, 0x69, 0x6e, 0x67, 0x65, 0x72, 0x70, 0x72, 0x69, 0x6e, 0x74],
   [0x5f, 0x72, 0x61, 0x77, 0x90, 0xa0, 0xa0, 0xa0, 0x01, 0x01, 0x31, 0x73],
   [0xa0, 0x01, 0x01, 0x31, 0x76, 0x94, 0x41, 0x90, 0xa0, 0xa0, 0xa0, 0x01],
   [0x01, 0x31, 0x5d, 0xa0, 0x01, 0x01, 0x31, 0x72, 0x92, 0xa0, 0xa0, 0xa0],
   [0xa0, 0x01, 0x01, 0x31, 0x5d, 0xa0, 0x01, 0x01, 0x31, 0x6d, 0x9c, 0x90],
   [0xb0, 0xa0, 0x04, 0x07, 0x9c, 0x90, 0xb0, 0xa0, 0xa0, 0xa0, 0x01, 0x01],
   [0x31, 0x5d, 0xa0, 0x01, 0x01, 0x31, 0x64, 0x9c, 0x91, 0x05, 0x52, 0xc3],
   [0x28, 0x4f, 0x70, 0x74, 0x69, 0x6f, 0x6e, 0x61, 0x6c, 0x40, 0x05, 0x51],
   [0xd9, 0x41, 0xa0, 0x4f, 0x5c, 0x95, 0xb0, 0xb1, 0xd6, 0x59, 0x90, 0x03],
   [0xcb, 0xc3, 0x5c, 0x0e, 0x20, 0xa1, 0xf7, 0x59, 0xc1, 0x79, 0x00, 0x40],
   [0x90, 0x03, 0x0a, 0x8e, 0x10, 0xaa, 0x2f, 0xc1, 0xc5, 0x39, 0xc1, 0x00],
   [0x79, 0x01, 0x00, 0x80, 0x90, 0x03, 0x3a, 0xe3, 0xcd, 0x76, 0x1b, 0xe3],
   [0x61, 0x79, 0x90, 0x03, 0x24, 0xe6, 0x17, 0xd4, 0x37, 0xbd, 0x09, 0xf9],
   [0xc1, 0x45, 0x48, 0xc1, 0x45, 0x50, 0xc1, 0x45, 0x60, 0xc1, 0x45, 0x00],
   [0x40, 0xc1, 0x45, 0x01, 0x00, 0x80, 0x90, 0x03, 0x14, 0xed, 0xfb, 0xa4],
   [0x5b, 0x85, 0x92, 0x05, 0x90, 0x03, 0xed, 0xc1, 0xc1, 0x17, 0x96, 0xc2],
   [0x63, 0x85, 0xc1, 0x00, 0x45, 0x01, 0x00, 0x80, 0x90, 0x03, 0xd7, 0xfd],
   [0xda, 0x41, 0x7b, 0x8f, 0x32, 0x45, 0x90, 0x03, 0x16, 0xa2, 0xc3, 0x16],
   [0xdb, 0xf7, 0x19, 0xc5, 0xc1, 0x65, 0x00, 0x40, 0x90, 0x03, 0xee, 0x67],
   [0x1e, 0x50, 0x63, 0xc5, 0xe3, 0x25, 0x90, 0x03, 0xee, 0xfe, 0x20, 0xa0],
   [0xbe, 0xe3, 0x8f, 0x65, 0xc1, 0x55, 0x60, 0xc1, 0x55, 0x00, 0x40, 0xc1],
   [0x55, 0x01, 0x00, 0x80, 0x90, 0x03, 0xca, 0x5f, 0x8c, 0x69, 0x62, 0xe2],
   [0x01, 0x15, 0x90, 0x03, 0x2c, 0x83, 0xb6, 0x58, 0xab, 0x5a, 0xd0, 0x95],
   [0xc1, 0x01, 0x01, 0x55, 0x01, 0x02, 0x00, 0x90, 0x03, 0x3c, 0x1b, 0x4d],
   [0x7c, 0x9a, 0x2f, 0x31, 0x55, 0x90, 0x03, 0x03, 0x6e, 0x3b, 0x53, 0x2a],
   [0x10, 0x23, 0x55, 0xc1, 0x75, 0x00, 0x40, 0xc1, 0x75, 0x01, 0x00, 0x80],
   [0x90, 0x03, 0x18, 0xc3, 0xb1, 0xeb, 0xc4, 0x0e, 0xd9, 0x35, 0xc1, 0x01]] @
  [[0x00, 0xb5, 0x01, 0x01, 0x00, 0x90, 0x03, 0x3d, 0xb0, 0x95, 0xa4, 0x46],
   [0xa5, 0x32, 0xb5, 0x90, 0x03, 0xf8, 0x0b, 0x53, 0x1b, 0xa9, 0x2f, 0x1b],
   [0xb5, 0xc1, 0x00, 0x75, 0x01, 0x00, 0x80, 0x90, 0x03, 0xc5, 0x86, 0x76],
   [0x5d, 0xe3, 0xa2, 0xd8, 0x75, 0xc1, 0x01, 0x05, 0xf5, 0x01, 0x08, 0x00],
   [0x90, 0x03, 0xf3, 0x61, 0xe4, 0x2b, 0xee, 0x9b, 0x45, 0xf5, 0x90, 0x03],
   [0x33, 0x9e, 0x47, 0xd8, 0xc6, 0xcb, 0x4d, 0xf5, 0xc1, 0x4d, 0x50, 0xc1],
   [0x6d, 0x00, 0x40, 0xc1, 0x6d, 0x01, 0x00, 0x80, 0x90, 0x03, 0x38, 0x39],
   [0x52, 0x7e, 0xb6, 0xec, 0xf8, 0x2d, 0xc1, 0x01, 0x00, 0xad, 0x01, 0x01],
   [0x00, 0x90, 0x03, 0xf2, 0xeb, 0xfa, 0xe2, 0xaa, 0x4f, 0x02, 0xad, 0x90],
   [0x03, 0xeb, 0xa1, 0x53, 0x82, 0x3a, 0x87, 0xb9, 0xad, 0xc1, 0x01, 0x00],
   [0xed, 0x01, 0x01, 0x00, 0x90, 0x03, 0x21, 0x16, 0x04, 0x70, 0xba, 0x4b],
   [0xfa, 0xed, 0x90, 0x03, 0x3f, 0x36, 0xf9, 0x7e, 0x48, 0xef, 0xf3, 0xed],
   [0xc1, 0x5d, 0x60, 0x90, 0x03, 0xff, 0x01, 0xbd, 0x03, 0x69, 0x7f, 0x59],
   [0x1d, 0xc1, 0x01, 0x01, 0x3d, 0x01, 0x02, 0x00, 0x90, 0x03, 0xe1, 0x9e],
   [0xf7, 0x9f, 0xed, 0x51, 0x9d, 0x3d, 0x90, 0x03, 0x0c, 0xa6, 0x4e, 0xb5],
   [0x5e, 0x00, 0xc3, 0x3d, 0xc1, 0x43, 0x44, 0xc1, 0x43, 0x48, 0xc1, 0x43],
   [0x50, 0xc1, 0x43, 0x60, 0xc1, 0x43, 0x00, 0x40, 0x90, 0x03, 0xf7, 0x4b],
   [0x88, 0x19, 0xf1, 0xfa, 0xa7, 0x83, 0xc1, 0x01, 0x00, 0xc3, 0x01, 0x02],
   [0x00, 0xc1, 0x01, 0x00, 0xc3, 0x01, 0x08, 0x00, 0xc1, 0x01, 0x00, 0xc3],
   [0x01, 0x10, 0x00, 0x90, 0x03, 0x06, 0x10, 0x2b, 0x19, 0x78, 0xc2, 0x80],
   [0xc3, 0x90, 0x03, 0x00, 0xca, 0x6c, 0x88, 0x1b, 0x7a, 0x50, 0xc3, 0x90],
   [0x03, 0xdf, 0x22, 0x72, 0xd9, 0xb9, 0x31, 0x88, 0xc3, 0x90, 0x03, 0x01],
   [0x7a, 0x3f, 0x57, 0x50, 0xfd, 0x6e, 0xc3, 0x05, 0x07, 0xd8, 0xc1, 0x53],
   [0x60, 0x90, 0x03, 0x23, 0x29, 0x32, 0xfb, 0x20, 0xfe, 0x6c, 0x53, 0xc1],
   [0x01, 0x00, 0xf3, 0x01, 0x01, 0x00, 0x90, 0x03, 0x3c, 0x8b, 0xd4, 0x1e],
   [0x92, 0x36, 0xd8, 0xf3, 0x90, 0x03, 0xc6, 0x6f, 0x4e, 0xbf, 0xa8, 0x09],
   [0x29, 0xf3, 0xc1, 0x4b, 0x50, 0xc1, 0x4b, 0x60, 0xc1, 0x01, 0x00, 0x8b],
   [0x01, 0x01, 0x00, 0xc1, 0x01, 0x02, 0x8b, 0x01, 0x04, 0x00, 0x90, 0x03],
   [0xe1, 0xb3, 0x50, 0xaa, 0x22, 0xe8, 0x7a, 0x8b, 0xc1, 0x01, 0x4e, 0x8b],
   [0x02, 0x00, 0x00, 0x80, 0x00, 0x90, 0x03, 0xe3, 0x9b, 0x2d, 0xa1, 0xba]] @
  [[0xf7, 0x4e, 0x8b, 0x90, 0x03, 0xc5, 0x95, 0xbb, 0x69, 0xaa, 0x98, 0xce],
   [0x8b, 0x90, 0x03, 0x32, 0x50, 0xe0, 0x63, 0x9c, 0xb1, 0x67, 0x8b, 0xc1],
   [0x6b, 0x00, 0x40, 0xc1, 0x6b, 0x01, 0x00, 0x80, 0xc1, 0x01, 0x01, 0x2b],
   [0x01, 0x02, 0x00, 0x90, 0x03, 0xfc, 0x14, 0xe9, 0xae, 0x7b, 0x41, 0x15],
   [0x2b, 0x90, 0x03, 0x36, 0x4d, 0xcd, 0x0c, 0x58, 0xfb, 0xe3, 0x2b, 0xc1],
   [0x01, 0x00, 0xab, 0x01, 0x01, 0x00, 0x90, 0x03, 0x25, 0xbc, 0x0a, 0x3a],
   [0x58, 0x21, 0x12, 0xab, 0x90, 0x03, 0xcb, 0xb0, 0xdb, 0xc0, 0x0b, 0x65],
   [0x1b, 0xab, 0x90, 0x03, 0x32, 0x27, 0x4e, 0xac, 0xf4, 0x01, 0x19, 0xeb],
   [0xc1, 0x5b, 0x60, 0xc1, 0x5b, 0x00, 0x40, 0x90, 0x03, 0x0f, 0xe4, 0x3d],
   [0xb2, 0x64, 0xde, 0xdc, 0x9b, 0xc1, 0x01, 0x00, 0xdb, 0x01, 0x01, 0x00],
   [0xc1, 0x01, 0x00, 0xdb, 0x01, 0x02, 0x00, 0x90, 0x03, 0x1e, 0x21, 0x1f],
   [0x0a, 0xc7, 0xfd, 0x80, 0xdb, 0x90, 0x03, 0xc0, 0x46, 0xa4, 0xa4, 0x6f],
   [0xfe, 0xe6, 0xdb, 0x05, 0x18, 0x88, 0x90, 0x03, 0xdc, 0x93, 0xa0, 0xdd],
   [0xd7, 0x95, 0xd8, 0xbb, 0xc1, 0x47, 0x48, 0xc1, 0x47, 0x50, 0xc1, 0x47],
   [0x60, 0xc1, 0x00, 0x47, 0x01, 0x00, 0x80, 0x90, 0x03, 0xc5, 0xe1, 0xa0],
   [0xcd, 0x38, 0x69, 0xdf, 0x47, 0xc1, 0x01, 0x00, 0xc7, 0x01, 0x04, 0x00],
   [0x90, 0x03, 0xdc, 0x3e, 0xc5, 0xac, 0xc6, 0xd9, 0xb8, 0xc7, 0x90, 0x03],
   [0xe3, 0x2d, 0x96, 0xf3, 0xd2, 0xf0, 0x54, 0xc7, 0xc1, 0x01, 0x0c, 0x27],
   [0x01, 0x10, 0x00, 0x90, 0x03, 0x21, 0x1f, 0xdb, 0x8b, 0xdd, 0x39, 0x2c],
   [0x27, 0x90, 0x03, 0xc2, 0xc7, 0xc2, 0x5e, 0x27, 0xc0, 0x3c, 0x27, 0xc1],
   [0x57, 0x60, 0xc1, 0x57, 0x00, 0x40, 0xc1, 0x57, 0x01, 0x00, 0x80, 0x90],
   [0x03, 0xfd, 0x07, 0x1e, 0x3b, 0x01, 0xa2, 0xc7, 0x17, 0x90, 0x03, 0x2e],
   [0x82, 0xab, 0x0f, 0x8f, 0xcc, 0xe5, 0x97, 0x05, 0x18, 0x87, 0xc1, 0x77],
   [0x00, 0x40, 0xc1, 0x77, 0x01, 0x01, 0x00, 0xc1, 0x01, 0x02, 0x37, 0x01],
   [0x04, 0x00, 0x90, 0x03, 0xfa, 0x4f, 0x20, 0x19, 0xf4, 0xa7, 0xba, 0x37],
   [0x90, 0x03, 0xca, 0xbf, 0xc6, 0x51, 0xf1, 0xa5, 0x2e, 0x37, 0x90, 0x03],
   [0x29, 0xf7, 0x79, 0x3c, 0x21, 0x82, 0x79, 0x37, 0x90, 0x03, 0xf8, 0x90],
   [0xf7, 0x43, 0x21, 0xac, 0x6d, 0xf7, 0xc1, 0x4f, 0x50, 0x90, 0x03, 0xd5],
   [0x70, 0x1b, 0xbb, 0x3d, 0x40, 0x18, 0xaf, 0xc1, 0x5f, 0x60, 0x90, 0x03],
   [0xe6, 0x69, 0x39, 0xba, 0x5c, 0x9a, 0x6b, 0x9f, 0xc1, 0x7f, 0x00, 0x40]] @
  [[0xc1, 0x01, 0x00, 0xbf, 0x01, 0x01, 0x00, 0x90, 0x03, 0x1c, 0x57, 0x6f],
   [0xba, 0xd1, 0x71, 0x04, 0xbf, 0x90, 0x03, 0xee, 0x4a, 0x22, 0x09, 0x36],
   [0xa5, 0x4d, 0xbf, 0xc1, 0x00, 0x7f, 0x01, 0x00, 0x80, 0x05, 0x07, 0xd0],
   [0x05, 0x07, 0xcf, 0x90, 0xa0, 0x40, 0x40, 0x90, 0x40, 0x40, 0x42, 0xb5],
   [0x40, 0xa0, 0x91, 0xa0, 0x90, 0xc0, 0x40, 0x90, 0x2d, 0x53, 0x65, 0x72],
   [0x76, 0x65, 0x72, 0x53, 0x65, 0x63, 0x72, 0x65, 0x74, 0x73, 0x40, 0x41],
   [0x90, 0x40, 0xa0, 0x91, 0xa0, 0x90, 0xc0, 0x6f, 0x74, 0xa0, 0x43, 0x40],
   [0x40, 0x41, 0x90, 0x41, 0x90, 0x40, 0x90, 0x04, 0x2a, 0x90, 0x04, 0x29],
   [0x90, 0x40, 0x40, 0x41, 0x90, 0x90, 0xc0, 0x40, 0xa0, 0xa0, 0x01, 0x00],
   [0xaf, 0x00, 0x5b, 0xa0, 0x01, 0x00, 0xaf, 0x00, 0x5f, 0x40, 0x41, 0x90],
   [0xa0, 0xa0, 0x03, 0x00, 0x00, 0x00, 0x01, 0x00, 0x00, 0x00, 0x00, 0x40],
   [0xa0, 0x03, 0x00, 0x00, 0x00, 0x01, 0x00, 0x00, 0x00, 0x00, 0x40, 0x90],
   [0x04, 0x37, 0x90, 0x04, 0x36, 0x90, 0xb0, 0xa0, 0x04, 0x28, 0x40, 0xa0],
   [0x04, 0x29, 0x40, 0x40, 0x90, 0x40, 0x40, 0x41, 0x40, 0xd0, 0x40, 0xb0],
   [0x42, 0x24, 0x64, 0x65, 0x73, 0x74, 0x40, 0xa0, 0xd0, 0x40, 0x40, 0xf0],
   [0x90, 0xd0, 0x40, 0x41, 0x08, 0x00, 0x00, 0x20, 0x00, 0x04, 0x27, 0x04],
   [0x26, 0x90, 0xa0, 0x03, 0x3f, 0xff, 0xff, 0xff, 0xff, 0xff, 0xff, 0xff],
   [0xd0, 0x40, 0x90, 0x25, 0x5f, 0x64, 0x65, 0x73, 0x74, 0xa0, 0x43, 0x40],
   [0x40, 0x41, 0x90, 0x41, 0x04, 0x25, 0x04, 0x24, 0x04, 0x23, 0x04, 0x22],
   [0x40, 0x41, 0x90, 0x90, 0xc0, 0x40, 0xa0, 0xa0, 0x01, 0x00, 0xaf, 0x00],
   [0x61, 0xa0, 0x01, 0x00, 0xaf, 0x00, 0x65, 0x40, 0x41, 0x90, 0xa0, 0xa0],
   [0x03, 0x00, 0x00, 0x00, 0x01, 0x00, 0x00, 0x00, 0x00, 0x40, 0xa0, 0x03],
   [0x00, 0x00, 0x00, 0x01, 0x00, 0x00, 0x00, 0x00, 0x40, 0x04, 0x21, 0x04],
   [0x20, 0x04, 0x1f, 0x04, 0x1b, 0x40, 0x41, 0x40, 0x40, 0x41, 0x42, 0x43],
   [0xd0, 0xd0, 0xd0, 0x40, 0xb0, 0x40, 0x24, 0x73, 0x65, 0x6c, 0x66, 0x40],
   [0xa0, 0xd0, 0xd0, 0x40, 0x90, 0x40, 0xf0, 0x90, 0xd0, 0x40, 0x92, 0x2f],
   [0x4e, 0x6f, 0x64, 0x65, 0x45, 0x64, 0x67, 0x65, 0x44, 0x65, 0x6c, 0x65],
   [0x74, 0x65, 0x72, 0x08, 0x00, 0x00, 0x20, 0x00, 0x90, 0xa0, 0xa0, 0x40],
   [0x40, 0xa0, 0x40, 0x40, 0x90, 0x40, 0x90, 0xa0, 0x03, 0x3f, 0xff, 0xff],
   [0xff, 0xff, 0xff, 0xff, 0xff, 0x40, 0x90, 0x40, 0x90, 0x40, 0x90, 0xa0]] @
  [[0x40, 0x40, 0x90, 0xa0, 0x40, 0x40, 0x90, 0x40, 0x40, 0x41, 0x90, 0x90],
   [0x40, 0x90, 0xa0, 0xa0, 0x40, 0x40, 0x04, 0x01, 0x90, 0x04, 0x0a, 0x90],
   [0x04, 0x09, 0x90, 0xb0, 0xa0, 0xa0, 0x03, 0xc0, 0x00, 0x00, 0x00, 0x00],
   [0x00, 0x00, 0x00, 0x03, 0x3f, 0xff, 0xff, 0xff, 0xff, 0xff, 0xff, 0xff],
   [0x40, 0xa0, 0x04, 0x02, 0x40, 0x40, 0x90, 0x40, 0x40, 0x41, 0x91, 0xb0],
   [0xa0, 0x2a, 0x69, 0x67, 0x5f, 0x6e, 0x6f, 0x64, 0x65, 0x61, 0x70, 0x69],
   [0xa0, 0x25, 0x65, 0x64, 0x67, 0x65, 0x73, 0xa0, 0x09, 0x36, 0x6f, 0x77],
   [0x6e, 0x65, 0x64, 0x5f, 0x73, 0x6f, 0x75, 0x6e, 0x64, 0x5f, 0x62, 0x69],
   [0x74, 0x65, 0x5f, 0x76, 0x69, 0x64, 0x65, 0x6f, 0x73, 0x5f, 0x6f, 0x6e],
   [0x5f, 0x66, 0x62, 0x5f, 0x69, 0x6e, 0x73, 0x74, 0x61, 0x67, 0x72, 0x61],
   [0x6d, 0x5f, 0x6d, 0x65, 0x73, 0x73, 0x61, 0x67, 0x69, 0x6e, 0x67, 0x5f],
   [0x75, 0x73, 0x65, 0x72, 0x40, 0x04, 0x81, 0x04, 0x80, 0xf0, 0x90, 0xd0],
   [0x40, 0x92, 0x2f, 0x4e, 0x6f, 0x64, 0x65, 0x45, 0x64, 0x67, 0x65, 0x44],
   [0x65, 0x6c, 0x65, 0x74, 0x65, 0x72, 0x08, 0x00, 0x00, 0x20, 0x00, 0x90],
   [0xa0, 0xa0, 0x40, 0x40, 0xa0, 0x40, 0x40, 0x90, 0x40, 0x90, 0xa0, 0x03],
   [0x3f, 0xff, 0xff, 0xff, 0xff, 0xff, 0xff, 0xff, 0x40, 0x90, 0x40, 0x90],
   [0x90, 0x90, 0x03, 0x1f, 0x44, 0x55, 0xdf, 0xbe, 0x65, 0x96, 0xdb, 0x90],
   [0xa0, 0x40, 0x40, 0x90, 0xa0, 0x40, 0x40, 0x90, 0x40, 0x40, 0x41, 0x90],
   [0x90, 0x40, 0x90, 0x04, 0xaa, 0x90, 0x04, 0xa3, 0x90, 0x04, 0xa2, 0x90],
   [0xb0, 0xa0, 0xa0, 0x02, 0x00, 0x0d, 0x42, 0xdc, 0x02, 0x00, 0x0d, 0x42],
   [0xdd, 0x40, 0xa0, 0x04, 0x96, 0x40, 0x40, 0x90, 0x40, 0x40, 0x42, 0x40],
   [0x40, 0x41, 0xb0, 0x41, 0x24, 0x72, 0x6f, 0x6f, 0x74, 0x40, 0xa0, 0xd0],
   [0xd0, 0x40, 0x04, 0x50, 0xf0, 0x90, 0xd0, 0x40, 0x04, 0x4f, 0x08, 0x00],
   [0x00, 0x20, 0x00, 0x90, 0xa0, 0xa0, 0x40, 0x40, 0xa0, 0x40, 0x40, 0x90],
   [0x40, 0x90, 0x04, 0x4d, 0x90, 0x40, 0x90, 0x40, 0x90, 0x04, 0x4c, 0x90],
   [0x04, 0x4b, 0x90, 0x40, 0x40, 0x41, 0x90, 0x04, 0x4a, 0x90, 0x04, 0x49],
   [0x90, 0x04, 0x51, 0x90, 0x04, 0x50, 0x90, 0xb0, 0xa0, 0x04, 0x47, 0x40],
   [0xa0, 0x04, 0x48, 0x40, 0x40, 0x90, 0x40, 0x40, 0x41, 0x91, 0xb0, 0x04],
   [0x46, 0x04, 0x99, 0x04, 0x98, 0xf0, 0x90, 0xd0, 0x40, 0x04, 0x40, 0x08],
   [0x00, 0x00, 0x20, 0x00, 0x90, 0xa0, 0xa0, 0x40, 0x40, 0xa0, 0x40, 0x40]]"

definition dictionary_rows_5 :: "u8 list list" where
  "dictionary_rows_5 =
  [[0x90, 0x40, 0x90, 0x04, 0x3e, 0x90, 0x40, 0x90, 0x90, 0x90, 0x03, 0xee],
   [0xaf, 0x21, 0x94, 0x08, 0xb3, 0x32, 0xc2, 0x90, 0x04, 0x3d, 0x90, 0x04],
   [0x3c, 0x90, 0x40, 0x40, 0x41, 0x90, 0x04, 0x3b, 0x90, 0x04, 0xe4, 0x90],
   [0x04, 0xdd, 0x90, 0x04, 0xdc, 0x90, 0xb0, 0x04, 0x3a, 0x04, 0x38, 0x40],
   [0x90, 0x40, 0x40, 0x42, 0x40, 0x40, 0x42, 0xb0, 0x42, 0x24, 0x64, 0x65],
   [0x73, 0x74, 0x40, 0xa0, 0xd0, 0xd0, 0x40, 0x04, 0x87, 0xf0, 0x90, 0xd0],
   [0x40, 0x04, 0x86, 0x08, 0x00, 0x00, 0x20, 0x00, 0x90, 0xa0, 0xa0, 0x40],
   [0x40, 0xa0, 0x40, 0x40, 0x90, 0x40, 0x90, 0x04, 0x84, 0x90, 0x40, 0x90],
   [0x40, 0x90, 0x04, 0x83, 0x90, 0x04, 0x82, 0x90, 0x40, 0x40, 0x41, 0x90],
   [0x04, 0x81, 0x90, 0x04, 0x80, 0x90, 0x04, 0x88, 0x90, 0x04, 0x87, 0x90],
   [0xb0, 0xa0, 0x04, 0x7e, 0x40, 0xa0, 0x04, 0x7f, 0x40, 0x40, 0x90, 0x40],
   [0x40, 0x41, 0x91, 0xb0, 0x04, 0x7d, 0x04, 0xaf, 0x04, 0xae, 0xf0, 0x90],
   [0xd0, 0x40, 0x04, 0x77, 0x08, 0x00, 0x00, 0x20, 0x00, 0x90, 0xa0, 0xa0],
   [0x40, 0x40, 0xa0, 0x40, 0x40, 0x90, 0x40, 0x90, 0x04, 0x75, 0x90, 0x40],
   [0x90, 0x90, 0x90, 0x03, 0xee, 0xbd, 0x5e, 0x90, 0xf9, 0xa3, 0x81, 0x60],
   [0x90, 0x04, 0x74, 0x90, 0x04, 0x73, 0x90, 0x40, 0x40, 0x41, 0x90, 0x04],
   [0x72, 0x90, 0x05, 0x01, 0x1b, 0x90, 0x05, 0x01, 0x14, 0x90, 0x05, 0x01],
   [0x13, 0x90, 0xb0, 0x04, 0x71, 0x04, 0x6f, 0x40, 0x90, 0x40, 0x40, 0x42],
   [0x40, 0x40, 0x43, 0xb0, 0xb0, 0x90, 0x40, 0x90, 0x40, 0xa0, 0x04, 0x03],
   [0x04, 0x02, 0x04, 0x04, 0x40, 0x40, 0x84, 0x95, 0xa6, 0xbe, 0x00, 0x00],
   [0x00, 0x8a, 0x00, 0x00, 0x00, 0x04, 0x00, 0x00, 0x00, 0x2b, 0x00, 0x00],
   [0x00, 0x1a, 0xa0, 0x09, 0x80, 0x69, 0x67, 0x5f, 0x6e, 0x6f, 0x64, 0x65],
   [0x61, 0x70, 0x69, 0x2e, 0x65, 0x64, 0x67, 0x65, 0x73, 0x2e, 0x61, 0x70],
   [0x70, 0x6c, 0x69, 0x65, 0x64, 0x5f, 0x6d, 0x65, 0x64, 0x69, 0x61, 0x5f],
   [0x74, 0x6f, 0x5f, 0x63, 0x75, 0x74, 0x6f, 0x75, 0x74, 0x5f, 0x73, 0x74],
   [0x69, 0x63, 0x6b, 0x65, 0x72, 0x5f, 0x6f, 0x6e, 0x5f, 0x6d, 0x65, 0x64],
   [0x69, 0x61, 0x5f, 0x6b, 0x69, 0x74, 0x5f, 0x63, 0x6f, 0x76, 0x65, 0x72],
   [0x2e, 0x45, 0x64, 0x67, 0x65, 0x45, 0x72, 0x61, 0x73, 0x65, 0x41, 0x70],
   [0x70, 0x6c, 0x69, 0x65, 0x64, 0x4d, 0x65, 0x64, 0x69, 0x61, 0x54, 0x6f],
   [0x43, 0x75, 0x74, 0x6f, 0x75, 0x74, 0x53, 0x74, 0x69, 0x63, 0x6b, 0x65]] @
  [[0x72, 0x4f, 0x6e, 0x4d, 0x65, 0x64, 0x69, 0x61, 0x4b, 0x69, 0x74, 0x43],
   [0x6f, 0x76, 0x65, 0x72, 0x2e, 0x5f, 0x5f, 0x69, 0x6e, 0x69, 0x74, 0x01],
   [0x00, 0xc1, 0x01, 0x00, 0x9b, 0xa0, 0x01, 0x00, 0xc1, 0x01, 0x00, 0xbd],
   [0x94, 0x94, 0xa0, 0x09, 0x20, 0x73, 0x6f, 0x75, 0x72, 0x63, 0x65, 0x5f],
   [0x61, 0x63, 0x63, 0x65, 0x73, 0x73, 0x5f, 0x74, 0x6f, 0x6b, 0x65, 0x6e],
   [0x5f, 0x69, 0x73, 0x73, 0x75, 0x65, 0x5f, 0x72, 0x65, 0x61, 0x73, 0x6f],
   [0x6e, 0x40, 0xa0, 0xa0, 0x90, 0xa0, 0xa0, 0xa0, 0x01, 0x00, 0xc1, 0x01],
   [0x00, 0xbf, 0xa0, 0x01, 0x00, 0xc1, 0x01, 0x00, 0xca, 0x36, 0x24, 0x70],
   [0x61, 0x72, 0x61, 0x6d, 0x65, 0x74, 0x65, 0x72, 0x24, 0x69, 0x73, 0x5f],
   [0x6f, 0x70, 0x74, 0x69, 0x6f, 0x6e, 0x61, 0x6c, 0xa0, 0xa0, 0xa0, 0x01],
   [0x00, 0xc1, 0x01, 0x00, 0xcb, 0xa0, 0x01, 0x00, 0xc1, 0x01, 0x00, 0xd0],
   [0x94, 0x42, 0xa0, 0xa0, 0x90, 0xa0, 0xa0, 0xa0, 0x01, 0x00, 0xc1, 0x01],
   [0x00, 0xd2, 0xa0, 0x01, 0x00, 0xc1, 0x01, 0x00, 0xe8, 0x09, 0x21, 0x24],
   [0x70, 0x61, 0x72, 0x61, 0x6d, 0x65, 0x74, 0x65, 0x72, 0x24, 0x73, 0x74],
   [0x72, 0x75, 0x63, 0x74, 0x75, 0x72, 0x65, 0x64, 0x5f, 0x61, 0x6e, 0x6e],
   [0x6f, 0x74, 0x61, 0x74, 0x69, 0x6f, 0x6e, 0x73, 0xa0, 0xa0, 0xa0, 0x01],
   [0x00, 0xc1, 0x01, 0x00, 0xe9, 0xa0, 0x01, 0x00, 0xc2, 0x49, 0x9a, 0x40],
   [0x40, 0xa0, 0xa0, 0xa0, 0xa0, 0x01, 0x00, 0xc3, 0x48, 0xa0, 0x01, 0x00],
   [0xc4, 0x4a, 0x92, 0xa0, 0xa0, 0xa0, 0xa0, 0x01, 0x00, 0xc3, 0x48, 0xa0],
   [0x01, 0x00, 0xc3, 0x66, 0x9c, 0x90, 0xb0, 0xa0, 0xa0, 0xa0, 0x01, 0x00],
   [0xc3, 0x48, 0xa0, 0x01, 0x00, 0xc3, 0x5a, 0x9c, 0x90, 0xb0, 0xa0, 0x04],
   [0x07, 0x9c, 0x90, 0xb0, 0xa0, 0x04, 0x0b, 0x9c, 0x90, 0xb0, 0xa0, 0x04],
   [0x0f, 0x9c, 0x91, 0x05, 0x37, 0x89, 0x05, 0x37, 0x87, 0x40, 0x05, 0x37],
   [0x85, 0x40, 0x05, 0x37, 0x83, 0x40, 0x2b, 0x54, 0x68, 0x72, 0x69, 0x66],
   [0x74, 0x46, 0x69, 0x65, 0x6c, 0x64, 0x40, 0xa0, 0xa0, 0x90, 0xa0, 0xa0],
   [0xa0, 0x01, 0x00, 0xc3, 0x67, 0xa0, 0x01, 0x00, 0xc3, 0x69, 0x2d, 0x24],
   [0x70, 0x61, 0x72, 0x61, 0x6d, 0x65, 0x74, 0x65, 0x72, 0x24, 0x69, 0x64],
   [0xa0, 0xa0, 0xa0, 0x01, 0x00, 0xc3, 0x6a, 0xa0, 0x01, 0x00, 0xc3, 0x6c],
   [0x94, 0x90, 0x00, 0x50, 0xa0, 0xa0, 0x90, 0xa0, 0xa0, 0xa0, 0x01, 0x00],
   [0xc3, 0x6e, 0xa0, 0x01, 0x00, 0xc3, 0x72, 0x2f, 0x24, 0x70, 0x61, 0x72]] @
  [[0x61, 0x6d, 0x65, 0x74, 0x65, 0x72, 0x24, 0x74, 0x79, 0x70, 0x65, 0xa0],
   [0xa0, 0xa0, 0x01, 0x00, 0xc3, 0x73, 0xa0, 0x01, 0x00, 0xc3, 0x01, 0x00],
   [0x94, 0x92, 0xa0, 0xa0, 0xa0, 0xa0, 0x01, 0x00, 0xc3, 0x73, 0xa0, 0x01],
   [0x00, 0xc3, 0x00, 0x50, 0x9c, 0x90, 0xb0, 0xa0, 0xa0, 0xa0, 0x01, 0x00],
   [0xc3, 0x73, 0xa0, 0x01, 0x00, 0xc3, 0x00, 0x45, 0x9c, 0x90, 0xb0, 0xa0],
   [0x04, 0x07, 0x9c, 0x90, 0xb0, 0xa0, 0x04, 0x0b, 0x9c, 0x90, 0xb0, 0xa0],
   [0x04, 0x0f, 0x9c, 0x91, 0x05, 0x37, 0xbf, 0x05, 0x37, 0xbd, 0x40, 0x05],
   [0x37, 0xbb, 0x40, 0x05, 0x37, 0xb9, 0x40, 0x2a, 0x54, 0x68, 0x72, 0x69],
   [0x66, 0x74, 0x54, 0x79, 0x70, 0x65, 0x40, 0xa0, 0xa0, 0x90, 0xa0, 0xa0],
   [0xa0, 0x01, 0x00, 0xc3, 0x00, 0x51, 0xa0, 0x01, 0x00, 0xc3, 0x00, 0x5c],
   [0x36, 0x24, 0x70, 0x61, 0x72, 0x61, 0x6d, 0x65, 0x74, 0x65, 0x72, 0x24],
   [0x74, 0x5f, 0x70, 0x72, 0x69, 0x6d, 0x69, 0x74, 0x69, 0x76, 0x65, 0xa0],
   [0xa0, 0xa0, 0x01, 0x00, 0xc3, 0x00, 0x5d, 0xa0, 0x01, 0x00, 0xc3, 0x01],
   [0x00, 0x93, 0x9c, 0x90, 0xb0, 0xa0, 0xa0, 0xa0, 0x01, 0x00, 0xc3, 0x00],
   [0x5d, 0xa0, 0x01, 0x00, 0xc3, 0x01, 0x00, 0x83, 0x9c, 0x90, 0xb0, 0xa0],
   [0xa0, 0xa0, 0x01, 0x00, 0xc3, 0x00, 0x5d, 0xa0, 0x01, 0x00, 0xc3, 0x00],
   [0x6f, 0x9c, 0x90, 0xb0, 0xa0, 0x04, 0x07, 0x9c, 0x90, 0xb0, 0xa0, 0x04],
   [0x0b, 0x9c, 0x90, 0xb0, 0xa0, 0x04, 0x0f, 0x9c, 0x91, 0x05, 0x37, 0xe8],
   [0x05, 0x37, 0xe6, 0x40, 0x05, 0x37, 0xe4, 0x40, 0x05, 0x37, 0xe2, 0x40],
   [0x33, 0x54, 0x68, 0x72, 0x69, 0x66, 0x74, 0x50, 0x72, 0x69, 0x6d, 0x69],
   [0x74, 0x69, 0x76, 0x65, 0x54, 0x79, 0x70, 0x65, 0x40, 0x2f, 0x54, 0x48],
   [0x52, 0x49, 0x46, 0x54, 0x5f, 0x49, 0x36, 0x34, 0x5f, 0x54, 0x59, 0x50],
   [0x45, 0x40, 0x40, 0xa0, 0xa0, 0x90, 0xa0, 0xa0, 0xa0, 0x01, 0x00, 0xc3],
   [0x01, 0x00, 0x96, 0xa0, 0x01, 0x00, 0xc3, 0x01, 0x00, 0x9a, 0x2f, 0x24],
   [0x70, 0x61, 0x72, 0x61, 0x6d, 0x65, 0x74, 0x65, 0x72, 0x24, 0x6e, 0x61],
   [0x6d, 0x65, 0xa0, 0xa0, 0xa0, 0x01, 0x00, 0xc3, 0x01, 0x00, 0x9b, 0xa0],
   [0x01, 0x00, 0xc3, 0x01, 0x00, 0xbd, 0x94, 0x94, 0xa0, 0x09, 0x20, 0x73],
   [0x6f, 0x75, 0x72, 0x63, 0x65, 0x5f, 0x61, 0x63, 0x63, 0x65, 0x73, 0x73],
   [0x5f, 0x74, 0x6f, 0x6b, 0x65, 0x6e, 0x5f, 0x72, 0x65, 0x64, 0x69, 0x72],
   [0x65, 0x63, 0x74, 0x5f, 0x75, 0x72, 0x69, 0x40, 0xa0, 0xa0, 0x90, 0xa0]] @
  [[0xa0, 0xa0, 0x01, 0x00, 0xc3, 0x01, 0x00, 0xbf, 0xa0, 0x01, 0x00, 0xc3],
   [0x01, 0x00, 0xca, 0x36, 0x24, 0x70, 0x61, 0x72, 0x61, 0x6d, 0x65, 0x74],
   [0x65, 0x72, 0x24, 0x69, 0x73, 0x5f, 0x6f, 0x70, 0x74, 0x69, 0x6f, 0x6e],
   [0x61, 0x6c, 0xa0, 0xa0, 0xa0, 0x01, 0x00, 0xc3, 0x01, 0x00, 0xcb, 0xa0],
   [0x01, 0x00, 0xc3, 0x01, 0x00, 0xd0, 0x94, 0x42, 0xa0, 0xa0, 0x90, 0xa0],
   [0xa0, 0xa0, 0x01, 0x00, 0xc3, 0x01, 0x00, 0xd2, 0xa0, 0x01, 0x00, 0xc3],
   [0x01, 0x00, 0xe8, 0x09, 0x21, 0x24, 0x70, 0x61, 0x72, 0x61, 0x6d, 0x65],
   [0x74, 0x65, 0x72, 0x24, 0x73, 0x74, 0x72, 0x75, 0x63, 0x74, 0x75, 0x72],
   [0x65, 0x64, 0x5f, 0x61, 0x6e, 0x6e, 0x6f, 0x74, 0x61, 0x74, 0x69, 0x6f],
   [0x6e, 0x73, 0xa0, 0xa0, 0xa0, 0x01, 0x00, 0xc3, 0x01, 0x00, 0xe9, 0xa0],
   [0x01, 0x00, 0xc4, 0x49, 0x9a, 0x40, 0x40, 0xa0, 0xa0, 0xa0, 0xa0, 0x01],
   [0x00, 0xc5, 0x48, 0xa0, 0x01, 0x00, 0xc6, 0x4a, 0x92, 0xa0, 0xa0, 0xa0],
   [0xa0, 0x01, 0x00, 0xc5, 0x48, 0xa0, 0x01, 0x00, 0xc5, 0x66, 0x9c, 0x90],
   [0xb0, 0xa0, 0xa0, 0xa0, 0x01, 0x00, 0xc5, 0x48, 0xa0, 0x01, 0x00, 0xc5],
   [0x5a, 0x9c, 0x90, 0xb0, 0xa0, 0x04, 0x07, 0x9c, 0x90, 0xb0, 0xa0, 0x04],
   [0x0b, 0x9c, 0x90, 0xb0, 0xa0, 0x04, 0x0f, 0x9c, 0x91, 0x05, 0x38, 0x34],
   [0x05, 0x38, 0x32, 0x40, 0x05, 0x38, 0x30, 0x40, 0x05, 0x38, 0x2e, 0x40],
   [0x2b, 0x54, 0x68, 0x72, 0x69, 0x66, 0x74, 0x46, 0x69, 0x65, 0x6c, 0x64],
   [0x40, 0xa0, 0xa0, 0x90, 0xa0, 0xa0, 0xa0, 0x01, 0x00, 0xc5, 0x67, 0xa0],
   [0x01, 0x00, 0xc5, 0x69, 0x2d, 0x24, 0x70, 0x61, 0x72, 0x61, 0x6d, 0x65],
   [0x74, 0x65, 0x72, 0x24, 0x69, 0x64, 0xa0, 0xa0, 0xa0, 0x01, 0x00, 0xc5],
   [0x6a, 0xa0, 0x01, 0x00, 0xc5, 0x6c, 0x94, 0x90, 0x00, 0x51, 0xa0, 0xa0],
   [0x90, 0xa0, 0xa0, 0xa0, 0x01, 0x00, 0xc5, 0x6e, 0xa0, 0x01, 0x00, 0xc5],
   [0x72, 0x2f, 0x24, 0x70, 0x61, 0x72, 0x61, 0x6d, 0x65, 0x74, 0x65, 0x72],
   [0x24, 0x74, 0x79, 0x70, 0x65, 0xa0, 0xa0, 0xa0, 0x01, 0x00, 0xc5, 0x73],
   [0xa0, 0x01, 0x00, 0xc5, 0x01, 0x00, 0x97, 0x92, 0xa0, 0xa0, 0xa0, 0xa0],
   [0x01, 0x00, 0xc5, 0x73, 0xa0, 0x01, 0x00, 0xc5, 0x00, 0x50, 0x9c, 0x90],
   [0xb0, 0xa0, 0xa0, 0x40, 0x40, 0x41, 0x90, 0x04, 0x3b, 0x90, 0x05, 0x01],
   [0x16, 0x90, 0x05, 0x01, 0x0f, 0x90, 0x05, 0x01, 0x0e, 0x90, 0xb0, 0x04],
   [0x3a, 0x04, 0x38, 0x40, 0x90, 0x40, 0x40, 0x42, 0x40, 0xd0, 0xd0, 0xd0]] @
  [[0x40, 0xb0, 0x42, 0x24, 0x64, 0x65, 0x73, 0x74, 0x40, 0xa0, 0xd0, 0xd0],
   [0x40, 0x04, 0x8a, 0xf0, 0x90, 0xd0, 0x40, 0x04, 0x89, 0x08, 0x00, 0x00],
   [0x20, 0x00, 0x90, 0xa0, 0xa0, 0x40, 0x40, 0xa0, 0x40, 0x40, 0x90, 0x40],
   [0x90, 0x04, 0x87, 0x90, 0x40, 0x90, 0x40, 0x90, 0x04, 0x86, 0x90, 0x04],
   [0x85, 0x90, 0x40, 0x40, 0x41, 0x90, 0x04, 0x84, 0x90, 0x04, 0x83, 0x90],
   [0x04, 0x8b, 0x90, 0x04, 0x8a, 0x90, 0xb0, 0xa0, 0x04, 0x81, 0x40, 0xa0],
   [0x04, 0x82, 0x40, 0x40, 0x90, 0x40, 0x40, 0x41, 0x91, 0xb0, 0x04, 0x80],
   [0x04, 0xe5, 0x04, 0xe4, 0xf0, 0x90, 0xd0, 0x40, 0x04, 0x7a, 0x08, 0x00],
   [0x00, 0x20, 0x00, 0x90, 0xa0, 0xa0, 0x40, 0x40, 0xa0, 0x40, 0x40, 0x90],
   [0x40, 0x90, 0x04, 0x78, 0x90, 0x40, 0x90, 0x90, 0x90, 0x03, 0xe3, 0xde],
   [0xc6, 0x2d, 0x42, 0x66, 0xf6, 0x33, 0x90, 0x04, 0x77, 0x90, 0x04, 0x76],
   [0x90, 0x40, 0x40, 0x41, 0x90, 0x04, 0x75, 0x90, 0x05, 0x01, 0x50, 0x90],
   [0x05, 0x01, 0x49, 0x90, 0x05, 0x01, 0x48, 0x90, 0xb0, 0x04, 0x74, 0x04],
   [0x72, 0x40, 0x90, 0x40, 0x40, 0x42, 0x40, 0x40, 0x41, 0xb0, 0x43, 0x34],
   [0x69, 0x73, 0x5f, 0x75, 0x70, 0x64, 0x61, 0x74, 0x65, 0x5f, 0x77, 0x69],
   [0x74, 0x68, 0x5f, 0x6d, 0x65, 0x72, 0x67, 0x65, 0x40, 0xa0, 0xd0, 0xd0],
   [0x40, 0x04, 0xc1, 0xf0, 0x90, 0xd0, 0x40, 0x04, 0xc0, 0x08, 0x00, 0x00],
   [0x20, 0x00, 0x90, 0xa0, 0xa0, 0x03, 0x02, 0x00, 0x09, 0x00, 0x00, 0x00],
   [0x00, 0x00, 0x40, 0xa0, 0x03, 0x02, 0x00, 0x09, 0x00, 0x00, 0x00, 0x00],
   [0x00, 0x40, 0x90, 0x40, 0x90, 0x04, 0xbe, 0x90, 0x40, 0x90, 0x40, 0x90],
   [0x04, 0xbd, 0x90, 0x04, 0xbc, 0x90, 0x40, 0x40, 0x41, 0x90, 0x04, 0xbb],
   [0x90, 0x04, 0xba, 0x90, 0x04, 0xc2, 0x90, 0x04, 0xc1, 0x90, 0xb0, 0xa0],
   [0x04, 0xb8, 0x40, 0xa0, 0x04, 0xb9, 0x40, 0x40, 0x90, 0x40, 0x40, 0x41],
   [0x91, 0xb0, 0x04, 0xb7, 0x05, 0x01, 0x02, 0x05, 0x01, 0x01, 0xf0, 0x90],
   [0xd0, 0x40, 0x04, 0xb1, 0x08, 0x00, 0x00, 0x20, 0x00, 0x90, 0xa0, 0xa0],
   [0x40, 0x40, 0xa0, 0x40, 0x40, 0x90, 0x40, 0x90, 0x04, 0xaf, 0x90, 0x40],
   [0x90, 0x90, 0x90, 0x03, 0xdf, 0xaa, 0x15, 0x7b, 0xdd, 0xf9, 0x01, 0xc8],
   [0x90, 0x04, 0xae, 0x90, 0x04, 0xad, 0x90, 0x40, 0x40, 0x41, 0x90, 0x04],
   [0xac, 0x90, 0xa0, 0xa0, 0x03, 0x02, 0x00, 0x09, 0x00, 0x00, 0x00, 0x00],
   [0x00, 0x40, 0xa0, 0x03, 0x02, 0x00, 0x09, 0x00, 0x00, 0x00, 0x00, 0x00]]"

definition dictionary_rows_6 :: "u8 list list" where
  "dictionary_rows_6 =
  [[0x40, 0x90, 0x05, 0x01, 0x83, 0x90, 0x05, 0x01, 0x82, 0x90, 0xb0, 0x04],
   [0xae, 0x04, 0xac, 0x40, 0x90, 0x40, 0x40, 0x42, 0x40, 0x40, 0x42, 0xb0],
   [0x44, 0x3e, 0x69, 0x6e, 0x69, 0x74, 0x69, 0x61, 0x6c, 0x69, 0x7a, 0x65],
   [0x5f, 0x61, 0x74, 0x74, 0x72, 0x69, 0x62, 0x75, 0x74, 0x65, 0x73, 0x5f],
   [0x66, 0x6f, 0x72, 0x5f, 0x74, 0x65, 0x73, 0x74, 0x40, 0xa0, 0xd0, 0xd0],
   [0x40, 0x04, 0xfb, 0xf0, 0x90, 0xd0, 0x40, 0x04, 0xfa, 0x08, 0x00, 0x00],
   [0x20, 0x00, 0x90, 0xa0, 0xa0, 0x03, 0x02, 0x00, 0x09, 0x00, 0x00, 0x00],
   [0x00, 0x00, 0x40, 0xa0, 0x03, 0x02, 0x00, 0x09, 0x00, 0x00, 0x00, 0x00],
   [0x00, 0x40, 0x90, 0x40, 0x90, 0x04, 0xf8, 0x90, 0x40, 0x90, 0x40, 0x90],
   [0x04, 0xf7, 0x90, 0x04, 0xf6, 0x90, 0x40, 0x40, 0x41, 0x90, 0x04, 0xf5],
   [0x90, 0x04, 0xf4, 0x90, 0x04, 0xfc, 0x90, 0x04, 0xfb, 0x90, 0xb0, 0xa0],
   [0x04, 0xf2, 0x40, 0xa0, 0x04, 0xf3, 0x40, 0x40, 0x90, 0x40, 0x40, 0x41],
   [0x91, 0xb0, 0x04, 0xf1, 0x05, 0x01, 0x22, 0x05, 0x01, 0x21, 0xf0, 0x90],
   [0xd0, 0x40, 0x04, 0xeb, 0x08, 0x00, 0x00, 0x20, 0x00, 0x90, 0xa0, 0xa0],
   [0x40, 0x40, 0xa0, 0x40, 0x40, 0x90, 0x40, 0x90, 0x04, 0xe9, 0x90, 0x40],
   [0x90, 0x90, 0x90, 0x03, 0xd0, 0x3a, 0x77, 0x21, 0xef, 0xf3, 0x2e, 0xc0],
   [0x90, 0x04, 0xe8, 0x90, 0x04, 0xe7, 0x90, 0x40, 0x40, 0x41, 0x90, 0x04],
   [0xe6, 0x90, 0xa0, 0xa0, 0x03, 0x02, 0x00, 0x09, 0x00, 0x00, 0x00, 0x00],
   [0x00, 0x40, 0xa0, 0x03, 0x02, 0x00, 0x09, 0x00, 0x00, 0x00, 0x00, 0x00],
   [0x40, 0x90, 0x05, 0x01, 0xbd, 0x90, 0x05, 0x01, 0xbc, 0x90, 0xb0, 0x04],
   [0xe8, 0x04, 0xe6, 0x40, 0x90, 0x40, 0x40, 0x42, 0x40, 0x40, 0x43, 0x44],
   [0xb0, 0xb0, 0x90, 0x40, 0x90, 0x40, 0xa0, 0x04, 0x03, 0x04, 0x02, 0x04],
   [0x04, 0x40, 0x40, 0x84, 0x95, 0xa6, 0xbe, 0x00, 0x00, 0x0b, 0xf9, 0x00],
   [0x00, 0x02, 0xd5, 0x00, 0x00, 0x08, 0xf3, 0x00, 0x00, 0x08, 0xb0, 0xc0],
   [0x90, 0x40, 0xa0, 0x40, 0xd0, 0x40, 0xb0, 0x40, 0x22, 0x76, 0x63, 0x40],
   [0xa0, 0xd0, 0xd0, 0x40, 0xc2, 0xb0, 0x40, 0x22, 0x76, 0x63, 0x40, 0x40],
   [0xb0, 0xa0, 0x30, 0x72, 0x65, 0x63, 0x65, 0x6e, 0x74, 0x6c, 0x79, 0x5f],
   [0x64, 0x65, 0x6c, 0x65, 0x74, 0x65, 0x64, 0xa0, 0x23, 0x61, 0x70, 0x69],
   [0xa0, 0x25, 0x76, 0x69, 0x65, 0x77, 0x73, 0x40, 0xa0, 0x01, 0x00, 0xa1],
   [0x78, 0xa0, 0x01, 0x00, 0xa1, 0x7a, 0xa0, 0x90, 0xa0, 0x09, 0x3d, 0x72]] @
  [[0x65, 0x63, 0x65, 0x6e, 0x74, 0x6c, 0x79, 0x5f, 0x64, 0x65, 0x6c, 0x65],
   [0x74, 0x65, 0x64, 0x2e, 0x75, 0x74, 0x69, 0x6c, 0x73, 0x2e, 0x61, 0x73],
   [0x79, 0x6e, 0x63, 0x5f, 0x75, 0x73, 0x65, 0x72, 0x5f, 0x63, 0x61, 0x6e],
   [0x5f, 0x61, 0x63, 0x63, 0x65, 0x73, 0x73, 0x5f, 0x72, 0x65, 0x63, 0x65],
   [0x6e, 0x74, 0x6c, 0x79, 0x5f, 0x64, 0x65, 0x6c, 0x65, 0x74, 0x65, 0x64],
   [0x40, 0x40, 0xf0, 0x90, 0xd0, 0xd0, 0x40, 0x92, 0x2e, 0x45, 0x78, 0x65],
   [0x63, 0x49, 0x6d, 0x70, 0x6f, 0x72, 0x74, 0x53, 0x69, 0x6e, 0x6b, 0x08],
   [0x00, 0x00, 0x20, 0x00, 0x90, 0xa0, 0xa0, 0x03, 0x06, 0x00, 0x09, 0x23],
   [0x44, 0x06, 0x90, 0x80, 0x90, 0xc1, 0x40, 0x41, 0x90, 0x03, 0xff, 0xcd],
   [0xfb, 0xb4, 0xa9, 0x2a, 0x1c, 0x6c, 0x90, 0x03, 0x15, 0xc2, 0x79, 0xd2],
   [0xfc, 0x1c, 0x62, 0xc5, 0xa0, 0x03, 0x04, 0x00, 0x00, 0x03, 0x40, 0x00],
   [0x90, 0x00, 0x90, 0x90, 0x03, 0x15, 0xc2, 0x79, 0xd2, 0xfc, 0x1c, 0x62],
   [0xc5, 0x90, 0x40, 0x90, 0xa0, 0x03, 0x3f, 0xff, 0xff, 0xff, 0xff, 0xff],
   [0xff, 0xff, 0x40, 0x90, 0x45, 0x90, 0x90, 0x90, 0x03, 0x03, 0xbf, 0x10],
   [0x78, 0x3d, 0x0b, 0x02, 0xb7, 0x90, 0xa0, 0x40, 0x40, 0x90, 0xa0, 0x40],
   [0x40, 0x90, 0x40, 0x40, 0x41, 0x92, 0x2c, 0x47, 0x65, 0x6e, 0x65, 0x72],
   [0x61, 0x6c, 0x45, 0x6d, 0x61, 0x69, 0x6c, 0x08, 0x00, 0x00, 0x20, 0x00],
   [0x90, 0xa0, 0xa0, 0x03, 0x06, 0x02, 0x09, 0x21, 0x40, 0x05, 0x10, 0x00],
   [0x90, 0x90, 0x03, 0xff, 0xcd, 0xfb, 0xb4, 0xa9, 0x2a, 0x1c, 0x6c, 0xa0],
   [0x03, 0x04, 0x00, 0x00, 0x01, 0x00, 0x00, 0x10, 0x00, 0x90, 0x90, 0x03],
   [0xff, 0xcd, 0xfb, 0xb4, 0xa9, 0x2a, 0x1c, 0x6c, 0x90, 0x40, 0x90, 0x04],
   [0x17, 0x90, 0x42, 0x90, 0x90, 0x90, 0x03, 0xe7, 0x08, 0xa7, 0x98, 0x3d],
   [0x5b, 0x1e, 0xbe, 0x90, 0xa0, 0x40, 0x40, 0x04, 0x06, 0x9c, 0x90, 0xb0],
   [0xa0, 0x04, 0x0a, 0x9c, 0x90, 0xb0, 0xa0, 0x04, 0x0e, 0x9c, 0x90, 0xb0],
   [0xa0, 0x04, 0x12, 0x9c, 0x90, 0xb0, 0xa0, 0x04, 0x16, 0x9c, 0x90, 0xb0],
   [0xa0, 0x04, 0x1a, 0x9c, 0x90, 0xb0, 0xa0, 0x04, 0x1e, 0x9c, 0x90, 0xb0],
   [0xa0, 0x04, 0x22, 0x9c, 0x91, 0x05, 0x01, 0xa9, 0x05, 0x01, 0xa7, 0x40],
   [0x05, 0x01, 0xa5, 0x40, 0x05, 0x01, 0xa3, 0x40, 0x05, 0x01, 0xa1, 0x40],
   [0x05, 0x01, 0x9f, 0x40, 0x05, 0x01, 0x9d, 0x40, 0x05, 0x01, 0x8d, 0x40],
   [0x29, 0x5f, 0x5f, 0x73, 0x6c, 0x6f, 0x74, 0x73, 0x5f, 0x5f, 0x40, 0x40]] @
  [[0xa0, 0xa0, 0xa0, 0x01, 0x2d, 0x23, 0x50, 0xa0, 0x01, 0x2d, 0x23, 0x73],
   [0x92, 0xa0, 0xa0, 0xa0, 0xa0, 0x01, 0x2d, 0x23, 0x50, 0xa0, 0x01, 0x2d],
   [0x23, 0x66, 0x9c, 0x90, 0xb0, 0xa0, 0x04, 0x07, 0x92, 0xa0, 0xa0, 0xa0],
   [0xa0, 0x01, 0x2d, 0x23, 0x50, 0xa0, 0x01, 0x2d, 0x23, 0x54, 0x9c, 0x91],
   [0x24, 0x6c, 0x69, 0x73, 0x74, 0xa0, 0xa0, 0x40, 0xa0, 0xa0, 0xa0, 0x01],
   [0x2d, 0x23, 0x55, 0xa0, 0x01, 0x2d, 0x23, 0x65, 0x92, 0xa0, 0xa0, 0xa0],
   [0xa0, 0x01, 0x2d, 0x23, 0x55, 0xa0, 0x01, 0x2d, 0x23, 0x63, 0x9c, 0x90],
   [0xb0, 0xa0, 0xa0, 0xa0, 0x01, 0x2d, 0x23, 0x55, 0xa0, 0x01, 0x2d, 0x23],
   [0x5e, 0x9c, 0x90, 0xb0, 0xa0, 0x04, 0x07, 0x9c, 0x90, 0xb0, 0xa0, 0x04],
   [0x0b, 0x9c, 0x90, 0xb0, 0xa0, 0x04, 0x0f, 0x9c, 0x90, 0xb0, 0xa0, 0x04],
   [0x13, 0x9c, 0x90, 0xb0, 0xa0, 0x04, 0x17, 0x9c, 0x90, 0xb0, 0xa0, 0x04],
   [0x1b, 0x9c, 0x90, 0xb0, 0xa0, 0x04, 0x1f, 0x9c, 0x90, 0xb0, 0xa0, 0x04],
   [0x23, 0x9c, 0x91, 0x05, 0x01, 0xf6, 0x05, 0x01, 0xf4, 0x40, 0x05, 0x01],
   [0xf2, 0x40, 0x05, 0x01, 0xf0, 0x40, 0x05, 0x01, 0xee, 0x40, 0x05, 0x01],
   [0xec, 0x40, 0x05, 0x01, 0xea, 0x40, 0x05, 0x01, 0xda, 0x40, 0x05, 0x01],
   [0x94, 0x40, 0x24, 0x6b, 0x65, 0x79, 0x73, 0x40, 0x40, 0x40, 0x27, 0x5f],
   [0x5f, 0x61, 0x64, 0x64, 0x5f, 0x5f, 0x41, 0xa0, 0xa0, 0x40, 0xa0, 0xa0],
   [0xa0, 0x01, 0x2d, 0x23, 0x69, 0xa0, 0x01, 0x2d, 0x23, 0x73, 0x9a, 0xa0],
   [0xa0, 0xa0, 0xa0, 0x01, 0x2d, 0x23, 0x6a, 0xa0, 0x01, 0x2d, 0x23, 0x72],
   [0x94, 0x94, 0xa0, 0x26, 0x6b, 0x77, 0x61, 0x72, 0x67, 0x73, 0x40, 0x40],
   [0x40, 0xa0, 0xa0, 0xa0, 0xa0, 0x01, 0x2d, 0x25, 0x44, 0xa0, 0x01, 0x2d],
   [0x33, 0x5c, 0x93, 0xc0, 0x08, 0x00, 0x00, 0x20, 0x00, 0xa0, 0x05, 0x02],
   [0x11, 0xa0, 0x05, 0x02, 0x10, 0xa0, 0x05, 0x02, 0x0f, 0xa0, 0x05, 0x02],
   [0x0e, 0xa0, 0x05, 0x02, 0x0d, 0xa0, 0x05, 0x02, 0x0c, 0xa0, 0x05, 0x02],
   [0x0b, 0xa0, 0x05, 0x01, 0xfc, 0xa0, 0x28, 0x5f, 0x5f, 0x69, 0x6e, 0x69],
   [0x74, 0x5f, 0x5f, 0x40, 0xa0, 0xa0, 0xa0, 0xa0, 0x01, 0x2d, 0x25, 0x51],
   [0xa0, 0x01, 0x2d, 0x25, 0x55, 0xb0, 0x2f, 0x24, 0x70, 0x61, 0x72, 0x61],
   [0x6d, 0x65, 0x74, 0x65, 0x72, 0x24, 0x73, 0x65, 0x6c, 0x66, 0x40, 0x40],
   [0xa0, 0xa0, 0xa0, 0xa0, 0x01, 0x2d, 0x25, 0x57, 0xa0, 0x01, 0x2d, 0x25],
   [0x60, 0xb0, 0x34, 0x24, 0x70, 0x61, 0x72, 0x61, 0x6d, 0x65, 0x74, 0x65]] @
  [[0x72, 0x24, 0x61, 0x72, 0x67, 0x75, 0x6d, 0x65, 0x6e, 0x74, 0x73, 0x40],
   [0x40, 0xa0, 0xa0, 0xa0, 0xa0, 0x01, 0x2d, 0x25, 0x62, 0xa0, 0x01, 0x2d],
   [0x25, 0x65, 0xb0, 0x2e, 0x24, 0x70, 0x61, 0x72, 0x61, 0x6d, 0x65, 0x74],
   [0x65, 0x72, 0x24, 0x73, 0x65, 0x71, 0x90, 0xa0, 0xa0, 0xa0, 0x01, 0x2d],
   [0x25, 0x66, 0xa0, 0x01, 0x2d, 0x25, 0x68, 0x94, 0x90, 0x00, 0xff, 0x40],
   [0xa0, 0xa0, 0xa0, 0xa0, 0x01, 0x2d, 0x25, 0x6a, 0xa0, 0x01, 0x2d, 0x25],
   [0x7d, 0xb0, 0x3e, 0x24, 0x70, 0x61, 0x72, 0x61, 0x6d, 0x65, 0x74, 0x65],
   [0x72, 0x24, 0x75, 0x70, 0x64, 0x61, 0x74, 0x65, 0x5f, 0x69, 0x64, 0x73],
   [0x5f, 0x66, 0x72, 0x6f, 0x6d, 0x5f, 0x64, 0x61, 0x70, 0x90, 0xa0, 0xa0],
   [0xa0, 0x01, 0x2d, 0x25, 0x7e, 0xa0, 0x01, 0x2d, 0x25, 0x00, 0x43, 0x94],
   [0x42, 0x40, 0xa0, 0xa0, 0xa0, 0xa0, 0x01, 0x2d, 0x25, 0x00, 0x47, 0xa0],
   [0x01, 0x2d, 0x25, 0x00, 0x4d, 0xb0, 0x33, 0x2a, 0x2a, 0x24, 0x70, 0x61],
   [0x72, 0x61, 0x6d, 0x65, 0x74, 0x65, 0x72, 0x24, 0x6b, 0x77, 0x61, 0x72],
   [0x67, 0x73, 0x40, 0x40, 0x40, 0x40, 0x40, 0x40, 0x40, 0x90, 0xa0, 0x05],
   [0x02, 0x4c, 0xa0, 0x05, 0x02, 0x4b, 0xa0, 0x05, 0x02, 0x4a, 0xa0, 0x05],
   [0x02, 0x49, 0xa0, 0x05, 0x02, 0x48, 0xa0, 0x05, 0x02, 0x47, 0xa0, 0x05],
   [0x02, 0x46, 0x05, 0x02, 0x2b, 0x40, 0x40, 0x40, 0x40, 0xa0, 0xa0, 0xa0],
   [0xa0, 0x01, 0x2d, 0x36, 0x44, 0xa0, 0x01, 0x2d, 0x42, 0x52, 0x93, 0xc0],
   [0x08, 0x00, 0x00, 0x20, 0x00, 0xa0, 0x05, 0x02, 0x5b, 0xa0, 0x05, 0x02],
   [0x5a, 0xa0, 0x05, 0x02, 0x59, 0xa0, 0x05, 0x02, 0x58, 0xa0, 0x05, 0x02],
   [0x57, 0xa0, 0x05, 0x02, 0x56, 0xa0, 0x05, 0x02, 0x55, 0xa0, 0x05, 0x02],
   [0x46, 0xa0, 0x27, 0x74, 0x6f, 0x5f, 0x64, 0x69, 0x63, 0x74, 0x40, 0xa0],
   [0xa0, 0xa0, 0xa0, 0x01, 0x2d, 0x36, 0x50, 0xa0, 0x01, 0x2d, 0x36, 0x54],
   [0xb0, 0x2f, 0x24, 0x70, 0x61, 0x72, 0x61, 0x6d, 0x65, 0x74, 0x65, 0x72],
   [0x24, 0x73, 0x65, 0x6c, 0x66, 0x40, 0x40, 0xa0, 0xa0, 0xa0, 0xa0, 0x01],
   [0x2d, 0x36, 0x56, 0xa0, 0x01, 0x2d, 0x36, 0x67, 0xb0, 0x3c, 0x24, 0x70],
   [0x61, 0x72, 0x61, 0x6d, 0x65, 0x74, 0x65, 0x72, 0x24, 0x75, 0x70, 0x64],
   [0x61, 0x74, 0x65, 0x5f, 0x69, 0x64, 0x73, 0x5f, 0x74, 0x6f, 0x5f, 0x64],
   [0x61, 0x70, 0x90, 0xa0, 0xa0, 0xa0, 0x01, 0x2d, 0x36, 0x68, 0xa0, 0x01],
   [0x2d, 0x36, 0x6d, 0x94, 0x42, 0x40, 0x40, 0x40, 0x40, 0x40, 0x40, 0x90]] @
  [[0x04, 0x2e, 0x40, 0x40, 0x40, 0x40, 0x40, 0x40, 0x84, 0x95, 0xa6, 0xbe],
   [0x00, 0x00, 0x00, 0x05, 0x00, 0x00, 0x00, 0x02, 0x00, 0x00, 0x00, 0x06],
   [0x00, 0x00, 0x00, 0x06, 0xa0, 0x40, 0xa0, 0x41, 0x40, 0x84, 0x95, 0xa6],
   [0xbe, 0x00, 0x00, 0x00, 0x43, 0x00, 0x00, 0x00, 0x02, 0x00, 0x00, 0x00],
   [0x16, 0x00, 0x00, 0x00, 0x0e, 0xc0, 0x40, 0x09, 0x3d, 0x66, 0x62, 0x63],
   [0x6f, 0x64, 0x65, 0x2e, 0x66, 0x61, 0x63, 0x65, 0x62, 0x6f, 0x6f, 0x6b],
   [0x2e, 0x74, 0x68, 0x72, 0x69, 0x66, 0x74, 0x2e, 0x61, 0x6e, 0x6e, 0x6f],
   [0x74, 0x61, 0x74, 0x69, 0x6f, 0x6e, 0x2e, 0x70, 0x79, 0x74, 0x68, 0x6f],
   [0x6e, 0x2e, 0x74, 0x68, 0x72, 0x69, 0x66, 0x74, 0x5f, 0x74, 0x79, 0x70],
   [0x65, 0x73, 0x2e, 0x41, 0x64, 0x61, 0x70, 0x74, 0x65, 0x72, 0x40, 0x41],
   [0x84, 0x95, 0xa6, 0xbe, 0x00, 0x00, 0x00, 0x46, 0x00, 0x00, 0x00, 0x0d],
   [0x00, 0x00, 0x00, 0x2c, 0x00, 0x00, 0x00, 0x25, 0x92, 0xb1, 0xa0, 0x23],
   [0x64, 0x73, 0x69, 0xa0, 0x26, 0x6c, 0x6f, 0x67, 0x67, 0x65, 0x72, 0xa0],
   [0x23, 0x70, 0x79, 0x33, 0xa0, 0x34, 0x6c, 0x6f, 0x67, 0x5f, 0x72, 0x65],
   [0x71, 0x75, 0x65, 0x73, 0x74, 0x5f, 0x6d, 0x65, 0x74, 0x61, 0x64, 0x61],
   [0x74, 0x61, 0xa0, 0x25, 0x74, 0x79, 0x70, 0x65, 0x73, 0x40, 0x32, 0x4c],
   [0x6f, 0x67, 0x52, 0x65, 0x71, 0x75, 0x65, 0x73, 0x74, 0x4d, 0x65, 0x74],
   [0x61, 0x64, 0x61, 0x74, 0x61, 0x41, 0x84, 0x95, 0xa6, 0xbe, 0x00, 0x25],
   [0x90, 0x47, 0x90, 0x90, 0x90, 0x03, 0x0a, 0xca, 0xb8, 0x8e, 0xf6, 0x55],
   [0x70, 0xf6, 0x90, 0xa0, 0x03, 0xc0, 0x00, 0x08, 0x00, 0x00, 0x00, 0x50],
   [0x00, 0x90, 0xc1, 0x40, 0x41, 0x90, 0x03, 0xd8, 0xd1, 0x1b, 0xe3, 0x4c],
   [0x83, 0x0a, 0xf8, 0xc1, 0x41, 0x42, 0x90, 0x03, 0xc5, 0x47, 0xe8, 0x0b],
   [0x3e, 0xf2, 0x3b, 0x91, 0x90, 0x03, 0xf8, 0x90, 0xf7, 0x43, 0x21, 0xac],
   [0x6d, 0xf7, 0x90, 0xa0, 0x40, 0x40, 0x90, 0x40, 0xd0, 0x40, 0xb5, 0x40],
   [0xa0, 0x91, 0xa0, 0x90, 0xc0, 0x40, 0x90, 0x23, 0x50, 0x49, 0x49, 0xc0],
   [0x40, 0x90, 0x2c, 0x52, 0x65, 0x73, 0x70, 0x6f, 0x6e, 0x73, 0x65, 0x44],
   [0x61, 0x74, 0x61, 0x40, 0x41, 0x42, 0x90, 0x40, 0x40, 0x92, 0x27, 0x4c],
   [0x6f, 0x67, 0x67, 0x69, 0x6e, 0x67, 0x08, 0x00, 0x00, 0x20, 0x00, 0x90],
   [0xa0, 0xa0, 0x03, 0xc6, 0x06, 0x09, 0x23, 0x4c, 0x0f, 0x93, 0x80, 0x90],
   [0x04, 0x27, 0xa0, 0x03, 0x00, 0x00, 0x00, 0x01, 0x00, 0x00, 0x01, 0x00]]"

definition dictionary_rows_7 :: "u8 list list" where
  "dictionary_rows_7 =
  [[0x40, 0x90, 0x40, 0x90, 0x05, 0x08, 0x4b, 0x90, 0x4b, 0x90, 0x90, 0xc1],
   [0x40, 0x41, 0xc1, 0x40, 0x42, 0xc1, 0x40, 0x44, 0xc1, 0x40, 0x48, 0x90],
   [0x03, 0x08, 0x9c, 0xed, 0x7a, 0x54, 0xe3, 0x9c, 0x80, 0xc1, 0x48, 0x50],
   [0x05, 0x01, 0xdd, 0xc1, 0x58, 0x60, 0x90, 0x03, 0xcf, 0x7c, 0x22, 0x41],
   [0xcd, 0x3e, 0xea, 0xd8, 0x90, 0x03, 0xd6, 0x63, 0x7c, 0x89, 0xab, 0x27],
   [0xda, 0xf8, 0xc1, 0x4c, 0x50, 0xc1, 0x4c, 0x60, 0x90, 0x03, 0xec, 0x45],
   [0xb4, 0xa2, 0x1c, 0x3f, 0x6b, 0x0c, 0x90, 0x03, 0xf9, 0x2d, 0x54, 0x3f],
   [0x75, 0x0d, 0xf8, 0x6c, 0xc1, 0x7c, 0x00, 0x40, 0x90, 0x03, 0xfd, 0xa9],
   [0x9e, 0x14, 0x22, 0x5d, 0x22, 0x3c, 0xc1, 0x00, 0x7c, 0x01, 0x00, 0x80],
   [0x90, 0x03, 0xcf, 0x3b, 0xff, 0x81, 0x40, 0x4b, 0xf3, 0x7c, 0x90, 0x03],
   [0x22, 0x67, 0xea, 0x7d, 0x02, 0xe0, 0x8b, 0xfc, 0xc1, 0x42, 0x44, 0xc1],
   [0x42, 0x48, 0x90, 0x03, 0xc7, 0x31, 0xd5, 0xdf, 0x2b, 0x29, 0x73, 0x42],
   [0x05, 0x01, 0xa4, 0xc1, 0x46, 0x48, 0xc1, 0x66, 0x00, 0x40, 0x05, 0x01],
   [0x93, 0x05, 0x01, 0x92, 0xc1, 0x4e, 0x50, 0x05, 0x01, 0x87, 0xc1, 0x7e],
   [0x00, 0x40, 0xc1, 0x01, 0x01, 0x3e, 0x01, 0x02, 0x00, 0x90, 0x03, 0x27],
   [0x62, 0x24, 0x56, 0x2c, 0x75, 0x41, 0x3e, 0x90, 0x03, 0x3e, 0xb8, 0x59],
   [0xa3, 0xfb, 0xfa, 0x2b, 0x3e, 0x05, 0x01, 0x7d, 0xc1, 0x41, 0x42, 0xc1],
   [0x41, 0x44, 0xc1, 0x41, 0x50, 0x90, 0x03, 0xe0, 0x31, 0xb5, 0xad, 0xce],
   [0x51, 0x78, 0xe1, 0x05, 0x01, 0x73, 0xc1, 0x45, 0x48, 0xc1, 0x45, 0x50],
   [0xc1, 0x65, 0x00, 0x40, 0x05, 0x01, 0x5a, 0x05, 0x01, 0x57, 0x90, 0x03],
   [0x30, 0x40, 0x75, 0xa0, 0xd5, 0x07, 0x08, 0xd5, 0xc1, 0x4d, 0x50, 0xc1],
   [0x4d, 0x60, 0x90, 0x03, 0x1e, 0xa1, 0x2f, 0x75, 0x57, 0x3e, 0x50, 0x0d],
   [0xc1, 0x6d, 0x00, 0x40, 0x05, 0x01, 0x4b, 0x05, 0x01, 0x4a, 0xc1, 0x5d],
   [0x60, 0x90, 0x03, 0xf5, 0x72, 0xcc, 0x1f, 0x60, 0x20, 0xf3, 0xdd, 0x05],
   [0x01, 0x45, 0xc1, 0x43, 0x44, 0xc1, 0x43, 0x48, 0x90, 0x03, 0x32, 0xa9],
   [0x93, 0x42, 0xc6, 0x96, 0xc6, 0xe3, 0xc1, 0x4b, 0x50, 0xc1, 0x4b, 0x60],
   [0xc1, 0x4b, 0x00, 0x40, 0x90, 0x03, 0xee, 0x29, 0xcd, 0x6b, 0xda, 0x8f],
   [0xe3, 0x0b, 0x90, 0x03, 0x36, 0x40, 0xcb, 0xb7, 0x9c, 0x05, 0x72, 0x4b],
   [0xc1, 0x6b, 0x01, 0x00, 0x80, 0x90, 0x03, 0xc2, 0xe1, 0x80, 0x8f, 0x40],
   [0x7c, 0x13, 0x2b, 0x90, 0x03, 0xde, 0x93, 0xd3, 0x08, 0xe8, 0x1c, 0xa6]] @
  [[0xab, 0x05, 0x01, 0x25, 0xc1, 0x47, 0x48, 0x90, 0x03, 0xc2, 0xcf, 0xb6],
   [0x14, 0x29, 0x2b, 0x45, 0xe7, 0xc1, 0x5f, 0x01, 0x00, 0x80, 0x05, 0x01],
   [0x13, 0x90, 0x03, 0xc9, 0xdb, 0x68, 0x08, 0x3d, 0x87, 0x23, 0x9f, 0x90],
   [0xa0, 0x03, 0x00, 0x00, 0x08, 0x00, 0x00, 0x00, 0x50, 0x00, 0x90, 0xc1],
   [0x40, 0x41, 0xc1, 0x40, 0x42, 0xc1, 0x40, 0x44, 0xc1, 0x40, 0x48, 0xc1],
   [0x40, 0x50, 0x05, 0x01, 0x08, 0x90, 0x03, 0x15, 0xa2, 0x91, 0x0c, 0xc8],
   [0x62, 0xe2, 0xd0, 0xc1, 0x48, 0x50, 0x05, 0x01, 0x03, 0x90, 0x03, 0xc7],
   [0x5a, 0x6b, 0xcd, 0x2e, 0x07, 0xed, 0x38, 0xc1, 0x44, 0x48, 0xc1, 0x44],
   [0x50, 0x90, 0x03, 0xe0, 0x60, 0x28, 0xae, 0xd2, 0x3d, 0x95, 0x44, 0x90],
   [0x03, 0x1a, 0xba, 0x9c, 0x44, 0xfa, 0xc7, 0xa5, 0x14, 0x90, 0x03, 0x38],
   [0x5f, 0x50, 0x2d, 0xdc, 0x47, 0x35, 0x6c, 0xc1, 0x42, 0x44, 0x90, 0x03],
   [0xe9, 0x2e, 0x5c, 0xe7, 0x17, 0xef, 0x73, 0x4a, 0x04, 0xe4, 0xc1, 0x41],
   [0x42, 0xc1, 0x41, 0x48, 0xc1, 0x41, 0x50, 0x90, 0x03, 0xd6, 0x5c, 0xa4],
   [0x27, 0x3b, 0x57, 0xf8, 0xa1, 0xc1, 0x51, 0x60, 0x04, 0xe0, 0xc1, 0x71],
   [0x00, 0x40, 0x90, 0x03, 0xc1, 0x22, 0xe6, 0xf9, 0x13, 0xb1, 0x0e, 0xb1],
   [0x90, 0x03, 0x34, 0xaa, 0xb7, 0x86, 0x3e, 0x81, 0xb7, 0xf1, 0x90, 0x03],
   [0x24, 0xe6, 0x17, 0xd4, 0x37, 0xbd, 0x09, 0xf9, 0xc1, 0x43, 0x48, 0xc1],
   [0x43, 0x50, 0x04, 0xc5, 0x04, 0xc4, 0xc1, 0x4b, 0x50, 0xc1, 0x6b, 0x00],
   [0x40, 0xc1, 0x6b, 0x01, 0x00, 0x80, 0x90, 0x03, 0xfc, 0x14, 0xe9, 0xae],
   [0x7b, 0x41, 0x15, 0x2b, 0x04, 0xbd, 0x04, 0xbc, 0x04, 0xb8, 0x90, 0xa0],
   [0x40, 0x40, 0x90, 0x40, 0x40, 0x41, 0x42, 0x43, 0x90, 0x05, 0x03, 0xa0],
   [0x90, 0xa0, 0xa0, 0x40, 0x40, 0xa0, 0x40, 0x40, 0x90, 0xa0, 0x40, 0x40],
   [0x90, 0xa0, 0x40, 0x40, 0x90, 0xb0, 0xa0, 0x05, 0x08, 0x83, 0x40, 0xa0],
   [0x05, 0x08, 0x84, 0x40, 0x40, 0x90, 0x40, 0x40, 0x43, 0x44, 0x40, 0x40],
   [0x42, 0xb0, 0xb0, 0x90, 0x40, 0x90, 0x40, 0xa0, 0x04, 0x03, 0x04, 0x02],
   [0x04, 0x04, 0x40, 0x40, 0x84, 0x95, 0xa6, 0xbe, 0x00, 0x00, 0x00, 0x02],
   [0x00, 0x00, 0x00, 0x01, 0x00, 0x00, 0x00, 0x02, 0x00, 0x00, 0x00, 0x02],
   [0x95, 0x4a, 0x84, 0x95, 0xa6, 0xbe, 0x00, 0x00, 0x00, 0x03, 0x00, 0x00],
   [0x00, 0x01, 0x00, 0x00, 0x00, 0x02, 0x00, 0x00, 0x00, 0x02, 0x22, 0x69],
   [0x64, 0x84, 0x95, 0xa6, 0xbe, 0x00, 0x00, 0x00, 0x0a, 0x00, 0x00, 0x00]] @
  [[0x01, 0x00, 0x00, 0x00, 0x04, 0x00, 0x00, 0x00, 0x03, 0x29, 0x3c, 0x75],
   [0x6e, 0x6b, 0x6e, 0x6f, 0x77, 0x6e, 0x3e, 0x84, 0x95, 0xa6, 0xbe, 0x00],
   [0x00, 0x00, 0x72, 0x00, 0x00, 0x00, 0x09, 0x00, 0x00, 0x00, 0x2f, 0x00],
   [0x00, 0x00, 0x22, 0x92, 0xb1, 0xa0, 0x2a, 0x69, 0x67, 0x5f, 0x6e, 0x6f],
   [0x64, 0x65, 0x61, 0x70, 0x69, 0xa0, 0x25, 0x65, 0x64, 0x67, 0x65, 0x73],
   [0xa0, 0x09, 0x28, 0x68, 0x6f, 0x74, 0x5f, 0x70, 0x6f, 0x73, 0x74, 0x5f],
   [0x64, 0x65, 0x74, 0x61, 0x69, 0x6c, 0x73, 0x5f, 0x6f, 0x6e, 0x5f, 0x63],
   [0x75, 0x74, 0x6f, 0x75, 0x74, 0x5f, 0x73, 0x74, 0x69, 0x63, 0x6b, 0x65],
   [0x72, 0x5f, 0x6d, 0x65, 0x64, 0x69, 0x61, 0x40, 0x09, 0x2e, 0x45, 0x64],
   [0x67, 0x65, 0x53, 0x65, 0x6c, 0x65, 0x63, 0x74, 0x6f, 0x72, 0x48, 0x6f],
   [0x74, 0x50, 0x6f, 0x73, 0x74, 0x44, 0x65, 0x74, 0x61, 0x69, 0x6c, 0x73],
   [0x4f, 0x6e, 0x43, 0x75, 0x74, 0x6f, 0x75, 0x74, 0x53, 0x74, 0x69, 0x63],
   [0x6b, 0x65, 0x72, 0x4d, 0x65, 0x64, 0x69, 0x61, 0x41, 0x84, 0x95, 0xa6],
   [0xbe, 0x00, 0x00, 0x92, 0x11, 0x82, 0x5a, 0xdb, 0x90, 0x03, 0xd4, 0x77],
   [0x4f, 0xc1, 0x6f, 0x0c, 0x7a, 0x8f, 0xa0, 0x03, 0x00, 0x00, 0x00, 0x01],
   [0x40, 0x00, 0x00, 0x00, 0x40, 0x90, 0x40, 0x90, 0x05, 0x06, 0x9d, 0x90],
   [0x42, 0x90, 0x90, 0xc1, 0x40, 0x42, 0x90, 0x03, 0x0b, 0xd1, 0xad, 0xd1],
   [0x97, 0xaa, 0x58, 0xf4, 0x90, 0x03, 0x0a, 0xca, 0xb8, 0x8e, 0xf6, 0x55],
   [0x70, 0xf6, 0x90, 0xa0, 0x03, 0xc0, 0x81, 0x08, 0x30, 0x01, 0x00, 0x50],
   [0x41, 0x90, 0xc1, 0x40, 0x41, 0xc1, 0x40, 0x42, 0xc1, 0x40, 0x44, 0xc1],
   [0x40, 0x48, 0xc1, 0x40, 0x50, 0x90, 0x03, 0xc2, 0xa9, 0xee, 0x10, 0x67],
   [0x1b, 0x19, 0x60, 0x90, 0x03, 0xe9, 0x8a, 0xd6, 0x8e, 0x9e, 0x10, 0x0b],
   [0xb0, 0xc1, 0x48, 0x50, 0x90, 0x03, 0x11, 0xbc, 0xfd, 0x64, 0x19, 0x73],
   [0x03, 0x48, 0xc1, 0x78, 0x00, 0x40, 0x90, 0x03, 0x01, 0xf6, 0xeb, 0xba],
   [0x67, 0x49, 0xbe, 0xb8, 0x90, 0x03, 0xd8, 0xd1, 0x1b, 0xe3, 0x4c, 0x83],
   [0x0a, 0xf8, 0xc1, 0x44, 0x48, 0xc1, 0x44, 0x50, 0x90, 0x03, 0xec, 0x9c],
   [0x3d, 0x97, 0x84, 0x88, 0xc2, 0xe4, 0xc1, 0x74, 0x00, 0x40, 0x90, 0x03],
   [0xd3, 0x61, 0x41, 0x12, 0xf6, 0x5b, 0xcd, 0xb4, 0x90, 0x03, 0x01, 0xa4],
   [0x67, 0x11, 0x2f, 0x9e, 0x6c, 0x74, 0xc1, 0x4c, 0x50, 0x90, 0x03, 0x20],
   [0xa3, 0xa9, 0x67, 0x10, 0x82, 0xc1, 0x8c, 0x90, 0x03, 0x37, 0x4e, 0xe1]] @
  [[0x86, 0x07, 0x06, 0x35, 0x7c, 0xc1, 0x42, 0x44, 0xc1, 0x42, 0x48, 0xc1],
   [0x42, 0x00, 0x40, 0x90, 0x03, 0xe5, 0x31, 0x01, 0x21, 0x04, 0xf6, 0xa9],
   [0x82, 0x90, 0x03, 0xec, 0x26, 0x78, 0x5a, 0xd3, 0xee, 0xf4, 0x42, 0xc1],
   [0x4a, 0x50, 0x90, 0x03, 0xd2, 0xca, 0x7e, 0x59, 0x9c, 0xe8, 0xdb, 0xea],
   [0xc1, 0x5a, 0x00, 0x40, 0xc1, 0x5a, 0x01, 0x00, 0x80, 0x90, 0x03, 0x06],
   [0x74, 0x7f, 0xf4, 0x87, 0x0f, 0x1a, 0x1a, 0xc1, 0x01, 0x01, 0x9a, 0x01],
   [0x02, 0x00, 0x90, 0x03, 0xfb, 0x07, 0x34, 0x51, 0x51, 0x77, 0xbd, 0x9a],
   [0x90, 0x03, 0xd5, 0x70, 0xfa, 0x89, 0x0a, 0x32, 0xdb, 0x9a, 0xc1, 0x00],
   [0x5a, 0x01, 0x00, 0x80, 0x90, 0x03, 0x1f, 0x92, 0x5c, 0x6f, 0x69, 0x69],
   [0x13, 0x5a, 0x90, 0x03, 0x15, 0xdc, 0x2d, 0x42, 0x84, 0x91, 0xff, 0xda],
   [0xc1, 0x46, 0x48, 0xc1, 0x46, 0x50, 0xc1, 0x46, 0x60, 0x90, 0x03, 0xd9],
   [0xc1, 0x73, 0x0b, 0xe3, 0xd5, 0x53, 0x06, 0x90, 0x03, 0xe3, 0xf7, 0x49],
   [0xa2, 0x78, 0x4e, 0x78, 0x26, 0xc1, 0x56, 0x60, 0xc1, 0x56, 0x00, 0x40],
   [0x90, 0x03, 0xe5, 0xc6, 0x6d, 0x7e, 0xe2, 0x98, 0x4c, 0x16, 0x90, 0x03],
   [0x16, 0x9e, 0x0c, 0x06, 0x61, 0x10, 0x1a, 0xd6, 0x90, 0x03, 0x1d, 0x6b],
   [0x17, 0x67, 0xd0, 0x2a, 0x0d, 0x36, 0xc1, 0x4e, 0x50, 0xc1, 0x4e, 0x60],
   [0xc1, 0x4e, 0x00, 0x40, 0x90, 0x03, 0x12, 0xb4, 0xc6, 0xc9, 0xec, 0xfd],
   [0x7f, 0x8e, 0x90, 0x03, 0x1e, 0xae, 0x1e, 0x5c, 0x76, 0xd4, 0x5d, 0xce],
   [0x90, 0x03, 0xfe, 0x53, 0xdb, 0x15, 0x4c, 0x7b, 0x4c, 0x6e, 0x90, 0x03],
   [0x3a, 0xa2, 0x21, 0x75, 0xa6, 0xb6, 0xb9, 0xde, 0xc1, 0x41, 0x42, 0xc1],
   [0x41, 0x44, 0xc1, 0x41, 0x48, 0x90, 0x03, 0xc5, 0x47, 0xe8, 0x0b, 0x3e],
   [0xf2, 0x3b, 0x91, 0xc1, 0x00, 0x69, 0x01, 0x00, 0x80, 0x90, 0x03, 0x2a],
   [0x2f, 0xce, 0x80, 0x47, 0xc1, 0x8c, 0x69, 0xc1, 0x01, 0x00, 0xe9, 0x01],
   [0x01, 0x00, 0x90, 0x03, 0x22, 0x03, 0x52, 0xcf, 0x79, 0x6c, 0x56, 0xe9],
   [0x90, 0x03, 0xff, 0x78, 0x5a, 0x2e, 0x71, 0x9b, 0xf7, 0xe9, 0xc1, 0x45],
   [0x48, 0xc1, 0x45, 0x50, 0x90, 0x03, 0x1f, 0x3d, 0x51, 0x25, 0xdf, 0x7c],
   [0x7e, 0x25, 0xc1, 0x55, 0x60, 0x90, 0x03, 0xc3, 0x3b, 0x32, 0xf0, 0xcb],
   [0xe2, 0xac, 0xd5, 0x90, 0x03, 0xf0, 0x49, 0xa6, 0x24, 0xae, 0xa4, 0xde],
   [0xb5, 0xc1, 0x5d, 0x60, 0x90, 0x03, 0x1e, 0xa7, 0x95, 0x07, 0xc1, 0xd4],
   [0x9d, 0xdd, 0x90, 0x03, 0x24, 0x61, 0x39, 0xf5, 0x50, 0xfa, 0x69, 0x7d]] @
  [[0xc1, 0x43, 0x44, 0xc1, 0x43, 0x48, 0xc1, 0x73, 0x00, 0x40, 0x90, 0x03],
   [0xe2, 0xd8, 0xda, 0x28, 0x79, 0x98, 0x94, 0xb3, 0x90, 0x03, 0xc8, 0x63],
   [0x08, 0x06, 0x58, 0x1d, 0xb6, 0xf3, 0x90, 0x03, 0x2b, 0xee, 0xe3, 0x84],
   [0x64, 0x8a, 0xfc, 0x1b, 0xc1, 0x47, 0x48, 0x90, 0x03, 0xf8, 0x90, 0xf7],
   [0x43, 0x21, 0xac, 0x6d, 0xf7, 0xc1, 0x4f, 0x50, 0xc1, 0x4f, 0x00, 0x40],
   [0x90, 0x03, 0xd2, 0xec, 0xfe, 0x7e, 0x3d, 0xa3, 0xc5, 0x0f, 0x90, 0x03],
   [0x01, 0xca, 0x4c, 0x7e, 0x5f, 0xb1, 0xb5, 0x4f, 0xc1, 0x5f, 0x60, 0xc1],
   [0x00, 0x5f, 0x01, 0x00, 0x80, 0xc1, 0x00, 0x5f, 0x01, 0x01, 0x00, 0x90],
   [0x03, 0x07, 0x0a, 0x6d, 0xfe, 0x04, 0x54, 0x68, 0x5f, 0x90, 0x03, 0x32],
   [0xe7, 0x0b, 0x13, 0xa9, 0x72, 0xd5, 0x5f, 0x90, 0x03, 0x0a, 0x0c, 0xf7],
   [0x4b, 0xef, 0x51, 0x73, 0xdf, 0x90, 0x03, 0x3a, 0xa8, 0x49, 0x73, 0x47],
   [0xe5, 0x4d, 0xbf, 0x90, 0xa0, 0x40, 0x40, 0x90, 0x40, 0x40, 0x41, 0x05],
   [0x06, 0xfa, 0x05, 0x06, 0xf8, 0x05, 0x06, 0xf5, 0x05, 0x06, 0xf4, 0x05],
   [0x06, 0xf3, 0x05, 0x06, 0xee, 0x40, 0x41, 0x04, 0x93, 0xc0, 0x40, 0x05],
   [0x07, 0x1c, 0x40, 0x41, 0x05, 0x06, 0xed, 0x40, 0x42, 0xb0, 0x01, 0x13],
   [0x96, 0x91, 0xb0, 0x09, 0x6a, 0x61, 0x63, 0x63, 0x6f, 0x75, 0x6e, 0x74],
   [0x73, 0x2e, 0x63, 0x6f, 0x6e, 0x74, 0x72, 0x6f, 0x6c, 0x6c, 0x65, 0x72],
   [0x73, 0x2e, 0x63, 0x72, 0x65, 0x61, 0x74, 0x65, 0x5f, 0x62, 0x75, 0x73],
   [0x69, 0x6e, 0x65, 0x73, 0x73, 0x5f, 0x61, 0x63, 0x63, 0x6f, 0x75, 0x6e],
   [0x74, 0x5f, 0x76, 0x61, 0x6c, 0x69, 0x64, 0x61, 0x74, 0x65, 0x64, 0x5f],
   [0x63, 0x6f, 0x6e, 0x74, 0x72, 0x6f, 0x6c, 0x6c, 0x65, 0x72, 0x2e, 0x43],
   [0x72, 0x65, 0x61, 0x74, 0x65, 0x42, 0x75, 0x73, 0x69, 0x6e, 0x65, 0x73],
   [0x73, 0x41, 0x63, 0x63, 0x6f, 0x75, 0x6e, 0x74, 0x56, 0x61, 0x6c, 0x69],
   [0x64, 0x61, 0x74, 0x65, 0x64, 0x43, 0x6f, 0x6e, 0x74, 0x72, 0x6f, 0x6c],
   [0x6c, 0x65, 0x72, 0x05, 0x08, 0x3d, 0x40, 0xb0, 0x91, 0xb0, 0x09, 0x4e],
   [0x61, 0x63, 0x63, 0x6f, 0x75, 0x6e, 0x74, 0x73, 0x2e, 0x70, 0x68, 0x6f],
   [0x6e, 0x65, 0x5f, 0x72, 0x65, 0x67, 0x69, 0x73, 0x74, 0x72, 0x61, 0x74],
   [0x69, 0x6f, 0x6e, 0x5f, 0x61, 0x75, 0x74, 0x6f, 0x5f, 0x6c, 0x6f, 0x67],
   [0x69, 0x6e, 0x5f, 0x68, 0x65, 0x6c, 0x70, 0x65, 0x72, 0x2e, 0x50, 0x68],
   [0x6f, 0x6e, 0x65, 0x52, 0x65, 0x67, 0x69, 0x73, 0x74, 0x72, 0x61, 0x74]]"

definition dictionary_rows_8 :: "u8 list list" where
  "dictionary_rows_8 =
  [[0x69, 0x6f, 0x6e, 0x41, 0x75, 0x74, 0x6f, 0x4c, 0x6f, 0x67, 0x69, 0x6e],
   [0x48, 0x65, 0x6c, 0x70, 0x65, 0x72, 0x09, 0x3f, 0x61, 0x73, 0x79, 0x6e],
   [0x63, 0x5f, 0x6c, 0x6f, 0x67, 0x69, 0x6e, 0x5f, 0x72, 0x65, 0x73, 0x70],
   [0x6f, 0x6e, 0x73, 0x65, 0x5f, 0x69, 0x66, 0x5f, 0x70, 0x68, 0x6f, 0x6e],
   [0x65, 0x5f, 0x6e, 0x75, 0x6d, 0x62, 0x65, 0x72, 0x5f, 0x70, 0x61, 0x73],
   [0x73, 0x77, 0x6f, 0x72, 0x64, 0x5f, 0x72, 0x65, 0x67, 0x69, 0x73, 0x74],
   [0x65, 0x72, 0x65, 0x64, 0x5f, 0x73, 0x69, 0x6c, 0x65, 0x6e, 0x74, 0x40],
   [0x40, 0x91, 0x38, 0x61, 0x64, 0x64, 0x69, 0x74, 0x69, 0x6f, 0x6e, 0x61],
   [0x6c, 0x5f, 0x72, 0x65, 0x73, 0x70, 0x6f, 0x00, 0x00, 0x00, 0x0b, 0x00],
   [0x00, 0x00, 0x2a, 0x00, 0x00, 0x00, 0x22, 0xa0, 0xa0, 0x28, 0x69, 0x67],
   [0x5f, 0x76, 0x69, 0x64, 0x65, 0x6f, 0xa0, 0x23, 0x78, 0x70, 0x76, 0xa0],
   [0x2e, 0x62, 0x69, 0x74, 0x72, 0x61, 0x74, 0x65, 0x5f, 0x6c, 0x61, 0x64],
   [0x64, 0x65, 0x72, 0xa0, 0x35, 0x78, 0x70, 0x76, 0x5f, 0x64, 0x61, 0x73],
   [0x68, 0x69, 0x66, 0x79, 0x5f, 0x70, 0x72, 0x6f, 0x63, 0x65, 0x73, 0x73],
   [0x6f, 0x72, 0xa0, 0x33, 0x58, 0x50, 0x56, 0x44, 0x61, 0x73, 0x68, 0x69],
   [0x66, 0x79, 0x50, 0x72, 0x6f, 0x63, 0x65, 0x73, 0x73, 0x6f, 0x72, 0x40],
   [0x40, 0x84, 0x95, 0xa6, 0xbe, 0x00, 0x00, 0x06, 0xf5, 0x00, 0x00, 0x01],
   [0xc7, 0x00, 0x00, 0x05, 0x83, 0x00, 0x00, 0x05, 0x22, 0xb0, 0xa0, 0x2a],
   [0x77, 0x77, 0x77, 0x67, 0x72, 0x61, 0x70, 0x68, 0x71, 0x6c, 0xa0, 0x30],
   [0x71, 0x75, 0x65, 0x72, 0x69, 0x65, 0x73, 0x5f, 0x66, 0x61, 0x63, 0x65],
   [0x62, 0x6f, 0x6f, 0x6b, 0xa0, 0x28, 0x62, 0x75, 0x73, 0x69, 0x6e, 0x65],
   [0x73, 0x73, 0xa0, 0x09, 0x21, 0x62, 0x75, 0x73, 0x69, 0x6e, 0x65, 0x73],
   [0x73, 0x5f, 0x67, 0x65, 0x74, 0x5f, 0x6f, 0x77, 0x6e, 0x65, 0x72, 0x5f],
   [0x62, 0x69, 0x7a, 0x5f, 0x6d, 0x61, 0x6e, 0x61, 0x67, 0x65, 0x72, 0x5f],
   [0x69, 0x64, 0x40, 0x90, 0xa0, 0xa0, 0xa0, 0x01, 0x00, 0x82, 0x44, 0xa0],
   [0x01, 0x00, 0x8b, 0x49, 0xc0, 0x08, 0x00, 0x00, 0x20, 0x00, 0xa0, 0x04],
   [0x0f, 0xa0, 0x04, 0x0e, 0xa0, 0x04, 0x0d, 0xa0, 0x04, 0x0c, 0xa0, 0x09],
   [0x25, 0x49, 0x6e, 0x73, 0x74, 0x61, 0x67, 0x72, 0x61, 0x6d, 0x42, 0x75],
   [0x73, 0x69, 0x6e, 0x65, 0x73, 0x73, 0x47, 0x65, 0x74, 0x4f, 0x77, 0x6e],
   [0x65, 0x72, 0x42, 0x69, 0x7a, 0x4d, 0x61, 0x6e, 0x61, 0x67, 0x65, 0x72]] @
  [[0x49, 0x44, 0xa0, 0x28, 0x5f, 0x5f, 0x69, 0x6e, 0x69, 0x74, 0x5f, 0x5f],
   [0x40, 0xa0, 0xa0, 0xa0, 0xa0, 0x01, 0x00, 0x83, 0x48, 0xa0, 0x01, 0x00],
   [0x83, 0x4c, 0xb0, 0x2f, 0x24, 0x70, 0x61, 0x72, 0x61, 0x6d, 0x65, 0x74],
   [0x65, 0x72, 0x24, 0x73, 0x65, 0x6c, 0x66, 0x40, 0x40, 0xa0, 0xa0, 0xa0],
   [0xa0, 0x01, 0x00, 0x84, 0x48, 0xa0, 0x01, 0x00, 0x84, 0x69, 0xb0, 0x39],
   [0x24, 0x70, 0x61, 0x72, 0x61, 0x6d, 0x65, 0x74, 0x65, 0x72, 0x24, 0x76],
   [0x69, 0x65, 0x77, 0x65, 0x72, 0x5f, 0x63, 0x6f, 0x6e, 0x74, 0x65, 0x78],
   [0x74, 0x40, 0x90, 0xa0, 0xa0, 0xa0, 0x01, 0x00, 0x84, 0x58, 0xa0, 0x01],
   [0x00, 0x84, 0x69, 0x9c, 0x90, 0xb0, 0xa0, 0x04, 0x07, 0x9c, 0x90, 0xb0],
   [0xa0, 0x04, 0x0b, 0x9c, 0x90, 0xb0, 0xa0, 0x04, 0x0f, 0x9c, 0x91, 0x2a],
   [0x69, 0x67, 0x5f, 0x6e, 0x6f, 0x64, 0x65, 0x61, 0x70, 0x69, 0x27, 0x70],
   [0x72, 0x69, 0x76, 0x61, 0x63, 0x79, 0x40, 0x33, 0x75, 0x73, 0x65, 0x72],
   [0x5f, 0x76, 0x69, 0x65, 0x77, 0x65, 0x72, 0x5f, 0x63, 0x6f, 0x6e, 0x74],
   [0x65, 0x78, 0x74, 0x40, 0x31, 0x55, 0x73, 0x65, 0x72, 0x56, 0x69, 0x65],
   [0x77, 0x65, 0x72, 0x43, 0x6f, 0x6e, 0x74, 0x65, 0x78, 0x74, 0x40, 0xa0],
   [0xa0, 0xa0, 0xa0, 0x01, 0x00, 0x85, 0x48, 0xa0, 0x01, 0x00, 0x85, 0x66],
   [0xb0, 0x36, 0x24, 0x70, 0x61, 0x72, 0x61, 0x6d, 0x65, 0x74, 0x65, 0x72],
   [0x24, 0x61, 0x75, 0x74, 0x68, 0x5f, 0x63, 0x6f, 0x6e, 0x66, 0x69, 0x67],
   [0x40, 0x90, 0xa0, 0xa0, 0xa0, 0x01, 0x00, 0x85, 0x55, 0xa0, 0x01, 0x00],
   [0x85, 0x66, 0x9c, 0x90, 0xb0, 0xa0, 0x04, 0x07, 0x9c, 0x90, 0xb0, 0xa0],
   [0x04, 0x0b, 0x9c, 0x91, 0x2a, 0x77, 0x77, 0x77, 0x67, 0x72, 0x61, 0x70],
   [0x68, 0x71, 0x6c, 0x26, 0x6d, 0x6f, 0x64, 0x65, 0x6c, 0x73, 0x40, 0x31],
   [0x47, 0x72, 0x61, 0x70, 0x68, 0x51, 0x4c, 0x41, 0x75, 0x74, 0x68, 0x43],
   [0x6f, 0x6e, 0x66, 0x69, 0x67, 0x40, 0xa0, 0xa0, 0xa0, 0xa0, 0x01, 0x00],
   [0x86, 0x48, 0xa0, 0x01, 0x00, 0x86, 0x01, 0x00, 0xc9, 0xb0, 0x37, 0x24],
   [0x70, 0x61, 0x72, 0x61, 0x6d, 0x65, 0x74, 0x65, 0x72, 0x24, 0x71, 0x75],
   [0x65, 0x72, 0x79, 0x5f, 0x70, 0x61, 0x72, 0x61, 0x6d, 0x73, 0x40, 0x90],
   [0xa0, 0xa0, 0xa0, 0x01, 0x00, 0x86, 0x56, 0xa0, 0x01, 0x00, 0x86, 0x01],
   [0x00, 0xc9, 0x92, 0xa0, 0xa0, 0xa0, 0xa0, 0x01, 0x00, 0x86, 0x56, 0xa0],
   [0x01, 0x00, 0x86, 0x5f, 0x9c, 0x90, 0xb0, 0xa0, 0x04, 0x07, 0x9c, 0x90]] @
  [[0xb0, 0xa0, 0x04, 0x0b, 0x9c, 0x91, 0x31, 0x74, 0x79, 0x70, 0x69, 0x6e],
   [0x67, 0x5f, 0x65, 0x78, 0x74, 0x65, 0x6e, 0x73, 0x69, 0x6f, 0x6e, 0x73],
   [0x29, 0x41, 0x6e, 0x6e, 0x6f, 0x74, 0x61, 0x74, 0x65, 0x64, 0x40, 0x2b],
   [0x5f, 0x5f, 0x67, 0x65, 0x74, 0x69, 0x74, 0x65, 0x6d, 0x5f, 0x5f, 0x41],
   [0xa0, 0xa0, 0x40, 0xa0, 0xa0, 0xa0, 0x01, 0x00, 0x86, 0x60, 0xa0, 0x01],
   [0x00, 0x86, 0x01, 0x00, 0xc8, 0x08, 0x00, 0x00, 0x04, 0x11, 0xa0, 0xa0],
   [0xa0, 0xa0, 0x01, 0x00, 0x86, 0x60, 0xa0, 0x01, 0x00, 0x86, 0x7c, 0x9c],
   [0x90, 0xb0, 0xa0, 0x04, 0x07, 0x9c, 0x90, 0xb0, 0xa0, 0x04, 0x0b, 0x9c],
   [0x90, 0xb0, 0xa0, 0x04, 0x0f, 0x9c, 0x91, 0x2a, 0x77, 0x77, 0x77, 0x67],
   [0x72, 0x61, 0x70, 0x68, 0x71, 0x6c, 0x27, 0x73, 0x63, 0x68, 0x65, 0x6d],
   [0x61, 0x73, 0x40, 0x2c, 0x66, 0x61, 0x63, 0x65, 0x62, 0x6f, 0x6f, 0x6b],
   [0x5f, 0x77, 0x77, 0x77, 0x40, 0x3c, 0x54, 0x6f, 0x6b, 0x65, 0x6e, 0x69],
   [0x7a, 0x65, 0x64, 0x49, 0x6e, 0x73, 0x74, 0x61, 0x67, 0x72, 0x61, 0x6d],
   [0x55, 0x73, 0x65, 0x72, 0x50, 0x61, 0x72, 0x61, 0x6d, 0x73, 0x40, 0xa0],
   [0xa0, 0xa0, 0xa0, 0x01, 0x00, 0x86, 0x7e, 0xa0, 0x01, 0x00, 0x86, 0x01],
   [0x00, 0xc8, 0x92, 0xa0, 0xa0, 0xa0, 0xa0, 0x01, 0x00, 0x86, 0x7e, 0xa0],
   [0x01, 0x00, 0x86, 0x00, 0x5d, 0x9c, 0x90, 0xb0, 0xa0, 0x04, 0x07, 0x9c],
   [0x90, 0xb0, 0xa0, 0x04, 0x0b, 0x9c, 0x91, 0x2a, 0x77, 0x77, 0x77, 0x67],
   [0x72, 0x61, 0x70, 0x68, 0x71, 0x6c, 0x34, 0x67, 0x72, 0x61, 0x70, 0x68],
   [0x71, 0x6c, 0x5f, 0x78, 0x69, 0x64, 0x5f, 0x6d, 0x65, 0x74, 0x61, 0x64],
   [0x61, 0x74, 0x61, 0x40, 0x3f, 0x47, 0x72, 0x61, 0x70, 0x68, 0x51, 0x4c],
   [0x46, 0x69, 0x65, 0x6c, 0x64, 0x41, 0x72, 0x67, 0x75, 0x6d, 0x65, 0x6e],
   [0x74, 0x58, 0x49, 0x44, 0x4d, 0x65, 0x74, 0x61, 0x64, 0x61, 0x74, 0x61],
   [0x40, 0xa0, 0xa0, 0x90, 0xa0, 0xa0, 0xa0, 0x01, 0x00, 0x86, 0x00, 0x5e],
   [0xa0, 0x01, 0x00, 0x86, 0x00, 0x64, 0x31, 0x24, 0x70, 0x61, 0x72, 0x61],
   [0x6d, 0x65, 0x74, 0x65, 0x72, 0x24, 0x73, 0x63, 0x68, 0x65, 0x6d, 0x61],
   [0xa0, 0xa0, 0xa0, 0x01, 0x00, 0x86, 0x00, 0x65, 0xa0, 0x01, 0x00, 0x86],
   [0x00, 0x6f, 0x94, 0x94, 0xa0, 0x28, 0x66, 0x61, 0x63, 0x65, 0x62, 0x6f],
   [0x6f, 0x6b, 0x40, 0xa0, 0xa0, 0x90, 0xa0, 0xa0, 0xa0, 0x01, 0x00, 0x86],
   [0x00, 0x71, 0xa0, 0x01, 0x00, 0x86, 0x01, 0x00, 0x81, 0x3b, 0x24, 0x70]] @
  [[0x61, 0x72, 0x61, 0x6d, 0x65, 0x74, 0x65, 0x72, 0x24, 0x70, 0x61, 0x72],
   [0x65, 0x6e, 0x74, 0x5f, 0x74, 0x79, 0x70, 0x65, 0x5f, 0x6e, 0x61, 0x6d],
   [0x65, 0xa0, 0xa0, 0xa0, 0x01, 0x00, 0x86, 0x01, 0x00, 0x82, 0xa0, 0x01],
   [0x00, 0x86, 0x01, 0x00, 0x89, 0x94, 0x94, 0xa0, 0x25, 0x51, 0x75, 0x69],
   [0x66, 0x74, 0x2e, 0x6c, 0x69, 0x62, 0x2e, 0x74, 0x68, 0x72, 0x69, 0x66],
   [0x74, 0x2e, 0x61, 0x73, 0x79, 0x6e, 0x63, 0x69, 0x6f, 0x2e, 0x52, 0x70],
   [0x63, 0x4d, 0x65, 0x74, 0x61, 0x64, 0x61, 0x74, 0x61, 0x2e, 0x74, 0x74],
   [0x79, 0x70, 0x65, 0x73, 0x2e, 0x52, 0x65, 0x73, 0x70, 0x6f, 0x6e, 0x73],
   [0x65, 0x52, 0x70, 0x63, 0x45, 0x72, 0x72, 0x6f, 0x72, 0x43, 0x6f, 0x64],
   [0x65, 0x40, 0x84, 0x95, 0xa6, 0xbe, 0x00, 0x00, 0x00, 0x07, 0x00, 0x00],
   [0x00, 0x03, 0x00, 0x00, 0x00, 0x07, 0x00, 0x00, 0x00, 0x06, 0x90, 0x94],
   [0x24, 0x74, 0x79, 0x70, 0x65, 0x84, 0x95, 0xa6, 0xbe, 0x00, 0x00, 0x00],
   [0x01, 0x00, 0x00, 0x00, 0x00, 0x00, 0x00, 0x00, 0x00, 0x00, 0x00, 0x00],
   [0x00, 0x40, 0x84, 0x95, 0xa6, 0xbe, 0x00, 0x00, 0x02, 0x90, 0x00, 0x00],
   [0x00, 0xa5, 0x00, 0x00, 0x02, 0x0c, 0x00, 0x00, 0x01, 0xea, 0xb0, 0xa0],
   [0x2a, 0x69, 0x67, 0x5f, 0x6e, 0x6f, 0x64, 0x65, 0x61, 0x70, 0x69, 0xa0],
   [0x28, 0x70, 0x61, 0x74, 0x74, 0x65, 0x72, 0x6e, 0x73, 0xa0, 0x30, 0x66],
   [0x62, 0x5f, 0x76, 0x69, 0x64, 0x65, 0x6f, 0x5f, 0x70, 0x61, 0x74, 0x74],
   [0x65, 0x72, 0x6e, 0x40, 0x90, 0xa0, 0xa0, 0xa0, 0x01, 0x34, 0xbc, 0x44],
   [0xa0, 0x01, 0x34, 0xbf, 0x53, 0xc0, 0x08, 0x00, 0x00, 0x20, 0x00, 0xa0],
   [0x04, 0x0d, 0xa0, 0x04, 0x0c, 0xa0, 0x04, 0x0b, 0xa0, 0x3c, 0x4e, 0x6f],
   [0x64, 0x65, 0x55, 0x70, 0x64, 0x61, 0x74, 0x65, 0x4e, 0x6f, 0x64, 0x65],
   [0x46, 0x62, 0x56, 0x69, 0x64, 0x65, 0x6f, 0x50, 0x61, 0x74, 0x74, 0x65],
   [0x72, 0x6e, 0xa0, 0x09, 0x2d, 0x69, 0x66, 0x5f, 0x6e, 0x6f, 0x74, 0x5f],
   [0x6e, 0x75, 0x6c, 0x6c, 0x5f, 0x73, 0x65, 0x74, 0x5f, 0x63, 0x6f, 0x70],
   [0x79, 0x72, 0x69, 0x67, 0x68, 0x74, 0x5f, 0x6d, 0x6f, 0x6e, 0x65, 0x74],
   [0x69, 0x7a, 0x61, 0x74, 0x69, 0x6f, 0x6e, 0x5f, 0x73, 0x74, 0x61, 0x74],
   [0x75, 0x73, 0x40, 0xa0, 0xa0, 0xa0, 0xa0, 0x01, 0x34, 0xbc, 0x76, 0xa0],
   [0x01, 0x34, 0xbc, 0x7a, 0xb0, 0x2f, 0x24, 0x70, 0x61, 0x72, 0x61, 0x6d],
   [0x65, 0x74, 0x65, 0x72, 0x24, 0x73, 0x65, 0x6c, 0x66, 0x40, 0x40, 0xa0]] @
  [[0xa0, 0xa0, 0xa0, 0x01, 0x34, 0xbc, 0x7c, 0xa0, 0x01, 0x34, 0xbc, 0x00],
   [0x74, 0xb0, 0x30, 0x24, 0x70, 0x61, 0x72, 0x61, 0x6d, 0x65, 0x74, 0x65],
   [0x72, 0x24, 0x76, 0x61, 0x6c, 0x75, 0x65, 0x40, 0x90, 0xa0, 0xa0, 0xa0],
   [0x01, 0x34, 0xbc, 0x00, 0x43, 0xa0, 0x01, 0x34, 0xbc, 0x00, 0x74, 0x92],
   [0xa0, 0xa0, 0xa0, 0xa0, 0x01, 0x34, 0xbc, 0x00, 0x43, 0xa0, 0x01, 0x34],
   [0xbc, 0x00, 0x4b, 0x9c, 0x90, 0xb0, 0xa0, 0x04, 0x07, 0x9c, 0x90, 0xb0],
   [0xa0, 0x04, 0x0b, 0x9c, 0x91, 0x26, 0x74, 0x79, 0x70, 0x69, 0x6e, 0x67],
   [0x28, 0x4f, 0x70, 0x74, 0x69, 0x6f, 0x6e, 0x61, 0x6c, 0x40, 0x2b, 0x5f],
   [0x5f, 0x67, 0x65, 0x74, 0x69, 0x74, 0x65, 0x6d, 0x5f, 0x5f, 0x41, 0xa0],
   [0xa0, 0x40, 0xa0, 0xa0, 0xa0, 0x01, 0x34, 0xbc, 0x00, 0x4c, 0xa0, 0x01],
   [0x34, 0xbc, 0x00, 0x73, 0x9c, 0x91, 0x09, 0x27, 0x49, 0x4e, 0x6f, 0x64],
   [0x65, 0x46, 0x62, 0x56, 0x69, 0x64, 0x65, 0x6f, 0x43, 0x6f, 0x70, 0x79],
   [0x72, 0x69, 0x67, 0x68, 0x74, 0x4d, 0x6f, 0x6e, 0x65, 0x74, 0x69, 0x7a],
   [0x61, 0x74, 0x69, 0x6f, 0x6e, 0x53, 0x74, 0x61, 0x74, 0x75, 0x73, 0x40],
   [0x40, 0x40, 0x90, 0xa0, 0xa0, 0xa0, 0x01, 0x34, 0xbc, 0x00, 0x79, 0xa0],
   [0x01, 0x34, 0xbc, 0x01, 0x00, 0x95, 0x9c, 0x90, 0xb0, 0xa0, 0x04, 0x07],
   [0x9c, 0x90, 0xb0, 0xa0, 0x04, 0x0b, 0x9c, 0x90, 0xb0, 0xa0, 0x04, 0x0f],
   [0x9c, 0x91, 0x04, 0x55, 0x04, 0x53, 0x40, 0x04, 0x51, 0x40, 0x04, 0x45],
   [0x40, 0x40, 0x40, 0x90, 0xa0, 0x04, 0x57, 0xa0, 0x04, 0x56, 0xa0, 0x04],
   [0x55, 0xa0, 0x04, 0x4a, 0x40, 0x40, 0x40, 0x40, 0xa0, 0xa0, 0xa0, 0xa0],
   [0x01, 0x34, 0xbd, 0x48, 0xa0, 0x01, 0x34, 0xbe, 0x79, 0x98, 0xb0, 0xa0],
   [0xa0, 0xa0, 0x01, 0x34, 0xbd, 0x4b, 0xa0, 0x01, 0x34, 0xbd, 0x5c, 0x93],
   [0xb0, 0xa0, 0xa0, 0xa0, 0x01, 0x34, 0xbd, 0x4b, 0xa0, 0x01, 0x34, 0xbd],
   [0x50, 0x9c, 0x91, 0x30, 0x24, 0x70, 0x61, 0x72, 0x61, 0x6d, 0x65, 0x74],
   [0x65, 0x72, 0x24, 0x76, 0x61, 0x6c, 0x75, 0x65, 0x45, 0xa0, 0xa0, 0xa0],
   [0x01, 0x34, 0xbd, 0x58, 0x04, 0x0d, 0x94, 0x40, 0xa0, 0xa0, 0xa0, 0xa0],
   [0x01, 0x34, 0xbe, 0x4c, 0xa0, 0x01, 0x34, 0xbe, 0x79, 0x95, 0xa0, 0xa0],
   [0xa0, 0x01, 0x34, 0xbe, 0x4c, 0xa0, 0x01, 0x34, 0xbe, 0x79, 0x92, 0xa0],
   [0xa0, 0xa0, 0xa0, 0x01, 0x34, 0xbe, 0x4c, 0xa0, 0x01, 0x34, 0xbe, 0x72],
   [0x9c, 0x90, 0xb0, 0xa0, 0xa0, 0xa0, 0x01, 0x34, 0xbe, 0x4c, 0xa0, 0x01]]"

definition dictionary_rows_9 :: "u8 list list" where
  "dictionary_rows_9 =
  [[0x34, 0xbe, 0x50, 0x9c, 0x91, 0x2f, 0x24, 0x70, 0x61, 0x72, 0x61, 0x6d],
   [0x65, 0x74, 0x65, 0x72, 0x24, 0x73, 0x65, 0x6c, 0x66, 0x09, 0x21, 0x73],
   [0x65, 0x74, 0x5f, 0x63, 0x6f, 0x70, 0x79, 0x72, 0x69, 0x67, 0x68, 0x74],
   [0x5f, 0x6d, 0x6f, 0x6e, 0x65, 0x74, 0x69, 0x7a, 0x61, 0x74, 0x69, 0x6f],
   [0x6e, 0x5f, 0x73, 0x74, 0x61, 0x74, 0x75, 0x73, 0x40, 0xa0, 0xa0, 0x40],
   [0xa0, 0xa0, 0xa0, 0x01, 0x34, 0xbe, 0x73, 0xa0, 0x01, 0x34, 0xbe, 0x78],
   [0x9c, 0x91, 0x04, 0x28, 0x40, 0x40, 0x40, 0xa0, 0xa0, 0xa0, 0xa0, 0x01],
   [0x34, 0xbf, 0x48, 0xa0, 0x01, 0x34, 0xbf, 0x53, 0x9d, 0xa0, 0x40, 0x90],
   [0xa0, 0xa0, 0xa0, 0x01, 0x34, 0xbf, 0x4f, 0xa0, 0x01, 0x34, 0xbf, 0x53],
   [0x9c, 0x91, 0x04, 0x18, 0x40, 0x40, 0x84, 0x95, 0xa6, 0xbe, 0x00, 0x01],
   [0x5e, 0x40, 0x00, 0x00, 0x10, 0xac, 0x00, 0x00, 0x84, 0xaf, 0x00, 0x00],
   [0x60, 0xe5, 0x90, 0xa0, 0xc0, 0x01, 0x01, 0xd8, 0x08, 0x00, 0x04, 0x00],
   [0x00, 0xb0, 0x09, 0x24, 0x57, 0x48, 0x41, 0x54, 0x53, 0x41, 0x50, 0x50],
   [0x5f, 0x41, 0x44, 0x5f, 0x41, 0x43, 0x43, 0x4f, 0x55, 0x4e, 0x54, 0x5f],
   [0x55, 0x53, 0x45, 0x52, 0x5f, 0x4c, 0x4f, 0x47, 0x49, 0x4e, 0x5f, 0x4e],
   [0x4f, 0x4e, 0x43, 0x45, 0x08, 0x00, 0x00, 0x30, 0x00, 0xa0, 0x40, 0x90],
   [0x94, 0x09, 0x3a, 0x66, 0x62, 0x63, 0x6f, 0x64, 0x65, 0x2e, 0x6c, 0x6f],
   [0x67, 0x69, 0x6e, 0x5f, 0x61, 0x73, 0x79, 0x6e, 0x63, 0x69, 0x6f, 0x2e],
   [0x61, 0x75, 0x74, 0x68, 0x5f, 0x70, 0x72, 0x6f, 0x6f, 0x66, 0x5f, 0x74],
   [0x79, 0x70, 0x65, 0x73, 0x2e, 0x74, 0x74, 0x79, 0x70, 0x65, 0x73, 0x2e],
   [0x41, 0x75, 0x74, 0x68, 0x50, 0x72, 0x6f, 0x6f, 0x66, 0x54, 0x79, 0x70],
   [0x65, 0x40, 0x40, 0x41, 0x41, 0x42, 0x04, 0x06, 0x09, 0x3a, 0x66, 0x62],
   [0x63, 0x6f, 0x64, 0x65, 0x2e, 0x6c, 0x6f, 0x67, 0x69, 0x6e, 0x5f, 0x61],
   [0x73, 0x79, 0x6e, 0x63, 0x69, 0x6f, 0x2e, 0x61, 0x75, 0x74, 0x68, 0x5f],
   [0x70, 0x72, 0x6f, 0x6f, 0x66, 0x5f, 0x74, 0x79, 0x70, 0x65, 0x73, 0x2e],
   [0x74, 0x74, 0x79, 0x70, 0x65, 0x73, 0x2e, 0x41, 0x75, 0x74, 0x68, 0x50],
   [0x72, 0x6f, 0x6f, 0x66, 0x54, 0x79, 0x70, 0x65, 0x40, 0x40, 0x40, 0x40],
   [0xb0, 0x3c, 0x50, 0x48, 0x41, 0x42, 0x52, 0x49, 0x43, 0x41, 0x54, 0x4f],
   [0x52, 0x5f, 0x41, 0x55, 0x54, 0x48, 0x5f, 0x54, 0x4f, 0x4b, 0x45, 0x4e],
   [0x5f, 0x4e, 0x4f, 0x01, 0x00, 0xde, 0x40, 0xa0, 0x01, 0x00, 0xde, 0x67]] @
  [[0x84, 0x95, 0xa6, 0xbe, 0x00, 0x00, 0x00, 0x01, 0x00, 0x00, 0x00, 0x00],
   [0x00, 0x00, 0x00, 0x00, 0x00, 0x00, 0x00, 0x00, 0x40, 0x84, 0x95, 0xa6],
   [0xbe, 0x00, 0x00, 0x01, 0xa0, 0x00, 0x00, 0x00, 0x7b, 0x00, 0x00, 0x01],
   [0xa2, 0x00, 0x00, 0x01, 0xa2, 0x90, 0xa0, 0x40, 0x90, 0xd1, 0xd1, 0xd1],
   [0xd1, 0xd1, 0xa0, 0x02, 0x01, 0x86, 0x32, 0xb4, 0xa0, 0xa0, 0x40, 0x40],
   [0xa0, 0x40, 0x40, 0x02, 0x02, 0x05, 0x40, 0xd4, 0xa0, 0xa0, 0x40, 0x40],
   [0xa0, 0x40, 0x40, 0xa0, 0x02, 0x04, 0x39, 0x84, 0x44, 0xa0, 0xa0, 0x40],
   [0x40, 0xa0, 0x40, 0x40, 0x42, 0x02, 0x0a, 0xf4, 0x7b, 0x85, 0xa0, 0xa0],
   [0x40, 0x40, 0xa0, 0x40, 0x40, 0x40, 0x43, 0x02, 0x0c, 0x0b, 0x5b, 0x7a],
   [0xa0, 0xa0, 0x40, 0x40, 0xa0, 0x40, 0x40, 0xd1, 0xa0, 0x02, 0x0d, 0x56],
   [0x8f, 0x15, 0xa0, 0xa0, 0x40, 0x40, 0xa0, 0x40, 0x40, 0x02, 0x0d, 0xcc],
   [0xb9, 0x62, 0xa0, 0xa0, 0x40, 0x40, 0xa0, 0x40, 0x40, 0xd1, 0x40, 0x02],
   [0x0e, 0x64, 0xa1, 0xab, 0xa0, 0xa0, 0x40, 0x40, 0xa0, 0x40, 0x40, 0xa0],
   [0x02, 0x0f, 0x35, 0xe5, 0x2a, 0xa0, 0xa0, 0x40, 0x40, 0xa0, 0x40, 0x40],
   [0x42, 0x43, 0x44, 0x02, 0x0f, 0x47, 0x8b, 0x8c, 0xa0, 0xa0, 0x40, 0x40],
   [0xa0, 0x40, 0x40, 0xd1, 0xa0, 0x02, 0x10, 0x0e, 0x1b, 0xce, 0xa0, 0xa0],
   [0x40, 0x40, 0xa0, 0x40, 0x40, 0x02, 0x11, 0x2d, 0x3a, 0x57, 0xa0, 0xa0],
   [0x40, 0x40, 0xa0, 0x40, 0x40, 0xd1, 0x40, 0x02, 0x13, 0xa2, 0xa5, 0xee],
   [0xa0, 0xa0, 0x40, 0x40, 0xa0, 0x40, 0x40, 0xd1, 0xa0, 0x02, 0x20, 0xb8],
   [0x36, 0xc1, 0xa0, 0xa0, 0x40, 0x40, 0xa0, 0x40, 0x40, 0x02, 0x26, 0xa0],
   [0xab, 0x2b, 0xa0, 0xa0, 0x40, 0x40, 0xa0, 0x40, 0x40, 0x40, 0x42, 0x43],
   [0x44, 0x45, 0x02, 0x27, 0x46, 0x34, 0xca, 0xa0, 0xa0, 0x40, 0x40, 0xa0],
   [0x40, 0x40, 0xd1, 0xd1, 0xd1, 0xa0, 0x02, 0x29, 0x4c, 0xc9, 0xf6, 0xa0],
   [0xa0, 0x40, 0x40, 0xa0, 0x40, 0x40, 0x02, 0x2b, 0x84, 0x0c, 0x2a, 0xa0],
   [0xa0, 0x40, 0x40, 0xa0, 0x40, 0x40, 0xd1, 0xa0, 0x02, 0x2c, 0x3f, 0x7b],
   [0x3f, 0xa0, 0xa0, 0x40, 0x40, 0xa0, 0x40, 0x40, 0x02, 0x2c, 0x9e, 0x4d],
   [0x27, 0xa0, 0xa0, 0x40, 0x40, 0xa0, 0x40, 0x40, 0xa0, 0x02, 0x2c, 0xc7],
   [0xc9, 0x3e, 0xa0, 0xa0, 0x40, 0x40, 0xa0, 0x40, 0x40, 0x42, 0x43, 0x02],
   [0x2c, 0xdc, 0x3a, 0x8e, 0xa0, 0xa0, 0x40, 0x40, 0xa0, 0x40, 0x40, 0xd1],
   [0x40, 0x02, 0x2f, 0xfa, 0xf4, 0xa5, 0xa0, 0xa0, 0x40, 0x40, 0xa0, 0x40]] @
  [[0x40, 0xa0, 0x02, 0x31, 0x47, 0x7e, 0x88, 0xa0, 0xa0, 0x40, 0x40, 0xa0],
   [0x40, 0x40, 0x42, 0x44, 0x02, 0x32, 0x23, 0x7f, 0x4d, 0xa0, 0xa0, 0x40],
   [0x40, 0xa0, 0x40, 0x40, 0xd1, 0xa0, 0x02, 0x33, 0x7f, 0x66, 0x59, 0xa0],
   [0xa0, 0x40, 0x40, 0xa0, 0x40, 0x40, 0x02, 0x36, 0x76, 0x9d, 0xe3, 0xa0],
   [0xa0, 0x40, 0x40, 0xa0, 0x40, 0x40, 0xd1, 0xa0, 0x02, 0x37, 0x70, 0x49],
   [0xec, 0xa0, 0xa0, 0x40, 0x40, 0xa0, 0x40, 0x40, 0x02, 0x3a, 0x61, 0xbe],
   [0xce, 0xa0, 0xa0, 0x40, 0x40, 0xa0, 0x40, 0x40, 0xa0, 0x02, 0x3e, 0xe3],
   [0xc9, 0xc0, 0xa0, 0xa0, 0x40, 0x40, 0xa0, 0x40, 0x40, 0x42, 0x43, 0x45],
   [0x46, 0x84, 0x95, 0xa6, 0xbe, 0x00, 0x00, 0x00, 0x01, 0x00, 0x00, 0x00],
   [0x00, 0x00, 0x00, 0x00, 0x00, 0x00, 0x00, 0x00, 0x00, 0x40, 0x84, 0x95],
   [0xa6, 0xbe, 0x00, 0x00, 0x00, 0xa2, 0x00, 0x00, 0x00, 0x2c, 0x00, 0x00],
   [0x00, 0x86, 0x00, 0x00, 0x00, 0x7c, 0x90, 0xa0, 0x40, 0x90, 0xd1, 0xa0],
   [0x02, 0x0f, 0x47, 0x8b, 0x8c, 0xa0, 0xa0, 0x40, 0x40, 0xa0, 0xa0, 0xa0],
   [0x2f, 0x24, 0x70, 0x61, 0x72, 0x61, 0x6d, 0x65, 0x74, 0x65, 0x72, 0x24],
   [0x73, 0x65, 0x6c, 0x66, 0x40, 0xa0, 0x90, 0xa0, 0x94, 0x3f, 0x66, 0x62],
   [0x63, 0x6f, 0x64, 0x65, 0x2e, 0x74, 0x6f, 0x6d, 0x6c, 0x69, 0x2e, 0x5f],
   [0x70, 0x61, 0x72, 0x73, 0x65, 0x72, 0x2e, 0x4e, 0x65, 0x73, 0x74, 0x65],
   [0x64, 0x44, 0x69, 0x63, 0x74, 0x40, 0x40, 0x40, 0x02, 0x2b, 0x84, 0x0c],
   [0x2a, 0xa0, 0xa0, 0x04, 0x0a, 0xa0, 0xa0, 0x2f, 0x24, 0x70, 0x61, 0x72],
   [0x61, 0x6d, 0x65, 0x74, 0x65, 0x72, 0x24, 0x73, 0x65, 0x6c, 0x66, 0x40],
   [0xa0, 0x90, 0xa0, 0x04, 0x0a, 0x40, 0xa0, 0x24, 0x64, 0x69, 0x63, 0x74],
   [0xa0, 0x90, 0xa0, 0xa2, 0x24, 0x64, 0x69, 0x63, 0x74, 0xa0, 0x90, 0x94],
   [0x23, 0x73, 0x74, 0x72, 0xa0, 0x90, 0x41, 0x40, 0x90, 0xa0, 0x04, 0x0a],
   [0x40, 0x40, 0xa0, 0x04, 0x20, 0x04, 0x16, 0xa0, 0x02, 0x3a, 0x61, 0xbe],
   [0xce, 0xa0, 0xa0, 0x04, 0x23, 0x40, 0xa0, 0x04, 0x24, 0x04, 0x1a, 0x42],
   [0x84, 0x95, 0xa6, 0xbe, 0x00, 0x00, 0x00, 0x01, 0x00, 0x00, 0x00, 0x00],
   [0x00, 0x00, 0x00, 0x00, 0x00, 0x00, 0x00, 0x00, 0x40, 0x84, 0x95, 0xa6],
   [0xbe, 0x00, 0x00, 0x00, 0x0a, 0x00, 0x00, 0x00, 0x05, 0x00, 0x00, 0x00],
   [0x0c, 0x00, 0x00, 0x00, 0x0c, 0x99, 0xa0, 0x42, 0xa0, 0x94, 0x23, 0x69],
   [0x6e, 0x74, 0x40, 0x84, 0x95, 0xa6, 0xbe, 0x00, 0x00, 0x00, 0x01, 0x00]] @
  [[0x00, 0x00, 0x00, 0x00, 0x00, 0x00, 0x00, 0x00, 0x00, 0x00, 0x00, 0x40],
   [0x84, 0x95, 0xa6, 0xbe, 0x00, 0x00, 0x00, 0x45, 0x00, 0x00, 0x00, 0x05],
   [0x00, 0x00, 0x00, 0x1c, 0x00, 0x00, 0x00, 0x15, 0x90, 0xb0, 0xa0, 0xa0],
   [0x09, 0x3b, 0x6a, 0x65, 0x64, 0x69, 0x2e, 0x74, 0x68, 0x69, 0x72, 0x64],
   [0x5f, 0x70, 0x61, 0x72, 0x74, 0x79, 0x2e, 0x74, 0x79, 0x70, 0x65, 0x73],
   [0x68, 0x65, 0x64, 0x2e, 0x74, 0x68, 0x69, 0x72, 0x64, 0x5f, 0x70, 0x61],
   [0x72, 0x74, 0x79, 0x2e, 0x33, 0x2e, 0x74, 0x79, 0x70, 0x65, 0x64, 0x5f],
   [0x61, 0x73, 0x74, 0x2e, 0x61, 0x73, 0x74, 0x33, 0x2e, 0x65, 0x78, 0x70],
   [0x72, 0x40, 0x40, 0x40, 0x40, 0x84, 0x95, 0xa6, 0xbe, 0x00, 0x00, 0x00],
   [0x7d, 0x00, 0x00, 0x00, 0x13, 0x00, 0x00, 0x00, 0x49, 0x00, 0x00, 0x00],
   [0x3f, 0x90, 0xa0, 0x40, 0x90, 0xd1, 0xa0, 0x02, 0x0f, 0x47, 0x8b, 0x8c],
   [0xa0, 0xa0, 0x40, 0x40, 0xa0, 0xa0, 0xa0, 0x2f, 0x24, 0x70, 0x61, 0x72],
   [0x61, 0x6d, 0x65, 0x74, 0x65, 0x72, 0x24, 0x73, 0x65, 0x6c, 0x66, 0x40],
   [0xa0, 0x90, 0xa0, 0x94, 0x09, 0x41, 0x69, 0x67, 0x5f, 0x6e, 0x6f, 0x64],
   [0x65, 0x61, 0x70, 0x69, 0x2e, 0x6e, 0x6f, 0x64, 0x65, 0x73, 0x2e, 0x6d],
   [0x65, 0x64, 0x69, 0x61, 0x5f, 0x74, 0x61, 0x67, 0x67, 0x65, 0x64, 0x5f],
   [0x70, 0x72, 0x6f, 0x64, 0x75, 0x63, 0x74, 0x2e, 0x4e, 0x6f, 0x64, 0x65],
   [0x4d, 0x65, 0x64, 0x69, 0x61, 0x54, 0x61, 0x67, 0x67, 0x65, 0x64, 0x50],
   [0x72, 0x6f, 0x64, 0x75, 0x63, 0x74, 0x51, 0x75, 0x65, 0x72, 0x79, 0x40],
   [0x40, 0x40, 0x02, 0x3a, 0x61, 0xbe, 0xce, 0xa0, 0xa0, 0x04, 0x0a, 0x40],
   [0xa0, 0x04, 0x0b, 0x40, 0x40, 0x42, 0x84, 0x95, 0xa6, 0xbe, 0x00, 0x00],
   [0x00, 0x01, 0x00, 0x00, 0x00, 0x00, 0x00, 0x00, 0x00, 0x00, 0x00, 0x00],
   [0x00, 0x00, 0x40, 0x84, 0x95, 0xa6, 0xbe, 0x00, 0x00, 0x00, 0x34, 0x00],
   [0x00, 0x00, 0x02, 0x00, 0x00, 0x00, 0x10, 0x00, 0x00, 0x00, 0x0a, 0x94],
   [0x09, 0x31, 0x66, 0x62, 0x63, 0x6f, 0x64, 0x73, 0x74, 0x40, 0x40, 0x90],
   [0xa0, 0xa0, 0xa0, 0x01, 0x00, 0xac, 0x74, 0xa0, 0x01, 0x00, 0xac, 0x78],
   [0x94, 0x40, 0x40, 0x40, 0x90, 0xa0, 0x04, 0x40, 0xa0, 0x04, 0x3f, 0xa0],
   [0x04, 0x3e, 0xa0, 0x04, 0x33, 0x40, 0x40, 0x40, 0x40, 0xa0, 0xa0, 0xa0],
   [0xa0, 0x01, 0x00, 0xad, 0x48, 0xa0, 0x01, 0x00, 0xad, 0x00, 0x64, 0x95],
   [0xa0, 0xa0, 0xa0, 0x01, 0x00, 0xad, 0x48, 0xa0, 0x01, 0x00, 0xad, 0x00]] @
  [[0x64, 0x92, 0xa0, 0xa0, 0xa0, 0xa0, 0x01, 0x00, 0xad, 0x48, 0xa0, 0x01],
   [0x00, 0xad, 0x60, 0x9c, 0x90, 0xb0, 0xa0, 0xa0, 0xa0, 0x01, 0x00, 0xad],
   [0x48, 0xa0, 0x01, 0x00, 0xad, 0x57, 0x9c, 0x90, 0xb0, 0xa0, 0x04, 0x07],
   [0x9c, 0x90, 0xb0, 0xa0, 0x04, 0x0b, 0x9c, 0x91, 0x27, 0x6e, 0x6f, 0x64],
   [0x65, 0x61, 0x70, 0x69, 0x29, 0x45, 0x64, 0x67, 0x65, 0x51, 0x75, 0x65],
   [0x72, 0x79, 0x40, 0x2f, 0x45, 0x64, 0x67, 0x65, 0x44, 0x65, 0x6c, 0x65],
   [0x74, 0x65, 0x51, 0x75, 0x65, 0x72, 0x79, 0x40, 0x28, 0x5f, 0x5f, 0x69],
   [0x6e, 0x69, 0x74, 0x5f, 0x5f, 0x40, 0xa0, 0xa0, 0x40, 0xa0, 0xa0, 0xa0],
   [0x01, 0x00, 0xad, 0x61, 0xa0, 0x01, 0x00, 0xad, 0x65, 0x9c, 0x91, 0x2f],
   [0x24, 0x70, 0x61, 0x72, 0x61, 0x6d, 0x65, 0x74, 0x65, 0x72, 0x24, 0x73],
   [0x65, 0x6c, 0x66, 0xa0, 0xa0, 0x40, 0xa0, 0xa0, 0xa0, 0x01, 0x00, 0xad],
   [0x67, 0xa0, 0x01, 0x00, 0xad, 0x00, 0x57, 0x9c, 0x90, 0xb0, 0xa0, 0x04],
   [0x07, 0x9c, 0x90, 0xb0, 0xa0, 0x04, 0x0b, 0x9c, 0x90, 0xb0, 0xa0, 0x04],
   [0x0f, 0x9c, 0x91, 0x04, 0x85, 0x04, 0x83, 0x40, 0x04, 0x81, 0x40, 0x09],
   [0x30, 0x45, 0x64, 0x67, 0x65, 0x43, 0x6c, 0x69, 0x70, 0x73, 0x4d, 0x65],
   [0x64, 0x69, 0x61, 0x54, 0x6f, 0x43, 0x72, 0x65, 0x61, 0x74, 0x69, 0x76],
   [0x65, 0x43, 0x6f, 0x6e, 0x66, 0x69, 0x67, 0x4f, 0x6e, 0x44, 0x69, 0x72],
   [0x65, 0x63, 0x74, 0x41, 0x75, 0x64, 0x69, 0x6f, 0x4d, 0x65, 0x64, 0x69],
   [0x61, 0x40, 0xa0, 0xa0, 0x40, 0xa0, 0xa0, 0xa0, 0x01, 0x00, 0xad, 0x00],
   [0x59, 0xa0, 0x01, 0x00, 0xad, 0x00, 0x5d, 0x9c, 0x91, 0x2f, 0x24, 0x70],
   [0x61, 0x72, 0x61, 0x6d, 0x65, 0x74, 0x65, 0x72, 0x24, 0x72, 0x6f, 0x6f],
   [0x74, 0xa0, 0xa0, 0x40, 0xa0, 0xa0, 0xa0, 0x01, 0x00, 0xad, 0x00, 0x5f],
   [0xa0, 0x01, 0x00, 0xad, 0x00, 0x63, 0x9c, 0x91, 0x2f, 0x24, 0x70, 0x61],
   [0x72, 0x61, 0x6d, 0x65, 0x74, 0x65, 0x72, 0x24, 0x64, 0x65, 0x73, 0x74],
   [0x40, 0xa0, 0xa0, 0x04, 0x55, 0x9d, 0xa0, 0x41, 0x40, 0x40, 0x40, 0x84],
   [0x95, 0xa6, 0xbe, 0x00, 0x00, 0x00, 0x5a, 0x00, 0x00, 0x00, 0x0b, 0x00],
   [0x00, 0x00, 0x2e, 0x00, 0x00, 0x00, 0x24, 0x90, 0xb0, 0xa0, 0xa2, 0x24],
   [0x74, 0x79, 0x70, 0x65, 0xa0, 0x90, 0x94, 0x09, 0x44, 0x66, 0x61, 0x63],
   [0x65, 0x62, 0x6f, 0x6f, 0x6b, 0x2e, 0x73, 0x65, 0x61, 0x72, 0x63, 0x68],
   [0x2e, 0x6b, 0x65, 0x79, 0x77, 0x6f, 0x72, 0x64, 0x2e, 0x6b, 0x65, 0x79]]"

definition dictionary_rows_10 :: "u8 list list" where
  "dictionary_rows_10 =
  [[0x77, 0x6f, 0x72, 0x64, 0x5f, 0x62, 0x61, 0x73, 0x65, 0x2e, 0x74, 0x79],
   [0x70, 0x65, 0x73, 0x2e, 0x4c, 0x69, 0x73, 0x74, 0x5f, 0x5f, 0x54, 0x79],
   [0x70, 0x65, 0x61, 0x68, 0x65, 0x61, 0x64, 0x53, 0x75, 0x67, 0x67, 0x65],
   [0x73, 0x74, 0x69, 0x6f, 0x6e, 0x40, 0x90, 0xa0, 0x04, 0x08, 0x40, 0x40],
   [0x40, 0x84, 0x95, 0xa6, 0xbe, 0x00, 0x00, 0x00, 0x01, 0x00, 0x00, 0x00],
   [0x00, 0x00, 0x00, 0x00, 0x00, 0x00, 0x00, 0x00, 0x00, 0x40, 0x84, 0x95],
   [0xa6, 0xbe, 0x00, 0x00, 0x00, 0x47, 0x00, 0x00, 0x00, 0x06, 0x00, 0x00],
   [0x00, 0x1d, 0x00, 0x00, 0x00, 0x15, 0xa2, 0x2f, 0x74, 0x79, 0x70, 0x69],
   [0x6e, 0x67, 0x2e, 0x43, 0x6c, 0x61, 0x73, 0x73, 0x56, 0x61, 0x72, 0xa0],
   [0x90, 0x94, 0x09, 0x30, 0x66, 0x62, 0x63, 0x6f, 0x64, 0x65, 0x2e, 0x73],
   [0x65, 0x61, 0x72, 0x63, 0x68, 0x2e, 0x63, 0x6f, 0x6d, 0x6d, 0x6f, 0x6e],
   [0x2e, 0x66, 0x65, 0x61, 0x74, 0x75, 0x72, 0x65, 0x73, 0x2e, 0x74, 0x74],
   [0x79, 0x70, 0x65, 0x73, 0x2e, 0x46, 0x65, 0x61, 0x74, 0x75, 0x72, 0x65],
   [0x4e, 0x61, 0x6d, 0x65, 0x40, 0x84, 0x95, 0xa6, 0xbe, 0x00, 0x00, 0x00],
   [0x8a, 0x00, 0x00, 0x00, 0x1d, 0x00, 0x00, 0x00, 0x62, 0x00, 0x00, 0x00],
   [0x59, 0x90, 0xa0, 0x40, 0x90, 0xd1, 0xa0, 0x02, 0x0f, 0x47, 0x8b, 0x8c],
   [0xa0, 0xa0, 0x40, 0x40, 0xa0, 0xd1, 0xa0, 0xa0, 0x2f, 0x24, 0x70, 0x61],
   [0x72, 0x61, 0x6d, 0x65, 0x74, 0x65, 0x72, 0x24, 0x6e, 0x61, 0x6d, 0x65],
   [0x40, 0xa0, 0x90, 0xa0, 0x94, 0x23, 0x73, 0x74, 0x72, 0x90, 0xa0, 0x04],
   [0x04, 0x40, 0x40, 0xa0, 0x2f, 0x24, 0x70, 0x61, 0x72, 0x61, 0x6d, 0x65],
   [0x74, 0x65, 0x72, 0x24, 0x73, 0x65, 0x6c, 0x66, 0x40, 0xa0, 0x90, 0xa0],
   [0x94, 0x09, 0x2b, 0x64, 0x6a, 0x61, 0x6e, 0x67, 0x6f, 0x2e, 0x63, 0x6f],
   [0x72, 0x65, 0x2e, 0x66, 0x69, 0x6c, 0x65, 0x73, 0x2e, 0x73, 0x74, 0x6f],
   [0x72, 0x61, 0x67, 0x65, 0x2e, 0x46, 0x69, 0x6c, 0x65, 0x53, 0x79, 0x73],
   [0x74, 0x65, 0x6d, 0x53, 0x74, 0x6f, 0x72, 0x61, 0x67, 0x65, 0x40, 0x40],
   [0x40, 0x42, 0x40, 0x02, 0x3a, 0x61, 0xbe, 0xce, 0xa0, 0xa0, 0x04, 0x14],
   [0x40, 0xa0, 0x04, 0x15, 0x40, 0x40, 0x42, 0x84, 0x95, 0xa6, 0xbe, 0x00],
   [0x00, 0x00, 0x4d, 0x00, 0x00, 0x00, 0x02, 0x00, 0x00, 0x00, 0x16, 0x00],
   [0x00, 0x00, 0x0d, 0x94, 0x09, 0x4a, 0x66, 0x61, 0x63, 0x65, 0x62, 0x6f],
   [0x6f, 0x6b, 0x2e, 0x74, 0x75, 0x70, 0x70, 0x65, 0x72, 0x77, 0x61, 0x72]] @
  [[0x65, 0x2e, 0x41, 0x67, 0x65, 0x6e, 0x74, 0x53, 0x65, 0x72, 0x76, 0x69],
   [0x63, 0x65, 0x2e, 0x74, 0x74, 0x79, 0x70, 0x65, 0x73, 0x2e, 0x50, 0x65],
   [0x72, 0x73, 0x69, 0x73, 0x74, 0x65, 0x6e, 0x74, 0x52, 0x65, 0x73, 0x6f],
   [0x75, 0x72, 0x63, 0x65, 0x44, 0x65, 0x76, 0x69, 0x63, 0x65, 0x44, 0x61],
   [0x74, 0x61, 0x56, 0x6f, 0x6c, 0x75, 0x6d, 0x65, 0x84, 0x95, 0xa6, 0xbe],
   [0x00, 0x00, 0x02, 0x0c, 0x00, 0x00, 0x00, 0x3b, 0x00, 0x00, 0x01, 0x00],
   [0x00, 0x00, 0x00, 0xcc, 0x90, 0xa0, 0x40, 0x90, 0xd1, 0xa0, 0x02, 0x0f],
   [0x47, 0x8b, 0x8c, 0xa0, 0xa0, 0x40, 0x40, 0xa0, 0xd1, 0xa0, 0xa0, 0x2f],
   [0x24, 0x70, 0x61, 0x72, 0x61, 0x6d, 0x65, 0x74, 0x65, 0x72, 0x24, 0x72],
   [0x6f, 0x6f, 0x74, 0x40, 0xa0, 0x90, 0xa0, 0x99, 0xa0, 0xa2, 0x3d, 0x6e],
   [0x6f, 0x64, 0x65, 0x61, 0x70, 0x69, 0x2e, 0x50, 0x72, 0x65, 0x70, 0x61],
   [0x72, 0x65, 0x64, 0x51, 0x75, 0x65, 0x72, 0x79, 0x2e, 0x51, 0x4c, 0x50],
   [0x61, 0x72, 0x61, 0x6d, 0xa0, 0x90, 0x94, 0x09, 0x4f, 0x69, 0x67, 0x5f],
   [0x6e, 0x6f, 0x64, 0x65, 0x61, 0x70, 0x69, 0x2e, 0x6e, 0x6f, 0x64, 0x65],
   [0x73, 0x2e, 0x72, 0x65, 0x75, 0x73, 0x61, 0x62, 0x6c, 0x65, 0x5f, 0x74],
   [0x65, 0x6d, 0x70, 0x6c, 0x61, 0x74, 0x65, 0x5f, 0x6d, 0x65, 0x64, 0x69],
   [0x61, 0x5f, 0x61, 0x73, 0x73, 0x65, 0x74, 0x73, 0x2e, 0x4e, 0x6f, 0x64],
   [0x65, 0x52, 0x65, 0x75, 0x73, 0x61, 0x62, 0x6c, 0x65, 0x54, 0x65, 0x6d],
   [0x70, 0x6c, 0x61, 0x74, 0x65, 0x4d, 0x65, 0x64, 0x69, 0x61, 0x41, 0x73],
   [0x73, 0x65, 0x74, 0x73, 0x40, 0xa0, 0xa2, 0x3d, 0x6e, 0x6f, 0x64, 0x6c],
   [0x5f, 0x72, 0x65, 0x6a, 0x65, 0x63, 0x74, 0x3f, 0x74, 0x68, 0x72, 0x69],
   [0x66, 0x74, 0x5f, 0x74, 0x79, 0x70, 0x65, 0x73, 0x24, 0x5f, 0x53, 0x65],
   [0x6c, 0x66, 0x5f, 0x69, 0x67, 0x74, 0x68, 0x72, 0x69, 0x66, 0x74, 0x5f],
   [0x67, 0x65, 0x6e, 0x5f, 0x49, 0x41, 0x46, 0x45, 0x5f, 0x69, 0x61, 0x66],
   [0x5f, 0x65, 0x76, 0x65, 0x6e, 0x74, 0x5f, 0x73, 0x69, 0x5f, 0x66, 0x65],
   [0x65, 0x64, 0x62, 0x61, 0x63, 0x6b, 0x5f, 0x74, 0x61, 0x67, 0x5f, 0x61],
   [0x70, 0x70, 0x72, 0x6f, 0x76, 0x61, 0x6c, 0x5f, 0x72, 0x65, 0x6a, 0x65],
   [0x63, 0x74, 0x5f, 0x74, 0x68, 0x72, 0x69, 0x66, 0x74, 0x5f, 0x74, 0x79],
   [0x70, 0x65, 0x73, 0x5f, 0x53, 0x69, 0x46, 0x65, 0x65, 0x64, 0x62, 0x61],
   [0x63, 0x6b, 0x54, 0x61, 0x67, 0x41, 0x70, 0x70, 0x72, 0x6f, 0x76, 0x61]] @
  [[0x6c, 0x52, 0x65, 0x6a, 0x65, 0x63, 0x74, 0x43, 0x6f, 0x6e, 0x74, 0x65],
   [0x78, 0x74, 0x46, 0x65, 0x61, 0x74, 0x75, 0x72, 0x65, 0x73, 0x5f, 0x5f],
   [0x40, 0x40, 0x90, 0xa0, 0xa0, 0xa0, 0x01, 0x01, 0xe2, 0x5c, 0xa0, 0x01],
   [0x01, 0xe2, 0x68, 0x9c, 0x91, 0x04, 0x08, 0x40, 0x40, 0x90, 0x05, 0x22],
   [0x80, 0x40, 0x40, 0x40, 0x40, 0x04, 0x25, 0x40, 0x41, 0x42, 0x43, 0x44],
   [0x84, 0x95, 0xa6, 0xbe, 0x00, 0x00, 0x00, 0x06, 0x00, 0x00, 0x00, 0x02],
   [0x00, 0x00, 0x00, 0x05, 0x00, 0x00, 0x00, 0x04, 0x94, 0x24, 0x62, 0x6f],
   [0x6f, 0x6c, 0x84, 0x95, 0xa6, 0xbe, 0x00, 0x00, 0x00, 0x01, 0x00, 0x00],
   [0x00, 0x00, 0x00, 0x00, 0x00, 0x00, 0x00, 0x00, 0x00, 0x00, 0x40, 0x84],
   [0x95, 0xa6, 0xbe, 0x00, 0x00, 0x04, 0x1f, 0x00, 0x00, 0x00, 0xf1, 0x00],
   [0x00, 0x03, 0x1f, 0x00, 0x00, 0x02, 0xe5, 0xb0, 0xa0, 0x2a, 0x69, 0x67],
   [0x5f, 0x6e, 0x6f, 0x64, 0x65, 0x61, 0x70, 0x69, 0xa0, 0x25, 0x65, 0x64],
   [0x67, 0x65, 0x73, 0xa0, 0x09, 0x20, 0x69, 0x67, 0x74, 0x76, 0x5f, 0x70],
   [0x6f, 0x73, 0x74, 0x5f, 0x74, 0x6f, 0x5f, 0x73, 0x65, 0x72, 0x69, 0x65],
   [0x73, 0x5f, 0x6f, 0x6e, 0x5f, 0x6c, 0x69, 0x76, 0x65, 0x5f, 0x70, 0x6f],
   [0x73, 0x74, 0x40, 0x90, 0xa0, 0xa0, 0xa0, 0x01, 0x00, 0xa0, 0x40, 0xa0],
   [0x01, 0x00, 0xa8, 0x53, 0xc0, 0x08, 0x00, 0x00, 0x20, 0x00, 0xa0, 0x04],
   [0x0d, 0xa0, 0x04, 0x0c, 0xa0, 0x04, 0x0b, 0xa0, 0x09, 0x21, 0x45, 0x64],
   [0x67, 0x65, 0x53, 0x65, 0x74, 0x49, 0x67, 0x74, 0x76, 0x50, 0x6f, 0x73],
   [0x74, 0x54, 0x6f, 0x53, 0x65, 0x72, 0x69, 0x65, 0x73, 0x4f, 0x6e, 0x4c],
   [0x69, 0x76, 0x65, 0x50, 0x6f, 0x73, 0x74, 0xa0, 0x2f, 0x24, 0x63, 0x6c],
   [0x61, 0x73, 0x73, 0x5f, 0x74, 0x6f, 0x70, 0x6c, 0x65, 0x76, 0x65, 0x6c],
   [0x40, 0x40, 0x40, 0x40, 0x40, 0x40, 0x90, 0xa0, 0x04, 0x15, 0xa0, 0x04],
   [0x14, 0xa0, 0x04, 0x13, 0xa0, 0x04, 0x08, 0x40, 0x40, 0x40, 0x40, 0xa0],
   [0xa0, 0xa0, 0xa0, 0x01, 0x00, 0xa1, 0x44, 0xa0, 0x01, 0x00, 0xa2, 0x01],
   [0x00, 0x85, 0x93, 0xc0, 0x08, 0x00, 0x00, 0x20, 0x00, 0xa0, 0x04, 0x21],
   [0xa0, 0x04, 0x20, 0xa0, 0x04, 0x1f, 0xa0, 0x04, 0x14, 0xa0, 0x28, 0x5f],
   [0x5f, 0x69, 0x6e, 0x69, 0x74, 0x5f, 0x5f, 0x40, 0xa0, 0xa0, 0xa0, 0xa0],
   [0x01, 0x00, 0xa1, 0x51, 0xa0, 0x01, 0x00, 0xa1, 0x55, 0xb0, 0x2f, 0x24],
   [0x70, 0x61, 0x72, 0x61, 0x6d, 0x65, 0x74, 0x65, 0x72, 0x24, 0x73, 0x65]] @
  [[0x6c, 0x66, 0x40, 0x40, 0xa0, 0xa0, 0xa0, 0xa0, 0x01, 0x00, 0xa1, 0x57],
   [0xa0, 0x01, 0x00, 0xa1, 0x62, 0xb0, 0x2f, 0x24, 0x70, 0x61, 0x72, 0x61],
   [0x6d, 0x65, 0x74, 0x65, 0x72, 0x24, 0x72, 0x6f, 0x6f, 0x74, 0x40, 0x90],
   [0xa0, 0xa0, 0xa0, 0x01, 0x00, 0xa1, 0x5d, 0xa0, 0x01, 0x00, 0xa1, 0x62],
   [0x9c, 0x91, 0x09, 0x3e, 0x24, 0x6c, 0x6f, 0x63, 0x61, 0x6c, 0x5f, 0x69],
   [0x67, 0x5f, 0x6e, 0x6f, 0x64, 0x65, 0x61, 0x70, 0x69, 0x3f, 0x65, 0x64],
   [0x67, 0x65, 0x73, 0x3f, 0x69, 0x67, 0x74, 0x76, 0x5f, 0x70, 0x6f, 0x73],
   [0x74, 0x5f, 0x74, 0x6f, 0x5f, 0x73, 0x65, 0x72, 0x69, 0x65, 0x73, 0x5f],
   [0x6f, 0x6e, 0x5f, 0x6c, 0x69, 0x76, 0x65, 0x5f, 0x70, 0x6f, 0x73, 0x74],
   [0x24, 0x54, 0x52, 0x6f, 0x6f, 0x74, 0xa0, 0xa0, 0xa0, 0xa0, 0x01, 0x00],
   [0xa1, 0x64, 0xa0, 0x01, 0x00, 0xa1, 0x6f, 0xb0, 0x2f, 0x24, 0x70, 0x61],
   [0x72, 0x61, 0x6d, 0x65, 0x74, 0x65, 0x72, 0x24, 0x64, 0x65, 0x73, 0x74],
   [0x40, 0x90, 0xa0, 0xa0, 0xa0, 0x01, 0x00, 0xa1, 0x6a, 0xa0, 0x01, 0x00],
   [0xa1, 0x6f, 0x9c, 0x91, 0x09, 0x3e, 0x24, 0x6c, 0x6f, 0x63, 0x61, 0x6c],
   [0x5f, 0x69, 0x67, 0x5f, 0x6e, 0x6f, 0x64, 0x65, 0x61, 0x70, 0x69, 0x3f],
   [0x65, 0x64, 0x67, 0x65, 0x73, 0x3f, 0x69, 0x67, 0x74, 0x76, 0x5f, 0x70],
   [0x6f, 0x73, 0x74, 0x5f, 0x74, 0x6f, 0x5f, 0x73, 0x65, 0x72, 0x69, 0x65],
   [0x73, 0x5f, 0x6f, 0x6e, 0x5f, 0x6c, 0x69, 0x76, 0x65, 0x5f, 0x70, 0x6f],
   [0x73, 0x74, 0x24, 0x54, 0x44, 0x65, 0x73, 0x74, 0xa0, 0xa0, 0xa0, 0xa0],
   [0x01, 0x00, 0xa1, 0x71, 0xa0, 0x01, 0x00, 0xa1, 0x00, 0x4b, 0xb0, 0x3f],
   [0x24, 0x70, 0x61, 0x72, 0x61, 0x6d, 0x65, 0x74, 0x65, 0x72, 0x24, 0x69],
   [0x73, 0x5f, 0x75, 0x70, 0x64, 0x61, 0x74, 0x65, 0x5f, 0x77, 0x69, 0x74],
   [0x68, 0x5f, 0x6d, 0x65, 0x72, 0x67, 0x65, 0x90, 0xa0, 0xa0, 0xa0, 0x01],
   [0x00, 0xa1, 0x00, 0x4e, 0xa0, 0x01, 0x00, 0xa1, 0x00, 0x53, 0x94, 0x42],
   [0x90, 0xa0, 0xa0, 0xa0, 0x01, 0x00, 0xa1, 0x00, 0x47, 0xa0, 0x01, 0x00],
   [0xa1, 0x00, 0x4b, 0x9c, 0x91, 0x24, 0x62, 0x6f, 0x6f, 0x6c, 0xa0, 0xa0],
   [0xa0, 0xa0, 0x01, 0x00, 0xa1, 0x00, 0x55, 0xa0, 0x01, 0x00, 0xa1, 0x00],
   [0x79, 0xb0, 0x09, 0x29, 0x24, 0x70, 0x61, 0x72, 0x61, 0x6d, 0x65, 0x74],
   [0x65, 0x72, 0x24, 0x69, 0x6e, 0x69, 0x74, 0x69, 0x61, 0x6c, 0x69, 0x7a],
   [0x65, 0x5f, 0x61, 0x74, 0x74, 0x72, 0x69, 0x62, 0x75, 0x74, 0x65, 0x73]] @
  [[0x5f, 0x66, 0x6f, 0x72, 0x5f, 0x74, 0x65, 0x73, 0x74, 0x90, 0xa0, 0xa0],
   [0xa0, 0x01, 0x00, 0xa1, 0x00, 0x7c, 0xa0, 0x01, 0x00, 0xa1, 0x01, 0x00],
   [0x81, 0x94, 0x42, 0x90, 0xa0, 0xa0, 0xa0, 0x01, 0x00, 0xa1, 0x00, 0x75],
   [0xa0, 0x01, 0x00, 0xa1, 0x00, 0x79, 0x9c, 0x91, 0x24, 0x62, 0x6f, 0x6f],
   [0x6c, 0x40, 0x40, 0x90, 0xa0, 0xa0, 0xa0, 0x01, 0x00, 0xa1, 0x01, 0x00],
   [0x86, 0xa0, 0x01, 0x00, 0xa1, 0x01, 0x00, 0x8a, 0x94, 0x40, 0x40, 0x40],
   [0x90, 0xa0, 0x04, 0x7d, 0xa0, 0x04, 0x7c, 0xa0, 0x04, 0x7b, 0x04, 0x68],
   [0x40, 0x40, 0x40, 0x40, 0xa0, 0xa0, 0xa0, 0xa0, 0x01, 0x00, 0xa3, 0x44],
   [0xa0, 0x01, 0x00, 0xa5, 0x53, 0x93, 0xc0, 0x08, 0x00, 0x00, 0x20, 0x00],
   [0xa0, 0x04, 0x88, 0xa0, 0x04, 0x87, 0xa0, 0x04, 0x86, 0xa0, 0x04, 0x7b],
   [0xa0, 0x28, 0x73, 0x65, 0x74, 0x5f, 0x64, 0x61, 0x74, 0x61, 0x40, 0xa0],
   [0xa0, 0xa0, 0xa0, 0x01, 0x00, 0xa3, 0x51, 0xa0, 0x01, 0x00, 0xa3, 0x55],
   [0xb0, 0x2f, 0x24, 0x70, 0x61, 0x72, 0x61, 0x6d, 0x65, 0x74, 0x65, 0x72],
   [0x24, 0x73, 0x65, 0x6c, 0x66, 0x40, 0x40, 0xa0, 0xa0, 0xa0, 0xa0, 0x01],
   [0x00, 0xa3, 0x57, 0xa0, 0x01, 0x00, 0xa3, 0x6a, 0xb0, 0x37, 0x24, 0x70],
   [0x61, 0x72, 0x61, 0x61, 0x74, 0x74, 0x65, 0x72, 0x6e, 0x22, 0x7d, 0x2c],
   [0x22, 0x73, 0x74, 0x6f, 0x72, 0x61, 0x67, 0x65, 0x22, 0x3a, 0x7b, 0x22],
   [0x74, 0x61, 0x6f, 0x22, 0x3a, 0x7b, 0x22, 0x62, 0x61, 0x73, 0x65, 0x22],
   [0x3a, 0x7b, 0x22, 0x61, 0x73, 0x73, 0x6f, 0x63, 0x5f, 0x74, 0x79, 0x70],
   [0x65, 0x22, 0x3a, 0x32, 0x31, 0x30, 0x31, 0x37, 0x34, 0x36, 0x37, 0x32],
   [0x38, 0x37, 0x38, 0x33, 0x37, 0x39, 0x2c, 0x22, 0x64, 0x61, 0x74, 0x61],
   [0x22, 0x3a, 0x7b, 0x22, 0x73, 0x69, 0x6d, 0x70, 0x6c, 0x65, 0x22, 0x3a],
   [0x7b, 0x7d, 0x7d, 0x2c, 0x22, 0x69, 0x6e, 0x76, 0x65, 0x72, 0x73, 0x65],
   [0x5f, 0x61, 0x73, 0x73, 0x6f, 0x63, 0x5f, 0x74, 0x79, 0x70, 0x65, 0x22],
   [0x3a, 0x33, 0x32, 0x34, 0x32, 0x32, 0x35, 0x33, 0x31, 0x34, 0x37, 0x34],
   [0x38, 0x30, 0x38, 0x34, 0x7d, 0x7d, 0x7d, 0x2c, 0x22, 0x61, 0x72, 0x65],
   [0x5f, 0x77, 0x72, 0x69, 0x74, 0x65, 0x73, 0x5f, 0x61, 0x6c, 0x6c, 0x6f],
   [0x77, 0x65, 0x64, 0x22, 0x3a, 0x74, 0x72, 0x75, 0x65, 0x2c, 0x22, 0x69],
   [0x73, 0x5f, 0x75, 0x6e, 0x69, 0x71, 0x75, 0x65, 0x22, 0x3a, 0x74, 0x72],
   [0x75, 0x65, 0x2c, 0x22, 0x64, 0x65, 0x6c, 0x65, 0x74, 0x69, 0x6f, 0x6e]]"

definition dictionary_rows_11 :: "u8 list list" where
  "dictionary_rows_11 =
  [[0x22, 0x3a, 0x30, 0x2c, 0x22, 0x73, 0x74, 0x61, 0x74, 0x69, 0x63, 0x5f],
   [0x69, 0x64, 0x22, 0x3a, 0x36, 0x39, 0x35, 0x32, 0x35, 0x30, 0x38, 0x39],
   [0x39, 0x37, 0x33, 0x33, 0x39, 0x32, 0x36, 0x33, 0x2c, 0x22, 0x6f, 0x66],
   [0x61, 0x5f, 0x64, 0x65, 0x6c, 0x65, 0x74, 0x69, 0x6f, 0x6e, 0x22, 0x3a],
   [0x30, 0x2c, 0x22, 0x70, 0x79, 0x5f, 0x65, 0x64, 0x67, 0x65, 0x5f, 0x63],
   [0x6c, 0x73, 0x22, 0x3a, 0x22, 0x45, 0x64, 0x67, 0x65, 0x52, 0x65, 0x73],
   [0x68, 0x61, 0x72, 0x65, 0x4d, 0x65, 0x64, 0x69, 0x61, 0x54, 0x6f, 0x4f],
   [0x72, 0x69, 0x67, 0x69, 0x6e, 0x61, 0x6c, 0x4d, 0x65, 0x64, 0x69, 0x61],
   [0x4f, 0x6e, 0x43, 0x6c, 0x69, 0x70, 0x73, 0x50, 0x6f, 0x73, 0x74, 0x22],
   [0x2c, 0x22, 0x70, 0x79, 0x5f, 0x65, 0x64, 0x67, 0x65, 0x5f, 0x6d, 0x6f],
   [0x64, 0x75, 0x6c, 0x65, 0x5f, 0x70, 0x61, 0x74, 0x68, 0x22, 0x3a, 0x22],
   [0x69, 0x67, 0x5f, 0x6e, 0x6f, 0x64, 0x65, 0x61, 0x70, 0x69, 0x2e, 0x65],
   [0x64, 0x67, 0x65, 0x73, 0x2e, 0x72, 0x65, 0x73, 0x68, 0x61, 0x72, 0x65],
   [0x5f, 0x6d, 0x65, 0x64, 0x69, 0x61, 0x5f, 0x74, 0x6f, 0x5f, 0x6f, 0x72],
   [0x69, 0x67, 0x69, 0x6e, 0x61, 0x6c, 0x5f, 0x6d, 0x65, 0x64, 0x69, 0x61],
   [0x5f, 0x6f, 0x6e, 0x5f, 0x63, 0x6c, 0x69, 0x70, 0x73, 0x5f, 0x70, 0x6f],
   [0x73, 0x74, 0x22, 0x2c, 0x22, 0x78, 0x69, 0x64, 0x22, 0x3a, 0x22, 0x61],
   [0x73, 0x73, 0x65, 0x74, 0x3a, 0x2f, 0x2f, 0x6e, 0x6f, 0x64, 0x65, 0x2e],
   [0x65, 0x64, 0x67, 0x65, 0x2f, 0x69, 0x6e, 0x73, 0x74, 0x61, 0x67, 0x72],
   [0x61, 0x6d, 0x2d, 0x73, 0x65, 0x72, 0x76, 0x65, 0x72, 0x2f, 0x69, 0x67],
   [0x5f, 0x63, 0x6c, 0x69, 0x70, 0x73, 0x5f, 0x70, 0x6f, 0x73, 0x74, 0x2f],
   [0x72, 0x65, 0x73, 0x68, 0x61, 0x72, 0x65, 0x5f, 0x6d, 0x65, 0x64, 0x69],
   [0x61, 0x5f, 0x74, 0x6f, 0x5f, 0x6f, 0x72, 0x69, 0x67, 0x69, 0x6e, 0x61],
   [0x6c, 0x5f, 0x6d, 0x65, 0x64, 0x69, 0x61, 0x22, 0x7d, 0x40, 0x26, 0x65],
   [0x6e, 0x63, 0x6f, 0x64, 0x65, 0x40, 0xa0, 0xa0, 0x40, 0xa0, 0xa0, 0xa0],
   [0x01, 0x03, 0xd6, 0x01, 0x02, 0x94, 0xa0, 0x01, 0x03, 0xd6, 0x01, 0x02],
   [0x9b, 0x94, 0x94, 0xa0, 0x25, 0x75, 0x74, 0x66, 0x2d, 0x38, 0x40, 0x40],
   [0xb0, 0xa0, 0x2a, 0x69, 0x67, 0x5f, 0x6e, 0x6f, 0x64, 0x65, 0x61, 0x70],
   [0x69, 0xa0, 0x25, 0x6e, 0x6f, 0x64, 0x65, 0x73, 0xa0, 0x2f, 0x72, 0x75],
   [0x6e, 0x74, 0x69, 0x6d, 0x65, 0x5f, 0x73, 0x63, 0x68, 0x65, 0x6d, 0x61]] @
  [[0x73, 0xa0, 0x2a, 0x63, 0x6c, 0x69, 0x70, 0x73, 0x5f, 0x70, 0x6f, 0x73],
   [0x74, 0xa0, 0x26, 0x73, 0x63, 0x68, 0x65, 0x6d, 0x61, 0x40, 0xa0, 0x01],
   [0x03, 0xd6, 0x40, 0xa0, 0x01, 0x03, 0xd6, 0x74, 0x84, 0x95, 0xa6, 0xbe],
   [0x00, 0x00, 0x00, 0x15, 0x00, 0x00, 0x00, 0x08, 0x00, 0x00, 0x00, 0x19],
   [0x00, 0x00, 0x00, 0x19, 0xc0, 0x90, 0x40, 0xa0, 0x40, 0x40, 0xb0, 0xb0],
   [0x90, 0x40, 0x90, 0x40, 0xa0, 0x04, 0x03, 0x04, 0x02, 0x04, 0x04, 0x40],
   [0x40, 0x84, 0x95, 0xa6, 0xbe, 0x00, 0x00, 0x00, 0x2e, 0x00, 0x00, 0x00],
   [0x07, 0x00, 0x00, 0x00, 0x1a, 0x00, 0x00, 0x00, 0x15, 0x92, 0xb1, 0xa0],
   [0x2a, 0x77, 0x77, 0x77, 0x67, 0x72, 0x61, 0x70, 0x68, 0x71, 0x6c, 0xa0],
   [0x2c, 0x74, 0x79, 0x70, 0x69, 0x6e, 0x67, 0x5f, 0x75, 0x74, 0x69, 0x6c],
   [0x73, 0x40, 0x2f, 0x61, 0x73, 0x73, 0x65, 0x72, 0x74, 0x5f, 0x69, 0x73],
   [0x5f, 0x66, 0x6c, 0x6f, 0x61, 0x74, 0x41, 0x84, 0x95, 0xa6, 0xbe, 0x00],
   [0x00, 0x01, 0x0b, 0x00, 0x00, 0x00, 0x2c, 0x00, 0x00, 0x00, 0xa3, 0x00],
   [0x00, 0x00, 0x8b, 0x90, 0xa0, 0x40, 0x90, 0xd1, 0xa0, 0x02, 0x0f, 0x47],
   [0x8b, 0x8c, 0xa0, 0xa0, 0x40, 0x40, 0xa0, 0xd1, 0x40, 0xa0, 0x2e, 0x24],
   [0x70, 0x61, 0x72, 0x61, 0x6d, 0x65, 0x74, 0x65, 0x72, 0x24, 0x63, 0x6c],
   [0x73, 0x40, 0xa0, 0x90, 0xa0, 0xa2, 0x24, 0x74, 0x79, 0x70, 0x65, 0xa0],
   [0x90, 0x94, 0x09, 0x8f, 0x77, 0x77, 0x77, 0x67, 0x72, 0x61, 0x70, 0x68],
   [0x71, 0x6c, 0x2e, 0x71, 0x75, 0x65, 0x72, 0x69, 0x65, 0x73, 0x2e, 0x70],
   [0x72, 0x6f, 0x66, 0x65, 0x73, 0x73, 0x69, 0x6f, 0x6e, 0x61, 0x6c, 0x5f],
   [0x69, 0x6e, 0x62, 0x6f, 0x78, 0x2e, 0x63, 0x74, 0x64, 0x2e, 0x69, 0x67],
   [0x64, 0x5f, 0x64, 0x69, 0x73, 0x6d, 0x69, 0x73, 0x73, 0x5f, 0x69, 0x6e],
   [0x5f, 0x74, 0x68, 0x72, 0x65, 0x61, 0x64, 0x5f, 0x63, 0x74, 0x64, 0x5f],
   [0x62, 0x61, 0x6e, 0x6e, 0x65, 0x72, 0x2e, 0x49, 0x47, 0x44, 0x44, 0x69],
   [0x73, 0x6d, 0x69, 0x73, 0x73, 0x49, 0x6e, 0x54, 0x68, 0x72, 0x65, 0x61],
   [0x64, 0x43, 0x74, 0x64, 0x42, 0x61, 0x6e, 0x6e, 0x65, 0x72, 0x52, 0x65],
   [0x73, 0x70, 0x6f, 0x6e, 0x73, 0x65, 0x5f, 0x64, 0x69, 0x73, 0x6d, 0x69],
   [0x73, 0x73, 0x5f, 0x69, 0x67, 0x64, 0x5f, 0x69, 0x6e, 0x5f, 0x74, 0x68],
   [0x72, 0x65, 0x61, 0x64, 0x5f, 0x63, 0x74, 0x64, 0x5f, 0x62, 0x61, 0x6e],
   [0x6e, 0x65, 0x72, 0x40, 0x40, 0x40, 0xa0, 0xa0, 0x2f, 0x24, 0x70, 0x61]] @
  [[0x72, 0x61, 0x6d, 0x65, 0x74, 0x65, 0x72, 0x24, 0x64, 0x61, 0x74, 0x61],
   [0x40, 0xa0, 0x90, 0xa0, 0xa2, 0x24, 0x64, 0x69, 0x63, 0x74, 0xa0, 0x90],
   [0x94, 0x23, 0x73, 0x74, 0x72, 0xa0, 0x90, 0x41, 0x40, 0x90, 0xa0, 0xa2],
   [0x04, 0x0a, 0xa0, 0x90, 0x04, 0x09, 0xa0, 0x90, 0x41, 0x40, 0x40, 0x40],
   [0x42, 0x40, 0x02, 0x3a, 0x61, 0xbe, 0xce, 0xa0, 0xa0, 0x04, 0x23, 0x40],
   [0xa0, 0x04, 0x24, 0x40, 0x40, 0x42, 0x84, 0x95, 0xa6, 0xbe, 0x00, 0x00],
   [0x01, 0x92, 0x00, 0x00, 0x00, 0x65, 0x00, 0x00, 0x01, 0x42, 0x00, 0x00],
   [0x01, 0x2b, 0xb0, 0xa0, 0x2a, 0x69, 0x67, 0x5f, 0x6e, 0x6f, 0x64, 0x65],
   [0x61, 0x70, 0x69, 0xa0, 0x25, 0x6e, 0x6f, 0x64, 0x65, 0x73, 0xa0, 0x2f],
   [0x6d, 0x65, 0x64, 0x69, 0x61, 0x5f, 0x6b, 0x69, 0x74, 0x5f, 0x63, 0x6f],
   [0x76, 0x65, 0x72, 0x40, 0x90, 0xa0, 0xa0, 0xa0, 0xa0, 0x01, 0x01, 0x54],
   [0x5f, 0xa0, 0x01, 0x01, 0x54, 0x63, 0x94, 0x40, 0xa0, 0xa0, 0x90, 0xa0],
   [0xa0, 0xa0, 0x01, 0x01, 0x55, 0x50, 0xa0, 0x01, 0x01, 0x55, 0x64, 0x3f],
   [0x24, 0x70, 0x61, 0x72, 0x61, 0x6d, 0x65, 0x74, 0x65, 0x72, 0x24, 0x63],
   [0x75, 0x72, 0x72, 0x65, 0x6e, 0x74, 0x5f, 0x6d, 0x65, 0x64, 0x69, 0x61],
   [0x5f, 0x70, 0x61, 0x72, 0x61, 0x6d, 0x73, 0xa0, 0xa0, 0xa0, 0x01, 0x01],
   [0x55, 0x65, 0xa0, 0x01, 0x01, 0x55, 0x7e, 0x9c, 0x90, 0xb0, 0xa0, 0xa0],
   [0xa0, 0x01, 0x01, 0x55, 0x65, 0xa0, 0x01, 0x01, 0x55, 0x69, 0x9c, 0x91],
   [0x05, 0x01, 0x49, 0x34, 0x63, 0x75, 0x72, 0x72, 0x65, 0x6e, 0x74, 0x5f],
   [0x6d, 0x65, 0x64, 0x69, 0x61, 0x5f, 0x70, 0x61, 0x72, 0x61, 0x6d, 0x73],
   [0x40, 0xa0, 0xa0, 0x90, 0xa0, 0xa0, 0xa0, 0x01, 0x01, 0x56, 0x50, 0xa0],
   [0x01, 0x01, 0x56, 0x57, 0x32, 0x24, 0x70, 0x61, 0x72, 0x61, 0x6d, 0x65],
   [0x74, 0x65, 0x72, 0x24, 0x63, 0x6f, 0x75, 0x6e, 0x74, 0x72, 0x79, 0xa0],
   [0xa0, 0xa0, 0x01, 0x01, 0x56, 0x58, 0xa0, 0x01, 0x01, 0x56, 0x64, 0x9c],
   [0x90, 0xb0, 0xa0, 0xa0, 0xa0, 0x01, 0x01, 0x56, 0x58, 0xa0, 0x01, 0x01],
   [0x56, 0x5c, 0x9c, 0x91, 0x05, 0x01, 0x5f, 0x27, 0x63, 0x6f, 0x75, 0x6e],
   [0x74, 0x72, 0x79, 0x40, 0xa0, 0xa0, 0x90, 0xa0, 0xa0, 0xa0, 0x01, 0x01],
   [0x57, 0x50, 0xa0, 0x01, 0x01, 0x57, 0x7d, 0x09, 0x38, 0x24, 0x70, 0x61],
   [0x72, 0x61, 0x6d, 0x65, 0x74, 0x65, 0x72, 0x24, 0x63, 0x6f, 0x6d, 0x62],
   [0x69, 0x6e, 0x65, 0x64, 0x5f, 0x73, 0x68, 0x61, 0x64, 0x6f, 0x77, 0x5f]] @
  [[0x70, 0x65, 0x72, 0x73, 0x69, 0x73, 0x74, 0x65, 0x6e, 0x74, 0x5f, 0x74],
   [0x61, 0x72, 0x67, 0x65, 0x74, 0x5f, 0x70, 0x61, 0x72, 0x61, 0x6d, 0x73],
   [0x5f, 0x6c, 0x69, 0x73, 0x74, 0xa0, 0xa0, 0xa0, 0x01, 0x01, 0x57, 0x7e],
   [0xa0, 0x01, 0x01, 0x57, 0x00, 0x40, 0x9a, 0x40, 0xa0, 0xa0, 0x90, 0xa0],
   [0xa0, 0xa0, 0x01, 0x01, 0x58, 0x50, 0xa0, 0x01, 0x01, 0x58, 0x6b, 0x09],
   [0x26, 0x24, 0x70, 0x61, 0x72, 0x61, 0x6d, 0x65, 0x74, 0x65, 0x72, 0x24],
   [0x6d, 0x65, 0x64, 0x69, 0x61, 0x5f, 0x63, 0x6f, 0x6e, 0x74, 0x69, 0x6e],
   [0x75, 0x69, 0x6e, 0x67, 0x5f, 0x69, 0x6e, 0x5f, 0x70, 0x6f, 0x6f, 0x6c],
   [0x5f, 0x69, 0x64, 0xa0, 0xa0, 0xa0, 0x01, 0x01, 0x58, 0x6c, 0xa0, 0x01],
   [0x01, 0x58, 0x70, 0x94, 0x40, 0x40, 0x40, 0x40, 0xa0, 0xa0, 0xa0, 0xa0],
   [0x01, 0x01, 0x5c, 0x48, 0xa0, 0x01, 0x01, 0x62, 0x69, 0x98, 0xb0, 0xa0],
   [0xa0, 0xa0, 0x01, 0x01, 0x5c, 0x4b, 0xa0, 0x01, 0x01, 0x5c, 0x00, 0x4d],
   [0x91, 0xb0, 0xa0, 0xa0, 0xa0, 0x01, 0x01, 0x5c, 0x4b, 0xa0, 0x01, 0x01],
   [0x5c, 0x7f, 0x9c, 0x90, 0xb0, 0xa0, 0xa0, 0xa0, 0x01, 0x01, 0x5c, 0x4b],
   [0xa0, 0x01, 0x01, 0x5c, 0x56, 0x9c, 0x90, 0xb0, 0xa0, 0xa0, 0xa0, 0x01],
   [0x01, 0x5c, 0x4b, 0xa0, 0x01, 0x01, 0x5c, 0x4f, 0x9c, 0x91, 0x05, 0x01],
   [0x9b, 0x26, 0x63, 0x6f, 0x6e, 0x66, 0x69, 0x67, 0x40, 0x09, 0x28, 0x6d],
   [0x61, 0x6e, 0x75, 0x61, 0x6c, 0x6c, 0x79, 0x5f, 0x6c, 0x6f, 0x67, 0x5f],
   [0x70, 0x61, 0x6e, 0x61, 0x76, 0x69, 0x73, 0x69, 0x6f, 0x6e, 0x5f, 0x61],
   [0x75, 0x74, 0x68, 0x6f, 0x72, 0x5f, 0x66, 0x69, 0x6c, 0x74, 0x65, 0x72],
   [0x5f, 0x71, 0x65, 0x40, 0x40, 0xa0, 0xa0, 0xa0, 0x01, 0x01, 0x5c, 0x00],
   [0x44, 0x04, 0x1c, 0x9c, 0x90, 0xb0, 0xa0, 0xa0, 0xa0, 0x01, 0x01, 0x5c],
   [0x00, 0x44, 0xa0, 0x01, 0x01, 0x5c, 0x00, 0x48, 0x9c, 0x91, 0x05, 0x01],
   [0xa9, 0x24, 0x75, 0x73, 0x65, 0x72, 0x40, 0xa0, 0xa0, 0xa0, 0xa0, 0x01],
   [0x01, 0x5d, 0x4c, 0xa0, 0x01, 0x01, 0x61, 0x4d, 0x90, 0xb0, 0xa0, 0xa0],
   [0x04, 0x06, 0xa0, 0x01, 0x01, 0x5d, 0x4e, 0x9c, 0x91, 0x09, 0x50, 0x24],
   [0x6c, 0x6f, 0x63, 0x61, 0x6c, 0x5f, 0x63, 0x6c, 0x69, 0x70, 0x73, 0x3f],
   [0x73, 0x74, 0x61, 0x72, 0x5f, 0x73, 0x65, 0x61, 0x72, 0x63, 0x68, 0x5f],
   [0x75, 0x70, 0x64, 0x61, 0x74, 0x65, 0x72, 0x3f, 0x43, 0x6c, 0x69, 0x70],
   [0x73, 0x53, 0x74, 0x61, 0x72, 0x53, 0x65, 0x61, 0x72, 0x63, 0x68, 0x4d]] @
  [[0x69, 0x6c, 0x65, 0x73, 0x74, 0x6f, 0x6e, 0x65, 0x55, 0x70, 0x64, 0x61],
   [0x74, 0x65, 0x72, 0x3f, 0x61, 0x73, 0x79, 0x6e, 0x63, 0x5f, 0x75, 0x70],
   [0x64, 0x61, 0x74, 0x65, 0x24, 0x71, 0x65, 0x40, 0xa0, 0xa0, 0xa0, 0x01],
   [0x01, 0x5d, 0x51, 0xa0, 0x01, 0x01, 0x61, 0x4d, 0x90, 0xa0, 0xa0, 0xa0],
   [0x01, 0x01, 0x5d, 0x57, 0xa0, 0x01, 0x01, 0x61, 0x4d, 0x92, 0xa0, 0xa0],
   [0xa0, 0xa0, 0x01, 0x01, 0x5d, 0x57, 0xa0, 0x01, 0x01, 0x5d, 0x71, 0x9c],
   [0x90, 0xb0, 0xa0, 0xa0, 0xa0, 0x01, 0x01, 0x5d, 0x57, 0xa0, 0x01, 0x01],
   [0x5d, 0x5a, 0x9c, 0x90, 0xb0, 0xa0, 0x04, 0x07, 0x9c, 0x90, 0xb0, 0xa0],
   [0x04, 0x0b, 0x9c, 0x91, 0x05, 0x12, 0x7f, 0x05, 0x12, 0x7d, 0x40, 0x05],
   [0x12, 0x75, 0x40, 0x36, 0x61, 0x73, 0x79, 0x6e, 0x63, 0x5f, 0x6f, 0x6e],
   [0x5f, 0x75, 0x73, 0x65, 0x72, 0x5f, 0x69, 0x67, 0x66, 0x62, 0x69, 0x64],
   [0x76, 0x32, 0x40, 0xa0, 0xa0, 0x90, 0xa0, 0xa0, 0xa0, 0x01, 0x01, 0x5e],
   [0x50, 0xa0, 0x01, 0x01, 0x5e, 0x5d, 0x38, 0x24, 0x70, 0x61, 0x72, 0x61],
   [0x6d, 0x65, 0x74, 0x65, 0x72, 0x24, 0x75, 0x6e, 0x69, 0x76, 0x65, 0x72],
   [0x73, 0x65, 0x5f, 0x6e, 0x61, 0x6d, 0x65, 0xa0, 0xa0, 0xa0, 0x01, 0x01],
   [0x5e, 0x5e, 0xa0, 0x01, 0x01, 0x5e, 0x00, 0x56, 0x9c, 0x90, 0xb0, 0xa0],
   [0xa0, 0xa0, 0x01, 0x01, 0x5e, 0x5e, 0xa0, 0x01, 0x01, 0x5e, 0x6a, 0x9c],
   [0x90, 0xb0, 0xa0, 0x04, 0x07, 0x9c, 0x90, 0xb0, 0xa0, 0x04, 0x0b, 0x9c],
   [0x91, 0x05, 0x12, 0xb5, 0x05, 0x12, 0xb3, 0x40, 0x05, 0x12, 0xab, 0x40],
   [0x09, 0x2b, 0x49, 0x47, 0x5f, 0x52, 0x45, 0x45, 0x4c, 0x53, 0x5f, 0x50],
   [0x41, 0x4e, 0x41, 0x56, 0x49, 0x53, 0x49, 0x4f, 0x4e, 0x5f, 0x52, 0x41],
   [0x4e, 0x4b, 0x49, 0x4e, 0x47, 0x5f, 0x41, 0x55, 0x54, 0x48, 0x4f, 0x52],
   [0x5f, 0x55, 0x4e, 0x49, 0x56, 0x45, 0x52, 0x53, 0x45, 0x40, 0xa0, 0xa0],
   [0x90, 0xa0, 0xa0, 0xa0, 0x01, 0x01, 0x5f, 0x50, 0xa0, 0x01, 0x01, 0x5f],
   [0x54, 0x2f, 0x24, 0x70, 0x61, 0x72, 0x61, 0x6d, 0x65, 0x74, 0x65, 0x72],
   [0x24, 0x75, 0x73, 0x65, 0x72, 0xa0, 0xa0, 0xa0, 0x01, 0x01, 0x5f, 0x55],
   [0xa0, 0x01, 0x01, 0x5f, 0x5e, 0x9c, 0x90, 0xb0, 0xa0, 0xa0, 0xa0, 0x01],
   [0x01, 0x5f, 0x55, 0xa0, 0x01, 0x01, 0x5f, 0x59, 0x9c, 0x91, 0x05, 0x02],
   [0x0b, 0x24, 0x75, 0x73, 0x65, 0x72, 0x40, 0xa0, 0xa0, 0x90, 0xa0, 0xa0],
   [0xa0, 0x01, 0x01, 0x60, 0x50, 0xa0, 0x01, 0x01, 0x60, 0x57, 0x32, 0x24]]"

definition dictionary_rows_12 :: "u8 list list" where
  "dictionary_rows_12 =
  [[0x70, 0x61, 0x72, 0x61, 0x6d, 0x65, 0x74, 0x65, 0x72, 0x24, 0x75, 0x73],
   [0x65, 0x72, 0x5f, 0x69, 0x64, 0xa0, 0xa0, 0xa0, 0x01, 0x01, 0x60, 0x58],
   [0xa0, 0x01, 0x01, 0x60, 0x7c, 0x92, 0xa0, 0xa0, 0xa0, 0xa0, 0x01, 0x01],
   [0x60, 0x58, 0xa0, 0x01, 0x01, 0x60, 0x5b, 0x9c, 0x91, 0x23, 0x73, 0x74],
   [0x72, 0xa0, 0xa0, 0x40, 0xa0, 0xa0, 0xa0, 0x01, 0x01, 0x60, 0x5c, 0xa0],
   [0x01, 0x01, 0x60, 0x7b, 0x92, 0xa0, 0xa0, 0xa0, 0xa0, 0x01, 0x01, 0x00],
   [0x00, 0x40, 0x00, 0x40, 0x40, 0x40, 0x40, 0x40, 0x40, 0x40, 0xb0, 0x2b],
   [0x74, 0x68, 0x72, 0x69, 0x66, 0x74, 0x5f, 0x73, 0x70, 0x65, 0x63, 0x08],
   [0x00, 0x00, 0x30, 0x00, 0xa0, 0x40, 0x90, 0x97, 0x90, 0xa0, 0x99, 0xa0],
   [0x42, 0xa0, 0x97, 0x90, 0xa0, 0x94, 0x23, 0x69, 0x6e, 0x74, 0xa0, 0x94],
   [0x23, 0x69, 0x6e, 0x74, 0xa0, 0x94, 0x23, 0x73, 0x74, 0x72, 0xa0, 0x41],
   [0xa0, 0x99, 0xa0, 0x42, 0xa0, 0x94, 0x23, 0x69, 0x6e, 0x74, 0x40, 0xa0],
   [0x94, 0x23, 0x69, 0x6e, 0x74, 0x40, 0x40, 0x40, 0x40, 0x40, 0x40, 0x41],
   [0x42, 0x04, 0x1f, 0x09, 0x2d, 0x72, 0x65, 0x61, 0x6c, 0x74, 0x69, 0x6d],
   [0x65, 0x2e, 0x61, 0x73, 0x79, 0x6e, 0x63, 0x69, 0x6f, 0x2e, 0x70, 0x79],
   [0x6c, 0x6f, 0x6e, 0x2e, 0x74, 0x74, 0x79, 0x70, 0x65, 0x73, 0x2e, 0x4c],
   [0x6f, 0x67, 0x67, 0x69, 0x6e, 0x67, 0x4d, 0x65, 0x74, 0x61, 0x64, 0x61],
   [0x74, 0x61, 0x40, 0x40, 0x40, 0x40, 0x40, 0x40, 0x40, 0x40, 0x40, 0xb0],
   [0x39, 0x74, 0x68, 0x72, 0x69, 0x66, 0x74, 0x5f, 0x73, 0x74, 0x72, 0x75],
   [0x63, 0x74, 0x5f, 0x61, 0x6e, 0x6e, 0x6f, 0x74, 0x61, 0x74, 0x69, 0x6f],
   [0x6e, 0x73, 0x08, 0x00, 0x00, 0x30, 0x00, 0xa0, 0x40, 0x90, 0xa2, 0x24],
   [0x64, 0x69, 0x63, 0x74, 0xa0, 0x90, 0x94, 0x23, 0x73, 0x74, 0x72, 0xa0],
   [0x90, 0x94, 0x23, 0x73, 0x74, 0x72, 0x40, 0x40, 0x40, 0x40, 0x41, 0x42],
   [0x04, 0x0e, 0x09, 0x2d, 0x72, 0x65, 0x61, 0x6c, 0x74, 0x69, 0x6d, 0x65],
   [0x2e, 0x61, 0x73, 0x79, 0x6e, 0x63, 0x69, 0x6f, 0x2e, 0x70, 0x79, 0x6c],
   [0x6f, 0x6e, 0x2e, 0x74, 0x74, 0x79, 0x70, 0x65, 0x73, 0x2e, 0x4c, 0x6f],
   [0x67, 0x67, 0x69, 0x6e, 0x67, 0x4d, 0x65, 0x74, 0x61, 0x64, 0x61, 0x74],
   [0x61, 0x40, 0x40, 0x40, 0x40, 0x40, 0xb0, 0x38, 0x74, 0x68, 0x72, 0x69],
   [0x66, 0x74, 0x5f, 0x66, 0x69, 0x65, 0x6c, 0x64, 0x5f, 0x61, 0x6e, 0x6e],
   [0x6f, 0x74, 0x61, 0x74, 0x69, 0x6f, 0x6e, 0x73, 0x08, 0x00, 0x00, 0x30]] @
  [[0x00, 0xa0, 0x40, 0x90, 0xa2, 0x24, 0x64, 0x69, 0x63, 0x74, 0xa0, 0x90],
   [0x94, 0x23, 0x69, 0x6e, 0x74, 0xa0, 0x90, 0xa2, 0x04, 0x08, 0xa0, 0x90],
   [0x94, 0x23, 0x73, 0x74, 0x72, 0xa0, 0x90, 0x94, 0x23, 0x73, 0x74, 0x72],
   [0x40, 0x40, 0x40, 0x40, 0x40, 0x41, 0x42, 0x04, 0x15, 0x09, 0x2d, 0x72],
   [0x65, 0x61, 0x6c, 0x74, 0x69, 0x6d, 0x65, 0x2e, 0x61, 0x73, 0x79, 0x6e],
   [0x63, 0x69, 0x6f, 0x2e, 0x70, 0x79, 0x6c, 0x6f, 0x6e, 0x2e, 0x74, 0x74],
   [0x79, 0x70, 0x65, 0x73, 0x2e, 0x4c, 0x6f, 0x67, 0x67, 0x69, 0x6e, 0x67],
   [0x4d, 0x65, 0x74, 0x61, 0x64, 0x61, 0x74, 0x61, 0x40, 0x40, 0x40, 0x40],
   [0x40, 0x40, 0x40, 0x40, 0x50, 0x90, 0xa0, 0x04, 0x28, 0xa0, 0x04, 0x4a],
   [0xa0, 0x04, 0x1a, 0x40, 0x84, 0x95, 0xa6, 0xbe, 0x00, 0x00, 0x01, 0xd9],
   [0x00, 0x00, 0x00, 0x7b, 0x00, 0x00, 0x01, 0x7c, 0x00, 0x00, 0x01, 0x5d],
   [0xa0, 0xa0, 0xa0, 0xa0, 0x00, 0x5a, 0x45, 0xa0, 0x00, 0x5a, 0x01, 0x00],
   [0x9c, 0x92, 0xa0, 0xa0, 0xa0, 0xa0, 0x00, 0x5a, 0x45, 0xa0, 0x00, 0x5a],
   [0x55, 0x9c, 0x90, 0xb0, 0xa0, 0x04, 0x07, 0x9c, 0x90, 0xb0, 0xa0, 0x04],
   [0x0b, 0x9c, 0x90, 0xb0, 0xa0, 0x04, 0x0f, 0x9c, 0x91, 0x27, 0x6e, 0x6f],
   [0x64, 0x65, 0x61, 0x70, 0x69, 0x27, 0x70, 0x72, 0x69, 0x76, 0x61, 0x63],
   [0x79, 0x40, 0x30, 0x6e, 0x6f, 0x64, 0x65, 0x5f, 0x65, 0x64, 0x67, 0x65],
   [0x5f, 0x67, 0x65, 0x74, 0x74, 0x65, 0x72, 0x40, 0x30, 0x6e, 0x6f, 0x64],
   [0x65, 0x5f, 0x65, 0x64, 0x67, 0x65, 0x5f, 0x67, 0x65, 0x74, 0x74, 0x65],
   [0x72, 0x40, 0xa0, 0xa0, 0x40, 0xa0, 0xa0, 0xa0, 0x00, 0x5a, 0x56, 0xa0],
   [0x00, 0x5a, 0x01, 0x00, 0x9b, 0x92, 0xa0, 0xa0, 0xa0, 0xa0, 0x00, 0x5a],
   [0x56, 0xa0, 0x00, 0x5a, 0x65, 0x9c, 0x90, 0xb0, 0xa0, 0x04, 0x07, 0x9c],
   [0x90, 0xb0, 0xa0, 0x04, 0x0b, 0x9c, 0x90, 0xb0, 0xa0, 0x04, 0x0f, 0x9c],
   [0x91, 0x27, 0x6e, 0x6f, 0x64, 0x65, 0x61, 0x70, 0x69, 0x27, 0x70, 0x72],
   [0x69, 0x76, 0x61, 0x63, 0x79, 0x40, 0x31, 0x6e, 0x6f, 0x64, 0x65, 0x5f],
   [0x78, 0x69, 0x64, 0x5f, 0x6d, 0x65, 0x74, 0x61, 0x64, 0x61, 0x74, 0x61],
   [0x40, 0x2f, 0x45, 0x64, 0x67, 0x65, 0x58, 0x49, 0x44, 0x4d, 0x65, 0x74],
   [0x61, 0x64, 0x61, 0x74, 0x61, 0x40, 0xa0, 0xa0, 0x90, 0xa0, 0xa0, 0xa0],
   [0x00, 0x5a, 0x66, 0xa0, 0x00, 0x5a, 0x71, 0x36, 0x24, 0x70, 0x61, 0x72],
   [0x61, 0x6d, 0x65, 0x74, 0x65, 0x72, 0x24, 0x61, 0x73, 0x73, 0x65, 0x74]] @
  [[0x5f, 0x63, 0x6c, 0x61, 0x73, 0x73, 0xa0, 0xa0, 0xa0, 0x00, 0x5a, 0x72],
   [0xa0, 0x00, 0x5a, 0x7d, 0x94, 0x94, 0xa0, 0x29, 0x6e, 0x6f, 0x64, 0x65],
   [0x2e, 0x65, 0x64, 0x67, 0x65, 0x40, 0xa0, 0xa0, 0x90, 0xa0, 0xa0, 0xa0],
   [0x00, 0x5a, 0x7f, 0xa0, 0x00, 0x5a, 0x00, 0x43, 0x2f, 0x24, 0x70, 0x61],
   [0x72, 0x61, 0x6d, 0x65, 0x74, 0x65, 0x72, 0x24, 0x72, 0x65, 0x70, 0x6f],
   [0xa0, 0xa0, 0xa0, 0x00, 0x5a, 0x00, 0x44, 0xa0, 0x00, 0x5a, 0x00, 0x56],
   [0x94, 0x94, 0xa0, 0x30, 0x69, 0x6e, 0x73, 0x74, 0x61, 0x67, 0x72, 0x61],
   [0x6d, 0x2d, 0x73, 0x65, 0x72, 0x76, 0x65, 0x72, 0x40, 0xa0, 0xa0, 0x90],
   [0xa0, 0xa0, 0xa0, 0x00, 0x5a, 0x00, 0x58, 0xa0, 0x00, 0x5a, 0x00, 0x63],
   [0x36, 0x24, 0x70, 0x61, 0x72, 0x61, 0x6d, 0x65, 0x74, 0x65, 0x72, 0x24],
   [0x73, 0x63, 0x68, 0x65, 0x6d, 0x61, 0x5f, 0x6e, 0x61, 0x6d, 0x65, 0xa0],
   [0xa0, 0xa0, 0x00, 0x5a, 0x00, 0x64, 0xa0, 0x00, 0x5a, 0x00, 0x7c, 0x94],
   [0x94, 0xa0, 0x36, 0x69, 0x67, 0x5f, 0x64, 0x69, 0x72, 0x65, 0x63, 0x74],
   [0x5f, 0x74, 0x68, 0x72, 0x65, 0x61, 0x64, 0x5f, 0x6d, 0x65, 0x64, 0x69],
   [0x61, 0x40, 0xa0, 0xa0, 0x90, 0xa0, 0xa0, 0xa0, 0x00, 0x5a, 0x00, 0x7e],
   [0xa0, 0x00, 0x5a, 0x01, 0x00, 0x82, 0x2f, 0x24, 0x70, 0x61, 0x72, 0x61],
   [0x6d, 0x65, 0x74, 0x65, 0x72, 0x24, 0x65, 0x64, 0x67, 0x65, 0xa0, 0xa0],
   [0xa0, 0x00, 0x5a, 0x01, 0x00, 0x83, 0xa0, 0x00, 0x5a, 0x01, 0x00, 0x9a],
   [0x94, 0x94, 0xa0, 0x35, 0x6d, 0x65, 0x64, 0x69, 0x61, 0x5f, 0x74, 0x6f],
   [0x5f, 0x78, 0x73, 0x68, 0x61, 0x72, 0x65, 0x64, 0x5f, 0x75, 0x73, 0x65],
   [0x72, 0x40, 0x40, 0x40, 0x40, 0x84, 0x95, 0xa6, 0xbe, 0x00, 0x00, 0x02],
   [0x07, 0x00, 0x00, 0x00, 0x83, 0x00, 0x00, 0x01, 0x92, 0x00, 0x00, 0x01],
   [0x73, 0xa0, 0xa0, 0xa0, 0xa0, 0x01, 0x01, 0xd4, 0x49, 0xa0, 0x01, 0x01],
   [0xd4, 0x51, 0x9c, 0x91, 0x28, 0x70, 0x72, 0x6f, 0x70, 0x65, 0x72, 0x74],
   [0x79, 0xa0, 0xa0, 0xa0, 0xa0, 0x01, 0x01, 0xd5, 0x49, 0xa0, 0x01, 0x01],
   [0xd5, 0x01, 0x00, 0x99, 0x92, 0xa0, 0xa0, 0xa0, 0xa0, 0x01, 0x01, 0xd5],
   [0x49, 0xa0, 0x01, 0x01, 0xd5, 0x5a, 0x9c, 0x90, 0xb0, 0xa0, 0x04, 0x07],
   [0x9c, 0x90, 0xb0, 0xa0, 0x04, 0x0b, 0x9c, 0x90, 0xb0, 0xa0, 0x04, 0x0f],
   [0x9c, 0x91, 0x27, 0x6e, 0x6f, 0x64, 0x65, 0x61, 0x70, 0x69, 0x27, 0x70],
   [0x72, 0x69, 0x76, 0x61, 0x63, 0x79, 0x40, 0x31, 0x6e, 0x6f, 0x64, 0x65]] @
  [[0x5f, 0x66, 0x69, 0x65, 0x6c, 0x64, 0x5f, 0x67, 0x65, 0x74, 0x74, 0x65],
   [0x72, 0x40, 0x31, 0xa0, 0x01, 0x04, 0x0d, 0x00, 0x4b, 0x92, 0xa0, 0xa0],
   [0xa0, 0xa0, 0x01, 0x04, 0x0d, 0x5a, 0xa0, 0x01, 0x04, 0x0d, 0x72, 0x9c],
   [0x90, 0xb0, 0xa0, 0x04, 0x07, 0x9c, 0x90, 0xb0, 0xa0, 0x04, 0x0b, 0x9c],
   [0x91, 0x2a, 0x66, 0x62, 0x69, 0x6e, 0x74, 0x65, 0x72, 0x6e, 0x61, 0x6c],
   [0x26, 0x68, 0x65, 0x6c, 0x70, 0x65, 0x72, 0x40, 0x38, 0x67, 0x65, 0x74],
   [0x5f, 0x61, 0x64, 0x5f, 0x6d, 0x65, 0x64, 0x69, 0x61, 0x5f, 0x73, 0x6f],
   [0x75, 0x72, 0x63, 0x65, 0x5f, 0x74, 0x79, 0x70, 0x65, 0x40, 0xa0, 0xa0],
   [0x40, 0xa0, 0xa0, 0xa0, 0x01, 0x04, 0x0d, 0x73, 0xa0, 0x01, 0x04, 0x0d],
   [0x00, 0x4a, 0x9c, 0x90, 0xb0, 0xa0, 0xa0, 0xa0, 0x01, 0x04, 0x0d, 0x73],
   [0xa0, 0x01, 0x04, 0x0d, 0x7a, 0x9c, 0x91, 0x05, 0x07, 0x52, 0x2f, 0x63],
   [0x72, 0x65, 0x61, 0x74, 0x69, 0x6f, 0x6e, 0x5f, 0x61, 0x70, 0x70, 0x5f],
   [0x69, 0x64, 0x40, 0x40, 0xa0, 0xa0, 0xa0, 0xa0, 0x01, 0x04, 0x0e, 0x4c],
   [0xa0, 0x01, 0x04, 0x0e, 0x00, 0x4c, 0x95, 0xa0, 0xa0, 0xa0, 0x01, 0x04],
   [0x0e, 0x4c, 0xa0, 0x01, 0x04, 0x0e, 0x00, 0x4c, 0x92, 0xa0, 0xa0, 0xa0],
   [0xa0, 0x01, 0x04, 0x0e, 0x4c, 0xa0, 0x01, 0x04, 0x0e, 0x57, 0x9c, 0x90],
   [0xb0, 0xa0, 0xa0, 0xa0, 0x01, 0x04, 0x0e, 0x4c, 0xa0, 0x01, 0x04, 0x0e],
   [0x52, 0x9c, 0x90, 0xb0, 0xa0, 0x04, 0x07, 0x9c, 0x90, 0xb0, 0xa0, 0x04],
   [0x0b, 0x9c, 0x91, 0x05, 0x07, 0xc8, 0x05, 0x07, 0xc7, 0x40, 0x05, 0x07],
   [0xc6, 0x40, 0x24, 0x69, 0x6e, 0x63, 0x72, 0x40, 0xa0, 0xa0, 0x40, 0xa0],
   [0xa0, 0xa0, 0x01, 0x04, 0x0e, 0x58, 0xa0, 0x01, 0x04, 0x0e, 0x00, 0x4b],
   [0x98, 0xa0, 0x90, 0xa0, 0xa0, 0xa0, 0x01, 0x04, 0x0e, 0x58, 0xa0, 0x01],
   [0x04, 0x0e, 0x00, 0x4b, 0x09, 0x23, 0x76, 0x69, 0x64, 0x65, 0x6f, 0x5f],
   [0x61, 0x64, 0x73, 0x2e, 0x63, 0x72, 0x65, 0x61, 0x74, 0x65, 0x5f, 0x6d],
   [0x65, 0x64, 0x69, 0x61, 0x2e, 0x73, 0x6f, 0x75, 0x72, 0x63, 0x65, 0x5f],
   [0x74, 0x79, 0x70, 0x65, 0x2e, 0xa0, 0x91, 0xa0, 0xa0, 0xa0, 0x01, 0x04],
   [0x0e, 0x7e, 0xa0, 0x01, 0x04, 0x0e, 0x00, 0x49, 0x9c, 0x91, 0x04, 0x60],
   [0x40, 0x40, 0xa0, 0xa0, 0xa0, 0xa0, 0x01, 0x04, 0x0f, 0x4c, 0xa0, 0x01],
   [0x04, 0x20, 0x4d, 0x90, 0xb0, 0xa0, 0xa0, 0x04, 0x06, 0xa0, 0x01, 0x04],
   [0x0f, 0x55, 0x08, 0x00, 0x00, 0x04, 0x11, 0xa0, 0xa0, 0xa0, 0xa0, 0x01]] @
  [[0x04, 0x0f, 0x4c, 0xa0, 0x01, 0x04, 0x0f, 0x51, 0x9c, 0x91, 0x09, 0x53],
   [0x24, 0x6c, 0x6f, 0x63, 0x61, 0x6c, 0x5f, 0x66, 0x62, 0x69, 0x6e, 0x74],
   [0x65, 0x72, 0x6e, 0x61, 0x6c, 0x3f, 0x74, 0x68, 0x72, 0x69, 0x66, 0x74],
   [0x5f, 0x73, 0x65, 0x72, 0x76, 0x65, 0x72, 0x3f, 0x44, 0x69, 0x73, 0x74],
   [0x69, 0x6c, 0x6c, 0x65, 0x72, 0x79, 0x49, 0x6e, 0x73, 0x74, 0x61, 0x67],
   [0x72, 0x61, 0x6d, 0x53, 0x65, 0x72, 0x76, 0x69, 0x63, 0x65, 0x48, 0x61],
   [0x6e, 0x64, 0x6c, 0x65, 0x72, 0x3f, 0x63, 0x72, 0x65, 0x61, 0x74, 0x65],
   [0x4d, 0x65, 0x64, 0x69, 0x61, 0x24, 0x6d, 0x65, 0x64, 0x69, 0x61, 0xa0],
   [0xa0, 0xa0, 0xa0, 0x01, 0x04, 0x0f, 0x53, 0xa0, 0x01, 0x04, 0x0f, 0x55],
   [0x9c, 0x91, 0x09, 0x50, 0x24, 0x6c, 0x6f, 0x63, 0x61, 0x6c, 0x5f, 0x66],
   [0x62, 0x69, 0x6e, 0x74, 0x65, 0x72, 0x6e, 0x61, 0x6c, 0x3f, 0x74, 0x68],
   [0x72, 0x69, 0x66, 0x74, 0x5f, 0x73, 0x65, 0x72, 0x76, 0x65, 0x72, 0x3f],
   [0x44, 0x69, 0x73, 0x74, 0x69, 0x6c, 0x6c, 0x65, 0x72, 0x79, 0x49, 0x6e],
   [0x73, 0x74, 0x61, 0x67, 0x72, 0x61, 0x6d, 0x53, 0x65, 0x72, 0x76, 0x69],
   [0x63, 0x65, 0x48, 0x61, 0x6e, 0x64, 0x6c, 0x65, 0x72, 0x3f, 0x63, 0x72],
   [0x65, 0x61, 0x74, 0x65, 0x4d, 0x65, 0x64, 0x69, 0x61, 0x24, 0x5f, 0x5f],
   [0x40, 0x40, 0xa0, 0xa0, 0xa0, 0x01, 0x04, 0x0f, 0x58, 0xa0, 0x01, 0x04],
   [0x20, 0x4d, 0x90, 0xa0, 0xa0, 0xa0, 0x01, 0x04, 0x10, 0x50, 0xa0, 0x01],
   [0x04, 0x1f, 0x51, 0x92, 0xa0, 0xa0, 0xa0, 0xa0, 0x01, 0x04, 0x10, 0x50],
   [0xa0, 0x01, 0x04, 0x10, 0x79, 0x9c, 0x90, 0xb0, 0xa0, 0xa0, 0xa0, 0x01],
   [0x04, 0x10, 0x50, 0xa0, 0x01, 0x04, 0x10, 0x64, 0x9c, 0x90, 0xb0, 0xa0],
   [0x04, 0x07, 0x9c, 0x90, 0xb0, 0xa0, 0x04, 0x0b, 0x9c, 0x91, 0x25, 0x6d],
   [0x65, 0x64, 0x69, 0x61, 0x30, 0x63, 0x72, 0x65, 0x61, 0x74, 0x69, 0x6f],
   [0x6e, 0x5f, 0x73, 0x65, 0x72, 0x76, 0x69, 0x63, 0x65, 0x40, 0x34, 0x4d],
   [0x65, 0x64, 0x69, 0x61, 0x43, 0x72, 0x65, 0x61, 0x74, 0x69, 0x6f, 0x6e],
   [0x53, 0x65, 0x72, 0x76, 0x69, 0x63, 0x65, 0x40, 0x34, 0x61, 0x73, 0x79],
   [0x6e, 0x63, 0x5f, 0x63, 0x72, 0x65, 0x61, 0x74, 0x65, 0x5f, 0x61, 0x64],
   [0x5f, 0x70, 0x6f, 0x73, 0x74, 0x40, 0xa0, 0xa0, 0x40, 0xa0, 0xa0, 0xa0],
   [0x01, 0x04, 0x11, 0x54, 0xa0, 0x01, 0x04, 0x11, 0x5b, 0x9c, 0x91, 0x05],
   [0x07, 0xe0, 0xa0, 0xa0, 0x90, 0xa0, 0xa0, 0xa0, 0x01, 0x04, 0x12, 0x54]]"

definition dictionary_rows_13 :: "u8 list list" where
  "dictionary_rows_13 =
  [[0xa0, 0x01, 0x04, 0x12, 0x64, 0x3b, 0x24, 0x70, 0x61, 0x72, 0x61, 0x6d],
   [0x65, 0x74, 0x65, 0x72, 0x24, 0x64, 0x65, 0x76, 0x69, 0x63, 0x65, 0x5f],
   [0x74, 0x69, 0x6d, 0x65, 0x73, 0x74, 0x61, 0x6d, 0x70, 0xa0, 0xa0, 0xa0],
   [0x01, 0x04, 0x12, 0x65, 0xa0, 0x01, 0x04, 0x12, 0x70, 0x92, 0xa0, 0xa0],
   [0xa0, 0xa0, 0x01, 0x04, 0x12, 0x65, 0xa0, 0x01, 0x04, 0x12, 0x6e, 0x9c],
   [0x90, 0xb0, 0xa0, 0xa0, 0xa0, 0x01, 0x04, 0x12, 0x65, 0xa0, 0x01, 0x04],
   [0x12, 0x69, 0x9c, 0x91, 0x24, 0x74, 0x69, 0x6d, 0x65, 0x24, 0x74, 0x69],
   [0x6d, 0x65, 0x40, 0x40, 0xa0, 0xa0, 0x90, 0xa0, 0xa0, 0xa0, 0x01, 0x04],
   [0x13, 0x54, 0xa0, 0x01, 0x04, 0x13, 0x5e, 0x35, 0x24, 0x70, 0x61, 0x72],
   [0x61, 0x6d, 0x65, 0x74, 0x65, 0x72, 0x24, 0x6d, 0x65, 0x64, 0x69, 0x61],
   [0x5f, 0x74, 0x79, 0x70, 0x65, 0xa0, 0xa0, 0xa0, 0x01, 0x04, 0x13, 0x5f],
   [0xa0, 0x01, 0x04, 0x15, 0x78, 0x08, 0x00, 0x00, 0x04, 0x10, 0xb0, 0xa0],
   [0xa0, 0xa0, 0x01, 0x04, 0x13, 0x5f, 0xa0, 0x01, 0x04, 0x13, 0x7e, 0x9c],
   [0x90, 0xb0, 0xa0, 0xa0, 0xa0, 0x01, 0x04, 0x13, 0x5f, 0xa0, 0x01, 0x04],
   [0x13, 0x78, 0x9c, 0x90, 0xb0, 0xa0, 0xa0, 0xa0, 0x01, 0x04, 0x13, 0x5f],
   [0xa0, 0x01, 0x04, 0x13, 0x6e, 0x9c, 0x90, 0xb0, 0xa0, 0x04, 0x07, 0x9c],
   [0x91, 0x25, 0x6d, 0x65, 0x64, 0x69, 0x61, 0x29, 0x63, 0x6f, 0x6e, 0x73],
   [0x74, 0x61, 0x6e, 0x74, 0x73, 0x40, 0x29, 0x4d, 0x65, 0x64, 0x69, 0x61],
   [0x54, 0x79, 0x70, 0x65, 0x40, 0x25, 0x49, 0x4d, 0x41, 0x47, 0x45, 0x40],
   [0xa0, 0xa0, 0xa0, 0x01, 0x04, 0x14, 0x57, 0xa0, 0x01, 0x04, 0x14, 0x6a],
   [0x08, 0x00, 0x00, 0x04, 0x12, 0xa0, 0x42, 0xa0, 0xa0, 0xa0, 0x01, 0x04],
   [0x14, 0x5b, 0xa0, 0x01, 0x04, 0x14, 0x6a, 0x9c, 0x91, 0x05, 0x03, 0x39],
   [0xa0, 0xa0, 0xa0, 0x01, 0x04, 0x15, 0x59, 0xa0, 0x01, 0x04, 0x15, 0x78],
   [0x9c, 0x90, 0xb0, 0xa0, 0xa0, 0xa0, 0x01, 0x04, 0x15, 0x59, 0xa0, 0x01],
   [0x04, 0x15, 0x72, 0x9c, 0x90, 0xb0, 0xa0, 0xa0, 0xa0, 0x01, 0x04, 0x15],
   [0x59, 0xa0, 0x01, 0x04, 0x15, 0x68, 0x9c, 0x90, 0xb0, 0xa0, 0x04, 0x07],
   [0x9c, 0x91, 0x04, 0x28, 0x04, 0x27, 0x40, 0x46, 0x65, 0x61, 0x74, 0x75],
   [0x72, 0x65, 0x4e, 0x61, 0x6d, 0x65, 0x84, 0x95, 0xa6, 0xbe, 0x00, 0x00],
   [0x00, 0x66, 0x00, 0x00, 0x00, 0x09, 0x00, 0x00, 0x00, 0x2b, 0x00, 0x00],
   [0x00, 0x20, 0x92, 0xb1, 0xa0, 0x2a, 0x69, 0x67, 0x5f, 0x6e, 0x6f, 0x64]] @
  [[0x65, 0x61, 0x70, 0x69, 0xa0, 0x25, 0x65, 0x64, 0x67, 0x65, 0x73, 0xa0],
   [0x09, 0x23, 0x6d, 0x65, 0x64, 0x69, 0x61, 0x5f, 0x74, 0x6f, 0x5f, 0x67],
   [0x61, 0x74, 0x69, 0x6e, 0x67, 0x5f, 0x6f, 0x6e, 0x5f, 0x66, 0x75, 0x6e],
   [0x64, 0x72, 0x61, 0x69, 0x73, 0x65, 0x72, 0x5f, 0x63, 0x6f, 0x76, 0x65],
   [0x72, 0x40, 0x09, 0x27, 0x45, 0x64, 0x67, 0x65, 0x4d, 0x65, 0x64, 0x69],
   [0x61, 0x54, 0x6f, 0x47, 0x61, 0x74, 0x69, 0x6e, 0x67, 0x4f, 0x6e, 0x46],
   [0x75, 0x6e, 0x64, 0x72, 0x61, 0x69, 0x73, 0x65, 0x72, 0x43, 0x6f, 0x76],
   [0x65, 0x72, 0x51, 0x75, 0x65, 0x72, 0x79, 0x41, 0x84, 0x95, 0xa6, 0xbe],
   [0x00, 0x00, 0x00, 0x3b, 0x00, 0x00, 0x00, 0x09, 0x00, 0x00, 0x00, 0x21],
   [0x00, 0x00, 0x00, 0x1a, 0x92, 0xb1, 0xa0, 0x2f, 0x75, 0x6e, 0x69, 0x63],
   [0x6f, 0x72, 0x6e, 0x5f, 0x61, 0x73, 0x79, 0x6e, 0x63, 0x69, 0x6f, 0xa0],
   [0x2f, 0x73, 0x65, 0x61, 0x72, 0x63, 0x68, 0x5f, 0x72, 0x65, 0x73, 0x70],
   [0x6f, 0x6e, 0x73, 0x65, 0xa0, 0x26, 0x74, 0x74, 0x79, 0x70, 0x65, 0x73],
   [0x40, 0x2c, 0x53, 0x65, 0x61, 0x72, 0x63, 0x68, 0x52, 0x65, 0x73, 0x75],
   [0x6c, 0x74, 0x41, 0x84, 0x95, 0xa6, 0xbe, 0x00, 0x00, 0x00, 0xbc, 0x00],
   [0x00, 0x00, 0x0b, 0x00, 0x00, 0x00, 0x45, 0x00, 0x00, 0x00, 0x30, 0x9a],
   [0xd0, 0x09, 0x52, 0x66, 0x62, 0x63, 0x6f, 0x64, 0x65, 0x2e, 0x70, 0x79],
   [0x33, 0x5f, 0x61, 0x73, 0x79, 0x6e, 0x63, 0x69, 0x6f, 0x2e, 0x69, 0x6e],
   [0x73, 0x74, 0x61, 0x67, 0x72, 0x61, 0x6d, 0x2e, 0x64, 0x69, 0x73, 0x74],
   [0x69, 0x6c, 0x6c, 0x65, 0x72, 0x79, 0x2e, 0x69, 0x67, 0x74, 0x76, 0x2e],
   [0x74, 0x79, 0x70, 0x65, 0x73, 0x2e, 0x5f, 0x4c, 0x69, 0x73, 0x74, 0x5f],
   [0x5f, 0x4d, 0x6f, 0x6e, 0x65, 0x74, 0x69, 0x7a, 0x61, 0x74, 0x69, 0x6f],
   [0x6e, 0x50, 0x72, 0x6f, 0x64, 0x75, 0x63, 0x74, 0x54, 0x79, 0x70, 0x65],
   [0x54, 0x90, 0xa2, 0x2f, 0x74, 0x79, 0x70, 0x69, 0x6e, 0x67, 0x2e, 0x53],
   [0x65, 0x71, 0x75, 0x65, 0x6e, 0x63, 0x65, 0xa0, 0x90, 0x94, 0x09, 0x4a],
   [0x66, 0x62, 0x63, 0x6f, 0x64, 0x65, 0x2e, 0x70, 0x79, 0x33, 0x5f, 0x61],
   [0x73, 0x79, 0x6e, 0x63, 0x69, 0x6f, 0x2e, 0x69, 0x6e, 0x73, 0x74, 0x61],
   [0x67, 0x72, 0x61, 0x6d, 0x2e, 0x64, 0x69, 0x73, 0x74, 0x69, 0x6c, 0x6c],
   [0x65, 0x72, 0x79, 0x2e, 0x69, 0x67, 0x74, 0x76, 0x2e, 0x74, 0x79, 0x70],
   [0x65, 0x73, 0x2e, 0x4d, 0x6f, 0x6e, 0x65, 0x74, 0x69, 0x7a, 0x61, 0x74]] @
  [[0x69, 0x6f, 0x6e, 0x50, 0x72, 0x6f, 0x64, 0x75, 0x63, 0x74, 0x54, 0x79],
   [0x70, 0x65, 0x40, 0x42, 0x90, 0x40, 0x40, 0x84, 0x95, 0xa6, 0xbe, 0x00],
   [0x00, 0x00, 0x01, 0x00, 0x00, 0x00, 0x00, 0x00, 0x00, 0x00, 0x00, 0x00],
   [0x00, 0x00, 0x00, 0x40, 0x84, 0x95, 0xa6, 0xbe, 0x00, 0x00, 0x31, 0xf0],
   [0x00, 0x00, 0x0c, 0x8b, 0x00, 0x00, 0x28, 0x82, 0x00, 0x00, 0x25, 0x57],
   [0x90, 0x90, 0xc0, 0xc0, 0x40, 0x40, 0x40, 0x40, 0xd0, 0xa0, 0x09, 0x62],
   [0x69, 0x67, 0x5f, 0x6e, 0x6f, 0x64, 0x65, 0x61, 0x70, 0x69, 0x2f, 0x65],
   [0x64, 0x67, 0x65, 0x73, 0x2f, 0x66, 0x72, 0x6f, 0x6d, 0x5f, 0x69, 0x6e],
   [0x73, 0x74, 0x61, 0x67, 0x72, 0x61, 0x6d, 0x5f, 0x6d, 0x65, 0x64, 0x69],
   [0x61, 0x5f, 0x64, 0x65, 0x66, 0x69, 0x6e, 0x65, 0x64, 0x5f, 0x6f, 0x6e],
   [0x5f, 0x66, 0x62, 0x5f, 0x69, 0x6e, 0x73, 0x74, 0x61, 0x67, 0x72, 0x61],
   [0x6d, 0x5f, 0x64, 0x72, 0x61, 0x66, 0x74, 0x5f, 0x70, 0x72, 0x6f, 0x6d],
   [0x6f, 0x74, 0x69, 0x6f, 0x6e, 0x5f, 0x6f, 0x6e, 0x5f, 0x73, 0x63, 0x68],
   [0x65, 0x64, 0x75, 0x6c, 0x65, 0x64, 0x5f, 0x6c, 0x69, 0x76, 0x65, 0x2e],
   [0x70, 0x79, 0x01, 0x00, 0x97, 0xa0, 0x2a, 0x69, 0x67, 0x5f, 0x6e, 0x6f],
   [0x64, 0x65, 0x61, 0x70, 0x69, 0xa0, 0x25, 0x65, 0x64, 0x67, 0x65, 0x73],
   [0xa0, 0x09, 0x4e, 0x66, 0x72, 0x6f, 0x6d, 0x5f, 0x69, 0x6e, 0x73, 0x74],
   [0x61, 0x67, 0x72, 0x61, 0x6d, 0x5f, 0x6d, 0x65, 0x64, 0x69, 0x61, 0x5f],
   [0x64, 0x65, 0x66, 0x69, 0x6e, 0x65, 0x64, 0x5f, 0x6f, 0x6e, 0x5f, 0x66],
   [0x62, 0x5f, 0x69, 0x6e, 0x73, 0x74, 0x61, 0x67, 0x72, 0x61, 0x6d, 0x5f],
   [0x64, 0x72, 0x61, 0x66, 0x74, 0x5f, 0x70, 0x72, 0x6f, 0x6d, 0x6f, 0x74],
   [0x69, 0x6f, 0x6e, 0x5f, 0x6f, 0x6e, 0x5f, 0x73, 0x63, 0x68, 0x65, 0x64],
   [0x75, 0x6c, 0x65, 0x64, 0x5f, 0x6c, 0x69, 0x76, 0x65, 0x40, 0x40, 0x40],
   [0x40, 0x40, 0xa0, 0xa0, 0xa0, 0xa0, 0x48, 0x40, 0xa0, 0x48, 0x62, 0x99],
   [0xa0, 0x90, 0xa0, 0xa0, 0xa0, 0x48, 0x45, 0xa0, 0x48, 0x4f, 0xa0, 0x2a],
   [0x5f, 0x5f, 0x66, 0x75, 0x74, 0x75, 0x72, 0x65, 0x5f, 0x5f, 0x40, 0xa0],
   [0xa0, 0xa0, 0xa0, 0x48, 0x57, 0xa0, 0x48, 0x62, 0xa0, 0xa0, 0x2b, 0x61],
   [0x6e, 0x6e, 0x6f, 0x74, 0x61, 0x74, 0x69, 0x6f, 0x6e, 0x73, 0x40, 0x40],
   [0x40, 0xa0, 0xa0, 0xa0, 0xa0, 0x4a, 0x40, 0xa0, 0x58, 0x41, 0x99, 0xa0],
   [0x90, 0xa0, 0xa0, 0xa0, 0x4a, 0x45, 0xa0, 0x4a, 0x4b, 0xa0, 0x26, 0x74]] @
  [[0x79, 0x70, 0x69, 0x6e, 0x67, 0x40, 0xa0, 0xa0, 0xa0, 0xa0, 0x4b, 0x44],
   [0xa0, 0x4b, 0x47, 0xa0, 0xa0, 0x23, 0x41, 0x6e, 0x79, 0x40, 0x40, 0xa0],
   [0xa0, 0xa0, 0xa0, 0x4c, 0x44, 0xa0, 0x4c, 0x4e, 0xa0, 0xa0, 0x2a, 0x43],
   [0x6f, 0x6c, 0x6c, 0x65, 0x63, 0x74, 0x69, 0x6f, 0x6e, 0x40, 0x40, 0xa0],
   [0xa0, 0xa0, 0xa0, 0x4d, 0x44, 0xa0, 0x4d, 0x48, 0xa0, 0xa0, 0x24, 0x44],
   [0x69, 0x63, 0x74, 0x40, 0x40, 0xa0, 0xa0, 0xa0, 0xa0, 0x4e, 0x44, 0xa0],
   [0x4e, 0x4c, 0xa0, 0xa0, 0x28, 0x49, 0x74, 0x65, 0x72, 0x61, 0x62, 0x6c],
   [0x65, 0x40, 0x40, 0xa0, 0xa0, 0xa0, 0xa0, 0x4f, 0x44, 0xa0, 0x4f, 0x48],
   [0xa0, 0xa0, 0x24, 0x4c, 0x69, 0x73, 0x74, 0x40, 0x40, 0xa0, 0xa0, 0xa0],
   [0xa0, 0x50, 0x44, 0xa0, 0x50, 0x4b, 0xa0, 0xa0, 0x27, 0x4d, 0x61, 0x70],
   [0x70, 0x69, 0x6e, 0x67, 0x40, 0x40, 0xa0, 0xa0, 0xa0, 0xa0, 0x51, 0x44],
   [0xa0, 0x51, 0x4e, 0xa0, 0xa0, 0x2a, 0x4e, 0x61, 0x6d, 0x65, 0x64, 0x54],
   [0x75, 0x70, 0x6c, 0x65, 0x40, 0x40, 0xa0, 0xa0, 0xa0, 0xa0, 0x52, 0x44],
   [0xa0, 0x52, 0x4c, 0xa0, 0xa0, 0x28, 0x4f, 0x70, 0x74, 0x69, 0x6f, 0x6e],
   [0x61, 0x6c, 0x40, 0x40, 0xa0, 0xa0, 0xa0, 0xa0, 0x53, 0x44, 0xa0, 0x53],
   [0x4c, 0xa0, 0xa0, 0x28, 0x6f, 0x76, 0x65, 0x72, 0x6c, 0x6f, 0x61, 0x64],
   [0x40, 0x40, 0xa0, 0xa0, 0xa0, 0xa0, 0x54, 0x44, 0xa0, 0x54, 0x4c, 0xa0],
   [0xa0, 0x28, 0x53, 0x65, 0x71, 0x75, 0x65, 0x6e, 0x63, 0x65, 0x40, 0x40],
   [0xa0, 0xa0, 0xa0, 0xa0, 0x55, 0x44, 0xa0, 0x55, 0x48, 0xa0, 0xa0, 0x24],
   [0x54, 0x79, 0x70, 0x65, 0x40, 0x40, 0xa0, 0xa0, 0xa0, 0xa0, 0x56, 0x44],
   [0xa0, 0x56, 0x51, 0xa0, 0xa0, 0x2d, 0x54, 0x59, 0x50, 0x45, 0x5f, 0x43],
   [0x48, 0x45, 0x43, 0x4b, 0x49, 0x4e, 0x47, 0x40, 0x40, 0xa0, 0xa0, 0xf1],
   [0x85, 0x75, 0x9d, 0xaa, 0xa8, 0x90, 0x03, 0xe6, 0x3d, 0xf4, 0x01, 0x5f],
   [0xcf, 0x6e, 0xa8, 0x90, 0x03, 0xf0, 0x24, 0x8b, 0xb9, 0x8b, 0x0a, 0xe9],
   [0x68, 0xc1, 0x58, 0x60, 0xc1, 0x58, 0x00, 0x40, 0x90, 0x03, 0xc2, 0x81],
   [0x1a, 0xf2, 0x30, 0x71, 0xa0, 0x18, 0xc1, 0x00, 0x58, 0x01, 0x00, 0x80],
   [0xc1, 0x00, 0x58, 0x01, 0x01, 0x00, 0x90, 0x03, 0xc4, 0x81, 0xda, 0xac],
   [0x8b, 0xf1, 0xec, 0x58, 0x90, 0x03, 0xc7, 0xdd, 0xe4, 0x8f, 0x6f, 0x8b],
   [0x41, 0x58, 0x90, 0x03, 0xcf, 0x7c, 0x22, 0x41, 0xcd, 0x3e, 0xea, 0xd8],
   [0xc1, 0x78, 0x00, 0x40, 0x90, 0x03, 0x0c, 0x93, 0x09, 0xa7, 0x32, 0xef]] @
  [[0x91, 0x38, 0x90, 0x03, 0xd6, 0x63, 0x7c, 0x89, 0xab, 0x27, 0xda, 0xf8],
   [0xc1, 0x44, 0x48, 0xc1, 0x44, 0x50, 0xc1, 0x44, 0x60, 0x90, 0x03, 0xd3],
   [0x7c, 0x15, 0x8c, 0xfa, 0x10, 0xee, 0x44, 0xc1, 0x64, 0x00, 0x40, 0xc1],
   [0x64, 0x01, 0x00, 0x80, 0xc1, 0x64, 0x01, 0x01, 0x00, 0xc1, 0x64, 0x01],
   [0x02, 0x00, 0x90, 0x03, 0xcf, 0x0d, 0xb1, 0xcf, 0x4b, 0xcd, 0x90, 0x24],
   [0xc1, 0x01, 0x02, 0x24, 0x01, 0x04, 0x00, 0x90, 0x03, 0xca, 0xcd, 0x27],
   [0xe8, 0x79, 0xc2, 0xea, 0x24, 0x90, 0x03, 0x08, 0x24, 0xb9, 0x75, 0x28],
   [0xd5, 0x1e, 0x24, 0x90, 0x03, 0xff, 0xe2, 0xcd, 0x81, 0x59, 0xa3, 0xa3],
   [0x24, 0x90, 0x03, 0x0d, 0xbe, 0x90, 0x91, 0xfe, 0xad, 0x75, 0xa4, 0xc1],
   [0x01, 0x00, 0xe4, 0x01, 0x01, 0x00, 0x90, 0x03, 0xcb, 0x2b, 0xba, 0x62],
   [0x70, 0x09, 0xcc, 0xe4, 0x90, 0x03, 0xd1, 0xa5, 0xf0, 0x5f, 0x5c, 0x90],
   [0x9d, 0xe4, 0xc1, 0x54, 0x60, 0xc1, 0x54, 0x00, 0x40, 0xc1, 0x54, 0x01],
   [0x02, 0x00, 0x05, 0x0e, 0xbd, 0x05, 0x0e, 0xbc, 0x90, 0x03, 0xed, 0x73],
   [0x91, 0x23, 0x64, 0x46, 0xeb, 0xd4, 0xc1, 0x74, 0x00, 0x40, 0xc1, 0x01],
   [0x00, 0xb4, 0x01, 0x02, 0x00, 0x90, 0x03, 0xf7, 0x0d, 0xc2, 0x30, 0x89],
   [0xb1, 0x94, 0xb4, 0xc1, 0x01, 0x02, 0xb4, 0x01, 0x04, 0x00, 0x90, 0x03],
   [0x05, 0x93, 0x8c, 0xbb, 0xa1, 0xa5, 0xda, 0xb4, 0x90, 0x03, 0xf5, 0x88],
   [0x47, 0x16, 0x92, 0xe9, 0x36, 0xb4, 0xc1, 0x01, 0x00, 0xf4, 0x01, 0x01],
   [0x00, 0x90, 0x03, 0x33, 0x42, 0x4a, 0x51, 0x75, 0x7e, 0x9e, 0xf4, 0x90],
   [0x03, 0xe0, 0x01, 0x86, 0x27, 0x83, 0x77, 0xbf, 0xf4, 0xc1, 0x4c, 0x50],
   [0xc1, 0x4c, 0x60, 0x90, 0x03, 0xec, 0x45, 0xb4, 0xa2, 0x1c, 0x3f, 0x6b],
   [0x0c, 0xc1, 0x6c, 0x00, 0x40, 0xc1, 0x6c, 0x01, 0x00, 0x80, 0xc1, 0x6c],
   [0x01, 0x01, 0x00, 0x05, 0x0e, 0xc3, 0x90, 0x03, 0x12, 0x89, 0xf0, 0x6e],
   [0x79, 0xe1, 0x4f, 0x2c, 0x90, 0x03, 0xf8, 0x94, 0x56, 0xe1, 0xd5, 0xbb],
   [0x11, 0xac, 0xc1, 0x00, 0x6c, 0x01, 0x00, 0x80, 0x05, 0x0e, 0xc4, 0x90],
   [0x03, 0xcf, 0xa5, 0xf3, 0xb7, 0x29, 0x67, 0xc4, 0xec, 0xc1, 0x5c, 0x60],
   [0xc1, 0x01, 0x00, 0xdc, 0x01, 0x02, 0x00, 0x90, 0x03, 0x2c, 0x74, 0xe6],
   [0x5a, 0x90, 0x5f, 0x54, 0xdc, 0x90, 0x03, 0x31, 0x07, 0x75, 0xf3, 0xa4],
   [0xc2, 0x3a, 0xdc, 0xc1, 0x7c, 0x00, 0x40, 0xc1, 0x7c, 0x01, 0x00, 0x80],
   [0x90, 0x03, 0xfd, 0xa9, 0x9e, 0x14, 0x22, 0x5d, 0x22, 0x3c, 0x90, 0x03]]"

definition dictionary_rows_14 :: "u8 list list" where
  "dictionary_rows_14 =
  [[0xfb, 0xd9, 0xfc, 0x23, 0x15, 0x23, 0xf7, 0xbc, 0xc1, 0x00, 0x7c, 0x01],
   [0x00, 0x80, 0x90, 0x03, 0xcf, 0x3b, 0xff, 0x81, 0x40, 0x4b, 0xf3, 0x7c],
   [0xc1, 0x01, 0x00, 0xfc, 0x01, 0x01, 0x00, 0x90, 0x03, 0xf9, 0x97, 0x64],
   [0xaf, 0xef, 0x12, 0xca, 0xfc, 0x90, 0x03, 0x22, 0x67, 0xea, 0x7d, 0x02],
   [0xe0, 0x8b, 0xfc, 0xc1, 0x42, 0x44, 0xc1, 0x42, 0x48, 0xc1, 0x42, 0x50],
   [0xc1, 0x42, 0x60, 0xc1, 0x42, 0x00, 0x40, 0xc1, 0x42, 0x01, 0x00, 0x80],
   [0x90, 0x03, 0xf3, 0x71, 0x63, 0xfe, 0xd6, 0x5f, 0x34, 0x02, 0xc1, 0x01],
   [0x00, 0x82, 0x01, 0x02, 0x00, 0x90, 0x03, 0xc5, 0x87, 0x63, 0xa3, 0xf5],
   [0x03, 0xf4, 0x82, 0x90, 0x03, 0xd8, 0xa6, 0xbd, 0xa9, 0x07, 0xd0, 0x62],
   [0x82, 0xc1, 0x00, 0x42, 0x01, 0x00, 0x80, 0xc1, 0x01, 0x03, 0x42, 0x01],
   [0x08, 0x00, 0x90, 0x03, 0xc7, 0x31, 0xd5, 0xdf, 0x2b, 0x29, 0x73, 0x42],
   [0x90, 0x03, 0x3d, 0x9a, 0x6e, 0x4b, 0x0a, 0x12, 0x8b, 0x42, 0x90, 0x03],
   [0x01, 0x4a, 0xe4, 0xc8, 0x8b, 0xfa, 0xbc, 0xc2, 0xc1, 0x62, 0x00, 0x40],
   [0xc1, 0x01, 0x00, 0xa2, 0x01, 0x01, 0x00, 0x90, 0x03, 0x0b, 0x59, 0xcc],
   [0xcb, 0x9d, 0x00, 0x36, 0xa2, 0x90, 0x03, 0xf1, 0x6d, 0x11, 0x0e, 0xb7],
   [0x64, 0xef, 0xa2, 0x90, 0x03, 0xfb, 0xb3, 0x3c, 0xe0, 0x9b, 0xd7, 0x4e],
   [0x62, 0xc1, 0x72, 0x01, 0x00, 0x80, 0x90, 0x03, 0xe5, 0x2b, 0x67, 0xee],
   [0x95, 0x6f, 0x6b, 0x32, 0x90, 0x03, 0xe6, 0x10, 0x3e, 0x91, 0x47, 0xfe],
   [0x5b, 0xb2, 0xc1, 0x4a, 0x50, 0xc1, 0x4a, 0x60, 0xc1, 0x4a, 0x00, 0x40],
   [0xc1, 0x01, 0x00, 0x8a, 0x01, 0x01, 0x00, 0x90, 0x03, 0xfb, 0x28, 0x9e],
   [0x64, 0xae, 0x2d, 0x90, 0x8a, 0x90, 0x03, 0xd9, 0x89, 0x01, 0xfc, 0xdc],
   [0x16, 0x73, 0x8a, 0x90, 0x03, 0xf3, 0x23, 0x31, 0x60, 0xef, 0xeb, 0x4c],
   [0xca, 0x90, 0x03, 0xfc, 0xfe, 0xef, 0x89, 0x00, 0x49, 0x83, 0xaa, 0xc1],
   [0x5a, 0x60, 0xc1, 0x5a, 0x00, 0x40, 0xc1, 0x5a, 0x01, 0x01, 0x00, 0xc1],
   [0x01, 0x0e, 0x1a, 0x01, 0x10, 0x00, 0x05, 0x0e, 0xd8, 0x90, 0x03, 0x08],
   [0x22, 0xa4, 0x0d, 0xab, 0x23, 0x9e, 0x1a, 0x90, 0x03, 0xc4, 0x6d, 0xe0],
   [0x07, 0xb4, 0xa6, 0x7d, 0x1a, 0xc1, 0x00, 0x5a, 0x01, 0x00, 0x80, 0xc1],
   [0x01, 0x09, 0x5a, 0x01, 0x10, 0x00, 0x90, 0x03, 0xfa, 0xf0, 0x56, 0xa7],
   [0x1f, 0x12, 0xa9, 0x5a, 0x90, 0x03, 0x08, 0x11, 0xdf, 0x41, 0x7f, 0xc9],
   [0x99, 0x5a, 0x90, 0x03, 0x01, 0x8b, 0x79, 0xdb, 0x2b, 0xc4, 0x58, 0xda]] @
  [[0xc1, 0x7a, 0x00, 0x40, 0xc1, 0x7a, 0x01, 0x00, 0x80, 0x90, 0x03, 0x1d],
   [0x66, 0x4b, 0xe2, 0x60, 0x5e, 0xad, 0x3a, 0x90, 0x03, 0xd3, 0xd6, 0xd3],
   [0x30, 0x01, 0x42, 0x28, 0xba, 0xc1, 0x00, 0x7a, 0x01, 0x00, 0x80, 0x90],
   [0x03, 0xfc, 0xed, 0xb0, 0x37, 0xe9, 0xd7, 0xe3, 0x7a, 0x90, 0x03, 0x23],
   [0x7c, 0xe0, 0x72, 0x74, 0xc0, 0x53, 0xfa, 0xc1, 0x46, 0x48, 0xc1, 0x46],
   [0x50, 0xc1, 0x46, 0x60, 0xc1, 0x46, 0x00, 0x40, 0xc1, 0x46, 0x01, 0x00],
   [0x80, 0xc1, 0x01, 0x01, 0x06, 0x01, 0x02, 0x00, 0x90, 0x03, 0xd5, 0x1f],
   [0xcd, 0x68, 0x6e, 0x9d, 0x75, 0x06, 0x90, 0x03, 0xea, 0xe0, 0xfa, 0x33],
   [0x46, 0x80, 0xbb, 0x06, 0x90, 0x03, 0x00, 0x7b, 0x69, 0x48, 0xfa, 0xdd],
   [0x3b, 0x86, 0xc1, 0x00, 0x46, 0x01, 0x00, 0x80, 0xc1, 0x01, 0x02, 0x46],
   [0x01, 0x04, 0x00, 0x05, 0x0e, 0xe8, 0x90, 0x03, 0x12, 0x48, 0xa3, 0x79],
   [0xd6, 0x97, 0xee, 0x46, 0x90, 0x03, 0x07, 0x3c, 0x41, 0xa8, 0x40, 0xbf],
   [0xc9, 0xc6, 0xc1, 0x66, 0x00, 0x40, 0xc1, 0x66, 0x01, 0x01, 0x00, 0x90],
   [0x03, 0xef, 0x7c, 0x8e, 0xd2, 0xf2, 0x1a, 0x46, 0x26, 0x90, 0x03, 0xd6],
   [0x49, 0x37, 0xc4, 0x50, 0x00, 0xef, 0x26, 0xc1, 0x00, 0x66, 0x01, 0x00],
   [0x80, 0x90, 0x03, 0x21, 0xe9, 0x46, 0xe3, 0x85, 0x72, 0x59, 0x66, 0x90],
   [0x03, 0x35, 0x97, 0x66, 0x5b, 0x69, 0x3f, 0x14, 0xe6, 0xc1, 0x56, 0x60],
   [0xc1, 0x00, 0x56, 0xa0, 0x40, 0x40, 0x90, 0x40, 0x40, 0x41, 0x05, 0x5b],
   [0x1a, 0x08, 0x00, 0x00, 0x20, 0x00, 0x90, 0xa0, 0xa0, 0x03, 0xc6, 0x00],
   [0x01, 0x03, 0x40, 0x00, 0x10, 0x00, 0x90, 0x90, 0x03, 0xff, 0xcd, 0xfb],
   [0xb4, 0xa9, 0x2a, 0x1c, 0x6c, 0xa0, 0x03, 0xc2, 0x00, 0x01, 0x03, 0x40],
   [0x00, 0x10, 0x00, 0x90, 0x05, 0x5b, 0x18, 0x90, 0x40, 0x90, 0x05, 0x5d],
   [0x68, 0x90, 0x41, 0x90, 0x90, 0x90, 0x03, 0xe3, 0x1d, 0xfb, 0x63, 0x77],
   [0x3d, 0x61, 0xde, 0x90, 0xa0, 0x40, 0x40, 0x90, 0xa0, 0x40, 0x40, 0x90],
   [0x40, 0xd0, 0x40, 0x05, 0x5b, 0x16, 0x08, 0x00, 0x00, 0x20, 0x00, 0x90],
   [0xa0, 0xa0, 0x03, 0x06, 0x00, 0x09, 0x03, 0x40, 0x00, 0x10, 0x00, 0x90],
   [0x04, 0x14, 0xa0, 0x03, 0x00, 0x00, 0x00, 0x03, 0x40, 0x00, 0x10, 0x00],
   [0x90, 0x05, 0x5b, 0x2b, 0x90, 0x40, 0x90, 0x05, 0x5d, 0x7b, 0x90, 0x47],
   [0x90, 0x90, 0x90, 0x03, 0xc3, 0x7e, 0x26, 0xd1, 0x75, 0x36, 0xc7, 0x2b],
   [0x90, 0xa0, 0x40, 0x90, 0x90, 0x03, 0xee, 0xe7, 0x3d, 0x74, 0xe6, 0xaa]] @
  [[0x18, 0xda, 0x90, 0xa0, 0x40, 0x90, 0x90, 0x03, 0xd0, 0x5d, 0xf4, 0xc2],
   [0x49, 0x06, 0x0f, 0xfc, 0x90, 0x40, 0x40, 0x41, 0x42, 0x90, 0x05, 0x5d],
   [0x48, 0x90, 0xa0, 0xa0, 0x03, 0xc6, 0x06, 0x09, 0x23, 0x4c, 0x07, 0xd1],
   [0x94, 0x90, 0x04, 0x57, 0xa0, 0x03, 0x00, 0x00, 0x00, 0x01, 0x00, 0x00],
   [0x00, 0x00, 0x40, 0x90, 0xa0, 0x40, 0x40, 0x90, 0xa0, 0x40, 0x40, 0x90],
   [0xb0, 0xa0, 0x04, 0x54, 0x40, 0xa0, 0x05, 0x5c, 0xfd, 0x40, 0x40, 0x90],
   [0x40, 0xd0, 0x40, 0xc2, 0x40, 0xa0, 0x90, 0x04, 0x84, 0xa0, 0x40, 0x40],
   [0x05, 0x5d, 0xab, 0xa0, 0x91, 0xb0, 0x09, 0x58, 0x62, 0x6c, 0x6f, 0x6b],
   [0x73, 0x2e, 0x61, 0x70, 0x70, 0x73, 0x2e, 0x69, 0x6e, 0x73, 0x74, 0x61],
   [0x67, 0x72, 0x61, 0x6d, 0x2e, 0x69, 0x6e, 0x73, 0x69, 0x67, 0x68, 0x74],
   [0x73, 0x2e, 0x6d, 0x65, 0x64, 0x69, 0x61, 0x5f, 0x72, 0x65, 0x66, 0x72],
   [0x65, 0x73, 0x68, 0x2e, 0x73, 0x70, 0x6c, 0x69, 0x74, 0x5f, 0x74, 0x65],
   [0x73, 0x74, 0x73, 0x2e, 0x64, 0x61, 0x74, 0x61, 0x2e, 0x49, 0x6e, 0x73],
   [0x69, 0x67, 0x68, 0x74, 0x73, 0x53, 0x70, 0x6c, 0x69, 0x74, 0x54, 0x65],
   [0x73, 0x74, 0x73, 0x4d, 0x65, 0x64, 0x69, 0x61, 0x44, 0x61, 0x74, 0x61],
   [0x2e, 0x61, 0x73, 0x79, 0x6e, 0x63, 0x5f, 0x67, 0x65, 0x74, 0x5f, 0x64],
   [0x61, 0x74, 0x61, 0x40, 0x40, 0xf0, 0x90, 0xd0, 0xd0, 0xd0, 0x40, 0x05],
   [0x5a, 0xf9, 0x08, 0x00, 0x00, 0x20, 0x00, 0x90, 0xa0, 0xa0, 0x03, 0xc6],
   [0x06, 0x0d, 0x23, 0x4c, 0x05, 0xd1, 0x94, 0x90, 0x04, 0x75, 0xa0, 0x03],
   [0x04, 0x02, 0x04, 0x03, 0x40, 0x01, 0x10, 0x00, 0x40, 0x90, 0x40, 0x90],
   [0x05, 0x5d, 0xae, 0x90, 0x46, 0x90, 0x90, 0x90, 0x03, 0x1a, 0xc0, 0x2c],
   [0xe0, 0x46, 0x3c, 0xf5, 0xad, 0x90, 0xa0, 0x40, 0x40, 0x90, 0xa0, 0x03],
   [0x00, 0x20, 0x00, 0x00, 0x00, 0x00, 0x00, 0x00, 0x40, 0x90, 0x40, 0x40],
   [0x41, 0x05, 0x5a, 0xf4, 0x08, 0x00, 0x00, 0x20, 0x00, 0x90, 0xa0, 0xa0],
   [0x03, 0xc6, 0x06, 0x0d, 0x27, 0x48, 0x05, 0x91, 0x00, 0x40, 0xa0, 0x03],
   [0x04, 0x02, 0x04, 0x05, 0x40, 0x00, 0x10, 0x00, 0x40, 0x90, 0x40, 0x90],
   [0x05, 0x5d, 0xbe, 0x90, 0x45, 0x90, 0x90, 0x90, 0x03, 0x24, 0xf0, 0xe6],
   [0x28, 0x3a, 0x92, 0xe4, 0x81, 0x90, 0xa0, 0x03, 0xc0, 0x00, 0x00, 0x00],
   [0x00, 0x00, 0x00, 0x00, 0x40, 0x90, 0xa0, 0x00, 0x40, 0x40, 0x90, 0x40],
   [0xd0, 0x40, 0x05, 0x5a, 0xf2, 0x08, 0x00, 0x00, 0x20, 0x00, 0x90, 0xa0]] @
  [[0xa0, 0x03, 0xc6, 0x06, 0x0d, 0x23, 0x4c, 0x05, 0xd1, 0x94, 0x90, 0x04],
   [0x97, 0xa0, 0x03, 0x04, 0x02, 0x04, 0x03, 0x40, 0x01, 0x10, 0x00, 0x40],
   [0x90, 0x40, 0x90, 0x05, 0x5d, 0xd0, 0x90, 0x44, 0x90, 0x90, 0x90, 0x03],
   [0x29, 0x65, 0x3c, 0xad, 0x3c, 0x2c, 0x2d, 0x9e, 0x90, 0xa0, 0x40, 0x40],
   [0x90, 0xa0, 0x03, 0x00, 0x20, 0x00, 0x00, 0x00, 0x00, 0x00, 0x00, 0x40],
   [0x90, 0x40, 0x40, 0x41, 0x42, 0x05, 0x58, 0x45, 0x08, 0x00, 0x00, 0x20],
   [0x00, 0x90, 0xa0, 0xa0, 0x03, 0xe6, 0x06, 0x0d, 0x23, 0x4c, 0x07, 0xd1],
   [0x94, 0x90, 0x04, 0xa8, 0xa0, 0x03, 0x02, 0x00, 0x01, 0x01, 0x00, 0x00],
   [0x10, 0x00, 0x40, 0x90, 0x40, 0x90, 0x05, 0x5d, 0xe1, 0x90, 0x42, 0x90],
   [0x90, 0xc1, 0x40, 0x41, 0xc1, 0x40, 0x42, 0xc1, 0x44, 0x48, 0x90, 0x03],
   [0xd6, 0xb3, 0x2f, 0x98, 0x3e, 0x11, 0x93, 0x54, 0xc1, 0x4c, 0x50, 0x90],
   [0x03, 0x1a, 0x4d, 0xe8, 0x0f, 0x13, 0x7e, 0x43, 0x8c, 0x90, 0x03, 0x2f],
   [0xcf, 0xe4, 0x03, 0x2c, 0x96, 0x71, 0x3c, 0xc1, 0x6e, 0x00, 0x40, 0x90],
   [0x03, 0xfa, 0xe9, 0x43, 0x01, 0xc9, 0xfa, 0x3c, 0xae, 0x90, 0x03, 0xf1],
   [0xa5, 0xb0, 0xf5, 0xac, 0x06, 0x26, 0xee, 0xc1, 0x41, 0x44, 0xc1, 0x41],
   [0x48, 0x90, 0x03, 0x30, 0xb8, 0x22, 0x3a, 0x77, 0x2a, 0xa8, 0x21, 0x90],
   [0x03, 0x08, 0x58, 0x4f, 0xca, 0x45, 0x62, 0xfa, 0x69, 0x90, 0x03, 0x10],
   [0x6a, 0xe5, 0x61, 0xf3, 0xe3, 0xa9, 0xc5, 0x90, 0xa0, 0x01, 0x10, 0x00],
   [0x90, 0xc1, 0x41, 0x42, 0x90, 0x03, 0xe4, 0x7f, 0x08, 0x0d, 0x72, 0xfc],
   [0xf9, 0x59, 0x90, 0x03, 0x2d, 0xe6, 0x26, 0x5a, 0x5d, 0xa9, 0x76, 0xeb],
   [0x90, 0xa0, 0x02, 0x00, 0x20, 0x00, 0x00, 0x90, 0x90, 0x03, 0x28, 0xbb],
   [0xf2, 0x81, 0xe4, 0xa7, 0x7d, 0x99, 0x90, 0x40, 0xd0, 0xd0, 0xd0, 0x40],
   [0x05, 0x5a, 0xf1, 0x08, 0x00, 0x00, 0x20, 0x00, 0x90, 0xa0, 0xa0, 0x03],
   [0xe6, 0x06, 0x0d, 0x23, 0x4c, 0x07, 0xd1, 0x94, 0x90, 0x04, 0xd0, 0xa0],
   [0x03, 0x02, 0x00, 0x01, 0x01, 0x00, 0x00, 0x00, 0x00, 0x40, 0x90, 0x40],
   [0x90, 0x05, 0x5e, 0x09, 0x90, 0x42, 0x90, 0x90, 0xc1, 0x41, 0x42, 0x90],
   [0x03, 0xf6, 0xb7, 0x59, 0xba, 0x46, 0x5a, 0x17, 0xa5, 0x90, 0x03, 0xeb],
   [0x7c, 0xcd, 0xc1, 0x1c, 0x6e, 0x33, 0x3f, 0x90, 0xa0, 0x01, 0x10, 0x00],
   [0x90, 0xc1, 0x41, 0x42, 0x90, 0x03, 0xe4, 0x7f, 0x08, 0x0d, 0x72, 0xfc],
   [0xf9, 0x59, 0x90, 0x03, 0x2d, 0xe6, 0x26, 0x5a, 0x5d, 0xa9, 0x76, 0xeb]] @
  [[0x90, 0xa0, 0x02, 0x00, 0x20, 0x00, 0x00, 0x90, 0x90, 0x03, 0x18, 0x93],
   [0xa5, 0xe9, 0x49, 0xe5, 0xee, 0x0b, 0x90, 0x40, 0x40, 0x41, 0x05, 0x5a],
   [0xef, 0x08, 0x00, 0x00, 0x20, 0x00, 0x90, 0xa0, 0xa0, 0x03, 0xe6, 0x06],
   [0x0d, 0x23, 0x4c, 0x05, 0xd1, 0x94, 0x90, 0xc1, 0x40, 0x41, 0xc1, 0x40],
   [0x42, 0xc1, 0x40, 0x44, 0x90, 0x03, 0x14, 0x74, 0xd9, 0x82, 0x0a, 0x23],
   [0xe2, 0x40, 0x04, 0xec, 0xc1, 0x46, 0x48, 0x90, 0x03, 0x1c, 0xa7, 0x08],
   [0xf0, 0x01, 0x17, 0xbe, 0x46, 0x90, 0x03, 0x29, 0x8a, 0xd0, 0x4a, 0x03],
   [0xd9, 0x47, 0xfe, 0xc1, 0x41, 0x42, 0x90, 0x03, 0xe4, 0x46, 0xda, 0xe9],
   [0x09, 0x92, 0xbd, 0xb9, 0xc1, 0x43, 0x44, 0x04, 0xf1, 0x90, 0x03, 0xec],
   [0x6b, 0xed, 0xcf, 0x56, 0xe2, 0xc2, 0xef, 0xa0, 0x03, 0x04, 0x02, 0x04],
   [0x01, 0x40, 0x01, 0x00, 0x00, 0x40, 0x90, 0x40, 0x90, 0x05, 0x5e, 0x2d],
   [0x90, 0x49, 0x90, 0x90, 0x90, 0x03, 0x33, 0x07, 0x15, 0x94, 0x4b, 0xad],
   [0xcb, 0x78, 0x90, 0xa0, 0x40, 0x40, 0x90, 0x90, 0xb0, 0xa0, 0xa0, 0xa0],
   [0x01, 0x00, 0x9d, 0x55, 0xa0, 0x01, 0x00, 0x9d, 0x59, 0x9c, 0x91, 0x05],
   [0x01, 0xb9, 0x2c, 0x61, 0x73, 0x73, 0x65, 0x72, 0x74, 0x52, 0x61, 0x69],
   [0x73, 0x65, 0x73, 0x40, 0xa0, 0xa0, 0x40, 0xa0, 0xa0, 0xa0, 0x01, 0x00],
   [0x9d, 0x67, 0xa0, 0x01, 0x00, 0x9d, 0x70, 0x9c, 0x91, 0x29, 0x45, 0x78],
   [0x63, 0x65, 0x70, 0x74, 0x69, 0x6f, 0x6e, 0x40, 0x40, 0x40, 0xa0, 0xa0],
   [0xa0, 0xa0, 0x01, 0x00, 0x9e, 0x54, 0xa0, 0x01, 0x00, 0xa0, 0x55, 0x95],
   [0xa0, 0xa0, 0xa0, 0x01, 0x00, 0x9e, 0x54, 0xa0, 0x01, 0x00, 0xa0, 0x55],
   [0x90, 0xa0, 0xa0, 0xa0, 0x01, 0x00, 0x9e, 0x5a, 0xa0, 0x01, 0x00, 0xa0],
   [0x55, 0x92, 0xa0, 0xa0, 0xa0, 0xa0, 0x01, 0x00, 0x9e, 0x5a, 0xa0, 0x01],
   [0x00, 0x9e, 0x00, 0x50, 0x9c, 0x90, 0xb0, 0xa0, 0xa0, 0xa0, 0x01, 0x00],
   [0x9e, 0x5a, 0xa0, 0x01, 0x00, 0x9e, 0x6a, 0x9c, 0x91, 0x05, 0x01, 0x67],
   [0x09, 0x25, 0x61, 0x73, 0x79, 0x6e, 0x63, 0x5f, 0x73, 0x65, 0x74, 0x5f],
   [0x73, 0x68, 0x6f, 0x75, 0x6c, 0x64, 0x5f, 0x73, 0x68, 0x6f, 0x77, 0x5f],
   [0x70, 0x75, 0x62, 0x6c, 0x69, 0x63, 0x5f, 0x63, 0x6f, 0x6e, 0x74, 0x61],
   [0x63, 0x74, 0x73, 0x40, 0xa0, 0xa0, 0x40, 0xa0, 0xa0, 0xa0, 0x01, 0x00],
   [0x9f, 0x58, 0xa0, 0x01, 0x00, 0x9f, 0x77, 0x9c, 0x91, 0x04, 0xa5, 0x40],
   [0xa0, 0xa0, 0xa0, 0xa0, 0x01, 0x00, 0xa1, 0x54, 0xa0, 0x01, 0x00, 0xa3]]"

definition dictionary_rows_15 :: "u8 list list" where
  "dictionary_rows_15 =
  [[0x55, 0x95, 0xa0, 0xa0, 0xa0, 0x01, 0x00, 0xa1, 0x54, 0xa0, 0x01, 0x00],
   [0xa3, 0x55, 0x92, 0xa0, 0xa0, 0xa0, 0xa0, 0x01, 0x00, 0xa1, 0x54, 0xa0],
   [0x01, 0x00, 0xa1, 0x75, 0x9c, 0x90, 0xb0, 0xa0, 0xa0, 0xa0, 0x01, 0x00],
   [0xa1, 0x54, 0xa0, 0x01, 0x00, 0xa1, 0x5d, 0x9c, 0x91, 0x05, 0x01, 0x30],
   [0x37, 0x61, 0x73, 0x73, 0x65, 0x72, 0x74, 0x5f, 0x63, 0x61, 0x6c, 0x6c],
   [0x65, 0x64, 0x5f, 0x6f, 0x6e, 0x63, 0x65, 0x5f, 0x77, 0x69, 0x74, 0x68],
   [0x40, 0xa0, 0xa0, 0x40, 0xa0, 0xa0, 0xa0, 0x01, 0x00, 0xa2, 0x58, 0xa0],
   [0x01, 0x00, 0xa2, 0x7b, 0x9c, 0x90, 0xb0, 0xa0, 0xa0, 0xa0, 0x01, 0x00],
   [0xa2, 0x58, 0xa0, 0x01, 0x00, 0xa2, 0x67, 0x9c, 0x90, 0xb0, 0xa0, 0x04],
   [0x07, 0x9c, 0x90, 0xb0, 0xa0, 0x04, 0x0b, 0x9c, 0x90, 0xb0, 0xa0, 0x04],
   [0x0f, 0x9c, 0x91, 0x28, 0x62, 0x75, 0x73, 0x69, 0x6e, 0x65, 0x73, 0x73],
   [0x27, 0x61, 0x63, 0x63, 0x6f, 0x75, 0x6e, 0x74, 0x40, 0x2a, 0x65, 0x78],
   [0x63, 0x65, 0x70, 0x74, 0x69, 0x6f, 0x6e, 0x73, 0x40, 0x2f, 0x45, 0x72],
   [0x72, 0x6f, 0x72, 0x49, 0x64, 0x65, 0x6e, 0x74, 0x69, 0x66, 0x69, 0x65],
   [0x72, 0x40, 0x33, 0x4e, 0x4f, 0x5f, 0x49, 0x4e, 0x54, 0x45, 0x52, 0x45],
   [0x53, 0x54, 0x5f, 0x41, 0x43, 0x43, 0x4f, 0x55, 0x4e, 0x54, 0x40, 0xa0],
   [0xa0, 0x40, 0xa0, 0xa0, 0xa0, 0x01, 0x00, 0xa2, 0x7d, 0xa0, 0x01, 0x00],
   [0xa2, 0x00, 0x44, 0x9c, 0x90, 0xb0, 0xa0, 0xa0, 0xa0, 0x01, 0x00, 0xa2],
   [0x7d, 0xa0, 0x01, 0x00, 0xa2, 0x00, 0x41, 0x9c, 0x91, 0x05, 0x02, 0x52],
   [0x22, 0x69, 0x64, 0x40, 0x40, 0x40, 0x40, 0x40, 0x40, 0x40, 0xa0, 0xa0],
   [0x05, 0x01, 0x90, 0x9d, 0xa0, 0x41, 0x40, 0x40, 0x40, 0x84, 0x95, 0xa6],
   [0xbe, 0x00, 0x00, 0x00, 0x29, 0x00, 0x00, 0x00, 0x06, 0x00, 0x00, 0x00],
   [0x16, 0x00, 0x00, 0x00, 0x11, 0xa2, 0x3c, 0x6e, 0x6f, 0x64, 0x65, 0x61],
   [0x70, 0x69, 0x2e, 0x70, 0x72, 0x65, 0x64, 0x69, 0x63, 0x61, 0x74, 0x65],
   [0x73, 0x2e, 0x50, 0x72, 0x65, 0x64, 0x69, 0x63, 0x61, 0x74, 0x65, 0xa0],
   [0x90, 0x94, 0x26, 0x6f, 0x62, 0x6a, 0x65, 0x63, 0x74, 0x40, 0x84, 0x95],
   [0xa6, 0xbe, 0x00, 0x00, 0x00, 0x01, 0x00, 0x00, 0x00, 0x00, 0x00, 0x00],
   [0x00, 0x00, 0x00, 0x00, 0x00, 0x00, 0x40, 0x84, 0x95, 0xa6, 0xbe, 0x00],
   [0x00, 0x00, 0x51, 0x00, 0x00, 0x00, 0x02, 0x00, 0x00, 0x00, 0x17, 0x00],
   [0x00, 0x00, 0x0d, 0x94, 0x09, 0x4e, 0x66, 0x62, 0x63, 0x6f, 0x64, 0x65]] @
  [[0x2e, 0x70, 0x79, 0x33, 0x5f, 0x61, 0x73, 0x79, 0x6e, 0x63, 0x69, 0x6f],
   [0x2e, 0x6c, 0x6f, 0x67, 0x69, 0x6e, 0x2e, 0x62, 0x61, 0x63, 0x6b, 0x66],
   [0x69, 0x6c, 0x6c, 0x5f, 0x61, 0x75, 0x74, 0x68, 0x5f, 0x70, 0x72, 0x6f],
   [0x6f, 0x66, 0x5f, 0x74, 0x79, 0x70, 0x65, 0x73, 0x2e, 0x74, 0x79, 0x70],
   [0x65, 0x73, 0x2e, 0x42, 0x61, 0x63, 0x6b, 0x66, 0x69, 0x6c, 0x6c, 0x41],
   [0x75, 0x74, 0x68, 0x50, 0x72, 0x6f, 0x6f, 0x66, 0x54, 0x79, 0x70, 0x65],
   [0x84, 0x95, 0xa6, 0xbe, 0x00, 0x00, 0x00, 0x3c, 0x00, 0x00, 0x00, 0x09],
   [0x00, 0x00, 0x00, 0x25, 0x00, 0x00, 0x00, 0x1f, 0x90, 0xf0, 0x90, 0xa0],
   [0x2e, 0x73, 0x61, 0x6d, 0x6c, 0x32, 0x2e, 0x53, 0x61, 0x6d, 0x6c, 0x42],
   [0x61, 0x73, 0x65, 0xa0, 0x38, 0x73, 0x61, 0x6d, 0x6c, 0x32, 0x2e, 0x45],
   [0x78, 0x74, 0x65, 0x6e, 0x73, 0x69, 0x6f, 0x6e, 0x43, 0x6f, 0x6e, 0x74],
   [0x61, 0x69, 0x6e, 0x65, 0x72, 0xa0, 0x26, 0x6f, 0x62, 0x6a, 0x65, 0x63],
   [0x74, 0x40, 0x40, 0x40, 0x40, 0x40, 0x40, 0x40, 0x84, 0x95, 0xa6, 0xbe],
   [0x00, 0x00, 0x00, 0x05, 0x00, 0x00, 0x00, 0x02, 0x00, 0x00, 0x00, 0x04],
   [0x00, 0x00, 0x00, 0x04, 0x94, 0x23, 0x73, 0x74, 0x72, 0x84, 0x95, 0xa6],
   [0xbe, 0x00, 0x00, 0x00, 0x4b, 0x00, 0x00, 0x00, 0x0d, 0x00, 0x00, 0x00],
   [0x2d, 0x00, 0x00, 0x00, 0x25, 0x90, 0x90, 0x9a, 0xd0, 0x09, 0x25, 0x6c],
   [0x61, 0x63, 0x69, 0x73, 0x2e, 0x70, 0x79, 0x2e, 0x6c, 0x72, 0x5f, 0x6d],
   [0x6f, 0x64, 0x65, 0x6c, 0x2e, 0x74, 0x79, 0x70, 0x65, 0x73, 0x2e, 0x5f],
   [0x4c, 0x69, 0x73, 0x74, 0x5f, 0x5f, 0x66, 0x6c, 0x6f, 0x61, 0x74, 0x54],
   [0x90, 0xa2, 0x2f, 0x74, 0x79, 0x70, 0x69, 0x6e, 0x67, 0x2e, 0x53, 0x65],
   [0x71, 0x75, 0x65, 0x6e, 0x63, 0x65, 0xa0, 0x90, 0x94, 0x25, 0x66, 0x6c],
   [0x6f, 0x61, 0x74, 0x40, 0x42, 0x90, 0x40, 0x40, 0x84, 0x95, 0xa6, 0xbe],
   [0x00, 0x00, 0x00, 0x01, 0x00, 0x00, 0x00, 0x00, 0x00, 0x00, 0x00, 0x00],
   [0x00, 0x00, 0x00, 0x00, 0x40, 0x84, 0x95, 0xa6, 0xbe, 0x00, 0x00, 0x00],
   [0x0a, 0x00, 0x00, 0x00, 0x01, 0x00, 0x00, 0x00, 0x04, 0x00, 0x00, 0x00],
   [0x03, 0x29, 0x3c, 0x75, 0x6e, 0x6b, 0x6e, 0x6f, 0x77, 0x6e, 0x3e, 0x84],
   [0x95, 0xa6, 0xbe, 0x00, 0x00, 0x00, 0x31, 0x00, 0x00, 0x00, 0x04, 0x00],
   [0x00, 0x00, 0x14, 0x00, 0x00, 0x00, 0x0f, 0xa0, 0x09, 0x29, 0x73, 0x63],
   [0x75, 0x62, 0x61, 0x2e, 0x73, 0x63, 0x75, 0x62, 0x61, 0x5f, 0x65, 0x76]] @
  [[0x65, 0x6e, 0x74, 0x5f, 0x62, 0x61, 0x73, 0x65, 0x2e, 0x53, 0x63, 0x75],
   [0x62, 0x61, 0x45, 0x76, 0x65, 0x6e, 0x74, 0x42, 0x61, 0x73, 0x65, 0x2e],
   [0x6c, 0x6f, 0x67, 0xa0, 0x22, 0x2a, 0x2a, 0x40, 0x84, 0x95, 0xa6, 0xbe],
   [0x00, 0x00, 0x00, 0x75, 0x00, 0x00, 0x00, 0x04, 0x00, 0x00, 0x00, 0x25],
   [0x00, 0x00, 0x00, 0x17, 0xa0, 0x09, 0x6a, 0x69, 0x67, 0x5f, 0x6e, 0x6f],
   [0x64, 0x65, 0x61, 0x70, 0x69, 0x2e, 0x6e, 0x6f, 0x64, 0x65, 0x73, 0x2e],
   [0x63, 0x72, 0x65, 0x61, 0x74, 0x6f, 0x72, 0x5f, 0x69, 0x6e, 0x63, 0x65],
   [0x6e, 0x74, 0x69, 0x76, 0x65, 0x5f, 0x70, 0x72, 0x6f, 0x67, 0x72, 0x01],
   [0x71, 0x73, 0xa0, 0x01, 0x01, 0x71, 0x77, 0x9c, 0x91, 0x24, 0x62, 0x6f],
   [0x6f, 0x6c, 0x40, 0xa0, 0xa0, 0xa0, 0xa0, 0x01, 0x01, 0x72, 0x48, 0xa0],
   [0x01, 0x01, 0x72, 0x74, 0xb0, 0x3f, 0x24, 0x70, 0x61, 0x72, 0x61, 0x6d],
   [0x65, 0x74, 0x65, 0x72, 0x24, 0x69, 0x73, 0x5f, 0x73, 0x6f, 0x75, 0x72],
   [0x63, 0x65, 0x5f, 0x69, 0x70, 0x5f, 0x70, 0x72, 0x69, 0x76, 0x61, 0x74],
   [0x65, 0x90, 0xa0, 0xa0, 0xa0, 0x01, 0x01, 0x72, 0x75, 0xa0, 0x01, 0x01],
   [0x72, 0x78, 0x94, 0x41, 0x90, 0xa0, 0xa0, 0xa0, 0x01, 0x01, 0x72, 0x5e],
   [0xa0, 0x01, 0x01, 0x72, 0x74, 0x92, 0xa0, 0xa0, 0xa0, 0xa0, 0x01, 0x01],
   [0x72, 0x5e, 0xa0, 0x01, 0x01, 0x72, 0x6e, 0x9c, 0x90, 0xb0, 0xa0, 0x04],
   [0x07, 0x9c, 0x90, 0xb0, 0xa0, 0xa0, 0xa0, 0x01, 0x01, 0x72, 0x5e, 0xa0],
   [0x01, 0x01, 0x72, 0x65, 0x9c, 0x91, 0x05, 0x06, 0xe5, 0x28, 0x4f, 0x70],
   [0x74, 0x69, 0x6f, 0x6e, 0x61, 0x6c, 0x40, 0x05, 0x06, 0xe4, 0x41, 0xa0],
   [0xa0, 0x40, 0xa0, 0xa0, 0xa0, 0x01, 0x01, 0x72, 0x6f, 0xa0, 0x01, 0x01],
   [0x72, 0x73, 0x9c, 0x91, 0x24, 0x62, 0x6f, 0x6f, 0x6c, 0x40, 0xa0, 0xa0],
   [0xa0, 0xa0, 0x01, 0x01, 0x73, 0x48, 0xa0, 0x01, 0x01, 0x73, 0x6e, 0xb0],
   [0x39, 0x24, 0x70, 0x61, 0x72, 0x61, 0x6d, 0x65, 0x74, 0x65, 0x72, 0x24],
   [0x69, 0x73, 0x5f, 0x74, 0x68, 0x72, 0x69, 0x66, 0x74, 0x5f, 0x63, 0x61],
   [0x6c, 0x6c, 0x90, 0xa0, 0xa0, 0xa0, 0x01, 0x01, 0x73, 0x6f, 0xa0, 0x01],
   [0x01, 0x73, 0x72, 0x94, 0x41, 0x90, 0xa0, 0xa0, 0xa0, 0x01, 0x01, 0x73],
   [0x58, 0xa0, 0x01, 0x01, 0x73, 0x6e, 0x92, 0xa0, 0xa0, 0xa0, 0xa0, 0x01],
   [0x01, 0x73, 0x58, 0xa0, 0x01, 0x01, 0x73, 0x68, 0x9c, 0x90, 0xb0, 0xa0],
   [0x04, 0x07, 0x9c, 0x90, 0xb0, 0xa0, 0xa0, 0xa0, 0x01, 0x01, 0x73, 0x58]] @
  [[0xa0, 0x01, 0x01, 0x73, 0x5f, 0x9c, 0x91, 0x05, 0x07, 0x14, 0x28, 0x4f],
   [0x70, 0x74, 0x69, 0x6f, 0x6e, 0x61, 0x6c, 0x40, 0x05, 0x07, 0x13, 0x41],
   [0xa0, 0xa0, 0x40, 0xa0, 0xa0, 0xa0, 0x01, 0x01, 0x73, 0x69, 0xa0, 0x01],
   [0x01, 0x73, 0x6d, 0x9c, 0x91, 0x24, 0x62, 0x6f, 0x6f, 0x6c, 0x40, 0xa0],
   [0xa0, 0xa0, 0xa0, 0x01, 0x01, 0x74, 0x48, 0xa0, 0x01, 0x01, 0x74, 0x6f],
   [0xb0, 0x3b, 0x24, 0x70, 0x61, 0x72, 0x61, 0x6d, 0x65, 0x74, 0x65, 0x72],
   [0x24, 0x6c, 0x6f, 0x63, 0x61, 0x6c, 0x5f, 0x63, 0x6c, 0x75, 0x73, 0x74],
   [0x65, 0x72, 0x5f, 0x69, 0x64, 0x90, 0xa0, 0xa0, 0xa0, 0x01, 0x01, 0x74],
   [0x70, 0xa0, 0x01, 0x01, 0x74, 0x73, 0x94, 0x41, 0x90, 0xa0, 0xa0, 0xa0],
   [0x01, 0x01, 0x74, 0x5a, 0xa0, 0x01, 0x01, 0x74, 0x6f, 0x92, 0xa0, 0xa0],
   [0xa0, 0xa0, 0x01, 0x01, 0x74, 0x5a, 0xa0, 0x01, 0x01, 0x74, 0x6a, 0x9c],
   [0x90, 0xb0, 0xa0, 0x04, 0x07, 0x9c, 0x90, 0xb0, 0xa0, 0xa0, 0xa0, 0x01],
   [0x01, 0x74, 0x5a, 0xa0, 0x01, 0x01, 0x74, 0x61, 0x9c, 0x91, 0x05, 0x07],
   [0x43, 0x28, 0x4f, 0x70, 0x74, 0x69, 0x6f, 0x6e, 0x61, 0x6c, 0x40, 0x05],
   [0x07, 0x42, 0x41, 0xa0, 0xa0, 0x40, 0xa0, 0xa0, 0xa0, 0x01, 0x01, 0x74],
   [0x6b, 0xa0, 0x01, 0x01, 0x74, 0x6e, 0x9c, 0x91, 0x23, 0x73, 0x74, 0x72],
   [0x40, 0xa0, 0xa0, 0xa0, 0xa0, 0x01, 0x01, 0x75, 0x48, 0xa0, 0x01, 0x01],
   [0x75, 0x77, 0xb0, 0x09, 0x23, 0x24, 0x70, 0x61, 0x72, 0x61, 0x6d, 0x65],
   [0x74, 0x65, 0x72, 0x24, 0x6c, 0x6f, 0x67, 0x69, 0x6e, 0x5f, 0x73, 0x74],
   [0x61, 0x74, 0x65, 0x5f, 0x73, 0x65, 0x73, 0x73, 0x69, 0x6f, 0x6e, 0x5f],
   [0x74, 0x79, 0x70, 0x65, 0x90, 0xa0, 0xa0, 0xa0, 0x01, 0x01, 0x75, 0x78],
   [0xa0, 0x01, 0x01, 0x75, 0x7b, 0x94, 0x41, 0x90, 0xa0, 0xa0, 0xa0, 0x01],
   [0x01, 0x75, 0x62, 0xa0, 0x01, 0x01, 0x75, 0x77, 0x92, 0xa0, 0xa0, 0xa0],
   [0xa0, 0x01, 0x01, 0x75, 0x62, 0xa0, 0x01, 0x01, 0x75, 0x72, 0x9c, 0x90],
   [0xb0, 0xa0, 0x04, 0x07, 0x9c, 0x90, 0xb0, 0xa0, 0xa0, 0xa0, 0x01, 0x01],
   [0x75, 0x62, 0xa0, 0x01, 0x01, 0x75, 0x69, 0x9c, 0x91, 0x05, 0x07, 0x72],
   [0x28, 0x4f, 0x70, 0x74, 0x69, 0x6f, 0x6e, 0x61, 0x6c, 0x40, 0x05, 0x07],
   [0x71, 0x41, 0xa0, 0xa0, 0x40, 0xa0, 0xa0, 0xa0, 0x01, 0x01, 0x75, 0x73],
   [0xa0, 0x01, 0x01, 0x75, 0x76, 0x9c, 0x91, 0x23, 0x73, 0x74, 0x72, 0x40],
   [0xa0, 0xa0, 0xa0, 0xa0, 0x01, 0x01, 0x76, 0x48, 0xa0, 0x01, 0x01, 0x76]] @
  [[0x7c, 0xb0, 0x09, 0x28, 0x24, 0x70, 0x61, 0x72, 0x61, 0x6d, 0x65, 0x74],
   [0x65, 0x72, 0x24, 0x6d, 0x6f, 0x62, 0x69, 0x6c, 0x65, 0x5f, 0x61, 0x70],
   [0x70, 0x5f, 0x69, 0x64, 0x5f, 0x66, 0x72, 0x6f, 0x6d, 0x5f, 0x75, 0x73],
   [0x65, 0x72, 0x5f, 0x61, 0x67, 0x65, 0x6e, 0x74, 0x90, 0xa0, 0xa0, 0xa0],
   [0x01, 0x01, 0x76, 0x7d, 0xa0, 0x01, 0x01, 0x76, 0x00, 0x40, 0x94, 0x41],
   [0x90, 0xa0, 0xa0, 0xa0, 0x01, 0x01, 0x76, 0x67, 0xa0, 0x01, 0x01, 0x76],
   [0x7c, 0x92, 0xa0, 0xa0, 0xa0, 0xa0, 0x01, 0x01, 0x76, 0x67, 0xa0, 0x01],
   [0x01, 0x76, 0x77, 0x9c, 0x90, 0xb0, 0xa0, 0x04, 0x07, 0x9c, 0x90, 0xb0],
   [0xa0, 0xa0, 0xa0, 0x01, 0x01, 0x76, 0x67, 0xa0, 0x01, 0x01, 0x76, 0x6e],
   [0x9c, 0x91, 0x05, 0x07, 0xa1, 0x28, 0x4f, 0x70, 0x74, 0x69, 0x6f, 0x6e],
   [0x61, 0x6c, 0x40, 0x05, 0x07, 0xa0, 0x41, 0xa0, 0xa0, 0x40, 0xa0, 0xa0],
   [0xa0, 0x01, 0x01, 0x76, 0x78, 0xa0, 0x01, 0x01, 0x76, 0x7b, 0x9c, 0x91],
   [0x23, 0x69, 0x6e, 0x74, 0x40, 0xa0, 0xa0, 0xa0, 0xa0, 0x01, 0x01, 0x77],
   [0x48, 0xa0, 0x01, 0x01, 0x77, 0x79, 0xb0, 0x09, 0x25, 0x24, 0x70, 0x61],
   [0x72, 0x61, 0x6d, 0x65, 0x74, 0x65, 0x72, 0x24, 0x6d, 0x6f, 0x62, 0x69],
   [0x6c, 0x65, 0x5f, 0x61, 0x70, 0x70, 0x5f, 0x76, 0x65, 0x72, 0x73, 0x69],
   [0x6f, 0x6e, 0x5f, 0x61, 0x6e, 0x6f, 0x6d, 0x61, 0x6c, 0x79, 0x90, 0xa0],
   [0xa0, 0xa0, 0x01, 0x01, 0x77, 0x7a, 0xa0, 0x01, 0x01, 0x77, 0x7d, 0x94],
   [0x41, 0x90, 0xa0, 0xa0, 0xa0, 0x01, 0x01, 0x77, 0x64, 0xa0, 0x01, 0x01],
   [0x77, 0x79, 0x92, 0xa0, 0xa0, 0xa0, 0xa0, 0x01, 0x01, 0x77, 0x64, 0xa0],
   [0x01, 0x01, 0x77, 0x74, 0x9c, 0x90, 0xb0, 0xa0, 0x04, 0x07, 0x9c, 0x90],
   [0xb0, 0xa0, 0xa0, 0xa0, 0x01, 0x01, 0x77, 0x64, 0xa0, 0x01, 0x01, 0x77],
   [0x6b, 0x9c, 0x91, 0x05, 0x07, 0xd0, 0x28, 0x4f, 0x70, 0x74, 0x69, 0x6f],
   [0x6e, 0x61, 0x6c, 0x40, 0x05, 0x07, 0xcf, 0x41, 0xa0, 0xa0, 0x40, 0xa0],
   [0xa0, 0xa0, 0x01, 0x01, 0x77, 0x75, 0xa0, 0x01, 0x01, 0x77, 0x78, 0x9c],
   [0x91, 0x23, 0x69, 0x6e, 0x74, 0x40, 0xa0, 0xa0, 0xa0, 0xa0, 0x01, 0x01],
   [0x78, 0x48, 0xa0, 0x01, 0x01, 0x78, 0x71, 0xb0, 0x3d, 0x24, 0x70, 0x61],
   [0x72, 0x61, 0x6d, 0x65, 0x74, 0x65, 0x72, 0x24, 0x6d, 0x6f, 0x62, 0x69],
   [0x6c, 0x65, 0x5f, 0x64, 0x65, 0x76, 0x69, 0x63, 0x65, 0x5f, 0x66, 0x62],
   [0x69, 0x64, 0x90, 0xa0, 0xa0, 0xa0, 0x01, 0x01, 0x78, 0x72, 0xa0, 0x01]]"

definition dictionary_rows_16 :: "u8 list list" where
  "dictionary_rows_16 =
  [[0x01, 0x78, 0x75, 0x94, 0x41, 0x90, 0xa0, 0xa0, 0xa0, 0x01, 0x01, 0x78],
   [0x5c, 0xa0, 0x01, 0x01, 0x78, 0x71, 0x92, 0xa0, 0xa0, 0xa0, 0xa0, 0x01],
   [0x01, 0x78, 0x5c, 0xa0, 0x01, 0x01, 0x78, 0x6c, 0x9c, 0x90, 0xb0, 0xa0],
   [0x04, 0x07, 0x9c, 0x63, 0x65, 0xa0, 0xd0, 0x40, 0xc2, 0xb0, 0x41, 0x27],
   [0x74, 0x5f, 0x6e, 0x6f, 0x6e, 0x63, 0x65, 0x40, 0x40, 0x04, 0x87, 0xa0],
   [0x91, 0xb0, 0x09, 0x2b, 0x6e, 0x6f, 0x6e, 0x63, 0x65, 0x2e, 0x73, 0x65],
   [0x63, 0x75, 0x72, 0x65, 0x5f, 0x6e, 0x6f, 0x6e, 0x63, 0x65, 0x5f, 0x68],
   [0x65, 0x6c, 0x70, 0x65, 0x72, 0x2e, 0x53, 0x65, 0x63, 0x75, 0x72, 0x65],
   [0x4e, 0x6f, 0x6e, 0x63, 0x65, 0x48, 0x65, 0x6c, 0x70, 0x65, 0x72, 0x09],
   [0x2c, 0x61, 0x73, 0x79, 0x6e, 0x63, 0x5f, 0x73, 0x61, 0x76, 0x65, 0x5f],
   [0x6c, 0x6f, 0x67, 0x69, 0x6e, 0x5f, 0x73, 0x65, 0x72, 0x76, 0x69, 0x63],
   [0x65, 0x5f, 0x67, 0x65, 0x6e, 0x65, 0x72, 0x61, 0x74, 0x65, 0x64, 0x5f],
   [0x77, 0x77, 0x77, 0x5f, 0x6e, 0x6f, 0x6e, 0x63, 0x65, 0x40, 0x40, 0xf0],
   [0x90, 0xd0, 0xd0, 0x40, 0x92, 0x27, 0x4c, 0x6f, 0x67, 0x67, 0x69, 0x6e],
   [0x67, 0x08, 0x00, 0x00, 0x20, 0x00, 0x90, 0xa0, 0xa0, 0x03, 0xc6, 0x02],
   [0x09, 0x23, 0x44, 0x02, 0x13, 0x88, 0x40, 0xa0, 0x03, 0x00, 0x00, 0x00],
   [0x01, 0x40, 0x00, 0x00, 0x00, 0x40, 0x90, 0x40, 0x90, 0xa0, 0x03, 0x3f],
   [0xff, 0xff, 0xff, 0xff, 0xff, 0xff, 0xff, 0x40, 0x90, 0x45, 0x90, 0x90],
   [0xc1, 0x40, 0x41, 0xc1, 0x40, 0x42, 0xc1, 0x40, 0x44, 0xc1, 0x40, 0x48],
   [0xc1, 0x40, 0x50, 0x90, 0x03, 0x2e, 0x76, 0xd8, 0x30, 0xdf, 0x5d, 0xf3],
   [0x60, 0xc1, 0x50, 0x60, 0x90, 0x03, 0xc4, 0xd4, 0xb6, 0x5a, 0xee, 0x0c],
   [0xa2, 0xd0, 0xc1, 0x70, 0x00, 0x40, 0x90, 0x03, 0x03, 0xff, 0x48, 0x35],
   [0x7f, 0xa4, 0x80, 0xb0, 0xc1, 0x01, 0x00, 0xf0, 0x01, 0x01, 0x00, 0x90],
   [0x03, 0xfd, 0xf8, 0x13, 0x17, 0xf8, 0x0d, 0x18, 0xf0, 0x90, 0x03, 0x26],
   [0xcd, 0x73, 0x0d, 0x2d, 0xb1, 0xbf, 0xf0, 0xc1, 0x58, 0x60, 0xc1, 0x01],
   [0x05, 0x18, 0x01, 0x08, 0x00, 0x90, 0x03, 0xf6, 0xeb, 0xe6, 0x99, 0x13],
   [0x8b, 0xe5, 0x18, 0x90, 0x03, 0x03, 0x30, 0x02, 0x75, 0xe1, 0x57, 0xad],
   [0x18, 0x90, 0x03, 0x2e, 0xa8, 0x40, 0x39, 0x0d, 0x7f, 0x5c, 0xf8, 0xc1],
   [0x44, 0x48, 0xc1, 0x01, 0x06, 0x64, 0x01, 0x10, 0x00, 0x90, 0x03, 0x28],
   [0x8d, 0x69, 0xe5, 0xab, 0x0a, 0x86, 0x64, 0x90, 0x03, 0x0c, 0x55, 0xb6]] @
  [[0xcb, 0x84, 0x9e, 0x56, 0x64, 0xc1, 0x4c, 0x50, 0xc1, 0x4c, 0x60, 0xc1],
   [0x4c, 0x00, 0x40, 0x90, 0x03, 0xf7, 0x45, 0x2a, 0xc8, 0x48, 0x20, 0x58],
   [0x8c, 0x90, 0x03, 0x0a, 0x91, 0x7a, 0x00, 0x32, 0x32, 0x6a, 0xcc, 0xc1],
   [0x01, 0x00, 0xec, 0x01, 0x01, 0x00, 0x90, 0x03, 0x00, 0x1d, 0xdb, 0x99],
   [0x40, 0x71, 0xe2, 0xec, 0x90, 0x03, 0x1e, 0x8c, 0x17, 0x0b, 0x24, 0x53],
   [0x23, 0xec, 0xc1, 0x5c, 0x60, 0xc1, 0x5c, 0x00, 0x40, 0x90, 0x03, 0x38],
   [0x9b, 0x22, 0x4c, 0x0b, 0x0f, 0x54, 0x9c, 0x90, 0x03, 0x06, 0x49, 0x1d],
   [0x9d, 0xcc, 0x6d, 0xe7, 0xdc, 0x90, 0x03, 0xcf, 0x9b, 0xac, 0x55, 0x0b],
   [0x56, 0x2a, 0xbc, 0xc1, 0x42, 0x44, 0xc1, 0x42, 0x48, 0xc1, 0x42, 0x50],
   [0xc1, 0x00, 0x42, 0x01, 0x00, 0x80, 0x90, 0x03, 0xc7, 0x31, 0xd5, 0xdf],
   [0x2b, 0x29, 0x73, 0x42, 0x90, 0x03, 0x35, 0x14, 0x03, 0xfb, 0x05, 0x03],
   [0x6f, 0xc2, 0xc1, 0x72, 0x00, 0x40, 0xc1, 0x72, 0x01, 0x00, 0x80, 0xc1],
   [0x72, 0x01, 0x04, 0x00, 0x90, 0x03, 0xd6, 0xb4, 0xd8, 0xad, 0x88, 0x71],
   [0xc8, 0x32, 0x90, 0x03, 0xd3, 0x80, 0x0c, 0xf6, 0x73, 0x47, 0xd4, 0x32],
   [0x90, 0x03, 0xcd, 0x9a, 0x3a, 0x18, 0xba, 0xee, 0x39, 0xb2, 0x90, 0x03],
   [0xcb, 0xff, 0xad, 0x50, 0xad, 0x8c, 0xc3, 0x72, 0xc1, 0x4a, 0x50, 0xc1],
   [0x4a, 0x00, 0x40, 0x90, 0x03, 0xf7, 0xa0, 0xaa, 0x12, 0xaa, 0x7e, 0x31],
   [0x0a, 0x90, 0x03, 0xcf, 0x39, 0x00, 0x15, 0x1f, 0x07, 0x63, 0xca, 0xc1],
   [0x5a, 0x60, 0xc1, 0x5a, 0x00, 0x40, 0x90, 0x03, 0xc5, 0x87, 0xcd, 0x71],
   [0xa1, 0xef, 0xb4, 0x9a, 0x90, 0x03, 0xd4, 0x1b, 0x7d, 0xa2, 0x54, 0xd6],
   [0x67, 0x5a, 0xc1, 0x7a, 0x00, 0x40, 0xc1, 0x01, 0x00, 0xba, 0x01, 0x01],
   [0x00, 0xc1, 0x01, 0x00, 0xba, 0x01, 0x02, 0x00, 0x90, 0x03, 0x34, 0xf7],
   [0x43, 0xfc, 0x19, 0x7e, 0x84, 0xba, 0x90, 0x03, 0x18, 0xf7, 0x84, 0x90],
   [0xb7, 0xe4, 0x0a, 0xba, 0x90, 0x03, 0x39, 0xdb, 0x10, 0xe9, 0x98, 0x2c],
   [0xdd, 0xba, 0x90, 0x03, 0xe3, 0xd2, 0x01, 0xa2, 0x0d, 0x74, 0xa9, 0x7a],
   [0xc1, 0x46, 0x48, 0xc1, 0x46, 0x50, 0xc1, 0x01, 0x00, 0x86, 0x01, 0x01],
   [0x00, 0x90, 0x03, 0xf2, 0x74, 0x14, 0xa2, 0xe0, 0x0d, 0xde, 0x86, 0x90],
   [0x03, 0x29, 0x3b, 0xf8, 0xee, 0xbe, 0xe8, 0xb3, 0x86, 0x90, 0x03, 0xc2],
   [0x25, 0xe4, 0x32, 0x52, 0x9d, 0x0f, 0xd6, 0xc1, 0x4e, 0x50, 0xc1, 0x4e],
   [0x00, 0x40, 0x90, 0x03, 0xe1, 0xb2, 0xbb, 0xb4, 0x42, 0x36, 0x9f, 0x8e]] @
  [[0xc1, 0x00, 0x4e, 0x01, 0x01, 0x00, 0x90, 0x03, 0xd1, 0xd8, 0x31, 0xd7],
   [0xcb, 0xe7, 0xe6, 0x4e, 0x90, 0x03, 0x08, 0x4b, 0xff, 0xaa, 0x17, 0x9c],
   [0xdb, 0x4e, 0x90, 0x03, 0x1a, 0x4d, 0xee, 0x01, 0xb9, 0xf9, 0x41, 0x5e],
   [0xc1, 0x41, 0x42, 0xc1, 0x41, 0x44, 0xc1, 0x41, 0x48, 0xc1, 0x51, 0x60],
   [0xc1, 0x51, 0x00, 0x40, 0x90, 0x03, 0x0a, 0xcb, 0x01, 0x08, 0x66, 0x3d],
   [0x38, 0x91, 0xc1, 0x00, 0x51, 0x01, 0x01, 0x00, 0x90, 0x03, 0xd8, 0x2a],
   [0x41, 0x6d, 0x11, 0x8e, 0xc4, 0x51, 0x90, 0x03, 0xf3, 0x1b, 0x5a, 0x70],
   [0x47, 0x77, 0x01, 0x51, 0xc1, 0x71, 0x00, 0x40, 0x90, 0x03, 0x3c, 0x3f],
   [0xac, 0x79, 0xf2, 0x57, 0xb5, 0x31, 0x90, 0x03, 0x14, 0x1e, 0x5b, 0x71],
   [0x4d, 0xcd, 0x41, 0xf1, 0xc1, 0x49, 0x50, 0x90, 0x03, 0x15, 0x22, 0xec],
   [0xd3, 0x4e, 0x98, 0x9c, 0xa9, 0x90, 0x03, 0xd9, 0x6b, 0xbb, 0x5b, 0xcc],
   [0xbe, 0x35, 0xb9, 0xc1, 0x45, 0x48, 0x90, 0x03, 0xfc, 0xe9, 0xc5, 0x30],
   [0xf6, 0x9a, 0xb9, 0xf5, 0xc1, 0x4d, 0x50, 0xc1, 0x6d, 0x00, 0x40, 0x90],
   [0x03, 0xf6, 0x1a, 0x62, 0x6d, 0x6d, 0x80, 0x08, 0xad, 0x90, 0x03, 0xfd],
   [0x0b, 0x29, 0x94, 0xfd, 0x9c, 0x7d, 0x6d, 0xc1, 0x5d, 0x60, 0xc1, 0x5d],
   [0x01, 0x00, 0x80, 0x90, 0x03, 0xd3, 0xc2, 0x4e, 0x04, 0x19, 0x5f, 0x82],
   [0x1d, 0x90, 0x03, 0x1d, 0x36, 0x87, 0x0e, 0x86, 0x75, 0xcd, 0x9d, 0x90],
   [0x03, 0xc0, 0x91, 0x50, 0x61, 0x8b, 0xb0, 0xb6, 0x3d, 0xc1, 0x43, 0x44],
   [0xc1, 0x43, 0x48, 0xc1, 0x43, 0x50, 0xc1, 0x43, 0x60, 0x90, 0x03, 0x15],
   [0xf4, 0xcd, 0x74, 0x1c, 0x86, 0xdc, 0x03, 0xc1, 0x63, 0x00, 0x40, 0x90],
   [0x03, 0x21, 0x40, 0x76, 0x9b, 0x4d, 0xd3, 0x88, 0x23, 0x90, 0x03, 0xc1],
   [0xda, 0x04, 0xf2, 0x48, 0x19, 0x44, 0x63, 0xc1, 0x53, 0x60, 0x90, 0x03],
   [0x13, 0x4c, 0x3d, 0xac, 0x03, 0x23, 0x6e, 0x53, 0xc1, 0x73, 0x00, 0x40],
   [0x90, 0x03, 0xf6, 0x2e, 0xd0, 0x53, 0x8a, 0x45, 0x48, 0xb3, 0xc1, 0x00],
   [0x73, 0x01, 0x00, 0x80, 0x90, 0x03, 0xcc, 0x4d, 0xcc, 0xb6, 0x7b, 0x3f],
   [0xbf, 0x73, 0x90, 0x03, 0x3b, 0xbc, 0xba, 0xda, 0xaf, 0x7f, 0x17, 0xf3],
   [0xc1, 0x4b, 0x00, 0x40, 0x90, 0x03, 0xc6, 0xba, 0xca, 0xe4, 0x10, 0xd2],
   [0x81, 0x8b, 0x90, 0x03, 0x26, 0x16, 0xf4, 0x5e, 0xa3, 0x84, 0x44, 0xcb],
   [0xc1, 0x47, 0x48, 0xc1, 0x47, 0x50, 0xc1, 0x20, 0x00, 0x90, 0xa0, 0xa0],
   [0x03, 0x06, 0x00, 0x01, 0x01, 0x00, 0x00, 0x00, 0x00, 0x40, 0xa0, 0x03]] @
  [[0x06, 0x00, 0x01, 0x01, 0x00, 0x00, 0x00, 0x00, 0x40, 0x90, 0x40, 0x90],
   [0x05, 0x04, 0xb8, 0x90, 0x42, 0x90, 0x90, 0x90, 0x03, 0x16, 0x28, 0xdd],
   [0xa1, 0x41, 0x56, 0xab, 0xb0, 0x90, 0xa0, 0x40, 0x40, 0x90, 0xa0, 0x40],
   [0x40, 0x90, 0x40, 0xd0, 0x40, 0x05, 0x02, 0x1b, 0x08, 0x00, 0x00, 0x20],
   [0x00, 0x90, 0xa0, 0xa0, 0x03, 0x06, 0x46, 0x81, 0x23, 0x44, 0x05, 0x11],
   [0x00, 0x40, 0xa0, 0x03, 0x06, 0x04, 0x01, 0x01, 0x00, 0x00, 0x00, 0x00],
   [0x40, 0x90, 0x40, 0x90, 0x05, 0x04, 0xc9, 0x90, 0x45, 0x90, 0x90, 0x90],
   [0x03, 0x0a, 0xca, 0xb8, 0x8e, 0xf6, 0x55, 0x70, 0xf6, 0x90, 0xa0, 0x03],
   [0xc0, 0x00, 0x00, 0x00, 0x00, 0x00, 0x00, 0x00, 0x40, 0x90, 0xa0, 0x40],
   [0x40, 0x90, 0x40, 0x40, 0x41, 0x42, 0x43, 0x90, 0x05, 0x01, 0xbb, 0x90],
   [0xa0, 0xa0, 0x40, 0x40, 0xa0, 0x40, 0x40, 0x90, 0xa0, 0x40, 0x40, 0x90],
   [0xa0, 0x40, 0x40, 0x90, 0xb0, 0xa0, 0x05, 0x04, 0x7d, 0x40, 0xa0, 0x05],
   [0x04, 0x7e, 0x40, 0x41, 0x90, 0x40, 0x40, 0x41, 0xc2, 0xb0, 0x41, 0x27],
   [0x75, 0x73, 0x65, 0x72, 0x5f, 0x69, 0x64, 0x40, 0x40, 0xb0, 0x05, 0x04],
   [0x78, 0xa0, 0x01, 0x03, 0xff, 0x7c, 0xa0, 0x01, 0x03, 0xff, 0x00, 0x4f],
   [0xa0, 0x91, 0xb0, 0x37, 0x61, 0x64, 0x6d, 0x69, 0x6e, 0x2e, 0x73, 0x61],
   [0x6e, 0x63, 0x74, 0x69, 0x66, 0x79, 0x2e, 0x53, 0x61, 0x6e, 0x63, 0x74],
   [0x69, 0x66, 0x79, 0x3d, 0x61, 0x73, 0x79, 0x6e, 0x63, 0x5f, 0x63, 0x61],
   [0x6e, 0x5f, 0x72, 0x65, 0x61, 0x64, 0x5f, 0x75, 0x73, 0x65, 0x72, 0x5f],
   [0x73, 0x65, 0x6e, 0x73, 0x69, 0x74, 0x69, 0x76, 0x65, 0x40, 0x40, 0xf0],
   [0x90, 0xd0, 0xd0, 0x40, 0x92, 0x27, 0x4c, 0x6f, 0x67, 0x67, 0x69, 0x6e],
   [0x67, 0x08, 0x00, 0x00, 0x20, 0x00, 0x90, 0xa0, 0xa0, 0x03, 0x02, 0x00],
   [0x01, 0x00, 0x00, 0x00, 0x00, 0x00, 0x40, 0xa0, 0x03, 0x02, 0x00, 0x01],
   [0x00, 0x00, 0x00, 0x00, 0x00, 0x40, 0x90, 0x40, 0x90, 0x05, 0x04, 0xf8],
   [0x90, 0x48, 0x90, 0x90, 0x90, 0x03, 0xc7, 0x31, 0xd5, 0xdf, 0x2b, 0x29],
   [0x73, 0x42, 0x90, 0xa0, 0x40, 0x40, 0x90, 0xa0, 0x40, 0x40, 0x90, 0x40],
   [0x40, 0x41, 0x92, 0x2f, 0x4e, 0x6f, 0x64, 0x65, 0x45, 0x64, 0x67, 0x65],
   [0x43, 0x72, 0x65, 0x61, 0x74, 0x6f, 0x72, 0x08, 0x00, 0x00, 0x20, 0x00],
   [0x90, 0xa0, 0xa0, 0x03, 0x06, 0x00, 0x01, 0x01, 0x00, 0x00, 0x10, 0x00],
   [0x40, 0xa0, 0x03, 0x06, 0x00, 0x01, 0x01, 0x00, 0x00, 0x00, 0x00, 0x40]] @
  [[0x90, 0x40, 0x90, 0x05, 0x05, 0x0a, 0x90, 0x47, 0x90, 0x90, 0x90, 0x03],
   [0x2e, 0xf4, 0x97, 0x92, 0x60, 0xc5, 0x75, 0xa6, 0x90, 0xa0, 0x01, 0x10],
   [0x00, 0x40, 0x90, 0xa0, 0x40, 0x40, 0x90, 0x40, 0xd0, 0xd0, 0x40, 0x92],
   [0x2d, 0x4e, 0x6f, 0x64, 0x65, 0x45, 0x64, 0x67, 0x65, 0x51, 0x75, 0x65],
   [0x72, 0x79, 0x08, 0x00, 0x00, 0x20, 0x00, 0x90, 0xa0, 0xa0, 0x03, 0x06],
   [0x00, 0x01, 0x01, 0x00, 0x00, 0x00, 0x00, 0x40, 0xa0, 0x03, 0x02, 0x00],
   [0x01, 0x00, 0x00, 0x00, 0x00, 0x00, 0x40, 0x90, 0x40, 0x90, 0x05, 0x05],
   [0x1e, 0x90, 0x44, 0x90, 0x90, 0xc1, 0x40, 0x41, 0xc1, 0x40, 0x60, 0x90],
   [0x03, 0xcf, 0x7b, 0x41, 0xfa, 0x50, 0x2e, 0x51, 0x40, 0x90, 0x03, 0x28],
   [0xa7, 0x48, 0x9e, 0xee, 0x4a, 0x5d, 0xe0, 0x90, 0x03, 0x3f, 0x78, 0x22],
   [0x94, 0x89, 0xbd, 0x64, 0x4d, 0x90, 0xa0, 0x40, 0x40, 0x90, 0xa0, 0x40],
   [0x40, 0x90, 0x40, 0x40, 0x41, 0x92, 0x2b, 0x4e, 0x6f, 0x64, 0x65, 0x55],
   [0x70, 0x64, 0x61, 0x74, 0x65, 0x72, 0x08, 0x00, 0x00, 0x20, 0x00, 0x90],
   [0xa0, 0xa0, 0x03, 0x06, 0x00, 0x01, 0x01, 0x00, 0x00, 0x10, 0x00, 0x40],
   [0xa0, 0x03, 0x06, 0x00, 0x01, 0x01, 0x00, 0x00, 0x00, 0x00, 0x40, 0x90],
   [0x40, 0x90, 0x05, 0x05, 0x34, 0x90, 0x47, 0x90, 0x90, 0x90, 0x03, 0xc0],
   [0xcb, 0x0d, 0xee, 0x07, 0x4d, 0x08, 0x2c, 0x90, 0xa0, 0x01, 0x10, 0x00],
   [0x40, 0x90, 0xa0, 0x40, 0x40, 0x90, 0x40, 0x40, 0x42, 0x43, 0x90, 0x05],
   [0x02, 0x26, 0x90, 0xa0, 0xa0, 0x40, 0x40, 0xa0, 0x40, 0x40, 0x90, 0xa0],
   [0x40, 0x40, 0x90, 0xa0, 0x40, 0x40, 0x90, 0xb0, 0xa0, 0x05, 0x04, 0xe8],
   [0x40, 0xa0, 0xa0, 0x02, 0x00, 0x01, 0x18, 0xd2, 0x02, 0x00, 0x01, 0x18],
   [0xd3, 0x40, 0x40, 0x90, 0x40, 0x40, 0x42, 0x40, 0x40, 0x41, 0x42, 0x43],
   [0x44, 0xd0, 0x40, 0xb0, 0x41, 0x22, 0x76, 0x63, 0x40, 0xa0, 0xd0, 0x40],
   [0xc2, 0xb0, 0x43, 0x22, 0x76, 0x63, 0x40, 0x40, 0xb0, 0x05, 0x04, 0xe9],
   [0xa0, 0x01, 0x04, 0x05, 0x00, 0x47, 0xa0, 0x01, 0x04, 0x05, 0x00, 0x49],
   [0xa0, 0x05, 0x02, 0xf8, 0x40, 0xf0, 0x90, 0xd0, 0xd0, 0x40, 0x92, 0x2d],
   [0x4e, 0x6f, 0x64, 0x65, 0x45, 0x64, 0x67, 0x65, 0x51, 0x75, 0x65, 0x72],
   [0x79, 0x08, 0x00, 0x00, 0x20, 0x00, 0x90, 0xa0, 0xa0, 0x03, 0x06, 0x02],
   [0x09, 0x23, 0x40, 0x07, 0x10, 0x80, 0x90, 0x90, 0x03, 0xff, 0xcd, 0xfb],
   [0xb4, 0xa9, 0x2a, 0x1c, 0x6c, 0xa0, 0x03, 0x06, 0x00, 0x01, 0x03, 0x40]]"

definition dictionary_rows_17 :: "u8 list list" where
  "dictionary_rows_17 =
  [[0x00, 0x10, 0x00, 0x40, 0x90, 0x40, 0x90, 0x05, 0x05, 0x67, 0x90, 0x44],
   [0x90, 0x90, 0xc1, 0x40, 0x41, 0xc1, 0x40, 0x42, 0xc1, 0x40, 0x44, 0x90],
   [0x03, 0x28, 0xa7, 0x48, 0x9e, 0xee, 0x4a, 0x5d, 0xe0, 0x05, 0x02, 0xe0],
   [0x05, 0x02, 0xdb, 0xc1, 0x41, 0x42, 0x05, 0x02, 0xd4, 0xc1, 0x43, 0x44],
   [0x05, 0x02, 0x70, 0x90, 0x03, 0xc8, 0x1b, 0xd1, 0x89, 0xa3, 0xa7, 0xc4],
   [0x47, 0x90, 0xa0, 0x40, 0x40, 0x90, 0xa0, 0x40, 0x40, 0x90, 0x40, 0x40],
   [0x41, 0x92, 0x35, 0x4e, 0x6f, 0x64, 0x65, 0x4c, 0x6f, 0x61, 0x64, 0x56],
   [0x69, 0x65, 0x77, 0x65, 0x72, 0x43, 0x6f, 0x6e, 0x74, 0x65, 0x78, 0x74],
   [0x08, 0x00, 0x00, 0x20, 0x00, 0x90, 0xa0, 0xa0, 0x03, 0x02, 0x02, 0x09],
   [0x21, 0x40, 0x05, 0x00, 0x00, 0x40, 0xa0, 0x40, 0x40, 0x90, 0x40, 0x90],
   [0x05, 0x05, 0x7f, 0x90, 0x43, 0x90, 0x90, 0xc1, 0x40, 0x42, 0x90, 0x03],
   [0x16, 0x28, 0xdd, 0xa1, 0x41, 0x56, 0xab, 0xb0, 0x90, 0x03, 0x2f, 0x2e],
   [0x78, 0x17, 0xc6, 0xee, 0xae, 0x5a, 0x90, 0xa0, 0x40, 0x40, 0x90, 0xa0],
   [0x40, 0x40, 0x90, 0x40, 0x40, 0x42, 0x90, 0x05, 0x02, 0x73, 0x90, 0xa0],
   [0xa0, 0x40, 0x40, 0xa0, 0x40, 0x40, 0x90, 0xa0, 0x40, 0x40, 0x90, 0xa0],
   [0x40, 0x40, 0x90, 0xb0, 0xa0, 0x05, 0x05, 0x35, 0x40, 0xa0, 0x05, 0x05],
   [0x36, 0x40, 0x41, 0x90, 0x40, 0x40, 0x41, 0xd0, 0xd0, 0x40, 0x90, 0x2d],
   [0x5f, 0x75, 0x73, 0x65, 0x63, 0x61, 0x73, 0x65, 0x5f, 0x6e, 0x61, 0x6d],
   [0x65, 0xa0, 0xd0, 0x40, 0xc2, 0x04, 0x4d, 0xa0, 0x04, 0x06, 0x40, 0x04],
   [0x4c, 0xa0, 0x05, 0x03, 0x41, 0x40, 0xf0, 0x90, 0xd0, 0x40, 0x92, 0x23],
   [0x4f, 0x44, 0x53, 0x08, 0x00, 0x00, 0x20, 0x00, 0x90, 0xa0, 0xa0, 0x03],
   [0x04, 0x04, 0x00, 0x01, 0x00, 0x00, 0x00, 0x00, 0x40, 0xa0, 0x03, 0x00],
   [0x04, 0x00, 0x01, 0x00, 0x00, 0x00, 0x00, 0x40, 0x90, 0x40, 0x90, 0x05],
   [0x05, 0xad, 0x90, 0x44, 0x90, 0x90, 0x90, 0x03, 0x0a, 0xca, 0xb8, 0x90],
   [0x94, 0x23, 0x69, 0x6e, 0x74, 0x40, 0x40, 0x41, 0xa0, 0x92, 0xb0, 0x09],
   [0x23, 0x24, 0x70, 0x61, 0x72, 0x61, 0x6d, 0x65, 0x74, 0x65, 0x72, 0x24],
   [0x61, 0x64, 0x73, 0x5f, 0x61, 0x63, 0x63, 0x6f, 0x75, 0x6e, 0x74, 0x5f],
   [0x72, 0x65, 0x76, 0x69, 0x65, 0x77, 0x5f, 0x73, 0x74, 0x61, 0x74, 0x73],
   [0x99, 0xa0, 0x42, 0xa0, 0x94, 0x23, 0x73, 0x74, 0x72, 0x40, 0x41, 0xa0],
   [0x92, 0xb0, 0x09, 0x25, 0x24, 0x70, 0x61, 0x72, 0x61, 0x6d, 0x65, 0x74]] @
  [[0x65, 0x72, 0x24, 0x61, 0x64, 0x73, 0x5f, 0x61, 0x63, 0x63, 0x6f, 0x75],
   [0x6e, 0x74, 0x5f, 0x64, 0x65, 0x6c, 0x69, 0x76, 0x65, 0x72, 0x79, 0x5f],
   [0x73, 0x74, 0x61, 0x74, 0x73, 0x99, 0xa0, 0x42, 0xa0, 0xa2, 0x2e, 0x74],
   [0x79, 0x70, 0x69, 0x6e, 0x67, 0x2e, 0x4d, 0x61, 0x70, 0x70, 0x69, 0x6e],
   [0x67, 0xa0, 0x90, 0x94, 0x23, 0x73, 0x74, 0x72, 0xa0, 0x90, 0x94, 0x25],
   [0x66, 0x6c, 0x6f, 0x61, 0x74, 0x40, 0x40, 0x41, 0xa0, 0x92, 0xb0, 0x37],
   [0x24, 0x70, 0x61, 0x72, 0x61, 0x6d, 0x65, 0x74, 0x65, 0x72, 0x24, 0x76],
   [0x63, 0x5f, 0x76, 0x69, 0x65, 0x77, 0x65, 0x72, 0x5f, 0x69, 0x64, 0x99],
   [0xa0, 0x42, 0xa0, 0x94, 0x23, 0x69, 0x6e, 0x74, 0x40, 0x41, 0xa0, 0x92],
   [0xb0, 0x34, 0x24, 0x70, 0x61, 0x72, 0x61, 0x6d, 0x65, 0x74, 0x65, 0x72],
   [0x24, 0x73, 0x6f, 0x75, 0x72, 0x63, 0x65, 0x5f, 0x69, 0x64, 0x99, 0xa0],
   [0x42, 0xa0, 0x94, 0x23, 0x69, 0x6e, 0x74, 0x40, 0x41, 0xa0, 0x92, 0xb0],
   [0x38, 0x24, 0x70, 0x61, 0x72, 0x61, 0x6d, 0x65, 0x74, 0x65, 0x72, 0x24],
   [0x76, 0x63, 0x5f, 0x61, 0x63, 0x63, 0x6f, 0x75, 0x6e, 0x74, 0x5f, 0x69],
   [0x64, 0x99, 0xa0, 0x42, 0xa0, 0x94, 0x23, 0x69, 0x6e, 0x74, 0x40, 0x41],
   [0xa0, 0x92, 0xb0, 0x34, 0x24, 0x70, 0x61, 0x72, 0x61, 0x6d, 0x65, 0x74],
   [0x65, 0x72, 0x24, 0x76, 0x63, 0x5f, 0x61, 0x70, 0x70, 0x5f, 0x69, 0x64],
   [0x99, 0xa0, 0x42, 0xa0, 0x94, 0x23, 0x69, 0x6e, 0x74, 0x40, 0x41, 0xa0],
   [0x92, 0xb0, 0x09, 0x2e, 0x24, 0x70, 0x61, 0x72, 0x61, 0x6d, 0x65, 0x74],
   [0x65, 0x72, 0x24, 0x76, 0x63, 0x5f, 0x62, 0x61, 0x63, 0x6b, 0x69, 0x6e],
   [0x67, 0x5f, 0x74, 0x79, 0x70, 0x65, 0x5f, 0x66, 0x6f, 0x72, 0x5f, 0x62],
   [0x75, 0x73, 0x69, 0x6e, 0x65, 0x73, 0x73, 0x5f, 0x70, 0x65, 0x72, 0x73],
   [0x6f, 0x6e, 0x99, 0xa0, 0x42, 0xa0, 0x94, 0x23, 0x73, 0x74, 0x72, 0x40],
   [0x41, 0xa0, 0x92, 0xb0, 0x39, 0x24, 0x70, 0x61, 0x72, 0x61, 0x6d, 0x65],
   [0x74, 0x65, 0x72, 0x24, 0x76, 0x63, 0x5f, 0x62, 0x75, 0x73, 0x69, 0x6e],
   [0x65, 0x73, 0x73, 0x5f, 0x69, 0x64, 0x99, 0xa0, 0x42, 0xa0, 0x94, 0x23],
   [0x69, 0x6e, 0x74, 0x40, 0x41, 0xa0, 0x92, 0xb0, 0x33, 0x24, 0x70, 0x61],
   [0x72, 0x61, 0x6d, 0x65, 0x74, 0x65, 0x72, 0x24, 0x76, 0x63, 0x5f, 0x63],
   [0x6c, 0x61, 0x73, 0x73, 0x99, 0xa0, 0x42, 0xa0, 0x94, 0x23, 0x73, 0x74],
   [0x72, 0x40, 0x41, 0xa0, 0x92, 0xb0, 0x38, 0x24, 0x70, 0x61, 0x72, 0x61]] @
  [[0x6d, 0x65, 0x74, 0x65, 0x72, 0x24, 0x76, 0x63, 0x5f, 0x67, 0x6d, 0x74],
   [0x5f, 0x6f, 0x66, 0x66, 0x73, 0x65, 0x74, 0x99, 0xa0, 0x42, 0xa0, 0x94],
   [0x23, 0x69, 0x6e, 0x74, 0x40, 0x41, 0xa0, 0x92, 0xb0, 0x3d, 0x24, 0x70],
   [0x61, 0x72, 0x61, 0x6d, 0x65, 0x74, 0x65, 0x72, 0x24, 0x76, 0x63, 0x5f],
   [0x69, 0x73, 0x5f, 0x61, 0x6c, 0x6c, 0x5f, 0x70, 0x6f, 0x77, 0x65, 0x72],
   [0x66, 0x75, 0x6c, 0x99, 0xa0, 0x42, 0xa0, 0x94, 0x24, 0x62, 0x6f, 0x6f],
   [0x6c, 0x40, 0x41, 0xa0, 0x92, 0xb0, 0x3e, 0x24, 0x70, 0x61, 0x72, 0x61],
   [0x6d, 0x65, 0x74, 0x65, 0x72, 0x24, 0x76, 0x63, 0x5f, 0x69, 0x73, 0x5f],
   [0x61, 0x74, 0x5f, 0x77, 0x6f, 0x72, 0x6b, 0x5f, 0x61, 0x64, 0x6d, 0x69],
   [0x6e, 0x99, 0xa0, 0x42, 0xa0, 0x94, 0x24, 0x62, 0x6f, 0x6f, 0x6c, 0x40],
   [0x41, 0xa0, 0x92, 0xb0, 0x09, 0x21, 0x24, 0x70, 0x61, 0x72, 0x61, 0x6d],
   [0x65, 0x74, 0x65, 0x72, 0x24, 0x76, 0x63, 0x5f, 0x69, 0x73, 0x5f, 0x61],
   [0x74, 0x5f, 0x77, 0x6f, 0x72, 0x6b, 0x5f, 0x65, 0x61, 0x67, 0x70, 0x5f],
   [0x61, 0x70, 0x70, 0x99, 0xa0, 0x42, 0xa0, 0x94, 0x24, 0x62, 0x6f, 0x6f],
   [0x6c, 0x40, 0x41, 0xa0, 0x92, 0xb0, 0x3d, 0x24, 0x70, 0x61, 0x72, 0x61],
   [0x6d, 0x65, 0x74, 0x65, 0x72, 0x24, 0x76, 0x63, 0x5f, 0x69, 0x73, 0x5f],
   [0x61, 0x74, 0x5f, 0x77, 0x6f, 0x72, 0x6b, 0x5f, 0x75, 0x73, 0x65, 0x72],
   [0x99, 0xa0, 0x42, 0xa0, 0x94, 0x24, 0x62, 0x6f, 0x6f, 0x6c, 0x40, 0x41],
   [0xa0, 0x92, 0xb0, 0x3e, 0x24, 0x70, 0x61, 0x72, 0x61, 0x6d, 0x65, 0x74],
   [0x65, 0x72, 0x24, 0x76, 0x63, 0x5f, 0x69, 0x73, 0x5f, 0x61, 0x75, 0x74],
   [0x68, 0x65, 0x6e, 0x74, 0x69, 0x63, 0x61, 0x74, 0x65, 0x64, 0x99, 0xa0],
   [0x42, 0xa0, 0x94, 0x24, 0x62, 0x6f, 0x6f, 0x6c, 0x40, 0x41, 0xa0, 0x92],
   [0xb0, 0x3b, 0x24, 0x70, 0x61, 0x72, 0x61, 0x6d, 0x65, 0x74, 0x65, 0x72],
   [0x24, 0x76, 0x63, 0x5f, 0x69, 0x73, 0x5f, 0x6f, 0x6d, 0x6e, 0x69, 0x73],
   [0x63, 0x69, 0x65, 0x6e, 0x74, 0x99, 0xa0, 0x42, 0xa0, 0x94, 0x24, 0x62],
   [0x6f, 0x6f, 0x6c, 0x40, 0x41, 0xa0, 0x92, 0xb0, 0x38, 0x24, 0x70, 0x61],
   [0x72, 0x61, 0x6d, 0x65, 0x74, 0x65, 0x72, 0x24, 0x76, 0x63, 0x5f, 0x75],
   [0x73, 0x65, 0x72, 0x5f, 0x63, 0x6c, 0x61, 0x73, 0x73, 0x99, 0xa0, 0x42],
   [0xa0, 0x94, 0x23, 0x73, 0x74, 0x72, 0x40, 0x41, 0xa0, 0x92, 0xb0, 0x35],
   [0x24, 0x70, 0x61, 0x72, 0x61, 0x6d, 0x65, 0x74, 0x65, 0x72, 0x24, 0x76]] @
  [[0x63, 0x5f, 0x75, 0x73, 0x65, 0x72, 0x5f, 0x69, 0x64, 0x99, 0xa0, 0x42],
   [0xa0, 0x94, 0x23, 0x69, 0x6e, 0x74, 0x40, 0x41, 0xa0, 0x92, 0xb0, 0x3a],
   [0x24, 0x70, 0x61, 0x72, 0x61, 0x6d, 0x65, 0x74, 0x65, 0x72, 0x24, 0x76],
   [0x63, 0x5f, 0x76, 0x69, 0x65, 0x77, 0x65, 0x72, 0x5f, 0x63, 0x6c, 0x61],
   [0x73, 0x73, 0x99, 0xa0, 0x42, 0xa0, 0x94, 0x23, 0x73, 0x74, 0x72, 0x40],
   [0x41, 0xa0, 0x92, 0xb0, 0x3e, 0x24, 0x70, 0x61, 0x72, 0x61, 0x6d, 0x65],
   [0x74, 0x65, 0x72, 0x24, 0x61, 0x64, 0x5f, 0x61, 0x63, 0x63, 0x6f, 0x75],
   [0x6e, 0x74, 0x5f, 0x61, 0x64, 0x6d, 0x69, 0x6e, 0x5f, 0x69, 0x64, 0x99],
   [0xa0, 0x42, 0xa0, 0x94, 0x23, 0x69, 0x6e, 0x74, 0x40, 0x41, 0xa0, 0x92],
   [0xb0, 0x09, 0x33, 0x24, 0x70, 0x61, 0x72, 0x61, 0x6d, 0x65, 0x74, 0x65],
   [0x72, 0x24, 0x61, 0x64, 0x73, 0x5f, 0x63, 0x68, 0x69, 0x6c, 0x64, 0x5f],
   [0x63, 0x72, 0x6f, 0x77, 0x5f, 0x63, 0x6f, 0x6d, 0x70, 0x5f, 0x66, 0x61],
   [0x6c, 0x73, 0x65, 0x5f, 0x70, 0x6f, 0x73, 0x69, 0x74, 0x69, 0x76, 0x65],
   [0x5f, 0x73, 0x63, 0x6f, 0x72, 0x65, 0x99, 0xa0, 0x42, 0xa0, 0x94, 0x25],
   [0x66, 0x6c, 0x6f, 0x61, 0x74, 0x40, 0x41, 0xa0, 0x92, 0xb0, 0x09, 0x34],
   [0x24, 0x70, 0x61, 0x72, 0x61, 0x6d, 0x65, 0x74, 0x65, 0x72, 0x24, 0x61],
   [0x64, 0x73, 0x5f, 0x63, 0x72, 0x65, 0x61, 0x74, 0x69, 0x76, 0x65, 0x5f],
   [0x61, 0x73, 0x73, 0x6f, 0x63, 0x69, 0x61, 0x74, 0x65, 0x64, 0x5f, 0x69],
   [0x6e, 0x73, 0x74, 0x61, 0x67, 0x72, 0x61, 0x6d, 0x5f, 0x75, 0x73, 0x65],
   [0x72, 0x5f, 0x69, 0x03, 0xed, 0x67, 0x9c, 0x90, 0xb0, 0xa0, 0xa0, 0xa0],
   [0x01, 0x03, 0xed, 0x52, 0xa0, 0x01, 0x03, 0xed, 0x56, 0x9c, 0x91, 0x05],
   [0x01, 0xa6, 0x30, 0x61, 0x73, 0x79, 0x6e, 0x63, 0x5f, 0x66, 0x6f, 0x6c],
   [0x6c, 0x6f, 0x77, 0x5f, 0x74, 0x61, 0x67, 0x40, 0xa0, 0xa0, 0x40, 0xa0],
   [0xa0, 0xa0, 0x01, 0x03, 0xed, 0x68, 0xa0, 0x01, 0x03, 0xed, 0x6f, 0x9c],
   [0x91, 0x04, 0xa8, 0x40, 0x40, 0x41, 0xa0, 0xa0, 0xa0, 0xa0, 0x01, 0x03],
   [0xef, 0x48, 0xa0, 0x01, 0x04, 0x20, 0x51, 0x9f, 0xb0, 0xa0, 0xa0, 0xa0],
   [0xa0, 0xa0, 0x01, 0x03, 0xef, 0x53, 0xa0, 0x01, 0x03, 0xef, 0x78, 0x92],
   [0xa0, 0xa0, 0xa0, 0xa0, 0x01, 0x03, 0xef, 0x53, 0xa0, 0x01, 0x03, 0xef],
   [0x6c, 0x9c, 0x90, 0xb0, 0xa0, 0xa0, 0xa0, 0x01, 0x03, 0xef, 0x53, 0xa0],
   [0x01, 0x03, 0xef, 0x57, 0x9c, 0x91, 0x05, 0x01, 0xcb, 0x34, 0x61, 0x73]] @
  [[0x79, 0x6e, 0x63, 0x5f, 0x6c, 0x6f, 0x67, 0x67, 0x65, 0x64, 0x5f, 0x69],
   [0x6e, 0x5f, 0x75, 0x73, 0x65, 0x72, 0x40, 0xa0, 0xa0, 0x40, 0xa0, 0xa0],
   [0xa0, 0x01, 0x03, 0xef, 0x6d, 0xa0, 0x01, 0x03, 0xef, 0x77, 0x9c, 0x90],
   [0xb0, 0xa0, 0xa0, 0xa0, 0x01, 0x03, 0xef, 0x6d, 0xa0, 0x01, 0x03, 0xef],
   [0x71, 0x9c, 0x91, 0x05, 0x01, 0xdb, 0x25, 0x61, 0x70, 0x70, 0x6c, 0x65],
   [0x40, 0x40, 0x40, 0x40, 0xa0, 0xa0, 0xa0, 0xa0, 0x01, 0x03, 0xf0, 0x4c],
   [0xa0, 0x01, 0x04, 0x20, 0x51, 0x9f, 0xb0, 0xa0, 0xa0, 0xa0, 0xa0, 0xa0],
   [0x01, 0x03, 0xf0, 0x51, 0xa0, 0x01, 0x03, 0xf3, 0x4d, 0x92, 0xa0, 0xa0],
   [0xa0, 0xa0, 0x01, 0x03, 0xf0, 0x51, 0xa0, 0x01, 0x03, 0xf0, 0x56, 0x9c],
   [0x90, 0xb0, 0xa0, 0x04, 0x07, 0x9c, 0x90, 0xb0, 0xa0, 0x04, 0x0b, 0x9c],
   [0x91, 0x27, 0x74, 0x65, 0x73, 0x74, 0x69, 0x6e, 0x67, 0x25, 0x75, 0x74],
   [0x69, 0x6c, 0x73, 0x40, 0x25, 0x70, 0x61, 0x74, 0x63, 0x68, 0x40, 0xa0],
   [0xa0, 0x40, 0xa0, 0xa0, 0xa0, 0x01, 0x03, 0xf1, 0x50, 0xa0, 0x01, 0x03],
   [0xf1, 0x7e, 0x94, 0x94, 0xa0, 0x09, 0x2c, 0x69, 0x67, 0x5f, 0x6e, 0x6f],
   [0x64, 0x65, 0x61, 0x70, 0x69, 0x2e, 0x6e, 0x6f, 0x64, 0x65, 0x73, 0x2e],
   [0x75, 0x73, 0x65, 0x72, 0x2e, 0x4e, 0x6f, 0x64, 0x65, 0x47, 0x65, 0x74],
   [0x55, 0x73, 0x65, 0x72, 0x2e, 0x61, 0x73, 0x79, 0x6e, 0x63, 0x5f, 0x73],
   [0x65, 0x6e, 0x64, 0x40, 0xa0, 0xa0, 0x40, 0xa0, 0xa0, 0xa0, 0x01, 0x03],
   [0xf2, 0x50, 0xa0, 0x01, 0x03, 0xf2, 0x6c, 0x92, 0xa0, 0xa0, 0xa0, 0xa0],
   [0x01, 0x03, 0xf2, 0x50, 0xa0, 0x01, 0x03, 0xf2, 0x59, 0x9c, 0x90, 0xb0],
   [0xa0, 0x04, 0x07, 0x9c, 0x90, 0xb0, 0xa0, 0x04, 0x0b, 0x9c, 0x91, 0x04],
   [0x23, 0x04, 0x22, 0x40, 0x29, 0x41, 0x73, 0x79, 0x6e, 0x63, 0x4d, 0x6f],
   [0x63, 0x6b, 0x40, 0xa0, 0xa0, 0x90, 0xa0, 0xa0, 0xa0, 0x01, 0x03, 0xf2],
   [0x5a, 0xa0, 0x01, 0x03, 0xf2, 0x66, 0x37, 0x24, 0x70, 0x61, 0x72, 0x61],
   [0x6d, 0x65, 0x74, 0x65, 0x72, 0x24, 0x72, 0x65, 0x74, 0x75, 0x72, 0x6e],
   [0x5f, 0x76, 0x61, 0x6c, 0x75, 0x65, 0xa0, 0xa0, 0xa0, 0x01, 0x03, 0xf2],
   [0x67, 0xa0, 0x01, 0x03, 0xf2, 0x6b, 0x94, 0x40, 0x40, 0x40, 0x40, 0xa0],
   [0xa0, 0xa0, 0xa0, 0xa0, 0x01, 0x03, 0xf3, 0x4f, 0xa0, 0x01, 0x03, 0xf5],
   [0x4d, 0x92, 0xa0, 0xa0, 0xa0, 0xa0, 0x01, 0x03, 0xf3, 0x4f, 0xa0, 0x01],
   [0x03, 0xf3, 0x5a, 0x9c, 0x90, 0xb0, 0xa0, 0x04, 0x07, 0x9c, 0x90, 0xb0]]"

definition dictionary_rows_18 :: "u8 list list" where
  "dictionary_rows_18 =
  [[0xa0, 0x04, 0x0b, 0x9c, 0x91, 0x04, 0x47, 0x04, 0x46, 0x40, 0x2b, 0x70],
   [0x61, 0x74, 0x63, 0x68, 0x5f, 0x61, 0x73, 0x79, 0x6e, 0x63, 0x40, 0xa0],
   [0xa0, 0x40, 0xa0, 0xa0, 0xa0, 0x01, 0x03, 0xf4, 0x50, 0xa0, 0x01, 0x03],
   [0xf4, 0x00, 0x51, 0x94, 0x94, 0xa0, 0x09, 0x3f, 0x74, 0x61, 0x67, 0x73],
   [0x2e, 0x71, 0x75, 0x65, 0x72, 0x69, 0x65, 0x73, 0x2e, 0x74, 0x61, 0x67],
   [0x5f, 0x6d, 0x65, 0x64, 0x69, 0x61, 0x5f, 0x63, 0x6f, 0x75, 0x6e, 0x74],
   [0x5f, 0x71, 0x75, 0x65, 0x72, 0x79, 0x2e, 0x54, 0x61, 0x67, 0x4d, 0x65],
   [0x64, 0x69, 0x61, 0x43, 0x6f, 0x75, 0x6e, 0x74, 0x51, 0x75, 0x65, 0x72],
   [0x79, 0x2e, 0x61, 0x73, 0x79, 0x6e, 0x63, 0x5f, 0x67, 0x65, 0x74, 0x40],
   [0xa0, 0xa0, 0x40, 0xa0, 0xa0, 0xa0, 0x01, 0x03, 0xf4, 0x00, 0x53, 0xa0],
   [0x01, 0x03, 0xf4, 0x00, 0x55, 0x94, 0x90, 0x4a, 0x40, 0x40, 0x40, 0xa0],
   [0xa0, 0xa0, 0xa0, 0x01, 0x03, 0xf7, 0x50, 0xa0, 0x01, 0x03, 0xfb, 0x51],
   [0x90, 0xb0, 0xa0, 0xa0, 0x04, 0x06, 0xa0, 0x01, 0x03, 0xf7, 0x69, 0x9c],
   [0x91, 0x09, 0x91, 0x24, 0x6c, 0x6f, 0x63, 0x61, 0x6c, 0x5f, 0x66, 0x62],
   [0x73, 0x65, 0x61, 0x72, 0x63, 0x68, 0x3f, 0x69, 0x6e, 0x74, 0x65, 0x72],
   [0x65, 0x73, 0x74, 0x73, 0x3f, 0x74, 0x65, 0x73, 0x74, 0x73, 0x3f, 0x74],
   [0x65, 0x73, 0x74, 0x5f, 0x74, 0x61, 0x67, 0x5f, 0x72, 0x65, 0x63, 0x6f],
   [0x6d, 0x6d, 0x65, 0x6e, 0x64, 0x61, 0x74, 0x69, 0x6f, 0x6e, 0x5f, 0x73],
   [0x65, 0x72, 0x76, 0x69, 0x63, 0x65, 0x3f, 0x54, 0x61, 0x67, 0x52, 0x65],
   [0x63, 0x6f, 0x6d, 0x6d, 0x65, 0x6e, 0x64, 0x61, 0x74, 0x69, 0x6f, 0x6e],
   [0x53, 0x65, 0x72, 0x76, 0x69, 0x63, 0x65, 0x54, 0x65, 0x73, 0x74, 0x3f],
   [0x74, 0x65, 0x73, 0x74, 0x5f, 0x67, 0x65, 0x74, 0x5f, 0x73, 0x6f, 0x63],
   [0x69, 0x61, 0x6c, 0x5f, 0x63, 0x6f, 0x6e, 0x74, 0x65, 0x78, 0x74, 0x5f],
   [0x76, 0x32, 0x24, 0x74, 0x61, 0x67, 0x5f, 0x72, 0x65, 0x63, 0x6f, 0x6d],
   [0x6d, 0x65, 0x6e, 0x64, 0x61, 0x74, 0x69, 0x6f, 0x6e, 0x5f, 0x72, 0x65],
   [0x73, 0x75, 0x6c, 0x74, 0x40, 0xa0, 0xa0, 0xa0, 0x01, 0x03, 0xf8, 0x54],
   [0xa0, 0x01, 0x03, 0xfa, 0x55, 0x90, 0xa0, 0xa0, 0xa0, 0x01, 0x03, 0xf8],
   [0x5a, 0xa0, 0x01, 0x03, 0xfa, 0x55, 0x92, 0xa0, 0xa0, 0xa0, 0xa0, 0x01],
   [0x03, 0xf8, 0x5a, 0xa0, 0x01, 0x03, 0xf8, 0x00, 0x50, 0x9c, 0x90, 0xb0],
   [0xa0, 0xa0, 0xa0, 0x01, 0x03, 0xf8, 0x5a, 0xa0, 0x01, 0x03, 0xf8, 0x71]] @
  [[0x9c, 0x90, 0xb0, 0xa0, 0x04, 0x07, 0x9c, 0x90, 0xb0, 0xa0, 0x04, 0x0b],
   [0x9c, 0x90, 0xb0, 0xa0, 0x04, 0x0f, 0x9c, 0x91, 0x05, 0x02, 0x1c, 0x05],
   [0x02, 0x1b, 0x40, 0x05, 0x02, 0x1a, 0x40, 0x37, 0x54, 0x61, 0x67, 0x52],
   [0x65, 0x63, 0x6f, 0x6d, 0x6d, 0x65, 0x6e, 0x64, 0x61, 0x74, 0x69, 0x6f],
   [0x6e, 0x52, 0x65, 0x73, 0x75, 0x6c, 0x74, 0x40, 0x3e, 0x61, 0x73, 0x79],
   [0x6e, 0x63, 0x5f, 0x66, 0x72, 0x6f, 0x6d, 0x5f, 0x69, 0x6e, 0x74, 0x65],
   [0x72, 0x65, 0x73, 0x74, 0x5f, 0x74, 0x61, 0x67, 0x5f, 0x72, 0x65, 0x73],
   [0x75, 0x6c, 0x74, 0x40, 0xa0, 0xa0, 0x40, 0xa0, 0xa0, 0xa0, 0x01, 0x03],
   [0xf9, 0x58, 0xa0, 0x01, 0x03, 0xf9, 0x66, 0x9c, 0x91, 0x05, 0x02, 0x3a],
   [0xa0, 0xa0, 0x40, 0xa0, 0xa0, 0xa0, 0x01, 0x03, 0xf9, 0x68, 0xa0, 0x01],
   [0x03, 0xf9, 0x6f, 0x9c, 0x91, 0x05, 0x01, 0x8f, 0xa0, 0xa0, 0x40, 0xa0],
   [0xa0, 0xa0, 0x01, 0x03, 0xf9, 0x71, 0xa0, 0x01, 0x03, 0xf9, 0x7b, 0x9c],
   [0x90, 0xb0, 0xa0, 0xa0, 0xa0, 0x01, 0x03, 0xf9, 0x71, 0xa0, 0x01, 0x03],
   [0xf9, 0x75, 0x9c, 0x91, 0x05, 0x02, 0xa5, 0x25, 0x61, 0x70, 0x70, 0x6c],
   [0x65, 0x40, 0xa0, 0xa0, 0x40, 0xa0, 0xa0, 0x73, 0x74, 0x40, 0x90, 0xa0],
   [0xa0, 0xa0, 0x01, 0x00, 0xa6, 0x44, 0xa0, 0x01, 0x00, 0xa8, 0x53, 0xc0],
   [0x08, 0x00, 0x00, 0x20, 0x00, 0xa0, 0x04, 0x0d, 0xa0, 0x04, 0x0c, 0xa0],
   [0x04, 0x0b, 0xa0, 0x09, 0x30, 0x45, 0x64, 0x67, 0x65, 0x53, 0x65, 0x74],
   [0x46, 0x65, 0x65, 0x64, 0x4d, 0x65, 0x64, 0x69, 0x61, 0x54, 0x6f, 0x43],
   [0x72, 0x65, 0x61, 0x74, 0x69, 0x76, 0x65, 0x43, 0x6f, 0x6e, 0x66, 0x69],
   [0x67, 0x4f, 0x6e, 0x46, 0x65, 0x65, 0x64, 0x53, 0x69, 0x6e, 0x67, 0x6c],
   [0x65, 0x50, 0x6f, 0x73, 0x74, 0xa0, 0x28, 0x73, 0x65, 0x74, 0x5f, 0x74],
   [0x69, 0x6d, 0x65, 0x40, 0xa0, 0xa0, 0xa0, 0xa0, 0x01, 0x00, 0xa6, 0x51],
   [0xa0, 0x01, 0x00, 0xa6, 0x55, 0xb0, 0x2f, 0x24, 0x70, 0x61, 0x72, 0x61],
   [0x6d, 0x65, 0x74, 0x65, 0x72, 0x24, 0x73, 0x65, 0x6c, 0x66, 0x40, 0x40],
   [0xa0, 0xa0, 0xa0, 0xa0, 0x01, 0x00, 0xa6, 0x57, 0xa0, 0x01, 0x00, 0xa6],
   [0x60, 0xb0, 0x2f, 0x24, 0x70, 0x61, 0x72, 0x61, 0x6d, 0x65, 0x74, 0x65],
   [0x72, 0x24, 0x74, 0x69, 0x6d, 0x65, 0x40, 0x90, 0xa0, 0xa0, 0xa0, 0x01],
   [0x00, 0xa6, 0x5d, 0xa0, 0x01, 0x00, 0xa6, 0x60, 0x9c, 0x91, 0x23, 0x69],
   [0x6e, 0x74, 0x40, 0x40, 0x90, 0xa0, 0xa0, 0xa0, 0x01, 0x00, 0xa6, 0x65]] @
  [[0xa0, 0x01, 0x00, 0xa6, 0x00, 0x55, 0x9c, 0x90, 0xb0, 0xa0, 0x04, 0x07],
   [0x9c, 0x90, 0xb0, 0xa0, 0x04, 0x0b, 0x9c, 0x90, 0xb0, 0xa0, 0x04, 0x0f],
   [0x9c, 0x91, 0x04, 0x3c, 0x04, 0x3a, 0x40, 0x04, 0x38, 0x40, 0x04, 0x2c],
   [0x40, 0x40, 0x40, 0x90, 0xa0, 0x04, 0x3e, 0xa0, 0x04, 0x3d, 0xa0, 0x04],
   [0x3c, 0xa0, 0x04, 0x31, 0x40, 0x40, 0x40, 0x40, 0xa0, 0xa0, 0xa0, 0xa0],
   [0x01, 0x00, 0xa7, 0x48, 0xa0, 0x01, 0x00, 0xa7, 0x69, 0x95, 0xa0, 0xa0],
   [0xa0, 0x01, 0x00, 0xa7, 0x48, 0xa0, 0x01, 0x00, 0xa7, 0x69, 0x92, 0xa0],
   [0xa0, 0xa0, 0xa0, 0x01, 0x00, 0xa7, 0x48, 0xa0, 0x01, 0x00, 0xa7, 0x63],
   [0x9c, 0x90, 0xb0, 0xa0, 0xa0, 0xa0, 0x01, 0x00, 0xa7, 0x48, 0xa0, 0x01],
   [0x00, 0xa7, 0x5a, 0x9c, 0x90, 0xb0, 0xa0, 0xa0, 0xa0, 0x01, 0x00, 0xa7],
   [0x48, 0xa0, 0x01, 0x00, 0xa7, 0x4c, 0x9c, 0x91, 0x2f, 0x24, 0x70, 0x61],
   [0x72, 0x61, 0x6d, 0x65, 0x74, 0x65, 0x72, 0x24, 0x73, 0x65, 0x6c, 0x66],
   [0x2d, 0x5f, 0x64, 0x61, 0x74, 0x61, 0x5f, 0x77, 0x72, 0x61, 0x70, 0x70],
   [0x65, 0x72, 0x40, 0x28, 0x73, 0x65, 0x74, 0x5f, 0x74, 0x69, 0x6d, 0x65],
   [0x40, 0xa0, 0xa0, 0x40, 0xa0, 0xa0, 0xa0, 0x01, 0x00, 0xa7, 0x64, 0xa0],
   [0x01, 0x00, 0xa7, 0x68, 0x9c, 0x91, 0x2f, 0x24, 0x70, 0x61, 0x72, 0x61],
   [0x6d, 0x65, 0x74, 0x65, 0x72, 0x24, 0x74, 0x69, 0x6d, 0x65, 0x40, 0xa0],
   [0xa0, 0xa0, 0xa0, 0x01, 0x00, 0xa8, 0x48, 0xa0, 0x01, 0x00, 0xa8, 0x53],
   [0x9d, 0xa0, 0x40, 0x90, 0xa0, 0xa0, 0xa0, 0x01, 0x00, 0xa8, 0x4f, 0xa0],
   [0x01, 0x00, 0xa8, 0x53, 0x9c, 0x91, 0x04, 0x1a, 0x40, 0x40, 0x84, 0x95],
   [0xa6, 0xbe, 0x00, 0x00, 0x00, 0x58, 0x00, 0x00, 0x00, 0x11, 0x00, 0x00],
   [0x00, 0x37, 0x00, 0x00, 0x00, 0x2f, 0x99, 0xa0, 0x42, 0xa0, 0xa2, 0x2e],
   [0x74, 0x79, 0x70, 0x69, 0x6e, 0x67, 0x2e, 0x4d, 0x61, 0x70, 0x70, 0x69],
   [0x6e, 0x67, 0xa0, 0x90, 0x94, 0x23, 0x73, 0x74, 0x72, 0xa0, 0x90, 0x41],
   [0x40, 0xa0, 0x94, 0x37, 0x69, 0x6e, 0x73, 0x74, 0x61, 0x67, 0x72, 0x61],
   [0x6d, 0x2e, 0x6d, 0x65, 0x7a, 0x71, 0x6c, 0x2e, 0x6f, 0x70, 0x73, 0x2e],
   [0x56, 0x61, 0x72, 0xa0, 0x94, 0x3b, 0x6d, 0x65, 0x7a, 0x71, 0x6c, 0x2e],
   [0x73, 0x68, 0x6f, 0x74, 0x73, 0x2e, 0x63, 0x6c, 0x69, 0x65, 0x6e, 0x74],
   [0x5f, 0x61, 0x70, 0x69, 0x2e, 0x4a, 0x73, 0x6f, 0x6e, 0x40, 0x84, 0x95],
   [0xa6, 0xbe, 0x00, 0x00, 0x00, 0x01, 0x00, 0x00, 0x00, 0x00, 0x00, 0x00]] @
  [[0x00, 0x00, 0x00, 0x00, 0x00, 0x00, 0x40, 0x84, 0x95, 0xa6, 0xbe, 0x00],
   [0x00, 0x00, 0x29, 0x00, 0x00, 0x00, 0x07, 0x00, 0x00, 0x00, 0x17, 0x00],
   [0x00, 0x00, 0x13, 0x99, 0xa0, 0x94, 0x3e, 0x69, 0x67, 0x5f, 0x6e, 0x6f],
   [0x64, 0x65, 0x61, 0x70, 0x69, 0x2e, 0x6e, 0x6f, 0x64, 0x65, 0x73, 0x2e],
   [0x75, 0x73, 0x65, 0x72, 0x2e, 0x4e, 0x6f, 0x64, 0x65, 0x55, 0x73, 0x65],
   [0x72, 0xa0, 0x94, 0x23, 0x69, 0x6e, 0x74, 0x40, 0x84, 0x95, 0xa6, 0xbe],
   [0x00, 0x00, 0x00, 0x3a, 0x00, 0x00, 0x00, 0x0e, 0x00, 0x00, 0x00, 0x2c],
   [0x00, 0x00, 0x00, 0x27, 0x90, 0xb0, 0xa0, 0x27, 0x72, 0x75, 0x6e, 0x74],
   [0x69, 0x6d, 0x65, 0xa0, 0x23, 0x6c, 0x69, 0x62, 0xa0, 0x27, 0x70, 0x79],
   [0x74, 0x68, 0x6f, 0x6e, 0x33, 0xa0, 0x29, 0x64, 0x69, 0x73, 0x74, 0x75],
   [0x74, 0x69, 0x6c, 0x73, 0xa0, 0x2d, 0x6d, 0x73, 0x76, 0x63, 0x39, 0x63],
   [0x6f, 0x6d, 0x70, 0x69, 0x6c, 0x65, 0x72, 0x40, 0xa0, 0x66, 0x40, 0xa0],
   [0x66, 0x4c, 0x84, 0x95, 0xa6, 0xbe, 0x00, 0x00, 0x00, 0x05, 0x00, 0x00],
   [0x00, 0x03, 0x00, 0x00, 0x00, 0x07, 0x00, 0x00, 0x00, 0x07, 0x90, 0xa0],
   [0x40, 0x90, 0x40, 0x84, 0x95, 0xa6, 0xbe, 0x00, 0x00, 0x00, 0x0f, 0x00],
   [0x00, 0x00, 0x05, 0x00, 0x00, 0x00, 0x0f, 0x00, 0x00, 0x00, 0x0e, 0x90],
   [0xb0, 0xa0, 0xa0, 0x26, 0x6f, 0x62, 0x6a, 0x65, 0x63, 0x74, 0x40, 0x40],
   [0x40, 0x40, 0x84, 0x95, 0xa6, 0xbe, 0x00, 0x00, 0x00, 0x01, 0x00, 0x00],
   [0x00, 0x00, 0x00, 0x00, 0x00, 0x00, 0x00, 0x00, 0x00, 0x00, 0x40, 0x84],
   [0x95, 0xa6, 0xbe, 0x00, 0x00, 0x00, 0x01, 0x00, 0x00, 0x00, 0x00, 0x00],
   [0x00, 0x00, 0x00, 0x00, 0x00, 0x00, 0x00, 0x40, 0x84, 0x95, 0xa6, 0xbe],
   [0x00, 0x00, 0x00, 0x01, 0x00, 0x00, 0x00, 0x00, 0x00, 0x00, 0x00, 0x00],
   [0x00, 0x00, 0x00, 0x00, 0x40, 0x84, 0x95, 0xa6, 0xbe, 0x00, 0x00, 0x1b],
   [0x29, 0x00, 0x00, 0x05, 0xb0, 0x00, 0x00, 0x13, 0x94, 0x00, 0x00, 0x13],
   [0x0e, 0xc0, 0x90, 0x40, 0xa0, 0xd0, 0x40, 0xb0, 0x42, 0x25, 0x69, 0x74],
   [0x65, 0x6d, 0x73, 0x40, 0xa0, 0x40, 0xd0, 0x40, 0x40, 0xa0, 0x40, 0xd0],
   [0x40, 0x40, 0xa0, 0xd0, 0x40, 0x40, 0xf0, 0x90, 0xd0, 0x40, 0x41, 0x08],
   [0x00, 0x00, 0x20, 0x00, 0x90, 0xa0, 0xa0, 0x40, 0x40, 0x04, 0x01, 0x90],
   [0x40, 0x90, 0xa0, 0x03, 0x3f, 0xff, 0xff, 0xff, 0xff, 0xff, 0xff, 0xff],
   [0xd0, 0x40, 0x40, 0xa0, 0x03, 0x3f, 0xff, 0xff, 0xff, 0xff, 0xff, 0xff]] @
  [[0xff, 0xd0, 0x40, 0x90, 0x2b, 0x4d, 0x45, 0x44, 0x49, 0x41, 0x5f, 0x4f],
   [0x52, 0x5f, 0x41, 0x44, 0xa0, 0x40, 0x40, 0x40, 0x41, 0x40, 0x41, 0x90],
   [0x43, 0x90, 0x40, 0x90, 0xa0, 0x40, 0x40, 0x90, 0xa0, 0x40, 0x40, 0x90],
   [0x40, 0x40, 0x41, 0x90, 0x90, 0xc0, 0xc0, 0xc0, 0x40, 0xa0, 0xa0, 0x00],
   [0x57, 0x6f, 0xa0, 0x00, 0x57, 0x74, 0x40, 0x41, 0xa0, 0xa0, 0x00, 0x61],
   [0x50, 0xa0, 0x00, 0x61, 0x5b, 0xc0, 0x40, 0xa0, 0xa0, 0x00, 0x64, 0x69],
   [0xa0, 0x00, 0x64, 0x70, 0x40, 0x41, 0x42, 0xa0, 0xa0, 0x00, 0x78, 0x68],
   [0xa0, 0x00, 0x78, 0x7c, 0xc0, 0x40, 0xa0, 0xa0, 0x00, 0x79, 0x64, 0xa0],
   [0x00, 0x79, 0x6f, 0x40, 0x41, 0x43, 0x90, 0xa0, 0xa0, 0x03, 0x06, 0x04],
   [0x01, 0x23, 0x40, 0x04, 0x10, 0x00, 0x40, 0xa0, 0x03, 0x00, 0x00, 0x74],
   [0x41, 0x70, 0x70, 0x4e, 0x6f, 0x74, 0x61, 0x62, 0x6c, 0x65, 0x52, 0x65],
   [0x70, 0x6c, 0x79, 0x50, 0x61, 0x72, 0x65, 0x6e, 0x74, 0x4f, 0x6e, 0x50],
   [0x72, 0x6f, 0x66, 0x69, 0x6c, 0x65, 0x4d, 0x65, 0x64, 0x69, 0x61, 0x40],
   [0x40, 0x40, 0x02, 0x3a, 0x61, 0xbe, 0xce, 0xa0, 0xa0, 0x04, 0x0a, 0x40],
   [0xa0, 0x04, 0x0b, 0x40, 0x40, 0x42, 0x84, 0x95, 0xa6, 0xbe, 0x00, 0x00],
   [0x00, 0x10, 0x00, 0x00, 0x00, 0x02, 0x00, 0x00, 0x00, 0x07, 0x00, 0x00],
   [0x00, 0x05, 0x90, 0x2e, 0x65, 0x78, 0x74, 0x65, 0x72, 0x6e, 0x61, 0x6c],
   [0x5f, 0x71, 0x75, 0x65, 0x72, 0x79, 0x84, 0x95, 0xa6, 0xbe, 0x00, 0x00],
   [0x00, 0x11, 0x00, 0x00, 0x00, 0x05, 0x00, 0x00, 0x00, 0x0f, 0x00, 0x00],
   [0x00, 0x0d, 0x92, 0xb1, 0xa0, 0x26, 0x74, 0x79, 0x70, 0x69, 0x6e, 0x67],
   [0x40, 0x24, 0x44, 0x69, 0x63, 0x74, 0x41, 0x84, 0x95, 0xa6, 0xbe, 0x00],
   [0x00, 0x00, 0x07, 0x00, 0x00, 0x00, 0x03, 0x00, 0x00, 0x00, 0x07, 0x00],
   [0x00, 0x00, 0x06, 0x90, 0x94, 0x24, 0x74, 0x79, 0x70, 0x65, 0x84, 0x95],
   [0xa6, 0xbe, 0x00, 0x00, 0x00, 0x21, 0x00, 0x00, 0x00, 0x03, 0x00, 0x00],
   [0x00, 0x0d, 0x00, 0x00, 0x00, 0x09, 0x90, 0x94, 0x3e, 0x74, 0x68, 0x72],
   [0x69, 0x66, 0x74, 0x2e, 0x70, 0x79, 0x74, 0x68, 0x6f, 0x6e, 0x2e, 0x74],
   [0x79, 0x70, 0x65, 0x73, 0x2e, 0x53, 0x74, 0x72, 0x75, 0x63, 0x74, 0x4d],
   [0x65, 0x74, 0x61, 0x84, 0x95, 0xa6, 0xbe, 0x00, 0x00, 0x00, 0x05, 0x00],
   [0x00, 0x00, 0x02, 0x00, 0x00, 0x00, 0x04, 0x00, 0x00, 0x00, 0x04, 0x94],
   [0x23, 0x73, 0x74, 0x72, 0x84, 0x95, 0xa6, 0xbe, 0x00, 0x00, 0x03, 0x45]]"

definition dictionary_rows_19 :: "u8 list list" where
  "dictionary_rows_19 =
  [[0x00, 0x00, 0x00, 0x92, 0x00, 0x00, 0x02, 0x0e, 0x00, 0x00, 0x01, 0xcf],
   [0xb0, 0xa0, 0x2a, 0x69, 0x67, 0x5f, 0x6e, 0x6f, 0x64, 0x65, 0x61, 0x70],
   [0x69, 0xa0, 0x25, 0x6e, 0x6f, 0x64, 0x65, 0x73, 0xa0, 0x3f, 0x61, 0x73],
   [0x61, 0x5f, 0x63, 0x61, 0x70, 0x5f, 0x68, 0x32, 0x68, 0x5f, 0x74, 0x65],
   [0x73, 0x74, 0x5f, 0x61, 0x75, 0x64, 0x69, 0x65, 0x6e, 0x63, 0x65, 0x5f],
   [0x6c, 0x61, 0x73, 0x65, 0x72, 0x40, 0x90, 0xa0, 0xa0, 0xa0, 0x01, 0x00],
   [0xb9, 0x44, 0xa0, 0x01, 0x00, 0xc0, 0x00, 0x52, 0xc0, 0x08, 0x00, 0x00],
   [0x20, 0x00, 0xa0, 0x04, 0x0d, 0xa0, 0x04, 0x0c, 0xa0, 0x04, 0x0b, 0xa0],
   [0x3e, 0x4e, 0x6f, 0x64, 0x65, 0x41, 0x73, 0x61, 0x43, 0x61, 0x70, 0x48],
   [0x32, 0x48, 0x54, 0x65, 0x73, 0x74, 0x41, 0x75, 0x64, 0x69, 0x65, 0x6e],
   [0x63, 0x65, 0x4c, 0x61, 0x73, 0x65, 0x72, 0xa0, 0x2c, 0x64, 0x65, 0x6c],
   [0x65, 0x74, 0x65, 0x5f, 0x71, 0x75, 0x65, 0x72, 0x79, 0x40, 0xa0, 0xa0],
   [0xa0, 0xa0, 0x01, 0x00, 0xb9, 0x55, 0xa0, 0x01, 0x00, 0xb9, 0x58, 0xb0],
   [0x2e, 0x24, 0x70, 0x61, 0x72, 0x61, 0x6d, 0x65, 0x74, 0x65, 0x72, 0x24],
   [0x63, 0x6c, 0x73, 0x40, 0x40, 0xa0, 0xa0, 0xa0, 0xa0, 0x01, 0x00, 0xb9],
   [0x5a, 0xa0, 0x01, 0x00, 0xb9, 0x74, 0xb0, 0x36, 0x24, 0x70, 0x61, 0x72],
   [0x61, 0x6d, 0x65, 0x74, 0x65, 0x72, 0x24, 0x69, 0x6e, 0x70, 0x75, 0x74],
   [0x5f, 0x71, 0x75, 0x65, 0x72, 0x79, 0x40, 0x90, 0xa0, 0xa0, 0xa0, 0x01],
   [0x00, 0xb9, 0x67, 0xa0, 0x01, 0x00, 0xb9, 0x74, 0x9c, 0x91, 0x09, 0x45],
   [0x24, 0x6c, 0x6f, 0x63, 0x61, 0x6c, 0x5f, 0x69, 0x67, 0x5f, 0x6e, 0x6f],
   [0x64, 0x65, 0x61, 0x70, 0x69, 0x3f, 0x6e, 0x6f, 0x64, 0x65, 0x73, 0x3f],
   [0x61, 0x73, 0x61, 0x5f, 0x63, 0x61, 0x70, 0x5f, 0x68, 0x32, 0x68, 0x5f],
   [0x74, 0x65, 0x73, 0x74, 0x5f, 0x61, 0x75, 0x64, 0x69, 0x65, 0x6e, 0x63],
   [0x65, 0x5f, 0x6c, 0x61, 0x73, 0x65, 0x72, 0x24, 0x54, 0x53, 0x69, 0x6e],
   [0x67, 0x6c, 0x65, 0x4e, 0x6f, 0x64, 0x65, 0x51, 0x4c, 0x40, 0xa0, 0xa0],
   [0xa0, 0xa0, 0x01, 0x00, 0xb8, 0x45, 0xa0, 0x01, 0x00, 0xb8, 0x50, 0x9c],
   [0x91, 0x2b, 0x63, 0x6c, 0x61, 0x73, 0x73, 0x6d, 0x65, 0x74, 0x68, 0x6f],
   [0x64, 0x40, 0x90, 0xa0, 0xa0, 0xa0, 0x01, 0x00, 0xb9, 0x79, 0xa0, 0x01],
   [0x00, 0xb9, 0x00, 0x5c, 0x9c, 0x90, 0xb0, 0xa0, 0x04, 0x07, 0x9c, 0x90],
   [0xb0, 0xa0, 0x04, 0x0b, 0x9c, 0x90, 0xb0, 0xa0, 0x04, 0x0f, 0x9c, 0x91]] @
  [[0x04, 0x44, 0x04, 0x42, 0x40, 0x04, 0x40, 0x40, 0x09, 0x23, 0x4e, 0x6f],
   [0x64, 0x65, 0x45, 0x72, 0x61, 0x73, 0x65, 0x41, 0x73, 0x61, 0x43, 0x61],
   [0x70, 0x48, 0x32, 0x48, 0x54, 0x65, 0x73, 0x74, 0x41, 0x75, 0x64, 0x69],
   [0x65, 0x6e, 0x63, 0x65, 0x4c, 0x61, 0x73, 0x65, 0x72, 0x40, 0x40, 0x40],
   [0x90, 0xa0, 0x04, 0x47, 0xa0, 0x04, 0x46, 0xa0, 0x04, 0x45, 0xa0, 0x04],
   [0x3a, 0x40, 0x40, 0x40, 0x40, 0xa0, 0xa0, 0xa0, 0xa0, 0x01, 0x00, 0xba],
   [0x48, 0xa0, 0x01, 0x00, 0xbf, 0x4b, 0x95, 0xa0, 0xa0, 0xa0, 0x01, 0x00],
   [0xba, 0x48, 0xa0, 0x01, 0x00, 0xbf, 0x4b, 0x94, 0x94, 0xa0, 0x09, 0xe1],
   [0x0a, 0x20, 0x20, 0x20, 0x20, 0x20, 0x20, 0x20, 0x20, 0x44, 0x65, 0x6c],
   [0x65, 0x74, 0x65, 0x20, 0x74, 0x68, 0x65, 0x20, 0x6e, 0x6f, 0x64, 0x65],
   [0x20, 0x6f, 0x62, 0x6a, 0x65, 0x63, 0x74, 0x20, 0x74, 0x68, 0x61, 0x74],
   [0x27, 0x73, 0x20, 0x72, 0x65, 0x74, 0x75, 0x72, 0x6e, 0x65, 0x64, 0x20],
   [0x66, 0x72, 0x6f, 0x6e, 0x20, 0x74, 0x68, 0x65, 0x20, 0x69, 0x6e, 0x70],
   [0x75, 0x74, 0x20, 0x71, 0x75, 0x65, 0x72, 0x79, 0x2e, 0x20, 0x54, 0x68],
   [0x65, 0x20, 0x69, 0x6e, 0x70, 0x75, 0x74, 0x0a, 0x20, 0x20, 0x20, 0x20],
   [0x20, 0x20, 0x20, 0x20, 0x71, 0x75, 0x65, 0x72, 0x79, 0x20, 0x63, 0x61],
   [0x6e, 0x20, 0x6f, 0x6e, 0x6c, 0x79, 0x20, 0x72, 0x65, 0x74, 0x75, 0x72],
   [0x6e, 0x20, 0x73, 0x69, 0x6e, 0x67, 0x6c, 0x65, 0x20, 0x6e, 0x6f, 0x64],
   [0x65, 0x2e, 0x0a, 0x20, 0x20, 0x20, 0x20, 0x20, 0x20, 0x20, 0x20, 0x40],
   [0x72, 0x65, 0x74, 0x75, 0x72, 0x6e, 0x20, 0x41, 0x20, 0x71, 0x75, 0x65],
   [0x72, 0x79, 0x20, 0x6f, 0x62, 0x6a, 0x65, 0x63, 0x74, 0x20, 0x74, 0x68],
   [0x61, 0x74, 0x20, 0x77, 0x69, 0x6c, 0x6c, 0x20, 0x64, 0x65, 0x6c, 0x65],
   [0x74, 0x65, 0x20, 0x74, 0x68, 0x65, 0x20, 0x72, 0x65, 0x74, 0x75, 0x72],
   [0x6e, 0x65, 0x64, 0x20, 0x6e, 0x6f, 0x64, 0x65, 0x20, 0x6f, 0x66, 0x20],
   [0x74, 0x68, 0x65, 0x20, 0x69, 0x6e, 0x70, 0x75, 0x74, 0x0a, 0x20, 0x20],
   [0x20, 0x20, 0x20, 0x20, 0x20, 0x20, 0x71, 0x75, 0x65, 0x72, 0x79, 0x2e],
   [0x0a, 0x20, 0x20, 0x20, 0x20, 0x20, 0x20, 0x20, 0x20, 0x40, 0xa0, 0xa0],
   [0xa0, 0xa0, 0x01, 0x00, 0xc0, 0x48, 0xa0, 0x01, 0x00, 0xc0, 0x00, 0x52],
   [0x9d, 0xa0, 0x40, 0x90, 0xa0, 0xa0, 0xa0, 0x01, 0x00, 0xc0, 0x4f, 0xa0],
   [0x01, 0x00, 0xc0, 0x00, 0x52, 0x92, 0xa0, 0xa0, 0xa0, 0xa0, 0x01, 0x00]] @
  [[0xc0, 0x4f, 0xa0, 0x01, 0x00, 0xc0, 0x72, 0x9c, 0x90, 0xb0, 0xa0, 0x04],
   [0x07, 0x9c, 0x90, 0xb0, 0xa0, 0x04, 0x0b, 0x9c, 0x90, 0xb0, 0xa0, 0x04],
   [0x0f, 0x9c, 0x91, 0x04, 0x78, 0x04, 0x76, 0x40, 0x04, 0x74, 0x40, 0x04],
   [0x34, 0x40, 0xa0, 0xa0, 0x40, 0xa0, 0xa0, 0xa0, 0x01, 0x00, 0xc0, 0x73],
   [0xa0, 0x01, 0x00, 0xc0, 0x00, 0x4a, 0x9c, 0x90, 0xb0, 0xa0, 0xa0, 0xa0],
   [0x01, 0x00, 0xc0, 0x63, 0x74, 0x04, 0x64, 0x40, 0x41, 0x40, 0x41, 0x90],
   [0xc0, 0x40, 0x40, 0x40, 0x40, 0x90, 0x04, 0x63, 0x40, 0x40, 0x40, 0x40],
   [0x40, 0x40, 0x40, 0x40, 0xd1, 0xa0, 0xa0, 0xa0, 0x01, 0x0a, 0xaa, 0x7a],
   [0xa0, 0x01, 0x0a, 0xac, 0x4d, 0x90, 0xc0, 0x90, 0xd0, 0xa0, 0xe0, 0x90],
   [0xa0, 0x09, 0x56, 0x6c, 0x61, 0x75, 0x6e, 0x63, 0x68, 0x65, 0x72, 0x2e],
   [0x63, 0x6f, 0x6e, 0x66, 0x69, 0x67, 0x73, 0x2e, 0x69, 0x67, 0x5f, 0x73],
   [0x65, 0x72, 0x76, 0x65, 0x72, 0x5f, 0x72, 0x65, 0x65, 0x6c, 0x73, 0x5f],
   [0x70, 0x72, 0x69, 0x76, 0x61, 0x74, 0x65, 0x5f, 0x61, 0x63, 0x63, 0x6f],
   [0x75, 0x6e, 0x74, 0x5f, 0x63, 0x6f, 0x6c, 0x6c, 0x61, 0x62, 0x6f, 0x72],
   [0x61, 0x74, 0x69, 0x6f, 0x6e, 0x2e, 0x61, 0x73, 0x79, 0x6e, 0x63, 0x5f],
   [0x65, 0x76, 0x61, 0x6c, 0x75, 0x61, 0x74, 0x65, 0x5f, 0x66, 0x6f, 0x72],
   [0x5f, 0x75, 0x73, 0x65, 0x72, 0x40, 0x40, 0x40, 0x41, 0x90, 0xc0, 0x40],
   [0x40, 0x40, 0x40, 0x40, 0x40, 0x40, 0x40, 0x40, 0x40, 0x40, 0x40, 0x40],
   [0xa0, 0xa0, 0x01, 0x0a, 0xab, 0x69, 0xa0, 0x01, 0x0a, 0xab, 0x78, 0x90],
   [0xc0, 0x40, 0x90, 0xb0, 0xa0, 0xe0, 0x91, 0xb0, 0x09, 0x24, 0x66, 0x65],
   [0x65, 0x64, 0x2e, 0x72, 0x61, 0x6e, 0x6b, 0x69, 0x6e, 0x67, 0x2e, 0x63],
   [0x6f, 0x6e, 0x74, 0x65, 0x78, 0x74, 0x2e, 0x46, 0x65, 0x65, 0x64, 0x46],
   [0x6c, 0x6f, 0x77, 0x43, 0x6f, 0x6e, 0x74, 0x65, 0x78, 0x74, 0x27, 0x72],
   [0x65, 0x71, 0x75, 0x65, 0x73, 0x74, 0x40, 0x41, 0x40, 0x42, 0x90, 0xc0],
   [0x40, 0x40, 0x40, 0x40, 0x40, 0x40, 0x40, 0x40, 0x40, 0x40, 0x40, 0x42],
   [0x43, 0xa0, 0xa0, 0x01, 0x0a, 0xae, 0x56, 0xa0, 0x01, 0x0a, 0xae, 0x00],
   [0x67, 0x90, 0xc0, 0x90, 0xd0, 0xa0, 0xe0, 0x91, 0xb0, 0x09, 0x75, 0x6c],
   [0x61, 0x75, 0x6e, 0x63, 0x68, 0x65, 0x72, 0x2e, 0x63, 0x6f, 0x6e, 0x66],
   [0x69, 0x67, 0x73, 0x2e, 0x69, 0x67, 0x5f, 0x73, 0x65, 0x72, 0x76, 0x65],
   [0x72, 0x5f, 0x72, 0x65, 0x65, 0x6c, 0x73, 0x5f, 0x70, 0x72, 0x69, 0x76]] @
  [[0x61, 0x74, 0x65, 0x5f, 0x61, 0x63, 0x63, 0x6f, 0x75, 0x6e, 0x74, 0x5f],
   [0x63, 0x6f, 0x6c, 0x6c, 0x61, 0x62, 0x6f, 0x72, 0x61, 0x74, 0x69, 0x6f],
   [0x6e, 0x2e, 0x69, 0x67, 0x5f, 0x73, 0x65, 0x72, 0x76, 0x65, 0x72, 0x5f],
   [0x72, 0x65, 0x65, 0x6c, 0x73, 0x5f, 0x70, 0x72, 0x69, 0x76, 0x61, 0x74],
   [0x65, 0x5f, 0x61, 0x63, 0x63, 0x6f, 0x75, 0x6e, 0x74, 0x5f, 0x63, 0x6f],
   [0x6c, 0x6c, 0x61, 0x62, 0x6f, 0x72, 0x61, 0x74, 0x69, 0x6f, 0x6e, 0x5f],
   [0x4c, 0x61, 0x75, 0x6e, 0x63, 0x68, 0x65, 0x72, 0x09, 0x29, 0x61, 0x73],
   [0x79, 0x6e, 0x63, 0x5f, 0x65, 0x78, 0x70, 0x6f, 0x73, 0x65, 0x5f, 0x63],
   [0x6f, 0x6e, 0x73, 0x75, 0x6d, 0x70, 0x74, 0x69, 0x6f, 0x6e, 0x5f, 0x6f],
   [0x66, 0x5f, 0x70, 0x6f, 0x73, 0x74, 0x73, 0x5f, 0x65, 0x6e, 0x61, 0x62],
   [0x6c, 0x65, 0x64, 0x40, 0x41, 0x40, 0x40, 0x90, 0xc0, 0x40, 0x40, 0x40],
   [0x40, 0x90, 0x04, 0x62, 0x40, 0x40, 0x40, 0x40, 0x40, 0x40, 0x40, 0x40],
   [0xd1, 0xd1, 0xd1, 0xa0, 0xa0, 0xa0, 0x01, 0x0a, 0xb2, 0x5d, 0xa0, 0x01],
   [0x0a, 0xb2, 0x67, 0x91, 0xd0, 0x40, 0x05, 0x03, 0xc2, 0xc0, 0x90, 0xd0],
   [0xa0, 0xe0, 0x91, 0xb0, 0x2f, 0x74, 0x79, 0x70, 0x69, 0x6e, 0x67, 0x2e],
   [0x53, 0x65, 0x71, 0x75, 0x65, 0x6e, 0x63, 0x65, 0x04, 0xc9, 0x40, 0x41],
   [0x40, 0x42, 0x90, 0xc0, 0x40, 0x40, 0x40, 0x40, 0x90, 0x04, 0xc8, 0x40],
   [0x40, 0x40, 0x40, 0x40, 0x90, 0xb0, 0x40, 0x40, 0x41, 0x40, 0x40, 0xd0],
   [0x40, 0x05, 0x03, 0xc1, 0xc0, 0x90, 0xd0, 0xa0, 0xe0, 0x91, 0xb0, 0x2f],
   [0x74, 0x79, 0x70, 0x69, 0x6e, 0x67, 0x2e, 0x49, 0x74, 0x65, 0x72, 0x61],
   [0x74, 0x6f, 0x72, 0x05, 0x03, 0xc0, 0x40, 0x41, 0x40, 0x46, 0x90, 0xc0],
   [0x40, 0x40, 0x40, 0x40, 0x90, 0x04, 0xc7, 0x40, 0x40, 0x40, 0x40, 0x40],
   [0x90, 0xb0, 0x40, 0x40, 0x41, 0x40, 0x40, 0x40, 0x41, 0x42, 0xa0, 0xa0],
   [0x01, 0x0a, 0xb7, 0x7f, 0xa0, 0x01, 0x0a, 0xb9, 0x55, 0x90, 0xc0, 0x90],
   [0xd0, 0xa0, 0xe0, 0x91, 0xb0, 0x26, 0x6f, 0x62, 0x6a, 0x65, 0x63, 0x74],
   [0x04, 0xc6, 0x40, 0x41, 0x40, 0x42, 0x90, 0xc0, 0x40, 0x40, 0x40, 0x40],
   [0x90, 0x04, 0xc5, 0x40, 0x40, 0x40, 0x40, 0x40, 0x40, 0x40, 0x40, 0x40],
   [0x42, 0xa0, 0xa0, 0x01, 0x0a, 0xbb, 0x57, 0xa0, 0x01, 0x0a, 0xbb, 0x5c],
   [0x90, 0xc0, 0x90, 0xd0, 0x40, 0xa0, 0xe0, 0x91, 0xb0, 0x26, 0x6f, 0x62],
   [0x6a, 0x65, 0x63, 0x74, 0x05, 0x04, 0x39, 0x40, 0x41, 0x40, 0x41, 0x90]] @
  [[0xc0, 0x40, 0x40, 0x40, 0x40, 0x40, 0x40, 0xa0, 0xe0, 0x91, 0xb0, 0x23],
   [0x73, 0x65, 0x74, 0x05, 0x04, 0x38, 0x40, 0x41, 0x40, 0x40, 0x90, 0x04],
   [0x07, 0x40, 0x40, 0x40, 0x40, 0x40, 0x40, 0x40, 0xa0, 0xa0, 0xa0, 0x01],
   [0x0a, 0xbd, 0x4c, 0xa0, 0x01, 0x0a, 0xbd, 0x00, 0x4f, 0x90, 0xc0, 0x90],
   [0xd0, 0xa0, 0xe0, 0x91, 0xb0, 0x23, 0x73, 0x65, 0x74, 0x26, 0x75, 0x70],
   [0x64, 0x61, 0x74, 0x65, 0x40, 0x41, 0x40, 0x40, 0x90, 0xc0, 0x40, 0x40],
   [0x40, 0x40, 0x90, 0x23, 0x73, 0x65, 0x74, 0x40, 0x40, 0x40, 0x40, 0x40],
   [0x40, 0x40, 0x40, 0x43, 0xa0, 0xa0, 0x01, 0x0a, 0xbf, 0x4c, 0xa0, 0x01],
   [0x0a, 0xbf, 0x00, 0x51, 0x90, 0xc0, 0x90, 0xd0, 0xa0, 0xe0, 0x91, 0xb0],
   [0x23, 0x73, 0x65, 0x74, 0x04, 0x11, 0x40, 0x41, 0x40, 0x41, 0x90, 0xc0],
   [0x40, 0x40, 0x40, 0x40, 0x90, 0x04, 0x10, 0x40, 0x40, 0x40, 0x40, 0x40],
   [0x40, 0x40, 0x40, 0xa0, 0xa0, 0xa0, 0x01, 0x0a, 0xc1, 0x4c, 0xa0, 0x01],
   [0x0a, 0xc1, 0x00, 0x51, 0x90, 0xc0, 0x90, 0xd0, 0xa0, 0xe0, 0x91, 0xb0],
   [0x23, 0x73, 0x65, 0x74, 0x04, 0x21, 0x40, 0x41, 0x40, 0x42, 0x90, 0xc0],
   [0x40, 0x40, 0x40, 0x40, 0x90, 0x04, 0x20, 0x40, 0x40, 0x40, 0x40, 0x40],
   [0x40, 0x40, 0x40, 0x44, 0x45, 0x46, 0x48, 0x84, 0x95, 0xa6, 0xbe, 0x00],
   [0x00, 0x00, 0x16, 0x00, 0x00, 0x00, 0x08, 0x00, 0x00, 0x00, 0x1b, 0x00],
   [0x00, 0x00, 0x1b, 0xa0, 0xa0, 0xa0, 0x00, 0x5d, 0x4f, 0xa0, 0x00, 0x5d],
   [0x60, 0x90, 0xc0, 0x90, 0xd0, 0x40, 0x40, 0x40, 0x40, 0x41, 0x40, 0x40],
   [0x40, 0x84, 0x95, 0xa6, 0xbe, 0x00, 0x00, 0x01, 0xb1, 0x00, 0x00, 0x00],
   [0x5d, 0x00, 0x00, 0x01, 0x7a, 0x00, 0x00, 0x01, 0x61, 0xd1, 0xd1, 0xd1],
   [0xa0, 0xa0, 0xa0, 0x5a, 0x4b, 0xa0, 0x5a, 0x70, 0x91, 0xd0, 0xd0, 0x40],
   [0x26, 0x5f, 0x5f, 0x65, 0x71, 0x5f, 0x5f, 0xc0, 0x90, 0xd0, 0x40, 0x40],
   [0x40, 0x40, 0x41, 0x40, 0x40, 0x40, 0x40, 0x41, 0x26, 0x5f, 0x5f, 0x6e],
   [0x65, 0x5f, 0x5f, 0xc0, 0x90, 0xd0, 0x40, 0x40, 0x40, 0x40, 0x41, 0x40],
   [0x40, 0x40, 0x40, 0x42, 0xa0, 0xa0, 0x5b, 0x53, 0xa0, 0x5b, 0x6c, 0x90],
   [0xc0, 0x90, 0xd0, 0x40, 0xa0, 0xe0, 0x91, 0xb0, 0x26, 0x6f, 0x62, 0x6a],
   [0x65, 0x63, 0x74, 0x27, 0x5f, 0x5f, 0x6e, 0x65, 0x77, 0x5f, 0x5f, 0x40],
   [0x41, 0x40, 0x42, 0x90, 0xc0, 0x40, 0x40, 0x40, 0x40, 0x40, 0x40, 0xa0],
   [0xe0, 0x91, 0xb0, 0x09, 0x2f, 0x66, 0x62, 0x63, 0x6f, 0x64, 0x65, 0x2e]]"

definition dictionary_rows_20 :: "u8 list list" where
  "dictionary_rows_20 =
  [[0x72, 0x75, 0x6e, 0x74, 0x69, 0x6d, 0x65, 0xc1, 0x5b, 0x60, 0xc1, 0x5b],
   [0x00, 0x40, 0x90, 0x03, 0x0a, 0xec, 0xa8, 0xb6, 0xa9, 0x8f, 0x8b, 0x9b],
   [0xc1, 0x00, 0x5b, 0x01, 0x00, 0x80, 0x90, 0x03, 0x3c, 0x3e, 0xeb, 0x19],
   [0x49, 0x61, 0xb2, 0x5b, 0x90, 0x03, 0xe6, 0xd9, 0xc1, 0x56, 0xfe, 0x57],
   [0x88, 0xdb, 0x90, 0x03, 0x01, 0x7a, 0x7e, 0xb4, 0x28, 0xca, 0xc2, 0x3b],
   [0xc1, 0x47, 0x48, 0xc1, 0x47, 0x50, 0x90, 0x03, 0x28, 0x56, 0x07, 0x08],
   [0x42, 0xf5, 0x10, 0x67, 0xc1, 0x57, 0x01, 0x00, 0x80, 0xc1, 0x01, 0x02],
   [0x17, 0x01, 0x04, 0x00, 0x90, 0x03, 0x37, 0xcc, 0x5d, 0x63, 0x1f, 0xee],
   [0x3a, 0x17, 0x90, 0x03, 0xc9, 0x8c, 0xb3, 0x53, 0x19, 0x46, 0x56, 0x17],
   [0x90, 0x03, 0x16, 0xad, 0x5c, 0x15, 0x22, 0x03, 0x14, 0x97, 0x90, 0x03],
   [0xcd, 0x75, 0xf0, 0x43, 0x6c, 0xf6, 0x63, 0xbf, 0x90, 0x40, 0xd0, 0xd0],
   [0x40, 0x90, 0x2f, 0x4e, 0x6f, 0x64, 0x65, 0x51, 0x75, 0x65, 0x72, 0x79],
   [0x52, 0x65, 0x73, 0x75, 0x6c, 0x74, 0x08, 0x00, 0x00, 0x20, 0x00, 0x90],
   [0xa0, 0xa0, 0x03, 0xf7, 0x4e, 0xcd, 0x73, 0xcc, 0x9f, 0xd3, 0x9c, 0x90],
   [0xc1, 0x40, 0x41, 0xc1, 0x40, 0x42, 0x05, 0x05, 0xb9, 0x05, 0x06, 0x1e],
   [0x05, 0x05, 0xb6, 0xa0, 0x03, 0x00, 0x00, 0x00, 0x01, 0x40, 0x00, 0x00],
   [0x00, 0x40, 0x90, 0x40, 0x90, 0x05, 0x06, 0x1d, 0x90, 0x44, 0x90, 0x90],
   [0xc1, 0x41, 0x42, 0xc1, 0x45, 0x60, 0x90, 0x03, 0xfb, 0xa2, 0x2f, 0x53],
   [0x30, 0xfb, 0x55, 0x85, 0x90, 0x03, 0xf6, 0xb7, 0x59, 0xba, 0x46, 0x5a],
   [0x17, 0xa5, 0x90, 0x03, 0xeb, 0x7c, 0xcd, 0xc1, 0x1c, 0x6e, 0x33, 0x3f],
   [0x90, 0xa0, 0x03, 0xc0, 0x00, 0x20, 0x20, 0x41, 0x54, 0x10, 0x80, 0x90],
   [0xc1, 0x40, 0x41, 0xc1, 0x40, 0x42, 0xc1, 0x40, 0x44, 0xc1, 0x48, 0x50],
   [0xc1, 0x48, 0x60, 0x90, 0x03, 0xf7, 0x1d, 0xa2, 0xe6, 0x1b, 0x8d, 0x66],
   [0x48, 0x90, 0x03, 0xd1, 0x81, 0x76, 0x3a, 0x8f, 0x88, 0x78, 0xe8, 0x90],
   [0x03, 0x20, 0x4b, 0x84, 0x54, 0xa1, 0x10, 0xd4, 0xb8, 0xc1, 0x44, 0x48],
   [0xc1, 0x54, 0x01, 0x00, 0x80, 0x04, 0x94, 0x04, 0x93, 0x90, 0x03, 0x1c],
   [0xce, 0x63, 0x09, 0xd3, 0x52, 0x4c, 0x3c, 0xc1, 0x42, 0x44, 0xc1, 0x42],
   [0x48, 0xc1, 0x52, 0x60, 0x90, 0x03, 0xf2, 0xc3, 0xa6, 0xd0, 0x25, 0x2c],
   [0x3a, 0x12, 0x90, 0x03, 0xfb, 0x81, 0x48, 0x9b, 0x52, 0xbd, 0x4f, 0xf2],
   [0xc1, 0x4a, 0x50, 0x90, 0x03, 0x23, 0x9a, 0xf6, 0xa1, 0x7a, 0xb2, 0xce]] @
  [[0x4a, 0x90, 0x03, 0x1c, 0xe5, 0x54, 0xf2, 0x1d, 0x11, 0xe8, 0x7a, 0x90],
   [0x03, 0xe8, 0x0d, 0x83, 0xb7, 0xc6, 0x5e, 0x7c, 0xd6, 0xc1, 0x41, 0x42],
   [0xc1, 0x41, 0x44, 0xc1, 0x49, 0x50, 0x90, 0x03, 0xdd, 0xc4, 0xa9, 0x10],
   [0x3d, 0x37, 0xd2, 0xe9, 0x90, 0x03, 0x01, 0x8f, 0x68, 0xd6, 0xcb, 0x9e],
   [0x9b, 0x79, 0xc1, 0x45, 0x48, 0x90, 0x03, 0xcb, 0x21, 0x1b, 0x42, 0x5c],
   [0xf7, 0x47, 0x45, 0x90, 0x03, 0xe9, 0xfb, 0x9a, 0xf0, 0x82, 0x77, 0x08],
   [0xfd, 0xc1, 0x43, 0x44, 0xc1, 0x43, 0x48, 0xc1, 0x43, 0x50, 0xc1, 0x63],
   [0x00, 0x40, 0x90, 0x03, 0xfe, 0x47, 0xf3, 0x56, 0x5b, 0xc7, 0x56, 0x23],
   [0x90, 0x03, 0x00, 0xe8, 0x73, 0x59, 0xa5, 0x16, 0x12, 0xe3, 0xc1, 0x53],
   [0x60, 0x90, 0x03, 0x00, 0x3e, 0x07, 0xce, 0x53, 0x45, 0x3b, 0x13, 0x90],
   [0x03, 0x08, 0xf6, 0x30, 0xfe, 0x47, 0xb7, 0x1a, 0xf3, 0x90, 0x03, 0xf0],
   [0xe2, 0xd7, 0x4f, 0x61, 0x99, 0xb1, 0xfb, 0xc1, 0x47, 0x48, 0x04, 0xa3],
   [0x90, 0x03, 0xfd, 0x25, 0x7a, 0xda, 0xcd, 0x46, 0x0c, 0x6f, 0x90, 0xa0],
   [0x03, 0x00, 0x00, 0x42, 0x11, 0x20, 0x25, 0x84, 0x00, 0x90, 0xc1, 0x40],
   [0x41, 0xc1, 0x40, 0x42, 0xc1, 0x40, 0x44, 0xc1, 0x40, 0x48, 0xc1, 0x40],
   [0x60, 0x90, 0x03, 0x00, 0x0e, 0x7e, 0xd3, 0x6c, 0xd7, 0x5c, 0x40, 0xc1],
   [0x60, 0x00, 0x40, 0x90, 0x03, 0xea, 0x80, 0xe5, 0x23, 0x55, 0x81, 0xcd],
   [0x20, 0x90, 0x03, 0x29, 0xce, 0x56, 0xfc, 0xce, 0xc8, 0xd2, 0x60, 0xc1],
   [0x48, 0x50, 0x90, 0x03, 0xfb, 0x54, 0xbb, 0x0f, 0x92, 0x0d, 0xa9, 0x48],
   [0x90, 0x03, 0x0f, 0xbc, 0xde, 0xae, 0xf8, 0x84, 0x4f, 0x18, 0xc1, 0x44],
   [0x48, 0xc1, 0x74, 0x00, 0x40, 0x90, 0x03, 0xd5, 0x6f, 0x5a, 0x8a, 0x2f],
   [0x69, 0x31, 0xb4, 0x90, 0x03, 0x08, 0x2d, 0x52, 0x54, 0x8e, 0xa2, 0x0c],
   [0x74, 0x04, 0x9f, 0xc1, 0x42, 0x44, 0xc1, 0x42, 0x50, 0x90, 0x03, 0xf9],
   [0x0b, 0x4c, 0x8f, 0xf1, 0xfb, 0xc8, 0x02, 0xc1, 0x52, 0x60, 0x04, 0x9a],
   [0x04, 0x97, 0xc1, 0x46, 0x48, 0xc1, 0x56, 0x60, 0x90, 0x03, 0x16, 0x9e],
   [0x0c, 0x06, 0x61, 0x10, 0x1a, 0xd6, 0xc1, 0x01, 0x05, 0x36, 0x01, 0x08],
   [0x00, 0x04, 0x92, 0x04, 0x91, 0x90, 0x03, 0x00, 0x47, 0xc4, 0xfe, 0xcf],
   [0x56, 0xb9, 0x3e, 0xc1, 0x41, 0x42, 0xc1, 0x41, 0x44, 0xc1, 0x41, 0x48],
   [0xc1, 0x01, 0x00, 0xf1, 0x01, 0x01, 0x00, 0xc1, 0x01, 0x00, 0xf1, 0x01],
   [0x02, 0x00, 0x90, 0x03, 0xf8, 0x8d, 0xc1, 0xcf, 0x80, 0xe0, 0x8c, 0xf1]] @
  [[0x90, 0x03, 0xc6, 0xe6, 0x82, 0xe2, 0x1f, 0x54, 0x3a, 0xf1, 0x90, 0x03],
   [0xd5, 0xb9, 0x59, 0x64, 0x99, 0xe1, 0x53, 0xf1, 0xc1, 0x49, 0x50, 0x90],
   [0x03, 0xce, 0x67, 0xa7, 0xc3, 0xa8, 0x44, 0x7d, 0xc9, 0x90, 0x03, 0xcb],
   [0x66, 0x71, 0xf8, 0xec, 0xfe, 0xfc, 0xb9, 0xc1, 0x45, 0x48, 0x90, 0x03],
   [0x3d, 0xb0, 0x95, 0xa4, 0x46, 0xa5, 0x32, 0xb5, 0x90, 0x03, 0x3c, 0x12],
   [0x40, 0x9c, 0x5c, 0x59, 0xd5, 0x9d, 0xc1, 0x43, 0x44, 0xc1, 0x43, 0x48],
   [0xc1, 0x43, 0x50, 0xc1, 0x01, 0x02, 0x23, 0x01, 0x04, 0x00, 0x90, 0x03],
   [0x3e, 0x73, 0x12, 0xf2, 0x90, 0x4d, 0x42, 0x23, 0x90, 0x03, 0x14, 0xc5],
   [0xd3, 0x8d, 0x7c, 0xe1, 0x7e, 0x23, 0xc1, 0x73, 0x00, 0x40, 0x90, 0x03],
   [0xec, 0x58, 0xd2, 0xb5, 0xd7, 0x2a, 0xb0, 0xb3, 0x04, 0x85, 0xc1, 0x4b],
   [0x50, 0x90, 0x03, 0x18, 0x93, 0xa5, 0xe9, 0x49, 0xe5, 0xee, 0x0b, 0x90],
   [0x03, 0xe6, 0xd9, 0xc1, 0x56, 0xfe, 0x57, 0x88, 0xdb, 0x90, 0x03, 0x37],
   [0xcc, 0x5d, 0x63, 0x1f, 0xee, 0x3a, 0x17, 0x90, 0x40, 0x40, 0x41, 0x90],
   [0x34, 0x50, 0x72, 0x69, 0x76, 0x61, 0x63, 0x79, 0x5f, 0x41, 0x63, 0x63],
   [0x65, 0x73, 0x73, 0x5f, 0x54, 0x6f, 0x6b, 0x65, 0x6e, 0x08, 0x00, 0x00],
   [0x20, 0x00, 0x90, 0xa0, 0xa0, 0x03, 0xf7, 0x4e, 0x8d, 0x73, 0xcc, 0x8f],
   [0xd3, 0x9c, 0x90, 0xc1, 0x40, 0x41, 0x05, 0x06, 0x2e, 0x90, 0x03, 0xd8],
   [0x23, 0x26, 0x92, 0x11, 0x82, 0x5a, 0xdb, 0xa0, 0x03, 0xc6, 0x02, 0x05],
   [0x03, 0x40, 0x00, 0x10, 0x00, 0x40, 0x90, 0x40, 0x90, 0x05, 0x06, 0x93],
   [0x90, 0x44, 0x90, 0x90, 0xc1, 0x40, 0x41, 0xc1, 0x40, 0x42, 0xc1, 0x40],
   [0x48, 0x90, 0x03, 0x09, 0xb9, 0xa5, 0xb6, 0xde, 0xed, 0xbc, 0x00, 0x90],
   [0x03, 0xeb, 0xc8, 0x27, 0xe0, 0x25, 0x52, 0xf5, 0xf8, 0xc1, 0x42, 0x44],
   [0x90, 0x03, 0xfb, 0x18, 0x79, 0xbf, 0x13, 0xd0, 0x5c, 0xea, 0x90, 0x03],
   [0x33, 0xa5, 0x92, 0x24, 0x2a, 0x32, 0xc9, 0x06, 0xc1, 0x41, 0x42, 0xc1],
   [0x41, 0x44, 0xc1, 0x41, 0x48, 0x90, 0x03, 0xfa, 0x7e, 0x06, 0xd6, 0xd9],
   [0x94, 0x35, 0x91, 0x90, 0x03, 0x1e, 0x20, 0x9b, 0xb2, 0x45, 0xa3, 0xb0],
   [0xa0, 0x04, 0x0f, 0x9c, 0x91, 0x05, 0x07, 0xc9, 0x05, 0x07, 0xc7, 0x40],
   [0x05, 0x07, 0xc5, 0x40, 0x05, 0x03, 0xbf, 0x40, 0xa0, 0xa0, 0x40, 0xa0],
   [0xa0, 0xa0, 0x00, 0x53, 0x6c, 0xa0, 0x00, 0x54, 0x00, 0x5a, 0x92, 0xa0],
   [0xa0, 0xa0, 0xa0, 0x00, 0x53, 0x6c, 0xa0, 0x00, 0x53, 0x00, 0x53, 0x9c]] @
  [[0x90, 0xb0, 0xa0, 0xa0, 0xa0, 0x00, 0x53, 0x6c, 0xa0, 0x00, 0x53, 0x7e],
   [0x9c, 0x90, 0xb0, 0xa0, 0x04, 0x07, 0x9c, 0x90, 0xb0, 0xa0, 0x04, 0x0b],
   [0x9c, 0x91, 0x05, 0x06, 0x8d, 0x05, 0x06, 0x8b, 0x40, 0x05, 0x06, 0x7b],
   [0x40, 0x34, 0x75, 0x6e, 0x69, 0x6f, 0x6e, 0x5f, 0x61, 0x6c, 0x6c, 0x5f],
   [0x65, 0x78, 0x70, 0x72, 0x65, 0x73, 0x73, 0x69, 0x6f, 0x6e, 0x40, 0xa0],
   [0xa0, 0x40, 0xa0, 0xa0, 0xa0, 0x00, 0x54, 0x50, 0xa0, 0x00, 0x54, 0x6f],
   [0x9c, 0x90, 0xb0, 0xa0, 0xa0, 0xa0, 0x00, 0x54, 0x50, 0xa0, 0x00, 0x54],
   [0x67, 0x9c, 0x90, 0xb0, 0xa0, 0x04, 0x07, 0x9c, 0x90, 0xb0, 0xa0, 0x04],
   [0x0b, 0x9c, 0x90, 0xb0, 0xa0, 0x04, 0x0f, 0x9c, 0x91, 0x05, 0x08, 0x02],
   [0x05, 0x08, 0x00, 0x40, 0x05, 0x07, 0xfe, 0x40, 0x05, 0x03, 0x9a, 0x40],
   [0x27, 0x5f, 0x53, 0x43, 0x48, 0x45, 0x4d, 0x41, 0x40, 0xa0, 0xa0, 0x40],
   [0xa0, 0xa0, 0xa0, 0x00, 0x54, 0x71, 0xa0, 0x00, 0x54, 0x00, 0x59, 0x9b],
   [0xa0, 0xa0, 0xa0, 0xa0, 0x00, 0x54, 0x72, 0xa0, 0x00, 0x54, 0x00, 0x43],
   [0x9c, 0x90, 0xb0, 0xa0, 0xa0, 0xa0, 0x00, 0x54, 0x72, 0xa0, 0x00, 0x54],
   [0x77, 0x9c, 0x91, 0x2d, 0x24, 0x74, 0x61, 0x72, 0x67, 0x65, 0x74, 0x24],
   [0x71, 0x75, 0x65, 0x72, 0x79, 0x2b, 0x5f, 0x65, 0x78, 0x70, 0x72, 0x65],
   [0x73, 0x73, 0x69, 0x6f, 0x6e, 0x40, 0xa0, 0xc0, 0xa0, 0xa0, 0xa0, 0x00],
   [0x54, 0x00, 0x48, 0xa0, 0x00, 0x54, 0x00, 0x4d, 0x9c, 0x91, 0x04, 0x0a],
   [0xa0, 0xa0, 0xa0, 0x00, 0x54, 0x00, 0x51, 0xa0, 0x00, 0x54, 0x00, 0x58],
   [0x9c, 0x91, 0x32, 0x24, 0x70, 0x61, 0x72, 0x61, 0x6d, 0x65, 0x74, 0x65],
   [0x72, 0x24, 0x71, 0x75, 0x65, 0x72, 0x69, 0x65, 0x73, 0x40, 0x40, 0x40],
   [0x40, 0x40, 0x40, 0xa0, 0xa0, 0xa0, 0xa0, 0x00, 0x57, 0x44, 0xa0, 0x00],
   [0x58, 0x01, 0x00, 0x83, 0x93, 0xc0, 0x08, 0x00, 0x00, 0x20, 0x00, 0xa0],
   [0x05, 0x08, 0x32, 0xa0, 0x05, 0x08, 0x31, 0xa0, 0x05, 0x08, 0x30, 0xa0],
   [0x05, 0x04, 0x6b, 0xa0, 0x31, 0x5f, 0x71, 0x75, 0x65, 0x72, 0x79, 0x5f],
   [0x65, 0x64, 0x67, 0x65, 0x73, 0x5f, 0x69, 0x6d, 0x70, 0x6c, 0x40, 0xa0],
   [0xa0, 0xa0, 0xa0, 0x00, 0x57, 0x5a, 0xa0, 0x00, 0x57, 0x5e, 0xb0, 0x2f],
   [0x24, 0x70, 0x61, 0x72, 0x61, 0x6d, 0x65, 0x74, 0x65, 0x72, 0x24, 0x73],
   [0x65, 0x6c, 0x66, 0x40, 0x40, 0xa0, 0xa0, 0xa0, 0xa0, 0x00, 0x57, 0x60],
   [0xa0, 0x00, 0x57, 0x7e, 0xb0, 0x35, 0x24, 0x70, 0x61, 0x72, 0x61, 0x6d]] @
  [[0x65, 0x74, 0x65, 0x72, 0x24, 0x65, 0x78, 0x70, 0x72, 0x65, 0x73, 0x73],
   [0x69, 0x6f, 0x6e, 0x40, 0x90, 0xa0, 0xa0, 0xa0, 0x00, 0x57, 0x6c, 0xa0],
   [0x00, 0x57, 0x7e, 0x9c, 0x90, 0xb0, 0xa0, 0x04, 0x07, 0x9c, 0x90, 0xb0],
   [0xa0, 0x04, 0x0b, 0x9c, 0x91, 0x05, 0x06, 0xfb, 0x05, 0x06, 0xf9, 0x40],
   [0x05, 0x06, 0xe9, 0x40, 0x40, 0x40, 0x90, 0xa0, 0xa0, 0xa0, 0x00, 0x57],
   [0x00, 0x43, 0xa0, 0x00, 0x57, 0x00, 0x5f, 0x9c, 0x90, 0xb0, 0xa0, 0x04],
   [0x07, 0x9c, 0x90, 0xb0, 0xa0, 0x04, 0x0b, 0x9c, 0x90, 0xb0, 0xa0, 0x04],
   [0x0f, 0x9c, 0x91, 0x05, 0x08, 0x67, 0x05, 0x08, 0x65, 0x40, 0x05, 0x08],
   [0x63, 0x40, 0x05, 0x04, 0x5d, 0x40, 0x40, 0x40, 0x90, 0x05, 0x04, 0x5c],
   [0x40, 0x40, 0x40, 0xa0, 0xa0, 0xa0, 0xa0, 0x00, 0x58, 0x48, 0xa0, 0x00],
   [0x58, 0x01, 0x00, 0x83, 0x9d, 0xa0, 0x40, 0x90, 0xa0, 0xa0, 0xa0, 0x00],
   [0x58, 0x4f, 0xa0, 0x00, 0x58, 0x01, 0x00, 0x83, 0x92, 0xa0, 0xa0, 0xa0],
   [0xa0, 0x00, 0x58, 0x4f, 0xa0, 0x00, 0x58, 0x6b, 0x9c, 0x90, 0xb0, 0xa0],
   [0x04, 0x07, 0x9c, 0x90, 0xb0, 0xa0, 0x04, 0x0b, 0x9c, 0x90, 0xb0, 0xa0],
   [0x04, 0x0f, 0x9c, 0x91, 0x05, 0x08, 0x88, 0x05, 0x08, 0x86, 0x40, 0x05],
   [0x08, 0x84, 0x40, 0x05, 0x04, 0x7e, 0x40, 0xa0, 0xa0, 0x40, 0xa0, 0xa0],
   [0xa0, 0x00, 0x58, 0x6c, 0xa0, 0x00, 0x58, 0x01, 0x00, 0x82, 0x92, 0xa0],
   [0xa0, 0xa0, 0xa0, 0x00, 0x58, 0x6c, 0xa0, 0x00, 0x58, 0x00, 0x55, 0x9c],
   [0x90, 0xb0, 0xa0, 0xa0, 0xa0, 0x00, 0x58, 0x6c, 0xa0, 0x00, 0x58, 0x7e],
   [0x9c, 0x90, 0xb0, 0xa0, 0x04, 0x07, 0x9c, 0x90, 0xb0, 0xa0, 0x04, 0x0b],
   [0x9c, 0x91, 0x05, 0x07, 0x4c, 0x05, 0x07, 0x4a, 0x40, 0x05, 0x07, 0x3a],
   [0x40, 0x36, 0x71, 0x75, 0x65, 0x72, 0x79, 0x5f, 0x65, 0x64, 0x67, 0x65],
   [0x73, 0x5f, 0x65, 0x78, 0x70, 0x72, 0x65, 0x73, 0x73, 0x69, 0x6f, 0x6e],
   [0x40, 0xa0, 0xa0, 0x40, 0xa0, 0xa0, 0xa0, 0x00, 0x58, 0x00, 0x56, 0xa0],
   [0x00, 0x58, 0x00, 0x60, 0x9c, 0x91, 0x35, 0x24, 0x70, 0x61, 0x72, 0x61],
   [0x6d, 0x65, 0x74, 0x65, 0x72, 0x24, 0x65, 0x78, 0x70, 0x72, 0x65, 0x73],
   [0x73, 0x69, 0x6f, 0x6e, 0xa0, 0xa0, 0x40, 0xa0, 0xa0, 0xa0, 0x00, 0x58],
   [0x00, 0x62, 0xa0, 0x00, 0x58, 0x01, 0x00, 0x81, 0x9c, 0x90, 0xb0, 0xa0],
   [0xa0, 0xa0, 0x00, 0x58, 0x00, 0x62, 0xa0, 0x00, 0x58, 0x00, 0x79, 0x9c],
   [0x90, 0xb0, 0xa0, 0x04, 0x07, 0x9c, 0x90, 0xb0, 0xa0, 0x04, 0x0b, 0x9c]]"

definition dictionary_rows_21 :: "u8 list list" where
  "dictionary_rows_21 =
  [[0x90, 0xb0, 0xa0, 0x04, 0x0f, 0x9c, 0x91, 0x05, 0x08, 0xca, 0x05, 0x08],
   [0xc8, 0x40, 0x05, 0x08, 0xc6, 0x40, 0x05, 0x04, 0x62, 0x40, 0x27, 0x5f],
   [0x53, 0x43, 0x48, 0x45, 0x4d, 0x41, 0x40, 0x40, 0x40, 0x40, 0xa0, 0xa0],
   [0xa0, 0xa0, 0x00, 0x5b, 0x44, 0xa0, 0x00, 0x5c, 0x00, 0x74, 0x93, 0xc0],
   [0x08, 0x00, 0x00, 0x20, 0x00, 0xa0, 0x05, 0x08, 0xd4, 0xa0, 0x05, 0x08],
   [0xd3, 0xa0, 0x05, 0x08, 0xd2, 0xa0, 0x05, 0x05, 0x0d, 0xa0, 0x31, 0x5f],
   [0x71, 0x75, 0x65, 0x72, 0x79, 0x5f, 0x6e, 0x6f, 0x64, 0x65, 0x73, 0x5f],
   [0x69, 0x6d, 0x70, 0x6c, 0x40, 0xa0, 0xa0, 0xa0, 0xa0, 0x00, 0x5b, 0x5a],
   [0xa0, 0x00, 0x5b, 0x5e, 0xb0, 0x2f, 0x24, 0x70, 0x61, 0x72, 0x61, 0x6d],
   [0x65, 0x74, 0x65, 0x72, 0x24, 0x73, 0x65, 0x6c, 0x66, 0x40, 0x40, 0xa0],
   [0xa0, 0xa0, 0xa0, 0x00, 0x5b, 0x60, 0xa0, 0x00, 0x5b, 0x7e, 0xb0, 0x35],
   [0x24, 0x70, 0x61, 0x72, 0x61, 0x6d, 0x65, 0x74, 0x65, 0x72, 0x24, 0x65],
   [0x78, 0x70, 0x72, 0x65, 0x73, 0x73, 0x69, 0x6f, 0x6e, 0x40, 0x90, 0xa0],
   [0xa0, 0xa0, 0x00, 0x5b, 0x6c, 0xa0, 0x00, 0x5b, 0x7e, 0x9c, 0x90, 0xb0],
   [0xa0, 0x04, 0x07, 0x9c, 0x90, 0xb0, 0xa0, 0x04, 0x0b, 0x9c, 0x91, 0x05],
   [0x07, 0x9d, 0x05, 0x07, 0x9b, 0x40, 0x05, 0x07, 0x8b, 0x40, 0x40, 0x40],
   [0x90, 0xa0, 0xa0, 0xa0, 0x00, 0x5b, 0x00, 0x43, 0xa0, 0x00, 0x5b, 0x00],
   [0x50, 0x9c, 0x90, 0xb0, 0xa0, 0x04, 0x07, 0x9c, 0x90, 0xb0, 0xa0, 0x04],
   [0x0b, 0x9c, 0x90, 0xb0, 0xa0, 0x04, 0x0f, 0x9c, 0x91, 0x05, 0x06, 0xfe],
   [0x05, 0x06, 0xfc, 0x40, 0x05, 0x06, 0xfa, 0x40, 0x05, 0x06, 0xea, 0x40],
   [0x40, 0x40, 0x90, 0x05, 0x04, 0xfe, 0x40, 0x40, 0x40, 0xa0, 0xa0, 0xa0],
   [0xa0, 0x00, 0x5c, 0x72, 0x6f, 0x64, 0x75, 0x63, 0x74, 0x5f, 0x70, 0x75],
   [0x72, 0x63, 0x68, 0x61, 0x73, 0x65, 0x73, 0x5f, 0x66, 0x72, 0x6f, 0x6d],
   [0x5f, 0x70, 0x72, 0x6f, 0x6d, 0x6f, 0x74, 0x69, 0x6f, 0x6e, 0x40, 0x05],
   [0x01, 0x2d, 0xa0, 0x05, 0x01, 0x2c, 0x40, 0xf0, 0x90, 0xd0, 0x40, 0x42],
   [0x08, 0x00, 0x00, 0x20, 0x00, 0x90, 0xa0, 0xa0, 0x03, 0x06, 0x04, 0x01],
   [0x01, 0x00, 0x00, 0x80, 0x00, 0x90, 0x05, 0x01, 0x28, 0xa0, 0x03, 0x06],
   [0x04, 0x01, 0x01, 0x00, 0x00, 0x80, 0x00, 0x90, 0x05, 0x01, 0x27, 0x90],
   [0x40, 0x90, 0x05, 0x01, 0x26, 0x90, 0x45, 0x90, 0x05, 0x01, 0x25, 0x90],
   [0x05, 0x02, 0x0f, 0x90, 0x05, 0x02, 0x0e, 0x90, 0x40, 0x40, 0x41, 0x90]] @
  [[0x05, 0x02, 0x17, 0x90, 0xa0, 0xa0, 0x03, 0x00, 0x00, 0x00, 0x20, 0x44],
   [0x00, 0x00, 0x00, 0x40, 0xa0, 0x03, 0x00, 0x00, 0x00, 0x20, 0x44, 0x00],
   [0x00, 0x00, 0x40, 0x90, 0x05, 0x02, 0x17, 0x90, 0x05, 0x02, 0x16, 0x90],
   [0xb0, 0xa0, 0x05, 0x02, 0x15, 0x40, 0x05, 0x01, 0x00, 0x41, 0x90, 0x40],
   [0x40, 0x41, 0xc2, 0x91, 0x28, 0x63, 0x68, 0x69, 0x6c, 0x64, 0x72, 0x65],
   [0x6e, 0x40, 0xb0, 0x05, 0x02, 0x81, 0x05, 0x01, 0xdf, 0x05, 0x01, 0xde],
   [0xa0, 0x91, 0xb0, 0x09, 0x35, 0x62, 0x6c, 0x6f, 0x6b, 0x73, 0x2e, 0x67],
   [0x65, 0x6e, 0x65, 0x72, 0x61, 0x74, 0x65, 0x64, 0x2e, 0x62, 0x6b, 0x2e],
   [0x63, 0x6f, 0x6d, 0x70, 0x6f, 0x6e, 0x65, 0x6e, 0x74, 0x73, 0x2e, 0x66],
   [0x6c, 0x65, 0x78, 0x62, 0x6f, 0x78, 0x5f, 0x65, 0x6c, 0x65, 0x6d, 0x65],
   [0x6e, 0x74, 0x2e, 0x46, 0x6c, 0x65, 0x78, 0x62, 0x6f, 0x78, 0x28, 0x5f],
   [0x5f, 0x69, 0x6e, 0x69, 0x74, 0x5f, 0x5f, 0x40, 0x40, 0xf0, 0x90, 0xd0],
   [0x40, 0x42, 0x08, 0x00, 0x00, 0x20, 0x00, 0x90, 0xa0, 0xa0, 0x03, 0x00],
   [0x00, 0x00, 0x01, 0x00, 0x00, 0x80, 0x00, 0x90, 0x05, 0x01, 0xe6, 0xa0],
   [0x03, 0x00, 0x00, 0x00, 0x01, 0x00, 0x00, 0x80, 0x00, 0x90, 0x90, 0x03],
   [0xd3, 0x75, 0xf7, 0x89, 0x55, 0xaf, 0x1d, 0x4c, 0x90, 0x40, 0x90, 0xa0],
   [0x03, 0x3f, 0xff, 0xff, 0xff, 0xff, 0xff, 0xff, 0xff, 0x40, 0x90, 0x43],
   [0x90, 0x90, 0x90, 0x03, 0x11, 0x1a, 0x1f, 0xd2, 0xc8, 0x1c, 0xbf, 0x6b],
   [0x90, 0xa0, 0x40, 0x40, 0x90, 0xa0, 0x40, 0x40, 0x90, 0x40, 0x40, 0x41],
   [0x90, 0x90, 0xc0, 0xc0, 0x40, 0x05, 0x02, 0x0a, 0x40, 0x41, 0x05, 0x02],
   [0x07, 0x40, 0x42, 0x90, 0xa0, 0xa0, 0x03, 0x06, 0x06, 0x01, 0x21, 0x44],
   [0x01, 0x80, 0x00, 0x90, 0x05, 0x01, 0x64, 0xa0, 0x03, 0x06, 0x00, 0x01],
   [0x01, 0x40, 0x00, 0x00, 0x00, 0x40, 0x90, 0x05, 0x02, 0x46, 0x90, 0x05],
   [0x02, 0x45, 0x90, 0xb0, 0xa0, 0x05, 0x02, 0x44, 0x40, 0xa0, 0x05, 0x02],
   [0x43, 0x40, 0x40, 0x90, 0x40, 0x40, 0x42, 0x43, 0x44, 0x45, 0x40, 0xd0],
   [0x40, 0x05, 0x01, 0xd3, 0xa0, 0xd0, 0x40, 0xc2, 0x05, 0x01, 0x86, 0xa0],
   [0x05, 0x01, 0xd7, 0x40, 0x05, 0x01, 0x7f, 0xa0, 0x05, 0x01, 0x7e, 0x40],
   [0xf0, 0x90, 0xd0, 0x40, 0x42, 0x08, 0x00, 0x00, 0x20, 0x00, 0x90, 0xa0],
   [0xa0, 0x03, 0x00, 0x00, 0x00, 0x01, 0x00, 0x00, 0x80, 0x00, 0x90, 0x05],
   [0x01, 0xea, 0xa0, 0x03, 0x00, 0x00, 0x00, 0x01, 0x00, 0x00, 0x80, 0x00]] @
  [[0x90, 0x04, 0x2d, 0x90, 0x40, 0x90, 0x04, 0x2c, 0x90, 0x44, 0x90, 0x90],
   [0x90, 0x03, 0x11, 0x1a, 0x1f, 0xd2, 0xc8, 0x1c, 0xbf, 0x6b, 0x90, 0x05],
   [0x02, 0x63, 0x90, 0x05, 0x02, 0x62, 0x90, 0x40, 0x40, 0x41, 0x90, 0x05],
   [0x02, 0x6b, 0x90, 0x05, 0x02, 0x6a, 0x90, 0x05, 0x02, 0x68, 0x90, 0x05],
   [0x02, 0x67, 0x90, 0xb0, 0xa0, 0x05, 0x02, 0x66, 0x40, 0xa0, 0x05, 0x02],
   [0x67, 0x40, 0x41, 0x90, 0x40, 0xd0, 0x40, 0x04, 0x53, 0xf0, 0x90, 0xd0],
   [0x40, 0x42, 0x04, 0x4a, 0x40, 0x41, 0x90, 0x90, 0xc0, 0x40, 0x05, 0x02],
   [0x3c, 0x40, 0x41, 0x90, 0xa0, 0xa0, 0x03, 0x00, 0x00, 0x00, 0x01, 0x00],
   [0x00, 0x80, 0x00, 0x90, 0x05, 0x02, 0x09, 0xa0, 0x03, 0x00, 0x00, 0x00],
   [0x01, 0x00, 0x00, 0x00, 0x00, 0x40, 0x90, 0x05, 0x02, 0x7b, 0x90, 0x05],
   [0x02, 0x7a, 0x90, 0xb0, 0x05, 0x01, 0x63, 0xa0, 0x05, 0x02, 0x77, 0x40],
   [0x40, 0x90, 0x40, 0x40, 0x41, 0x42, 0x40, 0x40, 0x41, 0x42, 0x40, 0x42],
   [0xb0, 0xb0, 0x90, 0x40, 0x90, 0x40, 0xa0, 0x04, 0x03, 0x04, 0x02, 0x04],
   [0x04, 0x40, 0x40, 0x84, 0x95, 0xa6, 0xbe, 0x00, 0x00, 0x00, 0x3e, 0x00],
   [0x00, 0x00, 0x04, 0x00, 0x00, 0x00, 0x18, 0x00, 0x00, 0x00, 0x10, 0xa0],
   [0x09, 0x34, 0x73, 0x74, 0x72, 0x75, 0x63, 0x74, 0x75, 0x72, 0x65, 0x64],
   [0x6c, 0x6f, 0x67, 0x67, 0x65, 0x72, 0x2e, 0x65, 0x76, 0x65, 0x6e, 0x74],
   [0x5f, 0x62, 0x61, 0x73, 0x65, 0x2e, 0x54, 0x79, 0x70, 0x65, 0x64, 0x45],
   [0x76, 0x65, 0x6e, 0x74, 0x42, 0x61, 0x73, 0x65, 0x2e, 0x61, 0x73, 0x79],
   [0x6e, 0x63, 0x5f, 0x6c, 0x6f, 0x67, 0xa0, 0x24, 0x73, 0x65, 0x6c, 0x66],
   [0x40, 0x84, 0x95, 0xa6, 0xbe, 0x00, 0x00, 0x00, 0x14, 0x00, 0x00, 0x00],
   [0x01, 0x00, 0x00, 0x00, 0x06, 0x00, 0x00, 0x00, 0x04, 0x33, 0x73, 0x69],
   [0x64, 0x65, 0x63, 0x61, 0x72, 0x5f, 0x76, 0x69, 0x64, 0x65, 0x6f, 0x5f],
   [0x63, 0x6f, 0x75, 0x6e, 0x74, 0x84, 0x95, 0xa6, 0xbe, 0x00, 0x00, 0x00],
   [0x05, 0x00, 0x00, 0x00, 0x02, 0x00, 0x00, 0x00, 0x06, 0x00, 0x00, 0x00],
   [0x06, 0xa0, 0x41, 0xa0, 0x41, 0x4b, 0x84, 0x95, 0xa6, 0xbe, 0x00, 0x00],
   [0x00, 0x01, 0x00, 0x00, 0x00, 0x00, 0x00, 0x00, 0x00, 0x00, 0x00, 0x00],
   [0x00, 0x00, 0x40, 0x84, 0x95, 0xa6, 0xbe, 0x00, 0x00, 0x00, 0x5a, 0x00],
   [0x00, 0x00, 0x04, 0x00, 0x00, 0x00, 0x1e, 0x00, 0x00, 0x00, 0x13, 0xa0],
   [0x09, 0x4e, 0x69, 0x67, 0x5f, 0x6e, 0x6f, 0x64, 0x65, 0x61, 0x70, 0x69]] @
  [[0x2e, 0x6e, 0x6f, 0x64, 0x65, 0x73, 0x2e, 0x67, 0x65, 0x6e, 0x65, 0x72],
   [0x61, 0x74, 0x65, 0x64, 0x5f, 0x62, 0x61, 0x73, 0x65, 0x73, 0x2e, 0x73],
   [0x74, 0x6f, 0x72, 0x79, 0x5f, 0x70, 0x6f, 0x73, 0x74, 0x2e, 0x4e, 0x6f],
   [0x64, 0x65, 0x53, 0x74, 0x6f, 0x72, 0x79, 0x50, 0x6f, 0x73, 0x74, 0x47],
   [0x65, 0x6e, 0x65, 0x72, 0x61, 0x74, 0x65, 0x64, 0x42, 0x61, 0x73, 0x65],
   [0x2e, 0x75, 0x73, 0x65, 0x72, 0x5f, 0x69, 0x64, 0xa0, 0x26, 0x72, 0x65],
   [0x74, 0x75, 0x72, 0x6e, 0x40, 0x84, 0x95, 0xa6, 0xbe, 0x00, 0x00, 0x01],
   [0xc7, 0x00, 0x00, 0x00, 0x85, 0x00, 0x00, 0x01, 0x97, 0x00, 0x00, 0x01],
   [0x83, 0xb0, 0xa0, 0x2a, 0x69, 0x67, 0x5f, 0x6e, 0x6f, 0x64, 0x65, 0x61],
   [0x70, 0x69, 0xa0, 0x25, 0x6e, 0x6f, 0x64, 0x65, 0x73, 0xa0, 0x29, 0x6c],
   [0x69, 0x76, 0x65, 0x5f, 0x70, 0x6f, 0x73, 0x74, 0x40, 0x90, 0xa0, 0xa0],
   [0xa0, 0x01, 0x2f, 0xc6, 0x44, 0xa0, 0x01, 0x2f, 0xc8, 0x53, 0xc0, 0x08],
   [0x00, 0x00, 0x20, 0x00, 0xa0, 0x04, 0x0d, 0xa0, 0x04, 0x0c, 0xa0, 0x04],
   [0x0b, 0xa0, 0x32, 0x4e, 0x6f, 0x64, 0x65, 0x43, 0x72, 0x65, 0x61, 0x74],
   [0x65, 0x4c, 0x69, 0x76, 0x65, 0x50, 0x6f, 0x73, 0x74, 0xa0, 0x30, 0x73],
   [0x65, 0x74, 0x5f, 0x69, 0x73, 0x5f, 0x70, 0x75, 0x62, 0x6c, 0x69, 0x73],
   [0x68, 0x65, 0x64, 0x40, 0xa0, 0xa0, 0xa0, 0x25, 0x62, 0x6c, 0x6f, 0x6b],
   [0x73, 0xa0, 0x29, 0x67, 0x65, 0x6e, 0x65, 0x72, 0x61, 0x74, 0x65, 0x64],
   [0xa0, 0x22, 0x69, 0x67, 0xa0, 0x2a, 0x63, 0x6f, 0x6d, 0x70, 0x6f, 0x6e],
   [0x65, 0x6e, 0x74, 0x73, 0xa0, 0x26, 0x64, 0x69, 0x61, 0x6c, 0x6f, 0x67],
   [0xa0, 0x2e, 0x68, 0x65, 0x61, 0x64, 0x65, 0x72, 0x5f, 0x65, 0x6c, 0x65],
   [0x6d, 0x65, 0x6e, 0x74, 0x40, 0xa0, 0xa0, 0xa0, 0xa0, 0x51, 0x00, 0x40],
   [0xa0, 0x51, 0x00, 0x46, 0xa0, 0xa0, 0x26, 0x48, 0x65, 0x61, 0x64, 0x65],
   [0x72, 0x40, 0x40, 0x40, 0xa0, 0xa0, 0xa0, 0xa0, 0x52, 0x40, 0xa0, 0x52],
   [0x00, 0x48, 0x99, 0xa0, 0x90, 0xa0, 0xa0, 0xa0, 0x52, 0x45, 0xa0, 0x52],
   [0x61, 0xa0, 0x25, 0x62, 0x6c, 0x6f, 0x6b, 0x73, 0xa0, 0x25, 0x6c, 0x69],
   [0x73, 0x70, 0x79, 0xa0, 0x23, 0x6c, 0x69, 0x62, 0xa0, 0x2c, 0x61, 0x73],
   [0x79, 0x6e, 0x63, 0x5f, 0x61, 0x63, 0x74, 0x69, 0x6f, 0x6e, 0x40, 0xa0],
   [0xa0, 0xa0, 0xa0, 0x52, 0x69, 0xa0, 0x52, 0x00, 0x48, 0xa0, 0xa0, 0x3f],
   [0x61, 0x73, 0x79, 0x6e, 0x63, 0x5f, 0x61, 0x63, 0x74, 0x69, 0x6f, 0x6e]] @
  [[0x5f, 0x77, 0x69, 0x74, 0x68, 0x5f, 0x64, 0x61, 0x74, 0x61, 0x5f, 0x6d],
   [0x61, 0x6e, 0x69, 0x66, 0x65, 0x73, 0x74, 0x40, 0x40, 0x40, 0xa0, 0xa0],
   [0xa0, 0xa0, 0x53, 0x40, 0xa0, 0x53, 0x6a, 0x99, 0xa0, 0x90, 0xa0, 0xa0],
   [0xa0, 0x53, 0x45, 0xa0, 0x53, 0x5a, 0xa0, 0x2a, 0x69, 0x67, 0x5f, 0x6e],
   [0x6f, 0x64, 0x65, 0x61, 0x70, 0x69, 0xa0, 0x25, 0x6e, 0x6f, 0x64, 0x65],
   [0x73, 0xa0, 0x24, 0x75, 0x73, 0x65, 0x72, 0x40, 0xa0, 0xa0, 0xa0, 0xa0],
   [0x53, 0x62, 0xa0, 0x53, 0x6a, 0xa0, 0xa0, 0x28, 0x4e, 0x6f, 0x64, 0x65],
   [0x55, 0x73, 0x65, 0x72, 0x40, 0x40, 0x40, 0xa0, 0xa0, 0xa0, 0xa0, 0x54],
   [0x40, 0xa0, 0x54, 0x57, 0x99, 0xa0, 0x90, 0xa0, 0xa0, 0xa0, 0x54, 0x45],
   [0xa0, 0x54, 0x4c, 0xa0, 0x23, 0x71, 0x65, 0x32, 0xa0, 0x23, 0x71, 0x65],
   [0x32, 0x40, 0xa0, 0xa0, 0xa0, 0xa0, 0x54, 0x54, 0xa0, 0x54, 0x57, 0xa0],
   [0xa0, 0x23, 0x51, 0x45, 0x32, 0x40, 0x40, 0x40, 0xa0, 0xa0, 0xa0, 0xa0],
   [0x55, 0x40, 0xa0, 0x57, 0x41, 0x99, 0xa0, 0x90, 0xa0, 0xa0, 0xa0, 0x55],
   [0x45, 0xa0, 0x55, 0x00, 0x4d, 0xa0, 0x30, 0x73, 0x74, 0x72, 0x75, 0x63],
   [0x74, 0x75, 0x72, 0x65, 0x64, 0x6c, 0x6f, 0x67, 0x67, 0x65, 0x72, 0xa0],
   [0x26, 0x65, 0x76, 0x65, 0x6e, 0x74, 0x73, 0xa0, 0x09, 0x30, 0x69, 0x6e],
   [0x73, 0x74, 0x61, 0x67, 0x72, 0x61, 0x6d, 0x5f, 0x61, 0x6e, 0x64, 0x72],
   [0x6f, 0x69, 0x64, 0x5f, 0x31, 0x33, 0x5f, 0x6e, 0x6f, 0x74, 0x69, 0x66],
   [0x69, 0x63, 0x61, 0x74, 0x69, 0x6f, 0x6e, 0x73, 0x5f, 0x70, 0x72, 0x69],
   [0x6d, 0x69, 0x6e, 0x67, 0x5f, 0x65, 0x76, 0x65, 0x6e, 0x74, 0x40, 0xa0],
   [0xa0, 0xa0, 0xa0, 0x56, 0x44, 0xa0, 0x56, 0x74, 0xa0, 0xa0, 0x09, 0x30],
   [0x49, 0x6e, 0x73, 0x74, 0x61, 0x67, 0x72, 0x61, 0x6d, 0x41, 0x6e, 0x64],
   [0x72, 0x6f, 0x69, 0x64, 0x31, 0x33, 0x4e, 0x6f, 0x74, 0x69, 0x66, 0x69],
   [0x63, 0x61, 0x74, 0x69, 0x6f, 0x6e, 0x73, 0x50, 0x72, 0x69, 0x6d, 0x69],
   [0x6e, 0x67, 0x45, 0x76, 0x65, 0x6e, 0x74, 0x45, 0x76, 0x65, 0x6e, 0x74],
   [0x40, 0x40, 0x40, 0xa0, 0xa0, 0xa0, 0xa0, 0x58, 0x40, 0xa0, 0x58, 0x61],
   [0x99, 0xa0, 0x90, 0xa0, 0xa0, 0xa0, 0x58, 0x45, 0xa0, 0x58, 0x52, 0xa0],
   [0x24, 0x75, 0x74, 0x69, 0x6c, 0xa0, 0x28, 0x69, 0x67, 0x5f, 0x61, 0x73],
   [0x79, 0x6e, 0x63, 0x40, 0xa0, 0xa0, 0xa0, 0xa0, 0x58, 0x5a, 0xa0, 0x58],
   [0x61, 0xa0, 0xa0, 0x27, 0x61, 0x73, 0x79, 0x6e, 0x63, 0x69, 0x6f, 0x40]]"

definition dictionary_rows_22 :: "u8 list list" where
  "dictionary_rows_22 =
  [[0x40, 0x40, 0xa0, 0xa0, 0xa0, 0xa0, 0x5b, 0x40, 0xa0, 0x00, 0x5b, 0x49],
   [0x92, 0xd0, 0xa0, 0x05, 0x01, 0xbf, 0xa0, 0x05, 0x01, 0xbe, 0xa0, 0x05],
   [0x01, 0xbd, 0xa0, 0x05, 0x01, 0xbc, 0xa0, 0x05, 0x01, 0xbb, 0xa0, 0x05],
   [0x01, 0xba, 0xa0, 0x38, 0x50, 0x72, 0x69, 0x6d, 0x69, 0x6e, 0x67, 0x53],
   [0x63, 0x72, 0x65, 0x65, 0x6e, 0x44, 0x69, 0x61, 0x6c, 0x6f, 0x67, 0x55],
   [0x74, 0x69, 0x6c, 0x73, 0x40, 0x40, 0xa0, 0xa0, 0xa0, 0xa0, 0x5d, 0x44],
   [0xa0, 0x00, 0x5b, 0x49, 0x93, 0xc0, 0x08, 0x00, 0x00, 0x20, 0x00, 0xa0],
   [0x05, 0x01, 0xcf, 0xa0, 0x05, 0x01, 0xce, 0xa0, 0x05, 0x01, 0xcd, 0xa0],
   [0x05, 0x01, 0xcc, 0xa0, 0x05, 0x01, 0xcb, 0xa0, 0x05, 0x01, 0xca, 0xa0],
   [0x04, 0x10, 0xa0, 0x30, 0x61, 0x73, 0x79, 0x6e, 0x63, 0x5f, 0x67, 0x65],
   [0x74, 0x5f, 0x64, 0x69, 0x61, 0x6c, 0x6f, 0x67, 0x40, 0xa0, 0xa0, 0xa0],
   [0xa0, 0x5d, 0x5f, 0xa0, 0x5d, 0x7b, 0xb0, 0x32, 0x24, 0x70, 0x61, 0x72],
   [0x61, 0x6d, 0x65, 0x74, 0x65, 0x72, 0x24, 0x63, 0x6f, 0x6e, 0x74, 0x65],
   [0x78, 0x74, 0x40, 0x90, 0xa0, 0xa0, 0xa0, 0x5d, 0x68, 0xa0, 0x5d, 0x7b],
   [0x9c, 0x90, 0xb0, 0xa0, 0xa0, 0xa0, 0x5d, 0x68, 0xa0, 0x5d, 0x6d, 0x9c],
   [0x90, 0xb0, 0xa0, 0x04, 0x07, 0x9c, 0x91, 0x05, 0x01, 0xb4, 0x05, 0x01],
   [0xac, 0x40, 0x2d, 0x52, 0x65, 0x6e, 0x64, 0x65, 0x72, 0x43, 0x6f, 0x6e],
   [0x74, 0x65, 0x78, 0x74, 0x40, 0xa0, 0xa0, 0xa0, 0xa0, 0x5d, 0x7d, 0xa0],
   [0x5d, 0x00, 0x4b, 0xb0, 0x2f, 0x24, 0x70, 0x61, 0x72, 0x61, 0x6d, 0x65],
   [0x74, 0x65, 0x72, 0x24, 0x75, 0x73, 0x65, 0x72, 0x40, 0x90, 0xa0, 0xa0],
   [0xa0, 0x5d, 0x00, 0x43, 0xa0, 0x5d, 0x00, 0x4b, 0x9c, 0x90, 0xb0, 0xa0],
   [0x04, 0x07, 0x9c, 0x90, 0xb0, 0xa0, 0x04, 0x0b, 0x9c, 0x90, 0xb0, 0xa0],
   [0x04, 0x0f, 0x9c, 0x91, 0x04, 0xab, 0x04, 0xa9, 0x40, 0x04, 0xa7, 0x40],
   [0x04, 0x9f, 0x40, 0x40, 0xa0, 0xa0, 0xa0, 0xa0, 0x5c, 0x45, 0xa0, 0x5c],
   [0x51, 0x9c, 0x91, 0x2c, 0x73, 0x74, 0x61, 0x74, 0x69, 0x63, 0x6d, 0x65],
   [0x74, 0x68, 0x6f, 0x64, 0x40, 0x90, 0xa0, 0xa0, 0xa0, 0x5d, 0x00, 0x50],
   [0xa0, 0x5d, 0x00, 0x56, 0x9c, 0x90, 0xb0, 0xa0, 0x04, 0x07, 0x9c, 0x90],
   [0xb0, 0xa0, 0x04, 0x0b, 0x9c, 0x90, 0xb0, 0xa0, 0x04, 0x0f, 0x9c, 0x90],
   [0xb0, 0xa0, 0x04, 0x13, 0x9c, 0x90, 0xb0, 0xa0, 0x04, 0x17, 0x9c, 0x90],
   [0xb0, 0xa0, 0x04, 0x1b, 0x9c, 0x91, 0x05, 0x01, 0x2e, 0x05, 0x01, 0x2c]] @
  [[0x40, 0x05, 0x01, 0x2a, 0x40, 0x05, 0x01, 0x28, 0x40, 0x05, 0x01, 0x26],
   [0x40, 0x05, 0x01, 0x24, 0x40, 0x05, 0x01, 0x1c, 0x40, 0x41, 0x40, 0x90],
   [0xa0, 0x05, 0x02, 0x34, 0xa0, 0x05, 0x02, 0x33, 0xa0, 0x05, 0x02, 0x32],
   [0xa0, 0x05, 0x02, 0x31, 0xa0, 0x05, 0x02, 0x30, 0xa0, 0x05, 0x02, 0x2f],
   [0x04, 0x75, 0x40, 0x40, 0x40, 0xa0, 0xa0, 0xa0, 0xa0, 0x5e, 0x48, 0xa0],
   [0x61, 0x49, 0x90, 0xb0, 0xa0, 0xa0, 0x04, 0x06, 0xa0, 0x5e, 0x4a, 0x9c],
   [0x91, 0x09, 0x8c, 0x24, 0x6c, 0x6f, 0x63, 0x61, 0x6c, 0x5f, 0x62, 0x6c],
   [0x6f, 0x6b, 0x73, 0x3f, 0x61, 0x70, 0x70, 0x73, 0x3f, 0x69, 0x6e, 0x73],
   [0x74, 0x61, 0x67, 0x72, 0x61, 0x6d, 0x3f, 0x6e, 0x6f, 0x74, 0x69, 0x66],
   [0x69, 0x63, 0x61, 0x74, 0x69, 0x6f, 0x6e, 0x73, 0x3f, 0x70, 0x65, 0x72],
   [0x6d, 0x69, 0x73, 0x73, 0x69, 0x6f, 0x6e, 0x5f, 0x70, 0x72, 0x69, 0x6d],
   [0x69, 0x6e, 0x67, 0x5f, 0x73, 0x63, 0x72, 0x65, 0x65, 0x6e, 0x3f, 0x36],
   [0x24, 0x70, 0x61, 0x72, 0x61, 0x6d, 0x65, 0x74, 0x65, 0x72, 0x24, 0x61],
   [0x73, 0x73, 0x65, 0x74, 0x5f, 0x63, 0x6c, 0x61, 0x73, 0x73, 0xa0, 0xa0],
   [0xa0, 0x01, 0x31, 0xf3, 0x73, 0xa0, 0x01, 0x31, 0xf3, 0x7f, 0x94, 0x94],
   [0xa0, 0x2a, 0x4e, 0x4f, 0x44, 0x45, 0x5f, 0x46, 0x49, 0x45, 0x4c, 0x44],
   [0x40, 0xa0, 0xa0, 0x90, 0xa0, 0xa0, 0xa0, 0x01, 0x31, 0xf3, 0x00, 0x41],
   [0xa0, 0x01, 0x31, 0xf3, 0x00, 0x45, 0x2f, 0x24, 0x70, 0x61, 0x72, 0x61],
   [0x6d, 0x65, 0x74, 0x65, 0x72, 0x24, 0x72, 0x65, 0x70, 0x6f, 0xa0, 0xa0],
   [0xa0, 0x01, 0x31, 0xf3, 0x00, 0x46, 0xa0, 0x01, 0x31, 0xf3, 0x00, 0x58],
   [0x94, 0x94, 0xa0, 0x30, 0x69, 0x6e, 0x73, 0x74, 0x61, 0x67, 0x72, 0x61],
   [0x6d, 0x2d, 0x73, 0x65, 0x72, 0x76, 0x65, 0x72, 0x40, 0xa0, 0xa0, 0x90],
   [0xa0, 0xa0, 0xa0, 0x01, 0x31, 0xf3, 0x00, 0x5a, 0xa0, 0x01, 0x31, 0xf3],
   [0x00, 0x65, 0x36, 0x24, 0x70, 0x61, 0x72, 0x61, 0x6d, 0x65, 0x74, 0x65],
   [0x72, 0x24, 0x73, 0x63, 0x68, 0x65, 0x6d, 0x61, 0x5f, 0x6e, 0x61, 0x6d],
   [0x65, 0xa0, 0xa0, 0xa0, 0x01, 0x31, 0xf3, 0x00, 0x66, 0xa0, 0x01, 0x31],
   [0xf3, 0x00, 0x7d, 0x94, 0x94, 0xa0, 0x35, 0x69, 0x67, 0x5f, 0x67, 0x75],
   [0x69, 0x64, 0x65, 0x5f, 0x6d, 0x65, 0x64, 0x69, 0x61, 0x5f, 0x66, 0x61],
   [0x63, 0x61, 0x64, 0x65, 0x40, 0xa0, 0xa0, 0x90, 0xa0, 0xa0, 0xa0, 0x01],
   [0x31, 0xf3, 0x00, 0x7f, 0xa0, 0x01, 0x31, 0xf3, 0x01, 0x00, 0x84, 0x30]] @
  [[0x24, 0x70, 0x61, 0x72, 0x61, 0x6d, 0x65, 0x74, 0x65, 0x72, 0x24, 0x66],
   [0x69, 0x65, 0x6c, 0x64, 0xa0, 0xa0, 0xa0, 0x01, 0x31, 0xf3, 0x01, 0x00],
   [0x85, 0xa0, 0x01, 0x31, 0xf3, 0x01, 0x00, 0xa6, 0x94, 0x94, 0xa0, 0x3f],
   [0x69, 0x6d, 0x70, 0x6f, 0x72, 0x74, 0x65, 0x64, 0x5f, 0x61, 0x63, 0x74],
   [0x69, 0x76, 0x69, 0x74, 0x79, 0x70, 0x75, 0x62, 0x5f, 0x69, 0x64, 0x65],
   [0x6e, 0x74, 0x69, 0x66, 0x69, 0x65, 0x72, 0x40, 0x40, 0x40, 0x40, 0x84],
   [0x95, 0xa6, 0xbe, 0x00, 0x00, 0x00, 0x05, 0x00, 0x00, 0x00, 0x02, 0x00],
   [0x00, 0x00, 0x06, 0x00, 0x00, 0x00, 0x06, 0xa0, 0x40, 0xa0, 0x41, 0x40],
   [0x84, 0x95, 0xa6, 0xbe, 0x00, 0x00, 0x00, 0x5f, 0x00, 0x00, 0x00, 0x04],
   [0x00, 0x00, 0x00, 0x1f, 0x00, 0x00, 0x00, 0x14, 0xa0, 0x09, 0x53, 0x69],
   [0x67, 0x5f, 0x6e, 0x6f, 0x64, 0x65, 0x61, 0x70, 0x69, 0x2e, 0x6e, 0x6f],
   [0x64, 0x65, 0x73, 0x2e, 0x66, 0x62, 0x5f, 0x69, 0x6e, 0x73, 0x74, 0x61],
   [0x67, 0x72, 0x61, 0x6d, 0x5f, 0x64, 0x72, 0x61, 0x66, 0x74, 0x5f, 0x70],
   [0x72, 0x6f, 0x6d, 0x6f, 0x74, 0x69, 0x6f, 0x6e, 0x2e, 0x4e, 0x6f, 0x64],
   [0x65, 0x46, 0x62, 0x49, 0x6e, 0x73, 0x74, 0x61, 0x67, 0x72, 0x61, 0x6d],
   [0x44, 0x72, 0x61, 0x66, 0x74, 0x50, 0x72, 0x6f, 0x6d, 0x6f, 0x74, 0x69],
   [0x6f, 0x6e, 0x2e, 0x5f, 0x53, 0x43, 0x48, 0x45, 0x4d, 0x41, 0xa0, 0x26],
   [0x72, 0x65, 0x74, 0x75, 0x72, 0x6e, 0x40, 0x84, 0x95, 0xa6, 0xbe, 0x00],
   [0x00, 0x00, 0xe0, 0x00, 0x00, 0x00, 0x3e, 0x00, 0x00, 0x00, 0xce, 0x00],
   [0x00, 0x00, 0xcb, 0xc0, 0x90, 0x40, 0xa0, 0xd0, 0x40, 0xb0, 0x41, 0x27],
   [0x71, 0x75, 0x65, 0x72, 0x69, 0x65, 0x73, 0x40, 0xa0, 0x40, 0xd0, 0x40],
   [0x40, 0xa0, 0x40, 0xd0, 0x40, 0x90, 0x2b, 0x5f, 0x65, 0x78, 0x70, 0x72],
   [0x65, 0x73, 0x73, 0x69, 0x6f, 0x6e, 0xa0, 0xd0, 0x40, 0x40, 0xf0, 0x90],
   [0xd0, 0x40, 0x41, 0x08, 0x00, 0x00, 0x20, 0x00, 0x90, 0xa0, 0xa0, 0x40],
   [0x40, 0x04, 0x01, 0x90, 0x40, 0x90, 0xa0, 0x03, 0x3f, 0xff, 0xff, 0xff],
   [0xff, 0xff, 0xff, 0xff, 0xd0, 0x40, 0x90, 0x2b, 0x5f, 0x65, 0x78, 0x70],
   [0x72, 0x65, 0x73, 0x73, 0x69, 0x6f, 0x6e, 0xa0, 0x40, 0x40, 0x40, 0x41],
   [0x90, 0x41, 0x90, 0x40, 0x90, 0xa0, 0x40, 0x40, 0x90, 0xa0, 0x40, 0x40],
   [0x90, 0x40, 0x40, 0x41, 0x90, 0x90, 0xc0, 0x40, 0xa0, 0xa0, 0x00, 0x54],
   [0x7d, 0xa0, 0x00, 0x55, 0x00, 0x6b, 0xc0, 0x40, 0xa0, 0xa0, 0x00, 0x55]] @
  [[0x00, 0x42, 0xa0, 0x00, 0x55, 0x00, 0x6a, 0x40, 0x41, 0x42, 0x90, 0xa0],
   [0xa0, 0x03, 0x00, 0x00, 0x00, 0x01, 0x00, 0x00, 0x10, 0x00, 0x40, 0xa0],
   [0x03, 0x00, 0x00, 0x00, 0x01, 0x00, 0x00, 0x10, 0x00, 0x40, 0x90, 0x04],
   [0x13, 0x90, 0x04, 0x12, 0x90, 0xb0, 0xa0, 0xa0, 0x03, 0xc0, 0x00, 0x00],
   [0x00, 0x00, 0x00, 0x00, 0x00, 0x03, 0x3f, 0xff, 0xff, 0xff, 0xff, 0xff],
   [0xff, 0xff, 0x40, 0xa0, 0x04, 0x02, 0x40, 0x40, 0x90, 0x40, 0x40, 0x41],
   [0x40, 0x40, 0x41, 0x40, 0x41, 0x40, 0x41, 0x40, 0xb0, 0xb0, 0x90, 0x40],
   [0x90, 0x40, 0xa0, 0x04, 0x03, 0x04, 0x02, 0x04, 0x04, 0x40, 0x40, 0x84],
   [0x95, 0xa6, 0xbe, 0x00, 0x00, 0x00, 0x01, 0x00, 0x00, 0x00, 0x00, 0x00],
   [0x00, 0x00, 0x00, 0x00, 0x00, 0x00, 0x00, 0x40, 0x84, 0x95, 0xa6, 0xbe],
   [0x00, 0x00, 0x00, 0x77, 0x00, 0x00, 0x00, 0x04, 0x00, 0x00, 0x00, 0x26],
   [0x00, 0x00, 0x00, 0x17, 0xa0, 0x09, 0x6d, 0x69, 0x67, 0x5f, 0x6e, 0x6f],
   [0x64, 0x65, 0x61, 0x70, 0x69, 0x2e, 0x65, 0x64, 0x67, 0x65, 0x73, 0x2e],
   [0x74, 0x65, 0x78, 0x74, 0x5f, 0x70, 0x6f, 0x73, 0x74, 0x5f, 0x61, 0x70],
   [0x70, 0x5f, 0x61, 0x75, 0x74, 0x68, 0x6f, 0x72, 0x5f, 0x72, 0x65, 0x70],
   [0x6c, 0x69, 0x65, 0x73, 0x5f, 0x6f, 0x6e, 0x5f, 0x74, 0x65, 0x78, 0x74],
   [0x5f, 0x70, 0x6f, 0x73, 0x74, 0x2e, 0x45, 0x64, 0x67, 0x65, 0x53, 0x65],
   [0x74, 0x54, 0x65, 0x78, 0x74, 0x50, 0x6f, 0x73, 0x74, 0x41, 0x70, 0x70],
   [0x41, 0x75, 0x74, 0x68, 0x6f, 0x72, 0x52, 0x65, 0x70, 0x6c, 0x69, 0x65],
   [0x73, 0x4f, 0x6e, 0x54, 0x65, 0x78, 0x74, 0x50, 0x6f, 0x73, 0x74, 0x2e],
   [0x5f, 0x5f, 0x69, 0x6e, 0x69, 0x74, 0x5f, 0x5f, 0xa0, 0x24, 0x72, 0x6f],
   [0x6f, 0x74, 0x40, 0x84, 0x95, 0xa6, 0xbe, 0x00, 0x00, 0x00, 0x05, 0x00],
   [0x00, 0x00, 0x02, 0x00, 0x00, 0x00, 0x06, 0x00, 0x00, 0x00, 0x06, 0xa0],
   [0x41, 0xa0, 0x41, 0x40, 0x84, 0x95, 0xa6, 0xbe, 0x00, 0x00, 0x00, 0x05],
   [0x00, 0x00, 0x00, 0x02, 0x00, 0x00, 0x00, 0x06, 0x00, 0x00, 0x00, 0x06],
   [0xa0, 0x40, 0xa0, 0x41, 0x40, 0x84, 0x95, 0xa6, 0xbe, 0x00, 0x00, 0x00],
   [0x87, 0x00, 0x00, 0x00, 0x04, 0x00, 0x00, 0x00, 0x2a, 0x00, 0x00, 0x00],
   [0x19, 0xa0, 0x09, 0x7d, 0x69, 0x67, 0x5f, 0x6e, 0x6f, 0x64, 0x65, 0x61],
   [0x70, 0x69, 0x2e, 0x65, 0x64, 0x67, 0x65, 0x73, 0x2e, 0x6d, 0x65, 0x64],
   [0x69, 0x61, 0x5f, 0x74, 0x6f, 0x5f, 0x63, 0x6f, 0x61, 0x75, 0x74, 0x68]] @
  [[0x6f, 0x72, 0x5f, 0x70, 0x72, 0x6f, 0x64, 0x75, 0x63, 0x65, 0x72, 0x73],
   [0x5f, 0x6f, 0x6e, 0x5f, 0x66, 0x65, 0x65, 0x64, 0x5f, 0x63, 0x61, 0x72],
   [0x6f, 0x75, 0x73, 0x65, 0x6c, 0x5f, 0x70, 0x6f, 0x73, 0x74, 0x2e, 0x45],
   [0x64, 0x67, 0x65, 0x53, 0x65, 0x74, 0x4d, 0x65, 0x64, 0x69, 0x61, 0x54],
   [0x6f, 0x43, 0x6f, 0x61, 0x75, 0x74, 0x68, 0x6f, 0x72, 0x50, 0x72, 0x6f],
   [0x64, 0x75, 0x63, 0x65, 0x72, 0x73, 0x4f, 0x6e, 0x46, 0x65, 0x65, 0x64],
   [0x43, 0x61, 0x72, 0x6f, 0x75, 0x73, 0x65, 0x6c, 0x50, 0x6f, 0x73, 0x74],
   [0x2e, 0x5f, 0x5f, 0xa0, 0x04, 0x7b, 0xa0, 0x04, 0x7a, 0xa0, 0x04, 0x79],
   [0xa0, 0x04, 0x78, 0xa0, 0x04, 0x77, 0xa0, 0x04, 0x76, 0xa0, 0x28, 0x53],
   [0x65, 0x71, 0x75, 0x65, 0x6e, 0x63, 0x65, 0x40, 0xa0, 0xa0, 0x04, 0x84],
   [0xa0, 0x04, 0x83, 0xa0, 0x04, 0x82, 0xa0, 0x04, 0x81, 0xa0, 0x04, 0x80],
   [0xa0, 0x04, 0x7f, 0xa0, 0x35, 0x43, 0x61, 0x6e, 0x6f, 0x6e, 0x69, 0x63],
   [0x61, 0x6c, 0x56, 0x61, 0x6c, 0x75, 0x65, 0x46, 0x65, 0x74, 0x63, 0x68],
   [0x65, 0x72, 0x40, 0xa0, 0xa0, 0x04, 0x8d, 0xa0, 0x04, 0x8c, 0xa0, 0x04],
   [0x8b, 0xa0, 0x04, 0x8a, 0xa0, 0x04, 0x89, 0xa0, 0x04, 0x88, 0xa0, 0x09],
   [0x2e, 0x63, 0x47, 0x65, 0x6e, 0x65, 0x72, 0x61, 0x74, 0x65, 0x64, 0x49],
   [0x6e, 0x73, 0x74, 0x61, 0x67, 0x72, 0x61, 0x6d, 0x46, 0x65, 0x65, 0x64],
   [0x53, 0x75, 0x67, 0x67, 0x65, 0x73, 0x74, 0x69, 0x6f, 0x6e, 0x45, 0x76],
   [0x65, 0x6e, 0x74, 0x4c, 0x6f, 0x67, 0x45, 0x6e, 0x74, 0x72, 0x79, 0x40],
   [0xa0, 0xa0, 0x04, 0x96, 0xa0, 0x04, 0x95, 0xa0, 0x04, 0x94, 0xa0, 0x04],
   [0x93, 0xa0, 0x04, 0x92, 0xa0, 0x04, 0x91, 0xa0, 0x09, 0x37, 0x47, 0x65],
   [0x6e, 0x65, 0x72, 0x61, 0x74, 0x65, 0x64, 0x49, 0x6e, 0x73, 0x74, 0x61],
   [0x67, 0x72, 0x61, 0x6d, 0x46, 0x65, 0x65, 0x64, 0x53, 0x75, 0x67, 0x67],
   [0x65, 0x73, 0x74, 0x69, 0x6f, 0x6e, 0x45, 0x76, 0x65, 0x6e, 0x74, 0x4c],
   [0x6f, 0x67, 0x45, 0x6e, 0x74, 0x72, 0x79, 0x54, 0x68, 0x72, 0x69, 0x66],
   [0x74, 0x42, 0x61, 0x73, 0x65, 0x40, 0xa0, 0xa0, 0x04, 0x9f, 0xa0, 0x04],
   [0x9e, 0xa0, 0x04, 0x9d, 0xa0, 0x04, 0x9c, 0xa0, 0x04, 0x9b, 0xa0, 0x04],
   [0x9a, 0xa0, 0x2c, 0x4c, 0x6f, 0x67, 0x45, 0x6e, 0x74, 0x72, 0x79, 0x42],
   [0x61, 0x73, 0x65, 0x40, 0xa0, 0xa0, 0x04, 0xa8, 0xa0, 0x04, 0xa7, 0xa0],
   [0x04, 0xa6, 0xa0, 0x04, 0xa5, 0xa0, 0x04, 0xa4, 0xa0, 0x04, 0xa3, 0xa0]]"

definition dictionary_rows_23 :: "u8 list list" where
  "dictionary_rows_23 =
  [[0x35, 0x4c, 0x6f, 0x67, 0x67, 0x69, 0x6e, 0x67, 0x44, 0x69, 0x73, 0x70],
   [0x61, 0x74, 0x63, 0x68, 0x4d, 0x65, 0x74, 0x68, 0x6f, 0x64, 0x40, 0xa0],
   [0xa0, 0x04, 0xb1, 0xa0, 0x04, 0xb0, 0xa0, 0x04, 0xaf, 0xa0, 0x04, 0xae],
   [0xa0, 0x04, 0xad, 0xa0, 0x04, 0xac, 0xa0, 0x2b, 0x4c, 0x6f, 0x67, 0x67],
   [0x69, 0x6e, 0x67, 0x4d, 0x6f, 0x64, 0x65, 0x40, 0xa0, 0xa0, 0x04, 0xba],
   [0xa0, 0x04, 0xb9, 0xa0, 0x04, 0xb8, 0xa0, 0x04, 0xb7, 0xa0, 0x04, 0xb6],
   [0xa0, 0x04, 0xb5, 0xa0, 0x2c, 0x53, 0x61, 0x6d, 0x70, 0x6c, 0x69, 0x6e],
   [0x67, 0x52, 0x61, 0x74, 0x65, 0x40, 0xa0, 0xa0, 0x04, 0xc3, 0xa0, 0x04],
   [0xc2, 0xa0, 0x04, 0xc1, 0xa0, 0x04, 0xc0, 0xa0, 0x04, 0xbf, 0xa0, 0x04],
   [0xbe, 0xa0, 0x29, 0x44, 0x65, 0x62, 0x75, 0x67, 0x49, 0x6e, 0x66, 0x6f],
   [0x40, 0xa0, 0xa0, 0x04, 0xcc, 0xa0, 0x04, 0xcb, 0xa0, 0x04, 0xca, 0xa0],
   [0x04, 0xc9, 0xa0, 0x04, 0xc8, 0xa0, 0x04, 0xc7, 0xa0, 0x29, 0x45, 0x72],
   [0x72, 0x6f, 0x72, 0x49, 0x6e, 0x66, 0x6f, 0x40, 0xa0, 0xa0, 0x04, 0xd5],
   [0xa0, 0x04, 0xd4, 0xa0, 0x04, 0xd3, 0xa0, 0x04, 0xd2, 0xa0, 0x04, 0xd1],
   [0xa0, 0x04, 0xd0, 0xa0, 0x29, 0x45, 0x72, 0x72, 0x6f, 0x72, 0x54, 0x79],
   [0x70, 0x65, 0x40, 0xa0, 0xa0, 0x04, 0xde, 0xa0, 0x04, 0xdd, 0xa0, 0x04],
   [0xdc, 0xa0, 0x04, 0xdb, 0xa0, 0x04, 0xda, 0xa0, 0x04, 0xd9, 0xa0, 0x32],
   [0x4c, 0x6f, 0x67, 0x44, 0x65, 0x73, 0x74, 0x69, 0x6e, 0x61, 0x74, 0x69],
   [0x6f, 0x6e, 0x49, 0x6e, 0x66, 0x6f, 0x40, 0xa0, 0xa0, 0x04, 0xe7, 0xa0],
   [0x04, 0xe6, 0xa0, 0x04, 0xe5, 0xa0, 0x04, 0xe4, 0xa0, 0x04, 0xe3, 0xa0],
   [0x04, 0xe2, 0xa0, 0x27, 0x4c, 0x6f, 0x67, 0x4d, 0x6f, 0x64, 0x65, 0x40],
   [0xa0, 0xa0, 0x04, 0xf0, 0xa0, 0x04, 0xef, 0xa0, 0x04, 0xee, 0xa0, 0x04],
   [0xed, 0xa0, 0x04, 0xec, 0xa0, 0x04, 0xeb, 0xa0, 0x32, 0x4c, 0x6f, 0x67],
   [0x52, 0x65, 0x71, 0x75, 0x65, 0x73, 0x74, 0x4d, 0x65, 0x74, 0x61, 0x64],
   [0x61, 0x74, 0x61, 0x40, 0xa0, 0xa0, 0x04, 0xf9, 0xa0, 0x04, 0xf8, 0xa0],
   [0x04, 0xf7, 0xa0, 0x04, 0xf6, 0xa0, 0x04, 0xf5, 0xa0, 0x04, 0xf4, 0xa0],
   [0x36, 0x4f, 0x44, 0x53, 0x49, 0x6e, 0x74, 0x65, 0x72, 0x6e, 0x61, 0x6c],
   [0x43, 0x6f, 0x75, 0x6e, 0x74, 0x65, 0x72, 0x49, 0x6e, 0x66, 0x6f, 0x40],
   [0xa0, 0xa0, 0x05, 0x01, 0x02, 0xa0, 0x05, 0x01, 0x01, 0xa0, 0x05, 0x01],
   [0x00, 0xa0, 0x04, 0xff, 0xa0, 0x04, 0xfe, 0xa0, 0x04, 0xfd, 0xa0, 0x35]] @
  [[0x56, 0x61, 0x6c, 0x69, 0x64, 0x61, 0x74, 0x69, 0x6f, 0x6e, 0x43, 0x68],
   [0x65, 0x63, 0x6b, 0x52, 0x65, 0x73, 0x75, 0x6c, 0x74, 0x40, 0xa0, 0xa0],
   [0x05, 0x01, 0x0b, 0xa0, 0x05, 0x01, 0x0a, 0xa0, 0x05, 0x01, 0x09, 0xa0],
   [0x05, 0x01, 0x08, 0xa0, 0x05, 0x01, 0x07, 0xa0, 0x05, 0x01, 0x06, 0xa0],
   [0x35, 0x56, 0x61, 0x6c, 0x69, 0x64, 0x61, 0x74, 0x69, 0x6f, 0x6e, 0x43],
   [0x68, 0x65, 0x63, 0x6b, 0x53, 0x74, 0x61, 0x74, 0x75, 0x73, 0x40, 0xa0],
   [0xa0, 0x05, 0x01, 0x14, 0xa0, 0x05, 0x01, 0x13, 0xa0, 0x05, 0x01, 0x12],
   [0xa0, 0x05, 0x01, 0x11, 0xa0, 0x05, 0x01, 0x10, 0xa0, 0x05, 0x01, 0x0f],
   [0xa0, 0x2a, 0x57, 0x65, 0x69, 0x67, 0x68, 0x74, 0x49, 0x6e, 0x66, 0x6f],
   [0x40, 0xa0, 0xa0, 0x05, 0x01, 0x1d, 0xa0, 0x05, 0x01, 0x1c, 0xa0, 0x05],
   [0x01, 0x1b, 0xa0, 0x05, 0x01, 0x1a, 0xa0, 0x05, 0x01, 0x19, 0xa0, 0x05],
   [0x01, 0x18, 0xa0, 0x38, 0x4c, 0x6f, 0x67, 0x67, 0x65, 0x72, 0x41, 0x64],
   [0x64, 0x69, 0x74, 0x69, 0x6f, 0x6e, 0x61, 0x6c, 0x4d, 0x65, 0x74, 0x61],
   [0x64, 0x61, 0x74, 0x61, 0x40, 0xa0, 0xa0, 0x05, 0x01, 0x26, 0xa0, 0x05],
   [0x01, 0x25, 0xa0, 0x05, 0x01, 0x24, 0xa0, 0x05, 0x01, 0x23, 0xa0, 0x05],
   [0x01, 0x22, 0xa0, 0x05, 0x01, 0x21, 0xa0, 0x32, 0x57, 0x68, 0x65, 0x6e],
   [0x63, 0x65, 0x53, 0x63, 0x72, 0x69, 0x62, 0x65, 0x4c, 0x6f, 0x67, 0x67],
   [0x65, 0x64, 0x40, 0xa0, 0xa0, 0x05, 0x01, 0x2f, 0xa0, 0x05, 0x01, 0x2e],
   [0xa0, 0x05, 0x01, 0x2d, 0xa0, 0x05, 0x01, 0x2c, 0xa0, 0x05, 0x01, 0x2b],
   [0xa0, 0x05, 0x01, 0x2a, 0xa0, 0x2f, 0x53, 0x74, 0x61, 0x63, 0x6b, 0x54],
   [0x72, 0x61, 0x63, 0x65, 0x47, 0x75, 0x61, 0x72, 0x64, 0x40, 0xa0, 0xa0],
   [0x05, 0x01, 0x38, 0xa0, 0x05, 0x01, 0x37, 0xa0, 0x05, 0x01, 0x36, 0xa0],
   [0x05, 0x01, 0x35, 0xa0, 0x05, 0x01, 0x34, 0xa0, 0x05, 0x01, 0x33, 0xa0],
   [0x32, 0x4f, 0x64, 0x73, 0x41, 0x67, 0x67, 0x72, 0x65, 0x67, 0x61, 0x74],
   [0x69, 0x6f, 0x6e, 0x54, 0x79, 0x70, 0x65, 0x40, 0xa0, 0xa0, 0x05, 0x01],
   [0x41, 0xa0, 0x05, 0x01, 0x40, 0xa0, 0x05, 0x01, 0x3f, 0xa0, 0x05, 0x01],
   [0x3e, 0xa0, 0x05, 0x01, 0x3d, 0xa0, 0x05, 0x01, 0x3c, 0xa0, 0x09, 0x2d],
   [0x47, 0x65, 0x6e, 0x65, 0x72, 0x61, 0x74, 0x65, 0x64, 0x49, 0x6e, 0x73],
   [0x74, 0x61, 0x67, 0x72, 0x61, 0x6d, 0x46, 0x65, 0x65, 0x64, 0x53, 0x75],
   [0x67, 0x67, 0x65, 0x73, 0x74, 0x69, 0x6f, 0x6e, 0x45, 0x76, 0x65, 0x6e]] @
  [[0x74, 0x44, 0x65, 0x72, 0x69, 0x76, 0x65, 0x72, 0x73, 0x40, 0xa0, 0xa0],
   [0x05, 0x01, 0x4a, 0xa0, 0x05, 0x01, 0x49, 0xa0, 0x05, 0x01, 0x48, 0xa0],
   [0x05, 0x01, 0x47, 0xa0, 0x05, 0x01, 0x46, 0xc7, 0x46, 0x89, 0x33, 0xcc],
   [0x87, 0xd1, 0x98, 0x90, 0xc1, 0x40, 0x41, 0x05, 0x2e, 0x1f, 0x05, 0x3a],
   [0x26, 0xa0, 0x03, 0x04, 0x00, 0x00, 0x01, 0x00, 0x00, 0x00, 0x00, 0x40],
   [0x90, 0x40, 0x90, 0x05, 0x3b, 0xaa, 0x90, 0x49, 0x90, 0x90, 0x05, 0x2e],
   [0x1c, 0x90, 0xa0, 0x40, 0x40, 0x90, 0xa0, 0x40, 0x40, 0x90, 0x40, 0xd0],
   [0x40, 0x05, 0x2e, 0x1b, 0x08, 0x00, 0x00, 0x20, 0x00, 0x90, 0xa0, 0xa0],
   [0x03, 0xc7, 0x46, 0x89, 0x33, 0xcc, 0x87, 0xd1, 0x98, 0x90, 0x04, 0x12],
   [0xa0, 0x03, 0x04, 0x00, 0x00, 0x01, 0x00, 0x00, 0x00, 0x00, 0x40, 0x90],
   [0x40, 0x90, 0x05, 0x3b, 0xbb, 0x90, 0x49, 0x90, 0x90, 0x05, 0x2e, 0x19],
   [0x90, 0xa0, 0x40, 0x40, 0x90, 0xa0, 0x40, 0x40, 0x90, 0x40, 0x40, 0x41],
   [0x42, 0x90, 0x90, 0xc0, 0xc0, 0xc0, 0xc0, 0xc0, 0x40, 0x05, 0x3b, 0xbd],
   [0x40, 0x41, 0x05, 0x3b, 0xb9, 0x40, 0x42, 0x05, 0x3b, 0xb5, 0xc0, 0x40],
   [0x05, 0x3a, 0x9d, 0x40, 0x41, 0x43, 0x05, 0x3a, 0x9c, 0xc0, 0x40, 0x05],
   [0x3a, 0x98, 0xc0, 0x40, 0x05, 0x3a, 0x96, 0x40, 0x41, 0x42, 0x44, 0x05],
   [0x36, 0xda, 0xc0, 0xc0, 0xc0, 0xc0, 0x40, 0x05, 0x36, 0xd7, 0x40, 0x41],
   [0x05, 0x36, 0xd6, 0x40, 0x42, 0x05, 0x36, 0xd5, 0x40, 0x43, 0x05, 0x36],
   [0xd2, 0xc0, 0x40, 0x05, 0x36, 0xcf, 0x40, 0x41, 0x44, 0x45, 0x90, 0xa0],
   [0xa0, 0x03, 0xc7, 0x46, 0x09, 0x63, 0xc4, 0x9f, 0xd1, 0x80, 0x90, 0x05],
   [0x3a, 0x9a, 0xa0, 0x03, 0x00, 0x00, 0x00, 0x03, 0x40, 0x00, 0x00, 0x00],
   [0x40, 0x90, 0xa0, 0x01, 0x10, 0x00, 0x40, 0x90, 0xa0, 0x40, 0x40, 0x90],
   [0xb0, 0xa0, 0x05, 0x3b, 0xbb, 0x40, 0xa0, 0x05, 0x36, 0xcc, 0x40, 0x40],
   [0x90, 0x40, 0xd0, 0x40, 0xc2, 0x05, 0x1e, 0x60, 0xa0, 0x90, 0x34, 0x63],
   [0x61, 0x72, 0x6f, 0x75, 0x73, 0x65, 0x6c, 0x5f, 0x6d, 0x65, 0x64, 0x69],
   [0x61, 0x73, 0x5f, 0x69, 0x6e, 0x66, 0x6f, 0xa0, 0x40, 0xa0, 0x90, 0x2c],
   [0x6d, 0x65, 0x64, 0x69, 0x61, 0x5f, 0x62, 0x75, 0x6e, 0x64, 0x6c, 0x65],
   [0x40, 0x05, 0x1e, 0x5b, 0xa0, 0x05, 0x1e, 0x52, 0x40, 0xf0, 0x90, 0xd0],
   [0xd0, 0xd0, 0xd0, 0xd0, 0x40, 0x91, 0xa0, 0x09, 0x22, 0x44, 0x61, 0x74],
   [0x61, 0x46, 0x72, 0x6f, 0x6d, 0x49, 0x6e, 0x74, 0x65, 0x72, 0x6e, 0x65]] @
  [[0x74, 0x41, 0x6e, 0x64, 0x53, 0x74, 0x72, 0x69, 0x6e, 0x67, 0x4d, 0x61],
   [0x79, 0x42, 0x65, 0x48, 0x54, 0x4d, 0x4c, 0x24, 0x6d, 0x61, 0x69, 0x6e],
   [0x08, 0x00, 0x00, 0x20, 0x00, 0x90, 0xa0, 0xa0, 0x03, 0xc7, 0x46, 0x89],
   [0x33, 0xcc, 0x8f, 0xd3, 0x98, 0x90, 0xc1, 0x40, 0x41, 0x05, 0x36, 0xcf],
   [0x05, 0x3a, 0x7a, 0xa0, 0x03, 0x00, 0x00, 0x00, 0x03, 0x40, 0x00, 0x00],
   [0x00, 0x40, 0x90, 0x40, 0x90, 0x05, 0x3b, 0xfe, 0x90, 0x4d, 0x90, 0x90],
   [0xc1, 0x41, 0x42, 0x05, 0x36, 0xcc, 0x05, 0x36, 0xcb, 0x90, 0xa0, 0x01],
   [0x10, 0x00, 0x40, 0x90, 0xa0, 0x40, 0x40, 0x90, 0xc0, 0xc0, 0x40, 0xb0],
   [0x01, 0x14, 0xff, 0x91, 0xb0, 0x09, 0x44, 0x69, 0x67, 0x5f, 0x6e, 0x6f],
   [0x64, 0x65, 0x61, 0x70, 0x69, 0x2e, 0x70, 0x72, 0x69, 0x76, 0x61, 0x63],
   [0x79, 0x2e, 0x63, 0x6f, 0x6d, 0x70, 0x61, 0x72, 0x61, 0x74, 0x6f, 0x72],
   [0x5f, 0x76, 0x69, 0x65, 0x77, 0x65, 0x72, 0x5f, 0x63, 0x6f, 0x6e, 0x74],
   [0x65, 0x78, 0x74, 0x2e, 0x43, 0x6f, 0x6d, 0x70, 0x61, 0x72, 0x61, 0x74],
   [0x6f, 0x72, 0x56, 0x69, 0x65, 0x77, 0x65, 0x72, 0x43, 0x6f, 0x6e, 0x74],
   [0x65, 0x78, 0x74, 0x28, 0x5f, 0x5f, 0x72, 0x65, 0x70, 0x72, 0x5f, 0x5f],
   [0x40, 0xb4, 0x93, 0x2f, 0x3c, 0x66, 0x6f, 0x72, 0x6d, 0x61, 0x74, 0x2d],
   [0x73, 0x74, 0x72, 0x69, 0x6e, 0x67, 0x3e, 0x40, 0x40, 0x40, 0x41, 0xb0],
   [0x01, 0x14, 0xff, 0x91, 0xb0, 0x09, 0x39, 0x69, 0x67, 0x5f, 0x6e, 0x6f],
   [0x64, 0x65, 0x61, 0x70, 0x69, 0x2e, 0x70, 0x72, 0x69, 0x76, 0x61, 0x63],
   [0x79, 0x2e, 0x76, 0x69, 0x65, 0x77, 0x65, 0x72, 0x5f, 0x63, 0x6f, 0x6e],
   [0x74, 0x65, 0x78, 0x74, 0x5f, 0x62, 0x61, 0x73, 0x65, 0x2e, 0x49, 0x56],
   [0x69, 0x65, 0x77, 0x65, 0x72, 0x43, 0x6f, 0x6e, 0x74, 0x65, 0x78, 0x74],
   [0x42, 0x61, 0x73, 0x65, 0x28, 0x5f, 0x5f, 0x72, 0x65, 0x70, 0x72, 0x5f],
   [0x5f, 0x40, 0xb4, 0x93, 0x2f, 0x3c, 0x66, 0x6f, 0x72, 0x6d, 0x61, 0x74],
   [0x2d, 0x73, 0x74, 0x72, 0x69, 0x6e, 0x67, 0x3e, 0x40, 0x40, 0xc0, 0x40],
   [0x05, 0x36, 0xca, 0x40, 0x41, 0x42, 0x40, 0x41, 0x92, 0x35, 0x4e, 0x6f],
   [0x64, 0x65, 0x4c, 0x6f, 0x61, 0x64, 0x56, 0x69, 0x65, 0x77, 0x65, 0x72],
   [0x43, 0x6f, 0x6e, 0x74, 0x65, 0x78, 0x74, 0x08, 0x00, 0x00, 0x20, 0x00],
   [0x90, 0xa0, 0xa0, 0x03, 0xc7, 0x46, 0x89, 0x33, 0xcc, 0x8f, 0xd3, 0x98],
   [0x90, 0xc1, 0x40, 0x41, 0xc1, 0x4c, 0x60, 0x90, 0x03, 0xd3, 0x75, 0xf7]] @
  [[0x89, 0x55, 0xaf, 0x1d, 0x4c, 0x90, 0x03, 0xff, 0xcd, 0xfb, 0xb4, 0xa9],
   [0x2a, 0x1c, 0x6c, 0x05, 0x3a, 0xa4, 0xa0, 0x03, 0x00, 0x00, 0x00, 0x01],
   [0x40, 0x00, 0x00, 0x00, 0x40, 0x90, 0x40, 0x90, 0x05, 0x3c, 0x28, 0x90],
   [0x4c, 0x90, 0x90, 0xc1, 0x40, 0x42, 0x90, 0x03, 0x16, 0x28, 0xdd, 0xa1],
   [0x41, 0x56, 0xab, 0xb0, 0x90, 0x03, 0x2f, 0x2e, 0x78, 0x17, 0xc6, 0xee],
   [0xae, 0x5a, 0x90, 0xa0, 0x01, 0x10, 0x00, 0x40, 0x90, 0xa0, 0x40, 0x40],
   [0x90, 0x40, 0x40, 0x42, 0x92, 0x26, 0x54, 0x68, 0x72, 0x69, 0x66, 0x74],
   [0x08, 0x00, 0x00, 0x20, 0x00, 0x90, 0xa0, 0xa0, 0x03, 0xc7, 0x46, 0x89],
   [0x33, 0xcc, 0x8f, 0xd3, 0x98, 0x90, 0xc1, 0x40, 0x41, 0xc1, 0x4c, 0x60],
   [0x90, 0x03, 0xd3, 0x75, 0xf7, 0x89, 0x55, 0xaf, 0x1d, 0x4c, 0x90, 0x03],
   [0xff, 0xcd, 0xfb, 0xb4, 0xa9, 0x2a, 0x1c, 0x6c, 0xc1, 0x43, 0x44, 0x90],
   [0x03, 0xd8, 0x23, 0x26, 0x92, 0x11, 0x82, 0x5a, 0xdb, 0x05, 0x36, 0xb6],
   [0xa0, 0x03, 0x04, 0x00, 0x00, 0x01, 0x40, 0x00, 0x00, 0x00, 0x40, 0x90],
   [0x40, 0x90, 0x05, 0x3c, 0x43, 0x90, 0x4e, 0x90, 0x90, 0xc1, 0x40, 0x41],
   [0xc1, 0x40, 0x42, 0xc1, 0x44, 0x48, 0xc1, 0x64, 0x00, 0x40, 0x90, 0x03],
   [0x3d, 0x37, 0x29, 0xf7, 0x79, 0x21, 0x86, 0xa4, 0x90, 0x03, 0xc7, 0x9e],
   [0x5c, 0xfe, 0x4c, 0xb1, 0x06, 0xe4, 0xc1, 0x00, 0x5c, 0x01, 0x00, 0x80],
   [0x90, 0x03, 0xcd, 0xc8, 0xfe, 0x37, 0x25, 0x20, 0x23, 0x5c, 0x90, 0x03],
   [0x17, 0xfa, 0xd9, 0xa4, 0x13, 0x87, 0x5c, 0xdc, 0xc1, 0x42, 0x44, 0xc1],
   [0x42, 0x48, 0x90, 0x03, 0x39, 0xb8, 0x00, 0x2d, 0xff, 0x8c, 0x76, 0x42],
   [0x90, 0x03, 0x0a, 0x59, 0x93, 0x25, 0xae, 0xf1, 0x10, 0xfa, 0x90, 0x03],
   [0xf6, 0x20, 0xb8, 0x6f, 0xda, 0x47, 0x7e, 0xfe, 0xc1, 0x41, 0x42, 0xc1],
   [0x41, 0x44, 0xc1, 0x41, 0x48, 0x90, 0x03, 0xf4, 0xe9, 0xcc, 0xc1, 0x78],
   [0xa3, 0xb2, 0xa1, 0xc1, 0x49, 0x50, 0x90, 0x03, 0x36, 0x8b, 0xb2, 0xec],
   [0x25, 0x45, 0x19, 0x29, 0x90, 0x03, 0xf8, 0x24, 0xaa, 0xfb, 0xcf, 0x43],
   [0xe4, 0x99, 0x90, 0x03, 0xec, 0x63, 0x94, 0x77, 0xb7, 0x17, 0x58, 0xed],
   [0xc1, 0x43, 0x44, 0xc1, 0x4b, 0x50, 0x90, 0x03, 0x1f, 0xd7, 0x6f, 0xc6],
   [0xc0, 0x01, 0xb9, 0x0b, 0x90, 0x03, 0x31, 0xe1, 0x57, 0x6d, 0xe7, 0xc1],
   [0x42, 0x48, 0xc1, 0x42, 0x50, 0xc1, 0x62, 0x00, 0x40, 0xc1, 0x62, 0x01],
   [0x00, 0x80, 0x90, 0x03, 0x2b, 0x69, 0x74, 0x52, 0xe3, 0x75, 0x74, 0x22]]"

definition dictionary_rows_24 :: "u8 list list" where
  "dictionary_rows_24 =
  [[0x90, 0x03, 0x12, 0x44, 0xac, 0x95, 0x41, 0xd2, 0x90, 0xa2, 0xc1, 0x00],
   [0x62, 0x01, 0x00, 0x80, 0x90, 0x03, 0x3b, 0x33, 0xe1, 0xa8, 0xd2, 0x27],
   [0x69, 0x62, 0xc1, 0x01, 0x01, 0xe2, 0x01, 0x02, 0x00, 0x90, 0x03, 0x2f],
   [0x77, 0x94, 0x0e, 0x0a, 0xe5, 0x85, 0xe2, 0x90, 0x03, 0xd4, 0x36, 0x4b],
   [0x5f, 0x00, 0xa3, 0x2b, 0xe2, 0x90, 0x03, 0xe0, 0xdf, 0xfc, 0x1b, 0x4b],
   [0x4a, 0xe3, 0xf2, 0xc1, 0x4a, 0x50, 0xc1, 0x4a, 0x60, 0xc1, 0x4a, 0x00],
   [0x40, 0x90, 0x03, 0xfa, 0x63, 0xad, 0x38, 0x7c, 0x7c, 0xb8, 0x8a, 0x90],
   [0x03, 0x2c, 0xdc, 0x6d, 0x45, 0x00, 0x57, 0xfb, 0x4a, 0xc1, 0x6a, 0x00],
   [0x40, 0x90, 0x03, 0xcc, 0xd2, 0xe9, 0x9c, 0x60, 0x65, 0x3a, 0x2a, 0x90],
   [0x03, 0xf6, 0xc9, 0x4e, 0x59, 0xbe, 0x52, 0xaf, 0x6a, 0xc1, 0x5a, 0x60],
   [0xc1, 0x5a, 0x01, 0x00, 0x80, 0x90, 0x03, 0xc8, 0x57, 0xc2, 0xc3, 0x6c],
   [0xc4, 0x5f, 0x1a, 0x90, 0x03, 0x08, 0x9c, 0x8a, 0x7a, 0xed, 0xd0, 0x80],
   [0x9a, 0x90, 0x03, 0x05, 0xaf, 0x67, 0x2c, 0xab, 0xcc, 0x3e, 0x3a, 0xc1],
   [0x46, 0x48, 0xc1, 0x46, 0x50, 0xc1, 0x46, 0x60, 0xc1, 0x46, 0x00, 0x40],
   [0x90, 0x03, 0xd6, 0x57, 0xc1, 0x5e, 0x86, 0x0b, 0xa0, 0x86, 0x90, 0x03],
   [0xdd, 0xbf, 0xd2, 0xdd, 0x80, 0xa3, 0x38, 0x46, 0x90, 0x03, 0x30, 0xd2],
   [0x63, 0xad, 0xef, 0x41, 0x99, 0xa6, 0xc1, 0x56, 0x00, 0x40, 0xc1, 0x56],
   [0x01, 0x00, 0x80, 0x90, 0x03, 0x2e, 0xab, 0x74, 0x1e, 0x83, 0x29, 0xc2],
   [0x16, 0x90, 0x03, 0x2b, 0x44, 0x4e, 0x28, 0x40, 0xa2, 0xc1, 0x96, 0xc1],
   [0x01, 0x0f, 0xd6, 0x01, 0x10, 0x00, 0x90, 0x03, 0x2f, 0x5a, 0xb5, 0xe0],
   [0x2e, 0x95, 0xaf, 0xd6, 0x90, 0x03, 0x35, 0x43, 0xbc, 0x23, 0x8a, 0x68],
   [0xbf, 0xd6, 0xc1, 0x4e, 0x50, 0xc1, 0x4e, 0x60, 0xc1, 0x01, 0x00, 0x8e],
   [0x01, 0x01, 0x00, 0x90, 0x03, 0x34, 0x8c, 0xcb, 0x60, 0xf1, 0x36, 0x5c],
   [0x8e, 0x90, 0x03, 0x33, 0xbe, 0xaf, 0xd3, 0xae, 0x24, 0x1f, 0x8e, 0xc1],
   [0x00, 0x6e, 0x01, 0x00, 0x80, 0x90, 0x03, 0x31, 0xda, 0x2b, 0x03, 0x71],
   [0x8a, 0x4e, 0x6e, 0xc1, 0x01, 0x01, 0xee, 0x01, 0x02, 0x00, 0x90, 0x03],
   [0xcc, 0x3d, 0x31, 0x68, 0x8e, 0x94, 0xc9, 0xee, 0x90, 0x03, 0xd7, 0x6d],
   [0xc1, 0xc6, 0xe6, 0xcc, 0x4f, 0xee, 0xc1, 0x5e, 0x60, 0x90, 0x03, 0xd8],
   [0x6f, 0x02, 0xf1, 0x65, 0x7c, 0xb2, 0x9e, 0x90, 0x03, 0xfd, 0x9d, 0xea],
   [0x07, 0xa8, 0x4c, 0xbb, 0xbe, 0xc1, 0x41, 0x42, 0xc1, 0x41, 0x44, 0xc1]] @
  [[0x41, 0x48, 0xc1, 0x41, 0x50, 0xc1, 0x41, 0x60, 0xc1, 0x41, 0x00, 0x40],
   [0x90, 0x03, 0xcb, 0x82, 0x02, 0x7f, 0x56, 0x93, 0x2c, 0x81, 0x90, 0x03],
   [0xfc, 0xa7, 0xf1, 0x34, 0x35, 0x8a, 0x84, 0x41, 0xc1, 0x61, 0x00, 0x40],
   [0xc1, 0x61, 0x01, 0x00, 0x80, 0x90, 0x03, 0x20, 0x62, 0xae, 0xa5, 0x70],
   [0x14, 0xdd, 0x21, 0x90, 0x03, 0x2b, 0x83, 0xa4, 0xbc, 0x5d, 0x6f, 0xb2],
   [0xa1, 0x90, 0x03, 0xee, 0xaa, 0xca, 0x7a, 0xc6, 0xf6, 0x8e, 0x61, 0xc1],
   [0x51, 0x00, 0x40, 0x90, 0x03, 0x19, 0x51, 0x69, 0x32, 0xad, 0x01, 0xd5],
   [0x11, 0xc1, 0x01, 0x00, 0xd1, 0x01, 0x01, 0x00, 0x90, 0x03, 0xed, 0x54],
   [0xe0, 0xee, 0xe0, 0x71, 0x80, 0xd1, 0x90, 0x03, 0xd6, 0x55, 0x6a, 0x27],
   [0xba, 0xc2, 0x25, 0xd1, 0xc1, 0x49, 0x50, 0xc1, 0x49, 0x60, 0xc1, 0x49],
   [0x00, 0x40, 0xc1, 0x49, 0x01, 0x00, 0x80, 0x90, 0x03, 0xfc, 0x1b, 0xaa],
   [0xf3, 0x19, 0xec, 0x57, 0x09, 0x90, 0x03, 0x3c, 0x33, 0xf9, 0xc7, 0x46],
   [0x8d, 0x01, 0x89, 0xc1, 0x00, 0x49, 0x01, 0x00, 0x80, 0x90, 0x03, 0x25],
   [0x92, 0x3e, 0xb0, 0xc0, 0x13, 0x4d, 0x49, 0x90, 0x03, 0x22, 0xbd, 0x4e],
   [0x74, 0xad, 0xb6, 0x30, 0xc9, 0xc1, 0x01, 0x00, 0xe9, 0x01, 0x04, 0x00],
   [0x90, 0x03, 0xe8, 0x9d, 0x94, 0x91, 0x17, 0x77, 0x78, 0xe9, 0x90, 0x03],
   [0x35, 0x61, 0x7c, 0x84, 0xff, 0xe0, 0x3c, 0xe9, 0xc1, 0x59, 0x60, 0x90],
   [0x03, 0xee, 0xfc, 0xe2, 0x4b, 0xf7, 0xed, 0x4e, 0x19, 0x90, 0x03, 0xe3],
   [0xb2, 0x66, 0xd6, 0x3a, 0xa5, 0xef, 0x79, 0xc1, 0x45, 0x48, 0xc1, 0x45],
   [0x50, 0xc1, 0x45, 0x00, 0x40, 0xc1, 0x45, 0x01, 0x00, 0x80, 0xc1, 0x45],
   [0x01, 0x01, 0x00, 0xc1, 0x45, 0x01, 0x02, 0x00, 0x90, 0x03, 0x1e, 0xf4],
   [0x0e, 0xda, 0xa0, 0x34, 0xfc, 0x05, 0x90, 0x03, 0x22, 0xe5, 0xf1, 0x22],
   [0xab, 0xc2, 0x6e, 0x05, 0x90, 0x03, 0xce, 0xd8, 0x71, 0x3c, 0xf2, 0xbd],
   [0x09, 0x05, 0x90, 0x03, 0x3a, 0x8c, 0x3b, 0x83, 0x77, 0xf1, 0x6f, 0x85],
   [0x90, 0x03, 0xd9, 0x62, 0x51, 0x69, 0x86, 0x97, 0xbf, 0xc5, 0xc1, 0x55],
   [0x60, 0x90, 0x03, 0x3c, 0x03, 0x20, 0x14, 0x40, 0x7b, 0x3f, 0x95, 0xc1],
   [0x75, 0x01, 0x01, 0x00, 0x90, 0x03, 0x23, 0xae, 0x12, 0x01, 0x61, 0xb2],
   [0x86, 0x35, 0x90, 0x03, 0x01, 0x65, 0x9e, 0x99, 0x33, 0xc2, 0xbd, 0x35],
   [0xc1, 0x4d, 0x50, 0xc1, 0x4d, 0x60, 0xc1, 0x4d, 0x00, 0x40, 0x90, 0x03],
   [0x2a, 0xd6, 0x27, 0xb6, 0x93, 0x0f, 0x35, 0x8d, 0xc1, 0x00, 0x4d, 0x01]] @
  [[0x00, 0x80, 0x90, 0x03, 0x3f, 0x78, 0x22, 0x94, 0x89, 0xbd, 0x64, 0x4d],
   [0x90, 0x03, 0x3c, 0xf6, 0x14, 0x23, 0x46, 0xbb, 0xae, 0xcd, 0x90, 0x03],
   [0xe5, 0xa6, 0xcc, 0xea, 0x65, 0xb4, 0x5d, 0x6d, 0xc1, 0x5d, 0x60, 0xc1],
   [0x01, 0x01, 0xdd, 0x01, 0x02, 0x00, 0x90, 0x03, 0xee, 0x77, 0x10, 0x63],
   [0x23, 0xad, 0xc5, 0xdd, 0x90, 0x03, 0xc8, 0xdd, 0xe2, 0xf1, 0xf3, 0x84],
   [0x73, 0xdd, 0xc1, 0x00, 0x7d, 0x01, 0x00, 0x80, 0x90, 0x03, 0xd7, 0x26],
   [0x38, 0xfa, 0x4a, 0x6e, 0xae, 0x7d, 0x90, 0x03, 0xee, 0x54, 0x94, 0x3b],
   [0x21, 0x85, 0x96, 0xfd, 0xc1, 0x43, 0x44, 0xc1, 0x43, 0x48, 0xc1, 0x43],
   [0x50, 0xc1, 0x43, 0x60, 0x90, 0x03, 0xfc, 0x4e, 0xfd, 0x53, 0xfd, 0x61],
   [0x5e, 0x43, 0x90, 0x03, 0x03, 0x2a, 0x80, 0x5a, 0xf9, 0x7f, 0xc1, 0x63],
   [0xc1, 0x53, 0x60, 0x90, 0x03, 0xcb, 0xd1, 0xf1, 0xf1, 0xc3, 0x36, 0x91],
   [0x93, 0xc1, 0x73, 0x00, 0x40, 0x90, 0x03, 0x3c, 0x6f, 0x4a, 0x28, 0x9a],
   [0xcd, 0xd7, 0x33, 0x90, 0x03, 0x14, 0xab, 0x62, 0x69, 0x15, 0xc3, 0x65],
   [0x73, 0xc1, 0x4b, 0x50, 0xc1, 0x4b, 0x60, 0x90, 0x03, 0x2b, 0xa7, 0xec],
   [0xe5, 0x6b, 0x2a, 0x02, 0xcb, 0xc1, 0x6b, 0x00, 0x40, 0x90, 0x03, 0xc9],
   [0x60, 0x32, 0xd7, 0xbb, 0x40, 0x9f, 0xab, 0x90, 0x03, 0xf6, 0x5f, 0x07],
   [0xd7, 0x71, 0x03, 0x18, 0xeb, 0xc1, 0x5b, 0x60, 0x90, 0x03, 0x04, 0xba],
   [0xfe, 0xd0, 0xf5, 0x2c, 0x4a, 0x9b, 0xc1, 0x7b, 0x00, 0x40, 0x90, 0x03],
   [0x0e, 0xa5, 0x16, 0x73, 0xc7, 0xdd, 0xf5, 0xbb, 0x90, 0x03, 0xc9, 0xf5],
   [0xc4, 0xcb, 0xc0, 0x7e, 0xee, 0xfb, 0xc1, 0x47, 0x48, 0xc1, 0x47, 0x50],
   [0x90, 0x03, 0x27, 0x04, 0x8a, 0x9d, 0x32, 0x0e, 0x62, 0x07, 0xc1, 0x57],
   [0x60, 0x90, 0x03, 0x3d, 0x7b, 0x91, 0x2a, 0x91, 0x96, 0xec, 0x57, 0x90],
   [0x03, 0x3b, 0x54, 0x08, 0x06, 0xf5, 0x30, 0xdd, 0xf7, 0xc1, 0x4f, 0x50],
   [0xc1, 0x4f, 0x60, 0x8a, 0x2a, 0x4e, 0xa9, 0x44, 0xfe, 0x44, 0xc1, 0x01],
   [0x01, 0x44, 0x01, 0x04, 0x00, 0x90, 0x03, 0xfa, 0xd7, 0x0a, 0xa7, 0x3b],
   [0x90, 0x69, 0x44, 0x90, 0x03, 0xe0, 0x60, 0x28, 0xae, 0xd2, 0x3d, 0x95],
   [0x44, 0x90, 0x03, 0x0f, 0x7b, 0xaa, 0xd1, 0xe7, 0x16, 0x71, 0x64, 0xc1],
   [0x54, 0x01, 0x02, 0x00, 0x90, 0x03, 0xc3, 0xf8, 0x1a, 0x4f, 0x7e, 0x8f],
   [0x00, 0x14, 0x90, 0x03, 0x19, 0xc0, 0x0d, 0x25, 0x94, 0x91, 0x42, 0x14],
   [0xc1, 0x4c, 0x50, 0xc1, 0x4c, 0x60, 0x90, 0x03, 0xff, 0xe2, 0x7a, 0x3e]] @
  [[0xf3, 0xe3, 0x51, 0x8c, 0xc1, 0x6c, 0x00, 0x40, 0x90, 0x03, 0xcf, 0x86],
   [0x7b, 0xe2, 0xe7, 0xdc, 0xee, 0x2c, 0xc1, 0x00, 0x6c, 0x01, 0x00, 0x80],
   [0x90, 0x03, 0x1a, 0x2c, 0xcd, 0xfa, 0x52, 0xf0, 0x9f, 0x6c, 0x90, 0x03],
   [0x33, 0x82, 0xf2, 0x46, 0xa3, 0x80, 0x97, 0xec, 0xc1, 0x5c, 0x60, 0x90],
   [0x03, 0xc4, 0xf7, 0x19, 0x5e, 0x59, 0xce, 0x32, 0x1c, 0xc1, 0x7c, 0x00],
   [0x40, 0xc1, 0x01, 0x06, 0xbc, 0x01, 0x08, 0x00, 0x90, 0x03, 0xfe, 0x10],
   [0xf7, 0x64, 0xc0, 0x31, 0x96, 0xbc, 0x90, 0x03, 0x00, 0xa7, 0xf4, 0x24],
   [0xb0, 0xdc, 0x1e, 0xbc, 0x90, 0x03, 0x0b, 0x71, 0xe8, 0x95, 0x19, 0x4e],
   [0xbb, 0xfc, 0xc1, 0x42, 0x44, 0xc1, 0x42, 0x48, 0xc1, 0x42, 0x50, 0xc1],
   [0x42, 0x60, 0x90, 0x03, 0x35, 0x6b, 0x40, 0x2e, 0xb5, 0xd4, 0x7b, 0x42],
   [0x90, 0x03, 0xfc, 0x75, 0x67, 0x33, 0x15, 0x0b, 0x50, 0x22, 0xc1, 0x72],
   [0x00, 0x40, 0x90, 0x03, 0x21, 0xfe, 0x91, 0x5b, 0xb3, 0x9a, 0xe1, 0x32],
   [0x90, 0x03, 0xea, 0x94, 0x90, 0x40, 0xa1, 0x2d, 0x22, 0xf2, 0xc1, 0x4a],
   [0x50, 0x90, 0x03, 0x12, 0x4d, 0x59, 0x32, 0x9e, 0xe7, 0xf8, 0x8a, 0x90],
   [0x03, 0xcc, 0x1b, 0xbe, 0xa1, 0x10, 0x4d, 0xb9, 0x5a, 0xc1, 0x46, 0x48],
   [0xc1, 0x56, 0x60, 0x90, 0x03, 0xff, 0x96, 0xf4, 0x01, 0xc3, 0x16, 0x7d],
   [0x16, 0xc1, 0x76, 0x00, 0x40, 0x90, 0x03, 0xed, 0xa5, 0xa4, 0xca, 0x90],
   [0xc5, 0xf2, 0x36, 0x90, 0x03, 0x17, 0xb0, 0xa8, 0x88, 0x82, 0x65, 0x80],
   [0xf6, 0xc1, 0x4e, 0x50, 0xc1, 0x4e, 0x60, 0xc1, 0x4e, 0x00, 0x40, 0x90],
   [0x03, 0x2c, 0x9e, 0xe8, 0x34, 0x4a, 0xe2, 0xcf, 0x0e, 0x90, 0x03, 0xef],
   [0x07, 0xa5, 0x4a, 0xf8, 0x1d, 0xb3, 0x4e, 0xc1, 0x6e, 0x00, 0x40, 0x90],
   [0x03, 0xd4, 0xc8, 0x82, 0x48, 0x19, 0x68, 0xb9, 0xae, 0x90, 0x03, 0x30],
   [0x5d, 0x9d, 0x62, 0xf7, 0x6f, 0x1f, 0xee, 0xc1, 0x00, 0x7e, 0x01, 0x00],
   [0x80, 0x90, 0x03, 0xdb, 0x76, 0xa8, 0x2e, 0x0a, 0xd5, 0x40, 0x7e, 0x90],
   [0x03, 0xfd, 0x87, 0xb0, 0xee, 0x3c, 0xa0, 0x9c, 0xfe, 0xc1, 0x41, 0x42],
   [0xc1, 0x41, 0x44, 0xc1, 0x41, 0x48, 0xc1, 0x41, 0x60, 0x90, 0x03, 0xd7],
   [0xcd, 0x8b, 0xf7, 0x70, 0x38, 0x73, 0x41, 0x90, 0x03, 0x37, 0xcf, 0xb3],
   [0x9b, 0x6b, 0xda, 0x59, 0x61, 0xc1, 0x49, 0x50, 0x90, 0x03, 0x27, 0x62],
   [0x88, 0x43, 0xd2, 0x45, 0x27, 0x29, 0xc1, 0x00, 0x59, 0x01, 0x00, 0x80],
   [0xc1, 0x00, 0x59, 0x01, 0x01, 0x00, 0x90, 0x03, 0x00, 0x35, 0xd9, 0xae]] @
  [[0x65, 0xeb, 0x04, 0x59, 0x90, 0x03, 0x08, 0x32, 0x6e, 0x9d, 0x95, 0x96],
   [0x5d, 0x59, 0x90, 0x03, 0x19, 0x43, 0x7e, 0x81, 0xda, 0x28, 0xa8, 0xd9],
   [0xc1, 0x45, 0x48, 0x90, 0x03, 0xf0, 0x49, 0xa6, 0x24, 0xae, 0xa4, 0xde],
   [0xb5, 0xc1, 0x4d, 0x50, 0xc1, 0x4d, 0x60, 0xc1, 0x01, 0x00, 0x8d, 0x01],
   [0x01, 0x00, 0x90, 0x03, 0xdf, 0xf8, 0x08, 0xe9, 0xd6, 0xc0, 0xce, 0x8d],
   [0x90, 0x03, 0x1a, 0xdf, 0xfd, 0x54, 0xff, 0x64, 0x1b, 0x8d, 0xc1, 0x6d],
   [0x00, 0x40, 0x90, 0x03, 0x19, 0x19, 0x9c, 0xbf, 0x47, 0xaf, 0x8c, 0x2d],
   [0xc1, 0x00, 0x6d, 0x01, 0x00, 0x80, 0x90, 0x03, 0xd4, 0xcf, 0x79, 0x6b],
   [0xa8, 0x7c, 0x80, 0x6d, 0x90, 0x03, 0x38, 0x6f, 0x72, 0xb4, 0x0e, 0x2c],
   [0xe6, 0xed, 0xc1, 0x5d, 0x60, 0x90, 0x03, 0x26, 0x40, 0x3b, 0xcc, 0x84],
   [0xef, 0xff, 0x9d, 0x90, 0x03, 0xc1, 0x02, 0xd6, 0x14, 0xc2, 0x91, 0x6e],
   [0x7d, 0xc1, 0x43, 0x44, 0xc1, 0x43, 0x48, 0xc1, 0x43, 0x50, 0x90, 0x03],
   [0x2c, 0x2d, 0x79, 0x6c, 0xa4, 0xb2, 0xf4, 0x63, 0xc1, 0x53, 0x60, 0xc1],
   [0x00, 0x53, 0x01, 0x02, 0x00, 0x90, 0x03, 0x16, 0x7e, 0x99, 0xcd, 0x5d],
   [0x76, 0x44, 0x53, 0x90, 0x03, 0xe5, 0x5c, 0x3a, 0xa6, 0xbe, 0x78, 0xae],
   [0x53, 0xc1, 0x00, 0x73, 0x01, 0x00, 0x80, 0x90, 0x03, 0xda, 0x31, 0xc9],
   [0xc3, 0xf3, 0x1b, 0x37, 0x73, 0x90, 0x03, 0xe1, 0x56, 0xa6, 0xc9, 0x90],
   [0x78, 0x53, 0xf3, 0xc1, 0x4b, 0x50, 0xc1, 0x4b, 0x60, 0x90, 0x03, 0xe4],
   [0xf4, 0xa4, 0xd0, 0xe4, 0x53, 0x70, 0x4b, 0x90, 0x03, 0x10, 0x24, 0xbc],
   [0x42, 0x5a, 0x12, 0x3e, 0x6b, 0xc1, 0x5b, 0x60, 0x90, 0x03, 0x19, 0x1f],
   [0x68, 0xf2, 0xe7, 0x6c, 0x1b, 0xdb, 0xc1, 0x01, 0x02, 0x7b, 0x01, 0x04],
   [0x00, 0x90, 0x03, 0xdb, 0xb3, 0xcb, 0xe6, 0x48, 0x1a, 0x32, 0x7b, 0x90],
   [0x03, 0x2b, 0xe5, 0x50, 0x2f, 0x3d, 0x2b, 0xd6, 0x7b, 0xc1, 0x47, 0x48],
   [0xc1, 0x47, 0x50, 0xc1, 0x47, 0x60, 0x90, 0x03, 0x10, 0xac, 0x2d, 0xd0],
   [0xea, 0x3c, 0xa1, 0x47, 0x90, 0x03, 0x1c, 0x81, 0xd7, 0x46, 0x0a, 0xaa],
   [0xe1, 0xa7, 0xc1, 0x57, 0x60, 0xc1, 0x57, 0x01, 0x01, 0x00, 0x90, 0x03],
   [0x16, 0x9e, 0x65, 0x9a, 0x8d, 0x71, 0xca, 0x17, 0x90, 0x03, 0xee, 0xf6],
   [0x85, 0x23, 0x66, 0x57, 0x93, 0x17, 0xc1, 0x77, 0x01, 0x01, 0x00, 0x90],
   [0x03, 0x1d, 0x3a, 0x67, 0x42, 0x78, 0xcf, 0xf6, 0x37, 0x90, 0x03, 0x02],
   [0x4f, 0x11, 0xc9, 0xdf, 0x00, 0x87, 0x37, 0xc1, 0x7f, 0x00, 0x40, 0x90]]"

definition dictionary_rows_25 :: "u8 list list" where
  "dictionary_rows_25 =
  [[0x03, 0x18, 0x20, 0x7f, 0xd3, 0xab, 0xac, 0x9f, 0xbf, 0x90, 0x03, 0xfb],
   [0xc5, 0x9f, 0x6d, 0x47, 0x8d, 0x5e, 0x7f, 0x90, 0x05, 0x02, 0xe8, 0x90],
   [0x40, 0x40, 0x41, 0xb5, 0x40, 0xa0, 0x91, 0xa0, 0x90, 0xc0, 0xc0, 0x40],
   [0x90, 0x25, 0x4e, 0x6f, 0x6e, 0x63, 0x65, 0x40, 0x41, 0x90, 0x2b, 0x55],
   [0x73, 0x65, 0x72, 0x53, 0x65, 0x63, 0x72, 0x65, 0x74, 0x73, 0xc0, 0x40],
   [0x90, 0x36, 0x55, 0x73, 0x65, 0x72, 0x53, 0x65, 0x63, 0x72, 0x65, 0x74],
   [0x73, 0x5f, 0x41, 0x50, 0x49, 0x53, 0x63, 0x68, 0x65, 0x6d, 0x61, 0x73],
   [0x40, 0x41, 0x42, 0x90, 0x40, 0x40, 0x05, 0x01, 0x9a, 0x08, 0x00, 0x00],
   [0x20, 0x00, 0x90, 0xa0, 0xa0, 0x03, 0x06, 0x02, 0x09, 0x23, 0x44, 0x00],
   [0x13, 0x00, 0x90, 0x90, 0x03, 0xd3, 0x75, 0xf7, 0x89, 0x55, 0xaf, 0x1d],
   [0x4c, 0xa0, 0x03, 0x04, 0x02, 0x00, 0x01, 0x40, 0x00, 0x03, 0x00, 0x40],
   [0x90, 0x40, 0x90, 0x05, 0x03, 0x09, 0x90, 0x4c, 0x90, 0x90, 0xc1, 0x40],
   [0x41, 0xc1, 0x40, 0x42, 0xc1, 0x40, 0x44, 0xc1, 0x40, 0x48, 0xc1, 0x40],
   [0x50, 0x05, 0x01, 0x8f, 0xc1, 0x50, 0x60, 0x05, 0x01, 0x8b, 0xc1, 0x70],
   [0x00, 0x40, 0x05, 0x01, 0x88, 0x05, 0x01, 0x87, 0xc1, 0x58, 0x60, 0x05],
   [0x01, 0x80, 0x05, 0x01, 0x7d, 0xc1, 0x44, 0x48, 0x05, 0x01, 0x7a, 0xc1],
   [0x4c, 0x50, 0xc1, 0x4c, 0x60, 0xc1, 0x4c, 0x00, 0x40, 0x05, 0x01, 0x75],
   [0x05, 0x01, 0x74, 0x05, 0x01, 0x71, 0xc1, 0x5c, 0x60, 0x05, 0x01, 0x6e],
   [0x05, 0x01, 0x67, 0xc1, 0x42, 0x44, 0xc1, 0x23, 0x31, 0x60, 0xef, 0xeb],
   [0x4c, 0xca, 0x05, 0x01, 0x2d, 0xc1, 0x46, 0x48, 0xc1, 0x66, 0x00, 0x40],
   [0x05, 0x01, 0x23, 0x05, 0x01, 0x22, 0xc1, 0x4e, 0x50, 0x05, 0x01, 0x19],
   [0xc1, 0x7e, 0x00, 0x40, 0xc1, 0x01, 0x01, 0x3e, 0x01, 0x02, 0x00, 0x90],
   [0x03, 0x27, 0x62, 0x24, 0x56, 0x2c, 0x75, 0x41, 0x3e, 0x90, 0x03, 0x3e],
   [0xb8, 0x59, 0xa3, 0xfb, 0xfa, 0x2b, 0x3e, 0x05, 0x01, 0x15, 0xc1, 0x41],
   [0x42, 0xc1, 0x41, 0x44, 0xc1, 0x41, 0x50, 0x90, 0x03, 0xe0, 0x31, 0xb5],
   [0xad, 0xce, 0x51, 0x78, 0xe1, 0x05, 0x01, 0x0e, 0xc1, 0x45, 0x48, 0xc1],
   [0x45, 0x50, 0xc1, 0x65, 0x00, 0x40, 0x05, 0x01, 0x05, 0x05, 0x01, 0x03],
   [0x05, 0x01, 0x01, 0xc1, 0x4d, 0x50, 0xc1, 0x4d, 0x60, 0x90, 0x03, 0x1e],
   [0xa1, 0x2f, 0x75, 0x57, 0x3e, 0x50, 0x0d, 0xc1, 0x6d, 0x00, 0x40, 0x04],
   [0xfe, 0x04, 0xfd, 0xc1, 0x5d, 0x60, 0x90, 0x03, 0xf5, 0x72, 0xcc, 0x1f]] @
  [[0x60, 0x20, 0xf3, 0xdd, 0x04, 0xf8, 0xc1, 0x43, 0x44, 0xc1, 0x43, 0x48],
   [0x04, 0xf0, 0xc1, 0x4b, 0x50, 0xc1, 0x4b, 0x60, 0xc1, 0x4b, 0x00, 0x40],
   [0xc1, 0x4b, 0x01, 0x00, 0x80, 0x90, 0x03, 0xee, 0x29, 0xcd, 0x6b, 0xda],
   [0x8f, 0xe3, 0x0b, 0x90, 0x03, 0xe5, 0xa0, 0xfa, 0xf4, 0x2e, 0xaa, 0xe3],
   [0x8b, 0x90, 0x03, 0x36, 0x40, 0xcb, 0xb7, 0x9c, 0x05, 0x72, 0x4b, 0xc1],
   [0x6b, 0x01, 0x00, 0x80, 0x90, 0x03, 0xc2, 0xe1, 0x80, 0x8f, 0x40, 0x7c],
   [0x13, 0x2b, 0x90, 0x03, 0xde, 0x93, 0xd3, 0x08, 0xe8, 0x1c, 0xa6, 0xab],
   [0x04, 0xe5, 0xc1, 0x47, 0x48, 0x04, 0xdb, 0xc1, 0x5f, 0x01, 0x00, 0x80],
   [0x04, 0xd6, 0x90, 0x03, 0xc9, 0xdb, 0x68, 0x08, 0x3d, 0x87, 0x23, 0x9f],
   [0x90, 0xa0, 0x03, 0xc0, 0x00, 0x08, 0x00, 0x00, 0x00, 0x50, 0x00, 0x90],
   [0xc1, 0x40, 0x41, 0xc1, 0x40, 0x42, 0xc1, 0x40, 0x44, 0xc1, 0x40, 0x48],
   [0xc1, 0x40, 0x50, 0x04, 0xcd, 0x04, 0xcc, 0xc1, 0x48, 0x50, 0x04, 0xcb],
   [0x04, 0xca, 0xc1, 0x44, 0x48, 0xc1, 0x44, 0x50, 0x90, 0x03, 0xe0, 0x60],
   [0x28, 0xae, 0xd2, 0x3d, 0x95, 0x44, 0x04, 0xc9, 0x90, 0x03, 0x38, 0x5f],
   [0x50, 0x2d, 0xdc, 0x47, 0x35, 0x6c, 0xc1, 0x42, 0x44, 0xc1, 0x42, 0x48],
   [0x90, 0x03, 0x09, 0x52, 0x2d, 0x78, 0x73, 0x9b, 0xdf, 0x92, 0x04, 0xc5],
   [0x04, 0xbf, 0xc1, 0x41, 0x42, 0xc1, 0x41, 0x48, 0xc1, 0x41, 0x50, 0x04],
   [0xbd, 0xc1, 0x51, 0x60, 0x04, 0xbc, 0xc1, 0x71, 0x00, 0x40, 0x04, 0xbb],
   [0x90, 0x03, 0x34, 0xaa, 0xb7, 0x86, 0x3e, 0x81, 0xb7, 0xf1, 0x04, 0xb6],
   [0xc1, 0x43, 0x48, 0xc1, 0x43, 0x50, 0x04, 0xb3, 0x04, 0xb2, 0xc1, 0x4b],
   [0x50, 0xc1, 0x6b, 0x00, 0x40, 0xc1, 0x6b, 0x01, 0x00, 0x80, 0x04, 0xaf],
   [0x04, 0xae, 0x04, 0xad, 0x04, 0xab, 0x90, 0xa0, 0x40, 0x40, 0x90, 0x40],
   [0x40, 0x42, 0x43, 0x90, 0x90, 0x40, 0x90, 0xa0, 0xa0, 0x40, 0x40, 0xa0],
   [0x40, 0x40, 0x90, 0xa0, 0x40, 0x40, 0x90, 0xa0, 0x40, 0x40, 0x90, 0xb0],
   [0xa0, 0xa0, 0x03, 0xc0, 0x00, 0x00, 0x00, 0x00, 0x00, 0x00, 0x00, 0x03],
   [0x3f, 0xff, 0xff, 0xff, 0xff, 0xff, 0xff, 0xff, 0x40, 0xa0, 0x04, 0x02],
   [0x40, 0x40, 0x90, 0x40, 0x40, 0x41, 0x40, 0x40, 0x41, 0xb0, 0xb0, 0x90],
   [0x40, 0x90, 0x40, 0xa0, 0x04, 0x03, 0x04, 0x02, 0x04, 0x04, 0x40, 0x40],
   [0x84, 0x95, 0xa6, 0xbe, 0x00, 0x00, 0x00, 0x0b, 0x00, 0x00, 0x00, 0x01],
   [0x00, 0x00, 0x00, 0x04, 0x00, 0x00, 0x00, 0x03, 0x2a, 0x6d, 0x65, 0x64]] @
  [[0x69, 0x61, 0x5f, 0x69, 0x6e, 0x66, 0x6f, 0x84, 0x95, 0xa6, 0xbe, 0x00],
   [0x00, 0x00, 0x07, 0x00, 0x00, 0x00, 0x01, 0x00, 0x00, 0x00, 0x03, 0x00],
   [0x00, 0x00, 0x02, 0x26, 0x6c, 0x6f, 0x67, 0x67, 0x65, 0x72, 0x84, 0x95],
   [0xa6, 0xbe, 0x00, 0x00, 0x00, 0x78, 0x00, 0x00, 0x00, 0x04, 0x00, 0x00],
   [0x00, 0x26, 0x00, 0x00, 0x00, 0x18, 0xa0, 0x09, 0x68, 0x64, 0x73, 0x69],
   [0x2e, 0x6c, 0x6f, 0x67, 0x67, 0x65, 0x72, 0x2e, 0x63, 0x6f, 0x6e, 0x66],
   [0x69, 0x67, 0x73, 0x2e, 0x49, 0x6e, 0x73, 0x74, 0x61, 0x67, 0x72, 0x61],
   [0x6d, 0x4c, 0x69, 0x76, 0x65, 0x52, 0x65, 0x61, 0x63, 0x74, 0x69, 0x6f],
   [0x6e, 0x41, 0x50, 0x49, 0x4c, 0x6f, 0x67, 0x67, 0x65, 0x72, 0x43, 0x6f],
   [0x6e, 0x66, 0x69, 0x67, 0x2e, 0x6c, 0x6f, 0x67, 0x67, 0x65, 0x72, 0x2e],
   [0x49, 0x6e, 0x73, 0x74, 0x61, 0x67, 0x72, 0x61, 0x6d, 0x4c, 0x69, 0x76],
   [0x65, 0x52, 0x65, 0x61, 0x63, 0x74, 0x69, 0x6f, 0x6e, 0x41, 0x50, 0x49],
   [0x4c, 0x6f, 0x67, 0x45, 0x6e, 0x74, 0x72, 0x79, 0x2e, 0x5f, 0x5f, 0x69],
   [0x6e, 0x69, 0x74, 0x5f, 0x5f, 0xa0, 0x2a, 0x65, 0x76, 0x65, 0x6e, 0x74],
   [0x5f, 0x6e, 0x61, 0x6d, 0x65, 0x40, 0x84, 0x95, 0xa6, 0xbe, 0x00, 0x00],
   [0x02, 0x90, 0x00, 0x00, 0x00, 0x8b, 0x00, 0x00, 0x01, 0xd1, 0x00, 0x00],
   [0x01, 0xa5, 0xb0, 0xa0, 0x2a, 0x69, 0x67, 0x5f, 0x6e, 0x6f, 0x64, 0x65],
   [0x61, 0x70, 0x69, 0xa0, 0x25, 0x6e, 0x6f, 0x64, 0x65, 0x73, 0xa0, 0x33],
   [0x72, 0x65, 0x70, 0x6f, 0x73, 0x74, 0x5f, 0x6d, 0x65, 0x64, 0x69, 0x61],
   [0x5f, 0x66, 0x61, 0x63, 0x61, 0x64, 0x65, 0x40, 0x90, 0xa0, 0xa0, 0xa0],
   [0x01, 0x0e, 0x04, 0x44, 0xa0, 0x01, 0x0e, 0x06, 0x00, 0x43, 0xc0, 0x08],
   [0x00, 0x00, 0x20, 0x00, 0xa0, 0x04, 0x0d, 0xa0, 0x04, 0x0c, 0xa0, 0x04],
   [0x0b, 0xa0, 0x35, 0x4e, 0x6f, 0x64, 0x65, 0x52, 0x65, 0x70, 0x6f, 0x73],
   [0x74, 0x4d, 0x65, 0x64, 0x69, 0x61, 0x46, 0x61, 0x63, 0x61, 0x64, 0x65],
   [0xa0, 0x3b, 0x65, 0x64, 0x67, 0x65, 0x5f, 0x63, 0x68, 0x69, 0x6c, 0x64],
   [0x5f, 0x6d, 0x65, 0x64, 0x69, 0x61, 0x5f, 0x74, 0x6f, 0x5f, 0x73, 0x69],
   [0x64, 0x65, 0x63, 0x61, 0x72, 0x40, 0xa0, 0xa0, 0xa0, 0xa0, 0x01, 0x0e],
   [0x04, 0x64, 0xa0, 0x01, 0x0e, 0x04, 0x67, 0xb0, 0x2e, 0x24, 0x70, 0x61],
   [0x72, 0x61, 0x6d, 0x65, 0x74, 0x65, 0x72, 0x24, 0x63, 0x6c, 0x73, 0x40],
   [0x40, 0x40, 0xa0, 0xa0, 0xa0, 0xa0, 0x01, 0x0e, 0x03, 0x45, 0xa0, 0x01]] @
  [[0x0e, 0x03, 0x57, 0x9c, 0x90, 0xb0, 0xa0, 0x04, 0x07, 0x9c, 0x90, 0xb0],
   [0xa0, 0x04, 0x0b, 0x9c, 0x90, 0xb0, 0xa0, 0x04, 0x0f, 0x9c, 0x91, 0x25],
   [0x6c, 0x69, 0x62, 0x66, 0x62, 0x22, 0x70, 0x79, 0x40, 0x2a, 0x64, 0x65],
   [0x63, 0x6f, 0x72, 0x61, 0x74, 0x6f, 0x72, 0x73, 0x40, 0x32, 0x6c, 0x61],
   [0x7a, 0x79, 0x5f, 0x63, 0x6c, 0x61, 0x73, 0x73, 0x70, 0x72, 0x6f, 0x70],
   [0x65, 0x72, 0x74, 0x79, 0x40, 0x40, 0x90, 0xa0, 0xa0, 0xa0, 0x01, 0x0e],
   [0x04, 0x6c, 0xa0, 0x01, 0x0e, 0x04, 0x00, 0x5e, 0x9c, 0x90, 0xb0, 0xa0],
   [0x04, 0x07, 0x9c, 0x90, 0xb0, 0xa0, 0x04, 0x0b, 0x9c, 0x90, 0xb0, 0xa0],
   [0x04, 0x0f, 0x9c, 0x91, 0x2a, 0x69, 0x67, 0x5f, 0x6e, 0x6f, 0x64, 0x65],
   [0x61, 0x70, 0x69, 0x25, 0x65, 0x64, 0x67, 0x65, 0x73, 0x40, 0x09, 0x2d],
   [0x63, 0x68, 0x69, 0x6c, 0x64, 0x5f, 0x6d, 0x65, 0x64, 0x69, 0x61, 0x5f],
   [0x74, 0x6f, 0x5f, 0x73, 0x69, 0x64, 0x65, 0x63, 0x61, 0x72, 0x5f, 0x6f],
   [0x6e, 0x5f, 0x72, 0x65, 0x70, 0x6f, 0x73, 0x74, 0x5f, 0x6d, 0x65, 0x64],
   [0x69, 0x61, 0x5f, 0x66, 0x61, 0x63, 0x61, 0x64, 0x65, 0x40, 0x09, 0x42],
   [0x61, 0x73, 0x65, 0x2a, 0x61, 0x73, 0x79, 0x6e, 0x63, 0x5f, 0x73, 0x65],
   [0x6e, 0x64, 0x40, 0x44, 0x91, 0x22, 0x76, 0x63, 0xc0, 0xc0, 0xc0, 0x40],
   [0x05, 0x0a, 0x7f, 0x40, 0x41, 0x05, 0x0a, 0x73, 0x40, 0x42, 0xb0, 0x01],
   [0x17, 0xd2, 0x91, 0xb0, 0x09, 0x21, 0x66, 0x72, 0x69, 0x65, 0x6e, 0x64],
   [0x73, 0x68, 0x69, 0x70, 0x73, 0x2e, 0x71, 0x75, 0x65, 0x72, 0x79, 0x2e],
   [0x46, 0x72, 0x69, 0x65, 0x6e, 0x64, 0x73, 0x68, 0x69, 0x70, 0x51, 0x75],
   [0x65, 0x72, 0x79, 0x09, 0x20, 0x61, 0x73, 0x79, 0x6e, 0x63, 0x5f, 0x72],
   [0x65, 0x6c, 0x61, 0x74, 0x69, 0x6f, 0x6e, 0x73, 0x68, 0x69, 0x70, 0x5f],
   [0x69, 0x6e, 0x66, 0x6f, 0x5f, 0x66, 0x6f, 0x72, 0x5f, 0x6d, 0x61, 0x6e],
   [0x79, 0x40, 0xb0, 0x91, 0xb0, 0x3d, 0x6e, 0x6f, 0x64, 0x65, 0x61, 0x70],
   [0x69, 0x2e, 0x51, 0x75, 0x65, 0x72, 0x79, 0x2e, 0x4e, 0x6f, 0x64, 0x65],
   [0x51, 0x4c, 0x51, 0x75, 0x65, 0x72, 0x79, 0x42, 0x61, 0x73, 0x65, 0x2a],
   [0x61, 0x73, 0x79, 0x6e, 0x63, 0x5f, 0x73, 0x65, 0x6e, 0x64, 0x40, 0x45],
   [0x91, 0x22, 0x76, 0x63, 0xc0, 0xc0, 0xc0, 0x40, 0x05, 0x0a, 0x6b, 0x40],
   [0x41, 0x05, 0x0a, 0x62, 0xc0, 0xc0, 0x40, 0xb0, 0x01, 0x17, 0xd2, 0x91],
   [0xb0, 0x09, 0x35, 0x66, 0x78, 0x63, 0x61, 0x6c, 0x2e, 0x63, 0x6f, 0x6e]] @
  [[0x6e, 0x65, 0x63, 0x74, 0x65, 0x64, 0x5f, 0x66, 0x61, 0x63, 0x65, 0x62],
   [0x6f, 0x6f, 0x6b, 0x5f, 0x71, 0x75, 0x65, 0x72, 0x79, 0x2e, 0x43, 0x6f],
   [0x6e, 0x6e, 0x65, 0x63, 0x74, 0x65, 0x64, 0x46, 0x61, 0x63, 0x65, 0x62],
   [0x6f, 0x6f, 0x6b, 0x51, 0x75, 0x65, 0x72, 0x79, 0x09, 0x41, 0x61, 0x73],
   [0x79, 0x6e, 0x63, 0x5f, 0x67, 0x65, 0x74, 0x5f, 0x66, 0x61, 0x63, 0x65],
   [0x62, 0x6f, 0x6f, 0x6b, 0x5f, 0x66, 0x6f, 0x72, 0x5f, 0x75, 0x73, 0x65],
   [0x72, 0x5f, 0x69, 0x64, 0x5f, 0x44, 0x45, 0x50, 0x52, 0x45, 0x43, 0x41],
   [0x54, 0x49, 0x4f, 0x4e, 0x5f, 0x49, 0x4e, 0x5f, 0x50, 0x52, 0x4f, 0x47],
   [0x52, 0x45, 0x53, 0x53, 0x5f, 0x44, 0x4f, 0x5f, 0x4e, 0x4f, 0x54, 0x5f],
   [0x55, 0x53, 0x45, 0x40, 0xb0, 0x91, 0xb0, 0x3d, 0x6e, 0x6f, 0x64, 0x65],
   [0x61, 0x70, 0x69, 0x2e, 0x51, 0x75, 0x65, 0x72, 0x79, 0x2e, 0x4e, 0x6f],
   [0x64, 0x65, 0x51, 0x4c, 0x51, 0x75, 0x65, 0x72, 0x79, 0x42, 0x61, 0x73],
   [0x65, 0x2a, 0x61, 0x73, 0x79, 0x6e, 0x63, 0x5f, 0x73, 0x65, 0x6e, 0x64],
   [0x40, 0x40, 0x91, 0x22, 0x76, 0x63, 0x40, 0x41, 0xb0, 0x01, 0x17, 0xd2],
   [0x91, 0xb0, 0x09, 0x41, 0x69, 0x67, 0x5f, 0x6e, 0x6f, 0x64, 0x65, 0x61],
   [0x70, 0x69, 0x2e, 0x6e, 0x6f, 0x64, 0x65, 0x73, 0x2e, 0x63, 0x75, 0x73],
   [0x74, 0x6f, 0x6d, 0x5f, 0x62, 0x61, 0x73, 0x65, 0x73, 0x2e, 0x78, 0x70],
   [0x69, 0x5f, 0x69, 0x6d, 0x61, 0x67, 0x65, 0x5f, 0x61, 0x63, 0x63, 0x65],
   [0x73, 0x73, 0x6f, 0x72, 0x2e, 0x58, 0x50, 0x49, 0x49, 0x6d, 0x61, 0x67],
   [0x65, 0x41, 0x63, 0x63, 0x65, 0x73, 0x73, 0x6f, 0x72, 0x30, 0x61, 0x73],
   [0x79, 0x6e, 0x63, 0x5f, 0x69, 0x6d, 0x61, 0x67, 0x65, 0x5f, 0x62, 0x6c],
   [0x6f, 0x62, 0x40, 0xb0, 0x91, 0xb0, 0x3d, 0x6e, 0x6f, 0x64, 0x65, 0x61],
   [0x70, 0x69, 0x2e, 0x51, 0x75, 0x65, 0x72, 0x79, 0x2e, 0x4e, 0x6f, 0x64],
   [0x65, 0x51, 0x4c, 0x51, 0x75, 0x65, 0x72, 0x79, 0x42, 0x61, 0x73, 0x65],
   [0x2a, 0x61, 0x73, 0x79, 0x6e, 0x63, 0x5f, 0x73, 0x65, 0x6e, 0x64, 0x40],
   [0x40, 0x91, 0x22, 0x76, 0x63, 0xc0, 0x40, 0xb0, 0x01, 0x17, 0xd2, 0x91],
   [0xb0, 0x09, 0x37, 0x69, 0x67, 0x5f, 0x76, 0x69, 0x64, 0x65, 0x6f, 0x2e],
   [0x73, 0x65, 0x72, 0x76, 0x69, 0x63, 0x65, 0x73, 0x2e, 0x76, 0x69, 0x64],
   [0x65, 0x6f, 0x5f, 0x61, 0x73, 0x73, 0x65, 0x74, 0x5f, 0x73, 0x65, 0x72],
   [0x76, 0x69, 0x63, 0x65, 0x2e, 0x56, 0x69, 0x64, 0x65, 0x6f, 0x41, 0x73]]"

definition dictionary_rows_26 :: "u8 list list" where
  "dictionary_rows_26 =
  [[0x73, 0x65, 0x74, 0x53, 0x65, 0x72, 0x76, 0x69, 0x63, 0x65, 0x09, 0x34],
   [0x61, 0x73, 0x79, 0x6e, 0x63, 0x5f, 0x64, 0x65, 0x6c, 0x69, 0x76, 0x65],
   [0x72, 0x61, 0x62, 0x6c, 0x65, 0x5f, 0x65, 0x6e, 0x63, 0x6f, 0x64, 0x69],
   [0x6e, 0x67, 0x73, 0x5f, 0x61, 0x6e, 0x64, 0x5f, 0x6d, 0x61, 0x72, 0x6b],
   [0x5f, 0x6e, 0x6f, 0x6e, 0x5f, 0x64, 0x65, 0x6c, 0x69, 0x76, 0x65, 0x72],
   [0x61, 0x62, 0x6c, 0x65, 0x40, 0xb0, 0x91, 0xb0, 0x37, 0x6e, 0x6f, 0x64],
   [0x65, 0x61, 0x70, 0x69, 0x2e, 0x51, 0x75, 0x65, 0x72, 0x79, 0x42, 0x61],
   [0x73, 0x65, 0x2e, 0x51, 0x75, 0x65, 0x72, 0x79, 0x2a, 0x61, 0x73, 0x79],
   [0x6e, 0x63, 0x5f, 0x73, 0x65, 0x6e, 0x64, 0x40, 0x40, 0x91, 0x22, 0x76],
   [0x63, 0x40, 0x41, 0x42, 0x43, 0xb0, 0x01, 0x17, 0xd2, 0x91, 0xb0, 0x09],
   [0x2d, 0x6d, 0x65, 0x64, 0x69, 0x61, 0x2e, 0x6f, 0x76, 0x65, 0x72, 0x6c],
   [0x61, 0x79, 0x2e, 0x72, 0x75, 0x6c, 0x65, 0x73, 0x2e, 0x53, 0x68, 0x6f],
   [0x77, 0x46, 0x6f, 0x72, 0x4d, 0x69, 0x73, 0x69, 0x6e, 0x66, 0x6f, 0x72],
   [0x6d, 0x61, 0x74, 0x69, 0x6f, 0x6e, 0x52, 0x75, 0x6c, 0x65, 0x2e, 0x61],
   [0x73, 0x79, 0x6e, 0x63, 0x5f, 0x65, 0x76, 0x61, 0x6c, 0x75, 0x61, 0x74],
   [0x65, 0x40, 0xb0, 0x91, 0xb0, 0x3d, 0x6e, 0x6f, 0x64, 0x65, 0x61, 0x70],
   [0x69, 0x2e, 0x51, 0x75, 0x65, 0x72, 0x79, 0x2e, 0x4e, 0x6f, 0x64, 0x65],
   [0x51, 0x4c, 0x51, 0x75, 0x65, 0x72, 0x79, 0x42, 0x61, 0x73, 0x65, 0x2a],
   [0x61, 0x73, 0x79, 0x6e, 0x63, 0x5f, 0x73, 0x65, 0x6e, 0x64, 0x40, 0x40],
   [0x91, 0x22, 0x76, 0x63, 0xc0, 0xc0, 0x40, 0x05, 0x0a, 0x37, 0x40, 0x41],
   [0xb0, 0x01, 0x17, 0xd2, 0x91, 0xb0, 0x39, 0x75, 0x73, 0x65, 0x72, 0x73],
   [0x2e, 0x73, 0x65, 0x72, 0x76, 0x69, 0x63, 0x65, 0x2e, 0x55, 0x73, 0x65],
   [0x72, 0x53, 0x65, 0x72, 0x76, 0x69, 0x63, 0x65, 0x3c, 0x61, 0x73, 0x79],
   [0x6e, 0x63, 0x5f, 0x75, 0x73, 0x65, 0x72, 0x6e, 0x61, 0x6d, 0x65, 0x73],
   [0x5f, 0x66, 0x6f, 0x72, 0x5f, 0x75, 0x73, 0x65, 0x72, 0x5f, 0x69, 0x64],
   [0x73, 0x40, 0xb0, 0x91, 0xb0, 0x3d, 0x6e, 0x6f, 0x64, 0x65, 0x61, 0x70],
   [0x69, 0x2e, 0x51, 0x75, 0x65, 0x72, 0x79, 0x2e, 0x4e, 0x6f, 0x64, 0x65],
   [0x51, 0x4c, 0x51, 0x75, 0x65, 0x72, 0x79, 0x42, 0x61, 0x73, 0x65, 0x2a],
   [0x61, 0x73, 0x79, 0x6e, 0x63, 0x5f, 0x73, 0x65, 0x6e, 0x64, 0x40, 0x40],
   [0x91, 0x22, 0x76, 0x63, 0x40, 0x42, 0x44, 0x45, 0x46, 0xd0, 0x40, 0x05]] @
  [[0x0a, 0x15, 0x08, 0x00, 0x00, 0x20, 0x00, 0x90, 0xa0, 0xa0, 0x03, 0xd7],
   [0x4e, 0x89, 0x33, 0xcc, 0x8f, 0xd3, 0x9c, 0x90, 0x05, 0x29, 0xc2, 0xa0],
   [0x03, 0x04, 0x00, 0x00, 0x03, 0x40, 0x00, 0x00, 0x00, 0x40, 0x90, 0x40],
   [0x90, 0x05, 0x34, 0x9f, 0x90, 0x4b, 0x90, 0x90, 0x05, 0x47, 0x01, 0x90],
   [0xa0, 0x03, 0xc0, 0x00, 0x00, 0x00, 0x00, 0x00, 0x10, 0x00, 0x90, 0x05],
   [0x46, 0xfe, 0x90, 0xa0, 0x40, 0x40, 0x90, 0xc0, 0xc0, 0x40, 0x05, 0x0a],
   [0x11, 0xc0, 0x40, 0x05, 0x0a, 0x0a, 0x40, 0x41, 0x42, 0x05, 0x0a, 0x05],
   [0xc0, 0x40, 0x05, 0x0a, 0x00, 0xc0, 0x40, 0x05, 0x09, 0xfb, 0x40, 0x41],
   [0x42, 0x43, 0x40, 0x41, 0x42, 0x91, 0xa0, 0x3f, 0x55, 0x73, 0x65, 0x72],
   [0x43, 0x6f, 0x6e, 0x32, 0x7a, 0xb3, 0xf9, 0xa6, 0xf5, 0x45, 0xc1, 0x65],
   [0x00, 0x40, 0x90, 0x03, 0x0d, 0x78, 0x9c, 0xf6, 0xb6, 0x05, 0xcd, 0x25],
   [0x90, 0x03, 0x01, 0xf8, 0x8c, 0x16, 0x09, 0x71, 0x1d, 0xe5, 0xc1, 0x55],
   [0x60, 0xc1, 0x00, 0x55, 0x01, 0x00, 0x80, 0x90, 0x03, 0xc4, 0x8f, 0x87],
   [0xfa, 0x46, 0xa5, 0xe6, 0x55, 0x90, 0x03, 0x09, 0xd8, 0x5e, 0xce, 0xe9],
   [0xf3, 0xfa, 0xd5, 0x90, 0x03, 0xfa, 0x57, 0x8d, 0xa1, 0x5e, 0x7d, 0x80],
   [0x75, 0xc1, 0x4d, 0x50, 0xc1, 0x4d, 0x60, 0x90, 0x03, 0xf8, 0x73, 0xce],
   [0xaa, 0xd8, 0x6e, 0x0c, 0x4d, 0xc1, 0x6d, 0x00, 0x40, 0xc1, 0x01, 0x00],
   [0xad, 0x01, 0x02, 0x00, 0x90, 0x03, 0x11, 0x3c, 0x93, 0x2c, 0x84, 0xa8],
   [0xa8, 0xad, 0x90, 0x03, 0x2c, 0x08, 0xf1, 0x90, 0x50, 0x2f, 0x46, 0xad],
   [0x90, 0x03, 0x2d, 0x7e, 0x04, 0x8a, 0xe7, 0xb7, 0x6b, 0x6d, 0xc1, 0x5d],
   [0x00, 0x40, 0x90, 0x03, 0xcc, 0xa6, 0x3a, 0xa7, 0xe7, 0x53, 0x6b, 0x1d],
   [0xc1, 0x00, 0x5d, 0x01, 0x00, 0x80, 0x90, 0x03, 0xf3, 0x67, 0xdd, 0x7f],
   [0x81, 0x4f, 0x9e, 0x5d, 0x90, 0x03, 0x37, 0x87, 0x1f, 0x51, 0x8a, 0xcc],
   [0xd3, 0xdd, 0xc1, 0x43, 0x44, 0xc1, 0x43, 0x48, 0xc1, 0x43, 0x50, 0xc1],
   [0x43, 0x60, 0xc1, 0x43, 0x00, 0x40, 0xc1, 0x43, 0x01, 0x00, 0x80, 0x90],
   [0x03, 0xff, 0x3a, 0x21, 0x7a, 0x6a, 0x45, 0x59, 0x03, 0x90, 0x03, 0x10],
   [0x12, 0x47, 0xd3, 0x37, 0x7c, 0x1c, 0x83, 0x90, 0x03, 0x1d, 0xa3, 0xcd],
   [0x7d, 0xc1, 0xcf, 0x23, 0xc3, 0xc1, 0x63, 0x00, 0x40, 0x90, 0x03, 0xd8],
   [0x4d, 0x60, 0x75, 0x13, 0xee, 0x94, 0x23, 0xc1, 0x00, 0x63, 0x01, 0x00],
   [0x80, 0x90, 0x03, 0xca, 0x66, 0xe7, 0xaf, 0x57, 0xf5, 0xd2, 0x63, 0x90]] @
  [[0x03, 0xd4, 0x40, 0x32, 0x07, 0xea, 0x37, 0xc9, 0xe3, 0xc1, 0x53, 0x60],
   [0x90, 0x03, 0x15, 0xde, 0x01, 0xb0, 0xf6, 0xee, 0xf1, 0x93, 0xc1, 0x73],
   [0x00, 0x40, 0xc1, 0x73, 0x01, 0x00, 0x80, 0xc1, 0x73, 0x01, 0x01, 0x00],
   [0x90, 0x03, 0x3d, 0x4d, 0xdf, 0x9d, 0x57, 0x26, 0x2e, 0x33, 0x90, 0x03],
   [0xe2, 0xa6, 0xcb, 0x85, 0xd2, 0x86, 0x7b, 0x33, 0x90, 0x03, 0xcd, 0x7e],
   [0x59, 0xd9, 0x64, 0x37, 0x4a, 0xb3, 0xc1, 0x00, 0x73, 0x01, 0x00, 0x80],
   [0x04, 0xe2, 0x90, 0x03, 0x10, 0xa1, 0x89, 0x32, 0xd7, 0x0e, 0x30, 0xf3],
   [0xc1, 0x4b, 0x50, 0xc1, 0x4b, 0x60, 0xc1, 0x4b, 0x00, 0x40, 0xc1, 0x4b],
   [0x01, 0x00, 0x80, 0x90, 0x03, 0x35, 0x17, 0x75, 0x5d, 0x55, 0x5a, 0xa5],
   [0x0b, 0x90, 0x03, 0xf2, 0xd5, 0x74, 0xf0, 0x05, 0x26, 0x40, 0x8b, 0x90],
   [0x03, 0x35, 0x0d, 0x24, 0x07, 0xfa, 0xe3, 0xb0, 0xcb, 0xc1, 0x6b, 0x01],
   [0x00, 0x80, 0x90, 0x03, 0x16, 0xec, 0xa9, 0xb1, 0xfa, 0x10, 0x22, 0x2b],
   [0xc1, 0x01, 0x03, 0xab, 0x01, 0x08, 0x00, 0x04, 0xe9, 0x90, 0x03, 0xca],
   [0xf6, 0x61, 0x15, 0x61, 0x57, 0x7b, 0xab, 0xc1, 0x00, 0x5b, 0x01, 0x02],
   [0x00, 0x90, 0x03, 0xf3, 0xfb, 0xda, 0x1c, 0x52, 0x7e, 0x1c, 0x5b, 0x90],
   [0x03, 0xe1, 0x25, 0x59, 0x19, 0xbc, 0xf1, 0xda, 0x5b, 0xc1, 0x47, 0x48],
   [0xc1, 0x47, 0x50, 0x04, 0xeb, 0xc1, 0x57, 0x60, 0x04, 0xe8, 0xc1, 0x77],
   [0x00, 0x40, 0xc1, 0x77, 0x01, 0x01, 0x00, 0xc1, 0x77, 0x01, 0x02, 0x00],
   [0x90, 0x03, 0x11, 0x00, 0x4f, 0x0c, 0x5c, 0xc2, 0xec, 0x37, 0x90, 0x03],
   [0xc3, 0x93, 0x64, 0x5b, 0x0d, 0xa9, 0xca, 0x37, 0x90, 0x03, 0x17, 0x7b],
   [0x74, 0xd6, 0x3a, 0xf4, 0xe3, 0x37, 0xc1, 0x00, 0x77, 0x01, 0x00, 0x80],
   [0xc1, 0x00, 0x77, 0x01, 0x01, 0x00, 0x90, 0x03, 0xdd, 0xf8, 0x51, 0xec],
   [0xc3, 0x01, 0xee, 0x77, 0x90, 0x03, 0xe6, 0x14, 0x54, 0x7d, 0x74, 0xd3],
   [0xaf, 0x77, 0x90, 0x03, 0x05, 0x36, 0xa3, 0x8a, 0x40, 0x80, 0xaa, 0xf7],
   [0xc1, 0x4f, 0x50, 0xc1, 0x4f, 0x60, 0x90, 0x03, 0x13, 0xfc, 0xf4, 0x18],
   [0x1c, 0x42, 0xdf, 0x0f, 0x90, 0x03, 0xec, 0xbb, 0xb4, 0x9b, 0x18, 0xe2],
   [0x3b, 0xaf, 0xc1, 0x5f, 0x01, 0x00, 0x80, 0x90, 0x03, 0xc3, 0x27, 0x1f],
   [0x18, 0x1d, 0x81, 0xba, 0x1f, 0x90, 0x03, 0x3f, 0xa7, 0x00, 0x8d, 0xae],
   [0x0e, 0x73, 0x9f, 0x90, 0xa0, 0x03, 0xc0, 0x00, 0x00, 0x00, 0x00, 0x00],
   [0x10, 0x00, 0x90, 0xc1, 0x40, 0x41, 0xc1, 0x42, 0x44, 0x05, 0x04, 0x12]] @
  [[0x05, 0x04, 0x09, 0xc1, 0x41, 0x42, 0x04, 0xf5, 0x04, 0xf4, 0x90, 0xa0],
   [0x40, 0x40, 0x90, 0x40, 0xd0, 0x40, 0x42, 0x08, 0x00, 0x00, 0x20, 0x00],
   [0x90, 0xa0, 0xa0, 0x03, 0xd7, 0x46, 0x89, 0x33, 0xcc, 0x8f, 0xd3, 0x9c],
   [0x90, 0xc1, 0x40, 0x41, 0xc1, 0x4c, 0x60, 0x05, 0x09, 0x32, 0x05, 0x09],
   [0x31, 0x05, 0x09, 0x2f, 0xa0, 0x03, 0x00, 0x00, 0x00, 0x01, 0x40, 0x00],
   [0x00, 0x00, 0x90, 0x90, 0x03, 0xd3, 0x75, 0xf7, 0x89, 0x55, 0xaf, 0x1d],
   [0x4c, 0x90, 0x40, 0x90, 0x05, 0x0b, 0x01, 0x90, 0x48, 0x90, 0x90, 0x90],
   [0x03, 0x11, 0x1a, 0x1f, 0xd2, 0xc8, 0x1c, 0xbf, 0x6b, 0x90, 0xa0, 0x03],
   [0xc0, 0x00, 0x00, 0x00, 0x00, 0x00, 0x10, 0x00, 0x90, 0x90, 0x03, 0xd9],
   [0x8e, 0x41, 0x35, 0xa5, 0xca, 0x78, 0xca, 0x90, 0xa0, 0x40, 0x40, 0x90],
   [0x40, 0x40, 0x41, 0x42, 0xb5, 0x40, 0xa0, 0x91, 0xa0, 0x90, 0xc0, 0xc0],
   [0xc0, 0x40, 0x90, 0x27, 0x43, 0x6f, 0x6f, 0x6b, 0x69, 0x65, 0x73, 0x40],
   [0x41, 0x90, 0x2a, 0x48, 0x65, 0x61, 0x64, 0x65, 0x72, 0x44, 0x61, 0x74],
   [0x61, 0xc0, 0x40, 0x90, 0x25, 0x4e, 0x6f, 0x6e, 0x63, 0x65, 0xc0, 0x40],
   [0x90, 0x2c, 0x52, 0x65, 0x73, 0x70, 0x6f, 0x6e, 0x73, 0x65, 0x44, 0x61],
   [0x74, 0x61, 0x40, 0x41, 0x42, 0x43, 0x90, 0x2c, 0x53, 0x69, 0x67, 0x6e],
   [0x65, 0x64, 0x43, 0x64, 0x6e, 0x55, 0x72, 0x6c, 0xc0, 0x40, 0x90, 0x23],
   [0x55, 0x52, 0x4c, 0xc0, 0x40, 0x90, 0x2e, 0x55, 0x73, 0x65, 0x72, 0x43],
   [0x6f, 0x6e, 0x74, 0x72, 0x6f, 0x6c, 0x6c, 0x65, 0x64, 0xc0, 0x40, 0x90],
   [0x2b, 0x55, 0x73, 0x65, 0x72, 0x53, 0x65, 0x63, 0x72, 0x65, 0x74, 0x73],
   [0x40, 0x41, 0x42, 0x43, 0x44, 0x90, 0x40, 0x40, 0x92, 0x26, 0x54, 0x68],
   [0x72, 0x69, 0x66, 0x74, 0x08, 0x00, 0x00, 0x20, 0x00, 0x90, 0xa0, 0xa0],
   [0x03, 0xd7, 0x46, 0x89, 0x33, 0xcc, 0x8f, 0xd3, 0x9c, 0x90, 0xc1, 0x40],
   [0x41, 0xc1, 0x4c, 0x60, 0x90, 0x03, 0xd3, 0x75, 0xf7, 0x89, 0x55, 0xaf],
   [0x1d, 0x4c, 0x90, 0x03, 0xff, 0xcd, 0xfb, 0xb4, 0xa9, 0x2a, 0x1c, 0x6c],
   [0xc1, 0x43, 0x44, 0x05, 0x09, 0xa8, 0x90, 0x03, 0xd4, 0x77, 0x4f, 0xc1],
   [0x6f, 0x0c, 0x7a, 0x8f, 0xa0, 0x03, 0x06, 0x02, 0x01, 0x03, 0x40, 0x00],
   [0x02, 0x00, 0x40, 0x90, 0x40, 0x90, 0x05, 0x0b, 0x3a, 0x90, 0x4d, 0x90],
   [0x90, 0xc1, 0x40, 0x41, 0xc1, 0x44, 0x48, 0x90, 0x03, 0xc7, 0x9e, 0x5c],
   [0xfe, 0x4c, 0xb1, 0x06, 0xe4, 0x90, 0x03, 0xcd, 0xc8, 0xfe, 0x37, 0x25]] @
  [[0x20, 0x23, 0x5c, 0xc1, 0x43, 0x44, 0x90, 0x03, 0x31, 0xe1, 0x57, 0x6d],
   [0xe7, 0xb3, 0xcd, 0x3b, 0x05, 0x01, 0x53, 0x90, 0xa0, 0x01, 0x10, 0x00],
   [0x90, 0xc1, 0x42, 0x44, 0x05, 0x04, 0x69, 0x05, 0x04, 0x60, 0x90, 0xa0],
   [0x40, 0x40, 0x90, 0x40, 0xd0, 0xd0, 0xd0, 0x40, 0xb5, 0x40, 0xa0, 0x91],
   [0xa0, 0x90, 0xc0, 0xc0, 0x40, 0x90, 0x04, 0x84, 0x95, 0xa6, 0xbe, 0x00],
   [0x00, 0x00, 0x3f, 0x00, 0x00, 0x00, 0x0d, 0x00, 0x00, 0x00, 0x29, 0x00],
   [0x00, 0x00, 0x23, 0x99, 0xa0, 0x42, 0xa0, 0xa2, 0x24, 0x64, 0x69, 0x63],
   [0x74, 0xa0, 0x90, 0x94, 0x23, 0x73, 0x74, 0x72, 0xa0, 0x90, 0x94, 0x09],
   [0x27, 0x6d, 0x61, 0x6e, 0x64, 0x6f, 0x6c, 0x69, 0x6e, 0x65, 0x2e, 0x6d],
   [0x61, 0x6e, 0x64, 0x6f, 0x6c, 0x69, 0x6e, 0x65, 0x2e, 0x74, 0x74, 0x79],
   [0x70, 0x65, 0x73, 0x2e, 0x53, 0x75, 0x62, 0x73, 0x63, 0x72, 0x69, 0x70],
   [0x74, 0x69, 0x6f, 0x6e, 0x40, 0x40, 0x84, 0x95, 0xa6, 0xbe, 0x00, 0x00],
   [0x00, 0x01, 0x00, 0x00, 0x00, 0x00, 0x00, 0x00, 0x00, 0x00, 0x00, 0x00],
   [0x00, 0x00, 0x40, 0x84, 0x95, 0xa6, 0xbe, 0x00, 0x00, 0x00, 0x05, 0x00],
   [0x00, 0x00, 0x03, 0x00, 0x00, 0x00, 0x07, 0x00, 0x00, 0x00, 0x07, 0x90],
   [0xa0, 0x40, 0x90, 0x40, 0x84, 0x95, 0xa6, 0xbe, 0x00, 0x00, 0x00, 0x0a],
   [0x00, 0x00, 0x00, 0x05, 0x00, 0x00, 0x00, 0x0c, 0x00, 0x00, 0x00, 0x0c],
   [0x99, 0xa0, 0x42, 0xa0, 0x94, 0x23, 0x69, 0x6e, 0x74, 0x40, 0x84, 0x95],
   [0xa6, 0xbe, 0x00, 0x00, 0x01, 0xce, 0x00, 0x00, 0x00, 0x7b, 0x00, 0x00],
   [0x01, 0x79, 0x00, 0x00, 0x01, 0x5c, 0xa0, 0xa0, 0xa0, 0xa0, 0x00, 0x56],
   [0x45, 0xa0, 0x00, 0x56, 0x01, 0x00, 0x92, 0x92, 0xa0, 0xa0, 0xa0, 0xa0],
   [0x00, 0x56, 0x45, 0xa0, 0x00, 0x56, 0x55, 0x9c, 0x90, 0xb0, 0xa0, 0x04],
   [0x07, 0x9c, 0x90, 0xb0, 0xa0, 0x04, 0x0b, 0x9c, 0x90, 0xb0, 0xa0, 0x04],
   [0x0f, 0x9c, 0x91, 0x27, 0x6e, 0x6f, 0x64, 0x65, 0x61, 0x70, 0x69, 0x27],
   [0x70, 0x72, 0x69, 0x76, 0x61, 0x63, 0x79, 0x40, 0x30, 0x6e, 0x6f, 0x64],
   [0x65, 0x5f, 0x65, 0x64, 0x67, 0x65, 0x5f, 0x67, 0x65, 0x74, 0x74, 0x65],
   [0x72, 0x40, 0x30, 0x6e, 0x6f, 0x64, 0x65, 0x5f, 0x65, 0x64, 0x67, 0x65],
   [0x5f, 0x67, 0x65, 0x74, 0x74, 0x65, 0x72, 0x40, 0xa0, 0xa0, 0x40, 0xa0],
   [0xa0, 0xa0, 0x00, 0x56, 0x56, 0xa0, 0x00, 0x56, 0x01, 0x00, 0x91, 0x92],
   [0xa0, 0xa0, 0xa0, 0xa0, 0x00, 0x56, 0x56, 0xa0, 0x00, 0x56, 0x65, 0x9c]]"

definition dictionary_rows_27 :: "u8 list list" where
  "dictionary_rows_27 =
  [[0x90, 0xb0, 0xa0, 0x04, 0x07, 0x9c, 0x90, 0xb0, 0xa0, 0x04, 0x0b, 0x9c],
   [0x90, 0xb0, 0xa0, 0x04, 0x0f, 0x9c, 0x91, 0x27, 0x6e, 0x6f, 0x64, 0x65],
   [0x61, 0x70, 0x69, 0x27, 0x70, 0x72, 0x69, 0x76, 0x61, 0x63, 0x79, 0x40],
   [0x31, 0x6e, 0x6f, 0x64, 0x65, 0x5f, 0x78, 0x69, 0x64, 0x5f, 0x6d, 0x65],
   [0x74, 0x61, 0x64, 0x61, 0x74, 0x61, 0x40, 0x2f, 0x45, 0x64, 0x67, 0x65],
   [0x58, 0x49, 0x44, 0x4d, 0x65, 0x74, 0x61, 0x64, 0x61, 0x74, 0x61, 0x40],
   [0xa0, 0xa0, 0x90, 0xa0, 0xa0, 0xa0, 0x00, 0x56, 0x66, 0xa0, 0x00, 0x56],
   [0x71, 0x36, 0x24, 0x70, 0x61, 0x72, 0x61, 0x6d, 0x65, 0x74, 0x65, 0x72],
   [0x24, 0x61, 0x73, 0x73, 0x65, 0x74, 0x5f, 0x63, 0x6c, 0x61, 0x73, 0x73],
   [0xa0, 0xa0, 0xa0, 0x00, 0x56, 0x72, 0xa0, 0x00, 0x56, 0x7d, 0x94, 0x94],
   [0xa0, 0x29, 0x6e, 0x6f, 0x64, 0x65, 0x2e, 0x65, 0x64, 0x67, 0x65, 0x40],
   [0xa0, 0xa0, 0x90, 0xa0, 0xa0, 0xa0, 0x00, 0x56, 0x7f, 0xa0, 0x00, 0x56],
   [0x00, 0x43, 0x2f, 0x24, 0x70, 0x61, 0x72, 0x61, 0x6d, 0x65, 0x74, 0x65],
   [0x72, 0x24, 0x72, 0x65, 0x70, 0x6f, 0xa0, 0xa0, 0xa0, 0x00, 0x56, 0x00],
   [0x44, 0xa0, 0x00, 0x56, 0x00, 0x56, 0x94, 0x94, 0xa0, 0x30, 0x69, 0x6e],
   [0x73, 0x74, 0x61, 0x67, 0x72, 0x61, 0x6d, 0x2d, 0x73, 0x65, 0x72, 0x76],
   [0x65, 0x72, 0x40, 0xa0, 0xa0, 0x90, 0xa0, 0xa0, 0xa0, 0x00, 0x56, 0x00],
   [0x58, 0xa0, 0x00, 0x56, 0x00, 0x63, 0x36, 0x24, 0x70, 0x61, 0x72, 0x61],
   [0x6d, 0x65, 0x74, 0x65, 0x72, 0x24, 0x73, 0x63, 0x68, 0x65, 0x6d, 0x61],
   [0x5f, 0x6e, 0x61, 0x6d, 0x65, 0xa0, 0xa0, 0xa0, 0x00, 0x56, 0x00, 0x64],
   [0xa0, 0x00, 0x56, 0x00, 0x79, 0x94, 0x94, 0xa0, 0x33, 0x69, 0x67, 0x5f],
   [0x66, 0x65, 0x65, 0x64, 0x5f, 0x73, 0x69, 0x6e, 0x67, 0x6c, 0x65, 0x5f],
   [0x70, 0x6f, 0x73, 0x74, 0x40, 0xa0, 0xa0, 0x90, 0xa0, 0xa0, 0xa0, 0x00],
   [0x56, 0x00, 0x7b, 0xa0, 0x00, 0x56, 0x00, 0x7f, 0x2f, 0x24, 0x70, 0x61],
   [0x72, 0x61, 0x6d, 0x65, 0x74, 0x65, 0x72, 0x24, 0x65, 0x64, 0x67, 0x65],
   [0xa0, 0xa0, 0xa0, 0x00, 0x56, 0x01, 0x00, 0x80, 0xa0, 0x00, 0x56, 0x01],
   [0x00, 0x90, 0x94, 0x94, 0xa0, 0x2e, 0x6d, 0x65, 0x64, 0x69, 0x61, 0x5f],
   [0x74, 0x6f, 0x5f, 0x73, 0x63, 0x6f, 0x72, 0x65, 0x40, 0x40, 0x40, 0x40],
   [0x84, 0x95, 0xa6, 0xbe, 0x00, 0x00, 0x00, 0x31, 0x00, 0x00, 0x00, 0x04],
   [0x00, 0x00, 0x00, 0x14, 0x00, 0x00, 0x00, 0x0f, 0xa0, 0x09, 0x29, 0x6e]] @
  [[0x6f, 0x64, 0x65, 0x61, 0x70, 0x69, 0x2e, 0x4e, 0x6f, 0x64, 0x65, 0x51],
   [0x75, 0x65, 0x72, 0x79, 0x2e, 0x4e, 0x6f, 0x64, 0x65, 0x47, 0x65, 0x74],
   [0x51, 0x75, 0x65, 0x72, 0x79, 0x2e, 0x61, 0x73, 0x79, 0x6e, 0x63, 0x5f],
   [0x73, 0x65, 0x6e, 0x64, 0xa0, 0x22, 0x76, 0x63, 0x40, 0x84, 0x95, 0xa6],
   [0xbe, 0x00, 0x00, 0x00, 0x05, 0x00, 0x00, 0x00, 0x02, 0x00, 0x00, 0x00],
   [0x06, 0x00, 0x00, 0x00, 0x06, 0xa0, 0x40, 0xa0, 0x41, 0x40, 0x84, 0x95],
   [0xa6, 0xbe, 0x00, 0x00, 0x02, 0xe5, 0x00, 0x00, 0x00, 0xa7, 0x00, 0x00],
   [0x02, 0x22, 0x00, 0x00, 0x01, 0xf3, 0xb0, 0xa0, 0x2a, 0x69, 0x67, 0x5f],
   [0x6e, 0x6f, 0x64, 0x65, 0x61, 0x70, 0x69, 0xa0, 0x25, 0x65, 0x64, 0x67],
   [0x65, 0x73, 0xa0, 0x09, 0x35, 0x63, 0x68, 0x69, 0x6c, 0x64, 0x5f, 0x6d],
   [0x65, 0x64, 0x69, 0x61, 0x5f, 0x74, 0x6f, 0x5f, 0x72, 0x65, 0x75, 0x73],
   [0x61, 0x62, 0x6c, 0x65, 0x5f, 0x74, 0x65, 0x6d, 0x70, 0x6c, 0x61, 0x74],
   [0x65, 0x5f, 0x61, 0x73, 0x73, 0x65, 0x74, 0x73, 0x5f, 0x6f, 0x6e, 0x5f],
   [0x6e, 0x6f, 0x74, 0x65, 0x5f, 0x61, 0x75, 0x64, 0x69, 0x6f, 0x40, 0x90],
   [0xa0, 0xa0, 0xa0, 0x01, 0x00, 0x92, 0x44, 0xa0, 0x01, 0x00, 0x94, 0x00],
   [0x4d, 0xc0, 0x08, 0x00, 0x00, 0x20, 0x00, 0xa0, 0x04, 0x0d, 0xa0, 0x04],
   [0x0c, 0xa0, 0x04, 0x0b, 0xa0, 0x09, 0x36, 0x45, 0x64, 0x67, 0x65, 0x43],
   [0x68, 0x69, 0x6c, 0x64, 0x4d, 0x65, 0x64, 0x69, 0x61, 0x54, 0x6f, 0x52],
   [0x65, 0x75, 0x73, 0x61, 0x62, 0x6c, 0x65, 0x54, 0x65, 0x6d, 0x70, 0x6c],
   [0x61, 0x74, 0x65, 0x41, 0x73, 0x73, 0x65, 0x74, 0x73, 0x4f, 0x6e, 0x4e],
   [0x6f, 0x74, 0x65, 0x41, 0x75, 0x64, 0x69, 0x6f, 0x51, 0x75, 0x65, 0x72],
   [0x79, 0xa0, 0x25, 0x6e, 0x6f, 0x64, 0x65, 0x73, 0x40, 0xa0, 0xa0, 0xa0],
   [0xa0, 0x01, 0x00, 0x92, 0x4e, 0xa0, 0x01, 0x00, 0x92, 0x52, 0xb0, 0x2f],
   [0x24, 0x70, 0x61, 0x72, 0x61, 0x6d, 0x65, 0x74, 0x65, 0x72, 0x24, 0x73],
   [0x65, 0x6c, 0x66, 0x40, 0x40, 0x40, 0x40, 0x90, 0xa0, 0xa0, 0xa0, 0x01],
   [0x00, 0x92, 0x57, 0xa0, 0x01, 0x00, 0x92, 0x00, 0x41, 0x9c, 0x90, 0xb0],
   [0xa0, 0x04, 0x07, 0x9c, 0x90, 0xb0, 0xa0, 0x04, 0x0b, 0x9c, 0x90, 0xb0],
   [0xa0, 0x04, 0x0f, 0x9c, 0x91, 0x2a, 0x69, 0x67, 0x5f, 0x6e, 0x6f, 0x64],
   [0x65, 0x61, 0x70, 0x69, 0x28, 0x70, 0x61, 0x74, 0x74, 0x65, 0x72, 0x6e],
   [0x73, 0x40, 0x09, 0x25, 0x72, 0x65, 0x75, 0x73, 0x61, 0x62, 0x6c, 0x6d]] @
  [[0x65, 0x74, 0x65, 0x72, 0x24, 0x61, 0x64, 0x64, 0x69, 0x74, 0x69, 0x6f],
   [0x6e, 0x61, 0x6c, 0x52, 0x65, 0x71, 0x75, 0x65, 0x73, 0x74, 0x49, 0x6e],
   [0x66, 0x6f, 0x40, 0xa0, 0xa0, 0x40, 0xa0, 0xa0, 0xa0, 0x01, 0x00, 0x84],
   [0x50, 0xa0, 0x01, 0x00, 0x84, 0x01, 0x00, 0x89, 0x9c, 0x90, 0xb0, 0xa0],
   [0xa0, 0xa0, 0x01, 0x00, 0x84, 0x50, 0xa0, 0x01, 0x00, 0x84, 0x00, 0x50],
   [0x9c, 0x90, 0xb0, 0xa0, 0xa0, 0xa0, 0x01, 0x00, 0x84, 0x50, 0xa0, 0x01],
   [0x00, 0x84, 0x00, 0x43, 0x9c, 0x90, 0xb0, 0xa0, 0xa0, 0xa0, 0x01, 0x00],
   [0x84, 0x50, 0xa0, 0x01, 0x00, 0x84, 0x72, 0x9c, 0x90, 0xb0, 0xa0, 0xa0],
   [0xa0, 0x01, 0x00, 0x84, 0x50, 0xa0, 0x01, 0x00, 0x84, 0x68, 0x9c, 0x90],
   [0xb0, 0xa0, 0xa0, 0xa0, 0x01, 0x00, 0x84, 0x50, 0xa0, 0x01, 0x00, 0x84],
   [0x5c, 0x9c, 0x90, 0xb0, 0xa0, 0xa0, 0xa0, 0x01, 0x00, 0x84, 0x50, 0xa0],
   [0x01, 0x00, 0x84, 0x58, 0x9c, 0x91, 0x28, 0x69, 0x67, 0x74, 0x68, 0x72],
   [0x69, 0x66, 0x74, 0x23, 0x67, 0x65, 0x6e, 0x40, 0x2b, 0x70, 0x79, 0x33],
   [0x5f, 0x61, 0x73, 0x79, 0x6e, 0x63, 0x69, 0x6f, 0x40, 0x29, 0x69, 0x6e],
   [0x73, 0x74, 0x61, 0x67, 0x72, 0x61, 0x6d, 0x40, 0x30, 0x69, 0x67, 0x5f],
   [0x61, 0x64, 0x5f, 0x61, 0x67, 0x67, 0x72, 0x65, 0x67, 0x61, 0x74, 0x6f],
   [0x72, 0x40, 0x2c, 0x74, 0x68, 0x72, 0x69, 0x66, 0x74, 0x5f, 0x74, 0x79],
   [0x70, 0x65, 0x73, 0x40, 0x09, 0x38, 0x5f, 0x66, 0x62, 0x74, 0x68, 0x72],
   [0x69, 0x66, 0x74, 0x5f, 0x49, 0x6e, 0x73, 0x74, 0x61, 0x67, 0x72, 0x61],
   [0x6d, 0x41, 0x64, 0x41, 0x67, 0x67, 0x72, 0x65, 0x67, 0x61, 0x74, 0x6f],
   [0x72, 0x53, 0x65, 0x72, 0x76, 0x69, 0x63, 0x65, 0x5f, 0x67, 0x65, 0x74],
   [0x41, 0x64, 0x73, 0x43, 0x46, 0x41, 0x44, 0x5f, 0x72, 0x65, 0x73, 0x75],
   [0x6c, 0x74, 0x40, 0xa0, 0xa0, 0x90, 0xa0, 0xa0, 0xa0, 0x01, 0x00, 0x85],
   [0x50, 0xa0, 0x01, 0x00, 0x85, 0x59, 0x34, 0x24, 0x70, 0x61, 0x72, 0x61],
   [0x6d, 0x65, 0x74, 0x65, 0x72, 0x24, 0x71, 0x75, 0x61, 0x6c, 0x69, 0x66],
   [0x69, 0x65, 0x72, 0xa0, 0xa0, 0xa0, 0x01, 0x00, 0x85, 0x5c, 0xa0, 0x01],
   [0x00, 0x85, 0x00, 0x43, 0x9c, 0x90, 0xb0, 0xa0, 0xa0, 0xa0, 0x01, 0x00],
   [0x85, 0x5c, 0xa0, 0x01, 0x00, 0x85, 0x77, 0x9c, 0x90, 0xb0, 0xa0, 0x04],
   [0x07, 0x9c, 0x90, 0xb0, 0xa0, 0x04, 0x0b, 0x9c, 0x90, 0xb0, 0xa0, 0x04],
   [0x0f, 0x9c, 0x90, 0xb0, 0xa0, 0x04, 0x13, 0x9c, 0x91, 0x05, 0x0a, 0x8c]] @
  [[0x05, 0x0a, 0x8a, 0x40, 0x05, 0x0a, 0x88, 0x40, 0x05, 0x0a, 0x86, 0x40],
   [0x05, 0x0a, 0x74, 0x40, 0x2b, 0x55, 0x6e, 0x73, 0x70, 0x65, 0x63, 0x69],
   [0x66, 0x69, 0x65, 0x64, 0x40, 0xa0, 0xa0, 0x90, 0xa0, 0xa0, 0xa0, 0x01],
   [0x00, 0x86, 0x50, 0xa0, 0x01, 0x00, 0x86, 0x5b, 0x36, 0x24, 0x70, 0x61],
   [0x72, 0x61, 0x6d, 0x65, 0x74, 0x65, 0x72, 0x24, 0x75, 0x72, 0x69, 0x5f],
   [0x6f, 0x72, 0x5f, 0x6e, 0x61, 0x6d, 0x65, 0xa0, 0xa0, 0xa0, 0x01, 0x00],
   [0x86, 0x5c, 0xa0, 0x01, 0x00, 0x86, 0x7a, 0x94, 0x94, 0xa0, 0x3c, 0x49],
   [0x6e, 0x73, 0x74, 0x61, 0x67, 0x72, 0x61, 0x6d, 0x41, 0x64, 0x41, 0x67],
   [0x67, 0x72, 0x65, 0x67, 0x61, 0x74, 0x6f, 0x72, 0x53, 0x65, 0x72, 0x76],
   [0x69, 0x63, 0x65, 0x40, 0xa0, 0xa0, 0x90, 0xa0, 0xa0, 0xa0, 0x01, 0x00],
   [0x87, 0x50, 0xa0, 0x01, 0x00, 0x87, 0x5b, 0x36, 0x24, 0x70, 0x61, 0x72],
   [0x61, 0x6d, 0x65, 0x74, 0x65, 0x72, 0x24, 0x72, 0x70, 0x63, 0x5f, 0x6f],
   [0x70, 0x74, 0x69, 0x6f, 0x6e, 0x73, 0xa0, 0xa0, 0xa0, 0x01, 0x00, 0x87],
   [0x5c, 0xa0, 0x01, 0x00, 0x87, 0x67, 0x9c, 0x91, 0x36, 0x24, 0x70, 0x61],
   [0x72, 0x61, 0x6d, 0x65, 0x74, 0x65, 0x72, 0x24, 0x72, 0x70, 0x63, 0x5f],
   [0x6f, 0x70, 0x74, 0x69, 0x6f, 0x6e, 0x73, 0x40, 0xa0, 0xa0, 0xa0, 0xa0],
   [0x01, 0x00, 0x8a, 0x4c, 0xa0, 0x01, 0x00, 0x8b, 0x6d, 0x98, 0xb0, 0xa0],
   [0xa0, 0xa0, 0x01, 0x00, 0x8a, 0x4f, 0xa0, 0x01, 0x00, 0x8a, 0x71, 0x93],
   [0xb0, 0xa0, 0xa0, 0xa0, 0x01, 0x00, 0x8a, 0x4f, 0xa0, 0x01, 0x00, 0x8a],
   [0x65, 0x9c, 0x90, 0xb0, 0xa0, 0xa0, 0xa0, 0x01, 0x00, 0x8a, 0x4f, 0xa0],
   [0x01, 0x00, 0x8a, 0x5d, 0x9c, 0x91, 0x05, 0x01, 0x33, 0x27, 0x73, 0x75],
   [0x63, 0x63, 0x65, 0x73, 0x73, 0x40, 0x45, 0xa0, 0xa0, 0xa0, 0x01, 0x00],
   [0x8a, 0x6d, 0x04, 0x14, 0x94, 0x40, 0xa0, 0xa0, 0xa0, 0xa0, 0x01, 0x00],
   [0x8b, 0x50, 0xa0, 0x01, 0x00, 0x8b, 0x6d, 0x9d, 0xa0, 0x40, 0x90, 0xa0],
   [0xa0, 0xa0, 0x01, 0x00, 0x8b, 0x57, 0xa0, 0x01, 0x00, 0x8b, 0x6d, 0x9c],
   [0x90, 0xb0, 0xa0, 0xa0, 0xa0, 0x01, 0x00, 0x8b, 0x57, 0xa0, 0x01, 0x00],
   [0x8b, 0x65, 0x9c, 0x91, 0x05, 0x01, 0x4d, 0x27, 0x73, 0x75, 0x63, 0x63],
   [0x65, 0x73, 0x73, 0x40, 0x40, 0x40, 0xa0, 0xa0, 0xa0, 0xa0, 0x01, 0x00],
   [0x8c, 0x4c, 0xa0, 0x01, 0x00, 0x8f, 0x4d, 0x9c, 0xa0, 0x90, 0xa0, 0xa0],
   [0xa0, 0x01, 0x00, 0x8c, 0x52, 0xa0, 0x01, 0x00, 0x8f, 0x4d, 0x92, 0xa0]] @
  [[0xa0, 0xa0, 0xa0, 0x01, 0x00, 0x8c, 0x52, 0xa0, 0x01, 0x00, 0x8c, 0x7e],
   [0x9c, 0x90, 0xb0, 0xa0, 0xa0, 0xa0, 0x01, 0x00, 0x8c, 0x52, 0xa0, 0x01],
   [0x00, 0x8c, 0x6d, 0x9c, 0x90, 0xb0, 0xa0, 0x04, 0x07, 0x9c, 0x90, 0xb0],
   [0xa0, 0x04, 0x0b, 0x9c, 0x91, 0x05, 0x0a, 0xc1, 0x05, 0x0a, 0xbf, 0x40],
   [0x05, 0x0a, 0xbd, 0x40, 0x30, 0x41, 0x70, 0x70, 0x6c, 0x69, 0x63, 0x61],
   [0x74, 0x69, 0x6f, 0x6e, 0x45, 0x72, 0x72, 0x6f, 0x72, 0x40, 0xa0, 0xa0],
   [0x40, 0xa0, 0xa0, 0xa0, 0x01, 0x00, 0x8d, 0x50, 0xa0, 0x01, 0x00, 0x8d],
   [0x00, 0x4f, 0x9c, 0x90, 0xb0, 0xa0, 0xa0, 0xa0, 0x01, 0x00, 0x8d, 0x50],
   [0xa0, 0x01, 0x00, 0x8d, 0x00, 0x40, 0x9c, 0x90, 0xb0, 0xa0, 0xa0, 0xa0],
   [0x01, 0x00, 0x8d, 0x50, 0xa0, 0x01, 0x00, 0x8d, 0x6b, 0x9c, 0x90, 0xb0],
   [0xa0, 0x04, 0x07, 0x9c, 0x90, 0xb0, 0xa0, 0x04, 0x0b, 0x9c, 0x91, 0x05],
   [0x0a, 0xe0, 0x05, 0x0a, 0xde, 0x40, 0x05, 0x0a, 0xdc, 0x40, 0x34, 0x41],
   [0x70, 0x70, 0x6c, 0x69, 0x63, 0x61, 0x74, 0x69, 0x6f, 0x6e, 0x45, 0x72],
   [0x72, 0x6f, 0x72, 0x54, 0x79, 0x70, 0x65, 0x40, 0x2e, 0x4d, 0x49, 0x53],
   [0x53, 0x49, 0x4e, 0x47, 0x5f, 0x52, 0x45, 0x53, 0x55, 0x4c, 0x54, 0x40],
   [0xa0, 0xa0, 0x40, 0xa0, 0xa0, 0xa0, 0x01, 0x00, 0x8e, 0x50, 0xa0, 0x01],
   [0x00, 0x8e, 0x60, 0x94, 0x94, 0xa0, 0x2e, 0x45, 0x6d, 0x70, 0x74, 0x79],
   [0x20, 0x52, 0x65, 0x73, 0x70, 0x6f, 0x6e, 0x73, 0x65, 0x40, 0x40, 0x40],
   [0xa0, 0xa0, 0x04, 0x4e, 0x9d, 0xa0, 0x41, 0x40, 0x40, 0xa0, 0xa0, 0xa0],
   [0xa0, 0x01, 0x00, 0x91, 0x48, 0xa0, 0x01, 0x00, 0xa9, 0x4d, 0x93, 0xc0],
   [0x08, 0x00, 0x00, 0x20, 0x00, 0xa0, 0x05, 0x0b, 0xe3, 0xa0, 0x05, 0x0b],
   [0xe2, 0xa0, 0x05, 0x0b, 0xe1, 0xa0, 0x05, 0x0b, 0xe0, 0xa0, 0x05, 0x0b],
   [0xdf, 0xa0, 0x05, 0x0b, 0xde, 0xa0, 0x05, 0x08, 0xa8, 0xa0, 0x05, 0x06],
   [0xca, 0xa0, 0x2e, 0x67, 0x65, 0x6e, 0x56, 0x61, 0x6c, 0x69, 0x64, 0x61],
   [0x74, 0x65, 0x41, 0x64, 0x73, 0x40, 0xa0, 0xa0, 0xa0, 0xa0, 0x01, 0x00],
   [0x92, 0x4c, 0xa0, 0xa0, 0xa0, 0x7a, 0x6e, 0xa0, 0x7a, 0x72, 0x94, 0x40],
   [0xa0, 0xa0, 0xa0, 0xa0, 0x7b, 0x44, 0xa0, 0x7b, 0x64, 0x90, 0xb0, 0xa0],
   [0xa0, 0xa0, 0x7b, 0x44, 0xa0, 0x7b, 0x4e, 0x9c, 0x91, 0x2a, 0x73, 0x65],
   [0x73, 0x73, 0x69, 0x6f, 0x6e, 0x5f, 0x69, 0x64, 0x90, 0xa0, 0xa0, 0xa0],
   [0x7b, 0x50, 0xa0, 0x7b, 0x5d, 0x92, 0xa0, 0xa0, 0xa0, 0xa0, 0x7b, 0x50]]"

definition dictionary_rows_28 :: "u8 list list" where
  "dictionary_rows_28 =
  [[0xa0, 0x7b, 0x58, 0x9c, 0x90, 0xb0, 0xa0, 0x04, 0x07, 0x9c, 0x91, 0x28],
   [0x4f, 0x70, 0x74, 0x69, 0x6f, 0x6e, 0x61, 0x6c, 0x04, 0xc3, 0x41, 0xa0],
   [0xa0, 0x40, 0xa0, 0xa0, 0xa0, 0x7b, 0x59, 0xa0, 0x7b, 0x5c, 0x9c, 0x91],
   [0x23, 0x73, 0x74, 0x72, 0x40, 0xa0, 0xa0, 0xa0, 0x7b, 0x60, 0xa0, 0x7b],
   [0x64, 0x94, 0x40, 0x40, 0xa0, 0xa0, 0xa0, 0xa0, 0x6b, 0x41, 0xa0, 0x6b],
   [0x57, 0x92, 0xa0, 0xa0, 0xa0, 0xa0, 0x6b, 0x41, 0xa0, 0x6b, 0x4a, 0x9c],
   [0x91, 0x29, 0x64, 0x61, 0x74, 0x61, 0x63, 0x6c, 0x61, 0x73, 0x73, 0xa0],
   [0xa0, 0x90, 0xa0, 0xa0, 0xa0, 0x6b, 0x4b, 0xa0, 0x6b, 0x51, 0x26, 0x66],
   [0x72, 0x6f, 0x7a, 0x65, 0x6e, 0xa0, 0xa0, 0xa0, 0x6b, 0x52, 0xa0, 0x6b],
   [0x56, 0x94, 0x43, 0x40, 0x40, 0x40, 0xa0, 0xa0, 0xa0, 0xa0, 0x7e, 0x40],
   [0xa0, 0x00, 0x71, 0x49, 0x92, 0xd0, 0xa0, 0x3b, 0x55, 0x73, 0x65, 0x72],
   [0x45, 0x6e, 0x67, 0x61, 0x67, 0x65, 0x6d, 0x65, 0x6e, 0x74, 0x49, 0x6e],
   [0x66, 0x6f, 0x55, 0x74, 0x69, 0x6c, 0x54, 0x65, 0x73, 0x74, 0x73, 0x40],
   [0xa0, 0xa0, 0x40, 0xa0, 0xa0, 0xa0, 0x7e, 0x62, 0xa0, 0x7e, 0x71, 0x9c],
   [0x91, 0x2f, 0x49, 0x6e, 0x74, 0x65, 0x67, 0x72, 0x61, 0x74, 0x69, 0x6f],
   [0x6e, 0x54, 0x65, 0x73, 0x74, 0x40, 0xa0, 0xa0, 0xa0, 0xa0, 0x7f, 0x44],
   [0xa0, 0x7f, 0x6e, 0x90, 0xb0, 0xa0, 0xa0, 0x04, 0x06, 0xa0, 0x7f, 0x54],
   [0x9c, 0x91, 0x30, 0x4f, 0x4e, 0x43, 0x41, 0x4c, 0x4c, 0x5f, 0x53, 0x48],
   [0x4f, 0x52, 0x54, 0x4e, 0x41, 0x4d, 0x45, 0x40, 0xa0, 0xa0, 0xa0, 0x7f],
   [0x57, 0xa0, 0x7f, 0x6e, 0x94, 0x94, 0xa0, 0x35, 0x69, 0x67, 0x5f, 0x61],
   [0x64, 0x73, 0x5f, 0x64, 0x65, 0x6c, 0x69, 0x76, 0x65, 0x72, 0x79, 0x5f],
   [0x69, 0x6e, 0x66, 0x72, 0x61, 0x40, 0xa0, 0xa0, 0xa0, 0xa0, 0x00, 0x41],
   [0x44, 0xa0, 0x00, 0x42, 0x7d, 0x93, 0xc0, 0x08, 0x00, 0x00, 0x20, 0x00],
   [0xa0, 0x2b, 0x61, 0x73, 0x79, 0x6e, 0x63, 0x5f, 0x73, 0x65, 0x74, 0x55],
   [0x70, 0x40, 0xa0, 0xa0, 0xa0, 0xa0, 0x00, 0x41, 0x5a, 0xa0, 0x00, 0x41],
   [0x5e, 0xb0, 0x24, 0x73, 0x65, 0x6c, 0x66, 0x40, 0x40, 0x40, 0x40, 0x90],
   [0xa0, 0xa0, 0xa0, 0x00, 0x41, 0x63, 0xa0, 0x00, 0x41, 0x67, 0x94, 0x40],
   [0x41, 0x40, 0x90, 0xa0, 0x04, 0x38, 0x40, 0x40, 0x40, 0x40, 0xa0, 0xa0],
   [0xa0, 0xa0, 0x00, 0x42, 0x48, 0xa0, 0x00, 0x42, 0x7d, 0x90, 0xb0, 0xa0],
   [0xa0, 0x04, 0x06, 0xa0, 0x00, 0x42, 0x51, 0x9c, 0x90, 0xb0, 0xa0, 0xa0]] @
  [[0xa0, 0x00, 0x42, 0x48, 0xa0, 0x00, 0x42, 0x4c, 0x9c, 0x91, 0x24, 0x73],
   [0x65, 0x6c, 0x66, 0x24, 0x75, 0x73, 0x65, 0x72, 0x40, 0x40, 0xa0, 0xa0],
   [0xa0, 0x00, 0x42, 0x54, 0xa0, 0x00, 0x42, 0x7d, 0x90, 0xa0, 0xa0, 0xa0],
   [0x00, 0x42, 0x5a, 0xa0, 0x00, 0x42, 0x7d, 0x92, 0xa0, 0xa0, 0xa0, 0xa0],
   [0x00, 0x42, 0x5a, 0xa0, 0x00, 0x42, 0x70, 0x9c, 0x90, 0xb0, 0xa0, 0xa0],
   [0xa0, 0x00, 0x42, 0x5a, 0xa0, 0x00, 0x42, 0x5e, 0x9c, 0x91, 0x24, 0x73],
   [0x65, 0x6c, 0x66, 0x31, 0x61, 0x73, 0x79, 0x6e, 0x63, 0x5f, 0x63, 0x72],
   [0x65, 0x61, 0x74, 0x65, 0x5f, 0x75, 0x73, 0x65, 0x72, 0x40, 0xa0, 0xa0],
   [0x40, 0xa0, 0xa0, 0xa0, 0x00, 0x42, 0x71, 0xa0, 0x00, 0x42, 0x7c, 0x94],
   [0x94, 0xa0, 0x29, 0x74, 0x65, 0x73, 0x74, 0x5f, 0x75, 0x73, 0x65, 0x72],
   [0x40, 0x40, 0xa0, 0xa0, 0x04, 0x39, 0x9d, 0xa0, 0x41, 0x40, 0x40, 0xa0],
   [0xa0, 0xa0, 0xa0, 0x00, 0x66, 0x44, 0xa0, 0x00, 0x71, 0x49, 0x93, 0xc0],
   [0x08, 0x00, 0x00, 0x20, 0x00, 0xa0, 0x38, 0x74, 0x65, 0x73, 0x74, 0x5f],
   [0x61, 0x73, 0x79, 0x6e, 0x63, 0x5f, 0x67, 0x65, 0x74, 0x5f, 0x70, 0x61],
   [0x67, 0x65, 0x5f, 0x74, 0x79, 0x70, 0x65, 0x40, 0xa0, 0xa0, 0xa0, 0xa0],
   [0x00, 0x67, 0x48, 0xa0, 0x00, 0x67, 0x4c, 0xb0, 0x24, 0x73, 0x65, 0x6c],
   [0x66, 0x40, 0x40, 0xa0, 0xa0, 0xa0, 0xa0, 0x00, 0x68, 0x48, 0xa0, 0x00],
   [0x68, 0x6b, 0xb0, 0x30, 0x63, 0x6f, 0x6e, 0x74, 0x61, 0x69, 0x6e, 0x65],
   [0x72, 0x5f, 0x6d, 0x6f, 0x64, 0x75, 0x6c, 0x65, 0x40, 0x90, 0xa0, 0xa0],
   [0xa0, 0x00, 0x68, 0x5a, 0xa0, 0x00, 0x68, 0x6b, 0x9c, 0x91, 0x31, 0x44],
   [0x56, 0x43, 0x6f, 0x6e, 0x74, 0x61, 0x69, 0x6e, 0x65, 0x72, 0x4d, 0x6f],
   [0x64, 0x75, 0x6c, 0x65, 0xa0, 0xa0, 0xa0, 0xa0, 0x00, 0x69, 0x48, 0xa0],
   [0x00, 0x69, 0x5d, 0xb0, 0x30, 0x69, 0x6e, 0x76, 0x65, 0x6e, 0x74, 0x6f],
   [0x72, 0x79, 0x5f, 0x73, 0x6f, 0x75, 0x72, 0x63, 0x65, 0x40, 0x90, 0xa0],
   [0xa0, 0xa0, 0x00, 0x69, 0x5a, 0xa0, 0x00, 0x69, 0x5d, 0x9c, 0x91, 0x23],
   [0x73, 0x74, 0x72, 0xa0, 0xa0, 0xa0, 0xa0, 0x00, 0x6a, 0x48, 0xa0, 0x00],
   [0x6a, 0x69, 0xb0, 0x32, 0x65, 0x78, 0x70, 0x65, 0x63, 0x74, 0x65, 0x64],
   [0x5f, 0x70, 0x61, 0x67, 0x65, 0x5f, 0x74, 0x79, 0x70, 0x65, 0x40, 0x90],
   [0xa0, 0xa0, 0xa0, 0x00, 0x6a, 0x5c, 0xa0, 0x00, 0x6a, 0x69, 0x9c, 0x91],
   [0x2d, 0x50, 0x61, 0x67, 0x65, 0x54, 0x79, 0x70, 0x65, 0x43, 0x6f, 0x64]] @
  [[0x65, 0x33, 0x40, 0xa0, 0xa0, 0xa0, 0xa0, 0x00, 0x44, 0x45, 0xa0, 0x00],
   [0x65, 0x45, 0x92, 0xa0, 0xa0, 0xa0, 0xa0, 0x00, 0x44, 0x45, 0xa0, 0x00],
   [0x44, 0x52, 0x9c, 0x91, 0x2d, 0x64, 0x61, 0x74, 0x61, 0x5f, 0x70, 0x72],
   [0x6f, 0x76, 0x69, 0x64, 0x65, 0x72, 0xa0, 0xa0, 0x40, 0xa0, 0xa0, 0xa0],
   [0x00, 0x45, 0x48, 0xa0, 0x00, 0x64, 0x49, 0x9a, 0xa0, 0xa0, 0xa0, 0xa0],
   [0x00, 0x46, 0x4c, 0xa0, 0x00, 0x4a, 0x4d, 0x08, 0x00, 0x00, 0x04, 0x11],
   [0xa0, 0xa0, 0xa0, 0xa0, 0x00, 0x47, 0x50, 0xa0, 0x00, 0x47, 0x6f, 0x9c],
   [0x90, 0xb0, 0xa0, 0xa0, 0xa0, 0x00, 0x47, 0x50, 0xa0, 0x00, 0x47, 0x61],
   [0x9c, 0x91, 0x31, 0x44, 0x56, 0x43, 0x6f, 0x6e, 0x74, 0x61, 0x69, 0x6e],
   [0x65, 0x72, 0x4d, 0x6f, 0x64, 0x75, 0x6c, 0x65, 0x2d, 0x46, 0x45, 0x45],
   [0x44, 0x5f, 0x54, 0x49, 0x4d, 0x45, 0x4c, 0x49, 0x4e, 0x45, 0x40, 0xa0],
   [0xa0, 0xa0, 0xa0, 0x00, 0x48, 0x50, 0xa0, 0x00, 0x48, 0x56, 0x94, 0x94],
   [0xa0, 0x24, 0x4e, 0x6f, 0x6e, 0x65, 0x40, 0xa0, 0xa0, 0xa0, 0xa0, 0x00],
   [0x49, 0x50, 0xa0, 0x00, 0x49, 0x73, 0x9c, 0x90, 0xb0, 0xa0, 0xa0, 0xa0],
   [0x00, 0x49, 0x50, 0xa0, 0x00, 0x49, 0x5d, 0x9c, 0x91, 0x2d, 0x50, 0x61],
   [0x67, 0x65, 0x54, 0x79, 0x70, 0x65, 0x43, 0x6f, 0x64, 0x65, 0x33, 0x35],
   [0x50, 0x41, 0x47, 0x45, 0x5f, 0x49, 0x4e, 0x53, 0x54, 0x41, 0x47, 0x52],
   [0x41, 0x4d, 0x5f, 0x53, 0x54, 0x52, 0x45, 0x41, 0x4d, 0x40, 0x40, 0xa0],
   [0xa0, 0xa0, 0xa0, 0x00, 0x4b, 0x4c, 0xa0, 0x00, 0x4f, 0x4d, 0x08, 0x00],
   [0x00, 0x04, 0x11, 0xa0, 0xa0, 0xa0, 0xa0, 0x00, 0x4c, 0x50, 0xa0, 0x00],
   [0x4c, 0x6f, 0x9c, 0x90, 0xb0, 0xa0, 0xa0, 0x74, 0x4f, 0x6e, 0x55, 0x73],
   [0x65, 0x72, 0x40, 0xa0, 0x04, 0x08, 0xa0, 0x04, 0x07, 0xa0, 0x04, 0x06],
   [0x40, 0xb0, 0xa0, 0xa0, 0xa0, 0xa0, 0x00, 0x6e, 0x67, 0xa0, 0x00, 0x6e],
   [0x6b, 0x9c, 0x90, 0xb0, 0xa0, 0x04, 0x07, 0x9c, 0x90, 0xb0, 0xa0, 0x04],
   [0x0b, 0x9c, 0x91, 0x27, 0x6e, 0x6f, 0x64, 0x65, 0x61, 0x70, 0x69, 0x24],
   [0x45, 0x64, 0x67, 0x65, 0x40, 0x24, 0x45, 0x64, 0x67, 0x65, 0x40, 0x40],
   [0x40, 0x40, 0x40, 0xc0, 0x40, 0x40, 0x40, 0xd0, 0xd0, 0xd0, 0x40, 0x27],
   [0x5f, 0x53, 0x43, 0x48, 0x45, 0x4d, 0x41, 0xa0, 0xa0, 0xa0, 0x01, 0x00],
   [0x85, 0x44, 0xa0, 0x01, 0x00, 0x89, 0x62, 0xa0, 0x92, 0xb0, 0x40, 0x41],
   [0x90, 0xa0, 0x40, 0x90, 0xa0, 0xa0, 0xa0, 0x01, 0x00, 0x85, 0x58, 0xa0]] @
  [[0x01, 0x00, 0x85, 0x5e, 0x9c, 0x91, 0x26, 0x6f, 0x62, 0x6a, 0x65, 0x63],
   [0x74, 0x04, 0x12, 0x40, 0x41, 0x29, 0x5f, 0x53, 0x45, 0x4c, 0x45, 0x43],
   [0x54, 0x4f, 0x52, 0xa0, 0xa0, 0xa0, 0x00, 0x7d, 0x44, 0xa0, 0x00, 0x7e],
   [0x79, 0xa0, 0x92, 0xb0, 0x40, 0x41, 0x90, 0xa0, 0x40, 0x90, 0xa0, 0xa0],
   [0xa0, 0x00, 0x7d, 0x5a, 0xa0, 0x00, 0x7d, 0x00, 0x42, 0x9c, 0x90, 0xb0],
   [0xa0, 0x04, 0x07, 0x9c, 0x90, 0xb0, 0xa0, 0x04, 0x0b, 0x9c, 0x90, 0xb0],
   [0xa0, 0x04, 0x0f, 0x9c, 0x91, 0x04, 0x50, 0x04, 0x4e, 0x40, 0x04, 0x4c],
   [0x40, 0x09, 0x28, 0x45, 0x64, 0x67, 0x65, 0x53, 0x65, 0x6c, 0x65, 0x63],
   [0x74, 0x6f, 0x72, 0x52, 0x65, 0x71, 0x75, 0x65, 0x73, 0x74, 0x46, 0x6f],
   [0x6c, 0x6c, 0x6f, 0x77, 0x50, 0x65, 0x72, 0x6d, 0x61, 0x6e, 0x65, 0x6e],
   [0x74, 0x4f, 0x6e, 0x55, 0x73, 0x65, 0x72, 0x40, 0x04, 0x1e, 0xd0, 0x40],
   [0x35, 0x5f, 0x73, 0x63, 0x68, 0x65, 0x6d, 0x61, 0x5f, 0x69, 0x64, 0x5f],
   [0x44, 0x4f, 0x5f, 0x4e, 0x4f, 0x54, 0x5f, 0x55, 0x53, 0x45, 0xa0, 0xa0],
   [0xa0, 0x01, 0x00, 0x81, 0x44, 0xa0, 0x01, 0x00, 0x82, 0x64, 0xa0, 0x91],
   [0xb0, 0xa0, 0x08, 0x00, 0x00, 0x20, 0x00, 0xa0, 0x04, 0x5d, 0xa0, 0x04],
   [0x5c, 0xa0, 0x04, 0x5b, 0xa0, 0x04, 0x5a, 0xa0, 0x04, 0x0f, 0x40, 0xa0],
   [0xa0, 0xa0, 0xa0, 0x01, 0x00, 0x81, 0x5e, 0xa0, 0x01, 0x00, 0x81, 0x61],
   [0xb0, 0x2e, 0x24, 0x70, 0x61, 0x72, 0x61, 0x6d, 0x65, 0x74, 0x65, 0x72],
   [0x24, 0x63, 0x6c, 0x73, 0x40, 0x40, 0x40, 0xa0, 0xa0, 0xa0, 0xa0, 0x01],
   [0x00, 0x80, 0x45, 0xa0, 0x01, 0x00, 0x80, 0x50, 0x9c, 0x91, 0x2b, 0x63],
   [0x6c, 0x61, 0x73, 0x73, 0x6d, 0x65, 0x74, 0x68, 0x6f, 0x64, 0x40, 0x90],
   [0xa0, 0xa0, 0xa0, 0x01, 0x00, 0x81, 0x66, 0xa0, 0x01, 0x00, 0x81, 0x69],
   [0x9c, 0x91, 0x23, 0x69, 0x6e, 0x74, 0x40, 0x40, 0x90, 0xa0, 0x04, 0x7a],
   [0xa0, 0x04, 0x79, 0xa0, 0x04, 0x78, 0x04, 0x77, 0x40, 0x40, 0x40, 0x40],
   [0x04, 0x2a, 0x40, 0x41, 0x42, 0x24, 0x64, 0x61, 0x74, 0x61, 0xa0, 0xa0],
   [0xa0, 0x00, 0x74, 0x44, 0xa0, 0x00, 0x75, 0x64, 0xa0, 0x92, 0xb0, 0x40],
   [0x40, 0x90, 0xa0, 0x40, 0x90, 0xa0, 0xa0, 0xa0, 0x00, 0x74, 0x56, 0xa0],
   [0x00, 0x74, 0x5b, 0x9c, 0x91, 0x25, 0x62, 0x79, 0x74, 0x65, 0x73, 0x04],
   [0x12, 0xd0, 0x40, 0x24, 0x74, 0x69, 0x6d, 0x65, 0xa0, 0xa0, 0xa0, 0x00],
   [0x78, 0x44, 0xa0, 0x00, 0x79, 0x60, 0xa0, 0x92, 0xb0, 0x40, 0x40, 0x90]] @
  [[0xa0, 0x40, 0x90, 0xa0, 0xa0, 0xa0, 0x00, 0x78, 0x56, 0xa0, 0x00, 0x78],
   [0x59, 0x9c, 0x91, 0x23, 0x69, 0x6e, 0x74, 0x04, 0x12, 0x40, 0x41, 0x43],
   [0x84, 0x95, 0xa6, 0xbe, 0x00, 0x00, 0x00, 0x05, 0x00, 0x00, 0x00, 0x03],
   [0x00, 0x00, 0x00, 0x07, 0x00, 0x00, 0x00, 0x07, 0x90, 0xa0, 0x40, 0x90],
   [0x40, 0x84, 0x95, 0xa6, 0xbe, 0x00, 0x00, 0x00, 0x01, 0x00, 0x00, 0x00],
   [0x00, 0x00, 0x00, 0x00, 0x00, 0x00, 0x00, 0x00, 0x00, 0x40, 0x84, 0x95],
   [0xa6, 0xbe, 0x00, 0x00, 0x00, 0x05, 0x00, 0x00, 0x00, 0x02, 0x00, 0x00],
   [0x00, 0x04, 0x00, 0x00, 0x00, 0x04, 0x94, 0x23, 0x73, 0x74, 0x72, 0x84],
   [0x95, 0xa6, 0xbe, 0x00, 0x00, 0x00, 0x41, 0x00, 0x00, 0x00, 0x07, 0x00],
   [0x00, 0x00, 0x1d, 0x00, 0x00, 0x00, 0x16, 0x99, 0xa0, 0x94, 0x09, 0x35],
   [0x69, 0x67, 0x5f, 0x6e, 0x6f, 0x64, 0x65, 0x61, 0x70, 0x69, 0x2e, 0x70],
   [0x61, 0x74, 0x74, 0x65, 0x72, 0x6e, 0x73, 0x2e, 0x6d, 0x65, 0x64, 0x69],
   [0x61, 0x5f, 0x62, 0x61, 0x73, 0x65, 0x5f, 0x70, 0x61, 0x74, 0x74, 0x65],
   [0x72, 0x6e, 0x2e, 0x49, 0x4e, 0x6f, 0x64, 0x65, 0x4d, 0x65, 0x64, 0x69],
   [0x61, 0x42, 0x61, 0x73, 0x65, 0xa0, 0x94, 0x23, 0x69, 0x6e, 0x74, 0x40],
   [0x84, 0x95, 0xa6, 0xbe, 0x00, 0x00, 0x01, 0x0a, 0x00, 0x00, 0x00, 0x21],
   [0x00, 0x00, 0x00, 0x8b, 0x00, 0x00, 0x00, 0x73, 0x90, 0xa0, 0x40, 0x90],
   [0xd1, 0xa0, 0x02, 0x0f, 0x47, 0x8b, 0x8c, 0xa0, 0xa0, 0x40, 0x40, 0xa0],
   [0xd1, 0x40, 0xa0, 0x2f, 0x24, 0x70, 0x61, 0x72, 0x61, 0x6d, 0x65, 0x74],
   [0x65, 0x72, 0x24, 0x73, 0x65, 0x6c, 0x66, 0x40, 0xa0, 0x90, 0xa0, 0x94],
   [0x09, 0x9d, 0x69, 0x67, 0x5f, 0x6e, 0x6f, 0x64, 0x65, 0x61, 0x70, 0x69],
   [0x2e, 0x65, 0x64, 0x67, 0x65, 0x73, 0x2e, 0x66, 0x72, 0x6f, 0x6d, 0x5f],
   [0x75, 0x73, 0x65, 0x72, 0x5f, 0x74, 0x6f, 0x5f, 0x73, 0x61, 0x76, 0x65],
   [0x5f, 0x61, 0x63, 0x74, 0x69, 0x6f, 0x6e, 0x5f, 0x6f, 0x67, 0x5f, 0x6f],
   [0x62, 0x6a, 0x65, 0x63, 0x74, 0x5f, 0x64, 0x65, 0x66, 0x69, 0x6e, 0x65],
   [0x64, 0x5f, 0x6f, 0x6e, 0x5f, 0x66, 0x62, 0x5f, 0x6d, 0x65, 0x73, 0x73],
   [0x61, 0x67, 0x65, 0x5f, 0x76, 0x69, 0x64, 0x65, 0x6f, 0x5f, 0x6f, 0x6e],
   [0x5f, 0x66, 0x62, 0x5f, 0x75, 0x73, 0x65, 0x72, 0x2e, 0x45, 0x64, 0x67],
   [0x65, 0x53, 0x65, 0x74, 0x46, 0x72, 0x6f, 0x6d, 0x55, 0x73, 0x65, 0x72],
   [0x54, 0x6f, 0x53, 0x61, 0x76, 0x65, 0x41, 0x63, 0x74, 0x69, 0x6f, 0x6e]]"

definition dictionary_rows_29 :: "u8 list list" where
  "dictionary_rows_29 =
  [[0x4f, 0x67, 0x4f, 0x62, 0x6a, 0x65, 0x63, 0x74, 0x44, 0x65, 0x66, 0x69],
   [0x6e, 0x65, 0x64, 0x4f, 0x6e, 0x46, 0x62, 0x4d, 0x65, 0x73, 0x73, 0x61],
   [0x67, 0x65, 0x56, 0x69, 0x64, 0x65, 0x6f, 0x4f, 0x6e, 0x46, 0x62, 0x55],
   [0x73, 0x65, 0x72, 0x40, 0x40, 0xa0, 0xa0, 0x2f, 0x24, 0x70, 0x61, 0x72],
   [0x61, 0x6d, 0x65, 0x74, 0x65, 0x72, 0x24, 0x74, 0x69, 0x6d, 0x65, 0x40],
   [0xa0, 0x90, 0xa0, 0x94, 0x23, 0x69, 0x6e, 0x74, 0x90, 0xa0, 0x04, 0x04],
   [0x40, 0x40, 0x42, 0x40, 0x02, 0x2b, 0x84, 0x0c, 0x2a, 0xa0, 0xa0, 0x04],
   [0x14, 0x40, 0xa0, 0x04, 0x15, 0x40, 0xa0, 0x02, 0x3a, 0x61, 0xbe, 0xce],
   [0xa0, 0xa0, 0x04, 0x18, 0x40, 0xa0, 0x04, 0x19, 0x40, 0x42, 0x84, 0x95],
   [0xa6, 0xbe, 0x00, 0x00, 0x00, 0x01, 0x00, 0x00, 0x00, 0x00, 0x00, 0x00],
   [0x00, 0x00, 0x00, 0x00, 0x00, 0x00, 0x40, 0x84, 0x95, 0xa6, 0xbe, 0x00],
   [0x00, 0x00, 0x01, 0x00, 0x00, 0x00, 0x00, 0x00, 0x00, 0x00, 0x00, 0x00],
   [0x00, 0x00, 0x00, 0x40, 0x84, 0x95, 0xa6, 0xbe, 0x00, 0x00, 0x01, 0xf2],
   [0x00, 0x00, 0x00, 0x7b, 0x00, 0x00, 0x01, 0x7c, 0x00, 0x00, 0x01, 0x5e],
   [0xa0, 0xa0, 0xa0, 0xa0, 0x01, 0x04, 0x95, 0x45, 0xa0, 0x01, 0x04, 0x95],
   [0x01, 0x00, 0x9c, 0x92, 0xa0, 0xa0, 0xa0, 0xa0, 0x01, 0x04, 0x95, 0x74],
   [0x79, 0x70, 0x69, 0x6e, 0x67, 0x28, 0x53, 0x65, 0x71, 0x75, 0x65, 0x6e],
   [0x63, 0x65, 0x40, 0x05, 0x66, 0xf4, 0x41, 0xa0, 0xa0, 0x40, 0xa0, 0xa0],
   [0xa0, 0x01, 0x01, 0xdd, 0x00, 0x41, 0xa0, 0x01, 0x01, 0xdd, 0x00, 0x44],
   [0x9c, 0x91, 0x23, 0x69, 0x6e, 0x74, 0x40, 0x40, 0xa0, 0xa0, 0xa0, 0xa0],
   [0x01, 0x01, 0xde, 0x48, 0xa0, 0x01, 0x01, 0xde, 0x00, 0x44, 0xb0, 0x2f],
   [0x68, 0x74, 0x74, 0x70, 0x5f, 0x67, 0x65, 0x74, 0x5f, 0x70, 0x61, 0x72],
   [0x61, 0x6d, 0x73, 0x90, 0xa0, 0xa0, 0xa0, 0x01, 0x01, 0xde, 0x00, 0x45],
   [0xa0, 0x01, 0x01, 0xde, 0x00, 0x48, 0x94, 0x41, 0x90, 0xa0, 0xa0, 0xa0],
   [0x01, 0x01, 0xde, 0x59, 0xa0, 0x01, 0x01, 0xde, 0x00, 0x44, 0x92, 0xa0],
   [0xa0, 0xa0, 0xa0, 0x01, 0x01, 0xde, 0x59, 0xa0, 0x01, 0x01, 0xde, 0x69],
   [0x9c, 0x90, 0xb0, 0xa0, 0x04, 0x07, 0x9c, 0x90, 0xb0, 0xa0, 0xa0, 0xa0],
   [0x01, 0x01, 0xde, 0x59, 0xa0, 0x01, 0x01, 0xde, 0x60, 0x9c, 0x91, 0x27],
   [0x5f, 0x74, 0x79, 0x70, 0x69, 0x6e, 0x67, 0x28, 0x4f, 0x70, 0x74, 0x69],
   [0x6f, 0x6e, 0x61, 0x6c, 0x40, 0x05, 0x67, 0x24, 0x41, 0xa0, 0xa0, 0x40]] @
  [[0xa0, 0xa0, 0xa0, 0x01, 0x01, 0xde, 0x6a, 0xa0, 0x01, 0x01, 0xde, 0x00],
   [0x43, 0x92, 0xa0, 0xa0, 0xa0, 0xa0, 0x01, 0x01, 0xde, 0x6a, 0xa0, 0x01],
   [0x01, 0xde, 0x79, 0x9c, 0x90, 0xb0, 0xa0, 0x04, 0x07, 0x9c, 0x90, 0xb0],
   [0xa0, 0xa0, 0xa0, 0x01, 0x01, 0xde, 0x6a, 0xa0, 0x01, 0x01, 0xde, 0x71],
   [0x9c, 0x91, 0x27, 0x5f, 0x74, 0x79, 0x70, 0x69, 0x6e, 0x67, 0x27, 0x4d],
   [0x61, 0x70, 0x70, 0x69, 0x6e, 0x67, 0x40, 0x05, 0x67, 0x3f, 0x41, 0xa0],
   [0xa0, 0x40, 0xa0, 0xa0, 0xa0, 0x01, 0x01, 0xde, 0x7a, 0xa0, 0x01, 0x01],
   [0xde, 0x00, 0x42, 0x08, 0x00, 0x00, 0x04, 0x11, 0xa0, 0xa0, 0xa0, 0xa0],
   [0x01, 0x01, 0xde, 0x7a, 0xa0, 0x01, 0x01, 0xde, 0x7d, 0x9c, 0x91, 0x23],
   [0x73, 0x74, 0x72, 0xa0, 0xa0, 0xa0, 0xa0, 0x01, 0x01, 0xde, 0x7f, 0xa0],
   [0x01, 0x01, 0xde, 0x00, 0x42, 0x9c, 0x91, 0x23, 0x73, 0x74, 0x72, 0x40],
   [0x40, 0x40, 0xa0, 0xa0, 0xa0, 0xa0, 0x01, 0x01, 0xdf, 0x48, 0xa0, 0x01],
   [0x01, 0xdf, 0x00, 0x45, 0xb0, 0x30, 0x68, 0x74, 0x74, 0x70, 0x5f, 0x70],
   [0x6f, 0x73, 0x74, 0x5f, 0x70, 0x61, 0x72, 0x61, 0x6d, 0x73, 0x90, 0xa0],
   [0xa0, 0xa0, 0x01, 0x01, 0xdf, 0x00, 0x46, 0xa0, 0x01, 0x01, 0xdf, 0x00],
   [0x49, 0x94, 0x41, 0x90, 0xa0, 0xa0, 0xa0, 0x01, 0x01, 0xdf, 0x5a, 0xa0],
   [0x01, 0x01, 0xdf, 0x00, 0x45, 0x92, 0xa0, 0xa0, 0xa0, 0xa0, 0x01, 0x01],
   [0xdf, 0x5a, 0xa0, 0x01, 0x01, 0xdf, 0x6a, 0x9c, 0x90, 0xb0, 0xa0, 0x04],
   [0x07, 0x9c, 0x90, 0xb0, 0xa0, 0xa0, 0xa0, 0x01, 0x01, 0xdf, 0x5a, 0xa0],
   [0x01, 0x01, 0xdf, 0x61, 0x9c, 0x91, 0x27, 0x5f, 0x74, 0x79, 0x70, 0x69],
   [0x6e, 0x67, 0x28, 0x4f, 0x70, 0x74, 0x69, 0x6f, 0x6e, 0x61, 0x6c, 0x40],
   [0x05, 0x67, 0x7d, 0x41, 0xa0, 0xa0, 0x40, 0xa0, 0xa0, 0xa0, 0x01, 0x01],
   [0xdf, 0x6b, 0xa0, 0x01, 0x01, 0xdf, 0x00, 0x44, 0x92, 0xa0, 0xa0, 0xa0],
   [0xa0, 0x01, 0x01, 0xdf, 0x6b, 0xa0, 0x01, 0x01, 0xdf, 0x7a, 0x9c, 0x90],
   [0xb0, 0xa0, 0x04, 0x07, 0x9c, 0x90, 0xb0, 0xa0, 0xa0, 0xa0, 0x01, 0x01],
   [0xdf, 0x6b, 0xa0, 0x01, 0x01, 0xdf, 0x72, 0x9c, 0x91, 0x27, 0x5f, 0x74],
   [0x79, 0x70, 0x69, 0x6e, 0x67, 0x27, 0x4d, 0x61, 0x70, 0x70, 0x69, 0x6e],
   [0x67, 0x40, 0x05, 0x67, 0x98, 0x41, 0xa0, 0xa0, 0x40, 0xa0, 0xa0, 0xa0],
   [0x01, 0x01, 0xdf, 0x7b, 0xa0, 0x01, 0x01, 0xdf, 0x00, 0x43, 0x08, 0x00],
   [0x00, 0x04, 0x11, 0xa0, 0xa0, 0xa0, 0xa0, 0x01, 0x01, 0xdf, 0x7b, 0xa0]] @
  [[0x01, 0x01, 0xdf, 0x7e, 0x9c, 0x91, 0x23, 0x73, 0x74, 0x72, 0xa0, 0xa0],
   [0xa0, 0xa0, 0x01, 0x01, 0xdf, 0x00, 0x40, 0xa0, 0x01, 0x01, 0xdf, 0x00],
   [0x43, 0x9c, 0x91, 0x23, 0x73, 0x74, 0x72, 0x40, 0x40, 0x40, 0x40, 0x40],
   [0x90, 0xa0, 0xa0, 0xa0, 0x01, 0x01, 0xe0, 0x49, 0xa0, 0x01, 0x01, 0xe0],
   [0x55, 0x9c, 0x90, 0xb0, 0xa0, 0xa0, 0xa0, 0x01, 0x01, 0xe0, 0x49, 0xa0],
   [0x01, 0x01, 0xe0, 0x50, 0x9c, 0x91, 0x27, 0x5f, 0x74, 0x79, 0x70, 0x69],
   [0x6e, 0x67, 0x24, 0x53, 0x65, 0x6c, 0x66, 0x40, 0x40, 0x40, 0x90, 0xa0],
   [0x05, 0x68, 0x04, 0x40, 0x40, 0x40, 0x40, 0xa0, 0xa0, 0xa0, 0xa0, 0x01],
   [0x01, 0xe0, 0x57, 0xa0, 0x01, 0x01, 0xe0, 0x5a, 0x95, 0xa0, 0xa0, 0xa0],
   [0x01, 0x01, 0xe0, 0x57, 0xa0, 0x01, 0x01, 0xe0, 0x5a, 0x94, 0x41, 0x40],
   [0xa0, 0xa0, 0xa0, 0xa0, 0x01, 0x01, 0xe1, 0x44, 0xa0, 0x01, 0x01, 0xe1],
   [0x01, 0x03, 0xeb, 0x93, 0xc0, 0x08, 0x00, 0x00, 0x20, 0x00, 0xa0, 0x28],
   [0x5f, 0x5f, 0x69, 0x74, 0x65, 0x72, 0x5f, 0x5f, 0x40, 0xa0, 0xa0, 0xa0],
   [0xa0, 0x01, 0x01, 0xe1, 0x51, 0xa0, 0x01, 0x01, 0xe1, 0x55, 0xb0, 0x24],
   [0x73, 0x65, 0x6c, 0x66, 0x40, 0x40, 0x40, 0x40, 0x90, 0xa0, 0xa0, 0xa0],
   [0x01, 0x01, 0xe1, 0x5a, 0xa0, 0x01, 0x01, 0xe1, 0x01, 0x03, 0xe6, 0x92],
   [0xa0, 0xa0, 0xa0, 0xa0, 0x01, 0x01, 0xe1, 0x5a, 0xa0, 0x01, 0x01, 0xe1],
   [0x6a, 0x9c, 0x90, 0xb0, 0xa0, 0x04, 0x07, 0x9c, 0x90, 0xb0, 0xa0, 0xa0],
   [0xa0, 0x01, 0x01, 0xe1, 0x5a, 0xa0, 0x01, 0x01, 0xe1, 0x61, 0x9c, 0x91],
   [0x27, 0x5f, 0x74, 0x79, 0x70, 0x69, 0x6e, 0x67, 0x28, 0x49, 0x74, 0x65],
   [0x72, 0x61, 0x74, 0x6f, 0x72, 0x40, 0x05, 0x67, 0xf7, 0x41, 0xa0, 0xa0],
   [0x40, 0xa0, 0xa0, 0xa0, 0x01, 0x01, 0xe1, 0x6b, 0xa0, 0x01, 0x01, 0xe1],
   [0x01, 0x03, 0xe5, 0x92, 0xa0, 0xa0, 0xa0, 0xa0, 0x01, 0x01, 0xe1, 0x6b],
   [0xa0, 0x01, 0x01, 0xe1, 0x78, 0x9c, 0x90, 0xb0, 0xa0, 0x04, 0x07, 0x9c],
   [0x90, 0xb0, 0xa0, 0xa0, 0xa0, 0x01, 0x01, 0xe1, 0x6b, 0xa0, 0x01, 0x01],
   [0xe1, 0x72, 0x9c, 0x91, 0x27, 0x5f, 0x74, 0x79, 0x70, 0x69, 0x6e, 0x67],
   [0x25, 0x54, 0x75, 0x70, 0x6c, 0x65, 0x40, 0x05, 0x68, 0x12, 0x41, 0xa0],
   [0xa0, 0x40, 0xa0, 0xa0, 0xa0, 0x01, 0x01, 0xe1, 0x79, 0xa0, 0x01, 0x01],
   [0xe1, 0x01, 0x03, 0xe4, 0x08, 0x00, 0x00, 0x04, 0x11, 0xa0, 0xa0, 0xa0],
   [0xa0, 0x01, 0x01, 0xe1, 0x79, 0xa0, 0x01, 0x01, 0xe1, 0x7c, 0x9c, 0x91]] @
  [[0x23, 0x73, 0x74, 0x72, 0xa0, 0xa0, 0xa0, 0xa0, 0x01, 0x01, 0xe1, 0x7e],
   [0xa0, 0x01, 0x01, 0xe1, 0x01, 0x03, 0xe4, 0x92, 0xa0, 0xa0, 0xa0, 0xa0],
   [0x01, 0x01, 0xe1, 0x7e, 0xa0, 0x01, 0x01, 0xe1, 0x00, 0x4b, 0x9c, 0x90],
   [0xb0, 0xa0, 0x04, 0x07, 0x9c, 0x90, 0xb0, 0xa0, 0xa0, 0xa0, 0x01, 0x01],
   [0xe1, 0x7e, 0xa0, 0x01, 0x01, 0xe1, 0x00, 0x45, 0x9c, 0x91, 0x27, 0x5f],
   [0x74, 0x79, 0x70, 0x69, 0x6e, 0x67, 0x25, 0x55, 0x6e, 0x69, 0x6f, 0x6e],
   [0x40, 0x05, 0x68, 0x3b, 0x41, 0xa0, 0xa0, 0x40, 0xa0, 0xa0, 0xa0, 0x01],
   [0x01, 0xe1, 0x00, 0x4c, 0xa0, 0x01, 0x01, 0xe1, 0x01, 0x03, 0xe3, 0x08],
   [0x00, 0x00, 0x04, 0x11, 0xa0, 0xa0, 0xa0, 0xa0, 0x01, 0x01, 0xe1, 0x00],
   [0x4c, 0xa0, 0x01, 0x01, 0xe1, 0x00, 0x4f, 0x9c, 0x91, 0x23, 0x69, 0x6e],
   [0x74, 0xa0, 0xa0, 0xa0, 0xa0, 0x01, 0x01, 0xe1, 0x00, 0x51, 0xa0, 0x01],
   [0x01, 0xe1, 0x00, 0xa0, 0x04, 0x1b, 0xa0, 0x04, 0x1a, 0xa0, 0x04, 0x19],
   [0xa0, 0x04, 0x18, 0xa0, 0x04, 0x17, 0xa0, 0x04, 0x0a, 0x40, 0x40, 0x40],
   [0x40, 0xa0, 0xa0, 0xa0, 0xa0, 0x01, 0x01, 0x77, 0x44, 0xa0, 0x01, 0x01],
   [0x77, 0x01, 0x00, 0x89, 0x90, 0xb0, 0xa0, 0xa0, 0xa0, 0x01, 0x01, 0x77],
   [0x44, 0xa0, 0x01, 0x01, 0x77, 0x59, 0x9c, 0x90, 0xb0, 0xa0, 0x04, 0x07],
   [0x9c, 0x90, 0xb0, 0xa0, 0x04, 0x0b, 0x9c, 0x90, 0xb0, 0xa0, 0x04, 0x0f],
   [0x9c, 0x90, 0xb0, 0xa0, 0x04, 0x13, 0x9c, 0x90, 0xb0, 0xa0, 0x04, 0x17],
   [0x9c, 0x90, 0xb0, 0xa0, 0x04, 0x1b, 0x9c, 0x91, 0x04, 0x45, 0x04, 0x43],
   [0x40, 0x04, 0x41, 0x40, 0x04, 0x3f, 0x40, 0x04, 0x3d, 0x40, 0x04, 0x2f],
   [0x40, 0x35, 0x75, 0x6e, 0x69, 0x76, 0x65, 0x72, 0x73, 0x61, 0x6c, 0x5f],
   [0x72, 0x65, 0x73, 0x74, 0x72, 0x69, 0x63, 0x74, 0x69, 0x6f, 0x6e, 0x40],
   [0x90, 0xa0, 0xa0, 0xa0, 0x01, 0x01, 0x77, 0x5b, 0xa0, 0x01, 0x01, 0x77],
   [0x01, 0x00, 0x83, 0x92, 0xa0, 0xa0, 0xa0, 0xa0, 0x01, 0x01, 0x77, 0x5b],
   [0xa0, 0x01, 0x01, 0x77, 0x68, 0x9c, 0x90, 0xb0, 0xa0, 0x04, 0x07, 0x9c],
   [0x90, 0xb0, 0xa0, 0xa0, 0xa0, 0x01, 0x01, 0x77, 0x5b, 0xa0, 0x01, 0x01],
   [0x77, 0x62, 0x9c, 0x91, 0x26, 0x74, 0x79, 0x70, 0x69, 0x6e, 0x67, 0x25],
   [0x46, 0x69, 0x6e, 0x61, 0x6c, 0x40, 0x2b, 0x5f, 0x5f, 0x67, 0x65, 0x74],
   [0x69, 0x74, 0x65, 0x6d, 0x5f, 0x5f, 0x41, 0xa0, 0xa0, 0x40, 0xa0, 0xa0],
   [0xa0, 0x01, 0x01, 0x77, 0x69, 0xa0, 0x01, 0x01, 0x77, 0x01, 0x00, 0x82]] @
  [[0x92, 0xa0, 0xa0, 0xa0, 0xa0, 0x01, 0x01, 0x77, 0x69, 0xa0, 0x01, 0x01],
   [0x77, 0x79, 0x9c, 0x90, 0xb0, 0xa0, 0x04, 0x07, 0x9c, 0x90, 0xb0, 0xa0],
   [0xa0, 0xa0, 0x01, 0x01, 0x77, 0x69, 0xa0, 0x01, 0x01, 0x77, 0x70, 0x9c],
   [0x91, 0x04, 0x1c, 0x28, 0x4f, 0x70, 0x74, 0x69, 0x6f, 0x6e, 0x61, 0x6c],
   [0x40, 0x04, 0x1b, 0x41, 0xa0, 0xa0, 0x40, 0xa0, 0xa0, 0xa0, 0x01, 0x01],
   [0x77, 0x7a, 0xa0, 0x01, 0x01, 0x77, 0x01, 0x00, 0x81, 0x9c, 0x90, 0xb0],
   [0xa0, 0xa0, 0xa0, 0x01, 0x01, 0x77, 0x7a, 0xa0, 0x01, 0x01, 0x77, 0x00],
   [0x6c, 0x9c, 0x90, 0xb0, 0xa0, 0xa0, 0xa0, 0x01, 0x01, 0x77, 0x7a, 0xa0],
   [0x01, 0x01, 0x77, 0x00, 0x5f, 0x9c, 0x90, 0xb0, 0xa0, 0xa0, 0xa0, 0x01],
   [0x01, 0x77, 0x7a, 0xa0, 0x01, 0x01, 0x77, 0x00, 0x4b, 0x9c, 0x90, 0xb0],
   [0xa0, 0xa0, 0xa0, 0x01, 0x01, 0x77, 0x7a, 0xa0, 0x01, 0x01, 0x77, 0x00],
   [0x46, 0x9c, 0x90, 0xb0, 0xa0, 0xa0, 0xa0, 0x01, 0x01, 0x77, 0x7a, 0xa0],
   [0x01, 0x01, 0x77, 0x00, 0x42, 0x9c, 0x91, 0x28, 0x69, 0x67, 0x74, 0x68],
   [0x72, 0x69, 0x66, 0x74, 0x23, 0x67, 0x65, 0x6e, 0x40, 0x24, 0x49, 0x41],
   [0x46, 0x46, 0x40, 0x33, 0x69, 0x61, 0x66, 0x5f, 0x66, 0x65, 0x61, 0x74],
   [0x75, 0x72, 0x65, 0x5f, 0x6c, 0x69, 0x62, 0x72, 0x61, 0x72, 0x79, 0x40],
   [0x2c, 0x74, 0x68, 0x72, 0x69, 0x66, 0x74, 0x5f, 0x74, 0x79, 0x70, 0x65],
   [0x73, 0x40, 0x34, 0x55, 0x6e, 0x69, 0x76, 0x65, 0x72, 0x73, 0x61, 0x6c],
   [0x52, 0x65, 0x73, 0x74, 0x72, 0x69, 0x63, 0x74, 0x69, 0x6f, 0x6e, 0x40],
   [0x40, 0x40, 0xa0, 0xa0, 0xa0, 0x01, 0x01, 0x77, 0x01, 0x00, 0x86, 0xa0],
   [0x01, 0x01, 0x77, 0x01, 0x00, 0x89, 0x94, 0x41, 0xa0, 0xa0, 0xa0, 0xa0],
   [0x01, 0x01, 0x78, 0x44, 0xa0, 0x01, 0x01, 0x7b, 0x52, 0x93, 0xc0, 0x08],
   [0x00, 0x00, 0x20, 0x00, 0xa0, 0x04, 0xba, 0xa0, 0x04, 0xb9, 0xa0, 0x04],
   [0xb8, 0xa0, 0x04, 0xb7, 0xa0, 0x04, 0xb6, 0xa0, 0x04, 0xa9, 0xa0, 0x28],
   [0x5f, 0x5f, 0x69, 0x6e, 0x69, 0x74, 0x5f, 0x5f, 0x40, 0xa0, 0xa0, 0xa0],
   [0xa0, 0x01, 0x01, 0x79, 0x48, 0xa0, 0x01, 0x01, 0x79, 0x4c, 0xb0, 0x2f],
   [0x24, 0x70, 0x61, 0x72, 0x61, 0x6d, 0x65, 0x74, 0x65, 0x72, 0x24, 0x73],
   [0x65, 0x6c, 0x66, 0x40, 0x40, 0xa0, 0xa0, 0xa0, 0xa0, 0x00, 0xff, 0x00],
   [0xff, 0x04, 0x01, 0xb0, 0x2c, 0x2a, 0x24, 0x70, 0x61, 0x72, 0x61, 0x6d],
   [0x65, 0x74, 0x65, 0x72, 0x24, 0x40, 0x40, 0xa0, 0xa0, 0xa0, 0xa0, 0x01]]"

definition dictionary_rows_30 :: "u8 list list" where
  "dictionary_rows_30 =
  [[0x01, 0x7a, 0x48, 0xa0, 0x01, 0x01, 0x7a, 0x01, 0x00, 0x92, 0xb0, 0x09],
   [0x20, 0x24, 0x70, 0x61, 0x72, 0x61, 0x6d, 0x65, 0x74, 0x65, 0x72, 0x24],
   [0x75, 0x6e, 0x69, 0x76, 0x65, 0x72, 0x73, 0x61, 0x6c, 0x5f, 0x72, 0x65],
   [0x73, 0x74, 0x72, 0x69, 0x63, 0x74, 0x69, 0x6f, 0x6e, 0x90, 0xa0, 0xa0],
   [0xa0, 0x01, 0x01, 0x7a, 0x01, 0x00, 0x93, 0xa0, 0x01, 0x01, 0x7a, 0x01],
   [0x00, 0x96, 0x94, 0x41, 0x90, 0xa0, 0xa0, 0xa0, 0x01, 0x01, 0x7a, 0x5f],
   [0xa0, 0x01, 0x01, 0x7a, 0x01, 0x00, 0x92, 0x92, 0xa0, 0xa0, 0xa0, 0xa0],
   [0x01, 0x01, 0x7a, 0x5f, 0xa0, 0x01, 0x01, 0x7a, 0x6f, 0x9c, 0x90, 0xb0],
   [0xa0, 0x04, 0x07, 0x9c, 0x90, 0xb0, 0xa0, 0xa0, 0xa0, 0x01, 0x01, 0x7a],
   [0x5f, 0xa0, 0x01, 0x01, 0x7a, 0x66, 0x9c, 0x91, 0x04, 0x95, 0x28, 0x4f],
   [0x70, 0x74, 0x69, 0x6f, 0x6e, 0x61, 0x6c, 0x40, 0x04, 0x94, 0x41, 0xa0],
   [0xa0, 0x40, 0xa0, 0xa0, 0xa0, 0x01, 0x01, 0x7a, 0x70, 0xa0, 0x01, 0x01],
   [0x7a, 0x01, 0x00, 0x91, 0x9c, 0x90, 0xb0, 0xa0, 0xa0, 0xa0, 0x01, 0x01],
   [0x7a, 0x70, 0xa0, 0x01, 0x01, 0x7a, 0x00, 0x62, 0x9c, 0x90, 0xb0, 0xa0],
   [0xa0, 0xa0, 0x01, 0x01, 0x7a, 0x70, 0xa0, 0x01, 0x01, 0x7a, 0x00, 0x55],
   [0x9c, 0x90, 0xb0, 0xa0, 0xa0, 0xa0, 0x01, 0x01, 0x7a, 0x70, 0xa0, 0x01],
   [0x01, 0x7a, 0x00, 0x41, 0x9c, 0x90, 0xb0, 0xa0, 0xa0, 0xa0, 0x01, 0x01],
   [0x7a, 0x70, 0xa0, 0x01, 0x01, 0x7a, 0x7c, 0x9c, 0x90, 0xb0, 0xa0, 0xa0],
   [0xa0, 0x01, 0x01, 0x7a, 0x70, 0xa0, 0x01, 0x01, 0x7a, 0x78, 0x9c, 0x91],
   [0x28, 0x69, 0x67, 0x74, 0x68, 0x72, 0x69, 0x66, 0x74, 0x23, 0x67, 0x65],
   [0x6e, 0x40, 0x24, 0x49, 0x41, 0x46, 0x46, 0x40, 0x33, 0x69, 0x61, 0x66],
   [0x5f, 0x66, 0x65, 0x61, 0x74, 0x75, 0x72, 0x65, 0x5f, 0x6c, 0x69, 0x62],
   [0x72, 0x61, 0x72, 0x79, 0x40, 0x2c, 0x74, 0x68, 0x72, 0x69, 0x66, 0x74],
   [0x5f, 0x74, 0x79, 0x70, 0x65, 0x73, 0x40, 0x09, 0x2e, 0x5f, 0x66, 0x62],
   [0x74, 0x68, 0x72, 0x69, 0x66, 0x74, 0x5f, 0x63, 0x6f, 0x6d, 0x70, 0x61],
   [0x74, 0x69, 0x62, 0x6c, 0x65, 0x5f, 0x77, 0x69, 0x74, 0x68, 0x5f, 0x55],
   [0x6e, 0x69, 0x76, 0x65, 0x72, 0x73, 0x61, 0x6c, 0x52, 0x65, 0x73, 0x74],
   [0x72, 0x69, 0x63, 0x74, 0x69, 0x6f, 0x6e, 0x40, 0x40, 0x40, 0x40, 0x90],
   [0xa0, 0xa0, 0xa0, 0x01, 0x01, 0x7b, 0x49, 0xa0, 0x01, 0x01, 0x7b, 0x4d],
   [0x94, 0x40, 0x40, 0x40, 0x90, 0xa0, 0x05, 0x01, 0x2d, 0xa0, 0x05, 0x01]] @
  [[0x2c, 0xa0, 0x05, 0x01, 0x2b, 0xa0, 0x05, 0x01, 0x2a, 0xa0, 0x05, 0x01],
   [0x29, 0x05, 0x01, 0x12, 0x40, 0x40, 0x40, 0x40, 0xa0, 0xa0, 0xa0, 0xa0],
   [0x01, 0x01, 0x7d, 0x44, 0xa0, 0x01, 0x01, 0x80, 0x5a, 0x93, 0xc0, 0x08],
   [0x00, 0x00, 0x20, 0x00, 0xa0, 0x05, 0x01, 0x3a, 0xa0, 0x05, 0x01, 0x39],
   [0xa0, 0x05, 0x01, 0x38, 0xa0, 0x05, 0x01, 0x37, 0xa0, 0x05, 0x01, 0x36],
   [0xa0, 0x05, 0x01, 0x29, 0xa0, 0x28, 0x5f, 0x5f, 0x63, 0x61, 0x6c, 0x6c],
   [0x5f, 0x5f, 0x40, 0xa0, 0xa0, 0xa0, 0xa0, 0x73, 0x2e, 0x61, 0x73, 0x79],
   [0x6e, 0x63, 0x5f, 0x66, 0x65, 0x74, 0x63, 0x68, 0x5f, 0x6f, 0x74, 0x68],
   [0x65, 0x72, 0x5f, 0x75, 0x73, 0x65, 0x72, 0x5f, 0x64, 0x69, 0x63, 0x74],
   [0x40, 0x40, 0xf0, 0x90, 0xd0, 0xd0, 0x40, 0x90, 0x2f, 0x4e, 0x6f, 0x64],
   [0x65, 0x51, 0x75, 0x65, 0x72, 0x79, 0x52, 0x65, 0x73, 0x75, 0x6c, 0x74],
   [0x08, 0x00, 0x00, 0x20, 0x00, 0x90, 0xa0, 0xa0, 0x03, 0x06, 0x06, 0x09],
   [0x23, 0xc0, 0x05, 0x91, 0x00, 0x90, 0x90, 0x03, 0xd3, 0x75, 0xf7, 0x89],
   [0x55, 0xaf, 0x1d, 0x4c, 0xa0, 0x03, 0x00, 0x00, 0x00, 0x03, 0x40, 0x00],
   [0x10, 0x00, 0x40, 0x90, 0x40, 0x90, 0xa0, 0x03, 0x3f, 0xff, 0xff, 0xff],
   [0xff, 0xff, 0xff, 0xff, 0x40, 0x90, 0x41, 0x90, 0x90, 0x90, 0x03, 0xeb],
   [0x7c, 0xcd, 0xc1, 0x1c, 0x6e, 0x33, 0x3f, 0x90, 0xa0, 0x40, 0x40, 0x90],
   [0xa0, 0x40, 0x40, 0x90, 0x40, 0x40, 0x41, 0x90, 0x33, 0x52, 0x65, 0x71],
   [0x75, 0x65, 0x73, 0x74, 0x53, 0x70, 0x65, 0x63, 0x69, 0x66, 0x69, 0x63],
   [0x44, 0x61, 0x74, 0x61, 0x08, 0x00, 0x00, 0x20, 0x00, 0x90, 0xa0, 0xa0],
   [0x03, 0x26, 0x06, 0x09, 0x23, 0xc4, 0x05, 0x91, 0x00, 0x90, 0x90, 0x03],
   [0xd3, 0x75, 0xf7, 0x89, 0x55, 0xaf, 0x1d, 0x4c, 0xa0, 0x03, 0x00, 0x00],
   [0x00, 0x01, 0x40, 0x00, 0x10, 0x00, 0x40, 0x90, 0x40, 0x90, 0x04, 0x15],
   [0x90, 0x45, 0x90, 0x90, 0xc1, 0x4b, 0x60, 0x90, 0x03, 0xf2, 0xdb, 0x6b],
   [0xfb, 0xaf, 0x7a, 0xc2, 0xcb, 0x90, 0x03, 0xc3, 0x7e, 0x26, 0xd1, 0x75],
   [0x36, 0xc7, 0x2b, 0x90, 0xa0, 0x40, 0x90, 0x90, 0x03, 0xee, 0xe7, 0x3d],
   [0x74, 0xe6, 0xaa, 0x18, 0xda, 0x90, 0xa0, 0x40, 0x90, 0xc1, 0x40, 0x41],
   [0x90, 0x03, 0xd0, 0x5d, 0xf4, 0xc2, 0x49, 0x06, 0x0f, 0xfc, 0x90, 0x03],
   [0x38, 0x11, 0xa3, 0xb6, 0x04, 0x26, 0xf8, 0xd3, 0x90, 0x40, 0x40, 0x42],
   [0x90, 0x90, 0xc0, 0x40, 0xa0, 0xa0, 0x00, 0x74, 0x48, 0xa0, 0x00, 0x76]] @
  [[0x61, 0x40, 0x41, 0x90, 0xa0, 0xa0, 0x03, 0x04, 0x00, 0x00, 0x01, 0x00],
   [0x00, 0x00, 0x00, 0x40, 0xa0, 0x03, 0x04, 0x00, 0x00, 0x01, 0x00, 0x00],
   [0x00, 0x00, 0x40, 0x90, 0xa0, 0x40, 0x40, 0x90, 0xa0, 0x40, 0x40, 0x90],
   [0xb0, 0xa0, 0xa0, 0x03, 0xc0, 0x00, 0x00, 0x00, 0x00, 0x00, 0x00, 0x00],
   [0x03, 0x3f, 0xff, 0xff, 0xff, 0xff, 0xff, 0xff, 0xff, 0x40, 0xa0, 0x04],
   [0x02, 0x40, 0x40, 0x90, 0x40, 0x40, 0x41, 0xc2, 0x40, 0xa0, 0x40, 0xa0],
   [0x90, 0x25, 0x69, 0x62, 0x5f, 0x69, 0x64, 0x40, 0xb0, 0x04, 0x5d, 0xa0],
   [0x00, 0x51, 0x4d, 0xa0, 0x00, 0x55, 0x49, 0xa0, 0x91, 0xb0, 0x09, 0x39],
   [0x64, 0x69, 0x72, 0x65, 0x63, 0x74, 0x5f, 0x76, 0x32, 0x2e, 0x73, 0x65],
   [0x72, 0x76, 0x69, 0x63, 0x65, 0x2e, 0x62, 0x75, 0x73, 0x69, 0x6e, 0x65],
   [0x73, 0x73, 0x2e, 0x69, 0x63, 0x65, 0x62, 0x72, 0x65, 0x61, 0x6b, 0x65],
   [0x72, 0x73, 0x2e, 0x49, 0x63, 0x65, 0x62, 0x72, 0x65, 0x61, 0x6b, 0x65],
   [0x72, 0x73, 0x53, 0x65, 0x72, 0x76, 0x69, 0x63, 0x65, 0x09, 0x25, 0x61],
   [0x73, 0x79, 0x6e, 0x63, 0x5f, 0x67, 0x65, 0x74, 0x5f, 0x69, 0x63, 0x65],
   [0x62, 0x72, 0x65, 0x61, 0x6b, 0x65, 0x72, 0x73, 0x5f, 0x64, 0x61, 0x74],
   [0x61, 0x5f, 0x66, 0x6f, 0x72, 0x5f, 0x74, 0x68, 0x72, 0x65, 0x61, 0x64],
   [0x40, 0x40, 0xf0, 0x90, 0xd0, 0xd0, 0x40, 0x90, 0x2b, 0x44, 0x61, 0x74],
   [0x61, 0x46, 0x72, 0x6f, 0x6d, 0x47, 0x45, 0x54, 0x08, 0x00, 0x00, 0x20],
   [0x00, 0x90, 0xa0, 0xa0, 0x03, 0x06, 0x02, 0x01, 0x23, 0x44, 0x05, 0x51],
   [0x94, 0x90, 0xc1, 0x40, 0x41, 0x90, 0x03, 0xd3, 0x75, 0xf7, 0x89, 0x55],
   [0xaf, 0x1d, 0x4c, 0x90, 0x03, 0xd8, 0x23, 0x26, 0x92, 0x11, 0x82, 0x5a],
   [0xdb, 0xa0, 0x03, 0x04, 0x02, 0x00, 0x03, 0x40, 0x01, 0x00, 0x00, 0x40],
   [0x90, 0x40, 0x90, 0x04, 0x58, 0x90, 0x45, 0x90, 0x90, 0x90, 0x03, 0x1a],
   [0xc0, 0x2c, 0xe0, 0x46, 0x3c, 0xf5, 0xad, 0x90, 0xa0, 0x03, 0x00, 0x04],
   [0x00, 0x00, 0x00, 0x00, 0x00, 0x00, 0x40, 0x90, 0xa0, 0x40, 0x40, 0x90],
   [0x40, 0x40, 0x41, 0x90, 0x29, 0x45, 0x78, 0x63, 0x65, 0x70, 0x74, 0x69],
   [0x6f, 0x6e, 0x08, 0x00, 0x00, 0x20, 0x00, 0x90, 0xa0, 0xa0, 0x03, 0x04],
   [0x00, 0x00, 0x05, 0x00, 0x00, 0x00, 0x00, 0x40, 0xa0, 0x03, 0x04, 0x00],
   [0x00, 0x05, 0x00, 0x00, 0x00, 0x00, 0x40, 0x90, 0x40, 0x90, 0x04, 0x6a],
   [0x90, 0x44, 0x90, 0x90, 0x90, 0x03, 0x24, 0xf0, 0xe6, 0x28, 0x3a, 0x92]] @
  [[0xe4, 0x81, 0x90, 0xa0, 0x03, 0xc0, 0x00, 0x00, 0x00, 0x00, 0x00, 0x00],
   [0x00, 0x40, 0x90, 0xa0, 0x00, 0x40, 0x40, 0x90, 0x40, 0xd0, 0xd0, 0x40],
   [0x90, 0x22, 0x49, 0x50, 0x08, 0x00, 0x00, 0x20, 0x00, 0x90, 0xa0, 0xa0],
   [0x03, 0x06, 0x02, 0x01, 0x23, 0x44, 0x05, 0x51, 0x94, 0x90, 0x04, 0x2a],
   [0xa0, 0x03, 0x04, 0x02, 0x00, 0x03, 0x40, 0x01, 0x00, 0x00, 0x40, 0x90],
   [0x40, 0x90, 0x04, 0x7f, 0x90, 0x43, 0x90, 0x90, 0x90, 0x03, 0x29, 0x65],
   [0x3c, 0xad, 0x3c, 0x2c, 0x2d, 0x9e, 0x90, 0xa0, 0x03, 0x00, 0x04, 0x00],
   [0x00, 0x00, 0x00, 0x00, 0x00, 0x40, 0x90, 0xa0, 0x40, 0x40, 0x90, 0x40],
   [0x40, 0x41, 0x90, 0x33, 0x52, 0x65, 0x71, 0x75, 0x65, 0x73, 0x74, 0x53],
   [0x70, 0x65, 0x63, 0x69, 0x66, 0x69, 0x63, 0x44, 0x61, 0x74, 0x61, 0x08],
   [0x00, 0x00, 0x20, 0x00, 0x90, 0xa0, 0xa0, 0x03, 0x27, 0x02, 0x09, 0x23],
   [0x44, 0x05, 0x51, 0x94, 0x90, 0xc1, 0x40, 0x41, 0xc1, 0x40, 0x42, 0xc1],
   [0x44, 0x48, 0x90, 0x03, 0xff, 0x9d, 0xb9, 0xb1, 0x77, 0xc2, 0x28, 0x64],
   [0x90, 0x03, 0xd3, 0x75, 0xf7, 0x89, 0x55, 0xaf, 0x1d, 0x4c, 0x90, 0x03],
   [0xd0, 0x32, 0xfb, 0xb6, 0x3b, 0x03, 0xa0, 0x12, 0xc1, 0x41, 0x42, 0xc1],
   [0x41, 0x44, 0xc1, 0x00, 0x51, 0x01, 0x01, 0x00, 0x90, 0x03, 0xdd, 0xa6],
   [0x68, 0x8a, 0x01, 0x64, 0xb8, 0x51, 0x90, 0x03, 0xcc, 0x15, 0x45, 0xcf],
   [0xf7, 0x03, 0x31, 0x51, 0x90, 0x03, 0x10, 0xc3, 0x99, 0x50, 0x7d, 0x95],
   [0xde, 0x85, 0xc1, 0x4b, 0x50, 0x90, 0x03, 0xe4, 0xfc, 0x16, 0x83, 0x53],
   [0xe5, 0xca, 0xab, 0x04, 0x49, 0xa0, 0x03, 0x04, 0x02, 0x00, 0x03, 0x40],
   [0x01, 0x00, 0x00, 0x40, 0x90, 0x40, 0x90, 0x04, 0xa0, 0x90, 0x43, 0x90],
   [0x90, 0xc1, 0x40, 0x41, 0xc1, 0x40, 0x42, 0x90, 0x03, 0x37, 0xa0, 0x53],
   [0xa6, 0x66, 0x40, 0x17, 0xac, 0xc1, 0x42, 0x44, 0x90, 0x03, 0xd5, 0xc2],
   [0x2d, 0x0a, 0x69, 0xf1, 0xa4, 0xe2, 0x04, 0x26, 0xc1, 0x41, 0x42, 0x90],
   [0x03, 0xf4, 0xd6, 0x33, 0x07, 0x10, 0xdc, 0x57, 0x79, 0xc1, 0x43, 0x44],
   [0xc1, 0x4b, 0x50, 0xc1, 0x4b, 0x60, 0x90, 0x03, 0xf2, 0xdb, 0x6b, 0xfb],
   [0xaf, 0x7a, 0xc2, 0xcb, 0x90, 0x03, 0xc3, 0x7e, 0x26, 0xd1, 0x75, 0x36],
   [0xc7, 0x2b, 0x90, 0x03, 0x32, 0xe0, 0xd4, 0x93, 0xf3, 0xd9, 0x52, 0xbb],
   [0x90, 0x03, 0xe4, 0x62, 0xe2, 0xf0, 0x75, 0x41, 0xa4, 0x17, 0x90, 0xa0],
   [0x03, 0x00, 0x04, 0x00, 0x00, 0x00, 0x00, 0x10, 0x00, 0x90, 0xc1, 0x5a]] @
  [[0x60, 0xc1, 0x00, 0x5a, 0x01, 0x00, 0x80, 0x90, 0x03, 0x3c, 0x0d, 0x12],
   [0xe7, 0xe7, 0xa5, 0x30, 0x5a, 0x90, 0x03, 0xee, 0xe7, 0x3d, 0x74, 0x65],
   [0x64, 0x72, 0x65, 0x63, 0x73, 0x2e, 0x73, 0x6f, 0x75, 0x72, 0x63, 0x69],
   [0x6e, 0x67, 0x2e, 0x73, 0x6f, 0x75, 0x72, 0x63, 0x69, 0x6e, 0x67, 0x2e],
   [0x46, 0x65, 0x65, 0x64, 0x52, 0x65, 0x63, 0x6f, 0x6d, 0x6d, 0x65, 0x6e],
   [0x64, 0x61, 0x74, 0x69, 0x6f, 0x6e, 0x53, 0x6f, 0x75, 0x72, 0x63, 0x69],
   [0x6e, 0x67, 0x09, 0x34, 0x61, 0x73, 0x79, 0x6e, 0x63, 0x5f, 0x67, 0x65],
   [0x74, 0x5f, 0x64, 0x65, 0x6d, 0x6f, 0x67, 0x72, 0x61, 0x70, 0x68, 0x69],
   [0x63, 0x5f, 0x62, 0x61, 0x73, 0x65, 0x64, 0x5f, 0x70, 0x6f, 0x70, 0x75],
   [0x6c, 0x61, 0x72, 0x5f, 0x66, 0x61, 0x6c, 0x6c, 0x62, 0x61, 0x63, 0x6b],
   [0x5f, 0x73, 0x6f, 0x75, 0x72, 0x63, 0x65, 0x73, 0x40, 0xb4, 0x93, 0x2f],
   [0x3c, 0x66, 0x6f, 0x72, 0x6d, 0x61, 0x74, 0x2d, 0x73, 0x74, 0x72, 0x69],
   [0x6e, 0x67, 0x3e, 0x40, 0x42, 0x40, 0x41, 0xb0, 0x01, 0x13, 0xb6, 0x91],
   [0xb0, 0x3d, 0x69, 0x67, 0x5f, 0x76, 0x69, 0x64, 0x65, 0x6f, 0x2e, 0x75],
   [0x74, 0x69, 0x6c, 0x2e, 0x64, 0x61, 0x73, 0x68, 0x6d, 0x70, 0x64, 0x2e],
   [0x44, 0x61, 0x73, 0x68, 0x4d, 0x50, 0x44, 0x09, 0x21, 0x5f, 0x61, 0x73],
   [0x79, 0x6e, 0x63, 0x5f, 0x67, 0x65, 0x6e, 0x65, 0x72, 0x61, 0x74, 0x65],
   [0x5f, 0x6d, 0x70, 0x64, 0x5f, 0x66, 0x72, 0x6f, 0x6d, 0x5f, 0x74, 0x65],
   [0x6d, 0x70, 0x6c, 0x61, 0x74, 0x65, 0x40, 0xb4, 0x91, 0xb0, 0x23, 0x73],
   [0x74, 0x72, 0x26, 0x66, 0x6f, 0x72, 0x6d, 0x61, 0x74, 0x40, 0x40, 0x42],
   [0x40, 0x42, 0x43, 0x44, 0x46, 0x47, 0xb0, 0x01, 0x13, 0xb6, 0x91, 0xb0],
   [0x09, 0x35, 0x71, 0x70, 0x2e, 0x63, 0x6f, 0x72, 0x65, 0x2e, 0x62, 0x6c],
   [0x6f, 0x6b, 0x73, 0x2e, 0x63, 0x6f, 0x6d, 0x70, 0x6f, 0x6e, 0x65, 0x6e],
   [0x74, 0x5f, 0x66, 0x61, 0x63, 0x74, 0x6f, 0x72, 0x79, 0x2e, 0x42, 0x6c],
   [0x6f, 0x6b, 0x73, 0x43, 0x6f, 0x6d, 0x70, 0x6f, 0x6e, 0x65, 0x6e, 0x74],
   [0x46, 0x61, 0x63, 0x74, 0x6f, 0x72, 0x79, 0x38, 0x5f, 0x62, 0x6c, 0x6f],
   [0x6b, 0x73, 0x5f, 0x6d, 0x69, 0x67, 0x72, 0x61, 0x74, 0x69, 0x6f, 0x6e],
   [0x5f, 0x6c, 0x6f, 0x67, 0x67, 0x69, 0x6e, 0x67, 0x40, 0xb4, 0x93, 0x2f],
   [0x3c, 0x66, 0x6f, 0x72, 0x6d, 0x61, 0x74, 0x2d, 0x73, 0x74, 0x72, 0x69],
   [0x6e, 0x67, 0x3e, 0x4e, 0x42, 0xc0, 0xc0, 0xc0, 0x40, 0xb0, 0x01, 0x13]]"

definition dictionary_rows_31 :: "u8 list list" where
  "dictionary_rows_31 =
  [[0xb6, 0x91, 0xb0, 0x09, 0x35, 0x71, 0x70, 0x2e, 0x63, 0x6f, 0x72, 0x65],
   [0x2e, 0x62, 0x6c, 0x6f, 0x6b, 0x73, 0x2e, 0x63, 0x6f, 0x6d, 0x70, 0x6f],
   [0x6e, 0x65, 0x6e, 0x74, 0x5f, 0x66, 0x61, 0x63, 0x74, 0x6f, 0x72, 0x79],
   [0x2e, 0x42, 0x6c, 0x6f, 0x6b, 0x73, 0x43, 0x6f, 0x6d, 0x70, 0x6f, 0x6e],
   [0x65, 0x6e, 0x74, 0x46, 0x61, 0x63, 0x74, 0x6f, 0x72, 0x79, 0x04, 0x0b],
   [0x40, 0xb4, 0x04, 0x0a, 0x50, 0x42, 0xc0, 0x40, 0xb0, 0x01, 0x13, 0xb6],
   [0x91, 0xb0, 0x09, 0x32, 0x71, 0x70, 0x2e, 0x63, 0x6f, 0x72, 0x65, 0x2e],
   [0x65, 0x6c, 0x69, 0x67, 0x69, 0x62, 0x69, 0x6c, 0x69, 0x74, 0x79, 0x2e],
   [0x72, 0x65, 0x73, 0x6f, 0x6c, 0x76, 0x65, 0x72, 0x2e, 0x51, 0x50, 0x45],
   [0x6c, 0x69, 0x67, 0x69, 0x62, 0x69, 0x6c, 0x69, 0x74, 0x79, 0x52, 0x65],
   [0x73, 0x6f, 0x6c, 0x76, 0x65, 0x72, 0x32, 0x5f, 0x61, 0x73, 0x79, 0x6e],
   [0x63, 0x5f, 0x69, 0x73, 0x5f, 0x65, 0x6c, 0x69, 0x67, 0x69, 0x62, 0x6c],
   [0x65, 0x40, 0xb4, 0x93, 0x2f, 0x3c, 0x66, 0x6f, 0x72, 0x6d, 0x61, 0x74],
   [0x2d, 0x73, 0x74, 0x72, 0x69, 0x6e, 0x67, 0x3e, 0x42, 0x41, 0x40, 0x41],
   [0x42, 0xb0, 0x01, 0x13, 0xb6, 0x91, 0xb0, 0x09, 0x44, 0x71, 0x70, 0x2e],
   [0x63, 0x6f, 0x72, 0x65, 0x2e, 0x65, 0x6c, 0x69, 0x67, 0x69, 0x62, 0x69],
   [0x6c, 0x69, 0x74, 0x79, 0x2e, 0x72, 0x75, 0x6c, 0x65, 0x2e, 0x62, 0x61],
   [0x73, 0x65, 0x5f, 0x65, 0x6c, 0x69, 0x67, 0x69, 0x62, 0x69, 0x6c, 0x69],
   [0x74, 0x79, 0x5f, 0x72, 0x75, 0x6c, 0x65, 0x2e, 0x42, 0x61, 0x73, 0x65],
   [0x51, 0x50, 0x45, 0x6c, 0x69, 0x67, 0x69, 0x62, 0x69, 0x6c, 0x69, 0x74],
   [0x79, 0x52, 0x75, 0x6c, 0x65, 0x09, 0x20, 0x61, 0x73, 0x79, 0x6e, 0x63],
   [0x5f, 0x67, 0x65, 0x6e, 0x5f, 0x6e, 0x65, 0x78, 0x74, 0x5f, 0x65, 0x6c],
   [0x69, 0x67, 0x69, 0x62, 0x69, 0x6c, 0x69, 0x74, 0x79, 0x5f, 0x73, 0x74],
   [0x61, 0x74, 0x65, 0x40, 0xb4, 0x93, 0x2f, 0x3c, 0x66, 0x6f, 0x72, 0x6d],
   [0x61, 0x74, 0x2d, 0x73, 0x74, 0x72, 0x69, 0x6e, 0x67, 0x3e, 0x40, 0x41],
   [0xc0, 0xc0, 0x40, 0xb0, 0x01, 0x13, 0xb6, 0x91, 0xb0, 0x09, 0x44, 0x71],
   [0x70, 0x2e, 0x63, 0x6f, 0x72, 0x65, 0x2e, 0x65, 0x6c, 0x69, 0x67, 0x69],
   [0x62, 0x69, 0x6c, 0x69, 0x74, 0x79, 0x2e, 0x72, 0x75, 0x6c, 0x65, 0x2e],
   [0x62, 0x61, 0x73, 0x65, 0x5f, 0x65, 0x6c, 0x69, 0x67, 0x69, 0x62, 0x69],
   [0x6c, 0x69, 0x74, 0x79, 0x5f, 0x72, 0x75, 0x6c, 0x65, 0x2e, 0x42, 0x61]] @
  [[0x73, 0x65, 0x51, 0x50, 0x45, 0x6c, 0x69, 0x67, 0x69, 0x62, 0x69, 0x6c],
   [0x69, 0x74, 0x79, 0x52, 0x75, 0x6c, 0x65, 0x04, 0x0a, 0x40, 0xb4, 0x04],
   [0x09, 0x40, 0x42, 0x40, 0x41, 0xb0, 0x01, 0x13, 0xb6, 0x91, 0xb0, 0x09],
   [0x44, 0x71, 0x70, 0x2e, 0x63, 0x6f, 0x72, 0x65, 0x2e, 0x65, 0x6c, 0x69],
   [0x67, 0x69, 0x62, 0x69, 0x6c, 0x69, 0x74, 0x79, 0x2e, 0x72, 0x75, 0x6c],
   [0x65, 0x2e, 0x62, 0x61, 0x73, 0x65, 0x5f, 0x65, 0x6c, 0x69, 0x67, 0x69],
   [0x62, 0x69, 0x6c, 0x69, 0x74, 0x79, 0x5f, 0x72, 0x75, 0x6c, 0x65, 0x2e],
   [0x42, 0x61, 0x73, 0x65, 0x51, 0x50, 0x45, 0x6c, 0x69, 0x67, 0x69, 0x62],
   [0x69, 0x6c, 0x69, 0x74, 0x79, 0x52, 0x75, 0x6c, 0x65, 0x04, 0x0f, 0x40],
   [0xb4, 0x04, 0x0e, 0x40, 0x44, 0xc0, 0xc0, 0xc0, 0x40, 0xb0, 0x01, 0x13],
   [0xb6, 0x91, 0xb0, 0x09, 0x23, 0x72, 0x65, 0x70, 0x75, 0x74, 0x65, 0x2e],
   [0x73, 0x65, 0x6e, 0x74, 0x72, 0x79, 0x5f, 0x73, 0x65, 0x72, 0x76, 0x69],
   [0x63, 0x65, 0x2e, 0x53, 0x65, 0x6e, 0x74, 0x72, 0x79, 0x53, 0x65, 0x72],
   [0x76, 0x69, 0x63, 0x65, 0x33, 0x61, 0x73, 0x79, 0x6e, 0x63, 0x5f, 0x73],
   [0x65, 0x6e, 0x74, 0x72, 0x79, 0x5f, 0x61, 0x73, 0x73, 0x65, 0x72, 0x74],
   [0x40, 0xb4, 0x93, 0x2f, 0x3c, 0x66, 0x6f, 0x72, 0x6d, 0x61, 0x74, 0x2d],
   [0x73, 0x74, 0x72, 0x69, 0x6e, 0x67, 0x3e, 0x40, 0x43, 0x40, 0x41, 0xb0],
   [0x01, 0x13, 0xb6, 0x91, 0xb0, 0x09, 0x23, 0x72, 0x65, 0x70, 0x75, 0x74],
   [0x65, 0x2e, 0x73, 0x65, 0x6e, 0x74, 0x72, 0x79, 0x5f, 0x73, 0x65, 0x72],
   [0x76, 0x69, 0x63, 0x65, 0x2e, 0x53, 0x65, 0x6e, 0x74, 0x72, 0x79, 0x53],
   [0x65, 0x72, 0x76, 0x69, 0x63, 0x65, 0x04, 0x08, 0x40, 0xb4, 0x04, 0x07],
   [0x43, 0x41, 0x40, 0x42, 0xb0, 0x01, 0x13, 0xb6, 0x91, 0xb0, 0x09, 0x33],
   [0x73, 0x74, 0x6f, 0x72, 0x79, 0x61, 0x64, 0x73, 0x2e, 0x73, 0x74, 0x6f],
   [0x72, 0x79, 0x61, 0x64, 0x73, 0x76, 0x61, 0x6c, 0x69, 0x64, 0x61, 0x74],
   [0x6f, 0x72, 0x2e, 0x53, 0x74, 0x6f, 0x72, 0x79, 0x41, 0x64, 0x73, 0x53],
   [0x69, 0x67, 0x6e, 0x65, 0x64, 0x42, 0x6f, 0x64, 0x79, 0x50, 0x61, 0x72],
   [0x61, 0x6d, 0x73, 0x09, 0x2b, 0x5f, 0x61, 0x73, 0x79, 0x6e, 0x63, 0x5f],
   [0x70, 0x61, 0x72, 0x84, 0x95, 0xa6, 0xbe, 0x00, 0x00, 0x00, 0x1c, 0x00],
   [0x00, 0x00, 0x05, 0x00, 0x00, 0x00, 0x11, 0x00, 0x00, 0x00, 0x0f, 0x92],
   [0xb1, 0xa0, 0x2a, 0x5f, 0x5f, 0x66, 0x75, 0x74, 0x75, 0x72, 0x65, 0x5f]] @
  [[0x5f, 0x40, 0x2b, 0x61, 0x6e, 0x6e, 0x6f, 0x74, 0x61, 0x74, 0x69, 0x6f],
   [0x6e, 0x73, 0x41, 0x84, 0x95, 0xa6, 0xbe, 0x00, 0x00, 0x00, 0x63, 0x00],
   [0x00, 0x00, 0x06, 0x00, 0x00, 0x00, 0x24, 0x00, 0x00, 0x00, 0x18, 0xa2],
   [0x24, 0x6c, 0x69, 0x73, 0x74, 0xa0, 0x90, 0x94, 0x09, 0x57, 0x69, 0x67],
   [0x5f, 0x6e, 0x6f, 0x64, 0x65, 0x61, 0x70, 0x69, 0x2e, 0x65, 0x64, 0x67],
   [0x65, 0x73, 0x2e, 0x6f, 0x77, 0x6e, 0x65, 0x72, 0x5f, 0x75, 0x73, 0x65],
   [0x72, 0x5f, 0x74, 0x6f, 0x5f, 0x66, 0x72, 0x69, 0x65, 0x6e, 0x64, 0x5f],
   [0x6c, 0x69, 0x73, 0x74, 0x5f, 0x6f, 0x6e, 0x5f, 0x75, 0x73, 0x65, 0x72],
   [0x2e, 0x45, 0x64, 0x67, 0x65, 0x4f, 0x77, 0x6e, 0x65, 0x72, 0x55, 0x73],
   [0x65, 0x72, 0x54, 0x6f, 0x46, 0x72, 0x69, 0x65, 0x6e, 0x64, 0x4c, 0x69],
   [0x73, 0x74, 0x4f, 0x6e, 0x55, 0x73, 0x65, 0x72, 0x51, 0x75, 0x65, 0x72],
   [0x79, 0x40, 0x84, 0x95, 0xa6, 0xbe, 0x00, 0x00, 0x00, 0x2f, 0x00, 0x00],
   [0x00, 0x02, 0x00, 0x00, 0x00, 0x0f, 0x00, 0x00, 0x00, 0x09, 0x94, 0x09],
   [0x2c, 0x65, 0x76, 0x65, 0x72, 0x73, 0x74, 0x6f, 0x72, 0x65, 0x2e, 0x63],
   [0x6f, 0x6d, 0x6d, 0x6f, 0x6e, 0x2e, 0x73, 0x74, 0x72, 0x75, 0x63, 0x74],
   [0x73, 0x2e, 0x74, 0x79, 0x70, 0x65, 0x73, 0x2e, 0x6f, 0x62, 0x6a, 0x65],
   [0x63, 0x74, 0x5f, 0x74, 0x79, 0x70, 0x65, 0x5f, 0x74, 0x84, 0x95, 0xa6],
   [0xbe, 0x00, 0x00, 0x01, 0x4f, 0x00, 0x00, 0x00, 0x50, 0x00, 0x00, 0x01],
   [0x09, 0x00, 0x00, 0x00, 0xfa, 0x90, 0xa0, 0x40, 0x90, 0xd1, 0xd1, 0xd1],
   [0xa0, 0x02, 0x04, 0x39, 0x84, 0x44, 0xa0, 0xa0, 0x40, 0xa0, 0xa0, 0x27],
   [0x72, 0x75, 0x6e, 0x74, 0x69, 0x6d, 0x65, 0xa0, 0x23, 0x6c, 0x69, 0x62],
   [0xa0, 0x27, 0x70, 0x79, 0x74, 0x68, 0x6f, 0x6e, 0x33, 0xa0, 0x22, 0x31],
   [0x30, 0xa0, 0x27, 0x63, 0x69, 0x6e, 0x64, 0x65, 0x72, 0x78, 0xa0, 0x28],
   [0x63, 0x6f, 0x6d, 0x70, 0x69, 0x6c, 0x65, 0x72, 0xa0, 0x27, 0x70, 0x79],
   [0x61, 0x73, 0x73, 0x65, 0x6d, 0xa0, 0x2a, 0x49, 0x6e, 0x64, 0x65, 0x78],
   [0x65, 0x64, 0x53, 0x65, 0x74, 0x40, 0xa0, 0x90, 0xa0, 0xa2, 0x24, 0x74],
   [0x79, 0x70, 0x65, 0xa0, 0x90, 0x94, 0x09, 0x3a, 0x72, 0x75, 0x6e, 0x74],
   [0x69, 0x6d, 0x65, 0x2e, 0x6c, 0x69, 0x62, 0x2e, 0x70, 0x79, 0x74, 0x68],
   [0x6f, 0x6e, 0x33, 0x2e, 0x31, 0x30, 0x2e, 0x63, 0x69, 0x6e, 0x64, 0x65],
   [0x72, 0x78, 0x2e, 0x63, 0x6f, 0x6d, 0x70, 0x69, 0x6c, 0x65, 0x72, 0x2e]] @
  [[0x70, 0x79, 0x61, 0x73, 0x73, 0x65, 0x6d, 0x2e, 0x49, 0x6e, 0x64, 0x65],
   [0x78, 0x65, 0x64, 0x53, 0x65, 0x74, 0x40, 0x40, 0xa0, 0x2b, 0x5f, 0x5f],
   [0x64, 0x65, 0x6c, 0x69, 0x74, 0x65, 0x6d, 0x5f, 0x5f, 0xa0, 0x90, 0xa0],
   [0x42, 0x90, 0xa0, 0x43, 0x40, 0x40, 0xa0, 0x40, 0x04, 0x22, 0x02, 0x0d],
   [0xcc, 0xb9, 0x62, 0xa0, 0xa0, 0x40, 0x04, 0x24, 0xa0, 0x40, 0x04, 0x25],
   [0xa0, 0x02, 0x0f, 0x47, 0x8b, 0x8c, 0xa0, 0xa0, 0x40, 0x40, 0xa0, 0x40],
   [0x40, 0x42, 0x02, 0x10, 0x0e, 0x1b, 0xce, 0xa0, 0xa0, 0x40, 0x04, 0x2b],
   [0xa0, 0x40, 0x04, 0x2c, 0xd1, 0x40, 0x02, 0x13, 0xa2, 0xa5, 0xee, 0xa0],
   [0xa0, 0x40, 0x04, 0x2f, 0xa0, 0x40, 0x04, 0x30, 0xa0, 0x02, 0x29, 0x4c],
   [0xc9, 0xf6, 0xa0, 0xa0, 0x40, 0x04, 0x33, 0xa0, 0x40, 0x04, 0x34, 0x42],
   [0x43, 0x02, 0x2b, 0x84, 0x0c, 0x2a, 0xa0, 0xa0, 0x40, 0x40, 0xa0, 0x40],
   [0x04, 0x37, 0xd1, 0xd1, 0xa0, 0x02, 0x2c, 0x3f, 0x7b, 0x3f, 0xa0, 0xa0],
   [0x40, 0x04, 0x3c, 0xa0, 0x40, 0x04, 0x3d, 0x02, 0x31, 0x47, 0x7e, 0x88],
   [0xa0, 0xa0, 0x40, 0x04, 0x3f, 0xa0, 0x40, 0x04, 0x40, 0x40, 0x42, 0x02],
   [0x3a, 0x61, 0xbe, 0xce, 0xa0, 0xa0, 0x40, 0x40, 0xa0, 0x40, 0x40, 0xa0],
   [0x02, 0x3e, 0xe3, 0xc9, 0xc0, 0xa0, 0xa0, 0x40, 0x04, 0x46, 0xa0, 0x40],
   [0x04, 0x47, 0x43, 0x44, 0x84, 0x95, 0xa6, 0xbe, 0x00, 0x00, 0x00, 0xd7],
   [0x00, 0x00, 0x00, 0x05, 0x00, 0x00, 0x00, 0x3f, 0x00, 0x00, 0x00, 0x25],
   [0x99, 0xa0, 0x42, 0xa0, 0x94, 0x09, 0xcf, 0x77, 0x77, 0x77, 0x67, 0x72],
   [0x61, 0x70, 0x68, 0x71, 0x6c, 0x2e, 0x71, 0x75, 0x65, 0x72, 0x69, 0x65],
   [0x73, 0x5f, 0x66, 0x61, 0x63, 0x65, 0x62, 0x6f, 0x6f, 0x6b, 0x2e, 0x67],
   [0x65, 0x6e, 0x65, 0x72, 0x61, 0x74, 0x65, 0x64, 0x5f, 0x66, 0x72, 0x61],
   [0x67, 0x6d, 0x65, 0x6e, 0x74, 0x73, 0x2e, 0x69, 0x67, 0x5f, 0x69, 0x6e],
   [0x73, 0x69, 0x67, 0x68, 0x74, 0x73, 0x5f, 0x6d, 0x65, 0x64, 0x69, 0x61],
   [0x5f, 0x70, 0x72, 0x6f, 0x64, 0x75, 0x63, 0x74, 0x5f, 0x61, 0x64, 0x64],
   [0x73, 0x5f, 0x74, 0x6f, 0x5f, 0x63, 0x61, 0x72, 0x74, 0x5f, 0x63, 0x6f],
   [0x75, 0x6e, 0x74, 0x5f, 0x6c, 0x69, 0x66, 0x65, 0x74, 0x69, 0x6d, 0x65],
   [0x5f, 0x6d, 0x65, 0x74, 0x72, 0x69, 0x63, 0x5f, 0x5f, 0x6d, 0x65, 0x64],
   [0x69, 0x61, 0x2e, 0x49, 0x47, 0x49, 0x6e, 0x73, 0x69, 0x67, 0x68, 0x74],
   [0x73, 0x4d, 0x65, 0x64, 0x69, 0x61, 0x50, 0x72, 0x6f, 0x64, 0x75, 0x63]] @
  [[0x74, 0x41, 0x64, 0x64, 0x73, 0x54, 0x6f, 0x43, 0x61, 0x72, 0x74, 0x43],
   [0x6f, 0x75, 0x6e, 0x74, 0x4c, 0x69, 0x66, 0x65, 0x74, 0x69, 0x6d, 0x65],
   [0x4d, 0x65, 0x74, 0x72, 0x69, 0x63, 0x5f, 0x6d, 0x65, 0x64, 0x69, 0x61],
   [0x5f, 0x63, 0x69, 0x5f, 0x61, 0x70, 0x69, 0x5f, 0x70, 0x72, 0x6f, 0x64],
   [0x75, 0x63, 0x74, 0x5f, 0x61, 0x64, 0x64, 0x73, 0x5f, 0x74, 0x6f, 0x5f],
   [0x63, 0x61, 0x72, 0x74, 0x5f, 0x63, 0x6f, 0x75, 0x6e, 0x74, 0x40, 0x84],
   [0x95, 0xa6, 0xbe, 0x00, 0x00, 0x00, 0xe9, 0x00, 0x00, 0x00, 0x1b, 0x00],
   [0x00, 0x00, 0x78, 0x00, 0x00, 0x00, 0x62, 0x90, 0xa0, 0x40, 0x90, 0xd1],
   [0xa0, 0x02, 0x0f, 0x47, 0x8b, 0x8c, 0xa0, 0xa0, 0x40, 0x40, 0xa0, 0xd1],
   [0xa0, 0xa0, 0x35, 0x24, 0x70, 0x61, 0x72, 0x61, 0x6d, 0x65, 0x74, 0x65],
   [0x72, 0x24, 0x65, 0x78, 0x70, 0x72, 0x65, 0x73, 0x73, 0x69, 0x6f, 0x6e],
   [0x40, 0xa0, 0x90, 0xa0, 0x41, 0x90, 0xa0, 0x41, 0x40, 0x40, 0xa0, 0x2f],
   [0x24, 0x70, 0x61, 0x72, 0x61, 0x6d, 0x65, 0x74, 0x65, 0x72, 0x24, 0x73],
   [0x65, 0x6c, 0x66, 0x40, 0xa0, 0x90, 0xa0, 0x94, 0x09, 0x89, 0x69, 0x67],
   [0x5f, 0x6e, 0x6f, 0x64, 0x65, 0x61, 0x70, 0x69, 0x2e, 0x65, 0x64, 0x67],
   [0x65, 0x73, 0x2e, 0x63, 0x68, 0x61, 0x6c, 0x6c, 0x65, 0x6e, 0x67, 0x65],
   [0x5f, 0x68, 0x61, 0x73, 0x68, 0x74, 0x61, 0x67, 0x5f, 0x6f, 0x6e, 0x5f],
   [0x66, 0x62, 0x5f, 0x63, 0x6f, 0x6d, 0x6d, 0x65, 0x72, 0x63, 0x65, 0x5f],
   [0x63, 0x6f, 0x6d, 0x6d, 0x75, 0x6e, 0x69, 0x74, 0x79, 0x5f, 0x70, 0x6c],
   [0x61, 0x74, 0x66, 0x6f, 0x72, 0x6d, 0x5f, 0x70, 0x68, 0x6f, 0x74, 0x6f],
   [0x2e, 0x45, 0x64, 0x67, 0x65, 0x53, 0x65, 0x6c, 0x65, 0x63, 0x74, 0x6f],
   [0x72, 0x43, 0x68, 0x61, 0x6c, 0x6c, 0x65, 0x6e, 0x67, 0x65, 0x48, 0x61],
   [0x73, 0x68, 0x74, 0x61, 0x67, 0x4f, 0x6e, 0x5f, 0x73, 0x68, 0x6f, 0x74],
   [0x73, 0x5f, 0x66, 0x61, 0x69, 0x6c, 0x75, 0x72, 0x65, 0x73, 0x40, 0xb4],
   [0x04, 0x0f, 0x43, 0x40, 0x40, 0x41, 0x42, 0xb0, 0x01, 0x13, 0xb6, 0x90],
   [0xa0, 0x09, 0x4e, 0x66, 0x65, 0x65, 0x64, 0x2e, 0x64, 0x65, 0x6c, 0x69],
   [0x76, 0x65, 0x72, 0x79, 0x2e, 0x66, 0x65, 0x65, 0x64, 0x72, 0x65, 0x63],
   [0x73, 0x2e, 0x75, 0x74, 0x69, 0x6c, 0x73, 0x2e, 0x64, 0x65, 0x62, 0x75],
   [0x67, 0x67, 0x69, 0x6e, 0x67, 0x5f, 0x74, 0x6f, 0x6f, 0x6c, 0x73, 0x2e],
   [0x75, 0x74, 0x69, 0x6c, 0x73, 0x2e, 0x70, 0x72, 0x65, 0x74, 0x74, 0x79]]"

definition dictionary_rows_32 :: "u8 list list" where
  "dictionary_rows_32 =
  [[0x5f, 0x70, 0x72, 0x69, 0x6e, 0x74, 0x5f, 0x73, 0x68, 0x6f, 0x74, 0x73],
   [0x5f, 0x66, 0x61, 0x69, 0x6c, 0x75, 0x72, 0x65, 0x73, 0x40, 0xb4, 0x93],
   [0x2f, 0x3c, 0x66, 0x6f, 0x72, 0x6d, 0x61, 0x74, 0x2d, 0x73, 0x74, 0x72],
   [0x69, 0x6e, 0x67, 0x3e, 0x44, 0x40, 0xc0, 0xc0, 0xc0, 0x40, 0xb0, 0x01],
   [0x13, 0xb6, 0x90, 0xa0, 0x09, 0x29, 0x75, 0x74, 0x69, 0x6c, 0x2e, 0x65],
   [0x78, 0x63, 0x65, 0x70, 0x74, 0x69, 0x6f, 0x6e, 0x5f, 0x6c, 0x6f, 0x67],
   [0x67, 0x65, 0x72, 0x2e, 0x5f, 0x73, 0x6c, 0x6f, 0x67, 0x5f, 0x6c, 0x6f],
   [0x67, 0x5f, 0x65, 0x78, 0x63, 0x65, 0x70, 0x74, 0x69, 0x6f, 0x6e, 0x40],
   [0xb4, 0x93, 0x2f, 0x3c, 0x66, 0x6f, 0x72, 0x6d, 0x61, 0x74, 0x2d, 0x73],
   [0x74, 0x72, 0x69, 0x6e, 0x67, 0x3e, 0x40, 0x42, 0x40, 0x41, 0xb0, 0x01],
   [0x13, 0xb6, 0x91, 0xb0, 0x09, 0x43, 0x62, 0x75, 0x73, 0x69, 0x6e, 0x65],
   [0x73, 0x73, 0x2e, 0x61, 0x63, 0x63, 0x6f, 0x75, 0x6e, 0x74, 0x2e, 0x73],
   [0x65, 0x72, 0x76, 0x69, 0x63, 0x65, 0x73, 0x2e, 0x62, 0x75, 0x73, 0x69],
   [0x6e, 0x65, 0x73, 0x73, 0x5f, 0x70, 0x61, 0x67, 0x65, 0x5f, 0x73, 0x65],
   [0x72, 0x76, 0x69, 0x63, 0x65, 0x2e, 0x42, 0x75, 0x73, 0x69, 0x6e, 0x65],
   [0x73, 0x73, 0x50, 0x61, 0x67, 0x65, 0x53, 0x65, 0x72, 0x76, 0x69, 0x63],
   [0x65, 0x09, 0x26, 0x5f, 0x61, 0x73, 0x79, 0x6e, 0x63, 0x5f, 0x65, 0x76],
   [0x61, 0x6c, 0x75, 0x61, 0x74, 0x65, 0x5f, 0x6f, 0x6e, 0x65, 0x5f, 0x74],
   [0x6f, 0x5f, 0x6d, 0x61, 0x6e, 0x79, 0x5f, 0x65, 0x78, 0x70, 0x65, 0x72],
   [0x69, 0x6d, 0x65, 0x6e, 0x74, 0x40, 0xb4, 0x93, 0x2f, 0x3c, 0x66, 0x6f],
   [0x72, 0x6d, 0x61, 0x74, 0x2d, 0x73, 0x74, 0x72, 0x69, 0x6e, 0x67, 0x3e],
   [0x40, 0x41, 0x40, 0x42, 0xb0, 0x01, 0x13, 0xb6, 0x91, 0xb0, 0x09, 0x3a],
   [0x63, 0x6c, 0x69, 0x70, 0x73, 0x2e, 0x73, 0x68, 0x6f, 0x74, 0x73, 0x2e],
   [0x72, 0x65, 0x63, 0x65, 0x6e, 0x74, 0x5f, 0x73, 0x69, 0x67, 0x6e, 0x61],
   [0x6c, 0x73, 0x5f, 0x68, 0x65, 0x6c, 0x70, 0x65, 0x72, 0x2e, 0x43, 0x6c],
   [0x69, 0x70, 0x73, 0x52, 0x65, 0x63, 0x65, 0x6e, 0x74, 0x53, 0x69, 0x67],
   [0x6e, 0x61, 0x6c, 0x73, 0x48, 0x65, 0x6c, 0x70, 0x65, 0x72, 0x32, 0x5f],
   [0x67, 0x65, 0x74, 0x5f, 0x73, 0x6b, 0x69, 0x70, 0x70, 0x65, 0x64, 0x5f],
   [0x6d, 0x65, 0x64, 0x69, 0x61, 0x40, 0xb4, 0x93, 0x2f, 0x3c, 0x66, 0x6f],
   [0x72, 0x6d, 0x61, 0x74, 0x2d, 0x73, 0x74, 0x72, 0x69, 0x6e, 0x67, 0x3e]] @
  [[0x40, 0x40, 0xc0, 0x40, 0xb0, 0x01, 0x13, 0xb6, 0x91, 0xb0, 0x09, 0x4f],
   [0x64, 0x69, 0x73, 0x63, 0x6f, 0x76, 0x65, 0x72, 0x2e, 0x6d, 0x65, 0x64],
   [0x69, 0x61, 0x5f, 0x63, 0x68, 0x61, 0x69, 0x6e, 0x69, 0x6e, 0x67, 0x2e],
   [0x73, 0x74, 0x65, 0x70, 0x73, 0x2e, 0x65, 0x78, 0x70, 0x6c, 0x6f, 0x72],
   [0x65, 0x5f, 0x67, 0x72, 0x69, 0x64, 0x5f, 0x61, 0x64, 0x73, 0x5f, 0x73],
   [0x74, 0x65, 0x70, 0x5f, 0x62, 0x61, 0x73, 0x65, 0x2e, 0x45, 0x78, 0x70],
   [0x6c, 0x6f, 0x72, 0x65, 0x47, 0x72, 0x69, 0x64, 0x41, 0x64, 0x73, 0x53],
   [0x74, 0x65, 0x70, 0x42, 0x61, 0x73, 0x65, 0x2d, 0x61, 0x73, 0x79, 0x6e],
   [0x63, 0x5f, 0x65, 0x6e, 0x61, 0x62, 0x6c, 0x65, 0x64, 0x40, 0xb4, 0x93],
   [0x2f, 0x3c, 0x66, 0x6f, 0x72, 0x6d, 0x61, 0x74, 0x2d, 0x73, 0x74, 0x72],
   [0x69, 0x6e, 0x67, 0x3e, 0x41, 0x41, 0xc0, 0x40, 0xb0, 0x01, 0x13, 0xb6],
   [0x91, 0xb0, 0x09, 0x2f, 0x66, 0x62, 0x63, 0x6f, 0x64, 0x65, 0x2e, 0x74],
   [0x65, 0x73, 0x74, 0x73, 0x6c, 0x69, 0x64, 0x65, 0x2e, 0x73, 0x74, 0x72],
   [0x69, 0x63, 0x74, 0x5f, 0x6d, 0x6f, 0x63, 0x6b, 0x2e, 0x4e, 0x6f, 0x6e],
   [0x41, 0x77, 0x61, 0x69, 0x74, 0x61, 0x62, 0x6c, 0x65, 0x52, 0x65, 0x74],
   [0x75, 0x72, 0x6e, 0x27, 0x5f, 0x5f, 0x73, 0x74, 0x72, 0x5f, 0x5f, 0x40],
   [0xb4, 0x93, 0x2f, 0x3c, 0x66, 0x6f, 0x72, 0x6d, 0x61, 0x74, 0x2d, 0x73],
   [0x74, 0x72, 0x69, 0x6e, 0x67, 0x3e, 0x40, 0x42, 0x40, 0x41, 0x42, 0x43],
   [0x44, 0x46, 0xb0, 0x01, 0x13, 0xb6, 0x91, 0xb0, 0x09, 0x2d, 0x66, 0x62],
   [0x63, 0x6f, 0x64, 0x65, 0x2e, 0x74, 0x65, 0x73, 0x74, 0x73, 0x6c, 0x69],
   [0x64, 0x65, 0x2e, 0x73, 0x74, 0x72, 0x69, 0x63, 0x74, 0x5f, 0x6d, 0x6f],
   [0x63, 0x6b, 0x2e, 0x4e, 0x6f, 0x6e, 0x43, 0x61, 0x6c, 0x6c, 0x61, 0x62],
   [0x6c, 0x65, 0x56, 0x61, 0x6c, 0x75, 0x65, 0x27, 0x5f, 0x5f, 0x73, 0x74],
   [0x72, 0x5f, 0x5f, 0x40, 0xb4, 0x93, 0x2f, 0x3c, 0x66, 0x6f, 0x72, 0x6d],
   [0x61, 0x74, 0x2d, 0x73, 0x74, 0x72, 0x69, 0x6e, 0x67, 0x3e, 0x40, 0x42],
   [0xc0, 0xc0, 0xc0, 0xc0, 0x40, 0xb0, 0x01, 0x13, 0xb6, 0x91, 0xb0, 0x09],
   [0x31, 0x66, 0x62, 0x63, 0x6f, 0x64, 0x65, 0x2e, 0x74, 0x65, 0x73, 0x74],
   [0x73, 0x6c, 0x69, 0x64, 0x65, 0x2e, 0x73, 0x74, 0x72, 0x69, 0x63, 0x74],
   [0x5f, 0x6d, 0x6f, 0x63, 0x6b, 0x2e, 0x4e, 0x6f, 0x6e, 0x45, 0x78, 0x69],
   [0x73, 0x74, 0x65, 0x6e, 0x74, 0x41, 0x74, 0x74, 0x72, 0x69, 0x62, 0x75]] @
  [[0x74, 0x65, 0x27, 0x5f, 0x5f, 0x73, 0x74, 0x72, 0x5f, 0x5f, 0x40, 0xb4],
   [0x93, 0x2f, 0x3c, 0x66, 0x6f, 0x72, 0x6d, 0x61, 0x74, 0x2d, 0x73, 0x74],
   [0x72, 0x69, 0x6e, 0x67, 0x3e, 0x40, 0x42, 0x40, 0x41, 0xb0, 0x01, 0x13],
   [0xb6, 0x91, 0xb0, 0x09, 0x2f, 0x66, 0x62, 0x63, 0x6f, 0x64, 0x65, 0x2e],
   [0x74, 0x65, 0x73, 0x74, 0x73, 0x6c, 0x69, 0x64, 0x65, 0x2e, 0x73, 0x74],
   [0x72, 0x69, 0x63, 0x74, 0x5f, 0x6d, 0x6f, 0x63, 0x6b, 0x2e, 0x55, 0x6e],
   [0x64, 0x65, 0x66, 0x69, 0x6e, 0x65, 0x64, 0x41, 0x74, 0x74, 0x72, 0x69],
   [0x62, 0x75, 0x74, 0x65, 0x27, 0x5f, 0x5f, 0x73, 0x74, 0x72, 0x5f, 0x5f],
   [0x40, 0xb4, 0x93, 0x2f, 0x3c, 0x66, 0x6f, 0x72, 0x6d, 0x61, 0x74, 0x2d],
   [0x73, 0x74, 0x72, 0x69, 0x6e, 0x67, 0x3e, 0x40, 0x42, 0xc0, 0xc0, 0x40],
   [0xb0, 0x01, 0x13, 0xb6, 0x91, 0xb0, 0x09, 0x46, 0x66, 0x65, 0x65, 0x64],
   [0x2e, 0x64, 0x65, 0x6c, 0x69, 0x76, 0x65, 0x72, 0x79, 0x2e, 0x6d, 0x6f],
   [0x64, 0x75, 0x6c, 0x65, 0x73, 0x2e, 0x66, 0x65, 0x65, 0x64, 0x2e, 0x72],
   [0x65, 0x61, 0x6c, 0x5f, 0x74, 0x69, 0x6d, 0x65, 0x5f, 0x66, 0x65, 0x61],
   [0x74, 0x73, 0x2e, 0x46, 0x65, 0x65, 0x64, 0x52, 0x65, 0x61, 0x6c, 0x54],
   [0x69, 0x6d, 0x65, 0x46, 0x65, 0x61, 0x74, 0x73, 0x53, 0x68, 0x6f, 0x74],
   [0x73, 0x55, 0x74, 0x69, 0x6c, 0x73, 0x37, 0x5f, 0x65, 0x73, 0x75, 0x68],
   [0x6d, 0x5f, 0x64, 0x76, 0x5f, 0x73, 0x6b, 0x69, 0x70, 0x70, 0x65, 0xc1],
   [0x41, 0x44, 0x04, 0x2c, 0x05, 0x01, 0xe4, 0x90, 0x40, 0x40, 0x41, 0x90],
   [0x36, 0x55, 0x73, 0x65, 0x72, 0x53, 0x65, 0x63, 0x72, 0x65, 0x74, 0x73],
   [0x5f, 0x41, 0x50, 0x49, 0x53, 0x63, 0x68, 0x65, 0x6d, 0x61, 0x73, 0x08],
   [0x00, 0x00, 0x20, 0x00, 0x90, 0xa0, 0xa0, 0x03, 0x06, 0x02, 0x01, 0x03],
   [0x40, 0x01, 0x00, 0x00, 0x40, 0xa0, 0x03, 0x04, 0x02, 0x00, 0x03, 0x40],
   [0x01, 0x00, 0x00, 0x40, 0x90, 0x40, 0x90, 0x05, 0x1c, 0x36, 0x90, 0x47],
   [0x90, 0x90, 0x90, 0x03, 0xc2, 0x6d, 0xc5, 0xac, 0xf9, 0xcb, 0x5e, 0x15],
   [0x90, 0xa0, 0x40, 0x40, 0x90, 0xa0, 0x40, 0x90, 0x05, 0x03, 0x6a, 0x90],
   [0x40, 0xd0, 0xd0, 0x40, 0xb2, 0x40, 0xa0, 0x91, 0xa0, 0x90, 0x40, 0x90],
   [0xc0, 0x40, 0x90, 0x2e, 0x45, 0x78, 0x65, 0x63, 0x49, 0x6d, 0x70, 0x6f],
   [0x72, 0x74, 0x53, 0x69, 0x6e, 0x6b, 0x40, 0x41, 0x40, 0x90, 0x2e, 0x55],
   [0x73, 0x65, 0x72, 0x43, 0x6f, 0x6e, 0x74, 0x72, 0x6f, 0x6c, 0x6c, 0x65]] @
  [[0x64, 0x08, 0x00, 0x00, 0x20, 0x00, 0x90, 0xa0, 0xa0, 0x03, 0xe7, 0x46],
   [0x8d, 0x23, 0xcc, 0x8f, 0xd3, 0x98, 0x90, 0xc1, 0x40, 0x41, 0xc1, 0x4c],
   [0x60, 0x90, 0x03, 0xd3, 0x75, 0xf7, 0x89, 0x55, 0xaf, 0x1d, 0x4c, 0x90],
   [0x03, 0xff, 0xcd, 0xfb, 0xb4, 0xa9, 0x2a, 0x1c, 0x6c, 0x90, 0x03, 0xd8],
   [0x23, 0x26, 0x92, 0x11, 0x82, 0x5a, 0xdb, 0xa0, 0x03, 0x04, 0x02, 0x00],
   [0x03, 0x40, 0x01, 0x00, 0x00, 0x40, 0x90, 0x40, 0x90, 0x05, 0x1c, 0x5a],
   [0x90, 0x4b, 0x90, 0x90, 0xc1, 0x40, 0x41, 0xc1, 0x42, 0x44, 0x90, 0x03],
   [0x26, 0xe6, 0x35, 0xaf, 0x2b, 0x87, 0x65, 0xd2, 0x90, 0x03, 0x0e, 0xcf],
   [0x26, 0x3b, 0x79, 0xa1, 0xa4, 0xf6, 0xc1, 0x41, 0x42, 0xc1, 0x4d, 0x50],
   [0x90, 0x03, 0x1a, 0xc0, 0x2c, 0xe0, 0x46, 0x3c, 0xf5, 0xad, 0x90, 0x03],
   [0xd0, 0xa0, 0x2c, 0x30, 0x20, 0x67, 0x53, 0x1d, 0x90, 0x03, 0xe4, 0x62],
   [0xe2, 0xf0, 0x75, 0x41, 0xa4, 0x17, 0x90, 0xa0, 0x03, 0x00, 0x08, 0x00],
   [0x00, 0x00, 0x00, 0x00, 0x00, 0x90, 0x90, 0x03, 0x23, 0xc8, 0xc2, 0xc5],
   [0xca, 0x59, 0xdb, 0x3a, 0x90, 0xa0, 0x03, 0x00, 0x00, 0x10, 0x00, 0x00],
   [0x00, 0x00, 0x00, 0x90, 0xc1, 0x40, 0x41, 0x05, 0x03, 0x9b, 0x90, 0x03],
   [0x01, 0x8e, 0x18, 0x70, 0xb0, 0x23, 0x5a, 0x8d, 0x90, 0x40, 0x40, 0x41],
   [0xb2, 0x40, 0xa0, 0x91, 0xa0, 0x90, 0x40, 0x90, 0xc0, 0x40, 0x90, 0x27],
   [0x4c, 0x6f, 0x67, 0x67, 0x69, 0x6e, 0x67, 0x40, 0x41, 0x40, 0x90, 0x36],
   [0x55, 0x73, 0x65, 0x72, 0x43, 0x6f, 0x6e, 0x74, 0x72, 0x6f, 0x6c, 0x6c],
   [0x65, 0x64, 0x5f, 0x50, 0x61, 0x79, 0x6c, 0x6f, 0x61, 0x64, 0x08, 0x00],
   [0x00, 0x20, 0x00, 0x90, 0xa0, 0xa0, 0x03, 0xe7, 0x46, 0x8d, 0x23, 0xcc],
   [0x8f, 0xd3, 0x98, 0x90, 0xc1, 0x40, 0x41, 0xc1, 0x4c, 0x60, 0x90, 0x03],
   [0xd3, 0x75, 0xf7, 0x89, 0x55, 0xaf, 0x1d, 0x4c, 0x90, 0x03, 0xff, 0xcd],
   [0xfb, 0xb4, 0xa9, 0x2a, 0x1c, 0x6c, 0x05, 0x03, 0x9c, 0xa0, 0x03, 0x04],
   [0x00, 0x00, 0x03, 0x40, 0x00, 0x00, 0x00, 0x40, 0x90, 0x40, 0x90, 0xa0],
   [0x03, 0x3f, 0xff, 0xff, 0xff, 0xff, 0xff, 0xff, 0xff, 0x40, 0x90, 0x4b],
   [0x90, 0x90, 0xc1, 0x40, 0x41, 0x90, 0x03, 0x26, 0xe6, 0x35, 0xaf, 0x2b],
   [0x87, 0x65, 0xd2, 0xc1, 0x41, 0x42, 0xc1, 0x4d, 0x50, 0x90, 0x03, 0x1a],
   [0xc0, 0x2c, 0xe0, 0x46, 0x3c, 0xf5, 0xad, 0x90, 0x03, 0xd0, 0xa0, 0x2c],
   [0x30, 0x20, 0x67, 0x53, 0x1d, 0x90, 0x03, 0xe4, 0x62, 0xe2, 0xf0, 0x75]] @
  [[0x41, 0xa4, 0x17, 0x90, 0xa0, 0x03, 0x00, 0x08, 0x00, 0x00, 0x00, 0x00],
   [0x00, 0x00, 0x90, 0xc1, 0x42, 0x44, 0xc1, 0x42, 0x48, 0x90, 0x03, 0x19],
   [0x40, 0xd4, 0x44, 0x03, 0x5a, 0x44, 0xf2, 0x90, 0x03, 0x23, 0xc8, 0xc2],
   [0xc5, 0xca, 0x59, 0xdb, 0x3a, 0x90, 0x03, 0x35, 0xe5, 0xa6, 0x08, 0x0d],
   [0x9b, 0xfd, 0x46, 0x90, 0xa0, 0x03, 0x01, 0x00, 0x10, 0x00, 0x00, 0x00],
   [0x00, 0x00, 0x90, 0xc1, 0x40, 0x41, 0x05, 0x03, 0xcb, 0x04, 0x30, 0x90],
   [0x40, 0x40, 0x42, 0x43, 0x44, 0x45, 0x90, 0x90, 0xc0, 0xc0, 0x40, 0x05],
   [0x1a, 0x7d, 0xc0, 0x40, 0x05, 0x1a, 0x7a, 0x40, 0x41, 0x42, 0x05, 0x1a],
   [0x77, 0xc0, 0x40, 0x05, 0x1a, 0x74, 0x40, 0x41, 0x43, 0x90, 0xa0, 0xa0],
   [0x03, 0x04, 0x02, 0x04, 0x03, 0x40, 0x00, 0x10, 0x00, 0x40, 0xa0, 0x03],
   [0x04, 0x02, 0x04, 0x03, 0x40, 0x00, 0x10, 0x00, 0x40, 0x90, 0xa0, 0x40],
   [0x40, 0x90, 0xa0, 0x40, 0x90, 0x90, 0x03, 0x3a, 0x23, 0x50, 0x35, 0x31],
   [0x96, 0xa9, 0x9b, 0x90, 0xb0, 0xa0, 0x05, 0x1c, 0x54, 0x40, 0xa0, 0x05],
   [0x1c, 0x55, 0x40, 0x41, 0x90, 0x40, 0xd0, 0xd0, 0x40, 0xc2, 0x40, 0xa0],
   [0x05, 0x07, 0x53, 0xa0, 0x05, 0x02, 0xdd, 0xa0, 0x05, 0x05, 0x3a, 0xa0],
   [0x05, 0x05, 0x38, 0x40, 0x05, 0x07, 0x51, 0xa0, 0x05, 0x07, 0x4e, 0x40],
   [0xf0, 0x90, 0xd0, 0xd0, 0x40, 0x05, 0x07, 0x33, 0x08, 0x00, 0x00, 0x20],
   [0x00, 0x90, 0xa0, 0xa0, 0x03, 0x26, 0x04, 0x09, 0x23, 0x40, 0x06, 0x11],
   [0x80, 0x40, 0xa0, 0x03, 0x02, 0x00, 0x09, 0x01, 0x40, 0x00, 0x00, 0x00],
   [0x40, 0x05, 0x07, 0x31, 0x05, 0x07, 0x30, 0x90, 0x4d, 0x05, 0x07, 0x2e],
   [0x05, 0x07, 0x27, 0x05, 0x07, 0x25, 0x05, 0x07, 0x21, 0x40, 0x41, 0x05],
   [0x05, 0x36, 0x08, 0x00, 0x00, 0x20, 0x00, 0x90, 0xa0, 0xa0, 0x03, 0x06],
   [0x04, 0x09, 0x23, 0x40, 0x04, 0x11, 0x00, 0x40, 0xa0, 0x03, 0x02, 0x00],
   [0x09, 0x03, 0x40, 0x00, 0x00, 0x00, 0x40, 0x90, 0x40, 0x90, 0x05, 0x1c],
   [0xcd, 0x90, 0x4a, 0x90, 0x90, 0x05, 0x05, 0x34, 0x90, 0xa0, 0x40, 0x40],
   [0x90, 0xa0, 0x40, 0x40, 0x90, 0x40, 0xd0, 0x40, 0x05, 0x07, 0x13, 0x08],
   [0x00, 0x00, 0x20, 0x00, 0x90, 0xa0, 0xa0, 0x03, 0x26, 0x40, 0x09, 0x23],
   [0x40, 0x00, 0x11, 0x00, 0x40, 0xa0, 0x03, 0x06, 0x40, 0x09, 0x03, 0x40],
   [0x00, 0x00, 0x00, 0x40, 0x05, 0x07, 0x11, 0x05, 0x07, 0x10, 0x90, 0x4e],
   [0x05, 0x07, 0x0f, 0x90, 0xa0, 0x40, 0x40, 0x90, 0xa0, 0x40, 0x40, 0x05]]"

definition dictionary_rows_33 :: "u8 list list" where
  "dictionary_rows_33 =
  [[0x07, 0x0e, 0x40, 0x41, 0x42, 0x90, 0x90, 0xc0, 0xc0, 0x40, 0x05, 0x1a],
   [0xbe, 0xc0, 0x40, 0x05, 0x1a, 0xbb, 0x40, 0x41, 0x42, 0x05, 0x1a, 0xb8],
   [0xc0, 0x40, 0x05, 0x1a, 0xb5, 0x40, 0x41, 0x43, 0x90, 0xa0, 0xa0, 0x03],
   [0x04, 0x02, 0x04, 0x03, 0x40, 0x00, 0x10, 0x00, 0x40, 0xa0, 0x03, 0x04],
   [0x02, 0x04, 0x03, 0x40, 0x00, 0x10, 0x00, 0x40, 0x90, 0xa0, 0x40, 0x40],
   [0x90, 0xa0, 0x40, 0x90, 0x90, 0x03, 0x3a, 0x23, 0x50, 0x35, 0x31, 0x96],
   [0xa9, 0x9b, 0x90, 0xb0, 0xa0, 0x05, 0x1c, 0x95, 0x40, 0xa0, 0x05, 0x1c],
   [0x96, 0x40, 0x41, 0x90, 0x40, 0xd0, 0x40, 0xc2, 0x40, 0xa0, 0x90, 0x28],
   [0x61, 0x75, 0x74, 0x6f, 0x70, 0x6c, 0x61, 0x79, 0x40, 0x05, 0x10, 0x2d],
   [0xa0, 0x05, 0x10, 0x2a, 0x40, 0xf0, 0x90, 0xd0, 0xd0, 0x40, 0x05, 0x09],
   [0x1d, 0x08, 0x00, 0x00, 0x20, 0x00, 0x90, 0xa0, 0xa0, 0x03, 0x06, 0x00],
   [0x01, 0x23, 0x40, 0x04, 0x11, 0x00, 0x40, 0xa0, 0x03, 0x04, 0x00, 0x00],
   [0x03, 0x40, 0x00, 0x00, 0x00, 0x40, 0x90, 0x40, 0x90, 0x05, 0x09, 0x19],
   [0x90, 0x45, 0x90, 0x97, 0xaf, 0x4d, 0x15, 0xac, 0x2b, 0x90, 0x03, 0xc2],
   [0xe1, 0x80, 0x8f, 0x40, 0x7c, 0x13, 0x2b, 0xc1, 0x01, 0x02, 0xab, 0x01],
   [0x04, 0x00, 0x90, 0x03, 0xc0, 0x6e, 0x8d, 0x9e, 0x38, 0xe5, 0x92, 0xab],
   [0x90, 0x03, 0xde, 0x93, 0xd3, 0x08, 0xe8, 0x1c, 0xa6, 0xab, 0xc1, 0x00],
   [0x6b, 0x01, 0x00, 0x80, 0x90, 0x03, 0xc0, 0x57, 0x0e, 0xb6, 0x20, 0x27],
   [0x71, 0x6b, 0x90, 0x03, 0xec, 0x1e, 0x87, 0xaf, 0xe4, 0xb8, 0xa0, 0xeb],
   [0xc1, 0x5b, 0x60, 0xc1, 0x5b, 0x00, 0x40, 0xc1, 0x5b, 0x01, 0x00, 0x80],
   [0x90, 0x03, 0xc3, 0xfe, 0x40, 0xab, 0x75, 0x00, 0x63, 0x1b, 0x90, 0x03],
   [0x1f, 0x46, 0xa3, 0x98, 0x3d, 0xb0, 0x5b, 0x9b, 0xc1, 0x00, 0x5b, 0x01],
   [0x00, 0x80, 0xc1, 0x00, 0x5b, 0x01, 0x01, 0x00, 0xc1, 0x00, 0x5b, 0x01],
   [0x04, 0x00, 0x90, 0x03, 0x3b, 0xde, 0xda, 0x7a, 0x42, 0x79, 0xb0, 0x5b],
   [0x90, 0x03, 0xda, 0x40, 0x82, 0xeb, 0x08, 0x61, 0x4c, 0x5b, 0xc1, 0x01],
   [0x01, 0x5b, 0x01, 0x02, 0x00, 0x90, 0x03, 0xc8, 0x66, 0x1f, 0x54, 0xf6],
   [0xf8, 0x39, 0x5b, 0xc1, 0x01, 0x0b, 0x5b, 0x01, 0x20, 0x00, 0x90, 0x03],
   [0xf5, 0x0b, 0xda, 0x32, 0x8d, 0xd8, 0x0b, 0x5b, 0x90, 0x03, 0xd0, 0x33],
   [0xc6, 0x98, 0x08, 0x4d, 0x6b, 0x5b, 0xc1, 0x01, 0x00, 0xdb, 0x01, 0x01],
   [0x00, 0x90, 0x03, 0xf2, 0x70, 0x9a, 0xcc, 0x7a, 0xab, 0x98, 0xdb, 0x90]] @
  [[0x03, 0x3b, 0x02, 0x28, 0x96, 0x41, 0x93, 0xe3, 0xdb, 0xc1, 0x7b, 0x00],
   [0x40, 0xc1, 0x7b, 0x01, 0x00, 0x80, 0xc1, 0x7b, 0x01, 0x02, 0x00, 0x90],
   [0x03, 0xc1, 0x08, 0xe4, 0x0a, 0x02, 0x38, 0x00, 0x3b, 0x90, 0x03, 0xd4],
   [0x21, 0x6c, 0x4b, 0x82, 0x93, 0x36, 0x3b, 0x90, 0x03, 0x1a, 0xd7, 0x8a],
   [0x67, 0xfa, 0x63, 0x39, 0xbb, 0xc1, 0x00, 0x7b, 0x01, 0x00, 0x80, 0x90],
   [0x03, 0x3b, 0xcb, 0x4a, 0x1f, 0x65, 0xc3, 0xcd, 0x7b, 0x90, 0x03, 0xef],
   [0x9a, 0x81, 0x4a, 0x15, 0xca, 0x96, 0xfb, 0xc1, 0x47, 0x48, 0xc1, 0x47],
   [0x50, 0xc1, 0x47, 0x60, 0x90, 0x03, 0x22, 0x5a, 0xdb, 0x47, 0x1f, 0xc4],
   [0x28, 0x87, 0xc1, 0x67, 0x00, 0x40, 0x90, 0x03, 0xdd, 0x6c, 0xf7, 0xde],
   [0xe3, 0xe3, 0x44, 0x27, 0xc1, 0x00, 0x67, 0x01, 0x00, 0x80, 0x90, 0x03],
   [0xf2, 0x1c, 0x08, 0xb8, 0xf9, 0x49, 0xa2, 0x67, 0xc1, 0x01, 0x01, 0xe7],
   [0x01, 0x02, 0x00, 0xc1, 0x01, 0x05, 0xe7, 0x01, 0x08, 0x00, 0x90, 0x03],
   [0xc2, 0xcf, 0xb6, 0x14, 0x29, 0x2b, 0x45, 0xe7, 0x90, 0x03, 0xd3, 0x12],
   [0x79, 0x56, 0x95, 0x79, 0x9d, 0xe7, 0x90, 0x03, 0xe1, 0x5f, 0x48, 0x4f],
   [0xa3, 0x85, 0x67, 0xe7, 0xc1, 0x57, 0x60, 0xc1, 0x57, 0x00, 0x40, 0x90],
   [0x03, 0xca, 0x11, 0xad, 0xe1, 0xbd, 0x84, 0xf1, 0x17, 0xc1, 0x00, 0x57],
   [0x01, 0x01, 0x00, 0x90, 0x03, 0x38, 0x95, 0x34, 0x20, 0xca, 0x0e, 0x08],
   [0x57, 0xc1, 0x01, 0x03, 0x57, 0x01, 0x04, 0x00, 0x90, 0x03, 0xc6, 0xec],
   [0x91, 0xb2, 0xd8, 0x75, 0xfb, 0x57, 0x90, 0x03, 0xd4, 0xb7, 0x12, 0x6e],
   [0xdc, 0x8a, 0x57, 0x57, 0xc1, 0x77, 0x00, 0x40, 0xc1, 0x77, 0x01, 0x00],
   [0x80, 0x90, 0x03, 0xe5, 0xb3, 0xf1, 0x3d, 0x91, 0x09, 0x09, 0x37, 0x90],
   [0x03, 0x1a, 0x30, 0x14, 0x86, 0x6f, 0xdb, 0x9f, 0xb7, 0xc1, 0x00, 0x77],
   [0x01, 0x00, 0x80, 0x90, 0x03, 0xc5, 0xce, 0x81, 0x5f, 0x51, 0x3c, 0xec],
   [0x77, 0x90, 0x03, 0x24, 0x37, 0xc6, 0x9b, 0xb3, 0xce, 0x4d, 0xf7, 0xc1],
   [0x4f, 0x50, 0xc1, 0x4f, 0x60, 0xc1, 0x4f, 0x00, 0x40, 0xc1, 0x4f, 0x01],
   [0x00, 0x80, 0x90, 0x03, 0x23, 0xd1, 0xc8, 0xe8, 0xf6, 0xce, 0xc2, 0x0f],
   [0xc1, 0x01, 0x01, 0x8f, 0x01, 0x02, 0x00, 0x90, 0x03, 0xe2, 0x43, 0x98],
   [0xe4, 0xf2, 0x1e, 0x75, 0x8f, 0x90, 0x03, 0xda, 0xe5, 0x7d, 0xc6, 0x73],
   [0xa9, 0x03, 0x8f, 0xc1, 0x00, 0x4f, 0x01, 0x00, 0x80, 0x90, 0x03, 0x07],
   [0x92, 0x6c, 0xb9, 0xb2, 0x6a, 0x9f, 0x4f, 0x90, 0x03, 0x36, 0x9a, 0x68]] @
  [[0x1e, 0x28, 0xf3, 0xd0, 0xcf, 0x90, 0x03, 0xda, 0xd1, 0x10, 0x78, 0xff],
   [0x7b, 0x08, 0x6f, 0xc1, 0x5f, 0x60, 0xc1, 0x5f, 0x00, 0x40, 0xc1, 0x5f],
   [0x01, 0x00, 0x80, 0x90, 0x03, 0x3c, 0x99, 0x2a, 0x05, 0xc1, 0x1a, 0x8e],
   [0x1f, 0x90, 0x03, 0xc9, 0xdb, 0x68, 0x08, 0x3d, 0x87, 0x23, 0x9f, 0xc1],
   [0x00, 0x5f, 0x01, 0x00, 0x80, 0xc1, 0x01, 0x01, 0x5f, 0x01, 0x02, 0x00],
   [0x90, 0x03, 0xf8, 0xf2, 0x35, 0x91, 0xc8, 0x67, 0x89, 0x5f, 0x90, 0x03],
   [0x0e, 0x40, 0x10, 0x64, 0x2b, 0x35, 0xeb, 0x5f, 0xc1, 0x01, 0x06, 0xdf],
   [0x01, 0x10, 0x00, 0x90, 0x03, 0x31, 0x9d, 0xb5, 0x75, 0x22, 0xcc, 0xe6],
   [0xdf, 0x90, 0x03, 0x09, 0x9d, 0x90, 0x3f, 0x79, 0x17, 0xb6, 0xdf, 0xc1],
   [0x7f, 0x00, 0x40, 0x90, 0x03, 0x3a, 0xb2, 0x48, 0x79, 0x1e, 0x58, 0x35],
   [0xbf, 0x90, 0x03, 0xd0, 0x15, 0x7a, 0x31, 0xfb, 0xb2, 0x36, 0xff, 0x90],
   [0xa0, 0x03, 0xc0, 0x20, 0x00, 0x20, 0x00, 0x11, 0x18, 0xb1, 0x90, 0xc1],
   [0x40, 0x41, 0xc1, 0x40, 0x42, 0xc1, 0x40, 0x44, 0xc1, 0x40, 0x48, 0xc1],
   [0x40, 0x50, 0xc1, 0x40, 0x60, 0xc1, 0x40, 0x01, 0x00, 0x80, 0x90, 0x03],
   [0x26, 0x66, 0x68, 0x60, 0x95, 0x14, 0x16, 0x00, 0xc1, 0x01, 0x01, 0x80],
   [0x01, 0x02, 0x00, 0x90, 0x03, 0x0d, 0xab, 0xd3, 0x11, 0x96, 0x72, 0xa1],
   [0x80, 0x90, 0x03, 0xe3, 0xed, 0xad, 0x22, 0xb2, 0xa3, 0xb7, 0x80, 0x90],
   [0x03, 0xd2, 0xa7, 0x56, 0x20, 0xa1, 0xb5, 0xd1, 0x60, 0xc1, 0x50, 0x60],
   [0xc1, 0x01, 0x00, 0xd0, 0x01, 0x01, 0x00, 0x90, 0x03, 0x15, 0xa2, 0x91],
   [0x0c, 0xc8, 0x62, 0xe2, 0xd0, 0x90, 0x03, 0xf3, 0x96, 0xc6, 0x78, 0xd8],
   [0xa8, 0x91, 0xd0, 0xc1, 0x70, 0x00, 0x40, 0xc1, 0x01, 0x03, 0xb0, 0x01],
   [0x04, 0x00, 0x90, 0x03, 0xe9, 0x8a, 0xd6, 0x8e, 0x9e, 0x10, 0x0b, 0xb0],
   [0x90, 0x03, 0x01, 0x13, 0xf2, 0xc7, 0xf6, 0x9d, 0x0f, 0xb0, 0x90, 0x03],
   [0xcf, 0xb6, 0x63, 0x6f, 0xac, 0x86, 0xe2, 0xf0, 0xc1, 0x48, 0x50, 0x90],
   [0x03, 0xc5, 0x52, 0xe7, 0x4f, 0x77, 0xf2, 0xf1, 0x68, 0xc1, 0x58, 0x60],
   [0xc1, 0x00, 0x58, 0x01, 0x01, 0x00, 0x90, 0x03, 0xc3, 0x1e, 0x33, 0xf9],
   [0xbf, 0x87, 0x04, 0x58, 0x90, 0x03, 0x34, 0x47, 0x09, 0xea, 0x91, 0xd9],
   [0x19, 0x58, 0xc1, 0x78, 0x00, 0x40, 0x90, 0x03, 0xc7, 0x5a, 0x6b, 0xcd],
   [0x2e, 0x07, 0xed, 0x38, 0x90, 0x03, 0x2a, 0x52, 0x97, 0x59, 0xb5, 0x8c],
   [0x3f, 0x78, 0xc1, 0x44, 0x48, 0xc1, 0x44, 0x50, 0xc1, 0x44, 0x60, 0x90]] @
  [[0x03, 0xe0, 0x60, 0x28, 0xae, 0xd2, 0x3d, 0x95, 0x44, 0x90, 0x03, 0x16],
   [0x37, 0xba, 0x4d, 0xd6, 0x42, 0xac, 0xa4, 0xc1, 0x54, 0x60, 0xc1, 0x54],
   [0x00, 0x40, 0x90, 0x03, 0x1a, 0xba, 0x9c, 0x44, 0xfa, 0xc7, 0xa5, 0x14],
   [0x90, 0x03, 0xc0, 0x86, 0x30, 0x82, 0x7e, 0x5c, 0x82, 0xd4, 0xc1, 0x01],
   [0x01, 0xb4, 0x01, 0x02, 0x00, 0x90, 0x03, 0x34, 0x8d, 0x58, 0x69, 0xcc],
   [0xc7, 0xa9, 0xb4, 0x90, 0x03, 0xe7, 0x81, 0xcf, 0xe6, 0xc5, 0x64, 0x4b],
   [0xb4, 0xc1, 0x4c, 0x50, 0xc1, 0x4c, 0x60, 0x90, 0x03, 0x20, 0xa3, 0xa9],
   [0x67, 0x10, 0x82, 0xc1, 0x8c, 0xc1, 0x6c, 0x00, 0x40, 0x90, 0x03, 0xdb],
   [0xfd, 0x60, 0x73, 0xea, 0x69, 0x92, 0x2c, 0xca, 0x96, 0xfb, 0xc1, 0x47],
   [0x48, 0xc1, 0x47, 0x50, 0xc1, 0x47, 0x60, 0xc1, 0x47, 0x00, 0x40, 0xc1],
   [0x47, 0x01, 0x00, 0x80, 0x90, 0x03, 0x10, 0x8d, 0x39, 0xd1, 0x81, 0x3c],
   [0xcd, 0x07, 0x90, 0x03, 0xc4, 0x3f, 0xc3, 0x97, 0x82, 0xcb, 0x95, 0x87],
   [0x90, 0x03, 0x01, 0x7b, 0xfd, 0x6c, 0x46, 0x13, 0xeb, 0xc7, 0xc1, 0x67],
   [0x00, 0x40, 0xc1, 0x67, 0x01, 0x00, 0x80, 0x90, 0x03, 0xff, 0x36, 0xa7],
   [0x5f, 0xcb, 0xea, 0x56, 0x27, 0x90, 0x03, 0x2a, 0xbc, 0x2e, 0xd8, 0xe2],
   [0x60, 0x6e, 0xa7, 0xc1, 0x00, 0x67, 0x01, 0x00, 0x80, 0x90, 0x03, 0xf2],
   [0x1c, 0x08, 0xb8, 0xf9, 0x49, 0xa2, 0x67, 0xc1, 0x01, 0x01, 0xe7, 0x01],
   [0x02, 0x00, 0xc1, 0x01, 0x05, 0xe7, 0x01, 0x08, 0x00, 0x90, 0x03, 0xc2],
   [0xcf, 0xb6, 0x14, 0x29, 0x2b, 0x45, 0xe7, 0x90, 0x03, 0xd3, 0x12, 0x79],
   [0x56, 0x95, 0x79, 0x9d, 0xe7, 0x90, 0x03, 0x28, 0xe4, 0x89, 0xb4, 0x8a],
   [0x3f, 0x03, 0xe7, 0xc1, 0x57, 0x00, 0x40, 0xc1, 0x57, 0x01, 0x00, 0x80],
   [0x90, 0x03, 0x35, 0xf5, 0x44, 0x87, 0x6b, 0x52, 0x51, 0x17, 0x90, 0x03],
   [0xca, 0xec, 0xd9, 0x98, 0x7d, 0xe1, 0xdb, 0x97, 0x90, 0x03, 0x38, 0x95],
   [0x34, 0x20, 0xca, 0x0e, 0x08, 0x57, 0xc1, 0x4f, 0x50, 0xc1, 0x4f, 0x60],
   [0xc1, 0x4f, 0x00, 0x40, 0x90, 0x03, 0xe2, 0x43, 0x98, 0xe4, 0xf2, 0x1e],
   [0x75, 0x8f, 0x90, 0x03, 0x3d, 0x03, 0xe0, 0xe2, 0xc9, 0x51, 0x7c, 0x4f],
   [0xc1, 0x00, 0x6f, 0x01, 0x00, 0x80, 0x90, 0x03, 0x3a, 0xd9, 0x78, 0x19],
   [0x2e, 0x4b, 0x05, 0x6f, 0x90, 0x03, 0xe0, 0x79, 0xf1, 0x9b, 0xc2, 0xa2],
   [0x10, 0xef, 0xc1, 0x5f, 0x60, 0xc1, 0x5f, 0x00, 0x40, 0xc1, 0x5f, 0x01],
   [0x00, 0x80, 0xc1, 0x5f, 0x01, 0x01, 0x00, 0x90, 0x03, 0x3c, 0x99, 0x2a]] @
  [[0x05, 0xc1, 0x1a, 0x8e, 0x1f, 0x90, 0x03, 0x2e, 0xa2, 0x27, 0xba, 0xcb],
   [0xe3, 0x27, 0x1f, 0x05, 0x02, 0x85, 0xc1, 0x00, 0x5f, 0x01, 0x00, 0x80],
   [0x90, 0x03, 0xf8, 0xf2, 0x35, 0x91, 0xc8, 0x67, 0x89, 0x5f, 0xc1, 0x01],
   [0x06, 0xdf, 0x01, 0x10, 0x00, 0x90, 0x03, 0x31, 0x9d, 0xb5, 0x75, 0x22],
   [0xcc, 0xe6, 0xdf, 0x90, 0x03, 0x09, 0x9d, 0x90, 0x3f, 0x79, 0x17, 0xb6],
   [0xdf, 0x90, 0x03, 0xd0, 0x15, 0x7a, 0x31, 0xfb, 0xb2, 0x36, 0xff, 0x90],
   [0xa0, 0x03, 0xc0, 0x00, 0x00, 0x00, 0x00, 0x00, 0x10, 0x01, 0x90, 0xc1],
   [0x40, 0x41, 0xc1, 0x40, 0x42, 0xc1, 0x40, 0x44, 0xc1, 0x40, 0x48, 0xc1],
   [0x40, 0x50, 0xc1, 0x40, 0x60, 0xc1, 0x40, 0x00, 0x40, 0xc1, 0x40, 0x01],
   [0x00, 0x80, 0x90, 0x03, 0x17, 0xa7, 0x92, 0xad, 0xa6, 0xb5, 0x3d, 0x00],
   [0xc1, 0x01, 0x00, 0x80, 0x01, 0x01, 0x00, 0x90, 0x03, 0xfd, 0x64, 0xc0],
   [0xe8, 0x78, 0xa3, 0xf8, 0x80, 0xc1, 0x01, 0x01, 0x80, 0x01, 0x02, 0x00],
   [0x90, 0x03, 0x0d, 0xab, 0xd3, 0x11, 0x96, 0x72, 0xa1, 0x80, 0x90, 0x03],
   [0xe3, 0xed, 0xad, 0x22, 0xb2, 0xa3, 0xb7, 0x80, 0x90, 0x03, 0x31, 0x09],
   [0x21, 0x36, 0xae, 0x5a, 0x70, 0x40, 0x90, 0x03, 0xd2, 0xa7, 0x56, 0x20],
   [0xa1, 0xb5, 0xd1, 0x60, 0xc1, 0x50, 0x60, 0xc1, 0x50, 0x00, 0x40, 0xc1],
   [0x50, 0x01, 0x00, 0x80, 0x90, 0x03, 0xe1, 0x39, 0xfd, 0x48, 0x3d, 0x10],
   [0x1a, 0x10, 0x90, 0x03, 0xfe, 0x7c, 0xbf, 0xe8, 0x65, 0xf2, 0xd0, 0x90],
   [0xc1, 0x01, 0x00, 0xd0, 0x01, 0x01, 0x00, 0x90, 0x03, 0x15, 0xa2, 0x91],
   [0x0c, 0xc8, 0x62, 0xe2, 0xd0, 0xc1, 0x01, 0x01, 0xd0, 0x01, 0x04, 0x00],
   [0x90, 0x03, 0xf3, 0x96, 0xc6, 0x78, 0xd8, 0xa8, 0x91, 0xd0, 0x90, 0x03],
   [0x07, 0x44, 0xdf, 0xea, 0xaf, 0xbc, 0xfd, 0xd0, 0xc1, 0x70, 0x01, 0x00],
   [0x80, 0x90, 0x03, 0x10, 0xff, 0x95, 0x67, 0x31, 0x33, 0x38, 0x30, 0x90],
   [0x03, 0x01, 0x13, 0xf2, 0xc7, 0xf6, 0x9d, 0x0f, 0xb0, 0xc1, 0x48, 0x50],
   [0xc1, 0x68, 0x00, 0x40, 0x90, 0x03, 0x2b, 0x7b, 0x17, 0x21, 0xcd, 0x83],
   [0xc0, 0x28, 0x90, 0x03, 0xc5, 0x52, 0xe7, 0x4f, 0x77, 0xf2, 0xf1, 0x68],
   [0xc1, 0x58, 0x60, 0xc1, 0x00, 0x58, 0x01, 0x00, 0x80, 0x90, 0x03, 0x0e],
   [0xe5, 0xba, 0xf3, 0x6f, 0x06, 0xcc, 0x58, 0x90, 0x03, 0x0c, 0x75, 0x32],
   [0x8f, 0x6e, 0x69, 0xd3, 0xd8, 0x90, 0x03, 0xc7, 0x5a, 0x6b, 0xcd, 0x2e],
   [0x07, 0xed, 0x38, 0xc1, 0x44, 0x48, 0xc1, 0x44, 0x50, 0xc1, 0x44, 0x60]]"

definition dictionary_rows_34 :: "u8 list list" where
  "dictionary_rows_34 =
  [[0xc1, 0x00, 0x44, 0x01, 0x01, 0x00, 0x90, 0x03, 0xf6, 0x8a, 0x2a, 0x4e],
   [0xa9, 0x44, 0xfe, 0x44, 0x05, 0x02, 0x8b, 0xc1, 0x64, 0x00, 0x40, 0x90],
   [0x03, 0x16, 0x37, 0xba, 0x4d, 0xd6, 0x42, 0xac, 0xa4, 0x90, 0x03, 0x0f],
   [0x7b, 0xaa, 0xd1, 0xe7, 0x16, 0x71, 0x64, 0xc1, 0x54, 0x60, 0xc1, 0x54],
   [0x01, 0x01, 0x00, 0xc1, 0x54, 0x01, 0x02, 0x00, 0x90, 0x03, 0xc3, 0xf8],
   [0x1a, 0x4f, 0x7e, 0x8f, 0x00, 0x14, 0x90, 0x03, 0x19, 0xc0, 0x0d, 0x25],
   [0x94, 0x91, 0x42, 0x14, 0x90, 0x03, 0x1a, 0xba, 0x9c, 0x44, 0xfa, 0xc7],
   [0xa5, 0x14, 0x90, 0x03, 0x34, 0x8d, 0x58, 0x69, 0xcc, 0xc7, 0xa9, 0xb4],
   [0xc1, 0x4c, 0x50, 0xc1, 0x4c, 0x60, 0x90, 0x03, 0xff, 0xe2, 0x7a, 0x3e],
   [0xf3, 0xe3, 0x51, 0x8c, 0xc1, 0x6c, 0x00, 0x40, 0x90, 0x03, 0xcf, 0x86],
   [0x7b, 0xe2, 0xe7, 0xdc, 0xee, 0x2c, 0xc1, 0x00, 0x6c, 0x01, 0x00, 0x80],
   [0xc1, 0x01, 0x01, 0x6c, 0x01, 0x02, 0x00, 0x90, 0x03, 0x38, 0x5f, 0x50],
   [0x2d, 0xdc, 0x47, 0x35, 0x6c, 0x90, 0x03, 0x1a, 0x2c, 0xcd, 0xfa, 0x52],
   [0xf0, 0x9f, 0x6c, 0xc1, 0x01, 0x00, 0xec, 0x01, 0x01, 0x00, 0x90, 0x03],
   [0x09, 0x0c, 0x54, 0xf5, 0x93, 0x2b, 0x54, 0xec, 0x90, 0x03, 0x33, 0x82],
   [0xf2, 0x46, 0xa3, 0x80, 0x97, 0xec, 0xc1, 0x5c, 0x60, 0xc1, 0x5c, 0x01],
   [0x00, 0x80, 0x90, 0x03, 0xc4, 0xf7, 0x19, 0x5e, 0x59, 0xce, 0x32, 0x1c],
   [0x90, 0x03, 0xd4, 0x97, 0x43, 0xdb, 0xc7, 0x57, 0xc4, 0x9c, 0xc1, 0x7c],
   [0x00, 0x40, 0xc1, 0x7c, 0x01, 0x00, 0x80, 0x90, 0x03, 0x04, 0x6d, 0xa1],
   [0xff, 0x50, 0x3d, 0x5b, 0x3c, 0xc1, 0x01, 0x06, 0xbc, 0x01, 0x08, 0x00],
   [0x90, 0x03, 0xfe, 0x10, 0xf7, 0x64, 0xc0, 0x31, 0x96, 0xbc, 0x90, 0x03],
   [0x00, 0xa7, 0xf4, 0x24, 0xb0, 0xdc, 0x1e, 0xbc, 0x90, 0x03, 0x0b, 0x71],
   [0xe8, 0x95, 0x19, 0x4e, 0xbb, 0xfc, 0xc1, 0x42, 0x44, 0xc1, 0x42, 0x48],
   [0xc1, 0x42, 0x50, 0xc1, 0x42, 0x60, 0xc1, 0x42, 0x00, 0x40, 0x90, 0x03],
   [0xdf, 0x74, 0xb4, 0x20, 0x20, 0xd5, 0x4a, 0x02, 0x90, 0x03, 0x35, 0x6b],
   [0x40, 0x2e, 0xb5, 0xd4, 0x7b, 0x42, 0x90, 0x03, 0xfc, 0x75, 0x67, 0x33],
   [0x15, 0x0b, 0x50, 0x22, 0xc1, 0x52, 0x60, 0x05, 0x0e, 0x74, 0xc1, 0x72],
   [0x00, 0x40, 0x90, 0x03, 0x21, 0xfe, 0x91, 0x5b, 0xb3, 0x9a, 0xe1, 0x32],
   [0x90, 0x03, 0xea, 0x94, 0x90, 0x40, 0xa1, 0x2d, 0x22, 0xf2, 0xc1, 0x4a],
   [0x50, 0xc1, 0x4a, 0x60, 0xc1, 0x4a, 0x00, 0x40, 0xc1, 0x4a, 0x01, 0x00]] @
  [[0x80, 0x90, 0x03, 0xd4, 0x71, 0x5d, 0xe4, 0xe0, 0xd2, 0xeb, 0x0a, 0x90],
   [0x03, 0x12, 0x4d, 0x59, 0x32, 0x9e, 0xe7, 0xf8, 0x8a, 0x90, 0x03, 0xe9],
   [0x2e, 0x5c, 0xe7, 0x17, 0xef, 0x73, 0x4a, 0x90, 0x03, 0xda, 0x49, 0x76],
   [0x62, 0xea, 0xa2, 0x4a, 0x2a, 0xc1, 0x5a, 0x60, 0xc1, 0x5a, 0x00, 0x79],
   [0xa0, 0x28, 0x61, 0x75, 0x78, 0x66, 0x75, 0x6e, 0x63, 0x73, 0x40, 0x2e],
   [0x69, 0x73, 0x64, 0x75, 0x6d, 0x6d, 0x79, 0x72, 0x6f, 0x75, 0x74, 0x69],
   [0x6e, 0x65, 0x41, 0x84, 0x95, 0xa6, 0xbe, 0x00, 0x00, 0x00, 0x4f, 0x00],
   [0x00, 0x00, 0x06, 0x00, 0x00, 0x00, 0x1f, 0x00, 0x00, 0x00, 0x16, 0xa2],
   [0x2f, 0x74, 0x79, 0x70, 0x69, 0x6e, 0x67, 0x2e, 0x43, 0x6c, 0x61, 0x73],
   [0x73, 0x56, 0x61, 0x72, 0xa0, 0x90, 0x94, 0x09, 0x38, 0x63, 0x6f, 0x6e],
   [0x66, 0x69, 0x67, 0x65, 0x72, 0x61, 0x74, 0x6f, 0x72, 0x2e, 0x73, 0x74],
   [0x72, 0x75, 0x63, 0x74, 0x73, 0x2e, 0x63, 0x6f, 0x6d, 0x6d, 0x6f, 0x6e],
   [0x2e, 0x66, 0x62, 0x74, 0x79, 0x70, 0x65, 0x2e, 0x66, 0x62, 0x74, 0x79],
   [0x70, 0x65, 0x73, 0x2e, 0x74, 0x74, 0x79, 0x70, 0x65, 0x73, 0x2e, 0x46],
   [0x42, 0x54, 0x79, 0x70, 0x65, 0x40, 0x84, 0x95, 0xa6, 0xbe, 0x00, 0x00],
   [0x00, 0x80, 0x00, 0x00, 0x00, 0x27, 0x00, 0x00, 0x00, 0x82, 0x00, 0x00],
   [0x00, 0x82, 0x90, 0xa0, 0x40, 0x90, 0xd1, 0xd1, 0xa0, 0x02, 0x04, 0x39],
   [0x84, 0x44, 0xa0, 0xa0, 0x40, 0x40, 0xa0, 0x40, 0x40, 0x02, 0x0d, 0xcc],
   [0xb9, 0x62, 0xa0, 0xa0, 0x40, 0x40, 0xa0, 0x40, 0x40, 0xd1, 0xa0, 0x02],
   [0x0f, 0x47, 0x8b, 0x8c, 0xa0, 0xa0, 0x40, 0x40, 0xa0, 0x40, 0x40, 0x02],
   [0x13, 0xa2, 0xa5, 0xee, 0xa0, 0xa0, 0x40, 0x40, 0xa0, 0x40, 0x40, 0x40],
   [0x42, 0x43, 0x02, 0x2b, 0x84, 0x0c, 0x2a, 0xa0, 0xa0, 0x40, 0x40, 0xa0],
   [0x40, 0x40, 0xd1, 0xd1, 0xa0, 0x02, 0x2c, 0x3f, 0x7b, 0x3f, 0xa0, 0xa0],
   [0x40, 0x40, 0xa0, 0x40, 0x40, 0x02, 0x31, 0x47, 0x7e, 0x88, 0xa0, 0xa0],
   [0x40, 0x40, 0xa0, 0x40, 0x40, 0x40, 0x42, 0x02, 0x3a, 0x61, 0xbe, 0xce],
   [0xa0, 0xa0, 0x40, 0x40, 0xa0, 0x40, 0x40, 0xa0, 0x02, 0x3e, 0xe3, 0xc9],
   [0xc0, 0xa0, 0xa0, 0x40, 0x40, 0xa0, 0x40, 0x40, 0x43, 0x44, 0x84, 0x95],
   [0xa6, 0xbe, 0x00, 0x00, 0x00, 0x01, 0x00, 0x00, 0x00, 0x00, 0x00, 0x00],
   [0x00, 0x00, 0x00, 0x00, 0x00, 0x00, 0x40, 0x84, 0x95, 0xa6, 0xbe, 0x00],
   [0x00, 0x01, 0xb7, 0x00, 0x00, 0x00, 0x7b, 0x00, 0x00, 0x01, 0x7d, 0x00]] @
  [[0x00, 0x01, 0x6b, 0xa0, 0xa0, 0x27, 0x72, 0x75, 0x6e, 0x74, 0x69, 0x6d],
   [0x65, 0xa0, 0x23, 0x6c, 0x69, 0x62, 0xa0, 0x27, 0x70, 0x79, 0x74, 0x68],
   [0x6f, 0x6e, 0x33, 0xa0, 0x22, 0x31, 0x30, 0xa0, 0x27, 0x61, 0x73, 0x79],
   [0x6e, 0x63, 0x69, 0x6f, 0xa0, 0x28, 0x73, 0x73, 0x6c, 0x70, 0x72, 0x6f],
   [0x74, 0x6f, 0xa0, 0x39, 0x5f, 0x63, 0x72, 0x65, 0x61, 0x74, 0x65, 0x5f],
   [0x74, 0x72, 0x61, 0x6e, 0x73, 0x70, 0x6f, 0x72, 0x74, 0x5f, 0x63, 0x6f],
   [0x6e, 0x74, 0x65, 0x78, 0x74, 0x40, 0xa0, 0xa0, 0x04, 0x0f, 0xa0, 0x04],
   [0x0e, 0xa0, 0x04, 0x0d, 0xa0, 0x04, 0x0c, 0xa0, 0x04, 0x0b, 0xa0, 0x04],
   [0x0a, 0xa0, 0x2b, 0x63, 0x6f, 0x6c, 0x6c, 0x65, 0x63, 0x74, 0x69, 0x6f],
   [0x6e, 0x73, 0x40, 0xa0, 0xa0, 0x04, 0x18, 0xa0, 0x04, 0x17, 0xa0, 0x04],
   [0x16, 0xa0, 0x04, 0x15, 0xa0, 0x04, 0x14, 0xa0, 0x04, 0x13, 0xa0, 0x28],
   [0x77, 0x61, 0x72, 0x6e, 0x69, 0x6e, 0x67, 0x73, 0x40, 0xa0, 0xa0, 0x04],
   [0x21, 0xa0, 0x04, 0x20, 0xa0, 0x04, 0x1f, 0xa0, 0x04, 0x1e, 0xa0, 0x04],
   [0x1d, 0xa0, 0x04, 0x1c, 0xa0, 0x23, 0x73, 0x73, 0x6c, 0x40, 0xa0, 0xa0],
   [0x04, 0x2a, 0xa0, 0x04, 0x29, 0xa0, 0x04, 0x28, 0xa0, 0x04, 0x27, 0xa0],
   [0x04, 0x26, 0xa0, 0x04, 0x25, 0xa0, 0x23, 0x73, 0x73, 0x6c, 0x40, 0xa0],
   [0xa0, 0x04, 0x33, 0xa0, 0x04, 0x32, 0xa0, 0x04, 0x31, 0xa0, 0x04, 0x30],
   [0xa0, 0x04, 0x2f, 0xa0, 0x04, 0x2e, 0xa0, 0x29, 0x63, 0x6f, 0x6e, 0x73],
   [0x74, 0x61, 0x6e, 0x74, 0x73, 0x40, 0xa0, 0xa0, 0x04, 0x3c, 0xa0, 0x04],
   [0x3b, 0xa0, 0x04, 0x3a, 0xa0, 0x04, 0x39, 0xa0, 0x04, 0x38, 0xa0, 0x04],
   [0x37, 0xa0, 0x29, 0x70, 0x72, 0x6f, 0x74, 0x6f, 0x63, 0x6f, 0x6c, 0x73],
   [0x40, 0xa0, 0xa0, 0x04, 0x45, 0xa0, 0x04, 0x44, 0xa0, 0x04, 0x43, 0xa0],
   [0x04, 0x42, 0xa0, 0x04, 0x41, 0xa0, 0x04, 0x40, 0xa0, 0x2a, 0x74, 0x72],
   [0x61, 0x6e, 0x73, 0x70, 0x6f, 0x72, 0x74, 0x73, 0x40, 0xa0, 0xa0, 0x04],
   [0x4e, 0xa0, 0x04, 0x4d, 0xa0, 0x04, 0x4c, 0xa0, 0x04, 0x4b, 0xa0, 0x04],
   [0x4a, 0xa0, 0x04, 0x49, 0xa0, 0x26, 0x6c, 0x6f, 0x67, 0x67, 0x65, 0x72],
   [0x40, 0xa0, 0xa0, 0x04, 0x57, 0xa0, 0x04, 0x56, 0xa0, 0x04, 0x55, 0xa0],
   [0x04, 0x54, 0xa0, 0x04, 0x53, 0xa0, 0x04, 0x52, 0xa0, 0x2a, 0x5f, 0x55],
   [0x4e, 0x57, 0x52, 0x41, 0x50, 0x50, 0x45, 0x44, 0x40, 0xa0, 0xa0, 0x04],
   [0x60, 0xa0, 0x04, 0x5f, 0xa0, 0x04, 0x5e, 0xa0, 0x04, 0x5d, 0xa0, 0x04]] @
  [[0x5c, 0xa0, 0x04, 0x5b, 0xa0, 0x2d, 0x5f, 0x44, 0x4f, 0x5f, 0x48, 0x41],
   [0x4e, 0x44, 0x53, 0x48, 0x41, 0x4b, 0x45, 0x40, 0xa0, 0xa0, 0x04, 0x69],
   [0xa0, 0x04, 0x68, 0xa0, 0x04, 0x67, 0xa0, 0x04, 0x66, 0xa0, 0x04, 0x65],
   [0xa0, 0x04, 0x64, 0xa0, 0x28, 0x5f, 0x57, 0x52, 0x41, 0x50, 0x50, 0x45],
   [0x44, 0x40, 0xa0, 0xa0, 0x04, 0x72, 0xa0, 0x04, 0x71, 0xa0, 0x04, 0x70],
   [0xa0, 0x04, 0x6f, 0xa0, 0x04, 0x6e, 0xa0, 0x04, 0x6d, 0xa0, 0x29, 0x5f],
   [0x53, 0x48, 0x55, 0x54, 0x44, 0x4f, 0x57, 0x4e, 0x40, 0x40, 0x84, 0x95],
   [0xa6, 0xbe, 0x00, 0x00, 0x00, 0x01, 0x00, 0x00, 0x00, 0x00, 0x00, 0x00],
   [0x00, 0x00, 0x00, 0x00, 0x00, 0x00, 0x40, 0x84, 0x95, 0xa6, 0xbe, 0x00],
   [0x00, 0x00, 0x05, 0x00, 0x00, 0x00, 0x02, 0x00, 0x00, 0x00, 0x06, 0x00],
   [0x00, 0x00, 0x06, 0xa0, 0x40, 0xa0, 0x41, 0x40, 0x84, 0x95, 0xa6, 0xbe],
   [0x00, 0x00, 0x02, 0x6e, 0x00, 0x00, 0x00, 0x77, 0x00, 0x00, 0x01, 0x9e],
   [0x00, 0x00, 0x01, 0x71, 0xb0, 0xa0, 0x24, 0x66, 0x65, 0x65, 0x64, 0xa0],
   [0x27, 0x72, 0x61, 0x6e, 0x6b, 0x69, 0x6e, 0x67, 0xa0, 0x27, 0x63, 0x6f],
   [0x6e, 0x74, 0x65, 0x78, 0x74, 0x40, 0x90, 0xa0, 0xa0, 0xa0, 0x01, 0x04],
   [0x72, 0x44, 0xa0, 0x01, 0x04, 0x79, 0x00, 0x56, 0xc0, 0x08, 0x00, 0x00],
   [0x20, 0x00, 0xa0, 0x04, 0x0d, 0xa0, 0x04, 0x0c, 0xa0, 0x04, 0x0b, 0xa0],
   [0x2f, 0x46, 0x65, 0x65, 0x64, 0x46, 0x6c, 0x6f, 0x77, 0x43, 0x6f, 0x6e],
   [0x74, 0x65, 0x78, 0x74, 0xa0, 0x09, 0x2a, 0x73, 0x68, 0x6f, 0x75, 0x6c],
   [0x64, 0x5f, 0x65, 0x6e, 0x61, 0x62, 0x6c, 0x65, 0x5f, 0x6e, 0x65, 0x74],
   [0x65, 0x67, 0x6f, 0x5f, 0x66, 0x6f, 0x72, 0x5f, 0x70, 0x61, 0x67, 0x69],
   [0x6e, 0x61, 0x74, 0x69, 0x6f, 0x6e, 0x5f, 0x73, 0x6f, 0x75, 0x72, 0x63],
   [0x65, 0x40, 0xa0, 0xa0, 0xa0, 0xa0, 0x01, 0x04, 0x72, 0x73, 0xa0, 0x01],
   [0x04, 0x72, 0x77, 0xb0, 0x2f, 0x24, 0x70, 0x61, 0x72, 0x61, 0x6d, 0x65],
   [0x74, 0x65, 0x72, 0x24, 0x73, 0x65, 0x6c, 0x66, 0x40, 0x40, 0x40, 0xa0],
   [0xa0, 0xa0, 0xa0, 0x01, 0x04, 0x71, 0x45, 0xa0, 0x01, 0x04, 0x71, 0x4d],
   [0x9c, 0x91, 0x28, 0x70, 0x72, 0x6f, 0x70, 0x65, 0x72, 0x74, 0x79, 0x40],
   [0x90, 0xa0, 0xa0, 0xa0, 0x01, 0x04, 0x72, 0x7c, 0xa0, 0x01, 0x04, 0x72],
   [0x00, 0x40, 0x9c, 0x91, 0x24, 0x62, 0x6f, 0x6f, 0x6c, 0x40, 0x40, 0x90],
   [0xa0, 0x04, 0x2c, 0x76, 0x69, 0x65, 0x77, 0x73, 0x2e, 0x61, 0x73, 0x79]] @
  [[0x6e, 0x63, 0x5f, 0x71, 0x75, 0x65, 0x73, 0x74, 0x69, 0x6f, 0x6e, 0x73],
   [0x5f, 0x72, 0x6f, 0x75, 0x74, 0x65, 0x72, 0x40, 0xa0, 0xa0, 0x90, 0xa0],
   [0xa0, 0xa0, 0x01, 0x07, 0x64, 0x54, 0xa0, 0x01, 0x07, 0x64, 0x58, 0x2f],
   [0x24, 0x70, 0x61, 0x72, 0x61, 0x6d, 0x65, 0x74, 0x65, 0x72, 0x24, 0x61],
   [0x72, 0x67, 0x73, 0xa0, 0xa0, 0xa0, 0x01, 0x07, 0x64, 0x59, 0xa0, 0x01],
   [0x07, 0x64, 0x6c, 0x9a, 0xa0, 0xa0, 0xa0, 0xa0, 0x01, 0x07, 0x64, 0x5a],
   [0xa0, 0x01, 0x07, 0x64, 0x6b, 0x9c, 0x90, 0xb0, 0xa0, 0xa0, 0xa0, 0x01],
   [0x07, 0x64, 0x5a, 0xa0, 0x01, 0x07, 0x64, 0x5e, 0x9c, 0x91, 0x05, 0x05],
   [0xe6, 0x2c, 0x62, 0x72, 0x6f, 0x61, 0x64, 0x63, 0x61, 0x73, 0x74, 0x5f],
   [0x69, 0x64, 0x40, 0x40, 0x40, 0xa0, 0xa0, 0x40, 0xa0, 0xa0, 0xa0, 0x01],
   [0x07, 0x66, 0x50, 0xa0, 0x01, 0x07, 0x66, 0x57, 0x9c, 0x91, 0x05, 0x03],
   [0xce, 0x40, 0xa0, 0xa0, 0xa0, 0xa0, 0x01, 0x07, 0x68, 0x4c, 0xa0, 0x01],
   [0x07, 0x68, 0x00, 0x4e, 0x95, 0xa0, 0xa0, 0xa0, 0x01, 0x07, 0x68, 0x4c],
   [0xa0, 0x01, 0x07, 0x68, 0x00, 0x4e, 0x92, 0xa0, 0xa0, 0xa0, 0xa0, 0x01],
   [0x07, 0x68, 0x4c, 0xa0, 0x01, 0x07, 0x68, 0x5c, 0x9c, 0x90, 0xb0, 0xa0],
   [0xa0, 0xa0, 0x01, 0x07, 0x68, 0x4c, 0xa0, 0x01, 0x07, 0x68, 0x50, 0x9c],
   [0x91, 0x05, 0x06, 0x08, 0x2b, 0x61, 0x73, 0x73, 0x65, 0x72, 0x74, 0x45],
   [0x71, 0x75, 0x61, 0x6c, 0x40, 0xa0, 0xa0, 0x40, 0xa0, 0xa0, 0xa0, 0x01],
   [0x07, 0x68, 0x5d, 0xa0, 0x01, 0x07, 0x68, 0x6c, 0x92, 0xa0, 0xa0, 0xa0],
   [0xa0, 0x01, 0x07, 0x68, 0x5d, 0xa0, 0x01, 0x07, 0x68, 0x61, 0x9c, 0x90],
   [0xb0, 0xa0, 0x04, 0x07, 0x9c, 0x91, 0x05, 0x04, 0xce, 0x05, 0x03, 0x35],
   [0x41, 0xa0, 0xa0, 0x40, 0xa0, 0xa0, 0xa0, 0x01, 0x07, 0x68, 0x62, 0xa0],
   [0x01, 0x07, 0x68, 0x6b, 0x94, 0x94, 0xa0, 0x27, 0x6d, 0x65, 0x73, 0x73],
   [0x61, 0x67, 0x65, 0x40, 0x40, 0xa0, 0xa0, 0x40, 0xa0, 0xa0, 0xa0, 0x01],
   [0x07, 0x68, 0x6e, 0xa0, 0x01, 0x07, 0x68, 0x00, 0x4d, 0x94, 0x94, 0xa0],
   [0x3d, 0x54, 0x68, 0x69, 0x73, 0x20, 0x4c, 0x69, 0x76, 0x65, 0x20, 0x69],
   [0x73, 0x6e, 0x27, 0x74, 0x20, 0x61, 0x6e, 0x73, 0x77, 0x65, 0x72, 0x69],
   [0x6e, 0x67, 0x20, 0x51, 0x26, 0x41, 0x40, 0x40, 0x40, 0x41, 0xa0, 0xa0],
   [0x05, 0x01, 0x02, 0x9d, 0xa0, 0x41, 0x40, 0x40, 0x40, 0x84, 0x95, 0xa6],
   [0xbe, 0x00, 0x00, 0x00, 0x26, 0x00, 0x00, 0x00, 0x08, 0x00, 0x00, 0x00]]"

definition dictionary_rows_35 :: "u8 list list" where
  "dictionary_rows_35 =
  [[0x19, 0x00, 0x00, 0x00, 0x16, 0x99, 0xa0, 0x42, 0xa0, 0x94, 0x23, 0x69],
   [0x6e, 0x74, 0xa0, 0x94, 0x39, 0x74, 0x68, 0x72, 0x69, 0x66, 0x74, 0x2e],
   [0x70, 0x79, 0x33, 0x2e, 0x74, 0x79, 0x70, 0x65, 0x73, 0x2e, 0x5f, 0x5f],
   [0x4e, 0x6f, 0x74, 0x53, 0x65, 0x74, 0x40, 0x84, 0x95, 0xa6, 0xbe, 0x00],
   [0x00, 0x00, 0xfe, 0x00, 0x00, 0x00, 0x21, 0x00, 0x00, 0x00, 0x88, 0x00],
   [0x00, 0x00, 0x71, 0x90, 0xa0, 0x40, 0x90, 0xd1, 0xa0, 0x02, 0x0f, 0x47],
   [0x8b, 0x8c, 0xa0, 0xa0, 0x40, 0x40, 0xa0, 0xd1, 0xa0, 0xa0, 0x37, 0x24],
   [0x70, 0x61, 0x72, 0x61, 0x6d, 0x65, 0x74, 0x65, 0x72, 0x24, 0x72, 0x61],
   [0x77, 0x5f, 0x64, 0x61, 0x74, 0x61, 0x5f, 0x73, 0x74, 0x72, 0x40, 0xa0],
   [0x90, 0xa0, 0x94, 0x25, 0x62, 0x79, 0x74, 0x65, 0x73, 0x90, 0xa0, 0x04],
   [0x04, 0x40, 0x40, 0xa0, 0x2f, 0x24, 0x70, 0x61, 0x72, 0x61, 0x6d, 0x65],
   [0x74, 0x65, 0x72, 0x24, 0x73, 0x65, 0x6c, 0x66, 0x40, 0xa0, 0x90, 0xa0],
   [0x94, 0x09, 0x87, 0x69, 0x67, 0x5f, 0x6e, 0x6f, 0x64, 0x65, 0x61, 0x70],
   [0x69, 0x2e, 0x65, 0x64, 0x67, 0x65, 0x73, 0x2e, 0x66, 0x72, 0x6f, 0x6d],
   [0x5f, 0x61, 0x64, 0x73, 0x5f, 0x76, 0x69, 0x64, 0x65, 0x6f, 0x5f, 0x6f],
   [0x77, 0x6e, 0x65, 0x72, 0x5f, 0x64, 0x65, 0x66, 0x69, 0x6e, 0x65, 0x64],
   [0x5f, 0x6f, 0x6e, 0x5f, 0x66, 0x62, 0x5f, 0x76, 0x69, 0x64, 0x65, 0x6f],
   [0x5f, 0x78, 0x5f, 0x6f, 0x6e, 0x5f, 0x66, 0x62, 0x5f, 0x75, 0x73, 0x65],
   [0x72, 0x5f, 0x70, 0x61, 0x74, 0x74, 0x65, 0x72, 0x6e, 0x2e, 0x45, 0x64],
   [0x67, 0x65, 0x53, 0x65, 0x74, 0x46, 0x72, 0x6f, 0x6d, 0x41, 0x64, 0x73],
   [0x56, 0x69, 0x64, 0x65, 0x6f, 0x4f, 0x77, 0x6e, 0x65, 0x72, 0x44, 0x65],
   [0x66, 0x69, 0x6e, 0x65, 0x64, 0x4f, 0x6e, 0x46, 0x62, 0x56, 0x69, 0x64],
   [0x65, 0x6f, 0x58, 0x4f, 0x6e, 0x46, 0x62, 0x55, 0x73, 0x65, 0x72, 0x50],
   [0x61, 0x74, 0x74, 0x65, 0x72, 0x6e, 0x40, 0x40, 0x40, 0x42, 0x40, 0x02],
   [0x2b, 0x84, 0x0c, 0x2a, 0xa0, 0xa0, 0x04, 0x14, 0x40, 0xa0, 0x04, 0x15],
   [0x40, 0xa0, 0x02, 0x3a, 0x61, 0xbe, 0xce, 0xa0, 0xa0, 0x04, 0x18, 0x40],
   [0xa0, 0x04, 0x19, 0x40, 0x42, 0x84, 0x95, 0xa6, 0xbe, 0x00, 0x00, 0x00],
   [0x0f, 0x00, 0x00, 0x00, 0x02, 0x00, 0x00, 0x00, 0x07, 0x00, 0x00, 0x00],
   [0x05, 0x94, 0x2d, 0x42, 0x61, 0x73, 0x65, 0x45, 0x78, 0x63, 0x65, 0x70],
   [0x74, 0x69, 0x6f, 0x6e, 0x84, 0x95, 0xa6, 0xbe, 0x00, 0x00, 0x00, 0x0a]] @
  [[0x00, 0x00, 0x00, 0x05, 0x00, 0x00, 0x00, 0x0c, 0x00, 0x00, 0x00, 0x0c],
   [0x99, 0xa0, 0x42, 0xa0, 0x94, 0x23, 0x69, 0x6e, 0x74, 0x40, 0x84, 0x95],
   [0xa6, 0xbe, 0x00, 0x00, 0x00, 0x01, 0x00, 0x00, 0x00, 0x00, 0x00, 0x00],
   [0x00, 0x00, 0x00, 0x00, 0x00, 0x00, 0x40, 0x84, 0x95, 0xa6, 0xbe, 0x00],
   [0x00, 0x00, 0x01, 0x00, 0x00, 0x00, 0x00, 0x00, 0x00, 0x00, 0x00, 0x00],
   [0x00, 0x00, 0x00, 0x40, 0x84, 0x95, 0xa6, 0xbe, 0x00, 0x00, 0x00, 0x01],
   [0x00, 0x00, 0x00, 0x00, 0x00, 0x00, 0x00, 0x00, 0x00, 0x00, 0x00, 0x00],
   [0x40, 0x84, 0x95, 0xa6, 0xbe, 0x00, 0x00, 0x02, 0x0d, 0x00, 0x00, 0x00],
   [0x4f, 0x00, 0x00, 0x01, 0x2f, 0x00, 0x00, 0x01, 0x00, 0x90, 0xa0, 0x40],
   [0x90, 0xd1, 0xa0, 0x02, 0x0f, 0x47, 0x8b, 0x8c, 0xa0, 0xa0, 0x40, 0x40],
   [0xa0, 0xd1, 0xd1, 0x40, 0xa0, 0x2f, 0x24, 0x70, 0x61, 0x72, 0x61, 0x6d],
   [0x65, 0x74, 0x65, 0x72, 0x24, 0x64, 0x65, 0x73, 0x74, 0x40, 0xa0, 0x90],
   [0xa0, 0x99, 0xa0, 0x94, 0x09, 0x40, 0x69, 0x67, 0x5f, 0x6e, 0x6f, 0x64],
   [0x65, 0x61, 0x70, 0x69, 0x2e, 0x6e, 0x6f, 0x64, 0x65, 0x73, 0x2e, 0x61],
   [0x75, 0x64, 0x69, 0x6f, 0x5f, 0x6c, 0x6f, 0x67, 0x67, 0x69, 0x6e, 0x67],
   [0x5f, 0x6d, 0x65, 0x74, 0x61, 0x64, 0x61, 0x74, 0x61, 0x2e, 0x4e, 0x6f],
   [0x64, 0x65, 0x41, 0x75, 0x64, 0x69, 0x6f, 0x4c, 0x6f, 0x67, 0x67, 0x69],
   [0x6e, 0x67, 0x4d, 0x65, 0x74, 0x61, 0x64, 0x61, 0x74, 0x61, 0xa0, 0x94],
   [0x23, 0x69, 0x6e, 0x74, 0x40, 0x90, 0xa0, 0x99, 0xa0, 0x04, 0x09, 0xa0],
   [0x04, 0x07, 0x40, 0x40, 0x40, 0xd1, 0xa0, 0xa0, 0x09, 0x29, 0x24, 0x70],
   [0x61, 0x72, 0x61, 0x6d, 0x65, 0x74, 0x65, 0x72, 0x24, 0x69, 0x6e, 0x69],
   [0x74, 0x69, 0x61, 0x6c, 0x69, 0x7a, 0x65, 0x5f, 0x61, 0x74, 0x74, 0x72],
   [0x69, 0x62, 0x75, 0x74, 0x65, 0x73, 0x5f, 0x66, 0x6f, 0x72, 0x5f, 0x74],
   [0x65, 0x73, 0x74, 0x40, 0xa0, 0x90, 0xa0, 0x94, 0x24, 0x62, 0x6f, 0x6f],
   [0x6c, 0x90, 0xa0, 0x04, 0x04, 0x40, 0x40, 0x72, 0x6f, 0x74, 0x6f, 0x63],
   [0x6f, 0x6c, 0x2e, 0x54, 0x50, 0x72, 0x6f, 0x74, 0x6f, 0x63, 0x6f, 0x6c],
   [0x42, 0x61, 0x73, 0x65, 0x40, 0x40, 0x40, 0x40, 0x40, 0x40, 0x41, 0x40],
   [0x04, 0x1b, 0x09, 0x3a, 0x66, 0x62, 0x63, 0x6f, 0x64, 0x65, 0x2e, 0x6c],
   [0x6f, 0x67, 0x69, 0x6e, 0x5f, 0x61, 0x73, 0x79, 0x6e, 0x63, 0x69, 0x6f],
   [0x2e, 0x6c, 0x6f, 0x67, 0x69, 0x6e, 0x2e, 0x4c, 0x6f, 0x67, 0x69, 0x6e]] @
  [[0x53, 0x65, 0x72, 0x76, 0x69, 0x63, 0x65, 0x2e, 0x64, 0x65, 0x63, 0x72],
   [0x79, 0x70, 0x74, 0x41, 0x6e, 0x64, 0x4d, 0x41, 0x43, 0x5f, 0x61, 0x72],
   [0x67, 0x73, 0x40, 0x40, 0x90, 0xb0, 0x04, 0x18, 0x04, 0x11, 0x40, 0x40],
   [0x40, 0x40, 0x40, 0x50, 0x90, 0xa0, 0x04, 0x20, 0xa0, 0x04, 0x48, 0xa0],
   [0x04, 0x9f, 0xa0, 0x04, 0x3a, 0xa0, 0x05, 0x01, 0x57, 0xa0, 0x04, 0xe1],
   [0xa0, 0x04, 0x82, 0xa0, 0x04, 0xc8, 0xa0, 0x04, 0xbe, 0xa0, 0x04, 0x5b],
   [0xa0, 0x04, 0x7b, 0xa0, 0x05, 0x01, 0x3a, 0xa0, 0x05, 0x01, 0x07, 0x40],
   [0x84, 0x95, 0xa6, 0xbe, 0x00, 0x00, 0x00, 0x01, 0x00, 0x00, 0x00, 0x00],
   [0x00, 0x00, 0x00, 0x00, 0x00, 0x00, 0x00, 0x00, 0x40, 0x84, 0x95, 0xa6],
   [0xbe, 0x00, 0x00, 0x00, 0x40, 0x00, 0x00, 0x00, 0x09, 0x00, 0x00, 0x00],
   [0x22, 0x00, 0x00, 0x00, 0x1b, 0x99, 0xa0, 0x42, 0xa0, 0xa2, 0x2f, 0x74],
   [0x79, 0x70, 0x69, 0x6e, 0x67, 0x2e, 0x53, 0x65, 0x71, 0x75, 0x65, 0x6e],
   [0x63, 0x65, 0xa0, 0x90, 0x94, 0x09, 0x24, 0x76, 0x69, 0x73, 0x69, 0x6f],
   [0x6e, 0x2e, 0x63, 0x6f, 0x72, 0x74, 0x65, 0x78, 0x2e, 0x74, 0x79, 0x70],
   [0x65, 0x73, 0x2e, 0x52, 0x65, 0x71, 0x75, 0x65, 0x73, 0x74, 0x49, 0x6e],
   [0x70, 0x75, 0x74, 0x44, 0x61, 0x74, 0x61, 0x40, 0x40, 0x84, 0x95, 0xa6],
   [0xbe, 0x00, 0x00, 0x01, 0x3c, 0x00, 0x00, 0x00, 0x3e, 0x00, 0x00, 0x00],
   [0xdf, 0x00, 0x00, 0x00, 0xcc, 0x90, 0xa0, 0x40, 0x90, 0xd1, 0xd1, 0xa0],
   [0x02, 0x0c, 0x0f, 0x63, 0xd7, 0xa0, 0xa0, 0xd1, 0xa0, 0xa0, 0x09, 0x37],
   [0x24, 0x6c, 0x6f, 0x63, 0x61, 0x6c, 0x5f, 0x72, 0x75, 0x6e, 0x74, 0x69],
   [0x6d, 0x65, 0x3f, 0x6c, 0x69, 0x62, 0x3f, 0x70, 0x79, 0x74, 0x68, 0x6f],
   [0x6e, 0x33, 0x3f, 0x69, 0x6d, 0x61, 0x70, 0x6c, 0x69, 0x62, 0x3f, 0x49],
   [0x4d, 0x41, 0x50, 0x34, 0x3f, 0x5f, 0x64, 0x75, 0x6d, 0x70, 0x5f, 0x75],
   [0x72, 0x24, 0x69, 0x74, 0x65, 0x6d, 0x73, 0x40, 0xa0, 0x90, 0xa0, 0xa2],
   [0x30, 0x74, 0x79, 0x70, 0x69, 0x6e, 0x67, 0x2e, 0x47, 0x65, 0x6e, 0x65],
   [0x72, 0x61, 0x74, 0x6f, 0x72, 0xa0, 0x90, 0x94, 0x23, 0x73, 0x74, 0x72],
   [0xa0, 0x90, 0x42, 0xa0, 0x90, 0x42, 0x40, 0x40, 0x40, 0xa0, 0x2f, 0x24],
   [0x70, 0x61, 0x72, 0x61, 0x6d, 0x65, 0x74, 0x65, 0x72, 0x24, 0x73, 0x65],
   [0x6c, 0x66, 0x40, 0xa0, 0x90, 0xa0, 0x94, 0x09, 0x21, 0x72, 0x75, 0x6e],
   [0x74, 0x69, 0x6d, 0x65, 0x2e, 0x6c, 0x69, 0x62, 0x2e, 0x70, 0x79, 0x74]] @
  [[0x68, 0x6f, 0x6e, 0x33, 0x2e, 0x69, 0x6d, 0x61, 0x70, 0x6c, 0x69, 0x62],
   [0x2e, 0x49, 0x4d, 0x41, 0x50, 0x34, 0x40, 0x40, 0xa0, 0xa0, 0x3d, 0x24],
   [0x70, 0x61, 0x72, 0x61, 0x6d, 0x65, 0x74, 0x65, 0x72, 0x24, 0x75, 0x6e],
   [0x74, 0x61, 0x67, 0x67, 0x65, 0x64, 0x5f, 0x72, 0x65, 0x73, 0x70, 0x5f],
   [0x64, 0x69, 0x63, 0x74, 0x40, 0xa0, 0x90, 0xa0, 0x41, 0x40, 0x40, 0x42],
   [0x40, 0xa0, 0x04, 0x1f, 0x40, 0x02, 0x0f, 0x47, 0x8b, 0x8c, 0xa0, 0xa0],
   [0x40, 0x40, 0xa0, 0xd1, 0x40, 0x04, 0x12, 0x04, 0x10, 0x04, 0x0b, 0x42],
   [0x40, 0xd1, 0xa0, 0x02, 0x0f, 0x86, 0x59, 0x9a, 0xa0, 0xa0, 0x04, 0x27],
   [0x40, 0xa0, 0x04, 0x28, 0x40, 0x02, 0x0f, 0xa3, 0x8d, 0x9d, 0xa0, 0xa0],
   [0x04, 0x08, 0x40, 0xa0, 0x04, 0x09, 0x40, 0x40, 0x42, 0x43, 0x02, 0x22],
   [0x99, 0x39, 0xd7, 0xa0, 0xa0, 0x04, 0x0b, 0x40, 0xa0, 0x04, 0x0c, 0x40],
   [0xd1, 0xa0, 0x02, 0x25, 0xae, 0xd0, 0x58, 0xa0, 0xa0, 0x04, 0x10, 0x40],
   [0xa0, 0x04, 0x33, 0x40, 0x02, 0x38, 0x23, 0xb7, 0xcb, 0xa0, 0xa0, 0x04],
   [0x13, 0x40, 0xa0, 0x04, 0x14, 0x40, 0x40, 0x42, 0x44, 0x84, 0x95, 0xa6],
   [0xbe, 0x00, 0x00, 0x00, 0x01, 0x00, 0x00, 0x00, 0x00, 0x00, 0x00, 0x00],
   [0x00, 0x00, 0x00, 0x00, 0x00, 0x40, 0x84, 0x95, 0xa6, 0xbe, 0x00, 0x00],
   [0x00, 0x05, 0x00, 0x00, 0x00, 0x03, 0x00, 0x00, 0x00, 0x07, 0x00, 0x00],
   [0x00, 0x07, 0x90, 0xa0, 0x40, 0x90, 0x40, 0x84, 0x95, 0xa6, 0xbe, 0x00],
   [0x00, 0x00, 0xc5, 0x00, 0x00, 0x00, 0x17, 0x00, 0x00, 0x00, 0x64, 0x00],
   [0x00, 0x00, 0x51, 0x90, 0xa0, 0x40, 0x90, 0xd1, 0xa0, 0x02, 0x0f, 0x47],
   [0x8b, 0x8c, 0xa0, 0xa0, 0x40, 0x40, 0xa0, 0xa0, 0xa0, 0x2e, 0x24, 0x70],
   [0x61, 0x72, 0x61, 0x6d, 0x65, 0x74, 0x65, 0x72, 0x24, 0x63, 0x6c, 0x73],
   [0x40, 0xa0, 0x90, 0xa0, 0xa2, 0x24, 0x74, 0x79, 0x70, 0x65, 0xa0, 0x90],
   [0x94, 0x09, 0x81, 0x69, 0x67, 0x5f, 0x6e, 0x6f, 0x64, 0x65, 0x61, 0x70],
   [0x69, 0x2e, 0x65, 0x64, 0x67, 0x65, 0x73, 0x2e, 0x6d, 0x65, 0x64, 0x69],
   [0x61, 0x5f, 0x74, 0x6f, 0x5f, 0x63, 0x6c, 0x69, 0x70, 0x73, 0x5f, 0x72],
   [0x65, 0x75, 0x73, 0x65, 0x5f, 0x74, 0x65, 0x78, 0x74, 0x5f, 0x6f, 0x6e],
   [0x5f, 0x72, 0x65, 0x75, 0x73, 0x61, 0x62, 0x6c, 0x65, 0x5f, 0x73, 0x74],
   [0x6f, 0x72, 0x79, 0x5f, 0x74, 0x65, 0x6d, 0x70, 0x6c, 0x61, 0x74, 0x65],
   [0x5f, 0x61, 0x73, 0x73, 0x65, 0x74, 0x2e, 0x45, 0x64, 0x67, 0x65, 0x4d]] @
  [[0x65, 0x64, 0x69, 0x61, 0x54, 0x6f, 0x43, 0x6c, 0x69, 0x70, 0x73, 0x52],
   [0x65, 0x75, 0x73, 0x65, 0x54, 0x65, 0x78, 0x74, 0x4f, 0x6e, 0x52, 0x65],
   [0x75, 0x73, 0x61, 0x62, 0x6c, 0x65, 0x53, 0x74, 0x6f, 0x72, 0x79, 0x54],
   [0x65, 0x6d, 0x70, 0x6c, 0x61, 0x74, 0x65, 0x41, 0x73, 0x73, 0x65, 0x74],
   [0x40, 0x40, 0x40, 0x40, 0x02, 0x3a, 0x61, 0xbe, 0xce, 0xa0, 0xa0, 0x04],
   [0x0e, 0x40, 0xa0, 0x04, 0x0f, 0x40, 0x40, 0x42, 0x84, 0x95, 0xa6, 0xbe],
   [0x00, 0x00, 0x00, 0x05, 0x00, 0x00, 0x00, 0x02, 0x00, 0x00, 0x00, 0x06],
   [0x00, 0x00, 0x00, 0x06, 0xa0, 0x41, 0xa0, 0x41, 0x42, 0x84, 0x95, 0xa6],
   [0xbe, 0x00, 0x00, 0x00, 0x4c, 0x00, 0x00, 0x00, 0x04, 0x00, 0x00, 0x00],
   [0x1b, 0x00, 0x00, 0x00, 0x12, 0xa0, 0x09, 0x42, 0x69, 0x67, 0x5f, 0x6e],
   [0x6f, 0x64, 0x65, 0x61, 0x70, 0x69, 0x2e, 0x6e, 0x6f, 0x64, 0x65, 0x73],
   [0x2e, 0x73, 0x74, 0x6f, 0x72, 0x79, 0x5f, 0x70, 0x6f, 0x73, 0x74, 0x2e],
   [0x4e, 0x6f, 0x64, 0x65, 0x55, 0x70, 0x64, 0x61, 0x74, 0x65, 0x53, 0x74],
   [0x6f, 0x72, 0x79, 0x50, 0x6f, 0x73, 0x74, 0x2e, 0x73, 0x65, 0x74, 0x5f],
   [0x69, 0x73, 0x5f, 0x73, 0x75, 0x70, 0x65, 0x72, 0x6c, 0x61, 0x74, 0x69],
   [0x76, 0x65, 0xa0, 0x24, 0x73, 0x65, 0x6c, 0x66, 0x40, 0x84, 0x95, 0xa6],
   [0xbe, 0x00, 0x00, 0x00, 0x31, 0x00, 0x00, 0x00, 0x04, 0x00, 0x00, 0x00],
   [0x14, 0x00, 0x00, 0x00, 0x0f, 0xa0, 0x09, 0x29, 0x73, 0x63, 0x75, 0x62],
   [0x61, 0x2e, 0x73, 0x63, 0x75, 0x62, 0x61, 0x5f, 0x65, 0x76, 0x65, 0x6e],
   [0x74, 0x5f, 0x62, 0x61, 0x73, 0x65, 0x2e, 0x53, 0x63, 0x75, 0x62, 0x18],
   [0x39, 0x33, 0x5c, 0xcb, 0x52, 0xc1, 0x01, 0x01, 0xd2, 0x01, 0x04, 0x00],
   [0x90, 0x03, 0x22, 0x13, 0xea, 0x0e, 0x34, 0x8a, 0xa1, 0xd2, 0x90, 0x03],
   [0xfc, 0x89, 0x3a, 0x84, 0xca, 0xea, 0x5d, 0xd2, 0xc1, 0x72, 0x00, 0x40],
   [0xc1, 0x72, 0x01, 0x00, 0x80, 0xc1, 0x72, 0x01, 0x01, 0x00, 0xc1, 0x72],
   [0x01, 0x04, 0x00, 0x90, 0x03, 0xd6, 0xb4, 0xd8, 0xad, 0x88, 0x71, 0xc8],
   [0x32, 0x90, 0x03, 0xd3, 0x80, 0x0c, 0xf6, 0x73, 0x47, 0xd4, 0x32, 0x90],
   [0x03, 0xe5, 0x2b, 0x67, 0xee, 0x95, 0x6f, 0x6b, 0x32, 0xc1, 0x01, 0x01],
   [0xb2, 0x01, 0x02, 0x00, 0x90, 0x03, 0xcd, 0x9a, 0x3a, 0x18, 0xba, 0xee],
   [0x39, 0xb2, 0x90, 0x03, 0xe6, 0x10, 0x3e, 0x91, 0x47, 0xfe, 0x5b, 0xb2],
   [0xc1, 0x00, 0x72, 0x01, 0x00, 0x80, 0x90, 0x03, 0xcb, 0xff, 0xad, 0x50]]"

definition dictionary_rows_36 :: "u8 list list" where
  "dictionary_rows_36 =
  [[0xad, 0x8c, 0xc3, 0x72, 0xc1, 0x01, 0x00, 0xf2, 0x01, 0x02, 0x00, 0x90],
   [0x03, 0x3e, 0x5c, 0xee, 0x48, 0xac, 0x2e, 0x28, 0xf2, 0x90, 0x03, 0x02],
   [0xe6, 0x19, 0xdd, 0x16, 0x21, 0x76, 0xf2, 0xc1, 0x4a, 0x50, 0xc1, 0x4a],
   [0x60, 0xc1, 0x4a, 0x00, 0x40, 0xc1, 0x4a, 0x01, 0x00, 0x80, 0xc1, 0x4a],
   [0x01, 0x01, 0x00, 0xc1, 0x01, 0x02, 0x0a, 0x01, 0x04, 0x00, 0x90, 0x03],
   [0x39, 0xc8, 0xda, 0x72, 0x4c, 0xff, 0x9a, 0x0a, 0x90, 0x03, 0x22, 0x7c],
   [0x26, 0xaa, 0x13, 0xba, 0xbe, 0x0a, 0x90, 0x03, 0xf7, 0xa0, 0xaa, 0x12],
   [0xaa, 0x7e, 0x31, 0x0a, 0xc1, 0x01, 0x00, 0x8a, 0x01, 0x01, 0x00, 0xc1],
   [0x01, 0x00, 0x8a, 0x01, 0x02, 0x00, 0x90, 0x03, 0xfb, 0x28, 0x9e, 0x64],
   [0xae, 0x2d, 0x90, 0x8a, 0xc1, 0x01, 0x02, 0x8a, 0x01, 0x10, 0x00, 0x90],
   [0x03, 0xe6, 0x6d, 0x7e, 0x8b, 0xd8, 0xa3, 0x22, 0x8a, 0x90, 0x03, 0xd0],
   [0x91, 0xf9, 0xad, 0x6e, 0x07, 0xd2, 0x8a, 0x90, 0x03, 0xd9, 0x89, 0x01],
   [0xfc, 0xdc, 0x16, 0x73, 0x8a, 0xc1, 0x01, 0x01, 0xca, 0x01, 0x02, 0x00],
   [0x90, 0x03, 0x0b, 0x12, 0x70, 0x65, 0xb9, 0xbd, 0x45, 0xca, 0xc1, 0x01],
   [0x03, 0xca, 0x01, 0x04, 0x00, 0xc1, 0x01, 0x03, 0xca, 0x01, 0x08, 0x00],
   [0x90, 0x03, 0xcf, 0x39, 0x00, 0x15, 0x1f, 0x07, 0x63, 0xca, 0x90, 0x03],
   [0xc6, 0xe2, 0x11, 0x98, 0xcb, 0xff, 0xfb, 0xca, 0x90, 0x03, 0xf8, 0xa2],
   [0xd0, 0x73, 0x81, 0xb1, 0x37, 0xca, 0xc1, 0x6a, 0x00, 0x40, 0xc1, 0x01],
   [0x00, 0xaa, 0x01, 0x01, 0x00, 0x90, 0x03, 0xda, 0x1b, 0x0a, 0x21, 0xf7],
   [0x01, 0x4c, 0xaa, 0x90, 0x03, 0xfc, 0xfe, 0xef, 0x89, 0x00, 0x49, 0x83],
   [0xaa, 0xc1, 0x00, 0x6a, 0x01, 0x00, 0x80, 0x90, 0x03, 0x21, 0x87, 0x30],
   [0x00, 0xac, 0xbb, 0xcb, 0x6a, 0xc1, 0x01, 0x00, 0xea, 0x01, 0x01, 0x00],
   [0x90, 0x03, 0xe5, 0xf3, 0x0a, 0x21, 0xe5, 0xd8, 0xec, 0xea, 0x90, 0x03],
   [0xf1, 0x66, 0x77, 0x1f, 0x48, 0xdd, 0xa3, 0xea, 0xc1, 0x5a, 0x60, 0xc1],
   [0x5a, 0x00, 0x40, 0xc1, 0x5a, 0x01, 0x00, 0x80, 0xc1, 0x5a, 0x01, 0x01],
   [0x00, 0xc1, 0x5a, 0x01, 0x02, 0x00, 0xc1, 0x5a, 0x01, 0x04, 0x00, 0xc1],
   [0x5a, 0x01, 0x08, 0x00, 0x90, 0x03, 0x23, 0x5f, 0x64, 0x3f, 0x2b, 0xae],
   [0x80, 0x1a, 0x90, 0x03, 0xd3, 0x20, 0x31, 0x85, 0xa1, 0x65, 0x88, 0x1a],
   [0x90, 0x03, 0x3d, 0xa8, 0x31, 0xcc, 0x03, 0x0b, 0xac, 0x1a, 0xc1, 0x01],
   [0x0e, 0x1a, 0x01, 0x10, 0x00, 0x90, 0x03, 0x20, 0x60, 0x74, 0x09, 0x61]] @
  [[0x43, 0xee, 0x1a, 0x90, 0x03, 0x08, 0x22, 0xa4, 0x0d, 0xab, 0x23, 0x9e],
   [0x1a, 0xc1, 0x01, 0x01, 0x1a, 0x01, 0x02, 0x00, 0x90, 0x03, 0xc4, 0x6d],
   [0xe0, 0x07, 0xb4, 0xa6, 0x7d, 0x1a, 0x90, 0x03, 0xec, 0x0d, 0x1b, 0x64],
   [0x17, 0x23, 0xef, 0x1a, 0xc1, 0x01, 0x00, 0x9a, 0x01, 0x04, 0x00, 0x90],
   [0x03, 0xf9, 0xc7, 0xe0, 0x8a, 0x67, 0xfd, 0x78, 0x9a, 0xc1, 0x01, 0x04],
   [0x9a, 0x01, 0x08, 0x00, 0x90, 0x03, 0xc5, 0x87, 0xcd, 0x71, 0xa1, 0xef],
   [0xb4, 0x9a, 0x90, 0x03, 0x05, 0xf8, 0xbe, 0x00, 0x40, 0x27, 0x6c, 0x9a],
   [0xc1, 0x00, 0x5a, 0x01, 0x00, 0x80, 0xc1, 0x01, 0x01, 0x5a, 0x01, 0x02],
   [0x00, 0xc1, 0x01, 0x09, 0x5a, 0x01, 0x10, 0x00, 0x90, 0x03, 0xfa, 0xf0],
   [0x56, 0xa7, 0x1f, 0x12, 0xa9, 0x5a, 0x90, 0x03, 0x08, 0x11, 0xdf, 0x41],
   [0x7f, 0xc9, 0x99, 0x5a, 0x90, 0x03, 0xd4, 0x1b, 0x7d, 0xa2, 0x54, 0xd6],
   [0x67, 0x5a, 0x90, 0x03, 0x01, 0x8b, 0x79, 0xdb, 0x2b, 0xc4, 0x58, 0xda],
   [0xc1, 0x7a, 0x00, 0x40, 0xc1, 0x7a, 0x01, 0x00, 0x80, 0xc1, 0x01, 0x01],
   [0x3a, 0x01, 0x02, 0x00, 0x90, 0x03, 0x1d, 0x66, 0x4b, 0xe2, 0x60, 0x5e],
   [0xad, 0x3a, 0x90, 0x03, 0x05, 0xcd, 0xa2, 0x3f, 0xf7, 0x54, 0x9f, 0x3a],
   [0xc1, 0x01, 0x00, 0xba, 0x01, 0x01, 0x00, 0xc1, 0x01, 0x00, 0xba, 0x01],
   [0x02, 0x00, 0xc1, 0x01, 0x00, 0xba, 0x01, 0x04, 0x00, 0xc1, 0x01, 0x00],
   [0xba, 0x01, 0x08, 0x00, 0x90, 0x03, 0x23, 0x77, 0xa7, 0xbd, 0xf6, 0xc7],
   [0x10, 0xba, 0x90, 0x03, 0xd3, 0xd6, 0xd3, 0x30, 0x01, 0x42, 0x28, 0xba],
   [0x90, 0x03, 0x34, 0xf7, 0x43, 0xfc, 0x19, 0x7e, 0x84, 0xba, 0xc1, 0x01],
   [0x02, 0xba, 0x01, 0x04, 0x00, 0xc1, 0x01, 0x02, 0xba, 0x01, 0x08, 0x00],
   [0x90, 0x03, 0x02, 0x26, 0x2e, 0xdc, 0x05, 0x51, 0xa2, 0xba, 0x90, 0x03],
   [0x18, 0xf7, 0x84, 0x90, 0xb7, 0xe4, 0x0a, 0xba, 0xc1, 0x01, 0x06, 0xba],
   [0x01, 0x08, 0x00, 0x90, 0x03, 0x1e, 0x72, 0x72, 0x29, 0x5c, 0x39, 0x86],
   [0xba, 0x90, 0x03, 0xe2, 0x24, 0x43, 0x5a, 0x7d, 0x7b, 0xde, 0xba, 0xc1],
   [0x01, 0x01, 0xba, 0x01, 0x02, 0x00, 0x90, 0x03, 0x39, 0xdb, 0x10, 0xe9],
   [0x98, 0x2c, 0xdd, 0xba, 0x90, 0x03, 0xe1, 0x86, 0x89, 0x3e, 0x26, 0x5d],
   [0x4f, 0xba, 0xc1, 0x00, 0x7a, 0x01, 0x00, 0x80, 0xc1, 0x00, 0x7a, 0x01],
   [0x01, 0x00, 0x90, 0x03, 0x09, 0xc3, 0x1f, 0xf0, 0x4b, 0x7d, 0x72, 0x7a],
   [0xc1, 0x01, 0x01, 0x7a, 0x01, 0x02, 0x00, 0x90, 0x03, 0xe3, 0xd2, 0x01]] @
  [[0xa2, 0x0d, 0x74, 0xa9, 0x7a, 0x90, 0x03, 0xfc, 0xed, 0xb0, 0x37, 0xe9],
   [0xd7, 0xe3, 0x7a, 0xc1, 0x01, 0x00, 0xfa, 0x01, 0x01, 0x00, 0x90, 0x03],
   [0x12, 0x1b, 0xa0, 0xef, 0x54, 0xf9, 0xdc, 0xfa, 0x90, 0x03, 0x23, 0x7c],
   [0xe0, 0x72, 0x74, 0xc0, 0x53, 0xfa, 0xc1, 0x46, 0x48, 0xc1, 0x46, 0x50],
   [0xc1, 0x46, 0x60, 0xc1, 0x46, 0x00, 0x40, 0xc1, 0x46, 0x01, 0x00, 0x80],
   [0xc1, 0x01, 0x01, 0x06, 0x01, 0x02, 0x00, 0x90, 0x03, 0xd5, 0x1f, 0xcd],
   [0x68, 0x6e, 0x9d, 0x75, 0x06, 0x90, 0x03, 0xea, 0xe0, 0xfa, 0x33, 0x46],
   [0x80, 0xbb, 0x06, 0xc1, 0x01, 0x00, 0x86, 0x01, 0x01, 0x00, 0x90, 0x03],
   [0xf2, 0x74, 0x14, 0xa2, 0xe0, 0x0d, 0xde, 0x86, 0xc1, 0x01, 0x03, 0x86],
   [0x01, 0x08, 0x00, 0x90, 0x03, 0x29, 0x3b, 0xf8, 0xee, 0xbe, 0xe8, 0xb3],
   [0x86, 0x90, 0x03, 0x00, 0x7b, 0x69, 0x48, 0xfa, 0xdd, 0x3b, 0x86, 0xc1],
   [0x00, 0x46, 0x01, 0x00, 0x80, 0xc1, 0x01, 0x02, 0x46, 0x01, 0x04, 0x00],
   [0x90, 0x03, 0x0f, 0x8c, 0x14, 0x8c, 0x79, 0xd6, 0x32, 0x46, 0x90, 0x03],
   [0x12, 0x48, 0xa3, 0x79, 0xd6, 0x97, 0xee, 0x46, 0xc1, 0x01, 0x00, 0xc6],
   [0x01, 0x01, 0x00, 0x90, 0x03, 0x3d, 0xb2, 0x2c, 0x42, 0x30, 0x49, 0x20],
   [0xc6, 0x90, 0x03, 0x43, 0x50, 0xcb, 0x16, 0x4d, 0xc1, 0x6d, 0x00, 0x40],
   [0xc1, 0x6d, 0x01, 0x00, 0x80, 0xc1, 0x01, 0x01, 0x2d, 0x01, 0x02, 0x00],
   [0x90, 0x03, 0xc1, 0x72, 0xe4, 0x98, 0xcb, 0x30, 0x7d, 0x2d, 0x90, 0x03],
   [0xc3, 0xcd, 0x46, 0x52, 0xe9, 0xbd, 0x4f, 0x2d, 0xc1, 0x01, 0x02, 0xad],
   [0x01, 0x04, 0x00, 0x90, 0x03, 0xd1, 0x47, 0x20, 0x5c, 0x4c, 0x3d, 0x9a],
   [0xad, 0xc1, 0x01, 0x0e, 0xad, 0x01, 0x20, 0x00, 0x90, 0x03, 0x22, 0xf9],
   [0x84, 0x68, 0xb3, 0x4d, 0x4e, 0xad, 0x90, 0x03, 0xea, 0x2f, 0x7a, 0x43],
   [0x35, 0x77, 0xee, 0xad, 0xc1, 0x00, 0x6d, 0x01, 0x00, 0x80, 0xc1, 0x00],
   [0x6d, 0x01, 0x02, 0x00, 0x90, 0x03, 0x12, 0xd3, 0x84, 0x34, 0x85, 0x97],
   [0x44, 0x6d, 0x90, 0x03, 0x09, 0x09, 0x85, 0xa1, 0x12, 0xa2, 0x36, 0x6d],
   [0xc1, 0x01, 0x00, 0xed, 0x01, 0x01, 0x00, 0x90, 0x03, 0xe7, 0x27, 0x1d],
   [0x16, 0xb2, 0x4f, 0xf4, 0xed, 0xc1, 0x01, 0x07, 0xed, 0x01, 0x08, 0x00],
   [0x90, 0x03, 0x23, 0xff, 0x78, 0xab, 0xf1, 0xae, 0x87, 0xed, 0x90, 0x03],
   [0x2f, 0x24, 0x18, 0x1d, 0xcb, 0x9c, 0x2f, 0xed, 0xc1, 0x5d, 0x60, 0xc1],
   [0x5d, 0x00, 0x40, 0xc1, 0x5d, 0x01, 0x00, 0x80, 0xc1, 0x5d, 0x01, 0x01]] @
  [[0x00, 0x90, 0x03, 0xee, 0x34, 0xb4, 0x60, 0xd4, 0x16, 0x12, 0x1d, 0xc1],
   [0x01, 0x01, 0x1d, 0x01, 0x02, 0x00, 0x90, 0x03, 0xd2, 0xee, 0x9f, 0xf9],
   [0x9c, 0x76, 0x15, 0x1d, 0x90, 0x03, 0x23, 0xc1, 0xec, 0x16, 0x48, 0x74],
   [0x47, 0x1d, 0xc1, 0x01, 0x00, 0x9d, 0x01, 0x01, 0x00, 0x90, 0x03, 0x0e],
   [0x51, 0x55, 0x9c, 0x4f, 0xad, 0xa8, 0x9d, 0x90, 0x03, 0xde, 0x59, 0x7b],
   [0xbc, 0x23, 0x23, 0x39, 0x9d, 0xc1, 0x00, 0x5d, 0x01, 0x00, 0x80, 0xc1],
   [0x01, 0x02, 0x5d, 0x01, 0x04, 0x00, 0x90, 0x03, 0xcb, 0xcb, 0x93, 0xeb],
   [0x49, 0x86, 0x82, 0x5d, 0x90, 0x03, 0x11, 0xad, 0xc3, 0x68, 0xdf, 0xaa],
   [0x4e, 0x5d, 0xc1, 0x01, 0x03, 0xdd, 0x01, 0x04, 0x00, 0x90, 0x03, 0xf5],
   [0x72, 0xcc, 0x1f, 0x60, 0x20, 0xf3, 0xdd, 0x90, 0x03, 0xc9, 0x55, 0x98],
   [0x85, 0xdf, 0xae, 0x3f, 0xdd, 0xc1, 0x7d, 0x00, 0x40, 0xc1, 0x7d, 0x01],
   [0x00, 0x80, 0x90, 0x03, 0x11, 0x8b, 0x65, 0x69, 0xf7, 0x30, 0x2c, 0x3d],
   [0x90, 0x03, 0x1f, 0x7b, 0xb8, 0x59, 0xe6, 0xa6, 0xed, 0xbd, 0x90, 0x03],
   [0xfb, 0xc1, 0x47, 0x9d, 0xac, 0x91, 0xe7, 0xfd, 0xc1, 0x43, 0x44, 0xc1],
   [0x43, 0x48, 0xc1, 0x43, 0x50, 0xc1, 0x43, 0x60, 0xc1, 0x43, 0x00, 0x40],
   [0xc1, 0x43, 0x01, 0x00, 0x80, 0xc1, 0x43, 0x01, 0x01, 0x00, 0x90, 0x03],
   [0xc5, 0x5d, 0x67, 0x0c, 0xce, 0xbf, 0xc4, 0x03, 0x90, 0x03, 0x3b, 0x8e],
   [0x74, 0xfe, 0xdf, 0xef, 0x35, 0x03, 0x90, 0x03, 0x0e, 0x14, 0x62, 0x18],
   [0x85, 0x22, 0xb4, 0x83, 0xc1, 0x00, 0x43, 0x01, 0x00, 0x80, 0xc1, 0x00],
   [0x43, 0x01, 0x01, 0x00, 0xc1, 0x00, 0x43, 0x01, 0x02, 0x00, 0x90, 0x03],
   [0xe6, 0x09, 0x12, 0xc1, 0x96, 0x78, 0xc8, 0x43, 0x90, 0x03, 0x23, 0xde],
   [0xe5, 0x28, 0x2b, 0xcd, 0x16, 0x43, 0xc1, 0x01, 0x01, 0x43, 0x01, 0x04],
   [0x00, 0x90, 0x03, 0xcd, 0x37, 0xd7, 0x77, 0x54, 0x5c, 0xe9, 0x43, 0x90],
   [0x03, 0x3b, 0x1d, 0xc4, 0x59, 0x5a, 0x83, 0x1d, 0x43, 0xc1, 0x01, 0x00],
   [0xc3, 0x01, 0x01, 0x00, 0x90, 0x03, 0x07, 0xc3, 0x6c, 0x72, 0xd8, 0x29],
   [0x46, 0xc3, 0xc1, 0x01, 0x07, 0xc3, 0x01, 0x08, 0x00, 0x90, 0x03, 0xc7],
   [0x55, 0x88, 0xc6, 0x4a, 0x88, 0x37, 0xc3, 0x90, 0x03, 0x1d, 0xb9, 0xfa],
   [0xb8, 0x09, 0x23, 0x9f, 0xc3, 0xc1, 0x63, 0x00, 0x40, 0xc1, 0x63, 0x01],
   [0x00, 0x80, 0xc1, 0x63, 0x01, 0x01, 0x00, 0x90, 0x03, 0xc2, 0x0d, 0x4f],
   [0x88, 0xc6, 0xdb, 0x86, 0x23, 0xc1, 0x01, 0x07, 0x23, 0x01, 0x08, 0x00]] @
  [[0x90, 0x03, 0x20, 0x4b, 0xd1, 0x83, 0x91, 0xb0, 0xe7, 0x23, 0x90, 0x03],
   [0x28, 0xf6, 0xa0, 0x97, 0x25, 0xf0, 0xcf, 0x23, 0xc1, 0x01, 0x01, 0xa3],
   [0x01, 0x02, 0x00, 0xc1, 0x01, 0x01, 0xa3, 0x01, 0x04, 0x00, 0x90, 0x03],
   [0x3b, 0x85, 0xd9, 0x69, 0xea, 0x1d, 0x31, 0xa3, 0x90, 0x03, 0x2b, 0xdb],
   [0x55, 0x57, 0xd1, 0x70, 0x4d, 0xa3, 0x90, 0x03, 0x3d, 0xb6, 0xcf, 0x50],
   [0x27, 0xcb, 0xd7, 0xa3, 0xc1, 0x00, 0x63, 0x01, 0x00, 0x80, 0xc1, 0x00],
   [0x63, 0x01, 0x01, 0x00, 0x90, 0x03, 0x03, 0x64, 0x1c, 0xfb, 0xfd, 0x4b],
   [0x20, 0x63, 0x90, 0x03, 0xc1, 0x63, 0x1c, 0xf2, 0xf6, 0xfb, 0x6d, 0x63],
   [0x90, 0x03, 0x32, 0xa9, 0x93, 0x42, 0xc6, 0x96, 0xc6, 0xe3, 0xc1, 0x53],
   [0x60, 0xc1, 0x53, 0x00, 0x40, 0xc1, 0x53, 0x01, 0x00, 0x80, 0xc1, 0x53],
   [0x01, 0x01, 0x00, 0x90, 0x03, 0xdd, 0x34, 0x5f, 0x7a, 0xa3, 0x11, 0x80],
   [0x13, 0xc1, 0x01, 0x0b, 0x13, 0x01, 0x10, 0x00, 0x90, 0x03, 0x12, 0x4d],
   [0x5b, 0x9b, 0xdf, 0x17, 0xeb, 0x13, 0x90, 0x03, 0xc8, 0xf8, 0x14, 0x48],
   [0xd8, 0x58, 0x5b, 0x13, 0x90, 0x03, 0xf0, 0x6a, 0x3f, 0xd8, 0x11, 0xe3],
   [0x4a, 0x93, 0xc1, 0x00, 0x53, 0x01, 0x00, 0x80, 0xc1, 0x00, 0x53, 0x01],
   [0x01, 0x00, 0xc1, 0x00, 0x53, 0x01, 0x02, 0x00, 0xc1, 0x00, 0x53, 0x01],
   [0x08, 0x00, 0x90, 0x03, 0x3d, 0x4b, 0x84, 0x5f, 0x2b, 0xdd, 0xf0, 0x53],
   [0x90, 0x03, 0x10, 0x60, 0x6e, 0xc1, 0x08, 0x69, 0x68, 0x53, 0x90, 0x03],
   [0x24, 0xb4, 0x56, 0xe0, 0x3b, 0x8b, 0x76, 0x53, 0xc1, 0x01, 0x01, 0x53],
   [0x01, 0x02, 0x00, 0x90, 0x03, 0xda, 0x44, 0xb8, 0xbc, 0xb4, 0x6c, 0x0d],
   [0x53, 0x90, 0x03, 0x33, 0x13, 0xbf, 0x12, 0x54, 0x0c, 0xdf, 0x53, 0xc1],
   [0x01, 0x00, 0xd3, 0x01, 0x01, 0x00, 0x90, 0x03, 0x0c, 0xb9, 0xca, 0x37],
   [0x3e, 0x43, 0x2a, 0xd3, 0x90, 0x03, 0x13, 0x62, 0xeb, 0x1a, 0xb0, 0xf9],
   [0xad, 0xd3, 0xc1, 0x73, 0x00, 0x40, 0xc1, 0x73, 0x01, 0x00, 0x80, 0x90],
   [0x03, 0x37, 0x38, 0xbf, 0xeb, 0x0d, 0x88, 0xb6, 0x33, 0xc1, 0x01, 0x00],
   [0xb3, 0x01, 0x01, 0x00, 0xc1, 0x01, 0x00, 0xb3, 0x01, 0x02, 0x00, 0x90],
   [0x03, 0x24, 0xfc, 0x9a, 0x7c, 0xb3, 0x5a, 0xe8, 0xb3, 0xc1, 0x01, 0x02],
   [0xb3, 0x01, 0x04, 0x00, 0x90, 0x03, 0xfe, 0x5c, 0x57, 0x6f, 0x8d, 0x28],
   [0xfa, 0xb3, 0x90, 0x03, 0xc0, 0x68, 0xeb, 0xe1, 0x18, 0x74, 0x9e, 0xb3],
   [0xc1, 0x01, 0x01, 0xb3, 0x01, 0x02, 0x00, 0x90, 0x03, 0x1b, 0x82, 0xa0]]"

definition dictionary_rows_37 :: "u8 list list" where
  "dictionary_rows_37 =
  [[0x18, 0x93, 0x7e, 0xbd, 0xb3, 0x90, 0x03, 0x0d, 0x3a, 0x16, 0x38, 0x9b],
   [0xa8, 0xb7, 0xb3, 0xc1, 0x00, 0x73, 0x01, 0x00, 0x80, 0x90, 0x03, 0xf4],
   [0x8c, 0x69, 0x77, 0x02, 0x1b, 0x14, 0x73, 0x90, 0x03, 0x16, 0xc8, 0x32],
   [0x2d, 0x0e, 0xd8, 0x68, 0xf3, 0xc1, 0x4b, 0x50, 0xc1, 0x4b, 0x60, 0xc1],
   [0x4b, 0x00, 0x40, 0xc1, 0x4b, 0x01, 0x00, 0x80, 0xc1, 0x4b, 0x01, 0x01],
   [0x00, 0xc1, 0x4b, 0x01, 0x02, 0x00, 0x90, 0x03, 0x08, 0x38, 0xf4, 0x73],
   [0x52, 0x9e, 0x9c, 0x0b, 0x90, 0x03, 0xe9, 0xc3, 0xf9, 0x1b, 0x9d, 0x72],
   [0x36, 0x0b, 0xc1, 0x01, 0x01, 0x0b, 0x01, 0x02, 0x00, 0xc1, 0x01, 0x01],
   [0x0b, 0x01, 0x04, 0x00, 0x90, 0x03, 0xed, 0x95, 0x85, 0x76, 0x83, 0x90],
   [0xb1, 0x0b, 0x90, 0x03, 0xd8, 0x58, 0xea, 0x21, 0xf6, 0x1c, 0xa5, 0x0b],
   [0x90, 0x03, 0xee, 0x29, 0xcd, 0x6b, 0xda, 0xa0, 0x00, 0x43, 0x00, 0x58],
   [0xa0, 0x00, 0x43, 0x00, 0x63, 0x36, 0x24, 0x70, 0x61, 0x72, 0x61, 0x6d],
   [0x65, 0x74, 0x65, 0x72, 0x24, 0x73, 0x63, 0x68, 0x65, 0x6d, 0x61, 0x5f],
   [0x6e, 0x61, 0x6d, 0x65, 0xa0, 0xa0, 0xa0, 0x00, 0x43, 0x00, 0x64, 0xa0],
   [0x00, 0x43, 0x00, 0x7d, 0x94, 0x94, 0xa0, 0x37, 0x69, 0x67, 0x5f, 0x63],
   [0x75, 0x74, 0x6f, 0x75, 0x74, 0x5f, 0x73, 0x74, 0x69, 0x63, 0x6b, 0x65],
   [0x72, 0x5f, 0x6d, 0x65, 0x64, 0x69, 0x61, 0x40, 0xa0, 0xa0, 0x90, 0xa0],
   [0xa0, 0xa0, 0x00, 0x43, 0x00, 0x7f, 0xa0, 0x00, 0x43, 0x01, 0x00, 0x83],
   [0x2f, 0x24, 0x70, 0x61, 0x72, 0x61, 0x6d, 0x65, 0x74, 0x65, 0x72, 0x24],
   [0x65, 0x64, 0x67, 0x65, 0xa0, 0xa0, 0xa0, 0x00, 0x43, 0x01, 0x00, 0x84],
   [0xa0, 0x00, 0x43, 0x01, 0x00, 0x99, 0x94, 0x94, 0xa0, 0x33, 0x61, 0x73],
   [0x73, 0x6f, 0x63, 0x69, 0x61, 0x74, 0x65, 0x64, 0x5f, 0x70, 0x72, 0x6f],
   [0x64, 0x75, 0x63, 0x74, 0x73, 0x40, 0x40, 0x40, 0x40, 0x84, 0x95, 0xa6],
   [0xbe, 0x00, 0x00, 0x00, 0x2c, 0x00, 0x00, 0x00, 0x04, 0x00, 0x00, 0x00],
   [0x13, 0x00, 0x00, 0x00, 0x0e, 0xa0, 0x09, 0x22, 0x6e, 0x6f, 0x64, 0x65],
   [0x61, 0x70, 0x69, 0x2e, 0x51, 0x75, 0x65, 0x72, 0x79, 0x42, 0x61, 0x73],
   [0x65, 0x2e, 0x51, 0x75, 0x65, 0x72, 0x79, 0x2e, 0x61, 0x73, 0x79, 0x6e],
   [0x63, 0x5f, 0x73, 0x65, 0x6e, 0x64, 0xa0, 0x24, 0x73, 0x65, 0x6c, 0x66],
   [0x40, 0x84, 0x95, 0xa6, 0xbe, 0x00, 0x00, 0x00, 0x05, 0x00, 0x00, 0x00],
   [0x02, 0x00, 0x00, 0x00, 0x06, 0x00, 0x00, 0x00, 0x06, 0xa0, 0x41, 0xa0]] @
  [[0x41, 0x40, 0x84, 0x95, 0xa6, 0xbe, 0x00, 0x00, 0x00, 0x01, 0x00, 0x00],
   [0x00, 0x00, 0x00, 0x00, 0x00, 0x00, 0x00, 0x00, 0x00, 0x00, 0x40, 0x84],
   [0x95, 0xa6, 0xbe, 0x00, 0x00, 0x00, 0x05, 0x00, 0x00, 0x00, 0x02, 0x00],
   [0x00, 0x00, 0x06, 0x00, 0x00, 0x00, 0x06, 0xa0, 0x40, 0xa0, 0x41, 0x40],
   [0x84, 0x95, 0xa6, 0xbe, 0x00, 0x00, 0x00, 0x5d, 0x00, 0x00, 0x00, 0x04],
   [0x00, 0x00, 0x00, 0x1f, 0x00, 0x00, 0x00, 0x14, 0xa0, 0x09, 0x53, 0x69],
   [0x67, 0x5f, 0x6e, 0x6f, 0x64, 0x65, 0x61, 0x70, 0x69, 0x2e, 0x6e, 0x6f],
   [0x64, 0x65, 0x73, 0x2e, 0x67, 0x75, 0x69, 0x64, 0x65, 0x5f, 0x6d, 0x65],
   [0x64, 0x69, 0x61, 0x5f, 0x66, 0x61, 0x63, 0x61, 0x64, 0x65, 0x2e, 0x4e],
   [0x6f, 0x64, 0x65, 0x43, 0x72, 0x65, 0x61, 0x74, 0x65, 0x47, 0x75, 0x69],
   [0x64, 0x65, 0x4d, 0x65, 0x64, 0x69, 0x61, 0x46, 0x61, 0x63, 0x61, 0x64],
   [0x65, 0x2e, 0x73, 0x65, 0x74, 0x5f, 0x63, 0x61, 0x70, 0x74, 0x69, 0x6f],
   [0x6e, 0x5f, 0x70, 0x6f, 0x73, 0x69, 0x74, 0x69, 0x6f, 0x6e, 0xa0, 0x24],
   [0x73, 0x65, 0x6c, 0x66, 0x40, 0x84, 0x95, 0xa6, 0xbe, 0x00, 0x00, 0x00],
   [0x01, 0x00, 0x00, 0x00, 0x00, 0x00, 0x00, 0x00, 0x00, 0x00, 0x00, 0x00],
   [0x00, 0x40, 0x84, 0x95, 0xa6, 0xbe, 0x00, 0x00, 0x01, 0x4e, 0x00, 0x00],
   [0x00, 0x6b, 0x00, 0x00, 0x01, 0x54, 0x00, 0x00, 0x01, 0x50, 0xc0, 0x90],
   [0x40, 0xa0, 0xd0, 0x40, 0xb0, 0x40, 0x24, 0x73, 0x65, 0x6c, 0x66, 0x40],
   [0xa0, 0xd0, 0x40, 0x40, 0xf0, 0x90, 0xd0, 0x40, 0x41, 0x08, 0x00, 0x00],
   [0x20, 0x00, 0x90, 0xa0, 0xa0, 0x40, 0x40, 0x04, 0x01, 0x90, 0x40, 0x90],
   [0xa0, 0x44, 0x40, 0x90, 0x40, 0x90, 0x40, 0x90, 0xa0, 0x40, 0x40, 0x90],
   [0xa0, 0x40, 0x40, 0x90, 0x40, 0x40, 0x41, 0x90, 0x90, 0x40, 0x90, 0x04],
   [0x0f, 0x90, 0x04, 0x08, 0x90, 0x04, 0x07, 0x90, 0xb0, 0xa0, 0xa0, 0x03],
   [0xc0, 0x00, 0x00, 0x00, 0x00, 0x00, 0x00, 0x00, 0x03, 0x3f, 0xff, 0xff],
   [0xff, 0xff, 0xff, 0xff, 0xff, 0x40, 0xa0, 0x04, 0x02, 0x40, 0x40, 0x90],
   [0x40, 0x40, 0x41, 0x40, 0x40, 0x41, 0xd0, 0x40, 0xb0, 0x40, 0x24, 0x73],
   [0x65, 0x6c, 0x66, 0x40, 0xa0, 0xd0, 0x40, 0x90, 0x40, 0xf0, 0x90, 0xd0],
   [0x40, 0x92, 0x2b, 0x4e, 0x6f, 0x64, 0x65, 0x55, 0x70, 0x64, 0x61, 0x74],
   [0x65, 0x72, 0x08, 0x00, 0x00, 0x20, 0x00, 0x90, 0xa0, 0xa0, 0x40, 0x40],
   [0x04, 0x01, 0x90, 0x40, 0x90, 0xa0, 0x03, 0x3f, 0xff, 0xff, 0xff, 0xff]] @
  [[0xff, 0xff, 0xff, 0x40, 0x90, 0x40, 0x90, 0x40, 0x90, 0xa0, 0x40, 0x40],
   [0x90, 0xa0, 0x40, 0x40, 0x90, 0x40, 0x40, 0x41, 0x90, 0x90, 0x40, 0x90],
   [0xa0, 0xa0, 0x40, 0x40, 0x04, 0x01, 0x90, 0x04, 0x0a, 0x90, 0x04, 0x09],
   [0x90, 0xb0, 0xa0, 0xa0, 0x03, 0xc0, 0x00, 0x00, 0x00, 0x00, 0x00, 0x00],
   [0x00, 0x03, 0x3f, 0xff, 0xff, 0xff, 0xff, 0xff, 0xff, 0xff, 0x40, 0xa0],
   [0x04, 0x02, 0x40, 0x40, 0x90, 0x40, 0x40, 0x41, 0x40, 0xd0, 0x40, 0xb0],
   [0x41, 0x25, 0x76, 0x61, 0x6c, 0x75, 0x65, 0x40, 0xa0, 0xd0, 0x40, 0x04],
   [0x26, 0xf0, 0x90, 0xd0, 0x40, 0x04, 0x25, 0x08, 0x00, 0x00, 0x20, 0x00],
   [0x90, 0xa0, 0xa0, 0x03, 0x02, 0x00, 0x01, 0x00, 0x00, 0x00, 0x00, 0x00],
   [0x40, 0x04, 0x01, 0x90, 0x40, 0x90, 0x04, 0x23, 0x90, 0x40, 0x90, 0x40],
   [0x90, 0x04, 0x22, 0x90, 0x04, 0x21, 0x90, 0x40, 0x40, 0x41, 0x90, 0x04],
   [0x20, 0x90, 0x04, 0x1f, 0x90, 0x04, 0x27, 0x90, 0x04, 0x26, 0x90, 0xb0],
   [0xa0, 0x04, 0x1d, 0x40, 0xa0, 0x04, 0x1e, 0x40, 0x40, 0x90, 0x40, 0x40],
   [0x41, 0x40, 0x40, 0x41, 0x42, 0xb0, 0xb0, 0x90, 0x40, 0x90, 0x40, 0xa0],
   [0x04, 0x03, 0x04, 0x02, 0x04, 0x04, 0x40, 0x40, 0x84, 0x95, 0xa6, 0xbe],
   [0x00, 0x00, 0x00, 0x05, 0x00, 0x00, 0x00, 0x02, 0x00, 0x00, 0x00, 0x06],
   [0x00, 0x00, 0x00, 0x06, 0xa0, 0x41, 0xa0, 0x41, 0x40, 0x84, 0x95, 0xa6],
   [0xbe, 0x00, 0x00, 0x00, 0x45, 0x00, 0x00, 0x00, 0x04, 0x00, 0x00, 0x00],
   [0x19, 0x00, 0x00, 0x00, 0x11, 0xa0, 0x09, 0x3b, 0x69, 0x67, 0x5f, 0x6e],
   [0x6f, 0x64, 0x65, 0x61, 0x70, 0x69, 0x2e, 0x6e, 0x6f, 0x64, 0x65, 0x73],
   [0x2e, 0x66, 0x62, 0x5f, 0x62, 0x6c, 0x69, 0x6e, 0x64, 0x5f, 0x70, 0x69],
   [0x67, 0x2e, 0x4e, 0x6f, 0x64, 0x65, 0x43, 0x72, 0x65, 0x61, 0x74, 0x65],
   [0x46, 0x62, 0x42, 0x6c, 0x69, 0x6e, 0x64, 0x50, 0x69, 0x67, 0x2e, 0x5f],
   [0x5f, 0x69, 0x6e, 0x69, 0x74, 0x5f, 0x5f, 0xa0, 0x24, 0x73, 0x65, 0x6c],
   [0x66, 0x40, 0x84, 0x95, 0xa6, 0xbe, 0x00, 0x00, 0x02, 0xaa, 0x00, 0x00],
   [0x00, 0xb5, 0x00, 0x00, 0x02, 0x55, 0x00, 0x00, 0x02, 0x42, 0xc0, 0x90],
   [0xd0, 0x40, 0x40, 0xa0, 0x40, 0xd0, 0x40, 0x90, 0x2b, 0x5f, 0x65, 0x78],
   [0x70, 0x72, 0x65, 0x73, 0x73, 0x69, 0x6f, 0x6e, 0xa0, 0xd0, 0x40, 0x91],
   [0xb0, 0xa0, 0x2a, 0x69, 0x67, 0x5f, 0x6e, 0x6f, 0x64, 0x65, 0x61, 0x70],
   [0x69, 0xa0, 0x25, 0x65, 0x64, 0x67, 0x65, 0x73, 0xa0, 0x09, 0x34, 0x6d]] @
  [[0x65, 0x6e, 0x74, 0x69, 0x6f, 0x6e, 0x65, 0x64, 0x5f, 0x63, 0x61, 0x72],
   [0x6f, 0x75, 0x73, 0x65, 0x6c, 0x5f, 0x63, 0x68, 0x69, 0x6c, 0x64, 0x5f],
   [0x74, 0x6f, 0x5f, 0x63, 0x6f, 0x6d, 0x6d, 0x65, 0x6e, 0x74, 0x5f, 0x6f],
   [0x6e, 0x5f, 0x63, 0x6c, 0x69, 0x70, 0x73, 0x5f, 0x70, 0x72, 0x65, 0x76],
   [0x69, 0x65, 0x77, 0x40, 0xa0, 0x01, 0x00, 0xae, 0x5e, 0xa0, 0x01, 0x00],
   [0xae, 0x71, 0xf0, 0x90, 0xd0, 0x40, 0x90, 0x2f, 0x4e, 0x6f, 0x64, 0x00],
   [0x00, 0x00, 0x04, 0x00, 0x00, 0x00, 0x2c, 0x00, 0x00, 0x00, 0x1a, 0xa0],
   [0x09, 0x86, 0x69, 0x67, 0x5f, 0x6e, 0x6f, 0x64, 0x65, 0x61, 0x70, 0x69],
   [0x2e, 0x65, 0x64, 0x67, 0x65, 0x73, 0x2e, 0x6d, 0x65, 0x64, 0x69, 0x61],
   [0x5f, 0x74, 0x6f, 0x5f, 0x72, 0x65, 0x70, 0x6f, 0x73, 0x74, 0x5f, 0x6d],
   [0x65, 0x64, 0x69, 0x61, 0x5f, 0x66, 0x61, 0x63, 0x61, 0x64, 0x65, 0x5f],
   [0x6f, 0x6e, 0x5f, 0x64, 0x69, 0x72, 0x65, 0x63, 0x74, 0x5f, 0x70, 0x65],
   [0x72, 0x6d, 0x61, 0x6e, 0x65, 0x6e, 0x74, 0x5f, 0x6d, 0x65, 0x64, 0x69],
   [0x61, 0x2e, 0x45, 0x64, 0x67, 0x65, 0x53, 0x65, 0x74, 0x4d, 0x65, 0x64],
   [0x69, 0x61, 0x54, 0x6f, 0x52, 0x65, 0x70, 0x6f, 0x73, 0x74, 0x4d, 0x65],
   [0x64, 0x69, 0x61, 0x46, 0x61, 0x63, 0x61, 0x64, 0x65, 0x4f, 0x6e, 0x44],
   [0x69, 0x72, 0x65, 0x63, 0x74, 0x50, 0x65, 0x72, 0x6d, 0x61, 0x6e, 0x65],
   [0x6e, 0x74, 0x4d, 0x65, 0x64, 0x69, 0x61, 0x2e, 0x5f, 0x5f, 0x69, 0x6e],
   [0x69, 0x74, 0x5f, 0x5f, 0xa0, 0x24, 0x72, 0x6f, 0x6f, 0x74, 0x40, 0x84],
   [0x95, 0xa6, 0xbe, 0x00, 0x00, 0x01, 0xa1, 0x00, 0x00, 0x00, 0x4c, 0x00],
   [0x00, 0x01, 0x21, 0x00, 0x00, 0x01, 0x09, 0xc0, 0x90, 0x40, 0xa0, 0xd0],
   [0x40, 0xb0, 0x41, 0x24, 0x64, 0x61, 0x74, 0x61, 0x40, 0xa0, 0xd0, 0x40],
   [0x40, 0xf0, 0x90, 0xd0, 0x40, 0x41, 0x08, 0x00, 0x00, 0x20, 0x00, 0x90],
   [0xa0, 0xa0, 0x40, 0x40, 0x04, 0x01, 0x90, 0x40, 0x90, 0xa0, 0x03, 0x3f],
   [0xff, 0xff, 0xff, 0xff, 0xff, 0xff, 0xff, 0xd0, 0xd0, 0x40, 0x90, 0x29],
   [0x5f, 0x72, 0x61, 0x77, 0x5f, 0x64, 0x61, 0x74, 0x61, 0xa0, 0x43, 0x40],
   [0x40, 0x41, 0x90, 0x3b, 0x65, 0x78, 0x69, 0x73, 0x74, 0x69, 0x6e, 0x67],
   [0x5f, 0x64, 0x65, 0x66, 0x61, 0x75, 0x6c, 0x74, 0x5f, 0x61, 0x64, 0x5f],
   [0x61, 0x63, 0x63, 0x6f, 0x75, 0x6e, 0x74, 0xa0, 0x03, 0x3f, 0xff, 0xff],
   [0xff, 0xff, 0xff, 0xff, 0xff, 0xd0, 0xd0, 0x40, 0x90, 0x29, 0x5f, 0x72]] @
  [[0x61, 0x77, 0x5f, 0x64, 0x61, 0x74, 0x61, 0xa0, 0x40, 0x40, 0x40, 0x41],
   [0x90, 0x09, 0x30, 0x69, 0x73, 0x5f, 0x77, 0x61, 0x5f, 0x64, 0x65, 0x73],
   [0x74, 0x69, 0x6e, 0x61, 0x74, 0x69, 0x6f, 0x6e, 0x5f, 0x65, 0x6c, 0x69],
   [0x67, 0x69, 0x62, 0x6c, 0x65, 0x5f, 0x66, 0x6f, 0x72, 0x5f, 0x6d, 0x65],
   [0x73, 0x73, 0x61, 0x67, 0x65, 0x5f, 0x6f, 0x62, 0x6a, 0x65, 0x63, 0x74],
   [0x69, 0x76, 0x65, 0xa0, 0x40, 0x40, 0xd0, 0x40, 0x90, 0x2a, 0x74, 0x72],
   [0x75, 0x73, 0x74, 0x5f, 0x74, 0x69, 0x65, 0x72, 0xa0, 0x40, 0x40, 0x40],
   [0x41, 0x42, 0xd0, 0x40, 0x90, 0x09, 0x4b, 0x69, 0x73, 0x5f, 0x6c, 0x69],
   [0x6e, 0x6b, 0x65, 0x64, 0x5f, 0x61, 0x64, 0x5f, 0x61, 0x63, 0x63, 0x6f],
   [0x75, 0x6e, 0x74, 0x5f, 0x61, 0x6e, 0x64, 0x5f, 0x70, 0x61, 0x67, 0x65],
   [0x5f, 0x77, 0x61, 0x5f, 0x64, 0x65, 0x73, 0x74, 0x69, 0x6e, 0x61, 0x74],
   [0x69, 0x6f, 0x6e, 0x5f, 0x65, 0x6c, 0x69, 0x67, 0x69, 0x62, 0x6c, 0x65],
   [0x5f, 0x66, 0x6f, 0x72, 0x5f, 0x6d, 0x65, 0x73, 0x73, 0x61, 0x67, 0x65],
   [0x5f, 0x6f, 0x62, 0x6a, 0x65, 0x63, 0x74, 0x69, 0x76, 0x65, 0xa0, 0x40],
   [0x40, 0xd0, 0x40, 0x90, 0x2c, 0x77, 0x65, 0x62, 0x73, 0x69, 0x74, 0x65],
   [0x5f, 0x6c, 0x69, 0x6e, 0x6b, 0xa0, 0x40, 0x40, 0x40, 0x41, 0x42, 0x43],
   [0x90, 0x42, 0x90, 0x40, 0x90, 0xa0, 0x40, 0x40, 0x90, 0xa0, 0x40, 0x40],
   [0x90, 0x40, 0x40, 0x41, 0x90, 0x90, 0xc0, 0x40, 0xa0, 0xa0, 0x00, 0x4f],
   [0x59, 0xa0, 0x00, 0x4f, 0x5d, 0x40, 0x41, 0x90, 0xa0, 0xa0, 0x03, 0xc6],
   [0x00, 0x09, 0x21, 0x40, 0x04, 0x00, 0x00, 0x40, 0xa0, 0x03, 0x00, 0x00],
   [0x00, 0x01, 0x00, 0x00, 0x00, 0x00, 0x40, 0x90, 0x04, 0x0f, 0x90, 0x04],
   [0x0e, 0x90, 0xb0, 0xa0, 0xa0, 0x03, 0xc0, 0x00, 0x00, 0x00, 0x00, 0x00],
   [0x00, 0x00, 0x03, 0x3f, 0xff, 0xff, 0xff, 0xff, 0xff, 0xff, 0xff, 0x40],
   [0xa0, 0x04, 0x02, 0x40, 0x40, 0x90, 0x40, 0x40, 0x41, 0x40, 0x40, 0x41],
   [0x40, 0xb0, 0xb0, 0x90, 0x40, 0x90, 0x40, 0xa0, 0x04, 0x03, 0x04, 0x02],
   [0x04, 0x04, 0x40, 0x40, 0x84, 0x95, 0xa6, 0xbe, 0x00, 0x00, 0x00, 0x7d],
   [0x00, 0x00, 0x00, 0x04, 0x00, 0x00, 0x00, 0x27, 0x00, 0x00, 0x00, 0x18],
   [0xa0, 0x09, 0x73, 0x69, 0x67, 0x5f, 0x6e, 0x6f, 0x64, 0x65, 0x61, 0x70],
   [0x69, 0x2e, 0x65, 0x64, 0x67, 0x65, 0x73, 0x2e, 0x6d, 0x65, 0x64, 0x69],
   [0x61, 0x5f, 0x74, 0x6f, 0x5f, 0x6d, 0x65, 0x64, 0x69, 0x61, 0x5f, 0x72]]"

definition dictionary_rows_38 :: "u8 list list" where
  "dictionary_rows_38 =
  [[0x69, 0x64, 0x67, 0x65, 0x5f, 0x6d, 0x61, 0x74, 0x63, 0x68, 0x5f, 0x6f],
   [0x6e, 0x5f, 0x73, 0x63, 0x68, 0x65, 0x64, 0x75, 0x6c, 0x65, 0x64, 0x5f],
   [0x6c, 0x69, 0x76, 0x65, 0x2e, 0x45, 0x64, 0x67, 0x65, 0x53, 0x65, 0x74],
   [0x4d, 0x65, 0x64, 0x69, 0x61, 0x54, 0x6f, 0x4d, 0x65, 0x64, 0x69, 0x61],
   [0x52, 0x69, 0x64, 0x67, 0x65, 0x4d, 0x61, 0x74, 0x63, 0x68, 0x4f, 0x6e],
   [0x53, 0x63, 0x68, 0x65, 0x64, 0x75, 0x6c, 0x65, 0x64, 0x4c, 0x69, 0x76],
   [0x65, 0x2e, 0x5f, 0x5f, 0x69, 0x6e, 0x69, 0x74, 0x5f, 0x5f, 0xa0, 0x24],
   [0x72, 0x6f, 0x6f, 0x74, 0x40, 0x84, 0x95, 0xa6, 0xbe, 0x00, 0x00, 0x00],
   [0x16, 0x00, 0x00, 0x00, 0x04, 0x00, 0x00, 0x00, 0x0d, 0x00, 0x00, 0x00],
   [0x0b, 0xa0, 0x2b, 0x73, 0x74, 0x72, 0x2e, 0x5f, 0x5f, 0x6d, 0x6f, 0x64],
   [0x5f, 0x5f, 0xa0, 0x26, 0x72, 0x65, 0x74, 0x75, 0x72, 0x6e, 0x40, 0x84],
   [0x95, 0xa6, 0xbe, 0x00, 0x00, 0x00, 0x4f, 0x00, 0x00, 0x00, 0x07, 0x00],
   [0x00, 0x00, 0x21, 0x00, 0x00, 0x00, 0x18, 0xa0, 0x09, 0x3c, 0x74, 0x61],
   [0x6c, 0x6c, 0x79, 0x2e, 0x73, 0x65, 0x72, 0x76, 0x69, 0x63, 0x65, 0x2e],
   [0x74, 0x61, 0x6c, 0x6c, 0x79, 0x5f, 0x73, 0x65, 0x72, 0x76, 0x69, 0x63],
   [0x65, 0x2e, 0x63, 0x6c, 0x69, 0x65, 0x6e, 0x74, 0x73, 0x2e, 0x54, 0x61],
   [0x6c, 0x6c, 0x79, 0x53, 0x65, 0x72, 0x76, 0x69, 0x63, 0x65, 0x2e, 0x63],
   [0x6f, 0x75, 0x6e, 0x74, 0x65, 0x72, 0x42, 0x75, 0x6d, 0x70, 0xa0, 0x27],
   [0x72, 0x65, 0x71, 0x75, 0x65, 0x73, 0x74, 0xa0, 0x90, 0x23, 0x6b, 0x65],
   [0x79, 0x40, 0x84, 0x95, 0xa6, 0xbe, 0x00, 0x00, 0x00, 0x0e, 0x00, 0x00],
   [0x00, 0x01, 0x00, 0x00, 0x00, 0x05, 0x00, 0x00, 0x00, 0x03, 0x2d, 0x41],
   [0x43, 0x54, 0x49, 0x56, 0x49, 0x54, 0x59, 0x5f, 0x46, 0x45, 0x45, 0x44],
   [0x84, 0x95, 0xa6, 0xbe, 0x00, 0x00, 0x09, 0x63, 0x00, 0x00, 0x02, 0x3a],
   [0x00, 0x00, 0x07, 0x3c, 0x00, 0x00, 0x06, 0xf6, 0xc0, 0x90, 0xd0, 0x40],
   [0x40, 0xa0, 0xd0, 0x40, 0x91, 0xb0, 0xa0, 0x25, 0x62, 0x6c, 0x6f, 0x6b],
   [0x73, 0xa0, 0x24, 0x61, 0x70, 0x70, 0x73, 0xa0, 0x28, 0x69, 0x67, 0x63],
   [0x61, 0x72, 0x62, 0x6f, 0x6e, 0xa0, 0x2a, 0x70, 0x75, 0x73, 0x68, 0x5f],
   [0x69, 0x6e, 0x66, 0x72, 0x61, 0xa0, 0x28, 0x72, 0x65, 0x67, 0x69, 0x73],
   [0x74, 0x65, 0x72, 0x40, 0xa0, 0x00, 0x78, 0x5c, 0xa0, 0x00, 0x78, 0x6c],
   [0xf0, 0x90, 0xd0, 0x40, 0x90, 0x2e, 0x55, 0x73, 0x65, 0x72, 0x43, 0x6f]] @
  [[0x6e, 0x74, 0x72, 0x6f, 0x6c, 0x6c, 0x65, 0x64, 0x08, 0x00, 0x00, 0x20],
   [0x00, 0x90, 0xa0, 0x40, 0x40, 0x40, 0x40, 0x90, 0xa0, 0x04, 0x15, 0xa0],
   [0x04, 0x14, 0xa0, 0x04, 0x13, 0xa0, 0x04, 0x08, 0x40, 0x40, 0x40, 0x40],
   [0xa0, 0xa0, 0xa0, 0xa0, 0x00, 0x40, 0x44, 0xa0, 0x00, 0x41, 0x01, 0x00],
   [0x93, 0x93, 0xc0, 0x08, 0x00, 0x00, 0x20, 0x00, 0xa0, 0x04, 0x21, 0xa0],
   [0x04, 0x20, 0xa0, 0x04, 0x1f, 0xa0, 0x04, 0x14, 0xa0, 0x2b, 0x71, 0x75],
   [0x65, 0x72, 0x79, 0x5f, 0x65, 0x64, 0x67, 0x65, 0x73, 0x40, 0xa0, 0xa0],
   [0xa0, 0xa0, 0x00, 0x40, 0x54, 0xa0, 0x00, 0x40, 0x58, 0xb0, 0x2f, 0x24],
   [0x70, 0x61, 0x72, 0x61, 0x6d, 0x65, 0x74, 0x65, 0x72, 0x24, 0x73, 0x65],
   [0x6c, 0x66, 0x40, 0x40, 0xa0, 0xa0, 0xa0, 0xa0, 0x00, 0x40, 0x5a, 0xa0],
   [0x00, 0x40, 0x67, 0xb0, 0x2f, 0x24, 0x70, 0x61, 0x72, 0x61, 0x6d, 0x65],
   [0x74, 0x65, 0x72, 0x24, 0x72, 0x6f, 0x6f, 0x74, 0x40, 0x90, 0xa0, 0xa0],
   [0xa0, 0x00, 0x40, 0x60, 0xa0, 0x00, 0x40, 0x67, 0x9c, 0x91, 0x09, 0x46],
   [0x24, 0x6c, 0x6f, 0x63, 0x61, 0x6c, 0x5f, 0x69, 0x67, 0x5f, 0x6e, 0x6f],
   [0x64, 0x65, 0x61, 0x70, 0x69, 0x3f, 0x65, 0x64, 0x67, 0x65, 0x73, 0x3f],
   [0x6d, 0x65, 0x64, 0x69, 0x61, 0x5f, 0x74, 0x6f, 0x5f, 0x73, 0x74, 0x61],
   [0x72, 0x5f, 0x73, 0x65, 0x61, 0x72, 0x63, 0x68, 0x5f, 0x6c, 0x69, 0x73],
   [0x74, 0x5f, 0x6f, 0x6e, 0x5f, 0x61, 0x64, 0x73, 0x5f, 0x6d, 0x65, 0x64],
   [0x69, 0x61, 0x24, 0x54, 0x51, 0x4c, 0x52, 0x6f, 0x6f, 0x74, 0x40, 0x40],
   [0x90, 0xa0, 0xa0, 0xa0, 0x00, 0x40, 0x6c, 0xa0, 0x00, 0x40, 0x00, 0x54],
   [0x9c, 0x90, 0xb0, 0xa0, 0x04, 0x07, 0x9c, 0x90, 0xb0, 0xa0, 0x04, 0x0b],
   [0x9c, 0x90, 0xb0, 0xa0, 0x04, 0x0f, 0x9c, 0x91, 0x04, 0x4f, 0x04, 0x4d],
   [0x40, 0x04, 0x4b, 0x40, 0x09, 0x28, 0x45, 0x64, 0x67, 0x65, 0x4d, 0x65],
   [0x64, 0x69, 0x61, 0x54, 0x6f, 0x53, 0x74, 0x61, 0x72, 0x53, 0x65, 0x61],
   [0x72, 0x63, 0x68, 0x4c, 0x69, 0x73, 0x74, 0x4f, 0x6e, 0x41, 0x64, 0x73],
   [0x4d, 0x65, 0x64, 0x69, 0x61, 0x51, 0x75, 0x65, 0x72, 0x79, 0x40, 0x40],
   [0x40, 0x90, 0xa0, 0x04, 0x52, 0xa0, 0x04, 0x51, 0xa0, 0x04, 0x50, 0x04],
   [0x3d, 0x40, 0x40, 0x40, 0x40, 0xa0, 0xa0, 0xa0, 0xa0, 0x00, 0x44, 0x44],
   [0xa0, 0x00, 0x45, 0x01, 0x00, 0x87, 0x93, 0xc0, 0x08, 0x00, 0x00, 0x20],
   [0x00, 0xa0, 0x04, 0x5d, 0xa0, 0x04, 0x5c, 0xa0, 0x04, 0x5b, 0xa0, 0x04]] @
  [[0x50, 0xa0, 0x2b, 0x71, 0x75, 0x65, 0x72, 0x79, 0x5f, 0x6e, 0x6f, 0x64],
   [0x65, 0x73, 0x40, 0xa0, 0xa0, 0xa0, 0xa0, 0x00, 0x44, 0x54, 0xa0, 0x00],
   [0x44, 0x58, 0xb0, 0x2f, 0x24, 0x70, 0x61, 0x72, 0x61, 0x6d, 0x65, 0x74],
   [0x65, 0x72, 0x24, 0x73, 0x65, 0x6c, 0x66, 0x40, 0x40, 0xa0, 0xa0, 0xa0],
   [0xa0, 0x00, 0x44, 0x5a, 0xa0, 0x00, 0x44, 0x67, 0xb0, 0x2f, 0x24, 0x70],
   [0x61, 0x72, 0x61, 0x6d, 0x65, 0x74, 0x65, 0x72, 0x24, 0x72, 0x6f, 0x6f],
   [0x74, 0x40, 0x90, 0xa0, 0xa0, 0xa0, 0x00, 0x44, 0x60, 0xa0, 0x00, 0x44],
   [0x67, 0x9c, 0x91, 0x04, 0x3c, 0x40, 0x40, 0x90, 0xa0, 0xa0, 0xa0, 0x00],
   [0x44, 0x6c, 0xa0, 0x00, 0x44, 0x00, 0x48, 0x9c, 0x90, 0xb0, 0xa0, 0x04],
   [0x07, 0x9c, 0x90, 0xb0, 0xa0, 0x04, 0x0b, 0x9c, 0x90, 0xb0, 0xa0, 0x04],
   [0x0f, 0x9c, 0x91, 0x2a, 0x69, 0x67, 0x5f, 0x6e, 0x6f, 0x64, 0x65, 0x61],
   [0x70, 0x69, 0x25, 0x6e, 0x6f, 0x64, 0x65, 0x73, 0x40, 0x36, 0x6d, 0x65],
   [0x64, 0x69, 0x61, 0x5f, 0x73, 0x74, 0x61, 0x72, 0x5f, 0x73, 0x65, 0x61],
   [0x72, 0x63, 0x68, 0x5f, 0x6c, 0x69, 0x73, 0x74, 0x40, 0x3c, 0x4e, 0x6f],
   [0x64, 0x65, 0x4d, 0x65, 0x64, 0x69, 0x61, 0x53, 0x74, 0x61, 0x72, 0x53],
   [0x65, 0x61, 0x72, 0x63, 0x68, 0x4c, 0x69, 0x73, 0x74, 0x51, 0x75, 0x65],
   [0x72, 0x79, 0x40, 0x40, 0x40, 0x90, 0x04, 0x3e, 0x40, 0x40, 0x40, 0x40],
   [0xa0, 0xa0, 0xa0, 0xa0, 0x00, 0x47, 0x44, 0xa0, 0x00, 0x48, 0x01, 0x00],
   [0x93, 0x93, 0xc0, 0x08, 0x00, 0x00, 0x20, 0x00, 0xa0, 0x04, 0x98, 0xa0],
   [0x04, 0x97, 0xa0, 0x04, 0x96, 0xa0, 0x04, 0x8b, 0xa0, 0x2c, 0x6c, 0x61],
   [0x6d, 0x62, 0x64, 0x61, 0x5f, 0x71, 0x75, 0x65, 0x72, 0x79, 0x40, 0xa0],
   [0xa0, 0xa0, 0xa0, 0x00, 0x47, 0x55, 0xa0, 0x00, 0x47, 0x59, 0xb0, 0x2f],
   [0x24, 0x70, 0x61, 0x72, 0x61, 0x6d, 0x65, 0x74, 0x65, 0x72, 0x24, 0x73],
   [0x65, 0x6c, 0x66, 0x40, 0x40, 0x40, 0x40, 0x90, 0xa0, 0xa0, 0xa0, 0x00],
   [0x47, 0x5e, 0xa0, 0x00, 0x47, 0x00, 0x46, 0x9c, 0x90, 0xb0, 0xa0, 0x04],
   [0x07, 0x9c, 0x90, 0xb0, 0xa0, 0x04, 0x0b, 0x9c, 0x90, 0xb0, 0xa0, 0x04],
   [0x0f, 0x9c, 0x91, 0x04, 0xb7, 0x04, 0xb5, 0x40, 0x04, 0xb3, 0x40, 0x04],
   [0x68, 0x40, 0x40, 0x40, 0x90, 0x04, 0x67, 0x40, 0x40, 0x40, 0x40, 0xa0],
   [0xa0, 0xa0, 0xa0, 0x00, 0x4a, 0x44, 0xa0, 0x00, 0x4c, 0x00, 0x6e, 0x93],
   [0xc0, 0x08, 0x00, 0x00, 0x20, 0x00, 0xa0, 0x04, 0xc1, 0xa0, 0x04, 0xc0]] @
  [[0xa0, 0x04, 0xbf, 0xa0, 0x04, 0xb4, 0xa0, 0x2a, 0x63, 0x6f, 0x6e, 0x63],
   [0x61, 0x74, 0x5f, 0x61, 0x6c, 0x6c, 0x40, 0xa0, 0xa0, 0xa0, 0xa0, 0x00],
   [0x4a, 0x53, 0xa0, 0x00, 0x4a, 0x57, 0xb0, 0x2f, 0x24, 0x70, 0x61, 0x72],
   [0x61, 0x6d, 0x65, 0x74, 0x65, 0x72, 0x24, 0x73, 0x65, 0x6c, 0x66, 0x40],
   [0x40, 0xa0, 0xa0, 0xa0, 0xa0, 0x00, 0x4a, 0x59, 0xa0, 0x00, 0x4a, 0x00],
   [0x50, 0xb0, 0x32, 0x24, 0x70, 0x61, 0x72, 0x61, 0x6d, 0x65, 0x74, 0x65],
   [0x72, 0x24, 0x71, 0x75, 0x65, 0x72, 0x69, 0x65, 0x73, 0x40, 0x90, 0xa0],
   [0xa0, 0xa0, 0x00, 0x4a, 0x62, 0xa0, 0x00, 0x4a, 0x00, 0x50, 0x92, 0xa0],
   [0xa0, 0xa0, 0xa0, 0x00, 0x4a, 0x62, 0xa0, 0x00, 0x4a, 0x66, 0x9c, 0x90],
   [0xb0, 0xa0, 0x04, 0x07, 0x9c, 0x90, 0xb0, 0xa0, 0x04, 0x0b, 0x9c, 0x91],
   [0x26, 0x74, 0x79, 0x70, 0x69, 0x6e, 0x67, 0x24, 0x4c, 0x69, 0x73, 0x74],
   [0x40, 0x2b, 0x5f, 0x5f, 0x67, 0x65, 0x74, 0x69, 0x74, 0x65, 0x6d, 0x5f],
   [0x5f, 0x41, 0xa0, 0xa0, 0x40, 0xa0, 0xa0, 0xa0, 0x00, 0x4a, 0x67, 0xa0],
   [0x00, 0x4a, 0x00, 0x4f, 0x9c, 0x90, 0xb0, 0xa0, 0x04, 0x07, 0x9c, 0x90],
   [0xb0, 0xa0, 0x04, 0x0b, 0x9c, 0x90, 0xb0, 0xa0, 0x04, 0x0f, 0x9c, 0x91],
   [0x05, 0x01, 0x00, 0x04, 0xfe, 0x40, 0x04, 0xfc, 0x40, 0x04, 0xb1, 0x40],
   [0x40, 0x40, 0x40, 0x90, 0xa0, 0xa0, 0xa0, 0x00, 0x4a, 0x00, 0x55, 0xa0],
   [0x00, 0x4a, 0x00, 0x7d, 0x9c, 0x90, 0xb0, 0xa0, 0x04, 0x07, 0x9c, 0x90],
   [0xb0, 0xa0, 0x04, 0x0b, 0x9c, 0x90, 0xb0, 0xa0, 0x04, 0x0f, 0x9c, 0x91],
   [0x05, 0x01, 0x13, 0x05, 0x01, 0x11, 0x40, 0x05, 0x01, 0x0f, 0x40, 0x04],
   [0xc4, 0x40, 0x40, 0x40, 0x90, 0x04, 0xc3, 0x40, 0x40, 0x40, 0x40, 0xa0],
   [0xa0, 0xa0, 0xa0, 0x00, 0x4e, 0x44, 0xa0, 0x00, 0x50, 0x00, 0x6d, 0x93],
   [0xc0, 0x08, 0x00, 0x00, 0x20, 0x00, 0xa0, 0x05, 0x01, 0x1d, 0xa0, 0x05],
   [0x01, 0x1c, 0xa0, 0x05, 0x01, 0x1b, 0xa0, 0x05, 0x01, 0x10, 0xa0, 0x33],
   [0x63, 0x6f, 0x6e, 0x63, 0x61, 0x74, 0x5f, 0x64, 0x69, 0x73, 0x6a, 0x6f],
   [0x69, 0x6e, 0x74, 0x5f, 0x61, 0x6c, 0x6c, 0x40, 0xa0, 0xa0, 0xa0, 0xa0],
   [0x00, 0x4e, 0x5c, 0xa0, 0x00, 0x4e, 0x60, 0x20, 0x00, 0x90, 0xa0, 0xa0],
   [0x03, 0xe6, 0x46, 0x89, 0x23, 0x40, 0x05, 0x11, 0x00, 0x40, 0xa0, 0x03],
   [0x00, 0x40, 0x00, 0x03, 0x40, 0x00, 0x11, 0x00, 0x40, 0x90, 0x40, 0x90],
   [0x04, 0x19, 0x90, 0x49, 0x90, 0x40, 0x90, 0xa0, 0x40, 0x40, 0x90, 0xa0]] @
  [[0x40, 0x90, 0x90, 0x03, 0xdc, 0x3e, 0xc5, 0xac, 0xc6, 0xd9, 0xb8, 0xc7],
   [0x90, 0x40, 0x40, 0x42, 0x90, 0x90, 0xc0, 0x40, 0xa0, 0xa0, 0x00, 0x79],
   [0x51, 0xa0, 0x00, 0x79, 0x59, 0x40, 0x41, 0x90, 0xa0, 0xa0, 0x03, 0x02],
   [0x00, 0x09, 0x01, 0x00, 0x00, 0x00, 0x00, 0x40, 0xa0, 0x03, 0x02, 0x00],
   [0x09, 0x01, 0x00, 0x00, 0x00, 0x00, 0x40, 0x90, 0xa0, 0x40, 0x40, 0x90],
   [0xa0, 0x40, 0x40, 0x90, 0xb0, 0xa0, 0xa0, 0x03, 0xc0, 0x00, 0x00, 0x00],
   [0x00, 0x00, 0x00, 0x00, 0x03, 0x3f, 0xff, 0xff, 0xff, 0xff, 0xff, 0xff],
   [0xff, 0x40, 0xa0, 0x04, 0x02, 0x40, 0x40, 0x90, 0x40, 0x40, 0x41, 0x40],
   [0x40, 0x41, 0xa0, 0xd0, 0x40, 0xb0, 0x40, 0x2a, 0x75, 0x73, 0x65, 0x72],
   [0x5f, 0x6f, 0x72, 0x5f, 0x69, 0x64, 0x40, 0xa0, 0xd0, 0x40, 0x40, 0xf0],
   [0x90, 0xd0, 0x40, 0x41, 0x08, 0x00, 0x00, 0x20, 0x00, 0x90, 0xa0, 0xa0],
   [0x40, 0x40, 0xa0, 0x40, 0x40, 0x90, 0x40, 0x90, 0xa0, 0x40, 0x40, 0x90],
   [0x47, 0x90, 0x40, 0x90, 0xa0, 0x40, 0x40, 0x90, 0xa0, 0x40, 0x40, 0x90],
   [0x40, 0x40, 0x41, 0x90, 0x90, 0xc0, 0xc0, 0x40, 0xa0, 0xa0, 0x00, 0x78],
   [0x74, 0xa0, 0x00, 0x78, 0x7e, 0x40, 0x41, 0x04, 0x30, 0x40, 0x42, 0x90],
   [0xa0, 0xa0, 0x03, 0xc6, 0x46, 0x89, 0x23, 0x40, 0x05, 0x11, 0x00, 0x40],
   [0xa0, 0x03, 0x02, 0x00, 0x09, 0x03, 0x40, 0x00, 0x00, 0x00, 0x40, 0x90],
   [0xa0, 0x40, 0x40, 0x90, 0xa0, 0x40, 0x40, 0x90, 0xb0, 0xa0, 0x04, 0x2d],
   [0x40, 0xa0, 0x04, 0x2e, 0x40, 0x40, 0x90, 0x40, 0x40, 0x41, 0x40, 0xd0],
   [0x40, 0xb0, 0x41, 0x27, 0x72, 0x65, 0x71, 0x75, 0x65, 0x73, 0x74, 0x40],
   [0xa0, 0xd0, 0x40, 0x40, 0xf0, 0x90, 0xd0, 0x40, 0x41, 0x08, 0x00, 0x00],
   [0x20, 0x00, 0x90, 0xa0, 0xa0, 0x40, 0x40, 0xa0, 0x40, 0x40, 0x90, 0x40],
   [0x90, 0xa0, 0x40, 0x40, 0x90, 0x47, 0x90, 0x40, 0x90, 0xa0, 0x40, 0x40],
   [0x90, 0xa0, 0x40, 0x40, 0x90, 0x40, 0x40, 0x41, 0x90, 0x90, 0xc0, 0xc0],
   [0x40, 0xa0, 0xa0, 0x00, 0x78, 0x00, 0x48, 0xa0, 0x00, 0x78, 0x00, 0x4f],
   [0x40, 0x41, 0x04, 0x5b, 0x40, 0x42, 0x90, 0xa0, 0xa0, 0x03, 0xc6, 0x46],
   [0x89, 0x23, 0x40, 0x05, 0x11, 0x00, 0x40, 0xa0, 0x03, 0x02, 0x00, 0x09],
   [0x03, 0x40, 0x00, 0x00, 0x00, 0x40, 0x90, 0xa0, 0x40, 0x40, 0x90, 0xa0],
   [0x40, 0x40, 0x90, 0xb0, 0xa0, 0x04, 0x58, 0x40, 0xa0, 0x04, 0x59, 0x40],
   [0x40, 0x90, 0x40, 0x40, 0x41, 0x40, 0x40, 0x41, 0x42, 0xd0, 0x40, 0x04]]"

definition dictionary_rows_39 :: "u8 list list" where
  "dictionary_rows_39 =
  [[0x56, 0xa0, 0xd0, 0xd0, 0xd0, 0x40, 0xc2, 0xb0, 0x40, 0x24, 0x73, 0x65],
   [0x6c, 0x66, 0x40, 0xa0, 0x90, 0x29, 0x5f, 0x6c, 0x61, 0x75, 0x6e, 0x63],
   [0x68, 0x65, 0x72, 0xa0, 0x90, 0x31, 0x5f, 0x65, 0x78, 0x70, 0x6f, 0x73],
   [0x75, 0x72, 0x65, 0x5f, 0x63, 0x6f, 0x6e, 0x74, 0x65, 0x78, 0x74, 0xa0],
   [0x90, 0x27, 0x5f, 0x70, 0x61, 0x72, 0x61, 0x6d, 0x73, 0xa0, 0x40, 0xa0],
   [0x90, 0x22, 0x67, 0x6b, 0xa0, 0x90, 0x30, 0x67, 0x6b, 0x5f, 0x65, 0x78],
   [0x70, 0x6f, 0x73, 0x75, 0x72, 0x65, 0x5f, 0x69, 0x6e, 0x66, 0x6f, 0xa0],
   [0x90, 0x2c, 0x67, 0x6b, 0x5f, 0x63, 0x6f, 0x6e, 0x64, 0x69, 0x74, 0x69],
   [0x6f, 0x6e, 0x40, 0xb0, 0x04, 0xc4, 0x04, 0x83, 0x04, 0x82, 0xa0, 0x91],
   [0xb0, 0x09, 0x6f, 0x6c, 0x61, 0x75, 0x6e, 0x63, 0x68, 0x65, 0x72, 0x2e],
   [0x63, 0x6f, 0x6e, 0x66, 0x69, 0x67, 0x73, 0x2e, 0x69, 0x67, 0x5f, 0x61],
   [0x6e, 0x64, 0x72, 0x6f, 0x69, 0x64, 0x5f, 0x77, 0x76, 0x5f, 0x66, 0x62],
   [0x5f, 0x73, 0x75, 0x70, 0x70, 0x6c, 0x79, 0x5f, 0x70, 0x6c, 0x61, 0x63],
   [0x65, 0x6d, 0x65, 0x6e, 0x74, 0x5f, 0x6c, 0x61, 0x75, 0x6e, 0x63, 0x68],
   [0x65, 0x72, 0x2e, 0x69, 0x67, 0x5f, 0x61, 0x6e, 0x64, 0x72, 0x6f, 0x69],
   [0x64, 0x5f, 0x77, 0x76, 0x5f, 0x66, 0x62, 0x5f, 0x73, 0x75, 0x70, 0x70],
   [0x6c, 0x79, 0x5f, 0x70, 0x6c, 0x61, 0x63, 0x65, 0x6d, 0x65, 0x6e, 0x74],
   [0x5f, 0x6c, 0x61, 0x75, 0x6e, 0x63, 0x68, 0x65, 0x72, 0x5f, 0x4c, 0x61],
   [0x75, 0x6e, 0x63, 0x68, 0x65, 0x72, 0x37, 0x61, 0x73, 0x79, 0x6e, 0x63],
   [0x5f, 0x65, 0x78, 0x70, 0x6f, 0x73, 0x65, 0x5f, 0x69, 0x73, 0x5f, 0x65],
   [0x6e, 0x61, 0x62, 0x6c, 0x65, 0x64, 0x40, 0x40, 0xf0, 0x90, 0xd0, 0x40],
   [0x92, 0x27, 0x4c, 0x6f, 0x67, 0x67, 0x69, 0x6e, 0x67, 0x08, 0x00, 0x00],
   [0x20, 0x00, 0x90, 0xa0, 0xa0, 0x03, 0xc6, 0x04, 0x01, 0x23, 0x44, 0x04],
   [0x11, 0x00, 0x40, 0xa0, 0x03, 0xc0, 0x04, 0x01, 0x01, 0x00, 0x00, 0x10],
   [0x00, 0x40, 0x90, 0x40, 0x90, 0x04, 0xba, 0x90, 0x4a, 0x90, 0x90, 0xc1],
   [0x40, 0x41, 0xc1, 0x40, 0x42, 0x90, 0x03, 0xf9, 0x2d, 0x54, 0x3f, 0x75],
   [0x0d, 0xf8, 0x6c, 0x90, 0x03, 0xc7, 0x31, 0xd5, 0xdf, 0x2b, 0x29, 0x73],
   [0x42, 0x90, 0x03, 0x36, 0x40, 0xcb, 0xb7, 0x9c, 0x05, 0x72, 0x4b, 0x90],
   [0xa0, 0x01, 0x10, 0x00, 0x40, 0x90, 0xa0, 0x40, 0x40, 0x90, 0x40, 0x40],
   [0x41, 0x90, 0x90, 0xc0, 0x40, 0x04, 0x78, 0x40, 0x41, 0x90, 0xa0, 0xa0]] @
  [[0x03, 0xc6, 0x46, 0x89, 0x23, 0x40, 0x05, 0x11, 0x00, 0x40, 0xa0, 0x03],
   [0x00, 0x00, 0x00, 0x03, 0x40, 0x00, 0x00, 0x00, 0x40, 0x90, 0xa0, 0x40],
   [0x40, 0x90, 0xa0, 0x40, 0x40, 0x90, 0xb0, 0xa0, 0x04, 0xa2, 0x40, 0xa0],
   [0xa0, 0x02, 0x00, 0x08, 0x94, 0x84, 0x02, 0x00, 0x08, 0x94, 0x85, 0x40],
   [0x40, 0x90, 0x40, 0x40, 0x41, 0xc2, 0x04, 0x46, 0xa0, 0x04, 0x44, 0xa0],
   [0x04, 0x42, 0xa0, 0x04, 0x40, 0xa0, 0x40, 0xa0, 0x04, 0x3e, 0xa0, 0x04],
   [0x3c, 0xa0, 0x90, 0x2d, 0x67, 0x6b, 0x5f, 0x67, 0x72, 0x6f, 0x75, 0x70],
   [0x5f, 0x6e, 0x61, 0x6d, 0x65, 0x40, 0x04, 0x3a, 0xa0, 0x04, 0x39, 0x40],
   [0xf0, 0x90, 0xd0, 0x40, 0x04, 0x35, 0x08, 0x00, 0x00, 0x20, 0x00, 0x90],
   [0xa0, 0xa0, 0x03, 0x06, 0x04, 0x01, 0x23, 0x44, 0x04, 0x11, 0x00, 0x40],
   [0xa0, 0x03, 0x00, 0x04, 0x00, 0x01, 0x00, 0x00, 0x10, 0x00, 0x40, 0x90],
   [0x40, 0x90, 0x04, 0xed, 0x90, 0x4a, 0x90, 0x90, 0x04, 0x33, 0x90, 0xa0],
   [0x01, 0x10, 0x00, 0x40, 0x90, 0xa0, 0x40, 0x40, 0x90, 0x40, 0x40, 0x41],
   [0x90, 0x90, 0xc0, 0x40, 0x04, 0xa6, 0x40, 0x41, 0x90, 0xa0, 0xa0, 0x03],
   [0xc6, 0x46, 0x89, 0x23, 0x40, 0x05, 0x11, 0x00, 0x40, 0xa0, 0x03, 0x00],
   [0x00, 0x00, 0x03, 0x40, 0x00, 0x00, 0x00, 0x40, 0x90, 0xa0, 0x40, 0x40],
   [0x90, 0xa0, 0x40, 0x40, 0x90, 0xb0, 0xa0, 0x04, 0xd0, 0x40, 0xa0, 0x04],
   [0x2e, 0x40, 0x40, 0x90, 0x40, 0xd0, 0x40, 0xc2, 0x04, 0x74, 0xa0, 0x04],
   [0x72, 0xa0, 0x04, 0x70, 0xa0, 0x04, 0x6e, 0xa0, 0x40, 0xa0, 0x04, 0x6c],
   [0xa0, 0x04, 0x6a, 0xa0, 0x90, 0x2f, 0x67, 0x6b, 0x5f, 0x70, 0x72, 0x6f],
   [0x6a, 0x65, 0x63, 0x74, 0x5f, 0x6e, 0x61, 0x6d, 0x65, 0x40, 0x04, 0x68],
   [0xa0, 0x04, 0x67, 0x40, 0xf0, 0x90, 0xd0, 0x40, 0x04, 0x63, 0x08, 0x64],
   [0x69, 0x61, 0x2e, 0x45, 0x64, 0x67, 0x65, 0x53, 0x65, 0x74, 0x53, 0x74],
   [0x6f, 0x72, 0x79, 0x41, 0x76, 0x61, 0x74, 0x61, 0x72, 0x4f, 0x6e, 0x44],
   [0x69, 0x72, 0x65, 0x63, 0x74, 0x54, 0x68, 0x72, 0x65, 0x61, 0x64, 0x4d],
   [0x65, 0x64, 0x69, 0x61, 0x2e, 0x5f, 0x5f, 0x69, 0x6e, 0x69, 0x74, 0x5f],
   [0x5f, 0xa0, 0x34, 0x69, 0x73, 0x5f, 0x75, 0x70, 0x64, 0x61, 0x74, 0x65],
   [0x5f, 0x77, 0x69, 0x74, 0x68, 0x5f, 0x6d, 0x65, 0x72, 0x67, 0x65, 0x40],
   [0x84, 0x95, 0xa6, 0xbe, 0x00, 0x00, 0x00, 0x06, 0x00, 0x00, 0x00, 0x01],
   [0x00, 0x00, 0x00, 0x03, 0x00, 0x00, 0x00, 0x02, 0x25, 0x70, 0x6f, 0x73]] @
  [[0x74, 0x73, 0x84, 0x95, 0xa6, 0xbe, 0x00, 0x00, 0x00, 0x41, 0x00, 0x00],
   [0x00, 0x04, 0x00, 0x00, 0x00, 0x17, 0x00, 0x00, 0x00, 0x0f, 0xa2, 0x90],
   [0x2d, 0x6c, 0x6f, 0x67, 0x67, 0x69, 0x6e, 0x67, 0x5f, 0x63, 0x6c, 0x61],
   [0x73, 0x73, 0x09, 0x2f, 0x73, 0x63, 0x75, 0x62, 0x61, 0x2e, 0x75, 0x73],
   [0x65, 0x72, 0x5f, 0x64, 0x65, 0x6c, 0x65, 0x74, 0x69, 0x6f, 0x6e, 0x5f],
   [0x73, 0x63, 0x75, 0x62, 0x61, 0x2e, 0x55, 0x73, 0x65, 0x72, 0x50, 0x65],
   [0x72, 0x6d, 0x44, 0x65, 0x6c, 0x65, 0x74, 0x69, 0x6f, 0x6e, 0x45, 0x76],
   [0x65, 0x6e, 0x74, 0x84, 0x95, 0xa6, 0xbe, 0x00, 0x00, 0x00, 0x8c, 0x00],
   [0x00, 0x00, 0x04, 0x00, 0x00, 0x00, 0x2b, 0x00, 0x00, 0x00, 0x1a, 0xa0],
   [0x09, 0x80, 0x62, 0x6c, 0x6f, 0x6b, 0x73, 0x2e, 0x61, 0x70, 0x70, 0x73],
   [0x2e, 0x69, 0x6e, 0x73, 0x74, 0x61, 0x67, 0x72, 0x61, 0x6d, 0x2e, 0x73],
   [0x6f, 0x63, 0x69, 0x61, 0x6c, 0x5f, 0x69, 0x6d, 0x70, 0x61, 0x63, 0x74],
   [0x2e, 0x66, 0x75, 0x6e, 0x64, 0x72, 0x61, 0x69, 0x73, 0x65, 0x72, 0x2e],
   [0x6d, 0x75, 0x74, 0x61, 0x74, 0x69, 0x6f, 0x6e, 0x73, 0x2e, 0x65, 0x64],
   [0x69, 0x74, 0x5f, 0x66, 0x75, 0x6e, 0x64, 0x72, 0x61, 0x69, 0x73, 0x65],
   [0x72, 0x5f, 0x6d, 0x75, 0x74, 0x61, 0x74, 0x69, 0x6f, 0x6e, 0x2e, 0x41],
   [0x73, 0x79, 0x6e, 0x63, 0x45, 0x64, 0x69, 0x74, 0x46, 0x75, 0x6e, 0x64],
   [0x72, 0x61, 0x69, 0x73, 0x65, 0x72, 0x4d, 0x75, 0x74, 0x61, 0x74, 0x69],
   [0x6f, 0x6e, 0x2e, 0x61, 0x73, 0x79, 0x6e, 0x63, 0x5f, 0x73, 0x65, 0x72],
   [0x76, 0x65, 0x72, 0x5f, 0x68, 0x61, 0x6e, 0x64, 0x6c, 0x65, 0xa0, 0x26],
   [0x72, 0x65, 0x74, 0x75, 0x72, 0x6e, 0x40, 0x84, 0x95, 0xa6, 0xbe, 0x00],
   [0x00, 0x0e, 0xa0, 0x00, 0x00, 0x02, 0x89, 0x00, 0x00, 0x08, 0xa5, 0x00],
   [0x00, 0x08, 0x8b, 0xc0, 0x90, 0x40, 0xa0, 0x40, 0xd0, 0x40, 0xb0, 0x40],
   [0x2c, 0x72, 0x65, 0x63, 0x69, 0x70, 0x69, 0x65, 0x6e, 0x74, 0x5f, 0x69],
   [0x64, 0x40, 0xa0, 0xd0, 0x40, 0xc2, 0xb0, 0x42, 0x2a, 0x74, 0x6f, 0x5f],
   [0x75, 0x73, 0x65, 0x72, 0x5f, 0x69, 0x64, 0x40, 0x40, 0xb0, 0xa0, 0x30],
   [0x69, 0x67, 0x5f, 0x6e, 0x6f, 0x74, 0x69, 0x66, 0x69, 0x63, 0x61, 0x74],
   [0x69, 0x6f, 0x6e, 0x73, 0xa0, 0x26, 0x68, 0x65, 0x6c, 0x70, 0x65, 0x72],
   [0x40, 0xa0, 0x01, 0x07, 0x5f, 0x00, 0x41, 0xa0, 0x01, 0x07, 0x5f, 0x00],
   [0x4d, 0xa0, 0x91, 0xb0, 0x09, 0x33, 0x69, 0x67, 0x5f, 0x6e, 0x6f, 0x74]] @
  [[0x69, 0x66, 0x69, 0x63, 0x61, 0x74, 0x69, 0x6f, 0x6e, 0x73, 0x2e, 0x70],
   [0x6c, 0x61, 0x74, 0x66, 0x6f, 0x72, 0x6d, 0x2e, 0x73, 0x65, 0x6e, 0x64],
   [0x65, 0x72, 0x2e, 0x4e, 0x6f, 0x74, 0x69, 0x66, 0x69, 0x63, 0x61, 0x74],
   [0x69, 0x6f, 0x6e, 0x53, 0x65, 0x6e, 0x64, 0x65, 0x72, 0x2a, 0x61, 0x73],
   [0x79, 0x6e, 0x63, 0x5f, 0x73, 0x65, 0x6e, 0x64, 0x40, 0x40, 0xf0, 0x90],
   [0xd0, 0xd0, 0x40, 0x92, 0x27, 0x4c, 0x6f, 0x67, 0x67, 0x69, 0x6e, 0x67],
   [0x08, 0x00, 0x00, 0x20, 0x00, 0x90, 0xa0, 0xa0, 0x03, 0xc6, 0x86, 0x89],
   [0x23, 0x4c, 0x0f, 0x93, 0x80, 0x90, 0xc1, 0x40, 0x41, 0xc1, 0x40, 0x42],
   [0x90, 0x03, 0xd3, 0x75, 0xf7, 0x89, 0x55, 0xaf, 0x1d, 0x4c, 0x90, 0x03],
   [0x27, 0x8a, 0xf3, 0x56, 0x4d, 0x54, 0x24, 0xe6, 0x90, 0x03, 0xcd, 0xfd],
   [0x23, 0x10, 0x65, 0x08, 0x43, 0x19, 0xa0, 0x03, 0x02, 0x00, 0x01, 0x01],
   [0x00, 0x00, 0x00, 0x00, 0x40, 0x90, 0x40, 0x90, 0xa0, 0x03, 0x3f, 0xff],
   [0xff, 0xff, 0xff, 0xff, 0xff, 0xff, 0x40, 0x90, 0x44, 0x90, 0x90, 0xc1],
   [0x40, 0x41, 0xc1, 0x40, 0x42, 0xc1, 0x40, 0x44, 0xc1, 0x40, 0x48, 0xc1],
   [0x40, 0x50, 0xc1, 0x40, 0x60, 0xc1, 0x40, 0x00, 0x40, 0xc1, 0x01, 0x00],
   [0x80, 0x01, 0x04, 0x00, 0x90, 0x03, 0xd0, 0x53, 0x7e, 0xbd, 0x52, 0xd3],
   [0x00, 0x80, 0x90, 0x03, 0x08, 0x9c, 0xed, 0x7a, 0x54, 0xe3, 0x9c, 0x80],
   [0x90, 0x03, 0x19, 0x95, 0xb4, 0x16, 0x5d, 0x1a, 0x98, 0xc0, 0xc1, 0x01],
   [0x00, 0xa0, 0x01, 0x01, 0x00, 0x90, 0x03, 0xdb, 0x9e, 0xdb, 0x41, 0xca],
   [0x3c, 0x6c, 0xa0, 0x90, 0x03, 0x0d, 0x72, 0x5e, 0x23, 0x76, 0xbc, 0x05],
   [0xa0, 0xc1, 0x50, 0x60, 0xc1, 0x50, 0x00, 0x40, 0x90, 0x03, 0xd4, 0xbc],
   [0xa8, 0x8d, 0x40, 0x86, 0x3c, 0x90, 0x90, 0x03, 0x1b, 0xdf, 0x93, 0xc2],
   [0x3c, 0x47, 0x1d, 0x50, 0x90, 0x03, 0xf2, 0xc9, 0x9b, 0x33, 0xf3, 0x0e],
   [0xbe, 0xf0, 0xc1, 0x48, 0x50, 0xc1, 0x48, 0x60, 0x90, 0x03, 0x25, 0x54],
   [0x7d, 0xb5, 0x09, 0xaa, 0x40, 0xc8, 0xc1, 0x68, 0x01, 0x00, 0x80, 0xc1],
   [0x68, 0x01, 0x01, 0x00, 0x90, 0x03, 0x03, 0x58, 0x32, 0x42, 0x65, 0xb9],
   [0x22, 0x28, 0x90, 0x03, 0x14, 0xab, 0x41, 0x45, 0x93, 0x74, 0xdb, 0x28],
   [0xc1, 0x01, 0x02, 0xa8, 0x01, 0x04, 0x00, 0x90, 0x03, 0xdb, 0xf5, 0xf1],
   [0x85, 0x75, 0x9d, 0xaa, 0xa8, 0x90, 0x03, 0xe6, 0x3d, 0xf4, 0x01, 0x5f],
   [0xcf, 0x6e, 0xa8, 0xc1, 0x58, 0x60, 0xc1, 0x00, 0x58, 0x01, 0x00, 0x80]] @
  [[0x90, 0x03, 0xc4, 0x81, 0xda, 0xac, 0x8b, 0xf1, 0xec, 0x58, 0x90, 0x03],
   [0xcf, 0x7c, 0x22, 0x41, 0xcd, 0x3e, 0xea, 0xd8, 0xc1, 0x78, 0x00, 0x40],
   [0x90, 0x03, 0x0c, 0x93, 0x09, 0xa7, 0x32, 0xef, 0x91, 0x38, 0x90, 0x03],
   [0xd6, 0x63, 0x7c, 0x89, 0xab, 0x27, 0xda, 0xf8, 0xc1, 0x44, 0x48, 0xc1],
   [0x44, 0x50, 0xc1, 0x64, 0x01, 0x00, 0x80, 0xc1, 0x01, 0x02, 0x24, 0x01],
   [0x04, 0x00, 0x90, 0x03, 0xca, 0xcd, 0x27, 0xe8, 0x79, 0xc2, 0xea, 0x24],
   [0x90, 0x03, 0x08, 0x24, 0xb9, 0x75, 0x28, 0xd5, 0x1e, 0x24, 0x90, 0x03],
   [0x0d, 0xbe, 0x90, 0x91, 0xfe, 0xad, 0x75, 0xa4, 0xc1, 0x54, 0x60, 0x90],
   [0x03, 0xf5, 0xd9, 0x02, 0x42, 0x79, 0xdb, 0x84, 0x14, 0x90, 0x03, 0x33],
   [0x42, 0x4a, 0x51, 0x75, 0x7e, 0x9e, 0xf4, 0xc1, 0x4c, 0x50, 0xc1, 0x4c],
   [0x60, 0x90, 0x03, 0xec, 0x45, 0xb4, 0xa2, 0x1c, 0x3f, 0x6b, 0x0c, 0xc1],
   [0x6c, 0x00, 0x40, 0x90, 0x03, 0xf8, 0x94, 0x56, 0xe1, 0xd5, 0xbb, 0x11],
   [0xac, 0xc1, 0x00, 0x6c, 0x01, 0x00, 0x80, 0xc1, 0x00, 0x6c, 0x01, 0x02],
   [0x00, 0x90, 0x03, 0xf9, 0x2d, 0x54, 0x3f, 0x75, 0x0d, 0xf8, 0x6c, 0x90],
   [0x03, 0x05, 0x74, 0x44, 0x1e, 0x40, 0xc0, 0xc6, 0x6c, 0x90, 0x03, 0xcf],
   [0xa5, 0xf3, 0xb7, 0x29, 0x67, 0xc4, 0xec, 0xc1, 0x5c, 0x60, 0x90, 0x03],
   [0x2c, 0x74, 0xe6, 0x5a, 0x90, 0x5f, 0x54, 0xdc, 0xc1, 0x7c, 0x00, 0x40],
   [0xc1, 0x7c, 0x01, 0x65, 0x5f, 0x65, 0x64, 0x67, 0x65, 0x5f, 0x73, 0x65],
   [0x74, 0x74, 0x65, 0x72, 0x40, 0xa0, 0xa0, 0x40, 0xa0, 0xa0, 0xa0, 0x00],
   [0x5e, 0x56, 0xa0, 0x00, 0x5e, 0x01, 0x00, 0x8f, 0x92, 0xa0, 0xa0, 0xa0],
   [0xa0, 0x00, 0x5e, 0x56, 0xa0, 0x00, 0x5e, 0x65, 0x9c, 0x90, 0xb0, 0xa0],
   [0x04, 0x07, 0x9c, 0x90, 0xb0, 0xa0, 0x04, 0x0b, 0x9c, 0x90, 0xb0, 0xa0],
   [0x04, 0x0f, 0x9c, 0x91, 0x27, 0x6e, 0x6f, 0x64, 0x65, 0x61, 0x70, 0x69],
   [0x27, 0x70, 0x72, 0x69, 0x76, 0x61, 0x63, 0x79, 0x40, 0x31, 0x6e, 0x6f],
   [0x64, 0x65, 0x5f, 0x78, 0x69, 0x64, 0x5f, 0x6d, 0x65, 0x74, 0x61, 0x64],
   [0x61, 0x74, 0x61, 0x40, 0x2f, 0x45, 0x64, 0x67, 0x65, 0x58, 0x49, 0x44],
   [0x4d, 0x65, 0x74, 0x61, 0x64, 0x61, 0x74, 0x61, 0x40, 0xa0, 0xa0, 0x90],
   [0xa0, 0xa0, 0xa0, 0x00, 0x5e, 0x66, 0xa0, 0x00, 0x5e, 0x71, 0x36, 0x24],
   [0x70, 0x61, 0x72, 0x61, 0x6d, 0x65, 0x74, 0x65, 0x72, 0x24, 0x61, 0x73],
   [0x73, 0x65, 0x74, 0x5f, 0x63, 0x6c, 0x61, 0x73, 0x73, 0xa0, 0xa0, 0xa0]]"

definition dictionary_rows_40 :: "u8 list list" where
  "dictionary_rows_40 =
  [[0x00, 0x5e, 0x72, 0xa0, 0x00, 0x5e, 0x7d, 0x94, 0x94, 0xa0, 0x29, 0x6e],
   [0x6f, 0x64, 0x65, 0x2e, 0x65, 0x64, 0x67, 0x65, 0x40, 0xa0, 0xa0, 0x90],
   [0xa0, 0xa0, 0xa0, 0x00, 0x5e, 0x7f, 0xa0, 0x00, 0x5e, 0x00, 0x43, 0x2f],
   [0x24, 0x70, 0x61, 0x72, 0x61, 0x6d, 0x65, 0x74, 0x65, 0x72, 0x24, 0x72],
   [0x65, 0x70, 0x6f, 0xa0, 0xa0, 0xa0, 0x00, 0x5e, 0x00, 0x44, 0xa0, 0x00],
   [0x5e, 0x00, 0x56, 0x94, 0x94, 0xa0, 0x30, 0x69, 0x6e, 0x73, 0x74, 0x61],
   [0x67, 0x72, 0x61, 0x6d, 0x2d, 0x73, 0x65, 0x72, 0x76, 0x65, 0x72, 0x40],
   [0xa0, 0xa0, 0x90, 0xa0, 0xa0, 0xa0, 0x00, 0x5e, 0x00, 0x58, 0xa0, 0x00],
   [0x5e, 0x00, 0x63, 0x36, 0x24, 0x70, 0x61, 0x72, 0x61, 0x6d, 0x65, 0x74],
   [0x65, 0x72, 0x24, 0x73, 0x63, 0x68, 0x65, 0x6d, 0x61, 0x5f, 0x6e, 0x61],
   [0x6d, 0x65, 0xa0, 0xa0, 0xa0, 0x00, 0x5e, 0x00, 0x64, 0xa0, 0x00, 0x5e],
   [0x00, 0x7d, 0x94, 0x94, 0xa0, 0x37, 0x69, 0x67, 0x5f, 0x73, 0x65, 0x6c],
   [0x66, 0x69, 0x65, 0x5f, 0x73, 0x74, 0x69, 0x63, 0x6b, 0x65, 0x72, 0x5f],
   [0x6d, 0x65, 0x64, 0x69, 0x61, 0x40, 0xa0, 0xa0, 0x90, 0xa0, 0xa0, 0xa0],
   [0x00, 0x5e, 0x00, 0x7f, 0xa0, 0x00, 0x5e, 0x01, 0x00, 0x83, 0x2f, 0x24],
   [0x70, 0x61, 0x72, 0x61, 0x6d, 0x65, 0x74, 0x65, 0x72, 0x24, 0x65, 0x64],
   [0x67, 0x65, 0xa0, 0xa0, 0xa0, 0x00, 0x5e, 0x01, 0x00, 0x84, 0xa0, 0x00],
   [0x5e, 0x01, 0x00, 0x8e, 0x94, 0x94, 0xa0, 0x28, 0x6c, 0x69, 0x6b, 0x65],
   [0x64, 0x5f, 0x62, 0x79, 0x40, 0x40, 0x40, 0x40, 0x84, 0x95, 0xa6, 0xbe],
   [0x00, 0x00, 0x00, 0x01, 0x00, 0x00, 0x00, 0x00, 0x00, 0x00, 0x00, 0x00],
   [0x00, 0x00, 0x00, 0x00, 0x40, 0x84, 0x95, 0xa6, 0xbe, 0x00, 0x00, 0x01],
   [0xbb, 0x00, 0x00, 0x00, 0x52, 0x00, 0x00, 0x01, 0x50, 0x00, 0x00, 0x01],
   [0x2f, 0xd1, 0xd1, 0xa0, 0xa0, 0xa0, 0x00, 0x53, 0x4f, 0xa0, 0x00, 0x54],
   [0x00, 0x73, 0x90, 0xc0, 0x90, 0xd0, 0x40, 0xa0, 0xe0, 0x91, 0xb0, 0x26],
   [0x6f, 0x62, 0x6a, 0x65, 0x63, 0x74, 0x27, 0x5f, 0x5f, 0x6e, 0x65, 0x77],
   [0x5f, 0x5f, 0x40, 0x41, 0x40, 0x40, 0x90, 0xc0, 0x40, 0x40, 0x40, 0x40],
   [0x40, 0x40, 0xa0, 0xe0, 0x91, 0xb0, 0x3d, 0x6e, 0x6f, 0x64, 0x65, 0x61],
   [0x70, 0x69, 0x2e, 0x51, 0x75, 0x65, 0x72, 0x79, 0x2e, 0x4e, 0x6f, 0x64],
   [0x65, 0x51, 0x4c, 0x51, 0x75, 0x65, 0x72, 0x79, 0x42, 0x61, 0x73, 0x65],
   [0x28, 0x5f, 0x5f, 0x69, 0x6e, 0x69, 0x74, 0x5f, 0x5f, 0x40, 0x41, 0x40]] @
  [[0x40, 0x90, 0x04, 0x08, 0x40, 0x40, 0x40, 0x40, 0x40, 0x40, 0x40, 0xa0],
   [0xa0, 0x00, 0x53, 0x00, 0x44, 0xa0, 0x00, 0x54, 0x00, 0x72, 0x90, 0xc0],
   [0x90, 0xd0, 0x40, 0x40, 0x40, 0x40, 0x41, 0x40, 0x40, 0x40, 0x40, 0x42],
   [0xa0, 0xa0, 0x00, 0x54, 0x50, 0xa0, 0x00, 0x54, 0x00, 0x47, 0x90, 0xc0],
   [0x40, 0x90, 0xb0, 0xa0, 0xe0, 0x91, 0xb0, 0x09, 0x74, 0x69, 0x67, 0x5f],
   [0x6e, 0x6f, 0x64, 0x65, 0x61, 0x70, 0x69, 0x2e, 0x65, 0x64, 0x67, 0x65],
   [0x73, 0x2e, 0x73, 0x74, 0x6f, 0x72, 0x79, 0x5f, 0x6d, 0x65, 0x64, 0x69],
   [0x61, 0x5f, 0x74, 0x6f, 0x5f, 0x6f, 0x77, 0x6e, 0x65, 0x72, 0x5f, 0x6f],
   [0x6e, 0x5f, 0x64, 0x69, 0x72, 0x65, 0x63, 0x74, 0x5f, 0x63, 0x68, 0x61],
   [0x6e, 0x6e, 0x65, 0x6c, 0x5f, 0x6d, 0x65, 0x64, 0x69, 0x61, 0x5f, 0x66],
   [0x61, 0x63, 0x61, 0x64, 0x65, 0x2e, 0x45, 0x64, 0x67, 0x65, 0x53, 0x74],
   [0x6f, 0x72, 0x79, 0x4d, 0x65, 0x64, 0x69, 0x61, 0x54, 0x6f, 0x4f, 0x77],
   [0x6e, 0x65, 0x72, 0x4f, 0x6e, 0x44, 0x69, 0x72, 0x65, 0x63, 0x74, 0x43],
   [0x68, 0x61, 0x6e, 0x6e, 0x65, 0x6c, 0x4d, 0x65, 0x64, 0x69, 0x61, 0x46],
   [0x61, 0x63, 0x61, 0x64, 0x65, 0x27, 0x5f, 0x53, 0x43, 0x48, 0x45, 0x4d],
   [0x41, 0x40, 0x41, 0x40, 0x40, 0x90, 0xc0, 0x40, 0x40, 0x40, 0x40, 0x40],
   [0x40, 0x40, 0x40, 0x40, 0x40, 0xa0, 0xa0, 0xa0, 0x00, 0x54, 0x00, 0x69],
   [0xa0, 0x00, 0x54, 0x00, 0x70, 0x91, 0xd0, 0x40, 0x28, 0x5f, 0x5f, 0x69],
   [0x74, 0x65, 0x72, 0x5f, 0x5f, 0xc0, 0x90, 0xd0, 0xa0, 0xe0, 0x91, 0xb0],
   [0x24, 0x6c, 0x69, 0x73, 0x74, 0x28, 0x5f, 0x5f, 0x69, 0x74, 0x65, 0x72],
   [0x5f, 0x5f, 0x40, 0x41, 0x40, 0x40, 0x90, 0xc0, 0x40, 0x40, 0x40, 0x40],
   [0x90, 0x24, 0x6c, 0x69, 0x73, 0x74, 0x40, 0x40, 0x40, 0x40, 0x40, 0x40],
   [0x40, 0x40, 0xd0, 0x40, 0x28, 0x5f, 0x5f, 0x6e, 0x65, 0x78, 0x74, 0x5f],
   [0x5f, 0xc0, 0x90, 0xd0, 0xa0, 0xe0, 0x91, 0xb0, 0x2f, 0x74, 0x79, 0x70],
   [0x69, 0x6e, 0x67, 0x2e, 0x49, 0x74, 0x65, 0x72, 0x61, 0x74, 0x6f, 0x72],
   [0x28, 0x5f, 0x5f, 0x6e, 0x65, 0x78, 0x74, 0x5f, 0x5f, 0x40, 0x41, 0x40],
   [0x40, 0x90, 0xc0, 0x40, 0x40, 0x40, 0x40, 0x90, 0x2f, 0x74, 0x79, 0x70],
   [0x69, 0x6e, 0x67, 0x2e, 0x49, 0x74, 0x65, 0x72, 0x61, 0x74, 0x6f, 0x72],
   [0x40, 0x40, 0x40, 0x40, 0x40, 0x40, 0x40, 0x40, 0x40, 0x41, 0x42, 0x43],
   [0x84, 0x95, 0xa6, 0xbe, 0x00, 0x00, 0x00, 0x01, 0x00, 0x00, 0x00, 0x00]] @
  [[0x00, 0x00, 0x00, 0x00, 0x00, 0x00, 0x00, 0x00, 0x40, 0x84, 0x95, 0xa6],
   [0xbe, 0x00, 0x00, 0x00, 0x01, 0x00, 0x00, 0x00, 0x00, 0x00, 0x00, 0x00],
   [0x00, 0x00, 0x00, 0x00, 0x00, 0x40, 0x84, 0x95, 0xa6, 0xbe, 0x00, 0x00],
   [0x00, 0x01, 0x00, 0x00, 0x00, 0x00, 0x00, 0x00, 0x00, 0x00, 0x00, 0x00],
   [0x00, 0x00, 0x40, 0x84, 0x95, 0xa6, 0xbe, 0x00, 0x00, 0x01, 0x34, 0x00],
   [0x00, 0x00, 0x2a, 0x00, 0x00, 0x00, 0xbf, 0x00, 0x00, 0x00, 0xa5, 0xd1],
   [0xd1, 0x40, 0xa0, 0xa0, 0x01, 0x00, 0x8b, 0x48, 0xa0, 0x01, 0x00, 0x8b],
   [0x6d, 0x90, 0xc0, 0x40, 0x90, 0xb0, 0xa0, 0xe0, 0x91, 0xb0, 0x09, 0x34],
   [0x69, 0x67, 0x5f, 0x6e, 0x6f, 0x64, 0x65, 0x61, 0x70, 0x69, 0x2e, 0x6e],
   [0x6f, 0x64, 0x65, 0x61, 0x70, 0x69, 0x5f, 0x69, 0x6e, 0x73, 0x74, 0x61],
   [0x67, 0x72, 0x61, 0x6d, 0x2e, 0x50, 0x72, 0x6f, 0x6a, 0x65, 0x63, 0x74],
   [0x4e, 0x6f, 0x64, 0x65, 0x61, 0x70, 0x69, 0x49, 0x6e, 0x73, 0x74, 0x61],
   [0x67, 0x72, 0x61, 0x6d, 0x32, 0x69, 0x6e, 0x11, 0x19, 0x40, 0xf0, 0x90],
   [0xd0, 0x40, 0x04, 0x4d, 0x08, 0x00, 0x00, 0x20, 0x00, 0x90, 0xa0, 0xa0],
   [0x03, 0x06, 0x00, 0x09, 0x01, 0x00, 0x00, 0x00, 0x00, 0x40, 0xa0, 0x03],
   [0x00, 0x00, 0x09, 0x01, 0x00, 0x00, 0x00, 0x00, 0x40, 0x90, 0x40, 0x90],
   [0x05, 0x11, 0x75, 0x90, 0x46, 0x90, 0x90, 0xc1, 0x40, 0x41, 0x90, 0x03],
   [0x2d, 0x81, 0x04, 0xe3, 0x00, 0x32, 0xa8, 0xd0, 0x90, 0x03, 0xc3, 0xfe],
   [0x40, 0xab, 0x75, 0x00, 0x63, 0x1b, 0x90, 0xa0, 0x40, 0x40, 0x90, 0xa0],
   [0x40, 0x40, 0x90, 0x40, 0xd0, 0x40, 0xb5, 0x40, 0x04, 0x4b, 0x04, 0x43],
   [0x08, 0x00, 0x00, 0x20, 0x00, 0x90, 0xa0, 0xa0, 0x03, 0x06, 0x04, 0x09],
   [0x03, 0xc0, 0x00, 0x00, 0x00, 0x90, 0x90, 0x03, 0xc5, 0x86, 0xd7, 0x2c],
   [0x6f, 0xb2, 0x8b, 0x0c, 0xa0, 0x03, 0x00, 0x04, 0x00, 0x03, 0xc0, 0x00],
   [0x00, 0x00, 0x90, 0x04, 0x41, 0x90, 0x40, 0x90, 0x05, 0x11, 0x8c, 0x90],
   [0x42, 0x90, 0x90, 0x90, 0x03, 0xfb, 0xd9, 0xfc, 0x23, 0x15, 0x23, 0xf7],
   [0xbc, 0x90, 0xa0, 0x40, 0x40, 0x90, 0xa0, 0x40, 0x40, 0x90, 0x40, 0x40],
   [0x41, 0x42, 0x90, 0x05, 0x10, 0x08, 0x90, 0xa0, 0xa0, 0x40, 0x40, 0xa0],
   [0x40, 0x40, 0x90, 0xa0, 0x40, 0x40, 0x90, 0xa0, 0x40, 0x40, 0x90, 0xb0],
   [0xa0, 0x05, 0x11, 0x84, 0x40, 0xa0, 0x05, 0x11, 0x83, 0x40, 0x40, 0x90],
   [0x40, 0x40, 0x41, 0x42, 0x40, 0x40, 0x41, 0x42, 0xb0, 0xb0, 0x90, 0x40]] @
  [[0x90, 0x40, 0xa0, 0x04, 0x03, 0x04, 0x02, 0x04, 0x04, 0x40, 0x40, 0x84],
   [0x95, 0xa6, 0xbe, 0x00, 0x00, 0x00, 0x5c, 0x00, 0x00, 0x00, 0x04, 0x00],
   [0x00, 0x00, 0x1f, 0x00, 0x00, 0x00, 0x14, 0xa0, 0x09, 0x50, 0x4f, 0x62],
   [0x6a, 0x7b, 0x62, 0x6c, 0x6f, 0x6b, 0x73, 0x2e, 0x61, 0x70, 0x70, 0x73],
   [0x2e, 0x69, 0x6e, 0x73, 0x74, 0x61, 0x67, 0x72, 0x61, 0x6d, 0x2e, 0x66],
   [0x62, 0x65, 0x2e, 0x73, 0x63, 0x72, 0x65, 0x65, 0x6e, 0x73, 0x2e, 0x63],
   [0x6f, 0x6e, 0x66, 0x69, 0x72, 0x6d, 0x5f, 0x73, 0x65, 0x74, 0x74, 0x69],
   [0x6e, 0x67, 0x73, 0x2e, 0x43, 0x6f, 0x6e, 0x66, 0x69, 0x72, 0x6d, 0x53],
   [0x65, 0x74, 0x74, 0x69, 0x6e, 0x67, 0x73, 0x2e, 0x66, 0x62, 0x65, 0x5f],
   [0x73, 0x74, 0x61, 0x74, 0x65, 0x7d, 0xa0, 0x26, 0x72, 0x65, 0x74, 0x75],
   [0x72, 0x6e, 0x40, 0x84, 0x95, 0xa6, 0xbe, 0x00, 0x00, 0x02, 0xc3, 0x00],
   [0x00, 0x00, 0xd1, 0x00, 0x00, 0x02, 0x6f, 0x00, 0x00, 0x02, 0x53, 0xb0],
   [0xa0, 0x26, 0x66, 0x62, 0x63, 0x6f, 0x64, 0x65, 0xa0, 0x2b, 0x70, 0x79],
   [0x33, 0x5f, 0x61, 0x73, 0x79, 0x6e, 0x63, 0x69, 0x6f, 0xa0, 0x29, 0x69],
   [0x6e, 0x73, 0x74, 0x61, 0x67, 0x72, 0x61, 0x6d, 0xa0, 0x2a, 0x64, 0x69],
   [0x73, 0x74, 0x69, 0x6c, 0x6c, 0x65, 0x72, 0x79, 0xa0, 0x26, 0x61, 0x70],
   [0x70, 0x65, 0x61, 0x6c, 0xa0, 0x25, 0x74, 0x79, 0x70, 0x65, 0x73, 0x40],
   [0x90, 0xa0, 0xa0, 0xa0, 0x01, 0x03, 0x42, 0x44, 0xa0, 0x01, 0x03, 0x42],
   [0x01, 0x00, 0x83, 0xc0, 0x08, 0x00, 0x00, 0x20, 0x00, 0xa0, 0x04, 0x13],
   [0xa0, 0x04, 0x12, 0xa0, 0x04, 0x11, 0xa0, 0x04, 0x10, 0xa0, 0x04, 0x0f],
   [0xa0, 0x04, 0x0e, 0xa0, 0x3b, 0x43, 0x68, 0x65, 0x63, 0x6b, 0x46, 0x45],
   [0x50, 0x49, 0x6e, 0x61, 0x63, 0x74, 0x69, 0x76, 0x61, 0x74, 0x69, 0x6f],
   [0x6e, 0x52, 0x65, 0x71, 0x75, 0x65, 0x73, 0x74, 0xa0, 0x2a, 0x5f, 0x5f],
   [0x72, 0x65, 0x64, 0x75, 0x63, 0x65, 0x5f, 0x5f, 0x40, 0xa0, 0xa0, 0xa0],
   [0xa0, 0x01, 0x03, 0x42, 0x53, 0xa0, 0x01, 0x03, 0x42, 0x57, 0xb0, 0x2f],
   [0x24, 0x70, 0x61, 0x72, 0x61, 0x6d, 0x65, 0x74, 0x65, 0x72, 0x24, 0x73],
   [0x65, 0x6c, 0x66, 0x40, 0x40, 0x40, 0x40, 0x90, 0xa0, 0xa0, 0xa0, 0x01],
   [0x03, 0x42, 0x5c, 0xa0, 0x01, 0x03, 0x42, 0x00, 0x7e, 0x92, 0xa0, 0xa0],
   [0xa0, 0xa0, 0x01, 0x03, 0x42, 0x5c, 0xa0, 0x01, 0x03, 0x42, 0x69, 0x9c],
   [0x90, 0xb0, 0xa0, 0x04, 0x07, 0x9c, 0x90, 0xb0, 0xa0, 0xa0, 0xa0, 0x01]] @
  [[0x03, 0x42, 0x5c, 0xa0, 0x01, 0x03, 0x42, 0x63, 0x9c, 0x91, 0x26, 0x74],
   [0x79, 0x70, 0x69, 0x6e, 0x67, 0x25, 0x54, 0x75, 0x70, 0x6c, 0x65, 0x40],
   [0x2b, 0x5f, 0x5f, 0x67, 0x65, 0x74, 0x69, 0x74, 0x65, 0x6d, 0x5f, 0x5f],
   [0x41, 0xa0, 0xa0, 0x40, 0xa0, 0xa0, 0xa0, 0x01, 0x03, 0x42, 0x6a, 0xa0],
   [0x01, 0x03, 0x42, 0x00, 0x7d, 0x08, 0x00, 0x00, 0x04, 0x11, 0xa0, 0xa0],
   [0xa0, 0xa0, 0x01, 0x03, 0x42, 0x6a, 0xa0, 0x01, 0x03, 0x42, 0x7a, 0x9c],
   [0x90, 0xb0, 0xa0, 0xa0, 0xa0, 0x01, 0x03, 0x42, 0x6a, 0xa0, 0x01, 0x03],
   [0x42, 0x71, 0x9c, 0x91, 0x04, 0x18, 0x28, 0x43, 0x61, 0x6c, 0x6c, 0x61],
   [0x62, 0x6c, 0x65, 0x40, 0xa0, 0xa0, 0xa0, 0xa0, 0x01, 0x03, 0x42, 0x7c],
   [0xa0, 0x01, 0x03, 0x42, 0x00, 0x7d, 0x92, 0xa0, 0xa0, 0xa0, 0xa0, 0x01],
   [0x03, 0x42, 0x7c, 0xa0, 0x01, 0x03, 0x42, 0x00, 0x49, 0x9c, 0x90, 0xb0],
   [0xa0, 0x04, 0x07, 0x9c, 0x90, 0xb0, 0xa0, 0xa0, 0xa0, 0x01, 0x03, 0x42],
   [0x7c, 0xa0, 0x01, 0x03, 0x42, 0x00, 0x43, 0x9c, 0x91, 0x04, 0x31, 0x25],
   [0x54, 0x75, 0x70, 0x6c, 0x65, 0x40, 0x04, 0x30, 0x41, 0xa0, 0xa0, 0x40],
   [0xa0, 0xa0, 0xa0, 0x01, 0x03, 0x42, 0x00, 0x4a, 0xa0, 0x01, 0x03, 0x42],
   [0x00, 0x7c, 0x08, 0x00, 0x00, 0x04, 0x11, 0xa0, 0xa0, 0xa0, 0xa0, 0x01],
   [0x03, 0x42, 0x00, 0x4a, 0xa0, 0x01, 0x03, 0x42, 0x00, 0x75, 0x92, 0xa0],
   [0xa0, 0xa0, 0xa0, 0x01, 0x03, 0x42, 0x00, 0x4a, 0xa0, 0x01, 0x03, 0x42],
   [0x00, 0x56, 0x9c, 0x90, 0xb0, 0xa0, 0x04, 0x07, 0x9c, 0x90, 0xb0, 0xa0],
   [0xa0, 0xa0, 0x01, 0x03, 0x42, 0x00, 0x4a, 0xa0, 0x01, 0x03, 0x42, 0x00],
   [0x51, 0x9c, 0x91, 0x04, 0x51, 0x24, 0x54, 0x79, 0x70, 0x65, 0x40, 0x04],
   [0x50, 0x41, 0xa0, 0xa0, 0x40, 0xa0, 0xa0, 0xa0, 0x01, 0x03, 0x42, 0x00],
   [0x57, 0xa0, 0x01, 0x03, 0x42, 0x00, 0x74, 0x9c, 0x90, 0xb0, 0xa0, 0x04],
   [0x07, 0x9c, 0x90, 0xb0, 0xa0, 0x04, 0x0b, 0x9c, 0x90, 0xb0, 0xa0, 0x04],
   [0x0f, 0x9c, 0x90, 0xb0, 0xa0, 0x04, 0x13, 0x9c, 0x90, 0xb0, 0xa0, 0x04],
   [0x17, 0x9c, 0x90, 0xb0, 0xa0, 0x04, 0x1b, 0x9c, 0x91, 0x26, 0x66, 0x62],
   [0x63, 0x6f, 0x64, 0x65, 0x2b, 0x70, 0x79, 0x33, 0x5f, 0x61, 0x73, 0x79],
   [0x6e, 0x63, 0x69, 0x6f, 0x40, 0x29, 0x69, 0x6e, 0x73, 0x74, 0x61, 0x67],
   [0x72, 0x61, 0x6d, 0x40, 0x2a, 0x64, 0x69, 0x73, 0x74, 0x69, 0x6c, 0x6c],
   [0x65, 0x72, 0x79, 0x40, 0x26, 0x61, 0x70, 0x70, 0x65, 0x61, 0x6c, 0x40]]"

definition dictionary_rows_41 :: "u8 list list" where
  "dictionary_rows_41 =
  [[0x25, 0x74, 0x79, 0x70, 0x65, 0x73, 0x40, 0x3b, 0x43, 0x68, 0x65, 0x63],
   [0x6b, 0x46, 0x45, 0x50, 0x49, 0x6e, 0x61, 0x63, 0x74, 0x69, 0x76, 0x61],
   [0x74, 0x69, 0x6f, 0x6e, 0x52, 0x65, 0x71, 0x75, 0x65, 0x73, 0x74, 0x40],
   [0x40, 0xa0, 0xa0, 0xa0, 0xa0, 0x01, 0x03, 0x42, 0x00, 0x77, 0xa0, 0x01],
   [0x03, 0x42, 0x00, 0x7c, 0x9c, 0x91, 0x25, 0x62, 0x79, 0x74, 0x65, 0x73],
   [0x40, 0x40, 0x40, 0x40, 0x40, 0x40, 0x90, 0xa0, 0x04, 0xbe, 0xa0, 0x04],
   [0xbd, 0xa0, 0x04, 0xbc, 0xa0, 0x04, 0xbb, 0xa0, 0x04, 0xba, 0xa0, 0x04],
   [0xb9, 0xa0, 0x04, 0xab, 0x40, 0x40, 0x40, 0x40, 0xa0, 0xa0, 0xa0, 0x90],
   [0x40, 0x40, 0x41, 0x40, 0x40, 0x41, 0xd0, 0x40, 0xb0, 0x41, 0x29, 0x70],
   [0x72, 0x65, 0x64, 0x69, 0x63, 0x61, 0x74, 0x65, 0x40, 0xa0, 0x40, 0xd0],
   [0x40, 0x90, 0x2a, 0x5f, 0x70, 0x72, 0x65, 0x64, 0x69, 0x63, 0x61, 0x74],
   [0x65, 0xa0, 0xd0, 0x40, 0x40, 0xf0, 0x90, 0xd0, 0x40, 0x41, 0x08, 0x00],
   [0x00, 0x20, 0x00, 0x04, 0x30, 0x04, 0x2d, 0x90, 0xa0, 0x03, 0x3f, 0xff],
   [0xff, 0xff, 0xff, 0xff, 0xff, 0xff, 0xd0, 0x40, 0x90, 0x04, 0x2c, 0xa0],
   [0x40, 0x40, 0x40, 0x41, 0x90, 0x42, 0x04, 0x2b, 0x04, 0x2a, 0x04, 0x28],
   [0x04, 0x26, 0x40, 0x41, 0x90, 0x90, 0xc0, 0x40, 0xa0, 0xa0, 0x01, 0x00],
   [0x9f, 0x60, 0xa0, 0x01, 0x00, 0x9f, 0x69, 0x40, 0x41, 0x90, 0xa0, 0xa0],
   [0x03, 0x00, 0x00, 0x00, 0x01, 0x00, 0x00, 0x10, 0x00, 0x40, 0xa0, 0x03],
   [0x00, 0x00, 0x00, 0x01, 0x00, 0x00, 0x10, 0x00, 0x40, 0x04, 0x25, 0x04],
   [0x24, 0x04, 0x23, 0x04, 0x1e, 0x40, 0x41, 0x40, 0x40, 0x41, 0x40, 0x41],
   [0x42, 0xd0, 0xd0, 0x40, 0xb0, 0x40, 0x24, 0x73, 0x65, 0x6c, 0x66, 0x40],
   [0xa0, 0xd0, 0xd0, 0x40, 0x90, 0x40, 0xf0, 0x90, 0xd0, 0x40, 0x92, 0x2d],
   [0x4e, 0x6f, 0x64, 0x65, 0x45, 0x64, 0x67, 0x65, 0x51, 0x75, 0x65, 0x72],
   [0x79, 0x08, 0x00, 0x00, 0x20, 0x00, 0x90, 0xa0, 0xa0, 0x40, 0x40, 0xa0],
   [0x40, 0x40, 0x90, 0x40, 0x90, 0xa0, 0x03, 0x3f, 0xff, 0xff, 0xff, 0xff],
   [0xff, 0xff, 0xff, 0x40, 0x90, 0x40, 0x90, 0x40, 0x90, 0xa0, 0x40, 0x40],
   [0x90, 0xa0, 0x40, 0x40, 0x90, 0x40, 0x40, 0x41, 0x90, 0x90, 0x40, 0x90],
   [0xa0, 0xa0, 0x40, 0x40, 0x04, 0x01, 0x90, 0x04, 0x0a, 0x90, 0x04, 0x09],
   [0x90, 0xb0, 0xa0, 0xa0, 0x03, 0xc0, 0x00, 0x00, 0x00, 0x00, 0x00, 0x00],
   [0x00, 0x03, 0x3f, 0xff, 0xff, 0xff, 0xff, 0xff, 0xff, 0xff, 0x40, 0xa0]] @
  [[0x04, 0x02, 0x40, 0x40, 0x90, 0x40, 0x40, 0x41, 0x91, 0xb0, 0xa0, 0x2a],
   [0x69, 0x67, 0x5f, 0x6e, 0x6f, 0x64, 0x65, 0x61, 0x70, 0x69, 0xa0, 0x25],
   [0x65, 0x64, 0x67, 0x65, 0x73, 0xa0, 0x09, 0x3a, 0x74, 0x65, 0x78, 0x74],
   [0x5f, 0x70, 0x6f, 0x73, 0x74, 0x5f, 0x61, 0x70, 0x70, 0x5f, 0x70, 0x6f],
   [0x73, 0x74, 0x5f, 0x74, 0x6f, 0x5f, 0x70, 0x69, 0x6e, 0x6e, 0x65, 0x64],
   [0x5f, 0x72, 0x65, 0x70, 0x6c, 0x69, 0x65, 0x73, 0x5f, 0x6f, 0x6e, 0x5f],
   [0x64, 0x69, 0x72, 0x65, 0x63, 0x74, 0x5f, 0x61, 0x75, 0x64, 0x69, 0x6f],
   [0x5f, 0x6d, 0x65, 0x64, 0x69, 0x61, 0x40, 0x04, 0x5c, 0x04, 0x5b, 0xf0],
   [0x90, 0xd0, 0x40, 0x92, 0x2d, 0x4e, 0x6f, 0x64, 0x65, 0x45, 0x64, 0x67],
   [0x65, 0x51, 0x75, 0x65, 0x72, 0x79, 0x08, 0x00, 0x00, 0x20, 0x00, 0x90],
   [0xa0, 0xa0, 0x40, 0x40, 0xa0, 0x40, 0x40, 0x90, 0x40, 0x90, 0xa0, 0x03],
   [0x3f, 0xff, 0xff, 0xff, 0xff, 0xff, 0xff, 0xff, 0x40, 0x90, 0x40, 0x90],
   [0x90, 0x90, 0x03, 0x03, 0x2a, 0x80, 0x5a, 0xf9, 0x7f, 0xc1, 0x63, 0x90],
   [0xa0, 0x40, 0x40, 0x90, 0xa0, 0x40, 0x40, 0x90, 0x40, 0x40, 0x41, 0x90],
   [0x90, 0x40, 0x90, 0x04, 0x89, 0x90, 0x04, 0x7e, 0x90, 0x04, 0x7d, 0x90],
   [0xb0, 0xa0, 0xa0, 0x02, 0x00, 0x0c, 0xc9, 0x27, 0x02, 0x00, 0x0c, 0xc9],
   [0x28, 0x40, 0xa0, 0x04, 0x02, 0x40, 0x41, 0x90, 0x40, 0x40, 0x42, 0x40],
   [0x40, 0x41, 0xb0, 0x41, 0x29, 0x70, 0x72, 0x65, 0x64, 0x69, 0x63, 0x61],
   [0x74, 0x65, 0x40, 0xa0, 0xd0, 0xd0, 0x40, 0x04, 0x50, 0xf0, 0x90, 0xd0],
   [0x40, 0x04, 0x4f, 0x08, 0x00, 0x00, 0x20, 0x00, 0x90, 0xa0, 0xa0, 0x40],
   [0x40, 0xa0, 0x40, 0x40, 0x90, 0x40, 0x90, 0x04, 0x4d, 0x90, 0x40, 0x90],
   [0x40, 0x90, 0x04, 0x4c, 0x90, 0x04, 0x4b, 0x90, 0x40, 0x40, 0x41, 0x90],
   [0x04, 0x4a, 0x90, 0x04, 0x49, 0x90, 0x04, 0x51, 0x90, 0x04, 0x50, 0x90],
   [0xb0, 0xa0, 0x04, 0x47, 0x40, 0xa0, 0x04, 0x48, 0x40, 0x40, 0x90, 0x40],
   [0x40, 0x41, 0x91, 0xb0, 0x04, 0x46, 0x04, 0x77, 0x04, 0x76, 0xf0, 0x90],
   [0xd0, 0x40, 0x04, 0x40, 0x08, 0x00, 0x00, 0x20, 0x00, 0x90, 0xa0, 0xa0],
   [0x40, 0x40, 0xa0, 0x40, 0x40, 0x90, 0x40, 0x90, 0x04, 0x3e, 0x90, 0x40],
   [0x90, 0x90, 0x90, 0x03, 0xfc, 0x1b, 0xaa, 0xf3, 0x19, 0xec, 0x57, 0x09],
   [0x90, 0x04, 0x3d, 0x90, 0x04, 0x3c, 0x90, 0x40, 0x40, 0x41, 0x90, 0x04],
   [0x3b, 0x90, 0x04, 0xc3, 0x90, 0x04, 0xb8, 0x90, 0x04, 0xb7, 0x90, 0xb0]] @
  [[0xa0, 0x04, 0x3a, 0x40, 0x04, 0x39, 0x41, 0x90, 0x40, 0x40, 0x42, 0x40],
   [0x40, 0x42, 0xb0, 0xb0, 0x90, 0x40, 0x90, 0x40, 0xa0, 0x04, 0x03, 0x04],
   [0x02, 0x04, 0x04, 0x40, 0x40, 0x84, 0x95, 0xa6, 0xbe, 0x00, 0x00, 0x00],
   [0x38, 0x00, 0x00, 0x00, 0x04, 0x00, 0x00, 0x00, 0x16, 0x00, 0x00, 0x00],
   [0x10, 0xa0, 0x09, 0x2a, 0x6e, 0x6f, 0x64, 0x65, 0x61, 0x70, 0x69, 0x2e],
   [0x45, 0x64, 0x67, 0x65, 0x51, 0x75, 0x65, 0x72, 0x79, 0x2e, 0x45, 0x64],
   [0x67, 0x65, 0x44, 0x65, 0x6c, 0x65, 0x74, 0x65, 0x51, 0x75, 0x65, 0x72],
   [0x79, 0x2e, 0x5f, 0x5f, 0x69, 0x6e, 0x69, 0x74, 0x5f, 0x5f, 0xa0, 0x28],
   [0x65, 0x64, 0x67, 0x65, 0x5f, 0x63, 0x6c, 0x73, 0x40, 0x84, 0x95, 0xa6],
   [0xbe, 0x00, 0x00, 0x00, 0x31, 0x00, 0x00, 0x00, 0x09, 0x00, 0x00, 0x00],
   [0x1f, 0x00, 0x00, 0x00, 0x1a, 0x92, 0xb1, 0xa0, 0x2a, 0x69, 0x67, 0x5f],
   [0x6e, 0x6f, 0x64, 0x65, 0x61, 0x70, 0x69, 0xa0, 0x25, 0x6e, 0x6f, 0x64],
   [0x65, 0x73, 0xa0, 0x2a, 0x73, 0x74, 0x6f, 0x72, 0x79, 0x5f, 0x6c, 0x69],
   [0x6e, 0x6b, 0x40, 0x2d, 0x4e, 0x6f, 0x64, 0x65, 0x53, 0x74, 0x6f, 0x72],
   [0x79, 0x4c, 0x69, 0x6e, 0x6b, 0x41, 0x84, 0x95, 0xa6, 0xbe, 0x00, 0x00],
   [0x00, 0xd9, 0x00, 0x00, 0x00, 0x02, 0x00, 0x00, 0x00, 0x39, 0x00, 0x00],
   [0x00, 0x1e, 0x94, 0x09, 0xd6, 0x69, 0x67, 0x5f, 0x6e, 0x6f, 0x64, 0x65],
   [0x61, 0x70, 0x69, 0x2e, 0x65, 0x64, 0x67, 0x65, 0x73, 0x2e, 0x66, 0x72],
   [0x6f, 0x6d, 0x5f, 0x73, 0x69, 0x6d, 0x69, 0x6c, 0x61, 0x72, 0x5f, 0x69],
   [0x67, 0x5f, 0x6d, 0x65, 0x64, 0x69, 0x61, 0x5f, 0x64, 0x65, 0x66, 0x69],
   [0x6e, 0x65, 0x64, 0x5f, 0x6f, 0x6e, 0x5f, 0x66, 0x62, 0x5f, 0x69, 0x67],
   [0x5f, 0x65, 0x78, 0x70, 0x6c, 0x6f, 0x72, 0x65, 0x5f, 0x68, 0x6f, 0x6d],
   [0x65, 0x5f, 0x70, 0x6f, 0x73, 0x74, 0x5f, 0x63, 0x6c, 0x69, 0x63, 0x6b],
   [0x5f, 0x73, 0x69, 0x6d, 0x69, 0x6c, 0x61, 0x72, 0x5f, 0x63, 0x72, 0x65],
   [0x61, 0x74, 0x69, 0x76, 0x65, 0x5f, 0x6d, 0x65, 0x74, 0x61, 0x64, 0x61],
   [0x74, 0x61, 0x5f, 0x6f, 0x6e, 0x5f, 0x63, 0x6c, 0x69, 0x70, 0x73, 0x5f],
   [0x70, 0x6f, 0x73, 0x74, 0x2e, 0x45, 0x64, 0x67, 0x65, 0x46, 0x72, 0x6f],
   [0x6d, 0x53, 0x69, 0x6d, 0x69, 0x6c, 0x61, 0x72, 0x49, 0x67, 0x4d, 0x65],
   [0x64, 0x69, 0x61, 0x44, 0x65, 0x66, 0x69, 0x6e, 0x65, 0x64, 0x4f, 0x6e],
   [0x46, 0x62, 0x49, 0x67, 0x45, 0x78, 0x70, 0x6c, 0x6f, 0x72, 0x65, 0x48]] @
  [[0x6f, 0x6d, 0x65, 0x50, 0x6f, 0x73, 0x74, 0x43, 0x6c, 0x69, 0x63, 0x6b],
   [0x53, 0x69, 0x6d, 0x69, 0x6c, 0x61, 0x72, 0x43, 0x72, 0x65, 0x61, 0x74],
   [0x69, 0x76, 0x65, 0x4d, 0x65, 0x74, 0x61, 0x64, 0x61, 0x74, 0x61, 0x4f],
   [0x6e, 0x43, 0x6c, 0x65, 0x72, 0x24, 0x64, 0x65, 0x73, 0x74, 0x40, 0x90],
   [0xa0, 0xa0, 0xa0, 0x00, 0x62, 0x6d, 0xa0, 0x00, 0x62, 0x72, 0x9c, 0x91],
   [0x09, 0x50, 0x24, 0x6c, 0x6f, 0x63, 0x61, 0x6c, 0x5f, 0x69, 0x67, 0x5f],
   [0x6e, 0x6f, 0x64, 0x65, 0x61, 0x70, 0x69, 0x3f, 0x65, 0x64, 0x67, 0x65],
   [0x73, 0x3f, 0x64, 0x69, 0x73, 0x61, 0x70, 0x70, 0x72, 0x6f, 0x76, 0x65],
   [0x64, 0x5f, 0x6d, 0x65, 0x64, 0x69, 0x61, 0x5f, 0x74, 0x6f, 0x5f, 0x74],
   [0x72, 0x65, 0x6e, 0x64, 0x5f, 0x6f, 0x6e, 0x5f, 0x73, 0x65, 0x6c, 0x66],
   [0x69, 0x65, 0x5f, 0x73, 0x74, 0x69, 0x63, 0x6b, 0x65, 0x72, 0x5f, 0x6d],
   [0x65, 0x64, 0x69, 0x61, 0x24, 0x54, 0x44, 0x65, 0x73, 0x74, 0x40, 0x40],
   [0x90, 0xa0, 0xa0, 0xa0, 0x00, 0x62, 0x77, 0xa0, 0x00, 0x62, 0x00, 0x69],
   [0x9c, 0x90, 0xb0, 0xa0, 0x04, 0x07, 0x9c, 0x90, 0xb0, 0xa0, 0x04, 0x0b],
   [0x9c, 0x90, 0xb0, 0xa0, 0x04, 0x0f, 0x9c, 0x91, 0x04, 0x4b, 0x04, 0x49],
   [0x40, 0x04, 0x47, 0x40, 0x09, 0x32, 0x45, 0x64, 0x67, 0x65, 0x53, 0x65],
   [0x74, 0x44, 0x69, 0x73, 0x61, 0x70, 0x70, 0x72, 0x6f, 0x76, 0x65, 0x64],
   [0x4d, 0x65, 0x64, 0x69, 0x61, 0x54, 0x6f, 0x54, 0x72, 0x65, 0x6e, 0x64],
   [0x4f, 0x6e, 0x53, 0x65, 0x6c, 0x66, 0x69, 0x65, 0x53, 0x74, 0x69, 0x63],
   [0x6b, 0x65, 0x72, 0x4d, 0x65, 0x64, 0x69, 0x61, 0x40, 0x40, 0x40, 0x90],
   [0xa0, 0x04, 0x4e, 0xa0, 0x04, 0x4d, 0xa0, 0x04, 0x4c, 0xa0, 0x04, 0x41],
   [0x40, 0x40, 0x40, 0x40, 0xa0, 0xa0, 0xa0, 0xa0, 0x00, 0x63, 0x48, 0xa0],
   [0x00, 0x68, 0x4b, 0x95, 0xa0, 0xa0, 0xa0, 0x00, 0x63, 0x48, 0xa0, 0x00],
   [0x68, 0x4b, 0x94, 0x94, 0xa0, 0x09, 0xf9, 0x0a, 0x20, 0x20, 0x20, 0x20],
   [0x20, 0x20, 0x20, 0x20, 0x49, 0x6e, 0x20, 0x74, 0x65, 0x73, 0x74, 0x2c],
   [0x20, 0x74, 0x68, 0x69, 0x73, 0x20, 0x61, 0x6c, 0x6c, 0x6f, 0x77, 0x20],
   [0x79, 0x6f, 0x75, 0x20, 0x74, 0x6f, 0x20, 0x63, 0x72, 0x65, 0x61, 0x74],
   [0x65, 0x20, 0x61, 0x20, 0x76, 0x61, 0x6c, 0x69, 0x64, 0x20, 0x4e, 0x6f],
   [0x64, 0x65, 0x20, 0x65, 0x64, 0x67, 0x65, 0x20, 0x65, 0x61, 0x73, 0x69],
   [0x6c, 0x79, 0x2c, 0x20, 0x77, 0x68, 0x69, 0x6c, 0x65, 0x0a, 0x20, 0x20]] @
  [[0x20, 0x20, 0x20, 0x20, 0x20, 0x20, 0x62, 0x79, 0x70, 0x61, 0x73, 0x73],
   [0x69, 0x6e, 0x67, 0x20, 0x74, 0x68, 0x65, 0x20, 0x70, 0x72, 0x6f, 0x64],
   [0x75, 0x63, 0x74, 0x69, 0x6f, 0x6e, 0x20, 0x6d, 0x75, 0x74, 0x61, 0x74],
   [0x6f, 0x72, 0x20, 0x63, 0x6f, 0x6e, 0x73, 0x74, 0x72, 0x61, 0x69, 0x6e],
   [0x74, 0x2e, 0x0a, 0x20, 0x20, 0x20, 0x20, 0x20, 0x20, 0x20, 0x20, 0x44],
   [0x49, 0x53, 0x43, 0x4c, 0x41, 0x49, 0x4d, 0x45, 0x52, 0x3a, 0x20, 0x54],
   [0x48, 0x49, 0x53, 0x20, 0x57, 0x49, 0x4c, 0x4c, 0x20, 0x52, 0x41, 0x49],
   [0x53, 0x45, 0x20, 0x49, 0x4e, 0x20, 0x50, 0x52, 0x4f, 0x44, 0x55, 0x43],
   [0x54, 0x49, 0x4f, 0x4e, 0x21, 0x21, 0x21, 0x0a, 0x20, 0x20, 0x20, 0x20],
   [0x20, 0x20, 0x20, 0x20, 0x53, 0x65, 0x65, 0x20, 0x66, 0x62, 0x75, 0x72],
   [0x6c, 0x2e, 0x63, 0x6f, 0x6d, 0x2f, 0x6e, 0x6f, 0x64, 0x65, 0x2d, 0x74],
   [0x65, 0x73, 0x74, 0x61, 0x62, 0x69, 0x6c, 0x69, 0x74, 0x79, 0x20, 0x66],
   [0x6f, 0x72, 0x20, 0x6d, 0x6f, 0x72, 0x65, 0x20, 0x69, 0x6e, 0x66, 0x6f],
   [0x72, 0x6d, 0x61, 0x74, 0x69, 0x6f, 0x6e, 0x0a, 0x20, 0x20, 0x20, 0x20],
   [0x20, 0x20, 0x20, 0x20, 0x40, 0xa0, 0xa0, 0xa0, 0xa0, 0x00, 0x69, 0x48],
   [0xa0, 0x00, 0x69, 0x00, 0x5a, 0x9d, 0xa0, 0x40, 0x90, 0xa0, 0xa0, 0xa0],
   [0x00, 0x69, 0x4f, 0xa0, 0x00, 0x69, 0x00, 0x5a, 0x92, 0xa0, 0xa0, 0xa0],
   [0xa0, 0x00, 0x69, 0x4f, 0xa0, 0x00, 0x69, 0x00, 0x41, 0x9c, 0x90, 0xb0],
   [0xa0, 0x04, 0x07, 0x9c, 0x90, 0xb0, 0xa0, 0x04, 0x0b, 0x9c, 0x90, 0xb0],
   [0xa0, 0x04, 0x0f, 0x9c, 0x91, 0x04, 0x7f, 0x04, 0x7d, 0x40, 0x04, 0x7b],
   [0x40, 0x04, 0x34, 0x40, 0xa0, 0xa0, 0x40, 0xa0, 0xa0, 0xa0, 0x00, 0x69],
   [0x00, 0x42, 0xa0, 0x00, 0x69, 0x00, 0x46, 0x9c, 0x91, 0x2f, 0x24, 0x70],
   [0x61, 0x72, 0x61, 0x6d, 0x65, 0x74, 0x65, 0x72, 0x24, 0x72, 0x6f, 0x6f],
   [0x74, 0xa0, 0xa0, 0x40, 0xa0, 0xa0, 0xa0, 0x00, 0x69, 0x00, 0x48, 0xa0],
   [0x00, 0x69, 0x00, 0x4c, 0x9c, 0x91, 0x2f, 0x24, 0x70, 0x61, 0x72, 0x61],
   [0x6d, 0x65, 0x74, 0x65, 0x72, 0x24, 0x64, 0x65, 0x73, 0x74, 0xa0, 0xa0],
   [0x40, 0xa0, 0xa0, 0xa0, 0x00, 0x69, 0x00, 0x4e, 0xa0, 0x00, 0x69, 0x00],
   [0x53, 0x94, 0x42, 0xa0, 0xa0, 0x40, 0xa0, 0xa0, 0xa0, 0x00, 0x69, 0x00],
   [0x55, 0xa0, 0x00, 0x69, 0x00, 0x59, 0x94, 0x43, 0x40, 0x40, 0x40, 0x84],
   [0x95, 0xa6, 0xbe, 0x00, 0x00, 0x00, 0x15, 0x00, 0x00, 0x00, 0x08, 0x00]]"

definition dictionary_rows_42 :: "u8 list list" where
  "dictionary_rows_42 =
  [[0x00, 0x00, 0x19, 0x00, 0x00, 0x00, 0x19, 0xc0, 0x90, 0x40, 0xa0, 0x40],
   [0x40, 0xb0, 0xb0, 0x90, 0x40, 0x90, 0x40, 0xa0, 0x04, 0x03, 0x04, 0x02],
   [0x04, 0x04, 0x40, 0x40, 0x84, 0x95, 0xa6, 0xbe, 0x00, 0x00, 0x00, 0x01],
   [0x00, 0x00, 0x00, 0x00, 0x00, 0x00, 0x00, 0x00, 0x00, 0x00, 0x00, 0x00],
   [0x40, 0x84, 0x95, 0xa6, 0xbe, 0x00, 0x00, 0x00, 0x01, 0x00, 0x00, 0x00],
   [0x00, 0x00, 0x00, 0x00, 0x00, 0x00, 0x00, 0x00, 0x00, 0x40, 0x84, 0x95],
   [0xa6, 0xbe, 0x00, 0x00, 0x00, 0x38, 0x00, 0x00, 0x00, 0x0b, 0x00, 0x00],
   [0x00, 0x25, 0x00, 0x00, 0x00, 0x20, 0x90, 0xb0, 0xa0, 0xa2, 0x24, 0x74],
   [0x79, 0x70, 0x65, 0xa0, 0x90, 0x94, 0x09, 0x22, 0x6f, 0x69, 0x6c, 0x2e],
   [0x6c, 0x6f, 0x63, 0x61, 0x74, 0x69, 0x6f, 0x6e, 0x73, 0x2e, 0x74, 0x79],
   [0x70, 0x65, 0x73, 0x2e, 0x4c, 0x6f, 0x63, 0x61, 0x74, 0x69, 0x6f, 0x6e],
   [0x4f, 0x62, 0x6a, 0x65, 0x63, 0x74, 0x40, 0x90, 0xa0, 0x04, 0x08, 0x40],
   [0x40, 0x40, 0x84, 0x95, 0xa6, 0xbe, 0x00, 0x00, 0x00, 0x01, 0x00, 0x00],
   [0x00, 0x00, 0x00, 0x00, 0x00, 0x00, 0x00, 0x00, 0x00, 0x00, 0x40, 0x84],
   [0x95, 0xa6, 0xbe, 0x00, 0x00, 0x00, 0x05, 0x00, 0x00, 0x00, 0x03, 0x00],
   [0x00, 0x00, 0x07, 0x00, 0x00, 0x00, 0x07, 0x90, 0xa0, 0x40, 0x90, 0x40],
   [0x84, 0x95, 0xa6, 0xbe, 0x00, 0x00, 0x00, 0x38, 0x00, 0x00, 0x00, 0x10],
   [0x00, 0x00, 0x00, 0x2f, 0x00, 0x00, 0x00, 0x2b, 0x90, 0xb0, 0xa0, 0x27],
   [0x72, 0x75, 0x6e, 0x74, 0x69, 0x6d, 0x65, 0xa0, 0x23, 0x6c, 0x69, 0x62],
   [0xa0, 0x27, 0x70, 0x79, 0x74, 0x68, 0x6f, 0x6e, 0x33, 0xa0, 0x22, 0x31],
   [0x30, 0xa0, 0x28, 0x75, 0x6e, 0x69, 0x74, 0x74, 0x65, 0x73, 0x74, 0xa0],
   [0x24, 0x6d, 0x6f, 0x63, 0x6b, 0x40, 0xa0, 0x01, 0x0a, 0xf3, 0x40, 0xa0],
   [0x01, 0x0a, 0xf3, 0x4d, 0x84, 0x95, 0xa6, 0xbe, 0x00, 0x00, 0x00, 0x01],
   [0x00, 0x00, 0x00, 0x00, 0x00, 0x00, 0x00, 0x00, 0x00, 0x00, 0x00, 0x00],
   [0x40, 0x84, 0x95, 0xa6, 0xbe, 0x00, 0x00, 0x00, 0x07, 0x00, 0x00, 0x00],
   [0x03, 0x00, 0x00, 0x00, 0x07, 0x00, 0x00, 0x00, 0x06, 0x90, 0x94, 0x24],
   [0x74, 0x79, 0x70, 0x65, 0x84, 0x95, 0xa6, 0xbe, 0x00, 0x00, 0x00, 0x6b],
   [0x00, 0x00, 0x00, 0x0b, 0x00, 0x00, 0x00, 0x32, 0x00, 0x00, 0x00, 0x26],
   [0x90, 0xb0, 0xa0, 0xa2, 0x24, 0x74, 0x79, 0xe6, 0xc1, 0x56, 0x60, 0xc1],
   [0x00, 0x56, 0x01, 0x00, 0x80, 0x90, 0x03, 0xf0, 0xe3, 0x38, 0xc7, 0xc9]] @
  [[0x97, 0x10, 0x56, 0x90, 0x03, 0xc9, 0xdf, 0x23, 0x55, 0xd7, 0xab, 0xb7],
   [0xd6, 0xc1, 0x01, 0x01, 0x36, 0x01, 0x04, 0x00, 0x90, 0x03, 0x01, 0x2f],
   [0xf0, 0xd0, 0x4a, 0x59, 0xb1, 0x36, 0x90, 0x03, 0x25, 0x75, 0x80, 0x43],
   [0x20, 0x47, 0x25, 0x36, 0xc1, 0x4e, 0x50, 0xc1, 0x4e, 0x60, 0x90, 0x03],
   [0x10, 0x20, 0x87, 0x06, 0xb3, 0x88, 0xdd, 0x4e, 0xc1, 0x6e, 0x00, 0x40],
   [0x90, 0x03, 0xe0, 0xb2, 0x2d, 0x7f, 0x0f, 0xa5, 0xb0, 0xae, 0xc1, 0x00],
   [0x6e, 0x01, 0x00, 0x80, 0x90, 0x03, 0xe9, 0x63, 0x73, 0xf7, 0xf3, 0x3c],
   [0x55, 0x6e, 0xc1, 0x01, 0x00, 0xee, 0x01, 0x01, 0x00, 0x90, 0x03, 0x2e],
   [0xed, 0x6b, 0xa9, 0xd0, 0xab, 0x50, 0xee, 0x90, 0x03, 0x2a, 0x29, 0x4d],
   [0xec, 0xb3, 0xec, 0x9f, 0xee, 0xc1, 0x5e, 0x60, 0xc1, 0x00, 0x5e, 0x01],
   [0x00, 0x80, 0xc1, 0x01, 0x01, 0x5e, 0x01, 0x02, 0x00, 0x90, 0x03, 0x37],
   [0x6a, 0x6d, 0xcc, 0x2d, 0x98, 0x49, 0x5e, 0x90, 0x03, 0xc7, 0x27, 0xe6],
   [0x17, 0x27, 0x13, 0x17, 0x5e, 0xc1, 0x01, 0x00, 0xde, 0x01, 0x01, 0x00],
   [0x90, 0x03, 0xf8, 0x03, 0xdc, 0xf1, 0xd4, 0x86, 0x4c, 0xde, 0xc1, 0x01],
   [0x01, 0xde, 0x01, 0x04, 0x00, 0x90, 0x03, 0x01, 0x72, 0x8e, 0xca, 0xe7],
   [0x3f, 0x21, 0xde, 0xc1, 0x01, 0x0d, 0xde, 0x01, 0x20, 0x00, 0x90, 0x03],
   [0xf9, 0xf1, 0x23, 0x97, 0x01, 0x70, 0x4d, 0xde, 0x90, 0x03, 0xc2, 0xfb],
   [0x9d, 0xfe, 0xee, 0xe2, 0x6d, 0xde, 0xc1, 0x7e, 0x00, 0x40, 0xc1, 0x01],
   [0x01, 0x3e, 0x01, 0x02, 0x00, 0x90, 0x03, 0x27, 0x62, 0x24, 0x56, 0x2c],
   [0x75, 0x41, 0x3e, 0xc1, 0x01, 0x03, 0x3e, 0x01, 0x04, 0x00, 0x90, 0x03],
   [0x3e, 0xb8, 0x59, 0xa3, 0xfb, 0xfa, 0x2b, 0x3e, 0x90, 0x03, 0xf6, 0xf5],
   [0xab, 0xb1, 0x23, 0xab, 0x4f, 0x3e, 0xc1, 0x00, 0x7e, 0x01, 0x00, 0x80],
   [0x90, 0x03, 0x22, 0x60, 0xbe, 0x0e, 0x58, 0x91, 0x33, 0x7e, 0x90, 0x03],
   [0x0f, 0x83, 0x81, 0x80, 0x96, 0x83, 0xca, 0xfe, 0xc1, 0x41, 0x42, 0xc1],
   [0x41, 0x44, 0xc1, 0x41, 0x48, 0xc1, 0x41, 0x50, 0xc1, 0x41, 0x60, 0xc1],
   [0x00, 0x41, 0x01, 0x00, 0x80, 0xc1, 0x00, 0x41, 0x01, 0x01, 0x00, 0x90],
   [0x03, 0x3f, 0xec, 0xe7, 0x98, 0x8a, 0x57, 0x1c, 0x41, 0x90, 0x03, 0xcf],
   [0x01, 0x69, 0x99, 0xec, 0xb9, 0x69, 0x41, 0xc1, 0x01, 0x00, 0xc1, 0x01],
   [0x01, 0x00, 0x90, 0x03, 0xca, 0x3d, 0x7b, 0x40, 0x29, 0xba, 0x16, 0xc1],
   [0x90, 0x03, 0x3f, 0xdb, 0x60, 0x97, 0xa8, 0xfc, 0x0f, 0xc1, 0xc1, 0x00]] @
  [[0x61, 0x01, 0x00, 0x80, 0x90, 0x03, 0xd1, 0x83, 0xb5, 0xd9, 0x1b, 0x10],
   [0xd9, 0x61, 0x90, 0x03, 0xe0, 0x31, 0xb5, 0xad, 0xce, 0x51, 0x78, 0xe1],
   [0xc1, 0x51, 0x60, 0xc1, 0x51, 0x00, 0x40, 0xc1, 0x51, 0x01, 0x00, 0x80],
   [0xc1, 0x01, 0x05, 0x11, 0x01, 0x10, 0x00, 0x90, 0x03, 0x10, 0x5e, 0x61],
   [0x8f, 0x42, 0xaf, 0x85, 0x11, 0x90, 0x03, 0xc0, 0xe6, 0xa2, 0x93, 0xba],
   [0x10, 0x55, 0x11, 0x90, 0x03, 0x0a, 0xcd, 0x0d, 0x82, 0x25, 0x23, 0x55],
   [0x91, 0xc1, 0x00, 0x51, 0x01, 0x00, 0x80, 0x90, 0x03, 0x24, 0x9f, 0x22],
   [0x78, 0x5f, 0x80, 0x4b, 0x51, 0x90, 0x03, 0xc7, 0x77, 0xba, 0xdd, 0xe7],
   [0x28, 0x2a, 0xd1, 0xc1, 0x71, 0x00, 0x40, 0x90, 0x03, 0x03, 0x46, 0x3d],
   [0x4f, 0x17, 0xb0, 0xf1, 0x31, 0xc1, 0x00, 0x71, 0x01, 0x00, 0x80, 0xc1],
   [0x00, 0x71, 0x01, 0x01, 0x00, 0x90, 0x03, 0xe1, 0x5a, 0x35, 0x52, 0xb8],
   [0x2c, 0x7c, 0x71, 0xc1, 0x01, 0x01, 0x71, 0x01, 0x02, 0x00, 0x90, 0x03],
   [0x03, 0x0b, 0x7c, 0x5d, 0x94, 0x0a, 0x35, 0x71, 0xc1, 0x01, 0x03, 0x71],
   [0x01, 0x08, 0x00, 0x90, 0x03, 0xf2, 0x51, 0xe8, 0x13, 0x4f, 0xc2, 0x63],
   [0x71, 0x90, 0x03, 0xe2, 0x44, 0x3c, 0x88, 0x2d, 0xe6, 0x7b, 0x71, 0x90],
   [0x03, 0xd5, 0xd7, 0xa0, 0x61, 0xce, 0x3b, 0x40, 0xf1, 0xc1, 0x49, 0x50],
   [0xc1, 0x49, 0x60, 0x90, 0x03, 0x3c, 0x13, 0x36, 0x9a, 0x35, 0xd0, 0x73],
   [0xc9, 0xc1, 0x69, 0x00, 0x40, 0x90, 0x03, 0x17, 0xd3, 0x60, 0x1a, 0x09],
   [0x70, 0x76, 0x29, 0x90, 0x03, 0xea, 0xce, 0x96, 0xbf, 0x75, 0x8d, 0x6e],
   [0xe9, 0xc1, 0x59, 0x60, 0xc1, 0x59, 0x01, 0x00, 0x80, 0xc1, 0x59, 0x01],
   [0x01, 0x00, 0xc1, 0x01, 0x04, 0x19, 0x01, 0x08, 0x00, 0x90, 0x03, 0xf0],
   [0xad, 0x3b, 0x08, 0x93, 0x2d, 0x94, 0x19, 0x90, 0x03, 0x18, 0x12, 0x32],
   [0xcf, 0xab, 0x69, 0x0c, 0x19, 0xc1, 0x01, 0x01, 0x19, 0x01, 0x02, 0x00],
   [0x90, 0x03, 0x0e, 0x59, 0x5c, 0x04, 0x3a, 0xda, 0xe9, 0x19, 0x90, 0x03],
   [0x31, 0x3e, 0x37, 0x5a, 0xf6, 0x48, 0xb3, 0x19, 0xc1, 0x01, 0x00, 0x99],
   [0x01, 0x01, 0x00, 0x90, 0x03, 0x11, 0x60, 0x6c, 0x03, 0xcd, 0x70, 0x3a],
   [0x99, 0x90, 0x03, 0x3d, 0x25, 0x49, 0xea, 0x03, 0x1e, 0xf7, 0x99, 0xc1],
   [0x79, 0x00, 0x40, 0xc1, 0x79, 0x01, 0x01, 0x00, 0x90, 0x03, 0xd0, 0x22],
   [0x13, 0xa9, 0x58, 0xe2, 0x62, 0x39, 0x90, 0x03, 0x29, 0xe4, 0x40, 0x5f],
   [0xde, 0x5a, 0x7b, 0x39, 0xc1, 0x01, 0x00, 0xf9, 0x01, 0x01, 0x00, 0x90]] @
  [[0x03, 0xc8, 0x03, 0x2c, 0xae, 0xb2, 0x03, 0x00, 0xf9, 0x90, 0x03, 0xd0],
   [0x66, 0x85, 0xc7, 0x95, 0xa5, 0x3d, 0xf9, 0xc1, 0x45, 0x48, 0xc1, 0x45],
   [0x50, 0xc1, 0x45, 0x60, 0xc1, 0x45, 0x00, 0x40, 0xc1, 0x45, 0x01, 0x00],
   [0x80, 0xc1, 0x45, 0x01, 0x01, 0x00, 0xc1, 0x01, 0x0c, 0x05, 0x01, 0x20],
   [0x00, 0x90, 0x03, 0x0c, 0x9a, 0x56, 0x62, 0x17, 0x12, 0x8c, 0x05, 0x90],
   [0x03, 0xfc, 0xf9, 0x18, 0x03, 0x20, 0xab, 0xac, 0x05, 0x90, 0x03, 0x26],
   [0xc1, 0x02, 0x3e, 0x90, 0x28, 0xf5, 0x05, 0xc1, 0x01, 0x00, 0x85, 0x01],
   [0x01, 0x00, 0x90, 0x03, 0x2a, 0x0f, 0x46, 0xb2, 0x68, 0xfc, 0xce, 0x85],
   [0x90, 0x03, 0x2e, 0x95, 0xef, 0x02, 0xe4, 0x5c, 0xb9, 0x85, 0xc1, 0x00],
   [0x45, 0x01, 0x00, 0x80, 0x90, 0x03, 0xf9, 0x1a, 0x8d, 0xd3, 0x1a, 0xda],
   [0x0a, 0x45, 0x90, 0x03, 0x1f, 0x2c, 0xd7, 0xdc, 0x07, 0x5a, 0xe5, 0xc5],
   [0xc1, 0x65, 0x00, 0x40, 0xc1, 0x65, 0x01, 0x00, 0x80, 0x90, 0x03, 0xff],
   [0x53, 0xcc, 0xa3, 0xbf, 0x5e, 0xca, 0x25, 0x90, 0x03, 0xc9, 0x5a, 0xcd],
   [0x49, 0x90, 0x80, 0x9c, 0xa5, 0xc1, 0x00, 0x65, 0x01, 0x00, 0x80, 0xc1],
   [0x00, 0x65, 0x01, 0x01, 0x00, 0x90, 0x03, 0xe0, 0xb0, 0xd6, 0xf8, 0xea],
   [0xf2, 0x88, 0x65, 0xc1, 0x01, 0x01, 0x65, 0x01, 0x02, 0x00, 0x90, 0x03],
   [0xc9, 0x97, 0xe0, 0xf9, 0x8e, 0x4f, 0x2d, 0x65, 0x90, 0x03, 0xc6, 0x5d],
   [0x3c, 0x6a, 0xc8, 0xfb, 0x4b, 0x65, 0xc1, 0x01, 0x00, 0xe5, 0x01, 0x01],
   [0x00, 0xc1, 0x01, 0x00, 0xe5, 0x01, 0x02, 0x00, 0x90, 0x03, 0x01, 0xba],
   [0xd3, 0x82, 0xca, 0x9a, 0x28, 0xe5, 0x90, 0x03, 0x34, 0x5d, 0xb5, 0x15],
   [0x0d, 0xb4, 0x7e, 0xe5, 0x90, 0x03, 0xea, 0x2f, 0xa6, 0xc2, 0x63, 0x6c],
   [0xc5, 0xe5, 0xc1, 0x55, 0x60, 0xc1, 0x55, 0x00, 0x40, 0x90, 0x03, 0xc2],
   [0xe7, 0x3d, 0xa2, 0x83, 0x7a, 0x7e, 0x15, 0xc1, 0x00, 0x55, 0x01, 0x00],
   [0x80, 0x90, 0x03, 0xc9, 0x8d, 0xf9, 0xa0, 0xab, 0xd6, 0xda, 0x55, 0x72],
   [0x6e, 0x65, 0x74, 0x41, 0x6e, 0x64, 0x53, 0x74, 0x72, 0x69, 0x6e, 0x67],
   [0x4d, 0x61, 0x79, 0x42, 0x65, 0x53, 0x51, 0x4c, 0x04, 0x32, 0x08, 0x00],
   [0x00, 0x20, 0x00, 0x90, 0xa0, 0xa0, 0x03, 0xd7, 0x46, 0x89, 0x3b, 0xcc],
   [0x8f, 0xd3, 0x9c, 0x90, 0x04, 0x31, 0xa0, 0x03, 0x04, 0x00, 0x00, 0x03],
   [0x40, 0x00, 0x00, 0x00, 0x40, 0x90, 0x40, 0x90, 0x05, 0x07, 0x8a, 0x90],
   [0x48, 0x90, 0x90, 0x04, 0x2c, 0x90, 0xa0, 0x03, 0xc0, 0x00, 0x00, 0x00]] @
  [[0x00, 0x00, 0x10, 0x00, 0x40, 0x90, 0xa0, 0x40, 0x40, 0x90, 0xc0, 0x40],
   [0xb0, 0x01, 0x14, 0xfe, 0x90, 0xa0, 0x09, 0x40, 0x66, 0x62, 0x73, 0x65],
   [0x61, 0x72, 0x63, 0x68, 0x2e, 0x73, 0x68, 0x6f, 0x74, 0x73, 0x2e, 0x73],
   [0x68, 0x6f, 0x74, 0x73, 0x5f, 0x64, 0x65, 0x62, 0x75, 0x67, 0x5f, 0x69],
   [0x6e, 0x66, 0x6f, 0x5f, 0x75, 0x74, 0x69, 0x6c, 0x73, 0x2e, 0x67, 0x65],
   [0x74, 0x5f, 0x73, 0x68, 0x6f, 0x74, 0x73, 0x5f, 0x72, 0x65, 0x71, 0x75],
   [0x65, 0x73, 0x74, 0x5f, 0x70, 0x61, 0x73, 0x74, 0x65, 0x5f, 0x69, 0x64],
   [0x40, 0x04, 0x2b, 0xc0, 0x40, 0xb0, 0x01, 0x14, 0xfe, 0x90, 0xa0, 0x09],
   [0x45, 0x66, 0x65, 0x65, 0x64, 0x2e, 0x64, 0x65, 0x6c, 0x69, 0x76, 0x65],
   [0x72, 0x79, 0x2e, 0x66, 0x65, 0x65, 0x64, 0x72, 0x65, 0x63, 0x73, 0x2e],
   [0x75, 0x74, 0x69, 0x6c, 0x73, 0x2e, 0x64, 0x65, 0x62, 0x75, 0x67, 0x67],
   [0x69, 0x6e, 0x67, 0x5f, 0x74, 0x6f, 0x6f, 0x6c, 0x73, 0x2e, 0x75, 0x74],
   [0x69, 0x6c, 0x73, 0x2e, 0x61, 0x73, 0x79, 0x6e, 0x63, 0x5f, 0x70, 0x72],
   [0x65, 0x76, 0x69, 0x65, 0x77, 0x5f, 0x64, 0x61, 0x74, 0x61, 0x40, 0x04],
   [0x28, 0xc0, 0x40, 0xb0, 0x01, 0x14, 0xfe, 0x90, 0xa0, 0x09, 0x45, 0x66],
   [0x65, 0x65, 0x64, 0x2e, 0x64, 0x65, 0x6c, 0x69, 0x76, 0x65, 0x72, 0x79],
   [0x2e, 0x66, 0x65, 0x65, 0x64, 0x72, 0x65, 0x63, 0x73, 0x2e, 0x75, 0x74],
   [0x69, 0x6c, 0x73, 0x2e, 0x64, 0x65, 0x62, 0x75, 0x67, 0x67, 0x69, 0x6e],
   [0x67, 0x5f, 0x74, 0x6f, 0x6f, 0x6c, 0x73, 0x2e, 0x75, 0x74, 0x69, 0x6c],
   [0x73, 0x2e, 0x61, 0x73, 0x79, 0x6e, 0x63, 0x5f, 0x70, 0x72, 0x65, 0x76],
   [0x69, 0x65, 0x77, 0x5f, 0x64, 0x61, 0x74, 0x61, 0x40, 0x04, 0x25, 0x40],
   [0x41, 0x42, 0x43, 0x40, 0x41, 0x91, 0xa0, 0x34, 0x55, 0x73, 0x65, 0x72],
   [0x43, 0x6f, 0x6e, 0x74, 0x72, 0x6f, 0x6c, 0x6c, 0x65, 0x64, 0x41, 0x6e],
   [0x64, 0x50, 0x41, 0x54, 0x22, 0x75, 0x63, 0x08, 0x00, 0x00, 0x20, 0x00],
   [0x90, 0xa0, 0xa0, 0x03, 0xd7, 0x4e, 0x89, 0x3b, 0xcc, 0x8f, 0xd3, 0x9c],
   [0x90, 0xc1, 0x40, 0x41, 0xc1, 0x40, 0x42, 0xc1, 0x4c, 0x60, 0x90, 0x03],
   [0xd3, 0x75, 0xf7, 0x89, 0x55, 0xaf, 0x1d, 0x4c, 0x90, 0x03, 0xff, 0xcd],
   [0xfb, 0xb4, 0xa9, 0x2a, 0x1c, 0x6c, 0x90, 0x03, 0xdd, 0x6c, 0x08, 0xca],
   [0xe6, 0x1d, 0xbd, 0x72, 0x05, 0x04, 0x28, 0xa0, 0x03, 0x00, 0x00, 0x00],
   [0x01, 0x40, 0x00, 0x00, 0x00, 0x40, 0x90, 0x40, 0x90, 0x05, 0x07, 0xb3]]"

definition dictionary_rows_43 :: "u8 list list" where
  "dictionary_rows_43 =
  [[0x90, 0x4c, 0x90, 0x90, 0xc1, 0x40, 0x41, 0x90, 0x03, 0xf8, 0x83, 0x72],
   [0x38, 0x38, 0xee, 0xe6, 0xa8, 0x90, 0x03, 0xe7, 0xa9, 0x70, 0xb0, 0x96],
   [0x19, 0x94, 0xf3, 0x90, 0xa0, 0x03, 0xc0, 0x00, 0x00, 0x20, 0x00, 0x00],
   [0x10, 0x00, 0x90, 0xc1, 0x40, 0x41, 0x90, 0x03, 0x35, 0x81, 0x25, 0xb7],
   [0x5e, 0xbc, 0x19, 0x34, 0x90, 0x03, 0x1e, 0xa3, 0x23, 0xb2, 0xe9, 0xa4],
   [0x6d, 0x0d, 0x90, 0xa0, 0x40, 0x40, 0x90, 0xc0, 0xc0, 0xc0, 0xc0, 0x40],
   [0xb0, 0x01, 0x17, 0xd2, 0x90, 0xa0, 0x09, 0x2a, 0x6d, 0x65, 0x64, 0x69],
   [0x61, 0x2e, 0x68, 0x65, 0x6c, 0x70, 0x65, 0x72, 0x2e, 0x61, 0x73, 0x79],
   [0x6e, 0x63, 0x5f, 0x6d, 0x65, 0x6e, 0x74, 0x69, 0x6f, 0x6e, 0x5f, 0x73],
   [0x68, 0x61, 0x72, 0x69, 0x6e, 0x67, 0x5f, 0x65, 0x6e, 0x61, 0x62, 0x6c],
   [0x65, 0x64, 0x40, 0xb0, 0x91, 0xb0, 0x3d, 0x6e, 0x6f, 0x64, 0x65, 0x61],
   [0x70, 0x69, 0x2e, 0x51, 0x75, 0x65, 0x72, 0x79, 0x2e, 0x4e, 0x6f, 0x64],
   [0x65, 0x51, 0x4c, 0x51, 0x75, 0x65, 0x72, 0x79, 0x42, 0x61, 0x73, 0x65],
   [0x2a, 0x61, 0x73, 0x79, 0x6e, 0x63, 0x5f, 0x73, 0x65, 0x6e, 0x64, 0x40],
   [0x40, 0x91, 0x22, 0x76, 0x63, 0xc0, 0x40, 0xb0, 0x01, 0x17, 0xd2, 0x90],
   [0xa0, 0x09, 0x65, 0x6d, 0x65, 0x64, 0x69, 0x61, 0x2e, 0x73, 0x74, 0x6f],
   [0x72, 0x69, 0x65, 0x73, 0x2e, 0x74, 0x61, 0x70, 0x70, 0x61, 0x62, 0x6c],
   [0x65, 0x2e, 0x73, 0x74, 0x6f, 0x72, 0x79, 0x5f, 0x70, 0x72, 0x6f, 0x6d],
   [0x70, 0x74, 0x2e, 0x61, 0x73, 0x79, 0x6e, 0x63, 0x5f, 0x68, 0x61, 0x73],
   [0x5f, 0x75, 0x73, 0x65, 0x72, 0x5f, 0x70, 0x61, 0x72, 0x74, 0x69, 0x63],
   [0x69, 0x70, 0x61, 0x74, 0x65, 0x64, 0x5f, 0x69, 0x6e, 0x5f, 0x74, 0x68],
   [0x65, 0x5f, 0x70, 0x72, 0x6f, 0x6d, 0x70, 0x74, 0x5f, 0x64, 0x65, 0x73],
   [0x70, 0x69, 0x74, 0x65, 0x5f, 0x64, 0x65, 0x70, 0x69, 0x74, 0x65, 0x5f],
   [0x64, 0x65, 0x6c, 0x65, 0x74, 0x69, 0x6f, 0x6e, 0x40, 0xb0, 0x91, 0xb0],
   [0x3d, 0x6e, 0x6f, 0x64, 0x65, 0x61, 0x70, 0x69, 0x2e, 0x51, 0x75, 0x65],
   [0x72, 0x79, 0x2e, 0x4e, 0x6f, 0x64, 0x65, 0x51, 0x4c, 0x51, 0x75, 0x65],
   [0x72, 0x79, 0x42, 0x61, 0x73, 0x65, 0x2a, 0x61, 0x73, 0x79, 0x6e, 0x63],
   [0x5f, 0x73, 0x65, 0x6e, 0x64, 0x40, 0x41, 0x91, 0x22, 0x76, 0x63, 0xc0],
   [0x40, 0xb0, 0x01, 0x17, 0xd2, 0x91, 0xb0, 0x09, 0x24, 0x66, 0x72, 0x69],
   [0x65, 0x6e, 0x64, 0x73, 0x68, 0x69, 0x70, 0x73, 0x2e, 0x6d, 0x6f, 0x64]] @
  [[0x65, 0x6c, 0x73, 0x2e, 0x46, 0x72, 0x69, 0x65, 0x6e, 0x64, 0x73, 0x68],
   [0x69, 0x70, 0x43, 0x6f, 0x75, 0x6e, 0x74, 0x65, 0x72, 0x09, 0x20, 0x5f],
   [0x61, 0x73, 0x79, 0x6e, 0x63, 0x5f, 0x67, 0x65, 0x74, 0x5f, 0x70, 0x65],
   [0x74, 0x72, 0x61, 0x5f, 0x6f, 0x6e, 0x6c, 0x79, 0x5f, 0x63, 0x6f, 0x75],
   [0x6e, 0x74, 0x5f, 0x69, 0x6d, 0x70, 0x6c, 0x40, 0xb0, 0x91, 0xb0, 0x3d],
   [0x6e, 0x6f, 0x64, 0x65, 0x61, 0x70, 0x69, 0x2e, 0x51, 0x75, 0x65, 0x72],
   [0x79, 0x2e, 0x4e, 0x6f, 0x64, 0x65, 0x51, 0x4c, 0x51, 0x75, 0x65, 0x72],
   [0x79, 0x42, 0x61, 0x73, 0x65, 0x2a, 0x61, 0x73, 0x79, 0x6e, 0x63, 0x5f],
   [0x73, 0x65, 0x6e, 0x64, 0x40, 0x40, 0x91, 0x22, 0x76, 0x63, 0x40, 0x41],
   [0x42, 0x43, 0xb0, 0x01, 0x17, 0xd2, 0x91, 0xb0, 0x09, 0x24, 0x66, 0x72],
   [0x69, 0x65, 0x6e, 0x64, 0x73, 0x68, 0x69, 0x70, 0x73, 0x2e, 0x6d, 0x6f],
   [0x64, 0x65, 0x6c, 0x73, 0x2e, 0x46, 0x72, 0x69, 0x65, 0x6e, 0x64, 0x73],
   [0x68, 0x69, 0x70, 0x43, 0x6f, 0x75, 0x6e, 0x74, 0x65, 0x72, 0x33, 0x61],
   [0x73, 0x79, 0x6e, 0x63, 0x5f, 0x63, 0x6f, 0x72, 0x72, 0x65, 0x63, 0x74],
   [0x5f, 0x63, 0x6f, 0x75, 0x6e, 0x74, 0x40, 0xb0, 0x91, 0xb0, 0x3d, 0x6e],
   [0x6f, 0x64, 0x65, 0x61, 0x70, 0x69, 0x2e, 0x51, 0x75, 0x65, 0x72, 0x79],
   [0x2e, 0x4e, 0x6f, 0x64, 0x65, 0x51, 0x4c, 0x51, 0x75, 0x65, 0x72, 0x79],
   [0x42, 0x61, 0x73, 0x65, 0x2a, 0x61, 0x73, 0x79, 0x6e, 0x63, 0x5f, 0x73],
   [0x65, 0x6e, 0x64, 0x40, 0x40, 0x91, 0x04, 0x0c, 0xc0, 0x40, 0xb0, 0x01],
   [0x17, 0xd2, 0x91, 0x90, 0xa0, 0x01, 0x10, 0x00, 0x90, 0xc1, 0x40, 0x42],
   [0x04, 0x3f, 0x04, 0x3e, 0x90, 0x05, 0x0b, 0xb5, 0x90, 0xc0, 0x40, 0xb0],
   [0x01, 0x19, 0x3e, 0x91, 0xb0, 0x3d, 0x69, 0x67, 0x5f, 0x76, 0x69, 0x64],
   [0x65, 0x6f, 0x2e, 0x75, 0x74, 0x69, 0x6c, 0x2e, 0x64, 0x61, 0x73, 0x68],
   [0x6d, 0x70, 0x64, 0x2e, 0x44, 0x61, 0x73, 0x68, 0x4d, 0x50, 0x44, 0x04],
   [0x3d, 0x40, 0x04, 0x3c, 0x40, 0x41, 0x40, 0x41, 0x42, 0x92, 0x27, 0x4c],
   [0x6f, 0x67, 0x67, 0x69, 0x6e, 0x67, 0x08, 0x00, 0x00, 0x20, 0x00, 0x90],
   [0xa0, 0xa0, 0x03, 0xc7, 0x46, 0x89, 0xb3, 0xcc, 0x8f, 0xd3, 0x9c, 0x90],
   [0xc1, 0x40, 0x41, 0xc1, 0x40, 0x42, 0xc1, 0x4c, 0x60, 0x90, 0x03, 0xd3],
   [0x75, 0xf7, 0x89, 0x55, 0xaf, 0x1d, 0x4c, 0x90, 0x03, 0xff, 0xcd, 0xfb],
   [0xb4, 0xa9, 0x2a, 0x1c, 0x6c, 0xc1, 0x42, 0x44, 0xc1, 0x42, 0x50, 0x90]] @
  [[0x03, 0x29, 0xdf, 0xec, 0x36, 0xc4, 0x73, 0x58, 0x62, 0x90, 0x03, 0xdd],
   [0x6c, 0x08, 0xca, 0xe6, 0x1d, 0xbd, 0x72, 0x90, 0x03, 0xe9, 0xd2, 0xcc],
   [0x69, 0xe6, 0xdc, 0x99, 0x96, 0xc1, 0x41, 0x42, 0xc1, 0x41, 0x44, 0xc1],
   [0x49, 0x50, 0x90, 0x03, 0x1e, 0x48, 0x9c, 0xc3, 0x43, 0xb6, 0x83, 0xc9],
   [0xc1, 0x59, 0x60, 0x90, 0x03, 0xcd, 0xfd, 0x23, 0x10, 0x65, 0x08, 0x43],
   [0x19, 0x90, 0x03, 0xc3, 0xb2, 0x72, 0xa0, 0x8c, 0xc4, 0x90, 0x79, 0x90],
   [0x03, 0xc9, 0x21, 0x74, 0x82, 0x49, 0x47, 0x6d, 0x4d, 0xc1, 0x43, 0x44],
   [0xc1, 0x43, 0x48, 0xc1, 0x43, 0x50, 0x90, 0x03, 0x36, 0x11, 0xb5, 0xf0],
   [0x92, 0xf4, 0xe6, 0x03, 0x90, 0x03, 0x07, 0x17, 0x31, 0x67, 0x82, 0x3c],
   [0x9e, 0xb3, 0x90, 0x03, 0xd8, 0x23, 0x26, 0x92, 0x11, 0x82, 0x5a, 0xdb],
   [0xc1, 0x4f, 0x50, 0x90, 0x03, 0xd4, 0x77, 0x4f, 0xc1, 0x6f, 0x0c, 0x7a],
   [0x8f, 0xc1, 0x5f, 0x60, 0x90, 0x03, 0xcc, 0xd1, 0xde, 0xac, 0xa3, 0x3c],
   [0xaf, 0x5f, 0x90, 0x03, 0x25, 0x2d, 0x26, 0xa0, 0xb6, 0xfb, 0x64, 0xff],
   [0xa0, 0x03, 0x06, 0x00, 0x01, 0x03, 0x40, 0x02, 0x10, 0x80, 0x40, 0x90],
   [0x40, 0x90, 0xa0, 0x03, 0x3f, 0xff, 0xff, 0xff, 0xff, 0xff, 0xff, 0xff],
   [0x40, 0x90, 0x46, 0x90, 0x90, 0xc1, 0x40, 0x41, 0xc1, 0x40, 0x42, 0xc1],
   [0x40, 0x44, 0xc1, 0x40, 0x48, 0xc1, 0x40, 0x50, 0xc1, 0x40, 0x60, 0xc1],
   [0x40, 0x00, 0x40, 0x90, 0x03, 0xd0, 0x53, 0x7e, 0xbd, 0x52, 0xd3, 0x00],
   [0x80, 0x90, 0x03, 0x19, 0x95, 0xb4, 0x16, 0x5d, 0x1a, 0x98, 0xc0, 0xc1],
   [0x01, 0x00, 0xa0, 0x01, 0x01, 0x00, 0x90, 0x03, 0xdb, 0x9e, 0xdb, 0x41],
   [0xca, 0x3c, 0x6c, 0xa0, 0x90, 0x03, 0x0d, 0x72, 0x5e, 0x23, 0x76, 0xbc],
   [0x05, 0xa0, 0xc1, 0x50, 0x60, 0xc1, 0x50, 0x00, 0x40, 0xc1, 0x01, 0x00],
   [0x90, 0x01, 0x02, 0x00, 0x90, 0x03, 0xd4, 0xbc, 0xa8, 0x8d, 0x40, 0x86],
   [0x3c, 0x90, 0x90, 0x03, 0xcc, 0x7e, 0x59, 0x7e, 0xdd, 0xd3, 0x42, 0x90],
   [0x90, 0x03, 0x1b, 0xdf, 0x93, 0xc2, 0x3c, 0x47, 0x1d, 0x50, 0x90, 0x03],
   [0xf2, 0xc9, 0x9b, 0x33, 0xf3, 0x0e, 0xbe, 0xf0, 0xc1, 0x48, 0x50, 0xc1],
   [0x48, 0x60, 0xc1, 0x01, 0x00, 0xc8, 0x01, 0x04, 0x00, 0x90, 0x03, 0x25],
   [0x54, 0x7d, 0xb5, 0x09, 0xaa, 0x40, 0xc8, 0x90, 0x03, 0x26, 0x9d, 0x43],
   [0xee, 0xda, 0xd2, 0x14, 0xc8, 0xc1, 0x68, 0x01, 0x00, 0x80, 0xc1, 0x68],
   [0x01, 0x01, 0x00, 0x90, 0x03, 0x03, 0x58, 0x32, 0x42, 0x65, 0xb9, 0x22]] @
  [[0x28, 0x90, 0x03, 0x14, 0xab, 0x41, 0x45, 0x93, 0x74, 0xdb, 0x28, 0xc1],
   [0x01, 0x00, 0xa8, 0x01, 0x02, 0x00, 0x90, 0x03, 0x26, 0x27, 0x88, 0xe6],
   [0x69, 0x38, 0x48, 0xa8, 0xc1, 0x01, 0x02, 0xa8, 0x01, 0x04, 0x00, 0x90],
   [0x03, 0xdb, 0xf5, 0xf1, 0x85, 0x75, 0x9d, 0xaa, 0xa8, 0x90, 0x03, 0xe6],
   [0x3d, 0xf4, 0x01, 0x5f, 0xcf, 0x6e, 0xa8, 0xc1, 0x58, 0x60, 0xc1, 0x58],
   [0x00, 0x40, 0x90, 0x03, 0xc2, 0x81, 0x1a, 0xf2, 0x30, 0x71, 0xa0, 0x18],
   [0xc1, 0x00, 0x58, 0x01, 0x00, 0x80, 0x90, 0x03, 0xc7, 0xdd, 0xe4, 0x8f],
   [0x6f, 0x8b, 0x41, 0x58, 0x90, 0x03, 0xcf, 0x7c, 0x22, 0x41, 0xcd, 0x3e],
   [0xea, 0xd8, 0x90, 0x03, 0xd6, 0x63, 0x7c, 0x89, 0xab, 0x27, 0xda, 0xf8],
   [0xc1, 0x44, 0x48, 0xc1, 0x44, 0x50, 0xc1, 0x44, 0x60, 0x90, 0x03, 0xd3],
   [0x7c, 0x15, 0x8c, 0xfa, 0x10, 0xee, 0x44, 0xc1, 0x64, 0x01, 0x00, 0x80],
   [0xc1, 0x64, 0x01, 0x01, 0x00, 0xc1, 0x01, 0x02, 0x24, 0x01, 0x04, 0x00],
   [0x90, 0x03, 0xca, 0xcd, 0x27, 0xe8, 0x79, 0xc2, 0xea, 0x24, 0x90, 0x03],
   [0x08, 0x24, 0xb9, 0x75, 0x28, 0xd5, 0x1e, 0x24, 0x90, 0x03, 0xff, 0xe2],
   [0xcd, 0x81, 0x59, 0xa3, 0xa3, 0x24, 0x90, 0x03, 0x0d, 0xbe, 0x90, 0x91],
   [0xfe, 0xad, 0x75, 0xa4, 0xc1, 0x54, 0x60, 0xc1, 0x54, 0x00, 0x40, 0x90],
   [0x03, 0x0d, 0x9d, 0xc1, 0x93, 0x72, 0xce, 0x4e, 0x14, 0x90, 0x03, 0xed],
   [0x73, 0x91, 0x23, 0x64, 0x46, 0xeb, 0xd4, 0xc1, 0x74, 0x00, 0x40, 0xc1],
   [0x01, 0x00, 0xb4, 0x01, 0x02, 0x00, 0x90, 0x03, 0xf7, 0x0d, 0xc2, 0x30],
   [0x89, 0xb1, 0x94, 0xb4, 0x90, 0x03, 0xf5, 0x88, 0x47, 0x16, 0x92, 0xe9],
   [0x36, 0xb4, 0xc1, 0x01, 0x00, 0xf4, 0x01, 0x01, 0x00, 0x90, 0x03, 0x33],
   [0x42, 0x4a, 0x51, 0x75, 0x7e, 0x9e, 0xf4, 0x90, 0x03, 0xe0, 0x01, 0x86],
   [0x27, 0x83, 0x77, 0xbf, 0xf4, 0xc1, 0x4c, 0x50, 0xc1, 0x6c, 0x00, 0x40],
   [0xc1, 0x6c, 0x01, 0x00, 0x80, 0x90, 0x03, 0x02, 0xdb, 0xc4, 0xc1, 0xd1],
   [0x73, 0x22, 0x2c, 0x90, 0x03, 0xf8, 0x94, 0x56, 0xe1, 0xd5, 0xbb, 0x11],
   [0xac, 0xc1, 0x00, 0x6c, 0x01, 0x00, 0x80, 0x90, 0x03, 0xf9, 0x2d, 0x54],
   [0x3f, 0x75, 0x0d, 0xf8, 0x6c, 0x90, 0x03, 0xcf, 0xa5, 0xf3, 0xb7, 0x29],
   [0x67, 0xc4, 0xec, 0xc1, 0x5c, 0x60, 0xc1, 0x01, 0x00, 0xdc, 0x01, 0x02],
   [0x00, 0x90, 0x03, 0x2c, 0x74, 0xe6, 0x5a, 0x90, 0x5f, 0x54, 0xdc, 0x90],
   [0x03, 0x31, 0x07, 0x75, 0xf3, 0xa4, 0xc2, 0x3a, 0xdc, 0x90, 0x03, 0xfb]] @
  [[0xd9, 0xfc, 0x23, 0x15, 0x23, 0xf7, 0xbc, 0xc1, 0x42, 0x44, 0xc1, 0x42],
   [0x48, 0xc1, 0x42, 0x50, 0xc1, 0x42, 0x60, 0xc1, 0x42, 0x00, 0x40, 0xc1],
   [0x42, 0x01, 0x00, 0x80, 0x90, 0x03, 0xf3, 0x71, 0x63, 0xfe, 0xd6, 0x5f],
   [0x34, 0x02, 0x90, 0x03, 0xd8, 0xa6, 0xbd, 0xa9, 0x07, 0xd0, 0x62, 0x82],
   [0xc1, 0x00, 0x42, 0x01, 0x00, 0x80, 0xc1, 0x01, 0x03, 0x42, 0x01, 0x08],
   [0x00, 0x90, 0x03, 0xc7, 0x31, 0xd5, 0xdf, 0x2b, 0x29, 0x73, 0x42, 0x90],
   [0x03, 0x3d, 0x9a, 0x6e, 0x4b, 0x0a, 0x12, 0x8b, 0x42, 0x90, 0x03, 0x01],
   [0x4a, 0xe4, 0xc8, 0x8b, 0xfa, 0xbc, 0xc2, 0xc1, 0x62, 0x00, 0x40, 0x90],
   [0x03, 0x0b, 0x59, 0xcc, 0xcb, 0x9d, 0x00, 0x36, 0xa2, 0x90, 0x03, 0xfb],
   [0xb3, 0x3c, 0xe0, 0x9b, 0xd7, 0x4e, 0x62, 0x90, 0x03, 0xe5, 0x2b, 0x67],
   [0xee, 0x95, 0x6f, 0x6b, 0x32, 0xc1, 0x4a, 0x50, 0xc1, 0x4a, 0x60, 0x90],
   [0x03, 0xd9, 0x89, 0x01, 0xfc, 0xdc, 0x16, 0x73, 0x8a, 0x90, 0x03, 0xfc],
   [0xfe, 0xef, 0x89, 0x00, 0x49, 0x83, 0xaa, 0xc1, 0x5a, 0x60, 0xc1, 0x5a],
   [0x00, 0x40, 0xc1, 0x5a, 0x01, 0x01, 0x00, 0x90, 0x03, 0x08, 0x22, 0xa4],
   [0x0d, 0xab, 0x23, 0x9e, 0x1a, 0x90, 0x03, 0x74, 0x40, 0x40, 0x40, 0x40],
   [0x40, 0x40, 0x40, 0x84, 0x95, 0xa6, 0xbe, 0x00, 0x00, 0x00, 0x98, 0x00],
   [0x00, 0x00, 0x11, 0x00, 0x00, 0x00, 0x4c, 0x00, 0x00, 0x00, 0x3b, 0x90],
   [0xf0, 0x90, 0xa0, 0x3e, 0x6e, 0x6f, 0x64, 0x65, 0x61, 0x70, 0x69, 0x2e],
   [0x45, 0x64, 0x67, 0x65, 0x51, 0x75, 0x65, 0x72, 0x79, 0x2e, 0x45, 0x64],
   [0x67, 0x65, 0x53, 0x65, 0x74, 0x51, 0x75, 0x65, 0x72, 0x79, 0xa0, 0x38],
   [0x6e, 0x6f, 0x64, 0x65, 0x61, 0x70, 0x69, 0x2e, 0x51, 0x75, 0x65, 0x72],
   [0x79, 0x2e, 0x57, 0x72, 0x69, 0x74, 0x65, 0x51, 0x75, 0x65, 0x72, 0x79],
   [0xa0, 0x37, 0x6e, 0x6f, 0x64, 0x65, 0x61, 0x70, 0x69, 0x2e, 0x51, 0x75],
   [0x65, 0x72, 0x79, 0x42, 0x61, 0x73, 0x65, 0x2e, 0x51, 0x75, 0x65, 0x72],
   [0x79, 0xa0, 0x30, 0x74, 0x79, 0x70, 0x69, 0x6e, 0x67, 0x2e, 0x41, 0x77],
   [0x61, 0x69, 0x74, 0x61, 0x62, 0x6c, 0x65, 0xa0, 0x2f, 0x74, 0x79, 0x70],
   [0x69, 0x6e, 0x67, 0x2e, 0x50, 0x72, 0x6f, 0x74, 0x6f, 0x63, 0x6f, 0x6c],
   [0xa0, 0x2e, 0x74, 0x79, 0x70, 0x69, 0x6e, 0x67, 0x2e, 0x47, 0x65, 0x6e],
   [0x65, 0x72, 0x69, 0x63, 0xa0, 0x26, 0x6f, 0x62, 0x6a, 0x65, 0x63, 0x74],
   [0x40, 0x40, 0x40, 0x40, 0x40, 0x40, 0x40, 0x84, 0x95, 0xa6, 0xbe, 0x00]]"

definition dictionary_rows_44 :: "u8 list list" where
  "dictionary_rows_44 =
  [[0x00, 0x00, 0x03, 0x00, 0x00, 0x00, 0x01, 0x00, 0x00, 0x00, 0x02, 0x00],
   [0x00, 0x00, 0x02, 0x22, 0x69, 0x64, 0x84, 0x95, 0xa6, 0xbe, 0x00, 0x00],
   [0x00, 0x05, 0x00, 0x00, 0x00, 0x02, 0x00, 0x00, 0x00, 0x06, 0x00, 0x00],
   [0x00, 0x06, 0xa0, 0x40, 0xa0, 0x41, 0x40, 0x84, 0x95, 0xa6, 0xbe, 0x00],
   [0x00, 0x01, 0x44, 0x00, 0x00, 0x00, 0x2b, 0x00, 0x00, 0x00, 0xac, 0x00],
   [0x00, 0x00, 0x8c, 0xb0, 0x40, 0xa0, 0xa0, 0xa0, 0x00, 0xff, 0x00, 0xff],
   [0x04, 0x01, 0x92, 0xa0, 0xa0, 0x04, 0x05, 0x9c, 0x90, 0xb0, 0xa0, 0x04],
   [0x09, 0x9c, 0x91, 0x26, 0x74, 0x79, 0x70, 0x69, 0x6e, 0x67, 0x27, 0x54],
   [0x79, 0x70, 0x65, 0x56, 0x61, 0x72, 0x40, 0xa0, 0xa0, 0x40, 0xa0, 0x04],
   [0x10, 0x94, 0x94, 0xa0, 0x09, 0x5a, 0x5f, 0x53, 0x65, 0x6c, 0x66, 0x5f],
   [0x69, 0x67, 0x74, 0x68, 0x72, 0x69, 0x66, 0x74, 0x5f, 0x67, 0x65, 0x6e],
   [0x5f, 0x49, 0x41, 0x46, 0x45, 0x5f, 0x69, 0x61, 0x66, 0x5f, 0x65, 0x76],
   [0x65, 0x6e, 0x74, 0x5f, 0x73, 0x68, 0x61, 0x72, 0x65, 0x5f, 0x75, 0x72],
   [0x6c, 0x5f, 0x65, 0x64, 0x69, 0x74, 0x5f, 0x74, 0x68, 0x72, 0x69, 0x66],
   [0x74, 0x5f, 0x74, 0x79, 0x70, 0x65, 0x73, 0x5f, 0x53, 0x68, 0x61, 0x72],
   [0x65, 0x55, 0x72, 0x6c, 0x45, 0x64, 0x69, 0x74, 0x52, 0x65, 0x73, 0x75],
   [0x6c, 0x74, 0x46, 0x65, 0x61, 0x74, 0x75, 0x72, 0x65, 0x73, 0x5f, 0x5f],
   [0x40, 0xa0, 0xa0, 0x90, 0xa0, 0x04, 0x18, 0x30, 0x24, 0x70, 0x61, 0x72],
   [0x61, 0x6d, 0x65, 0x74, 0x65, 0x72, 0x24, 0x62, 0x6f, 0x75, 0x6e, 0x64],
   [0xa0, 0x04, 0x1a, 0x94, 0x94, 0xa0, 0x09, 0x52, 0x69, 0x67, 0x74, 0x68],
   [0x72, 0x69, 0x66, 0x74, 0x2e, 0x67, 0x65, 0x6e, 0x2e, 0x49, 0x41, 0x46],
   [0x45, 0x2e, 0x69, 0x61, 0x66, 0x5f, 0x65, 0x76, 0x65, 0x6e, 0x74, 0x5f],
   [0x73, 0x68, 0x61, 0x72, 0x65, 0x5f, 0x75, 0x72, 0x6c, 0x5f, 0x65, 0x64],
   [0x69, 0x74, 0x2e, 0x74, 0x68, 0x72, 0x69, 0x66, 0x74, 0x5f, 0x74, 0x79],
   [0x70, 0x65, 0x73, 0x2e, 0x53, 0x68, 0x61, 0x72, 0x65, 0x55, 0x72, 0x6c],
   [0x45, 0x64, 0x69, 0x74, 0x52, 0x65, 0x73, 0x75, 0x6c, 0x74, 0x46, 0x65],
   [0x61, 0x74, 0x75, 0x72, 0x65, 0x73, 0x40, 0x40, 0xb0, 0xa0, 0x28, 0x69],
   [0x67, 0x74, 0x68, 0x72, 0x69, 0x66, 0x74, 0xa0, 0x23, 0x67, 0x65, 0x6e],
   [0xa0, 0x24, 0x49, 0x41, 0x46, 0x45, 0xa0, 0x38, 0x69, 0x61, 0x66, 0x5f],
   [0x65, 0x76, 0x65, 0x6e, 0x74, 0x5f, 0x73, 0x68, 0x61, 0x72, 0x65, 0x5f]] @
  [[0x75, 0x72, 0x6c, 0x5f, 0x65, 0x64, 0x69, 0x74, 0xa0, 0x2c, 0x74, 0x68],
   [0x72, 0x69, 0x66, 0x74, 0x5f, 0x74, 0x79, 0x70, 0x65, 0x73, 0x40, 0x04],
   [0x28, 0x04, 0x28, 0x84, 0x95, 0xa6, 0xbe, 0x00, 0x00, 0x00, 0x9a, 0x00],
   [0x00, 0x00, 0x02, 0x00, 0x00, 0x00, 0x29, 0x00, 0x00, 0x00, 0x16, 0x94],
   [0x09, 0x97, 0x69, 0x67, 0x5f, 0x6e, 0x6f, 0x64, 0x65, 0x61, 0x70, 0x69],
   [0x2e, 0x65, 0x64, 0x67, 0x65, 0x73, 0x2e, 0x69, 0x6e, 0x73, 0x74, 0x61],
   [0x67, 0x72, 0x61, 0x6d, 0x5f, 0x6d, 0x65, 0x64, 0x69, 0x61, 0x5f, 0x74],
   [0x6f, 0x5f, 0x74, 0x61, 0x67, 0x67, 0x65, 0x64, 0x5f, 0x70, 0x72, 0x6f],
   [0x64, 0x75, 0x63, 0x74, 0x5f, 0x6f, 0x6e, 0x5f, 0x66, 0x65, 0x65, 0x64],
   [0x5f, 0x63, 0x61, 0x72, 0x6f, 0x75, 0x73, 0x65, 0x6c, 0x5f, 0x70, 0x65],
   [0x6e, 0x64, 0x69, 0x6e, 0x67, 0x5f, 0x73, 0x75, 0x62, 0x5f, 0x70, 0x6f],
   [0x73, 0x74, 0x2e, 0x45, 0x64, 0x67, 0x65, 0x49, 0x6e, 0x73, 0x74, 0x61],
   [0x67, 0x72, 0x61, 0x6d, 0x4d, 0x65, 0x64, 0x69, 0x61, 0x54, 0x6f, 0x54],
   [0x61, 0x67, 0x67, 0x65, 0x64, 0x50, 0x72, 0x6f, 0x64, 0x75, 0x63, 0x74],
   [0x4f, 0x6e, 0x46, 0x65, 0x65, 0x64, 0x43, 0x61, 0x72, 0x6f, 0x75, 0x73],
   [0x65, 0x6c, 0x50, 0x65, 0x6e, 0x64, 0x69, 0x6e, 0x67, 0x53, 0x75, 0x62],
   [0x50, 0x6f, 0x73, 0x74, 0x51, 0x75, 0x65, 0x72, 0x79, 0x84, 0x95, 0xa6],
   [0xbe, 0x00, 0x00, 0x00, 0x01, 0x00, 0x00, 0x00, 0x00, 0x00, 0x00, 0x00],
   [0x00, 0x00, 0x00, 0x00, 0x00, 0x40, 0x84, 0x95, 0xa6, 0xbe, 0x00, 0x00],
   [0x02, 0x57, 0x00, 0x00, 0x00, 0x87, 0x00, 0x00, 0x01, 0xbc, 0x00, 0x00],
   [0x01, 0x96, 0xb0, 0xa0, 0x2a, 0x69, 0x67, 0x5f, 0x6e, 0x6f, 0x64, 0x65],
   [0x61, 0x70, 0x69, 0xa0, 0x25, 0x65, 0x64, 0x67, 0x65, 0x73, 0xa0, 0x09],
   [0x4c, 0x66, 0x72, 0x6f, 0x6d, 0x5f, 0x63, 0x75, 0x72, 0x61, 0x74, 0x65],
   [0x64, 0x5f, 0x6d, 0x65, 0x64, 0x69, 0x61, 0x5f, 0x64, 0x65, 0x66, 0x69],
   [0x6e, 0x65, 0x64, 0x5f, 0x6f, 0x6e, 0x5f, 0x6e, 0x6f, 0x68, 0x6f, 0x5f],
   [0x63, 0x75, 0x72, 0x61, 0x74, 0x65, 0x64, 0x5f, 0x73, 0x75, 0x62, 0x64],
   [0x65, 0x73, 0x74, 0x69, 0x6e, 0x61, 0x74, 0x69, 0x6f, 0x6e, 0x5f, 0x69],
   [0x74, 0x65, 0x6d, 0x5f, 0x6f, 0x6e, 0x5f, 0x63, 0x6c, 0x69, 0x70, 0x73],
   [0x5f, 0x70, 0x6f, 0x73, 0x74, 0x40, 0x90, 0xa0, 0xa0, 0xa0, 0x01, 0x00],
   [0x84, 0x44, 0xa0, 0x01, 0x00, 0x85, 0x6a, 0xc0, 0x08, 0x00, 0x00, 0x20]] @
  [[0x00, 0xa0, 0x04, 0x0d, 0xa0, 0x04, 0x0c, 0xa0, 0x04, 0x0b, 0xa0, 0x09],
   [0x4a, 0x45, 0x64, 0x67, 0x65, 0x46, 0x72, 0x6f, 0x6d, 0x43, 0x75, 0x72],
   [0x61, 0x74, 0x65, 0x64, 0x4d, 0x65, 0x64, 0x69, 0x61, 0x44, 0x65, 0x66],
   [0x69, 0x6e, 0x65, 0x64, 0x4f, 0x6e, 0x4e, 0x6f, 0x68, 0x6f, 0x43, 0x75],
   [0x72, 0x61, 0x74, 0x65, 0x64, 0x53, 0x75, 0x62, 0x64, 0x65, 0x73, 0x74],
   [0x69, 0x6e, 0x61, 0x74, 0x69, 0x6f, 0x6e, 0x49, 0x74, 0x65, 0x6d, 0x4f],
   [0x6e, 0x43, 0x6c, 0x69, 0x70, 0x73, 0x50, 0x6f, 0x73, 0x74, 0x51, 0x75],
   [0x65, 0x72, 0x79, 0xa0, 0x2a, 0x77, 0x68, 0x65, 0x72, 0x65, 0x5f, 0x64],
   [0x61, 0x74, 0x61, 0x40, 0xa0, 0xa0, 0xa0, 0xa0, 0x01, 0x00, 0x84, 0x53],
   [0xa0, 0x01, 0x00, 0x84, 0x57, 0xb0, 0x2f, 0x24, 0x70, 0x61, 0x72, 0x49],
   [0x4e, 0x47, 0x40, 0x40, 0xa0, 0xa0, 0xa0, 0xa0, 0x57, 0x44, 0xa0, 0x57],
   [0x49, 0xa0, 0xa0, 0x25, 0x55, 0x6e, 0x69, 0x6f, 0x6e, 0x40, 0x40, 0x40],
   [0xa0, 0xa0, 0xa0, 0xa0, 0x5a, 0x40, 0xa0, 0x5a, 0x72, 0x99, 0xa0, 0x90],
   [0xa0, 0xa0, 0xa0, 0x5a, 0x45, 0xa0, 0x5a, 0x58, 0xa0, 0x25, 0x6c, 0x69],
   [0x62, 0x66, 0x62, 0xa0, 0x22, 0x70, 0x79, 0xa0, 0x2a, 0x64, 0x65, 0x63],
   [0x6f, 0x72, 0x61, 0x74, 0x6f, 0x72, 0x73, 0x40, 0xa0, 0xa0, 0xa0, 0xa0],
   [0x5a, 0x60, 0xa0, 0x5a, 0x72, 0xa0, 0xa0, 0x32, 0x6c, 0x61, 0x7a, 0x79],
   [0x5f, 0x63, 0x6c, 0x61, 0x73, 0x73, 0x70, 0x72, 0x6f, 0x70, 0x65, 0x72],
   [0x74, 0x79, 0x40, 0x40, 0x40, 0xa0, 0xa0, 0xa0, 0xa0, 0x5b, 0x40, 0xa0],
   [0x5b, 0x68, 0x99, 0xa0, 0x90, 0xa0, 0xa0, 0xa0, 0x5b, 0x45, 0xa0, 0x5b],
   [0x57, 0xa0, 0x27, 0x6e, 0x6f, 0x64, 0x65, 0x61, 0x70, 0x69, 0xa0, 0x2a],
   [0x70, 0x72, 0x65, 0x64, 0x69, 0x63, 0x61, 0x74, 0x65, 0x73, 0x40, 0xa0],
   [0xa0, 0xa0, 0xa0, 0x5b, 0x5f, 0xa0, 0x5b, 0x68, 0xa0, 0xa0, 0x29, 0x50],
   [0x72, 0x65, 0x64, 0x69, 0x63, 0x61, 0x74, 0x65, 0x40, 0x40, 0x40, 0xa0],
   [0xa0, 0xa0, 0xa0, 0x5c, 0x40, 0xa0, 0x5c, 0x7c, 0x99, 0xa0, 0x90, 0xa0],
   [0xa0, 0xa0, 0x5c, 0x45, 0xa0, 0x5c, 0x63, 0xa0, 0x27, 0x6e, 0x6f, 0x64],
   [0x65, 0x61, 0x70, 0x69, 0xa0, 0x27, 0x70, 0x72, 0x69, 0x76, 0x61, 0x63],
   [0x79, 0xa0, 0x2e, 0x76, 0x69, 0x65, 0x77, 0x65, 0x72, 0x5f, 0x63, 0x6f],
   [0x6e, 0x74, 0x65, 0x78, 0x74, 0x40, 0xa0, 0xa0, 0xa0, 0xa0, 0x5c, 0x6b],
   [0xa0, 0x5c, 0x7c, 0xa0, 0xa0, 0x31, 0x42, 0x61, 0x73, 0x65, 0x56, 0x69]] @
  [[0x65, 0x77, 0x65, 0x72, 0x43, 0x6f, 0x6e, 0x74, 0x65, 0x78, 0x74, 0x40],
   [0x40, 0x40, 0xa0, 0xa0, 0xa0, 0xa0, 0x5d, 0x40, 0xa0, 0x5d, 0x6a, 0x99],
   [0xa0, 0x90, 0xa0, 0xa0, 0xa0, 0x5d, 0x45, 0xa0, 0x5d, 0x5d, 0xa0, 0x2a],
   [0x69, 0x67, 0x5f, 0x6e, 0x6f, 0x64, 0x65, 0x61, 0x70, 0x69, 0xa0, 0x27],
   [0x70, 0x72, 0x69, 0x76, 0x61, 0x63, 0x79, 0xa0, 0x25, 0x72, 0x75, 0x6c],
   [0x65, 0x73, 0x40, 0xa0, 0xa0, 0xa0, 0xa0, 0x5d, 0x65, 0xa0, 0x5d, 0x6a],
   [0xa0, 0xa0, 0x25, 0x52, 0x75, 0x6c, 0x65, 0x73, 0x40, 0x40, 0x40, 0xa0],
   [0xa0, 0xa0, 0xa0, 0x5e, 0x40, 0xa0, 0x5e, 0x74, 0x99, 0xa0, 0x90, 0xa0],
   [0xa0, 0xa0, 0x5e, 0x45, 0xa0, 0x5e, 0x57, 0xa0, 0x27, 0x6e, 0x6f, 0x64],
   [0x65, 0x61, 0x70, 0x69, 0xa0, 0x2a, 0x65, 0x78, 0x63, 0x65, 0x70, 0x74],
   [0x69, 0x6f, 0x6e, 0x73, 0x40, 0xa0, 0xa0, 0xa0, 0xa0, 0x5e, 0x5f, 0xa0],
   [0x5e, 0x74, 0xa0, 0xa0, 0x35, 0x4e, 0x6f, 0x64, 0x65, 0x49, 0x6e, 0x76],
   [0x61, 0x6c, 0x69, 0x64, 0x49, 0x6e, 0x70, 0x75, 0x74, 0x45, 0x72, 0x72],
   [0x6f, 0x72, 0x40, 0x40, 0x40, 0xa0, 0xa0, 0xa0, 0xa0, 0x5f, 0x40, 0xa0],
   [0x5f, 0x69, 0x99, 0xa0, 0x90, 0xa0, 0xa0, 0xa0, 0x5f, 0x45, 0xa0, 0x5f],
   [0x56, 0xa0, 0x27, 0x6e, 0x6f, 0x64, 0x65, 0x61, 0x70, 0x69, 0xa0, 0x29],
   [0x65, 0x78, 0x74, 0x65, 0x6e, 0x73, 0x69, 0x6f, 0x6e, 0x40, 0xa0, 0xa0],
   [0xa0, 0xa0, 0x5f, 0x5e, 0xa0, 0x5f, 0x69, 0xa0, 0xa0, 0x2b, 0x6e, 0x6f],
   [0x64, 0x65, 0x61, 0x70, 0x69, 0x5f, 0x65, 0x78, 0x74, 0x40, 0x40, 0x40],
   [0xa0, 0xa0, 0xa0, 0xa0, 0x60, 0x40, 0xa0, 0x60, 0x7d, 0x99, 0xa0, 0x90],
   [0xa0, 0xa0, 0xa0, 0x60, 0x45, 0xa0, 0x60, 0x61, 0xa0, 0x27, 0x6e, 0x6f],
   [0x64, 0x65, 0x61, 0x70, 0x69, 0xa0, 0x29, 0x65, 0x78, 0x74, 0x65, 0x6e],
   [0x73, 0x69, 0x6f, 0x6e, 0xa0, 0x2a, 0x64, 0x65, 0x70, 0x65, 0x6e, 0x64],
   [0x65, 0x6e, 0x63, 0x79, 0x40, 0xa0, 0xa0, 0xa0, 0xa0, 0x60, 0x69, 0xa0],
   [0x60, 0x7d, 0xa0, 0xa0, 0x34, 0x65, 0x78, 0x74, 0x65, 0x6e, 0x73, 0x69],
   [0x6f, 0x6e, 0x5f, 0x64, 0x65, 0x70, 0x65, 0x6e, 0x64, 0x65, 0x6e, 0x63],
   [0x79, 0x40, 0x40, 0x40, 0xa0, 0xa0, 0xa0, 0xa0, 0x61, 0x40, 0xa0, 0x61],
   [0x00, 0x50, 0x99, 0xa0, 0x90, 0xa0, 0xa0, 0xa0, 0x61, 0x45, 0xa0, 0x61],
   [0x5f, 0xa0, 0x2b, 0x6e, 0x6f, 0x64, 0x65, 0x61, 0x70, 0x69, 0x5f, 0x65],
   [0x78, 0x74, 0xa0, 0x2e, 0x43, 0x79, 0x74, 0x68, 0x6f, 0x6e, 0x57, 0x72]] @
  [[0x61, 0x70, 0x70, 0x65, 0x72, 0x73, 0x40, 0xa0, 0xa0, 0xa0, 0xa0, 0x61],
   [0x67, 0xa0, 0x61, 0x7c, 0xa0, 0xa0, 0x35, 0x50, 0x79, 0x45, 0x78, 0x74],
   [0x65, 0x6e, 0x73, 0x69, 0x6f, 0x6e, 0x44, 0x65, 0x70, 0x65, 0x6e, 0x64],
   [0x65, 0x6e, 0x63, 0x79, 0x40, 0x40, 0xa0, 0xa0, 0xa0, 0xa0, 0x61, 0x7e],
   [0xa0, 0x61, 0x00, 0x50, 0xa0, 0xa0, 0x32, 0x50, 0x79, 0x4e, 0x6f, 0x64],
   [0x65, 0x51, 0x4c, 0x45, 0x78, 0x70, 0x72, 0x65, 0x73, 0x73, 0x69, 0x6f],
   [0x6e, 0x40, 0x40, 0x40, 0xa0, 0xa0, 0xa0, 0xa0, 0x62, 0x40, 0xa0, 0x62],
   [0x5d, 0x99, 0xa0, 0x90, 0xa0, 0xa0, 0xa0, 0x62, 0x45, 0xa0, 0x62, 0x51],
   [0xa0, 0x27, 0x6e, 0x6f, 0x64, 0x65, 0x61, 0x70, 0x69, 0xa0, 0x24, 0x45],
   [0x64, 0x67, 0x65, 0x40, 0xa0, 0xa0, 0xa0, 0xa0, 0x62, 0x59, 0xa0, 0x62],
   [0x5d, 0xa0, 0xa0, 0x24, 0x45, 0x64, 0x67, 0x65, 0x40, 0x40, 0x40, 0xa0],
   [0xa0, 0xa0, 0xa0, 0x63, 0x40, 0xa0, 0x67, 0x41, 0x99, 0xa0, 0x90, 0xa0],
   [0xa0, 0xa0, 0x63, 0x45, 0xa0, 0x63, 0x56, 0xa0, 0x27, 0x6e, 0x6f, 0x64],
   [0x65, 0x61, 0x70, 0x69, 0xa0, 0x29, 0x45, 0x64, 0x67, 0x65, 0x51, 0x75],
   [0x65, 0x72, 0x79, 0x40, 0xa0, 0xa0, 0xa0, 0xa0, 0x64, 0x44, 0xa0, 0x64],
   [0x4d, 0xa0, 0xa0, 0x29, 0x45, 0x64, 0x67, 0x65, 0x51, 0x75, 0x65, 0x72],
   [0x79, 0x40, 0x40, 0xa0, 0xa0, 0xa0, 0xa0, 0x65, 0x44, 0xa0, 0x65, 0x50],
   [0xa0, 0xa0, 0x2c, 0x45, 0x64, 0x67, 0x65, 0x53, 0x65, 0x74, 0x51, 0x75],
   [0x65, 0x72, 0x79, 0x40, 0x40, 0xa0, 0xa0, 0xa0, 0xa0, 0x66, 0x44, 0xa0],
   [0x66, 0x53, 0xa0, 0xa0, 0x2f, 0x45, 0x64, 0x67, 0x65, 0x44, 0x65, 0x6c],
   [0x65, 0x74, 0x65, 0x51, 0x75, 0x65, 0x72, 0x79, 0x40, 0x40, 0x40, 0xa0],
   [0xa0, 0xa0, 0xa0, 0x68, 0x40, 0xa0, 0x68, 0x67, 0x99, 0xa0, 0x90, 0xa0],
   [0xa0, 0xa0, 0x68, 0x45, 0xa0, 0x68, 0x52, 0xa0, 0x27, 0x6e, 0x6f, 0x64],
   [0x65, 0x61, 0x70, 0x69, 0xa0, 0x25, 0x51, 0x75, 0x65, 0x72, 0x79, 0x40],
   [0xa0, 0xa0, 0xa0, 0xa0, 0x68, 0x5a, 0xa0, 0x68, 0x67, 0xa0, 0xa0, 0x2d],
   [0x49, 0x74, 0x65, 0x72, 0x61, 0x62, 0x6c, 0x65, 0x51, 0x75, 0x65, 0x72],
   [0x79, 0x40, 0x40, 0x40, 0xa0, 0xa0, 0xa0, 0xa0, 0x69, 0x40, 0xa0, 0x69],
   [0x69, 0x99, 0xa0, 0x90, 0xa0, 0xa0, 0xa0, 0x69, 0x45, 0xa0, 0x69, 0x5a],
   [0xa0, 0x27, 0x6e, 0x6f, 0x64, 0x65, 0x61, 0x70, 0x69, 0xa0, 0x2d, 0x50],
   [0x72, 0x65, 0x70, 0x61, 0x72, 0x65, 0x64, 0x51, 0x75, 0x65, 0x72, 0x79]]"

definition dictionary_rows_45 :: "u8 list list" where
  "dictionary_rows_45 =
  [[0x40, 0xa0, 0xa0, 0xa0, 0xa0, 0x69, 0x62, 0xa0, 0x69, 0x69, 0xa0, 0xa0],
   [0x27, 0x51, 0x4c, 0x50, 0x61, 0x72, 0x61, 0x6d, 0x40, 0x40, 0x40, 0xa0],
   [0xa0, 0xa0, 0xa0, 0x6a, 0x40, 0xa0, 0x6d, 0x41, 0x99, 0xa0, 0x90, 0xa0],
   [0xa0, 0xa0, 0x6a, 0x45, 0xa0, 0x6a, 0x6e, 0xa0, 0x2a, 0x69, 0x67, 0x5f],
   [0x6e, 0x6f, 0x64, 0x65, 0x61, 0x70, 0x69, 0xa0, 0x25, 0x6e, 0x6f, 0x64],
   [0x65, 0x73, 0xa0, 0xb0, 0xa0, 0x29, 0x69, 0x6e, 0x73, 0x74, 0x61, 0x67],
   [0x72, 0x61, 0x6d, 0xa0, 0x27, 0x72, 0x61, 0x6e, 0x6b, 0x69, 0x6e, 0x67],
   [0xa0, 0x27, 0x61, 0x73, 0x79, 0x6e, 0x63, 0x69, 0x6f, 0xa0, 0x25, 0x6d],
   [0x65, 0x7a, 0x71, 0x6c, 0xa0, 0x26, 0x74, 0x74, 0x79, 0x70, 0x65, 0x73],
   [0x40, 0x90, 0xa0, 0xa0, 0xa0, 0x01, 0x01, 0x69, 0x44, 0xa0, 0x01, 0x01],
   [0x69, 0x6e, 0xc0, 0x08, 0x00, 0x00, 0x20, 0x00, 0xa0, 0x04, 0x11, 0xa0],
   [0x04, 0x10, 0xa0, 0x04, 0x0f, 0xa0, 0x04, 0x0e, 0xa0, 0x04, 0x0d, 0xa0],
   [0x26, 0x45, 0x6e, 0x74, 0x69, 0x74, 0x79, 0xa0, 0x31, 0x5f, 0x74, 0x6f],
   [0x5f, 0x70, 0x79, 0x5f, 0x64, 0x65, 0x70, 0x72, 0x65, 0x63, 0x61, 0x74],
   [0x65, 0x64, 0x40, 0xa0, 0xa0, 0xa0, 0xa0, 0x01, 0x01, 0x69, 0x5a, 0xa0],
   [0x01, 0x01, 0x69, 0x5e, 0xb0, 0x2f, 0x24, 0x70, 0x61, 0x72, 0x61, 0x6d],
   [0x65, 0x74, 0x65, 0x72, 0x24, 0x73, 0x65, 0x6c, 0x66, 0x40, 0x40, 0x40],
   [0x40, 0x90, 0xa0, 0xa0, 0xa0, 0x01, 0x01, 0x69, 0x63, 0xa0, 0x01, 0x01],
   [0x69, 0x69, 0x9c, 0x90, 0xb0, 0xa0, 0x04, 0x07, 0x9c, 0x90, 0xb0, 0xa0],
   [0x04, 0x0b, 0x9c, 0x90, 0xb0, 0xa0, 0x04, 0x0f, 0x9c, 0x90, 0xb0, 0xa0],
   [0x04, 0x13, 0x9c, 0x90, 0xb0, 0xa0, 0x04, 0x17, 0x9c, 0x91, 0x04, 0x3b],
   [0x04, 0x39, 0x40, 0x04, 0x37, 0x40, 0x04, 0x35, 0x40, 0x04, 0x33, 0x40],
   [0x04, 0x25, 0x40, 0x40, 0x40, 0x90, 0xa0, 0x04, 0x3d, 0xa0, 0x04, 0x3c],
   [0xa0, 0x04, 0x3b, 0xa0, 0x04, 0x3a, 0xa0, 0x04, 0x39, 0xa0, 0x04, 0x2c],
   [0x40, 0x40, 0x40, 0x40, 0xa0, 0xa0, 0xa0, 0xa0, 0x01, 0x01, 0x69, 0x6b],
   [0xa0, 0x01, 0x01, 0x69, 0x6e, 0x95, 0xa0, 0xa0, 0xa0, 0x01, 0x01, 0x69],
   [0x6b, 0xa0, 0x01, 0x01, 0x69, 0x6e, 0x94, 0x41, 0x40, 0x40, 0x84, 0x95],
   [0xa6, 0xbe, 0x00, 0x00, 0x00, 0x5b, 0x00, 0x00, 0x00, 0x02, 0x00, 0x00],
   [0x00, 0x1a, 0x00, 0x00, 0x00, 0x0f, 0x94, 0x09, 0x58, 0x69, 0x67, 0x74],
   [0x68, 0x72, 0x69, 0x66, 0x74, 0x2e, 0x67, 0x65, 0x6e, 0x2e, 0x66, 0x62]] @
  [[0x6c, 0x65, 0x61, 0x72, 0x6e, 0x65, 0x72, 0x2e, 0x66, 0x65, 0x61, 0x74],
   [0x75, 0x72, 0x65, 0x5f, 0x73, 0x74, 0x6f, 0x72, 0x65, 0x2e, 0x74, 0x68],
   [0x72, 0x69, 0x66, 0x74, 0x2e, 0x63, 0x6f, 0x6e, 0x74, 0x65, 0x78, 0x74],
   [0x5f, 0x66, 0x69, 0x65, 0x6c, 0x64, 0x5f, 0x69, 0x64, 0x2e, 0x74, 0x68],
   [0x72, 0x69, 0x66, 0x74, 0x5f, 0x74, 0x79, 0x70, 0x65, 0x73, 0x2e, 0x43],
   [0x6f, 0x6e, 0x74, 0x65, 0x78, 0x74, 0x46, 0x69, 0x65, 0x6c, 0x64, 0x49],
   [0x44, 0x84, 0x95, 0xa6, 0xbe, 0x00, 0x00, 0x00, 0x01, 0x00, 0x00, 0x00],
   [0x00, 0x00, 0x00, 0x00, 0x00, 0x00, 0x00, 0x00, 0x00, 0x40, 0x84, 0x95],
   [0xa6, 0xbe, 0x00, 0x00, 0x00, 0x01, 0x00, 0x00, 0x00, 0x00, 0x00, 0x00],
   [0x00, 0x00, 0x00, 0x00, 0x00, 0x00, 0x40, 0x84, 0x95, 0xa6, 0xbe, 0x00],
   [0x00, 0x00, 0x01, 0x00, 0x00, 0x00, 0x00, 0x00, 0x00, 0x00, 0x00, 0x00],
   [0x00, 0x00, 0x00, 0x40, 0x84, 0x95, 0xa6, 0xbe, 0x00, 0x00, 0x00, 0x4f],
   [0x00, 0x00, 0x00, 0x0b, 0x00, 0x00, 0x00, 0x29, 0x00, 0x00, 0x00, 0x20],
   [0x99, 0xa0, 0x42, 0xa0, 0x94, 0x24, 0x62, 0x6f, 0x6f, 0x6c, 0xa0, 0x94],
   [0x09, 0x26, 0x66, 0x62, 0x63, 0x6f, 0x64, 0x65, 0x2e, 0x69, 0x6e, 0x73],
   [0x74, 0x61, 0x67, 0x72, 0x61, 0x6d, 0x2e, 0x6d, 0x65, 0x7a, 0x71, 0x6c],
   [0x2e, 0x63, 0x6c, 0x69, 0x65, 0x6e, 0x74, 0x5f, 0x61, 0x70, 0x69, 0x2e],
   [0x42, 0x6f, 0x6f, 0x6c, 0xa0, 0x94, 0x37, 0x69, 0x6e, 0x73, 0x74, 0x61],
   [0x67, 0x72, 0x61, 0x6d, 0x2e, 0x6d, 0x65, 0x7a, 0x71, 0x6c, 0x2e, 0x6f],
   [0x70, 0x73, 0x2e, 0x56, 0x61, 0x72, 0x40, 0x84, 0x95, 0xa6, 0xbe, 0x00],
   [0x00, 0x00, 0x05, 0x00, 0x00, 0x00, 0x03, 0x00, 0x00, 0x00, 0x07, 0x00],
   [0x00, 0x00, 0x07, 0x90, 0xa0, 0x40, 0x90, 0x40, 0x84, 0x95, 0xa6, 0xbe],
   [0x00, 0x00, 0x00, 0x01, 0x00, 0x00, 0x00, 0x00, 0x00, 0x00, 0x00, 0x00],
   [0x00, 0x00, 0x00, 0x00, 0x40, 0x84, 0x95, 0xa6, 0xbe, 0x00, 0x00, 0x00],
   [0x2b, 0x00, 0x00, 0x00, 0x02, 0x00, 0x00, 0x00, 0x0e, 0x00, 0x00, 0x00],
   [0x09, 0x94, 0x09, 0x28, 0x66, 0x62, 0x63, 0x6f, 0x64, 0x65, 0x2e, 0x6c],
   [0x69, 0x62, 0x63, 0x73, 0x74, 0x2e, 0x5f, 0x6e, 0x6f, 0x64, 0x65, 0x73],
   [0x2e, 0x73, 0x74, 0x61, 0x74, 0x65, 0x6d, 0x65, 0x6e, 0x74, 0x2e, 0x42],
   [0x61, 0x73, 0x65, 0x53, 0x75, 0x69, 0x74, 0x65, 0x84, 0x95, 0xa6, 0xbe],
   [0x00, 0x00, 0x05, 0x92, 0x00, 0x00, 0x01, 0x69, 0x00, 0x00, 0x04, 0xae]] @
  [[0x00, 0x00, 0x04, 0x97, 0x90, 0xa0, 0x40, 0x90, 0xd1, 0xd1, 0xd1, 0xd1],
   [0xa0, 0x02, 0x01, 0x86, 0x32, 0xb4, 0xa0, 0xa0, 0x40, 0xa0, 0xa0, 0x2d],
   [0x43, 0x4f, 0x4e, 0x46, 0x49, 0x47, 0x5f, 0x54, 0x48, 0x52, 0x49, 0x46],
   [0x54, 0xa0, 0x2a, 0x6d, 0x6f, 0x6e, 0x69, 0x74, 0x6f, 0x72, 0x69, 0x6e],
   [0x67, 0xa0, 0x26, 0x74, 0x74, 0x79, 0x70, 0x65, 0x73, 0xa0, 0x3a, 0x46],
   [0x62, 0x33, 0x30, 0x33, 0x43, 0x6f, 0x6c, 0x6c, 0x65, 0x63, 0x74, 0x6f],
   [0x72, 0x45, 0x6e, 0x73, 0x75, 0x72, 0x65, 0x53, 0x74, 0x72, 0x75, 0x63],
   [0x74, 0x40, 0xa0, 0x90, 0xa0, 0xa2, 0x24, 0x74, 0x79, 0x70, 0x65, 0xa0],
   [0x90, 0x94, 0x09, 0x3a, 0x43, 0x4f, 0x4e, 0x46, 0x49, 0x47, 0x5f, 0x54],
   [0x48, 0x52, 0x49, 0x46, 0x54, 0x2e, 0x6d, 0x6f, 0x6e, 0x69, 0x74, 0x6f],
   [0x72, 0x69, 0x6e, 0x67, 0x2e, 0x74, 0x74, 0x79, 0x70, 0x65, 0x73, 0x2e],
   [0x46, 0x62, 0x33, 0x30, 0x33, 0x43, 0x6f, 0x6c, 0x6c, 0x65, 0x63, 0x74],
   [0x6f, 0x72, 0x45, 0x6e, 0x73, 0x75, 0x72, 0x65, 0x53, 0x74, 0x72, 0x75],
   [0x63, 0x74, 0x40, 0x40, 0xd1, 0xa0, 0x38, 0x74, 0x68, 0x72, 0x69, 0x66],
   [0x74, 0x5f, 0x66, 0x69, 0x65, 0x6c, 0x64, 0x5f, 0x61, 0x6e, 0x6e, 0x6f],
   [0x74, 0x61, 0x74, 0x69, 0x6f, 0x6e, 0x73, 0xa0, 0x90, 0xa0, 0xa2, 0x24],
   [0x64, 0x69, 0x63, 0x74, 0xa0, 0x90, 0x94, 0x23, 0x69, 0x6e, 0x74, 0xa0],
   [0x90, 0xa2, 0x04, 0x08, 0xa0, 0x90, 0x94, 0x23, 0x73, 0x74, 0x72, 0xa0],
   [0x90, 0x94, 0x23, 0x73, 0x74, 0x72, 0x40, 0x40, 0x90, 0xa0, 0x04, 0x13],
   [0x40, 0x40, 0x2b, 0x74, 0x68, 0x72, 0x69, 0x66, 0x74, 0x5f, 0x73, 0x70],
   [0x65, 0x63, 0xa0, 0x90, 0xa0, 0x97, 0x90, 0xa0, 0x99, 0xa0, 0x42, 0xa0],
   [0x97, 0x90, 0xa0, 0x94, 0x23, 0x69, 0x6e, 0x74, 0xa0, 0x94, 0x23, 0x69],
   [0x6e, 0x74, 0xa0, 0x94, 0x23, 0x73, 0x74, 0x72, 0xa0, 0x41, 0xa0, 0x99],
   [0xa0, 0x42, 0xa0, 0x94, 0x23, 0x69, 0x6e, 0x74, 0x40, 0xa0, 0x94, 0x23],
   [0x69, 0x6e, 0x74, 0x40, 0x40, 0x40, 0x90, 0xa0, 0x04, 0x1d, 0x40, 0x40],
   [0xa0, 0x39, 0x74, 0x68, 0x72, 0x69, 0x66, 0x74, 0x5f, 0x73, 0x74, 0x72],
   [0x75, 0x63, 0x74, 0x5f, 0x61, 0x6e, 0x6e, 0x6f, 0x74, 0x61, 0x74, 0x69],
   [0x6f, 0x6e, 0x73, 0xa0, 0x90, 0xa0, 0xa2, 0x04, 0x39, 0xa0, 0x90, 0x94],
   [0x23, 0x73, 0x74, 0x72, 0xa0, 0x90, 0x94, 0x23, 0x73, 0x74, 0x72, 0x40],
   [0x90, 0xa0, 0x04, 0x0b, 0x40, 0x40, 0x42, 0xa0, 0x40, 0x04, 0x5d, 0x02]] @
  [[0x02, 0x05, 0x40, 0xd4, 0xa0, 0xa0, 0x40, 0x03, 0xd3, 0x75, 0xf7, 0x89],
   [0x55, 0xaf, 0x1d, 0x4c, 0x90, 0x03, 0xd8, 0x23, 0x26, 0x92, 0x11, 0x82],
   [0x5a, 0xdb, 0xa0, 0x03, 0x06, 0x00, 0x01, 0x03, 0x40, 0x02, 0x10, 0x80],
   [0x40, 0x90, 0x40, 0x90, 0x05, 0x02, 0x80, 0x90, 0x4b, 0x90, 0x90, 0xc1],
   [0x40, 0x41, 0xc1, 0x40, 0x42, 0xc1, 0x40, 0x44, 0xc1, 0x40, 0x50, 0x90],
   [0x03, 0xc8, 0xc6, 0xad, 0x9c, 0x2a, 0x9a, 0x54, 0xe0, 0xc1, 0x70, 0x00],
   [0x40, 0x90, 0x03, 0xc2, 0x06, 0x8d, 0x44, 0xf0, 0x38, 0x87, 0x30, 0xc1],
   [0x01, 0x00, 0xf0, 0x01, 0x01, 0x00, 0x90, 0x03, 0xf9, 0x25, 0x26, 0x3a],
   [0xbe, 0xf9, 0x9a, 0xf0, 0x90, 0x03, 0xc6, 0x37, 0xee, 0x4f, 0x95, 0x6f],
   [0xc3, 0xf0, 0xc1, 0x44, 0x48, 0x90, 0x03, 0xc7, 0x9e, 0x5c, 0xfe, 0x4c],
   [0xb1, 0x06, 0xe4, 0x90, 0x03, 0x0a, 0x72, 0xe8, 0x8e, 0xd5, 0xc6, 0xd4],
   [0x8c, 0xc1, 0x42, 0x44, 0x90, 0x03, 0x17, 0x03, 0xc3, 0xa5, 0xf5, 0x6b],
   [0xa6, 0x6a, 0xc1, 0x46, 0x48, 0x90, 0x03, 0xe7, 0xd5, 0xe9, 0x0b, 0xd3],
   [0x6a, 0x1c, 0xb6, 0xc1, 0x4e, 0x60, 0x90, 0x03, 0x2f, 0xf8, 0xb8, 0x63],
   [0x75, 0x0a, 0x75, 0x8e, 0xc1, 0x01, 0x01, 0x2e, 0x01, 0x02, 0x00, 0x90],
   [0x03, 0x1e, 0xbe, 0x9b, 0xa8, 0x45, 0xe7, 0x35, 0x2e, 0x90, 0x03, 0x13],
   [0x5e, 0x35, 0xbd, 0xa5, 0x4b, 0xab, 0x2e, 0xc1, 0x41, 0x42, 0x90, 0x03],
   [0xc7, 0xe5, 0x1b, 0xe3, 0xde, 0x07, 0xa4, 0x01, 0x90, 0x03, 0x3f, 0xa7],
   [0x00, 0x8d, 0xae, 0x0e, 0x73, 0x9f, 0x90, 0xa0, 0x01, 0x10, 0x00, 0x40],
   [0x90, 0x05, 0x02, 0x93, 0x90, 0x40, 0x40, 0x41, 0x92, 0x33, 0x54, 0x68],
   [0x72, 0x69, 0x66, 0x74, 0x43, 0x6c, 0x69, 0x65, 0x6e, 0x74, 0x52, 0x65],
   [0x71, 0x75, 0x65, 0x73, 0x74, 0x08, 0x00, 0x00, 0x20, 0x00, 0x90, 0xa0],
   [0xa0, 0x03, 0xd6, 0x06, 0x09, 0x23, 0xcc, 0x8f, 0xd1, 0x94, 0x90, 0x04],
   [0x2d, 0xa0, 0x03, 0x06, 0x00, 0x01, 0x03, 0x40, 0x02, 0x10, 0x80, 0x40],
   [0x90, 0x40, 0x90, 0x05, 0x02, 0xaa, 0x90, 0x4b, 0x90, 0x90, 0xc1, 0x40],
   [0x41, 0xc1, 0x40, 0x42, 0xc1, 0x40, 0x44, 0xc1, 0x40, 0x48, 0xc1, 0x40],
   [0x50, 0xc1, 0x40, 0x60, 0x90, 0x03, 0xc3, 0xb6, 0xad, 0x0a, 0x83, 0xce],
   [0x60, 0x80, 0xc1, 0x60, 0x00, 0x40, 0x90, 0x03, 0xcd, 0xed, 0x5b, 0x83],
   [0x29, 0x96, 0x7a, 0xa0, 0xc1, 0x00, 0x60, 0x01, 0x00, 0x80, 0x90, 0x03],
   [0x3d, 0x5b, 0x7c, 0xc1, 0xdb, 0xe1, 0x60, 0x60, 0x90, 0x03, 0xc8, 0xc6]] @
  [[0xad, 0x9c, 0x2a, 0x9a, 0x54, 0xe0, 0xc1, 0x70, 0x00, 0x40, 0x90, 0x03],
   [0xde, 0x90, 0x68, 0x61, 0x3f, 0x1a, 0xf7, 0x30, 0xc1, 0x01, 0x00, 0xf0],
   [0x01, 0x01, 0x00, 0x04, 0x31, 0x04, 0x30, 0xc1, 0x00, 0x68, 0x01, 0x00],
   [0x80, 0x90, 0x03, 0x3a, 0x40, 0xa5, 0x83, 0xbb, 0xc9, 0x62, 0x68, 0xc1],
   [0x01, 0x00, 0xe8, 0x01, 0x04, 0x00, 0x90, 0x03, 0xec, 0x2d, 0x2a, 0xae],
   [0x8e, 0x39, 0xb8, 0xe8, 0x90, 0x03, 0x01, 0x6d, 0x87, 0xa9, 0x42, 0x90],
   [0x1c, 0xe8, 0xc1, 0x44, 0x48, 0xc1, 0x01, 0x00, 0xc4, 0x01, 0x02, 0x00],
   [0x90, 0x03, 0xf3, 0x7f, 0x6c, 0x6d, 0x7b, 0x67, 0xdc, 0xc4, 0x90, 0x03],
   [0x2f, 0x8e, 0x16, 0xc0, 0x97, 0xef, 0xaa, 0xc4, 0xc1, 0x4c, 0x50, 0x04],
   [0x37, 0x90, 0x03, 0xf5, 0x7c, 0x27, 0x0c, 0x14, 0xd1, 0x36, 0x9c, 0xc1],
   [0x42, 0x44, 0xc1, 0x42, 0x48, 0x90, 0x03, 0x38, 0x86, 0xe4, 0x41, 0x27],
   [0x15, 0x7c, 0xa2, 0xc1, 0x4a, 0x50, 0x90, 0x03, 0x17, 0x03, 0xc3, 0xa5],
   [0xf5, 0x6b, 0xa6, 0x6a, 0xc1, 0x5a, 0x60, 0x90, 0x03, 0x3b, 0xc1, 0x2c],
   [0x89, 0x76, 0xed, 0xa5, 0xda, 0x90, 0x03, 0x3e, 0x8c, 0x3c, 0xd4, 0xc1],
   [0x1f, 0x07, 0xba, 0xc1, 0x46, 0x48, 0xc1, 0x46, 0x50, 0xc1, 0x46, 0x60],
   [0x90, 0x03, 0xcd, 0xf9, 0x1c, 0x56, 0x95, 0x1c, 0x0e, 0xc6, 0xc1, 0x66],
   [0x00, 0x40, 0x90, 0x03, 0xc9, 0xc3, 0xe1, 0x45, 0x99, 0x27, 0x01, 0xa6],
   [0xc1, 0x01, 0x01, 0x66, 0x01, 0x02, 0x00, 0x90, 0x03, 0xf9, 0x1d, 0xa7],
   [0x12, 0xa0, 0x56, 0xed, 0x66, 0x90, 0x03, 0xf8, 0xbf, 0x1c, 0x62, 0xf6],
   [0xb4, 0x6b, 0x66, 0xc1, 0x76, 0x00, 0x40, 0x90, 0x03, 0xe7, 0xd5, 0xe9],
   [0x0b, 0xd3, 0x6a, 0x1c, 0xb6, 0x90, 0x03, 0xf3, 0x53, 0xe5, 0xde, 0x73],
   [0x8e, 0xd8, 0x76, 0xc1, 0x4e, 0x60, 0x04, 0x47, 0xc1, 0x6e, 0x00, 0x40],
   [0x90, 0x03, 0x1e, 0xbe, 0x9b, 0xa8, 0x45, 0xe7, 0x35, 0x2e, 0x90, 0x03],
   [0xf0, 0xcc, 0xc4, 0xdb, 0x89, 0x24, 0xd8, 0x6e, 0xc1, 0x41, 0x42, 0xc1],
   [0x41, 0x44, 0xc1, 0x41, 0x48, 0xc1, 0x41, 0x50, 0x90, 0x03, 0xc7, 0xe5],
   [0x1b, 0xe3, 0xde, 0x07, 0xa4, 0x01, 0xc1, 0x51, 0x60, 0x90, 0x03, 0x03],
   [0xbf, 0xe2, 0x3a, 0x41, 0x44, 0xef, 0x51, 0xc1, 0x00, 0x71, 0x01, 0x00],
   [0x80, 0x90, 0x03, 0xd4, 0xdc, 0x68, 0x5c, 0xda, 0x3b, 0x67, 0x71, 0xc1],
   [0x01, 0x00, 0xf1, 0x01, 0x01, 0x00, 0x90, 0x03, 0x23, 0x21, 0x91, 0x4b],
   [0x37, 0x8b, 0xf0, 0xf1, 0x90, 0x03, 0x19, 0x0d, 0x44, 0x55, 0x7e, 0x86]]"

definition dictionary_rows_46 :: "u8 list list" where
  "dictionary_rows_46 =
  [[0xc1, 0xf1, 0xc1, 0x49, 0x60, 0x90, 0x03, 0x0f, 0xce, 0xfb, 0x87, 0xff],
   [0x78, 0x6e, 0x09, 0x90, 0x03, 0x3c, 0xd1, 0x95, 0x98, 0x05, 0xe0, 0x87],
   [0x29, 0xc1, 0x45, 0x48, 0xc1, 0x45, 0x50, 0xc1, 0x45, 0x60, 0xc1, 0x45],
   [0x00, 0x40, 0x90, 0x03, 0xf9, 0x90, 0x34, 0x8c, 0xf0, 0x40, 0xfa, 0x05],
   [0x90, 0x03, 0x3a, 0x32, 0x7a, 0xb3, 0xf9, 0xa6, 0xf5, 0x45, 0x90, 0x03],
   [0x01, 0xf8, 0x8c, 0x16, 0x09, 0x71, 0x1d, 0xe5, 0x90, 0x03, 0x09, 0xd8],
   [0x5e, 0xce, 0xe9, 0xf3, 0xfa, 0xd5, 0xc1, 0x4d, 0x50, 0x90, 0x03, 0x2d],
   [0x7e, 0x04, 0x8a, 0xe7, 0xb7, 0x6b, 0x6d, 0x90, 0x03, 0xf3, 0x67, 0xdd],
   [0x7f, 0x81, 0x4f, 0x9e, 0x5d, 0xc1, 0x43, 0x44, 0xc1, 0x43, 0x48, 0xc1],
   [0x43, 0x50, 0xc1, 0x63, 0x00, 0x40, 0x90, 0x03, 0xd8, 0x4d, 0x60, 0x75],
   [0x13, 0xee, 0x94, 0x23, 0x90, 0x03, 0xca, 0x66, 0xe7, 0xaf, 0x57, 0xf5],
   [0xd2, 0x63, 0xc1, 0x53, 0x60, 0x90, 0x03, 0x15, 0xde, 0x01, 0xb0, 0xf6],
   [0xee, 0xf1, 0x93, 0x90, 0x03, 0xe2, 0xa6, 0xcb, 0x85, 0xd2, 0x86, 0x7b],
   [0x33, 0xc1, 0x4b, 0x50, 0xc1, 0x4b, 0x60, 0xc1, 0x4b, 0x00, 0x40, 0x90],
   [0x03, 0xf2, 0xd5, 0x74, 0xf0, 0x05, 0x26, 0x40, 0x8b, 0x90, 0x03, 0x35],
   [0x0d, 0x24, 0x07, 0xfa, 0xe3, 0xb0, 0xcb, 0x90, 0x03, 0x16, 0xec, 0xa9],
   [0xb1, 0xfa, 0x10, 0x22, 0x2b, 0x90, 0x03, 0xe1, 0x25, 0x59, 0x19, 0xbc],
   [0xf1, 0xda, 0x5b, 0xc1, 0x47, 0x48, 0xc1, 0x77, 0x00, 0x40, 0x90, 0x03],
   [0x17, 0x7b, 0x74, 0xd6, 0x3a, 0xf4, 0xe3, 0x37, 0x90, 0x03, 0xe6, 0x14],
   [0x54, 0x7d, 0x74, 0xd3, 0xaf, 0x77, 0xc1, 0x4f, 0x50, 0x90, 0x03, 0xec],
   [0xbb, 0xb4, 0x9b, 0x18, 0xe2, 0x3b, 0xaf, 0x90, 0x03, 0x3f, 0xa7, 0x00],
   [0x8d, 0xae, 0x0e, 0x73, 0x9f, 0x90, 0xa0, 0x01, 0x10, 0x00, 0x40, 0x90],
   [0x05, 0x03, 0x07, 0x90, 0x40, 0xd0, 0x40, 0xb5, 0x40, 0xa0, 0x91, 0xa0],
   [0x90, 0xc0, 0x40, 0x90, 0x2f, 0x43, 0x72, 0x79, 0x70, 0x74, 0x6f, 0x41],
   [0x75, 0x74, 0x68, 0x54, 0x6f, 0x6b, 0x65, 0x6e, 0xc0, 0x40, 0x90, 0x2d],
   [0x53, 0x65, 0x72, 0x76, 0x65, 0x72, 0x53, 0x65, 0x63, 0x72, 0x65, 0x40],
   [0x40, 0xf0, 0x90, 0xd0, 0x40, 0x92, 0x27, 0x4c, 0x6f, 0x67, 0x67, 0x69],
   [0x6e, 0x67, 0x08, 0x00, 0x00, 0x20, 0x00, 0x90, 0xa0, 0xa0, 0x03, 0x02],
   [0x00, 0x01, 0x00, 0x00, 0x00, 0x00, 0x00, 0x40, 0xa0, 0x03, 0x02, 0x00],
   [0x01, 0x00, 0x00, 0x00, 0x00, 0x00, 0x40, 0x90, 0x40, 0x90, 0x05, 0x25]] @
  [[0x37, 0x90, 0x44, 0x90, 0x90, 0x90, 0x03, 0xc7, 0x31, 0xd5, 0xdf, 0x2b],
   [0x29, 0x73, 0x42, 0x90, 0xa0, 0x40, 0x40, 0x90, 0xa0, 0x40, 0x40, 0x90],
   [0x40, 0x40, 0x41, 0x90, 0x90, 0xc0, 0x40, 0x05, 0x11, 0x87, 0x40, 0x41],
   [0x90, 0xa0, 0xa0, 0x03, 0x00, 0x00, 0x00, 0x21, 0x44, 0x00, 0x00, 0x00],
   [0x40, 0xa0, 0x03, 0x00, 0x00, 0x00, 0x21, 0x44, 0x00, 0x00, 0x00, 0x40],
   [0x90, 0xa0, 0x40, 0x40, 0x90, 0xa0, 0x40, 0x40, 0x90, 0xb0, 0xa0, 0x05],
   [0x11, 0xb2, 0x40, 0xa0, 0x05, 0x11, 0xb3, 0x40, 0x40, 0x90, 0x40, 0xd0],
   [0x40, 0xc2, 0xb0, 0x41, 0x31, 0x69, 0x73, 0x5f, 0x66, 0x75, 0x6c, 0x6c],
   [0x5f, 0x72, 0x65, 0x61, 0x64, 0x5f, 0x73, 0x68, 0x69, 0x6d, 0x40, 0x40],
   [0xb0, 0x05, 0x12, 0x1d, 0xa0, 0x01, 0x0a, 0x05, 0x66, 0xa0, 0x01, 0x0a],
   [0x05, 0x7b, 0xa0, 0x90, 0xa0, 0x09, 0x56, 0x24, 0x6c, 0x6f, 0x63, 0x61],
   [0x6c, 0x5f, 0x64, 0x69, 0x72, 0x65, 0x63, 0x74, 0x5f, 0x76, 0x32, 0x3f],
   [0x61, 0x70, 0x69, 0x3f, 0x76, 0x69, 0x65, 0x77, 0x73, 0x3f, 0x61, 0x73],
   [0x79, 0x6e, 0x63, 0x5f, 0x67, 0x65, 0x74, 0x5f, 0x74, 0x68, 0x72, 0x65],
   [0x61, 0x64, 0x5f, 0x69, 0x6d, 0x70, 0x6c, 0x24, 0x5f, 0x61, 0x73, 0x79],
   [0x6e, 0x63, 0x5f, 0x72, 0x65, 0x61, 0x64, 0x5f, 0x73, 0x68, 0x69, 0x6d],
   [0x5f, 0x76, 0x69, 0x61, 0x5f, 0x61, 0x6c, 0x70, 0x69, 0x6e, 0x65, 0x5f],
   [0x61, 0x77, 0x61, 0x69, 0x74, 0x61, 0x62, 0x6c, 0x65, 0x40, 0x40, 0xf0],
   [0x90, 0xd0, 0xd0, 0xd0, 0xd0, 0xd0, 0xd0, 0x40, 0x91, 0xa0, 0x09, 0x22],
   [0x44, 0x61, 0x74, 0x61, 0x46, 0x72, 0x6f, 0x6d, 0x49, 0x6e, 0x74, 0x65],
   [0x72, 0x6e, 0x65, 0x74, 0x41, 0x6e, 0x64, 0x53, 0x74, 0x72, 0x69, 0x6e],
   [0x67, 0x4d, 0x61, 0x79, 0x42, 0x65, 0x48, 0x54, 0x4d, 0x4c, 0x24, 0x6d],
   [0x61, 0x69, 0x6e, 0x08, 0x00, 0x00, 0x20, 0x00, 0x90, 0xa0, 0xa0, 0x03],
   [0xd7, 0x4e, 0x89, 0x3b, 0xcc, 0x9f, 0xd3, 0x9c, 0x90, 0xc1, 0x40, 0x41],
   [0xc1, 0x4c, 0x60, 0x90, 0x03, 0xd3, 0x75, 0xf7, 0x89, 0x55, 0xaf, 0x1d],
   [0x4c, 0x90, 0x03, 0xff, 0xcd, 0xfb, 0xb4, 0xa9, 0x2a, 0x1c, 0x6c, 0xc1],
   [0x41, 0x42, 0x90, 0x03, 0x39, 0x0b, 0x7a, 0xa6, 0x84, 0x01, 0xf3, 0xad],
   [0x90, 0x03, 0xd8, 0x23, 0x26, 0x92, 0x11, 0x82, 0x5a, 0xdb, 0xa0, 0x03],
   [0x06, 0x00, 0x09, 0x03, 0x40, 0x00, 0x10, 0x00, 0x40, 0x90, 0x40, 0x90],
   [0x05, 0x25, 0x76, 0x90, 0x44, 0x90, 0x90, 0xc1, 0x40, 0x41, 0x90, 0x03]] @
  [[0x05, 0x5d, 0xb1, 0xe2, 0x93, 0x26, 0x19, 0xbc, 0xc1, 0x41, 0x42, 0x90],
   [0x03, 0x01, 0x81, 0x65, 0xa1, 0x16, 0xe3, 0xc7, 0xb5, 0x90, 0x03, 0xfa],
   [0xf3, 0xc0, 0x7b, 0xa8, 0x0d, 0xa6, 0x7b, 0x90, 0xa0, 0x03, 0xc0, 0x00],
   [0x00, 0x00, 0x00, 0x10, 0x10, 0x00, 0x90, 0xc1, 0x40, 0x41, 0xc1, 0x40],
   [0x42, 0xc1, 0x40, 0x60, 0x90, 0x03, 0x18, 0xa5, 0xeb, 0xbc, 0x33, 0xbb],
   [0x7f, 0x40, 0x90, 0x03, 0x19, 0x10, 0xd8, 0x16, 0xae, 0xad, 0x7e, 0xe0],
   [0x90, 0x03, 0xe0, 0x42, 0xc2, 0xbb, 0x0c, 0x99, 0x1d, 0x7a, 0x90, 0x03],
   [0xc6, 0x22, 0x2a, 0xdd, 0x77, 0x7f, 0x5c, 0x57, 0x90, 0xa0, 0x40, 0x40],
   [0x90, 0xc0, 0xc0, 0xc0, 0xc0, 0xc0, 0xc0, 0x40, 0xb0, 0x01, 0x14, 0xff],
   [0x90, 0xa0, 0x09, 0x8a, 0x64, 0x69, 0x72, 0x65, 0x63, 0x74, 0x5f, 0x76],
   [0x32, 0x2e, 0x69, 0x6e, 0x74, 0x65, 0x72, 0x6f, 0x70, 0x2e, 0x72, 0x65],
   [0x61, 0x64, 0x5f, 0x73, 0x68, 0x69, 0x6d, 0x2e, 0x74, 0x72, 0x61, 0x6e],
   [0x73, 0x6c, 0x61, 0x74, 0x69, 0x6f, 0x6e, 0x2e, 0x6d, 0x65, 0x73, 0x73],
   [0x61, 0x67, 0x65, 0x5f, 0x74, 0x72, 0x61, 0x6e, 0x73, 0x6c, 0x61, 0x74],
   [0x69, 0x6f, 0x6e, 0x2e, 0x62, 0x61, 0x73, 0x65, 0x5f, 0x6d, 0x65, 0x73],
   [0x73, 0x61, 0x67, 0x65, 0x5f, 0x74, 0x72, 0x61, 0x6e, 0x73, 0x6c, 0x61],
   [0x74, 0x69, 0x6f, 0x6e, 0x2e, 0x61, 0x73, 0x79, 0x6e, 0x63, 0x5f, 0x64],
   [0x69, 0x72, 0x65, 0x63, 0x74, 0x5f, 0x67, 0x65, 0x6e, 0x65, 0x72, 0x69],
   [0x63, 0x5f, 0x6d, 0x65, 0x73, 0x73, 0x61, 0x67, 0x65, 0x5f, 0x66, 0x72],
   [0x6f, 0x6d, 0x5f, 0x6d, 0x65, 0x73, 0x73, 0x65, 0x6e, 0x67, 0x65, 0x72],
   [0x5f, 0x69, 0x74, 0x65, 0x6d, 0x5f, 0x64, 0x69, 0x63, 0x74, 0x40, 0xb4],
   [0x93, 0x2f, 0x3c, 0x66, 0x6f, 0x72, 0x6d, 0x61, 0x74, 0x2d, 0x73, 0x74],
   [0x72, 0x69, 0x6e, 0x67, 0x3e, 0x40, 0x41, 0x40, 0x41, 0xb0, 0x01, 0x14],
   [0xff, 0x90, 0xa0, 0x09, 0x71, 0x64, 0x69, 0x72, 0x65, 0x63, 0x74, 0x5f],
   [0x76, 0x32, 0x2e, 0x69, 0x6e, 0x74, 0x65, 0x72, 0x6f, 0x70, 0x2e, 0x72],
   [0x65, 0x61, 0x64, 0x5f, 0x73, 0x68, 0x69, 0x6d, 0x2e, 0x74, 0x72, 0x61],
   [0x6e, 0x73, 0x6c, 0x61, 0x74, 0x69, 0x6f, 0x6e, 0x2e, 0x6d, 0x65, 0x73],
   [0x73, 0x61, 0x67, 0x65, 0x5f, 0x74, 0x72, 0x61, 0x6e, 0x73, 0x6c, 0x61],
   [0x74, 0x69, 0x6f, 0x6e, 0x2e, 0x62, 0x61, 0x73, 0x65, 0x5f, 0x6d, 0x65],
   [0x73, 0x73, 0x61, 0x67, 0x65, 0x5f, 0x74, 0x72, 0x61, 0x6e, 0x73, 0x6c]] @
  [[0x61, 0x74, 0x69, 0x6f, 0x6e, 0x2e, 0x61, 0x73, 0x79, 0x6e, 0x63, 0x5f],
   [0x67, 0x65, 0x74, 0x5f, 0x72, 0x65, 0x70, 0x6c, 0x69, 0x65, 0x64, 0x5f],
   [0x74, 0x6f, 0x5f, 0x6d, 0x65, 0x73, 0x73, 0x61, 0x67, 0x65, 0x40, 0xb4],
   [0x93, 0x2f, 0x3c, 0x66, 0x6f, 0x72, 0x6d, 0x61, 0x74, 0x2d, 0x73, 0x74],
   [0x72, 0x69, 0x6e, 0x67, 0x3e, 0x40, 0x41, 0xc0, 0xc0, 0x40, 0xb0, 0x01],
   [0x14, 0xff, 0x90, 0xa0, 0x09, 0x6a, 0x64, 0x69, 0x72, 0x65, 0x63, 0x74],
   [0x5f, 0x76, 0x32, 0x2e, 0x69, 0x6e, 0x74, 0x65, 0x72, 0x6f, 0x70, 0x2e],
   [0x72, 0x65, 0x61, 0x64, 0x5f, 0x73, 0x68, 0x69, 0x6d, 0x2e, 0x74, 0x72],
   [0x61, 0x6e, 0x73, 0x6c, 0x61, 0x74, 0x69, 0x6f, 0x6e, 0x2e, 0x74, 0x68],
   [0x72, 0x65, 0x61, 0x64, 0x5f, 0x74, 0x72, 0x61, 0x6e, 0x73, 0x6c, 0x61],
   [0x74, 0x69, 0x6f, 0x6e, 0x2e, 0x5f, 0x61, 0x73, 0x79, 0x6e, 0x63, 0x5f],
   [0x64, 0x69, 0x72, 0x65, 0x63, 0x74, 0x5f, 0x74, 0x68, 0x72, 0x65, 0x61],
   [0x64, 0x5f, 0x66, 0x72, 0x6f, 0x6d, 0x5f, 0x6d, 0x65, 0x73, 0x73, 0x65],
   [0x6e, 0x67, 0x65, 0x72, 0x5f, 0x74, 0x68, 0x72, 0x65, 0x61, 0x64, 0x5f],
   [0x64, 0x69, 0x63, 0x74, 0x40, 0xb4, 0x93, 0x2f, 0x3c, 0x66, 0x6f, 0x72],
   [0x6d, 0x61, 0x74, 0x2d, 0x73, 0x74, 0x72, 0x69, 0x6e, 0x67, 0x3e, 0x44],
   [0x41, 0x40, 0x41, 0xb0, 0x01, 0x14, 0xff, 0x90, 0xa0, 0x09, 0x3a, 0x64],
   [0x69, 0x73, 0x63, 0x6f, 0x76, 0x65, 0x72, 0x2e, 0x61, 0x70, 0x69, 0x2e],
   [0x76, 0x69, 0x65, 0x77, 0x5f, 0x68, 0x65, 0x6c, 0x70, 0x65, 0x72, 0x73],
   [0x2e, 0x61, 0x73, 0x79, 0x6e, 0x63, 0x5f, 0x65, 0x78, 0x70, 0x6c, 0x6f],
   [0x72, 0x65, 0x5f, 0x63, 0x6c, 0x69, 0x65, 0x6e, 0x74, 0x5f, 0x64, 0x69],
   [0x63, 0x74, 0x5f, 0x01, 0x01, 0x78, 0x00, 0x5f, 0x9c, 0x91, 0x24, 0x72],
   [0x6f, 0x6f, 0x74, 0xa0, 0xa0, 0x40, 0xa0, 0xa0, 0xa0, 0x01, 0x01, 0x78],
   [0x00, 0x61, 0xa0, 0x01, 0x01, 0x78, 0x00, 0x75, 0x9c, 0x91, 0x34, 0x61],
   [0x6c, 0x6c, 0x6f, 0x77, 0x5f, 0x6d, 0x75, 0x6c, 0x74, 0x69, 0x70, 0x6c],
   [0x65, 0x5f, 0x6e, 0x6f, 0x64, 0x65, 0x73, 0x40, 0xa0, 0xa0, 0x04, 0x4e],
   [0x05, 0x16, 0x0f, 0x40, 0xa0, 0xa0, 0xa0, 0xa0, 0x01, 0x01, 0x7b, 0x44],
   [0xa0, 0x01, 0x01, 0x7e, 0x53, 0x93, 0xc0, 0x08, 0x00, 0x00, 0x20, 0x00],
   [0xa0, 0x27, 0x73, 0x65, 0x74, 0x5f, 0x74, 0x61, 0x67, 0x40, 0xa0, 0xa0],
   [0xa0, 0xa0, 0x01, 0x01, 0x7b, 0x50, 0xa0, 0x01, 0x01, 0x7b, 0x54, 0xb0]] @
  [[0x24, 0x73, 0x65, 0x6c, 0x66, 0x40, 0x40, 0xa0, 0xa0, 0xa0, 0xa0, 0x01],
   [0x01, 0x7b, 0x56, 0xa0, 0x01, 0x01, 0x7b, 0x60, 0xb0, 0x25, 0x76, 0x61],
   [0x6c, 0x75, 0x65, 0x40, 0x90, 0xa0, 0xa0, 0xa0, 0x01, 0x01, 0x7b, 0x5d],
   [0xa0, 0x01, 0x01, 0x7b, 0x60, 0x9c, 0x91, 0x23, 0x73, 0x74, 0x72, 0x40],
   [0xa0, 0xa0, 0xa0, 0xa0, 0x01, 0x01, 0x7a, 0x45, 0xa0, 0x01, 0x01, 0x7a],
   [0x01, 0x00, 0x93, 0x92, 0xa0, 0xa0, 0xa0, 0xa0, 0x01, 0x01, 0x7a, 0x45],
   [0xa0, 0x01, 0x01, 0x7a, 0x56, 0x9c, 0x91, 0x31, 0x6e, 0x6f, 0x64, 0x65],
   [0x5f, 0x66, 0x69, 0x65, 0x6c, 0x64, 0x5f, 0x73, 0x65, 0x74, 0x74, 0x65],
   [0x72, 0xa0, 0xa0, 0x40, 0xa0, 0xa0, 0xa0, 0x01, 0x01, 0x7a, 0x57, 0xa0],
   [0x01, 0x01, 0x7a, 0x01, 0x00, 0x92, 0x92, 0xa0, 0xa0, 0xa0, 0xa0, 0x01],
   [0x01, 0x7a, 0x57, 0xa0, 0x01, 0x01, 0x7a, 0x66, 0x9c, 0x91, 0x2f, 0x4e],
   [0x6f, 0x64, 0x65, 0x58, 0x49, 0x44, 0x4d, 0x65, 0x74, 0x61, 0x64, 0x61],
   [0x74, 0x61, 0xa0, 0xa0, 0x90, 0xa0, 0xa0, 0xa0, 0x01, 0x01, 0x7a, 0x67],
   [0xa0, 0x01, 0x01, 0x7a, 0x72, 0x2b, 0x61, 0x73, 0x73, 0x65, 0x74, 0x5f],
   [0x63, 0x6c, 0x61, 0x73, 0x73, 0xa0, 0xa0, 0xa0, 0x01, 0x01, 0x7a, 0x73],
   [0xa0, 0x01, 0x01, 0x7a, 0x7f, 0x94, 0x94, 0xa0, 0x2a, 0x4e, 0x4f, 0x44],
   [0x45, 0x5f, 0x46, 0x49, 0x45, 0x4c, 0x44, 0x40, 0xa0, 0xa0, 0x90, 0xa0],
   [0xa0, 0xa0, 0x01, 0x01, 0x7a, 0x00, 0x41, 0xa0, 0x01, 0x01, 0x7a, 0x00],
   [0x45, 0x24, 0x72, 0x65, 0x70, 0x6f, 0xa0, 0xa0, 0xa0, 0x01, 0x01, 0x7a],
   [0x00, 0x46, 0xa0, 0x01, 0x01, 0x7a, 0x00, 0x58, 0x94, 0x94, 0xa0, 0x30],
   [0x69, 0x6e, 0x73, 0x74, 0x61, 0x67, 0x72, 0x61, 0x6d, 0x2d, 0x73, 0x65],
   [0x72, 0x76, 0x65, 0x72, 0x40, 0xa0, 0xa0, 0x90, 0xa0, 0xa0, 0xa0, 0x01],
   [0x01, 0x7a, 0x00, 0x5a, 0xa0, 0x01, 0x01, 0x7a, 0x00, 0x65, 0x2b, 0x73],
   [0x63, 0x68, 0x65, 0x6d, 0x61, 0x5f, 0x6e, 0x61, 0x6d, 0x65, 0xa0, 0xa0],
   [0xa0, 0x01, 0x01, 0x7a, 0x00, 0x66, 0xa0, 0x01, 0x01, 0x7a, 0x01, 0x00],
   [0x84, 0x94, 0x94, 0xa0, 0x3c, 0x69, 0x67, 0x5f, 0x66, 0x65, 0x65, 0x64],
   [0x5f, 0x6c, 0x61, 0x73, 0x74, 0x5f, 0x72, 0x61, 0x6e, 0x6b, 0x69, 0x6e],
   [0x67, 0x5f, 0x72, 0x65, 0x71, 0x75, 0x65, 0x73, 0x74, 0x40, 0xa0, 0xa0],
   [0x90, 0xa0, 0xa0, 0xa0, 0x01, 0x01, 0x7a, 0x01, 0x00, 0x86, 0xa0, 0x01],
   [0x01, 0x7a, 0x01, 0x00, 0x8b, 0x25, 0x66, 0x69, 0x65, 0x6c, 0x64, 0xa0]]"

definition dictionary_rows_47 :: "u8 list list" where
  "dictionary_rows_47 =
  [[0xa0, 0xa0, 0x01, 0x01, 0x7a, 0x01, 0x00, 0x8c, 0xa0, 0x01, 0x01, 0x7a],
   [0x01, 0x00, 0x91, 0x94, 0x94, 0xa0, 0x23, 0x74, 0x61, 0x67, 0x40, 0x40],
   [0x40, 0x40, 0x90, 0xa0, 0xa0, 0xa0, 0x01, 0x01, 0x7b, 0x65, 0xa0, 0x01],
   [0x01, 0x7b, 0x00, 0x45, 0x9c, 0x91, 0x09, 0x20, 0x4e, 0x6f, 0x64, 0x65],
   [0x55, 0x70, 0x64, 0x61, 0x74, 0x65, 0x46, 0x65, 0x65, 0x64, 0x4c, 0x61],
   [0x73, 0x74, 0x52, 0x61, 0x6e, 0x6b, 0x69, 0x6e, 0x67, 0x52, 0x65, 0x71],
   [0x75, 0x65, 0x73, 0x74, 0x40, 0x40, 0x90, 0xa0, 0x05, 0x01, 0x18, 0x40],
   [0x40, 0x40, 0x40, 0xa0, 0xa0, 0xa0, 0xa0, 0x01, 0x01, 0x7c, 0x48, 0xa0],
   [0x01, 0x01, 0x7c, 0x68, 0x95, 0xa0, 0xa0, 0xa0, 0x01, 0x01, 0x7c, 0x48],
   [0xa0, 0x01, 0x01, 0x7c, 0x68, 0x92, 0xa0, 0xa0, 0xa0, 0xa0, 0x01, 0x01],
   [0x7c, 0x48, 0xa0, 0x01, 0x01, 0x7c, 0x61, 0x9c, 0x90, 0xb0, 0xa0, 0xa0],
   [0xa0, 0x01, 0x01, 0x7c, 0x48, 0xa0, 0x01, 0x01, 0x7c, 0x5d, 0x9c, 0x90],
   [0xb0, 0xa0, 0xa0, 0xa0, 0x01, 0x01, 0x7c, 0x48, 0xa0, 0x01, 0x01, 0x7c],
   [0x4c, 0x9c, 0x91, 0x24, 0x73, 0x65, 0x6c, 0x66, 0x30, 0x5f, 0x65, 0x64],
   [0x69, 0x74, 0x65, 0x64, 0x5f, 0x44, 0x4f, 0x4e, 0x4f, 0x54, 0x55, 0x53],
   [0x45, 0x40, 0x23, 0x61, 0x64, 0x64, 0x40, 0xa0, 0xa0, 0x40, 0xa0, 0xa0],
   [0xa0, 0x01, 0x01, 0x7c, 0x62, 0xa0, 0x01, 0x01, 0x7c, 0x67, 0x94, 0x94],
   [0xa0, 0x23, 0x74, 0x61, 0x67, 0x40, 0x40, 0xa0, 0xa0, 0xa0, 0xa0, 0x01],
   [0x01, 0x7d, 0x48, 0xa0, 0x01, 0x01, 0x7d, 0x72, 0x95, 0xa0, 0xa0, 0xa0],
   [0x01, 0x01, 0x7d, 0x48, 0xa0, 0x01, 0x01, 0x7d, 0x72, 0x92, 0xa0, 0xa0],
   [0xa0, 0xa0, 0x01, 0x01, 0x7d, 0x48, 0xa0, 0x01, 0x01, 0x7d, 0x68, 0x9c],
   [0x90, 0xb0, 0xa0, 0xa0, 0xa0, 0x01, 0x01, 0x7d, 0x48, 0xa0, 0x01, 0x01],
   [0x7d, 0x5a, 0x9c, 0x90, 0xb0, 0xa0, 0xa0, 0xa0, 0x01, 0x01, 0x7d, 0x48],
   [0xa0, 0x01, 0x01, 0x7d, 0x4c, 0x9c, 0x91, 0x24, 0x73, 0x65, 0x6c, 0x66],
   [0x2d, 0x5f, 0x64, 0x61, 0x74, 0x61, 0x5f, 0x77, 0x72, 0x61, 0x70, 0x70],
   [0x65, 0x72, 0x40, 0x2d, 0x73, 0x65, 0x74, 0x5f, 0x61, 0x74, 0x74, 0x72],
   [0x69, 0x62, 0x75, 0x74, 0x65, 0x40, 0xa0, 0xa0, 0x40, 0xa0, 0xa0, 0xa0],
   [0x01, 0x01, 0x7d, 0x69, 0xa0, 0x01, 0x01, 0x7d, 0x6a, 0x94, 0x90, 0x42],
   [0xa0, 0xa0, 0x40, 0xa0, 0xa0, 0xa0, 0x01, 0x01, 0x7d, 0x6c, 0xa0, 0x01],
   [0x01, 0x7d, 0x71, 0x9c, 0x91, 0x25, 0x76, 0x61, 0x6c, 0x75, 0x65, 0x40]] @
  [[0xa0, 0xa0, 0xa0, 0xa0, 0x01, 0x01, 0x7e, 0x48, 0xa0, 0x01, 0x01, 0x7e],
   [0x53, 0x9d, 0xa0, 0x40, 0x90, 0xa0, 0xa0, 0xa0, 0x01, 0x01, 0x7e, 0x4f],
   [0xa0, 0x01, 0x01, 0x7e, 0x53, 0x9c, 0x91, 0x24, 0x73, 0x65, 0x6c, 0x66],
   [0x40, 0xa0, 0xa0, 0xa0, 0xa0, 0x01, 0x01, 0x81, 0x44, 0xa0, 0x01, 0x01],
   [0x84, 0x53, 0x93, 0xc0, 0x08, 0x00, 0x00, 0x20, 0x00, 0xa0, 0x33, 0x69],
   [0x66, 0x5f, 0x6e, 0x6f, 0x74, 0x5f, 0x6e, 0x75, 0x6c, 0x6c, 0x5f, 0x73],
   [0x65, 0x74, 0x5f, 0x74, 0x61, 0x67, 0x40, 0xa0, 0xa0, 0xa0, 0xa0, 0x01],
   [0x01, 0x81, 0x5c, 0xa0, 0x01, 0x01, 0x81, 0x60, 0xb0, 0x24, 0x73, 0x65],
   [0x6c, 0x66, 0x40, 0x40, 0xa0, 0xa0, 0xa0, 0xa0, 0x01, 0x01, 0x81, 0x62],
   [0xa0, 0x01, 0x01, 0x81, 0x76, 0xb0, 0x25, 0x76, 0x61, 0x6c, 0x75, 0x65],
   [0x40, 0x90, 0xa0, 0xa0, 0xa0, 0x01, 0x01, 0x81, 0x69, 0xa0, 0x01, 0x01],
   [0x81, 0x76, 0x92, 0xa0, 0xa0, 0xa0, 0xa0, 0x01, 0x01, 0x81, 0x69, 0xa0],
   [0x01, 0x01, 0x81, 0x71, 0x9c, 0x90, 0xb0, 0xa0, 0x04, 0x07, 0x9c, 0x91],
   [0x28, 0x4f, 0x70, 0x74, 0x69, 0x6f, 0x6e, 0x61, 0x6c, 0x05, 0x1a, 0x93],
   [0x41, 0xa0, 0xa0, 0x40, 0xa0, 0xa0, 0xa0, 0x01, 0x01, 0x81, 0x72, 0xa0],
   [0x01, 0x01, 0x81, 0x75, 0x9c, 0x91, 0x23, 0x73, 0x74, 0x72, 0x40, 0x40],
   [0xa0, 0xa0, 0xa0, 0xa0, 0x01, 0x01, 0x80, 0xc0, 0x08, 0x00, 0x00, 0x20],
   [0x00, 0xa0, 0x04, 0x11, 0xa0, 0x04, 0x10, 0xa0, 0x04, 0x0f, 0xa0, 0x04],
   [0x0e, 0xa0, 0x04, 0x0d, 0xa0, 0x2a, 0x53, 0x74, 0x72, 0x75, 0x63, 0x74],
   [0x54, 0x79, 0x70, 0x65, 0xa0, 0x2e, 0x70, 0x72, 0x65, 0x64, 0x69, 0x63],
   [0x74, 0x65, 0x64, 0x5f, 0x76, 0x70, 0x76, 0x73, 0xa0, 0x2f, 0x24, 0x63],
   [0x6c, 0x61, 0x73, 0x73, 0x5f, 0x74, 0x6f, 0x70, 0x6c, 0x65, 0x76, 0x65],
   [0x6c, 0x40, 0x40, 0x40, 0x40, 0x40, 0x40, 0x90, 0xa0, 0x04, 0x1d, 0xa0],
   [0x04, 0x1c, 0xa0, 0x04, 0x1b, 0xa0, 0x04, 0x1a, 0xa0, 0x04, 0x19, 0xa0],
   [0x04, 0x0c, 0xa0, 0x04, 0x0b, 0x40, 0x40, 0x40, 0x40, 0xa0, 0xa0, 0xa0],
   [0xa0, 0x01, 0x00, 0x90, 0x48, 0xa0, 0x01, 0x00, 0x90, 0x4c, 0x42, 0x40],
   [0x40, 0x84, 0x95, 0xa6, 0xbe, 0x00, 0x00, 0x00, 0x40, 0x00, 0x00, 0x00],
   [0x06, 0x00, 0x00, 0x00, 0x1b, 0x00, 0x00, 0x00, 0x14, 0xa2, 0x2f, 0x74],
   [0x79, 0x70, 0x69, 0x6e, 0x67, 0x2e, 0x43, 0x6c, 0x61, 0x73, 0x73, 0x56],
   [0x61, 0x72, 0xa0, 0x90, 0x94, 0x09, 0x29, 0x73, 0x65, 0x61, 0x72, 0x63]] @
  [[0x68, 0x2e, 0x63, 0x6f, 0x6d, 0x6d, 0x6f, 0x6e, 0x2e, 0x66, 0x65, 0x61],
   [0x74, 0x75, 0x72, 0x65, 0x73, 0x2e, 0x74, 0x74, 0x79, 0x70, 0x65, 0x73],
   [0x2e, 0x46, 0x65, 0x61, 0x74, 0x75, 0x72, 0x65, 0x4e, 0x61, 0x6d, 0x65],
   [0x40, 0x84, 0x95, 0xa6, 0xbe, 0x00, 0x00, 0x00, 0xab, 0x00, 0x00, 0x00],
   [0x10, 0x00, 0x00, 0x00, 0x4a, 0x00, 0x00, 0x00, 0x37, 0x99, 0xa0, 0x42],
   [0xa0, 0xa2, 0x2e, 0x74, 0x79, 0x70, 0x69, 0x6e, 0x67, 0x2e, 0x4d, 0x61],
   [0x70, 0x70, 0x69, 0x6e, 0x67, 0xa0, 0x90, 0x94, 0x23, 0x73, 0x74, 0x72],
   [0xa0, 0x90, 0x94, 0x09, 0x6d, 0x64, 0x61, 0x74, 0x61, 0x5f, 0x61, 0x63],
   [0x63, 0x65, 0x73, 0x73, 0x5f, 0x70, 0x6f, 0x6c, 0x69, 0x63, 0x69, 0x65],
   [0x73, 0x2e, 0x74, 0x68, 0x72, 0x69, 0x66, 0x74, 0x2e, 0x64, 0x61, 0x74],
   [0x61, 0x5f, 0x61, 0x63, 0x63, 0x65, 0x73, 0x73, 0x5f, 0x70, 0x6f, 0x6c],
   [0x69, 0x63, 0x79, 0x5f, 0x6d, 0x65, 0x74, 0x61, 0x64, 0x61, 0x74, 0x61],
   [0x2e, 0x64, 0x61, 0x74, 0x61, 0x5f, 0x61, 0x63, 0x63, 0x65, 0x73, 0x73],
   [0x5f, 0x70, 0x6f, 0x6c, 0x69, 0x63, 0x79, 0x5f, 0x6d, 0x65, 0x74, 0x61],
   [0x64, 0x61, 0x74, 0x61, 0x2e, 0x74, 0x79, 0x70, 0x65, 0x73, 0x2e, 0x43],
   [0x49, 0x50, 0x50, 0x45, 0x6e, 0x66, 0x6f, 0x72, 0x63, 0x65, 0x6d, 0x65],
   [0x6e, 0x74, 0x4d, 0x6f, 0x64, 0x65, 0x40, 0xa0, 0x94, 0x39, 0x74, 0x68],
   [0x72, 0x69, 0x66, 0x74, 0x2e, 0x70, 0x79, 0x33, 0x2e, 0x74, 0x79, 0x70],
   [0x65, 0x73, 0x2e, 0x5f, 0x5f, 0x4e, 0x6f, 0x74, 0x53, 0x65, 0x74, 0x40],
   [0x84, 0x95, 0xa6, 0xbe, 0x00, 0x00, 0x00, 0x01, 0x00, 0x00, 0x00, 0x00],
   [0x00, 0x00, 0x00, 0x00, 0x00, 0x00, 0x00, 0x00, 0x40, 0x84, 0x95, 0xa6],
   [0xbe, 0x00, 0x00, 0x00, 0x41, 0x00, 0x00, 0x00, 0x02, 0x00, 0x00, 0x00],
   [0x13, 0x00, 0x00, 0x00, 0x0b, 0x94, 0x09, 0x3e, 0x66, 0x62, 0x63, 0x6f],
   [0x64, 0x65, 0x2e, 0x66, 0x61, 0x63, 0x65, 0x62, 0x6f, 0x6f, 0x6b, 0x2e],
   [0x76, 0x69, 0x64, 0x65, 0x6f, 0x69, 0x6e, 0x66, 0x72, 0x61, 0x2e, 0x75],
   [0x6d, 0x61, 0x5f, 0x63, 0x6f, 0x6d, 0x6d, 0x6f, 0x6e, 0x2e, 0x74, 0x79],
   [0x70, 0x65, 0x73, 0x2e, 0x41, 0x75, 0x64, 0x69, 0x6f, 0x4c, 0x69, 0x6d],
   [0x69, 0x74, 0x65, 0x72, 0x50, 0x61, 0x72, 0x61, 0x6d, 0x73, 0x84, 0x95],
   [0xa6, 0xbe, 0x00, 0x00, 0x00, 0x01, 0x00, 0x00, 0x00, 0x00, 0x00, 0x00],
   [0x00, 0x00, 0x00, 0x00, 0x00, 0x00, 0x40, 0x84, 0x95, 0xa6, 0xbe, 0x00]] @
  [[0x00, 0x00, 0x48, 0x00, 0x00, 0x00, 0x06, 0x00, 0x00, 0x00, 0x1d, 0x00],
   [0x00, 0x00, 0x15, 0xa2, 0x2f, 0x74, 0x79, 0x70, 0x69, 0x6e, 0x67, 0x2e],
   [0x43, 0x6c, 0x61, 0x73, 0x73, 0x56, 0x61, 0x72, 0xa0, 0x90, 0x94, 0x09],
   [0x31, 0x73, 0x65, 0x61, 0x72, 0x63, 0x68, 0x5f, 0x61, 0x73, 0x79, 0x6e],
   [0x63, 0x69, 0x6f, 0x2e, 0x63, 0x6f, 0x6d, 0x6d, 0x6f, 0x6e, 0x2e, 0x66],
   [0x65, 0x61, 0x74, 0x75, 0x72, 0x65, 0x73, 0x2e, 0x74, 0x74, 0x79, 0x70],
   [0x65, 0x73, 0x2e, 0x46, 0x65, 0x61, 0x74, 0x75, 0x72, 0x65, 0x4e, 0x61],
   [0x6d, 0x65, 0x40, 0x84, 0x95, 0xa6, 0xbe, 0x00, 0x00, 0x00, 0x01, 0x00],
   [0x00, 0x00, 0x00, 0x00, 0x00, 0x00, 0x00, 0x00, 0x00, 0x00, 0x00, 0x40],
   [0x84, 0x95, 0xa6, 0xbe, 0x00, 0x00, 0x00, 0x01, 0x00, 0x00, 0x00, 0x00],
   [0x00, 0x00, 0x00, 0x00, 0x00, 0x00, 0x00, 0x00, 0x43, 0x84, 0x95, 0xa6],
   [0xbe, 0x00, 0x00, 0x01, 0xed, 0x00, 0x00, 0x00, 0x37, 0x00, 0x00, 0x00],
   [0xf9, 0x00, 0x00, 0x00, 0xcb, 0x90, 0xa0, 0x40, 0x90, 0xd1, 0xd1, 0xa0],
   [0x02, 0x04, 0x39, 0x84, 0x44, 0xa0, 0xa0, 0xd1, 0xd1, 0xa0, 0xa0, 0x09],
   [0x7e, 0x24, 0x6c, 0x6f, 0x63, 0x61, 0x6c, 0x5f, 0x66, 0x62, 0x63, 0x6f],
   [0x64, 0x65, 0x3f, 0x64, 0x73, 0x69, 0x3f, 0x6c, 0x6f, 0x67, 0x67, 0x65],
   [0x72, 0x3f, 0x63, 0x6f, 0x6e, 0x66, 0x69, 0x67, 0x73, 0x3f, 0x49, 0x6e],
   [0x73, 0x74, 0x61, 0x67, 0x72, 0x61, 0x6d, 0x52, 0x65, 0x63, 0x6f, 0x6e],
   [0x73, 0x69, 0x64, 0x65, 0x72, 0x61, 0x74, 0x69, 0x6f, 0x6e, 0x44, 0x65],
   [0x6c, 0x69, 0x76, 0x65, 0x72, 0x79, 0x46, 0x75, 0x6e, 0x6e, 0x65, 0x6c],
   [0x4c, 0x6f, 0x67, 0x67, 0x65, 0x72, 0x43, 0x6f, 0x6e, 0x66, 0x69, 0x67],
   [0x3f, 0x75, 0x6e, 0x69, 0x74, 0x74, 0x65, 0x73, 0x74, 0x3f, 0x70, 0x61],
   [0x74, 0x63, 0x68, 0x5f, 0x73, 0x61, 0x6d, 0x70, 0x6c, 0x69, 0x6e, 0x67],
   [0x5f, 0x72, 0x61, 0x74, 0x65, 0x72, 0x3f, 0x5f, 0x5f, 0x69, 0x6e, 0x69],
   [0x74, 0x5f, 0x5f, 0x24, 0x66, 0x75, 0x6e, 0x40, 0xa0, 0x90, 0xa0, 0x90],
   [0xb0, 0x90, 0x04, 0x08, 0xa0, 0x94, 0x09, 0x2d, 0x64, 0x73, 0x69, 0x2e],
   [0x6c, 0x6f, 0x67, 0x67, 0x65, 0x72, 0x2e, 0x70, 0x79, 0x33, 0x2e, 0x6c],
   [0x69, 0x62, 0x2e, 0x73, 0x61, 0x6d, 0x70, 0x6c, 0x69, 0x6e, 0x67, 0x5f],
   [0x72, 0x61, 0x74, 0x65, 0x2e, 0x53, 0x61, 0x6d, 0x70, 0x6c, 0x69, 0x6e],
   [0x67, 0x52, 0x61, 0x74, 0x65, 0x90, 0xa0, 0x93, 0x90, 0x43, 0x40, 0x40]] @
  [[0x40, 0x40, 0xa0, 0x38, 0x24, 0x70, 0x61, 0x72, 0x61, 0x6d, 0x65, 0x74],
   [0x65, 0x72, 0x24, 0x73, 0x61, 0x6d, 0x70, 0x6c, 0x69, 0x6e, 0x67, 0x5f],
   [0x72, 0x61, 0x74, 0x65, 0x40, 0xa0, 0x90, 0xa0, 0x94, 0x09, 0x2d, 0x64],
   [0x73, 0x69, 0x2e, 0x6c, 0x6f, 0x67, 0x67, 0x65, 0x72, 0x2e, 0x70, 0x79],
   [0x33, 0x2e, 0x6c, 0x69, 0x62, 0x2e, 0x73, 0x61, 0x6d, 0x70, 0x6c, 0x69],
   [0x6e, 0x67, 0x5f, 0x72, 0x61, 0x74, 0x65, 0x2e, 0x53, 0x61, 0x6d, 0x70],
   [0x6c, 0x69, 0x6e, 0x67, 0x52, 0x61, 0x74, 0x65, 0x90, 0xa0, 0x04, 0x04],
   [0x40, 0x40, 0x40, 0x42, 0xa0, 0x2f, 0x24, 0x70, 0x61, 0x72, 0x61, 0x6d],
   [0x65, 0x74, 0x65, 0x72, 0x24, 0x73, 0x65, 0x6c, 0x66, 0x40, 0xa0, 0x90],
   [0xa0, 0x94, 0x09, 0x6a, 0x66, 0x62, 0x63, 0x6f, 0x64, 0x65, 0x2e, 0x64],
   [0x73, 0x69, 0x2e, 0x6c, 0x6f, 0x67, 0x67, 0x65, 0x72, 0x2e, 0x63, 0x6f],
   [0x6e, 0x66, 0x69, 0x67, 0x73, 0x2e, 0x49, 0x6e, 0x73, 0x74, 0x61, 0xa0],
   [0xa0, 0x02, 0x00, 0x00, 0xbd, 0x71, 0x02, 0x00, 0x00, 0xbd, 0x72, 0x40],
   [0xa0, 0x04, 0x02, 0x40, 0x41, 0x90, 0x40, 0x40, 0x41, 0x40, 0x40, 0x41],
   [0x40, 0x41, 0xa0, 0xd0, 0x40, 0xb0, 0x40, 0x24, 0x73, 0x65, 0x6c, 0x66],
   [0x40, 0xa0, 0x40, 0xd0, 0x40, 0x90, 0x2f, 0x63, 0x75, 0x72, 0x72, 0x65],
   [0x6e, 0x74, 0x5f, 0x72, 0x65, 0x71, 0x75, 0x65, 0x73, 0x74, 0xa0, 0x40],
   [0xd0, 0x40, 0x90, 0x24, 0x4d, 0x45, 0x54, 0x41, 0xa0, 0xd0, 0x40, 0x40],
   [0xf0, 0x90, 0xd0, 0xd0, 0x40, 0x41, 0x08, 0x00, 0x00, 0x20, 0x00, 0x90],
   [0xa0, 0xa0, 0x40, 0x40, 0xa0, 0x40, 0x40, 0x90, 0x40, 0x90, 0xa0, 0x03],
   [0x3f, 0xff, 0xff, 0xff, 0xff, 0xff, 0xff, 0xff, 0xd0, 0x40, 0x90, 0x05],
   [0x01, 0x21, 0xa0, 0x40, 0x40, 0x40, 0x41, 0x90, 0x45, 0x90, 0x40, 0x90],
   [0xa0, 0x40, 0x40, 0x90, 0xa0, 0x40, 0x40, 0x90, 0x40, 0x40, 0x41, 0xb5],
   [0xa0, 0x91, 0xa0, 0x90, 0xc0, 0x40, 0x90, 0x2a, 0x48, 0x65, 0x61, 0x64],
   [0x65, 0x72, 0x44, 0x61, 0x74, 0x61, 0x40, 0x41, 0x90, 0x40, 0x40, 0x40],
   [0x41, 0x08, 0x00, 0x00, 0x20, 0x00, 0x90, 0xa0, 0xa0, 0x40, 0x40, 0xa0],
   [0x40, 0x40, 0x90, 0x40, 0x90, 0xa0, 0x03, 0x3f, 0xff, 0xff, 0xff, 0xff],
   [0xff, 0xff, 0xff, 0xd0, 0x40, 0x04, 0x1b, 0xa0, 0x40, 0x40, 0x40, 0x41],
   [0x90, 0x44, 0x90, 0x40, 0x90, 0xa0, 0x40, 0x40, 0x90, 0xa0, 0x40, 0x40],
   [0x90, 0x40, 0x40, 0x42, 0x90, 0x04, 0x4e, 0x90, 0xa0, 0xa0, 0x03, 0x04]]"

definition dictionary_rows_48 :: "u8 list list" where
  "dictionary_rows_48 =
  [[0x46, 0x00, 0x23, 0x40, 0x05, 0x50, 0x00, 0x90, 0x90, 0x03, 0xd3, 0x75],
   [0xf7, 0x89, 0x55, 0xaf, 0x1d, 0x4c, 0xa0, 0x03, 0x00, 0x06, 0x00, 0x01],
   [0x40, 0x01, 0x00, 0x00, 0x40, 0x90, 0xa0, 0x40, 0x40, 0x90, 0xa0, 0x40],
   [0x40, 0x90, 0xb0, 0xa0, 0xa0, 0x03, 0xc0, 0x00, 0x00, 0x00, 0x00, 0x00],
   [0x00, 0x00, 0x03, 0x3f, 0xff, 0xff, 0xff, 0xff, 0xff, 0xff, 0xff, 0x40],
   [0xa0, 0x04, 0x02, 0x40, 0x40, 0x90, 0x40, 0x40, 0x41, 0x40, 0xd0, 0x40],
   [0x90, 0x27, 0x65, 0x6e, 0x76, 0x69, 0x72, 0x6f, 0x6e, 0xa0, 0xd0, 0x40],
   [0x40, 0xf0, 0x90, 0xd0, 0x40, 0xb5, 0xa0, 0x91, 0xa0, 0x90, 0xc0, 0x40],
   [0x90, 0x2a, 0x48, 0x65, 0x61, 0x64, 0x65, 0x72, 0x44, 0x61, 0x74, 0x61],
   [0xc0, 0x40, 0x90, 0x2e, 0x55, 0x73, 0x65, 0x72, 0x43, 0x6f, 0x6e, 0x74],
   [0x72, 0x6f, 0x6c, 0x6c, 0x65, 0x64, 0x40, 0x41, 0x42, 0x90, 0x40, 0x40],
   [0x40, 0x41, 0x08, 0x00, 0x00, 0x20, 0x00, 0x90, 0xa0, 0xa0, 0x40, 0x40],
   [0xa0, 0x40, 0x40, 0x90, 0x40, 0x90, 0xa0, 0x03, 0x3f, 0xff, 0xff, 0xff],
   [0xff, 0xff, 0xff, 0xff, 0xd0, 0x40, 0x04, 0x51, 0xa0, 0x40, 0x40, 0x40],
   [0x41, 0x90, 0x45, 0x90, 0x40, 0x90, 0xa0, 0x40, 0x40, 0x90, 0xa0, 0x40],
   [0x40, 0x90, 0x40, 0x40, 0x41, 0x90, 0x04, 0x84, 0x90, 0xa0, 0xa0, 0x03],
   [0x04, 0x06, 0x00, 0x23, 0x40, 0x05, 0x50, 0x00, 0x40, 0xa0, 0x03, 0x04],
   [0x06, 0x00, 0x01, 0x40, 0x01, 0x00, 0x00, 0x40, 0x90, 0xa0, 0x40, 0x40],
   [0x90, 0xa0, 0x40, 0x40, 0x90, 0xb0, 0xa0, 0x04, 0x34, 0x40, 0xa0, 0x04],
   [0x35, 0x40, 0x40, 0x90, 0x40, 0x40, 0x41, 0x40, 0xd0, 0x40, 0x90, 0x24],
   [0x70, 0x61, 0x74, 0x68, 0xa0, 0xd0, 0x40, 0x40, 0xf0, 0x90, 0xd0, 0x40],
   [0x41, 0x08, 0x00, 0x00, 0x20, 0x00, 0x90, 0xa0, 0xa0, 0x40, 0x40, 0xa0],
   [0x40, 0x40, 0x90, 0x40, 0x90, 0xa0, 0x03, 0x3f, 0xff, 0xff, 0xff, 0xff],
   [0xff, 0xff, 0xff, 0xd0, 0x40, 0x04, 0x78, 0xa0, 0x40, 0x40, 0x40, 0x41],
   [0x90, 0x44, 0x90, 0x40, 0x90, 0xa0, 0x40, 0x40, 0x90, 0xa0, 0x40, 0x40],
   [0x90, 0x40, 0x40, 0x41, 0x90, 0x04, 0xab, 0x90, 0xa0, 0xa0, 0x03, 0x04],
   [0x04, 0x00, 0x23, 0x40, 0x04, 0x50, 0x00, 0x90, 0x04, 0x5d, 0xa0, 0x03],
   [0x00, 0x04, 0x00, 0x01, 0x00, 0x00, 0x00, 0x00, 0x40, 0x90, 0xa0, 0x40],
   [0x40, 0x90, 0xa0, 0x40, 0x40, 0x90, 0xb0, 0xa0, 0x04, 0x5c, 0x40, 0xa0],
   [0x04, 0x5d, 0x40, 0x40, 0x90, 0x40, 0x40, 0x41, 0x40, 0x40, 0x41, 0x42]] @
  [[0x43, 0xd0, 0x40, 0x90, 0x31, 0x6e, 0x6f, 0x74, 0x69, 0x66, 0x69, 0x63],
   [0x61, 0x74, 0x69, 0x6f, 0x6e, 0x5f, 0x64, 0x61, 0x74, 0x61, 0xa0, 0x40],
   [0xd0, 0x40, 0x90, 0x31, 0x61, 0x72, 0x62, 0x69, 0x74, 0x72, 0x61, 0x72],
   [0x79, 0x5f, 0x63, 0x6f, 0x6e, 0x74, 0x65, 0x6e, 0x74, 0xa0, 0xd0, 0x40],
   [0x40, 0xf0, 0x90, 0xd0, 0x40, 0x41, 0x08, 0x00, 0x00, 0x20, 0x00, 0x90],
   [0xa0, 0xa0, 0x40, 0x40, 0xa0, 0x40, 0x40, 0x90, 0x40, 0x90, 0xa0, 0x03],
   [0x3f, 0xff, 0xff, 0xff, 0xff, 0xff, 0xff, 0xff, 0xd0, 0x40, 0x90, 0x27],
   [0x63, 0x6f, 0x6e, 0x74, 0x65, 0x6e, 0x74, 0xa0, 0x43, 0x40, 0x40, 0x41],
   [0x90, 0x41, 0x90, 0x40, 0x90, 0xa0, 0x40, 0x40, 0x90, 0xa0, 0x40, 0x40],
   [0x90, 0x40, 0x40, 0x41, 0x90, 0x04, 0xd9, 0x90, 0xa0, 0xa0, 0x03, 0x04],
   [0x04, 0x00, 0x01, 0x00, 0x00, 0x10, 0x00, 0x90, 0x04, 0x8b, 0xa0, 0x03],
   [0x04, 0x00, 0x00, 0x01, 0x00, 0x00, 0x00, 0x00, 0x90, 0x90, 0x03, 0xd3],
   [0x75, 0xf7, 0x89, 0x55, 0xaf, 0x1d, 0x4c, 0x90, 0xa0, 0x40, 0x40, 0x90],
   [0xa0, 0x40, 0x40, 0x90, 0xb0, 0xa0, 0x04, 0x8c, 0x40, 0xa0, 0x04, 0x8d],
   [0x40, 0x40, 0x90, 0x40, 0x40, 0x41, 0x40, 0x40, 0x41, 0x40, 0x41, 0x42],
   [0x40, 0x41, 0xd0, 0x40, 0x04, 0xd9, 0xa0, 0x40, 0xd0, 0x40, 0x04, 0xd7],
   [0xa0, 0x40, 0xd0, 0x40, 0x04, 0xd5, 0xa0, 0x40, 0xd0, 0xd0, 0x40, 0x90],
   [0x29, 0x48, 0x54, 0x54, 0x50, 0x5f, 0x48, 0x4f, 0x53, 0x54, 0xa0, 0xd0],
   [0x40, 0xc2, 0xb0, 0x40, 0x24, 0x73, 0x65, 0x6c, 0x66, 0x40, 0xa0, 0x04],
   [0xe4, 0xa0, 0x04, 0xe1, 0xa0, 0x04, 0x0a, 0x40, 0x05, 0x01, 0xed, 0xa0],
   [0x05, 0x01, 0xeb, 0x40, 0xf0, 0x90, 0xd0, 0xd0, 0x40, 0x91, 0xa0, 0x09],
   [0x20, 0x55, 0x73, 0x65, 0x72, 0x43, 0x6f, 0x6e, 0x74, 0x72, 0x6f, 0x6c],
   [0x6c, 0x65, 0x64, 0x41, 0x6e, 0x64, 0x53, 0x74, 0x72, 0x69, 0x6e, 0x67],
   [0x4d, 0x61, 0x79, 0x42, 0x65, 0x48, 0x54, 0x4d, 0x4c, 0x29, 0x73, 0x65],
   [0x63, 0x6f, 0x6e, 0x64, 0x61, 0x72, 0x79, 0x08, 0x00, 0x00, 0x20, 0x00],
   [0x90, 0xa0, 0xa0, 0x03, 0x04, 0x44, 0x80, 0x03, 0x40, 0x00, 0x00, 0x00],
   [0x90, 0x04, 0xb7, 0xa0, 0x03, 0x04, 0x00, 0x00, 0x01, 0x00, 0x00, 0x00],
   [0x00, 0x90, 0x04, 0x2c, 0x90, 0x40, 0x90, 0x05, 0x01, 0xcc, 0x90, 0x44],
   [0x90, 0x90, 0x90, 0x03, 0x01, 0x81, 0x65, 0xa1, 0x16, 0xe3, 0xc7, 0xb5],
   [0x90, 0xa0, 0x40, 0x90, 0x90, 0x03, 0xdd, 0x10, 0xf9, 0xba, 0xdf, 0x74]] @
  [[0xde, 0x2c, 0x90, 0xa0, 0x40, 0x40, 0x90, 0xc0, 0xc0, 0x40, 0xb0, 0x01],
   [0x13, 0xb6, 0x91, 0xb0, 0x3f, 0x64, 0x6a, 0x61, 0x6e, 0x67, 0x6f, 0x2e],
   [0x68, 0x74, 0x74, 0x70, 0x2e, 0x72, 0x65, 0x71, 0x75, 0x65, 0x73, 0x74],
   [0x2e, 0x48, 0x74, 0x74, 0x70, 0x52, 0x65, 0x71, 0x75, 0x65, 0x73, 0x74],
   [0x28, 0x67, 0x65, 0x74, 0x5f, 0x68, 0x6f, 0x73, 0x74, 0x40, 0xb4, 0x93],
   [0x2f, 0x3c, 0x66, 0x6f, 0x72, 0x6d, 0x61, 0x74, 0x2d, 0x73, 0x74, 0x72],
   [0x69, 0x6e, 0x67, 0x3e, 0x41, 0x41, 0x40, 0x41, 0xb0, 0x01, 0x13, 0xb6],
   [0x91, 0xb0, 0x3f, 0x5c, 0x9c, 0x91, 0x23, 0x73, 0x74, 0x72, 0x40, 0x40],
   [0x90, 0xa0, 0x04, 0x2a, 0xa0, 0x04, 0x29, 0xa0, 0x04, 0x28, 0xa0, 0x04],
   [0x27, 0xa0, 0x04, 0x26, 0xa0, 0x04, 0x19, 0x40, 0x40, 0x40, 0x40, 0xa0],
   [0xa0, 0xa0, 0xa0, 0x00, 0x7b, 0x5e, 0xa0, 0x00, 0x7b, 0x61, 0x95, 0xa0],
   [0xa0, 0xa0, 0x00, 0x7b, 0x5e, 0xa0, 0x00, 0x7b, 0x61, 0x94, 0x41, 0x40],
   [0x40, 0x84, 0x95, 0xa6, 0xbe, 0x00, 0x00, 0x00, 0x0d, 0x00, 0x00, 0x00],
   [0x02, 0x00, 0x00, 0x00, 0x06, 0x00, 0x00, 0x00, 0x06, 0xa0, 0xa0, 0x02],
   [0x00, 0x06, 0x0f, 0x38, 0x02, 0x00, 0x06, 0x0f, 0x39, 0x40, 0x84, 0x95],
   [0xa6, 0xbe, 0x00, 0x00, 0x00, 0x05, 0x00, 0x00, 0x00, 0x02, 0x00, 0x00],
   [0x00, 0x06, 0x00, 0x00, 0x00, 0x06, 0xa0, 0x40, 0xa0, 0x41, 0x40, 0x84],
   [0x95, 0xa6, 0xbe, 0x00, 0x00, 0x00, 0x15, 0x00, 0x00, 0x00, 0x08, 0x00],
   [0x00, 0x00, 0x19, 0x00, 0x00, 0x00, 0x19, 0xc0, 0x90, 0x40, 0xa0, 0x40],
   [0x40, 0xb0, 0xb0, 0x90, 0x40, 0x90, 0x40, 0xa0, 0x04, 0x03, 0x04, 0x02],
   [0x04, 0x04, 0x40, 0x40, 0x84, 0x95, 0xa6, 0xbe, 0x00, 0x00, 0x01, 0x22],
   [0x00, 0x00, 0x00, 0x3a, 0x00, 0x00, 0x00, 0xc7, 0x00, 0x00, 0x00, 0xb0],
   [0x93, 0xa0, 0xa0, 0x08, 0x00, 0x00, 0x20, 0x00, 0xa0, 0x28, 0x69, 0x67],
   [0x74, 0x68, 0x72, 0x69, 0x66, 0x74, 0xa0, 0x23, 0x67, 0x65, 0x6e, 0xa0],
   [0x27, 0x6e, 0x6f, 0x64, 0x65, 0x61, 0x70, 0x69, 0xa0, 0x34, 0x6e, 0x61],
   [0x74, 0x69, 0x76, 0x65, 0x5f, 0x70, 0x72, 0x69, 0x76, 0x61, 0x63, 0x79],
   [0x5f, 0x72, 0x75, 0x6c, 0x65, 0x73, 0xa0, 0x34, 0x6e, 0x61, 0x74, 0x69],
   [0x76, 0x65, 0x5f, 0x70, 0x72, 0x69, 0x76, 0x61, 0x63, 0x79, 0x5f, 0x72],
   [0x75, 0x6c, 0x65, 0x73, 0xa0, 0x2f, 0x74, 0x68, 0x72, 0x69, 0x66, 0x74],
   [0x5f, 0x6d, 0x65, 0x74, 0x61, 0x64, 0x61, 0x74, 0x61, 0xa0, 0x09, 0x31]] @
  [[0x67, 0x65, 0x6e, 0x5f, 0x6d, 0x65, 0x74, 0x61, 0x64, 0x61, 0x74, 0x61],
   [0x5f, 0x73, 0x74, 0x72, 0x75, 0x63, 0x74, 0x5f, 0x44, 0x65, 0x6e, 0x79],
   [0x49, 0x66, 0x4e, 0x61, 0x6d, 0x65, 0x49, 0x73, 0x4e, 0x6f, 0x74, 0x53],
   [0x65, 0x74, 0x46, 0x6f, 0x72, 0x54, 0x65, 0x73, 0x74, 0x52, 0x75, 0x6c],
   [0x65, 0x40, 0x40, 0x40, 0x90, 0xa0, 0xa0, 0xa0, 0x01, 0x04, 0x1a, 0x7b],
   [0xa0, 0x01, 0x04, 0x1a, 0x00, 0x5c, 0x9c, 0x90, 0xb0, 0xa0, 0xa0, 0xa0],
   [0x01, 0x04, 0x1a, 0x7b, 0xa0, 0x01, 0x04, 0x1a, 0x00, 0x4d, 0x9c, 0x90],
   [0xb0, 0xa0, 0x04, 0x07, 0x9c, 0x90, 0xb0, 0xa0, 0x04, 0x0b, 0x9c, 0x90],
   [0xb0, 0xa0, 0x04, 0x0f, 0x9c, 0x91, 0x26, 0x61, 0x70, 0x61, 0x63, 0x68],
   [0x65, 0x26, 0x74, 0x68, 0x72, 0x69, 0x66, 0x74, 0x40, 0x28, 0x6d, 0x65],
   [0x74, 0x61, 0x64, 0x61, 0x74, 0x61, 0x40, 0x2c, 0x74, 0x68, 0x72, 0x69],
   [0x66, 0x74, 0x5f, 0x74, 0x79, 0x70, 0x65, 0x73, 0x40, 0x2e, 0x54, 0x68],
   [0x72, 0x69, 0x66, 0x74, 0x4d, 0x65, 0x74, 0x61, 0x64, 0x61, 0x74, 0x61],
   [0x40, 0x40, 0x40, 0x40, 0x40, 0xb0, 0xa0, 0x04, 0x2e, 0xa0, 0x04, 0x2d],
   [0xa0, 0x04, 0x2c, 0xa0, 0x04, 0x2b, 0xa0, 0x04, 0x2a, 0xa0, 0x04, 0x29],
   [0x40, 0xa0, 0x01, 0x04, 0x1a, 0x40, 0xa0, 0x01, 0x04, 0x1b, 0x01, 0x00],
   [0x9b, 0x40, 0x84, 0x95, 0xa6, 0xbe, 0x00, 0x00, 0x00, 0x24, 0x00, 0x00],
   [0x00, 0x02, 0x00, 0x00, 0x00, 0x0c, 0x00, 0x00, 0x00, 0x08, 0x94, 0x09],
   [0x21, 0x70, 0x69, 0x70, 0x2e, 0x5f, 0x69, 0x6e, 0x74, 0x65, 0x72, 0x6e],
   [0x61, 0x6c, 0x2e, 0x65, 0x78, 0x63, 0x65, 0x70, 0x74, 0x69, 0x6f, 0x6e],
   [0x73, 0x2e, 0x50, 0x69, 0x70, 0x45, 0x72, 0x72, 0x6f, 0x72, 0x84, 0x95],
   [0xa6, 0xbe, 0x00, 0x00, 0x00, 0x59, 0x00, 0x00, 0x00, 0x09, 0x00, 0x00],
   [0x00, 0x29, 0x00, 0x00, 0x00, 0x1f, 0x99, 0xa0, 0x42, 0xa0, 0xa2, 0x24],
   [0x6c, 0x69, 0x73, 0x74, 0xa0, 0x90, 0x94, 0x09, 0x48, 0x66, 0x62, 0x63],
   [0x6f, 0x64, 0x65, 0x2e, 0x74, 0x75, 0x70, 0x70, 0x65, 0x72, 0x77, 0x61],
   [0x72, 0x65, 0x2e, 0x74, 0x77, 0x64, 0x65, 0x70, 0x6c, 0x6f, 0x79, 0x2e],
   [0x63, 0x6f, 0x6e, 0x66, 0x69, 0x67, 0x2e, 0x73, 0x63, 0x68, 0x65, 0x6d],
   [0x61, 0x2e, 0x74, 0x74, 0x79, 0x70, 0x65, 0x73, 0x2e, 0x50, 0x72, 0x69],
   [0x76, 0x61, 0x74, 0x65, 0x43, 0x6f, 0x6e, 0x74, 0x61, 0x69, 0x6e, 0x65],
   [0x72, 0x4d, 0x69, 0x78, 0x69, 0x6e, 0x52, 0x65, 0x66, 0x40, 0x40, 0x84]] @
  [[0x95, 0xa6, 0xbe, 0x00, 0x00, 0x00, 0x2d, 0x00, 0x00, 0x00, 0x02, 0x00],
   [0x00, 0x00, 0x0e, 0x00, 0x00, 0x00, 0x09, 0x94, 0x09, 0x2a, 0x66, 0x61],
   [0x63, 0x65, 0x62, 0x6f, 0x6f, 0x6b, 0x2e, 0x73, 0x65, 0x61, 0x72, 0x63],
   [0x68, 0x2e, 0x66, 0x65, 0x61, 0x74, 0x75, 0x72, 0x65, 0x73, 0x2e, 0x74],
   [0x79, 0x70, 0x65, 0x73, 0x2e, 0x46, 0x65, 0x61, 0x74, 0x75, 0x72, 0x65],
   [0x4e, 0x61, 0x6d, 0x65, 0x84, 0x95, 0xa6, 0xbe, 0x00, 0x00, 0x00, 0x01],
   [0x00, 0x00, 0x00, 0x00, 0x00, 0x00, 0x00, 0x00, 0x00, 0x00, 0x00, 0x00],
   [0x40, 0x84, 0x95, 0xa6, 0xbe, 0x00, 0x00, 0x00, 0x05, 0x00, 0x00, 0x00],
   [0x03, 0x00, 0x00, 0x00, 0x07, 0x00, 0x00, 0x00, 0x07, 0x90, 0xa0, 0x40],
   [0x90, 0x40, 0x84, 0x95, 0xa6, 0xbe, 0x00, 0x00, 0x00, 0x01, 0x00, 0x00],
   [0x00, 0x00, 0x00, 0x00, 0x00, 0x00, 0x00, 0x00, 0x00, 0x00, 0x40, 0x84],
   [0x95, 0xa6, 0xbe, 0x00, 0x00, 0x00, 0x05, 0x00, 0x00, 0x00, 0x03, 0x00],
   [0x00, 0x00, 0x07, 0x00, 0x00, 0x00, 0x07, 0x90, 0xa0, 0x40, 0x90, 0x40],
   [0x84, 0x95, 0xa6, 0xbe, 0x00, 0x00, 0x00, 0x68, 0x00, 0x00, 0x00, 0x05],
   [0x00, 0x00, 0x00, 0x24, 0x00, 0x00, 0x00, 0x18, 0x99, 0xa0, 0x42, 0xa0],
   [0x94, 0x09, 0x60, 0x69, 0x67, 0x74, 0x68, 0x72, 0x69, 0x66, 0x74, 0x2e],
   [0x67, 0x65, 0x6e, 0x2e, 0x66, 0x61, 0x63, 0x65, 0x62, 0x6f, 0x6f, 0x6b],
   [0x2e, 0x61, 0x64, 0x6d, 0x61, 0x72, 0x6b, 0x65, 0x74, 0x2e, 0x71, 0x72],
   [0x74, 0x5f, 0x65, 0x6e, 0x76, 0x2e, 0x74, 0x68, 0x72, 0x69, 0x66, 0x74],
   [0x5f, 0x74, 0x79, 0x70, 0x65, 0x73, 0x2e, 0x5f, 0x66, 0x62, 0x74, 0x68],
   [0x72, 0x69, 0x66, 0x74, 0x5f, 0x63, 0x6f, 0x6d, 0x70, 0x61, 0x74, 0x69],
   [0x62, 0x6c, 0x65, 0x5f, 0x77, 0x69, 0x74, 0x68, 0x5f, 0x51, 0x52, 0x54],
   [0x45, 0x6e, 0x76, 0x55, 0x6e, 0x69, 0x76, 0x65, 0x72, 0x73, 0x65, 0x49],
   [0x6e, 0x66, 0x6f, 0x40, 0x84, 0x95, 0xa6, 0xbe, 0x00, 0x00, 0x07, 0xf4],
   [0x00, 0x00, 0x00, 0x81, 0x00, 0x00, 0x03, 0x68, 0x00, 0x00, 0x02, 0x9c],
   [0x90, 0xa0, 0xc0, 0x4e, 0x08, 0x00, 0x00, 0x40, 0x00, 0x40, 0xb0, 0x27],
   [0x52, 0x45, 0x50, 0x4f, 0x52, 0x54, 0x53, 0x08, 0x00, 0x00, 0x30, 0x00],
   [0xa0, 0x40, 0x90, 0x94, 0x23, 0x73, 0x74, 0x72, 0x40, 0x40, 0x40, 0x41],
   [0x40, 0x04, 0x06, 0x09, 0x65, 0x62, 0x6c, 0x6f, 0x6b, 0x73, 0x2e, 0x61],
   [0x70, 0x70, 0x73, 0x2e, 0x69, 0x6e, 0x73, 0x74, 0x61, 0x67, 0x72, 0x61]]"

definition dictionary_rows_49 :: "u8 list list" where
  "dictionary_rows_49 =
  [[0x6d, 0x2e, 0x73, 0x65, 0x74, 0x74, 0x69, 0x6e, 0x67, 0x73, 0x2e, 0x64],
   [0x69, 0x73, 0x63, 0x6f, 0x2e, 0x74, 0x6f, 0x70, 0x69, 0x63, 0x73, 0x5f],
   [0x64, 0x61, 0x74, 0x61, 0x5f, 0x6d, 0x61, 0x00, 0xe2, 0x00, 0x00, 0x00],
   [0xbd, 0x90, 0xa0, 0x40, 0x90, 0xd1, 0xa0, 0x02, 0x0f, 0x47, 0x8b, 0x8c],
   [0xa0, 0xa0, 0x40, 0x40, 0xa0, 0xd1, 0xa0, 0xa0, 0x2f, 0x24, 0x70, 0x61],
   [0x72, 0x61, 0x6d, 0x65, 0x74, 0x65, 0x72, 0x24, 0x72, 0x6f, 0x6f, 0x74],
   [0x40, 0xa0, 0x90, 0xa0, 0x99, 0xa0, 0xa2, 0x3d, 0x6e, 0x6f, 0x64, 0x65],
   [0x61, 0x70, 0x69, 0x2e, 0x50, 0x72, 0x65, 0x70, 0x61, 0x72, 0x65, 0x64],
   [0x51, 0x75, 0x65, 0x72, 0x79, 0x2e, 0x51, 0x4c, 0x50, 0x61, 0x72, 0x61],
   [0x6d, 0xa0, 0x90, 0x94, 0x09, 0x2f, 0x69, 0x67, 0x5f, 0x6e, 0x6f, 0x64],
   [0x65, 0x61, 0x70, 0x69, 0x2e, 0x6e, 0x6f, 0x64, 0x65, 0x73, 0x2e, 0x70],
   [0x72, 0x6f, 0x66, 0x69, 0x6c, 0x65, 0x5f, 0x6d, 0x65, 0x64, 0x69, 0x61],
   [0x2e, 0x4e, 0x6f, 0x64, 0x65, 0x50, 0x72, 0x6f, 0x66, 0x69, 0x6c, 0x65],
   [0x4d, 0x65, 0x64, 0x69, 0x61, 0x40, 0xa0, 0xa2, 0x3d, 0x6e, 0x6f, 0x64],
   [0x65, 0x61, 0x70, 0x69, 0x2e, 0x50, 0x72, 0x65, 0x70, 0x61, 0x72, 0x65],
   [0x64, 0x51, 0x75, 0x65, 0x72, 0x79, 0x2e, 0x51, 0x4c, 0x50, 0x61, 0x72],
   [0x61, 0x6d, 0xa0, 0x90, 0x94, 0x23, 0x69, 0x6e, 0x74, 0x40, 0xa0, 0x94],
   [0x09, 0x2f, 0x69, 0x67, 0x5f, 0x6e, 0x6f, 0x64, 0x65, 0x61, 0x70, 0x69],
   [0x2e, 0x6e, 0x6f, 0x64, 0x65, 0x73, 0x2e, 0x70, 0x72, 0x6f, 0x66, 0x69],
   [0x6c, 0x65, 0x5f, 0x6d, 0x65, 0x64, 0x69, 0x61, 0x2e, 0x4e, 0x6f, 0x64],
   [0x65, 0x50, 0x72, 0x6f, 0x66, 0x69, 0x6c, 0x65, 0x4d, 0x65, 0x64, 0x69],
   [0x61, 0xa0, 0x94, 0x23, 0x69, 0x6e, 0x74, 0x40, 0x90, 0xa0, 0x99, 0xa0],
   [0xa2, 0x04, 0x17, 0xa0, 0x90, 0x04, 0x16, 0x40, 0xa0, 0xa2, 0x04, 0x14],
   [0xa0, 0x90, 0x04, 0x13, 0x40, 0xa0, 0x04, 0x11, 0xa0, 0x04, 0x0f, 0x40],
   [0x40, 0x40, 0xa0, 0x2f, 0x24, 0x70, 0x61, 0x72, 0x61, 0x6d, 0x65, 0x74],
   [0x65, 0x72, 0x24, 0x73, 0x65, 0x6c, 0x66, 0x40, 0xa0, 0x90, 0xa0, 0x94],
   [0x09, 0x68, 0x69, 0x67, 0x5f, 0x6e, 0x6f, 0x64, 0x65, 0x61, 0x70, 0x69],
   [0x2e, 0x65, 0x64, 0x67, 0x65, 0x73, 0x2e, 0x6d, 0x65, 0x64, 0x69, 0x61],
   [0x5f, 0x74, 0x6f, 0x5f, 0x61, 0x74, 0x74, 0x61, 0x63, 0x68, 0x65, 0x64],
   [0x5f, 0x65, 0x76, 0x65, 0x6e, 0x74, 0x5f, 0x6f, 0x6e, 0x5f, 0x70, 0x72]] @
  [[0x6f, 0x66, 0x69, 0x6c, 0x65, 0x5f, 0x6d, 0x65, 0x64, 0x69, 0x61, 0x2e],
   [0x45, 0x64, 0x67, 0x65, 0x53, 0x65, 0x6c, 0x65, 0x63, 0x74, 0x6f, 0x72],
   [0x4d, 0x65, 0x64, 0x69, 0x61, 0x54, 0x6f, 0x41, 0x74, 0x74, 0x61, 0x63],
   [0x68, 0x65, 0x64, 0x45, 0x76, 0x65, 0x6e, 0x74, 0x4f, 0x6e, 0x50, 0x72],
   [0x6f, 0x66, 0x69, 0x6c, 0x65, 0x4d, 0x65, 0x64, 0x69, 0x61, 0x40, 0x40],
   [0x40, 0x42, 0x40, 0x02, 0x3a, 0x61, 0xbe, 0xce, 0xa0, 0xa0, 0x04, 0x32],
   [0x40, 0xa0, 0x04, 0x33, 0x40, 0x40, 0x42, 0x84, 0x95, 0xa6, 0xbe, 0x00],
   [0x00, 0x00, 0x01, 0x00, 0x00, 0x00, 0x00, 0x00, 0x00, 0x00, 0x00, 0x00],
   [0x00, 0x00, 0x00, 0x40, 0x84, 0x95, 0xa6, 0xbe, 0x00, 0x00, 0x1b, 0x28],
   [0x00, 0x00, 0x02, 0xb6, 0x00, 0x00, 0x0d, 0x01, 0x00, 0x00, 0x0a, 0x69],
   [0x90, 0xa0, 0xc0, 0x55, 0x08, 0x00, 0x00, 0x40, 0x00, 0xb0, 0x31, 0x5f],
   [0x74, 0x6f, 0x5f, 0x70, 0x79, 0x5f, 0x64, 0x65, 0x70, 0x72, 0x65, 0x63],
   [0x61, 0x74, 0x65, 0x64, 0x08, 0x00, 0x00, 0x30, 0x00, 0xa0, 0x40, 0x90],
   [0x90, 0xb0, 0x90, 0xa0, 0x23, 0x64, 0x73, 0x69, 0xa0, 0x26, 0x6c, 0x6f],
   [0x67, 0x67, 0x65, 0x72, 0xa0, 0x23, 0x70, 0x79, 0x33, 0xa0, 0x35, 0x49],
   [0x6e, 0x73, 0x74, 0x61, 0x67, 0x72, 0x61, 0x6d, 0x50, 0x68, 0x6f, 0x6e],
   [0x65, 0x53, 0x68, 0x61, 0x72, 0x69, 0x6e, 0x67, 0xa0, 0x28, 0x4c, 0x6f],
   [0x67, 0x45, 0x6e, 0x74, 0x72, 0x79, 0xa0, 0x25, 0x74, 0x79, 0x70, 0x65],
   [0x73, 0xa0, 0x09, 0x25, 0x49, 0x6e, 0x73, 0x74, 0x61, 0x67, 0x72, 0x61],
   [0x6d, 0x50, 0x68, 0x6f, 0x6e, 0x65, 0x53, 0x68, 0x61, 0x72, 0x69, 0x6e],
   [0x67, 0x4c, 0x6f, 0x67, 0x67, 0x65, 0x72, 0x48, 0x69, 0x76, 0x65, 0x53],
   [0x74, 0x72, 0x75, 0x63, 0x74, 0xa0, 0x04, 0x16, 0x40, 0xa0, 0x43, 0x90],
   [0xa0, 0x91, 0xb0, 0x2f, 0x24, 0x70, 0x61, 0x72, 0x61, 0x6d, 0x65, 0x74],
   [0x65, 0x72, 0x24, 0x73, 0x65, 0x6c, 0x66, 0x94, 0x09, 0x59, 0x64, 0x73],
   [0x69, 0x2e, 0x6c, 0x6f, 0x67, 0x67, 0x65, 0x72, 0x2e, 0x70, 0x79, 0x33],
   [0x2e, 0x49, 0x6e, 0x73, 0x74, 0x61, 0x67, 0x72, 0x61, 0x6d, 0x50, 0x68],
   [0x6f, 0x6e, 0x65, 0x53, 0x68, 0x61, 0x72, 0x69, 0x6e, 0x67, 0x2e, 0x4c],
   [0x6f, 0x67, 0x45, 0x6e, 0x74, 0x72, 0x79, 0x2e, 0x74, 0x79, 0x70, 0x65],
   [0x73, 0x2e, 0x49, 0x6e, 0x73, 0x74, 0x61, 0x67, 0x72, 0x61, 0x6d, 0x50],
   [0x68, 0x6f, 0x6e, 0x65, 0x53, 0x68, 0x61, 0x72, 0x69, 0x6e, 0x67, 0x4c]] @
  [[0x6f, 0x67, 0x67, 0x65, 0x72, 0x48, 0x69, 0x76, 0x65, 0x53, 0x74, 0x72],
   [0x75, 0x63, 0x74, 0x40, 0x40, 0x40, 0x40, 0x40, 0x40, 0x41, 0x40, 0x04],
   [0x1e, 0x09, 0x59, 0x64, 0x73, 0x69, 0x2e, 0x6c, 0x6f, 0x67, 0x67, 0x65],
   [0x72, 0x2e, 0x70, 0x79, 0x33, 0x2e, 0x49, 0x6e, 0x73, 0x74, 0x61, 0x67],
   [0x72, 0x61, 0x6d, 0x50, 0x68, 0x6f, 0x6e, 0x65, 0x53, 0x68, 0x61, 0x72],
   [0x69, 0x6e, 0x67, 0x2e, 0x4c, 0x6f, 0x67, 0x45, 0x6e, 0x74, 0x72, 0x79],
   [0x2e, 0x74, 0x79, 0x70, 0x65, 0x73, 0x2e, 0x49, 0x6e, 0x73, 0x74, 0x61],
   [0x67, 0x72, 0x61, 0x6d, 0x50, 0x68, 0x6f, 0x6e, 0x65, 0x53, 0x68, 0x61],
   [0x72, 0x69, 0x6e, 0x67, 0x4c, 0x6f, 0x67, 0x67, 0x65, 0x72, 0x48, 0x69],
   [0x76, 0x65, 0x53, 0x74, 0x72, 0x75, 0x63, 0x74, 0x40, 0x40, 0x90, 0xb0],
   [0x04, 0x1b, 0x04, 0x0b, 0x40, 0x40, 0x40, 0xb0, 0x3f, 0x63, 0x6f, 0x6e],
   [0x74, 0x61, 0x63, 0x74, 0x70, 0x6f, 0x69, 0x6e, 0x74, 0x5f, 0x73, 0x74],
   [0x72, 0x69, 0x6e, 0x67, 0x5f, 0x74, 0x68, 0x72, 0x69, 0x66, 0x74, 0x5f],
   [0x73, 0x61, 0x66, 0x65, 0x08, 0x00, 0x00, 0x30, 0x00, 0xa0, 0x40, 0x90],
   [0x99, 0xa0, 0x42, 0xa0, 0x94, 0x23, 0x73, 0x74, 0x72, 0x40, 0x40, 0x40],
   [0x40, 0x41, 0x42, 0x04, 0x09, 0x09, 0x59, 0x64, 0x73, 0x69, 0x2e, 0x6c],
   [0x6f, 0x67, 0x67, 0x65, 0x72, 0x2e, 0x70, 0x79, 0x33, 0x2e, 0x49, 0x6e],
   [0x73, 0x74, 0x61, 0x67, 0x72, 0x61, 0x6d, 0x50, 0x68, 0x6f, 0x6e, 0x65],
   [0x53, 0x68, 0x61, 0x72, 0x69, 0x6e, 0x67, 0x2e, 0x4c, 0x6f, 0x67, 0x45],
   [0x6e, 0x74, 0x72, 0x79, 0x2e, 0x74, 0x79, 0x70, 0x65, 0x73, 0x2e, 0x49],
   [0x6e, 0x73, 0x74, 0x61, 0x67, 0x72, 0x61, 0x6d, 0x50, 0x68, 0x6f, 0x6e],
   [0x65, 0x53, 0x68, 0x61, 0x72, 0x69, 0x6e, 0x67, 0x4c, 0x6f, 0x67, 0x67],
   [0x65, 0x72, 0x48, 0x69, 0x76, 0x65, 0x53, 0x74, 0x72, 0x75, 0x63, 0x74],
   [0x90, 0x90, 0x40, 0x40, 0x40, 0x40, 0x40, 0xb0, 0x28, 0x5f, 0x5f, 0x69],
   [0x6e, 0x69, 0x74, 0x5f, 0x5f, 0x08, 0x00, 0x00, 0x30, 0x00, 0xa0, 0x40],
   [0x90, 0x90, 0xb0, 0x90, 0xa0, 0x04, 0x2f, 0xa0, 0x04, 0x2e, 0xa0, 0x04],
   [0x2d, 0xa0, 0x04, 0x2c, 0xa0, 0x04, 0x2b, 0xa0, 0x04, 0x2a, 0xa0, 0x04],
   [0x29, 0xa0, 0x04, 0x0f, 0x40, 0xa0, 0x42, 0x90, 0xa0, 0x91, 0xb0, 0x6f],
   [0x64, 0x65, 0x45, 0x64, 0x67, 0x65, 0x44, 0x65, 0x6c, 0x65, 0x74, 0x65],
   [0x72, 0x08, 0x00, 0x00, 0x20, 0x00, 0x90, 0xa0, 0xa0, 0x03, 0x04, 0x00]] @
  [[0x00, 0x03, 0x40, 0x80, 0x10, 0x00, 0x90, 0x04, 0x21, 0xa0, 0x03, 0x00],
   [0x00, 0x00, 0x03, 0x40, 0x80, 0x00, 0x00, 0x90, 0x90, 0x03, 0xff, 0xcd],
   [0xfb, 0xb4, 0xa9, 0x2a, 0x1c, 0x6c, 0x90, 0x40, 0x90, 0x05, 0x07, 0x41],
   [0x90, 0x43, 0x90, 0x90, 0xc1, 0x5c, 0x01, 0x00, 0x80, 0x90, 0x03, 0x18],
   [0xb2, 0x83, 0xa0, 0x90, 0x42, 0x2f, 0x1c, 0x90, 0x03, 0x05, 0xe5, 0x73],
   [0xfb, 0xfe, 0x5a, 0xb7, 0x9c, 0x90, 0xa0, 0x40, 0x40, 0x90, 0xa0, 0x40],
   [0x40, 0x90, 0x40, 0x40, 0x41, 0x92, 0x35, 0x4e, 0x6f, 0x64, 0x65, 0x4c],
   [0x6f, 0x61, 0x64, 0x56, 0x69, 0x65, 0x77, 0x65, 0x72, 0x43, 0x6f, 0x6e],
   [0x74, 0x65, 0x78, 0x74, 0x08, 0x00, 0x00, 0x20, 0x00, 0x90, 0xa0, 0xa0],
   [0x40, 0x40, 0xa0, 0x40, 0x40, 0x90, 0x40, 0x90, 0x05, 0x07, 0x55, 0x90],
   [0x41, 0x90, 0x90, 0xc1, 0x40, 0x42, 0x90, 0x03, 0x16, 0x28, 0xdd, 0xa1],
   [0x41, 0x56, 0xab, 0xb0, 0xc1, 0x4a, 0x50, 0x90, 0x03, 0xc0, 0xa3, 0x0f],
   [0x23, 0xe8, 0x70, 0xe4, 0x4a, 0x90, 0x03, 0x2f, 0x2e, 0x78, 0x17, 0xc6],
   [0xee, 0xae, 0x5a, 0x90, 0xa0, 0x40, 0x40, 0x90, 0xa0, 0x40, 0x40, 0x90],
   [0x40, 0xd0, 0x40, 0x92, 0x23, 0x4f, 0x44, 0x53, 0x08, 0x00, 0x00, 0x20],
   [0x00, 0x90, 0xa0, 0xa0, 0x03, 0x06, 0x06, 0x09, 0x23, 0x4c, 0x05, 0x91],
   [0x00, 0x90, 0xc1, 0x4c, 0x60, 0x90, 0x03, 0xd3, 0x75, 0xf7, 0x89, 0x55],
   [0xaf, 0x1d, 0x4c, 0x04, 0xad, 0xa0, 0x03, 0x00, 0x04, 0x00, 0x01, 0x00],
   [0x00, 0x11, 0x00, 0x90, 0x04, 0xaa, 0x90, 0x40, 0x90, 0x05, 0x07, 0x70],
   [0x90, 0x45, 0x90, 0x90, 0x90, 0x03, 0x0a, 0xca, 0xb8, 0x8e, 0xf6, 0x55],
   [0x70, 0xf6, 0x90, 0xa0, 0x40, 0x40, 0x90, 0xa0, 0x40, 0x40, 0x90, 0x40],
   [0x40, 0x41, 0x42, 0x43, 0xb5, 0x40, 0xa0, 0x91, 0xa0, 0x90, 0xc0, 0x40],
   [0x90, 0x23, 0x50, 0x49, 0x49, 0xc0, 0x40, 0x90, 0x2c, 0x52, 0x65, 0x73],
   [0x70, 0x6f, 0x6e, 0x73, 0x65, 0x44, 0x61, 0x74, 0x61, 0x40, 0x41, 0x42],
   [0x90, 0x40, 0x40, 0x92, 0x27, 0x4c, 0x6f, 0x67, 0x67, 0x69, 0x6e, 0x67],
   [0x08, 0x00, 0x00, 0x20, 0x00, 0x90, 0xa0, 0xa0, 0x03, 0xc6, 0x06, 0x09],
   [0x23, 0x4c, 0x05, 0x93, 0x00, 0x90, 0xc1, 0x40, 0x42, 0xc1, 0x4c, 0x60],
   [0x90, 0x03, 0xd3, 0x75, 0xf7, 0x89, 0x55, 0xaf, 0x1d, 0x4c, 0x04, 0xd0],
   [0x90, 0x03, 0x27, 0x8a, 0xf3, 0x56, 0x4d, 0x54, 0x24, 0xe6, 0xa0, 0x03],
   [0x04, 0x00, 0x00, 0x03, 0x40, 0x00, 0x10, 0x00, 0x90, 0x04, 0xce, 0x90]] @
  [[0x40, 0x90, 0x05, 0x07, 0x94, 0x90, 0x44, 0x90, 0x90, 0xc1, 0x40, 0x41],
   [0xc1, 0x40, 0x42, 0xc1, 0x40, 0x44, 0xc1, 0x40, 0x48, 0x90, 0x03, 0x08],
   [0x9c, 0xed, 0x7a, 0x54, 0xe3, 0x9c, 0x80, 0xc1, 0x58, 0x60, 0x90, 0x03],
   [0xc4, 0x81, 0xda, 0xac, 0x8b, 0xf1, 0xec, 0x58, 0x90, 0x03, 0x0c, 0x93],
   [0x09, 0xa7, 0x32, 0xef, 0x91, 0x38, 0xc1, 0x44, 0x48, 0x90, 0x03, 0xf5],
   [0xd9, 0x02, 0x42, 0x79, 0xdb, 0x84, 0x14, 0xc1, 0x4c, 0x50, 0xc1, 0x4c],
   [0x60, 0x90, 0x03, 0xec, 0x45, 0xb4, 0xa2, 0x1c, 0x3f, 0x6b, 0x0c, 0xc1],
   [0x00, 0x6c, 0x01, 0x02, 0x00, 0x90, 0x03, 0xf9, 0x2d, 0x54, 0x3f, 0x75],
   [0x0d, 0xf8, 0x6c, 0x90, 0x03, 0x05, 0x74, 0x44, 0x1e, 0x40, 0xc0, 0xc6],
   [0x6c, 0xc1, 0x7c, 0x00, 0x40, 0xc1, 0x7c, 0x01, 0x00, 0x80, 0x90, 0x03],
   [0xfd, 0xa9, 0x9e, 0x14, 0x22, 0x5d, 0x22, 0x3c, 0x90, 0x03, 0xfb, 0xd9],
   [0xfc, 0x23, 0x15, 0x23, 0xf7, 0xbc, 0xc1, 0x00, 0x7c, 0x01, 0x00, 0x80],
   [0x90, 0x03, 0xcf, 0x3b, 0xff, 0x81, 0x40, 0x4b, 0xf3, 0x7c, 0x90, 0x03],
   [0x22, 0x67, 0xea, 0x7d, 0x02, 0xe0, 0x8b, 0xfc, 0xc1, 0x42, 0x44, 0xc1],
   [0x42, 0x48, 0x90, 0x03, 0xc7, 0x31, 0xd5, 0xdf, 0x2b, 0x29, 0x73, 0x42],
   [0x90, 0x03, 0xf3, 0x23, 0x31, 0x60, 0xef, 0xeb, 0x4c, 0xca, 0xc1, 0x01],
   [0x01, 0x3e, 0x01, 0x02, 0x00, 0x90, 0x03, 0x27, 0x62, 0x24, 0x56, 0x2c],
   [0x75, 0x41, 0x3e, 0x90, 0x03, 0x3e, 0xb8, 0x59, 0xa3, 0xfb, 0xfa, 0x2b],
   [0x3e, 0xc1, 0x41, 0x42, 0xc1, 0x41, 0x44, 0x90, 0x03, 0xe0, 0x31, 0xb5],
   [0xad, 0xce, 0x51, 0x78, 0xe1, 0xc1, 0x4d, 0x50, 0x90, 0x03, 0x1e, 0xa1],
   [0x2f, 0x75, 0x57, 0x3e, 0x50, 0x0d, 0x90, 0x03, 0xf5, 0x72, 0xcc, 0x1f],
   [0x60, 0x20, 0xf3, 0xdd, 0xc1, 0x43, 0x44, 0xc1, 0x4b, 0x60, 0xc1, 0x4b],
   [0x00, 0x40, 0xc1, 0x4b, 0x01, 0x00, 0x80, 0x90, 0x03, 0xee, 0x29, 0xcd],
   [0x6b, 0xda, 0x8f, 0xe3, 0x0b, 0x90, 0x03, 0xe5, 0xa0, 0xfa, 0xf4, 0x2e],
   [0xaa, 0xe3, 0x8b, 0x90, 0x03, 0x36, 0x40, 0xcb, 0xb7, 0x9c, 0x05, 0x72],
   [0x4b, 0xc1, 0x6b, 0x01, 0x00, 0x80, 0x90, 0x03, 0xc2, 0xe1, 0x80, 0x8f],
   [0x40, 0x7c, 0x13, 0x2b, 0x90, 0x03, 0xde, 0x93, 0xd3, 0x08, 0xe8, 0x1c],
   [0xa6, 0xab, 0x90, 0x03, 0xc9, 0xdb, 0x68, 0x08, 0x3d, 0x87, 0x23, 0x9f],
   [0x90, 0xa0, 0x03, 0xc0, 0x00, 0x00, 0x00, 0x00, 0x00, 0x10, 0x00, 0x90],
   [0xc1, 0x40, 0x42, 0x90, 0x03, 0xe0, 0x60, 0x28, 0xae, 0xd2, 0x3d, 0x95]]"

definition dictionary_rows_50 :: "u8 list list" where
  "dictionary_rows_50 =
  [[0x44, 0x90, 0x03, 0x09, 0x52, 0x2d, 0x78, 0x73, 0x9b, 0xdf, 0x92, 0x90],
   [0xa0, 0x40, 0x40, 0x90, 0x40, 0xd0, 0xd0, 0x40, 0xb5, 0x40, 0xa0, 0x91],
   [0xa0, 0x90, 0xc0, 0x40, 0x90, 0x23, 0x50, 0x49, 0x49, 0xc0, 0x40, 0x90],
   [0x2c, 0x52, 0x65, 0x73, 0x70, 0x6f, 0x6e, 0x73, 0x65, 0x44, 0x61, 0x74],
   [0x61, 0x40, 0x41, 0x42, 0x90, 0x40, 0xa0, 0x91, 0xa0, 0x90, 0xc0, 0x40],
   [0x90, 0x2f, 0x54, 0x68, 0x72, 0x69, 0x66, 0x74, 0x53, 0x74, 0x72, 0x75],
   [0x63, 0x74, 0x50, 0x49, 0x49, 0x40, 0x41, 0x90, 0x40, 0x40, 0x92, 0x27],
   [0x4c, 0x6f, 0x67, 0x67, 0x69, 0x6e, 0x67, 0x08, 0x00, 0x00, 0x20, 0x00],
   [0x90, 0xa0, 0xa0, 0x03, 0xc6, 0x06, 0x09, 0x23, 0x4c, 0x05, 0x93, 0x00],
   [0x90, 0xc1, 0x40, 0x42, 0xc1, 0x4c, 0x60, 0x04, 0x60, 0x05, 0x01, 0x2f],
   [0x04, 0x5f, 0xa0, 0x03, 0x04, 0x06, 0x00, 0x03, 0x40, 0x01, 0x11, 0x00],
   [0x90, 0x90, 0x03, 0xff, 0xcd, 0xfb, 0xb4, 0xa9, 0x2a, 0x1c, 0x6c, 0x90],
   [0x40, 0x90, 0xa0, 0x03, 0x3f, 0xff, 0xff, 0xff, 0xff, 0xff, 0xff, 0xff],
   [0x40, 0x90, 0x4c, 0x90, 0x90, 0xc1, 0x40, 0x41, 0xc1, 0x40, 0x42, 0xc1],
   [0x40, 0x44, 0x04, 0x60, 0xc1, 0x44, 0x48, 0x04, 0x5b, 0xc1, 0x4c, 0x50],
   [0xc1, 0x4c, 0x60, 0x04, 0x5a, 0x04, 0x57, 0x04, 0x56, 0x04, 0x4f, 0xc1],
   [0x41, 0x42, 0xc1, 0x41, 0x44, 0x04, 0x48, 0x04, 0x45, 0xc1, 0x43, 0x44],
   [0xc1, 0x4b, 0x60, 0x04, 0x43, 0x04, 0x3f, 0x04, 0x3c, 0x90, 0xa0, 0x03],
   [0xc0, 0x00, 0x00, 0x00, 0x00, 0x00, 0x10, 0x00, 0x90, 0x04, 0x3b, 0x90],
   [0xa0, 0x40, 0x40, 0x90, 0x40, 0x40, 0x41, 0xb5, 0x40, 0xa0, 0x91, 0xa0],
   [0x90, 0xc0, 0x40, 0x04, 0x36, 0xc0, 0x40, 0x04, 0x34, 0x40, 0x41, 0x42],
   [0x90, 0x40, 0xa0, 0x91, 0xa0, 0x90, 0xc0, 0x40, 0x90, 0x2b, 0x55, 0x73],
   [0x65, 0x72, 0x53, 0x65, 0x63, 0x72, 0x65, 0x74, 0x73, 0x40, 0x41, 0x90],
   [0x40, 0x40, 0x04, 0xc1, 0x40, 0x50, 0xc1, 0x40, 0x60, 0xc1, 0x01, 0x01],
   [0x80, 0x01, 0x02, 0x00, 0x90, 0x03, 0x0d, 0xab, 0xd3, 0x11, 0x96, 0x72],
   [0xa1, 0x80, 0x90, 0x03, 0xe3, 0xed, 0xad, 0x22, 0xb2, 0xa3, 0xb7, 0x80],
   [0x90, 0x03, 0xd2, 0xa7, 0x56, 0x20, 0xa1, 0xb5, 0xd1, 0x60, 0xc1, 0x50],
   [0x60, 0xc1, 0x01, 0x00, 0xd0, 0x01, 0x01, 0x00, 0x90, 0x03, 0x15, 0xa2],
   [0x91, 0x0c, 0xc8, 0x62, 0xe2, 0xd0, 0x90, 0x03, 0xf3, 0x96, 0xc6, 0x78],
   [0xd8, 0xa8, 0x91, 0xd0, 0x90, 0x03, 0x01, 0x13, 0xf2, 0xc7, 0xf6, 0x9d]] @
  [[0x0f, 0xb0, 0xc1, 0x48, 0x50, 0x90, 0x03, 0xc5, 0x52, 0xe7, 0x4f, 0x77],
   [0xf2, 0xf1, 0x68, 0xc1, 0x78, 0x00, 0x40, 0x90, 0x03, 0xc7, 0x5a, 0x6b],
   [0xcd, 0x2e, 0x07, 0xed, 0x38, 0x90, 0x03, 0x2a, 0x52, 0x97, 0x59, 0xb5],
   [0x8c, 0x3f, 0x78, 0xc1, 0x44, 0x48, 0xc1, 0x44, 0x50, 0xc1, 0x44, 0x60],
   [0x90, 0x03, 0xe0, 0x60, 0x28, 0xae, 0xd2, 0x3d, 0x95, 0x44, 0x90, 0x03],
   [0x16, 0x37, 0xba, 0x4d, 0xd6, 0x42, 0xac, 0xa4, 0xc1, 0x54, 0x60, 0x90],
   [0x03, 0x1a, 0xba, 0x9c, 0x44, 0xfa, 0xc7, 0xa5, 0x14, 0x90, 0x03, 0x34],
   [0x8d, 0x58, 0x69, 0xcc, 0xc7, 0xa9, 0xb4, 0xc1, 0x4c, 0x50, 0xc1, 0x00],
   [0x6c, 0x01, 0x00, 0x80, 0x90, 0x03, 0x38, 0x5f, 0x50, 0x2d, 0xdc, 0x47],
   [0x35, 0x6c, 0x90, 0x03, 0x09, 0x0c, 0x54, 0xf5, 0x93, 0x2b, 0x54, 0xec],
   [0xc1, 0x5c, 0x60, 0x90, 0x03, 0xd4, 0x97, 0x43, 0xdb, 0xc7, 0x57, 0xc4],
   [0x9c, 0x90, 0x03, 0x04, 0x6d, 0xa1, 0xff, 0x50, 0x3d, 0x5b, 0x3c, 0xc1],
   [0x42, 0x44, 0xc1, 0x42, 0x48, 0xc1, 0x42, 0x50, 0x90, 0x03, 0xdf, 0x74],
   [0xb4, 0x20, 0x20, 0xd5, 0x4a, 0x02, 0x90, 0x03, 0x09, 0x52, 0x2d, 0x78],
   [0x73, 0x9b, 0xdf, 0x92, 0xc1, 0x4a, 0x50, 0xc1, 0x4a, 0x60, 0xc1, 0x4a],
   [0x00, 0x40, 0x90, 0x03, 0xd4, 0x71, 0x5d, 0xe4, 0xe0, 0xd2, 0xeb, 0x0a],
   [0x90, 0x03, 0xe9, 0x2e, 0x5c, 0xe7, 0x17, 0xef, 0x73, 0x4a, 0x90, 0x03],
   [0xda, 0x49, 0x76, 0x62, 0xea, 0xa2, 0x4a, 0x2a, 0x90, 0x03, 0x3a, 0x45],
   [0xfc, 0x11, 0xd0, 0xcf, 0xc2, 0x3a, 0xc1, 0x46, 0x48, 0xc1, 0x46, 0x50],
   [0xc1, 0x46, 0x60, 0x90, 0x03, 0xe7, 0x7b, 0xec, 0xac, 0xd6, 0xae, 0xa1],
   [0x86, 0x90, 0x03, 0x1b, 0xb9, 0xd3, 0x91, 0xeb, 0xcd, 0xab, 0x66, 0xc1],
   [0x01, 0x00, 0xb6, 0x01, 0x01, 0x00, 0x90, 0x03, 0xca, 0x41, 0x8c, 0xbf],
   [0x20, 0xa7, 0x74, 0xb6, 0x90, 0x03, 0x39, 0x6f, 0xf0, 0x44, 0x70, 0x42],
   [0xbf, 0xb6, 0x90, 0x03, 0xef, 0x63, 0x12, 0xfb, 0x2d, 0xe8, 0xbf, 0xbe],
   [0xc1, 0x41, 0x42, 0xc1, 0x41, 0x44, 0xc1, 0x41, 0x48, 0xc1, 0x41, 0x50],
   [0xc1, 0x61, 0x01, 0x00, 0x80, 0x90, 0x03, 0xd6, 0x16, 0x6b, 0x2d, 0x61],
   [0xc9, 0x15, 0x21, 0x90, 0x03, 0xd6, 0x5c, 0xa4, 0x27, 0x3b, 0x57, 0xf8],
   [0xa1, 0xc1, 0x51, 0x60, 0x90, 0x03, 0xc5, 0x47, 0xe8, 0x0b, 0x3e, 0xf2],
   [0x3b, 0x91, 0xc1, 0x71, 0x00, 0x40, 0xc1, 0x01, 0x00, 0xb1, 0x01, 0x02],
   [0x00, 0xc1, 0x01, 0x04, 0xb1, 0x01, 0x08, 0x00, 0x90, 0x03, 0xe9, 0xe2]] @
  [[0xfd, 0x5d, 0x2b, 0x74, 0x44, 0xb1, 0x90, 0x03, 0x3a, 0x4a, 0xa5, 0x83],
   [0x3d, 0xdc, 0x2c, 0xb1, 0x90, 0x03, 0xc1, 0x22, 0xe6, 0xf9, 0x13, 0xb1],
   [0x0e, 0xb1, 0xc1, 0x01, 0x03, 0xf1, 0x01, 0x04, 0x00, 0x90, 0x03, 0x30],
   [0x55, 0x70, 0x6a, 0x5b, 0x3d, 0x53, 0xf1, 0x90, 0x03, 0x34, 0xaa, 0xb7],
   [0x86, 0x3e, 0x81, 0xb7, 0xf1, 0xc1, 0x49, 0x50, 0xc1, 0x49, 0x60, 0x90],
   [0x03, 0xc1, 0xf6, 0xe9, 0x93, 0xce, 0x5d, 0x3d, 0x89, 0x90, 0x03, 0xea],
   [0xe7, 0x6a, 0x79, 0xfa, 0xb8, 0x93, 0xe9, 0xc1, 0x59, 0x60, 0x90, 0x03],
   [0xc3, 0x4f, 0x5c, 0x95, 0xb0, 0xb1, 0xd6, 0x59, 0x90, 0x03, 0x24, 0xe6],
   [0x17, 0xd4, 0x37, 0xbd, 0x09, 0xf9, 0xc1, 0x45, 0x48, 0xc1, 0x45, 0x50],
   [0x90, 0x03, 0xed, 0xc1, 0xc1, 0x17, 0x96, 0xc2, 0x63, 0x85, 0xc1, 0x75],
   [0x00, 0x40, 0xc1, 0x75, 0x01, 0x00, 0x80, 0x90, 0x03, 0x18, 0xc3, 0xb1],
   [0xeb, 0xc4, 0x0e, 0xd9, 0x35, 0x90, 0x03, 0xf8, 0x0b, 0x53, 0x1b, 0xa9],
   [0x2f, 0x1b, 0xb5, 0xc1, 0x00, 0x75, 0x01, 0x00, 0x80, 0x90, 0x03, 0xc5],
   [0x86, 0x76, 0x5d, 0xe3, 0xa2, 0xd8, 0x75, 0x90, 0x03, 0xf3, 0x61, 0xe4],
   [0x2b, 0xee, 0x9b, 0x45, 0xf5, 0xc1, 0x01, 0x00, 0xed, 0x01, 0x01, 0x00],
   [0x90, 0x03, 0x21, 0x16, 0x04, 0x70, 0xba, 0x4b, 0xfa, 0xed, 0x90, 0x03],
   [0x3f, 0x36, 0xf9, 0x7e, 0x48, 0xef, 0xf3, 0xed, 0xc1, 0x43, 0x44, 0xc1],
   [0x43, 0x48, 0xc1, 0x43, 0x50, 0x90, 0x03, 0x06, 0x10, 0x2b, 0x19, 0x78],
   [0xc2, 0x80, 0xc3, 0x90, 0x03, 0xc6, 0x6f, 0x4e, 0xbf, 0xa8, 0x09, 0x29],
   [0xf3, 0xc1, 0x4b, 0x50, 0xc1, 0x4b, 0x60, 0xc1, 0x01, 0x00, 0x8b, 0x01],
   [0x01, 0x00, 0x90, 0x03, 0xe3, 0x9b, 0x2d, 0xa1, 0xba, 0xf7, 0x4e, 0x8b],
   [0x90, 0x03, 0x32, 0x50, 0xe0, 0x63, 0x9c, 0xb1, 0x67, 0x8b, 0xc1, 0x6b],
   [0x00, 0x40, 0xc1, 0x6b, 0x01, 0x00, 0x80, 0xc1, 0x01, 0x01, 0x2b, 0x01],
   [0x02, 0x00, 0x90, 0x03, 0xfc, 0x14, 0xe9, 0xae, 0x7b, 0x41, 0x15, 0x2b],
   [0x90, 0x03, 0x36, 0x4d, 0xcd, 0x0c, 0x58, 0xfb, 0xe3, 0x2b, 0x90, 0x03],
   [0xcb, 0xb0, 0xdb, 0xc0, 0x0b, 0x65, 0x1b, 0xab, 0x90, 0x03, 0x32, 0x27],
   [0x4e, 0xac, 0xf4, 0x01, 0x19, 0xeb, 0xc1, 0x5b, 0x00, 0x40, 0x90, 0x03],
   [0x0f, 0xe4, 0x3d, 0xb2, 0x64, 0xde, 0xdc, 0x9b, 0xc1, 0x01, 0x00, 0xdb],
   [0x01, 0x02, 0x00, 0x90, 0x03, 0x1e, 0x21, 0x1f, 0x0a, 0xc7, 0xfd, 0x80],
   [0xdb, 0x90, 0x03, 0xc0, 0x46, 0xa4, 0xa4, 0x6f, 0xfe, 0xe6, 0xdb, 0xc1]] @
  [[0x47, 0x48, 0xc1, 0x47, 0x50, 0x90, 0x03, 0xdc, 0x3e, 0xc5, 0xac, 0xc6],
   [0xd9, 0xb8, 0xc7, 0xc1, 0x57, 0x60, 0x90, 0x03, 0xfc, 0x42, 0x27, 0x48],
   [0x2e, 0xf2, 0xdc, 0x57, 0x90, 0x03, 0xf8, 0x90, 0xf7, 0x43, 0x21, 0xac],
   [0x6d, 0xf7, 0xc1, 0x4f, 0x50, 0x90, 0x03, 0xd5, 0x70, 0x1b, 0xbb, 0x3d],
   [0x40, 0x18, 0xaf, 0x90, 0x03, 0xe6, 0x69, 0x39, 0xba, 0x5c, 0x9a, 0x6b],
   [0x9f, 0x90, 0xa0, 0x40, 0x40, 0x90, 0x40, 0xd0, 0xd0, 0x40, 0x92, 0x2d],
   [0x4e, 0x6f, 0x64, 0x65, 0x45, 0x64, 0x67, 0x65, 0x51, 0x75, 0x65, 0x72],
   [0x79, 0x08, 0x00, 0x00, 0x20, 0x00, 0x90, 0xa0, 0xa0, 0x03, 0x06, 0x06],
   [0x89, 0x23, 0x44, 0x0f, 0x11, 0x80, 0x40, 0xa0, 0x03, 0x00, 0x00, 0x00],
   [0x01, 0x00, 0x00, 0x01, 0x00, 0x40, 0x90, 0x40, 0x90, 0x05, 0x05, 0xa0],
   [0x90, 0x49, 0x90, 0x90, 0xc1, 0x40, 0x42, 0xc1, 0x40, 0x60, 0x90, 0x03],
   [0xcf, 0x7b, 0x41, 0xfa, 0x50, 0x2e, 0x51, 0x40, 0xc1, 0x60, 0x00, 0x40],
   [0x90, 0x03, 0x06, 0x00, 0x23, 0xb1, 0xa8, 0x48, 0xa5, 0xa0, 0x90, 0x03],
   [0x28, 0xa7, 0x48, 0x9e, 0xee, 0x4a, 0x5d, 0xe0, 0x90, 0x03, 0x2b, 0x44],
   [0x4e, 0x28, 0x40, 0xa2, 0xc1, 0x96, 0x90, 0xa0, 0x40, 0x90, 0x90, 0x03],
   [0xe4, 0x09, 0x5d, 0x62, 0xd7, 0x25, 0x33, 0x08, 0x90, 0xa0, 0x40, 0x40],
   [0x90, 0x40, 0x40, 0x41, 0x92, 0x23, 0x4f, 0x44, 0x53, 0x08, 0x00, 0x00],
   [0x20, 0x00, 0x90, 0xa0, 0xa0, 0x03, 0xc6, 0x46, 0x89, 0x23, 0x4c, 0x0f],
   [0x91, 0x80, 0x90, 0x90, 0x03, 0xd3, 0x75, 0x01, 0x90, 0x04, 0x0a, 0x90],
   [0x04, 0x09, 0x90, 0xb0, 0xa0, 0xa0, 0x03, 0xc0, 0x00, 0x00, 0x00, 0x00],
   [0x00, 0x00, 0x00, 0x03, 0x3f, 0xff, 0xff, 0xff, 0xff, 0xff, 0xff, 0xff],
   [0x40, 0xa0, 0x04, 0x02, 0x40, 0x40, 0x90, 0x40, 0x40, 0x41, 0x40, 0x40],
   [0x41, 0xb0, 0xb0, 0x90, 0x40, 0x90, 0x40, 0xa0, 0x04, 0x03, 0x04, 0x02],
   [0x04, 0x04, 0x40, 0x40, 0x84, 0x95, 0xa6, 0xbe, 0x00, 0x00, 0x00, 0x01],
   [0x00, 0x00, 0x00, 0x00, 0x00, 0x00, 0x00, 0x00, 0x00, 0x00, 0x00, 0x00],
   [0x40, 0x84, 0x95, 0xa6, 0xbe, 0x00, 0x00, 0x03, 0xaa, 0x00, 0x00, 0x00],
   [0xd8, 0x00, 0x00, 0x02, 0xe8, 0x00, 0x00, 0x02, 0xc2, 0xc0, 0x90, 0x40],
   [0xa0, 0xd0, 0x40, 0xb0, 0x41, 0x24, 0x72, 0x6f, 0x6f, 0x74, 0x40, 0xa0],
   [0xd0, 0x40, 0x40, 0xf0, 0x90, 0xd0, 0x40, 0x41, 0x08, 0x00, 0x00, 0x20],
   [0x00, 0x90, 0xa0, 0xa0, 0x40, 0x40, 0x04, 0x01, 0x90, 0x40, 0x90, 0xa0]] @
  [[0x03, 0x3f, 0xff, 0xff, 0xff, 0xff, 0xff, 0xff, 0xff, 0xd0, 0x40, 0x90],
   [0x25, 0x5f, 0x72, 0x6f, 0x6f, 0x74, 0xa0, 0x43, 0x40, 0x40, 0x41, 0x90],
   [0x42, 0x90, 0x40, 0x90, 0xa0, 0x40, 0x40, 0x90, 0xa0, 0x40, 0x40, 0x90],
   [0x40, 0x40, 0x41, 0x90, 0x90, 0xc0, 0x40, 0xa0, 0xa0, 0x00, 0x70, 0x00],
   [0x4a, 0xa0, 0x00, 0x70, 0x00, 0x4e, 0x40, 0x41, 0x90, 0xa0, 0xa0, 0x03],
   [0x00, 0x00, 0x00, 0x01, 0x00, 0x00, 0x00, 0x00, 0x40, 0xa0, 0x03, 0x00],
   [0x00, 0x00, 0x01, 0x00, 0x00, 0x00, 0x00, 0x40, 0x90, 0x04, 0x0f, 0x90],
   [0x04, 0x0e, 0x90, 0xb0, 0xa0, 0xa0, 0x03, 0xc0, 0x00, 0x00, 0x00, 0x00],
   [0x00, 0x00, 0x00, 0x03, 0x3f, 0xff, 0xff, 0xff, 0xff, 0xff, 0xff, 0xff],
   [0x40, 0xa0, 0x04, 0x02, 0x40, 0x40, 0x90, 0x40, 0x40, 0x41, 0x40, 0xd0],
   [0x40, 0xb0, 0x42, 0x24, 0x64, 0x65, 0x73, 0x74, 0x40, 0xa0, 0xd0, 0x40],
   [0x40, 0xf0, 0x90, 0xd0, 0x40, 0x41, 0x08, 0x00, 0x00, 0x20, 0x00, 0x04],
   [0x2c, 0x04, 0x29, 0x90, 0xa0, 0x03, 0x3f, 0xff, 0xff, 0xff, 0xff, 0xff],
   [0xff, 0xff, 0xd0, 0x40, 0x90, 0x25, 0x5f, 0x64, 0x65, 0x73, 0x74, 0xa0],
   [0x43, 0x40, 0x40, 0x41, 0x90, 0x42, 0x04, 0x28, 0x04, 0x27, 0x04, 0x25],
   [0x04, 0x23, 0x40, 0x41, 0x90, 0x90, 0xc0, 0x40, 0xa0, 0xa0, 0x00, 0x70],
   [0x00, 0x50, 0xa0, 0x00, 0x70, 0x00, 0x54, 0x40, 0x41, 0x90, 0xa0, 0xa0],
   [0x03, 0x00, 0x00, 0x00, 0x01, 0x00, 0x00, 0x00, 0x00, 0x40, 0xa0, 0x03],
   [0x00, 0x00, 0x00, 0x01, 0x00, 0x00, 0x00, 0x00, 0x40, 0x04, 0x22, 0x04],
   [0x21, 0x04, 0x20, 0x04, 0x1b, 0x40, 0x41, 0x40, 0x40, 0x41, 0x42, 0xd0],
   [0x40, 0x04, 0x46, 0xa0, 0xd0, 0x40, 0x91, 0xb0, 0xa0, 0x2a, 0x69, 0x67],
   [0x5f, 0x6e, 0x6f, 0x64, 0x65, 0x61, 0x70, 0x69, 0xa0, 0x25, 0x65, 0x64],
   [0x67, 0x65, 0x73, 0xa0, 0x09, 0x3c, 0x6d, 0x65, 0x64, 0x69, 0x61, 0x5f],
   [0x74, 0x6f, 0x5f, 0x73, 0x74, 0x61, 0x72, 0x5f, 0x73, 0x65, 0x61, 0x72],
   [0x63, 0x68, 0x5f, 0x74, 0x61, 0x72, 0x67, 0x65, 0x74, 0x5f, 0x76, 0x38],
   [0x5f, 0x6f, 0x6e, 0x5f, 0x73, 0x74, 0x6f, 0x72, 0x79, 0x5f, 0x69, 0x6e],
   [0x74, 0x65, 0x72, 0x61, 0x63, 0x74, 0x69, 0x6f, 0x6e, 0x5f, 0x72, 0x65],
   [0x73, 0x70, 0x6f, 0x6e, 0x73, 0x65, 0x40, 0x04, 0x33, 0x04, 0x32, 0xf0],
   [0x90, 0xd0, 0x40, 0x92, 0x2f, 0x4e, 0x6f, 0x64, 0x65, 0x45, 0x64, 0x67],
   [0x65, 0x43, 0x72, 0x65, 0x61, 0x74, 0x6f, 0x72, 0x08, 0x00, 0x00, 0x20]]"

definition dictionary_rows_51 :: "u8 list list" where
  "dictionary_rows_51 =
  [[0x00, 0x90, 0xa0, 0xa0, 0x40, 0x40, 0xa0, 0x40, 0x40, 0x90, 0x40, 0x90],
   [0xa0, 0x03, 0x3f, 0xff, 0xff, 0xff, 0xff, 0xff, 0xff, 0xff, 0x40, 0x90],
   [0x40, 0x90, 0x90, 0x90, 0x03, 0xdf, 0xba, 0x00, 0x7a, 0x55, 0x09, 0xf6],
   [0x2c, 0x90, 0xa0, 0x40, 0x40, 0x90, 0xa0, 0x40, 0x40, 0x90, 0x40, 0x40],
   [0x41, 0x90, 0x90, 0x40, 0x90, 0x04, 0x60, 0x90, 0x04, 0x55, 0x90, 0x04],
   [0x54, 0x90, 0xb0, 0xa0, 0xa0, 0x02, 0x00, 0x06, 0x17, 0x7c, 0x02, 0x00],
   [0x06, 0x17, 0x7d, 0x40, 0xa0, 0x04, 0x48, 0x40, 0x40, 0x90, 0x40, 0xd0],
   [0x40, 0xc2, 0xb0, 0x41, 0x24, 0x72, 0x6f, 0x6f, 0x74, 0x40, 0x40, 0x04],
   [0x2c, 0xa0, 0x91, 0xb0, 0x09, 0x88, 0x69, 0x67, 0x5f, 0x6e, 0x6f, 0x64],
   [0x65, 0x61, 0x70, 0x69, 0x2e, 0x65, 0x64, 0x67, 0x65, 0x73, 0x2e, 0x6d],
   [0x65, 0x64, 0x69, 0x61, 0x5f, 0x74, 0x6f, 0x5f, 0x73, 0x74, 0x61, 0x72],
   [0x5f, 0x73, 0x65, 0x61, 0x72, 0x63, 0x68, 0x5f, 0x74, 0x61, 0x72, 0x67],
   [0x65, 0x74, 0x5f, 0x76, 0x38, 0x5f, 0x6f, 0x6e, 0x5f, 0x73, 0x74, 0x6f],
   [0x72, 0x79, 0x5f, 0x69, 0x6e, 0x74, 0x65, 0x72, 0x61, 0x63, 0x74, 0x69],
   [0x6f, 0x6e, 0x5f, 0x72, 0x65, 0x73, 0x70, 0x6f, 0x6e, 0x73, 0x65, 0x2e],
   [0x45, 0x64, 0x67, 0x65, 0x53, 0x65, 0x74, 0x4d, 0x65, 0x64, 0x69, 0x61],
   [0x54, 0x6f, 0x53, 0x74, 0x61, 0x72, 0x53, 0x65, 0x61, 0x72, 0x63, 0x68],
   [0x54, 0x61, 0x72, 0x67, 0x65, 0x74, 0x56, 0x38, 0x4f, 0x6e, 0x53, 0x74],
   [0x6f, 0x72, 0x79, 0x49, 0x6e, 0x74, 0x65, 0x72, 0x61, 0x63, 0x74, 0x69],
   [0x6f, 0x6e, 0x52, 0x65, 0x73, 0x70, 0x6f, 0x6e, 0x73, 0x65, 0x28, 0x5f],
   [0x5f, 0x69, 0x6e, 0x69, 0x74, 0x5f, 0x5f, 0x40, 0x40, 0xf0, 0x90, 0xd0],
   [0x40, 0x92, 0x2f, 0x4e, 0x6f, 0x64, 0x65, 0x45, 0x64, 0x67, 0x65, 0x43],
   [0x72, 0x65, 0x61, 0x74, 0x6f, 0x72, 0x08, 0x00, 0x00, 0x20, 0x00, 0x90],
   [0xa0, 0xa0, 0x40, 0x40, 0xa0, 0x40, 0x40, 0x90, 0x40, 0x90, 0xa0, 0x03],
   [0x3f, 0xff, 0xff, 0xff, 0xff, 0xff, 0xff, 0xff, 0x40, 0x90, 0x41, 0x90],
   [0x90, 0x90, 0x03, 0x02, 0xc7, 0x6f, 0xb3, 0x2d, 0x9c, 0xea, 0x85, 0x90],
   [0x04, 0x77, 0x90, 0x04, 0x76, 0x90, 0x40, 0x40, 0x41, 0x90, 0x04, 0x28],
   [0x90, 0x04, 0x87, 0x90, 0x04, 0x7c, 0x90, 0x04, 0x7b, 0x90, 0xb0, 0x04],
   [0x27, 0x04, 0x25, 0x40, 0x90, 0x40, 0x40, 0x41, 0x42, 0x40, 0xd0, 0x40],
   [0x04, 0x6a, 0xa0, 0xd0, 0x40, 0x91, 0xb0, 0x04, 0x50, 0x04, 0x5b, 0x04]] @
  [[0x5a, 0xf0, 0x90, 0xd0, 0x40, 0x04, 0x4a, 0x08, 0x00, 0x00, 0x20, 0x00],
   [0x90, 0xa0, 0xa0, 0x40, 0x40, 0xa0, 0x40, 0x40, 0x90, 0x40, 0x90, 0x04],
   [0x48, 0x90, 0x40, 0x90, 0x90, 0x90, 0x03, 0xd9, 0x83, 0x25, 0xcc, 0xc3],
   [0xda, 0x52, 0xaa, 0x90, 0x04, 0x47, 0x90, 0x04, 0x46, 0x90, 0x40, 0x40],
   [0x41, 0x90, 0x04, 0x45, 0x90, 0x04, 0xa4, 0x90, 0x04, 0x99, 0x90, 0x04],
   [0x98, 0x90, 0xb0, 0x04, 0x44, 0x04, 0x42, 0x40, 0x90, 0x40, 0xd0, 0x40],
   [0xc2, 0xb0, 0x42, 0x24, 0x64, 0x65, 0x73, 0x74, 0x40, 0x40, 0x04, 0x1d],
   [0xa0, 0x04, 0x41, 0x40, 0xf0, 0x90, 0xd0, 0x40, 0x04, 0x3d, 0x08, 0x00],
   [0x00, 0x20, 0x00, 0x90, 0xa0, 0xa0, 0x40, 0x40, 0xa0, 0x40, 0x40, 0x90],
   [0x40, 0x90, 0x04, 0x3b, 0x90, 0x41, 0x90, 0x90, 0x90, 0x03, 0xe3, 0xde],
   [0xc6, 0x2d, 0x42, 0x66, 0xf6, 0x33, 0x90, 0x04, 0xb1, 0x90, 0x04, 0xb0],
   [0x90, 0x40, 0x40, 0x41, 0x90, 0x04, 0x62, 0x90, 0x04, 0xc1, 0x90, 0x04],
   [0xb6, 0x90, 0x04, 0xb5, 0x90, 0xb0, 0x04, 0x61, 0x04, 0x5f, 0x40, 0x90],
   [0x40, 0x40, 0x41, 0x42, 0x40, 0x40, 0x41, 0x42, 0xb0, 0xb0, 0x90, 0x73],
   [0x65, 0x6c, 0x66, 0x40, 0x40, 0x40, 0xa0, 0xa0, 0xa0, 0xa0, 0x01, 0x01],
   [0xfa, 0x45, 0xa0, 0x01, 0x01, 0xfa, 0x51, 0x9c, 0x91, 0x09, 0x33, 0x24],
   [0x6c, 0x6f, 0x63, 0x61, 0x6c, 0x5f, 0x77, 0x70, 0x5f, 0x61, 0x73, 0x79],
   [0x6e, 0x63, 0x69, 0x6f, 0x3f, 0x57, 0x65, 0x62, 0x72, 0x74, 0x63, 0x50],
   [0x61, 0x79, 0x6c, 0x6f, 0x61, 0x64, 0x3f, 0x74, 0x74, 0x79, 0x70, 0x65],
   [0x73, 0x24, 0x5f, 0x5f, 0x70, 0x72, 0x6f, 0x70, 0x65, 0x72, 0x74, 0x79],
   [0x5f, 0x5f, 0x40, 0x90, 0xa0, 0xa0, 0xa0, 0x01, 0x01, 0xfb, 0x5e, 0xa0],
   [0x01, 0x01, 0xfb, 0x61, 0x9c, 0x91, 0x23, 0x69, 0x6e, 0x74, 0x40, 0x40],
   [0x90, 0x04, 0x29, 0x40, 0x40, 0x40, 0x40, 0xa0, 0xa0, 0xa0, 0xa0, 0x01],
   [0x01, 0xfd, 0x44, 0xa0, 0x01, 0x01, 0xfd, 0x73, 0x93, 0xc0, 0x08, 0x00],
   [0x00, 0x20, 0x00, 0x04, 0x26, 0xa0, 0xa0, 0xa0, 0xa0, 0x01, 0x01, 0xfd],
   [0x55, 0xa0, 0x01, 0x01, 0xfd, 0x59, 0xb0, 0x2f, 0x24, 0x70, 0x61, 0x72],
   [0x61, 0x6d, 0x65, 0x74, 0x65, 0x72, 0x24, 0x73, 0x65, 0x6c, 0x66, 0x40],
   [0x40, 0xa0, 0xa0, 0xa0, 0xa0, 0x01, 0x01, 0xfd, 0x5b, 0xa0, 0x01, 0x01],
   [0xfd, 0x65, 0xb0, 0x30, 0x24, 0x70, 0x61, 0x72, 0x61, 0x6d, 0x65, 0x74],
   [0x65, 0x72, 0x24, 0x76, 0x61, 0x6c, 0x75, 0x65, 0x40, 0x90, 0xa0, 0xa0]] @
  [[0xa0, 0x01, 0x01, 0xfd, 0x62, 0xa0, 0x01, 0x01, 0xfd, 0x65, 0x9c, 0x91],
   [0x23, 0x69, 0x6e, 0x74, 0x40, 0xa0, 0xa0, 0xa0, 0xa0, 0x01, 0x01, 0xfc],
   [0x45, 0xa0, 0x01, 0x01, 0xfc, 0x58, 0x9c, 0x90, 0xb0, 0xa0, 0xa0, 0xa0],
   [0x01, 0x01, 0xfc, 0x45, 0xa0, 0x01, 0x01, 0xfc, 0x51, 0x9c, 0x91, 0x2c],
   [0x61, 0x63, 0x6b, 0x4d, 0x65, 0x73, 0x73, 0x61, 0x67, 0x65, 0x49, 0x64],
   [0x26, 0x73, 0x65, 0x74, 0x74, 0x65, 0x72, 0x40, 0x40, 0x90, 0xa0, 0xa0],
   [0xa0, 0x01, 0x01, 0xfd, 0x6a, 0xa0, 0x01, 0x01, 0xfd, 0x6e, 0x94, 0x40],
   [0x40, 0x40, 0x90, 0x04, 0x5e, 0x40, 0x40, 0x40, 0x40, 0xa0, 0xa0, 0xa0],
   [0xa0, 0x01, 0x02, 0x00, 0x44, 0xa0, 0x01, 0x02, 0x00, 0x62, 0x93, 0xc0],
   [0x08, 0x00, 0x00, 0x20, 0x00, 0xa0, 0x05, 0x02, 0x40, 0xa0, 0x05, 0x02],
   [0x3f, 0xa0, 0x05, 0x02, 0x3e, 0xa0, 0x05, 0x02, 0x33, 0xa0, 0x27, 0x69],
   [0x73, 0x55, 0x6e, 0x69, 0x6f, 0x6e, 0x40, 0xa0, 0xa0, 0xa0, 0xa0, 0x01],
   [0x02, 0x00, 0x50, 0xa0, 0x01, 0x02, 0x00, 0x54, 0xb0, 0x2f, 0x24, 0x70],
   [0x61, 0x72, 0x61, 0x6d, 0x65, 0x74, 0x65, 0x72, 0x24, 0x73, 0x65, 0x6c],
   [0x66, 0x40, 0x40, 0x40, 0x40, 0x90, 0xa0, 0xa0, 0xa0, 0x01, 0x02, 0x00],
   [0x59, 0xa0, 0x01, 0x02, 0x00, 0x5d, 0x9c, 0x91, 0x24, 0x62, 0x6f, 0x6f],
   [0x6c, 0x40, 0x40, 0x90, 0x04, 0x7c, 0x40, 0x40, 0x40, 0x40, 0xa0, 0xa0],
   [0xa0, 0xa0, 0x01, 0x02, 0x01, 0x44, 0xa0, 0x01, 0x02, 0x01, 0x68, 0x93],
   [0xc0, 0x08, 0x00, 0x00, 0x20, 0x00, 0xa0, 0x05, 0x02, 0x5e, 0xa0, 0x05],
   [0x02, 0x5d, 0xa0, 0x05, 0x02, 0x5c, 0xa0, 0x05, 0x02, 0x51, 0xa0, 0x2d],
   [0x63, 0x68, 0x65, 0x63, 0x6b, 0x52, 0x65, 0x71, 0x75, 0x69, 0x72, 0x65],
   [0x64, 0x40, 0xa0, 0xa0, 0xa0, 0xa0, 0x01, 0x02, 0x01, 0x56, 0xa0, 0x01],
   [0x02, 0x01, 0x5a, 0xb0, 0x2f, 0x24, 0x70, 0x61, 0x72, 0x61, 0x6d, 0x65],
   [0x74, 0x65, 0x72, 0x24, 0x73, 0x65, 0x6c, 0x66, 0x40, 0x40, 0x40, 0x40],
   [0x90, 0xa0, 0xa0, 0xa0, 0x01, 0x02, 0x01, 0x5f, 0xa0, 0x01, 0x02, 0x01],
   [0x63, 0x94, 0x40, 0x40, 0x40, 0x90, 0x04, 0x98, 0x40, 0x40, 0x40, 0x40],
   [0xa0, 0xa0, 0xa0, 0xa0, 0x01, 0x02, 0x02, 0x44, 0xa0, 0x01, 0x02, 0x02],
   [0x75, 0x93, 0xc0, 0x08, 0x00, 0x00, 0x20, 0x00, 0xa0, 0x05, 0x02, 0x7a],
   [0xa0, 0x05, 0x02, 0x79, 0xa0, 0x05, 0x02, 0x78, 0xa0, 0x05, 0x02, 0x6d],
   [0xa0, 0x24, 0x72, 0x65, 0x61, 0x64, 0x40, 0xa0, 0xa0, 0xa0, 0xa0, 0x01]] @
  [[0x02, 0x02, 0x4d, 0xa0, 0x01, 0x02, 0x02, 0x51, 0xb0, 0x2f, 0x24, 0x70],
   [0x61, 0x72, 0x61, 0x6d, 0x65, 0x74, 0x65, 0x72, 0x24, 0x73, 0x65, 0x6c],
   [0x66, 0x40, 0x40, 0xa0, 0xa0, 0xa0, 0xa0, 0x01, 0x02, 0x02, 0x53, 0xa0],
   [0x01, 0x02, 0x02, 0x67, 0xb0, 0x30, 0x24, 0x70, 0x61, 0x72, 0x61, 0x6d],
   [0x65, 0x74, 0x65, 0x72, 0x24, 0x69, 0x70, 0x72, 0x6f, 0x74, 0x40, 0x90],
   [0xa0, 0xa0, 0xa0, 0x01, 0x02, 0x02, 0x5a, 0xa0, 0x01, 0x02, 0x02, 0x67],
   [0x9c, 0x90, 0xb0, 0xa0, 0x04, 0x07, 0x9c, 0x90, 0xb0, 0xa0, 0x04, 0x0b],
   [0x9c, 0x90, 0xb0, 0xa0, 0x04, 0x0f, 0x9c, 0x91, 0x26, 0x74, 0x68, 0x72],
   [0x69, 0x66, 0x74, 0x28, 0x70, 0x72, 0x6f, 0x74, 0x6f, 0x63, 0x6f, 0x6c],
   [0x40, 0x29, 0x54, 0x50, 0x72, 0x6f, 0x74, 0x6f, 0x63, 0x6f, 0x6c, 0x40],
   [0x2d, 0x54, 0x50, 0x72, 0x6f, 0x74, 0x6f, 0x63, 0x6f, 0x6c, 0x42, 0x61],
   [0x73, 0x65, 0x40, 0x40, 0x40, 0x90, 0xa0, 0xa0, 0xa0, 0x01, 0x02, 0x02],
   [0x6c, 0xa0, 0x01, 0x02, 0x02, 0x70, 0x94, 0x40, 0x40, 0x40, 0x90, 0x04],
   [0xd2, 0x40, 0x40, 0x40, 0x40, 0xa0, 0xa0, 0xa0, 0xa0, 0x01, 0x02, 0x03],
   [0x44, 0xa0, 0x01, 0x02, 0x03, 0x76, 0x93, 0xc0, 0x08, 0x00, 0x00, 0x20],
   [0x00, 0xa0, 0x05, 0x02, 0xb4, 0xa0, 0x05, 0x02, 0xb3, 0xa0, 0x05, 0x02],
   [0xb2, 0xa0, 0x05, 0x02, 0xa7, 0xa0, 0x25, 0x77, 0x72, 0x69, 0x74, 0x65],
   [0x40, 0xa0, 0xa0, 0xa0, 0xa0, 0x01, 0x02, 0x03, 0x4e, 0xa0, 0x01, 0x02],
   [0x03, 0x52, 0xb0, 0x2f, 0x24, 0x70, 0x61, 0x72, 0x61, 0x6d, 0x65, 0x74],
   [0x65, 0x72, 0x24, 0x73, 0x65, 0x6c, 0x66, 0x40, 0x40, 0xa0, 0xa0, 0xa0],
   [0xa0, 0x01, 0x02, 0x03, 0x54, 0xa0, 0x01, 0x02, 0x03, 0x68, 0xb0, 0x30],
   [0x24, 0x70, 0x61, 0x72, 0x61, 0x6d, 0x65, 0x74, 0x65, 0x72, 0x24, 0x6f],
   [0x70, 0x72, 0x6f, 0x74, 0x40, 0x90, 0xa0, 0xa0, 0xa0, 0x01, 0x02, 0x03],
   [0x5b, 0xa0, 0x01, 0x02, 0x03, 0x68, 0x9c, 0x90, 0xb0, 0xa0, 0x04, 0x07],
   [0x9c, 0x90, 0xb0, 0xa0, 0x04, 0x0b, 0x9c, 0x90, 0xb0, 0xa0, 0x04, 0x0f],
   [0x9c, 0x91, 0x04, 0x3a, 0x04, 0x39, 0x40, 0x04, 0x38, 0x40, 0x04, 0x37],
   [0x40, 0x40, 0x40, 0x90, 0xa0, 0xa0, 0xa0, 0x01, 0x02, 0x03, 0x6d, 0xa0],
   [0x01, 0x02, 0x03, 0x71, 0x94, 0x40, 0x40, 0x40, 0x90, 0x05, 0x01, 0x08],
   [0x40, 0x40, 0x40, 0x40, 0xa0, 0xa0, 0xa0, 0xa0, 0x01, 0x02, 0x04, 0x44],
   [0xa0, 0x01, 0x02, 0x04, 0x71, 0x93, 0xc0, 0x08, 0x00, 0x00, 0x20, 0x00]] @
  [[0xa0, 0x05, 0x02, 0xea, 0xa0, 0x05, 0x02, 0xe9, 0xa0, 0x05, 0x02, 0xe8],
   [0xa0, 0x05, 0x02, 0xdd, 0xa0, 0x26, 0x5f, 0x5f, 0x65, 0x71, 0x5f, 0x5f],
   [0x40, 0xa0, 0xa0, 0xa0, 0xa0, 0x01, 0x02, 0x04, 0x4f, 0xa0, 0x01, 0x02],
   [0x04, 0x53, 0xb0, 0x2f, 0x24, 0x70, 0x61, 0x72, 0x61, 0x6d, 0x65, 0x74],
   [0x65, 0x72, 0x24, 0x73, 0x65, 0x6c, 0x66, 0x40, 0x40, 0xa0, 0xa0, 0xa0],
   [0xa0, 0x01, 0x02, 0x04, 0x55, 0xa0, 0x01, 0x02, 0x04, 0x63, 0xb0, 0x30],
   [0x24, 0x70, 0x61, 0x72, 0x61, 0x6d, 0x65, 0x74, 0x65, 0x72, 0x24, 0x6f],
   [0x74, 0x68, 0x65, 0x72, 0x40, 0x90, 0xa0, 0xa0, 0xa0, 0x01, 0x02, 0x04],
   [0x5c, 0xa0, 0x01, 0x02, 0x04, 0x63, 0x9c, 0x90, 0xb0, 0xa0, 0xa0, 0xa0],
   [0x01, 0x02, 0x04, 0x69, 0x6f, 0x6e, 0x61, 0x6c, 0x40, 0x05, 0x02, 0xd7],
   [0x41, 0xa0, 0xa0, 0x40, 0xa0, 0xa0, 0xa0, 0x01, 0x11, 0x40, 0x66, 0xa0],
   [0x01, 0x11, 0x40, 0x69, 0x9c, 0x91, 0x23, 0x69, 0x6e, 0x74, 0x40, 0x40],
   [0xa0, 0xa0, 0xa0, 0xa0, 0xa0, 0x01, 0x11, 0x40, 0x6e, 0xa0, 0x01, 0x11],
   [0x40, 0x71, 0x94, 0x41, 0x40, 0x40, 0x41, 0x40, 0x41, 0x40, 0x40, 0x04],
   [0x47, 0xd0, 0x40, 0x29, 0x74, 0x72, 0x61, 0x63, 0x65, 0x49, 0x6e, 0x66],
   [0x6f, 0xa0, 0xa0, 0xa0, 0x01, 0x11, 0x42, 0x44, 0xa0, 0x01, 0x11, 0x42],
   [0x71, 0xa0, 0x90, 0xf0, 0x90, 0xa0, 0xa0, 0xa0, 0x01, 0x11, 0x42, 0x4f],
   [0xa0, 0x01, 0x11, 0x42, 0x6b, 0x92, 0xa0, 0xa0, 0xa0, 0xa0, 0x01, 0x11],
   [0x42, 0x4f, 0xa0, 0x01, 0x11, 0x42, 0x54, 0x9c, 0x90, 0xb0, 0xa0, 0x04],
   [0x07, 0x9c, 0x90, 0xb0, 0xa0, 0x04, 0x0b, 0x9c, 0x91, 0x05, 0x03, 0x07],
   [0x05, 0x03, 0x06, 0x40, 0x05, 0x03, 0x05, 0x41, 0xa0, 0xa0, 0x40, 0xa0],
   [0xa0, 0xa0, 0x01, 0x11, 0x42, 0x55, 0xa0, 0x01, 0x11, 0x42, 0x6a, 0x92],
   [0xa0, 0xa0, 0xa0, 0xa0, 0x01, 0x11, 0x42, 0x55, 0xa0, 0x01, 0x11, 0x42],
   [0x65, 0x9c, 0x90, 0xb0, 0xa0, 0x04, 0x07, 0x9c, 0x90, 0xb0, 0xa0, 0xa0],
   [0xa0, 0x01, 0x11, 0x42, 0x55, 0xa0, 0x01, 0x11, 0x42, 0x5c, 0x9c, 0x91],
   [0x05, 0x03, 0x43, 0x28, 0x4f, 0x70, 0x74, 0x69, 0x6f, 0x6e, 0x61, 0x6c],
   [0x40, 0x05, 0x03, 0x1f, 0x41, 0xa0, 0xa0, 0x40, 0xa0, 0xa0, 0xa0, 0x01],
   [0x11, 0x42, 0x66, 0xa0, 0x01, 0x11, 0x42, 0x69, 0x9c, 0x91, 0x23, 0x73],
   [0x74, 0x72, 0x40, 0x40, 0xa0, 0xa0, 0xa0, 0xa0, 0xa0, 0x01, 0x11, 0x42],
   [0x6e, 0xa0, 0x01, 0x11, 0x42, 0x71, 0x94, 0x41, 0x40, 0x40, 0x41, 0x40]]"

definition dictionary_rows_52 :: "u8 list list" where
  "dictionary_rows_52 =
  [[0x41, 0x40, 0x40, 0x04, 0x47, 0x40, 0x41, 0x42, 0x43, 0x44, 0x40, 0x40],
   [0xd0, 0xd0, 0xd0, 0xd0, 0x40, 0x09, 0x30, 0x5f, 0x4d, 0x65, 0x73, 0x73],
   [0x61, 0x67, 0x69, 0x6e, 0x67, 0x43, 0x68, 0x61, 0x6e, 0x67, 0x65, 0x4d],
   [0x61, 0x69, 0x6c, 0x62, 0x6f, 0x78, 0x53, 0x74, 0x61, 0x74, 0x75, 0x73],
   [0x52, 0x65, 0x71, 0x5f, 0x5f, 0x66, 0x62, 0x74, 0x68, 0x72, 0x69, 0x66],
   [0x74, 0x5f, 0x49, 0x73, 0x53, 0x65, 0x74, 0xa0, 0xa0, 0xa0, 0x01, 0x11],
   [0x26, 0x44, 0xa0, 0x01, 0x11, 0x32, 0x4c, 0xa0, 0x90, 0xf0, 0x90, 0xa0],
   [0x04, 0x08, 0x92, 0xa0, 0xa0, 0x04, 0x0b, 0x9c, 0x90, 0xb0, 0xa0, 0x04],
   [0x0f, 0x9c, 0x90, 0xb0, 0xa0, 0x04, 0x13, 0x9c, 0x91, 0x26, 0x74, 0x79],
   [0x70, 0x69, 0x6e, 0x67, 0x28, 0x43, 0x6c, 0x61, 0x73, 0x73, 0x56, 0x61],
   [0x72, 0x40, 0x2b, 0x5f, 0x5f, 0x67, 0x65, 0x74, 0x69, 0x74, 0x65, 0x6d],
   [0x5f, 0x5f, 0x41, 0xa0, 0xa0, 0x40, 0xa0, 0x04, 0x1b, 0x92, 0xa0, 0xa0],
   [0x04, 0x1e, 0x9c, 0x90, 0xb0, 0xa0, 0x04, 0x22, 0x9c, 0x90, 0xb0, 0xa0],
   [0x04, 0x26, 0x04, 0x13, 0x24, 0x54, 0x79, 0x70, 0x65, 0x40, 0x04, 0x10],
   [0x41, 0xa0, 0xa0, 0x40, 0xa0, 0xa0, 0xa0, 0x00, 0xff, 0x00, 0xff, 0x04],
   [0x01, 0x9c, 0x90, 0xb0, 0xa0, 0x04, 0x06, 0x9c, 0x90, 0xb0, 0xa0, 0x04],
   [0x0a, 0x9c, 0x90, 0xb0, 0xa0, 0x04, 0x0e, 0x9c, 0x91, 0x05, 0x03, 0xca],
   [0x05, 0x03, 0xc8, 0x40, 0x05, 0x03, 0xc6, 0x40, 0x04, 0x3c, 0x40, 0x40],
   [0x40, 0x40, 0x40, 0x40, 0x41, 0x40, 0x41, 0x04, 0x3c, 0x40, 0x41, 0x28],
   [0x5f, 0x5f, 0x63, 0x61, 0x6c, 0x6c, 0x5f, 0x5f, 0xa0, 0xa0, 0xa0, 0x01],
   [0x11, 0x59, 0x44, 0xa0, 0x01, 0x11, 0x66, 0x6d, 0xa0, 0x91, 0xb0, 0xa0],
   [0x08, 0x00, 0x00, 0x20, 0x00, 0xa0, 0x05, 0x03, 0xd5, 0xa0, 0x05, 0x03],
   [0xd4, 0xa0, 0x05, 0x03, 0xd3, 0xa0, 0x04, 0x0e, 0x40, 0xa0, 0xa0, 0xa0],
   [0xa0, 0x01, 0x11, 0x5a, 0x48, 0xa0, 0x01, 0x11, 0x5a, 0x4c, 0xb0, 0x2f],
   [0x24, 0x70, 0x61, 0x72, 0x61, 0x6d, 0x65, 0x74, 0x65, 0x72, 0x24, 0x73],
   [0x65, 0x6c, 0x66, 0x40, 0x40, 0xa0, 0xa0, 0xa0, 0xa0, 0x00, 0xff, 0x00],
   [0xff, 0x04, 0x01, 0xb0, 0x2c, 0x2a, 0x24, 0x70, 0x61, 0x72, 0x61, 0x6d],
   [0x65, 0x74, 0x65, 0x72, 0x24, 0x40, 0x40, 0xa0, 0xa0, 0xa0, 0xa0, 0x01],
   [0x11, 0x5b, 0x48, 0xa0, 0x01, 0x11, 0x5b, 0x77, 0xb0, 0x33, 0x24, 0x70],
   [0x61, 0x72, 0x61, 0x6d, 0x65, 0x74, 0x65, 0x72, 0x24, 0x69, 0x73, 0x44]] @
  [[0x65, 0x6c, 0x65, 0x74, 0x65, 0x90, 0xa0, 0xa0, 0xa0, 0x01, 0x11, 0x5b],
   [0x78, 0xa0, 0x01, 0x11, 0x5b, 0x7e, 0x9c, 0x90, 0xb0, 0xa0, 0x04, 0x07],
   [0x9c, 0x90, 0xb0, 0xa0, 0x04, 0x0b, 0x9c, 0x90, 0xb0, 0xa0, 0x04, 0x0f],
   [0x9c, 0x91, 0x26, 0x74, 0x68, 0x72, 0x69, 0x66, 0x74, 0x23, 0x70, 0x79],
   [0x33, 0x40, 0x25, 0x74, 0x79, 0x70, 0x65, 0x73, 0x40, 0x26, 0x4e, 0x4f],
   [0x54, 0x53, 0x45, 0x54, 0x40, 0x90, 0xa0, 0xa0, 0xa0, 0x01, 0x11, 0x5b],
   [0x52, 0xa0, 0x01, 0x11, 0x5b, 0x77, 0x92, 0xa0, 0xa0, 0xa0, 0xa0, 0x01],
   [0x11, 0x5b, 0x52, 0xa0, 0x01, 0x11, 0x5b, 0x5f, 0x9c, 0x90, 0xb0, 0xa0],
   [0x04, 0x07, 0x9c, 0x90, 0xb0, 0xa0, 0xa0, 0xa0, 0x01, 0x11, 0x5b, 0x52],
   [0xa0, 0x01, 0x11, 0x5b, 0x59, 0x9c, 0x91, 0x05, 0x03, 0xe5, 0x25, 0x55],
   [0x6e, 0x69, 0x6f, 0x6e, 0x40, 0x05, 0x03, 0xc1, 0x41, 0xa0, 0xa0, 0x40],
   [0xa0, 0xa0, 0xa0, 0x01, 0x11, 0x5b, 0x60, 0xa0, 0x01, 0x11, 0x5b, 0x76],
   [0x08, 0x00, 0x00, 0x04, 0x11, 0xa0, 0xa0, 0xa0, 0xa0, 0x01, 0x11, 0x5b],
   [0x60, 0xa0, 0x01, 0x11, 0x5b, 0x64, 0x9c, 0x91, 0x24, 0x62, 0x6f, 0x6f],
   [0x6c, 0xa0, 0xa0, 0xa0, 0xa0, 0x01, 0x11, 0x5b, 0x66, 0xa0, 0x01, 0x11],
   [0x5b, 0x70, 0x9c, 0x90, 0xb0, 0xa0, 0x04, 0x07, 0x9c, 0x90, 0xb0, 0xa0],
   [0x04, 0x0b, 0x9c, 0x90, 0xb0, 0xa0, 0x04, 0x0f, 0x9c, 0x91, 0x26, 0x74],
   [0x68, 0x72, 0x69, 0x66, 0x74, 0x23, 0x70, 0x79, 0x33, 0x40, 0x25, 0x74],
   [0x79, 0x70, 0x65, 0x73, 0x40, 0x28, 0x5f, 0x5f, 0x4e, 0x6f, 0x74, 0x53],
   [0x65, 0x74, 0x40, 0xa0, 0xa0, 0xa0, 0xa0, 0x01, 0x11, 0x5b, 0x72, 0xa0],
   [0x01, 0x11, 0x5b, 0x76, 0x94, 0x40, 0x40, 0x40, 0xa0, 0xa0, 0xa0, 0xa0],
   [0x01, 0x11, 0x5c, 0x48, 0xa0, 0x01, 0x11, 0x5c, 0x79, 0xb0, 0x35, 0x24],
   [0x70, 0x61, 0x72, 0x61, 0x6d, 0x65, 0x74, 0x65, 0x72, 0x24, 0x68, 0x61],
   [0x72, 0x64, 0x44, 0x65, 0x6c, 0x65, 0x74, 0x65, 0x90, 0xa0, 0xa0, 0xa0],
   [0x01, 0x11, 0x5c, 0x7a, 0xa0, 0x01, 0x11, 0x5c, 0x00, 0x40, 0x9c, 0x90],
   [0xb0, 0xa0, 0x04, 0x07, 0x9c, 0x90, 0xb0, 0xa0, 0x04, 0x0b, 0x9c, 0x90],
   [0xb0, 0xa0, 0x04, 0x0f, 0x9c, 0x91, 0x04, 0x63, 0x04, 0x62, 0x40, 0x04],
   [0x61, 0x40, 0x04, 0x60, 0x40, 0x90, 0xa0, 0xa0, 0xa0, 0x01, 0x11, 0x5c],
   [0x54, 0xa0, 0x01, 0x11, 0x5c, 0x79, 0x92, 0xa0, 0xa0, 0xa0, 0xa0, 0x01],
   [0x11, 0x5c, 0x54, 0xa0, 0x01, 0x11, 0x5c, 0x61, 0x9c, 0x90, 0xb0, 0xa0]] @
  [[0x04, 0x07, 0x9c, 0x90, 0xb0, 0xa0, 0xa0, 0xa0, 0x01, 0x11, 0x5c, 0x54],
   [0xa0, 0x01, 0x11, 0x5c, 0x5b, 0x9c, 0x91, 0x05, 0x04, 0x44, 0x25, 0x55],
   [0x6e, 0x69, 0x6f, 0x6e, 0x40, 0x05, 0x04, 0x20, 0x41, 0xa0, 0xa0, 0x40],
   [0xa0, 0xa0, 0xa0, 0x01, 0x11, 0x5c, 0x62, 0xa0, 0x01, 0x11, 0x5c, 0x78],
   [0x08, 0x00, 0x00, 0x04, 0x11, 0xa0, 0xa0, 0x72, 0x65, 0x5f, 0x74, 0x69],
   [0x6d, 0x65, 0xa0, 0xa0, 0xa0, 0x01, 0x00, 0x8b, 0x44, 0xa0, 0x01, 0x00],
   [0x8c, 0x6a, 0xa0, 0x91, 0xb0, 0xa0, 0x08, 0x00, 0x00, 0x20, 0x00, 0xa0],
   [0x05, 0x01, 0x10, 0xa0, 0x05, 0x01, 0x0f, 0xa0, 0x05, 0x01, 0x0e, 0xa0],
   [0x05, 0x01, 0x0d, 0xa0, 0x04, 0x0f, 0x40, 0xa0, 0xa0, 0xa0, 0xa0, 0x01],
   [0x00, 0x8b, 0x53, 0xa0, 0x01, 0x00, 0x8b, 0x57, 0xb0, 0x2f, 0x24, 0x70],
   [0x61, 0x72, 0x61, 0x6d, 0x65, 0x74, 0x65, 0x72, 0x24, 0x73, 0x65, 0x6c],
   [0x66, 0x40, 0x40, 0xa0, 0xa0, 0xa0, 0xa0, 0x01, 0x00, 0x8b, 0x59, 0xa0],
   [0x01, 0x00, 0x8b, 0x75, 0xb0, 0x34, 0x24, 0x70, 0x61, 0x72, 0x61, 0x6d],
   [0x65, 0x74, 0x65, 0x72, 0x24, 0x70, 0x72, 0x65, 0x64, 0x69, 0x63, 0x61],
   [0x74, 0x65, 0x40, 0x90, 0xa0, 0xa0, 0xa0, 0x01, 0x00, 0x8b, 0x64, 0xa0],
   [0x01, 0x00, 0x8b, 0x75, 0x92, 0xa0, 0xa0, 0xa0, 0xa0, 0x01, 0x00, 0x8b],
   [0x64, 0xa0, 0x01, 0x00, 0x8b, 0x6d, 0x9c, 0x90, 0xb0, 0xa0, 0x04, 0x07],
   [0x9c, 0x90, 0xb0, 0xa0, 0x04, 0x0b, 0x9c, 0x90, 0xb0, 0xa0, 0x04, 0x0f],
   [0x9c, 0x91, 0x04, 0x57, 0x04, 0x56, 0x40, 0x04, 0x55, 0x40, 0x05, 0x01],
   [0x14, 0x41, 0xa0, 0xa0, 0x40, 0xa0, 0xa0, 0xa0, 0x01, 0x00, 0x8b, 0x6e],
   [0xa0, 0x01, 0x00, 0x8b, 0x74, 0x9c, 0x91, 0x26, 0x6f, 0x62, 0x6a, 0x65],
   [0x63, 0x74, 0x40, 0x40, 0x40, 0x90, 0xa0, 0xa0, 0xa0, 0x01, 0x00, 0x8b],
   [0x7a, 0xa0, 0x01, 0x00, 0x8b, 0x00, 0x6f, 0x9c, 0x90, 0xb0, 0xa0, 0x04],
   [0x07, 0x9c, 0x90, 0xb0, 0xa0, 0x04, 0x0b, 0x9c, 0x90, 0xb0, 0xa0, 0x04],
   [0x0f, 0x9c, 0x91, 0x05, 0x01, 0x57, 0x05, 0x01, 0x55, 0x40, 0x05, 0x01],
   [0x53, 0x40, 0x05, 0x01, 0x51, 0x40, 0x40, 0x40, 0x90, 0x04, 0xe9, 0x40],
   [0x40, 0x40, 0x40, 0x04, 0x53, 0x40, 0x41, 0x43, 0x84, 0x95, 0xa6, 0xbe],
   [0x00, 0x00, 0x00, 0x56, 0x00, 0x00, 0x00, 0x06, 0x00, 0x00, 0x00, 0x20],
   [0x00, 0x00, 0x00, 0x16, 0xa2, 0x2f, 0x74, 0x79, 0x70, 0x69, 0x6e, 0x67],
   [0x2e, 0x43, 0x6c, 0x61, 0x73, 0x73, 0x56, 0x61, 0x72, 0xa0, 0x90, 0x94]] @
  [[0x09, 0x3f, 0x66, 0x62, 0x63, 0x6f, 0x64, 0x65, 0x2e, 0x63, 0x6f, 0x6e],
   [0x66, 0x69, 0x67, 0x65, 0x72, 0x61, 0x74, 0x6f, 0x72, 0x2e, 0x73, 0x74],
   [0x72, 0x75, 0x63, 0x74, 0x73, 0x2e, 0x63, 0x6f, 0x6d, 0x6d, 0x6f, 0x6e],
   [0x2e, 0x66, 0x62, 0x74, 0x79, 0x70, 0x65, 0x2e, 0x66, 0x62, 0x74, 0x79],
   [0x70, 0x65, 0x73, 0x2e, 0x74, 0x74, 0x79, 0x70, 0x65, 0x73, 0x2e, 0x46],
   [0x42, 0x54, 0x79, 0x70, 0x65, 0x40, 0x84, 0x95, 0xa6, 0xbe, 0x00, 0x00],
   [0x00, 0x15, 0x00, 0x00, 0x00, 0x05, 0x00, 0x00, 0x00, 0x10, 0x00, 0x00],
   [0x00, 0x0e, 0x92, 0xb1, 0xa0, 0x26, 0x74, 0x79, 0x70, 0x69, 0x6e, 0x67],
   [0x40, 0x28, 0x6f, 0x76, 0x65, 0x72, 0x6c, 0x6f, 0x61, 0x64, 0x40, 0x84],
   [0x95, 0xa6, 0xbe, 0x00, 0x00, 0x94, 0xad, 0x00, 0x00, 0x2a, 0xcc, 0x00],
   [0x00, 0x81, 0xbf, 0x00, 0x00, 0x7b, 0x7a, 0xb0, 0xa0, 0x26, 0x66, 0x62],
   [0x63, 0x6f, 0x64, 0x65, 0xa0, 0x23, 0x64, 0x73, 0x69, 0xa0, 0x26, 0x6c],
   [0x6f, 0x67, 0x67, 0x65, 0x72, 0xa0, 0x27, 0x63, 0x6f, 0x6e, 0x66, 0x69],
   [0x67, 0x73, 0xa0, 0x3a, 0x49, 0x67, 0x50, 0x69, 0x69, 0x44, 0x65, 0x74],
   [0x65, 0x63, 0x74, 0x69, 0x6f, 0x6e, 0x4c, 0x6f, 0x67, 0x67, 0x65, 0x72],
   [0x43, 0x6f, 0x6e, 0x66, 0x69, 0x67, 0xa0, 0x26, 0x6c, 0x6f, 0x67, 0x67],
   [0x65, 0x72, 0x40, 0x90, 0xa0, 0xa0, 0xa0, 0x41, 0x41, 0x04, 0x01, 0xc0],
   [0x08, 0x00, 0x00, 0x20, 0x00, 0xa0, 0x04, 0x12, 0xa0, 0x04, 0x11, 0xa0],
   [0x04, 0x10, 0xa0, 0x04, 0x0f, 0xa0, 0x04, 0x0e, 0xa0, 0x04, 0x0d, 0xa0],
   [0x29, 0x24, 0x74, 0x6f, 0x70, 0x6c, 0x65, 0x76, 0x65, 0x6c, 0x40, 0x40],
   [0x40, 0x40, 0x40, 0x40, 0x40, 0x40, 0x40, 0x40, 0xa0, 0xa0, 0xa0, 0xa0],
   [0x41, 0x40, 0xa0, 0x41, 0x62, 0x99, 0xa0, 0x90, 0xa0, 0xa0, 0xa0, 0x41],
   [0x45, 0xa0, 0x41, 0x4f, 0xa0, 0x2a, 0x5f, 0x5f, 0x66, 0x75, 0x74, 0x75],
   [0x72, 0x65, 0x5f, 0x5f, 0x40, 0xa0, 0xa0, 0xa0, 0xa0, 0x41, 0x57, 0xa0],
   [0x41, 0x62, 0xa0, 0xa0, 0x2b, 0x61, 0x6e, 0x6e, 0x6f, 0x74, 0x61, 0x74],
   [0x69, 0x6f, 0x6e, 0x73, 0x40, 0x40, 0x40, 0xa0, 0xa0, 0xa0, 0xa0, 0x49],
   [0x40, 0xa0, 0x49, 0x51, 0x99, 0xa0, 0x40, 0xa0, 0xa0, 0xa0, 0xa0, 0x49],
   [0x47, 0xa0, 0x49, 0x51, 0xa0, 0xa0, 0x2a, 0x63, 0x6f, 0x6e, 0x74, 0x65],
   [0x78, 0x74, 0x6c, 0x69, 0x62, 0x40, 0x40, 0x40, 0xa0, 0xa0, 0xa0, 0xa0],
   [0x4a, 0x40, 0xa0, 0x4a, 0x52, 0x99, 0xa0, 0x40, 0xa0, 0xa0, 0xa0, 0xa0]] @
  [[0x4a, 0x47, 0xa0, 0x4a, 0x52, 0xa0, 0xa0, 0x2b, 0x64, 0x61, 0x74, 0x61],
   [0x63, 0x6c, 0x61, 0x73, 0x73, 0x65, 0x73, 0x40, 0x40, 0x40, 0xa0, 0xa0],
   [0xa0, 0xa0, 0x4b, 0x40, 0xa0, 0x4b, 0x4e, 0x99, 0xa0, 0x40, 0xa0, 0xa0],
   [0xa0, 0xa0, 0x4b, 0x47, 0xa0, 0x4b, 0x4e, 0xa0, 0xa0, 0x27, 0x69, 0x6e],
   [0x73, 0x70, 0x65, 0x63, 0x74, 0x40, 0x40, 0x40, 0xa0, 0xa0, 0xa0, 0xa0],
   [0x4c, 0x40, 0xa0, 0x4c, 0x4d, 0x99, 0xa0, 0x40, 0xa0, 0xa0, 0xa0, 0xa0],
   [0x4c, 0x47, 0xa0, 0x4c, 0x4d, 0xa0, 0xa0, 0x26, 0x72, 0x61, 0x6e, 0x64],
   [0x6f, 0x6d, 0x40, 0x40, 0x40, 0xa0, 0xa0, 0xa0, 0xa0, 0x4d, 0x40, 0xa0],
   [0x4d, 0x5d, 0x99, 0xa0, 0x90, 0xa0, 0xa0, 0xa0, 0x4d, 0x45, 0xa0, 0x4d],
   [0x49, 0xa0, 0x24, 0x74, 0x69, 0x6d, 0x65, 0x40, 0xa0, 0xa0, 0xa0, 0xa0],
   [0x4d, 0x51, 0xa0, 0x4d, 0x5d, 0xa0, 0xa0, 0x2c, 0x70, 0x65, 0x72, 0x66],
   [0x5f, 0x63, 0x6f, 0x75, 0x6e, 0x74, 0x65, 0x72, 0x40, 0x40, 0x40, 0xa0],
   [0xa0, 0xa0, 0xa0, 0x4e, 0x40, 0xa0, 0x4e, 0x00, 0x56, 0x99, 0xa0, 0x90],
   [0xa0, 0xa0, 0xa0, 0x4e, 0x45, 0xa0, 0x4e, 0x4b, 0xa0, 0x26, 0x74, 0x79],
   [0x70, 0x69, 0x6e, 0x67, 0x40, 0xa0, 0xa0, 0xa0, 0xa0, 0x4e, 0x53, 0xa0],
   [0x4e, 0x5e, 0xa0, 0xa0, 0x2b, 0x41, 0x62, 0x73, 0x74, 0x72, 0x61, 0x63],
   [0x74, 0x53, 0x65, 0x74, 0x40, 0x40, 0xa0, 0xa0, 0xa0, 0xa0, 0x4e, 0x60],
   [0xa0, 0x4e, 0x63, 0xa0, 0xa0, 0x23, 0x41, 0x6e, 0x79, 0x40, 0x40, 0xa0],
   [0xa0, 0xa0, 0xa0, 0x4e, 0x65, 0xa0, 0x4e, 0x6d, 0xa0, 0xa0, 0x28, 0x43],
   [0x61, 0x6c, 0x6c, 0x61, 0x62, 0x6c, 0x65, 0x40, 0x40, 0xa0, 0xa0, 0xa0],
   [0xa0, 0x4e, 0x6f, 0xa0, 0x4e, 0x73, 0xa0, 0xa0, 0x24, 0x44, 0x69, 0x63],
   [0x74, 0x40, 0x40, 0xa0, 0xa0, 0xa0, 0xa0, 0x4e, 0x75, 0xa0, 0x4e, 0x79],
   [0xa0, 0xa0, 0x24, 0x4c, 0x69, 0x73, 0x74, 0x40, 0x40, 0xa0, 0xa0, 0xa0],
   [0xa0, 0x4e, 0x7b, 0xa0, 0x4e, 0x00, 0x42, 0xa0, 0xa0, 0x27, 0x4d, 0x61],
   [0x70, 0x70, 0x69, 0x6e, 0x67, 0x40, 0x40, 0xa0, 0xa0, 0xa0, 0xa0, 0x4e],
   [0x00, 0x44, 0xa0, 0x4e, 0x00, 0x4c, 0xa0, 0xa0, 0x28, 0x4f, 0x70, 0x74],
   [0x69, 0x6f, 0x6e, 0x61, 0x6c, 0x40, 0x40, 0xa0, 0xa0, 0xa0, 0xa0, 0x4e],
   [0x00, 0x4e, 0xa0, 0x4e, 0x00, 0x56, 0xa0, 0xa0, 0x28, 0x53, 0x65, 0x71],
   [0x75, 0x65, 0x6e, 0x63, 0x65, 0x40, 0x40, 0x40, 0xa0, 0xa0, 0xa0, 0xa0],
   [0x51, 0x40, 0xa0, 0x51, 0x00, 0x48, 0x99, 0xa0, 0x90, 0xa0, 0xa0, 0x51]]"

definition dictionary_rows_53 :: "u8 list list" where
  "dictionary_rows_53 =
  [[0x75, 0x65, 0x72, 0x79, 0x40, 0x90, 0xa0, 0xa2, 0x04, 0x08, 0xa0, 0x90],
   [0x04, 0x07, 0x40, 0x40, 0x40, 0xa0, 0x2f, 0x24, 0x70, 0x61, 0x72, 0x61],
   [0x6d, 0x65, 0x74, 0x65, 0x72, 0x24, 0x73, 0x65, 0x6c, 0x66, 0x40, 0xa0],
   [0x90, 0xa0, 0x94, 0x09, 0x5f, 0x69, 0x67, 0x5f, 0x6e, 0x6f, 0x64, 0x65],
   [0x61, 0x70, 0x69, 0x2e, 0x65, 0x64, 0x67, 0x65, 0x73, 0x2e, 0x67, 0x72],
   [0x6f, 0x75, 0x70, 0x5f, 0x73, 0x74, 0x6f, 0x72, 0x79, 0x5f, 0x70, 0x6f],
   [0x6c, 0x6c, 0x5f, 0x6f, 0x6e, 0x5f, 0x64, 0x69, 0x72, 0x65, 0x63, 0x74],
   [0x5f, 0x68, 0x65, 0x61, 0x64, 0x6d, 0x6f, 0x6a, 0x69, 0x2e, 0x45, 0x64],
   [0x67, 0x65, 0x53, 0x65, 0x6c, 0x65, 0x63, 0x74, 0x6f, 0x72, 0x47, 0x72],
   [0x6f, 0x75, 0x70, 0x53, 0x74, 0x6f, 0x72, 0x79, 0x50, 0x6f, 0x6c, 0x6c],
   [0x4f, 0x6e, 0x44, 0x69, 0x72, 0x65, 0x63, 0x74, 0x48, 0x65, 0x61, 0x64],
   [0x6d, 0x6f, 0x6a, 0x69, 0x40, 0x40, 0x40, 0x42, 0x40, 0x02, 0x3a, 0x61],
   [0xbe, 0xce, 0xa0, 0xa0, 0x04, 0x1b, 0x40, 0xa0, 0x04, 0x1c, 0x40, 0x40],
   [0x42, 0x84, 0x95, 0xa6, 0xbe, 0x00, 0x00, 0x00, 0x69, 0x00, 0x00, 0x00],
   [0x09, 0x00, 0x00, 0x00, 0x2d, 0x00, 0x00, 0x00, 0x21, 0xa2, 0x2c, 0x74],
   [0x79, 0x70, 0x69, 0x6e, 0x67, 0x2e, 0x46, 0x69, 0x6e, 0x61, 0x6c, 0xa0],
   [0x90, 0x99, 0xa0, 0x42, 0xa0, 0x94, 0x09, 0x50, 0x69, 0x67, 0x74, 0x68],
   [0x72, 0x69, 0x66, 0x74, 0x2e, 0x67, 0x65, 0x6e, 0x2e, 0x66, 0x61, 0x63],
   [0x65, 0x62, 0x6f, 0x6f, 0x6b, 0x2e, 0x76, 0x69, 0x64, 0x65, 0x6f, 0x69],
   [0x6e, 0x66, 0x72, 0x61, 0x2e, 0x78, 0x70, 0x76, 0x2e, 0x78, 0x70, 0x76],
   [0x2e, 0x74, 0x68, 0x72, 0x69, 0x66, 0x74, 0x5f, 0x74, 0x79, 0x70, 0x65],
   [0x73, 0x2e, 0x52, 0x75, 0x6e, 0x55, 0x6d, 0x61, 0x55, 0x73, 0x65, 0x72],
   [0x54, 0x72, 0x61, 0x6e, 0x73, 0x66, 0x6f, 0x72, 0x6d, 0x52, 0x65, 0x71],
   [0x75, 0x65, 0x73, 0x74, 0x40, 0x40, 0x84, 0x95, 0xa6, 0xbe, 0x00, 0x00],
   [0x00, 0x01, 0x00, 0x00, 0x00, 0x00, 0x00, 0x00, 0x00, 0x00, 0x00, 0x00],
   [0x00, 0x00, 0x40, 0x84, 0x95, 0xa6, 0xbe, 0x00, 0x00, 0x00, 0x01, 0x00],
   [0x00, 0x00, 0x00, 0x00, 0x00, 0x00, 0x00, 0x00, 0x00, 0x00, 0x00, 0x40],
   [0x84, 0x95, 0xa6, 0xbe, 0x00, 0x00, 0x00, 0x01, 0x00, 0x00, 0x00, 0x00],
   [0x00, 0x00, 0x00, 0x00, 0x00, 0x00, 0x00, 0x00, 0x40, 0x84, 0x95, 0xa6],
   [0xbe, 0x00, 0x00, 0x00, 0x12, 0x00, 0x00, 0x00, 0x05, 0x00, 0x00, 0x00]] @
  [[0x12, 0x00, 0x00, 0x00, 0x11, 0x90, 0xf0, 0x90, 0xa0, 0x26, 0x6f, 0x62],
   [0x6a, 0x65, 0x63, 0x74, 0x40, 0x40, 0x40, 0x40, 0x40, 0x40, 0x40, 0x84],
   [0x95, 0xa6, 0xbe, 0x00, 0x00, 0x00, 0x0f, 0x00, 0x00, 0x00, 0x05, 0x00],
   [0x00, 0x00, 0x0f, 0x00, 0x00, 0x00, 0x0e, 0x90, 0xb0, 0xa0, 0xa0, 0x26],
   [0x6f, 0x62, 0x6a, 0x65, 0x63, 0x74, 0x40, 0x40, 0x40, 0x40, 0x84, 0x95],
   [0xa6, 0xbe, 0x00, 0x00, 0x00, 0x01, 0x00, 0x00, 0x00, 0x00, 0x00, 0x00],
   [0x00, 0x00, 0x00, 0x00, 0x00, 0x00, 0x40, 0x84, 0x95, 0xa6, 0xbe, 0x00],
   [0x00, 0x00, 0x01, 0x00, 0x00, 0x00, 0x00, 0x00, 0x00, 0x00, 0x00, 0x00],
   [0x00, 0x00, 0x00, 0x40, 0x84, 0x95, 0xa6, 0xbe, 0x00, 0x00, 0x00, 0x08],
   [0x00, 0x00, 0x00, 0x01, 0x00, 0x00, 0x00, 0x03, 0x00, 0x00, 0x00, 0x02],
   [0x27, 0x5f, 0x66, 0x69, 0x65, 0x6c, 0x64, 0x73, 0x84, 0x95, 0xa6, 0xbe],
   [0x00, 0x00, 0x00, 0x05, 0x00, 0x00, 0x00, 0x02, 0x00, 0x00, 0x00, 0x06],
   [0x00, 0x00, 0x00, 0x06, 0xa0, 0x40, 0xa0, 0x41, 0x40, 0x84, 0x95, 0xa6],
   [0xbe, 0x00, 0x00, 0x00, 0x2c, 0x00, 0x00, 0x00, 0x09, 0x00, 0x00, 0x00],
   [0x1d, 0x00, 0x00, 0x00, 0x19, 0x92, 0xb1, 0xa0, 0x27, 0x63, 0x68, 0x72],
   [0x6f, 0x6e, 0x6f, 0x73, 0xa0, 0x29, 0x6a, 0x6f, 0x62, 0x63, 0x6f, 0x6e],
   [0x66, 0x69, 0x67, 0xa0, 0x26, 0x74, 0x74, 0x79, 0x70, 0x65, 0x73, 0x40],
   [0x2b, 0x4a, 0x6f, 0x62, 0x41, 0x66, 0x66, 0x69, 0x6e, 0x69, 0x74, 0x79],
   [0x40, 0x84, 0x95, 0xa6, 0xbe, 0x00, 0x00, 0x05, 0x1e, 0x00, 0x00, 0x00],
   [0x9d, 0x00, 0x00, 0x02, 0xbc, 0x00, 0x00, 0x02, 0x3e, 0x90, 0xa0, 0xc0],
   [0x45, 0x08, 0x00, 0x00, 0x40, 0x00, 0x40, 0x40, 0xb0, 0x28, 0x5f, 0x5f],
   [0x69, 0x6e, 0x69, 0x74, 0x5f, 0x5f, 0x08, 0x00, 0x00, 0x30, 0x00, 0xa0],
   [0x40, 0x90, 0x90, 0xb0, 0x90, 0xa0, 0x25, 0x6e, 0x6f, 0x6e, 0x63, 0x65],
   [0xa0, 0x27, 0x6d, 0x75, 0x74, 0x61, 0x74, 0x6f, 0x72, 0xa0, 0x38, 0x43],
   [0x6f, 0x6e, 0x74, 0x61, 0x63, 0x74, 0x50, 0x6f, 0x69, 0x6e, 0x74, 0x4e],
   [0x6f, 0x6e, 0x63, 0x65, 0x4d, 0x75, 0x74, 0x61, 0x74, 0x6f, 0x72, 0xa0],
   [0x04, 0x0e, 0x40, 0xa0, 0x42, 0x90, 0xa0, 0x91, 0xb0, 0x2f, 0x24, 0x70],
   [0x61, 0x72, 0x61, 0x6d, 0x65, 0x74, 0x65, 0x72, 0x24, 0x73, 0x65, 0x6c],
   [0x66, 0x94, 0x09, 0x26, 0x6e, 0x6f, 0x6e, 0x63, 0x65, 0x2e, 0x6d, 0x75],
   [0x74, 0x61, 0x74, 0x6f, 0x72, 0x2e, 0x43, 0x6f, 0x6e, 0x74, 0x61, 0x63]] @
  [[0x74, 0x50, 0x6f, 0x69, 0x6e, 0x74, 0x4e, 0x6f, 0x6e, 0x63, 0x65, 0x4d],
   [0x75, 0x74, 0x61, 0x74, 0x6f, 0x72, 0x40, 0xa0, 0x91, 0xb0, 0x33, 0x24],
   [0x70, 0x61, 0x72, 0x61, 0x6d, 0x65, 0x74, 0x65, 0x72, 0x24, 0x69, 0x64],
   [0x5f, 0x76, 0x61, 0x6c, 0x75, 0x65, 0x94, 0x23, 0x73, 0x74, 0x72, 0x40],
   [0xa0, 0x91, 0xb0, 0x35, 0x24, 0x70, 0x61, 0x72, 0x61, 0x6d, 0x65, 0x74],
   [0x65, 0x72, 0x24, 0x6e, 0x6f, 0x6e, 0x63, 0x65, 0x5f, 0x74, 0x79, 0x70],
   [0x65, 0x94, 0x09, 0x26, 0x6e, 0x6f, 0x6e, 0x63, 0x65, 0x2e, 0x63, 0x6f],
   [0x6e, 0x73, 0x74, 0x61, 0x6e, 0x74, 0x73, 0x2e, 0x43, 0x6f, 0x6e, 0x74],
   [0x61, 0x63, 0x74, 0x50, 0x6f, 0x69, 0x6e, 0x74, 0x4e, 0x6f, 0x6e, 0x63],
   [0x65, 0x54, 0x79, 0x70, 0x65, 0x73, 0x40, 0xa0, 0x91, 0xb0, 0x32, 0x24],
   [0x70, 0x61, 0x72, 0x61, 0x6d, 0x65, 0x74, 0x65, 0x72, 0x24, 0x72, 0x65],
   [0x71, 0x75, 0x65, 0x73, 0x74, 0x99, 0xa0, 0x42, 0xa0, 0x94, 0x3f, 0x64],
   [0x6a, 0x61, 0x6e, 0x67, 0x6f, 0x2e, 0x68, 0x74, 0x74, 0x70, 0x2e, 0x72],
   [0x65, 0x71, 0x75, 0x65, 0x73, 0x74, 0x2e, 0x48, 0x74, 0x74, 0x70, 0x52],
   [0x65, 0x71, 0x75, 0x65, 0x73, 0x74, 0x40, 0x41, 0xa0, 0x91, 0xb0, 0x2d],
   [0x24, 0x70, 0x61, 0x72, 0x61, 0x6d, 0x65, 0x74, 0x65, 0x72, 0x24, 0x76],
   [0x63, 0x99, 0xa0, 0x42, 0xa0, 0x94, 0x09, 0x30, 0x69, 0x67, 0x5f, 0x6e],
   [0x6f, 0x64, 0x65, 0x61, 0x70, 0x69, 0x2e, 0x70, 0x72, 0x69, 0x76, 0x61],
   [0x63, 0x79, 0x2e, 0x76, 0x69, 0x65, 0x77, 0x65, 0x72, 0x5f, 0x63, 0x6f],
   [0x6e, 0x74, 0x65, 0x78, 0x74, 0x2e, 0x49, 0x56, 0x69, 0x65, 0x77, 0x65],
   [0x72, 0x43, 0x6f, 0x6e, 0x74, 0x65, 0x78, 0x74, 0x40, 0x41, 0xa0, 0x91],
   [0xb0, 0x37, 0x24, 0x70, 0x61, 0x72, 0x61, 0x6d, 0x65, 0x74, 0x65, 0x72],
   [0x24, 0x6e, 0x6f, 0x6e, 0x63, 0x65, 0x5f, 0x64, 0x6f, 0x6d, 0x61, 0x69],
   [0x6e, 0x99, 0xa0, 0x42, 0xa0, 0x94, 0x09, 0x2f, 0x70, 0x79, 0x33, 0x5f],
   [0x61, 0x73, 0x79, 0x6e, 0x63, 0x69, 0x6f, 0x2e, 0x6c, 0x6f, 0x67, 0x69],
   [0x6e, 0x2e, 0x63, 0x01, 0x00, 0x90, 0x03, 0x1d, 0x3a, 0x67, 0x42, 0x78],
   [0xcf, 0xf6, 0x37, 0x90, 0x03, 0x02, 0x4f, 0x11, 0xc9, 0xdf, 0x00, 0x87],
   [0x37, 0xc1, 0x7f, 0x00, 0x40, 0x90, 0x03, 0x18, 0x20, 0x7f, 0xd3, 0xab],
   [0xac, 0x9f, 0xbf, 0x90, 0x03, 0xfb, 0xc5, 0x9f, 0x6d, 0x47, 0x8d, 0x5e],
   [0x7f, 0x90, 0xa0, 0x40, 0x40, 0x90, 0x40, 0x40, 0x41, 0x42, 0xb5, 0x40]] @
  [[0xa0, 0x91, 0xa0, 0x90, 0xc0, 0x40, 0x90, 0x27, 0x43, 0x6f, 0x6f, 0x6b],
   [0x69, 0x65, 0x73, 0xc0, 0x40, 0x90, 0x2b, 0x55, 0x73, 0x65, 0x72, 0x53],
   [0x65, 0x63, 0x72, 0x65, 0x74, 0x73, 0x40, 0x41, 0x42, 0x90, 0x40, 0x40],
   [0x92, 0x26, 0x54, 0x68, 0x72, 0x69, 0x66, 0x74, 0x08, 0x00, 0x00, 0x20],
   [0x00, 0x90, 0xa0, 0xa0, 0x03, 0xc6, 0x00, 0x01, 0x23, 0x40, 0x86, 0x10],
   [0x80, 0x40, 0xa0, 0x03, 0x06, 0x00, 0x01, 0x03, 0x40, 0x00, 0x00, 0x00],
   [0x40, 0x90, 0x40, 0x90, 0x05, 0x03, 0x9b, 0x90, 0x48, 0x90, 0x90, 0xc1],
   [0x40, 0x41, 0x90, 0x03, 0xe8, 0xfb, 0xf7, 0xcc, 0x03, 0x62, 0x74, 0x86],
   [0xc1, 0x41, 0x42, 0x90, 0x03, 0x13, 0xe2, 0x35, 0xac, 0x82, 0x1e, 0x91],
   [0xad, 0xc1, 0x43, 0x44, 0x90, 0x03, 0x18, 0xdf, 0x92, 0xa7, 0x51, 0x11],
   [0x0f, 0xab, 0x90, 0x03, 0x1c, 0x58, 0x63, 0xab, 0xb9, 0x8b, 0xc1, 0xd7],
   [0x90, 0xa0, 0x40, 0x40, 0x90, 0xa0, 0x40, 0x40, 0x90, 0x40, 0xd0, 0x40],
   [0xb5, 0x40, 0xa0, 0x91, 0xa0, 0x90, 0xc0, 0x40, 0x90, 0x04, 0x25, 0xc0],
   [0x40, 0x90, 0x04, 0x24, 0x40, 0x41, 0x42, 0x90, 0x40, 0x40, 0x92, 0x33],
   [0x54, 0x68, 0x72, 0x69, 0x66, 0x74, 0x43, 0x6c, 0x69, 0x65, 0x6e, 0x74],
   [0x52, 0x65, 0x71, 0x75, 0x65, 0x73, 0x74, 0x08, 0x00, 0x00, 0x20, 0x00],
   [0x90, 0xa0, 0xa0, 0x03, 0xc6, 0x00, 0x01, 0x23, 0x40, 0x86, 0x10, 0x80],
   [0x40, 0xa0, 0x03, 0x06, 0x00, 0x01, 0x03, 0x40, 0x00, 0x00, 0x00, 0x40],
   [0x90, 0x40, 0x90, 0x05, 0x03, 0xbe, 0x90, 0x48, 0x90, 0x90, 0xc1, 0x40],
   [0x41, 0x04, 0x23, 0xc1, 0x41, 0x42, 0x04, 0x22, 0x04, 0x1f, 0x90, 0xa0],
   [0x40, 0x40, 0x90, 0xa0, 0x40, 0x40, 0x90, 0x40, 0x40, 0x41, 0x43, 0x44],
   [0x90, 0x05, 0x03, 0x9e, 0x90, 0xa0, 0xa0, 0x03, 0x04, 0x00, 0x00, 0x23],
   [0x44, 0x00, 0x00, 0x00, 0x90, 0x05, 0x03, 0x5f, 0xa0, 0x03, 0x04, 0x00],
   [0x00, 0x03, 0x40, 0x00, 0x00, 0x00, 0x90, 0x05, 0x03, 0x5e, 0x90, 0xa0],
   [0x40, 0x40, 0x90, 0xa0, 0x40, 0x40, 0x90, 0xb0, 0xa0, 0x05, 0x03, 0x9f],
   [0x40, 0xa0, 0x05, 0x03, 0x9e, 0x40, 0x40, 0x90, 0x40, 0x40, 0x41, 0x40],
   [0x40, 0x41, 0x42, 0x40, 0x41, 0x42, 0x40, 0x41, 0xb0, 0xb0, 0x90, 0x40],
   [0x90, 0x40, 0xa0, 0x04, 0x03, 0x04, 0x02, 0x04, 0x04, 0x40, 0x40, 0x84],
   [0x95, 0xa6, 0xbe, 0x00, 0x00, 0x00, 0x06, 0x00, 0x00, 0x00, 0x01, 0x00],
   [0x00, 0x00, 0x03, 0x00, 0x00, 0x00, 0x02, 0x25, 0x66, 0x6c, 0x61, 0x67]] @
  [[0x73, 0x84, 0x95, 0xa6, 0xbe, 0x00, 0x00, 0x00, 0x07, 0x00, 0x00, 0x00],
   [0x01, 0x00, 0x00, 0x00, 0x03, 0x00, 0x00, 0x00, 0x02, 0x26, 0x6c, 0x6f],
   [0x67, 0x67, 0x65, 0x72, 0x84, 0x95, 0xa6, 0xbe, 0x00, 0x00, 0x00, 0x15],
   [0x00, 0x00, 0x00, 0x05, 0x00, 0x00, 0x00, 0x10, 0x00, 0x00, 0x00, 0x0e],
   [0x92, 0xb1, 0xa0, 0x26, 0x74, 0x79, 0x70, 0x69, 0x6e, 0x67, 0x40, 0x28],
   [0x6f, 0x76, 0x65, 0x72, 0x6c, 0x6f, 0x61, 0x64, 0x41, 0x84, 0x95, 0xa6],
   [0xbe, 0x00, 0x00, 0x00, 0x05, 0x00, 0x00, 0x00, 0x02, 0x00, 0x00, 0x00],
   [0x06, 0x00, 0x00, 0x00, 0x06, 0xa0, 0x40, 0xa0, 0x41, 0x40, 0x84, 0x95],
   [0xa6, 0xbe, 0x00, 0x00, 0x02, 0xd3, 0x00, 0x00, 0x00, 0xdd, 0x00, 0x00],
   [0x02, 0xa1, 0x00, 0x00, 0x02, 0x79, 0xb0, 0xa0, 0x28, 0x61, 0x63, 0x63],
   [0x6f, 0x75, 0x6e, 0x74, 0x73, 0xa0, 0x34, 0x66, 0x69, 0x72, 0x73, 0x74],
   [0x5f, 0x66, 0x61, 0x63, 0x74, 0x6f, 0x72, 0x5f, 0x73, 0x65, 0x72, 0x76],
   [0x69, 0x63, 0x65, 0x40, 0x90, 0xa0, 0xa0, 0xa0, 0x00, 0x59, 0x44, 0xa0],
   [0x00, 0x61, 0x62, 0xc0, 0x08, 0x00, 0x00, 0x20, 0x00, 0xa0, 0x04, 0x0b],
   [0xa0, 0x04, 0x0a, 0xa0, 0x32, 0x46, 0x69, 0x72, 0x73, 0x74, 0x46, 0x61],
   [0x63, 0x74, 0x6f, 0x72, 0x53, 0x65, 0x72, 0x76, 0x69, 0x63, 0x65, 0xa0],
   [0x28, 0x5f, 0x5f, 0x69, 0x6e, 0x69, 0x74, 0x5f, 0x5f, 0x40, 0xa0, 0xa0],
   [0xa0, 0xa0, 0x00, 0x5a, 0x48, 0xa0, 0x00, 0x5a, 0x4c, 0xb0, 0x2f, 0x24],
   [0x70, 0x61, 0x72, 0x61, 0x6d, 0x65, 0x74, 0x65, 0x72, 0x24, 0x73, 0x65],
   [0x6c, 0x66, 0x40, 0x40, 0xa0, 0xa0, 0xa0, 0xa0, 0x00, 0x5b, 0x48, 0xa0],
   [0x00, 0x5b, 0x56, 0xb0, 0x2f, 0x24, 0x70, 0x61, 0x72, 0x61, 0x6d, 0x65],
   [0x74, 0x65, 0x72, 0x24, 0x75, 0x73, 0x65, 0x72, 0x40, 0x90, 0xa0, 0xa0],
   [0xa0, 0x00, 0x5b, 0x4e, 0xa0, 0x00, 0x5b, 0x56, 0x9c, 0x90, 0xb0, 0xa0],
   [0x04, 0x07, 0x9c, 0x90, 0xb0, 0xa0, 0x04, 0x0b, 0x9c, 0x90, 0xb0, 0xa0],
   [0x04, 0x0f, 0x9c, 0x91, 0x2a, 0x69, 0x67, 0x5f, 0x6e, 0x6f, 0x64, 0x65],
   [0x61, 0x70, 0x69, 0x25, 0x6e, 0x6f, 0x64, 0x65, 0x73, 0x40, 0x24, 0x75],
   [0x73, 0x65, 0x72, 0x40, 0x28, 0x4e, 0x6f, 0x64, 0x65, 0x55, 0x73, 0x65],
   [0x72, 0x40, 0xa0, 0xa0, 0xa0, 0xa0, 0x00, 0x5c, 0x48, 0xa0, 0x00, 0x5c],
   [0x5a, 0xb0, 0x2d, 0x24, 0x70, 0x61, 0x72, 0x61, 0x6d, 0x65, 0x74, 0x65],
   [0x72, 0x24, 0x76, 0x63, 0x40, 0x90, 0xa0, 0xa0, 0xa0, 0x00, 0x5c, 0x4c]]"

definition dictionary_rows_54 :: "u8 list list" where
  "dictionary_rows_54 =
  [[0xa0, 0x00, 0x5c, 0x5a, 0x9c, 0x90, 0xb0, 0xa0, 0x04, 0x07, 0x9c, 0x90],
   [0xb0, 0xa0, 0x04, 0x0b, 0x9c, 0x90, 0xb0, 0xa0, 0x04, 0x0f, 0x9c, 0x91],
   [0x2a, 0x69, 0x67, 0x5f, 0x6e, 0x6f, 0x64, 0x65, 0x61, 0x70, 0x69, 0x27],
   [0x70, 0x72, 0x69, 0x76, 0x61, 0x63, 0x79, 0x40, 0x2e, 0x76, 0x69, 0x65],
   [0x77, 0x65, 0x72, 0x5f, 0x63, 0x6f, 0x6e, 0x74, 0x65, 0x78, 0x74, 0x40],
   [0x2e, 0x49, 0x56, 0x69, 0x65, 0x77, 0x65, 0x72, 0x43, 0x6f, 0x6e, 0x74],
   [0x65, 0x78, 0x74, 0x40, 0xa0, 0xa0, 0xa0, 0xa0, 0x00, 0x5d, 0x48, 0xa0],
   [0x00, 0x5d, 0x60, 0xb0, 0x34, 0x24, 0x70, 0x61, 0x72, 0x61, 0x6d, 0x65],
   [0x74, 0x65, 0x72, 0x24, 0x64, 0x65, 0x76, 0x69, 0x63, 0x65, 0x5f, 0x69],
   [0x64, 0x40, 0x90, 0xa0, 0xa0, 0xa0, 0x00, 0x5d, 0x53, 0xa0, 0x00, 0x5d],
   [0x60, 0x92, 0xa0, 0xa0, 0xa0, 0xa0, 0x00, 0x5d, 0x53, 0xa0, 0x00, 0x5d],
   [0x5b, 0x9c, 0x90, 0xb0, 0xa0, 0x04, 0x07, 0x9c, 0x90, 0xb0, 0xa0, 0x04],
   [0x0b, 0x9c, 0x91, 0x26, 0x74, 0x79, 0x70, 0x69, 0x6e, 0x67, 0x28, 0x4f],
   [0x70, 0x74, 0x69, 0x6f, 0x6e, 0x61, 0x6c, 0x40, 0x2b, 0x5f, 0x5f, 0x67],
   [0x65, 0x74, 0x69, 0x74, 0x65, 0x6d, 0x5f, 0x5f, 0x41, 0xa0, 0xa0, 0x40],
   [0xa0, 0xa0, 0xa0, 0x00, 0x5d, 0x5c, 0xa0, 0x00, 0x5d, 0x5f, 0x9c, 0x91],
   [0x23, 0x73, 0x74, 0x72, 0x40, 0x40, 0x40, 0x90, 0xa0, 0xa0, 0xa0, 0x00],
   [0x5e, 0x49, 0xa0, 0x00, 0x5e, 0x4d, 0x94, 0x40, 0x40, 0x40, 0x90, 0xa0],
   [0x04, 0x83, 0xa0, 0x04, 0x82, 0xa0, 0x04, 0x78, 0x40, 0x40, 0x40, 0x40],
   [0xa0, 0xa0, 0xa0, 0xa0, 0x00, 0x5f, 0x48, 0xa0, 0x00, 0x5f, 0x58, 0x90],
   [0xb0, 0xa0, 0xa0, 0x04, 0x06, 0xa0, 0x00, 0x2e, 0x65, 0x64, 0x67, 0x65],
   [0x73, 0x2e, 0x6d, 0x65, 0x64, 0x69, 0x61, 0x5f, 0x74, 0x6f, 0x5f, 0x78],
   [0x73, 0x68, 0x61, 0x72, 0x65, 0x64, 0x5f, 0x75, 0x73, 0x65, 0x72, 0x5f],
   [0x6f, 0x6e, 0x5f, 0x64, 0x69, 0x72, 0x65, 0x63, 0x74, 0x5f, 0x6d, 0x65],
   [0x64, 0x69, 0x61, 0x2e, 0x45, 0x64, 0x67, 0x65, 0x53, 0x65, 0x74, 0x4d],
   [0x65, 0x64, 0x69, 0x61, 0x54, 0x6f, 0x58, 0x73, 0x68, 0x61, 0x72, 0x65],
   [0x64, 0x55, 0x73, 0x65, 0x72, 0x4f, 0x6e, 0x44, 0x69, 0x72, 0x65, 0x63],
   [0x74, 0x4d, 0x65, 0x64, 0x69, 0x61, 0x2e, 0x5f, 0x5f, 0x69, 0x6e, 0x69],
   [0x74, 0x5f, 0x5f, 0xa0, 0x3e, 0x69, 0x6e, 0x69, 0x74, 0x69, 0x61, 0x6c],
   [0x69, 0x7a, 0x65, 0x5f, 0x61, 0x74, 0x74, 0x72, 0x69, 0x62, 0x75, 0x74]] @
  [[0x65, 0x73, 0x5f, 0x66, 0x6f, 0x72, 0x5f, 0x74, 0x65, 0x73, 0x74, 0x40],
   [0x84, 0x95, 0xa6, 0xbe, 0x00, 0x00, 0x00, 0x4d, 0x00, 0x00, 0x00, 0x04],
   [0x00, 0x00, 0x00, 0x1b, 0x00, 0x00, 0x00, 0x12, 0xa0, 0x09, 0x42, 0x69],
   [0x67, 0x5f, 0x6e, 0x6f, 0x64, 0x65, 0x61, 0x70, 0x69, 0x2e, 0x6e, 0x6f],
   [0x64, 0x65, 0x73, 0x2e, 0x6e, 0x61, 0x6d, 0x65, 0x74, 0x61, 0x67, 0x2e],
   [0x4e, 0x6f, 0x64, 0x65, 0x43, 0x72, 0x65, 0x61, 0x74, 0x65, 0x4e, 0x61],
   [0x6d, 0x65, 0x74, 0x61, 0x67, 0x2e, 0x73, 0x65, 0x74, 0x5f, 0x68, 0x61],
   [0x73, 0x5f, 0x63, 0x72, 0x65, 0x61, 0x74, 0x69, 0x76, 0x65, 0x5f, 0x63],
   [0x6f, 0x6e, 0x66, 0x69, 0x67, 0xa0, 0x25, 0x76, 0x61, 0x6c, 0x75, 0x65],
   [0x40, 0x84, 0x95, 0xa6, 0xbe, 0x00, 0x00, 0x00, 0x01, 0x00, 0x00, 0x00],
   [0x00, 0x00, 0x00, 0x00, 0x00, 0x00, 0x00, 0x00, 0x00, 0x40, 0x84, 0x95],
   [0xa6, 0xbe, 0x00, 0x00, 0x00, 0x01, 0x00, 0x00, 0x00, 0x00, 0x00, 0x00],
   [0x00, 0x00, 0x00, 0x00, 0x00, 0x00, 0x40, 0x84, 0x95, 0xa6, 0xbe, 0x00],
   [0x00, 0x00, 0x05, 0x00, 0x00, 0x00, 0x02, 0x00, 0x00, 0x00, 0x06, 0x00],
   [0x00, 0x00, 0x06, 0xa0, 0x40, 0xa0, 0x41, 0x42, 0x84, 0x95, 0xa6, 0xbe],
   [0x00, 0x00, 0x00, 0x26, 0x00, 0x00, 0x00, 0x04, 0x00, 0x00, 0x00, 0x12],
   [0x00, 0x00, 0x00, 0x0d, 0xa0, 0x3d, 0x75, 0x74, 0x69, 0x6c, 0x2e, 0x73],
   [0x74, 0x61, 0x74, 0x73, 0x64, 0x2e, 0x53, 0x74, 0x61, 0x74, 0x73, 0x64],
   [0x43, 0x6c, 0x69, 0x65, 0x6e, 0x74, 0x2e, 0x69, 0x6e, 0x63, 0x72, 0xa0],
   [0x24, 0x6e, 0x61, 0x6d, 0x65, 0x40, 0x84, 0x95, 0xa6, 0xbe, 0x00, 0x00],
   [0x00, 0x1f, 0x00, 0x00, 0x00, 0x04, 0x00, 0x00, 0x00, 0x10, 0x00, 0x00],
   [0x00, 0x0c, 0xa0, 0x34, 0x4f, 0x62, 0x6a, 0x7b, 0x3c, 0x66, 0x6f, 0x72],
   [0x6d, 0x61, 0x74, 0x2d, 0x73, 0x74, 0x72, 0x69, 0x6e, 0x67, 0x3e, 0x7d],
   [0xa0, 0x26, 0x72, 0x65, 0x74, 0x75, 0x72, 0x6e, 0x40, 0x84, 0x95, 0xa6],
   [0xbe, 0x00, 0x00, 0x00, 0x0a, 0x00, 0x00, 0x00, 0x01, 0x00, 0x00, 0x00],
   [0x04, 0x00, 0x00, 0x00, 0x03, 0x29, 0x3c, 0x6e, 0x75, 0x6d, 0x65, 0x72],
   [0x69, 0x63, 0x3e, 0x84, 0x95, 0xa6, 0xbe, 0x00, 0x00, 0x01, 0x2b, 0x00],
   [0x00, 0x00, 0x43, 0x00, 0x00, 0x00, 0xde, 0x00, 0x00, 0x00, 0xcc, 0xb0],
   [0xa0, 0x31, 0x6d, 0x65, 0x73, 0x73, 0x61, 0x67, 0x69, 0x6e, 0x67, 0x5f],
   [0x69, 0x6e, 0x74, 0x65, 0x72, 0x6f, 0x70, 0xa0, 0x2f, 0x69, 0x67, 0x5f]] @
  [[0x73, 0x65, 0x6e, 0x64, 0x5f, 0x73, 0x65, 0x72, 0x76, 0x69, 0x63, 0x65],
   [0xa0, 0x25, 0x74, 0x79, 0x70, 0x65, 0x73, 0x40, 0x90, 0xa0, 0xa0, 0xa0],
   [0x01, 0x12, 0x7d, 0x44, 0xa0, 0x01, 0x12, 0x7d, 0x00, 0x65, 0xc0, 0x08],
   [0x00, 0x00, 0x20, 0x00, 0xa0, 0x04, 0x0d, 0xa0, 0x04, 0x0c, 0xa0, 0x04],
   [0x0b, 0xa0, 0x33, 0x52, 0x65, 0x6d, 0x6f, 0x76, 0x65, 0x55, 0x73, 0x65],
   [0x72, 0x73, 0x52, 0x65, 0x73, 0x70, 0x6f, 0x6e, 0x73, 0x65, 0xa0, 0x2a],
   [0x5f, 0x74, 0x6f, 0x5f, 0x70, 0x79, 0x74, 0x68, 0x6f, 0x6e, 0x40, 0xa0],
   [0xa0, 0xa0, 0xa0, 0x01, 0x12, 0x7d, 0x53, 0xa0, 0x01, 0x12, 0x7d, 0x57],
   [0xb0, 0x2f, 0x24, 0x70, 0x61, 0x72, 0x61, 0x6d, 0x65, 0x74, 0x65, 0x72],
   [0x24, 0x73, 0x65, 0x6c, 0x66, 0x40, 0x40, 0x40, 0x40, 0x90, 0xa0, 0xa0],
   [0xa0, 0x01, 0x12, 0x7d, 0x5c, 0xa0, 0x01, 0x12, 0x7d, 0x00, 0x60, 0x9c],
   [0x90, 0xb0, 0xa0, 0x04, 0x07, 0x9c, 0x90, 0xb0, 0xa0, 0x04, 0x0b, 0x9c],
   [0x90, 0xb0, 0xa0, 0x04, 0x0f, 0x9c, 0x91, 0x31, 0x6d, 0x65, 0x73, 0x73],
   [0x61, 0x67, 0x69, 0x6e, 0x67, 0x5f, 0x69, 0x6e, 0x74, 0x65, 0x72, 0x6f],
   [0x70, 0x2f, 0x69, 0x67, 0x5f, 0x73, 0x65, 0x6e, 0x64, 0x5f, 0x73, 0x65],
   [0x72, 0x76, 0x69, 0x63, 0x65, 0x40, 0x2c, 0x74, 0x68, 0x72, 0x69, 0x66],
   [0x74, 0x5f, 0x74, 0x79, 0x70, 0x65, 0x73, 0x40, 0x33, 0x52, 0x65, 0x6d],
   [0x6f, 0x76, 0x65, 0x55, 0x73, 0x65, 0x72, 0x73, 0x52, 0x65, 0x73, 0x70],
   [0x6f, 0x6e, 0x73, 0x65, 0x40, 0x40, 0x40, 0x90, 0xa0, 0x04, 0x33, 0xa0],
   [0x04, 0x32, 0xa0, 0x04, 0x31, 0xa0, 0x04, 0x26, 0x40, 0x40, 0x40, 0x40],
   [0xa0, 0xa0, 0xa0, 0xa0, 0x01, 0x12, 0x7d, 0x00, 0x62, 0xa0, 0x01, 0x12],
   [0x7d, 0x00, 0x65, 0x95, 0xa0, 0xa0, 0xa0, 0x01, 0x12, 0x7d, 0x00, 0x62],
   [0xa0, 0x01, 0x12, 0x7d, 0x00, 0x65, 0x94, 0x41, 0x40, 0x40, 0x84, 0x95],
   [0xa6, 0xbe, 0x00, 0x00, 0x02, 0x57, 0x00, 0x00, 0x00, 0x6b, 0x00, 0x00],
   [0x01, 0x82, 0x00, 0x00, 0x01, 0x51, 0xa0, 0xa0, 0x2d, 0x69, 0x67, 0x5f],
   [0x74, 0x77, 0x6f, 0x5f, 0x66, 0x61, 0x63, 0x74, 0x6f, 0x72, 0xa0, 0x37],
   [0x74, 0x72, 0x75, 0x73, 0x74, 0x65, 0x64, 0x5f, 0x64, 0x65, 0x76, 0x69],
   [0x63, 0x65, 0x73, 0x5f, 0x73, 0x65, 0x72, 0x76, 0x69, 0x63, 0x65, 0xa0],
   [0x2b, 0x61, 0x6e, 0x6e, 0x6f, 0x74, 0x61, 0x74, 0x69, 0x6f, 0x6e, 0x73],
   [0x40, 0xa0, 0xa0, 0x04, 0x07, 0xa0, 0x04, 0x06, 0xa0, 0x28, 0x4f, 0x70]] @
  [[0x74, 0x69, 0x6f, 0x6e, 0x61, 0x6c, 0x40, 0xa0, 0xa0, 0x04, 0x0c, 0xa0],
   [0x04, 0x0b, 0xa0, 0x28, 0x53, 0x65, 0x71, 0x75, 0x65, 0x6e, 0x63, 0x65],
   [0x40, 0xa0, 0xa0, 0x04, 0x11, 0xa0, 0x04, 0x10, 0xa0, 0x21, 0x50, 0x40],
   [0xa0, 0xa0, 0x04, 0x16, 0xa0, 0x04, 0x15, 0xa0, 0x35, 0x54, 0x77, 0x6f],
   [0x46, 0x61, 0x63, 0x74, 0x6f, 0x72, 0x45, 0x76, 0x65, 0x6e, 0x74, 0x53],
   [0x6f, 0x75, 0x72, 0x63, 0x65, 0x73, 0x40, 0xa0, 0xa0, 0x04, 0x1b, 0xa0],
   [0x04, 0x1a, 0xa0, 0x09, 0x24, 0x67, 0x65, 0x74, 0x5f, 0x64, 0x65, 0x76],
   [0x69, 0x63, 0x65, 0x5f, 0x6f, 0x72, 0x5f, 0x6f, 0x73, 0x5f, 0x74, 0x79],
   [0x70, 0x65, 0x5f, 0x66, 0x72, 0x6f, 0x6d, 0x5f, 0x75, 0x61, 0x5f, 0x73],
   [0x74, 0x72, 0x69, 0x6e, 0x67, 0x40, 0xa0, 0xa0, 0x04, 0x20, 0xa0, 0x04],
   [0x1f, 0xa0, 0x2a, 0x44, 0x65, 0x76, 0x69, 0x63, 0x65, 0x54, 0x79, 0x70],
   [0x65, 0x40, 0xa0, 0xa0, 0x04, 0x25, 0xa0, 0x04, 0x24, 0xa0, 0x28, 0x4e],
   [0x6f, 0x64, 0x65, 0x55, 0x73, 0x65, 0x72, 0x40, 0xa0, 0xa0, 0x04, 0x2a],
   [0xa0, 0x04, 0x29, 0xa0, 0x3a, 0x41, 0x75, 0x74, 0x68, 0x65, 0x6e, 0x74],
   [0x69, 0x63, 0x61, 0x74, 0x65, 0x64, 0x56, 0x69, 0x65, 0x77, 0x65, 0x72],
   [0x43, 0x6f, 0x6e, 0x74, 0x65, 0x78, 0x74, 0x40, 0xa0, 0xa0, 0x04, 0x65],
   [0x61, 0x74, 0x75, 0x72, 0x65, 0x73, 0x40, 0xa0, 0xa0, 0xa0, 0xa0, 0x01],
   [0x01, 0xed, 0x44, 0xa0, 0x01, 0x01, 0xee, 0x5e, 0x98, 0xb0, 0xa0, 0xa0],
   [0xa0, 0x01, 0x01, 0xed, 0x47, 0xa0, 0x01, 0x01, 0xed, 0x70, 0x93, 0xb0],
   [0xa0, 0xa0, 0xa0, 0x01, 0x01, 0xed, 0x47, 0xa0, 0x01, 0x01, 0xed, 0x55],
   [0x9c, 0x91, 0x04, 0x1c, 0x43, 0xa0, 0xa0, 0xa0, 0x01, 0x01, 0xed, 0x59],
   [0x04, 0x0c, 0x9c, 0x90, 0xb0, 0xa0, 0xa0, 0xa0, 0x01, 0x01, 0xed, 0x59],
   [0xa0, 0x01, 0x01, 0xed, 0x68, 0x9c, 0x91, 0x3a, 0x24, 0x70, 0x61, 0x72],
   [0x61, 0x6d, 0x65, 0x74, 0x65, 0x72, 0x24, 0x6d, 0x65, 0x74, 0x61, 0x64],
   [0x61, 0x74, 0x61, 0x5f, 0x73, 0x74, 0x72, 0x75, 0x63, 0x74, 0x27, 0x73],
   [0x74, 0x72, 0x75, 0x63, 0x74, 0x73, 0x40, 0xa0, 0xa0, 0xa0, 0xa0, 0x01],
   [0x01, 0xee, 0x48, 0xa0, 0x01, 0x01, 0xee, 0x5e, 0x9d, 0xa0, 0x40, 0x90],
   [0xa0, 0xa0, 0xa0, 0x01, 0x01, 0xee, 0x4f, 0xa0, 0x01, 0x01, 0xee, 0x5e],
   [0x9c, 0x91, 0x04, 0x10, 0x40, 0x40, 0xa0, 0xa0, 0xa0, 0xa0, 0x01, 0x01],
   [0xef, 0x44, 0xa0, 0x01, 0x02, 0x4a, 0x45, 0x90, 0xb0, 0xa0, 0xa0, 0x04]] @
  [[0x06, 0xa0, 0x01, 0x01, 0xef, 0x4a, 0x9c, 0x91, 0x09, 0x89, 0x24, 0x6c],
   [0x6f, 0x63, 0x61, 0x6c, 0x5f, 0x69, 0x67, 0x74, 0x68, 0x72, 0x69, 0x66],
   [0x74, 0x3f, 0x67, 0x65, 0x6e, 0x3f, 0x49, 0x41, 0x46, 0x45, 0x3f, 0x69],
   [0x61, 0x66, 0x5f, 0x65, 0x76, 0x65, 0x6e, 0x74, 0x5f, 0x67, 0x72, 0x6f],
   [0x75, 0x70, 0x5f, 0x63, 0x6f, 0x6d, 0x6d, 0x65, 0x6e, 0x74, 0x5f, 0x65],
   [0x64, 0x69, 0x74, 0x3f, 0x74, 0x68, 0x72, 0x69, 0x66, 0x74, 0x5f, 0x6d],
   [0x65, 0x74, 0x61, 0x64, 0x61, 0x74, 0x61, 0x3f, 0x5f, 0x66, 0x62, 0x74],
   [0x68, 0x72, 0x69, 0x66, 0x74, 0x5f, 0x67, 0x65, 0x6e, 0x5f, 0x6d, 0x65],
   [0x74, 0x61, 0x64, 0x61, 0x74, 0x61, 0x5f, 0x73, 0x74, 0x72, 0x75, 0x63],
   [0x74, 0x5f, 0x47, 0x72, 0x6f, 0x75, 0x70, 0x43, 0x6f, 0x6d, 0x6d, 0x65],
   [0x6e, 0x74, 0x45, 0x64, 0x69, 0x74, 0x53, 0x6f, 0x75, 0x72, 0x63, 0x65],
   [0x46, 0x65, 0x61, 0x74, 0x75, 0x72, 0x65, 0x73, 0x24, 0x66, 0x69, 0x65],
   [0x6c, 0x64, 0x73, 0x40, 0xa0, 0xa0, 0xa0, 0x01, 0x01, 0xef, 0x4d, 0xa0],
   [0x01, 0x02, 0x4a, 0x45, 0x9a, 0xa0, 0xa0, 0xa0, 0xa0, 0x01, 0x01, 0xf0],
   [0x48, 0xa0, 0x01, 0x01, 0xf1, 0x4a, 0x92, 0xa0, 0xa0, 0xa0, 0xa0, 0x01],
   [0x01, 0xf0, 0x48, 0xa0, 0x01, 0x01, 0xf0, 0x66, 0x9c, 0x90, 0xb0, 0xa0],
   [0xa0, 0xa0, 0x01, 0x01, 0xf0, 0x48, 0xa0, 0x01, 0x01, 0xf0, 0x5a, 0x9c],
   [0x90, 0xb0, 0xa0, 0x04, 0x07, 0x9c, 0x90, 0xb0, 0xa0, 0x04, 0x0b, 0x9c],
   [0x90, 0xb0, 0xa0, 0x04, 0x0f, 0x9c, 0x91, 0x04, 0x96, 0x04, 0x95, 0x40],
   [0x04, 0x94, 0x40, 0x04, 0x93, 0x40, 0x2b, 0x54, 0x68, 0x72, 0x69, 0x66],
   [0x74, 0x46, 0x69, 0x65, 0x6c, 0x64, 0x40, 0xa0, 0xa0, 0x90, 0xa0, 0xa0],
   [0xa0, 0x01, 0x01, 0xf0, 0x67, 0xa0, 0x01, 0x01, 0xf0, 0x69, 0x2d, 0x24],
   [0x70, 0x61, 0x72, 0x61, 0x6d, 0x65, 0x74, 0x65, 0x72, 0x24, 0x69, 0x64],
   [0xa0, 0xa0, 0xa0, 0x01, 0x01, 0xf0, 0x6a, 0xa0, 0x01, 0x01, 0xf0, 0x6b],
   [0x94, 0x90, 0x41, 0xa0, 0xa0, 0x90, 0xa0, 0xa0, 0xa0, 0x01, 0x01, 0xf0],
   [0x6d, 0xa0, 0x01, 0x01, 0xf0, 0x71, 0x2f, 0x24, 0x70, 0x61, 0x72, 0x61],
   [0x6d, 0x65, 0x74, 0x65, 0x72, 0x24, 0x74, 0x79, 0x70, 0x65, 0xa0, 0xa0],
   [0xa0, 0x01, 0x01, 0xf0, 0x72, 0xa0, 0x01, 0x01, 0xf0, 0x01, 0x00, 0x96],
   [0x92, 0xa0, 0xa0, 0xa0, 0xa0, 0x01, 0x01, 0xf0, 0x72, 0xa0, 0x01, 0x01],
   [0xf0, 0x00, 0x4f, 0x9c, 0x90, 0xb0, 0xa0, 0xa0, 0xa0, 0x01, 0x01, 0xf0]]"

definition dictionary_rows_55 :: "u8 list list" where
  "dictionary_rows_55 =
  [[0x72, 0xa0, 0x01, 0x01, 0xf0, 0x00, 0x44, 0x9c, 0x90, 0xb0, 0xa0, 0x04],
   [0x07, 0x9c, 0x90, 0xb0, 0xa0, 0x04, 0x0b, 0x9c, 0x90, 0xb0, 0xa0, 0x04],
   [0x0f, 0x9c, 0x91, 0x04, 0xcc, 0x04, 0xcb, 0x40, 0x04, 0xca, 0x40, 0x04],
   [0xc9, 0x40, 0x2a, 0x54, 0x68, 0x72, 0x69, 0x66, 0x74, 0x54, 0x79, 0x70],
   [0x65, 0x40, 0xa0, 0xa0, 0x90, 0xa0, 0xa0, 0xa0, 0x01, 0x01, 0xf0, 0x00],
   [0x50, 0xa0, 0x01, 0x01, 0xf0, 0x00, 0x5b, 0x36, 0x24, 0x70, 0x61, 0x72],
   [0x61, 0x6d, 0x65, 0x74, 0x65, 0x72, 0x24, 0x74, 0x5f, 0x70, 0x72, 0x69],
   [0x6d, 0x69, 0x74, 0x69, 0x76, 0x65, 0xa0, 0xa0, 0xa0, 0x01, 0x01, 0xf0],
   [0x00, 0x5c, 0xa0, 0x01, 0x01, 0xf0, 0x01, 0x00, 0x95, 0x9c, 0x90, 0xb0],
   [0xa0, 0xa0, 0xa0, 0x01, 0x01, 0xf0, 0x00, 0x5c, 0xa0, 0x01, 0x01, 0xf0],
   [0x01, 0x00, 0x82, 0x9c, 0x90, 0xb0, 0xa0, 0xa0, 0xa0, 0x01, 0x01, 0xf0],
   [0x00, 0x5c, 0xa0, 0x01, 0x01, 0xf0, 0x00, 0x6e, 0x9c, 0x90, 0xb0, 0xa0],
   [0x04, 0x07, 0x9c, 0x90, 0xb0, 0xa0, 0x04, 0x0b, 0x9c, 0x90, 0xb0, 0xa0],
   [0x04, 0x0f, 0x9c, 0x91, 0x04, 0xf5, 0x04, 0xf4, 0x40, 0x04, 0xf3, 0x40],
   [0x04, 0xf2, 0x40, 0x33, 0x54, 0x68, 0x72, 0x69, 0x66, 0x74, 0x50, 0x72],
   [0x69, 0x6d, 0x69, 0x74, 0x69, 0x76, 0x65, 0x54, 0x79, 0x70, 0x65, 0x40],
   [0x32, 0x54, 0x48, 0x52, 0x49, 0x46, 0x54, 0x5f, 0x53, 0x54, 0x52, 0x49],
   [0x4e, 0x47, 0x5f, 0x54, 0x59, 0x50, 0x45, 0x40, 0x40, 0xa0, 0xa0, 0x90],
   [0xa0, 0xa0, 0xa0, 0x01, 0x01, 0xf0, 0x01, 0x00, 0x98, 0xa0, 0x01, 0x01],
   [0xf0, 0x01, 0x00, 0x9c, 0x2f, 0x24, 0x70, 0x61, 0x72, 0x61, 0x6d, 0x65],
   [0x74, 0x65, 0x72, 0x24, 0x6e, 0x61, 0x6d, 0x65, 0xa0, 0xa0, 0xa0, 0x01],
   [0x01, 0xf0, 0x01, 0x00, 0x9d, 0xa0, 0x01, 0x01, 0xf0, 0x01, 0x00, 0xb5],
   [0x94, 0x94, 0xa0, 0x36, 0x61, 0x63, 0x63, 0x65, 0x70, 0x74, 0x5f, 0x6c],
   [0x61, 0x6e, 0x67, 0x75, 0x61, 0x67, 0x65, 0x5f, 0x68, 0x65, 0x61, 0x64],
   [0x65, 0x72, 0x40, 0xa0, 0xa0, 0x90, 0xa0, 0xa0, 0xa0, 0x01, 0x01, 0xf0],
   [0x01, 0x00, 0xb7, 0xa0, 0x01, 0x01, 0xf0, 0x01, 0x00, 0xc2, 0x36, 0x24],
   [0x70, 0x61, 0x72, 0x61, 0x6d, 0x65, 0x74, 0x65, 0x72, 0x24, 0x69, 0x73],
   [0x5f, 0x6f, 0x70, 0x74, 0x69, 0x6f, 0x6e, 0x61, 0x6c, 0xa0, 0xa0, 0xa0],
   [0x01, 0x01, 0xf0, 0x01, 0x00, 0xc3, 0xa0, 0x01, 0x01, 0xf0, 0x01, 0x00],
   [0xc8, 0x94, 0x42, 0xa0, 0xa0, 0x90, 0xa0, 0xa0, 0xa0, 0x01, 0x01, 0xf0]] @
  [[0x01, 0x00, 0xca, 0xa0, 0x01, 0x01, 0xf0, 0x01, 0x00, 0xe0, 0x09, 0x21],
   [0x24, 0x70, 0x61, 0x72, 0x61, 0x6d, 0x65, 0x74, 0x65, 0x72, 0x24, 0x73],
   [0x74, 0x72, 0x75, 0x63, 0x74, 0x75, 0x72, 0x65, 0x64, 0x5f, 0x61, 0x6e],
   [0x6e, 0x6f, 0x74, 0x61, 0x74, 0x69, 0x6f, 0x6e, 0x73, 0xa0, 0xa0, 0xa0],
   [0x01, 0x01, 0xf0, 0x01, 0x00, 0xe1, 0xa0, 0x01, 0x01, 0xf1, 0x49, 0x9a],
   [0x40, 0x40, 0xa0, 0xa0, 0xa0, 0xa0, 0x01, 0x01, 0xf2, 0x48, 0xa0, 0x01],
   [0x01, 0xf3, 0x4a, 0x92, 0xa0, 0xa0, 0xa0, 0xa0, 0x01, 0x01, 0xf2, 0x48],
   [0xa0, 0x01, 0x01, 0xf2, 0x66, 0x9c, 0x90, 0xb0, 0xa0, 0xa0, 0xa0, 0x01],
   [0x01, 0xf2, 0x48, 0xa0, 0x01, 0x01, 0xf2, 0x5a, 0x9c, 0x90, 0xb0, 0xa0],
   [0x04, 0x07, 0x9c, 0x90, 0xb0, 0xa0, 0x04, 0x0b, 0x9c, 0x90, 0xb0, 0xa0],
   [0x04, 0x0f, 0x9c, 0x91, 0x05, 0x01, 0x41, 0x05, 0x01, 0x40, 0x40, 0x05],
   [0x01, 0x3f, 0x40, 0x65, 0x6d, 0x4f, 0x76, 0x65, 0x72, 0x72, 0x69, 0x64],
   [0x65, 0xa0, 0x35, 0x5f, 0x73, 0x63, 0x68, 0x65, 0x6d, 0x61, 0x5f, 0x69],
   [0x64, 0x5f, 0x44, 0x4f, 0x5f, 0x4e, 0x4f, 0x54, 0x5f, 0x55, 0x53, 0x45],
   [0x40, 0xa0, 0xa0, 0xa0, 0xa0, 0x01, 0x00, 0x87, 0x5e, 0xa0, 0x01, 0x00],
   [0x87, 0x61, 0xb0, 0x2e, 0x24, 0x70, 0x61, 0x72, 0x61, 0x6d, 0x65, 0x74],
   [0x65, 0x72, 0x24, 0x63, 0x6c, 0x73, 0x40, 0x40, 0x40, 0xa0, 0xa0, 0xa0],
   [0xa0, 0x01, 0x00, 0x86, 0x45, 0xa0, 0x01, 0x00, 0x86, 0x50, 0x9c, 0x91],
   [0x2b, 0x63, 0x6c, 0x61, 0x73, 0x73, 0x6d, 0x65, 0x74, 0x68, 0x6f, 0x64],
   [0x40, 0x90, 0xa0, 0xa0, 0xa0, 0x01, 0x00, 0x87, 0x66, 0xa0, 0x01, 0x00],
   [0x87, 0x69, 0x9c, 0x91, 0x23, 0x69, 0x6e, 0x74, 0x40, 0x40, 0x90, 0xa0],
   [0x04, 0x2c, 0xa0, 0x04, 0x2b, 0xa0, 0x04, 0x2a, 0xa0, 0x04, 0x1f, 0x40],
   [0x40, 0x40, 0x40, 0xa0, 0xa0, 0xa0, 0xa0, 0x01, 0x00, 0x88, 0x48, 0xa0],
   [0x01, 0x00, 0x88, 0x64, 0x9d, 0xa0, 0x40, 0x90, 0xa0, 0xa0, 0xa0, 0x01],
   [0x00, 0x88, 0x4f, 0xa0, 0x01, 0x00, 0x88, 0x64, 0x9c, 0x90, 0xb0, 0xa0],
   [0x04, 0x07, 0x9c, 0x90, 0xb0, 0xa0, 0x04, 0x0b, 0x9c, 0x90, 0xb0, 0xa0],
   [0x04, 0x0f, 0x9c, 0x90, 0xb0, 0xa0, 0x04, 0x13, 0x9c, 0x90, 0xb0, 0xa0],
   [0x04, 0x17, 0x9c, 0x91, 0x2a, 0x69, 0x67, 0x5f, 0x6e, 0x6f, 0x64, 0x65],
   [0x61, 0x70, 0x69, 0x25, 0x6e, 0x6f, 0x64, 0x65, 0x73, 0x40, 0x2f, 0x72],
   [0x75, 0x6e, 0x74, 0x69, 0x6d, 0x65, 0x5f, 0x73, 0x63, 0x68, 0x65, 0x6d]] @
  [[0x61, 0x73, 0x40, 0x38, 0x66, 0x62, 0x5f, 0x63, 0x61, 0x74, 0x61, 0x6c],
   [0x6f, 0x67, 0x5f, 0x69, 0x74, 0x65, 0x6d, 0x5f, 0x6f, 0x76, 0x65, 0x72],
   [0x72, 0x69, 0x64, 0x65, 0x40, 0x26, 0x73, 0x63, 0x68, 0x65, 0x6d, 0x61],
   [0x40, 0x09, 0x55, 0x66, 0x72, 0x6f, 0x6d, 0x5f, 0x63, 0x6f, 0x6d, 0x6d],
   [0x65, 0x6e, 0x74, 0x73, 0x5f, 0x76, 0x69, 0x64, 0x65, 0x6f, 0x5f, 0x6f],
   [0x77, 0x6e, 0x65, 0x72, 0x5f, 0x64, 0x65, 0x66, 0x69, 0x6e, 0x65, 0x64],
   [0x5f, 0x6f, 0x6e, 0x5f, 0x66, 0x62, 0x5f, 0x76, 0x69, 0x64, 0x65, 0x6f],
   [0x5f, 0x78, 0x5f, 0x6f, 0x6e, 0x5f, 0x66, 0x62, 0x5f, 0x63, 0x61, 0x74],
   [0x61, 0x6c, 0x6f, 0x67, 0x5f, 0x69, 0x74, 0x65, 0x6d, 0x5f, 0x6f, 0x76],
   [0x65, 0x72, 0x72, 0x69, 0x64, 0x65, 0x5f, 0x73, 0x63, 0x68, 0x65, 0x6d],
   [0x61, 0x5f, 0x69, 0x64, 0x40, 0x40, 0x40, 0x84, 0x95, 0xa6, 0xbe, 0x00],
   [0x00, 0x00, 0x1e, 0x00, 0x00, 0x00, 0x03, 0x00, 0x00, 0x00, 0x0c, 0x00],
   [0x00, 0x00, 0x09, 0x90, 0x94, 0x3b, 0x74, 0x68, 0x72, 0x69, 0x66, 0x74],
   [0x2e, 0x70, 0x79, 0x33, 0x2e, 0x74, 0x79, 0x70, 0x65, 0x73, 0x2e, 0x53],
   [0x74, 0x72, 0x75, 0x63, 0x74, 0x4d, 0x65, 0x74, 0x61, 0x84, 0x95, 0xa6],
   [0xbe, 0x00, 0x00, 0x00, 0x05, 0x00, 0x00, 0x00, 0x02, 0x00, 0x00, 0x00],
   [0x06, 0x00, 0x00, 0x00, 0x06, 0xa0, 0x40, 0xa0, 0x41, 0x40, 0x84, 0x95],
   [0xa6, 0xbe, 0x00, 0x00, 0x00, 0x08, 0x00, 0x00, 0x00, 0x01, 0x00, 0x00],
   [0x00, 0x03, 0x00, 0x00, 0x00, 0x02, 0x27, 0x5f, 0x66, 0x69, 0x65, 0x6c],
   [0x64, 0x73, 0x84, 0x95, 0xa6, 0xbe, 0x00, 0x00, 0x02, 0x61, 0x00, 0x00],
   [0x00, 0x95, 0x00, 0x00, 0x01, 0xdb, 0x00, 0x00, 0x01, 0xb8, 0xb0, 0xa0],
   [0x2a, 0x69, 0x67, 0x5f, 0x6e, 0x6f, 0x64, 0x65, 0x61, 0x70, 0x69, 0xa0],
   [0x25, 0x65, 0x64, 0x67, 0x65, 0x73, 0xa0, 0x09, 0x3a, 0x6d, 0x65, 0x64],
   [0x69, 0x61, 0x5f, 0x74, 0x6f, 0x5f, 0x75, 0x73, 0x65, 0x72, 0x5f, 0x70],
   [0x61, 0x79, 0x5f, 0x6d, 0x65, 0x64, 0x69, 0x61, 0x5f, 0x69, 0x6e, 0x73],
   [0x69, 0x67, 0x68, 0x74, 0x73, 0x5f, 0x6f, 0x6e, 0x5f, 0x66, 0x65, 0x65],
   [0x64, 0x5f, 0x63, 0x61, 0x72, 0x6f, 0x75, 0x73, 0x65, 0x6c, 0x5f, 0x73],
   [0x75, 0x62, 0x5f, 0x70, 0x6f, 0x73, 0x74, 0x40, 0x90, 0xa0, 0xa0, 0xa0],
   [0x01, 0x00, 0x86, 0x44, 0xa0, 0x01, 0x00, 0x89, 0x49, 0xc0, 0x08, 0x00],
   [0x00, 0x20, 0x00, 0xa0, 0x04, 0x0d, 0xa0, 0x04, 0x0c, 0xa0, 0x04, 0x0b]] @
  [[0xa0, 0x09, 0x39, 0x45, 0x64, 0x67, 0x65, 0x4d, 0x65, 0x64, 0x69, 0x61],
   [0x54, 0x6f, 0x55, 0x73, 0x65, 0x72, 0x50, 0x61, 0x79, 0x4d, 0x65, 0x64],
   [0x69, 0x61, 0x49, 0x6e, 0x73, 0x69, 0x67, 0x68, 0x74, 0x73, 0x4f, 0x6e],
   [0x46, 0x65, 0x65, 0x64, 0x43, 0x61, 0x72, 0x6f, 0x75, 0x73, 0x65, 0x6c],
   [0x53, 0x75, 0x62, 0x50, 0x6f, 0x73, 0x74, 0x51, 0x75, 0x65, 0x72, 0x79],
   [0xa0, 0x2a, 0x70, 0x6c, 0x75, 0x63, 0x6b, 0x5f, 0x74, 0x69, 0x6d, 0x65],
   [0x40, 0xa0, 0xa0, 0xa0, 0xa0, 0x01, 0x00, 0x86, 0x53, 0xa0, 0x01, 0x00],
   [0x86, 0x57, 0xb0, 0x2f, 0x24, 0x70, 0x61, 0x72, 0x61, 0x6d, 0x65, 0x74],
   [0x65, 0x72, 0x24, 0x73, 0x65, 0x6c, 0x66, 0x40, 0x40, 0x40, 0x40, 0x90],
   [0xa0, 0xa0, 0xa0, 0x01, 0x00, 0x86, 0x5c, 0xa0, 0x01, 0x00, 0x86, 0x6e],
   [0x92, 0xa0, 0xa0, 0xa0, 0xa0, 0x01, 0x00, 0x86, 0x5c, 0xa0, 0x01, 0x00],
   [0x86, 0x69, 0x9c, 0x90, 0xb0, 0xa0, 0x04, 0x07, 0x9c, 0x90, 0xb0, 0xa0],
   [0x04, 0x0b, 0x9c, 0x90, 0xb0, 0xa0, 0x04, 0x0f, 0x9c, 0x91, 0x27, 0x6e],
   [0x6f, 0x64, 0x65, 0x61, 0x70, 0x69, 0x25, 0x51, 0x75, 0x65, 0x72, 0x79],
   [0x40, 0x2d, 0x49, 0x74, 0x65, 0x72, 0x61, 0x62, 0x6c, 0x65, 0x51, 0x75],
   [0x65, 0x72, 0x79, 0x40, 0x2b, 0x5f, 0x5f, 0x67, 0x65, 0x74, 0x69, 0x74],
   [0x65, 0x6d, 0x5f, 0x5f, 0x41, 0xa0, 0xa0, 0x40, 0xa0, 0xa0, 0xa0, 0x01],
   [0x00, 0x86, 0x6a, 0xa0, 0x01, 0x00, 0x86, 0x6d, 0x9c, 0x91, 0x23, 0x69],
   [0x6e, 0x74, 0x40, 0x40, 0x40, 0x90, 0xa0, 0x04, 0x42, 0xa0, 0x04, 0x41],
   [0xa0, 0x04, 0x40, 0xa0, 0x04, 0x35, 0x40, 0x40, 0x40, 0x40, 0xa0, 0xa0],
   [0xa0, 0xa0, 0x01, 0x00, 0x87, 0x48, 0xa0, 0x01, 0x00, 0x89, 0x49, 0x9d],
   [0xa0, 0x40, 0x90, 0xa0, 0xa0, 0xa0, 0x01, 0x00, 0x87, 0x4f, 0xa0, 0x01],
   [0x00, 0x89, 0x49, 0x92, 0xa0, 0xa0, 0xa0, 0xa0, 0x01, 0x00, 0x87, 0x4f],
   [0xa0, 0x01, 0x00, 0x87, 0x5c, 0x9c, 0x90, 0xb0, 0xa0, 0x04, 0x07, 0x9c],
   [0x90, 0xb0, 0xa0, 0x04, 0x0b, 0x9c, 0x91, 0x04, 0x2e, 0x04, 0x2d, 0x40],
   [0x04, 0x2c, 0x40, 0xa0, 0xa0, 0x40, 0xa0, 0xa0, 0xa0, 0x01, 0x00, 0x88],
   [0x4c, 0xa0, 0x01, 0x00, 0x88, 0x00, 0x46, 0x92, 0xa0, 0xa0, 0xa0, 0xa0],
   [0x01, 0x00, 0x88, 0x4c, 0xa0, 0x01, 0x00, 0x88, 0x74, 0x9c, 0x90, 0xb0],
   [0xa0, 0xa0, 0xa0, 0x01, 0x00, 0x88, 0x4c, 0xa0, 0x01, 0x00, 0x88, 0x5e],
   [0x9c, 0x90, 0xb0, 0xa0, 0x04, 0x07, 0x9c, 0x90, 0xb0, 0xa0, 0x04, 0x0b]] @
  [[0x9c, 0x91, 0x2b, 0x6e, 0x6f, 0x64, 0x65, 0x61, 0x70, 0x69, 0x5f, 0x65],
   [0x78, 0x74, 0x2e, 0x43, 0x79, 0x74, 0x68, 0x6f, 0x6e, 0x57, 0x72, 0x61],
   [0x70, 0x70, 0x65, 0x72, 0x73, 0x40, 0x32, 0x50, 0x79, 0x4e, 0x6f, 0x64],
   [0x65, 0x51, 0x4c, 0x45, 0x78, 0x70, 0x72, 0x65, 0x73, 0x73, 0x69, 0x6f],
   [0x6e, 0x40, 0x35, 0x70, 0x6c, 0x75, 0x63, 0x6b, 0x5f, 0x74, 0x69, 0x6d],
   [0x65, 0x5f, 0x65, 0x78, 0x70, 0x72, 0x65, 0x73, 0x73, 0x69, 0x6f, 0x6e],
   [0x40, 0xa0, 0xa0, 0x40, 0xa0, 0xa0, 0xa0, 0x5f, 0xa0, 0x24, 0x73, 0x65],
   [0x6c, 0x66, 0x40, 0x84, 0x95, 0xa6, 0xbe, 0x00, 0x00, 0x00, 0x0a, 0x00],
   [0x00, 0x00, 0x01, 0x00, 0x00, 0x00, 0x04, 0x00, 0x00, 0x00, 0x03, 0x29],
   [0x3c, 0x75, 0x6e, 0x6b, 0x6e, 0x6f, 0x77, 0x6e, 0x3e, 0x84, 0x95, 0xa6],
   [0xbe, 0x00, 0x00, 0x00, 0x05, 0x00, 0x00, 0x00, 0x02, 0x00, 0x00, 0x00],
   [0x06, 0x00, 0x00, 0x00, 0x06, 0xa0, 0x40, 0xa0, 0x41, 0x41, 0x84, 0x95],
   [0xa6, 0xbe, 0x00, 0x00, 0x00, 0x05, 0x00, 0x00, 0x00, 0x02, 0x00, 0x00],
   [0x00, 0x06, 0x00, 0x00, 0x00, 0x06, 0xa0, 0x40, 0xa0, 0x41, 0x41, 0x84],
   [0x95, 0xa6, 0xbe, 0x00, 0x00, 0x00, 0x01, 0x00, 0x00, 0x00, 0x00, 0x00],
   [0x00, 0x00, 0x00, 0x00, 0x00, 0x00, 0x00, 0x40, 0x84, 0x95, 0xa6, 0xbe],
   [0x00, 0x00, 0x00, 0x31, 0x00, 0x00, 0x00, 0x04, 0x00, 0x00, 0x00, 0x14],
   [0x00, 0x00, 0x00, 0x0e, 0xa0, 0x09, 0x27, 0x6e, 0x6f, 0x64, 0x65, 0x61],
   [0x70, 0x69, 0x2e, 0x45, 0x64, 0x67, 0x65, 0x51, 0x75, 0x65, 0x72, 0x79],
   [0x2e, 0x45, 0x64, 0x67, 0x65, 0x53, 0x65, 0x74, 0x51, 0x75, 0x65, 0x72],
   [0x79, 0x2e, 0x5f, 0x5f, 0x69, 0x6e, 0x69, 0x74, 0x5f, 0x5f, 0xa0, 0x24],
   [0x72, 0x6f, 0x6f, 0x74, 0x40, 0x84, 0x95, 0xa6, 0xbe, 0x00, 0x00, 0x00],
   [0x0a, 0x00, 0x00, 0x00, 0x01, 0x00, 0x00, 0x00, 0x04, 0x00, 0x00, 0x00],
   [0x03, 0x29, 0x3c, 0x6e, 0x75, 0x6d, 0x65, 0x72, 0x69, 0x63, 0x3e, 0x84],
   [0x95, 0xa6, 0xbe, 0x00, 0x00, 0x00, 0x0a, 0x00, 0x00, 0x00, 0x01, 0x00],
   [0x00, 0x00, 0x04, 0x00, 0x00, 0x00, 0x03, 0x29, 0x3c, 0x6e, 0x75, 0x6d],
   [0x65, 0x72, 0x69, 0x63, 0x3e, 0x84, 0x95, 0xa6, 0xbe, 0x00, 0x00, 0x00],
   [0x0d, 0x00, 0x00, 0x00, 0x01, 0x00, 0x00, 0x00, 0x05, 0x00, 0x00, 0x00],
   [0x03, 0x2c, 0x71, 0x75, 0x61, 0x6c, 0x69, 0x74, 0x79, 0x5f, 0x69, 0x6e],
   [0x66, 0x6f, 0x84, 0x95, 0xa6, 0xbe, 0x00, 0x00, 0x0e, 0x98, 0x00, 0x00]]"

definition dictionary_rows_56 :: "u8 list list" where
  "dictionary_rows_56 =
  [[0x02, 0x89, 0x00, 0x00, 0x08, 0xa2, 0x00, 0x00, 0x08, 0x80, 0xc0, 0x90],
   [0xd0, 0x40, 0x40, 0xa0, 0xd0, 0x40, 0xc2, 0x40, 0x40, 0xb0, 0xa0, 0x24],
   [0x66, 0x65, 0x65, 0x64, 0xa0, 0x27, 0x72, 0x61, 0x6e, 0x6b, 0x69, 0x6e],
   [0x67, 0xa0, 0x26, 0x6e, 0x65, 0x74, 0x65, 0x67, 0x6f, 0xa0, 0x33, 0x73],
   [0x75, 0x67, 0x67, 0x65, 0x73, 0x74, 0x65, 0x64, 0x5f, 0x70, 0x72, 0x6f],
   [0x64, 0x75, 0x63, 0x65, 0x72, 0x73, 0xa0, 0x27, 0x73, 0x65, 0x72, 0x76],
   [0x69, 0x63, 0x65, 0x40, 0xa0, 0x01, 0x01, 0x38, 0x55, 0xa0, 0x01, 0x01],
   [0x38, 0x00, 0x57, 0xa0, 0x91, 0xb0, 0x09, 0x2b, 0x64, 0x69, 0x73, 0x63],
   [0x6f, 0x76, 0x65, 0x72, 0x2e, 0x68, 0x65, 0x6c, 0x70, 0x65, 0x72, 0x2e],
   [0x43, 0x6f, 0x6e, 0x6e, 0x65, 0x63, 0x74, 0x69, 0x6f, 0x6e, 0x51, 0x45],
   [0x55, 0x6e, 0x69, 0x76, 0x65, 0x72, 0x73, 0x65, 0x43, 0x68, 0x65, 0x63],
   [0x6b, 0x65, 0x72, 0x09, 0x31, 0x61, 0x73, 0x79, 0x6e, 0x63, 0x5f, 0x69],
   [0x73, 0x5f, 0x73, 0x75, 0x5f, 0x74, 0x61, 0x69, 0x6c, 0x5f, 0x6c, 0x6f],
   [0x61, 0x64, 0x5f, 0x67, 0x72, 0x61, 0x70, 0x68, 0x5f, 0x68, 0x6f, 0x6c],
   [0x64, 0x6f, 0x75, 0x74, 0x5f, 0x77, 0x69, 0x74, 0x68, 0x5f, 0x65, 0x78],
   [0x70, 0x6f, 0x73, 0x75, 0x72, 0x65, 0x40, 0x40, 0xf0, 0x90, 0xd0, 0xd0],
   [0x40, 0x90, 0x2f, 0x4e, 0x6f, 0x64, 0x65, 0x46, 0x69, 0x65, 0x6c, 0x64],
   [0x4f, 0x72, 0x45, 0x64, 0x67, 0x65, 0x08, 0x00, 0x00, 0x20, 0x00, 0x90],
   [0xa0, 0xa0, 0x03, 0xe6, 0x06, 0x09, 0x23, 0x4c, 0x07, 0x91, 0x80, 0x90],
   [0x90, 0x03, 0xd3, 0x75, 0xf7, 0x89, 0x55, 0xaf, 0x1d, 0x4c, 0xa0, 0x03],
   [0x02, 0x00, 0x09, 0x01, 0x40, 0x00, 0x00, 0x00, 0x40, 0x90, 0x40, 0x90],
   [0xa0, 0x03, 0x3f, 0xff, 0xff, 0xff, 0xff, 0xff, 0xff, 0xff, 0x40, 0x90],
   [0x48, 0x90, 0x90, 0xc1, 0x40, 0x42, 0x90, 0x03, 0xd6, 0xb3, 0x2f, 0x98],
   [0x3e, 0x11, 0x93, 0x54, 0xc1, 0x6e, 0x00, 0x40, 0x90, 0x03, 0xfa, 0xe9],
   [0x43, 0x01, 0xc9, 0xfa, 0x3c, 0xae, 0x90, 0x03, 0xf1, 0xa5, 0xb0, 0xf5],
   [0xac, 0x06, 0x26, 0xee, 0x90, 0xa0, 0x01, 0x10, 0x00, 0x40, 0x90, 0xa0],
   [0x40, 0x90, 0x90, 0x03, 0x28, 0xbb, 0xf2, 0x81, 0xe4, 0xa7, 0x7d, 0x99],
   [0x90, 0x40, 0x40, 0x41, 0x90, 0x2f, 0x4e, 0x6f, 0x64, 0x65, 0x51, 0x75],
   [0x65, 0x72, 0x79, 0x52, 0x65, 0x73, 0x75, 0x6c, 0x74, 0x08, 0x00, 0x00],
   [0x20, 0x00, 0x90, 0xa0, 0xa0, 0x03, 0xe6, 0x06, 0x09, 0x23, 0x4c, 0x07]] @
  [[0x91, 0x80, 0x90, 0x04, 0x1b, 0xa0, 0x03, 0x02, 0x00, 0x09, 0x01, 0x40],
   [0x00, 0x00, 0x00, 0x40, 0x90, 0x40, 0x90, 0x04, 0x1a, 0x90, 0x4a, 0x90],
   [0x90, 0xc1, 0x41, 0x42, 0x90, 0x03, 0xf6, 0xb7, 0x59, 0xba, 0x46, 0x5a],
   [0x17, 0xa5, 0x90, 0x03, 0xeb, 0x7c, 0xcd, 0xc1, 0x1c, 0x6e, 0x33, 0x3f],
   [0x90, 0xa0, 0x01, 0x10, 0x00, 0x40, 0x90, 0xa0, 0x40, 0x90, 0x90, 0x03],
   [0x18, 0x93, 0xa5, 0xe9, 0x49, 0xe5, 0xee, 0x0b, 0x90, 0x40, 0xd0, 0x40],
   [0x90, 0x33, 0x52, 0x65, 0x71, 0x75, 0x65, 0x73, 0x74, 0x53, 0x70, 0x65],
   [0x63, 0x69, 0x66, 0x69, 0x63, 0x44, 0x61, 0x74, 0x61, 0x08, 0x00, 0x00],
   [0x20, 0x00, 0x90, 0xa0, 0xa0, 0x03, 0xe6, 0x06, 0x09, 0x23, 0x4c, 0x07],
   [0x91, 0x80, 0x90, 0xc1, 0x4c, 0x60, 0x04, 0x34, 0x90, 0x03, 0xff, 0xcd],
   [0xfb, 0xb4, 0xa9, 0x2a, 0x1c, 0x6c, 0xa0, 0x03, 0x02, 0x00, 0x09, 0x01],
   [0x40, 0x00, 0x00, 0x00, 0x40, 0x90, 0x40, 0x90, 0x04, 0x34, 0x90, 0x4b],
   [0x90, 0x90, 0xc1, 0x41, 0x42, 0x90, 0x03, 0xf4, 0xd6, 0x33, 0x07, 0x10],
   [0xdc, 0x57, 0x79, 0xc1, 0x4b, 0x60, 0x90, 0x03, 0xf2, 0xdb, 0x6b, 0xfb],
   [0xaf, 0x7a, 0xc2, 0xcb, 0x90, 0x03, 0xc3, 0x7e, 0x26, 0xd1, 0x75, 0x36],
   [0xc7, 0x2b, 0x90, 0xa0, 0x01, 0x10, 0x00, 0x40, 0x90, 0xa0, 0x40, 0x90],
   [0x04, 0x1c, 0x90, 0x40, 0xd0, 0x40, 0x90, 0x2f, 0x53, 0x74, 0x72, 0x69],
   [0x6e, 0x67, 0x4d, 0x61, 0x79, 0x42, 0x65, 0x48, 0x54, 0x4d, 0x4c, 0x08],
   [0x00, 0x00, 0x20, 0x00, 0x90, 0xa0, 0xa0, 0x03, 0x26, 0x40, 0x09, 0x23],
   [0x40, 0x00, 0x11, 0x00, 0x40, 0xa0, 0x03, 0x06, 0x40, 0x09, 0x03, 0x40],
   [0x00, 0x00, 0x00, 0x40, 0x90, 0x40, 0x90, 0x04, 0x4c, 0x90, 0x49, 0x90],
   [0x40, 0x90, 0xa0, 0x40, 0x40, 0x90, 0xa0, 0x40, 0x40, 0x90, 0x40, 0x40],
   [0x41, 0x42, 0x43, 0x90, 0x90, 0x40, 0x90, 0xa0, 0xa0, 0x03, 0x02, 0x00],
   [0x09, 0x00, 0x00, 0x00, 0x00, 0x00, 0x40, 0xa0, 0x03, 0x02, 0x00, 0x09],
   [0x00, 0x00, 0x00, 0x00, 0x00, 0x40, 0x90, 0xa0, 0x40, 0x40, 0x90, 0xa0],
   [0x40, 0x40, 0x90, 0xb0, 0xa0, 0xa0, 0x02, 0x00, 0x05, 0x82, 0x42, 0x02],
   [0x00, 0x05, 0x82, 0x43, 0x40, 0xa0, 0xa0, 0x03, 0xc0, 0x00, 0x00, 0x00],
   [0x00, 0x00, 0x00, 0x00, 0x03, 0x3f, 0xff, 0xff, 0xff, 0xff, 0xff, 0xff],
   [0xff, 0x40, 0x40, 0x90, 0x40, 0x40, 0x41, 0x40, 0x40, 0x41, 0xa0, 0x40],
   [0xd0, 0x40, 0xb0, 0x40, 0x24, 0x73, 0x65, 0x6c, 0x66, 0x40, 0xa0, 0x40]] @
  [[0xd0, 0x40, 0x90, 0x25, 0x5f, 0x75, 0x73, 0x65, 0x72, 0xa0, 0xd0, 0x40],
   [0xc2, 0xb0, 0x40, 0x24, 0x73, 0x65, 0x6c, 0x66, 0x40, 0xa0, 0x90, 0xc1],
   [0x01, 0x00, 0x8a, 0x01, 0x02, 0x00, 0x90, 0x03, 0xfb, 0x28, 0x9e, 0x64],
   [0xae, 0x2d, 0x90, 0x8a, 0x90, 0x03, 0xd0, 0x91, 0xf9, 0xad, 0x6e, 0x07],
   [0xd2, 0x8a, 0xc1, 0x5a, 0x60, 0x90, 0x03, 0x01, 0x8b, 0x79, 0xdb, 0x2b],
   [0xc4, 0x58, 0xda, 0x90, 0x03, 0x1d, 0x66, 0x4b, 0xe2, 0x60, 0x5e, 0xad],
   [0x3a, 0xc1, 0x46, 0x48, 0xc1, 0x46, 0x50, 0xc1, 0x46, 0x00, 0x40, 0x90],
   [0x03, 0xd5, 0x1f, 0xcd, 0x68, 0x6e, 0x9d, 0x75, 0x06, 0x90, 0x03, 0x12],
   [0x48, 0xa3, 0x79, 0xd6, 0x97, 0xee, 0x46, 0x90, 0x03, 0x25, 0x75, 0x80],
   [0x43, 0x20, 0x47, 0x25, 0x36, 0xc1, 0x01, 0x00, 0xde, 0x01, 0x01, 0x00],
   [0x90, 0x03, 0xf8, 0x03, 0xdc, 0xf1, 0xd4, 0x86, 0x4c, 0xde, 0x90, 0x03],
   [0xf9, 0xf1, 0x23, 0x97, 0x01, 0x70, 0x4d, 0xde, 0xc1, 0x41, 0x42, 0xc1],
   [0x41, 0x44, 0xc1, 0x41, 0x48, 0xc1, 0x41, 0x50, 0x90, 0x03, 0xcf, 0x01],
   [0x69, 0x99, 0xec, 0xb9, 0x69, 0x41, 0xc1, 0x51, 0x60, 0x90, 0x03, 0x24],
   [0x9f, 0x22, 0x78, 0x5f, 0x80, 0x4b, 0x51, 0xc1, 0x00, 0x71, 0x01, 0x00],
   [0x80, 0x90, 0x03, 0xf2, 0x51, 0xe8, 0x13, 0x4f, 0xc2, 0x63, 0x71, 0x90],
   [0x03, 0xd5, 0xd7, 0xa0, 0x61, 0xce, 0x3b, 0x40, 0xf1, 0xc1, 0x49, 0x50],
   [0x90, 0x03, 0x17, 0xd3, 0x60, 0x1a, 0x09, 0x70, 0x76, 0x29, 0x90, 0x03],
   [0x29, 0xe4, 0x40, 0x5f, 0xde, 0x5a, 0x7b, 0x39, 0xc1, 0x45, 0x50, 0xc1],
   [0x45, 0x60, 0xc1, 0x45, 0x00, 0x40, 0x90, 0x03, 0x2a, 0x0f, 0x46, 0xb2],
   [0x68, 0xfc, 0xce, 0x85, 0xc1, 0x00, 0x45, 0x01, 0x00, 0x80, 0x90, 0x03],
   [0xf9, 0x1a, 0x8d, 0xd3, 0x1a, 0xda, 0x0a, 0x45, 0x90, 0x03, 0x1f, 0x2c],
   [0xd7, 0xdc, 0x07, 0x5a, 0xe5, 0xc5, 0x90, 0x03, 0x01, 0xba, 0xd3, 0x82],
   [0xca, 0x9a, 0x28, 0xe5, 0xc1, 0x55, 0x60, 0x90, 0x03, 0xc2, 0xe7, 0x3d],
   [0xa2, 0x83, 0x7a, 0x7e, 0x15, 0xc1, 0x75, 0x01, 0x01, 0x00, 0x90, 0x03],
   [0x1f, 0xc7, 0x7c, 0xe0, 0xe3, 0x62, 0xae, 0x35, 0x90, 0x03, 0xee, 0xca],
   [0xc7, 0xba, 0x5c, 0xdb, 0xff, 0x35, 0xc1, 0x43, 0x44, 0xc1, 0x43, 0x50],
   [0xc1, 0x43, 0x60, 0x90, 0x03, 0x23, 0xde, 0xe5, 0x28, 0x2b, 0xcd, 0x16],
   [0x43, 0xc1, 0x63, 0x00, 0x40, 0xc1, 0x01, 0x01, 0xa3, 0x01, 0x04, 0x00],
   [0x90, 0x03, 0x3b, 0x85, 0xd9, 0x69, 0xea, 0x1d, 0x31, 0xa3, 0x90, 0x03]] @
  [[0x2b, 0xdb, 0x55, 0x57, 0xd1, 0x70, 0x4d, 0xa3, 0xc1, 0x00, 0x63, 0x01],
   [0x01, 0x00, 0x90, 0x03, 0x03, 0x64, 0x1c, 0xfb, 0xfd, 0x4b, 0x20, 0x63],
   [0x90, 0x03, 0xc1, 0x63, 0x1c, 0xf2, 0xf6, 0xfb, 0x6d, 0x63, 0xc1, 0x53],
   [0x60, 0x90, 0x03, 0x0c, 0xb9, 0xca, 0x37, 0x3e, 0x43, 0x2a, 0xd3, 0x90],
   [0x03, 0xf4, 0x8c, 0x69, 0x77, 0x02, 0x1b, 0x14, 0x73, 0xc1, 0x47, 0x48],
   [0xc1, 0x47, 0x50, 0xc1, 0x00, 0x67, 0x01, 0x00, 0x80, 0x90, 0x03, 0xf2],
   [0x1c, 0x08, 0xb8, 0xf9, 0x49, 0xa2, 0x67, 0x90, 0x03, 0xd3, 0x12, 0x79],
   [0x56, 0x95, 0x79, 0x9d, 0xe7, 0x90, 0x03, 0x38, 0x95, 0x34, 0x20, 0xca],
   [0x0e, 0x08, 0x57, 0x90, 0x03, 0xf8, 0xf2, 0x35, 0x91, 0xc8, 0x67, 0x89],
   [0x5f, 0x90, 0xa0, 0x40, 0x90, 0xc1, 0x40, 0x41, 0xc1, 0x40, 0x42, 0xc1],
   [0x40, 0x44, 0xc1, 0x40, 0x50, 0x90, 0x03, 0xe3, 0xed, 0xad, 0x22, 0xb2],
   [0xa3, 0xb7, 0x80, 0xc1, 0x50, 0x60, 0x90, 0x03, 0xf3, 0x96, 0xc6, 0x78],
   [0xd8, 0xa8, 0x91, 0xd0, 0x90, 0x03, 0x01, 0x13, 0xf2, 0xc7, 0xf6, 0x9d],
   [0x0f, 0xb0, 0xc1, 0x44, 0x48, 0xc1, 0x44, 0x50, 0x90, 0x03, 0x16, 0x37],
   [0xba, 0x4d, 0xd6, 0x42, 0xac, 0xa4, 0x90, 0x03, 0x34, 0x8d, 0x58, 0x69],
   [0xcc, 0xc7, 0xa9, 0xb4, 0xc1, 0x4c, 0x50, 0x90, 0x03, 0x09, 0x0c, 0x54],
   [0xf5, 0x93, 0x2b, 0x54, 0xec, 0x90, 0x03, 0xd4, 0x97, 0x43, 0xdb, 0xc7],
   [0x57, 0xc4, 0x9c, 0xc1, 0x42, 0x44, 0xc1, 0x42, 0x48, 0x90, 0x03, 0xdf],
   [0x74, 0xb4, 0x20, 0x20, 0xd5, 0x4a, 0x02, 0xc1, 0x4a, 0x50, 0x90, 0x03],
   [0xd4, 0x71, 0x5d, 0xe4, 0xe0, 0xd2, 0xeb, 0x0a, 0x90, 0x03, 0x3a, 0x45],
   [0xfc, 0x11, 0xd0, 0xcf, 0xc2, 0x3a, 0xc1, 0x46, 0x50, 0x90, 0x03, 0x1b],
   [0xb9, 0xd3, 0x91, 0xeb, 0xcd, 0xab, 0x66, 0x90, 0x03, 0xca, 0x41, 0x8c],
   [0xbf, 0x20, 0xa7, 0x74, 0xb6, 0xc1, 0x41, 0x42, 0xc1, 0x41, 0x44, 0xc1],
   [0x41, 0x48, 0xc1, 0x41, 0x50, 0x90, 0x03, 0xd6, 0x16, 0x6b, 0x2d, 0x61],
   [0xc9, 0x15, 0x21, 0xc1, 0x51, 0x60, 0x90, 0x03, 0xc5, 0x47, 0xe8, 0x0b],
   [0x3e, 0xf2, 0x3b, 0x91, 0xc1, 0x01, 0x04, 0xb1, 0x01, 0x08, 0x00, 0x90],
   [0x03, 0xe9, 0xe2, 0xfd, 0x5d, 0x2b, 0x74, 0x44, 0xb1, 0x90, 0x03, 0x3a],
   [0x4a, 0xa5, 0x83, 0x3d, 0xdc, 0x2c, 0xb1, 0xc1, 0x49, 0x50, 0xc1, 0x49],
   [0x60, 0x90, 0x03, 0xc1, 0xf6, 0xe9, 0x93, 0xce, 0x5d, 0x3d, 0x89, 0x90],
   [0x03, 0xea, 0xe7, 0x6a, 0x79, 0xfa, 0xb8, 0x93, 0xe9, 0x90, 0x03, 0xc3]] @
  [[0x4f, 0x5c, 0x95, 0xb0, 0xb1, 0xd6, 0x59, 0xc1, 0x45, 0x48, 0xc1, 0x45],
   [0x50, 0x90, 0x03, 0xed, 0xc1, 0xc1, 0x17, 0x96, 0xc2, 0x63, 0x85, 0xc1],
   [0x75, 0x00, 0x40, 0xc1, 0x75, 0x01, 0x00, 0x80, 0x90, 0x03, 0x18, 0xc3],
   [0xb1, 0xeb, 0xc4, 0x0e, 0xd9, 0x35, 0x90, 0x03, 0xf8, 0x0b, 0x53, 0x1b],
   [0xa9, 0x2f, 0x1b, 0xb5, 0x90, 0x03, 0xc5, 0x86, 0x76, 0x5d, 0xe3, 0xa2],
   [0xd8, 0x75, 0xc1, 0x01, 0x00, 0xed, 0x01, 0x01, 0x00, 0x90, 0x03, 0x21],
   [0x16, 0x04, 0x70, 0xba, 0x4b, 0xfa, 0xed, 0x90, 0x03, 0x3f, 0x36, 0xf9],
   [0x7e, 0x48, 0xef, 0xf3, 0xed, 0xc1, 0x43, 0x44, 0xc1, 0x43, 0x48, 0x90],
   [0x03, 0xc6, 0x6f, 0x4e, 0xbf, 0xa8, 0x09, 0x29, 0xf3, 0xc1, 0x4b, 0x50],
   [0xc1, 0x4b, 0x60, 0x90, 0x03, 0x32, 0x50, 0xe0, 0x63, 0x9c, 0xb1, 0x67],
   [0x8b, 0xc1, 0x6b, 0x01, 0x00, 0x80, 0x90, 0x03, 0x36, 0x4d, 0xcd, 0x0c],
   [0x58, 0xfb, 0xe3, 0x2b, 0x90, 0x03, 0xcb, 0xb0, 0xdb, 0xc0, 0x0b, 0x65],
   [0x1b, 0xab, 0x90, 0x03, 0x0f, 0xe4, 0x3d, 0xb2, 0x64, 0xde, 0xdc, 0x9b],
   [0xc1, 0x47, 0x48, 0xc1, 0x47, 0x50, 0x90, 0x03, 0xdc, 0x3e, 0xc5, 0xac],
   [0xc6, 0xd9, 0xb8, 0xc7, 0x90, 0x03, 0xfc, 0x42, 0x27, 0x48, 0x2e, 0xf2],
   [0xdc, 0x57, 0x90, 0x03, 0xd5, 0x70, 0x1b, 0xbb, 0x3d, 0x40, 0x18, 0xaf],
   [0x90, 0xa0, 0x40, 0x40, 0x90, 0x40, 0x40, 0x41, 0x92, 0x2d, 0x4e, 0x6f],
   [0x64, 0x65, 0x45, 0x64, 0x67, 0x65, 0x51, 0x75, 0x65, 0x72, 0x79, 0x08],
   [0x00, 0x00, 0x20, 0x00, 0x90, 0xa0, 0xa0, 0x03, 0x06, 0x00, 0x01, 0x21],
   [0x44, 0x00, 0x01, 0x00, 0x40, 0xa0, 0x03, 0x04, 0x00, 0x00, 0x01, 0x00],
   [0x00, 0x01, 0x00, 0x40, 0x90, 0x40, 0x90, 0xa0, 0x03, 0x3f, 0xff, 0xff],
   [0xff, 0xff, 0xff, 0xff, 0xff, 0x40, 0x90, 0x49, 0x90, 0x90, 0xc1, 0x40],
   [0x60, 0x90, 0x03, 0xcf, 0x7b, 0x41, 0xfa, 0x50, 0x2e, 0x51, 0x40, 0xc1],
   [0x60, 0x00, 0x40, 0x90, 0x03, 0x06, 0x00, 0x23, 0xb1, 0xa8, 0x48, 0xa5],
   [0xa0, 0x90, 0x03, 0x28, 0xa7, 0x48, 0x9e, 0xee, 0x4a, 0x5d, 0xe0, 0x90],
   [0x05, 0x02, 0x59, 0x90, 0x04, 0x16, 0x90, 0x40, 0xd0, 0x40, 0x92, 0x23],
   [0x4f, 0x44, 0x53, 0x08, 0x00, 0x00, 0x20, 0x00, 0x90, 0xa0, 0xa0, 0x03],
   [0x04, 0x04, 0x00, 0x05, 0x01, 0x4f, 0x40, 0x42, 0x90, 0xa0, 0xa0, 0x03],
   [0x06, 0x04, 0x89, 0x23, 0x40, 0x04, 0x11, 0x00, 0x40, 0xa0, 0x03, 0x00],
   [0x00, 0x00, 0x03, 0x40, 0x00, 0x00, 0x00, 0x40, 0x90, 0x05, 0x01, 0x4c]]"

definition dictionary_rows_57 :: "u8 list list" where
  "dictionary_rows_57 =
  [[0x90, 0x05, 0x01, 0x4b, 0x90, 0xb0, 0xa0, 0x05, 0x01, 0x4a, 0x40, 0xa0],
   [0x05, 0x01, 0x4b, 0x40, 0x40, 0x90, 0x40, 0x40, 0x41, 0x40, 0x40, 0x41],
   [0x42, 0xd0, 0xd0, 0x40, 0xb0, 0x40, 0x27, 0x75, 0x73, 0x65, 0x72, 0x5f],
   [0x69, 0x64, 0x40, 0xa0, 0xd0, 0x40, 0xc2, 0xb0, 0x42, 0x27, 0x75, 0x73],
   [0x65, 0x72, 0x5f, 0x69, 0x64, 0x40, 0x40, 0xb0, 0xa0, 0x28, 0x6c, 0x61],
   [0x75, 0x6e, 0x63, 0x68, 0x65, 0x72, 0xa0, 0x27, 0x63, 0x6f, 0x6e, 0x66],
   [0x69, 0x67, 0x73, 0xa0, 0x3f, 0x69, 0x67, 0x5f, 0x6c, 0x69, 0x76, 0x65],
   [0x5f, 0x61, 0x6e, 0x64, 0x72, 0x6f, 0x69, 0x64, 0x5f, 0x63, 0x6f, 0x6d],
   [0x6d, 0x65, 0x6e, 0x74, 0x5f, 0x77, 0x61, 0x72, 0x6e, 0x69, 0x6e, 0x67],
   [0x40, 0xa0, 0x00, 0x49, 0x54, 0xa0, 0x00, 0x49, 0x5b, 0xa0, 0x91, 0xb0],
   [0x3a, 0x6c, 0x61, 0x75, 0x6e, 0x63, 0x68, 0x65, 0x72, 0x2e, 0x6c, 0x61],
   [0x75, 0x6e, 0x63, 0x68, 0x65, 0x72, 0x2e, 0x4c, 0x61, 0x75, 0x6e, 0x63],
   [0x68, 0x65, 0x72, 0x3a, 0x61, 0x73, 0x79, 0x6e, 0x63, 0x5f, 0x65, 0x76],
   [0x61, 0x6c, 0x75, 0x61, 0x74, 0x65, 0x5f, 0x66, 0x6f, 0x72, 0x5f, 0x75],
   [0x73, 0x65, 0x72, 0x5f, 0x69, 0x64, 0x40, 0x40, 0xf0, 0x90, 0xd0, 0xd0],
   [0x40, 0x91, 0xa0, 0x34, 0x55, 0x73, 0x65, 0x72, 0x43, 0x6f, 0x6e, 0x74],
   [0x72, 0x6f, 0x6c, 0x6c, 0x65, 0x64, 0x41, 0x6e, 0x64, 0x50, 0x41, 0x54],
   [0x22, 0x75, 0x63, 0x08, 0x00, 0x00, 0x20, 0x00, 0x90, 0xa0, 0xa0, 0x03],
   [0x06, 0x00, 0x09, 0x21, 0x40, 0x0e, 0x11, 0x80, 0x40, 0xa0, 0x03, 0x06],
   [0x00, 0x01, 0x01, 0x00, 0x00, 0x11, 0x00, 0x40, 0x90, 0x40, 0x90, 0xa0],
   [0x03, 0x3f, 0xff, 0xff, 0xff, 0xff, 0xff, 0xff, 0xff, 0x40, 0x90, 0x4a],
   [0x90, 0x90, 0x90, 0x03, 0xe7, 0xa9, 0x70, 0xb0, 0x96, 0x19, 0x94, 0xf3],
   [0x90, 0xa0, 0x40, 0x40, 0x90, 0xa0, 0x40, 0x40, 0x90, 0xc0, 0x40, 0xb0],
   [0x01, 0x17, 0xd2, 0x91, 0xb0, 0x09, 0x35, 0x66, 0x78, 0x63, 0x61, 0x6c],
   [0x2e, 0x63, 0x6f, 0x6e, 0x6e, 0x65, 0x63, 0x74, 0x65, 0x64, 0x5f, 0x66],
   [0x61, 0x63, 0x65, 0x62, 0x6f, 0x6f, 0x6b, 0x5f, 0x71, 0x75, 0x65, 0x72],
   [0x79, 0x2e, 0x43, 0x6f, 0x6e, 0x6e, 0x65, 0x63, 0x74, 0x65, 0x64, 0x46],
   [0x61, 0x63, 0x65, 0x62, 0x6f, 0x6f, 0x6b, 0x51, 0x75, 0x65, 0x72, 0x79],
   [0x09, 0x41, 0x61, 0x73, 0x79, 0x6e, 0x63, 0x5f, 0x67, 0x65, 0x74, 0x5f],
   [0x66, 0x61, 0x63, 0x65, 0x62, 0x6f, 0x6f, 0x6b, 0x5f, 0x66, 0x6f, 0x72]] @
  [[0x5f, 0x75, 0x73, 0x65, 0x72, 0x5f, 0x69, 0x64, 0x5f, 0x44, 0x45, 0x50],
   [0x52, 0x45, 0x43, 0x41, 0x54, 0x49, 0x4f, 0x4e, 0x5f, 0x49, 0x4e, 0x5f],
   [0x50, 0x52, 0x4f, 0x47, 0x52, 0x45, 0x53, 0x53, 0x5f, 0x44, 0x4f, 0x5f],
   [0x4e, 0x4f, 0x54, 0x5f, 0x55, 0x53, 0x45, 0x40, 0xb0, 0x91, 0xb0, 0x3d],
   [0x6e, 0x6f, 0x64, 0x65, 0x61, 0x70, 0x69, 0x2e, 0x51, 0x75, 0x65, 0x72],
   [0x79, 0x2e, 0x4e, 0x6f, 0x64, 0x65, 0x51, 0x4c, 0x51, 0x75, 0x65, 0x72],
   [0x79, 0x42, 0x61, 0x73, 0x65, 0x2a, 0x61, 0x73, 0x79, 0x6e, 0x63, 0x5f],
   [0x73, 0x65, 0x6e, 0x64, 0x40, 0x40, 0x91, 0x22, 0x76, 0x63, 0x40, 0x41],
   [0x40, 0x41, 0x92, 0x27, 0x4c, 0x6f, 0x67, 0x67, 0x69, 0x6e, 0x67, 0x08],
   [0x00, 0x00, 0x20, 0x00, 0x90, 0xa0, 0xa0, 0x03, 0xc6, 0x06, 0x89, 0x23],
   [0x44, 0x0f, 0x13, 0x80, 0x90, 0xc1, 0x40, 0x41, 0x90, 0x03, 0x1f, 0x17],
   [0xfb, 0x4b, 0xb9, 0xd1, 0xa6, 0x08, 0x90, 0x03, 0xcd, 0xfd, 0x23, 0x10],
   [0x65, 0x08, 0x43, 0x19, 0xa0, 0x03, 0x00, 0x00, 0x00, 0x01, 0x00, 0x00],
   [0x01, 0x00, 0x40, 0x90, 0x40, 0x90, 0xa0, 0x03, 0x3f, 0xff, 0xff, 0xff],
   [0xff, 0xff, 0xff, 0xff, 0x40, 0x90, 0x46, 0x90, 0x90, 0xc1, 0x40, 0x41],
   [0xc1, 0x40, 0x42, 0xc1, 0x40, 0x44, 0xc1, 0x40, 0x48, 0xc1, 0x40, 0x50],
   [0xc1, 0x40, 0x60, 0xc1, 0x40, 0x00, 0x40, 0x90, 0x03, 0xd0, 0x53, 0x7e],
   [0xbd, 0x52, 0xd3, 0x00, 0x80, 0x90, 0x03, 0x19, 0x95, 0xb4, 0x16, 0x5d],
   [0x1a, 0x98, 0xc0, 0xc1, 0x01, 0x00, 0xa0, 0x01, 0x01, 0x00, 0x90, 0x03],
   [0xdb, 0x9e, 0xdb, 0x41, 0xca, 0x3c, 0x6c, 0xa0, 0x90, 0x03, 0x0d, 0x72],
   [0x5e, 0x23, 0x76, 0xbc, 0x05, 0xa0, 0xc1, 0x50, 0x60, 0xc1, 0x50, 0x00],
   [0x40, 0x90, 0x03, 0xd4, 0xbc, 0xa8, 0x8d, 0x40, 0x86, 0x3c, 0x90, 0x90],
   [0x03, 0x1b, 0xdf, 0x93, 0xc2, 0x3c, 0x47, 0x1d, 0x50, 0x90, 0x03, 0xf2],
   [0xc9, 0x9b, 0x33, 0xf3, 0x0e, 0xbe, 0xf0, 0xc1, 0x48, 0x50, 0xc1, 0x48],
   [0x60, 0x90, 0x03, 0x25, 0x54, 0x7d, 0xb5, 0x09, 0xaa, 0x40, 0xc8, 0xc1],
   [0x68, 0x00, 0x40, 0xc1, 0x68, 0x01, 0x00, 0x80, 0xc1, 0x68, 0x01, 0x01],
   [0x00, 0x90, 0x03, 0x03, 0x58, 0x32, 0x42, 0x65, 0xb9, 0x22, 0x28, 0x90],
   [0x03, 0x14, 0xab, 0x41, 0x45, 0x93, 0x74, 0xdb, 0x28, 0xc1, 0x01, 0x02],
   [0xa8, 0x01, 0x04, 0x00, 0x90, 0x03, 0xdb, 0xf5, 0xf1, 0x85, 0x75, 0x9d],
   [0xaa, 0xa8, 0x90, 0x03, 0xe6, 0x3d, 0xf4, 0x01, 0x5f, 0xcf, 0x6e, 0xa8]] @
  [[0x90, 0x03, 0xf0, 0x24, 0x8b, 0xb9, 0x8b, 0x0a, 0xe9, 0x68, 0xc1, 0x58],
   [0x60, 0x90, 0x03, 0xcf, 0x7c, 0x22, 0x41, 0xcd, 0x3e, 0xea, 0xd8, 0x90],
   [0x03, 0xd6, 0x63, 0x7c, 0x89, 0xab, 0x27, 0xda, 0xf8, 0xc1, 0x44, 0x48],
   [0xc1, 0x44, 0x50, 0xc1, 0x64, 0x00, 0x40, 0xc1, 0x64, 0x01, 0x00, 0x80],
   [0xc1, 0x64, 0x01, 0x02, 0x00, 0x90, 0x03, 0xcf, 0x0d, 0xb1, 0xcf, 0x4b],
   [0xcd, 0x90, 0x24, 0x90, 0x03, 0x08, 0x24, 0xb9, 0x75, 0x28, 0xd5, 0x1e],
   [0x24, 0x90, 0x03, 0x0d, 0xbe, 0x90, 0x91, 0xfe, 0xad, 0x75, 0xa4, 0xc1],
   [0x01, 0x00, 0xe4, 0x01, 0x01, 0x00, 0x90, 0x03, 0xcb, 0x2b, 0xba, 0x62],
   [0x70, 0x09, 0xcc, 0xe4, 0x90, 0x03, 0xd1, 0xa5, 0xf0, 0x5f, 0x5c, 0x90],
   [0x9d, 0xe4, 0x90, 0x03, 0x33, 0x42, 0x4a, 0x51, 0x75, 0x7e, 0x9e, 0xf4],
   [0xc1, 0x4c, 0x50, 0xc1, 0x6c, 0x00, 0x40, 0xc1, 0x6c, 0x01, 0x00, 0x80],
   [0x90, 0x03, 0x12, 0x89, 0xf0, 0x6e, 0x79, 0xe1, 0x4f, 0x2c, 0x90, 0x03],
   [0xf8, 0x94, 0x56, 0xe1, 0xd5, 0xbb, 0x11, 0xac, 0xc1, 0x00, 0x6c, 0x01],
   [0x00, 0x80, 0x90, 0x03, 0xf9, 0x2d, 0x54, 0x3f, 0x75, 0x0d, 0xf8, 0x6c],
   [0x90, 0x03, 0xcf, 0xa5, 0xf3, 0xb7, 0x29, 0x67, 0xc4, 0xec, 0xc1, 0x5c],
   [0x60, 0x90, 0x03, 0x2c, 0x74, 0xe6, 0x5a, 0x90, 0x5f, 0x54, 0xdc, 0x90],
   [0x03, 0xfb, 0xd9, 0xfc, 0x23, 0x15, 0x23, 0xf7, 0xbc, 0xc1, 0x42, 0x44],
   [0xc1, 0x42, 0x48, 0xc1, 0x42, 0x60, 0xc1, 0x42, 0x00, 0x40, 0x90, 0x03],
   [0xc5, 0x87, 0x63, 0xa3, 0xf5, 0x03, 0xf4, 0x82, 0x90, 0x03, 0xc7, 0x31],
   [0xd5, 0xdf, 0x2b, 0x29, 0x73, 0x42, 0xc1, 0x62, 0x00, 0x40, 0xc1, 0x01],
   [0x00, 0xa2, 0x01, 0x01, 0x00, 0x90, 0x03, 0x0b, 0x59, 0xcc, 0xcb, 0x9d],
   [0x00, 0x36, 0xa2, 0x90, 0x03, 0xf1, 0x6d, 0x11, 0x0e, 0xb7, 0x64, 0xef],
   [0xa2, 0x90, 0x03, 0xfb, 0xb3, 0x3c, 0xe0, 0x64, 0x65, 0x6c, 0x73, 0x2e],
   [0x43, 0x68, 0x65, 0x63, 0x6b, 0x70, 0x6f, 0x69, 0x6e, 0x74, 0x54, 0x79],
   [0x70, 0x65, 0x2e, 0x74, 0x74, 0x79, 0x70, 0x65, 0x73, 0x2e, 0x43, 0x68],
   [0x65, 0x63, 0x6b, 0x70, 0x6f, 0x69, 0x6e, 0x74, 0x54, 0x79, 0x70, 0x65],
   [0x84, 0x95, 0xa6, 0xbe, 0x00, 0x00, 0x00, 0x20, 0x00, 0x00, 0x00, 0x0b],
   [0x00, 0x00, 0x00, 0x22, 0x00, 0x00, 0x00, 0x22, 0x90, 0xa0, 0x40, 0x90],
   [0xd1, 0xa0, 0x02, 0x0f, 0x47, 0x8b, 0x8c, 0xa0, 0xa0, 0x40, 0x40, 0xa0],
   [0x40, 0x40, 0x02, 0x3a, 0x61, 0xbe, 0xce, 0xa0, 0xa0, 0x40, 0x40, 0xa0]] @
  [[0x40, 0x40, 0x40, 0x42, 0x84, 0x95, 0xa6, 0xbe, 0x00, 0x00, 0x00, 0x01],
   [0x00, 0x00, 0x00, 0x00, 0x00, 0x00, 0x00, 0x00, 0x00, 0x00, 0x00, 0x00],
   [0x40, 0x84, 0x95, 0xa6, 0xbe, 0x00, 0x00, 0x00, 0x01, 0x00, 0x00, 0x00],
   [0x00, 0x00, 0x00, 0x00, 0x00, 0x00, 0x00, 0x00, 0x00, 0x40, 0x84, 0x95],
   [0xa6, 0xbe, 0x00, 0x00, 0x00, 0x4a, 0x00, 0x00, 0x00, 0x17, 0x00, 0x00],
   [0x00, 0x4c, 0x00, 0x00, 0x00, 0x4c, 0x90, 0xa0, 0x40, 0x90, 0xd1, 0xd1],
   [0xa0, 0x02, 0x04, 0x39, 0x84, 0x44, 0xa0, 0xa0, 0x40, 0x40, 0xa0, 0x40],
   [0x40, 0x02, 0x0f, 0x47, 0x8b, 0x8c, 0xa0, 0xa0, 0x40, 0x40, 0xa0, 0x40],
   [0x40, 0x40, 0x42, 0x02, 0x2b, 0x84, 0x0c, 0x2a, 0xa0, 0xa0, 0x40, 0x40],
   [0xa0, 0x40, 0x40, 0xd1, 0xa0, 0x02, 0x2c, 0x3f, 0x7b, 0x3f, 0xa0, 0xa0],
   [0x40, 0x40, 0xa0, 0x40, 0x40, 0x02, 0x3a, 0x61, 0xbe, 0xce, 0xa0, 0xa0],
   [0x40, 0x40, 0xa0, 0x40, 0x40, 0x40, 0x42, 0x43, 0x84, 0x95, 0xa6, 0xbe],
   [0x00, 0x00, 0x00, 0x9e, 0x00, 0x00, 0x00, 0x15, 0x00, 0x00, 0x00, 0x55],
   [0x00, 0x00, 0x00, 0x44, 0x90, 0xf0, 0x90, 0xa0, 0x2f, 0x74, 0x79, 0x70],
   [0x69, 0x6e, 0x67, 0x2e, 0x53, 0x65, 0x71, 0x75, 0x65, 0x6e, 0x63, 0x65],
   [0xa0, 0x31, 0x74, 0x79, 0x70, 0x69, 0x6e, 0x67, 0x2e, 0x43, 0x6f, 0x6c],
   [0x6c, 0x65, 0x63, 0x74, 0x69, 0x6f, 0x6e, 0xa0, 0x31, 0x74, 0x79, 0x70],
   [0x69, 0x6e, 0x67, 0x2e, 0x52, 0x65, 0x76, 0x65, 0x72, 0x73, 0x69, 0x62],
   [0x6c, 0x65, 0xa0, 0x2f, 0x74, 0x79, 0x70, 0x69, 0x6e, 0x67, 0x2e, 0x49],
   [0x74, 0x65, 0x72, 0x61, 0x62, 0x6c, 0x65, 0xa0, 0x30, 0x74, 0x79, 0x70],
   [0x69, 0x6e, 0x67, 0x2e, 0x43, 0x6f, 0x6e, 0x74, 0x61, 0x69, 0x6e, 0x65],
   [0x72, 0xa0, 0x2f, 0x74, 0x79, 0x70, 0x69, 0x6e, 0x67, 0x2e, 0x48, 0x61],
   [0x73, 0x68, 0x61, 0x62, 0x6c, 0x65, 0xa0, 0x2f, 0x74, 0x79, 0x70, 0x69],
   [0x6e, 0x67, 0x2e, 0x50, 0x72, 0x6f, 0x74, 0x6f, 0x63, 0x6f, 0x6c, 0xa0],
   [0x2e, 0x74, 0x79, 0x70, 0x69, 0x6e, 0x67, 0x2e, 0x47, 0x65, 0x6e, 0x65],
   [0x72, 0x69, 0x63, 0xa0, 0x26, 0x6f, 0x62, 0x6a, 0x65, 0x63, 0x74, 0x40],
   [0x40, 0x40, 0x40, 0x40, 0x40, 0x40, 0x84, 0x95, 0xa6, 0xbe, 0x00, 0x00],
   [0x00, 0x01, 0x00, 0x00, 0x00, 0x00, 0x00, 0x00, 0x00, 0x00, 0x00, 0x00],
   [0x00, 0x00, 0x40, 0x84, 0x95, 0xa6, 0xbe, 0x00, 0x00, 0x00, 0x30, 0x00],
   [0x00, 0x00, 0x02, 0x00, 0x00, 0x00, 0x0f, 0x00, 0x00, 0x00, 0x09, 0x94]] @
  [[0x09, 0x2d, 0x67, 0x72, 0x61, 0x70, 0x68, 0x71, 0x6c, 0x33, 0x2e, 0x6c],
   [0x61, 0x6e, 0x67, 0x75, 0x61, 0x67, 0x65, 0x2e, 0x61, 0x73, 0x74, 0x2e],
   [0x4f, 0x70, 0x65, 0x72, 0x61, 0x74, 0x69, 0x6f, 0x6e, 0x44, 0x65, 0x66],
   [0x69, 0x6e, 0x69, 0x74, 0x69, 0x6f, 0x6e, 0x4e, 0x6f, 0x64, 0x65, 0x84],
   [0x95, 0xa6, 0xbe, 0x00, 0x00, 0x00, 0x01, 0x00, 0x00, 0x00, 0x00, 0x00],
   [0x00, 0x00, 0x00, 0x00, 0x00, 0x00, 0x00, 0x40, 0x84, 0x95, 0xa6, 0xbe],
   [0x00, 0x00, 0x00, 0x0d, 0x00, 0x00, 0x00, 0x02, 0x00, 0x00, 0x00, 0x06],
   [0x00, 0x00, 0x00, 0x06, 0xa0, 0xa0, 0x02, 0x00, 0x03, 0xc2, 0x24, 0x02],
   [0x00, 0x03, 0xc2, 0x25, 0x40, 0x84, 0x95, 0xa6, 0xbe, 0x00, 0x00, 0x05],
   [0x10, 0x00, 0x00, 0x01, 0x84, 0x00, 0x00, 0x04, 0xa4, 0x00, 0x00, 0x04],
   [0x7e, 0xb0, 0xa0, 0x27, 0x63, 0x6f, 0x6e, 0x66, 0x69, 0x67, 0x6f, 0xa0],
   [0x25, 0x74, 0x79, 0x70, 0x65, 0x73, 0x40, 0x90, 0xa0, 0xa0, 0xa0, 0x01],
   [0x11, 0x0f, 0x40, 0xa0, 0x01, 0x11, 0x15, 0x74, 0xc0, 0x08, 0x00, 0x00],
   [0x20, 0x00, 0xa0, 0x04, 0x0b, 0xa0, 0x04, 0x0a, 0xa0, 0x3d, 0x4d, 0x61],
   [0x70, 0x5f, 0x5f, 0x73, 0x74, 0x72, 0x69, 0x6e, 0x67, 0x5f, 0x56, 0x65],
   [0x72, 0x69, 0x66, 0x69, 0x65, 0x64, 0x46, 0x69, 0x6c, 0x65, 0x45, 0x6e],
   [0x74, 0x72, 0x79, 0xa0, 0x2f, 0x24, 0x63, 0x6c, 0x61, 0x73, 0x73, 0x5f],
   [0x74, 0x6f, 0x70, 0x6c, 0x65, 0x76, 0x65, 0x6c, 0x40, 0x40, 0x40, 0x40],
   [0x40, 0x40, 0x90, 0xa0, 0x04, 0x12, 0xa0, 0x04, 0x11, 0xa0, 0x04, 0x07],
   [0x40, 0x40, 0x40, 0x40, 0xa0, 0xa0, 0xa0, 0xa0, 0x01, 0x11, 0x10, 0x44],
   [0xa0, 0x01, 0x11, 0x10, 0x00, 0x6a, 0x93, 0xc0, 0x08, 0x00, 0x00, 0x20],
   [0x00, 0xa0, 0x04, 0x1d, 0xa0, 0x04, 0x1c, 0xa0, 0x04, 0x12, 0xa0, 0x28],
   [0x5f, 0x5f, 0x69, 0x6e, 0x69, 0x74, 0x5f, 0x5f, 0x40, 0xa0, 0xa0, 0xa0],
   [0xa0, 0x01, 0x11, 0x10, 0x51, 0xa0, 0x01, 0x11, 0x10, 0x55, 0xb0, 0x2f],
   [0x24, 0x70, 0x61, 0x72, 0x61, 0x6d, 0x65, 0x74, 0x65, 0x72, 0x24, 0x73],
   [0x65, 0x6c, 0x66, 0x40, 0x40, 0xa0, 0xa0, 0xa0, 0xa0, 0x01, 0x11, 0x10],
   [0x57, 0xa0, 0x01, 0x11, 0x10, 0x00, 0x57, 0xb0, 0x30, 0x24, 0x70, 0x61],
   [0x72, 0x61, 0x6d, 0x65, 0x74, 0x65, 0x72, 0x24, 0x69, 0x74, 0x65, 0x6d],
   [0x73, 0x90, 0xa0, 0xa0, 0xa0, 0x01, 0x11, 0x10, 0x00, 0x58, 0xa0, 0x01],
   [0x11, 0x10, 0x00, 0x5c, 0x94, 0x40, 0x90, 0xa0, 0xa0, 0xa0, 0x01, 0x11]]"

definition dictionary_rows_58 :: "u8 list list" where
  "dictionary_rows_58 =
  [[0x10, 0x5e, 0xa0, 0x01, 0x11, 0x10, 0x00, 0x57, 0x92, 0xa0, 0xa0, 0xa0],
   [0xa0, 0x01, 0x11, 0x10, 0x5e, 0xa0, 0x01, 0x11, 0x10, 0x6e, 0x9c, 0x90],
   [0xb0, 0xa0, 0x04, 0x07, 0x9c, 0x90, 0xb0, 0xa0, 0xa0, 0xa0, 0x01, 0x11],
   [0x10, 0x5e, 0xa0, 0x01, 0x11, 0x10, 0x65, 0x9c, 0x91, 0x26, 0x74, 0x79],
   [0x70, 0x69, 0x6e, 0x67, 0x28, 0x4f, 0x70, 0x74, 0x69, 0x6f, 0x6e, 0x61],
   [0x6c, 0x40, 0x2b, 0x5f, 0x5f, 0x67, 0x65, 0x74, 0x69, 0x74, 0x65, 0x6d],
   [0x5f, 0x5f, 0x41, 0xa0, 0xa0, 0x40, 0xa0, 0xa0, 0xa0, 0x01, 0x11, 0x10],
   [0x6f, 0xa0, 0x01, 0x11, 0x10, 0x00, 0x56, 0x92, 0xa0, 0xa0, 0xa0, 0xa0],
   [0x01, 0x11, 0x10, 0x6f, 0xa0, 0x01, 0x11, 0x10, 0x7e, 0x9c, 0x90, 0xb0],
   [0xa0, 0x04, 0x07, 0x9c, 0x90, 0xb0, 0xa0, 0xa0, 0xa0, 0x01, 0x11, 0x10],
   [0x6f, 0xa0, 0x01, 0x11, 0x10, 0x76, 0x9c, 0x91, 0x04, 0x1c, 0x27, 0x4d],
   [0x61, 0x70, 0x70, 0x69, 0x6e, 0x67, 0x40, 0x04, 0x1b, 0x41, 0xa0, 0xa0],
   [0x40, 0xa0, 0xa0, 0xa0, 0x01, 0x11, 0x10, 0x7f, 0xa0, 0x01, 0x11, 0x10],
   [0x00, 0x55, 0x08, 0x00, 0x00, 0x04, 0x11, 0xa0, 0xa0, 0xa0, 0xa0, 0x01],
   [0x11, 0x10, 0x7f, 0xa0, 0x01, 0x11, 0x10, 0x00, 0x42, 0x9c, 0x91, 0x23],
   [0x73, 0x74, 0x72, 0xa0, 0xa0, 0xa0, 0xa0, 0x01, 0x11, 0x10, 0x00, 0x44],
   [0xa0, 0x01, 0x11, 0x10, 0x00, 0x55, 0x9c, 0x90, 0xb0, 0xa0, 0x04, 0x07],
   [0x9c, 0x90, 0xb0, 0xa0, 0x04, 0x0b, 0x9c, 0x91, 0x04, 0x88, 0x04, 0x70],
   [0x72, 0x69, 0x76, 0x61, 0x63, 0x79, 0x40, 0x30, 0x6e, 0x6f, 0x64, 0x65],
   [0x5f, 0x65, 0x64, 0x67, 0x65, 0x5f, 0x67, 0x65, 0x74, 0x74, 0x65, 0x72],
   [0x40, 0x30, 0x6e, 0x6f, 0x64, 0x65, 0x5f, 0x65, 0x64, 0x67, 0x65, 0x5f],
   [0x67, 0x65, 0x74, 0x74, 0x65, 0x72, 0x40, 0xa0, 0xa0, 0x40, 0xa0, 0xa0],
   [0xa0, 0x01, 0x0f, 0xe4, 0x56, 0xa0, 0x01, 0x0f, 0xe4, 0x01, 0x00, 0xc3],
   [0x92, 0xa0, 0xa0, 0xa0, 0xa0, 0x01, 0x0f, 0xe4, 0x56, 0xa0, 0x01, 0x0f],
   [0xe4, 0x65, 0x9c, 0x90, 0xb0, 0xa0, 0x04, 0x07, 0x9c, 0x90, 0xb0, 0xa0],
   [0x04, 0x0b, 0x9c, 0x90, 0xb0, 0xa0, 0x04, 0x0f, 0x9c, 0x91, 0x27, 0x6e],
   [0x6f, 0x64, 0x65, 0x61, 0x70, 0x69, 0x27, 0x70, 0x72, 0x69, 0x76, 0x61],
   [0x63, 0x79, 0x40, 0x31, 0x6e, 0x6f, 0x64, 0x65, 0x5f, 0x78, 0x69, 0x64],
   [0x5f, 0x6d, 0x65, 0x74, 0x61, 0x64, 0x61, 0x74, 0x61, 0x40, 0x2f, 0x45],
   [0x64, 0x67, 0x65, 0x58, 0x49, 0x44, 0x4d, 0x65, 0x74, 0x61, 0x64, 0x61]] @
  [[0x74, 0x61, 0x40, 0xa0, 0xa0, 0x90, 0xa0, 0xa0, 0xa0, 0x01, 0x0f, 0xe4],
   [0x66, 0xa0, 0x01, 0x0f, 0xe4, 0x71, 0x36, 0x24, 0x70, 0x61, 0x72, 0x61],
   [0x6d, 0x65, 0x74, 0x65, 0x72, 0x24, 0x61, 0x73, 0x73, 0x65, 0x74, 0x5f],
   [0x63, 0x6c, 0x61, 0x73, 0x73, 0xa0, 0xa0, 0xa0, 0x01, 0x0f, 0xe4, 0x72],
   [0xa0, 0x01, 0x0f, 0xe4, 0x7d, 0x94, 0x94, 0xa0, 0x29, 0x6e, 0x6f, 0x64],
   [0x65, 0x2e, 0x65, 0x64, 0x67, 0x65, 0x40, 0xa0, 0xa0, 0x90, 0xa0, 0xa0],
   [0xa0, 0x01, 0x0f, 0xe4, 0x7f, 0xa0, 0x01, 0x0f, 0xe4, 0x00, 0x43, 0x2f],
   [0x24, 0x70, 0x61, 0x72, 0x61, 0x6d, 0x65, 0x74, 0x65, 0x72, 0x24, 0x72],
   [0x65, 0x70, 0x6f, 0xa0, 0xa0, 0xa0, 0x01, 0x0f, 0xe4, 0x00, 0x44, 0xa0],
   [0x01, 0x0f, 0xe4, 0x00, 0x56, 0x94, 0x94, 0xa0, 0x30, 0x69, 0x6e, 0x73],
   [0x74, 0x61, 0x67, 0x72, 0x61, 0x6d, 0x2d, 0x73, 0x65, 0x72, 0x76, 0x65],
   [0x72, 0x40, 0xa0, 0xa0, 0x90, 0xa0, 0xa0, 0xa0, 0x01, 0x0f, 0xe4, 0x00],
   [0x58, 0xa0, 0x01, 0x0f, 0xe4, 0x00, 0x63, 0x36, 0x24, 0x70, 0x61, 0x72],
   [0x61, 0x6d, 0x65, 0x74, 0x65, 0x72, 0x24, 0x73, 0x63, 0x68, 0x65, 0x6d],
   [0x61, 0x5f, 0x6e, 0x61, 0x6d, 0x65, 0xa0, 0xa0, 0xa0, 0x01, 0x0f, 0xe4],
   [0x00, 0x64, 0xa0, 0x01, 0x0f, 0xe4, 0x00, 0x7b, 0x94, 0x94, 0xa0, 0x35],
   [0x69, 0x67, 0x5f, 0x67, 0x75, 0x69, 0x64, 0x65, 0x5f, 0x6d, 0x65, 0x64],
   [0x69, 0x61, 0x5f, 0x66, 0x61, 0x63, 0x61, 0x64, 0x65, 0x40, 0xa0, 0xa0],
   [0x90, 0xa0, 0xa0, 0xa0, 0x01, 0x0f, 0xe4, 0x00, 0x7d, 0xa0, 0x01, 0x0f],
   [0xe4, 0x01, 0x00, 0x81, 0x2f, 0x24, 0x70, 0x61, 0x72, 0x61, 0x6d, 0x65],
   [0x74, 0x65, 0x72, 0x24, 0x65, 0x64, 0x67, 0x65, 0xa0, 0xa0, 0xa0, 0x01],
   [0x0f, 0xe4, 0x01, 0x00, 0x82, 0xa0, 0x01, 0x0f, 0xe4, 0x01, 0x00, 0xc2],
   [0x94, 0x94, 0xa0, 0x09, 0x3e, 0x66, 0x72, 0x6f, 0x6d, 0x5f, 0x69, 0x6e],
   [0x73, 0x74, 0x61, 0x67, 0x72, 0x61, 0x6d, 0x5f, 0x70, 0x6c, 0x61, 0x63],
   [0x65, 0x64, 0x5f, 0x73, 0x70, 0x6f, 0x6e, 0x73, 0x6f, 0x72, 0x65, 0x64],
   [0x5f, 0x70, 0x6f, 0x73, 0x74, 0x5f, 0x64, 0x65, 0x66, 0x69, 0x6e, 0x65],
   [0x64, 0x5f, 0x6f, 0x6e, 0x5f, 0x66, 0x62, 0x5f, 0x76, 0x69, 0x64, 0x65],
   [0x6f, 0x5f, 0x61, 0x73, 0x73, 0x65, 0x74, 0x40, 0x40, 0x40, 0x40, 0x84],
   [0x95, 0xa6, 0xbe, 0x00, 0x00, 0x00, 0x01, 0x00, 0x00, 0x00, 0x00, 0x00],
   [0x00, 0x00, 0x00, 0x00, 0x00, 0x00, 0x00, 0x40, 0x84, 0x95, 0xa6, 0xbe]] @
  [[0x00, 0x00, 0x00, 0x15, 0x00, 0x00, 0x00, 0x08, 0x00, 0x00, 0x00, 0x19],
   [0x00, 0x00, 0x00, 0x19, 0xc0, 0x90, 0x40, 0xa0, 0x40, 0x40, 0xb0, 0xb0],
   [0x90, 0x40, 0x90, 0x40, 0xa0, 0x04, 0x03, 0x04, 0x02, 0x04, 0x04, 0x40],
   [0x40, 0x84, 0x95, 0xa6, 0xbe, 0x00, 0x00, 0x00, 0x01, 0x00, 0x00, 0x00],
   [0x00, 0x00, 0x00, 0x00, 0x00, 0x00, 0x00, 0x00, 0x00, 0x40, 0x84, 0x95],
   [0xa6, 0xbe, 0x00, 0x00, 0x00, 0x05, 0x00, 0x00, 0x00, 0x02, 0x00, 0x00],
   [0x00, 0x06, 0x00, 0x00, 0x00, 0x06, 0xa0, 0x41, 0xa0, 0x41, 0x40, 0x84],
   [0x95, 0xa6, 0xbe, 0x00, 0x00, 0x00, 0x05, 0x00, 0x00, 0x00, 0x02, 0x00],
   [0x00, 0x00, 0x06, 0x00, 0x00, 0x00, 0x06, 0xa0, 0x40, 0xa0, 0x41, 0x40],
   [0x84, 0x95, 0xa6, 0xbe, 0x00, 0x00, 0x00, 0x36, 0x00, 0x00, 0x00, 0x04],
   [0x00, 0x00, 0x00, 0x15, 0x00, 0x00, 0x00, 0x0f, 0xa0, 0x09, 0x27, 0x6e],
   [0x6f, 0x64, 0x65, 0x61, 0x70, 0x69, 0x2e, 0x45, 0x64, 0x67, 0x65, 0x51],
   [0x75, 0x65, 0x72, 0x79, 0x2e, 0x45, 0x64, 0x67, 0x65, 0x51, 0x75, 0x65],
   [0x72, 0x79, 0x2e, 0x5f, 0x77, 0x68, 0x65, 0x72, 0x65, 0x5f, 0x64, 0x61],
   [0x74, 0x61, 0xa0, 0x29, 0x70, 0x72, 0x65, 0x64, 0x69, 0x63, 0x61, 0x74],
   [0x65, 0x40, 0x84, 0x95, 0xa6, 0xbe, 0x00, 0x00, 0x00, 0x05, 0x00, 0x00],
   [0x00, 0x02, 0x00, 0x00, 0x00, 0x06, 0x00, 0x00, 0x00, 0x06, 0xa0, 0x41],
   [0xa0, 0x41, 0x40, 0x84, 0x95, 0xa6, 0xbe, 0x00, 0x00, 0x00, 0x83, 0x00],
   [0x00, 0x00, 0x04, 0x00, 0x00, 0x00, 0x28, 0x00, 0x00, 0x00, 0x18, 0xa0],
   [0x09, 0x77, 0x69, 0x67, 0x5f, 0x6e, 0x6f, 0x64, 0x65, 0x61, 0x70, 0x69],
   [0x2e, 0x6e, 0x6f, 0x64, 0x65, 0x73, 0x2e, 0x72, 0x61, 0x74, 0x69, 0x6e],
   [0x67, 0x73, 0x5f, 0x61, 0x6e, 0x64, 0x5f, 0x72, 0x65, 0x76, 0x69, 0x65],
   [0x77, 0x73, 0x5f, 0x6d, 0x65, 0x64, 0x69, 0x61, 0x2e, 0x4e, 0x6f, 0x64],
   [0x65, 0x52, 0x61, 0x74, 0x69, 0x6e, 0x67, 0x73, 0x41, 0x6e, 0x64, 0x52],
   [0x65, 0x76, 0x69, 0x65, 0x77, 0x73, 0x4d, 0x65, 0x64, 0x69, 0x61, 0x2e],
   [0x65, 0x64, 0x67, 0x65, 0x5f, 0x66, 0x72, 0x6f, 0x6d, 0x5f, 0x6d, 0x65],
   [0x64, 0x69, 0x61, 0x5f, 0x64, 0x65, 0x66, 0x69, 0x6e, 0x65, 0x64, 0x5f],
   [0x6f, 0x6e, 0x5f, 0x73, 0x74, 0x6f, 0x72, 0x79, 0x5f, 0x73, 0x77, 0x69],
   [0x70, 0x65, 0x5f, 0x75, 0x70, 0x5f, 0x70, 0x72, 0x6f, 0x64, 0x75, 0x63],
   [0x74, 0xa0, 0x26, 0x72, 0x65, 0x74, 0x75, 0x72, 0x6e, 0x40, 0x84, 0x95]] @
  [[0xa6, 0xbe, 0x00, 0x00, 0x00, 0x34, 0x00, 0x00, 0x00, 0x04, 0x00, 0x00],
   [0x00, 0x15, 0x00, 0x00, 0x00, 0x0f, 0xa0, 0x09, 0x2a, 0x6e, 0x6f, 0x64],
   [0x65, 0x61, 0x70, 0x69, 0x2e, 0x4e, 0x6f, 0x64, 0x65, 0x51, 0x75, 0x65],
   [0x72, 0x79, 0x2e, 0x4e, 0x6f, 0x64, 0x65, 0x55, 0x70, 0x64, 0x61, 0x74],
   [0x65, 0x51, 0x75, 0x65, 0x72, 0x79, 0x2e, 0x5f, 0x5f, 0x69, 0x6e, 0x69],
   [0x74, 0x5f, 0x5f, 0xa0, 0x24, 0x72, 0x6f, 0x6f, 0x74, 0x40, 0x84, 0x95],
   [0xa6, 0xbe, 0x00, 0x00, 0x00, 0x34, 0x00, 0x00, 0x00, 0x04, 0x00, 0x00],
   [0x00, 0x15, 0x00, 0x00, 0x00, 0x0f, 0xa0, 0x09, 0x28, 0x6e, 0x6f, 0x64],
   [0x65, 0x61, 0x70, 0x69, 0x2e, 0x51, 0x75, 0x65, 0x72, 0x79, 0x2e, 0x4e],
   [0x6f, 0x64, 0x65, 0x51, 0x4c, 0x51, 0x75, 0x65, 0x72, 0x79, 0x42, 0x61],
   [0x73, 0x65, 0x2e, 0x61, 0x73, 0x79, 0x6e, 0x63, 0x5f, 0x73, 0x65, 0x6e],
   [0x64, 0xa0, 0x26, 0x72, 0x65, 0x74, 0x75, 0x72, 0x6e, 0x40, 0x84, 0x95],
   [0xa6, 0xbe, 0x00, 0x00, 0x00, 0x5c, 0x00, 0x00, 0x00, 0x04, 0x00, 0x00],
   [0x00, 0x1f, 0x00, 0x90, 0xa0, 0x09, 0x35, 0x66, 0x62, 0x69, 0x6e, 0x74],
   [0x65, 0x72, 0x6e, 0x61, 0x6c, 0x2e, 0x64, 0x65, 0x76, 0x5f, 0x65, 0x6e],
   [0x76, 0x69, 0x72, 0x6f, 0x6e, 0x6d, 0x65, 0x6e, 0x74, 0x2e, 0x67, 0x65],
   [0x74, 0x5f, 0x77, 0x77, 0x77, 0x5f, 0x63, 0x6f, 0x6e, 0x66, 0x69, 0x67],
   [0x5f, 0x66, 0x6f, 0x72, 0x5f, 0x73, 0x65, 0x72, 0x76, 0x69, 0x63, 0x65],
   [0x40, 0x04, 0x51, 0x40, 0x41, 0x43, 0x40, 0x41, 0x92, 0x27, 0x4c, 0x6f],
   [0x67, 0x67, 0x69, 0x6e, 0x67, 0x08, 0x00, 0x00, 0x20, 0x00, 0x90, 0xa0],
   [0xa0, 0x03, 0x06, 0x04, 0x01, 0x03, 0x40, 0x00, 0x11, 0x10, 0x40, 0xa0],
   [0x03, 0x04, 0x00, 0x00, 0x03, 0x40, 0x00, 0x10, 0x00, 0x40, 0x90, 0x40],
   [0x90, 0x05, 0x04, 0xf4, 0x90, 0x46, 0x90, 0x90, 0xc1, 0x40, 0x41, 0xc1],
   [0x40, 0x42, 0xc1, 0x40, 0x44, 0x90, 0x03, 0xcc, 0x7e, 0x59, 0x7e, 0xdd],
   [0xd3, 0x42, 0x90, 0x90, 0x03, 0x0d, 0x9d, 0xc1, 0x93, 0x72, 0xce, 0x4e],
   [0x14, 0xc1, 0x42, 0x44, 0xc1, 0x01, 0x03, 0x42, 0x01, 0x08, 0x00, 0x90],
   [0x03, 0xc7, 0x31, 0xd5, 0xdf, 0x2b, 0x29, 0x73, 0x42, 0x90, 0x03, 0x3d],
   [0x9a, 0x6e, 0x4b, 0x0a, 0x12, 0x8b, 0x42, 0x90, 0x03, 0xe0, 0xb2, 0x2d],
   [0x7f, 0x0f, 0xa5, 0xb0, 0xae, 0xc1, 0x41, 0x42, 0x90, 0x03, 0xc7, 0x77],
   [0xba, 0xdd, 0xe7, 0x28, 0x2a, 0xd1, 0x90, 0x03, 0x36, 0x9a, 0x68, 0x1e]] @
  [[0x28, 0xf3, 0xd0, 0xcf, 0x90, 0xa0, 0x40, 0x90, 0x04, 0x8a, 0x90, 0xa0],
   [0x40, 0x40, 0x90, 0x40, 0xd0, 0xd0, 0x40, 0x92, 0x23, 0x4f, 0x44, 0x53],
   [0x08, 0x00, 0x00, 0x20, 0x00, 0x90, 0xa0, 0xa0, 0x03, 0x06, 0x04, 0x01],
   [0x03, 0x40, 0x00, 0x11, 0x00, 0x40, 0xa0, 0x03, 0x06, 0x04, 0x01, 0x03],
   [0x40, 0x00, 0x11, 0x00, 0x40, 0x90, 0x40, 0x90, 0x05, 0x05, 0x15, 0x90],
   [0x4c, 0x90, 0x90, 0x90, 0x03, 0x0a, 0xca, 0xb8, 0x8e, 0xf6, 0x55, 0x70],
   [0xf6, 0x90, 0xa0, 0x40, 0x90, 0x04, 0x9f, 0x90, 0xa0, 0x40, 0x40, 0x90],
   [0x40, 0x40, 0x41, 0x92, 0x26, 0x54, 0x68, 0x72, 0x69, 0x66, 0x74, 0x08],
   [0x00, 0x00, 0x20, 0x00, 0x90, 0xa0, 0xa0, 0x03, 0x06, 0x00, 0x01, 0x03],
   [0x40, 0x00, 0x11, 0x00, 0x40, 0xa0, 0x03, 0x06, 0x00, 0x01, 0x03, 0x40],
   [0x00, 0x11, 0x00, 0x40, 0x90, 0x40, 0x90, 0x05, 0x05, 0x28, 0x90, 0x49],
   [0x90, 0x90, 0x90, 0x03, 0xcd, 0xc8, 0xfe, 0x37, 0x25, 0x20, 0x23, 0x5c],
   [0x90, 0xa0, 0x40, 0x90, 0x04, 0xb2, 0x90, 0xa0, 0x40, 0x40, 0x90, 0x40],
   [0xd0, 0x40, 0x92, 0x33, 0x54, 0x68, 0x72, 0x69, 0x66, 0x74, 0x43, 0x6c],
   [0x69, 0x65, 0x6e, 0x74, 0x52, 0x65, 0x71, 0x75, 0x65, 0x73, 0x74, 0x08],
   [0x00, 0x00, 0x20, 0x00, 0x90, 0xa0, 0xa0, 0x03, 0x06, 0x00, 0x01, 0x03],
   [0x40, 0x00, 0x11, 0x00, 0x40, 0xa0, 0x03, 0x06, 0x00, 0x01, 0x03, 0x40],
   [0x00, 0x11, 0x00, 0x40, 0x90, 0x40, 0x90, 0x05, 0x05, 0x3c, 0x90, 0x49],
   [0x90, 0x90, 0xc1, 0x40, 0x41, 0xc1, 0x40, 0x42, 0x90, 0x03, 0x27, 0x1d],
   [0xd8, 0xc6, 0x6f, 0xbb, 0xcc, 0x9c, 0x90, 0x03, 0xfa, 0x2c, 0xac, 0xc0],
   [0x9e, 0xc8, 0xdc, 0x56, 0xc1, 0x41, 0x42, 0xc1, 0x41, 0x44, 0x90, 0x03],
   [0x22, 0x50, 0x45, 0xb5, 0xc2, 0x8f, 0xd8, 0x81, 0x90, 0x03, 0x37, 0x87],
   [0x1f, 0x51, 0x8a, 0xcc, 0xd3, 0xdd, 0x90, 0x03, 0xd4, 0x40, 0x32, 0x07],
   [0xea, 0x37, 0xc9, 0xe3, 0x90, 0xa0, 0x40, 0x90, 0x04, 0xce, 0x90, 0xa0],
   [0x40, 0x40, 0x90, 0x40, 0x40, 0x41, 0x42, 0x43, 0x44, 0x90, 0x90, 0x40],
   [0x90, 0xa0, 0xa0, 0x40, 0x40, 0xa0, 0x40, 0x40, 0x90, 0xa0, 0x40, 0x40],
   [0x90, 0xa0, 0x40, 0x40, 0x90, 0xb0, 0xa0, 0x05, 0x05, 0x25, 0x40, 0xa0],
   [0x05, 0x05, 0x26, 0x40, 0x40, 0x90, 0x40, 0xd0, 0x40, 0xc2, 0xb0, 0x41],
   [0x28, 0x6d, 0x65, 0x64, 0x69, 0x61, 0x5f, 0x69, 0x64, 0x40, 0x40, 0xb0],
   [0x05, 0x05, 0x77, 0xa0, 0x01, 0x01, 0x3f, 0x59, 0xa0, 0x01, 0x01, 0x3f]]"

definition dictionary_rows_59 :: "u8 list list" where
  "dictionary_rows_59 =
  [[0x67, 0xa0, 0x90, 0xa0, 0x09, 0x55, 0x69, 0x67, 0x67, 0x72, 0x61, 0x70],
   [0x68, 0x71, 0x6c, 0x2e, 0x66, 0x61, 0x6d, 0x69, 0x6c, 0x79, 0x5f, 0x73],
   [0x74, 0x6f, 0x72, 0x69, 0x65, 0x73, 0x2e, 0x66, 0x65, 0x74, 0x63, 0x68],
   [0x65, 0x72, 0x73, 0x2e, 0x64, 0x69, 0x73, 0x70, 0x6c, 0x61, 0x79, 0x5f],
   [0x75, 0x72, 0x6c, 0x2e, 0x61, 0x73, 0x79, 0x6e, 0x63, 0x5f, 0x67, 0x65],
   [0x74, 0x5f, 0x63, 0x6c, 0x6f, 0x73, 0x65, 0x73, 0x74, 0x5f, 0x61, 0x76],
   [0x61, 0x69, 0x6c, 0x61, 0x62, 0x6c, 0x65, 0x5f, 0x64, 0x69, 0x73, 0x70],
   [0x6c, 0x61, 0x79, 0x5f, 0x75, 0x72, 0x6c, 0x40, 0x40, 0xf0, 0x90, 0xd0],
   [0xd0, 0xd0, 0x40, 0x92, 0x27, 0x4c, 0x6f, 0x67, 0x67, 0x69, 0x6e, 0x67],
   [0x08, 0x00, 0x00, 0x20, 0x00, 0x90, 0xa0, 0xa0, 0x03, 0xd6, 0x06, 0x89],
   [0x23, 0xcc, 0x8f, 0xd3, 0x94, 0x90, 0xc1, 0x40, 0x41, 0xc1, 0x40, 0x42],
   [0xc1, 0x44, 0x48, 0x90, 0x03, 0x3c, 0xc9, 0x7d, 0xf2, 0xea, 0x0f, 0x70],
   [0x54, 0xc1, 0x4c, 0x50, 0x90, 0x03, 0xd3, 0x75, 0xf7, 0x89, 0x55, 0xaf],
   [0x1d, 0x4c, 0x90, 0x03, 0xcf, 0x09, 0x44, 0xca, 0x81, 0x22, 0x02, 0xfc],
   [0xc1, 0x46, 0x50, 0x90, 0x03, 0x27, 0x8a, 0xf3, 0x56, 0x4d, 0x54, 0x24],
   [0xe6, 0x90, 0x03, 0xe9, 0xd2, 0xcc, 0x69, 0xe6, 0xdc, 0x99, 0x96, 0xc1],
   [0x41, 0x42, 0xc1, 0x49, 0x50, 0x90, 0x03, 0x1e, 0x48, 0x9c, 0xc3, 0x43],
   [0xb6, 0x83, 0xc9, 0x90, 0x03, 0xcd, 0xfd, 0x23, 0x10, 0x65, 0x08, 0x43],
   [0x19, 0xc1, 0x43, 0x44, 0x90, 0x03, 0xd8, 0x23, 0x26, 0x92, 0x11, 0x82],
   [0x5a, 0xdb, 0x90, 0x03, 0xcc, 0xd1, 0xde, 0xac, 0xa3, 0x3c, 0xaf, 0x5f],
   [0xa0, 0x03, 0x06, 0x00, 0x01, 0x01, 0x00, 0x00, 0x00, 0x00, 0x40, 0x90],
   [0x40, 0x90, 0x05, 0x05, 0x88, 0x90, 0x48, 0x90, 0x90, 0xc1, 0x40, 0x41],
   [0xc1, 0x40, 0x42, 0xc1, 0x40, 0x44, 0xc1, 0x40, 0x48, 0xc1, 0x40, 0x50],
   [0xc1, 0x40, 0x60, 0xc1, 0x40, 0x00, 0x40, 0xc1, 0x01, 0x00, 0x80, 0x01],
   [0x04, 0x00, 0x90, 0x03, 0xd0, 0x53, 0x7e, 0xbd, 0x52, 0xd3, 0x00, 0x80],
   [0x90, 0x03, 0x08, 0x9c, 0xed, 0x7a, 0x54, 0xe3, 0x9c, 0x80, 0x90, 0x03],
   [0x19, 0x95, 0xb4, 0x16, 0x5d, 0x1a, 0x98, 0xc0, 0xc1, 0x01, 0x00, 0xa0],
   [0x01, 0x01, 0x00, 0x90, 0x03, 0xdb, 0x9e, 0xdb, 0x41, 0xca, 0x3c, 0x6c],
   [0xa0, 0x90, 0x03, 0x0d, 0x72, 0x5e, 0x23, 0x76, 0xbc, 0x05, 0xa0, 0xc1],
   [0x50, 0x60, 0xc1, 0x50, 0x00, 0x40, 0x90, 0x03, 0xd4, 0xbc, 0xa8, 0x8d]] @
  [[0x40, 0x86, 0x3c, 0x90, 0xc1, 0x00, 0x50, 0x01, 0x00, 0x80, 0x90, 0x03],
   [0x1b, 0xdf, 0x93, 0xc2, 0x3c, 0x47, 0x1d, 0x50, 0x90, 0x03, 0x2d, 0x81],
   [0x04, 0xe3, 0x00, 0x32, 0xa8, 0xd0, 0x90, 0x03, 0xf2, 0xc9, 0x9b, 0x33],
   [0xf3, 0x0e, 0xbe, 0xf0, 0xc1, 0x48, 0x50, 0xc1, 0x48, 0x60, 0xc1, 0x01],
   [0x00, 0xc8, 0x01, 0x04, 0x00, 0x90, 0x03, 0x25, 0x54, 0x7d, 0xb5, 0x09],
   [0xaa, 0x40, 0xc8, 0x90, 0x03, 0x26, 0x9d, 0x43, 0xee, 0xda, 0xd2, 0x14],
   [0xc8, 0xc1, 0x68, 0x01, 0x00, 0x80, 0xc1, 0x68, 0x01, 0x01, 0x00, 0x90],
   [0x03, 0x03, 0x58, 0x32, 0x42, 0x65, 0xb9, 0x22, 0x28, 0x90, 0x03, 0x14],
   [0xab, 0x41, 0x45, 0x93, 0x74, 0xdb, 0x28, 0x64, 0x65, 0x73, 0x2e, 0x66],
   [0x62, 0x5f, 0x61, 0x63, 0x74, 0x69, 0x76, 0x65, 0x5f, 0x69, 0x67, 0x5f],
   [0x75, 0x73, 0x65, 0x72, 0x73, 0x5f, 0x62, 0x69, 0x74, 0x73, 0x65, 0x74],
   [0x2e, 0x4e, 0x6f, 0x64, 0x65, 0x46, 0x62, 0x41, 0x63, 0x74, 0x69, 0x76],
   [0x65, 0x49, 0x67, 0x55, 0x73, 0x65, 0x72, 0x73, 0x42, 0x69, 0x74, 0x73],
   [0x65, 0x74, 0x51, 0x75, 0x65, 0x72, 0x79, 0x40, 0x40, 0x40, 0x40, 0x40],
   [0x40, 0x40, 0x40, 0x84, 0x95, 0xa6, 0xbe, 0x00, 0x00, 0x00, 0x01, 0x00],
   [0x00, 0x00, 0x00, 0x00, 0x00, 0x00, 0x00, 0x00, 0x00, 0x00, 0x00, 0x40],
   [0x84, 0x95, 0xa6, 0xbe, 0x00, 0x00, 0x01, 0xe1, 0x00, 0x00, 0x00, 0x32],
   [0x00, 0x00, 0x01, 0x00, 0x00, 0x00, 0x00, 0xd4, 0xd1, 0x40, 0xa0, 0xa0],
   [0x00, 0x5f, 0x4b, 0xa0, 0x00, 0x5f, 0x01, 0x00, 0xa0, 0x90, 0xc0, 0x90],
   [0xd0, 0xa0, 0xe0, 0x90, 0xa0, 0x09, 0xae, 0x69, 0x67, 0x74, 0x68, 0x72],
   [0x69, 0x66, 0x74, 0x2e, 0x67, 0x65, 0x6e, 0x2e, 0x70, 0x79, 0x33, 0x5f],
   [0x61, 0x73, 0x79, 0x6e, 0x63, 0x69, 0x6f, 0x2e, 0x63, 0x6f, 0x6e, 0x66],
   [0x69, 0x67, 0x65, 0x72, 0x61, 0x74, 0x6f, 0x72, 0x2e, 0x73, 0x74, 0x72],
   [0x75, 0x63, 0x74, 0x73, 0x2e, 0x69, 0x6e, 0x73, 0x74, 0x61, 0x67, 0x72],
   [0x61, 0x6d, 0x2e, 0x6e, 0x6f, 0x74, 0x69, 0x66, 0x69, 0x63, 0x61, 0x74],
   [0x69, 0x6f, 0x6e, 0x73, 0x2e, 0x72, 0x61, 0x6e, 0x6b, 0x69, 0x6e, 0x67],
   [0x2e, 0x6e, 0x6f, 0x74, 0x69, 0x66, 0x5f, 0x66, 0x69, 0x6c, 0x74, 0x65],
   [0x72, 0x69, 0x6e, 0x67, 0x2e, 0x74, 0x68, 0x72, 0x69, 0x66, 0x74, 0x5f],
   [0x6d, 0x65, 0x74, 0x61, 0x64, 0x61, 0x74, 0x61, 0x2e, 0x5f, 0x66, 0x62],
   [0x74, 0x68, 0x72, 0x69, 0x66, 0x74, 0x5f, 0x67, 0x65, 0x6e, 0x5f, 0x6d]] @
  [[0x65, 0x74, 0x61, 0x64, 0x61, 0x74, 0x61, 0x5f, 0x73, 0x74, 0x72, 0x75],
   [0x63, 0x74, 0x5f, 0x4e, 0x6f, 0x74, 0x69, 0x66, 0x46, 0x69, 0x6c, 0x74],
   [0x65, 0x72, 0x69, 0x6e, 0x67, 0x50, 0x65, 0x72, 0x54, 0x79, 0x70, 0x65],
   [0x43, 0x6f, 0x6e, 0x66, 0x69, 0x67, 0x50, 0x61, 0x63, 0x6b, 0x61, 0x67],
   [0x65, 0x40, 0x40, 0x40, 0x40, 0x90, 0xc0, 0x40, 0x40, 0x40, 0x40, 0x40],
   [0x40, 0x40, 0x40, 0xd0, 0x40, 0x40, 0xb0, 0x40, 0xa0, 0xe0, 0x91, 0xb0],
   [0x09, 0x32, 0x61, 0x70, 0x61, 0x63, 0x68, 0x65, 0x2e, 0x74, 0x68, 0x72],
   [0x69, 0x66, 0x74, 0x2e, 0x6d, 0x65, 0x74, 0x61, 0x64, 0x61, 0x74, 0x61],
   [0x2e, 0x74, 0x68, 0x72, 0x69, 0x66, 0x74, 0x5f, 0x74, 0x79, 0x70, 0x65],
   [0x73, 0x2e, 0x54, 0x68, 0x72, 0x69, 0x66, 0x74, 0x4d, 0x65, 0x74, 0x61],
   [0x64, 0x61, 0x74, 0x61, 0x28, 0x5f, 0x5f, 0x63, 0x61, 0x6c, 0x6c, 0x5f],
   [0x5f, 0x40, 0x41, 0x41, 0x40, 0x90, 0xc0, 0x40, 0x40, 0x40, 0x40, 0x90],
   [0x09, 0x32, 0x61, 0x70, 0x61, 0x63, 0x68, 0x65, 0x2e, 0x74, 0x68, 0x72],
   [0x69, 0x66, 0x74, 0x2e, 0x6d, 0x65, 0x74, 0x61, 0x64, 0x61, 0x74, 0x61],
   [0x2e, 0x74, 0x68, 0x72, 0x69, 0x66, 0x74, 0x5f, 0x74, 0x79, 0x70, 0x65],
   [0x73, 0x2e, 0x54, 0x68, 0x72, 0x69, 0x66, 0x74, 0x4d, 0x65, 0x74, 0x61],
   [0x64, 0x61, 0x74, 0x61, 0x40, 0x40, 0x40, 0x41, 0x40, 0x40, 0x40, 0x40],
   [0xa0, 0xa0, 0xa0, 0x00, 0x5f, 0x00, 0x4c, 0xa0, 0x00, 0x5f, 0x01, 0x00],
   [0x9f, 0x90, 0xc0, 0x90, 0xd0, 0x40, 0xa0, 0xe0, 0x91, 0xb0, 0x26, 0x6f],
   [0x62, 0x6a, 0x65, 0x63, 0x74, 0x27, 0x5f, 0x5f, 0x6e, 0x65, 0x77, 0x5f],
   [0x5f, 0x40, 0x41, 0x40, 0x40, 0x90, 0xc0, 0x40, 0x40, 0x40, 0x40, 0x40],
   [0x40, 0xa0, 0xe0, 0x91, 0xb0, 0x09, 0x32, 0x61, 0x70, 0x61, 0x63, 0x68],
   [0x65, 0x2e, 0x74, 0x68, 0x72, 0x69, 0x66, 0x74, 0x2e, 0x6d, 0x65, 0x74],
   [0x61, 0x64, 0x61, 0x74, 0x61, 0x2e, 0x74, 0x68, 0x72, 0x69, 0x66, 0x74],
   [0x5f, 0x74, 0x79, 0x70, 0x65, 0x73, 0x2e, 0x54, 0x68, 0x72, 0x69, 0x66],
   [0x74, 0x4d, 0x65, 0x74, 0x61, 0x64, 0x61, 0x74, 0x61, 0x28, 0x5f, 0x5f],
   [0x69, 0x6e, 0x69, 0x74, 0x5f, 0x5f, 0x40, 0x41, 0x40, 0x40, 0x90, 0x04],
   [0x08, 0x40, 0x40, 0x40, 0x40, 0x40, 0x40, 0x40, 0x42, 0x84, 0x95, 0xa6],
   [0xbe, 0x00, 0x00, 0x01, 0x23, 0x00, 0x00, 0x00, 0x2f, 0x00, 0x00, 0x00],
   [0xc6, 0x00, 0x00, 0x00, 0xb0, 0xd1, 0xa0, 0xa0, 0xa0, 0x00, 0x48, 0x4f]] @
  [[0xa0, 0x00, 0x48, 0x01, 0x00, 0xa9, 0x90, 0xc0, 0x90, 0xd0, 0x40, 0xa0],
   [0xe0, 0x91, 0xb0, 0x26, 0x6f, 0x62, 0x6a, 0x65, 0x63, 0x74, 0x27, 0x5f],
   [0x5f, 0x6e, 0x65, 0x77, 0x5f, 0x5f, 0x40, 0x41, 0x40, 0x40, 0x90, 0xc0],
   [0x40, 0x40, 0x40, 0x40, 0x40, 0x40, 0xa0, 0xe0, 0x91, 0xb0, 0x3d, 0x6e],
   [0x6f, 0x64, 0x65, 0x61, 0x70, 0x69, 0x2e, 0x51, 0x75, 0x65, 0x72, 0x79],
   [0x2e, 0x4e, 0x6f, 0x64, 0x65, 0x51, 0x4c, 0x51, 0x75, 0x65, 0x72, 0x79],
   [0x42, 0x61, 0x73, 0x65, 0x28, 0x5f, 0x5f, 0x69, 0x6e, 0x69, 0x74, 0x5f],
   [0x5f, 0x40, 0x41, 0x40, 0x40, 0x90, 0x04, 0x08, 0x40, 0x40, 0x40, 0x40],
   [0x40, 0x40, 0x40, 0xa0, 0xa0, 0x00, 0x48, 0x00, 0x43, 0xa0, 0x00, 0x48],
   [0x01, 0x00, 0xa8, 0x90, 0xc0, 0x90, 0xd0, 0x40, 0x40, 0x40, 0x40, 0x41],
   [0x40, 0x40, 0x40, 0xa0, 0xa0, 0xa0, 0x00, 0x48, 0x00, 0x71, 0xa0, 0x00],
   [0x48, 0x01, 0x00, 0xa7, 0x90, 0xc0, 0x40, 0x90, 0xb0, 0xa0, 0xe0, 0x91],
   [0xb0, 0x09, 0x70, 0x69, 0x67, 0x5f, 0x6e, 0x6f, 0x64, 0x65, 0x61, 0x70],
   [0x69, 0x2e, 0x65, 0x64, 0x67, 0x65, 0x73, 0x2e, 0x62, 0x6f, 0x6f, 0x73],
   [0x74, 0x65, 0x64, 0x5f, 0x69, 0x6e, 0x73, 0x74, 0x61, 0x67, 0x72, 0x61],
   [0x6d, 0x5f, 0x6d, 0x65, 0x64, 0x69, 0x61, 0x5f, 0x6f, 0x6e, 0x5f, 0x68],
   [0x69, 0x67, 0x68, 0x6c, 0x69, 0x67, 0x68, 0x74, 0x5f, 0x70, 0x6f, 0x73],
   [0x74, 0x5f, 0x66, 0x61, 0x63, 0x61, 0x64, 0x65, 0x2e, 0x45, 0x64, 0x67],
   [0x65, 0x42, 0x6f, 0x6f, 0x73, 0x74, 0x65, 0x64, 0x49, 0x6e, 0x73, 0x74],
   [0x61, 0x67, 0x72, 0x61, 0x6d, 0x4d, 0x65, 0x64, 0x69, 0x61, 0x4f, 0x6e],
   [0x48, 0x69, 0x67, 0x68, 0x6c, 0x69, 0x67, 0x68, 0x74, 0x50, 0x6f, 0x73],
   [0x74, 0x46, 0x61, 0x63, 0x61, 0x64, 0x65, 0x27, 0x5f, 0x53, 0x43, 0x48],
   [0x45, 0x4d, 0x41, 0x40, 0x41, 0x40, 0x40, 0x90, 0xc0, 0x40, 0x40, 0x40],
   [0x40, 0x40, 0x40, 0x40, 0x40, 0x40, 0x40, 0x42, 0x84, 0x95, 0xa6, 0xbe],
   [0x00, 0x00, 0x00, 0xa0, 0x00, 0x00, 0x00, 0x12, 0x00, 0x00, 0x00, 0x56],
   [0x00, 0x00, 0x00, 0x47, 0xa0, 0xa0, 0xa0, 0x01, 0x01, 0x3e, 0x4f, 0xa0],
   [0x01, 0x01, 0x3e, 0x68, 0x90, 0xc0, 0x90, 0xd0, 0xa0, 0xe0, 0x91, 0xb0],
   [0x3e, 0x6e, 0x6f, 0x64, 0x65, 0x61, 0x70, 0x69, 0x2e, 0x51, 0x75, 0x65],
   [0x72, 0x79, 0x2e, 0x47, 0x72, 0x61, 0x70, 0x68, 0x4f, 0x62, 0x6a, 0x65],
   [0x63, 0x74, 0x51, 0x75, 0x65, 0x72, 0x79, 0x26, 0x5f, 0x77, 0x68, 0x65]] @
  [[0x72, 0x65, 0x40, 0x41, 0x40, 0x40, 0x90, 0xc0, 0x40, 0x40, 0x40, 0x40],
   [0x90, 0x09, 0x51, 0x69, 0x67, 0x5f, 0x6e, 0x6f, 0x64, 0x65, 0x61, 0x70],
   [0x69, 0x2e, 0x6e, 0x6f, 0x64, 0x65, 0x73, 0x2e, 0x73, 0x61, 0x6c, 0x75],
   [0x73, 0x5f, 0x74, 0x65, 0x73, 0x74, 0x5f, 0x64, 0x61, 0x74, 0x61, 0x84],
   [0x95, 0xa6, 0xbe, 0x00, 0x00, 0x00, 0x1d, 0x00, 0x00, 0x00, 0x05, 0x00],
   [0x00, 0x00, 0x1d, 0x00, 0x00, 0x00, 0x1d, 0x90, 0xa0, 0xc0, 0x40, 0x08],
   [0x00, 0x00, 0x40, 0x00, 0x40, 0x40, 0x40, 0x40, 0x40, 0x40, 0x40, 0x40],
   [0x40, 0x40, 0x40, 0x40, 0x40, 0x40, 0x40, 0x40, 0x40, 0x50, 0x90, 0x40],
   [0x84, 0x95, 0xa6, 0xbe, 0x00, 0x00, 0x02, 0x93, 0x00, 0x00, 0x00, 0x87],
   [0x00, 0x00, 0x01, 0xcb, 0x00, 0x00, 0x01, 0x9d, 0xb0, 0xa0, 0x2a, 0x69],
   [0x67, 0x5f, 0x6e, 0x6f, 0x64, 0x65, 0x61, 0x70, 0x69, 0xa0, 0x25, 0x65],
   [0x64, 0x67, 0x65, 0x73, 0xa0, 0x09, 0x6d, 0x74, 0x65, 0x78, 0x74, 0x5f],
   [0x70, 0x6f, 0x73, 0x74, 0x5f, 0x61, 0x70, 0x70, 0x5f, 0x76, 0x65, 0x72],
   [0x69, 0x66, 0x69, 0x65, 0x64, 0x5f, 0x72, 0x65, 0x70, 0x6c, 0x79, 0x5f],
   [0x74, 0x6f, 0x5f, 0x70, 0x61, 0x72, 0x65, 0x6e, 0x74, 0x5f, 0x64, 0x65],
   [0x66, 0x69, 0x6e, 0x65, 0x64, 0x5f, 0x6f, 0x6e, 0x5f, 0x6d, 0x65, 0x64],
   [0x69, 0x61, 0x5f, 0x62, 0x61, 0x73, 0x65, 0x5f, 0x70, 0x61, 0x74, 0x74],
   [0x65, 0x72, 0x6e, 0x5f, 0x6f, 0x6e, 0x5f, 0x72, 0x65, 0x75, 0x73, 0x61],
   [0x62, 0x6c, 0x65, 0x5f, 0x74, 0x65, 0x6d, 0x70, 0x6c, 0x61, 0x74, 0x65],
   [0x5f, 0x61, 0x73, 0x73, 0x65, 0x74, 0x73, 0x5f, 0x62, 0x61, 0x73, 0x65],
   [0x5f, 0x70, 0x61, 0x74, 0x74, 0x65, 0x72, 0x6e, 0x40, 0x90, 0xa0, 0xa0],
   [0xa0, 0x01, 0x00, 0x98, 0x44, 0xa0, 0x01, 0x00, 0x99, 0x6a, 0xc0, 0x08],
   [0x00, 0x00, 0x20, 0x00, 0xa0, 0x04, 0x0d, 0xa0, 0x04, 0x0c, 0xa0, 0x04],
   [0x0b, 0xa0, 0x09, 0x65, 0x45, 0x64, 0x67, 0x65, 0x54, 0x65, 0x78, 0x74],
   [0x50, 0x6f, 0x73, 0x74, 0x41, 0x70, 0x70, 0x56, 0x65, 0x72, 0x69, 0x66],
   [0x69, 0x65, 0x64, 0x52, 0x65, 0x70, 0x6c, 0x79, 0x54, 0x6f, 0x50, 0x61],
   [0x72, 0x65, 0x6e, 0x74, 0x44, 0x65, 0x66, 0x69, 0x6e, 0x65, 0x64, 0x4f],
   [0x6e, 0x4d, 0x65, 0x64, 0x69, 0x61, 0x42, 0x61, 0x73, 0x65, 0x50, 0x61],
   [0x74, 0x74, 0x65, 0x72, 0x6e, 0x4f, 0x6e, 0x52, 0x65, 0x75, 0x73, 0x61],
   [0x62, 0x6c, 0x65, 0x54, 0x65, 0x6d, 0x70, 0x6c, 0x61, 0x74, 0x65, 0x41]]"

definition dictionary_rows_60 :: "u8 list list" where
  "dictionary_rows_60 =
  [[0x73, 0x73, 0x65, 0x74, 0x73, 0x42, 0x61, 0x73, 0x65, 0x50, 0x61, 0x74],
   [0x74, 0x65, 0x72, 0x6e, 0x51, 0x75, 0x65, 0x72, 0x79, 0xa0, 0x2a, 0x77],
   [0x68, 0x65, 0x72, 0x65, 0x5f, 0x74, 0x69, 0x6d, 0x65, 0x40, 0xa0, 0xa0],
   [0xa0, 0xa0, 0x01, 0x00, 0x98, 0x53, 0xa0, 0x01, 0x00, 0x98, 0x57, 0xb0],
   [0x2f, 0x24, 0x70, 0x61, 0x72, 0x61, 0x6d, 0x65, 0x74, 0x65, 0x72, 0x24],
   [0x73, 0x65, 0x6c, 0x66, 0x40, 0x40, 0xa0, 0xa0, 0xa0, 0xa0, 0x01, 0x00],
   [0x98, 0x59, 0xa0, 0x01, 0x00, 0x98, 0x75, 0xb0, 0x34, 0x24, 0x70, 0x61],
   [0x72, 0x61, 0x6d, 0x65, 0x74, 0x65, 0x72, 0x24, 0x70, 0x72, 0x65, 0x64],
   [0x69, 0x63, 0x61, 0x74, 0x65, 0x40, 0x90, 0xa0, 0xa0, 0xa0, 0x01, 0x00],
   [0x98, 0x64, 0xa0, 0x01, 0x00, 0x98, 0x75, 0x92, 0xa0, 0xa0, 0xa0, 0xa0],
   [0x01, 0x00, 0x98, 0x64, 0xa0, 0x01, 0x00, 0x98, 0x6d, 0x9c, 0x90, 0xb0],
   [0xa0, 0x04, 0x07, 0x9c, 0x90, 0xb0, 0xa0, 0x04, 0x0b, 0x9c, 0x90, 0xb0],
   [0xa0, 0x04, 0x0f, 0x9c, 0x91, 0x27, 0x6e, 0x6f, 0x64, 0x65, 0x61, 0x70],
   [0x69, 0x2a, 0x70, 0x72, 0x65, 0x64, 0x69, 0x63, 0x61, 0x74, 0x65, 0x73],
   [0x40, 0x29, 0x50, 0x72, 0x65, 0x64, 0x69, 0x63, 0x61, 0x74, 0x65, 0x40],
   [0x2b, 0x5f, 0x5f, 0x67, 0x65, 0x74, 0x69, 0x74, 0x65, 0x6d, 0x5f, 0x5f],
   [0x41, 0xa0, 0xa0, 0x40, 0xa0, 0xa0, 0xa0, 0x01, 0x00, 0x98, 0x6e, 0xa0],
   [0x01, 0x00, 0x98, 0x74, 0x9c, 0x91, 0x26, 0x6f, 0x62, 0x6a, 0x65, 0x63],
   [0x74, 0x40, 0x40, 0x40, 0x90, 0xa0, 0xa0, 0xa0, 0x01, 0x00, 0x98, 0x7a],
   [0xa0, 0x01, 0x00, 0x98, 0x01, 0x00, 0x9f, 0x9c, 0x90, 0xb0, 0xa0, 0x04],
   [0x07, 0x9c, 0x90, 0xb0, 0xa0, 0x04, 0x0b, 0x9c, 0x90, 0xb0, 0xa0, 0x04],
   [0x0f, 0x9c, 0x91, 0x04, 0x5a, 0x04, 0x58, 0x40, 0x04, 0x56, 0x40, 0x04],
   [0x4a, 0x40, 0x40, 0x40, 0x90, 0xa0, 0x04, 0x5c, 0xa0, 0x04, 0x5b, 0xa0],
   [0x04, 0x5a, 0xa0, 0x04, 0x4f, 0x40, 0x40, 0x40, 0x40, 0xa0, 0xa0, 0xa0],
   [0xa0, 0x01, 0x00, 0x99, 0x48, 0xa0, 0x01, 0x00, 0x99, 0x6a, 0x9d, 0xa0],
   [0x40, 0x90, 0xa0, 0xa0, 0xa0, 0x01, 0x00, 0x99, 0x4f, 0xa0, 0x01, 0x00],
   [0x99, 0x6a, 0x92, 0xa0, 0xa0, 0xa0, 0xa0, 0x01, 0x00, 0x99, 0x4f, 0xa0],
   [0x01, 0x00, 0x99, 0x5f, 0x9c, 0x90, 0xb0, 0xa0, 0xa0, 0xa0, 0x01, 0x00],
   [0x99, 0x4f, 0xa0, 0x01, 0x00, 0x99, 0x53, 0x9c, 0x91, 0x2f, 0x24, 0x70],
   [0x61, 0x72, 0x61, 0x6d, 0x65, 0x74, 0x65, 0x72, 0x24, 0x73, 0x65, 0x6c]] @
  [[0x66, 0x2b, 0x5f, 0x77, 0x68, 0x65, 0x72, 0x65, 0x5f, 0x74, 0x69, 0x6d],
   [0x65, 0x40, 0xa0, 0xa0, 0x40, 0xa0, 0xa0, 0xa0, 0x01, 0x00, 0x99, 0x60],
   [0xa0, 0x01, 0x00, 0x99, 0x69, 0x9c, 0x91, 0x34, 0x24, 0x70, 0x61, 0x72],
   [0x61, 0x6d, 0x65, 0x74, 0x65, 0x72, 0x24, 0x70, 0x72, 0x65, 0x64, 0x69],
   [0x63, 0x61, 0x74, 0x65, 0x40, 0x40, 0x40, 0x84, 0x95, 0xa6, 0xbe, 0x00],
   [0x00, 0x00, 0x72, 0x00, 0x00, 0x00, 0x02, 0x00, 0x00, 0x00, 0x1f, 0x00],
   [0x00, 0x00, 0x11, 0x94, 0x09, 0x6f, 0x69, 0x67, 0x74, 0x68, 0x72, 0x69],
   [0x66, 0x74, 0x2e, 0x67, 0x65, 0x6e, 0x2e, 0x63, 0x6f, 0x6e, 0x66, 0x69],
   [0x67, 0x65, 0x72, 0x61, 0x74, 0x6f, 0x72, 0x2e, 0x73, 0x74, 0x72, 0x75],
   [0x63, 0x74, 0x73, 0x2e, 0x69, 0x6e, 0x73, 0x74, 0x61, 0x67, 0x72, 0x61],
   [0x6d, 0x2e, 0x74, 0x69, 0x65, 0x72, 0x69, 0x6e, 0x67, 0x2e, 0x72, 0x65],
   [0x63, 0x6f, 0x6d, 0x6d, 0x65, 0x6e, 0x64, 0x61, 0x74, 0x69, 0x6f, 0x6e],
   [0x73, 0x2e, 0x72, 0x65, 0x63, 0x6f, 0x6d, 0x6d, 0x65, 0x6e, 0x64, 0x61],
   [0x74, 0x69, 0x6f, 0x6e, 0x73, 0x2e, 0x74, 0x68, 0x72, 0x69, 0x66, 0x74],
   [0x5f, 0x74, 0x79, 0x70, 0x65, 0x73, 0x2e, 0x54, 0x69, 0x65, 0x72, 0x69],
   [0x6e, 0x67, 0x55, 0x73, 0x65, 0x43, 0x61, 0x73, 0x65, 0x84, 0x95, 0xa6],
   [0xbe, 0x00, 0x00, 0x00, 0x05, 0x00, 0x00, 0x00, 0x03, 0x00, 0x00, 0x00],
   [0x07, 0x00, 0x00, 0x00, 0x07, 0x90, 0xa0, 0x40, 0x90, 0x40, 0x84, 0x95],
   [0xa6, 0xbe, 0x00, 0x00, 0x00, 0x01, 0x00, 0x00, 0x00, 0x00, 0x00, 0x00],
   [0x00, 0x00, 0x00, 0x00, 0x00, 0x00, 0x40, 0x84, 0x95, 0xa6, 0xbe, 0x00],
   [0x00, 0x00, 0x4e, 0x00, 0x00, 0x00, 0x05, 0x00, 0x00, 0x00, 0x1d, 0x00],
   [0x00, 0x00, 0x14, 0x99, 0xa0, 0x42, 0xa0, 0x94, 0x09, 0x46, 0x66, 0x62],
   [0x63, 0x6f, 0x64, 0x65, 0x2e, 0x69, 0x6e, 0x73, 0x74, 0x61, 0x67, 0x72],
   [0x61, 0x6d, 0x2e, 0x61, 0x73, 0x79, 0x6e, 0x63, 0x69, 0x6f, 0x2e, 0x69],
   [0x67, 0x5f, 0x61, 0x64, 0x5f, 0x61, 0x67, 0x67, 0x72, 0x65, 0x67, 0x61],
   [0x74, 0x6f, 0x72, 0x2e, 0x74, 0x74, 0x79, 0x70, 0x65, 0x73, 0x2e, 0x49],
   [0x47, 0x41, 0x64, 0x73, 0x43, 0x54, 0x41, 0x54, 0x72, 0x75, 0x73, 0x74],
   [0x49, 0x6e, 0x66, 0x6f, 0x44, 0x61, 0x74, 0x61, 0x40, 0x84, 0x95, 0xa6],
   [0xbe, 0x00, 0x00, 0x00, 0x34, 0x00, 0x00, 0x00, 0x05, 0x00, 0x00, 0x00],
   [0x18, 0x00, 0x00, 0x80, 0x90, 0x03, 0xfd, 0xa9, 0x9e, 0x14, 0x22, 0x5d]] @
  [[0x22, 0x3c, 0x90, 0x03, 0xfb, 0xd9, 0xfc, 0x23, 0x15, 0x23, 0xf7, 0xbc],
   [0xc1, 0x00, 0x7c, 0x01, 0x00, 0x80, 0x90, 0x03, 0xcf, 0x3b, 0xff, 0x81],
   [0x40, 0x4b, 0xf3, 0x7c, 0x90, 0x03, 0x22, 0x67, 0xea, 0x7d, 0x02, 0xe0],
   [0x8b, 0xfc, 0xc1, 0x42, 0x44, 0xc1, 0x42, 0x48, 0xc1, 0x42, 0x60, 0x90],
   [0x03, 0xc7, 0x31, 0xd5, 0xdf, 0x2b, 0x29, 0x73, 0x42, 0xc1, 0x62, 0x00],
   [0x40, 0x90, 0x03, 0x0b, 0x59, 0xcc, 0xcb, 0x9d, 0x00, 0x36, 0xa2, 0x90],
   [0x03, 0xfb, 0xb3, 0x3c, 0xe0, 0x9b, 0xd7, 0x4e, 0x62, 0xc1, 0x4a, 0x50],
   [0xc1, 0x4a, 0x00, 0x40, 0x90, 0x03, 0xd9, 0x89, 0x01, 0xfc, 0xdc, 0x16],
   [0x73, 0x8a, 0x90, 0x03, 0xf3, 0x23, 0x31, 0x60, 0xef, 0xeb, 0x4c, 0xca],
   [0xc1, 0x5a, 0x60, 0xc1, 0x5a, 0x00, 0x40, 0x90, 0x03, 0x08, 0x22, 0xa4],
   [0x0d, 0xab, 0x23, 0x9e, 0x1a, 0xc1, 0x01, 0x09, 0x5a, 0x01, 0x10, 0x00],
   [0x90, 0x03, 0xfa, 0xf0, 0x56, 0xa7, 0x1f, 0x12, 0xa9, 0x5a, 0x90, 0x03],
   [0x08, 0x11, 0xdf, 0x41, 0x7f, 0xc9, 0x99, 0x5a, 0x90, 0x03, 0xfc, 0xed],
   [0xb0, 0x37, 0xe9, 0xd7, 0xe3, 0x7a, 0xc1, 0x46, 0x48, 0xc1, 0x46, 0x50],
   [0xc1, 0x46, 0x60, 0xc1, 0x46, 0x00, 0x40, 0xc1, 0x46, 0x01, 0x00, 0x80],
   [0x90, 0x03, 0xea, 0xe0, 0xfa, 0x33, 0x46, 0x80, 0xbb, 0x06, 0x90, 0x03],
   [0x00, 0x7b, 0x69, 0x48, 0xfa, 0xdd, 0x3b, 0x86, 0x90, 0x03, 0x07, 0x3c],
   [0x41, 0xa8, 0x40, 0xbf, 0xc9, 0xc6, 0xc1, 0x66, 0x00, 0x40, 0x90, 0x03],
   [0xef, 0x7c, 0x8e, 0xd2, 0xf2, 0x1a, 0x46, 0x26, 0x90, 0x03, 0x35, 0x97],
   [0x66, 0x5b, 0x69, 0x3f, 0x14, 0xe6, 0xc1, 0x56, 0x60, 0x90, 0x03, 0xc9],
   [0xdf, 0x23, 0x55, 0xd7, 0xab, 0xb7, 0xd6, 0x90, 0x03, 0x01, 0x2f, 0xf0],
   [0xd0, 0x4a, 0x59, 0xb1, 0x36, 0xc1, 0x4e, 0x50, 0xc1, 0x4e, 0x60, 0x90],
   [0x03, 0x10, 0x20, 0x87, 0x06, 0xb3, 0x88, 0xdd, 0x4e, 0xc1, 0x00, 0x6e],
   [0x01, 0x00, 0x80, 0x90, 0x03, 0xe9, 0x63, 0x73, 0xf7, 0xf3, 0x3c, 0x55],
   [0x6e, 0xc1, 0x01, 0x00, 0xee, 0x01, 0x01, 0x00, 0x90, 0x03, 0x2e, 0xed],
   [0x6b, 0xa9, 0xd0, 0xab, 0x50, 0xee, 0x90, 0x03, 0x2a, 0x29, 0x4d, 0xec],
   [0xb3, 0xec, 0x9f, 0xee, 0xc1, 0x7e, 0x00, 0x40, 0xc1, 0x01, 0x01, 0x3e],
   [0x01, 0x02, 0x00, 0x90, 0x03, 0x27, 0x62, 0x24, 0x56, 0x2c, 0x75, 0x41],
   [0x3e, 0x90, 0x03, 0x3e, 0xb8, 0x59, 0xa3, 0xfb, 0xfa, 0x2b, 0x3e, 0xc1],
   [0x00, 0x7e, 0x01, 0x00, 0x80, 0x90, 0x03, 0x22, 0x60, 0xbe, 0x0e, 0x58]] @
  [[0x91, 0x33, 0x7e, 0x90, 0x03, 0x0f, 0x83, 0x81, 0x80, 0x96, 0x83, 0xca],
   [0xfe, 0xc1, 0x41, 0x42, 0xc1, 0x41, 0x44, 0xc1, 0x41, 0x48, 0xc1, 0x41],
   [0x50, 0xc1, 0x41, 0x60, 0x90, 0x03, 0x3f, 0xdb, 0x60, 0x97, 0xa8, 0xfc],
   [0x0f, 0xc1, 0x90, 0x03, 0xe0, 0x31, 0xb5, 0xad, 0xce, 0x51, 0x78, 0xe1],
   [0xc1, 0x51, 0x60, 0xc1, 0x51, 0x00, 0x40, 0xc1, 0x51, 0x01, 0x00, 0x80],
   [0x90, 0x03, 0xc0, 0xe6, 0xa2, 0x93, 0xba, 0x10, 0x55, 0x11, 0x90, 0x03],
   [0x0a, 0xcd, 0x0d, 0x82, 0x25, 0x23, 0x55, 0x91, 0x90, 0x03, 0xc7, 0x77],
   [0xba, 0xdd, 0xe7, 0x28, 0x2a, 0xd1, 0x90, 0x03, 0x03, 0x46, 0x3d, 0x4f],
   [0x17, 0xb0, 0xf1, 0x31, 0xc1, 0x49, 0x50, 0x90, 0x03, 0x3c, 0x13, 0x36],
   [0x9a, 0x35, 0xd0, 0x73, 0xc9, 0xc1, 0x59, 0x01, 0x01, 0x00, 0x90, 0x03],
   [0xf0, 0xad, 0x3b, 0x08, 0x93, 0x2d, 0x94, 0x19, 0xc1, 0x01, 0x01, 0x19],
   [0x01, 0x02, 0x00, 0x90, 0x03, 0x0e, 0x59, 0x5c, 0x04, 0x3a, 0xda, 0xe9],
   [0x19, 0x90, 0x03, 0x31, 0x3e, 0x37, 0x5a, 0xf6, 0x48, 0xb3, 0x19, 0xc1],
   [0x45, 0x48, 0xc1, 0x45, 0x50, 0xc1, 0x65, 0x00, 0x40, 0x90, 0x03, 0xff],
   [0x53, 0xcc, 0xa3, 0xbf, 0x5e, 0xca, 0x25, 0xc1, 0x00, 0x65, 0x01, 0x00],
   [0x80, 0x90, 0x03, 0xc9, 0x97, 0xe0, 0xf9, 0x8e, 0x4f, 0x2d, 0x65, 0x90],
   [0x03, 0xea, 0x2f, 0xa6, 0xc2, 0x63, 0x6c, 0xc5, 0xe5, 0x90, 0x03, 0x30],
   [0x40, 0x75, 0xa0, 0xd5, 0x07, 0x08, 0xd5, 0xc1, 0x4d, 0x50, 0xc1, 0x4d],
   [0x60, 0xc1, 0x4d, 0x00, 0x40, 0x90, 0x03, 0x1e, 0xa1, 0x2f, 0x75, 0x57],
   [0x3e, 0x50, 0x0d, 0x90, 0x03, 0xed, 0xbc, 0x3d, 0x43, 0x50, 0xcb, 0x16],
   [0x4d, 0xc1, 0x6d, 0x00, 0x40, 0x90, 0x03, 0x22, 0xf9, 0x84, 0x68, 0xb3],
   [0x4d, 0x4e, 0xad, 0x90, 0x03, 0xe7, 0x27, 0x1d, 0x16, 0xb2, 0x4f, 0xf4],
   [0xed, 0xc1, 0x5d, 0x60, 0xc1, 0x5d, 0x00, 0x40, 0x90, 0x03, 0xde, 0x59],
   [0x7b, 0xbc, 0x23, 0x23, 0x39, 0x9d, 0xc1, 0x00, 0x5d, 0x01, 0x00, 0x80],
   [0x90, 0x03, 0x11, 0xad, 0xc3, 0x68, 0xdf, 0xaa, 0x4e, 0x5d, 0x90, 0x03],
   [0xf5, 0x72, 0xcc, 0x1f, 0x60, 0x20, 0xf3, 0xdd, 0x90, 0x03, 0x1f, 0x7b],
   [0xb8, 0x59, 0xe6, 0xa6, 0xed, 0xbd, 0xc1, 0x43, 0x44, 0xc1, 0x43, 0x48],
   [0xc1, 0x43, 0x50, 0xc1, 0x43, 0x60, 0xc1, 0x43, 0x00, 0x40, 0xc1, 0x43],
   [0x01, 0x00, 0x80, 0x90, 0x03, 0xc5, 0x5d, 0x67, 0x0c, 0xce, 0xbf, 0xc4],
   [0x03, 0x90, 0x03, 0x0e, 0x14, 0x62, 0x18, 0x85, 0x22, 0xb4, 0x83, 0x90]] @
  [[0x03, 0x23, 0xde, 0xe5, 0x28, 0x2b, 0xcd, 0x16, 0x43, 0x90, 0x03, 0x32],
   [0xa9, 0x93, 0x42, 0xc6, 0x96, 0xc6, 0xe3, 0xc1, 0x53, 0x60, 0x90, 0x03],
   [0xda, 0x44, 0xb8, 0xbc, 0xb4, 0x6c, 0x0d, 0x53, 0x90, 0x03, 0x0d, 0x3a],
   [0x16, 0x38, 0x9b, 0xa8, 0xb7, 0xb3, 0xc1, 0x4b, 0x50, 0xc1, 0x4b, 0x60],
   [0xc1, 0x4b, 0x00, 0x40, 0xc1, 0x4b, 0x01, 0x00, 0x80, 0x90, 0x03, 0xee],
   [0x29, 0xcd, 0x6b, 0xda, 0x8f, 0xe3, 0x0b, 0x90, 0x03, 0xe5, 0xa0, 0xfa],
   [0xf4, 0x2e, 0xaa, 0xe3, 0x8b, 0x90, 0x03, 0x36, 0x40, 0xcb, 0xb7, 0x9c],
   [0x05, 0x72, 0x4b, 0xc1, 0x6b, 0x00, 0x40, 0xc1, 0x6b, 0x01, 0x00, 0x80],
   [0x90, 0x03, 0xc2, 0xe1, 0x80, 0x8f, 0x40, 0x7c, 0x13, 0x2b, 0x90, 0x03],
   [0xde, 0x93, 0xd3, 0x08, 0xe8, 0x1c, 0xa6, 0xab, 0x90, 0x03, 0xc0, 0x57],
   [0x0e, 0xb6, 0x20, 0x27, 0x71, 0x6b, 0xc1, 0x5b, 0x60, 0xc1, 0x00, 0x5b],
   [0x01, 0x00, 0x80, 0xc1, 0x01, 0x01, 0x5b, 0x01, 0x02, 0x00, 0x90, 0x03],
   [0xc8, 0x66, 0x1f, 0x54, 0xf6, 0xf8, 0x39, 0x5b, 0xc1, 0x01, 0x0b, 0x5b],
   [0x01, 0x20, 0x00, 0x90, 0x03, 0xf5, 0x0b, 0xda, 0x32, 0x8d, 0xd8, 0x0b],
   [0x5b, 0x90, 0x03, 0xd0, 0x33, 0xc6, 0x98, 0x08, 0x4d, 0x6b, 0x5b, 0xc1],
   [0x01, 0x00, 0xdb, 0x01, 0x01, 0x00, 0x90, 0x03, 0xf2, 0x70, 0x9a, 0xcc],
   [0x7a, 0xab, 0x98, 0xdb, 0x90, 0x03, 0x3b, 0x02, 0x28, 0x96, 0x41, 0x93],
   [0xe3, 0xdb, 0xc1, 0x7b, 0x00, 0x40, 0x90, 0x03, 0xd4, 0x21, 0x6c, 0x4b],
   [0x82, 0x93, 0x36, 0x3b, 0x90, 0x03, 0xef, 0x9a, 0x81, 0x4a, 0x15, 0xca],
   [0x96, 0xfb, 0xc1, 0x47, 0x48, 0xc1, 0x00, 0x67, 0x01, 0x00, 0x80, 0x90],
   [0x03, 0xf2, 0x1c, 0x08, 0xb8, 0xf9, 0x49, 0xa2, 0x67, 0x90, 0x03, 0xc2],
   [0xcf, 0xb6, 0x14, 0x29, 0x2b, 0x45, 0xe7, 0xc1, 0x4f, 0x50, 0x90, 0x03],
   [0xe2, 0x43, 0x98, 0xe4, 0xf2, 0x1e, 0x75, 0x8f, 0xc1, 0x5f, 0x60, 0xc1],
   [0x5f, 0x00, 0x40, 0xc1, 0x5f, 0x01, 0x00, 0x80, 0x90, 0x03, 0x3c, 0x99],
   [0x2a, 0x05, 0xc1, 0x1a, 0x8e, 0x1f, 0x90, 0x2a, 0x05, 0xc1, 0x1a, 0x8e],
   [0x1f, 0x90, 0x03, 0xc9, 0xdb, 0x68, 0x08, 0x3d, 0x87, 0x23, 0x9f, 0xc1],
   [0x00, 0x5f, 0x01, 0x00, 0x80, 0x90, 0x03, 0xf8, 0xf2, 0x35, 0x91, 0xc8],
   [0x67, 0x89, 0x5f, 0xc1, 0x01, 0x06, 0xdf, 0x01, 0x10, 0x00, 0x90, 0x03],
   [0x31, 0x9d, 0xb5, 0x75, 0x22, 0xcc, 0xe6, 0xdf, 0x90, 0x03, 0x09, 0x9d],
   [0x90, 0x3f, 0x79, 0x17, 0xb6, 0xdf, 0x90, 0x03, 0xd0, 0x15, 0x7a, 0x31]]"

definition dictionary_rows_61 :: "u8 list list" where
  "dictionary_rows_61 =
  [[0xfb, 0xb2, 0x36, 0xff, 0x90, 0xa0, 0x03, 0xc0, 0x00, 0x00, 0x00, 0x00],
   [0x00, 0x10, 0x00, 0x90, 0xc1, 0x40, 0x41, 0xc1, 0x40, 0x42, 0xc1, 0x40],
   [0x44, 0xc1, 0x40, 0x48, 0xc1, 0x40, 0x50, 0xc1, 0x40, 0x60, 0x90, 0x03],
   [0x0d, 0xab, 0xd3, 0x11, 0x96, 0x72, 0xa1, 0x80, 0x90, 0x03, 0xd2, 0xa7],
   [0x56, 0x20, 0xa1, 0xb5, 0xd1, 0x60, 0x90, 0x03, 0x15, 0xa2, 0x91, 0x0c],
   [0xc8, 0x62, 0xe2, 0xd0, 0xc1, 0x48, 0x50, 0x90, 0x03, 0xc5, 0x52, 0xe7],
   [0x4f, 0x77, 0xf2, 0xf1, 0x68, 0x90, 0x03, 0xc7, 0x5a, 0x6b, 0xcd, 0x2e],
   [0x07, 0xed, 0x38, 0xc1, 0x44, 0x48, 0xc1, 0x44, 0x50, 0x90, 0x03, 0xe0],
   [0x60, 0x28, 0xae, 0xd2, 0x3d, 0x95, 0x44, 0x90, 0x03, 0x1a, 0xba, 0x9c],
   [0x44, 0xfa, 0xc7, 0xa5, 0x14, 0xc1, 0x4c, 0x50, 0x90, 0x03, 0x38, 0x5f],
   [0x50, 0x2d, 0xdc, 0x47, 0x35, 0x6c, 0x90, 0x03, 0x04, 0x6d, 0xa1, 0xff],
   [0x50, 0x3d, 0x5b, 0x3c, 0xc1, 0x42, 0x44, 0xc1, 0x42, 0x48, 0x90, 0x03],
   [0x09, 0x52, 0x2d, 0x78, 0x73, 0x9b, 0xdf, 0x92, 0xc1, 0x4a, 0x60, 0x90],
   [0x03, 0xe9, 0x2e, 0x5c, 0xe7, 0x17, 0xef, 0x73, 0x4a, 0x90, 0x03, 0xda],
   [0x49, 0x76, 0x62, 0xea, 0xa2, 0x4a, 0x2a, 0xc1, 0x46, 0x48, 0xc1, 0x46],
   [0x50, 0x90, 0x03, 0xe7, 0x7b, 0xec, 0xac, 0xd6, 0xae, 0xa1, 0x86, 0x90],
   [0x03, 0x39, 0x6f, 0xf0, 0x44, 0x70, 0x42, 0xbf, 0xb6, 0x90, 0x03, 0xef],
   [0x63, 0x12, 0xfb, 0x2d, 0xe8, 0xbf, 0xbe, 0xc1, 0x41, 0x42, 0xc1, 0x41],
   [0x44, 0xc1, 0x41, 0x48, 0xc1, 0x41, 0x50, 0x90, 0x03, 0xd6, 0x5c, 0xa4],
   [0x27, 0x3b, 0x57, 0xf8, 0xa1, 0xc1, 0x51, 0x60, 0x90, 0x03, 0xc5, 0x47],
   [0xe8, 0x0b, 0x3e, 0xf2, 0x3b, 0x91, 0xc1, 0x71, 0x00, 0x40, 0x90, 0x03],
   [0xc1, 0x22, 0xe6, 0xf9, 0x13, 0xb1, 0x0e, 0xb1, 0xc1, 0x01, 0x03, 0xf1],
   [0x01, 0x04, 0x00, 0x90, 0x03, 0x30, 0x55, 0x70, 0x6a, 0x5b, 0x3d, 0x53],
   [0xf1, 0x90, 0x03, 0x34, 0xaa, 0xb7, 0x86, 0x3e, 0x81, 0xb7, 0xf1, 0xc1],
   [0x49, 0x50, 0x90, 0x03, 0xea, 0xe7, 0x6a, 0x79, 0xfa, 0xb8, 0x93, 0xe9],
   [0x90, 0x03, 0x24, 0xe6, 0x17, 0xd4, 0x37, 0xbd, 0x09, 0xf9, 0x90, 0x03],
   [0xf3, 0x61, 0xe4, 0x2b, 0xee, 0x9b, 0x45, 0xf5, 0xc1, 0x43, 0x44, 0xc1],
   [0x43, 0x48, 0xc1, 0x43, 0x50, 0x90, 0x03, 0x06, 0x10, 0x2b, 0x19, 0x78],
   [0xc2, 0x80, 0xc3, 0x90, 0x03, 0xc6, 0x6f, 0x4e, 0xbf, 0xa8, 0x09, 0x29],
   [0xf3, 0xc1, 0x4b, 0x50, 0xc1, 0x4b, 0x60, 0x90, 0x03, 0xe3, 0x9b, 0x2d]] @
  [[0xa1, 0xba, 0xf7, 0x4e, 0x8b, 0xc1, 0x6b, 0x00, 0x40, 0xc1, 0x6b, 0x01],
   [0x00, 0x80, 0x90, 0x03, 0xfc, 0x14, 0xe9, 0xae, 0x7b, 0x41, 0x15, 0x2b],
   [0x90, 0x03, 0xcb, 0xb0, 0xdb, 0xc0, 0x0b, 0x65, 0x1b, 0xab, 0x90, 0x03],
   [0x32, 0x27, 0x4e, 0xac, 0xf4, 0x01, 0x19, 0xeb, 0xc1, 0x01, 0x00, 0xdb],
   [0x01, 0x02, 0x00, 0x90, 0x03, 0x1e, 0x21, 0x1f, 0x0a, 0xc7, 0xfd, 0x80],
   [0xdb, 0x90, 0x03, 0xc0, 0x46, 0xa4, 0xa4, 0x6f, 0xfe, 0xe6, 0xdb, 0x90],
   [0x03, 0xe6, 0x69, 0x39, 0xba, 0x5c, 0x9a, 0x6b, 0x9f, 0x90, 0xa0, 0x40],
   [0x40, 0x90, 0x40, 0x40, 0x41, 0x92, 0x2d, 0x4e, 0x6f, 0x64, 0x65, 0x45],
   [0x64, 0x67, 0x65, 0x51, 0x75, 0x65, 0x72, 0x79, 0x08, 0x00, 0x00, 0x20],
   [0x00, 0x90, 0xa0, 0xa0, 0x03, 0x06, 0x06, 0x81, 0x23, 0x44, 0x05, 0x11],
   [0x00, 0x40, 0xa0, 0x03, 0x04, 0x00, 0x00, 0x01, 0x00, 0x00, 0x01, 0x00],
   [0x40, 0x90, 0x40, 0x90, 0x05, 0x01, 0x21, 0x90, 0x4e, 0x90, 0x90, 0xc1],
   [0x40, 0x42, 0xc1, 0x60, 0x00, 0x40, 0x90, 0x03, 0x06, 0x00, 0x23, 0xb1],
   [0xa8, 0x48, 0xa5, 0xa0, 0x90, 0x03, 0x28, 0xa7, 0x48, 0x9e, 0xee, 0x4a],
   [0x5d, 0xe0, 0x90, 0x03, 0x2b, 0x44, 0x4e, 0x28, 0x40, 0xa2, 0xc1, 0x96],
   [0x90, 0xa0, 0x40, 0x90, 0x90, 0x03, 0xe4, 0x09, 0x5d, 0x62, 0xd7, 0x25],
   [0x33, 0x08, 0x90, 0xa0, 0x40, 0x40, 0x90, 0x40, 0xd0, 0x40, 0x92, 0x23],
   [0x4f, 0x44, 0x53, 0x08, 0x00, 0x00, 0x20, 0x00, 0x90, 0xa0, 0xa0, 0x03],
   [0xc6, 0x46, 0x89, 0x23, 0x4c, 0x05, 0x91, 0x00, 0x90, 0x90, 0x03, 0xd3],
   [0x75, 0xf7, 0x89, 0x55, 0xaf, 0x1d, 0x4c, 0xa0, 0x03, 0x00, 0x04, 0x00],
   [0x01, 0x00, 0x00, 0x01, 0x00, 0x40, 0x90, 0x40, 0x90, 0x05, 0x01, 0x3c],
   [0x90, 0x45, 0x90, 0x90, 0x90, 0x03, 0x0a, 0xca, 0xb8, 0x8e, 0xf6, 0x55],
   [0x70, 0xf6, 0x90, 0xa0, 0x03, 0xc0, 0x00, 0x08, 0x00, 0x00, 0x00, 0x50],
   [0x00, 0x40, 0x90, 0xa0, 0x40, 0x40, 0x90, 0x40, 0x40, 0x41, 0x42, 0xb5],
   [0x40, 0xa0, 0x91, 0xa0, 0x90, 0xc0, 0x40, 0x90, 0x23, 0x50, 0x49, 0x49],
   [0xc0, 0x40, 0x90, 0x2c, 0x52, 0x65, 0x73, 0x70, 0x6f, 0x6e, 0x73, 0x65],
   [0x44, 0x61, 0x74, 0x61, 0x40, 0x41, 0x42, 0x90, 0x40, 0x40, 0x92, 0x27],
   [0x4c, 0x6f, 0x67, 0x67, 0x69, 0x6e, 0x67, 0x08, 0x00, 0x00, 0x20, 0x00],
   [0x90, 0xa0, 0xa0, 0x03, 0xc6, 0x06, 0x09, 0x23, 0x4c, 0x05, 0x93, 0x00],
   [0x90, 0xc1, 0x40, 0x42, 0x90, 0x03, 0xd3, 0x75, 0xf7, 0x89, 0x55, 0xaf]] @
  [[0x1d, 0x4c, 0x90, 0x03, 0x27, 0x8a, 0xf3, 0x56, 0x4d, 0x54, 0x24, 0xe6],
   [0xa0, 0x03, 0x00, 0x00, 0x00, 0x01, 0x00, 0x00, 0x00, 0x00, 0x40, 0x90],
   [0x40, 0x90, 0x05, 0x01, 0x5e, 0x90, 0x44, 0x90, 0x90, 0xc1, 0x40, 0x41],
   [0xc1, 0x40, 0x42, 0xc1, 0x40, 0x44, 0xc1, 0x40, 0x48, 0x90, 0x03, 0x08],
   [0x9c, 0xed, 0x7a, 0x54, 0xe3, 0x9c, 0x80, 0xc1, 0x48, 0x50, 0x05, 0x01],
   [0x4b, 0xc1, 0x58, 0x60, 0xc1, 0x00, 0x58, 0x01, 0x00, 0x80, 0x90, 0x03],
   [0xc4, 0x81, 0xda, 0xac, 0x8b, 0xf1, 0xec, 0x58, 0x05, 0x01, 0x46, 0xc1],
   [0x78, 0x00, 0x40, 0x90, 0x03, 0x0c, 0x93, 0x09, 0xa7, 0x32, 0xef, 0x91],
   [0x38, 0x05, 0x01, 0x45, 0xc1, 0x44, 0x48, 0x90, 0x03, 0xf5, 0xd9, 0x02],
   [0x42, 0x79, 0xdb, 0x84, 0x14, 0xc1, 0x4c, 0x50, 0xc1, 0x4c, 0x60, 0x90],
   [0x03, 0xec, 0x45, 0xb4, 0xa2, 0x1c, 0x3f, 0x6b, 0x0c, 0xc1, 0x00, 0x6c],
   [0x01, 0x02, 0x00, 0x90, 0x03, 0xf9, 0x2d, 0x54, 0x3f, 0x75, 0x0d, 0xf8],
   [0x6c, 0x90, 0x03, 0x05, 0x74, 0x44, 0x1e, 0x40, 0xc0, 0xc6, 0x6c, 0xc1],
   [0x7c, 0x00, 0x40, 0xc1, 0x7c, 0x01, 0x00, 0x80, 0x90, 0x03, 0xfd, 0xa9],
   [0x9e, 0x14, 0x22, 0x5d, 0x22, 0x3c, 0x90, 0x03, 0xfb, 0xd9, 0xfc, 0x23],
   [0x15, 0x23, 0xf7, 0xbc, 0xc1, 0x00, 0x7c, 0x01, 0x00, 0x80, 0x90, 0x03],
   [0xcf, 0x3b, 0xff, 0x81, 0x40, 0x4b, 0xf3, 0x7c, 0x90, 0x03, 0x22, 0x67],
   [0xea, 0x7d, 0x02, 0xe0, 0x8b, 0xfc, 0xc1, 0x42, 0x44, 0xc1, 0x42, 0x48],
   [0x90, 0x03, 0xc7, 0x31, 0xd5, 0xdf, 0x2b, 0x29, 0x73, 0x42, 0xc1, 0x4a],
   [0x50, 0x90, 0x03, 0xf3, 0x23, 0x31, 0x60, 0xef, 0xeb, 0x4c, 0xca, 0x61],
   [0x6e, 0x64, 0x65, 0x64, 0x5f, 0x63, 0x6f, 0x6e, 0x74, 0x65, 0x6e, 0x74],
   [0x5f, 0x63, 0x72, 0x65, 0x61, 0x74, 0x6f, 0x72, 0x5f, 0x6f, 0x6e, 0x62],
   [0x6f, 0x61, 0x72, 0x64, 0x3f, 0x74, 0x68, 0x72, 0x69, 0x66, 0x74, 0x5f],
   [0x6d, 0x65, 0x74, 0x61, 0x64, 0x61, 0x74, 0x61, 0x3f, 0x5f, 0x66, 0x62],
   [0x74, 0x68, 0x72, 0x69, 0x66, 0x74, 0x5f, 0x67, 0x65, 0x6e, 0x5f, 0x6d],
   [0x65, 0x74, 0x61, 0x64, 0x61, 0x74, 0x61, 0x5f, 0x73, 0x74, 0x72, 0x75],
   [0x63, 0x74, 0x5f, 0x49, 0x47, 0x42, 0x72, 0x61, 0x6e, 0x64, 0x65, 0x64],
   [0x43, 0x6f, 0x6e, 0x74, 0x65, 0x6e, 0x74, 0x43, 0x72, 0x65, 0x61, 0x74],
   [0x6f, 0x72, 0x4f, 0x6e, 0x62, 0x6f, 0x61, 0x72, 0x64, 0x53, 0x6f, 0x75],
   [0x72, 0x63, 0x65, 0x46, 0x65, 0x61, 0x74, 0x75, 0x72, 0x65, 0x73, 0x24]] @
  [[0x6e, 0x65, 0x77, 0x5f, 0x73, 0x74, 0x72, 0x75, 0x63, 0x74, 0x40, 0xa0],
   [0xa0, 0xa0, 0x6d, 0x51, 0xa0, 0x6d, 0x75, 0x92, 0xa0, 0xa0, 0xa0, 0xa0],
   [0x6d, 0x51, 0xa0, 0x6d, 0x60, 0x9c, 0x91, 0x05, 0x01, 0x84, 0xa0, 0xa0],
   [0x90, 0xa0, 0xa0, 0xa0, 0x6d, 0x61, 0xa0, 0x6d, 0x68, 0x32, 0x24, 0x70],
   [0x61, 0x72, 0x61, 0x6d, 0x65, 0x74, 0x65, 0x72, 0x24, 0x73, 0x74, 0x72],
   [0x75, 0x63, 0x74, 0x73, 0xa0, 0xa0, 0xa0, 0x6d, 0x69, 0xa0, 0x6d, 0x74],
   [0x9c, 0x91, 0x04, 0xb9, 0x40, 0xa0, 0xa0, 0xa0, 0xa0, 0x71, 0x44, 0xa0],
   [0x71, 0x55, 0x9d, 0xa0, 0x40, 0x90, 0xa0, 0xa0, 0xa0, 0x71, 0x4b, 0xa0],
   [0x71, 0x55, 0x9c, 0x91, 0x04, 0x29, 0x40, 0x40, 0x84, 0x95, 0xa6, 0xbe],
   [0x00, 0x00, 0x00, 0x01, 0x00, 0x00, 0x00, 0x00, 0x00, 0x00, 0x00, 0x00],
   [0x00, 0x00, 0x00, 0x00, 0x40, 0x84, 0x95, 0xa6, 0xbe, 0x00, 0x00, 0x00],
   [0x01, 0x00, 0x00, 0x00, 0x00, 0x00, 0x00, 0x00, 0x00, 0x00, 0x00, 0x00],
   [0x00, 0x40, 0x84, 0x95, 0xa6, 0xbe, 0x00, 0x00, 0x00, 0x01, 0x00, 0x00],
   [0x00, 0x00, 0x00, 0x00, 0x00, 0x00, 0x00, 0x00, 0x00, 0x00, 0x40, 0x84],
   [0x95, 0xa6, 0xbe, 0x00, 0x00, 0x01, 0x4b, 0x00, 0x00, 0x00, 0x64, 0x00],
   [0x00, 0x01, 0x32, 0x00, 0x00, 0x01, 0x25, 0xb0, 0xa0, 0x28, 0x69, 0x67],
   [0x74, 0x68, 0x72, 0x69, 0x66, 0x74, 0xa0, 0x23, 0x67, 0x65, 0x6e, 0xa0],
   [0x28, 0x66, 0x61, 0x63, 0x65, 0x62, 0x6f, 0x6f, 0x6b, 0xa0, 0x2a, 0x76],
   [0x69, 0x64, 0x65, 0x6f, 0x69, 0x6e, 0x66, 0x72, 0x61, 0xa0, 0x23, 0x75],
   [0x6d, 0x61, 0xa0, 0x30, 0x65, 0x64, 0x69, 0x74, 0x69, 0x6e, 0x67, 0x5f],
   [0x70, 0x69, 0x70, 0x65, 0x6c, 0x69, 0x6e, 0x65, 0xa0, 0x2c, 0x74, 0x68],
   [0x72, 0x69, 0x66, 0x74, 0x5f, 0x74, 0x79, 0x70, 0x65, 0x73, 0x40, 0x90],
   [0xa0, 0xa0, 0xa0, 0x01, 0x07, 0x79, 0x44, 0xa0, 0x01, 0x07, 0x79, 0x62],
   [0xc0, 0x08, 0x00, 0x00, 0x20, 0x00, 0xa0, 0x04, 0x15, 0xa0, 0x04, 0x14],
   [0xa0, 0x04, 0x13, 0xa0, 0x04, 0x12, 0xa0, 0x04, 0x11, 0xa0, 0x04, 0x10],
   [0xa0, 0x04, 0x0f, 0xa0, 0x2f, 0x54, 0x69, 0x6d, 0x65, 0x53, 0x63, 0x61],
   [0x6c, 0x65, 0x45, 0x66, 0x66, 0x65, 0x63, 0x74, 0xa0, 0x28, 0x67, 0x65],
   [0x74, 0x5f, 0x74, 0x79, 0x70, 0x65, 0x40, 0xa0, 0xa0, 0xa0, 0xa0, 0x01],
   [0x07, 0x79, 0x51, 0xa0, 0x01, 0x07, 0x79, 0x55, 0xb0, 0x2f, 0x24, 0x70],
   [0x61, 0x72, 0x61, 0x6d, 0x65, 0x74, 0x65, 0x72, 0x24, 0x73, 0x65, 0x6c]] @
  [[0x66, 0x40, 0x40, 0x40, 0x40, 0x90, 0xa0, 0xa0, 0xa0, 0x01, 0x07, 0x79],
   [0x5a, 0xa0, 0x01, 0x07, 0x79, 0x5e, 0x9c, 0x90, 0xb0, 0xa0, 0x04, 0x07],
   [0x9c, 0x90, 0xb0, 0xa0, 0x04, 0x0b, 0x9c, 0x90, 0xb0, 0xa0, 0x04, 0x0f],
   [0x9c, 0x90, 0xb0, 0xa0, 0x04, 0x13, 0x9c, 0x90, 0xb0, 0xa0, 0x04, 0x17],
   [0x9c, 0x90, 0xb0, 0xa0, 0x04, 0x1b, 0x9c, 0x90, 0xb0, 0xa0, 0x04, 0x1f],
   [0x9c, 0x90, 0xb0, 0xa0, 0x04, 0x23, 0x9c, 0x91, 0x04, 0x4d, 0x04, 0x4b],
   [0x40, 0x04, 0x49, 0x40, 0x04, 0x47, 0x40, 0x04, 0x45, 0x40, 0x04, 0x43],
   [0x40, 0x04, 0x41, 0x40, 0x04, 0x31, 0x40, 0x24, 0x54, 0x79, 0x70, 0x65],
   [0x40, 0x40, 0x40, 0x90, 0xa0, 0x04, 0x50, 0xa0, 0x04, 0x4f, 0xa0, 0x04],
   [0x4e, 0xa0, 0x04, 0x4d, 0xa0, 0x04, 0x4c, 0xa0, 0x04, 0x4b, 0xa0, 0x04],
   [0x4a, 0xa0, 0x04, 0x3b, 0x40, 0x40, 0x40, 0x40, 0xa0, 0xa0, 0xa0, 0xa0],
   [0x01, 0x07, 0x79, 0x5f, 0xa0, 0x01, 0x07, 0x79, 0x62, 0x95, 0xa0, 0xa0],
   [0xa0, 0x01, 0x07, 0x79, 0x5f, 0xa0, 0x01, 0x07, 0x79, 0x62, 0x94, 0x41],
   [0x40, 0x40, 0x84, 0x95, 0xa6, 0xbe, 0x00, 0x00, 0x00, 0xeb, 0x00, 0x00],
   [0x00, 0x4c, 0x00, 0x00, 0x00, 0xf3, 0x00, 0x00, 0x00, 0xef, 0xc0, 0x90],
   [0x40, 0xa0, 0x40, 0xd0, 0x40, 0xb0, 0x40, 0x24, 0x73, 0x65, 0x6c, 0x66],
   [0x40, 0xa0, 0xd0, 0x40, 0x90, 0x40, 0xf0, 0x90, 0xd0, 0x40, 0x92, 0x2d],
   [0x4e, 0x6f, 0x64, 0x65, 0x45, 0x64, 0x67, 0x65, 0x51, 0x75, 0x65, 0x72],
   [0x79, 0x08, 0x00, 0x00, 0x20, 0x00, 0x90, 0xa0, 0xa0, 0x40, 0x40, 0xa0],
   [0x40, 0x40, 0x90, 0x40, 0x90, 0xa0, 0x03, 0x3f, 0xff, 0xff, 0xff, 0xff],
   [0xff, 0xff, 0xff, 0x40, 0x90, 0x40, 0x90, 0x40, 0x90, 0xa0, 0x40, 0x40],
   [0x90, 0xa0, 0x40, 0x40, 0x90, 0x40, 0x40, 0x41, 0x90, 0x90, 0x40, 0x90],
   [0xa0, 0xa0, 0x40, 0x40, 0x04, 0x01, 0x90, 0x04, 0x0a, 0x90, 0x04, 0x09],
   [0x90, 0xb0, 0xa0, 0xa0, 0x03, 0xc0, 0x00, 0x00, 0x00, 0x00, 0x00, 0x00],
   [0x00, 0x03, 0x3f, 0xff, 0xff, 0xff, 0xff, 0xff, 0xff, 0xff, 0x40, 0xa0],
   [0x04, 0x02, 0x40, 0x40, 0x90, 0x40, 0x40, 0x41, 0x40, 0xd0, 0x40, 0xb0],
   [0x41, 0x29, 0x70, 0x72, 0x65, 0x64, 0x69, 0x63, 0x61, 0x74, 0x65, 0x40],
   [0xa0, 0xd0, 0x40, 0x04, 0x27, 0xf0, 0x90, 0xd0, 0x40, 0x04, 0x26, 0x08],
   [0x00, 0x00, 0x20, 0x00, 0x90, 0xa0, 0xa0, 0x40, 0x40, 0xa0, 0x40, 0x40],
   [0x90, 0x40, 0x90, 0x04, 0x24, 0x90, 0x40, 0x90, 0x40, 0x90, 0x04, 0x23]]"

definition dictionary_rows_62 :: "u8 list list" where
  "dictionary_rows_62 =
  [[0x90, 0x04, 0x22, 0x90, 0x40, 0x40, 0x41, 0x90, 0x04, 0x21, 0x90, 0x04],
   [0x20, 0x90, 0x04, 0x28, 0x90, 0x04, 0x27, 0x90, 0xb0, 0xa0, 0x04, 0x1e],
   [0x40, 0xa0, 0x04, 0x1f, 0x40, 0x40, 0x90, 0x40, 0x40, 0x41, 0x40, 0x40],
   [0x41, 0x42, 0xb0, 0xb0, 0x90, 0x40, 0x90, 0x40, 0xa0, 0x04, 0x03, 0x04],
   [0x02, 0x04, 0x04, 0x40, 0x40, 0x84, 0x95, 0xa6, 0xbe, 0x00, 0x00, 0x00],
   [0x05, 0x00, 0x00, 0x00, 0x02, 0x00, 0x00, 0x00, 0x06, 0x00, 0x00, 0x00],
   [0x06, 0xa0, 0x40, 0xa0, 0x41, 0x40, 0x84, 0x95, 0xa6, 0xbe, 0x00, 0x00],
   [0x00, 0x0c, 0x00, 0x00, 0x00, 0x01, 0x00, 0x00, 0x00, 0x04, 0x00, 0x00],
   [0x00, 0x03, 0x2b, 0x5f, 0x5f, 0x73, 0x65, 0x74, 0x69, 0x74, 0x65, 0x6d],
   [0x5f, 0x5f, 0x84, 0x95, 0xa6, 0xbe, 0x00, 0x00, 0x00, 0x01, 0x00, 0x00],
   [0x00, 0x00, 0x00, 0x00, 0x00, 0x00, 0x00, 0x00, 0x00, 0x00, 0x40, 0x84],
   [0x95, 0xa6, 0xbe, 0x00, 0x00, 0x00, 0x19, 0x00, 0x00, 0x00, 0x09, 0x00],
   [0x00, 0x00, 0x1e, 0x00, 0x00, 0x00, 0x1e, 0xc0, 0x90, 0x40, 0xa0, 0x40],
   [0x40, 0xb0, 0xb0, 0x90, 0x40, 0x90, 0x40, 0xa0, 0x04, 0x03, 0x04, 0x02],
   [0x04, 0x04, 0x40, 0xc0, 0x40, 0x40, 0x40, 0x41, 0x84, 0x95, 0xa6, 0xbe],
   [0x00, 0x00, 0x00, 0x6c, 0x64, 0x5f, 0x73, 0x65, 0x74, 0x74, 0x65, 0x72],
   [0x40, 0x31, 0x6e, 0x6f, 0x64, 0x65, 0x5f, 0x66, 0x69, 0x65, 0x6c, 0x64],
   [0x5f, 0x73, 0x65, 0x74, 0x74, 0x65, 0x72, 0x40, 0xa0, 0xa0, 0x40, 0xa0],
   [0xa0, 0xa0, 0x01, 0x02, 0x1f, 0x57, 0xa0, 0x01, 0x02, 0x1f, 0x01, 0x00],
   [0x95, 0x92, 0xa0, 0xa0, 0xa0, 0xa0, 0x01, 0x02, 0x1f, 0x57, 0xa0, 0x01],
   [0x02, 0x1f, 0x66, 0x9c, 0x90, 0xb0, 0xa0, 0x04, 0x07, 0x9c, 0x90, 0xb0],
   [0xa0, 0x04, 0x0b, 0x9c, 0x90, 0xb0, 0xa0, 0x04, 0x0f, 0x9c, 0x91, 0x27],
   [0x6e, 0x6f, 0x64, 0x65, 0x61, 0x70, 0x69, 0x27, 0x70, 0x72, 0x69, 0x76],
   [0x61, 0x63, 0x79, 0x40, 0x31, 0x6e, 0x6f, 0x64, 0x65, 0x5f, 0x78, 0x69],
   [0x64, 0x5f, 0x6d, 0x65, 0x74, 0x61, 0x64, 0x61, 0x74, 0x61, 0x40, 0x2f],
   [0x4e, 0x6f, 0x64, 0x65, 0x58, 0x49, 0x44, 0x4d, 0x65, 0x74, 0x61, 0x64],
   [0x61, 0x74, 0x61, 0x40, 0xa0, 0xa0, 0x90, 0xa0, 0xa0, 0xa0, 0x01, 0x02],
   [0x1f, 0x67, 0xa0, 0x01, 0x02, 0x1f, 0x72, 0x36, 0x24, 0x70, 0x61, 0x72],
   [0x61, 0x6d, 0x65, 0x74, 0x65, 0x72, 0x24, 0x61, 0x73, 0x73, 0x65, 0x74],
   [0x5f, 0x63, 0x6c, 0x61, 0x73, 0x73, 0xa0, 0xa0, 0xa0, 0x01, 0x02, 0x1f]] @
  [[0x73, 0xa0, 0x01, 0x02, 0x1f, 0x7e, 0x94, 0x94, 0xa0, 0x29, 0x45, 0x4e],
   [0x54, 0x5f, 0x46, 0x49, 0x45, 0x4c, 0x44, 0x40, 0xa0, 0xa0, 0x90, 0xa0],
   [0xa0, 0xa0, 0x01, 0x02, 0x1f, 0x00, 0x40, 0xa0, 0x01, 0x02, 0x1f, 0x00],
   [0x44, 0x2f, 0x24, 0x70, 0x61, 0x72, 0x61, 0x6d, 0x65, 0x74, 0x65, 0x72],
   [0x24, 0x72, 0x65, 0x70, 0x6f, 0xa0, 0xa0, 0xa0, 0x01, 0x02, 0x1f, 0x00],
   [0x45, 0xa0, 0x01, 0x02, 0x1f, 0x00, 0x4a, 0x94, 0x94, 0xa0, 0x23, 0x77],
   [0x77, 0x77, 0x40, 0xa0, 0xa0, 0x90, 0xa0, 0xa0, 0xa0, 0x01, 0x02, 0x1f],
   [0x00, 0x4c, 0xa0, 0x01, 0x02, 0x1f, 0x00, 0x57, 0x36, 0x24, 0x70, 0x61],
   [0x72, 0x61, 0x6d, 0x65, 0x74, 0x65, 0x72, 0x24, 0x73, 0x63, 0x68, 0x65],
   [0x6d, 0x61, 0x5f, 0x6e, 0x61, 0x6d, 0x65, 0xa0, 0xa0, 0xa0, 0x01, 0x02],
   [0x1f, 0x00, 0x58, 0xa0, 0x01, 0x02, 0x1f, 0x00, 0x78, 0x94, 0x94, 0xa0],
   [0x3e, 0x45, 0x6e, 0x74, 0x46, 0x72, 0x61, 0x6d, 0x65, 0x49, 0x6d, 0x61],
   [0x67, 0x65, 0x41, 0x73, 0x73, 0x65, 0x74, 0x48, 0x61, 0x6e, 0x64, 0x6c],
   [0x65, 0x53, 0x63, 0x68, 0x65, 0x6d, 0x61, 0x40, 0xa0, 0xa0, 0x90, 0xa0],
   [0xa0, 0xa0, 0x01, 0x02, 0x1f, 0x00, 0x7a, 0xa0, 0x01, 0x02, 0x1f, 0x00],
   [0x7f, 0x30, 0x24, 0x70, 0x61, 0x72, 0x61, 0x6d, 0x65, 0x74, 0x65, 0x72],
   [0x24, 0x66, 0x69, 0x65, 0x6c, 0x64, 0xa0, 0xa0, 0xa0, 0x01, 0x02, 0x1f],
   [0x01, 0x00, 0x80, 0xa0, 0x01, 0x02, 0x1f, 0x01, 0x00, 0x94, 0x94, 0x94],
   [0xa0, 0x32, 0x49, 0x6d, 0x61, 0x67, 0x65, 0x43, 0x6f, 0x6e, 0x74, 0x65],
   [0x6e, 0x74, 0x4c, 0x6f, 0x63, 0x61, 0x6c, 0x65, 0x40, 0x40, 0x40, 0x40],
   [0x84, 0x95, 0xa6, 0xbe, 0x00, 0x00, 0x00, 0x01, 0x00, 0x00, 0x00, 0x00],
   [0x00, 0x00, 0x00, 0x00, 0x00, 0x00, 0x00, 0x00, 0x40, 0x84, 0x95, 0xa6],
   [0xbe, 0x00, 0x00, 0x00, 0x01, 0x00, 0x00, 0x00, 0x00, 0x00, 0x00, 0x00],
   [0x00, 0x00, 0x00, 0x00, 0x00, 0x40, 0x84, 0x95, 0xa6, 0xbe, 0x00, 0x00],
   [0x00, 0x9a, 0x00, 0x00, 0x00, 0x12, 0x00, 0x00, 0x00, 0x55, 0x00, 0x00],
   [0x00, 0x47, 0xa0, 0xa0, 0xa0, 0x01, 0x1b, 0x9f, 0x4f, 0xa0, 0x01, 0x1b],
   [0x9f, 0x68, 0x90, 0xc0, 0x90, 0xd0, 0xa0, 0xe0, 0x91, 0xb0, 0x3e, 0x6e],
   [0x6f, 0x64, 0x65, 0x61, 0x70, 0x69, 0x2e, 0x51, 0x75, 0x65, 0x72, 0x79],
   [0x2e, 0x47, 0x72, 0x61, 0x70, 0x68, 0x4f, 0x62, 0x6a, 0x65, 0x63, 0x74],
   [0x51, 0x75, 0x65, 0x72, 0x79, 0x29, 0x5f, 0x6f, 0x72, 0x64, 0x65, 0x72]] @
  [[0x5f, 0x62, 0x79, 0x40, 0x41, 0x40, 0x40, 0x90, 0xc0, 0x40, 0x40, 0x40],
   [0x40, 0x90, 0x09, 0x48, 0x69, 0x67, 0x5f, 0x6e, 0x6f, 0x64, 0x65, 0x61],
   [0x70, 0x69, 0x2e, 0x6e, 0x6f, 0x64, 0x65, 0x73, 0x2e, 0x66, 0x62, 0x5f],
   [0x74, 0x69, 0x6d, 0x65, 0x6c, 0x69, 0x6e, 0x65, 0x5f, 0x73, 0x74, 0x61],
   [0x74, 0x75, 0x73, 0x5f, 0x70, 0x68, 0x6f, 0x74, 0x6f, 0x2e, 0x4e, 0x6f],
   [0x64, 0x65, 0x46, 0x62, 0x54, 0x69, 0x6d, 0x65, 0x6c, 0x69, 0x6e, 0x65],
   [0x53, 0x74, 0x61, 0x74, 0x75, 0x73, 0x50, 0x68, 0x6f, 0x74, 0x6f, 0x51],
   [0x75, 0x65, 0x72, 0x79, 0x40, 0x40, 0x40, 0x40, 0x40, 0x40, 0x40, 0x40],
   [0x84, 0x95, 0xa6, 0xbe, 0x00, 0x00, 0x00, 0x01, 0x00, 0x00, 0x00, 0x00],
   [0x00, 0x00, 0x00, 0x00, 0x00, 0x00, 0x00, 0x00, 0x40, 0x84, 0x95, 0xa6],
   [0xbe, 0x00, 0x00, 0x00, 0x01, 0x00, 0x00, 0x00, 0x00, 0x00, 0x00, 0x00],
   [0x00, 0x00, 0x00, 0x00, 0x00, 0x40, 0x84, 0x95, 0xa6, 0xbe, 0x00, 0x00],
   [0x00, 0x01, 0x00, 0x00, 0x00, 0x00, 0x00, 0x00, 0x00, 0x00, 0x00, 0x00],
   [0x00, 0x00, 0x40, 0x84, 0x95, 0xa6, 0xbe, 0x00, 0x00, 0x00, 0x01, 0x00],
   [0x00, 0x00, 0x00, 0x00, 0x00, 0x00, 0x00, 0x00, 0x00, 0x00, 0x00, 0x40],
   [0x84, 0x95, 0xa6, 0xbe, 0x00, 0x00, 0x00, 0x0a, 0x00, 0x00, 0x00, 0x05],
   [0x00, 0x00, 0x00, 0x0e, 0x00, 0x00, 0x00, 0x0e, 0x90, 0xb0, 0xa0, 0x41],
   [0x90, 0xa0, 0x43, 0x40, 0x40, 0x40, 0x84, 0x95, 0xa6, 0xbe, 0x00, 0x00],
   [0x01, 0x4a, 0x00, 0x00, 0x00, 0x5f, 0x00, 0x00, 0x01, 0x32, 0x00, 0x00],
   [0x01, 0x2c, 0xc0, 0x90, 0x40, 0xa0, 0xd0, 0x40, 0xb0, 0x40, 0x24, 0x73],
   [0x65, 0x6c, 0x66, 0x40, 0xa0, 0x40, 0xd0, 0x40, 0x90, 0x2b, 0x5f, 0x65],
   [0x78, 0x70, 0x72, 0x65, 0x73, 0x73, 0x69, 0x6f, 0x6e, 0xa0, 0xd0, 0x40],
   [0x40, 0xf0, 0x90, 0xd0, 0x40, 0x41, 0x08, 0x00, 0x00, 0x20, 0x00, 0x90],
   [0xa0, 0xa0, 0x40, 0x40, 0x04, 0x01, 0x90, 0x40, 0x90, 0xa0, 0x03, 0x3f],
   [0xff, 0xff, 0xff, 0xff, 0xff, 0xff, 0xff, 0xd0, 0x40, 0x90, 0x2b, 0x5f],
   [0x65, 0x78, 0x70, 0x72, 0x65, 0x73, 0x73, 0x69, 0x6f, 0x6e, 0xa0, 0x40],
   [0x40, 0x40, 0x41, 0x90, 0x42, 0x90, 0x40, 0x90]]"

definition dictionary_compression_data :: "u8 list" where
  "dictionary_compression_data = concat (concat
    [dictionary_rows_0, dictionary_rows_1, dictionary_rows_2, dictionary_rows_3, dictionary_rows_4,
     dictionary_rows_5, dictionary_rows_6, dictionary_rows_7, dictionary_rows_8, dictionary_rows_9,
     dictionary_rows_10, dictionary_rows_11, dictionary_rows_12, dictionary_rows_13, dictionary_rows_14,
     dictionary_rows_15, dictionary_rows_16, dictionary_rows_17, dictionary_rows_18, dictionary_rows_19,
     dictionary_rows_20, dictionary_rows_21, dictionary_rows_22, dictionary_rows_23, dictionary_rows_24,
     dictionary_rows_25, dictionary_rows_26, dictionary_rows_27, dictionary_rows_28, dictionary_rows_29,
     dictionary_rows_30, dictionary_rows_31, dictionary_rows_32, dictionary_rows_33, dictionary_rows_34,
     dictionary_rows_35, dictionary_rows_36, dictionary_rows_37, dictionary_rows_38, dictionary_rows_39,
     dictionary_rows_40, dictionary_rows_41, dictionary_rows_42, dictionary_rows_43, dictionary_rows_44,
     dictionary_rows_45, dictionary_rows_46, dictionary_rows_47, dictionary_rows_48, dictionary_rows_49,
     dictionary_rows_50, dictionary_rows_51, dictionary_rows_52, dictionary_rows_53, dictionary_rows_54,
     dictionary_rows_55, dictionary_rows_56, dictionary_rows_57, dictionary_rows_58, dictionary_rows_59,
     dictionary_rows_60, dictionary_rows_61, dictionary_rows_62])"

definition dictionary_compression_data_length :: u32 where
  "dictionary_compression_data_length = 112640"

subsection \<open>Its length\<close>

text \<open>Every source line has twelve bytes, the last one eight.\<close>

lemma length_rows: "map length rs = replicate n k \<Longrightarrow> length (concat rs) = n * k"
  by (simp add: length_concat sum_list_replicate)

lemma width_0: "map length dictionary_rows_0 = replicate 150 12"
  by (simp add: dictionary_rows_0_def numeral_eq_Suc)

lemma width_1: "map length dictionary_rows_1 = replicate 150 12"
  by (simp add: dictionary_rows_1_def numeral_eq_Suc)

lemma width_2: "map length dictionary_rows_2 = replicate 150 12"
  by (simp add: dictionary_rows_2_def numeral_eq_Suc)

lemma width_3: "map length dictionary_rows_3 = replicate 150 12"
  by (simp add: dictionary_rows_3_def numeral_eq_Suc)

lemma width_4: "map length dictionary_rows_4 = replicate 150 12"
  by (simp add: dictionary_rows_4_def numeral_eq_Suc)

lemma width_5: "map length dictionary_rows_5 = replicate 150 12"
  by (simp add: dictionary_rows_5_def numeral_eq_Suc)

lemma width_6: "map length dictionary_rows_6 = replicate 150 12"
  by (simp add: dictionary_rows_6_def numeral_eq_Suc)

lemma width_7: "map length dictionary_rows_7 = replicate 150 12"
  by (simp add: dictionary_rows_7_def numeral_eq_Suc)

lemma width_8: "map length dictionary_rows_8 = replicate 150 12"
  by (simp add: dictionary_rows_8_def numeral_eq_Suc)

lemma width_9: "map length dictionary_rows_9 = replicate 150 12"
  by (simp add: dictionary_rows_9_def numeral_eq_Suc)

lemma width_10: "map length dictionary_rows_10 = replicate 150 12"
  by (simp add: dictionary_rows_10_def numeral_eq_Suc)

lemma width_11: "map length dictionary_rows_11 = replicate 150 12"
  by (simp add: dictionary_rows_11_def numeral_eq_Suc)

lemma width_12: "map length dictionary_rows_12 = replicate 150 12"
  by (simp add: dictionary_rows_12_def numeral_eq_Suc)

lemma width_13: "map length dictionary_rows_13 = replicate 150 12"
  by (simp add: dictionary_rows_13_def numeral_eq_Suc)

lemma width_14: "map length dictionary_rows_14 = replicate 150 12"
  by (simp add: dictionary_rows_14_def numeral_eq_Suc)

lemma width_15: "map length dictionary_rows_15 = replicate 150 12"
  by (simp add: dictionary_rows_15_def numeral_eq_Suc)

lemma width_16: "map length dictionary_rows_16 = replicate 150 12"
  by (simp add: dictionary_rows_16_def numeral_eq_Suc)

lemma width_17: "map length dictionary_rows_17 = replicate 150 12"
  by (simp add: dictionary_rows_17_def numeral_eq_Suc)

lemma width_18: "map length dictionary_rows_18 = replicate 150 12"
  by (simp add: dictionary_rows_18_def numeral_eq_Suc)

lemma width_19: "map length dictionary_rows_19 = replicate 150 12"
  by (simp add: dictionary_rows_19_def numeral_eq_Suc)

lemma width_20: "map length dictionary_rows_20 = replicate 150 12"
  by (simp add: dictionary_rows_20_def numeral_eq_Suc)

lemma width_21: "map length dictionary_rows_21 = replicate 150 12"
  by (simp add: dictionary_rows_21_def numeral_eq_Suc)

lemma width_22: "map length dictionary_rows_22 = replicate 150 12"
  by (simp add: dictionary_rows_22_def numeral_eq_Suc)

lemma width_23: "map length dictionary_rows_23 = replicate 150 12"
  by (simp add: dictionary_rows_23_def numeral_eq_Suc)

lemma width_24: "map length dictionary_rows_24 = replicate 150 12"
  by (simp add: dictionary_rows_24_def numeral_eq_Suc)

lemma width_25: "map length dictionary_rows_25 = replicate 150 12"
  by (simp add: dictionary_rows_25_def numeral_eq_Suc)

lemma width_26: "map length dictionary_rows_26 = replicate 150 12"
  by (simp add: dictionary_rows_26_def numeral_eq_Suc)

lemma width_27: "map length dictionary_rows_27 = replicate 150 12"
  by (simp add: dictionary_rows_27_def numeral_eq_Suc)

lemma width_28: "map length dictionary_rows_28 = replicate 150 12"
  by (simp add: dictionary_rows_28_def numeral_eq_Suc)

lemma width_29: "map length dictionary_rows_29 = replicate 150 12"
  by (simp add: dictionary_rows_29_def numeral_eq_Suc)

lemma width_30: "map length dictionary_rows_30 = replicate 150 12"
  by (simp add: dictionary_rows_30_def numeral_eq_Suc)

lemma width_31: "map length dictionary_rows_31 = replicate 150 12"
  by (simp add: dictionary_rows_31_def numeral_eq_Suc)

lemma width_32: "map length dictionary_rows_32 = replicate 150 12"
  by (simp add: dictionary_rows_32_def numeral_eq_Suc)

lemma width_33: "map length dictionary_rows_33 = replicate 150 12"
  by (simp add: dictionary_rows_33_def numeral_eq_Suc)

lemma width_34: "map length dictionary_rows_34 = replicate 150 12"
  by (simp add: dictionary_rows_34_def numeral_eq_Suc)

lemma width_35: "map length dictionary_rows_35 = replicate 150 12"
  by (simp add: dictionary_rows_35_def numeral_eq_Suc)

lemma width_36: "map length dictionary_rows_36 = replicate 150 12"
  by (simp add: dictionary_rows_36_def numeral_eq_Suc)

lemma width_37: "map length dictionary_rows_37 = replicate 150 12"
  by (simp add: dictionary_rows_37_def numeral_eq_Suc)

lemma width_38: "map length dictionary_rows_38 = replicate 150 12"
  by (simp add: dictionary_rows_38_def numeral_eq_Suc)

lemma width_39: "map length dictionary_rows_39 = replicate 150 12"
  by (simp add: dictionary_rows_39_def numeral_eq_Suc)

lemma width_40: "map length dictionary_rows_40 = replicate 150 12"
  by (simp add: dictionary_rows_40_def numeral_eq_Suc)

lemma width_41: "map length dictionary_rows_41 = replicate 150 12"
  by (simp add: dictionary_rows_41_def numeral_eq_Suc)

lemma width_42: "map length dictionary_rows_42 = replicate 150 12"
  by (simp add: dictionary_rows_42_def numeral_eq_Suc)

lemma width_43: "map length dictionary_rows_43 = replicate 150 12"
  by (simp add: dictionary_rows_43_def numeral_eq_Suc)

lemma width_44: "map length dictionary_rows_44 = replicate 150 12"
  by (simp add: dictionary_rows_44_def numeral_eq_Suc)

lemma width_45: "map length dictionary_rows_45 = replicate 150 12"
  by (simp add: dictionary_rows_45_def numeral_eq_Suc)

lemma width_46: "map length dictionary_rows_46 = replicate 150 12"
  by (simp add: dictionary_rows_46_def numeral_eq_Suc)

lemma width_47: "map length dictionary_rows_47 = replicate 150 12"
  by (simp add: dictionary_rows_47_def numeral_eq_Suc)

lemma width_48: "map length dictionary_rows_48 = replicate 150 12"
  by (simp add: dictionary_rows_48_def numeral_eq_Suc)

lemma width_49: "map length dictionary_rows_49 = replicate 150 12"
  by (simp add: dictionary_rows_49_def numeral_eq_Suc)

lemma width_50: "map length dictionary_rows_50 = replicate 150 12"
  by (simp add: dictionary_rows_50_def numeral_eq_Suc)

lemma width_51: "map length dictionary_rows_51 = replicate 150 12"
  by (simp add: dictionary_rows_51_def numeral_eq_Suc)

lemma width_52: "map length dictionary_rows_52 = replicate 150 12"
  by (simp add: dictionary_rows_52_def numeral_eq_Suc)

lemma width_53: "map length dictionary_rows_53 = replicate 150 12"
  by (simp add: dictionary_rows_53_def numeral_eq_Suc)

lemma width_54: "map length dictionary_rows_54 = replicate 150 12"
  by (simp add: dictionary_rows_54_def numeral_eq_Suc)

lemma width_55: "map length dictionary_rows_55 = replicate 150 12"
  by (simp add: dictionary_rows_55_def numeral_eq_Suc)

lemma width_56: "map length dictionary_rows_56 = replicate 150 12"
  by (simp add: dictionary_rows_56_def numeral_eq_Suc)

lemma width_57: "map length dictionary_rows_57 = replicate 150 12"
  by (simp add: dictionary_rows_57_def numeral_eq_Suc)

lemma width_58: "map length dictionary_rows_58 = replicate 150 12"
  by (simp add: dictionary_rows_58_def numeral_eq_Suc)

lemma width_59: "map length dictionary_rows_59 = replicate 150 12"
  by (simp add: dictionary_rows_59_def numeral_eq_Suc)

lemma width_60: "map length dictionary_rows_60 = replicate 150 12"
  by (simp add: dictionary_rows_60_def numeral_eq_Suc)

lemma width_61: "map length dictionary_rows_61 = replicate 150 12"
  by (simp add: dictionary_rows_61_def numeral_eq_Suc)

lemma width_62: "map length dictionary_rows_62 = replicate 86 12 @ [8]"
  by (simp add: dictionary_rows_62_def numeral_eq_Suc)

lemmas widths =
  width_0 [THEN length_rows] width_1 [THEN length_rows] width_2 [THEN length_rows] width_3 [THEN length_rows]
  width_4 [THEN length_rows] width_5 [THEN length_rows] width_6 [THEN length_rows] width_7 [THEN length_rows]
  width_8 [THEN length_rows] width_9 [THEN length_rows] width_10 [THEN length_rows] width_11 [THEN length_rows]
  width_12 [THEN length_rows] width_13 [THEN length_rows] width_14 [THEN length_rows] width_15 [THEN length_rows]
  width_16 [THEN length_rows] width_17 [THEN length_rows] width_18 [THEN length_rows] width_19 [THEN length_rows]
  width_20 [THEN length_rows] width_21 [THEN length_rows] width_22 [THEN length_rows] width_23 [THEN length_rows]
  width_24 [THEN length_rows] width_25 [THEN length_rows] width_26 [THEN length_rows] width_27 [THEN length_rows]
  width_28 [THEN length_rows] width_29 [THEN length_rows] width_30 [THEN length_rows] width_31 [THEN length_rows]
  width_32 [THEN length_rows] width_33 [THEN length_rows] width_34 [THEN length_rows] width_35 [THEN length_rows]
  width_36 [THEN length_rows] width_37 [THEN length_rows] width_38 [THEN length_rows] width_39 [THEN length_rows]
  width_40 [THEN length_rows] width_41 [THEN length_rows] width_42 [THEN length_rows] width_43 [THEN length_rows]
  width_44 [THEN length_rows] width_45 [THEN length_rows] width_46 [THEN length_rows] width_47 [THEN length_rows]
  width_48 [THEN length_rows] width_49 [THEN length_rows] width_50 [THEN length_rows] width_51 [THEN length_rows]
  width_52 [THEN length_rows] width_53 [THEN length_rows] width_54 [THEN length_rows] width_55 [THEN length_rows]
  width_56 [THEN length_rows] width_57 [THEN length_rows] width_58 [THEN length_rows] width_59 [THEN length_rows]
  width_60 [THEN length_rows] width_61 [THEN length_rows]

lemma width_last: "length (concat dictionary_rows_62) = 1040"
  by (simp add: length_concat width_62 sum_list_replicate)

lemma first_row: "take 8 dictionary_compression_data = [0x37, 0xa4, 0x30, 0xec, 0xfe, 0x1e, 0xcd, 0x70]"
  by (simp add: dictionary_compression_data_def dictionary_rows_0_def)

lemma dictionary_length: "length dictionary_compression_data = unat dictionary_compression_data_length"
  by (simp add: dictionary_compression_data_def dictionary_compression_data_length_def widths width_last)

text \<open>It starts with the magic number of ZSTD dictionaries, little-endian \<open>0xEC30A437\<close>.\<close>

lemma dictionary_magic: "(\<Sum>i<4. unat (dictionary_compression_data ! i) * 256 ^ i) = 0xEC30A437"
proof -
  have "dictionary_compression_data ! i = take 8 dictionary_compression_data ! i" if "i < 4" for i
    using that by simp
  then have "(\<Sum>i<4. unat (dictionary_compression_data ! i) * 256 ^ i)
      = (\<Sum>i<4. unat (take 8 dictionary_compression_data ! i) * 256 ^ i)" by (intro sum.cong) auto
  moreover have bytes4: "{..<4 :: nat} = {0, 1, 2, 3}" by auto
  ultimately show ?thesis unfolding first_row bytes4 by simp
qed

end
