(* ===== verification/Hh_State.thy ===== *)
theory Hh_State
  imports Hh_Dictionary
begin

text \<open>
  The state of the shared-memory system (the globals of \<open>hh_shared.c\<close>), OCaml immediates as the C
  code builds and reads them, the layout of the shared segment, initialisation (with the zstd contexts and
  their dictionary), reset, the global
  counter, the permission flags and the scalar diagnostics.
\<close>

subsection \<open>OCaml immediates (\<open>caml/mlvalues.h\<close>, 64-bit)\<close>

text \<open>An OCaml \<open>value\<close> is a machine word; an immediate integer has its lowest bit set.\<close>

type_synonym ocaml_value = u64

definition Val_long :: "u64 \<Rightarrow> ocaml_value" where
  "Val_long x = push_bit 1 x + 1"

definition Long_val :: "ocaml_value \<Rightarrow> u64" where
  "Long_val v = signed_drop_bit 1 v"

definition Is_long :: "ocaml_value \<Rightarrow> bool" where
  "Is_long v \<longleftrightarrow> v AND 1 \<noteq> 0"

definition Max_long :: u64 where "Max_long = 0x3FFFFFFFFFFFFFFF"

definition Min_long :: u64 where "Min_long = 0xC000000000000000"

definition Val_bool :: "bool \<Rightarrow> ocaml_value" where
  "Val_bool b = Val_long (if b then 1 else 0)"

definition Bool_val :: "ocaml_value \<Rightarrow> bool" where
  "Bool_val v \<longleftrightarrow> Long_val v \<noteq> 0"

definition Val_unit :: ocaml_value where "Val_unit = Val_long 0"

text \<open>The bytes of an OCaml string block: the contents, padded to whole words; the last byte says
  how many bytes of padding precede it.\<close>

definition caml_string_block :: "u8 list \<Rightarrow> u8 list" where
  "caml_string_block bs =
     bs @ replicate (7 - length bs mod 8) 0 @ [word_of_nat (7 - length bs mod 8)]"

subsection \<open>Constants\<close>

definition CACHE_LINE_SIZE :: nat where "CACHE_LINE_SIZE = 64"

definition SHARED_MEM_INIT :: nat where "SHARED_MEM_INIT = 0x500000000000"

definition MAGIC_CONSTANT :: u64 where "MAGIC_CONSTANT = 0xfacefacefaceb000"

definition HASHTBL_WRITE_IN_PROGRESS :: u64 where "HASHTBL_WRITE_IN_PROGRESS = 1"

definition NULL :: u64 where "NULL = 0"

subsection \<open>The state\<close>

text \<open>The small objects at the bottom of the segment, each on a cache line of its own.\<close>

datatype small_object =
    G_heap | G_hcounter | G_dcounter | G_counter | G_master_pid | G_log_level
  | G_wasted_heap_size | G_allow_removes | G_allow_dependency_table_reads

text \<open>
  One process's view. The sizes, the table addresses and the process-local variables are the
  static variables of the file. \<open>ptr_to\<close> holds the addresses of the small objects (0 is NULL,
  before initialisation); a field named like the C pointer (\<open>heap\<close>, \<open>hcounter\<close>, \<dots>) holds the
  object it points to (\<open>*heap\<close>, \<open>*hcounter\<close>, \<dots>). The tables, the file-name buffers and the heap
  live in the byte memory \<open>mem\<close>. The zstd contexts are \<open>None\<close> while they are NULL, and then the
  dictionary they refer to (for compression with its level). Addresses are natural numbers: no address of a laid-out segment
  reaches \<open>2^64\<close> (\<open>layout\<close> below).
\<close>

record hh =
  heap_size :: u64
  dep_size :: u64
  dep_size_b :: u64
  bindings_size_b :: u64
  hashtbl_size :: u64
  hashtbl_size_b :: u64
  shared_mem_size :: u64
  shared_mem :: nat
  ptr_to :: "small_object \<Rightarrow> nat"
  db_filename :: nat
  hashtable_db_filename :: nat
  deptbl :: nat
  deptbl_bindings :: nat
  hashtbl :: nat
  heap_init :: nat
  heap_max :: nat
  heap :: nat
  hcounter :: u64
  dcounter :: u64
  counter :: u64
  master_pid :: int
  log_level :: u64
  wasted_heap_size :: u64
  allow_removes :: bool
  allow_dependency_table_reads :: bool
  mem :: memory
  my_pid :: int
  early_counter :: u64
  allow_hashtable_writes_by_current_process :: bool
  removed_count :: u64
  zstd_compression_context :: "(u8 list \<times> int) option"
  zstd_decompression_context :: "u8 list option"

type_synonym 'a hh_op = "(hh, 'a) op"

text \<open>The static initialisers: everything zero or NULL but the early counter and the write flag.\<close>

definition hh_start :: hh where
  "hh_start =
    \<lparr> heap_size = 0, dep_size = 0, dep_size_b = 0, bindings_size_b = 0, hashtbl_size = 0,
      hashtbl_size_b = 0, shared_mem_size = 0, shared_mem = 0, ptr_to = (\<lambda>_. 0), db_filename = 0,
      hashtable_db_filename = 0, deptbl = 0, deptbl_bindings = 0, hashtbl = 0, heap_init = 0,
      heap_max = 0, heap = 0, hcounter = 0, dcounter = 0, counter = 0, master_pid = 0,
      log_level = 0, wasted_heap_size = 0, allow_removes = False,
      allow_dependency_table_reads = False, mem = (\<lambda>_. 0), my_pid = 0, early_counter = 1,
      allow_hashtable_writes_by_current_process = True, removed_count = 0,
      zstd_compression_context = None, zstd_decompression_context = None \<rparr>"

text \<open>The OCaml record \<open>config\<close> of \<open>sharedMemory.ml\<close>: four immediates.\<close>

record config =
  c_heap_size :: ocaml_value
  c_dep_table_pow :: ocaml_value
  c_hash_table_pow :: ocaml_value
  c_log_level :: ocaml_value

text \<open>
  What initialisation takes from the operating system and from zstd: \<open>getpagesize\<close>, \<open>getpid\<close>,
  \<open>mmap\<close> (\<open>None\<close> is \<open>MAP_FAILED\<close>), and whether referencing a compression dictionary (its bytes and the
  level) or a decompression dictionary reports an error (\<open>ZSTD_isError\<close>).
\<close>

record os =
  getpagesize :: nat
  getpid :: int
  mmap :: "nat \<Rightarrow> u64 \<Rightarrow> nat option"
  refCDict_error :: "u8 list \<Rightarrow> int \<Rightarrow> bool"
  refDDict_error :: "u8 list \<Rightarrow> bool"

definition memset0 :: "nat \<Rightarrow> nat \<Rightarrow> memory \<Rightarrow> memory" where
  "memset0 a n m = (\<lambda>x. if a \<le> x \<and> x < a + n then 0 else m x)"

subsection \<open>Initialisation\<close>

definition small_object_addr :: "nat \<Rightarrow> small_object \<Rightarrow> nat" where
  "small_object_addr base g =
     (case g of
        G_heap \<Rightarrow> base
      | G_hcounter \<Rightarrow> base + CACHE_LINE_SIZE
      | G_dcounter \<Rightarrow> base + 2 * CACHE_LINE_SIZE
      | G_counter \<Rightarrow> base + 3 * CACHE_LINE_SIZE
      | G_master_pid \<Rightarrow> base + 4 * CACHE_LINE_SIZE
      | G_log_level \<Rightarrow> base + 5 * CACHE_LINE_SIZE
      | G_wasted_heap_size \<Rightarrow> base + 6 * CACHE_LINE_SIZE
      | G_allow_removes \<Rightarrow> base + 7 * CACHE_LINE_SIZE
      | G_allow_dependency_table_reads \<Rightarrow> base + 8 * CACHE_LINE_SIZE)"

definition small_object_size :: "small_object \<Rightarrow> nat" where
  "small_object_size g = (if g = G_master_pid then 4 else 8)"

text \<open>
  \<open>define_globals\<close> maps the segment (anonymous memory: zero-filled) and computes where everything
  is. The pointers into the tables follow one another; \<open>heap_max\<close> is the end of the heap.
\<close>

definition define_globals :: "os \<Rightarrow> nat \<Rightarrow> unit hh_op" where
  "define_globals os page_size s =
     (case mmap os SHARED_MEM_INIT (shared_mem_size s) of
        None \<Rightarrow> Some (Inl (Exit 2), s)
      | Some base \<Rightarrow>
          op_seq (modify (\<lambda>s. s\<lparr>shared_mem := base,
                    mem := memset0 base (unat (shared_mem_size s)) (mem s),
                    ptr_to := small_object_addr base\<rparr>))
         (op_seq (c_assert 497 (\<lambda>_. small_object_size G_hcounter \<le> CACHE_LINE_SIZE))
         (op_seq (c_assert 507 (\<lambda>_. small_object_size G_master_pid \<le> CACHE_LINE_SIZE))
         (op_seq (c_assert 524 (\<lambda>_. 9 * CACHE_LINE_SIZE + 4 < page_size))
         (modify (\<lambda>s. let m1 = base + page_size; m2 = m1 + page_size; m3 = m2 + page_size;
                         m4 = m3 + unat (dep_size_b s); m5 = m4 + unat (bindings_size_b s);
                         m6 = m5 + unat (hashtbl_size_b s)
            in s\<lparr>db_filename := m1, hashtable_db_filename := m2, deptbl := m3,
                 deptbl_bindings := m4, hashtbl := m5, heap_init := m6,
                 heap_max := m6 + unat (heap_size s)\<rparr>))))) s)"

definition zstd_compression_level :: int where "zstd_compression_level = 5"

text \<open>What \<open>ZSTD_createCDict\<close> and \<open>ZSTD_createDDict\<close> read of a buffer: as many bytes as they are told, which
  must not be more than the array has. A reference that fails leaves the context without a dictionary (\<open>Some\<close>
  is only recorded behind the assertion).\<close>

definition read_dictionary :: "u8 list \<Rightarrow> nat \<Rightarrow> u8 list hh_op" where
  "read_dictionary array n = (if n \<le> length array then ret (take n array) else throw Invalid_access)"

definition init_zstd_compression :: "os \<Rightarrow> unit hh_op" where
  "init_zstd_compression os =
     op_bind (read_dictionary dictionary_compression_data (unat dictionary_compression_data_length)) (\<lambda>cdict.
     op_seq (c_assert 567 (\<lambda>_. \<not> refCDict_error os cdict zstd_compression_level))
    (op_seq (modify (\<lambda>s. s\<lparr>zstd_compression_context := Some (cdict, zstd_compression_level)\<rparr>))
    (op_bind (read_dictionary dictionary_compression_data (unat dictionary_compression_data_length)) (\<lambda>ddict.
     op_seq (c_assert 574 (\<lambda>_. \<not> refDDict_error os ddict))
    (modify (\<lambda>s. s\<lparr>zstd_decompression_context := Some ddict\<rparr>))))))"

definition init_shared_globals :: "nat \<Rightarrow> u64 \<Rightarrow> hh \<Rightarrow> hh" where
  "init_shared_globals page_size config_log_level s =
     s\<lparr>hcounter := 0, dcounter := 0, counter := early_counter s + 1, log_level := config_log_level,
       wasted_heap_size := 0, allow_removes := True, allow_dependency_table_reads := True,
       heap := heap_init s,
       mem := memset0 (hashtable_db_filename s) page_size (memset0 (db_filename s) page_size (mem s))\<rparr>"

definition hh_shared_init :: "os \<Rightarrow> config \<Rightarrow> ocaml_value hh_op" where
  "hh_shared_init os cfg =
     (let page_size = getpagesize os in
      op_seq (modify (\<lambda>s. s\<lparr>heap_size := Long_val (c_heap_size cfg),
                dep_size := push_bit (unat (Long_val (c_dep_table_pow cfg))) 1\<rparr>))
     (op_seq (modify (\<lambda>s. s\<lparr>dep_size_b := dep_size s * 8, bindings_size_b := dep_size s * 8,
                hashtbl_size := push_bit (unat (Long_val (c_hash_table_pow cfg))) 1\<rparr>))
     (op_seq (modify (\<lambda>s. s\<lparr>hashtbl_size_b := hashtbl_size s * 16\<rparr>))
     (op_seq (modify (\<lambda>s. s\<lparr>shared_mem_size := dep_size_b s + bindings_size_b s + hashtbl_size_b s
                + heap_size s + 3 * word_of_nat page_size\<rparr>))
     (op_seq (define_globals os page_size)
     (op_seq (modify (\<lambda>s. s\<lparr>master_pid := getpid os, my_pid := getpid os\<rparr>))
     (op_seq (modify (init_shared_globals page_size (Long_val (c_log_level cfg))))
     (op_seq (c_assert 622 (\<lambda>s. (heap s + unat (heap_size s)) mod 2 ^ 64
                              = (shared_mem s + unat (shared_mem_size s)) mod 2 ^ 64))
     (op_seq (init_zstd_compression os)
     (ret Val_unit))))))))))"

definition hh_connect :: "os \<Rightarrow> ocaml_value hh_op" where
  "hh_connect os = op_seq (modify (\<lambda>s. s\<lparr>my_pid := getpid os\<rparr>)) (ret Val_unit)"

definition pyre_reset :: "os \<Rightarrow> unit hh_op" where
  "pyre_reset os = modify (\<lambda>s. let page_size = getpagesize os in
     s\<lparr>hcounter := 0, dcounter := 0, wasted_heap_size := 0, heap := heap_init s,
       mem := memset0 (hashtbl s) (unat (hashtbl_size_b s))
             (memset0 (deptbl_bindings s) (unat (bindings_size_b s))
             (memset0 (deptbl s) (unat (dep_size_b s))
             (memset0 (hashtable_db_filename s) page_size
             (memset0 (db_filename s) page_size (mem s)))))\<rparr>)"

subsection \<open>Counter, permissions, diagnostics\<close>

definition hh_counter_next :: "ocaml_value hh_op" where
  "hh_counter_next s =
     (if ptr_to s G_counter \<noteq> 0
      then Some (Inr (Val_long (counter s mod Max_long)), s\<lparr>counter := counter s + 1\<rparr>)
      else (let v = early_counter s + 1
            in Some (Inr (Val_long (v mod Max_long)), s\<lparr>early_counter := v\<rparr>)))"

definition assert_master :: "unit hh_op" where
  [op_simps]: "assert_master = c_assert 700 (\<lambda>s. my_pid s = master_pid s)"

definition assert_not_master :: "unit hh_op" where
  [op_simps]: "assert_not_master = c_assert 704 (\<lambda>s. my_pid s \<noteq> master_pid s)"

definition assert_allow_removes :: "unit hh_op" where
  [op_simps]: "assert_allow_removes = c_assert 708 allow_removes"

definition assert_allow_hashtable_writes_by_current_process :: "unit hh_op" where
  [op_simps]: "assert_allow_hashtable_writes_by_current_process =
     c_assert 712 allow_hashtable_writes_by_current_process"

definition assert_allow_dependency_table_reads :: "unit hh_op" where
  [op_simps]: "assert_allow_dependency_table_reads = c_assert 716 allow_dependency_table_reads"

definition hh_allow_removes :: "ocaml_value \<Rightarrow> ocaml_value hh_op" where
  "hh_allow_removes v = op_seq (modify (\<lambda>s. s\<lparr>allow_removes := Bool_val v\<rparr>)) (ret Val_unit)"

definition hh_allow_hashtable_writes_by_current_process :: "ocaml_value \<Rightarrow> ocaml_value hh_op" where
  "hh_allow_hashtable_writes_by_current_process v =
     op_seq (modify (\<lambda>s. s\<lparr>allow_hashtable_writes_by_current_process := Bool_val v\<rparr>)) (ret Val_unit)"

definition hh_allow_dependency_table_reads :: "ocaml_value \<Rightarrow> ocaml_value hh_op" where
  "hh_allow_dependency_table_reads v =
     op_bind (gets allow_dependency_table_reads) (\<lambda>prev.
     op_seq (modify (\<lambda>s. s\<lparr>allow_dependency_table_reads := Bool_val v\<rparr>))
     (ret (Val_bool prev)))"

definition hh_assert_allow_dependency_table_reads :: "ocaml_value hh_op" where
  "hh_assert_allow_dependency_table_reads =
     op_seq assert_allow_dependency_table_reads (ret Val_unit)"

definition used_heap_size :: "hh \<Rightarrow> u64" where
  "used_heap_size s = word_of_nat (heap s - heap_init s)"

definition hh_used_heap_size :: "ocaml_value hh_op" where
  "hh_used_heap_size = gets (\<lambda>s. Val_long (used_heap_size s))"

definition hh_wasted_heap_size :: "ocaml_value hh_op" where
  "hh_wasted_heap_size =
     op_seq (c_assert 399 (\<lambda>s. ptr_to s G_wasted_heap_size \<noteq> 0))
            (gets (\<lambda>s. Val_long (wasted_heap_size s)))"

definition hh_log_level :: "ocaml_value hh_op" where
  "hh_log_level = gets (\<lambda>s. Val_long (log_level s))"

definition hh_hash_slots :: "ocaml_value hh_op" where
  "hh_hash_slots = gets (\<lambda>s. Val_long (hashtbl_size s))"

definition hh_dep_slots :: "ocaml_value hh_op" where
  "hh_dep_slots = gets (\<lambda>s. Val_long (dep_size s))"

definition hh_get_in_memory_dep_table_entry_count :: "ocaml_value hh_op" where
  "hh_get_in_memory_dep_table_entry_count = gets (\<lambda>s. Val_long (dcounter s))"

definition hh_check_heap_overflow :: "ocaml_value hh_op" where
  "hh_check_heap_overflow =
     gets (\<lambda>s. Val_bool (shared_mem s + unat (shared_mem_size s) \<le> heap s))"

definition hh_removed_count :: "ocaml_value hh_op" where
  "hh_removed_count = gets (\<lambda>s. Val_long (removed_count s))"

end
