(* ===== verification/Hh_Header.thy ===== *)
theory Hh_Header
  imports Hh_State
begin

text \<open>
  The 64-bit header of a heap entry (\<open>hh_header_t\<close>): the macros that read its fields, the
  expression in \<open>hh_store_ocaml\<close> that builds it, and the cache-line rounding of block sizes.
\<close>

type_synonym hh_header_t = u64

datatype storage_kind = KIND_STRING | KIND_SERIALIZED

definition kind_bit :: "storage_kind \<Rightarrow> u64" where
  "kind_bit k = (case k of KIND_STRING \<Rightarrow> 1 | KIND_SERIALIZED \<Rightarrow> 0)"

definition Entry_size :: "hh_header_t \<Rightarrow> u64" where
  "Entry_size x = drop_bit 33 x"

definition Entry_kind :: "hh_header_t \<Rightarrow> u64" where
  "Entry_kind x = drop_bit 32 x AND 1"

definition Entry_uncompressed_size :: "hh_header_t \<Rightarrow> u64" where
  "Entry_uncompressed_size x = drop_bit 1 x AND 0x7FFFFFFF"

definition Heap_entry_total_size :: "hh_header_t \<Rightarrow> u64" where
  "Heap_entry_total_size header = 8 + Entry_size header"

definition ALIGNED :: "u64 \<Rightarrow> u64" where
  "ALIGNED x = (x + 64 - 1) AND NOT 63"

definition make_header :: "u64 \<Rightarrow> storage_kind \<Rightarrow> u64 \<Rightarrow> hh_header_t" where
  "make_header sz kind uncompressed_size =
     push_bit 33 sz OR push_bit 32 (kind_bit kind) OR push_bit 1 uncompressed_size OR 1"

text \<open>The block size of an entry, as a number of bytes.\<close>

definition block_size :: "hh_header_t \<Rightarrow> nat" where
  "block_size header = unat (ALIGNED (Heap_entry_total_size header))"

lemma unat_and_not_63: "unat ((x::u64) AND - 64) = 64 * (unat x div 64)"
proof -
  have m: "(63::u64) = mask 6" by (simp add: mask_eq_exp_minus_1)
  have "x AND - 64 = x AND NOT 63" by simp
  also have "\<dots> = push_bit 6 (drop_bit 6 x)"
    unfolding m by (rule bit_word_eqI) (auto simp: bit_simps)
  also have "\<dots> = x div 64 * 64"
    by (simp add: push_bit_eq_mult drop_bit_eq_div)
  finally have "x AND - 64 = x div 64 * 64" .
  moreover have "unat x div 64 * 64 < 2 ^ 64"
    using unsigned_less [of x, where 'a = nat] div_times_less_eq_dividend [of "unat x" 64] by simp
  ultimately show ?thesis by (simp add: unat_word_ariths unat_div_distrib)
qed

lemma unat_Entry_size: "unat (Entry_size h) = unat h div 2 ^ 33"
  by (simp add: Entry_size_def drop_bit_eq_div unat_div_distrib)

lemma Entry_size_less: "unat (Entry_size h) < 2 ^ 31"
proof -
  have "unat h < 2 ^ 31 * 2 ^ 33" using unsigned_less [of h] by simp
  then show ?thesis unfolding unat_Entry_size by (rule less_mult_imp_div_less)
qed

lemma unat_ALIGNED:
  assumes "unat x + 63 < 2 ^ 64"
  shows "unat (ALIGNED x) = 64 * ((unat x + 63) div 64)"
proof -
  have "unat (x + 63) = unat x + 63" using assms by (simp add: unat_word_ariths)
  then show ?thesis by (simp add: ALIGNED_def unat_and_not_63 add.commute)
qed

lemma block_size_eq: "block_size h = 64 * ((unat (Entry_size h) + 71) div 64)"
proof -
  have "unat (8 + Entry_size h) = 8 + unat (Entry_size h)"
    using Entry_size_less [of h] by (simp add: unat_word_ariths)
  then show ?thesis
    using Entry_size_less [of h] by (simp add: block_size_def Heap_entry_total_size_def unat_ALIGNED add.commute)
qed

lemma block_size_pos: "64 \<le> block_size h"
  by (simp add: block_size_eq)

lemma block_size_dvd: "64 dvd block_size h"
  by (simp add: block_size_eq)

lemma block_size_bounds:
  "8 + unat (Entry_size h) \<le> block_size h" "block_size h < 8 + unat (Entry_size h) + 64"
  unfolding block_size_eq by linarith+

lemma bit_less_31: "(x::u64) < 0x80000000 \<Longrightarrow> bit x n \<Longrightarrow> n < 31"
proof -
  assume "x < 0x80000000"
  then have "unat x < 2 ^ 31" by (simp add: word_less_nat_alt)
  then have "take_bit 31 x = x"
    by (intro unsigned_word_eqI [where 'a = nat])
       (simp only: unsigned_take_bit_eq take_bit_nat_eq_self_iff)
  then show "bit x n \<Longrightarrow> n < 31" by (metis bit_take_bit_iff)
qed

lemma mask_31: "(0x7FFFFFFF::u64) = mask 31"
  by (simp add: mask_eq_exp_minus_1)

lemma make_header_fields:
  assumes "sz < 0x80000000" and "us < 0x80000000"
  shows "Entry_size (make_header sz k us) = sz"
    and "Entry_kind (make_header sz k us) = kind_bit k"
    and "Entry_uncompressed_size (make_header sz k us) = us"
    and "make_header sz k us AND 1 = 1"
proof -
  have less: "31 \<le> n \<Longrightarrow> \<not> bit sz n" "31 \<le> n \<Longrightarrow> \<not> bit us n" for n
    using bit_less_31 [OF assms(1), of n] bit_less_31 [OF assms(2), of n] by auto
  note bits = make_header_def bit_simps kind_bit_def
  show "Entry_size (make_header sz k us) = sz"
    unfolding Entry_size_def by (rule bit_word_eqI) (auto simp: bits less simp del: push_bit_Suc dest: bit_less_31 [OF assms(1)] bit_less_31 [OF assms(2)] split: storage_kind.splits)
  show "Entry_kind (make_header sz k us) = kind_bit k"
    unfolding Entry_kind_def by (rule bit_word_eqI) (auto simp: bits less simp del: push_bit_Suc dest: bit_less_31 [OF assms(1)] bit_less_31 [OF assms(2)] split: storage_kind.splits)
  show "Entry_uncompressed_size (make_header sz k us) = us"
    unfolding Entry_uncompressed_size_def mask_31
    by (rule bit_word_eqI) (auto simp: bits less simp del: push_bit_Suc dest: bit_less_31 [OF assms(1)] bit_less_31 [OF assms(2)] split: storage_kind.splits)
  show "make_header sz k us AND 1 = 1"
    by (rule bit_word_eqI) (auto simp: bits simp del: push_bit_Suc)
qed

text \<open>Immediates round-trip below \<open>2^62\<close>.\<close>

lemma Long_val_Val_long: "x < 0x4000000000000000 \<Longrightarrow> Long_val (Val_long x) = x"
proof -
  assume "x < 0x4000000000000000"
  then have "unat x < 2 ^ 62" by (simp add: word_less_nat_alt)
  then have "take_bit 62 x = x"
    by (intro unsigned_word_eqI [where 'a = nat]) (simp only: unsigned_take_bit_eq take_bit_nat_eq_self_iff)
  then have hi: "\<not> bit x n" if "62 \<le> n" for n using that by (metis bit_take_bit_iff leD)
  have eq: "push_bit 1 x + 1 = push_bit 1 x OR 1"
    by (rule disjunctive_add_eq_or) (rule bit_word_eqI, auto simp: bit_simps simp del: push_bit_Suc)
  show ?thesis unfolding Long_val_def Val_long_def eq
    by (rule bit_word_eqI) (auto simp: bit_simps hi simp del: push_bit_Suc)
qed

end
