(* ===== verification/Hh_Cells.thy ===== *)
theory Hh_Cells
  imports Hh_Header
begin

text \<open>
  The tables of the shared segment as arrays of 64-bit cells in the byte memory, and the layout of
  the segment: which array lies where, and that writes to one leave the others alone.
\<close>

subsection \<open>Arrays of cells\<close>

locale cell_array =
  fixes addr_of :: "nat \<Rightarrow> nat"
  assumes apart: "i < j \<Longrightarrow> addr_of i + 8 \<le> addr_of j"
begin

lemma apart': "i \<noteq> j \<Longrightarrow> addr_of i + 8 \<le> addr_of j \<or> addr_of j + 8 \<le> addr_of i"
  using apart by (meson linorder_neqE_nat)

lemma load_store:
  "load64 (store64 m (addr_of i) v) (addr_of j) = (if j = i then v else load64 m (addr_of j))"
  using apart' by auto

lemma view_store:
  "(\<lambda>j. load64 (store64 m (addr_of i) v) (addr_of j)) = (\<lambda>j. load64 m (addr_of j))(i := v)"
  by (auto simp: load_store)

end

interpretation row8: cell_array "\<lambda>i. base + 8 * i" for base
  by unfold_locales auto

interpretation row16: cell_array "\<lambda>i. base + 16 * i" for base
  by unfold_locales auto

interpretation row16_hi: cell_array "\<lambda>i. base + 16 * i + 8" for base
  by unfold_locales auto

subsection \<open>Accessors\<close>

text \<open>\<open>deptbl[i].raw\<close>, \<open>deptbl_bindings[i]\<close>, and the two fields of \<open>hashtbl[i]\<close> (\<open>helt_t\<close>: 16 bytes).\<close>

definition dep_cell :: "hh \<Rightarrow> nat \<Rightarrow> u64" where
  "dep_cell s i = load64 (mem s) (deptbl s + 8 * i)"

definition set_dep_cell :: "nat \<Rightarrow> u64 \<Rightarrow> hh \<Rightarrow> hh" where
  "set_dep_cell i v s = s\<lparr>mem := store64 (mem s) (deptbl s + 8 * i) v\<rparr>"

definition binding :: "hh \<Rightarrow> nat \<Rightarrow> u64" where
  "binding s i = load64 (mem s) (deptbl_bindings s + 8 * i)"

definition set_binding :: "nat \<Rightarrow> u64 \<Rightarrow> hh \<Rightarrow> hh" where
  "set_binding i v s = s\<lparr>mem := store64 (mem s) (deptbl_bindings s + 8 * i) v\<rparr>"

definition helt_addr_field :: "hh \<Rightarrow> nat \<Rightarrow> nat" where
  "helt_addr_field s i = hashtbl s + 16 * i + 8"

definition ht_hash :: "hh \<Rightarrow> nat \<Rightarrow> u64" where
  "ht_hash s i = load64 (mem s) (hashtbl s + 16 * i)"

definition ht_addr :: "hh \<Rightarrow> nat \<Rightarrow> u64" where
  "ht_addr s i = load64 (mem s) (helt_addr_field s i)"

definition set_ht_hash :: "nat \<Rightarrow> u64 \<Rightarrow> hh \<Rightarrow> hh" where
  "set_ht_hash i v s = s\<lparr>mem := store64 (mem s) (hashtbl s + 16 * i) v\<rparr>"

definition set_ht_addr :: "nat \<Rightarrow> u64 \<Rightarrow> hh \<Rightarrow> hh" where
  "set_ht_addr i v s = s\<lparr>mem := store64 (mem s) (helt_addr_field s i) v\<rparr>"

abbreviation dep_slots :: "hh \<Rightarrow> nat" where "dep_slots s \<equiv> unat (dep_size s)"

abbreviation ht_slots :: "hh \<Rightarrow> nat" where "ht_slots s \<equiv> unat (hashtbl_size s)"

subsection \<open>Layout\<close>

definition layout :: "hh \<Rightarrow> bool" where
  "layout s \<longleftrightarrow>
     (\<exists>d\<le>31. dep_size s = 2 ^ d) \<and> (\<exists>k\<le>32. hashtbl_size s = 2 ^ k)
   \<and> dep_size_b s = 8 * dep_size s \<and> bindings_size_b s = 8 * dep_size s
   \<and> hashtbl_size_b s = 16 * hashtbl_size s
   \<and> 0 < db_filename s \<and> db_filename s \<le> hashtable_db_filename s \<and> hashtable_db_filename s \<le> deptbl s
   \<and> deptbl s + 8 * dep_slots s = deptbl_bindings s
   \<and> deptbl_bindings s + 8 * dep_slots s = hashtbl s
   \<and> hashtbl s + 16 * ht_slots s = heap_init s
   \<and> heap_init s + unat (heap_size s) = heap_max s
   \<and> heap_max s < 2 ^ 62 \<and> 8 dvd hashtbl s"

lemma layout_dep_size: "layout s \<Longrightarrow> \<exists>d\<le>31. dep_size s = 2 ^ d \<and> dep_slots s = 2 ^ d"
  using unat_pow2 by (fastforce simp: layout_def)

lemma layout_hashtbl_size: "layout s \<Longrightarrow> \<exists>k\<le>32. hashtbl_size s = 2 ^ k \<and> ht_slots s = 2 ^ k"
  using unat_pow2 by (fastforce simp: layout_def)

lemma layout_heap_init: "layout s \<Longrightarrow> 16 \<le> heap_init s"
proof -
  assume l: "layout s"
  then obtain k where "ht_slots s = 2 ^ k" using layout_hashtbl_size by blast
  then have "1 \<le> ht_slots s" by simp
  then show ?thesis using l by (simp add: layout_def)
qed

text \<open>The layout does not depend on what the memory and the counters hold.\<close>

lemma layout_upd [simp]:
  "layout (s\<lparr>mem := m\<rparr>) = layout s"
  "layout (s\<lparr>heap := h\<rparr>) = layout s"
  "layout (s\<lparr>hcounter := c\<rparr>) = layout s"
  "layout (s\<lparr>dcounter := c\<rparr>) = layout s"
  "layout (s\<lparr>wasted_heap_size := c\<rparr>) = layout s"
  "layout (s\<lparr>removed_count := c\<rparr>) = layout s"
  "layout (set_dep_cell i v s) = layout s"
  "layout (set_binding i v s) = layout s"
  "layout (set_ht_hash i v s) = layout s"
  "layout (set_ht_addr i v s) = layout s"
  by (simp_all add: layout_def set_dep_cell_def set_binding_def set_ht_hash_def set_ht_addr_def)

subsection \<open>Reading after writing\<close>

lemma cells_same [simp]:
  "dep_cell (set_dep_cell i v s) j = (if j = i then v else dep_cell s j)"
  "binding (set_binding i v s) j = (if j = i then v else binding s j)"
  "ht_hash (set_ht_hash i v s) j = (if j = i then v else ht_hash s j)"
  "ht_addr (set_ht_addr i v s) j = (if j = i then v else ht_addr s j)"
  "ht_addr (set_ht_hash i v s) j = ht_addr s j"
  "ht_hash (set_ht_addr i v s) j = ht_hash s j"
proof -
  show "dep_cell (set_dep_cell i v s) j = (if j = i then v else dep_cell s j)"
    by (simp add: dep_cell_def set_dep_cell_def row8.load_store)
  show "binding (set_binding i v s) j = (if j = i then v else binding s j)"
    by (simp add: binding_def set_binding_def row8.load_store)
  show "ht_hash (set_ht_hash i v s) j = (if j = i then v else ht_hash s j)"
    by (simp add: ht_hash_def set_ht_hash_def row16.load_store)
  show "ht_addr (set_ht_addr i v s) j = (if j = i then v else ht_addr s j)"
    by (simp add: ht_addr_def set_ht_addr_def helt_addr_field_def row16_hi.load_store)
  have "hashtbl s + 16 * i + 8 \<le> hashtbl s + 16 * j + 8 \<or> hashtbl s + 16 * j + 8 + 8 \<le> hashtbl s + 16 * i"
    by presburger
  then show "ht_addr (set_ht_hash i v s) j = ht_addr s j"
    by (simp add: ht_addr_def set_ht_hash_def helt_addr_field_def)
  have "hashtbl s + 16 * i + 8 + 8 \<le> hashtbl s + 16 * j \<or> hashtbl s + 16 * j + 8 \<le> hashtbl s + 16 * i + 8"
    by presburger
  then show "ht_hash (set_ht_addr i v s) j = ht_hash s j"
    by (simp add: ht_hash_def set_ht_addr_def helt_addr_field_def)
qed

lemma cells_cross [simp]:
  assumes "layout s" and "i < dep_slots s" and "j < dep_slots s"
  shows "binding (set_dep_cell i v s) j = binding s j"
    and "dep_cell (set_binding i v s) j = dep_cell s j"
  using assms
  by (auto simp: layout_def binding_def set_dep_cell_def dep_cell_def set_binding_def)

lemma set_cells_sel [simp]:
  "dep_size (set_dep_cell i v s) = dep_size s" "dcounter (set_dep_cell i v s) = dcounter s"
  "dep_size (set_binding i v s) = dep_size s" "dcounter (set_binding i v s) = dcounter s"
  "deptbl (set_dep_cell i v s) = deptbl s" "deptbl (set_binding i v s) = deptbl s"
  by (simp_all add: set_dep_cell_def set_binding_def)

lemma cells_upd [simp]:
  "dep_cell (s\<lparr>dcounter := c\<rparr>) = dep_cell s" "binding (s\<lparr>dcounter := c\<rparr>) = binding s"
  "ht_hash (s\<lparr>hcounter := c\<rparr>) = ht_hash s" "ht_addr (s\<lparr>hcounter := c\<rparr>) = ht_addr s"
  "ht_hash (s\<lparr>heap := h\<rparr>) = ht_hash s" "ht_addr (s\<lparr>heap := h\<rparr>) = ht_addr s"
  "ht_hash (s\<lparr>wasted_heap_size := c\<rparr>) = ht_hash s" "ht_addr (s\<lparr>wasted_heap_size := c\<rparr>) = ht_addr s"
  "ht_hash (s\<lparr>removed_count := c\<rparr>) = ht_hash s" "ht_addr (s\<lparr>removed_count := c\<rparr>) = ht_addr s"
  by (simp_all add: dep_cell_def binding_def ht_hash_def ht_addr_def helt_addr_field_def fun_eq_iff)

end
