(* ===== verification/Hh_Init.thy ===== *)
theory Hh_Init
  imports Hh_Cells
begin

text \<open>
  Start-up, reset and the global counter: a granted start-up leaves a laid-out segment with empty
  tables and an empty heap, \<open>pyre_reset\<close> restores that state, and the counter never repeats.
\<close>

subsection \<open>Start-up and reset\<close>

text \<open>
  A start-up that the operating system grants: the mapping succeeds at an 8-aligned address, the
  configured exponents keep slot numbers within the widths the code gives them, the page holds the
  small objects, the segment lies below \<open>2^62\<close>, and zstd accepts the dictionary.
\<close>

definition segment_size :: "os \<Rightarrow> config \<Rightarrow> nat" where
  "segment_size os cfg = 16 * 2 ^ unat (Long_val (c_dep_table_pow cfg))
     + 16 * 2 ^ unat (Long_val (c_hash_table_pow cfg)) + unat (Long_val (c_heap_size cfg)) + 3 * getpagesize os"

definition startable :: "os \<Rightarrow> config \<Rightarrow> nat \<Rightarrow> bool" where
  "startable os cfg base \<longleftrightarrow>
     unat (Long_val (c_dep_table_pow cfg)) \<le> 31 \<and> unat (Long_val (c_hash_table_pow cfg)) \<le> 32
   \<and> 580 < getpagesize os \<and> 8 dvd getpagesize os \<and> 8 dvd base \<and> 0 < base
   \<and> base + segment_size os cfg < 2 ^ 62
   \<and> mmap os SHARED_MEM_INIT (word_of_nat (segment_size os cfg)) = Some base
   \<and> \<not> refCDict_error os dictionary_compression_data zstd_compression_level
   \<and> \<not> refDDict_error os dictionary_compression_data"

text \<open>A segment with empty tables and an empty heap.\<close>

definition fresh :: "hh \<Rightarrow> bool" where
  "fresh s \<longleftrightarrow> layout s \<and> heap s = heap_init s \<and> hcounter s = 0 \<and> dcounter s = 0
   \<and> wasted_heap_size s = 0
   \<and> (\<forall>a. deptbl s \<le> a \<longrightarrow> a < heap_init s \<longrightarrow> mem s a = 0)"

lemma word_of_bytes_0 [simp]: "word_of_bytes (\<lambda>i. 0) = 0"
  by (simp add: word_of_bytes_def)

lemma load64_zeros: "(\<And>i. i < 8 \<Longrightarrow> m (a + i) = 0) \<Longrightarrow> load64 m a = 0"
  unfolding load64_def by (subst word_of_bytes_cong [where g = "\<lambda>_. 0"]) simp_all

lemma fresh_cells:
  assumes "fresh s"
  shows "i < dep_slots s \<Longrightarrow> dep_cell s i = 0" "i < dep_slots s \<Longrightarrow> binding s i = 0"
    "i < ht_slots s \<Longrightarrow> ht_hash s i = 0" "i < ht_slots s \<Longrightarrow> ht_addr s i = 0"
  using assms unfolding fresh_def layout_def dep_cell_def binding_def ht_hash_def ht_addr_def helt_addr_field_def
  by (auto intro!: load64_zeros)

lemma push_bit_unat: "k < 64 \<Longrightarrow> unat (push_bit k (1::u64)) = 2 ^ k"
  by (simp add: push_bit_eq_mult unat_pow2)

lemma unat_table_bytes:
  "k \<le> 32 \<Longrightarrow> unat (2 ^ k * 8 :: u64) = 2 ^ k * 8" "k \<le> 32 \<Longrightarrow> unat (2 ^ k * 16 :: u64) = 2 ^ k * 16"
proof -
  assume k: "k \<le> 32"
  then have "(2::nat) ^ k \<le> 2 ^ 32" by (rule power_increasing) simp
  then show "unat (2 ^ k * 8 :: u64) = 2 ^ k * 8" "unat (2 ^ k * 16 :: u64) = 2 ^ k * 16"
    using k by (simp_all add: unat_word_ariths unat_pow2)
qed

lemma shared_init_runs:
  assumes "startable os cfg base"
  shows "\<exists>s'. hh_shared_init os cfg s = Some (Inr Val_unit, s') \<and> fresh s' \<and> shared_mem s' = base
     \<and> unat (shared_mem_size s') = segment_size os cfg
     \<and> dep_slots s' = 2 ^ unat (Long_val (c_dep_table_pow cfg))
     \<and> ht_slots s' = 2 ^ unat (Long_val (c_hash_table_pow cfg))
     \<and> heap_size s' = Long_val (c_heap_size cfg) \<and> heap_max s' = base + segment_size os cfg
     \<and> my_pid s' = getpid os \<and> master_pid s' = getpid os
     \<and> counter s' = early_counter s + 1 \<and> log_level s' = Long_val (c_log_level cfg)
     \<and> allow_removes s' \<and> allow_dependency_table_reads s' \<and> ptr_to s' = small_object_addr base
     \<and> allow_hashtable_writes_by_current_process s' = allow_hashtable_writes_by_current_process s
     \<and> db_filename s' = base + getpagesize os \<and> hashtable_db_filename s' = base + 2 * getpagesize os
     \<and> deptbl s' = base + 3 * getpagesize os
     \<and> zstd_compression_context s' = Some (dictionary_compression_data, zstd_compression_level)
     \<and> zstd_decompression_context s' = Some dictionary_compression_data"
proof -
  define d k where "d = unat (Long_val (c_dep_table_pow cfg))" and "k = unat (Long_val (c_hash_table_pow cfg))"
  define hs pg where "hs = Long_val (c_heap_size cfg)" and "pg = getpagesize os"
  note A = assms [unfolded startable_def segment_size_def, folded d_def k_def hs_def pg_def]
  have dk: "d \<le> 32" "k \<le> 32" using A by auto
  define n where "n = 16 * 2 ^ d + 16 * 2 ^ k + unat hs + 3 * pg"
  define w where "w = (word_of_nat n :: u64)"
  have size: "2 ^ d * 8 + 2 ^ d * 8 + 2 ^ k * 16 + hs + 3 * word_of_nat pg = w"
    by (simp add: w_def n_def)
  have un: "unat w = n"
    unfolding w_def unat_of_nat by (rule mod_less) (use A in \<open>simp add: n_def\<close>)
  have mm: "mmap os SHARED_MEM_INIT (2 ^ d * 8 + 2 ^ d * 8 + 2 ^ k * 16 + hs + 3 * word_of_nat pg) = Some base"
    unfolding size using A by (simp add: w_def n_def)
  have un': "unat (2 ^ d * 8 + 2 ^ d * 8 + 2 ^ k * 16 + hs + 3 * word_of_nat pg) = n"
    unfolding size by (rule un)
  note tb = unat_table_bytes [OF dk(1)] unat_table_bytes [OF dk(2)]
  have sizes: "unat (2 ^ d :: u64) = 2 ^ d" "unat (2 ^ k :: u64) = 2 ^ k" using dk by (simp_all add: unat_pow2)
  define s' where "s' = s\<lparr>heap_size := hs, dep_size := 2 ^ d, dep_size_b := 2 ^ d * 8, bindings_size_b := 2 ^ d * 8,
      hashtbl_size := 2 ^ k, hashtbl_size_b := 2 ^ k * 16, 
      shared_mem_size := 2 ^ d * 8 + 2 ^ d * 8 + 2 ^ k * 16 + hs + 3 * word_of_nat pg,
      shared_mem := base, ptr_to := small_object_addr base, db_filename := base + pg,
      hashtable_db_filename := base + pg + pg, deptbl := base + pg + pg + pg,
      deptbl_bindings := base + pg + pg + pg + 2 ^ d * 8, 
      hashtbl := base + pg + pg + pg + 2 ^ d * 8 + 2 ^ d * 8,
      heap_init := base + pg + pg + pg + 2 ^ d * 8 + 2 ^ d * 8 + 2 ^ k * 16,
      heap_max := base + pg + pg + pg + 2 ^ d * 8 + 2 ^ d * 8 + 2 ^ k * 16 + unat hs,
      heap := base + pg + pg + pg + 2 ^ d * 8 + 2 ^ d * 8 + 2 ^ k * 16,
      hcounter := 0, dcounter := 0, counter := early_counter s + 1, master_pid := getpid os,
      log_level := Long_val (c_log_level cfg), wasted_heap_size := 0, allow_removes := True,
      allow_dependency_table_reads := True,
      mem := memset0 (base + pg + pg) pg (memset0 (base + pg) pg
         (memset0 base n (mem s))),
      my_pid := getpid os,
      zstd_compression_context := Some (dictionary_compression_data, zstd_compression_level),
      zstd_decompression_context := Some dictionary_compression_data\<rparr>"
  have top: "base + pg + pg + pg + 2 ^ d * 8 + 2 ^ d * 8 + 2 ^ k * 16 + unat hs = base + n" by (simp add: n_def)
  have run: "hh_shared_init os cfg s = Some (Inr Val_unit, s')"
    using A top mm un' by (simp add: hh_shared_init_def Let_def op_simps push_bit_eq_mult define_globals_def
        tb sizes init_zstd_compression_def read_dictionary_def dictionary_length [symmetric] init_shared_globals_def small_object_size_def CACHE_LINE_SIZE_def
        s'_def flip: d_def k_def hs_def pg_def)
  have "layout s'" using A dk sizes unfolding layout_def s'_def
    by (auto simp: ac_simps intro: exI [of _ d] exI [of _ k])
  then have "fresh s'" by (auto simp: fresh_def s'_def memset0_def n_def)
  moreover have "unat (shared_mem_size s') = n" unfolding s'_def size by (simp add: un)
  moreover have "heap_max s' = base + n" by (simp add: s'_def n_def)
  moreover have "dep_slots s' = 2 ^ d" "ht_slots s' = 2 ^ k" by (simp_all add: s'_def sizes)
  moreover have "heap_size s' = hs" by (simp add: s'_def)
  ultimately show ?thesis using run
    unfolding segment_size_def d_def [symmetric] k_def [symmetric] hs_def [symmetric] pg_def [symmetric] n_def [symmetric]
    by (intro exI [of _ s']) (simp add: s'_def)
qed

lemma pyre_reset_fresh:
  assumes "layout s"
  shows "\<exists>s'. pyre_reset os s = Some (Inr (), s') \<and> fresh s'"
proof -
  have "unat (dep_size_b s) = 8 * dep_slots s" "unat (bindings_size_b s) = 8 * dep_slots s"
    "unat (hashtbl_size_b s) = 16 * ht_slots s"
    using assms unat_table_bytes unat_pow2 by (auto simp: layout_def mult.commute)
  then show ?thesis using assms
    by (auto simp: pyre_reset_def op_simps fresh_def memset0_def Let_def layout_def)
qed

lemma small_objects_apart:
  "g \<noteq> g' \<Longrightarrow> small_object_addr base g + CACHE_LINE_SIZE \<le> small_object_addr base g'
     \<or> small_object_addr base g' + CACHE_LINE_SIZE \<le> small_object_addr base g"
  by (cases g; cases g') (simp_all add: small_object_addr_def)

lemma word_in_line:
  fixes a r :: nat
  assumes "8 dvd a" and "r < 8"
  shows "(a + r) div 64 = a div 64"
proof -
  have "(a + r) div 8 = a div 8" using assms by (auto simp: dvd_def)
  then have "(a + r) div (8 * 8) = a div (8 * 8)" by (simp only: div_mult2_eq)
  then show ?thesis by simp
qed

lemma small_object_line:
  assumes "8 dvd base"
  shows "small_object_addr base g div CACHE_LINE_SIZE = (small_object_addr base g + small_object_size g - 1) div CACHE_LINE_SIZE"
proof -
  have "8 dvd small_object_addr base g" using assms by (cases g) (simp_all add: small_object_addr_def CACHE_LINE_SIZE_def)
  then show ?thesis
    using word_in_line [of "small_object_addr base g" "small_object_size g - 1"]
    by (simp add: CACHE_LINE_SIZE_def small_object_size_def split: if_splits)
qed

subsection \<open>The counter\<close>

text \<open>The values returned by \<open>n\<close> calls of \<open>hh_counter_next\<close> in a row.\<close>

fun counter_run :: "nat \<Rightarrow> hh \<Rightarrow> ocaml_value list" where
  "counter_run 0 s = []"
| "counter_run (Suc n) s =
     (case hh_counter_next s of Some (Inr v, s') \<Rightarrow> v # counter_run n s' | _ \<Rightarrow> [])"

definition next_count :: "hh \<Rightarrow> nat" where
  "next_count s = (if ptr_to s G_counter \<noteq> 0 then unat (counter s) else Suc (unat (early_counter s)))"

lemma counter_next_runs:
  assumes "next_count s < unat Max_long"
  shows "\<exists>v s'. hh_counter_next s = Some (Inr v, s') \<and> unat (Long_val v) = next_count s
     \<and> next_count s' = Suc (next_count s) \<and> ptr_to s' = ptr_to s"
proof -
  have small: "Long_val (Val_long (x mod Max_long)) = x \<and> unat (x + 1) = Suc (unat x)"
    if "unat x < unat Max_long" for x
  proof -
    have x: "x < Max_long" using that by (simp add: word_less_nat_alt)
    then have "x mod Max_long = x" by (intro unsigned_word_eqI [where 'a = nat]) (simp add: unat_mod_distrib word_less_nat_alt)
    moreover have "x < 0x4000000000000000" using x by (simp add: Max_long_def word_less_nat_alt)
    ultimately show ?thesis using unat_plus_1_less [OF x] by (simp add: Long_val_Val_long)
  qed
  show ?thesis
  proof (cases "ptr_to s G_counter = 0")
    case True
    then have e: "Suc (unat (early_counter s)) < unat Max_long" using assms by (simp add: next_count_def)
    then have "unat (early_counter s + 1) = Suc (unat (early_counter s))"
      using small [of "early_counter s"] by simp
    then show ?thesis using True e small [of "early_counter s + 1"]
      by (simp add: hh_counter_next_def next_count_def Let_def)
  next
    case False
    then show ?thesis using assms small [of "counter s"] by (simp add: hh_counter_next_def next_count_def)
  qed
qed

lemma counter_run_upt:
  "next_count s + n \<le> unat Max_long \<Longrightarrow>
     map (\<lambda>v. unat (Long_val v)) (counter_run n s) = [next_count s..<next_count s + n]"
proof (induction n arbitrary: s)
  case (Suc n)
  then obtain v s' where "hh_counter_next s = Some (Inr v, s')" "unat (Long_val v) = next_count s"
    "next_count s' = Suc (next_count s)" using counter_next_runs [of s] by auto
  then show ?case using Suc by (simp add: upt_rec [of "next_count s"])
qed simp

subsection \<open>A concrete start-up\<close>

text \<open>Four slots in each table and a heap of 4 kB, for the witnesses.\<close>

definition demo_os :: os where
  "demo_os = \<lparr>getpagesize = 4096, getpid = 100, mmap = (\<lambda>a n. Some a), 
     refCDict_error = (\<lambda>_ _. False), refDDict_error = (\<lambda>_. False)\<rparr>"

definition demo_config :: config where
  "demo_config = \<lparr>c_heap_size = Val_long 4096, c_dep_table_pow = Val_long 2, c_hash_table_pow = Val_long 2,
     c_log_level = Val_long 0\<rparr>"

definition demo :: hh where
  "demo = snd (the (hh_shared_init demo_os demo_config hh_start))"

lemma demo_startable: "startable demo_os demo_config SHARED_MEM_INIT"
  by (simp add: startable_def segment_size_def demo_os_def demo_config_def Long_val_Val_long SHARED_MEM_INIT_def)

lemma demo_facts:
  "fresh demo" "dep_slots demo = 4" "ht_slots demo = 4" "heap_size demo = 4096" "my_pid demo = master_pid demo"
  "allow_removes demo" "allow_dependency_table_reads demo" "allow_hashtable_writes_by_current_process demo"
proof -
  obtain s' where "hh_shared_init demo_os demo_config hh_start = Some (Inr Val_unit, s')" and s': "fresh s'"
    "dep_slots s' = 2 ^ unat (Long_val (c_dep_table_pow demo_config))"
    "ht_slots s' = 2 ^ unat (Long_val (c_hash_table_pow demo_config))"
    "heap_size s' = Long_val (c_heap_size demo_config)" "my_pid s' = getpid demo_os" "master_pid s' = getpid demo_os"
    "allow_removes s'" "allow_dependency_table_reads s'"
    "allow_hashtable_writes_by_current_process s' = allow_hashtable_writes_by_current_process hh_start"
    using shared_init_runs [OF demo_startable, of hh_start] by blast
  then have "demo = s'" by (simp add: demo_def)
  then show "fresh demo" "dep_slots demo = 4" "ht_slots demo = 4" "heap_size demo = 4096"
    "my_pid demo = master_pid demo" "allow_removes demo" "allow_dependency_table_reads demo"
    "allow_hashtable_writes_by_current_process demo"
    using s' by (simp_all add: demo_config_def Long_val_Val_long hh_start_def)
qed

subsection \<open>Properties\<close>

text \<open>C20: When the operating system grants the mapping and zstd accepts the dictionary,
  \<open>hh_shared_init\<close> returns unit and establishes the laid-out segment: disjoint tables of the
  configured sizes with all slots empty, an empty heap that ends where the mapping ends, the counters
  at zero, the global counter past the early one, and both permissions granted.\<close>

theorem hh_shared_init_establishes:
  assumes "startable os cfg base"
  shows "\<exists>s'. hh_shared_init os cfg s = Some (Inr Val_unit, s') \<and> fresh s' \<and> shared_mem s' = base
     \<and> unat (shared_mem_size s') = segment_size os cfg
     \<and> dep_slots s' = 2 ^ unat (Long_val (c_dep_table_pow cfg))
     \<and> ht_slots s' = 2 ^ unat (Long_val (c_hash_table_pow cfg))
     \<and> heap_size s' = Long_val (c_heap_size cfg) \<and> heap_max s' = base + segment_size os cfg
     \<and> my_pid s' = getpid os \<and> master_pid s' = getpid os
     \<and> counter s' = early_counter s + 1 \<and> log_level s' = Long_val (c_log_level cfg)
     \<and> allow_removes s' \<and> allow_dependency_table_reads s'"
  using shared_init_runs [OF assms, of s] by blast

theorem hh_shared_init_establishes_witness:
  "\<exists>s'. hh_shared_init demo_os demo_config hh_start = Some (Inr Val_unit, s') \<and> fresh s' \<and> ht_slots s' = 4"
  using hh_shared_init_establishes [OF demo_startable, of hh_start]
  by (auto simp: demo_config_def Long_val_Val_long)

text \<open>C22: After start-up the small objects of the segment (heap pointer, counters, flags) lie in the first
  page, each ends at or before the first file-name buffer, no two of them share a cache line, and the two
  file-name buffers of a page each lie one behind the other and before the dependency table: a write to one of
  these objects or buffers within its size reaches no other one and no table.\<close>

theorem small_objects_separate:
  assumes "startable os cfg base" and "hh_shared_init os cfg s = Some (Inr Val_unit, s')"
  shows "inj (\<lambda>g. ptr_to s' g div CACHE_LINE_SIZE)
     \<and> (\<forall>g. base \<le> ptr_to s' g \<and> ptr_to s' g + small_object_size g \<le> db_filename s'
          \<and> ptr_to s' g div CACHE_LINE_SIZE = (ptr_to s' g + small_object_size g - 1) div CACHE_LINE_SIZE)
     \<and> db_filename s' + getpagesize os \<le> hashtable_db_filename s' \<and> hashtable_db_filename s' + getpagesize os \<le> deptbl s'"
proof -
  have p: "ptr_to s' = small_object_addr base" "db_filename s' = base + getpagesize os"
    "hashtable_db_filename s' = base + 2 * getpagesize os" "deptbl s' = base + 3 * getpagesize os"
    using shared_init_runs [OF assms(1), of s] assms(2) by auto
  have "inj (\<lambda>g. small_object_addr base g div CACHE_LINE_SIZE)"
  proof (rule injI, rule ccontr)
    fix g g' assume "small_object_addr base g div CACHE_LINE_SIZE = small_object_addr base g' div CACHE_LINE_SIZE"
      and "g \<noteq> g'"
    then show False using small_objects_apart [of g g' base] unfolding CACHE_LINE_SIZE_def by linarith
  qed
  moreover have "base \<le> small_object_addr base g \<and> small_object_addr base g + small_object_size g \<le> base + getpagesize os" for g
    using assms(1) by (cases g) (simp_all add: startable_def small_object_addr_def small_object_size_def CACHE_LINE_SIZE_def)
  moreover have "small_object_addr base g div CACHE_LINE_SIZE
      = (small_object_addr base g + small_object_size g - 1) div CACHE_LINE_SIZE" for g
    using assms(1) small_object_line [of base g] by (simp add: startable_def)
  ultimately show ?thesis by (simp add: p)
qed

theorem small_objects_separate_witness:
  "inj (\<lambda>g. ptr_to demo g div CACHE_LINE_SIZE) \<and> ptr_to demo G_master_pid + 4 \<le> db_filename demo"
proof -
  obtain s' where s': "hh_shared_init demo_os demo_config hh_start = Some (Inr Val_unit, s')"
    using shared_init_runs [OF demo_startable, of hh_start] by blast
  then have "demo = s'" by (simp add: demo_def)
  moreover have "ptr_to s' G_master_pid + small_object_size G_master_pid \<le> db_filename s'"
    using small_objects_separate [OF demo_startable s'] by blast
  moreover have "inj (\<lambda>g. ptr_to s' g div CACHE_LINE_SIZE)" using small_objects_separate [OF demo_startable s'] by blast
  ultimately show ?thesis by (simp add: small_object_size_def)
qed

text \<open>C21: \<open>pyre_reset\<close> on any laid-out segment returns and leaves it as after start-up: every table
  slot empty, the heap empty, the counters at zero.\<close>

theorem pyre_reset_establishes:
  assumes "layout s"
  shows "\<exists>s'. pyre_reset os s = Some (Inr (), s') \<and> fresh s'"
  using assms by (rule pyre_reset_fresh)

theorem pyre_reset_establishes_witness:
  "\<exists>s'. pyre_reset demo_os (set_ht_hash 1 7 demo) = Some (Inr (), s') \<and> fresh s'"
  using pyre_reset_establishes [of "set_ht_hash 1 7 demo"] demo_facts(1) by (simp add: fresh_def)

text \<open>C30: Below the largest OCaml integer, \<open>n\<close> calls of \<open>hh_counter_next\<close> return the \<open>n\<close> consecutive
  integers from the next count on, before and after start-up, so no value repeats.\<close>

theorem hh_counter_next_increasing:
  assumes "next_count s + n \<le> unat Max_long"
  shows "map (\<lambda>v. unat (Long_val v)) (counter_run n s) = [next_count s..<next_count s + n]"
  using assms by (rule counter_run_upt)

theorem hh_counter_next_increasing_witness:
  "map (\<lambda>v. unat (Long_val v)) (counter_run 3 hh_start) = [2, 3, 4]"
proof -
  have "next_count hh_start = 2" by (simp add: next_count_def hh_start_def)
  then show ?thesis using hh_counter_next_increasing [of hh_start 3] by (simp add: Max_long_def upt_rec)
qed

end
