(* ===== verification/Linear_Probing.thy ===== *)
theory Linear_Probing
  imports Hh_Prelude
begin

text \<open>
  All three tables of \<open>hh_shared.c\<close> (the shared hashtable, \<open>deptbl\<close> and \<open>deptbl_bindings\<close>)
  resolve collisions by linear probing: a scan starts at a slot computed from the key and moves to
  the next slot modulo the table size until it meets a free slot or the key. This theory states
  the argument once, as a locale over the number of slots and the start slot of a key: what a table
  has to keep true, what a scan finds, that it ends, and which writes keep the table searchable.
\<close>

datatype 'k slot_view = Free | Keyed 'k | Opaque

locale linear_probing =
  fixes n :: nat and start :: "'k \<Rightarrow> nat"
  assumes n_pos: "0 < n" and start_less: "start k < n"
begin

definition stop :: "(nat \<Rightarrow> 'k slot_view) \<Rightarrow> 'k \<Rightarrow> nat \<Rightarrow> bool" where
  "stop v k i \<longleftrightarrow> v i = Free \<or> v i = Keyed k"

text \<open>The slot at which a scan for \<open>k\<close> ends.\<close>

definition first_stop :: "(nat \<Rightarrow> 'k slot_view) \<Rightarrow> 'k \<Rightarrow> nat \<Rightarrow> bool" where
  "first_stop v k i \<longleftrightarrow>
     (\<exists>j<n. i = (start k + j) mod n \<and> stop v k i \<and> (\<forall>j'<j. \<not> stop v k ((start k + j') mod n)))"

text \<open>The table is searchable: a scan for a stored key meets the key before any free slot.\<close>

definition searchable :: "(nat \<Rightarrow> 'k slot_view) \<Rightarrow> bool" where
  "searchable v \<longleftrightarrow> (\<forall>i<n. \<forall>k. v i = Keyed k \<longrightarrow> first_stop v k i)"

lemma offset_ex: "i < n \<Longrightarrow> \<exists>j<n. (start k + j) mod n = i"
proof -
  assume i: "i < n"
  show ?thesis
  proof (cases "start k \<le> i")
    case True
    with i show ?thesis by (intro exI [of _ "i - start k"]) auto
  next
    case False
    with i start_less [of k] show ?thesis
      by (intro exI [of _ "n + i - start k"]) (auto simp: not_le)
  qed
qed

lemma offset_inj: "j < n \<Longrightarrow> j' < n \<Longrightarrow> (start k + j) mod n = (start k + j') mod n \<Longrightarrow> j = j'"
proof (induction j j' rule: linorder_wlog)
  case (le a b)
  then have "n dvd b - a"
    using mod_eq_dvd_iff_nat [of "start k + a" "start k + b" n] by auto
  with le show ?case by (metis diff_is_0_eq dvd_imp_le le_antisym less_imp_diff_less not_le zero_less_diff)
qed simp

lemma first_stop_less: "first_stop v k i \<Longrightarrow> i < n"
  by (auto simp: first_stop_def n_pos)

lemma first_stop_stop: "first_stop v k i \<Longrightarrow> stop v k i"
  unfolding first_stop_def by blast

lemma first_stop_unique:
  assumes "first_stop v k i" and "first_stop v k i'"
  shows "i = i'"
proof -
  obtain j where j: "i = (start k + j) mod n" "stop v k ((start k + j) mod n)"
    "\<forall>j'<j. \<not> stop v k ((start k + j') mod n)"
    using assms(1) unfolding first_stop_def by blast
  obtain l where l: "i' = (start k + l) mod n" "stop v k ((start k + l) mod n)"
    "\<forall>j'<l. \<not> stop v k ((start k + j') mod n)"
    using assms(2) unfolding first_stop_def by blast
  have "j = l" using j(2,3) l(2,3) linorder_neqE_nat by blast
  then show ?thesis using j(1) l(1) by simp
qed

lemma first_stop_ex:
  assumes "i < n" and "stop v k i"
  shows "\<exists>i'. first_stop v k i'"
proof -
  obtain j where j: "j < n" "stop v k ((start k + j) mod n)"
    using assms offset_ex by metis
  define m where "m = (LEAST j. stop v k ((start k + j) mod n))"
  have "stop v k ((start k + m) mod n)" "m \<le> j"
    unfolding m_def using j(2) by (auto intro: LeastI Least_le)
  moreover have "\<not> stop v k ((start k + j') mod n)" if "j' < m" for j'
    using that not_less_Least unfolding m_def by blast
  ultimately show ?thesis using j(1) unfolding first_stop_def by (meson le_less_trans)
qed

lemma searchable_unique:
  "searchable v \<Longrightarrow> i < n \<Longrightarrow> i' < n \<Longrightarrow> v i = Keyed k \<Longrightarrow> v i' = Keyed k \<Longrightarrow> i = i'"
  unfolding searchable_def by (meson first_stop_unique)

text \<open>What a scan finds: the key wherever it is stored, and a free slot only if it is nowhere.\<close>

lemma first_stop_found:
  "searchable v \<Longrightarrow> first_stop v k i \<Longrightarrow> i' < n \<Longrightarrow> v i' = Keyed k \<Longrightarrow> i' = i"
  unfolding searchable_def by (meson first_stop_unique)

lemma first_stop_absent:
  "searchable v \<Longrightarrow> first_stop v k i \<Longrightarrow> v i = Free \<Longrightarrow> i' < n \<Longrightarrow> v i' \<noteq> Keyed k"
  using first_stop_found by fastforce

lemma searchable_cong:
  assumes "\<And>i. i < n \<Longrightarrow> v i = w i"
  shows "searchable v = searchable w"
proof -
  have "v (x mod n) = w (x mod n)" for x using assms n_pos by simp
  then have "first_stop v k i = first_stop w k i" for k i
    unfolding first_stop_def stop_def by metis
  then show ?thesis using assms by (simp add: searchable_def)
qed

lemma searchable_all_free: "(\<And>i. i < n \<Longrightarrow> v i = Free) \<Longrightarrow> searchable v"
  by (simp add: searchable_def)

text \<open>Filling a free slot never hides a key; at the end of its own scan a key may be stored.\<close>

lemma first_stop_fill:
  assumes "first_stop v k i" and "v i = Keyed k" and "v p = Free" and "x \<noteq> Free" and "x \<noteq> Keyed k"
  shows "first_stop (v(p := x)) k i"
  using assms unfolding first_stop_def stop_def by (metis fun_upd_other fun_upd_same slot_view.distinct(1))

lemma searchable_fill_opaque:
  "searchable v \<Longrightarrow> v p = Free \<Longrightarrow> searchable (v(p := Opaque))"
  unfolding searchable_def by (auto intro: first_stop_fill split: if_splits)

lemma searchable_fill_key:
  assumes v: "searchable v" and p: "first_stop v k p" and free: "v p = Free"
  shows "searchable (v(p := Keyed k))"
  unfolding searchable_def
proof (intro allI impI)
  fix i k' assume i: "i < n" and at: "(v(p := Keyed k)) i = Keyed k'"
  show "first_stop (v(p := Keyed k)) k' i"
  proof (cases "i = p")
    case True
    then have "k' = k" using at by simp
    from p obtain j where j: "j < n" "p = (start k + j) mod n"
      and before: "\<forall>j'<j. \<not> stop v k ((start k + j') mod n)"
      unfolding first_stop_def by blast
    have "(start k + j') mod n \<noteq> p" if "j' < j" for j'
      using that j offset_inj by (metis less_trans nat_neq_iff)
    then have "\<forall>j'<j. \<not> stop (v(p := Keyed k)) k ((start k + j') mod n)"
      using before by (simp add: stop_def)
    with j True \<open>k' = k\<close> show ?thesis
      unfolding first_stop_def by (intro exI [of _ j]) (simp add: stop_def)
  next
    case False
    with at have "v i = Keyed k'" by simp
    moreover have "k' \<noteq> k" using first_stop_absent [OF v p free i] calculation by auto
    moreover have "first_stop v k' i" using v i calculation by (simp add: searchable_def)
    ultimately show ?thesis using first_stop_fill free by simp
  qed
qed

subsection \<open>Scans in progress\<close>

text \<open>A scan for \<open>k\<close> may stand at slot \<open>i\<close>: it has passed every slot before it. The slots it passed do not stop
  it later either, as long as only free slots are filled.\<close>

definition passed :: "(nat \<Rightarrow> 'k slot_view) \<Rightarrow> 'k \<Rightarrow> nat \<Rightarrow> bool" where
  "passed v k i \<longleftrightarrow> (\<exists>j. i = (start k + j) mod n \<and> (\<forall>j'<j. \<not> stop v k ((start k + j') mod n)))"

lemma passed_less: "passed v k i \<Longrightarrow> i < n"
  by (auto simp: passed_def n_pos)

lemma passed_start: "passed v k (start k)"
  unfolding passed_def using start_less by (intro exI [of _ 0]) simp

lemma passed_next:
  assumes "passed v k i" and "\<not> stop v k i"
  shows "passed v k ((i + 1) mod n)"
proof -
  obtain j where j: "i = (start k + j) mod n" "\<forall>j'<j. \<not> stop v k ((start k + j') mod n)"
    using assms(1) unfolding passed_def by blast
  have "(i + 1) mod n = (start k + Suc j) mod n" unfolding j(1) by (simp add: mod_Suc_eq)
  moreover have "\<forall>j'<Suc j. \<not> stop v k ((start k + j') mod n)" using j assms(2) by (simp add: less_Suc_eq)
  ultimately show ?thesis unfolding passed_def by blast
qed

lemma passed_mono:
  assumes "passed v k i" and "\<And>i. i < n \<Longrightarrow> v i \<noteq> Free \<Longrightarrow> v' i = v i"
  shows "passed v' k i"
proof -
  have "\<not> stop v' k (x mod n)" if "\<not> stop v k (x mod n)" for x
    using that assms(2) [of "x mod n"] n_pos by (auto simp: stop_def)
  then show ?thesis using assms(1) unfolding passed_def by blast
qed

lemma passed_stop:
  assumes "passed v k i" and "stop v k i"
  shows "first_stop v k i"
proof -
  obtain j where j: "i = (start k + j) mod n" "\<forall>j'<j. \<not> stop v k ((start k + j') mod n)"
    using assms(1) unfolding passed_def by blast
  have "j < n"
  proof (rule ccontr)
    assume "\<not> j < n"
    then have "j - n < j" "(start k + (j - n)) mod n = i" using n_pos j(1) by (simp_all add: mod_if le_mod_geq)
    then show False using j(2) assms(2) by metis
  qed
  then show ?thesis using j assms(2) unfolding first_stop_def by blast
qed

subsection \<open>The scanning loop\<close>

text \<open>
  The loop variable \<open>x\<close> stands for the slot \<open>idx x\<close>; \<open>nxt\<close> moves one slot on. The loop goes round at
  every slot where the scan does not stop (as long as the next slot is not the one it started
  from), so it arrives at the first slot where it stops, or back at the start when there is none.
\<close>

lemma probe_iter:
  assumes "idx x = start k" and "\<And>x. idx x < n \<Longrightarrow> idx (nxt x) = (idx x + 1) mod n"
  shows "idx ((nxt ^^ j) x) = (start k + j) mod n"
proof (induction j)
  case 0
  then show ?case using assms(1) start_less by simp
next
  case (Suc j)
  then show ?case using assms(2) [of "(nxt ^^ j) x"] n_pos by (simp add: mod_Suc_eq)
qed

lemma probe_prefix:
  assumes idx: "idx x = start k" and nxt: "\<And>x. idx x < n \<Longrightarrow> idx (nxt x) = (idx x + 1) mod n"
    and go: "\<And>x. idx x < n \<Longrightarrow> \<not> stop v k (idx x) \<Longrightarrow> idx (nxt x) \<noteq> start k \<Longrightarrow> body x = Inr (nxt x)"
    and j: "j < n" and before: "\<And>j'. j' < j \<Longrightarrow> \<not> stop v k ((start k + j') mod n)"
  shows "while1 body x = while1 body ((nxt ^^ j) x)"
proof -
  have at: "idx ((nxt ^^ j') x) = (start k + j') mod n" for j'
    by (rule probe_iter [OF idx nxt])
  have "body ((nxt ^^ j') x) = Inr ((nxt ^^ Suc j') x)" if "j' < j" for j'
  proof -
    have "(start k + Suc j') mod n \<noteq> (start k + 0) mod n"
      using offset_inj [of "Suc j'" 0 k] that j by auto
    then have "idx (nxt ((nxt ^^ j') x)) \<noteq> start k" using at [of "Suc j'"] start_less by simp
    with go [of "(nxt ^^ j') x"] show ?thesis using at n_pos before [OF that] by simp
  qed
  then show ?thesis using while1_reaches [of j body "\<lambda>j. (nxt ^^ j) x"] by simp
qed

lemma probe_loop:
  assumes idx: "idx x = start k" and nxt: "\<And>x. idx x < n \<Longrightarrow> idx (nxt x) = (idx x + 1) mod n"
    and go: "\<And>x. idx x < n \<Longrightarrow> \<not> stop v k (idx x) \<Longrightarrow> idx (nxt x) \<noteq> start k \<Longrightarrow> body x = Inr (nxt x)"
    and p: "first_stop v k p"
  shows "\<exists>y. idx y = p \<and> while1 body x = while1 body y"
proof -
  obtain j where "j < n" "p = (start k + j) mod n"
    and "\<forall>j'<j. \<not> stop v k ((start k + j') mod n)"
    using p unfolding first_stop_def by blast
  then show ?thesis
    using probe_iter [OF idx nxt, of j] probe_prefix [where v = v and j = j, OF idx nxt go] by blast
qed

lemma probe_full:
  assumes idx: "idx x = start k" and nxt: "\<And>x. idx x < n \<Longrightarrow> idx (nxt x) = (idx x + 1) mod n"
    and go: "\<And>x. idx x < n \<Longrightarrow> \<not> stop v k (idx x) \<Longrightarrow> idx (nxt x) \<noteq> start k \<Longrightarrow> body x = Inr (nxt x)"
    and full: "\<And>i. i < n \<Longrightarrow> \<not> stop v k i"
  shows "\<exists>y. idx y < n \<and> idx (nxt y) = start k \<and> while1 body x = while1 body y"
proof -
  let ?y = "(nxt ^^ (n - 1)) x"
  have y: "idx ?y = (start k + (n - 1)) mod n" by (rule probe_iter [OF idx nxt])
  then have "idx ?y < n" using n_pos by simp
  moreover have "idx (nxt ?y) = start k"
    using nxt [OF \<open>idx ?y < n\<close>] y n_pos start_less [of k] by (simp add: mod_Suc_eq)
  moreover have "while1 body x = while1 body ?y"
    by (rule probe_prefix [where v = v, OF idx nxt go]) (use n_pos full in auto)
  ultimately show ?thesis by blast
qed

end

end
