(* ===== verification/Hh_Deptbl.thy ===== *)
theory Hh_Deptbl
  imports Hh_Init Linear_Probing
begin

text \<open>
  The dependency table: \<open>deptbl_bindings\<close> (a hash set of edges) and \<open>deptbl\<close> (a hash table from a
  node to the linked list of its successors, the list nodes stored in the same array). The
  operations are those of one process running alone; a compare-and-swap on a slot just read then
  succeeds.
\<close>

subsection \<open>Slots\<close>

text \<open>\<open>tagged_uint_t\<close>: 31 bits and a tag bit; \<open>deptbl_entry_t\<close>: the union of a pair of them with the
  raw 64 bits (bit-fields are allocated from the least significant bit).\<close>

record tagged_uint_t =
  t_num :: u32
  t_tag :: bool

record deptbl_entry_t =
  e_key :: tagged_uint_t
  e_next :: tagged_uint_t

definition TAG_VAL :: bool where "TAG_VAL = False"
definition TAG_KEY :: bool where "TAG_KEY = (\<not> TAG_VAL)"
definition TAG_NEXT :: bool where "TAG_NEXT = (\<not> TAG_VAL)"

definition tagged :: "u32 \<Rightarrow> bool \<Rightarrow> tagged_uint_t" where
  "tagged n t = \<lparr>t_num = take_bit 31 n, t_tag = t\<rparr>"

definition tagged_bits :: "tagged_uint_t \<Rightarrow> u32" where
  "tagged_bits t = take_bit 31 (t_num t) OR push_bit 31 (of_bool (t_tag t))"

definition tagged_of_bits :: "u32 \<Rightarrow> tagged_uint_t" where
  "tagged_of_bits w = \<lparr>t_num = take_bit 31 w, t_tag = bit w 31\<rparr>"

definition raw :: "deptbl_entry_t \<Rightarrow> u64" where
  "raw e = ucast (tagged_bits (e_key e)) OR push_bit 32 (ucast (tagged_bits (e_next e)))"

definition entry_of_raw :: "u64 \<Rightarrow> deptbl_entry_t" where
  "entry_of_raw w = \<lparr>e_key = tagged_of_bits (ucast w), e_next = tagged_of_bits (ucast (drop_bit 32 w))\<rparr>"

subsection \<open>Operations\<close>

definition bswap64 :: "u64 \<Rightarrow> u64" where
  "bswap64 x = word_of_bytes (\<lambda>i. byte_of x (7 - i))"

definition hash_uint64 :: "u64 \<Rightarrow> u64" where
  "hash_uint64 n = bswap64 (n * 0x9e3779b97f4a7c15)"

definition raise_dep_table_full :: "'a hh_op" where
  [op_simps]: "raise_dep_table_full = throw Dep_table_full"

text \<open>Each search loop is \<open>while1\<close> over a body that takes the loop's slot number.\<close>

definition add_binding_body :: "u64 \<Rightarrow> hh \<Rightarrow> u64 \<Rightarrow> ((hh_error + bool) \<times> hh) + u64" where
  "add_binding_body value s slot =
     (let slot_val = binding s (unat slot) in
      if slot_val = value then Inl (Inr False, s)
      else if dep_size s \<le> dcounter s then Inl (Inl Dep_table_full, s)
      else if slot_val = 0 then
        Inl (let old = dcounter s;
                 s' = (set_binding (unat slot) value s)\<lparr>dcounter := dcounter s + 1\<rparr>
             in if old \<le> dep_size s then (Inr True, s')
                else (Inl (C_assertion_failure (LOCATION HH_SHARED_C 818)), s'))
      else Inr ((slot + 1) AND (dep_size s - 1)))"

definition add_binding :: "u64 \<Rightarrow> bool hh_op" where
  "add_binding value s =
     while1 (add_binding_body value s) (hash_uint64 value AND (dep_size s - 1))"

definition pack :: "u32 \<Rightarrow> u32 \<Rightarrow> u64" where
  "pack key val = push_bit 31 (ucast key) OR ucast val"

definition alloc_deptbl_node_body :: "u32 \<Rightarrow> hh \<Rightarrow> u32 \<Rightarrow> ((hh_error + u32) \<times> hh) + u32" where
  "alloc_deptbl_node_body val s slot0 =
     (let list_node = \<lparr>e_key = tagged val TAG_VAL, e_next = tagged (NOT 0) TAG_NEXT\<rparr>;
          slot = ucast ((ucast slot0 :: u64) AND (dep_size s - 1))
      in if dep_cell s (unat slot) = 0
         then Inl (Inr slot, set_dep_cell (unat slot) (raw list_node) s)
         else Inr (slot + 1))"

definition alloc_deptbl_node :: "u32 \<Rightarrow> u32 \<Rightarrow> u32 hh_op" where
  "alloc_deptbl_node key val s =
     (let start_hint = hash_uint64 (pack key val)
      in while1 (alloc_deptbl_node_body val s) (ucast start_hint))"

definition prepend_body :: "u32 \<Rightarrow> u32 \<Rightarrow> hh \<Rightarrow> u64 \<Rightarrow> ((hh_error + unit) \<times> hh) option + u64" where
  "prepend_body key val s slot0 =
     (let slot = slot0 AND (dep_size s - 1);
          slotval = entry_of_raw (dep_cell s (unat slot))
      in
      if dep_cell s (unat slot) = 0 then
        Inl (Some (Inr (), set_dep_cell (unat slot)
               (raw \<lparr>e_key = tagged key TAG_KEY, e_next = tagged val TAG_VAL\<rparr>) s))
      else if t_num (e_key slotval) = key \<and> t_tag (e_key slotval) = TAG_KEY then
        Inl (op_bind (alloc_deptbl_node key val) (\<lambda>list_slot s.
               let node = entry_of_raw (dep_cell s (unat list_slot));
                   s1 = set_dep_cell (unat list_slot) (raw (node\<lparr>e_next := e_next slotval\<rparr>)) s
               in Some (Inr (), set_dep_cell (unat slot)
                    (raw \<lparr>e_key = tagged key TAG_KEY, e_next = tagged list_slot TAG_NEXT\<rparr>) s1)) s)
      else Inr (slot + 1))"

definition prepend_to_deptbl_list :: "u32 \<Rightarrow> u32 \<Rightarrow> unit hh_op" where
  "prepend_to_deptbl_list key val s =
     Option.bind (while1 (prepend_body key val s) (hash_uint64 (ucast key))) (\<lambda>r. r)"

definition add_dep :: "u32 \<Rightarrow> u32 \<Rightarrow> unit hh_op" where
  "add_dep key val =
     op_seq (c_assert 931 (\<lambda>_. key < 0x80000000 \<and> val < 0x80000000))
    (op_bind (add_binding (pack key val)) (\<lambda>new.
       if new then prepend_to_deptbl_list key val else ret ()))"

definition hh_add_dep :: "ocaml_value \<Rightarrow> unit hh_op" where
  "hh_add_dep ocaml_dep =
     (let dep = Long_val ocaml_dep in add_dep (ucast (drop_bit 31 dep)) (ucast (dep AND 0x7FFFFFFF)))"

definition hh_dep_used_slots :: "ocaml_value hh_op" where
  "hh_dep_used_slots = gets (\<lambda>s.
     Val_long (fold (\<lambda>slot count. if dep_cell s slot \<noteq> 0 then count + 1 else count)
                 [0..<dep_slots s] 0))"

text \<open>The inner loop of \<open>hh_get_dep\<close>: follow the list from an entry, consing the values.\<close>

definition walk_body ::
  "hh \<Rightarrow> deptbl_entry_t \<times> ocaml_value list \<Rightarrow> (hh_error + ocaml_value list) + (deptbl_entry_t \<times> ocaml_value list)" where
  "walk_body s = (\<lambda>(slotval, result).
     if t_tag (e_next slotval) = TAG_NEXT then
       (if ucast (t_num (e_next slotval)) < dep_size s then
          let slotval' = entry_of_raw (dep_cell s (unat (t_num (e_next slotval))))
          in Inr (slotval', Val_long (ucast (t_num (e_key slotval'))) # result)
        else Inl (Inl (C_assertion_failure (LOCATION HH_SHARED_C 990))))
     else Inl (Inr (Val_long (ucast (t_num (e_next slotval))) # result)))"

definition get_dep_body :: "u32 \<Rightarrow> hh \<Rightarrow> u64 \<Rightarrow> (hh_error + ocaml_value list) option + u64" where
  "get_dep_body key s slot0 =
     (let slot = slot0 AND (dep_size s - 1);
          slotval = entry_of_raw (dep_cell s (unat slot))
      in
      if dep_cell s (unat slot) = 0 then Inl (Some (Inr []))
      else if t_num (e_key slotval) = key \<and> t_tag (e_key slotval) = TAG_KEY then
        Inl (while1 (walk_body s) (slotval, []))
      else Inr (slot + 1))"

definition hh_get_dep :: "ocaml_value \<Rightarrow> ocaml_value list hh_op" where
  "hh_get_dep ocaml_key =
     (let key64 = Long_val ocaml_key; key = (ucast key64 :: u32) in
      op_seq (c_assert 972 (\<lambda>_. ucast (key AND 0x7FFFFFFF) = key64))
      (\<lambda>s. Option.bind (while1 (get_dep_body key s) (hash_uint64 (ucast key)))
             (map_option (\<lambda>r. (r, s)))))"

abbreviation num31 :: "u32 \<Rightarrow> bool" where "num31 x \<equiv> take_bit 31 x = x"

lemma num31_iff: "num31 x \<longleftrightarrow> x < 0x80000000"
proof -
  have "num31 x \<longleftrightarrow> unat (take_bit 31 x) = unat x" by (simp add: word_eq_iff_unsigned)
  also have "\<dots> \<longleftrightarrow> unat x < 2 ^ 31" by (simp only: unsigned_take_bit_eq take_bit_nat_eq_self_iff)
  finally show ?thesis by (simp add: word_less_nat_alt)
qed

lemma tagged_of_bits_inverse [simp]: "num31 (t_num t) \<Longrightarrow> tagged_of_bits (tagged_bits t) = t"
proof -
  assume n: "num31 (t_num t)"
  have "take_bit 31 (tagged_bits t) = take_bit 31 (t_num t)"
    by (rule bit_word_eqI) (auto simp: tagged_bits_def bit_simps)
  moreover have "bit (tagged_bits t) 31 = t_tag t"
    by (auto simp: tagged_bits_def bit_simps)
  ultimately show ?thesis using n by (simp add: tagged_of_bits_def)
qed

lemma tagged_bits_inverse [simp]: "tagged_bits (tagged_of_bits w) = w"
proof (rule bit_word_eqI)
  fix n assume "n < LENGTH(32)"
  then have "n < 31 \<or> n = 31" by auto
  then show "bit (tagged_bits (tagged_of_bits w)) n = bit w n"
    by (auto simp: tagged_bits_def tagged_of_bits_def bit_simps)
qed

definition entry31 :: "deptbl_entry_t \<Rightarrow> bool" where
  "entry31 e \<longleftrightarrow> num31 (t_num (e_key e)) \<and> num31 (t_num (e_next e))"

lemma ucast_raw:
  "ucast (raw e) = tagged_bits (e_key e)" "ucast (drop_bit 32 (raw e)) = tagged_bits (e_next e)"
  by (rule bit_word_eqI; auto simp: raw_def bit_simps dest: bit_imp_le_length)+

lemma entry_of_raw_inverse [simp]: "entry31 e \<Longrightarrow> entry_of_raw (raw e) = e"
  by (simp add: entry_of_raw_def ucast_raw entry31_def)

lemma raw_inverse [simp]: "raw (entry_of_raw w) = w"
  by (rule bit_word_eqI) (auto simp: raw_def entry_of_raw_def bit_simps)

lemma entry31_of_raw [simp]: "entry31 (entry_of_raw w)"
  by (simp add: entry31_def entry_of_raw_def tagged_of_bits_def)

lemma raw_inj: "entry31 e \<Longrightarrow> entry31 e' \<Longrightarrow> raw e = raw e' \<longleftrightarrow> e = e'"
  by (metis entry_of_raw_inverse)

lemma entry_of_raw_0: "entry_of_raw 0 = \<lparr>e_key = \<lparr>t_num = 0, t_tag = False\<rparr>, e_next = \<lparr>t_num = 0, t_tag = False\<rparr>\<rparr>"
  by (simp add: entry_of_raw_def tagged_of_bits_def)

lemma raw_eq_0_iff:
  assumes "entry31 e"
  shows "raw e = 0 \<longleftrightarrow>
     t_num (e_key e) = 0 \<and> \<not> t_tag (e_key e) \<and> t_num (e_next e) = 0 \<and> \<not> t_tag (e_next e)"
proof -
  have "raw e = 0 \<longleftrightarrow> raw e = raw (entry_of_raw 0)" by simp
  also have "\<dots> \<longleftrightarrow> e = entry_of_raw 0" using assms by (rule raw_inj) simp
  finally show ?thesis by (auto simp: entry_of_raw_0)
qed

lemma pack_fields:
  assumes "v < 0x80000000"
  shows "ucast (drop_bit 31 (pack k v)) = k" and "ucast (pack k v AND 0x7FFFFFFF) = v"
proof -
  have v: "num31 v" using assms by (simp add: num31_iff)
  have hi: "\<not> bit v n" if "31 \<le> n" for n using v that by (metis bit_take_bit_iff leD)
  show "ucast (drop_bit 31 (pack k v)) = k"
    by (rule bit_word_eqI) (auto simp: pack_def bit_simps hi)
  show "ucast (pack k v AND 0x7FFFFFFF) = v"
    unfolding mask_31 by (rule bit_word_eqI) (auto simp: pack_def bit_simps hi not_less intro: ccontr)
qed

lemma pack_inj: "v < 0x80000000 \<Longrightarrow> v' < 0x80000000 \<Longrightarrow> pack k v = pack k' v' \<longleftrightarrow> k = k' \<and> v = v'"
  by (metis pack_fields)

lemma pack_eq_0_iff: "v < 0x80000000 \<Longrightarrow> pack k v = 0 \<longleftrightarrow> k = 0 \<and> v = 0"
  using pack_inj [of v 0 k 0] by (simp add: pack_def)

interpretation bnd: linear_probing "2 ^ d" "\<lambda>b. unat (hash_uint64 b) mod 2 ^ d" for d
  by unfold_locales simp_all

interpretation dpt: linear_probing "2 ^ d" "\<lambda>k. unat (hash_uint64 (ucast (k::u32))) mod 2 ^ d" for d
  by unfold_locales simp_all

interpretation alc: linear_probing "2 ^ d" "\<lambda>h. unat (h::u64) mod 2 ^ d" for d
  by unfold_locales simp_all

definition bnd_view :: "hh \<Rightarrow> nat \<Rightarrow> u64 slot_view" where
  "bnd_view s i = (if binding s i = 0 then Free else Keyed (binding s i))"

definition slot_of_cell :: "u64 \<Rightarrow> u32 slot_view" where
  "slot_of_cell c =
     (if c = 0 then Free
      else if t_tag (e_key (entry_of_raw c)) = TAG_KEY then Keyed (t_num (e_key (entry_of_raw c)))
      else Opaque)"

definition dep_view :: "hh \<Rightarrow> nat \<Rightarrow> u32 slot_view" where
  "dep_view s i = slot_of_cell (dep_cell s i)"

inductive chain :: "(nat \<Rightarrow> u64) \<Rightarrow> nat \<Rightarrow> tagged_uint_t \<Rightarrow> u32 list \<Rightarrow> bool"
  for c :: "nat \<Rightarrow> u64" and n :: nat where
  chain_last: "t_tag t = TAG_VAL \<Longrightarrow> chain c n t [t_num t]"
| chain_node: "t_tag t = TAG_NEXT \<Longrightarrow> unat (t_num t) < n
     \<Longrightarrow> slot_of_cell (c (unat (t_num t))) = Opaque
     \<Longrightarrow> chain c n (e_next (entry_of_raw (c (unat (t_num t))))) vs
     \<Longrightarrow> chain c n t (t_num (e_key (entry_of_raw (c (unat (t_num t))))) # vs)"

definition edge31 :: "u32 \<times> u32 \<Rightarrow> bool" where
  "edge31 e \<longleftrightarrow> fst e < 0x80000000 \<and> snd e < 0x80000000 \<and> e \<noteq> (0, 0)"

definition sized :: "nat \<Rightarrow> hh \<Rightarrow> bool" where
  "sized d s \<longleftrightarrow> layout s \<and> d \<le> 31 \<and> dep_size s = 2 ^ d"

definition bindings_rel :: "nat \<Rightarrow> hh \<Rightarrow> (u32 \<times> u32) set \<Rightarrow> bool" where
  "bindings_rel d s E \<longleftrightarrow>
     bnd.searchable d (bnd_view s)
   \<and> card {i. i < 2 ^ d \<and> binding s i \<noteq> 0} = unat (dcounter s)
   \<and> (\<forall>k v. (k, v) \<in> E \<longrightarrow> edge31 (k, v) \<and> (\<exists>i<2 ^ d. binding s i = pack k v))
   \<and> (\<forall>i<2 ^ d. binding s i \<noteq> 0 \<longrightarrow> (\<exists>k v. (k, v) \<in> E \<and> binding s i = pack k v))"

definition lists_rel :: "nat \<Rightarrow> hh \<Rightarrow> (u32 \<times> u32) set \<Rightarrow> bool" where
  "lists_rel d s E \<longleftrightarrow>
     dpt.searchable d (dep_view s)
   \<and> (\<forall>i<2 ^ d. \<forall>k. dep_view s i = Keyed k \<longrightarrow>
        (\<exists>vs. chain (dep_cell s) (2 ^ d) (e_next (entry_of_raw (dep_cell s i))) vs
            \<and> distinct vs \<and> set vs = {v. (k, v) \<in> E}))
   \<and> (\<forall>k v. (k, v) \<in> E \<longrightarrow> (\<exists>i<2 ^ d. dep_view s i = Keyed k))"

definition dep_rel :: "nat \<Rightarrow> hh \<Rightarrow> (u32 \<times> u32) set \<Rightarrow> bool" where
  "dep_rel d s E \<longleftrightarrow> sized d s \<and> bindings_rel d s E \<and> lists_rel d s E
     \<and> card {i. i < 2 ^ d \<and> dep_cell s i \<noteq> 0} = unat (dcounter s)"

lemma sizedD: "sized d s \<Longrightarrow> layout s" "sized d s \<Longrightarrow> d \<le> 31" "sized d s \<Longrightarrow> dep_size s = 2 ^ d"
  "sized d s \<Longrightarrow> dep_slots s = 2 ^ d"
  by (auto simp: sized_def unat_pow2)

lemma sized_upd [simp]: "sized d (set_dep_cell i v s) = sized d s" "sized d (set_binding i v s) = sized d s"
  "sized d (s\<lparr>dcounter := c\<rparr>) = sized d s"
  by (simp_all add: sized_def)

subsection \<open>add_binding\<close>

lemma add_binding_stop:
  assumes s: "sized d s" and b: "b \<noteq> 0" and room: "dcounter s < dep_size s"
    and p: "bnd.first_stop d (bnd_view s) b p"
  shows "add_binding b s =
     (if binding s p = b then Some (Inr False, s)
      else Some (Inr True, (set_binding p b s)\<lparr>dcounter := dcounter s + 1\<rparr>))"
proof -
  note D = sizedD [OF s]
  let ?body = "add_binding_body b s"
  obtain y where y: "unat y = p"
    "while1 ?body (hash_uint64 b AND (dep_size s - 1)) = while1 ?body y"
  proof (atomize_elim, rule bnd.probe_loop [OF _ _ _ p, where nxt = "\<lambda>x. (x + 1) AND (dep_size s - 1)"])
    show "unat (hash_uint64 b AND (dep_size s - 1)) = unat (hash_uint64 b) mod 2 ^ d"
      using D(2) by (simp add: D(3) unat_and_mask)
    show "unat ((x + 1) AND (dep_size s - 1)) = (unat x + 1) mod 2 ^ d" for x
      using D(2) by (simp add: D(3) unat_and_mask_Suc)
    show "?body x = Inr ((x + 1) AND (dep_size s - 1))" if "\<not> bnd.stop (bnd_view s) b (unat x)" for x
      using that room by (auto simp: add_binding_body_def bnd.stop_def bnd_view_def Let_def split: if_splits)
  qed
  have stop: "binding s p = 0 \<or> binding s p = b"
    using bnd.first_stop_stop [OF p] by (auto simp: bnd.stop_def bnd_view_def split: if_splits)
  have "add_binding b s = while1 ?body y" unfolding add_binding_def by (rule y)
  also have "\<dots> = (if binding s p = b then Some (Inr False, s)
      else Some (Inr True, (set_binding p b s)\<lparr>dcounter := dcounter s + 1\<rparr>))"
    using stop y(1) b room by (auto simp: add_binding_body_def Let_def intro!: while1_Inl)
  finally show ?thesis .
qed

lemma room_free:
  assumes "dep_rel d s E" and "dcounter s < dep_size s"
  shows "\<exists>i<2 ^ d. binding s i = 0" and "\<exists>i<2 ^ d. dep_cell s i = 0"
proof -
  have "unat (dcounter s) < 2 ^ d"
    using assms sizedD(4) [of d s] by (simp add: word_less_nat_alt dep_rel_def)
  then show "\<exists>i<2 ^ d. binding s i = 0" and "\<exists>i<2 ^ d. dep_cell s i = 0"
    using assms(1) card_less_free [of "2 ^ d" "\<lambda>i. binding s i \<noteq> 0"]
      card_less_free [of "2 ^ d" "\<lambda>i. dep_cell s i \<noteq> 0"] by (auto simp: dep_rel_def bindings_rel_def)
qed

lemma bnd_view_set: "bnd_view (set_binding p b s) = (bnd_view s)(p := if b = 0 then Free else Keyed b)"
  by (auto simp: bnd_view_def)


lemma edge31_pack: "edge31 (k, v) \<Longrightarrow> pack k v \<noteq> 0"
  by (auto simp: edge31_def pack_eq_0_iff)

lemma binding_of_edge:
  "bindings_rel d s E \<Longrightarrow> (k, v) \<in> E \<Longrightarrow> \<exists>i<2 ^ d. bnd_view s i = Keyed (pack k v)"
  unfolding bindings_rel_def bnd_view_def by (metis edge31_pack)

lemma edge_of_binding:
  assumes "bindings_rel d s E" and "edge31 (k, v)" and "i < 2 ^ d" and "binding s i = pack k v"
  shows "(k, v) \<in> E"
proof -
  obtain k' v' where e: "(k', v') \<in> E" "pack k v = pack k' v'"
    using assms edge31_pack unfolding bindings_rel_def by metis
  then have "edge31 (k', v')" using assms(1) by (auto simp: bindings_rel_def)
  then show ?thesis using e assms(2) by (auto simp: edge31_def pack_inj)
qed

lemma add_binding_old:
  assumes R: "dep_rel d s E" and room: "dcounter s < dep_size s" and e: "(k, v) \<in> E"
  shows "add_binding (pack k v) s = Some (Inr False, s)"
proof -
  have B: "bindings_rel d s E" "sized d s" using R by (auto simp: dep_rel_def)
  obtain i where i: "i < 2 ^ d" "bnd_view s i = Keyed (pack k v)" using binding_of_edge B e by blast
  then have "bnd.first_stop d (bnd_view s) (pack k v) i"
    using B by (auto simp: bindings_rel_def bnd.searchable_def)
  moreover have "binding s i = pack k v" "pack k v \<noteq> 0"
    using i by (auto simp: bnd_view_def split: if_splits)
  ultimately show ?thesis using add_binding_stop B(2) room by simp
qed

text \<open>Writing the packed edge where its scan meets a free slot.\<close>

lemma bindings_insert:
  assumes B: "bindings_rel d s E" and e: "edge31 (k, v)" and p: "bnd.first_stop d (bnd_view s) (pack k v) p"
    and free: "binding s p = 0" and c: "unat c = Suc (unat (dcounter s))"
  shows "bindings_rel d ((set_binding p (pack k v) s)\<lparr>dcounter := c\<rparr>) (insert (k, v) E)" and "(k, v) \<notin> E"
proof -
  let ?b = "pack k v"
  let ?s = "(set_binding p ?b s)\<lparr>dcounter := c\<rparr>"
  have b: "?b \<noteq> 0" using e by (rule edge31_pack)
  have pn: "p < 2 ^ d" using p by (rule bnd.first_stop_less)
  have pfree: "bnd_view s p = Free" using free by (simp add: bnd_view_def)
  have "bnd_view s i \<noteq> Keyed ?b" if "i < 2 ^ d" for i
    using bnd.first_stop_absent [OF _ p pfree that] B by (simp add: bindings_rel_def)
  then show "(k, v) \<notin> E" using binding_of_edge [OF B] by blast
  have "bnd.searchable d ((bnd_view s)(p := Keyed ?b))"
    by (rule bnd.searchable_fill_key [OF _ p pfree]) (use B in \<open>simp add: bindings_rel_def\<close>)
  moreover have "bnd_view ?s = (bnd_view s)(p := Keyed ?b)"
    using b by (auto simp: bnd_view_def)
  moreover have "card {i. i < 2 ^ d \<and> binding ?s i \<noteq> 0} = Suc (card {i. i < 2 ^ d \<and> binding s i \<noteq> 0})"
    by (rule card_fill [of p]) (use pn free b in auto)
  moreover have "edge31 (k', v') \<and> (\<exists>i<2 ^ d. binding ?s i = pack k' v')"
    if kv: "(k', v') \<in> insert (k, v) E" for k' v'
  proof (cases "(k', v') = (k, v)")
    case False
    then obtain i where "i < 2 ^ d" "binding s i = pack k' v'" "edge31 (k', v')"
      using kv B unfolding bindings_rel_def by blast
    moreover have "i \<noteq> p" using calculation free edge31_pack by metis
    ultimately show ?thesis by auto
  qed (use e pn in auto)
  moreover have "\<exists>k' v'. (k', v') \<in> insert (k, v) E \<and> binding ?s i = pack k' v'"
    if "i < 2 ^ d" "binding ?s i \<noteq> 0" for i
    using that B unfolding bindings_rel_def by (cases "i = p") (auto, blast)
  ultimately show "bindings_rel d ?s (insert (k, v) E)"
    using B c unfolding bindings_rel_def by simp
qed

lemma add_binding_new:
  assumes R: "dep_rel d s E" and room: "dcounter s < dep_size s" and new: "(k, v) \<notin> E"
    and e: "edge31 (k, v)"
  shows "\<exists>p<2 ^ d. add_binding (pack k v) s
           = Some (Inr True, (set_binding p (pack k v) s)\<lparr>dcounter := dcounter s + 1\<rparr>)
       \<and> bindings_rel d ((set_binding p (pack k v) s)\<lparr>dcounter := dcounter s + 1\<rparr>) (insert (k, v) E)"
proof -
  have B: "bindings_rel d s E" "sized d s" using R by (auto simp: dep_rel_def)
  let ?b = "pack k v"
  have b: "?b \<noteq> 0" using e by (rule edge31_pack)
  obtain i where "i < 2 ^ d" "binding s i = 0" using room_free [OF R room] by auto
  then obtain p where p: "bnd.first_stop d (bnd_view s) ?b p"
    using bnd.first_stop_ex [of i d "bnd_view s" ?b] by (auto simp: bnd.stop_def bnd_view_def)
  have pn: "p < 2 ^ d" using p by (rule bnd.first_stop_less)
  have "binding s p \<noteq> ?b" using edge_of_binding [OF B(1) e pn] new by auto
  then have free: "binding s p = 0"
    using bnd.first_stop_stop [OF p] b by (auto simp: bnd.stop_def bnd_view_def split: if_splits)
  have "add_binding ?b s = Some (Inr True, (set_binding p ?b s)\<lparr>dcounter := dcounter s + 1\<rparr>)"
    using add_binding_stop [OF B(2) b room p] \<open>binding s p \<noteq> ?b\<close> by simp
  then show ?thesis using pn bindings_insert(1) [OF B(1) e p free unat_plus_1_less [OF room]] by blast
qed

lemma alloc_deptbl_node_spec:
  assumes s: "sized d s" and free: "\<exists>i<2 ^ d. dep_cell s i = 0"
  shows "\<exists>q. unat q < 2 ^ d \<and> dep_cell s (unat q) = 0 \<and> alloc_deptbl_node key val s =
     Some (Inr q, set_dep_cell (unat q)
            (raw \<lparr>e_key = tagged val TAG_VAL, e_next = tagged (NOT 0) TAG_NEXT\<rparr>) s)"
proof -
  note D = sizedD [OF s]
  let ?body = "alloc_deptbl_node_body val s" and ?h = "hash_uint64 (pack key val)"
  let ?v = "\<lambda>i. if dep_cell s i = 0 then Free else Opaque"
  let ?idx = "\<lambda>x::u32. ucast ((ucast x :: u64) AND (dep_size s - 1)) :: u32"
  have idx: "unat (?idx x) = unat x mod 2 ^ d" for x
    using D(2) by (simp add: D(3) unat_mask_32)
  obtain i where "i < 2 ^ d" "dep_cell s i = 0" using free by blast
  then obtain p where p: "alc.first_stop d ?v ?h p"
    using alc.first_stop_ex [of i d ?v ?h] by (auto simp: alc.stop_def)
  obtain y where y: "unat (?idx y) = p" "while1 ?body (ucast ?h) = while1 ?body y"
  proof (atomize_elim, rule alc.probe_loop [OF _ _ _ p, where nxt = "\<lambda>x. ?idx x + 1"])
    show "unat (?idx (ucast ?h)) = unat ?h mod 2 ^ d"
      using D(2) by (simp add: idx unat_ucast_32_mod)
    show "unat (?idx (?idx x + 1)) = (unat (?idx x) + 1) mod 2 ^ d" for x
      using D(2) unat_plus_1_mod(2) [of d "?idx x"] by (simp add: idx)
    show "?body x = Inr (?idx x + 1)" if "\<not> alc.stop ?v ?h (unat (?idx x))" for x
      using that by (auto simp: alloc_deptbl_node_body_def alc.stop_def Let_def split: if_splits)
  qed
  have cell: "dep_cell s (unat (?idx y)) = 0"
    using alc.first_stop_stop [OF p] y(1) by (auto simp: alc.stop_def split: if_splits)
  moreover have "unat (?idx y) < 2 ^ d" using y(1) alc.first_stop_less [OF p] by simp
  ultimately show ?thesis
    using y(2) by (intro exI [of _ "?idx y"])
      (auto simp: alloc_deptbl_node_def Let_def alloc_deptbl_node_body_def intro!: while1_Inl)
qed

lemma chain_cong:
  assumes "chain c n t vs" and "\<And>i. i < n \<Longrightarrow> slot_of_cell (c i) = Opaque \<Longrightarrow> c' i = c i"
  shows "chain c' n t vs"
  using assms
proof (induction rule: chain.induct)
  case (chain_last t)
  then show ?case by (simp add: chain.chain_last)
next
  case (chain_node t vs)
  then show ?case using chain.chain_node [of t n c' vs] by simp
qed

lemma walk_chain:
  assumes s: "sized d s" and "chain (dep_cell s) (2 ^ d) t vs"
  shows "e_next e = t \<Longrightarrow> while1 (walk_body s) (e, acc)
     = Some (Inr (map (\<lambda>v. Val_long (ucast v)) (rev vs) @ acc))"
  using assms(2)
proof (induction arbitrary: e acc rule: chain.induct)
  case (chain_last t)
  then show ?case by (intro while1_Inl) (simp add: walk_body_def TAG_VAL_def TAG_NEXT_def)
next
  case (chain_node t vs)
  have "ucast (t_num t) < dep_size s"
    using chain_node.hyps(2) sizedD(4) [OF s] by (simp add: word_less_nat_alt unat_ucast_64)
  then have "walk_body s (e, acc) = Inr (entry_of_raw (dep_cell s (unat (t_num t))),
       Val_long (ucast (t_num (e_key (entry_of_raw (dep_cell s (unat (t_num t))))))) # acc)"
    using chain_node.hyps(1) chain_node.prems by (simp add: walk_body_def Let_def)
  then show ?case using chain_node.IH by (simp add: while1_Inr)
qed

lemma t_num_tagged [simp]: "x < 0x80000000 \<Longrightarrow> t_num (tagged x t) = x" "t_tag (tagged x t) = t"
  by (simp_all add: tagged_def num31_iff)

lemma entry31_tagged [simp]: "entry31 \<lparr>e_key = tagged a s, e_next = tagged b t\<rparr>"
  by (simp add: entry31_def tagged_def)

lemma slot_of_cell_raw:
  "entry31 e \<Longrightarrow> t_tag (e_key e) = TAG_KEY \<Longrightarrow> slot_of_cell (raw e) = Keyed (t_num (e_key e))"
  "entry31 e \<Longrightarrow> t_tag (e_key e) = TAG_VAL \<Longrightarrow> raw e \<noteq> 0 \<Longrightarrow> slot_of_cell (raw e) = Opaque"
  by (auto simp: slot_of_cell_def raw_eq_0_iff TAG_KEY_def TAG_VAL_def)

lemma dep_view_set: "dep_view (set_dep_cell p c s) = (dep_view s)(p := slot_of_cell c)"
  by (auto simp: dep_view_def)

lemma dpt_probe:
  assumes s: "sized d s" and p: "dpt.first_stop d (dep_view s) key p"
    and go: "\<And>x. \<not> dpt.stop (dep_view s) key (unat (x AND (dep_size s - 1)))
                \<Longrightarrow> body x = Inr ((x AND (dep_size s - 1)) + 1)"
  shows "\<exists>y. unat (y AND (dep_size s - 1)) = p \<and> while1 body (hash_uint64 (ucast key)) = while1 body y"
proof (rule dpt.probe_loop [OF _ _ _ p, where nxt = "\<lambda>x. (x AND (dep_size s - 1)) + 1"])
  note D = sizedD [OF s]
  have idx: "unat (x AND (dep_size s - 1)) = unat x mod 2 ^ d" for x
    using D(2) by (simp add: D(3) unat_and_mask)
  show "unat (hash_uint64 (ucast key) AND (dep_size s - 1)) = unat (hash_uint64 (ucast key)) mod 2 ^ d"
    by (rule idx)
  show "unat (((x AND (dep_size s - 1)) + 1) AND (dep_size s - 1)) = (unat (x AND (dep_size s - 1)) + 1) mod 2 ^ d" for x
    using D(2) unat_plus_1_mod(1) [of d "x AND (dep_size s - 1)"] by (simp add: idx)
qed (use go in simp)

lemma not_stop_iff:
  "\<not> dpt.stop (dep_view s) key i \<longleftrightarrow> dep_cell s i \<noteq> 0 \<and>
     \<not> (t_num (e_key (entry_of_raw (dep_cell s i))) = key \<and> t_tag (e_key (entry_of_raw (dep_cell s i))) = TAG_KEY)"
  by (auto simp: dpt.stop_def dep_view_def slot_of_cell_def)

lemma prepend_run:
  assumes "sized d s" and "dpt.first_stop d (dep_view s) key p"
  shows "prepend_to_deptbl_list key val s =
     (if dep_cell s p = 0
      then Some (Inr (), set_dep_cell p (raw \<lparr>e_key = tagged key TAG_KEY, e_next = tagged val TAG_VAL\<rparr>) s)
      else op_bind (alloc_deptbl_node key val) (\<lambda>list_slot s'.
             let node = entry_of_raw (dep_cell s' (unat list_slot));
                 s1 = set_dep_cell (unat list_slot) (raw (node\<lparr>e_next := e_next (entry_of_raw (dep_cell s p))\<rparr>)) s'
             in Some (Inr (), set_dep_cell p
                  (raw \<lparr>e_key = tagged key TAG_KEY, e_next = tagged list_slot TAG_NEXT\<rparr>) s1)) s)"
proof -
  obtain y where y: "unat (y AND (dep_size s - 1)) = p"
    "while1 (prepend_body key val s) (hash_uint64 (ucast key)) = while1 (prepend_body key val s) y"
  proof (atomize_elim, rule dpt_probe [OF assms])
    show "prepend_body key val s x = Inr ((x AND (dep_size s - 1)) + 1)"
      if "\<not> dpt.stop (dep_view s) key (unat (x AND (dep_size s - 1)))" for x
      using that unfolding not_stop_iff prepend_body_def Let_def by (metis (full_types))
  qed
  have "dpt.stop (dep_view s) key p" using assms(2) by (rule dpt.first_stop_stop)
  then have "\<exists>r. prepend_body key val s y = Inl r"
    using y(1) not_stop_iff [of s key p] by (auto simp: prepend_body_def Let_def)
  then show ?thesis using y
    by (auto simp: prepend_to_deptbl_list_def while1_Inl) (auto simp: prepend_body_def Let_def split: if_splits)
qed

lemma lists_rel_chain:
  assumes "lists_rel d s E" and "i < 2 ^ d" and "dep_view s i = Keyed k"
  obtains vs where "chain (dep_cell s) (2 ^ d) (e_next (entry_of_raw (dep_cell s i))) vs"
    and "distinct vs" and "set vs = {v. (k, v) \<in> E}"
  using assms unfolding lists_rel_def by blast

text \<open>While several processes insert, some slots hold nodes that are not linked yet. \<open>lists_over\<close> is \<open>lists_rel\<close> with
  lists that avoid a set of such slots.\<close>

definition hidden :: "nat set \<Rightarrow> (nat \<Rightarrow> u64) \<Rightarrow> nat \<Rightarrow> u64" where
  "hidden P c i = (if i \<in> P then 0 else c i)"

definition lists_over :: "nat \<Rightarrow> nat set \<Rightarrow> hh \<Rightarrow> (u32 \<times> u32) set \<Rightarrow> bool" where
  "lists_over d P s E \<longleftrightarrow>
     dpt.searchable d (dep_view s)
   \<and> (\<forall>i<2 ^ d. \<forall>k. dep_view s i = Keyed k \<longrightarrow>
        (\<exists>vs. chain (hidden P (dep_cell s)) (2 ^ d) (e_next (entry_of_raw (dep_cell s i))) vs
            \<and> distinct vs \<and> set vs = {v. (k, v) \<in> E}))
   \<and> (\<forall>k v. (k, v) \<in> E \<longrightarrow> (\<exists>i<2 ^ d. dep_view s i = Keyed k))"

lemma lists_over_empty: "lists_over d {} s E = lists_rel d s E"
  by (simp add: lists_over_def lists_rel_def hidden_def [abs_def])

lemma lists_over_chain:
  assumes "lists_over d P s E" and "i < 2 ^ d" and "dep_view s i = Keyed k"
  obtains vs where "chain (hidden P (dep_cell s)) (2 ^ d) (e_next (entry_of_raw (dep_cell s i))) vs"
    and "distinct vs" and "set vs = {v. (k, v) \<in> E}"
  using assms unfolding lists_over_def by blast

lemma opaque_nonzero: "slot_of_cell x = Opaque \<Longrightarrow> x \<noteq> 0"
  by (auto simp: slot_of_cell_def)

text \<open>A new head in the free slot where the scan for its key ends.\<close>

lemma lists_over_head:
  assumes L: "lists_over d P s E" and p: "dpt.first_stop d (dep_view s) k p"
    and free: "dep_cell s p = 0" and kv: "k < 0x80000000" "v < 0x80000000"
  shows "lists_over d P (set_dep_cell p (raw \<lparr>e_key = tagged k TAG_KEY, e_next = tagged v TAG_VAL\<rparr>) s) (insert (k, v) E)"
    (is "lists_over d P ?s _")
proof -
  have pn: "p < 2 ^ d" using p by (rule dpt.first_stop_less)
  have pfree: "dep_view s p = Free" using free by (simp add: dep_view_def slot_of_cell_def)
  have view: "dep_view ?s = (dep_view s)(p := Keyed k)"
    using kv by (simp add: dep_view_set slot_of_cell_raw)
  have absent: "(k, w) \<notin> E" for w
    using dpt.first_stop_absent [OF _ p pfree] L unfolding lists_over_def by blast
  have "dpt.searchable d (dep_view ?s)"
    unfolding view using dpt.searchable_fill_key [OF _ p pfree] L by (simp add: lists_over_def)
  moreover have "\<exists>vs. chain (hidden P (dep_cell ?s)) (2 ^ d) (e_next (entry_of_raw (dep_cell ?s i))) vs
       \<and> distinct vs \<and> set vs = {w. (k', w) \<in> insert (k, v) E}"
    if i: "i < 2 ^ d" "dep_view ?s i = Keyed k'" for i k'
  proof (cases "i = p")
    case True
    then have "k' = k" using i view by simp
    moreover have "chain (hidden P (dep_cell ?s)) (2 ^ d) (tagged v TAG_VAL) [v]"
      using chain.chain_last [of "tagged v TAG_VAL"] kv by simp
    ultimately show ?thesis using True absent by (intro exI [of _ "[v]"]) auto
  next
    case False
    then have at: "dep_view s i = Keyed k'" using i view by simp
    then obtain vs where vs: "chain (hidden P (dep_cell s)) (2 ^ d) (e_next (entry_of_raw (dep_cell s i))) vs"
      "distinct vs" "set vs = {w. (k', w) \<in> E}" using lists_over_chain [OF L i(1)] by blast
    have "k' \<noteq> k"
      using dpt.first_stop_absent [OF _ p pfree i(1)] L at by (auto simp: lists_over_def)
    moreover have "chain (hidden P (dep_cell ?s)) (2 ^ d) (e_next (entry_of_raw (dep_cell s i))) vs"
      by (rule chain_cong [OF vs(1)]) (use free in \<open>auto simp: slot_of_cell_def hidden_def\<close>)
    ultimately show ?thesis using False vs(2,3) by auto
  qed
  moreover have "\<exists>i<2 ^ d. dep_view ?s i = Keyed k'" if "(k', w) \<in> insert (k, v) E" for k' w
    using that L pfree pn unfolding view lists_over_def by (metis Pair_inject fun_upd_apply insertE slot_view.distinct(1))
  ultimately show ?thesis unfolding lists_over_def by blast
qed

text \<open>A node is put into a free slot, where no list reaches it; it may be written there; then a head is
  made to point to it.\<close>

lemma lists_over_keep:
  assumes L: "lists_over d P s E" and view: "\<And>i k. dep_view s' i = Keyed k \<longleftrightarrow> dep_view s i = Keyed k"
    and srch: "dpt.searchable d (dep_view s) \<Longrightarrow> dpt.searchable d (dep_view s')"
    and head: "\<And>i k. dep_view s i = Keyed k \<Longrightarrow> dep_cell s' i = dep_cell s i"
    and hid: "hidden P' (dep_cell s') = hidden P (dep_cell s)"
  shows "lists_over d P' s' E"
proof -
  have "\<exists>vs. chain (hidden P (dep_cell s)) (2 ^ d) (e_next (entry_of_raw (dep_cell s' i))) vs
       \<and> distinct vs \<and> set vs = {w. (k, w) \<in> E}" if "i < 2 ^ d" "dep_view s i = Keyed k" for i k
    using lists_over_chain [OF L that] head [OF that(2)] by metis
  then show ?thesis using L srch unfolding lists_over_def hid view by blast
qed

lemma lists_over_claim:
  assumes L: "lists_over d P s E" and free: "dep_cell s q = 0" and x: "slot_of_cell x = Opaque"
  shows "lists_over d (insert q P) (set_dep_cell q x s) E"
proof (rule lists_over_keep [OF L])
  have qfree: "dep_view s q = Free" using free by (simp add: dep_view_def slot_of_cell_def)
  have view: "dep_view (set_dep_cell q x s) = (dep_view s)(q := Opaque)" by (simp add: dep_view_set x)
  show "dep_view (set_dep_cell q x s) i = Keyed k \<longleftrightarrow> dep_view s i = Keyed k" for i k using qfree by (simp add: view)
  show "dpt.searchable d (dep_view (set_dep_cell q x s))" if "dpt.searchable d (dep_view s)"
    unfolding view using that qfree by (rule dpt.searchable_fill_opaque)
  show "dep_cell (set_dep_cell q x s) i = dep_cell s i" if "dep_view s i = Keyed k" for i k using that qfree by auto
  show "hidden (insert q P) (dep_cell (set_dep_cell q x s)) = hidden P (dep_cell s)" using free by (auto simp: hidden_def fun_eq_iff)
qed

lemma lists_over_write:
  assumes L: "lists_over d P s E" and q: "q \<in> P" and old: "slot_of_cell (dep_cell s q) = Opaque" and x: "slot_of_cell x = Opaque"
  shows "lists_over d P (set_dep_cell q x s) E"
proof (rule lists_over_keep [OF L])
  have view: "dep_view (set_dep_cell q x s) = dep_view s" using old x by (auto simp: dep_view_def)
  show "dep_view (set_dep_cell q x s) i = Keyed k \<longleftrightarrow> dep_view s i = Keyed k" for i k by (simp add: view)
  show "dpt.searchable d (dep_view (set_dep_cell q x s))" if "dpt.searchable d (dep_view s)" using that by (simp add: view)
  show "dep_cell (set_dep_cell q x s) i = dep_cell s i" if "dep_view s i = Keyed k" for i k using that old by (auto simp: dep_view_def)
  show "hidden P (dep_cell (set_dep_cell q x s)) = hidden P (dep_cell s)" using q by (auto simp: hidden_def fun_eq_iff)
qed

lemma slot_q31: "sized d s \<Longrightarrow> unat (q::u32) < 2 ^ d \<Longrightarrow> q < 0x80000000"
proof -
  assume "sized d s" and q: "unat q < 2 ^ d"
  then have "d \<le> 31" by (simp add: sized_def)
  then have "(2::nat) ^ d \<le> 2 ^ 31" by (rule power_increasing) simp
  then show ?thesis using q by (simp add: word_less_nat_alt)
qed

lemma lists_over_swing:
  assumes s: "sized d s" and L: "lists_over d P s E" and pn: "p < 2 ^ d" and head: "dep_view s p = Keyed k"
    and kv: "k < 0x80000000" "v < 0x80000000" and new: "(k, v) \<notin> E" and q: "unat q < 2 ^ d"
    and t: "dep_cell s (unat q) = raw \<lparr>e_key = tagged v TAG_VAL, e_next = e_next (entry_of_raw (dep_cell s p))\<rparr>"
    and nz: "dep_cell s (unat q) \<noteq> 0" and qP: "unat q \<in> P" and pP: "p \<notin> P"
  shows "lists_over d (P - {unat q}) (set_dep_cell p (raw \<lparr>e_key = tagged k TAG_KEY, e_next = tagged q TAG_NEXT\<rparr>) s) (insert (k, v) E)"
    (is "lists_over d ?P ?s _")
proof -
  let ?t = "\<lparr>e_key = tagged v TAG_VAL, e_next = e_next (entry_of_raw (dep_cell s p))\<rparr>" and ?c = "hidden ?P (dep_cell ?s)"
  obtain vs where vs: "chain (hidden P (dep_cell s)) (2 ^ d) (e_next (entry_of_raw (dep_cell s p))) vs"
    "distinct vs" "set vs = {w. (k, w) \<in> E}" using lists_over_chain [OF L pn head] by blast
  have t31: "entry31 ?t" using entry31_of_raw [of "dep_cell s p"] unfolding entry31_def by (simp add: tagged_def)
  have opq: "slot_of_cell (dep_cell s (unat q)) = Opaque" using nz t31 unfolding t by (simp add: slot_of_cell_raw)
  have pq: "p \<noteq> unat q" using qP pP by auto
  then have cq: "?c (unat q) = raw ?t" by (simp add: hidden_def t)
  have view: "dep_view ?s = dep_view s" using head kv by (auto simp: dep_view_set slot_of_cell_raw fun_eq_iff)
  have cong: "chain ?c (2 ^ d) x ws" if "chain (hidden P (dep_cell s)) (2 ^ d) x ws" for x ws
    using that
  proof (rule chain_cong)
    fix i assume o: "slot_of_cell (hidden P (dep_cell s) i) = Opaque"
    then have "i \<notin> P" using opaque_nonzero [OF o] by (auto simp: hidden_def)
    moreover have "i \<noteq> p" using o head pP by (auto simp: dep_view_def hidden_def)
    ultimately show "?c i = hidden P (dep_cell s) i" by (simp add: hidden_def)
  qed
  have "\<exists>vs. chain ?c (2 ^ d) (e_next (entry_of_raw (dep_cell ?s i))) vs
       \<and> distinct vs \<and> set vs = {w. (k', w) \<in> insert (k, v) E}"
    if i: "i < 2 ^ d" "dep_view s i = Keyed k'" for i k'
  proof (cases "i = p")
    case True
    then have "k' = k" using i head by simp
    have "chain ?c (2 ^ d) (tagged q TAG_NEXT) (v # vs)"
      using chain.chain_node [of "tagged q TAG_NEXT" "2 ^ d" ?c vs] cong [OF vs(1)] q slot_q31 [OF s q] cq t31 kv opq
      by (simp add: t)
    then show ?thesis using True vs(2,3) new \<open>k' = k\<close> by (intro exI [of _ "v # vs"]) auto
  next
    case False
    obtain ws where ws: "chain (hidden P (dep_cell s)) (2 ^ d) (e_next (entry_of_raw (dep_cell s i))) ws"
      "distinct ws" "set ws = {w. (k', w) \<in> E}" using lists_over_chain [OF L i] by blast
    have "k' \<noteq> k" using dpt.searchable_unique [of d "dep_view s" i p k] i pn L head False by (auto simp: lists_over_def)
    then show ?thesis using cong [OF ws(1)] ws(2,3) False by auto
  qed
  moreover have "\<exists>i<2 ^ d. dep_view s i = Keyed k'" if "(k', w) \<in> insert (k, v) E" for k' w
    using that head pn L unfolding lists_over_def by (cases "(k', w) = (k, v)") auto
  ultimately show ?thesis using L unfolding lists_over_def view by blast
qed

text \<open>The node in front of a list is not the all-zero slot: its value is not in the list.\<close>

lemma node_nonzero:
  assumes "entry31 \<lparr>e_key = tagged v TAG_VAL, e_next = x\<rparr>" and "v < 0x80000000" and "t_tag x = TAG_VAL \<Longrightarrow> t_num x \<noteq> v"
  shows "raw \<lparr>e_key = tagged v TAG_VAL, e_next = x\<rparr> \<noteq> 0"
  using assms raw_eq_0_iff [OF assms(1)] by (auto simp: TAG_VAL_def)

lemma lists_over_last:
  assumes "lists_over d P s E" and "p < 2 ^ d" and "dep_view s p = Keyed k" and "t_tag (e_next (entry_of_raw (dep_cell s p))) = TAG_VAL"
  shows "(k, t_num (e_next (entry_of_raw (dep_cell s p)))) \<in> E"
proof -
  let ?x = "e_next (entry_of_raw (dep_cell s p))"
  obtain vs where c: "chain (hidden P (dep_cell s)) (2 ^ d) ?x vs" and "distinct vs" and vs: "set vs = {w. (k, w) \<in> E}"
    by (rule lists_over_chain [OF assms(1-3)])
  have "vs = [t_num ?x]" using c assms(4) by (cases rule: chain.cases) (simp_all add: TAG_VAL_def TAG_NEXT_def)
  then have "t_num ?x \<in> set vs" by simp
  then show ?thesis unfolding vs by simp
qed

lemma lists_rel_set_head:
  assumes "lists_rel d s E" and "dpt.first_stop d (dep_view s) k p" and "dep_cell s p = 0" and "k < 0x80000000" "v < 0x80000000"
  shows "lists_rel d (set_dep_cell p (raw \<lparr>e_key = tagged k TAG_KEY, e_next = tagged v TAG_VAL\<rparr>) s) (insert (k, v) E)"
  using lists_over_head [OF _ assms(2-5), of "{}"] assms(1) by (simp add: lists_over_empty)

lemma lists_rel_set_node:
  assumes s: "sized d s" and L: "lists_rel d s E" and pn: "p < 2 ^ d"
    and head: "dep_view s p = Keyed k" and kv: "k < 0x80000000" "v < 0x80000000" and new: "(k, v) \<notin> E"
    and q: "unat q < 2 ^ d" "dep_cell s (unat q) = 0"
    and t: "t = \<lparr>e_key = tagged v TAG_VAL, e_next = e_next (entry_of_raw (dep_cell s p))\<rparr>"
  shows "lists_rel d (set_dep_cell p (raw \<lparr>e_key = tagged k TAG_KEY, e_next = tagged q TAG_NEXT\<rparr>)
           (set_dep_cell (unat q) (raw t) s)) (insert (k, v) E)" (is "lists_rel d ?s _") and "raw t \<noteq> 0"
proof -
  have L0: "lists_over d {} s E" using L by (simp add: lists_over_empty)
  have t31: "entry31 t" using entry31_of_raw [of "dep_cell s p"] unfolding t entry31_def by (simp add: tagged_def)
  show nz: "raw t \<noteq> 0" using t31 lists_over_last [OF L0 pn head] new unfolding t by (intro node_nonzero kv) auto
  have pq: "p \<noteq> unat q" using head q by (auto simp: dep_view_def slot_of_cell_def)
  have "slot_of_cell (raw t) = Opaque" using slot_of_cell_raw(2) [OF t31 _ nz] by (simp add: t)
  then have "lists_over d {unat q} (set_dep_cell (unat q) (raw t) s) E" using lists_over_claim [OF L0 q(2)] by blast
  moreover have "dep_view (set_dep_cell (unat q) (raw t) s) p = Keyed k" using head pq by (simp add: dep_view_def)
  ultimately have "lists_over d ({unat q} - {unat q}) ?s (insert (k, v) E)"
    using s pn kv new q(1) pq nz by (intro lists_over_swing) (simp_all add: t)
  then show "lists_rel d ?s (insert (k, v) E)" by (simp add: lists_over_empty)
qed

text \<open>Only the bytes of the dependency table (\<open>deptbl\<close> and \<open>deptbl_bindings\<close>, which follow each other up to
  the hashtable) and its counter may change.\<close>

definition deps_only :: "hh \<Rightarrow> hh \<Rightarrow> bool" where
  "deps_only s s' \<longleftrightarrow> s' = s\<lparr>mem := mem s', dcounter := dcounter s'\<rparr>
   \<and> (\<forall>x. x < deptbl s \<or> hashtbl s \<le> x \<longrightarrow> mem s' x = mem s x)"

lemma deps_only_refl [simp]: "deps_only s s"
  by (simp add: deps_only_def)

lemma deps_only_trans:
  assumes "deps_only s s'" and "deps_only s' s''"
  shows "deps_only s s''"
proof -
  let ?f = "\<lambda>z. z\<lparr>mem := mem s'', dcounter := dcounter s''\<rparr>"
  have a: "s' = s\<lparr>mem := mem s', dcounter := dcounter s'\<rparr>" using assms(1) by (simp only: deps_only_def)
  have "s'' = ?f s'" using assms(2) by (simp only: deps_only_def)
  also have "\<dots> = ?f s" using arg_cong [OF a, of ?f] by simp
  finally have "s'' = ?f s" .
  moreover have "hashtbl s' = hashtbl s" "deptbl s' = deptbl s" using arg_cong [OF a, of hashtbl] arg_cong [OF a, of deptbl] by simp_all
  then have "mem s'' x = mem s x" if "x < deptbl s \<or> hashtbl s \<le> x" for x
    using assms that by (simp only: deps_only_def)
  ultimately show ?thesis unfolding deps_only_def by blast
qed

lemma deps_only_writes:
  assumes "layout s" and "i < dep_slots s"
  shows "deps_only s (set_dep_cell i v s)" "deps_only s (set_binding i v s)" "deps_only s ((set_binding i v s)\<lparr>dcounter := c\<rparr>)"
  using assms by (auto simp: deps_only_def set_dep_cell_def set_binding_def layout_def intro!: store64_other)

lemma prepend_spec:
  assumes s: "sized d s" and L: "lists_rel d s E" and kv: "k < 0x80000000" "v < 0x80000000"
    and new: "(k, v) \<notin> E" and free: "\<exists>i<2 ^ d. dep_cell s i = 0"
  shows "\<exists>s'. prepend_to_deptbl_list k v s = Some (Inr (), s') \<and> lists_rel d s' (insert (k, v) E)
     \<and> sized d s' \<and> deps_only s s' \<and> dcounter s' = dcounter s \<and> (\<forall>i<2 ^ d. binding s' i = binding s i)
     \<and> card {i. i < 2 ^ d \<and> dep_cell s' i \<noteq> 0} = Suc (card {i. i < 2 ^ d \<and> dep_cell s i \<noteq> 0})"
proof -
  note D = sizedD [OF s]
  obtain i where "i < 2 ^ d" "dep_cell s i = 0" using free by blast
  then obtain p where p: "dpt.first_stop d (dep_view s) k p"
    using dpt.first_stop_ex [of i d "dep_view s" k] by (auto simp: dpt.stop_def dep_view_def slot_of_cell_def)
  have pn: "p < 2 ^ d" using p by (rule dpt.first_stop_less)
  note run = prepend_run [OF s p, of v]
  show ?thesis
  proof (cases "dep_cell s p = 0")
    case True
    let ?e = "\<lparr>e_key = tagged k TAG_KEY, e_next = tagged v TAG_VAL\<rparr>"
    let ?s = "set_dep_cell p (raw ?e) s"
    have "raw ?e \<noteq> 0" using raw_eq_0_iff [of ?e] by (simp add: TAG_KEY_def TAG_VAL_def)
    then have "card {i. i < 2 ^ d \<and> dep_cell ?s i \<noteq> 0} = Suc (card {i. i < 2 ^ d \<and> dep_cell s i \<noteq> 0})"
      by (intro card_fill [of p]) (use pn True in auto)
    then show ?thesis
      using run True lists_rel_set_head [OF L p True kv] s pn D(1,4) deps_only_writes(1) [OF D(1), of p]
      by (intro exI [of _ ?s]) auto
  next
    case False
    then have head: "dep_view s p = Keyed k"
      using dpt.first_stop_stop [OF p] by (auto simp: dpt.stop_def dep_view_def slot_of_cell_def split: if_splits)
    obtain q where q: "unat q < 2 ^ d" "dep_cell s (unat q) = 0" "alloc_deptbl_node k v s = Some (Inr q,
         set_dep_cell (unat q) (raw \<lparr>e_key = tagged v TAG_VAL, e_next = tagged (NOT 0) TAG_NEXT\<rparr>) s)"
      using alloc_deptbl_node_spec [OF s free] by blast
    let ?t = "\<lparr>e_key = tagged v TAG_VAL, e_next = e_next (entry_of_raw (dep_cell s p))\<rparr>"
    let ?h = "\<lparr>e_key = tagged k TAG_KEY, e_next = tagged q TAG_NEXT\<rparr>"
    let ?s = "set_dep_cell p (raw ?h) (set_dep_cell (unat q) (raw ?t) s)"
    have pq: "p \<noteq> unat q" using q False by auto
    note node = lists_rel_set_node [OF s L pn head kv new q(1,2) refl]
    have twice: "set_dep_cell j b (set_dep_cell j a s) = set_dep_cell j b s" for j a b
      by (simp add: set_dep_cell_def)
    have r: "prepend_to_deptbl_list k v s = Some (Inr (), ?s)"
      using run False q pq by (simp add: op_simps Let_def twice)
    have "raw ?h \<noteq> 0" using raw_eq_0_iff [of ?h] by (simp add: TAG_KEY_def TAG_VAL_def)
    then have "card {i. i < 2 ^ d \<and> dep_cell ?s i \<noteq> 0} = Suc (card {i. i < 2 ^ d \<and> dep_cell s i \<noteq> 0})"
      by (intro card_fill [of "unat q"]) (use q pq node(2) False in auto)
    moreover have "deps_only s ?s"
      by (rule deps_only_trans [OF deps_only_writes(1) deps_only_writes(1)]) (use D(1,4) pn q in auto)
    ultimately show ?thesis using r node(1) s pn q D(1,4) by (intro exI [of _ ?s]) auto
  qed
qed

lemma bindings_rel_cong:
  assumes "\<forall>i<2 ^ d. binding s' i = binding s i" and "dcounter s' = dcounter s"
  shows "bindings_rel d s' E = bindings_rel d s E"
proof -
  have "bnd.searchable d (bnd_view s') = bnd.searchable d (bnd_view s)"
    by (rule bnd.searchable_cong) (use assms in \<open>simp add: bnd_view_def\<close>)
  moreover have "{i. i < 2 ^ d \<and> binding s' i \<noteq> 0} = {i. i < 2 ^ d \<and> binding s i \<noteq> 0}" using assms by auto
  ultimately show ?thesis using assms unfolding bindings_rel_def by (auto cong: conj_cong) 
qed

lemma lists_over_cong:
  assumes L: "lists_over d P s E" and same: "\<And>i. i < 2 ^ d \<Longrightarrow> dep_cell s' i = dep_cell s i"
  shows "lists_over d P s' E"
proof -
  have v: "dep_view s' i = dep_view s i" if "i < 2 ^ d" for i using same that by (simp add: dep_view_def)
  have "dpt.searchable d (dep_view s') = dpt.searchable d (dep_view s)"
    by (rule dpt.searchable_cong) (rule v)
  moreover have "\<exists>vs. chain (hidden P (dep_cell s')) (2 ^ d) (e_next (entry_of_raw (dep_cell s' i))) vs
       \<and> distinct vs \<and> set vs = {v. (k, v) \<in> E}" if i: "i < 2 ^ d" "dep_view s' i = Keyed k" for i k
  proof -
    obtain vs where vs: "chain (hidden P (dep_cell s)) (2 ^ d) (e_next (entry_of_raw (dep_cell s i))) vs"
      "distinct vs" "set vs = {v. (k, v) \<in> E}" using lists_over_chain [OF L i(1)] i v by metis
    have "chain (hidden P (dep_cell s')) (2 ^ d) (e_next (entry_of_raw (dep_cell s i))) vs"
      by (rule chain_cong [OF vs(1)]) (simp add: hidden_def same)
    then show ?thesis using vs(2,3) same [OF i(1)] by auto
  qed
  ultimately show ?thesis using L v unfolding lists_over_def by metis
qed

lemma lists_rel_cong:
  assumes "\<forall>i<2 ^ d. dep_cell s' i = dep_cell s i"
  shows "lists_rel d s E \<Longrightarrow> lists_rel d s' E"
  using lists_over_cong [of d "{}" s E s'] assms by (simp add: lists_over_empty)

lemma add_dep_ok:
  assumes R: "dep_rel d s E" and room: "dcounter s < dep_size s" and e: "edge31 (k, v)"
  shows "\<exists>s'. add_dep k v s = Some (Inr (), s') \<and> dep_rel d s' (insert (k, v) E) \<and> deps_only s s'"
proof (cases "(k, v) \<in> E")
  case True
  then show ?thesis using add_binding_old [OF R room] R e
    by (intro exI [of _ s]) (auto simp: add_dep_def op_simps edge31_def insert_absorb)
next
  case False
  note S = R [unfolded dep_rel_def]
  obtain p where p: "p < 2 ^ d" and run: "add_binding (pack k v) s
           = Some (Inr True, (set_binding p (pack k v) s)\<lparr>dcounter := dcounter s + 1\<rparr>)"
    and B: "bindings_rel d ((set_binding p (pack k v) s)\<lparr>dcounter := dcounter s + 1\<rparr>) (insert (k, v) E)"
    using add_binding_new [OF R room False e] by blast
  let ?s = "(set_binding p (pack k v) s)\<lparr>dcounter := dcounter s + 1\<rparr>"
  have s: "sized d ?s" using S by simp
  have cells: "\<forall>i<2 ^ d. dep_cell ?s i = dep_cell s i" using p S sizedD by auto
  have kv: "k < 0x80000000" "v < 0x80000000" using e by (auto simp: edge31_def)
  have "lists_rel d ?s E" using lists_rel_cong [OF cells] S by blast
  moreover have "\<exists>i<2 ^ d. dep_cell ?s i = 0" using room_free(2) [OF R room] cells by auto
  ultimately obtain s' where s': "prepend_to_deptbl_list k v ?s = Some (Inr (), s')"
    "lists_rel d s' (insert (k, v) E)" "sized d s'" "dcounter s' = dcounter ?s" "deps_only ?s s'"
    "\<forall>i<2 ^ d. binding s' i = binding ?s i"
    "card {i. i < 2 ^ d \<and> dep_cell s' i \<noteq> 0} = Suc (card {i. i < 2 ^ d \<and> dep_cell ?s i \<noteq> 0})"
    using prepend_spec [OF s _ kv False] by blast
  have "{i. i < 2 ^ d \<and> dep_cell ?s i \<noteq> 0} = {i. i < 2 ^ d \<and> dep_cell s i \<noteq> 0}" using cells by auto
  moreover have "unat (dcounter s + 1) = Suc (unat (dcounter s))" using room by (rule unat_plus_1_less)
  ultimately have "dep_rel d s' (insert (k, v) E)"
    using s' bindings_rel_cong [OF s'(6,4)] B S unfolding dep_rel_def by simp
  moreover have "add_dep k v s = Some (Inr (), s')"
    using run s'(1) kv by (simp add: add_dep_def op_simps)
  moreover have "deps_only s s'"
    by (rule deps_only_trans [OF deps_only_writes(3) s'(5)]) (use S p sizedD in auto)
  ultimately show ?thesis by blast
qed

subsection \<open>Reading, limits and corner cases\<close>

lemma Val_long_ucast_inj: "inj (\<lambda>v::u32. Val_long (ucast v))"
proof (rule injI)
  fix x y :: u32 assume "Val_long (ucast x) = Val_long (ucast y)"
  then have "(ucast x :: u64) = ucast y" using Long_val_Val_long [OF ucast_32_less] by metis
  then show "x = y" by (metis unat_ucast_64 word_unat_eq_iff)
qed

lemma chain_nonempty: "chain c n t vs \<Longrightarrow> vs \<noteq> []"
  by (cases rule: chain.cases) auto

lemma dep_rel_head_edge:
  assumes R: "dep_rel d s E" and i: "i < 2 ^ d" "dep_view s i = Keyed k"
  shows "\<exists>v. (k, v) \<in> E"
proof -
  have L: "lists_rel d s E" using R by (simp add: dep_rel_def)
  obtain vs where "chain (dep_cell s) (2 ^ d) (e_next (entry_of_raw (dep_cell s i))) vs"
    "set vs = {v. (k, v) \<in> E}" by (rule lists_rel_chain [OF L i])
  moreover from this(1) have "hd vs \<in> set vs" by (intro hd_in_set chain_nonempty)
  ultimately show ?thesis by auto
qed

lemma get_dep_assert: "k < 0x80000000 \<Longrightarrow> hh_get_dep (Val_long (ucast k)) s =
   Option.bind (while1 (get_dep_body k s) (hash_uint64 (ucast k))) (map_option (\<lambda>r. (r, s)))"
proof -
  assume k: "k < 0x80000000"
  have m: "(0x7FFFFFFF :: u32) = mask 31" by (simp add: mask_eq_exp_minus_1)
  have "k AND 0x7FFFFFFF = k"
    using k unfolding m by (simp add: num31_iff flip: take_bit_eq_mask)
  then show ?thesis
    by (simp add: hh_get_dep_def Long_val_Val_long ucast_32_less ucast_ucast_32 op_simps Let_def)
qed

lemma get_dep_ok:
  assumes R: "dep_rel d s E" and k: "k < 0x80000000"
    and ends: "dcounter s < dep_size s \<or> (\<exists>v. (k, v) \<in> E)"
  shows "\<exists>ws. hh_get_dep (Val_long (ucast k)) s = Some (Inr ws, s) \<and> distinct ws
     \<and> set ws = (\<lambda>v. Val_long (ucast v)) ` {v. (k, v) \<in> E}"
proof -
  have S: "sized d s" "lists_rel d s E" using R by (auto simp: dep_rel_def)
  have "\<exists>i<2 ^ d. dpt.stop (dep_view s) k i"
    using ends room_free(2) [OF R] S(2) unfolding lists_rel_def dpt.stop_def dep_view_def
    by (metis slot_of_cell_def)
  then obtain p where p: "dpt.first_stop d (dep_view s) k p" using dpt.first_stop_ex by blast
  obtain y where y: "unat (y AND (dep_size s - 1)) = p"
    "while1 (get_dep_body k s) (hash_uint64 (ucast k)) = while1 (get_dep_body k s) y"
  proof (atomize_elim, rule dpt_probe [OF S(1) p])
    show "get_dep_body k s x = Inr ((x AND (dep_size s - 1)) + 1)"
      if "\<not> dpt.stop (dep_view s) k (unat (x AND (dep_size s - 1)))" for x
      using that unfolding not_stop_iff get_dep_body_def Let_def by (metis (full_types))
  qed
  have pn: "p < 2 ^ d" using p by (rule dpt.first_stop_less)
  show ?thesis
  proof (cases "dep_cell s p = 0")
    case True
    then have "(k, v) \<notin> E" for v
      using dpt.first_stop_absent [OF _ p] S(2) unfolding lists_rel_def by (metis dep_view_def slot_of_cell_def)
    moreover have "get_dep_body k s y = Inl (Some (Inr []))"
      using True y(1) by (simp add: get_dep_body_def Let_def)
    ultimately show ?thesis using y(2) by (simp add: get_dep_assert [OF k] while1_Inl)
  next
    case False
    then have head: "dep_view s p = Keyed k"
      using dpt.first_stop_stop [OF p] by (auto simp: dpt.stop_def dep_view_def slot_of_cell_def split: if_splits)
    then obtain vs where vs: "chain (dep_cell s) (2 ^ d) (e_next (entry_of_raw (dep_cell s p))) vs"
      "distinct vs" "set vs = {v. (k, v) \<in> E}" using lists_rel_chain [OF S(2) pn] by blast
    have "get_dep_body k s y = Inl (while1 (walk_body s) (entry_of_raw (dep_cell s p), []))"
      using False y(1) head by (auto simp: get_dep_body_def Let_def dep_view_def slot_of_cell_def split: if_splits)
    then have "hh_get_dep (Val_long (ucast k)) s = Some (Inr (map (\<lambda>v. Val_long (ucast v)) (rev vs)), s)"
      using y(2) walk_chain [OF S(1) vs(1) refl, of "[]"] by (simp add: get_dep_assert [OF k] while1_Inl)
    then show ?thesis using vs(2,3) by (auto simp: distinct_map intro: inj_on_subset [OF Val_long_ucast_inj])
  qed
qed

lemma full_no_free:
  assumes "dep_rel d s E" and "dcounter s = dep_size s" and i: "i < 2 ^ d"
  shows "binding s i \<noteq> 0" and "dep_cell s i \<noteq> 0"
proof -
  have "unat (dcounter s) = 2 ^ d" using assms(1,2) sizedD(4) [of d s] by (simp add: dep_rel_def)
  then show "binding s i \<noteq> 0" and "dep_cell s i \<noteq> 0"
    using assms(1) card_full [of "2 ^ d" "\<lambda>i. binding s i \<noteq> 0", OF _ i]
      card_full [of "2 ^ d" "\<lambda>i. dep_cell s i \<noteq> 0", OF _ i] by (auto simp: dep_rel_def bindings_rel_def)
qed

lemma get_dep_full_none:
  assumes R: "dep_rel d s E" and full: "dcounter s = dep_size s" and k: "k < 0x80000000"
    and none: "\<And>v. (k, v) \<notin> E"
  shows "hh_get_dep (Val_long (ucast k)) s = None"
proof -
  have S: "sized d s" using R by (simp add: dep_rel_def)
  have "while1 (get_dep_body k s) (hash_uint64 (ucast k)) = None"
  proof (rule while1_diverges [where A = UNIV])
    fix x
    let ?i = "unat (x AND (dep_size s - 1))"
    have i: "?i < 2 ^ d" using sizedD [OF S] by (simp add: unat_and_mask)
    have "dep_view s ?i \<noteq> Keyed k" using dep_rel_head_edge [OF R i] none by blast
    then have "\<not> dpt.stop (dep_view s) k ?i"
      using full_no_free(2) [OF R full i] by (auto simp: dpt.stop_def dep_view_def slot_of_cell_def)
    then show "\<exists>y\<in>UNIV. get_dep_body k s x = Inr y"
      unfolding not_stop_iff get_dep_body_def Let_def by (metis (full_types) UNIV_I)
  qed simp
  then show ?thesis by (simp add: get_dep_assert [OF k])
qed

lemma add_dep_full_eq:
  assumes "dcounter s = dep_size s" and e: "edge31 (k, v)"
  shows "add_dep k v s =
     Some (if binding s (unat (hash_uint64 (pack k v) AND (dep_size s - 1))) = pack k v then Inr () else Inl Dep_table_full, s)"
proof -
  let ?slot = "hash_uint64 (pack k v) AND (dep_size s - 1)"
  have "add_binding (pack k v) s =
     Some (if binding s (unat ?slot) = pack k v then Inr False else Inl Dep_table_full, s)"
    unfolding add_binding_def by (intro while1_Inl) (simp add: add_binding_body_def assms Let_def)
  then show ?thesis using e by (simp add: add_dep_def op_simps edge31_def)
qed

text \<open>The first slot that \<open>add_binding\<close> looks at for an edge.\<close>

definition binding_home :: "hh \<Rightarrow> u32 \<Rightarrow> u32 \<Rightarrow> nat" where
  "binding_home s k v = unat (hash_uint64 (pack k v) AND (dep_size s - 1))"

lemma binding_home_less: "dep_rel d s E \<Longrightarrow> binding_home s k v < 2 ^ d"
  using sizedD [of d s] by (simp add: binding_home_def dep_rel_def unat_and_mask)

lemma full_binding_edge:
  assumes "dep_rel d s E" and "dcounter s = dep_size s" and "i < 2 ^ d" and "edge31 (k, v)" and "binding s i = pack k v"
  shows "(k, v) \<in> E"
proof -
  have "binding s i \<noteq> 0" by (rule full_no_free(1) [OF assms(1-3)])
  then obtain k' v' where e: "(k', v') \<in> E" "binding s i = pack k' v'"
    using assms(1,3) unfolding dep_rel_def bindings_rel_def by blast
  moreover have "edge31 (k', v')" using assms(1) e(1) unfolding dep_rel_def bindings_rel_def by blast
  ultimately show ?thesis using assms(4,5) pack_inj [of v v' k k'] by (auto simp: edge31_def)
qed


lemma bindings_card:
  assumes B: "bindings_rel d s E"
  shows "card E = unat (dcounter s)"
proof -
  let ?I = "{i. i < 2 ^ d \<and> binding s i \<noteq> 0}"
  have "bij_betw (\<lambda>(k, v). pack k v) E (binding s ` ?I)"
  proof (rule bij_betw_imageI)
    show "inj_on (\<lambda>(k, v). pack k v) E"
      using B by (auto simp: inj_on_def bindings_rel_def edge31_def pack_inj)
    show "(\<lambda>(k, v). pack k v) ` E = binding s ` ?I"
    proof (intro equalityI subsetI)
      fix b assume "b \<in> (\<lambda>(k, v). pack k v) ` E"
      then obtain k v where kv: "(k, v) \<in> E" "b = pack k v" by auto
      then obtain i where "i < 2 ^ d" "binding s i = b" "b \<noteq> 0"
        using B edge31_pack unfolding bindings_rel_def by metis
      then show "b \<in> binding s ` ?I" by auto
    next
      fix b assume "b \<in> binding s ` ?I"
      then obtain k v where "(k, v) \<in> E" "b = pack k v" using B unfolding bindings_rel_def by blast
      then show "b \<in> (\<lambda>(k, v). pack k v) ` E" by force
    qed
  qed
  moreover have "inj_on (binding s) ?I"
  proof (rule inj_onI)
    fix i j assume "i \<in> ?I" "j \<in> ?I" "binding s i = binding s j"
    then show "i = j" using bnd.searchable_unique [of d "bnd_view s" i j "binding s i"] B
      by (auto simp: bindings_rel_def bnd_view_def)
  qed
  ultimately show ?thesis
    using B by (metis (no_types, lifting) bij_betw_same_card bindings_rel_def card_image)
qed

lemma dep_used_slots_eq:
  assumes R: "dep_rel d s E"
  shows "hh_dep_used_slots s = Some (Inr (Val_long (dcounter s)), s)" and "card E = unat (dcounter s)"
proof -
  have S: "sized d s" "bindings_rel d s E" using R by (auto simp: dep_rel_def)
  have "word_of_nat (card {i. i < 2 ^ d \<and> dep_cell s i \<noteq> 0}) = dcounter s"
    using R by (simp add: dep_rel_def)
  then show "hh_dep_used_slots s = Some (Inr (Val_long (dcounter s)), s)"
    by (simp add: hh_dep_used_slots_def op_simps fold_count sizedD(4) [OF S(1)])
  show "card E = unat (dcounter s)" by (rule bindings_card [OF S(2)])
qed

lemma dep_rel_empty:
  assumes "sized d s" and "\<And>i. i < 2 ^ d \<Longrightarrow> binding s i = 0" and "\<And>i. i < 2 ^ d \<Longrightarrow> dep_cell s i = 0"
    and "dcounter s = 0"
  shows "dep_rel d s {}"
proof -
  have "{i. i < 2 ^ d \<and> binding s i \<noteq> 0} = {}" "{i. i < 2 ^ d \<and> dep_cell s i \<noteq> 0} = {}" using assms by auto
  moreover have "bnd.searchable d (bnd_view s)" "dpt.searchable d (dep_view s)"
    by (auto intro!: bnd.searchable_all_free dpt.searchable_all_free simp: bnd_view_def dep_view_def slot_of_cell_def assms)
  moreover have "dep_view s i \<noteq> Keyed k" if "i < 2 ^ d" for i k using assms(3) [OF that] by (simp add: dep_view_def slot_of_cell_def)
  ultimately show ?thesis using assms by (auto simp: dep_rel_def bindings_rel_def lists_rel_def)
qed

lemma fresh_dep_rel:
  assumes "fresh s" and "d \<le> 31" and "dep_size s = 2 ^ d"
  shows "dep_rel d s {}"
proof (rule dep_rel_empty)
  show sz: "sized d s" using assms by (simp add: sized_def fresh_def)
  show "dcounter s = 0" using assms by (simp add: fresh_def)
  show "binding s i = 0" "dep_cell s i = 0" if "i < 2 ^ d" for i
    using fresh_cells [OF assms(1)] that sizedD(4) [OF sz] by simp_all
qed

lemma pack_immediate: "edge31 (k, v) \<Longrightarrow> Long_val (Val_long (pack k v)) = pack k v"
proof (rule Long_val_Val_long)
  assume e: "edge31 (k, v)"
  then have hi: "\<not> bit k n" "\<not> bit v n" if "31 \<le> n" for n
    using that num31_iff [of k] num31_iff [of v] by (metis bit_take_bit_iff edge31_def fst_conv leD snd_conv)+
  have "take_bit 62 (pack k v) = pack k v"
  proof (rule bit_word_eqI)
    fix n assume "n < LENGTH(64)"
    have "n - 31 < 31" if "bit k (n - 31)" using that hi(1) [of "n - 31"] by (meson not_le)
    moreover have "n < 31" if "bit v n" using that hi(2) [of n] by (meson not_le)
    ultimately show "bit (take_bit 62 (pack k v)) n = bit (pack k v) n"
      by (auto simp: pack_def bit_simps)
  qed
  then have "unat (pack k v) < 2 ^ 62" by (metis take_bit_nat_less_exp unsigned_take_bit_eq)
  then show "pack k v < 0x4000000000000000" by (simp add: word_less_nat_alt)
qed

lemma hh_add_dep_pack: "edge31 (k, v) \<Longrightarrow> hh_add_dep (Val_long (pack k v)) = add_dep k v"
  using pack_immediate pack_fields [of v k] by (simp add: hh_add_dep_def Let_def edge31_def)

subsection \<open>Properties\<close>

lemma demo_dep: "dep_rel 2 demo {}" "dep_size demo = 4" "dcounter demo = 0"
proof -
  have "unat (dep_size demo) = unat (4::u64)" by (simp add: demo_facts)
  then show s: "dep_size demo = 4" by (simp add: word_unat_eq_iff)
  then show "dep_rel 2 demo {}" using fresh_dep_rel [OF demo_facts(1), of 2] by simp
  show "dcounter demo = 0" using demo_facts(1) by (simp add: fresh_def)
qed

lemma demo_dep_full:
  "\<exists>s. dep_rel 2 s {(1, 2), (1, 3), (2, 3), (4, 5)} \<and> dcounter s = dep_size s"
proof -
  have step: "\<exists>s'. dep_rel 2 s' (insert (k, v) E)"
    if "dep_rel 2 s E" "card E < 4" "edge31 (k, v)" for s E k v
  proof -
    have "unat (dcounter s) < unat (dep_size s)"
      using that dep_used_slots_eq(2) [OF that(1)] sizedD(4) [of 2 s] by (simp add: dep_rel_def)
    then show ?thesis using add_dep_ok [OF that(1) _ that(3)] by (auto simp: word_less_nat_alt)
  qed
  have e: "edge31 (4, 5)" "edge31 (2, 3)" "edge31 (1, 3)" "edge31 (1, 2)" by (simp_all add: edge31_def)
  obtain s1 where "dep_rel 2 s1 {(4, 5)}" using step [OF demo_dep(1) _ e(1)] by auto
  then obtain s2 where "dep_rel 2 s2 {(2, 3), (4, 5)}" using step [OF _ _ e(2)] by fastforce
  then obtain s3 where "dep_rel 2 s3 {(1, 3), (2, 3), (4, 5)}" using step [OF _ _ e(3)] by fastforce
  then obtain s4 where s4: "dep_rel 2 s4 {(1, 2), (1, 3), (2, 3), (4, 5)}" using step [OF _ _ e(4)] by fastforce
  have "unat (dcounter s4) = unat (dep_size s4)"
    using dep_used_slots_eq(2) [OF s4] sizedD(4) [of 2 s4] s4 by (simp add: dep_rel_def)
  then show ?thesis using s4 by (auto simp: word_unat_eq_iff)
qed

text \<open>C6: While the dependency table has room, \<open>hh_add_dep\<close> on the immediate that packs the nodes
  \<open>k\<close> and \<open>v\<close> (31 bits each, not both zero) returns and implements the insertion of the edge
  \<open>(k, v)\<close> into the abstract edge set: the hash set of edges, the linked lists of successors and the
  slot counter represent \<open>insert (k, v) E\<close> afterwards.\<close>

theorem hh_add_dep_refines:
  assumes "dep_rel d s E" and "dcounter s < dep_size s" and "edge31 (k, v)"
  shows "\<exists>s'. hh_add_dep (Val_long (pack k v)) s = Some (Inr (), s') \<and> dep_rel d s' (insert (k, v) E)"
  using add_dep_ok [OF assms] hh_add_dep_pack [OF assms(3)] by auto

theorem hh_add_dep_refines_witness:
  "\<exists>s'. hh_add_dep (Val_long (pack 1 2)) demo = Some (Inr (), s') \<and> dep_rel 2 s' {(1, 2)}"
  using hh_add_dep_refines [OF demo_dep(1), of 1 2] by (simp add: demo_dep edge31_def)

text \<open>C7: \<open>hh_get_dep\<close> returns the list of the successors of the node in the abstract edge set, each
  once, and leaves the state unchanged; it always returns when the table has a free slot or the
  node has a successor.\<close>

theorem hh_get_dep_refines:
  assumes "dep_rel d s E" and "k < 0x80000000" and "dcounter s < dep_size s \<or> (\<exists>v. (k, v) \<in> E)"
  shows "\<exists>ws. hh_get_dep (Val_long (ucast k)) s = Some (Inr ws, s) \<and> distinct ws
     \<and> set ws = (\<lambda>v. Val_long (ucast v)) ` {v. (k, v) \<in> E}"
  using assms by (rule get_dep_ok)

theorem hh_get_dep_refines_witness:
  "\<exists>s ws. hh_get_dep (Val_long (ucast (1::u32))) s = Some (Inr ws, s) \<and> distinct ws
     \<and> set ws = {Val_long (ucast (2::u32)), Val_long (ucast (3::u32))}"
proof -
  let ?E = "{(1, 2), (1, 3), (2, 3), (4, 5)} :: (u32 \<times> u32) set"
  obtain s where s: "dep_rel 2 s ?E" using demo_dep_full by blast
  have "{v. (1, v) \<in> ?E} = {2, 3}" by auto
  then have "(\<lambda>v. Val_long (ucast v)) ` {v. (1, v) \<in> ?E} = {Val_long (ucast (2::u32)), Val_long (ucast (3::u32))}"
    by simp
  moreover have "(1::u32) < 0x80000000" "\<exists>v. (1, v) \<in> ?E" by (simp, blast)
  ultimately show ?thesis using hh_get_dep_refines [OF s, of 1] by metis
qed

text \<open>C33: On a full table \<open>hh_get_dep\<close> never returns for a node without successors: the probe loop
  has no bound and no free slot to stop at.\<close>

theorem hh_get_dep_full_diverges:
  assumes "dep_rel d s E" and "dcounter s = dep_size s" and "k < 0x80000000" and "\<And>v. (k, v) \<notin> E"
  shows "hh_get_dep (Val_long (ucast k)) s = None"
  using assms by (rule get_dep_full_none)

theorem hh_get_dep_full_diverges_witness: "\<exists>s. hh_get_dep (Val_long (ucast (9::u32))) s = None"
  using demo_dep_full hh_get_dep_full_diverges [of 2 _ "{(1, 2), (1, 3), (2, 3), (4, 5)}" 9] by auto

text \<open>C32: On a full table \<open>add_dep\<close> changes nothing and its answer depends on hash collisions. A new edge
  raises \<open>Dep_table_full\<close>. An edge that the table holds is accepted when it sits in the first slot of its probe
  sequence, and raises \<open>Dep_table_full\<close> otherwise (the test of \<open>*dcounter\<close> comes before the next slot is looked
  at), although the comment promises that nothing happens for an existing edge. Of two edges of the table with
  the same first slot at least one is always rejected.\<close>

theorem add_dep_full:
  assumes "dep_rel d s E" and "dcounter s = dep_size s" and "edge31 (k, v)"
  shows "((k, v) \<notin> E \<longrightarrow> add_dep k v s = Some (Inl Dep_table_full, s))
     \<and> ((k, v) \<in> E \<longrightarrow> add_dep k v s
          = Some (if binding s (binding_home s k v) = pack k v then Inr () else Inl Dep_table_full, s))
     \<and> (\<forall>k' v'. (k, v) \<in> E \<longrightarrow> (k', v') \<in> E \<longrightarrow> (k', v') \<noteq> (k, v) \<longrightarrow> binding_home s k' v' = binding_home s k v \<longrightarrow>
          add_dep k v s = Some (Inl Dep_table_full, s) \<or> add_dep k' v' s = Some (Inl Dep_table_full, s))"
proof -
  note B = assms(1) [unfolded dep_rel_def bindings_rel_def]
  have run: "add_dep k' v' s = Some (if binding s (binding_home s k' v') = pack k' v' then Inr () else Inl Dep_table_full, s)"
    if "edge31 (k', v')" for k' v'
    using add_dep_full_eq [OF assms(2) that] by (simp add: binding_home_def)
  have "binding s (binding_home s k v) \<noteq> pack k v" if "(k, v) \<notin> E"
    using full_binding_edge [OF assms(1,2) binding_home_less [OF assms(1)], of k v k v] assms(3) that by blast
  moreover have "pack k' v' \<noteq> pack k v" if "(k', v') \<in> E" "(k', v') \<noteq> (k, v)" for k' v'
    using B that assms(3) pack_inj [of v' v k' k] by (auto simp: edge31_def)
  moreover have "edge31 (k', v')" if "(k', v') \<in> E" for k' v' using B that by blast
  ultimately show ?thesis using run assms(3) by (intro conjI allI impI) auto
qed

theorem add_dep_full_witness:
  "\<exists>s E. dep_rel 2 s E \<and> (\<exists>k v. (k, v) \<in> E \<and> add_dep k v s = Some (Inl Dep_table_full, s))"
proof -
  let ?E = "{(1, 2), (1, 3), (2, 3), (4, 5)} :: (u32 \<times> u32) set"
  obtain s where s: "dep_rel 2 s ?E" "dcounter s = dep_size s" using demo_dep_full by blast
  have "dep_size s = 4" using s(1) sizedD(3) [of 2 s] by (simp add: dep_rel_def)
  moreover have "hash_uint64 (pack 4 5) AND 3 = hash_uint64 (pack 2 3) AND 3" by code_simp
  ultimately have "binding_home s 4 5 = binding_home s 2 3" by (simp add: binding_home_def)
  moreover have "(2, 3) \<in> ?E" "(4, 5) \<in> ?E" "(4, 5) \<noteq> (2, 3 :: u32)" "edge31 (2, 3)" by (simp_all add: edge31_def)
  ultimately have "add_dep 2 3 s = Some (Inl Dep_table_full, s) \<or> add_dep 4 5 s = Some (Inl Dep_table_full, s)"
    using add_dep_full [OF s, of 2 3] by blast
  then show ?thesis using s(1) \<open>(2, 3) \<in> ?E\<close> \<open>(4, 5) \<in> ?E\<close> by blast
qed



text \<open>C29: Every edge takes exactly one slot: the slots that \<open>hh_dep_used_slots\<close> counts, the
  counter \<open>dcounter\<close> and the number of edges agree.\<close>

theorem hh_dep_used_slots_edges:
  assumes "dep_rel d s E"
  shows "hh_dep_used_slots s = Some (Inr (Val_long (dcounter s)), s) \<and> card E = unat (dcounter s)"
  using dep_used_slots_eq [OF assms] by blast

theorem hh_dep_used_slots_edges_witness: "hh_dep_used_slots demo = Some (Inr (Val_long 0), demo)"
  using hh_dep_used_slots_edges [OF demo_dep(1)] by (simp add: demo_dep)

end
