(* ===== verification/Hh_Heap.thy ===== *)
theory Hh_Heap
  imports Hh_Init
begin

text \<open>
  The shared heap: allocation, storing an OCaml value (string or serialised, compressed when that
  helps) and reading it back. The OCaml runtime's marshalling and zstd are not part of the
  repository's own code: they are the record \<open>runtime\<close>, and \<open>runtime_ok\<close> collects what their
  documentation promises.
\<close>

subsection \<open>OCaml values and the external codecs\<close>

text \<open>A value is a string block, whose bytes the code copies as they are, or anything else, which it
  hands to the marshaller.\<close>

datatype 'v caml = String_block "u8 list" | Other_value 'v

text \<open>
  \<open>caml_output_value_to_malloc\<close>, \<open>caml_input_value_from_block\<close>, and the three zstd calls. A zstd call
  takes the capacity of the destination buffer and the source, and gives the code it returns and
  the bytes it writes.
\<close>

record 'v runtime =
  caml_output_value :: "'v \<Rightarrow> u8 list"
  caml_input_value :: "u8 list \<Rightarrow> 'v caml"
  ZSTD_compressBound :: "u64 \<Rightarrow> u64"
  ZSTD_compress2 :: "u64 \<Rightarrow> u8 list \<Rightarrow> u64 \<times> u8 list"
  ZSTD_decompressDCtx :: "u64 \<Rightarrow> u8 list \<Rightarrow> u64 \<times> u8 list"

subsection \<open>Allocation, storing and loading\<close>

definition raise_heap_full :: "'a hh_op" where
  [op_simps]: "raise_heap_full = throw Heap_full"

definition hh_alloc :: "hh_header_t \<Rightarrow> nat hh_op" where
  "hh_alloc header =
     (let slot_size = unat (ALIGNED (Heap_entry_total_size header)) in
      op_bind (gets heap) (\<lambda>chunk.
      op_seq (modify (\<lambda>s. s\<lparr>heap := (chunk + slot_size) mod 2 ^ 64\<rparr>))
     (op_seq (\<lambda>s. if heap_max s < (chunk + slot_size) mod 2 ^ 64 then raise_heap_full s else ret () s)
     (op_seq (modify (\<lambda>s. s\<lparr>mem := store64 (mem s) chunk header\<rparr>))
     (ret chunk)))))"

text \<open>The two branches of \<open>hh_store_ocaml\<close> that choose the bytes to store, and its compression step:
  the size to store, the uncompressed size (0 when stored as is) and the bytes.\<close>

definition stored_form :: "'v runtime \<Rightarrow> 'v caml \<Rightarrow> u8 list \<times> storage_kind" where
  "stored_form rt data =
     (case data of String_block bs \<Rightarrow> (bs, KIND_STRING) | Other_value v \<Rightarrow> (caml_output_value rt v, KIND_SERIALIZED))"

definition compressed_form :: "'v runtime \<Rightarrow> u8 list \<Rightarrow> u64 \<times> u64 \<times> u8 list" where
  "compressed_form rt val =
     (let sz = word_of_nat (length val);
          (compressed_size, compressed_data) = ZSTD_compress2 rt (ZSTD_compressBound rt sz) val
      in if compressed_size \<noteq> 0 \<and> compressed_size < sz then (compressed_size, sz, compressed_data)
         else (sz, 0, val))"

definition hh_store_ocaml :: "'v runtime \<Rightarrow> 'v caml \<Rightarrow> (nat \<times> u64 \<times> u64) hh_op" where
  "hh_store_ocaml rt data =
     (let (val, kind) = stored_form rt data; orig_size = word_of_nat (length val) in
      op_seq (c_assert 1180 (\<lambda>_. kind = KIND_SERIALIZED \<longrightarrow> \<not> bit orig_size 63))
     (op_seq (c_assert 1186 (\<lambda>_. orig_size < 0x80000000))
     (let (sz, uncompressed_size, buf) = compressed_form rt val in
      op_bind (hh_alloc (make_header sz kind uncompressed_size)) (\<lambda>addr.
      op_seq (modify (\<lambda>s. s\<lparr>mem := memcpy (mem s) (addr + 8) (take (unat sz) buf)\<rparr>))
     (ret (addr, sz, orig_size))))))"

text \<open>\<open>hh_deserialize\<close> reads the header and the data of the entry it is given; what it makes of them does
  not depend on where they are stored (the shared heap, or a blob in SQLite's memory).\<close>

definition deserialize_entry :: "'v runtime \<Rightarrow> hh_header_t \<Rightarrow> u8 list \<Rightarrow> ('s, 'v caml) op" where
  "deserialize_entry rt header src =
     (let uncompressed_size_exp = Entry_uncompressed_size header;
          (uncompressed_size, data) =
            (if uncompressed_size_exp \<noteq> 0 then ZSTD_decompressDCtx rt uncompressed_size_exp src
             else (Entry_size header, src))
      in op_seq (c_assert 1456 (\<lambda>_. uncompressed_size_exp \<noteq> 0 \<longrightarrow> uncompressed_size = uncompressed_size_exp))
        (ret (if Entry_kind header = kind_bit KIND_STRING then String_block (take (unat uncompressed_size) data)
              else caml_input_value rt (take (unat uncompressed_size) data))))"

definition hh_deserialize :: "'v runtime \<Rightarrow> nat \<Rightarrow> 'v caml hh_op" where
  "hh_deserialize rt elt =
     (if elt \<le> 1 then throw Invalid_access
      else op_bind (gets (\<lambda>s. load64 (mem s) elt)) (\<lambda>header.
      op_bind (gets (\<lambda>s. read_bytes (mem s) (elt + 8) (unat (Entry_size header)))) (\<lambda>src.
      deserialize_entry rt header src)))"

subsection \<open>Entries\<close>

text \<open>An entry is a header with the bytes that follow it; \<open>encode\<close> is the entry that
  \<open>hh_store_ocaml\<close> writes for a value.\<close>

type_synonym entry = "hh_header_t \<times> u8 list"

definition encode :: "'v runtime \<Rightarrow> 'v caml \<Rightarrow> entry" where
  "encode rt data =
     (let (val, kind) = stored_form rt data; (sz, us, buf) = compressed_form rt val
      in (make_header sz kind us, take (unat sz) buf))"

definition fits :: "'v runtime \<Rightarrow> 'v caml \<Rightarrow> bool" where
  "fits rt data \<longleftrightarrow> length (fst (stored_form rt data)) < 0x80000000"

definition entry_at :: "hh \<Rightarrow> nat \<Rightarrow> entry" where
  "entry_at s a = (load64 (mem s) a, read_bytes (mem s) (a + 8) (unat (Entry_size (load64 (mem s) a))))"

text \<open>
  What the documentation of the external code promises: unmarshalling undoes marshalling; a
  compression into a buffer of \<open>ZSTD_compressBound\<close> bytes either returns an error code (the codes
  above \<open>-ZSTD_error_maxCode\<close>, 120) or the number of bytes written, and decompressing those gives
  the source back.
\<close>

definition zstd_error :: "u64 \<Rightarrow> bool" where
  "zstd_error code \<longleftrightarrow> 2 ^ 64 - 120 \<le> unat code"

definition runtime_ok :: "'v runtime \<Rightarrow> bool" where
  "runtime_ok rt \<longleftrightarrow>
     (\<forall>v. caml_input_value rt (caml_output_value rt v) = Other_value v)
   \<and> (\<forall>src code dst. length src < 0x80000000 \<longrightarrow>
        ZSTD_compress2 rt (ZSTD_compressBound rt (word_of_nat (length src))) src = (code, dst) \<longrightarrow>
        zstd_error code \<or> unat code = length dst
          \<and> ZSTD_decompressDCtx rt (word_of_nat (length src)) dst = (word_of_nat (length src), src))"

text \<open>
  The runtime of a process: the zstd calls work with the contexts that \<open>init_zstd_compression\<close> prepared (lines
  1191-1196 and 1453-1454), and all that zstd promises is that decompression with a dictionary inverts compression
  with the same dictionary. Each call takes the context, the capacity and the source.
\<close>

record zstd =
  z_compressBound :: "u64 \<Rightarrow> u64"
  z_compress2 :: "(u8 list \<times> int) option \<Rightarrow> u64 \<Rightarrow> u8 list \<Rightarrow> u64 \<times> u8 list"
  z_decompressDCtx :: "u8 list option \<Rightarrow> u64 \<Rightarrow> u8 list \<Rightarrow> u64 \<times> u8 list"

definition zstd_ok :: "zstd \<Rightarrow> bool" where
  "zstd_ok z \<longleftrightarrow> (\<forall>dict level src code dst. length src < 0x80000000 \<longrightarrow>
     z_compress2 z (Some (dict, level)) (z_compressBound z (word_of_nat (length src))) src = (code, dst) \<longrightarrow>
     zstd_error code \<or> unat code = length dst
       \<and> z_decompressDCtx z (Some dict) (word_of_nat (length src)) dst = (word_of_nat (length src), src))"

definition process_runtime :: "('v \<Rightarrow> u8 list) \<Rightarrow> (u8 list \<Rightarrow> 'v caml) \<Rightarrow> zstd \<Rightarrow> hh \<Rightarrow> 'v runtime" where
  "process_runtime output_value input_value z s =
     \<lparr>caml_output_value = output_value, caml_input_value = input_value, ZSTD_compressBound = z_compressBound z,
      ZSTD_compress2 = z_compress2 z (zstd_compression_context s),
      ZSTD_decompressDCtx = z_decompressDCtx z (zstd_decompression_context s)\<rparr>"

lemma unat_length: "length xs < 0x80000000 \<Longrightarrow> unat (word_of_nat (length xs) :: u64) = length xs"
  by (simp add: unat_of_nat take_bit_eq_mod)

lemma compressed_form_cases:
  assumes rt: "runtime_ok rt" and len: "length val < 0x80000000"
    and form: "compressed_form rt val = (sz, us, buf)"
  shows "unat sz = length buf" and "sz < 0x80000000" and "us < 0x80000000"
    and "us = 0 \<Longrightarrow> buf = val"
    and "us \<noteq> 0 \<Longrightarrow> us = word_of_nat (length val) \<and> ZSTD_decompressDCtx rt us buf = (us, val)"
    and "sz \<le> word_of_nat (length val)"
proof -
  let ?sz = "word_of_nat (length val) :: u64"
  obtain c dst where z: "ZSTD_compress2 rt (ZSTD_compressBound rt ?sz) val = (c, dst)" by fastforce
  have u: "unat ?sz = length val" using len by (rule unat_length)
  then have less: "?sz < 0x80000000" using len by (simp add: word_less_nat_alt)
  have "unat sz = length buf \<and> sz < 0x80000000 \<and> us < 0x80000000 \<and> (us = 0 \<longrightarrow> buf = val)
     \<and> (us \<noteq> 0 \<longrightarrow> us = ?sz \<and> ZSTD_decompressDCtx rt us buf = (us, val)) \<and> sz \<le> ?sz"
  proof (cases "c \<noteq> 0 \<and> c < ?sz")
    case True
    then have "\<not> zstd_error c" using less by (auto simp: zstd_error_def word_less_nat_alt)
    then have "unat c = length dst \<and> ZSTD_decompressDCtx rt ?sz dst = (?sz, val)"
      using rt len z unfolding runtime_ok_def by blast
    moreover have "sz = c" "us = ?sz" "buf = dst"
      using form z True by (auto simp: compressed_form_def Let_def)
    ultimately show ?thesis using True less by (auto intro: less_trans)
  next
    case False
    then have "sz = ?sz" "us = 0" "buf = val"
      using form z False by (auto simp: compressed_form_def Let_def split: if_splits)
    then show ?thesis using u less by simp
  qed
  then show "unat sz = length buf" "sz < 0x80000000" "us < 0x80000000" "us = 0 \<Longrightarrow> buf = val"
    "us \<noteq> 0 \<Longrightarrow> us = ?sz \<and> ZSTD_decompressDCtx rt us buf = (us, val)" "sz \<le> ?sz" by auto
qed

lemma deserialize_encode:
  assumes rt: "runtime_ok rt" and fit: "fits rt data"
  shows "deserialize_entry rt (fst (encode rt data)) (snd (encode rt data)) s = Some (Inr data, s)"
proof -
  obtain val kind where v: "stored_form rt data = (val, kind)" by fastforce
  obtain sz us buf where c: "compressed_form rt val = (sz, us, buf)" using prod_cases3 by blast
  have len: "length val < 0x80000000" using fit v by (simp add: fits_def)
  note C = compressed_form_cases [OF rt len c]
  note F = make_header_fields [OF C(2,3)]
  let ?h = "make_header sz kind us"
  have e: "encode rt data = (?h, buf)" by (simp add: encode_def v c C(1) Let_def)
  have kind: "(if kind_bit kind = kind_bit KIND_STRING then String_block val else caml_input_value rt val) = data"
    using v rt by (cases data) (auto simp: stored_form_def kind_bit_def runtime_ok_def)
  show ?thesis
  proof (cases "us = 0")
    case True
    then show ?thesis using F C(1,4) kind by (simp add: e deserialize_entry_def op_simps Let_def split: if_splits)
  next
    case False
    then show ?thesis using F C(5) len kind
      by (simp add: e deserialize_entry_def op_simps Let_def unat_length split: if_splits)
  qed
qed

lemma deserialize_encoded:
  assumes rt: "runtime_ok rt" and fit: "fits rt data" and a: "1 < a" and e: "entry_at s a = encode rt data"
  shows "hh_deserialize rt a s = Some (Inr data, s)"
proof -
  have h: "load64 (mem s) a = fst (encode rt data)"
    and src: "read_bytes (mem s) (a + 8) (unat (Entry_size (load64 (mem s) a))) = snd (encode rt data)"
    unfolding e [symmetric] by (simp_all add: entry_at_def)
  show ?thesis using deserialize_encode [OF rt fit, of s] a src by (simp add: hh_deserialize_def op_simps h)
qed

lemma entry_size_encode:
  assumes rt: "runtime_ok rt" and fit: "fits rt data"
  shows "unat (Entry_size (fst (encode rt data))) = length (snd (encode rt data))"
    and "bit (fst (encode rt data)) 0"
proof -
  obtain val kind where v: "stored_form rt data = (val, kind)" by fastforce
  obtain sz us buf where c: "compressed_form rt val = (sz, us, buf)" using prod_cases3 by blast
  have len: "length val < 0x80000000" using fit v by (simp add: fits_def)
  note C = compressed_form_cases [OF rt len c]
  note F = make_header_fields [OF C(2,3), of kind]
  show "unat (Entry_size (fst (encode rt data))) = length (snd (encode rt data))"
    using F(1) C(1) by (simp add: encode_def v c Let_def)
  show "bit (fst (encode rt data)) 0"
    by (simp add: encode_def v c Let_def make_header_def bit_simps)
qed

lemma encode_shrinks:
  assumes "runtime_ok rt" and "fits rt data"
  shows "length (snd (encode rt data)) \<le> length (fst (stored_form rt data))"
proof -
  obtain val kind where v: "stored_form rt data = (val, kind)" by fastforce
  obtain sz us buf where c: "compressed_form rt val = (sz, us, buf)" using prod_cases3 by blast
  have len: "length val < 0x80000000" using assms(2) v by (simp add: fits_def)
  show ?thesis using compressed_form_cases(1,6) [OF assms(1) len c] unat_length [OF len]
    by (simp add: encode_def v c Let_def word_le_nat_alt)
qed

text \<open>What a successful store does to the state.\<close>

definition put_entry :: "entry \<Rightarrow> hh \<Rightarrow> hh" where
  "put_entry e s = s\<lparr>heap := heap s + block_size (fst e),
     mem := memcpy (store64 (mem s) (heap s) (fst e)) (heap s + 8) (snd e)\<rparr>"

lemma store_ocaml_eq:
  assumes rt: "runtime_ok rt" and fit: "fits rt data" and top: "heap s < 2 ^ 63"
  shows "\<exists>alloc_size orig_size. hh_store_ocaml rt data s =
     (if heap_max s < heap s + block_size (fst (encode rt data))
      then Some (Inl Heap_full, s\<lparr>heap := heap s + block_size (fst (encode rt data))\<rparr>)
      else Some (Inr (heap s, alloc_size, orig_size), put_entry (encode rt data) s))
     \<and> unat alloc_size = length (snd (encode rt data)) \<and> unat orig_size = length (fst (stored_form rt data))
     \<and> alloc_size \<le> orig_size"
proof -
  obtain val kind where v: "stored_form rt data = (val, kind)" by fastforce
  obtain sz us buf where c: "compressed_form rt val = (sz, us, buf)" using prod_cases3 by blast
  have len: "length val < 0x80000000" using fit v by (simp add: fits_def)
  note C = compressed_form_cases [OF rt len c]
  let ?h = "make_header sz kind us"
  have e: "encode rt data = (?h, buf)" by (simp add: encode_def v c C(1) Let_def)
  have small: "(word_of_nat (length val) :: u64) < 0x80000000"
    using len unat_length [OF len] by (simp add: word_less_nat_alt)
  have "\<not> bit (word_of_nat (length val) :: u64) 63" using bit_less_31 [OF small, of 63] by auto
  moreover have "(heap s + block_size ?h) mod 2 ^ 64 = heap s + block_size ?h"
  proof (rule mod_less)
    have "block_size ?h < 2 ^ 31 + 72" using block_size_bounds(2) [of ?h] Entry_size_less [of ?h] by simp
    then show "heap s + block_size ?h < 2 ^ 64" using top by simp
  qed
  ultimately have "hh_store_ocaml rt data s =
     (if heap_max s < heap s + block_size ?h
      then Some (Inl Heap_full, s\<lparr>heap := heap s + block_size ?h\<rparr>)
      else Some (Inr (heap s, sz, word_of_nat (length val)), put_entry (?h, buf) s))"
    by (simp add: hh_store_ocaml_def v c Let_def op_simps small hh_alloc_def C(1) put_entry_def flip: block_size_def)
  then show ?thesis using C(1,6) unat_length [OF len] by (intro exI [of _ sz] exI [of _ "word_of_nat (length val)"]) (simp add: e v)
qed

lemma put_entry_sel [simp]:
  "heap_max (put_entry e s) = heap_max s" "heap_init (put_entry e s) = heap_init s"
  "hashtbl (put_entry e s) = hashtbl s" "hashtbl_size (put_entry e s) = hashtbl_size s"
  "hcounter (put_entry e s) = hcounter s" "wasted_heap_size (put_entry e s) = wasted_heap_size s"
  "heap (put_entry e s) = heap s + block_size (fst e)" "layout (put_entry e s) = layout s"
  by (simp_all add: put_entry_def layout_def)

lemma put_entry_below: "x < heap s \<Longrightarrow> mem (put_entry e s) x = mem s x"
  by (simp add: put_entry_def memcpy_other store64_other)

lemma put_entry_at:
  assumes "unat (Entry_size (fst e)) = length (snd e)"
  shows "entry_at (put_entry e s) (heap s) = e"
  using assms read_bytes_memcpy [of "store64 (mem s) (heap s) (fst e)" "heap s + 8" "snd e"]
  by (simp add: entry_at_def put_entry_def)

subsection \<open>Tilings\<close>

text \<open>The memory between two addresses is a row of blocks, each starting with a header (low bit set)
  that gives its size.\<close>

fun tiled :: "memory \<Rightarrow> nat \<Rightarrow> nat \<Rightarrow> nat list \<Rightarrow> bool" where
  "tiled m a e [] \<longleftrightarrow> a = e"
| "tiled m a e (b # bs) \<longleftrightarrow> a = b \<and> bit (load64 m b) 0 \<and> b + block_size (load64 m b) \<le> e
     \<and> tiled m (b + block_size (load64 m b)) e bs"

lemma tiled_le: "tiled m a e bs \<Longrightarrow> a \<le> e"
  by (cases bs) auto

lemma tiled_in: "tiled m a e bs \<Longrightarrow> b \<in> set bs \<Longrightarrow> a \<le> b \<and> b + block_size (load64 m b) \<le> e \<and> bit (load64 m b) 0"
  by (induction bs arbitrary: a) fastforce+

lemma tiled_cong:
  "tiled m a e bs \<Longrightarrow> (\<And>x. a \<le> x \<Longrightarrow> x < e \<Longrightarrow> m' x = m x) \<Longrightarrow> tiled m' a e bs"
proof (induction bs arbitrary: a)
  case (Cons b bs)
  have "load64 m' b = load64 m b"
    using Cons.prems block_size_pos [of "load64 m b"] by (intro load64_cong) auto
  then show ?case using Cons by auto
qed simp

lemma tiled_snoc:
  "tiled m a e bs \<Longrightarrow> bit (load64 m e) 0 \<Longrightarrow> tiled m a (e + block_size (load64 m e)) (bs @ [e])"
  by (induction bs arbitrary: a) (auto dest: tiled_le)

lemma tiled_distinct: "tiled m a e bs \<Longrightarrow> distinct bs"
proof (induction bs arbitrary: a)
  case (Cons b bs)
  then show ?case using block_size_pos [of "load64 m b"] tiled_in [of m "b + block_size (load64 m b)" e bs b] by auto
qed simp

lemma tiled_sum: "tiled m a e bs \<Longrightarrow> a + (\<Sum>b\<leftarrow>bs. block_size (load64 m b)) = e"
proof (induction bs arbitrary: a)
  case (Cons b bs)
  then have "b + block_size (load64 m b) + (\<Sum>b\<leftarrow>bs. block_size (load64 m b)) = e" by auto
  then show ?case using Cons.prems by simp
qed simp

lemma tiled_apart:
  "tiled m a e bs \<Longrightarrow> b \<in> set bs \<Longrightarrow> b' \<in> set bs \<Longrightarrow> b \<noteq> b' \<Longrightarrow>
     b + block_size (load64 m b) \<le> b' \<or> b' + block_size (load64 m b') \<le> b"
proof (induction bs arbitrary: a)
  case (Cons c cs)
  then show ?case using tiled_in [of m "c + block_size (load64 m c)" e cs] by auto
qed simp

lemma entry_at_cong:
  assumes "\<And>x. a \<le> x \<Longrightarrow> x < a + block_size (load64 (mem s) a) \<Longrightarrow> mem s' x = mem s x"
  shows "entry_at s' a = entry_at s a"
proof -
  have h: "load64 (mem s') a = load64 (mem s) a"
    using assms block_size_pos [of "load64 (mem s) a"] by (intro load64_cong) auto
  moreover have "read_bytes (mem s') (a + 8) (unat (Entry_size (load64 (mem s) a)))
     = read_bytes (mem s) (a + 8) (unat (Entry_size (load64 (mem s) a)))"
    using assms block_size_bounds(1) [of "load64 (mem s) a"] by (intro read_bytes_cong) auto
  ultimately show ?thesis by (simp add: entry_at_def)
qed

subsection \<open>A concrete runtime\<close>

text \<open>Marshalling is the identity on byte lists; the compressor shortens rows of zeros and reports
  an error on everything else.\<close>

definition demo_runtime :: "u8 list runtime" where
  "demo_runtime = \<lparr>caml_output_value = (\<lambda>v. v), caml_input_value = Other_value,
     ZSTD_compressBound = (\<lambda>n. n + 64),
     ZSTD_compress2 = (\<lambda>cap src. if length src < 256 \<and> src = replicate (length src) 0
        then (1, [word_of_nat (length src)]) else (0xFFFFFFFFFFFFFFFF, [])),
     ZSTD_decompressDCtx = (\<lambda>cap src. (word_of_nat (unat (hd src)), replicate (unat (hd src)) 0))\<rparr>"

lemma demo_runtime_ok: "runtime_ok demo_runtime"
proof -
  have n: "unat (word_of_nat n :: u8) = n" if "n < 256" for n
    using that by (simp add: unat_of_nat take_bit_eq_mod)
  moreover have "(ucast (word_of_nat n :: u8) :: u64) = word_of_nat n" if "n < 256" for n
    using n [OF that] by (metis of_nat_unat)
  ultimately show ?thesis by (auto simp: runtime_ok_def demo_runtime_def zstd_error_def split: if_splits)
qed

subsection \<open>Properties\<close>

text \<open>C19: Storing a value smaller than 2 GB and deserialising the entry at the returned address gives
  the value back, whether it was a string or marshalled and whether it was compressed or not. The
  store takes a whole number of cache lines from the top of the heap, reports the number of bytes it
  stored behind the header and the size before compression, and touches no byte below the old top.\<close>

theorem hh_store_deserialize:
  assumes "runtime_ok rt" and "fits rt data" and "layout s" and "heap s + block_size (fst (encode rt data)) \<le> heap_max s"
    and "1 < heap s"
  shows "\<exists>s' alloc_size orig_size. hh_store_ocaml rt data s = Some (Inr (heap s, alloc_size, orig_size), s')
     \<and> hh_deserialize rt (heap s) s' = Some (Inr data, s')
     \<and> heap s' = heap s + block_size (fst (encode rt data)) \<and> 64 dvd heap s' - heap s
     \<and> unat alloc_size = length (snd (encode rt data)) \<and> unat orig_size = length (fst (stored_form rt data))
     \<and> alloc_size \<le> orig_size
     \<and> (\<forall>x<heap s. mem s' x = mem s x)"
proof -
  let ?e = "encode rt data"
  have "heap s < 2 ^ 63" using assms(3,4) by (simp add: layout_def)
  then obtain al os where "hh_store_ocaml rt data s = Some (Inr (heap s, al, os), put_entry ?e s)"
    "unat al = length (snd ?e)" "unat os = length (fst (stored_form rt data))" "al \<le> os"
    using store_ocaml_eq [OF assms(1,2), of s] assms(4) by auto
  moreover have "hh_deserialize rt (heap s) (put_entry ?e s) = Some (Inr data, put_entry ?e s)"
    using assms put_entry_at [OF entry_size_encode(1) [OF assms(1,2)], of s] by (intro deserialize_encoded) auto
  ultimately show ?thesis using put_entry_below [of _ s ?e] block_size_dvd by auto
qed

theorem hh_store_deserialize_witness:
  "\<exists>s' alloc_size orig_size. hh_store_ocaml demo_runtime (String_block [0, 0, 0, 0]) demo = Some (Inr (heap demo, alloc_size, orig_size), s')
     \<and> hh_deserialize demo_runtime (heap demo) s' = Some (Inr (String_block [0, 0, 0, 0]), s')"
proof -
  let ?d = "String_block [0, 0, 0, 0] :: u8 list caml"
  have F: "layout demo" "heap demo = heap_init demo" "unat (heap_size demo) = 4096"
    using demo_facts by (auto simp: fresh_def)
  have "compressed_form demo_runtime [0, 0, 0, 0] = (1, 4, [4])"
    by (simp add: compressed_form_def demo_runtime_def Let_def)
  then have "encode demo_runtime ?d = (make_header 1 KIND_STRING 4, [4])"
    by (simp add: encode_def stored_form_def)
  moreover have "block_size (make_header 1 KIND_STRING 4) = 64"
    by (simp add: block_size_eq make_header_fields)
  ultimately have "heap demo + block_size (fst (encode demo_runtime ?d)) \<le> heap_max demo" "1 < heap demo"
    using F layout_heap_init [OF F(1)] by (auto simp: layout_def)
  moreover have "fits demo_runtime ?d" by (simp add: fits_def stored_form_def)
  ultimately show ?thesis using hh_store_deserialize [OF demo_runtime_ok _ F(1), of ?d] by blast
qed

text \<open>C35: A store that does not fit raises \<open>Heap_full\<close> but keeps the heap pointer advanced past
  \<open>heap_max\<close>: the next store, however small, raises \<open>Heap_full\<close> as well.\<close>

theorem heap_full_sticks:
  assumes "runtime_ok rt" and "fits rt data" and "fits rt data'" and "layout s" and "heap s \<le> heap_max s"
    and "heap_max s < heap s + block_size (fst (encode rt data))"
  shows "\<exists>s' s''. hh_store_ocaml rt data s = Some (Inl Heap_full, s') \<and> heap_max s' < heap s'
     \<and> hh_store_ocaml rt data' s' = Some (Inl Heap_full, s'')"
proof -
  let ?b = "block_size (fst (encode rt data))"
  let ?s = "s\<lparr>heap := heap s + ?b\<rparr>"
  have "hh_store_ocaml rt data s = Some (Inl Heap_full, ?s)"
    using store_ocaml_eq [OF assms(1,2), of s] assms(4-6) by (auto simp: layout_def)
  moreover have "\<exists>s''. hh_store_ocaml rt data' ?s = Some (Inl Heap_full, s'')"
  proof -
    have "?b < 2 ^ 31 + 72"
      using block_size_bounds(2) [of "fst (encode rt data)"] Entry_size_less [of "fst (encode rt data)"] by simp
    then have "heap ?s < 2 ^ 63" using assms(4,5) by (simp add: layout_def)
    then show ?thesis using store_ocaml_eq [OF assms(1,3), of ?s] assms(6) by auto
  qed
  ultimately show ?thesis using assms(6) by auto
qed

theorem heap_full_sticks_witness:
  "\<exists>s' s''. hh_store_ocaml demo_runtime (String_block [1, 2]) (demo\<lparr>heap := heap_max demo\<rparr>) = Some (Inl Heap_full, s')
     \<and> heap_max s' < heap s' \<and> hh_store_ocaml demo_runtime (String_block []) s' = Some (Inl Heap_full, s'')"
proof (rule heap_full_sticks [OF demo_runtime_ok])
  show "layout (demo\<lparr>heap := heap_max demo\<rparr>)" using demo_facts(1) by (simp add: fresh_def)
  show "heap_max (demo\<lparr>heap := heap_max demo\<rparr>)
     < heap (demo\<lparr>heap := heap_max demo\<rparr>) + block_size (fst (encode demo_runtime (String_block [1, 2])))"
    using block_size_pos [of "fst (encode demo_runtime (String_block [1, 2]))"] by simp
qed (simp_all add: fits_def stored_form_def)

text \<open>C31: Start-up primes zstd with the whole compression dictionary: the length declared beside the array is
  the array's (no byte behind it is read, none is left out), the array starts with the magic number of zstd
  dictionaries, and the compression (level 5) and the decompression context refer to the same bytes. So the
  codec of the process satisfies the law that the theorems on the heap rely on (\<open>runtime_ok\<close>), whatever zstd
  and marshaller are used, as long as decompression with a dictionary inverts compression with that very
  dictionary and unmarshalling inverts marshalling; and a worker that connects after the fork has the same codec,
  so it can read what the master stored.\<close>

theorem hh_shared_init_zstd:
  assumes "startable os cfg base" and "zstd_ok z" and "\<And>v. input_value (output_value v) = Other_value v"
  shows "\<exists>s'. hh_shared_init os cfg s = Some (Inr Val_unit, s')
     \<and> zstd_compression_context s' = Some (dictionary_compression_data, 5)
     \<and> zstd_decompression_context s' = Some dictionary_compression_data
     \<and> length dictionary_compression_data = unat dictionary_compression_data_length
     \<and> (\<Sum>i<4. unat (dictionary_compression_data ! i) * 256 ^ i) = 0xEC30A437
     \<and> runtime_ok (process_runtime output_value input_value z s')
     \<and> (\<forall>os'. \<exists>s''. hh_connect os' s' = Some (Inr Val_unit, s'')
          \<and> process_runtime output_value input_value z s'' = process_runtime output_value input_value z s')"
proof -
  obtain s' where s': "hh_shared_init os cfg s = Some (Inr Val_unit, s')"
    and c: "zstd_compression_context s' = Some (dictionary_compression_data, zstd_compression_level)"
      "zstd_decompression_context s' = Some dictionary_compression_data"
    using shared_init_runs [OF assms(1), of s] by blast
  have "runtime_ok (process_runtime output_value input_value z s')"
    using assms(2,3) by (simp add: runtime_ok_def process_runtime_def zstd_ok_def c)
  moreover have "\<exists>s''. hh_connect os' s' = Some (Inr Val_unit, s'')
      \<and> process_runtime output_value input_value z s'' = process_runtime output_value input_value z s'" for os'
    by (simp add: hh_connect_def op_simps process_runtime_def)
  ultimately show ?thesis using s' c dictionary_length dictionary_magic by (simp add: zstd_compression_level_def)
qed

text \<open>A codec whose output depends on the dictionary.\<close>

definition demo_zstd :: zstd where
  "demo_zstd = \<lparr>z_compressBound = (\<lambda>n. n + 64),
     z_compress2 = (\<lambda>c cap src. case c of
         Some (d, l) \<Rightarrow> if length src < 256 \<and> src = replicate (length src) 0 then (1, [word_of_nat (length src) + hd d]) else (0xFFFFFFFFFFFFFFFF, [])
       | None \<Rightarrow> (0xFFFFFFFFFFFFFFFF, [])),
     z_decompressDCtx = (\<lambda>c cap src. case c of
         Some d \<Rightarrow> (word_of_nat (unat (hd src - hd d)), replicate (unat (hd src - hd d)) 0)
       | None \<Rightarrow> (0xFFFFFFFFFFFFFFFF, []))\<rparr>"

lemma demo_zstd_ok: "zstd_ok demo_zstd"
proof -
  have n: "unat (word_of_nat n :: u8) = n" if "n < 256" for n
    using that by (simp add: unat_of_nat take_bit_eq_mod)
  moreover have "(ucast (word_of_nat n :: u8) :: u64) = word_of_nat n" if "n < 256" for n
    using n [OF that] by (metis of_nat_unat)
  ultimately show ?thesis by (auto simp: zstd_ok_def demo_zstd_def zstd_error_def split: if_splits)
qed

theorem hh_shared_init_zstd_witness:
  "\<exists>s'. hh_shared_init demo_os demo_config hh_start = Some (Inr Val_unit, s')
     \<and> runtime_ok (process_runtime (\<lambda>v :: u8 list. v) Other_value demo_zstd s')"
  using hh_shared_init_zstd [OF demo_startable demo_zstd_ok, of Other_value "\<lambda>v :: u8 list. v" hh_start] by auto

end
