(* ===== verification/Hh_Hashtbl.thy ===== *)
theory Hh_Hashtbl
  imports Hh_Heap Linear_Probing
begin

text \<open>
  The shared hashtable: its operations as one process runs them, the invariant that ties table and
  heap together, and the refinement of every operation to an abstract table. The operations are
  those of a process that runs alone; \<open>Hh_Concurrent\<close> treats the interleavings.
\<close>

subsection \<open>Operations\<close>

text \<open>Keys are OCaml strings (MD5 digests); the hash is the first word of the string's block.\<close>

definition get_hash :: "u8 list \<Rightarrow> u64" where
  "get_hash key = word_of_bytes (\<lambda>i. caml_string_block key ! i)"

record slots_stats_t =
  nonempty_slots :: u64
  filled_slots :: u64

definition get_slots_stats :: "slots_stats_t hh_op" where
  "get_slots_stats =
     op_bind (gets (\<lambda>s. fold (\<lambda>i st.
         let st1 = (if ht_hash s i \<noteq> 0 then st\<lparr>nonempty_slots := nonempty_slots st + 1\<rparr> else st)
         in if ht_addr s i = NULL then st1 else st1\<lparr>filled_slots := filled_slots st1 + 1\<rparr>)
       [0..<ht_slots s] \<lparr>nonempty_slots = 0, filled_slots = 0\<rparr>)) (\<lambda>stats.
     op_seq (c_assert 426 (\<lambda>s. nonempty_slots stats = hcounter s))
     (ret stats))"

definition hh_hash_used_slots :: "(ocaml_value \<times> ocaml_value) hh_op" where
  "hh_hash_used_slots =
     op_bind get_slots_stats (\<lambda>stats.
     ret (Val_long (filled_slots stats), Val_long (nonempty_slots stats)))"

definition raise_hash_table_full :: "'a hh_op" where
  "raise_hash_table_full = op_bind get_slots_stats (\<lambda>stats. throw Hash_table_full)"

text \<open>The process runs alone, so the compare-and-swap on the address succeeds exactly when the address
  is NULL. An exception of the permission check or of the store leaves the marker in the slot.\<close>

definition write_at :: "'v runtime \<Rightarrow> u32 \<Rightarrow> 'v caml \<Rightarrow> (ocaml_value \<times> ocaml_value) hh_op" where
  "write_at rt slot data s =
     (if ht_addr s (unat slot) = NULL then
        op_seq (modify (set_ht_addr (unat slot) HASHTBL_WRITE_IN_PROGRESS))
       (op_seq assert_allow_hashtable_writes_by_current_process
       (op_bind (hh_store_ocaml rt data) (\<lambda>(addr, alloc_size, orig_size).
        op_seq (modify (set_ht_addr (unat slot) (word_of_nat addr)))
       (ret (Val_long alloc_size, Val_long orig_size))))) s
      else Some (Inr (Min_long, Min_long), s))"

text \<open>Slot numbers are \<open>unsigned int\<close>: 32 bits, widened for the mask and narrowed again.\<close>

definition hash_slot :: "hh \<Rightarrow> u64 \<Rightarrow> u32" where
  "hash_slot s hash = ucast (hash AND (hashtbl_size s - 1))"

definition next_slot :: "hh \<Rightarrow> u32 \<Rightarrow> u32" where
  "next_slot s slot = ucast ((ucast (slot + 1) :: u64) AND (hashtbl_size s - 1))"

definition hh_add_body ::
  "'v runtime \<Rightarrow> u64 \<Rightarrow> 'v caml \<Rightarrow> hh \<Rightarrow> u32 \<Rightarrow> ((hh_error + ocaml_value \<times> ocaml_value) \<times> hh) option + u32" where
  "hh_add_body rt hash data s slot =
     (let slot_hash = ht_hash s (unat slot) in
      if slot_hash = hash then Inl (write_at rt slot data s)
      else if hashtbl_size s \<le> hcounter s then Inl (raise_hash_table_full s)
      else if slot_hash = 0 then
        Inl (let size = hcounter s in
             op_seq (modify (\<lambda>s. (set_ht_hash (unat slot) hash s)\<lparr>hcounter := hcounter s + 1\<rparr>))
            (op_seq (c_assert 1309 (\<lambda>s. size < hashtbl_size s))
            (write_at rt slot data)) s)
      else if next_slot s slot = hash_slot s hash then Inl (raise_hash_table_full s)
      else Inr (next_slot s slot))"

definition hh_add :: "'v runtime \<Rightarrow> u8 list \<Rightarrow> 'v caml \<Rightarrow> (ocaml_value \<times> ocaml_value) hh_op" where
  "hh_add rt key data s =
     (let hash = get_hash key in
      Option.bind (while1 (hh_add_body rt hash data s) (hash_slot s hash)) (\<lambda>r. r))"

definition find_slot_body :: "u64 \<Rightarrow> hh \<Rightarrow> u32 \<Rightarrow> ((hh_error + u32) \<times> hh) option + u32" where
  "find_slot_body hash s slot =
     (if ht_hash s (unat slot) = hash then Inl (Some (Inr slot, s))
      else if ht_hash s (unat slot) = 0 then Inl (Some (Inr slot, s))
      else if next_slot s slot = hash_slot s hash then Inl (raise_hash_table_full s)
      else Inr (next_slot s slot))"

definition find_slot :: "u8 list \<Rightarrow> u32 hh_op" where
  "find_slot key s =
     (let hash = get_hash key in
      Option.bind (while1 (find_slot_body hash s) (hash_slot s hash)) (\<lambda>r. r))"

text \<open>\<open>hh_mem_inner\<close> waits while the marker is in the slot; the clock gives the successive results of
  \<open>time(0)\<close>. While this process waits nobody changes the slot, so the wait ends by the time-out or
  never.\<close>

type_synonym clock = "nat \<Rightarrow> int"

definition mem_wait_body :: "clock \<Rightarrow> hh \<Rightarrow> u32 \<Rightarrow> nat \<times> int \<Rightarrow> (hh_error + int) + nat \<times> int" where
  "mem_wait_body time s slot = (\<lambda>(j, start).
     if ht_addr s (unat slot) = HASHTBL_WRITE_IN_PROGRESS then
       (let now = time j in
        if start = 0 \<or> now < start then Inr (j + 1, now)
        else if 60 < now - start then Inl (Inl (Failure ''hh_mem busy-wait loop stuck for 60s''))
        else Inr (j + 1, start))
     else Inl (Inr 1))"

definition hh_mem_inner :: "clock \<Rightarrow> u8 list \<Rightarrow> int hh_op" where
  "hh_mem_inner time key =
     op_bind (find_slot key) (\<lambda>slot s.
       let good_hash = (ht_hash s (unat slot) = get_hash key);
           non_null_addr = (ht_addr s (unat slot) \<noteq> NULL)
       in if good_hash \<and> non_null_addr then map_option (\<lambda>r. (r, s)) (while1 (mem_wait_body time s slot) (0, 0))
          else if good_hash then Some (Inr (-2), s)
          else Some (Inr (-1), s))"

definition hh_mem :: "clock \<Rightarrow> u8 list \<Rightarrow> ocaml_value hh_op" where
  "hh_mem time key = op_bind (hh_mem_inner time key) (\<lambda>res. ret (Val_bool (res = 1)))"

definition hh_mem_status :: "clock \<Rightarrow> u8 list \<Rightarrow> ocaml_value hh_op" where
  "hh_mem_status time key = op_bind (hh_mem_inner time key) (\<lambda>res.
     if res = 1 \<or> res = -1 \<or> res = -2 then ret (Val_long (word_of_int res))
     else throw (Failure ''Unreachable case: result must be 1 or -1 or -2''))"

definition hh_get_and_deserialize :: "'v runtime \<Rightarrow> u8 list \<Rightarrow> 'v caml hh_op" where
  "hh_get_and_deserialize rt key =
     op_bind (find_slot key) (\<lambda>slot.
     op_seq (c_assert 1482 (\<lambda>s. ht_hash s (unat slot) = get_hash key))
     (op_bind (gets (\<lambda>s. unat (ht_addr s (unat slot)))) (hh_deserialize rt)))"

text \<open>\<open>addr->header\<close>, which NULL and the marker do not have.\<close>

definition deref_header :: "u64 \<Rightarrow> hh_header_t hh_op" where
  "deref_header addr =
     (if addr = NULL \<or> addr = HASHTBL_WRITE_IN_PROGRESS then throw Invalid_access
      else gets (\<lambda>s. load64 (mem s) (unat addr)))"

definition hh_get_size :: "u8 list \<Rightarrow> ocaml_value hh_op" where
  "hh_get_size key =
     op_bind (find_slot key) (\<lambda>slot.
     op_seq (c_assert 1495 (\<lambda>s. ht_hash s (unat slot) = get_hash key))
     (op_bind (gets (\<lambda>s. ht_addr s (unat slot))) (\<lambda>addr.
      op_bind (deref_header addr) (\<lambda>header.
      ret (Long_val (Entry_size header))))))"

definition hh_move :: "u8 list \<Rightarrow> u8 list \<Rightarrow> unit hh_op" where
  "hh_move key1 key2 =
     op_bind (find_slot key1) (\<lambda>slot1.
     op_bind (find_slot key2) (\<lambda>slot2.
     op_seq assert_master
    (op_seq assert_allow_removes
    (op_seq (c_assert 1512 (\<lambda>s. ht_hash s (unat slot1) = get_hash key1))
    (op_seq (c_assert 1513 (\<lambda>s. ht_addr s (unat slot2) = NULL))
    (op_seq (modify (\<lambda>s. if ht_hash s (unat slot2) = 0 then s\<lparr>hcounter := hcounter s + 1\<rparr> else s))
    (op_seq (modify (set_ht_hash (unat slot2) (get_hash key2)))
    (op_seq (modify (\<lambda>s. set_ht_addr (unat slot2) (ht_addr s (unat slot1)) s))
    (modify (set_ht_addr (unat slot1) NULL))))))))))"

definition hh_remove :: "u8 list \<Rightarrow> unit hh_op" where
  "hh_remove key =
     op_bind (find_slot key) (\<lambda>slot.
     op_seq assert_master
    (op_seq assert_allow_removes
    (op_seq (c_assert 1533 (\<lambda>s. ht_hash s (unat slot) = get_hash key))
    (op_bind (gets (\<lambda>s. ht_addr s (unat slot))) (\<lambda>addr.
     op_bind (deref_header addr) (\<lambda>header.
     op_seq (modify (\<lambda>s. s\<lparr>wasted_heap_size := wasted_heap_size s + ALIGNED (Heap_entry_total_size header)\<rparr>))
    (op_seq (modify (set_ht_addr (unat slot) NULL))
    (modify (\<lambda>s. s\<lparr>removed_count := removed_count s + 1\<rparr>)))))))))"


subsection \<open>The invariant and the abstract table\<close>

text \<open>
  The abstract table maps a hash to \<open>Some (Some e)\<close> when it is bound to the entry \<open>e\<close>, to
  \<open>Some None\<close> when its entry was removed (the slot keeps the hash), and to \<open>None\<close> otherwise.
  \<open>ht_rel\<close> relates a state to it: the slots are searchable by linear probing and counted by
  \<open>hcounter\<close>, no two slots share an entry, the heap is a row of blocks that contains every entry
  in use, and \<open>wasted_heap_size\<close> is the total size of the blocks not in use.
\<close>

interpretation htp: linear_probing "2 ^ p" "\<lambda>h. unat (h::u64) mod 2 ^ p" for p
  by unfold_locales simp_all

definition ht_view :: "hh \<Rightarrow> nat \<Rightarrow> u64 slot_view" where
  "ht_view s i = (if ht_hash s i = 0 then Free else Keyed (ht_hash s i))"

definition ht_sized :: "nat \<Rightarrow> hh \<Rightarrow> bool" where
  "ht_sized p s \<longleftrightarrow> layout s \<and> p \<le> 32 \<and> hashtbl_size s = 2 ^ p"

definition slots_ok :: "nat \<Rightarrow> hh \<Rightarrow> bool" where
  "slots_ok p s \<longleftrightarrow> htp.searchable p (ht_view s)
   \<and> card {i. i < 2 ^ p \<and> ht_hash s i \<noteq> 0} = unat (hcounter s)
   \<and> (\<forall>i<2 ^ p. ht_hash s i = 0 \<longrightarrow> ht_addr s i = 0)
   \<and> inj_on (ht_addr s) {i. i < 2 ^ p \<and> ht_addr s i \<noteq> 0}"

definition live :: "nat \<Rightarrow> hh \<Rightarrow> nat set" where
  "live p s = (\<lambda>i. unat (ht_addr s i)) ` {i. i < 2 ^ p \<and> ht_addr s i \<noteq> 0}"

definition heap_inv :: "nat \<Rightarrow> hh \<Rightarrow> nat list \<Rightarrow> bool" where
  "heap_inv p s bs \<longleftrightarrow> tiled (mem s) (heap_init s) (heap s) bs \<and> heap s \<le> heap_max s \<and> live p s \<subseteq> set bs
   \<and> unat (wasted_heap_size s) = (\<Sum>b\<in>set bs - live p s. block_size (load64 (mem s) b))"

type_synonym table = "u64 \<rightharpoonup> entry option"

definition slot_entry :: "hh \<Rightarrow> nat \<Rightarrow> entry option" where
  "slot_entry s i = (if ht_addr s i = 0 then None else Some (entry_at s (unat (ht_addr s i))))"

definition table_rel :: "nat \<Rightarrow> hh \<Rightarrow> table \<Rightarrow> bool" where
  "table_rel p s T \<longleftrightarrow> (\<forall>i<2 ^ p. ht_hash s i \<noteq> 0 \<longrightarrow> T (ht_hash s i) = Some (slot_entry s i))
   \<and> (\<forall>h. T h \<noteq> None \<longrightarrow> h \<noteq> 0 \<and> (\<exists>i<2 ^ p. ht_hash s i = h))"

definition ht_rel :: "nat \<Rightarrow> hh \<Rightarrow> table \<Rightarrow> bool" where
  "ht_rel p s T \<longleftrightarrow> ht_sized p s \<and> slots_ok p s \<and> (\<exists>bs. heap_inv p s bs) \<and> table_rel p s T"

subsection \<open>Scanning\<close>

lemma ht_sizedD: "ht_sized p s \<Longrightarrow> layout s" "ht_sized p s \<Longrightarrow> p \<le> 32" "ht_sized p s \<Longrightarrow> hashtbl_size s = 2 ^ p"
  "ht_sized p s \<Longrightarrow> ht_slots s = 2 ^ p"
  by (auto simp: ht_sized_def unat_pow2)

lemma stop_iff: "h \<noteq> 0 \<Longrightarrow> htp.stop (ht_view s) h i \<longleftrightarrow> ht_hash s i = 0 \<or> ht_hash s i = h"
  by (simp add: htp.stop_def ht_view_def)

lemma unat_hash_slot: "ht_sized p s \<Longrightarrow> unat (hash_slot s h) = unat h mod 2 ^ p"
proof -
  assume s: "ht_sized p s"
  note D = ht_sizedD [OF s]
  have "unat (hash_slot s h) = unat (h AND (2 ^ p - 1)) mod 2 ^ 32"
    using unat_ucast_32_mod [of 32 "h AND (2 ^ p - 1)"] unsigned_less [of "hash_slot s h", where 'a = nat]
    by (simp add: hash_slot_def D(3))
  also have "\<dots> = unat h mod 2 ^ p"
  proof -
    have "unat h mod 2 ^ p < 2 ^ 32" using D(2)
      by (meson less_le_trans mod_less_divisor one_le_numeral power_increasing zero_less_numeral zero_less_power)
    then show ?thesis using D(2) by (simp add: unat_and_mask)
  qed
  finally show ?thesis .
qed

lemma unat_next_slot: "ht_sized p s \<Longrightarrow> unat (next_slot s x) = (unat x + 1) mod 2 ^ p"
  by (simp add: next_slot_def ht_sizedD unat_mask_32 unat_plus_1_mod)

text \<open>Every loop over the slots of a key arrives at the slot where the scan stops.\<close>

lemma ht_probe:
  assumes s: "ht_sized p s" and q: "htp.first_stop p (ht_view s) h q"
    and go: "\<And>x. \<not> htp.stop (ht_view s) h (unat x) \<Longrightarrow> next_slot s x \<noteq> hash_slot s h \<Longrightarrow> body x = Inr (next_slot s x)"
  shows "\<exists>y. unat y = q \<and> while1 body (hash_slot s h) = while1 body y"
proof (rule htp.probe_loop [OF _ _ _ q, where nxt = "next_slot s"])
  show "unat (hash_slot s h) = unat h mod 2 ^ p" using s by (rule unat_hash_slot)
  show "unat (next_slot s x) = (unat x + 1) mod 2 ^ p" for x using s by (rule unat_next_slot)
  show "body x = Inr (next_slot s x)"
    if "\<not> htp.stop (ht_view s) h (unat x)" "unat (next_slot s x) \<noteq> unat h mod 2 ^ p" for x
    by (rule go [OF that(1)]) (use that(2) unat_hash_slot [OF s, of h] in auto)
qed

lemma ht_probe_full:
  assumes s: "ht_sized p s" and full: "\<And>i. i < 2 ^ p \<Longrightarrow> \<not> htp.stop (ht_view s) h i"
    and go: "\<And>x. \<not> htp.stop (ht_view s) h (unat x) \<Longrightarrow> next_slot s x \<noteq> hash_slot s h \<Longrightarrow> body x = Inr (next_slot s x)"
  shows "\<exists>y. unat y < 2 ^ p \<and> next_slot s y = hash_slot s h \<and> while1 body (hash_slot s h) = while1 body y"
proof -
  have "\<exists>y. unat y < 2 ^ p \<and> unat (next_slot s y) = unat h mod 2 ^ p \<and> while1 body (hash_slot s h) = while1 body y"
  proof (rule htp.probe_full [where nxt = "next_slot s" and v = "ht_view s"])
    show "unat (hash_slot s h) = unat h mod 2 ^ p" using s by (rule unat_hash_slot)
    show "unat (next_slot s x) = (unat x + 1) mod 2 ^ p" for x using s by (rule unat_next_slot)
    show "body x = Inr (next_slot s x)"
      if "\<not> htp.stop (ht_view s) h (unat x)" "unat (next_slot s x) \<noteq> unat h mod 2 ^ p" for x
      by (rule go [OF that(1)]) (use that(2) unat_hash_slot [OF s, of h] in auto)
    show "\<not> htp.stop (ht_view s) h i" if "i < 2 ^ p" for i using full that .
  qed
  then show ?thesis using unat_hash_slot [OF s, of h] by (metis word_unat_eq_iff)
qed

lemma stats_fold:
  "fold (\<lambda>i st. let st1 = (if P i then st\<lparr>nonempty_slots := nonempty_slots st + 1\<rparr> else st)
         in if Q i then st1 else st1\<lparr>filled_slots := filled_slots st1 + 1\<rparr>)
       [0..<n] \<lparr>nonempty_slots = 0, filled_slots = 0\<rparr>
   = \<lparr>nonempty_slots = word_of_nat (card {i. i < n \<and> P i}), filled_slots = word_of_nat (card {i. i < n \<and> \<not> Q i})\<rparr>"
proof (induction n)
  case (Suc n)
  have "{i. i < Suc n \<and> R i} = (if R n then insert n {i. i < n \<and> R i} else {i. i < n \<and> R i})" for R
    by (auto simp: less_Suc_eq)
  then show ?case using Suc by (simp add: card_insert_if)
qed simp

lemma get_slots_stats_ok:
  assumes "ht_sized p s" and "slots_ok p s"
  shows "get_slots_stats s = Some (Inr \<lparr>nonempty_slots = hcounter s,
     filled_slots = word_of_nat (card {i. i < 2 ^ p \<and> ht_addr s i \<noteq> 0})\<rparr>, s)"
proof -
  have "word_of_nat (card {i. i < 2 ^ p \<and> ht_hash s i \<noteq> 0}) = hcounter s" using assms(2) by (simp add: slots_ok_def)
  then show ?thesis
    unfolding get_slots_stats_def stats_fold by (simp add: op_simps NULL_def ht_sizedD(4) [OF assms(1)])
qed

lemma raise_full_ok: "ht_sized p s \<Longrightarrow> slots_ok p s \<Longrightarrow> raise_hash_table_full s = Some (Inl Hash_table_full, s)"
  by (simp add: raise_hash_table_full_def op_simps get_slots_stats_ok)

lemma room_free_slot:
  assumes s: "ht_sized p s" "slots_ok p s" and "hcounter s < hashtbl_size s"
  shows "\<exists>i<2 ^ p. ht_hash s i = 0"
proof -
  have "unat (hcounter s) < 2 ^ p" using assms(3) ht_sizedD(4) [OF s(1)] by (simp add: word_less_nat_alt)
  then have "card {i. i < 2 ^ p \<and> ht_hash s i \<noteq> 0} < 2 ^ p" using s(2) by (simp add: slots_ok_def)
  then show ?thesis using card_less_free [of "2 ^ p" "\<lambda>i. ht_hash s i \<noteq> 0"] by auto
qed

lemma find_slot_go:
  "h \<noteq> 0 \<Longrightarrow> \<not> htp.stop (ht_view s) h (unat x) \<Longrightarrow> next_slot s x \<noteq> hash_slot s h \<Longrightarrow>
     find_slot_body h s x = Inr (next_slot s x)"
  by (simp add: find_slot_body_def stop_iff)

text \<open>The slot at which the scan for a hash ends, according to the abstract table.\<close>

lemma scan_present:
  assumes R: "ht_rel p s T" and T: "T h = Some x"
  shows "h \<noteq> 0 \<and> (\<exists>q. htp.first_stop p (ht_view s) h q \<and> q < 2 ^ p \<and> ht_hash s q = h \<and> slot_entry s q = x)"
proof -
  obtain q where q: "h \<noteq> 0" "q < 2 ^ p" "ht_hash s q = h" using R T unfolding ht_rel_def table_rel_def by blast
  then have "htp.first_stop p (ht_view s) h q"
    using R by (simp add: ht_rel_def slots_ok_def htp.searchable_def ht_view_def)
  moreover have "slot_entry s q = x" using R T q by (auto simp: ht_rel_def table_rel_def)
  ultimately show ?thesis using q by blast
qed

lemma scan_absent:
  assumes R: "ht_rel p s T" and T: "T h = None" "h \<noteq> 0" and room: "hcounter s < hashtbl_size s"
  shows "\<exists>q. htp.first_stop p (ht_view s) h q \<and> q < 2 ^ p \<and> ht_hash s q = 0 \<and> ht_addr s q = 0"
proof -
  note S = R [unfolded ht_rel_def]
  obtain i where "i < 2 ^ p" "htp.stop (ht_view s) h i"
    using room_free_slot [OF _ _ room] S stop_iff [OF T(2)] by blast
  then obtain q where q: "htp.first_stop p (ht_view s) h q" using htp.first_stop_ex by blast
  then have "q < 2 ^ p" by (rule htp.first_stop_less)
  moreover have "ht_hash s q = 0"
    using htp.first_stop_stop [OF q] stop_iff [OF T(2)] S T calculation by (auto simp: table_rel_def)
  ultimately show ?thesis using q S by (auto simp: slots_ok_def)
qed

lemma find_slot_at:
  assumes "ht_sized p s" and "htp.first_stop p (ht_view s) (get_hash key) q" and "get_hash key \<noteq> 0"
  shows "\<exists>slot. find_slot key s = Some (Inr slot, s) \<and> unat slot = q"
proof -
  obtain y where y: "unat y = q" "while1 (find_slot_body (get_hash key) s) (hash_slot s (get_hash key))
     = while1 (find_slot_body (get_hash key) s) y"
    using ht_probe [OF assms(1,2) find_slot_go [OF assms(3)]] by auto
  have "find_slot_body (get_hash key) s y = Inl (Some (Inr y, s))"
    using htp.first_stop_stop [OF assms(2)] stop_iff [OF assms(3)] y(1) by (auto simp: find_slot_body_def)
  then show ?thesis using y by (simp add: find_slot_def while1_Inl)
qed

lemma find_slot_full:
  assumes R: "ht_rel p s T" and T: "T (get_hash key) = None" "get_hash key \<noteq> 0" and full: "hcounter s = hashtbl_size s"
  shows "find_slot key s = Some (Inl Hash_table_full, s)"
proof -
  note S = R [unfolded ht_rel_def]
  let ?h = "get_hash key"
  have "card {i. i < 2 ^ p \<and> ht_hash s i \<noteq> 0} = 2 ^ p"
    using S full ht_sizedD(4) [of p s] by (simp add: slots_ok_def)
  then have none: "\<not> htp.stop (ht_view s) ?h i" if "i < 2 ^ p" for i
    using card_full [of "2 ^ p" "\<lambda>i. ht_hash s i \<noteq> 0" i] that S T stop_iff [OF T(2)] by (auto simp: table_rel_def)
  obtain y where y: "unat y < 2 ^ p" "next_slot s y = hash_slot s ?h"
    "while1 (find_slot_body ?h s) (hash_slot s ?h) = while1 (find_slot_body ?h s) y"
    using ht_probe_full [OF _ none find_slot_go [OF T(2)]] S by auto
  have "find_slot_body ?h s y = Inl (raise_hash_table_full s)"
    using none [OF y(1)] y(2) stop_iff [OF T(2)] by (simp add: find_slot_body_def)
  then show ?thesis using y(3) raise_full_ok [of p s] S by (simp add: find_slot_def while1_Inl)
qed

subsection \<open>Effects on the abstract table\<close>

lemma table_rel_upd:
  assumes T: "table_rel p s T" and ok: "htp.searchable p (ht_view s)" and i: "i < 2 ^ p" "ht_hash s i \<noteq> 0"
    and hash: "\<And>j. j < 2 ^ p \<Longrightarrow> ht_hash s' j = ht_hash s j"
    and other: "\<And>j. j < 2 ^ p \<Longrightarrow> j \<noteq> i \<Longrightarrow> slot_entry s' j = slot_entry s j"
  shows "table_rel p s' (T(ht_hash s i \<mapsto> slot_entry s' i))"
proof -
  have "j = i" if "j < 2 ^ p" "ht_hash s j = ht_hash s i" for j
    using htp.searchable_unique [of p "ht_view s" j i "ht_hash s i"] ok that i by (auto simp: ht_view_def)
  then have "(T(ht_hash s i \<mapsto> slot_entry s' i)) (ht_hash s' j) = Some (slot_entry s' j)"
    if "j < 2 ^ p" "ht_hash s' j \<noteq> 0" for j
    using that T hash other by (cases "j = i") (auto simp: table_rel_def)
  moreover have "h \<noteq> 0 \<and> (\<exists>j<2 ^ p. ht_hash s' j = h)" if "(T(ht_hash s i \<mapsto> slot_entry s' i)) h \<noteq> None" for h
    using that T i hash unfolding table_rel_def by (metis fun_upd_apply)
  ultimately show ?thesis unfolding table_rel_def by blast
qed

lemma table_rel_cong:
  assumes "table_rel p s T" and "\<And>j. j < 2 ^ p \<Longrightarrow> ht_hash s' j = ht_hash s j"
    and "\<And>j. j < 2 ^ p \<Longrightarrow> slot_entry s' j = slot_entry s j"
  shows "table_rel p s' T"
  using assms unfolding table_rel_def by metis

text \<open>Writes to the table leave the heap alone, and the other way round.\<close>

lemma ht_write_mem:
  assumes "layout s" and "i < ht_slots s" and "heap_init s \<le> x"
  shows "mem (set_ht_addr i v s) x = mem s x" "mem (set_ht_hash i v s) x = mem s x"
  using assms by (auto simp: set_ht_addr_def set_ht_hash_def helt_addr_field_def layout_def intro!: store64_other)

lemma set_ht_sel [simp]:
  "heap (set_ht_addr i v s) = heap s" "heap_init (set_ht_addr i v s) = heap_init s"
  "heap_max (set_ht_addr i v s) = heap_max s" "hashtbl_size (set_ht_addr i v s) = hashtbl_size s"
  "hcounter (set_ht_addr i v s) = hcounter s" "wasted_heap_size (set_ht_addr i v s) = wasted_heap_size s"
  "heap (set_ht_hash i v s) = heap s" "heap_init (set_ht_hash i v s) = heap_init s"
  "heap_max (set_ht_hash i v s) = heap_max s" "hashtbl_size (set_ht_hash i v s) = hashtbl_size s"
  "hcounter (set_ht_hash i v s) = hcounter s" "wasted_heap_size (set_ht_hash i v s) = wasted_heap_size s"
  "my_pid (set_ht_addr i v s) = my_pid s" "my_pid (set_ht_hash i v s) = my_pid s"
  "master_pid (set_ht_addr i v s) = master_pid s" "master_pid (set_ht_hash i v s) = master_pid s"
  "allow_removes (set_ht_addr i v s) = allow_removes s" "allow_removes (set_ht_hash i v s) = allow_removes s"
  "allow_hashtable_writes_by_current_process (set_ht_addr i v s) = allow_hashtable_writes_by_current_process s"
  "allow_hashtable_writes_by_current_process (set_ht_hash i v s) = allow_hashtable_writes_by_current_process s"
  by (simp_all add: set_ht_addr_def set_ht_hash_def)

lemma put_entry_cells:
  assumes "layout s" and "heap_init s \<le> heap s" and "i < ht_slots s"
  shows "ht_addr (put_entry e s) i = ht_addr s i" "ht_hash (put_entry e s) i = ht_hash s i"
proof -
  have "hashtbl s + 16 * i + 16 \<le> heap s" using assms by (simp add: layout_def)
  then show "ht_addr (put_entry e s) i = ht_addr s i" "ht_hash (put_entry e s) i = ht_hash s i"
    by (auto simp: ht_addr_def ht_hash_def helt_addr_field_def put_entry_below intro!: load64_cong)
qed

lemma slots_ok_cong:
  assumes "slots_ok p s" and "\<And>j. j < 2 ^ p \<Longrightarrow> ht_hash s' j = ht_hash s j" and "hcounter s' = hcounter s"
    and "\<And>j. j < 2 ^ p \<Longrightarrow> ht_hash s j = 0 \<Longrightarrow> ht_addr s' j = 0"
    and "inj_on (ht_addr s') {i. i < 2 ^ p \<and> ht_addr s' i \<noteq> 0}"
  shows "slots_ok p s'"
proof -
  have "htp.searchable p (ht_view s') = htp.searchable p (ht_view s)"
    by (rule htp.searchable_cong) (simp add: ht_view_def assms(2))
  moreover have "{i. i < 2 ^ p \<and> ht_hash s' i \<noteq> 0} = {i. i < 2 ^ p \<and> ht_hash s i \<noteq> 0}" using assms(2) by auto
  ultimately show ?thesis using assms by (auto simp: slots_ok_def)
qed

lemma heap_inv_cong:
  assumes H: "heap_inv p s bs" and same: "heap_init s' = heap_init s" "heap s' = heap s" "heap_max s' = heap_max s"
    "wasted_heap_size s' = wasted_heap_size s" "live p s' = live p s"
    and m: "\<And>x. heap_init s \<le> x \<Longrightarrow> x < heap s \<Longrightarrow> mem s' x = mem s x"
  shows "heap_inv p s' bs"
proof -
  have t: "tiled (mem s) (heap_init s) (heap s) bs" using H by (simp add: heap_inv_def)
  have "load64 (mem s') b = load64 (mem s) b" if "b \<in> set bs" for b
    using tiled_in [OF t that] block_size_pos [of "load64 (mem s) b"] m by (intro load64_cong) auto
  then have "(\<Sum>b\<in>set bs - live p s. block_size (load64 (mem s') b)) = (\<Sum>b\<in>set bs - live p s. block_size (load64 (mem s) b))"
    by (intro sum.cong) auto
  then show ?thesis using H tiled_cong [OF t m] same by (simp add: heap_inv_def)
qed

lemma live_entry:
  assumes H: "heap_inv p s bs" and i: "i < 2 ^ p" "ht_addr s i \<noteq> 0"
  shows "unat (ht_addr s i) \<in> set bs" "heap_init s \<le> unat (ht_addr s i)"
    "unat (ht_addr s i) + block_size (load64 (mem s) (unat (ht_addr s i))) \<le> heap s"
proof -
  have t: "tiled (mem s) (heap_init s) (heap s) bs" using H by (simp add: heap_inv_def)
  show a: "unat (ht_addr s i) \<in> set bs" using H i by (auto simp: heap_inv_def live_def)
  show "heap_init s \<le> unat (ht_addr s i)"
    "unat (ht_addr s i) + block_size (load64 (mem s) (unat (ht_addr s i))) \<le> heap s"
    using tiled_in [OF t a] by auto
qed

lemma live_entry_cong:
  assumes H: "heap_inv p s bs" and i: "i < 2 ^ p"
    and m: "\<And>x. heap_init s \<le> x \<Longrightarrow> x < heap s \<Longrightarrow> mem s' x = mem s x" and a: "ht_addr s' i = ht_addr s i"
  shows "slot_entry s' i = slot_entry s i"
  using live_entry [OF H i] m a unfolding slot_entry_def by (auto intro!: entry_at_cong)

text \<open>Claiming a free slot at the end of the scan for a hash.\<close>

lemma claim_slot:
  assumes R: "ht_rel p s T" and h: "h \<noteq> 0" and q: "htp.first_stop p (ht_view s) h q" "ht_hash s q = 0"
    and room: "hcounter s < hashtbl_size s"
  shows "ht_rel p ((set_ht_hash q h s)\<lparr>hcounter := hcounter s + 1\<rparr>) (T(h \<mapsto> None))" (is "ht_rel p ?s _")
proof -
  note S = R [unfolded ht_rel_def]
  then obtain bs where H: "heap_inv p s bs" by blast
  have qn: "q < 2 ^ p" using q(1) by (rule htp.first_stop_less)
  have D: "layout s" "ht_slots s = 2 ^ p" using S ht_sizedD by blast+
  have addr: "ht_addr ?s = ht_addr s" by (rule ext) simp
  have hash: "ht_hash ?s j = (if j = q then h else ht_hash s j)" for j by simp
  have m: "mem ?s x = mem s x" if "heap_init s \<le> x" for x using ht_write_mem(2) [OF D(1) _ that] qn D(2) by simp
  have free: "ht_view s q = Free" "ht_addr s q = 0" using q qn S by (auto simp: ht_view_def slots_ok_def)
  have view: "ht_view ?s = (ht_view s)(q := Keyed h)" using h by (rule_tac ext) (simp add: ht_view_def)
  have "card {i. i < 2 ^ p \<and> ht_hash ?s i \<noteq> 0} = Suc (card {i. i < 2 ^ p \<and> ht_hash s i \<noteq> 0})"
    by (rule card_fill [of q]) (use qn q h in auto)
  moreover have "unat (hcounter s + 1) = Suc (unat (hcounter s))" using room by (rule unat_plus_1_less)
  ultimately have ok: "slots_ok p ?s"
    using S htp.searchable_fill_key [OF _ q(1) free(1)] free qn
    unfolding slots_ok_def view addr by simp
  have "heap_inv p ?s bs" by (rule heap_inv_cong [OF H]) (use m in \<open>auto simp: live_def addr\<close>)
  moreover have entry: "slot_entry ?s j = slot_entry s j" if "j < 2 ^ p" for j
    by (rule live_entry_cong [OF H that]) (use m in simp_all)
  moreover have "table_rel p ?s (T(h \<mapsto> None))"
  proof -
    have absent: "ht_hash s j \<noteq> h" if "j < 2 ^ p" for j
      using htp.first_stop_absent [OF _ q(1) free(1) that] S h unfolding slots_ok_def
      by (metis ht_view_def)
    have "slot_entry ?s q = None" using entry [OF qn] free by (simp add: slot_entry_def)
    then have "(T(h \<mapsto> None)) (ht_hash ?s j) = Some (slot_entry ?s j)" if "j < 2 ^ p" "ht_hash ?s j \<noteq> 0" for j
    proof (cases "j = q")
      case False
      then have "T (ht_hash s j) = Some (slot_entry s j)" using that S by (simp add: table_rel_def)
      then show ?thesis using False absent [OF that(1)] entry [OF that(1)] by simp
    qed simp
    moreover have "g \<noteq> 0 \<and> (\<exists>j<2 ^ p. ht_hash ?s j = g)" if g: "(T(h \<mapsto> None)) g \<noteq> None" for g
    proof (cases "g = h")
      case True
      then show ?thesis using h qn by auto
    next
      case False
      then obtain j where "g \<noteq> 0" "j < 2 ^ p" "ht_hash s j = g" using g S by (auto simp: table_rel_def)
      then show ?thesis using q(2) by auto
    qed
    ultimately show ?thesis unfolding table_rel_def by blast
  qed
  ultimately show ?thesis using S ok unfolding ht_rel_def by (auto simp: ht_sized_def)
qed

lemma wasted_bound:
  assumes "ht_rel p s T"
  shows "unat (wasted_heap_size s) < 2 ^ 62"
proof -
  obtain bs where H: "heap_inv p s bs" using assms by (auto simp: ht_rel_def)
  have t: "tiled (mem s) (heap_init s) (heap s) bs" using H by (simp add: heap_inv_def)
  have "unat (wasted_heap_size s) \<le> (\<Sum>b\<in>set bs. block_size (load64 (mem s) b))"
    using H by (auto simp: heap_inv_def intro: sum_mono2)
  also have "\<dots> = (\<Sum>b\<leftarrow>bs. block_size (load64 (mem s) b))"
    using tiled_distinct [OF t] by (simp add: sum_list_distinct_conv_sum_set)
  also have "\<dots> \<le> heap s" using tiled_sum [OF t] by simp
  also have "\<dots> < 2 ^ 62" using H assms by (auto simp: heap_inv_def ht_rel_def ht_sized_def layout_def)
  finally show ?thesis .
qed

text \<open>Allocating a block on top of the heap: until a slot refers to it, it counts as waste.\<close>

lemma alloc_block:
  assumes R: "ht_rel p s T" and H: "heap_inv p s bs"
    and e: "unat (Entry_size (fst e)) = length (snd e)" "bit (fst e) 0"
    and room: "heap s + block_size (fst e) \<le> heap_max s"
    and w: "w = (put_entry e s)\<lparr>wasted_heap_size := wasted_heap_size s + word_of_nat (block_size (fst e))\<rparr>"
  shows "ht_rel p w T" and "heap_inv p w (bs @ [heap s])" and "heap s \<notin> live p w" and "heap s \<notin> set bs"
    and "entry_at w (heap s) = e" and "unat (wasted_heap_size w) = unat (wasted_heap_size s) + block_size (fst e)"
    and "live p w = live p s"
proof -
  note S = R [unfolded ht_rel_def]
  have D: "layout s" "ht_slots s = 2 ^ p" using S ht_sizedD by blast+
  have t: "tiled (mem s) (heap_init s) (heap s) bs" and sub: "live p s \<subseteq> set bs" using H by (simp_all add: heap_inv_def)
  have top: "heap_init s \<le> heap s" using tiled_le [OF t] by simp
  have sel: "heap_init w = heap_init s" "heap w = heap s + block_size (fst e)" "heap_max w = heap_max s"
    "hcounter w = hcounter s" "ht_sized p w = ht_sized p s"
    by (simp_all add: w ht_sized_def)
  have cells: "ht_addr w j = ht_addr s j" "ht_hash w j = ht_hash s j" if "j < 2 ^ p" for j
    using put_entry_cells [OF D(1) top, of j e] that D by (simp_all add: w)
  have m: "mem w x = mem s x" if "x < heap s" for x using that by (simp add: w put_entry_below)
  show new: "entry_at w (heap s) = e" using put_entry_at [OF e(1), of s] by (simp add: w entry_at_def)
  then have hd: "load64 (mem w) (heap s) = fst e" using arg_cong [of _ _ fst] by (fastforce simp: entry_at_def)
  show out: "heap s \<notin> set bs" using tiled_in [OF t, of "heap s"] block_size_pos [of "load64 (mem s) (heap s)"] by auto
  show live: "live p w = live p s" unfolding live_def using cells by (intro image_cong) auto
  then show "heap s \<notin> live p w" using sub out by auto
  have header: "load64 (mem w) b = load64 (mem s) b" if "b \<in> set bs" for b
    using tiled_in [OF t that] block_size_pos [of "load64 (mem s) b"] by (intro load64_cong m) auto
  have sum: "(\<Sum>b\<in>set (bs @ [heap s]) - live p w. block_size (load64 (mem w) b))
      = block_size (fst e) + (\<Sum>b\<in>set bs - live p s. block_size (load64 (mem s) b))"
  proof -
    have "set (bs @ [heap s]) - live p w = insert (heap s) (set bs - live p s)" using live sub out by auto
    moreover have "(\<Sum>b\<in>set bs - live p s. block_size (load64 (mem w) b)) = (\<Sum>b\<in>set bs - live p s. block_size (load64 (mem s) b))"
      by (rule sum.cong) (auto simp: header)
    ultimately show ?thesis using out hd by simp
  qed
  show waste: "unat (wasted_heap_size w) = unat (wasted_heap_size s) + block_size (fst e)"
  proof -
    have "unat (wasted_heap_size s) < 2 ^ 62" using wasted_bound [OF R] by simp
    moreover have "heap_max s < 2 ^ 62" using D(1) by (simp add: layout_def)
    ultimately have b: "unat (wasted_heap_size s) + block_size (fst e) < 2 ^ 64" using room by simp
    moreover have u: "unat (word_of_nat (block_size (fst e)) :: u64) = block_size (fst e)"
      by (simp add: unat_of_nat take_bit_eq_mod block_size_def)
    ultimately have "unat (wasted_heap_size s + word_of_nat (block_size (fst e))) = unat (wasted_heap_size s) + block_size (fst e)"
      using unat_plus_less [of "wasted_heap_size s" "word_of_nat (block_size (fst e))"] by simp
    then show ?thesis by (simp add: w)
  qed
  show H': "heap_inv p w (bs @ [heap s])"
    unfolding heap_inv_def sel waste sum
    using tiled_snoc [OF tiled_cong [OF t, of "mem w"]] m hd e(2) room live sub H by (auto simp: heap_inv_def)
  have "slots_ok p w"
    by (rule slots_ok_cong [of p s]) (use S cells sel in \<open>auto simp: slots_ok_def inj_on_def\<close>)
  moreover have "table_rel p w T"
  proof -
    have "slot_entry w j = slot_entry s j" if "j < 2 ^ p" for j
      by (rule live_entry_cong [OF H that]) (use m cells that in auto)
    then show ?thesis using S cells(2) by (auto intro: table_rel_cong [of p s])
  qed
  ultimately show "ht_rel p w T" using S H' unfolding ht_rel_def by (auto simp: sel)
qed

text \<open>Publishing a wasted block: a claimed slot without an entry gets its address.\<close>

lemma publish_slot:
  assumes R: "ht_rel p s T" and H: "heap_inv p s bs" and c: "c \<in> set bs" "c \<notin> live p s"
    and q: "q < 2 ^ p" "ht_hash s q = h" "h \<noteq> 0" "ht_addr s q = 0"
    and w: "w = set_ht_addr q (word_of_nat c) (s\<lparr>wasted_heap_size := wasted_heap_size s - word_of_nat (block_size (load64 (mem s) c))\<rparr>)"
  shows "ht_rel p w (T(h \<mapsto> Some (entry_at s c)))" and "heap_inv p w bs" and "live p w = insert c (live p s)"
    and "unat (wasted_heap_size s) = unat (wasted_heap_size w) + block_size (load64 (mem s) c)"
proof -
  note S = R [unfolded ht_rel_def]
  have D: "layout s" "ht_slots s = 2 ^ p" using S ht_sizedD by blast+
  have t: "tiled (mem s) (heap_init s) (heap s) bs" and sub: "live p s \<subseteq> set bs" using H by (simp_all add: heap_inv_def)
  have cb: "heap_init s \<le> c" "c + block_size (load64 (mem s) c) \<le> heap s" using tiled_in [OF t c(1)] by auto
  have "heap s < 2 ^ 62" "16 \<le> heap_init s" using H D(1) layout_heap_init by (auto simp: heap_inv_def layout_def)
  then have un: "unat (word_of_nat c :: u64) = c" "(word_of_nat c :: u64) \<noteq> 0" using cb by (auto simp: unat_of_nat word_unat_eq_iff)
  have sel: "heap_init w = heap_init s" "heap w = heap s" "heap_max w = heap_max s" "hcounter w = hcounter s"
    "ht_sized p w = ht_sized p s" by (simp_all add: w ht_sized_def)
  have addr: "ht_addr w j = (if j = q then word_of_nat c else ht_addr s j)" for j by (simp add: w)
  have hash: "ht_hash w j = ht_hash s j" for j by (simp add: w)
  have m: "mem w x = mem s x" if "heap_init s \<le> x" for x
    using ht_write_mem(1) [OF D(1) _ that, of q "word_of_nat c"] q D by (simp add: w set_ht_addr_def helt_addr_field_def)
  show live: "live p w = insert c (live p s)"
  proof -
    have "{i. i < 2 ^ p \<and> ht_addr w i \<noteq> 0} = insert q {i. i < 2 ^ p \<and> ht_addr s i \<noteq> 0}" using addr q un by (auto split: if_splits)
    moreover have "(\<lambda>i. unat (ht_addr w i)) ` {i. i < 2 ^ p \<and> ht_addr s i \<noteq> 0} = live p s"
      unfolding live_def by (rule image_cong) (use addr q in auto)
    ultimately show ?thesis using addr [of q] un by (simp add: live_def)
  qed
  have header: "load64 (mem w) b = load64 (mem s) b" if "b \<in> set bs" for b
    using tiled_in [OF t that] by (intro load64_cong m) auto
  have sum: "(\<Sum>b\<in>set bs - live p s. block_size (load64 (mem s) b))
      = (\<Sum>b\<in>set bs - live p w. block_size (load64 (mem w) b)) + block_size (load64 (mem s) c)"
  proof -
    have "set bs - live p s = insert c (set bs - live p w)" "c \<notin> set bs - live p w" using live c by auto
    moreover have "(\<Sum>b\<in>set bs - live p w. block_size (load64 (mem w) b)) = (\<Sum>b\<in>set bs - live p w. block_size (load64 (mem s) b))"
      by (rule sum.cong) (auto simp: header)
    ultimately show ?thesis by simp
  qed
  have ws: "unat (wasted_heap_size s) = (\<Sum>b\<in>set bs - live p s. block_size (load64 (mem s) b))" using H by (simp add: heap_inv_def)
  have "unat (word_of_nat (block_size (load64 (mem s) c)) :: u64) = block_size (load64 (mem s) c)"
    by (simp add: unat_of_nat take_bit_eq_mod block_size_def)
  then have "unat (wasted_heap_size w) = unat (wasted_heap_size s) - block_size (load64 (mem s) c)"
    using ws sum by (subst (asm) eq_commute) (simp add: w unat_sub word_le_nat_alt)
  then show waste: "unat (wasted_heap_size s) = unat (wasted_heap_size w) + block_size (load64 (mem s) c)"
    using ws sum by simp
  show H': "heap_inv p w bs"
    using H waste ws sum live c sub tiled_cong [OF t, of "mem w"] m by (auto simp: heap_inv_def sel)
  have inj: "inj_on (ht_addr s) {i. i < 2 ^ p \<and> ht_addr s i \<noteq> 0}" using S by (simp add: slots_ok_def)
  have ne: "ht_addr s j \<noteq> word_of_nat c" if "j < 2 ^ p" "ht_addr s j \<noteq> 0" for j
  proof -
    have "unat (ht_addr s j) \<in> live p s" using that by (auto simp: live_def)
    then show ?thesis using c(2) un by auto
  qed
  have "slots_ok p w"
  proof (rule slots_ok_cong [OF _ hash])
    show "ht_addr w j = 0" if "j < 2 ^ p" "ht_hash s j = 0" for j using addr that S q by (auto simp: slots_ok_def)
    show "inj_on (ht_addr w) {i. i < 2 ^ p \<and> ht_addr w i \<noteq> 0}"
    proof (rule inj_onI)
      fix i j assume "i \<in> {i. i < 2 ^ p \<and> ht_addr w i \<noteq> 0}" "j \<in> {i. i < 2 ^ p \<and> ht_addr w i \<noteq> 0}"
        and "ht_addr w i = ht_addr w j"
      then show "i = j" using addr ne [of i] ne [of j] inj_onD [OF inj, of i j] by (auto split: if_splits)
    qed
  qed (use S sel in auto)
  moreover have "table_rel p w (T(h \<mapsto> Some (entry_at s c)))"
  proof -
    have "slot_entry w j = slot_entry s j" if "j < 2 ^ p" "j \<noteq> q" for j
      by (rule live_entry_cong [OF H that(1)]) (use m addr that in auto)
    then have "table_rel p w (T(ht_hash s q \<mapsto> slot_entry w q))"
      using S q hash by (intro table_rel_upd) (auto simp: slots_ok_def)
    moreover have "entry_at w c = entry_at s c" by (rule entry_at_cong) (use m cb in auto)
    ultimately show ?thesis using q(2) addr [of q] un by (simp add: slot_entry_def)
  qed
  ultimately show "ht_rel p w (T(h \<mapsto> Some (entry_at s c)))" using S H' unfolding ht_rel_def by (auto simp: sel)
qed

lemma set_addr_put_entry:
  assumes "layout s" and "heap_init s \<le> heap s" and "q < ht_slots s"
  shows "set_ht_addr q v (put_entry e (set_ht_addr q u s)) = set_ht_addr q v (put_entry e s)"
proof -
  have "hashtbl s + 16 * q + 16 \<le> heap s" using assms by (simp add: layout_def)
  then have "store64 (memcpy (store64 (store64 (mem s) (helt_addr_field s q) u) (heap s) (fst e)) (heap s + 8) (snd e)) (helt_addr_field s q) v
      = store64 (memcpy (store64 (mem s) (heap s) (fst e)) (heap s + 8) (snd e)) (helt_addr_field s q) v"
    by (intro ext) (auto simp: store64_def memcpy_def helt_addr_field_def)
  then show ?thesis by (simp add: set_ht_addr_def put_entry_def helt_addr_field_def)
qed

text \<open>Both together: filling the address of a claimed slot with a new entry at the top of the heap.\<close>

lemma fill_slot:
  assumes R: "ht_rel p s T" and T: "T h = Some None" and q: "q < 2 ^ p" "ht_hash s q = h"
    and e: "unat (Entry_size (fst e)) = length (snd e)" "bit (fst e) 0"
    and room: "heap s + block_size (fst e) \<le> heap_max s"
  shows "ht_rel p (set_ht_addr q (word_of_nat (heap s)) (put_entry e (set_ht_addr q HASHTBL_WRITE_IN_PROGRESS s)))
           (T(h \<mapsto> Some e))" (is "ht_rel p ?s _")
proof -
  note S = R [unfolded ht_rel_def]
  then obtain bs where H: "heap_inv p s bs" by blast
  have D: "layout s" "ht_slots s = 2 ^ p" using S ht_sizedD by blast+
  have t: "heap_init s \<le> heap s" using H tiled_le by (auto simp: heap_inv_def)
  have h0: "h \<noteq> 0" using S T by (auto simp: table_rel_def)
  then have "slot_entry s q = None" using S T q by (auto simp: table_rel_def)
  then have qa: "ht_addr s q = 0" by (simp add: slot_entry_def split: if_splits)
  define w where "w = (put_entry e s)\<lparr>wasted_heap_size := wasted_heap_size s + word_of_nat (block_size (fst e))\<rparr>"
  note A = alloc_block [OF R H e room w_def]
  have hd: "load64 (mem w) (heap s) = fst e" using arg_cong [OF A(5), of fst] by (simp add: entry_at_def)
  have cells: "ht_hash w q = h" "ht_addr w q = 0" using put_entry_cells [OF D(1) t, of q e] q D qa by (simp_all add: w_def)
  have eq: "?s = set_ht_addr q (word_of_nat (heap s)) (w\<lparr>wasted_heap_size := wasted_heap_size w - word_of_nat (block_size (fst e))\<rparr>)"
    unfolding set_addr_put_entry [OF D(1) t q(1) [folded D(2)]]
    by (simp add: w_def set_ht_addr_def put_entry_def helt_addr_field_def)
  have "heap s \<in> set (bs @ [heap s])" by simp
  then show ?thesis
    using publish_slot(1) [OF A(1,2) _ A(3) q(1) cells(1) h0 cells(2) refl] unfolding A(5) hd eq by blast
qed

lemma unat_block_size: "unat (ALIGNED (Heap_entry_total_size h)) = block_size h"
  by (simp add: block_size_def)

text \<open>Clearing the address of a filled slot turns its block into waste.\<close>

lemma clear_slot:
  assumes R: "ht_rel p s T" and q: "q < 2 ^ p" "ht_hash s q = h" "ht_addr s q \<noteq> 0" "h \<noteq> 0"
    and w: "w = (set_ht_addr q NULL (s\<lparr>wasted_heap_size := wasted_heap_size s
       + ALIGNED (Heap_entry_total_size (load64 (mem s) (unat (ht_addr s q))))\<rparr>))\<lparr>removed_count := c\<rparr>"
  shows "ht_rel p w (T(h \<mapsto> None))"
proof -
  note S = R [unfolded ht_rel_def]
  then obtain bs where H: "heap_inv p s bs" by blast
  let ?a = "unat (ht_addr s q)"
  have D: "layout s" "ht_slots s = 2 ^ p" using S ht_sizedD by blast+
  have t: "tiled (mem s) (heap_init s) (heap s) bs" using H by (simp add: heap_inv_def)
  let ?w0 = "s\<lparr>wasted_heap_size := wasted_heap_size s + ALIGNED (Heap_entry_total_size (load64 (mem s) ?a))\<rparr>"
  have sel: "heap_init w = heap_init s" "heap w = heap s" "heap_max w = heap_max s" "hcounter w = hcounter s"
    "ht_sized p w = ht_sized p s"
    "wasted_heap_size w = wasted_heap_size s + ALIGNED (Heap_entry_total_size (load64 (mem s) ?a))"
    by (simp_all add: w ht_sized_def)
  have addr: "ht_addr w j = (if j = q then 0 else ht_addr s j)" for j by (simp add: w NULL_def)
  have hash: "ht_hash w j = ht_hash s j" for j by (simp add: w)
  have m: "mem w x = mem s x" if "heap_init s \<le> x" for x
    using ht_write_mem(1) [of ?w0 q x NULL] that D q by (simp add: w layout_def)
  have inj: "inj_on (ht_addr s) {i. i < 2 ^ p \<and> ht_addr s i \<noteq> 0}" using S by (simp add: slots_ok_def)
  have live: "live p w = live p s - {?a}" "?a \<in> live p s"
  proof -
    have "unat (ht_addr s j) = ?a \<longleftrightarrow> j = q" if "j < 2 ^ p" "ht_addr s j \<noteq> 0" for j
      using inj_onD [OF inj, of j q] that q by (auto simp: word_unat_eq_iff)
    then show "live p w = live p s - {?a}" unfolding live_def addr by (auto split: if_splits)
    show "?a \<in> live p s" using q by (auto simp: live_def)
  qed
  have sub: "live p s \<subseteq> set bs" using H by (simp add: heap_inv_def)
  have header: "load64 (mem w) b = load64 (mem s) b" if "b \<in> set bs" for b
    using tiled_in [OF t that] by (intro load64_cong m) auto
  have sum: "(\<Sum>b\<in>set bs - live p w. block_size (load64 (mem w) b))
      = block_size (load64 (mem s) ?a) + (\<Sum>b\<in>set bs - live p s. block_size (load64 (mem s) b))"
  proof -
    have "set bs - live p w = insert ?a (set bs - live p s)" using live sub by auto
    moreover have "(\<Sum>b\<in>set bs - live p s. block_size (load64 (mem w) b)) = (\<Sum>b\<in>set bs - live p s. block_size (load64 (mem s) b))"
      by (rule sum.cong) (auto simp: header)
    ultimately show ?thesis using live sub header by (simp add: subset_iff)
  qed
  have "unat (wasted_heap_size w) = (\<Sum>b\<in>set bs - live p w. block_size (load64 (mem w) b))"
  proof -
    have "heap_init s + (\<Sum>b\<leftarrow>bs. block_size (load64 (mem s) b)) = heap s" using t by (rule tiled_sum)
    moreover have "(\<Sum>b\<leftarrow>bs. block_size (load64 (mem s) b)) = (\<Sum>b\<in>set bs. block_size (load64 (mem s) b))"
      using tiled_distinct [OF t] by (simp add: sum_list_distinct_conv_sum_set)
    moreover have "(\<Sum>b\<in>set bs - live p w. block_size (load64 (mem w) b)) \<le> (\<Sum>b\<in>set bs. block_size (load64 (mem s) b))"
    proof -
      have "(\<Sum>b\<in>set bs - live p w. block_size (load64 (mem w) b)) \<le> (\<Sum>b\<in>set bs. block_size (load64 (mem w) b))"
        by (rule sum_mono2) auto
      also have "\<dots> = (\<Sum>b\<in>set bs. block_size (load64 (mem s) b))" by (rule sum.cong) (auto simp: header)
      finally show ?thesis .
    qed
    moreover have "heap s < 2 ^ 62" using H D(1) by (simp add: heap_inv_def layout_def)
    ultimately have "(\<Sum>b\<in>set bs - live p w. block_size (load64 (mem w) b)) < 2 ^ 64" by simp
    then have "unat (wasted_heap_size s) + block_size (load64 (mem s) ?a) < 2 ^ 64"
      using H unfolding sum by (simp add: heap_inv_def add.commute)
    then have "unat (wasted_heap_size s + ALIGNED (Heap_entry_total_size (load64 (mem s) ?a)))
        = unat (wasted_heap_size s) + block_size (load64 (mem s) ?a)"
      unfolding unat_block_size [symmetric] by (rule unat_plus_less)
    then show ?thesis using H unfolding sum by (simp add: sel heap_inv_def)
  qed
  then have "heap_inv p w bs"
    using H live sub tiled_cong [OF t, of "mem w"] m by (auto simp: heap_inv_def sel)
  moreover have "slots_ok p w"
  proof (rule slots_ok_cong [OF _ hash])
    show "ht_addr w j = 0" if "j < 2 ^ p" "ht_hash s j = 0" for j using addr that S by (simp add: slots_ok_def)
    show "inj_on (ht_addr w) {i. i < 2 ^ p \<and> ht_addr w i \<noteq> 0}"
      using inj unfolding addr inj_on_def by auto
  qed (use S sel in auto)
  moreover have "table_rel p w (T(h \<mapsto> None))"
  proof -
    have "slot_entry w j = slot_entry s j" if "j < 2 ^ p" "j \<noteq> q" for j
      by (rule live_entry_cong [OF H that(1)]) (use m addr that in auto)
    then have "table_rel p w (T(ht_hash s q \<mapsto> slot_entry w q))"
      using S q hash by (intro table_rel_upd) (auto simp: slots_ok_def)
    moreover have "slot_entry w q = None" by (simp add: slot_entry_def addr)
    ultimately show ?thesis using q(2) by simp
  qed
  ultimately show ?thesis using S unfolding ht_rel_def by (auto simp: sel)
qed

text \<open>Moving an address from one slot to a claimed empty one.\<close>

lemma shift_slot:
  assumes R: "ht_rel p s T" and q: "q < 2 ^ p" "ht_hash s q = h" "h \<noteq> 0" "ht_addr s q = 0"
    and r: "r < 2 ^ p" "ht_hash s r = g" "g \<noteq> 0" and qr: "q \<noteq> r"
    and w: "w = set_ht_addr r NULL (set_ht_addr q (ht_addr s r) s)"
  shows "ht_rel p w (T(h \<mapsto> slot_entry s r, g \<mapsto> None))"
proof -
  note S = R [unfolded ht_rel_def]
  then obtain bs where H: "heap_inv p s bs" by blast
  have D: "layout s" "ht_slots s = 2 ^ p" using S ht_sizedD by blast+
  let ?v = "set_ht_addr q (ht_addr s r) s"
  have sel: "heap_init w = heap_init s" "heap w = heap s" "heap_max w = heap_max s" "hcounter w = hcounter s"
    "ht_sized p w = ht_sized p s" "wasted_heap_size w = wasted_heap_size s"
    by (simp_all add: w ht_sized_def)
  have addr: "ht_addr w j = (if j = r then 0 else if j = q then ht_addr s r else ht_addr s j)" for j by (simp add: w NULL_def)
  have hash: "ht_hash w j = ht_hash s j" for j by (simp add: w)
  have m: "mem w x = mem s x" if "heap_init s \<le> x" for x
    using ht_write_mem(1) [of ?v r x NULL] ht_write_mem(1) [of s q x "ht_addr s r"] that D q r by (simp add: w)
  have inj: "inj_on (ht_addr s) {i. i < 2 ^ p \<and> ht_addr s i \<noteq> 0}" using S by (simp add: slots_ok_def)
  have nz: "{i. i < 2 ^ p \<and> ht_addr w i \<noteq> 0}
      = (if ht_addr s r = 0 then {i. i < 2 ^ p \<and> ht_addr s i \<noteq> 0} else insert q ({i. i < 2 ^ p \<and> ht_addr s i \<noteq> 0} - {r}))"
    using q r qr by (auto simp: addr)
  have "live p w = live p s"
  proof (cases "ht_addr s r = 0")
    case True
    then show ?thesis unfolding live_def nz using q(4) by (auto simp: addr intro!: image_cong)
  next
    case False
    have "(\<lambda>i. unat (ht_addr w i)) ` ({i. i < 2 ^ p \<and> ht_addr s i \<noteq> 0} - {r}) = (\<lambda>i. unat (ht_addr s i)) ` ({i. i < 2 ^ p \<and> ht_addr s i \<noteq> 0} - {r})"
      using q(4) by (intro image_cong) (auto simp: addr)
    moreover have "unat (ht_addr w q) = unat (ht_addr s r)" using addr [of q] qr by simp
    ultimately have "live p w = (\<lambda>i. unat (ht_addr s i)) ` insert r ({i. i < 2 ^ p \<and> ht_addr s i \<noteq> 0} - {r})"
      using False by (simp only: live_def nz if_False image_insert)
    also have "insert r ({i. i < 2 ^ p \<and> ht_addr s i \<noteq> 0} - {r}) = {i. i < 2 ^ p \<and> ht_addr s i \<noteq> 0}" using False r by auto
    finally show ?thesis by (simp only: live_def)
  qed
  then have "heap_inv p w bs" using m by (intro heap_inv_cong [OF H]) (auto simp: sel)
  moreover have "slots_ok p w"
  proof (rule slots_ok_cong [OF _ hash])
    show "ht_addr w j = 0" if "j < 2 ^ p" "ht_hash s j = 0" for j using addr that S q r by (auto simp: slots_ok_def)
    show "inj_on (ht_addr w) {i. i < 2 ^ p \<and> ht_addr w i \<noteq> 0}"
    proof (rule inj_onI)
      fix i j assume "i \<in> {i. i < 2 ^ p \<and> ht_addr w i \<noteq> 0}" "j \<in> {i. i < 2 ^ p \<and> ht_addr w i \<noteq> 0}" "ht_addr w i = ht_addr w j"
      then show "i = j" using inj_onD [OF inj, of i j] inj_onD [OF inj, of i r] inj_onD [OF inj, of j r] q r qr
        unfolding addr by (auto split: if_splits)
    qed
  qed (use S sel in auto)
  moreover have "table_rel p w (T(h \<mapsto> slot_entry s r, g \<mapsto> None))"
  proof -
    have mv: "mem ?v x = mem s x" if "heap_init s \<le> x" for x using ht_write_mem(1) [of s q x "ht_addr s r"] that D q by simp
    have ev: "slot_entry ?v j = slot_entry s j" if "j < 2 ^ p" "j \<noteq> q" for j
      by (rule live_entry_cong [OF H that(1)]) (use mv that in auto)
    have "slot_entry ?v q = slot_entry s r"
      using live_entry [OF H r(1)] mv by (auto simp: slot_entry_def intro!: entry_at_cong)
    moreover have "table_rel p ?v (T(ht_hash s q \<mapsto> slot_entry ?v q))"
      using S q ev by (intro table_rel_upd) (auto simp: slots_ok_def)
    ultimately have Tv: "table_rel p ?v (T(h \<mapsto> slot_entry s r))" using q(2) by simp
    have "slot_entry w j = slot_entry ?v j" if "j < 2 ^ p" "j \<noteq> r" for j
    proof (cases "j = q")
      case True
      have "slot_entry w q = slot_entry s r" using addr [of q] qr live_entry [OF H r(1)] m
        by (auto simp: slot_entry_def intro!: entry_at_cong)
      then show ?thesis using True \<open>slot_entry ?v q = slot_entry s r\<close> by simp
    next
      case False
      then show ?thesis using ev that live_entry_cong [OF H that(1), of w] m addr by simp
    qed
    moreover have "table_rel p w ((T(h \<mapsto> slot_entry s r))(ht_hash ?v r \<mapsto> slot_entry w r))"
    proof (rule table_rel_upd [OF Tv])
      show "htp.searchable p (ht_view ?v)"
        using S htp.searchable_cong [of p "ht_view ?v" "ht_view s"] by (simp add: ht_view_def slots_ok_def)
    qed (use r hash calculation in auto)
    ultimately show ?thesis using r(2) by (simp add: slot_entry_def addr)
  qed
  ultimately show ?thesis using S unfolding ht_rel_def by (auto simp: sel)
qed

subsection \<open>The operations on the abstract table\<close>

text \<open>What the table operations never change: process, permissions and sizes.\<close>

text \<open>What the hashtable operations keep: the dependency table, the permissions, the sizes.\<close>

definition deps_kept :: "hh \<Rightarrow> hh \<Rightarrow> bool" where
  "deps_kept s s' \<longleftrightarrow> hashtbl s' = hashtbl s \<and> deptbl s' = deptbl s \<and> deptbl_bindings s' = deptbl_bindings s
   \<and> dep_size s' = dep_size s \<and> dcounter s' = dcounter s \<and> (\<forall>x<hashtbl s. mem s' x = mem s x)"

lemma deps_kept_simps [simp]:
  "deps_kept s s" "deps_kept s (set_ht_addr i v s') = deps_kept s s'" "deps_kept s (set_ht_hash i v s') = deps_kept s s'"
  "deps_kept s (s'\<lparr>hcounter := c\<rparr>) = deps_kept s s'" "deps_kept s (s'\<lparr>wasted_heap_size := w\<rparr>) = deps_kept s s'"
  "deps_kept s (s'\<lparr>removed_count := n\<rparr>) = deps_kept s s'" "deps_kept (s\<lparr>hcounter := c\<rparr>) s' = deps_kept s s'"
  "deps_kept (set_ht_hash i v s) s' = deps_kept s s'"
  by (auto simp: deps_kept_def set_ht_addr_def set_ht_hash_def helt_addr_field_def store64_other)

lemma deps_kept_put_entry [simp]: "hashtbl s' \<le> heap s' \<Longrightarrow> deps_kept s (put_entry e s') = deps_kept s s'"
  unfolding deps_kept_def by (auto simp: put_entry_def memcpy_other store64_other)

definition same_config :: "hh \<Rightarrow> hh \<Rightarrow> bool" where
  "same_config s s' \<longleftrightarrow> my_pid s' = my_pid s \<and> master_pid s' = master_pid s \<and> allow_removes s' = allow_removes s
   \<and> allow_hashtable_writes_by_current_process s' = allow_hashtable_writes_by_current_process s
   \<and> hashtbl_size s' = hashtbl_size s \<and> heap_max s' = heap_max s \<and> deps_kept s s'"

lemma permissions_put_entry:
  "my_pid (put_entry e s) = my_pid s" "master_pid (put_entry e s) = master_pid s" "allow_removes (put_entry e s) = allow_removes s"
  "allow_hashtable_writes_by_current_process (put_entry e s) = allow_hashtable_writes_by_current_process s"
  by (simp_all add: put_entry_def)

lemma same_config_simps [simp]:
  "same_config s s" "same_config s (set_ht_addr i v s') = same_config s s'" "same_config s (set_ht_hash i v s') = same_config s s'"
  "hashtbl s' \<le> heap s' \<Longrightarrow> same_config s (put_entry e s') = same_config s s'" "same_config s (s'\<lparr>hcounter := c\<rparr>) = same_config s s'"
  "same_config s (s'\<lparr>wasted_heap_size := c\<rparr>) = same_config s s'" "same_config s (s'\<lparr>removed_count := c\<rparr>) = same_config s s'"
  "same_config (s\<lparr>hcounter := c\<rparr>) s' = same_config s s'" "same_config (set_ht_hash i v s) s' = same_config s s'"
  by (auto simp: same_config_def permissions_put_entry)

text \<open>\<open>hh_add\<close> at the slot where its scan stops.\<close>

lemma hh_add_go:
  "h \<noteq> 0 \<Longrightarrow> hcounter s < hashtbl_size s \<Longrightarrow> \<not> htp.stop (ht_view s) h (unat x) \<Longrightarrow> next_slot s x \<noteq> hash_slot s h \<Longrightarrow>
     hh_add_body rt h data s x = Inr (next_slot s x)"
  by (simp add: hh_add_body_def stop_iff)

lemma hh_add_at:
  assumes "ht_sized p s" and q: "htp.first_stop p (ht_view s) (get_hash key) q" and h: "get_hash key \<noteq> 0"
    and room: "hcounter s < hashtbl_size s"
  shows "\<exists>slot. unat slot = q \<and> hh_add rt key data s =
     (if ht_hash s q = get_hash key then write_at rt slot data s
      else write_at rt slot data ((set_ht_hash q (get_hash key) s)\<lparr>hcounter := hcounter s + 1\<rparr>))"
proof -
  let ?h = "get_hash key"
  obtain y where y: "unat y = q" "while1 (hh_add_body rt ?h data s) (hash_slot s ?h) = while1 (hh_add_body rt ?h data s) y"
    using ht_probe [OF assms(1) q, of "hh_add_body rt ?h data s"] hh_add_go [OF h room] by blast
  have "ht_hash s q = 0 \<or> ht_hash s q = ?h" using htp.first_stop_stop [OF q] stop_iff [OF h] by blast
  then have "hh_add_body rt ?h data s y = Inl (if ht_hash s q = ?h then write_at rt y data s
      else write_at rt y data ((set_ht_hash q ?h s)\<lparr>hcounter := hcounter s + 1\<rparr>))"
    using y(1) h room by (auto simp: hh_add_body_def op_simps Let_def not_le)
  then show ?thesis using y by (auto simp: hh_add_def while1_Inl)
qed

text \<open>Writing into a claimed slot whose address is NULL.\<close>

lemma write_at_null:
  assumes R: "ht_rel p s T" and q: "unat slot < 2 ^ p" "ht_hash s (unat slot) = h" and T: "T h = Some None"
    and rt: "runtime_ok rt" and fit: "fits rt data" and perm: "allow_hashtable_writes_by_current_process s"
    and room: "heap s + block_size (fst (encode rt data)) \<le> heap_max s"
  shows "\<exists>s' al os. write_at rt slot data s = Some (Inr (Val_long al, Val_long os), s')
     \<and> ht_rel p s' (T(h \<mapsto> Some (encode rt data))) \<and> same_config s s'
     \<and> heap s' = heap s + block_size (fst (encode rt data)) \<and> wasted_heap_size s' = wasted_heap_size s
     \<and> unat al = length (snd (encode rt data)) \<and> unat os = length (fst (stored_form rt data)) \<and> al \<le> os"
proof -
  note S = R [unfolded ht_rel_def]
  have h0: "h \<noteq> 0" using S T by (auto simp: table_rel_def)
  have "slot_entry s (unat slot) = None" using S T q h0 by (auto simp: table_rel_def)
  then have a: "ht_addr s (unat slot) = NULL" by (simp add: slot_entry_def NULL_def split: if_splits)
  let ?s = "set_ht_addr (unat slot) HASHTBL_WRITE_IN_PROGRESS s"
  have "hashtbl s \<le> heap s" using S ht_sizedD(1) [of p s] tiled_le by (fastforce simp: layout_def heap_inv_def)
  then have above: "hashtbl ?s \<le> heap ?s" by (simp add: set_ht_addr_def)
  have "heap s < 2 ^ 63" using room S ht_sizedD(1) [of p s] by (auto simp: layout_def)
  then obtain al os where st: "hh_store_ocaml rt data ?s = Some (Inr (heap s, al, os), put_entry (encode rt data) ?s)"
    "unat al = length (snd (encode rt data))" "unat os = length (fst (stored_form rt data))" "al \<le> os"
    using store_ocaml_eq [OF rt fit, of ?s] room by auto
  let ?s' = "set_ht_addr (unat slot) (word_of_nat (heap s)) (put_entry (encode rt data) ?s)"
  have "write_at rt slot data s = Some (Inr (Val_long al, Val_long os), ?s')"
    by (simp add: write_at_def a op_simps perm st)
  moreover have "ht_rel p ?s' (T(h \<mapsto> Some (encode rt data)))"
    by (rule fill_slot [OF R T q _ _ room]) (use entry_size_encode [OF rt fit] in auto)
  ultimately show ?thesis using st above by (intro exI [of _ ?s'] exI [of _ al] exI [of _ os]) simp
qed

lemma hh_add_fresh:
  assumes R: "ht_rel p s T" and h: "get_hash key \<noteq> 0" and T: "T (get_hash key) = None \<or> T (get_hash key) = Some None"
    and rt: "runtime_ok rt" "fits rt data" and perm: "allow_hashtable_writes_by_current_process s"
    and room: "hcounter s < hashtbl_size s" "heap s + block_size (fst (encode rt data)) \<le> heap_max s"
  shows "\<exists>s' al os. hh_add rt key data s = Some (Inr (Val_long al, Val_long os), s')
     \<and> ht_rel p s' (T(get_hash key \<mapsto> Some (encode rt data))) \<and> same_config s s'
     \<and> heap s' = heap s + block_size (fst (encode rt data)) \<and> wasted_heap_size s' = wasted_heap_size s
     \<and> unat al = length (snd (encode rt data)) \<and> unat os = length (fst (stored_form rt data)) \<and> al \<le> os"
proof -
  have sz: "ht_sized p s" using R by (simp add: ht_rel_def)
  let ?h = "get_hash key"
  show ?thesis
  proof (cases "T ?h = None")
    case True
    obtain q where q: "htp.first_stop p (ht_view s) ?h q" "q < 2 ^ p" "ht_hash s q = 0"
      using scan_absent [OF R True h room(1)] by blast
    let ?s = "(set_ht_hash q ?h s)\<lparr>hcounter := hcounter s + 1\<rparr>"
    obtain slot where slot: "unat slot = q" "hh_add rt key data s = write_at rt slot data ?s"
      using hh_add_at [OF sz q(1) h room(1), of rt data] q(3) h by auto
    have "ht_rel p ?s (T(?h \<mapsto> None))" by (rule claim_slot [OF R h q(1,3) room(1)])
    from write_at_null [OF this, of slot ?h rt data] show ?thesis
      using slot q(2) rt perm room(2) by auto
  next
    case False
    then have T': "T ?h = Some None" using assms(3) by (elim disjE) simp_all
    then obtain q where q: "htp.first_stop p (ht_view s) ?h q" "q < 2 ^ p" "ht_hash s q = ?h"
      using scan_present [OF R] by blast
    obtain slot where slot: "unat slot = q" "hh_add rt key data s = write_at rt slot data s"
      using hh_add_at [OF sz q(1) h room(1), of rt data] q(3) by auto
    from write_at_null [OF R _ _ T' rt perm room(2), of slot] show ?thesis using slot q by auto
  qed
qed

lemma hh_add_again:
  assumes R: "ht_rel p s T" and T: "T (get_hash key) = Some (Some e)" and room: "hcounter s < hashtbl_size s"
  shows "hh_add rt key data s = Some (Inr (Min_long, Min_long), s)"
proof -
  have sz: "ht_sized p s" using R by (simp add: ht_rel_def)
  obtain q where h: "get_hash key \<noteq> 0" and q: "htp.first_stop p (ht_view s) (get_hash key) q" "ht_hash s q = get_hash key"
      "slot_entry s q = Some e" using scan_present [OF R T] by blast
  then have a: "ht_addr s q \<noteq> NULL" by (auto simp: slot_entry_def NULL_def split: if_splits)
  obtain slot where "unat slot = q" "hh_add rt key data s = write_at rt slot data s"
    using hh_add_at [OF sz q(1) h room, of rt data] q(2) by auto
  then show ?thesis using a by (simp add: write_at_def)
qed

lemma find_present:
  assumes R: "ht_rel p s T" and T: "T (get_hash key) = Some x"
  shows "\<exists>slot. find_slot key s = Some (Inr slot, s) \<and> unat slot < 2 ^ p \<and> ht_hash s (unat slot) = get_hash key
     \<and> slot_entry s (unat slot) = x \<and> get_hash key \<noteq> 0"
proof -
  obtain q where h: "get_hash key \<noteq> 0" and q: "htp.first_stop p (ht_view s) (get_hash key) q" "q < 2 ^ p" "ht_hash s q = get_hash key"
      "slot_entry s q = x" using scan_present [OF R T] by blast
  then show ?thesis using find_slot_at [OF _ q(1) h] R by (auto simp: ht_rel_def)
qed

lemma find_absent:
  assumes R: "ht_rel p s T" and T: "T (get_hash key) = None" "get_hash key \<noteq> 0" and room: "hcounter s < hashtbl_size s"
  shows "\<exists>slot. find_slot key s = Some (Inr slot, s) \<and> unat slot < 2 ^ p \<and> ht_hash s (unat slot) = 0 \<and> ht_addr s (unat slot) = 0
     \<and> htp.first_stop p (ht_view s) (get_hash key) (unat slot)"
proof -
  obtain q where q: "htp.first_stop p (ht_view s) (get_hash key) q" "q < 2 ^ p" "ht_hash s q = 0" "ht_addr s q = 0"
    using scan_absent [OF R T room] by blast
  then show ?thesis using find_slot_at [OF _ q(1) T(2)] R by (auto simp: ht_rel_def)
qed

lemma live_not_marker:
  assumes R: "ht_rel p s T" and i: "i < 2 ^ p"
  shows "ht_addr s i \<noteq> HASHTBL_WRITE_IN_PROGRESS" and "ht_addr s i \<noteq> 0 \<Longrightarrow> 1 < unat (ht_addr s i)"
proof -
  obtain bs where H: "heap_inv p s bs" using R by (auto simp: ht_rel_def)
  have "16 \<le> heap_init s" using R layout_heap_init by (auto simp: ht_rel_def ht_sized_def)
  then have big: "16 \<le> unat (ht_addr s i)" if "ht_addr s i \<noteq> 0" using live_entry(2) [OF H i that] by simp
  then show "ht_addr s i \<noteq> 0 \<Longrightarrow> 1 < unat (ht_addr s i)" by fastforce
  show "ht_addr s i \<noteq> HASHTBL_WRITE_IN_PROGRESS"
  proof
    assume "ht_addr s i = HASHTBL_WRITE_IN_PROGRESS"
    then show False using big by (simp add: HASHTBL_WRITE_IN_PROGRESS_def)
  qed
qed

definition status_of :: "entry option option \<Rightarrow> int" where
  "status_of x = (case x of None \<Rightarrow> -1 | Some None \<Rightarrow> -2 | Some (Some e) \<Rightarrow> 1)"

lemma hh_mem_inner_ok:
  assumes R: "ht_rel p s T" and h: "get_hash key \<noteq> 0" and room: "hcounter s < hashtbl_size s \<or> T (get_hash key) \<noteq> None"
  shows "hh_mem_inner time key s = Some (Inr (status_of (T (get_hash key))), s)"
proof (cases "T (get_hash key)")
  case None
  then obtain slot where "find_slot key s = Some (Inr slot, s)" "ht_hash s (unat slot) = 0"
    using find_absent [OF R _ h] room by auto
  then show ?thesis using None h by (simp add: hh_mem_inner_def op_simps Let_def status_of_def)
next
  case (Some x)
  then obtain slot where slot: "find_slot key s = Some (Inr slot, s)" "unat slot < 2 ^ p"
    "ht_hash s (unat slot) = get_hash key" "slot_entry s (unat slot) = x" using find_present [OF R] by blast
  have "mem_wait_body time s slot (0, 0) = Inl (Inr 1)"
    using live_not_marker(1) [OF R slot(2)] by (simp add: mem_wait_body_def)
  then have "while1 (mem_wait_body time s slot) (0, 0) = Some (Inr 1)" by (rule while1_Inl)
  then show ?thesis using Some slot
    by (auto simp: hh_mem_inner_def op_simps Let_def status_of_def slot_entry_def NULL_def split: if_splits)
qed

lemma hh_get_ok:
  assumes R: "ht_rel p s T" and T: "T (get_hash key) = Some (Some (encode rt data))" and rt: "runtime_ok rt" "fits rt data"
  shows "hh_get_and_deserialize rt key s = Some (Inr data, s)"
proof -
  obtain slot where slot: "find_slot key s = Some (Inr slot, s)" "unat slot < 2 ^ p"
    "ht_hash s (unat slot) = get_hash key" "slot_entry s (unat slot) = Some (encode rt data)" using find_present [OF R T] by blast
  then have a: "ht_addr s (unat slot) \<noteq> 0" "entry_at s (unat (ht_addr s (unat slot))) = encode rt data"
    by (auto simp: slot_entry_def split: if_splits)
  have "hh_deserialize rt (unat (ht_addr s (unat slot))) s = Some (Inr data, s)"
    using live_not_marker(2) [OF R slot(2) a(1)] a(2) rt by (intro deserialize_encoded)
  then show ?thesis using slot by (simp add: hh_get_and_deserialize_def op_simps)
qed

lemma deref_live: "a \<noteq> 0 \<Longrightarrow> a \<noteq> HASHTBL_WRITE_IN_PROGRESS \<Longrightarrow> deref_header a s = Some (Inr (load64 (mem s) (unat a)), s)"
  by (simp add: deref_header_def op_simps NULL_def)

lemma hh_remove_ok:
  assumes R: "ht_rel p s T" and T: "T (get_hash key) = Some (Some e)" and perm: "my_pid s = master_pid s" "allow_removes s"
  shows "\<exists>s'. hh_remove key s = Some (Inr (), s') \<and> ht_rel p s' (T(get_hash key \<mapsto> None))
     \<and> wasted_heap_size s' = wasted_heap_size s + ALIGNED (Heap_entry_total_size (fst e))
     \<and> removed_count s' = removed_count s + 1 \<and> heap s' = heap s \<and> same_config s s'"
proof -
  obtain slot where slot: "find_slot key s = Some (Inr slot, s)" "unat slot < 2 ^ p"
    "ht_hash s (unat slot) = get_hash key" "slot_entry s (unat slot) = Some e" "get_hash key \<noteq> 0" using find_present [OF R T] by blast
  then have a: "ht_addr s (unat slot) \<noteq> 0" and e: "load64 (mem s) (unat (ht_addr s (unat slot))) = fst e"
    by (auto simp: slot_entry_def entry_at_def split: if_splits)
  let ?s = "(set_ht_addr (unat slot) NULL (s\<lparr>wasted_heap_size := wasted_heap_size s
       + ALIGNED (Heap_entry_total_size (load64 (mem s) (unat (ht_addr s (unat slot)))))\<rparr>))\<lparr>removed_count := removed_count s + 1\<rparr>"
  have "removed_count (set_ht_addr i v z) = removed_count z" for i v z by (simp add: set_ht_addr_def)
  then have "hh_remove key s = Some (Inr (), ?s)"
    using slot perm deref_live [OF a live_not_marker(1) [OF R slot(2)]] by (simp add: hh_remove_def op_simps)
  moreover have "ht_rel p ?s (T(get_hash key \<mapsto> None))"
    by (rule clear_slot [OF R slot(2,3) a slot(5) refl])
  ultimately show ?thesis using e by (intro exI [of _ ?s]) simp
qed

lemma set_ht_hash_same: "set_ht_hash i (ht_hash s i) s = s"
  by (simp add: set_ht_hash_def ht_hash_def)

lemma hh_move_ok:
  assumes R: "ht_rel p s T" and T1: "T (get_hash key1) = Some x" and T2: "T (get_hash key2) = None \<or> T (get_hash key2) = Some None"
    and h: "get_hash key2 \<noteq> 0" and ne: "get_hash key1 \<noteq> get_hash key2"
    and perm: "my_pid s = master_pid s" "allow_removes s" and room: "hcounter s < hashtbl_size s"
  shows "\<exists>s'. hh_move key1 key2 s = Some (Inr (), s') \<and> ht_rel p s' (T(get_hash key2 \<mapsto> x, get_hash key1 \<mapsto> None))
     \<and> heap s' = heap s \<and> wasted_heap_size s' = wasted_heap_size s \<and> same_config s s'"
proof -
  let ?h = "get_hash key2" and ?g = "get_hash key1"
  obtain r where r: "find_slot key1 s = Some (Inr r, s)" "unat r < 2 ^ p" "ht_hash s (unat r) = ?g" "slot_entry s (unat r) = x" "?g \<noteq> 0"
    using find_present [OF R T1] by blast
  obtain q where q: "find_slot key2 s = Some (Inr q, s)" "unat q < 2 ^ p" "ht_addr s (unat q) = 0"
      "ht_hash s (unat q) = ?h \<and> T ?h = Some None \<or> ht_hash s (unat q) = 0 \<and> htp.first_stop p (ht_view s) ?h (unat q)"
  proof (cases "T ?h = None")
    case True
    then show ?thesis using find_absent [OF R True h room] that by blast
  next
    case False
    then obtain q where "find_slot key2 s = Some (Inr q, s)" "unat q < 2 ^ p" "ht_hash s (unat q) = ?h" "slot_entry s (unat q) = None"
      using find_present [OF R, of key2 None] T2 by auto
    then show ?thesis using that [of q] False T2 by (auto simp: slot_entry_def split: if_splits)
  qed
  have qr: "unat q \<noteq> unat r" using q(4) r ne by auto
  define c where "c = (if ht_hash s (unat q) = 0 then (set_ht_hash (unat q) ?h s)\<lparr>hcounter := hcounter s + 1\<rparr> else s)"
  have cell: "ht_hash c (unat q) = ?h" "ht_addr c = ht_addr s" "ht_hash c (unat r) = ?g" "heap c = heap s"
      "wasted_heap_size c = wasted_heap_size s" "same_config s c"
    using q(4) r qr by (auto simp: c_def)
  have ce: "slot_entry c (unat r) = x"
  proof -
    obtain bs where H: "heap_inv p s bs" using R by (auto simp: ht_rel_def)
    have D: "layout s" "ht_slots s = 2 ^ p" using R ht_sizedD by (auto simp: ht_rel_def)
    have "mem c y = mem s y" if "heap_init s \<le> y" for y
      using ht_write_mem(2) [OF D(1) _ that, of "unat q"] q(2) D(2) by (simp add: c_def)
    then show ?thesis using live_entry_cong [OF H r(2), of c] cell(2) r(4) by simp
  qed
  have Rc: "ht_rel p c (T(?h \<mapsto> None))"
  proof (cases "ht_hash s (unat q) = 0")
    case True
    then show ?thesis using q(4) h claim_slot [OF R h _ True room] by (auto simp: c_def)
  next
    case False
    then have "T(?h \<mapsto> None) = T" using q(4) by auto
    then show ?thesis using R False by (simp add: c_def)
  qed
  let ?s = "set_ht_addr (unat r) NULL (set_ht_addr (unat q) (ht_addr c (unat r)) c)"
  have "hh_move key1 key2 s = Some (Inr (), ?s)"
  proof -
    have "set_ht_hash (unat q) ?h (if ht_hash s (unat q) = 0 then s\<lparr>hcounter := hcounter s + 1\<rparr> else s) = c"
    proof (cases "ht_hash s (unat q) = 0")
      case False
      then have "?h = ht_hash s (unat q)" using q(4) by auto
      then show ?thesis using False set_ht_hash_same by (simp add: c_def)
    qed (simp add: c_def set_ht_hash_def)
    then show ?thesis using r q perm cell(2) by (simp add: hh_move_def op_simps NULL_def)
  qed
  moreover have "ht_rel p ?s ((T(?h \<mapsto> None))(?h \<mapsto> slot_entry c (unat r), ?g \<mapsto> None))"
    using shift_slot [OF Rc q(2) cell(1) h _ r(2) cell(3) r(5) qr refl] q(3) cell(2) by simp
  ultimately show ?thesis using ce cell by (intro exI [of _ ?s]) simp
qed

text \<open>The relation depends on the table, the heap and the counters only.\<close>

lemma ht_rel_cong:
  assumes R: "ht_rel p s T" and sz: "ht_sized p t" and same: "heap_init t = heap_init s" "heap t = heap s" "heap_max t = heap_max s"
      "wasted_heap_size t = wasted_heap_size s" and hc: "hcounter t = hcounter s"
    and cell: "\<And>i. i < 2 ^ p \<Longrightarrow> ht_hash t i = ht_hash s i" "\<And>i. i < 2 ^ p \<Longrightarrow> ht_addr t i = ht_addr s i"
    and m: "\<And>x. heap_init s \<le> x \<Longrightarrow> x < heap s \<Longrightarrow> mem t x = mem s x"
  shows "ht_rel p t T"
proof -
  note S = R [unfolded ht_rel_def]
  then obtain bs where H: "heap_inv p s bs" by blast
  have live: "live p t = live p s" unfolding live_def using cell by (intro image_cong) auto
  have "heap_inv p t bs" by (rule heap_inv_cong [OF H same live m])
  moreover have "slots_ok p t"
  proof (rule slots_ok_cong [of p s])
    show "inj_on (ht_addr t) {i. i < 2 ^ p \<and> ht_addr t i \<noteq> 0}"
      using S cell unfolding slots_ok_def inj_on_def by auto
    show "ht_addr t j = 0" if "j < 2 ^ p" "ht_hash s j = 0" for j using cell that S by (auto simp: slots_ok_def)
  qed (use S cell hc in auto)
  moreover have "slot_entry t i = slot_entry s i" if "i < 2 ^ p" for i
    by (rule live_entry_cong [OF H that]) (use m cell that in auto)
  then have "table_rel p t T" using S cell(1) by (auto intro: table_rel_cong [of p s])
  ultimately show ?thesis using sz unfolding ht_rel_def by blast
qed

lemma ht_rel_transfer:
  assumes R: "ht_rel p s T" and lay: "layout t" "hashtbl t = hashtbl s" "hashtbl_size t = hashtbl_size s"
      "heap_init t = heap_init s" "heap_max t = heap_max s" "heap t = heap s" "hcounter t = hcounter s" "wasted_heap_size t = wasted_heap_size s"
    and m: "\<And>x. hashtbl s \<le> x \<Longrightarrow> x < heap s \<Longrightarrow> mem t x = mem s x"
  shows "ht_rel p t T"
proof (rule ht_rel_cong [OF R])
  have D: "layout s" "ht_slots s = 2 ^ p" "ht_sized p s" using R ht_sizedD by (auto simp: ht_rel_def)
  have ti: "heap_init s \<le> heap s" using R tiled_le by (auto simp: heap_inv_def ht_rel_def)
  show "ht_hash t i = ht_hash s i" "ht_addr t i = ht_addr s i" if "i < 2 ^ p" for i
  proof -
    have "hashtbl s + 16 * i + 16 \<le> heap s" using D that ti by (simp add: layout_def)
    then show "ht_hash t i = ht_hash s i" "ht_addr t i = ht_addr s i"
      using lay(2) m by (auto simp: ht_hash_def ht_addr_def helt_addr_field_def intro!: load64_cong)
  qed
  show "mem t x = mem s x" if "heap_init s \<le> x" "x < heap s" for x using m that D by (simp add: layout_def)
  show "ht_sized p t" using D(3) lay by (simp add: ht_sized_def)
qed (use lay in auto)

lemma heap_write_cells:
  assumes "layout s" and "\<And>x. x < heap_init s \<Longrightarrow> m x = mem s x" and "i < ht_slots s"
  shows "ht_addr (s\<lparr>mem := m\<rparr>) i = ht_addr s i" "ht_hash (s\<lparr>mem := m\<rparr>) i = ht_hash s i"
proof -
  have "hashtbl s + 16 * i + 16 \<le> heap_init s" using assms by (simp add: layout_def)
  then show "ht_addr (s\<lparr>mem := m\<rparr>) i = ht_addr s i" "ht_hash (s\<lparr>mem := m\<rparr>) i = ht_hash s i"
    using assms(2) by (auto simp: ht_addr_def ht_hash_def helt_addr_field_def intro!: load64_cong)
qed

end
