(* ===== verification/Hh_Table.thy ===== *)
theory Hh_Table
  imports Hh_Hashtbl
begin

text \<open>
  The shared hashtable as its clients see it: the interface as a locale, its interpretation on the
  operations of \<open>Hh_Hashtbl\<close>, the error paths, and the properties of the component.
\<close>

subsection \<open>Counting\<close>

lemma ht_rel_finite:
  assumes R: "ht_rel p s T"
  shows "finite (dom T)"
proof (rule finite_subset)
  show "dom T \<subseteq> ht_hash s ` {..<2 ^ p}" using R unfolding ht_rel_def table_rel_def by (auto simp: dom_def image_iff)
qed simp

lemma ht_rel_card:
  assumes R: "ht_rel p s T"
  shows "card (dom T) = unat (hcounter s)"
proof -
  note S = R [unfolded ht_rel_def]
  have "dom T = ht_hash s ` {i. i < 2 ^ p \<and> ht_hash s i \<noteq> 0}"
    using S unfolding table_rel_def by (auto simp: dom_def image_iff)
  moreover have "inj_on (ht_hash s) {i. i < 2 ^ p \<and> ht_hash s i \<noteq> 0}"
  proof (rule inj_onI)
    fix i j assume "i \<in> {i. i < 2 ^ p \<and> ht_hash s i \<noteq> 0}" "j \<in> {i. i < 2 ^ p \<and> ht_hash s i \<noteq> 0}" "ht_hash s i = ht_hash s j"
    then show "i = j" using htp.searchable_unique [of p "ht_view s" i j "ht_hash s i"] S by (auto simp: slots_ok_def ht_view_def)
  qed
  ultimately show ?thesis using S by (simp add: card_image slots_ok_def)
qed

lemma room_iff: "ht_rel p s T \<Longrightarrow> hcounter s < hashtbl_size s \<longleftrightarrow> card (dom T) < 2 ^ p"
  using ht_rel_card [of p s T] ht_sizedD(4) [of p s] by (simp add: word_less_nat_alt ht_rel_def)

subsection \<open>The interface of the table\<close>

text \<open>What the clients of the table rely on, and what follows for sequences of calls.\<close>

locale shared_table =
  fixes rel :: "'s \<Rightarrow> ('h \<rightharpoonup> 'e option) \<Rightarrow> bool" and capacity :: nat
    and hash :: "'key \<Rightarrow> 'h" and legal :: "'key \<Rightarrow> bool"
    and enc :: "'d \<Rightarrow> 'e" and writable :: "'d \<Rightarrow> 's \<Rightarrow> bool"
    and add :: "'key \<Rightarrow> 'd \<Rightarrow> ('s, 'r) op" and get :: "'key \<Rightarrow> ('s, 'd) op"
    and status :: "'key \<Rightarrow> ('s, int) op" and rem :: "'key \<Rightarrow> ('s, unit) op"
    and mv :: "'key \<Rightarrow> 'key \<Rightarrow> ('s, unit) op" and decodable :: "'d \<Rightarrow> bool"
  assumes add_new: "rel s T \<Longrightarrow> legal k \<Longrightarrow> T (hash k) = None \<or> T (hash k) = Some None \<Longrightarrow>
      card (dom T) < capacity \<Longrightarrow> writable d s \<Longrightarrow> \<exists>r s'. add k d s = Some (Inr r, s') \<and> rel s' (T(hash k \<mapsto> Some (enc d)))"
    and add_old: "rel s T \<Longrightarrow> T (hash k) = Some (Some e) \<Longrightarrow> card (dom T) < capacity \<Longrightarrow> \<exists>r. add k d s = Some (Inr r, s)"
    and get_bound: "rel s T \<Longrightarrow> T (hash k) = Some (Some (enc d)) \<Longrightarrow> decodable d \<Longrightarrow> get k s = Some (Inr d, s)"
    and status_is: "rel s T \<Longrightarrow> legal k \<Longrightarrow> card (dom T) < capacity \<or> T (hash k) \<noteq> None \<Longrightarrow>
      status k s = Some (Inr (case T (hash k) of None \<Rightarrow> -1 | Some None \<Rightarrow> -2 | Some (Some e) \<Rightarrow> 1), s)"
    and rem_bound: "rel s T \<Longrightarrow> T (hash k) = Some (Some e) \<Longrightarrow> \<exists>s'. rem k s = Some (Inr (), s') \<and> rel s' (T(hash k \<mapsto> None))"
    and mv_bound: "rel s T \<Longrightarrow> T (hash k) = Some x \<Longrightarrow> T (hash k') = None \<or> T (hash k') = Some None \<Longrightarrow> legal k' \<Longrightarrow>
      hash k \<noteq> hash k' \<Longrightarrow> card (dom T) < capacity \<Longrightarrow> \<exists>s'. mv k k' s = Some (Inr (), s') \<and> rel s' (T(hash k' \<mapsto> x, hash k \<mapsto> None))"
begin

definition new_key :: "('h \<rightharpoonup> 'e option) \<Rightarrow> 'key \<Rightarrow> bool" where
  "new_key T k \<longleftrightarrow> legal k \<and> (T (hash k) = None \<or> T (hash k) = Some None)"

lemma add_get:
  assumes "rel s T" "new_key T k" "card (dom T) < capacity" "writable d s" "decodable d"
  shows "\<exists>r s'. add k d s = Some (Inr r, s') \<and> get k s' = Some (Inr d, s') \<and> rel s' (T(hash k \<mapsto> Some (enc d)))"
proof -
  obtain r s' where s': "add k d s = Some (Inr r, s')" "rel s' (T(hash k \<mapsto> Some (enc d)))"
    using add_new [of s T k d] assms by (auto simp: new_key_def)
  moreover have "get k s' = Some (Inr d, s')" using get_bound [OF s'(2)] assms(5) by simp
  ultimately show ?thesis by blast
qed

lemma first_writer_wins:
  assumes "rel s T" "new_key T k" "card (dom T) + 1 < capacity" "finite (dom T)" "writable d s" "decodable d"
  shows "\<exists>r r' s'. op_bind (add k d) (\<lambda>_. add k d') s = Some (Inr r', s') \<and> add k d s = Some (Inr r, s') \<and> get k s' = Some (Inr d, s')"
proof -
  obtain r s' where s': "add k d s = Some (Inr r, s')" "get k s' = Some (Inr d, s')" "rel s' (T(hash k \<mapsto> Some (enc d)))"
    using add_get [OF assms(1,2) _ assms(5,6)] assms(3) by auto
  have "card (dom (T(hash k \<mapsto> Some (enc d)))) \<le> card (dom T) + 1" using card_insert_le_m1 [of "card (dom T) + 1" "dom T" "hash k"] by simp
  then have "card (dom (T(hash k \<mapsto> Some (enc d)))) < capacity" using assms(3) by simp
  then obtain r' where "add k d' s' = Some (Inr r', s')" using add_old [OF s'(3)] by fastforce
  then show ?thesis using s' by (auto simp: op_bind_def)
qed

lemma removed_then_added:
  assumes R: "rel s T" "T (hash k) = Some (Some e)" "legal k" "card (dom T) < capacity" "finite (dom T)" "decodable d"
    and w: "\<And>s'. rem k s = Some (Inr (), s') \<Longrightarrow> writable d s'"
  shows "\<exists>s' r s''. rem k s = Some (Inr (), s') \<and> status k s' = Some (Inr (-2), s') \<and> add k d s' = Some (Inr r, s'')
     \<and> status k s'' = Some (Inr 1, s'') \<and> get k s'' = Some (Inr d, s'')"
proof -
  obtain s' where s': "rem k s = Some (Inr (), s')" "rel s' (T(hash k \<mapsto> None))" using rem_bound [OF R(1,2)] by blast
  have dom: "dom (T(hash k \<mapsto> x)) = dom T" for x using R(2) by auto
  obtain r s'' where s'': "add k d s' = Some (Inr r, s'')" "get k s'' = Some (Inr d, s'')" "rel s'' ((T(hash k \<mapsto> None))(hash k \<mapsto> Some (enc d)))"
    using add_get [OF s'(2), of k d] R w [OF s'(1)] dom by (auto simp: new_key_def)
  have "status k s' = Some (Inr (-2), s')" using status_is [OF s'(2) R(3)] by simp
  moreover have "status k s'' = Some (Inr 1, s'')" using status_is [OF s''(3) R(3)] by simp
  ultimately show ?thesis using s' s'' by blast
qed

lemma moved:
  assumes R: "rel s T" "T (hash k) = Some (Some (enc d))" "new_key T k'" "legal k" "hash k \<noteq> hash k'" "card (dom T) < capacity" "decodable d"
  shows "\<exists>s'. mv k k' s = Some (Inr (), s') \<and> get k' s' = Some (Inr d, s') \<and> status k s' = Some (Inr (-2), s')"
proof -
  obtain s' where s': "mv k k' s = Some (Inr (), s')" "rel s' (T(hash k' \<mapsto> Some (enc d), hash k \<mapsto> None))"
    using mv_bound [OF R(1,2) _ _ R(5,6)] R(3) by (auto simp: new_key_def)
  then show ?thesis using get_bound [OF s'(2), of k' d] status_is [OF s'(2) R(4)] R(5,7) by auto
qed

end

definition master_rel :: "nat \<Rightarrow> hh \<Rightarrow> table \<Rightarrow> bool" where
  "master_rel p s T \<longleftrightarrow> ht_rel p s T \<and> my_pid s = master_pid s \<and> allow_removes s
     \<and> allow_hashtable_writes_by_current_process s"

definition legal_key :: "u8 list \<Rightarrow> bool" where
  "legal_key key \<longleftrightarrow> get_hash key \<noteq> 0"

definition has_room :: "'v runtime \<Rightarrow> 'v caml \<Rightarrow> hh \<Rightarrow> bool" where
  "has_room rt data s \<longleftrightarrow> runtime_ok rt \<and> fits rt data \<and> heap s + block_size (fst (encode rt data)) \<le> heap_max s"

interpretation hht: shared_table "master_rel p" "2 ^ p" get_hash legal_key "encode rt" "has_room rt"
  "hh_add rt" "hh_get_and_deserialize rt" "hh_mem_inner time" hh_remove hh_move "\<lambda>d. runtime_ok rt \<and> fits rt d"
  for p rt time
proof
  fix s T k d
  show "\<exists>r s'. hh_add rt k d s = Some (Inr r, s') \<and> master_rel p s' (T(get_hash k \<mapsto> Some (encode rt d)))"
    if "master_rel p s T" "legal_key k" "T (get_hash k) = None \<or> T (get_hash k) = Some None" "card (dom T) < 2 ^ p" "has_room rt d s"
    using that hh_add_fresh [of p s T k rt d] room_iff [of p s T]
    unfolding master_rel_def legal_key_def has_room_def same_config_def by (elim conjE) metis
next
  fix s T k d e
  show "\<exists>r. hh_add rt k d s = Some (Inr r, s)"
    if "master_rel p s T" "T (get_hash k) = Some (Some e)" "card (dom T) < 2 ^ p"
    using that hh_add_again [of p s T k e rt d] room_iff [of p s T] by (auto simp: master_rel_def)
next
  fix s T k d
  show "hh_get_and_deserialize rt k s = Some (Inr d, s)"
    if "master_rel p s T" "T (get_hash k) = Some (Some (encode rt d))" "runtime_ok rt \<and> fits rt d"
    using that hh_get_ok by (auto simp: master_rel_def)
next
  fix s T k
  show "hh_mem_inner time k s = Some (Inr (case T (get_hash k) of None \<Rightarrow> -1 | Some None \<Rightarrow> -2 | Some (Some e) \<Rightarrow> 1), s)"
    if "master_rel p s T" "legal_key k" "card (dom T) < 2 ^ p \<or> T (get_hash k) \<noteq> None"
    using that hh_mem_inner_ok [of p s T k time] room_iff [of p s T] by (auto simp: master_rel_def legal_key_def status_of_def)
next
  fix s T k e
  show "\<exists>s'. hh_remove k s = Some (Inr (), s') \<and> master_rel p s' (T(get_hash k \<mapsto> None))"
    if "master_rel p s T" "T (get_hash k) = Some (Some e)"
    using that hh_remove_ok [of p s T k e] by (auto simp: master_rel_def same_config_def)
next
  fix s T k k' x
  show "\<exists>s'. hh_move k k' s = Some (Inr (), s') \<and> master_rel p s' (T(get_hash k' \<mapsto> x, get_hash k \<mapsto> None))"
    if "master_rel p s T" "T (get_hash k) = Some x" "T (get_hash k') = None \<or> T (get_hash k') = Some None" "legal_key k'"
      "get_hash k \<noteq> get_hash k'" "card (dom T) < 2 ^ p"
    using that hh_move_ok [of p s T k x k'] room_iff [of p s T] unfolding master_rel_def legal_key_def same_config_def
    by (elim conjE) metis
qed

subsection \<open>Errors\<close>

lemma hh_get_removed:
  assumes R: "ht_rel p s T" and T: "T (get_hash key) = Some None"
  shows "hh_get_and_deserialize rt key s = Some (Inl Invalid_access, s)" "hh_get_size key s = Some (Inl Invalid_access, s)"
    "my_pid s = master_pid s \<Longrightarrow> allow_removes s \<Longrightarrow> hh_remove key s = Some (Inl Invalid_access, s)"
proof -
  obtain slot where slot: "find_slot key s = Some (Inr slot, s)" "ht_hash s (unat slot) = get_hash key" "slot_entry s (unat slot) = None"
    using find_present [OF R T] by blast
  then have "ht_addr s (unat slot) = 0" by (simp add: slot_entry_def split: if_splits)
  then show "hh_get_and_deserialize rt key s = Some (Inl Invalid_access, s)" "hh_get_size key s = Some (Inl Invalid_access, s)"
    "my_pid s = master_pid s \<Longrightarrow> allow_removes s \<Longrightarrow> hh_remove key s = Some (Inl Invalid_access, s)"
    using slot by (simp_all add: hh_get_and_deserialize_def hh_get_size_def hh_remove_def op_simps hh_deserialize_def deref_header_def NULL_def)
qed

lemma hh_get_absent:
  assumes R: "ht_rel p s T" and T: "T (get_hash key) = None" "get_hash key \<noteq> 0" and room: "hcounter s < hashtbl_size s"
  shows "hh_get_and_deserialize rt key s = Some (Inl (C_assertion_failure (LOCATION HH_SHARED_C 1482)), s)"
    "hh_get_size key s = Some (Inl (C_assertion_failure (LOCATION HH_SHARED_C 1495)), s)"
    "my_pid s = master_pid s \<Longrightarrow> allow_removes s \<Longrightarrow> hh_remove key s = Some (Inl (C_assertion_failure (LOCATION HH_SHARED_C 1533)), s)"
proof -
  obtain slot where slot: "find_slot key s = Some (Inr slot, s)" "ht_hash s (unat slot) = 0"
    using find_absent [OF R T room] by blast
  then show "hh_get_and_deserialize rt key s = Some (Inl (C_assertion_failure (LOCATION HH_SHARED_C 1482)), s)"
    "hh_get_size key s = Some (Inl (C_assertion_failure (LOCATION HH_SHARED_C 1495)), s)"
    "my_pid s = master_pid s \<Longrightarrow> allow_removes s \<Longrightarrow> hh_remove key s = Some (Inl (C_assertion_failure (LOCATION HH_SHARED_C 1533)), s)"
    using T(2) by (simp_all add: hh_get_and_deserialize_def hh_get_size_def hh_remove_def op_simps)
qed

lemma find_slot_total:
  assumes R: "ht_rel p s T" and h: "get_hash key \<noteq> 0"
  shows "(\<exists>slot. find_slot key s = Some (Inr slot, s)) \<or> find_slot key s = Some (Inl Hash_table_full, s)"
proof -
  have "hcounter s < hashtbl_size s \<or> hcounter s = hashtbl_size s"
  proof -
    have "unat (hcounter s) \<le> unat (hashtbl_size s)"
      using R card_mono [of "{..<2 ^ p}" "{i. i < 2 ^ p \<and> ht_hash s i \<noteq> 0}"] ht_sizedD(4) [of p s]
      by (auto simp: ht_rel_def slots_ok_def)
    then show ?thesis by (auto simp: word_less_nat_alt word_unat_eq_iff)
  qed
  then show ?thesis using find_absent [OF R _ h] find_present [OF R, of key] find_slot_full [OF R _ h]
    by (cases "T (get_hash key)") auto
qed

lemma wasted_grows:
  assumes "ht_rel p s T"
  shows "unat (wasted_heap_size s + ALIGNED (Heap_entry_total_size h)) = unat (wasted_heap_size s) + block_size h"
proof -
  have "unat (wasted_heap_size s) < 2 ^ 62" using wasted_bound [OF assms] .
  moreover have "block_size h < 2 ^ 31 + 72" using block_size_bounds(2) [of h] Entry_size_less [of h] by simp
  ultimately show ?thesis unfolding block_size_def by (intro unat_plus_less) simp
qed

lemma removal_guards:
  assumes R: "ht_rel p s T" and h: "get_hash key \<noteq> 0" and T: "T (get_hash key) \<noteq> None"
  shows "my_pid s \<noteq> master_pid s \<Longrightarrow> hh_remove key s = Some (Inl (C_assertion_failure (LOCATION HH_SHARED_C 700)), s)"
    "my_pid s = master_pid s \<Longrightarrow> \<not> allow_removes s \<Longrightarrow> hh_remove key s = Some (Inl (C_assertion_failure (LOCATION HH_SHARED_C 708)), s)"
  using find_present [OF R, of key] T by (auto simp: hh_remove_def op_simps)

lemma hh_get_size_value:
  assumes R: "ht_rel p s T" and T: "T (get_hash key) = Some (Some e)"
  shows "hh_get_size key s = Some (Inr (drop_bit 1 (Entry_size (fst e))), s)" "drop_bit 1 (Entry_size (fst e)) \<noteq> Val_long (Entry_size (fst e))"
proof -
  obtain slot where slot: "find_slot key s = Some (Inr slot, s)" "unat slot < 2 ^ p"
    "ht_hash s (unat slot) = get_hash key" "slot_entry s (unat slot) = Some e" using find_present [OF R T] by blast
  then have a: "ht_addr s (unat slot) \<noteq> 0" and e: "load64 (mem s) (unat (ht_addr s (unat slot))) = fst e"
    by (auto simp: slot_entry_def entry_at_def split: if_splits)
  have small: "unat (Entry_size (fst e)) < 2 ^ 31" by (rule Entry_size_less)
  have "Long_val x = drop_bit 1 x" if "unat x < 2 ^ 31" for x
  proof (rule bit_word_eqI)
    fix n assume "n < LENGTH(64)"
    have "x < 0x80000000" using that by (simp add: word_less_nat_alt)
    then have "\<not> bit x 63" using bit_less_31 [of x 63] by auto
    then show "bit (Long_val x) n = bit (drop_bit 1 x) n" using \<open>n < LENGTH(64)\<close>
      by (auto simp: Long_val_def bit_simps min_def le_Suc_eq dest: bit_imp_le_length)
  qed
  then show "hh_get_size key s = Some (Inr (drop_bit 1 (Entry_size (fst e))), s)"
    using slot deref_live [OF a live_not_marker(1) [OF R slot(2)]] e small by (simp add: hh_get_size_def op_simps)
  show "drop_bit 1 (Entry_size (fst e)) \<noteq> Val_long (Entry_size (fst e))"
  proof
    assume "drop_bit 1 (Entry_size (fst e)) = Val_long (Entry_size (fst e))"
    then have "unat (drop_bit 1 (Entry_size (fst e))) = unat (push_bit 1 (Entry_size (fst e)) + 1)" by (simp add: Val_long_def)
    then show False using small by (simp add: drop_bit_eq_div unat_div_distrib push_bit_eq_mult unat_word_ariths)
  qed
qed

lemma hh_add_full:
  assumes R: "ht_rel p s T" and h: "get_hash key \<noteq> 0" and T: "T (get_hash key) = None" and full: "hcounter s = hashtbl_size s"
  shows "hh_add rt key data s = Some (Inl Hash_table_full, s)"
proof -
  note S = R [unfolded ht_rel_def]
  have "unat (hash_slot s (get_hash key)) < 2 ^ p" using unat_hash_slot [of p s "get_hash key"] S by simp
  then have "ht_hash s (unat (hash_slot s (get_hash key))) \<noteq> get_hash key" using S T h by (auto simp: table_rel_def)
  then have "hh_add_body rt (get_hash key) data s (hash_slot s (get_hash key)) = Inl (raise_hash_table_full s)"
    using full by (simp add: hh_add_body_def)
  then show ?thesis using raise_full_ok [of p s] S by (simp add: hh_add_def while1_Inl)
qed


text \<open>The empty table of a fresh segment.\<close>

lemma fresh_ht_rel:
  assumes "fresh s" and "p \<le> 32" and "hashtbl_size s = 2 ^ p"
  shows "ht_rel p s Map.empty"
proof -
  have sz: "ht_sized p s" using assms by (simp add: ht_sized_def fresh_def)
  have c: "ht_hash s i = 0" "ht_addr s i = 0" if "i < 2 ^ p" for i
    using fresh_cells(3,4) [OF assms(1)] that ht_sizedD(4) [OF sz] by simp_all
  have e: "{i. i < 2 ^ p \<and> ht_hash s i \<noteq> 0} = {}" "{i. i < 2 ^ p \<and> ht_addr s i \<noteq> 0} = {}" using c by auto
  have "slots_ok p s" unfolding slots_ok_def e using assms c
    by (auto intro!: htp.searchable_all_free simp: ht_view_def fresh_def)
  moreover have "heap_inv p s []"
    using assms unfolding heap_inv_def live_def e by (auto simp: fresh_def layout_def)
  moreover have "table_rel p s Map.empty" using c by (simp add: table_rel_def)
  ultimately show ?thesis using sz by (auto simp: ht_rel_def)
qed

text \<open>A store that fails for lack of room leaves the marker in the slot.\<close>

lemma write_at_heap_full:
  assumes R: "ht_rel p s T" and q: "unat slot < 2 ^ p" "ht_hash s (unat slot) = h" and T: "T h = Some None"
    and rt: "runtime_ok rt" and fit: "fits rt data" and perm: "allow_hashtable_writes_by_current_process s"
    and full: "heap_max s < heap s + block_size (fst (encode rt data))"
  shows "write_at rt slot data s = Some (Inl Heap_full,
     (set_ht_addr (unat slot) HASHTBL_WRITE_IN_PROGRESS s)\<lparr>heap := heap s + block_size (fst (encode rt data))\<rparr>)"
proof -
  note S = R [unfolded ht_rel_def]
  have h0: "h \<noteq> 0" using S T by (auto simp: table_rel_def)
  have "slot_entry s (unat slot) = None" using S T q h0 by (auto simp: table_rel_def)
  then have a: "ht_addr s (unat slot) = NULL" by (simp add: slot_entry_def NULL_def split: if_splits)
  let ?s = "set_ht_addr (unat slot) HASHTBL_WRITE_IN_PROGRESS s"
  have "heap s < 2 ^ 63" using S ht_sizedD(1) [of p s] by (auto simp: layout_def heap_inv_def)
  then have "hh_store_ocaml rt data ?s = Some (Inl Heap_full, ?s\<lparr>heap := heap s + block_size (fst (encode rt data))\<rparr>)"
    using store_ocaml_eq [OF rt fit, of ?s] full by auto
  then show ?thesis by (simp add: write_at_def a op_simps perm)
qed

text \<open>A slot with the marker: looking the key up ends by the time-out.\<close>

lemma wait_time_out:
  assumes a: "ht_addr s (unat slot) = HASHTBL_WRITE_IN_PROGRESS" and t: "0 < time 0" "mono time" "time 0 + 60 < time j"
  shows "while1 (mem_wait_body time s slot) (0, 0) = Some (Inl (Failure ''hh_mem busy-wait loop stuck for 60s''))"
proof -
  define l where "l = (LEAST j. time 0 + 60 < time j)"
  have l: "time 0 + 60 < time l" unfolding l_def using t(3) by (rule LeastI)
  have before: "time i \<le> time 0 + 60" if "i < l" for i using that not_less_Least unfolding l_def by fastforce
  have l0: "l \<noteq> 0" by (rule notI) (use l in simp)
  let ?f = "\<lambda>i. if i = 0 then (0, 0) else (i, time 0)"
  have "mem_wait_body time s slot (?f i) = Inr (?f (Suc i))" if "i < l" for i
    using that before [OF that] monoD [OF t(2), of 0 i] t(1) by (auto simp: mem_wait_body_def a Let_def)
  then have "while1 (mem_wait_body time s slot) (?f 0) = while1 (mem_wait_body time s slot) (?f l)"
    by (rule while1_reaches)
  moreover have "mem_wait_body time s slot (?f l) = Inl (Inl (Failure ''hh_mem busy-wait loop stuck for 60s''))"
    using l l0 monoD [OF t(2), of 0 l] t(1) by (auto simp: mem_wait_body_def a Let_def)
  ultimately show ?thesis by (simp add: while1_Inl)
qed

lemma wait_for_ever:
  fixes time :: clock
  assumes a: "ht_addr s (unat slot) = HASHTBL_WRITE_IN_PROGRESS" and t: "0 < time 0" "mono time" "\<And>j. time j \<le> time 0 + 60"
  shows "while1 (mem_wait_body time s slot) (0, 0) = None"
proof (rule while1_diverges [where A = "insert (0, 0) {x. snd x = time 0}"])
  fix x :: "nat \<times> int" assume x: "x \<in> insert (0, 0) {x. snd x = time 0}"
  obtain j start where js: "x = (j, start)" by (cases x)
  have "time 0 \<le> time j" using monoD [OF t(2), of 0 j] by simp
  then have "mem_wait_body time s slot x = Inr (j + 1, time 0)"
    using x t(1) t(3) [of j] by (auto simp: mem_wait_body_def a Let_def js)
  then show "\<exists>y\<in>insert (0, 0) {x. snd x = time 0}. mem_wait_body time s slot x = Inr y" by auto
qed simp

text \<open>The state a store without room leaves: some state \<open>c\<close> of the sequential theory in which the key is known
  without an entry, with the marker in the key's slot and the heap pointer behind \<open>heap_max\<close>.\<close>

definition wedged :: "nat \<Rightarrow> u8 list \<Rightarrow> nat \<Rightarrow> hh \<Rightarrow> hh \<Rightarrow> bool" where
  "wedged p key i c s \<longleftrightarrow> (\<exists>T top. ht_rel p c T \<and> T (get_hash key) = Some None \<and> heap_max c < top
     \<and> s = (set_ht_addr i HASHTBL_WRITE_IN_PROGRESS c)\<lparr>heap := top\<rparr>
     \<and> i < 2 ^ p \<and> ht_hash c i = get_hash key \<and> htp.first_stop p (ht_view c) (get_hash key) i)"

lemma hh_add_heap_full:
  assumes R: "ht_rel p s T" and h: "get_hash key \<noteq> 0" and T: "T (get_hash key) = None \<or> T (get_hash key) = Some None"
    and rt: "runtime_ok rt" "fits rt data" and perm: "allow_hashtable_writes_by_current_process s"
    and room: "hcounter s < hashtbl_size s" and full: "heap_max s < heap s + block_size (fst (encode rt data))"
  shows "\<exists>c s' i. hh_add rt key data s = Some (Inl Heap_full, s') \<and> wedged p key i c s'
     \<and> (c = s \<or> c = (set_ht_hash i (get_hash key) s)\<lparr>hcounter := hcounter s + 1\<rparr>)"
proof -
  have sz: "ht_sized p s" using R by (simp add: ht_rel_def)
  let ?h = "get_hash key"
  obtain slot c Tc where c: "hh_add rt key data s = write_at rt slot data c" "unat slot < 2 ^ p" "ht_rel p c Tc"
    "ht_hash c (unat slot) = ?h" "Tc ?h = Some None" "heap c = heap s" "heap_max c = heap_max s"
    "allow_hashtable_writes_by_current_process c" "htp.first_stop p (ht_view c) ?h (unat slot)"
    "c = s \<or> c = (set_ht_hash (unat slot) ?h s)\<lparr>hcounter := hcounter s + 1\<rparr>"
  proof (cases "T ?h = None")
    case True
    obtain q where q: "htp.first_stop p (ht_view s) ?h q" "q < 2 ^ p" "ht_hash s q = 0"
      using scan_absent [OF R True h room] by blast
    let ?s = "(set_ht_hash q ?h s)\<lparr>hcounter := hcounter s + 1\<rparr>"
    obtain slot where slot: "unat slot = q" "hh_add rt key data s = write_at rt slot data ?s"
      using hh_add_at [OF sz q(1) h room, of rt data] q(3) h by auto
    have Rs: "ht_rel p ?s (T(?h \<mapsto> None))" by (rule claim_slot [OF R h q(1,3) room])
    have "ht_view ?s q = Keyed ?h" using h by (simp add: ht_view_def)
    then have "htp.first_stop p (ht_view ?s) ?h q"
      using Rs q(2) unfolding ht_rel_def slots_ok_def htp.searchable_def by blast
    then show ?thesis using that [of slot ?s "T(?h \<mapsto> None)"] slot q(2) Rs perm by simp
  next
    case False
    then have T': "T ?h = Some None" using assms(3) by (elim disjE) simp_all
    then obtain q where q: "htp.first_stop p (ht_view s) ?h q" "q < 2 ^ p" "ht_hash s q = ?h"
      using scan_present [OF R] by blast
    obtain slot where slot: "unat slot = q" "hh_add rt key data s = write_at rt slot data s"
      using hh_add_at [OF sz q(1) h room, of rt data] q(3) by auto
    show ?thesis using that [of slot s T] slot q R T' perm by simp
  qed
  define top where "top = heap c + block_size (fst (encode rt data))"
  let ?s = "(set_ht_addr (unat slot) HASHTBL_WRITE_IN_PROGRESS c)\<lparr>heap := top\<rparr>"
  have top: "heap_max c < top" using full c(6,7) by (simp add: top_def)
  have run: "hh_add rt key data s = Some (Inl Heap_full, ?s)"
    using write_at_heap_full [OF c(3,2,4,5) rt c(8)] full c(1,6,7) by (simp add: top_def)
  have W: "wedged p key (unat slot) c ?s" unfolding wedged_def using c(2-5,9) top by blast
  show ?thesis using run W c(10) by blast
qed

lemma wedged_slot:
  assumes W: "wedged p key i c s" and h: "get_hash key \<noteq> 0"
  shows "ht_sized p s" "i < ht_slots s" "ht_hash s i = get_hash key" "ht_addr s i = HASHTBL_WRITE_IN_PROGRESS"
    and "\<exists>slot. unat slot = i \<and> find_slot key s = Some (Inr slot, s)"
proof -
  obtain T top where c: "ht_rel p c T" "s = (set_ht_addr i HASHTBL_WRITE_IN_PROGRESS c)\<lparr>heap := top\<rparr>" "i < 2 ^ p"
    "ht_hash c i = get_hash key" "htp.first_stop p (ht_view c) (get_hash key) i" using W by (auto simp: wedged_def)
  show sz: "ht_sized p s" using c(1,2) by (simp add: ht_rel_def ht_sized_def)
  show "i < ht_slots s" using ht_sizedD(4) [OF sz] c(3) by simp
  show "ht_hash s i = get_hash key" "ht_addr s i = HASHTBL_WRITE_IN_PROGRESS" using c by simp_all
  have "ht_view s = ht_view c" by (rule ext) (simp add: ht_view_def c(2))
  then show "\<exists>slot. unat slot = i \<and> find_slot key s = Some (Inr slot, s)" using find_slot_at [OF sz _ h, of i] c(5) by auto
qed

text \<open>What every operation on the key does in that state.\<close>

lemma wedged_calls:
  assumes W: "wedged p key i c s" and h: "get_hash key \<noteq> 0"
  shows "0 < time 0 \<Longrightarrow> mono time \<Longrightarrow> (\<And>j. time j \<le> time 0 + 60) \<Longrightarrow> hh_mem_inner time key s = None"
    and "0 < time 0 \<Longrightarrow> mono time \<Longrightarrow> time 0 + 60 < time j \<Longrightarrow>
      hh_mem_inner time key s = Some (Inl (Failure ''hh_mem busy-wait loop stuck for 60s''), s)"
    and "hh_get_and_deserialize rt key s = Some (Inl Invalid_access, s)"
    and "my_pid s = master_pid s \<Longrightarrow> allow_removes s \<Longrightarrow> hh_remove key s = Some (Inl Invalid_access, s)"
    and "hcounter s < hashtbl_size s \<Longrightarrow> hh_add rt key data s = Some (Inr (Min_long, Min_long), s)"
proof -
  note S = wedged_slot [OF W h]
  obtain slot where slot: "unat slot = i" "find_slot key s = Some (Inr slot, s)" using S(5) by blast
  note [simp] = hh_mem_inner_def op_simps Let_def HASHTBL_WRITE_IN_PROGRESS_def NULL_def
  show "hh_mem_inner time key s = None" if "0 < time 0" "mono time" "\<And>j. time j \<le> time 0 + 60"
    using slot S(3,4) wait_for_ever [of s slot time, OF _ that] by simp
  show "hh_mem_inner time key s = Some (Inl (Failure ''hh_mem busy-wait loop stuck for 60s''), s)"
    if "0 < time 0" "mono time" "time 0 + 60 < time j"
    using slot S(3,4) wait_time_out [of s slot time j, OF _ that] by simp
  show "hh_get_and_deserialize rt key s = Some (Inl Invalid_access, s)"
    using slot S(3,4) by (simp add: hh_get_and_deserialize_def hh_deserialize_def)
  show "hh_remove key s = Some (Inl Invalid_access, s)" if "my_pid s = master_pid s" "allow_removes s"
    using slot S(3,4) that by (simp add: hh_remove_def deref_header_def)
  show "hh_add rt key data s = Some (Inr (Min_long, Min_long), s)" if room: "hcounter s < hashtbl_size s"
  proof -
    obtain T top where c: "s = (set_ht_addr i HASHTBL_WRITE_IN_PROGRESS c)\<lparr>heap := top\<rparr>"
      "htp.first_stop p (ht_view c) (get_hash key) i" using W by (auto simp: wedged_def)
    have "ht_view s = ht_view c" by (rule ext) (simp add: ht_view_def c(1))
    then obtain y where "unat y = i" "hh_add rt key data s = write_at rt y data s"
      using hh_add_at [OF S(1) _ h room, of i rt data] c(2) S(3) by auto
    then show ?thesis using S(4) by (simp add: write_at_def)
  qed
qed

subsection \<open>Properties\<close>

definition demo_key :: "u8 list" where "demo_key = replicate 16 1"

definition demo_key2 :: "u8 list" where "demo_key2 = replicate 16 2"

lemma get_hash_byte: "i < 8 \<Longrightarrow> i < length key \<Longrightarrow> byte_of (get_hash key) i = key ! i"
  by (simp add: get_hash_def byte_of_word_of_bytes caml_string_block_def nth_append)

lemma demo_bytes: "byte_of (get_hash demo_key) i = 1" "byte_of (get_hash demo_key2) i = 2" if "i < 8"
  using that by (simp_all add: get_hash_byte demo_key_def demo_key2_def)

lemma demo_keys [simp]: "get_hash demo_key \<noteq> 0" "legal_key demo_key" "get_hash demo_key2 \<noteq> 0" "legal_key demo_key2"
  "get_hash demo_key \<noteq> get_hash demo_key2"
proof -
  show a: "get_hash demo_key \<noteq> 0" "get_hash demo_key2 \<noteq> 0" "get_hash demo_key \<noteq> get_hash demo_key2"
    using demo_bytes [of 0] by (auto simp: byte_of_def)
  show "legal_key demo_key" "legal_key demo_key2" using a by (simp_all add: legal_key_def)
qed

lemma demo_hash_large: "get_hash demo_key \<noteq> 1" "get_hash demo_key \<noteq> 2" "get_hash demo_key \<noteq> 3" "get_hash demo_key \<noteq> 4"
  using demo_bytes(1) [of 7] by (auto simp: byte_of_def)

lemma demo_ht: "ht_rel 2 demo Map.empty" "hashtbl_size demo = 4" "hcounter demo = 0" "master_rel 2 demo Map.empty"
proof -
  show s: "hashtbl_size demo = 4" using demo_facts(3) by (simp add: word_unat_eq_iff)
  show R: "ht_rel 2 demo Map.empty" using fresh_ht_rel [OF demo_facts(1), of 2] s by simp
  show "hcounter demo = 0" using demo_facts(1) by (simp add: fresh_def)
  show "master_rel 2 demo Map.empty" using R demo_facts by (simp add: master_rel_def)
qed

lemma demo_block:
  assumes "length bs < 1000"
  shows "block_size (fst (encode demo_runtime (String_block bs))) < 1100" "fits demo_runtime (String_block bs)"
proof -
  let ?d = "String_block bs :: u8 list caml"
  show f: "fits demo_runtime ?d" using assms by (simp add: fits_def stored_form_def)
  have "unat (Entry_size (fst (encode demo_runtime ?d))) \<le> length bs"
    using entry_size_encode(1) [OF demo_runtime_ok f] encode_shrinks [OF demo_runtime_ok f] by (simp add: stored_form_def)
  then show "block_size (fst (encode demo_runtime ?d)) < 1100"
    using block_size_bounds(2) [of "fst (encode demo_runtime ?d)"] assms by simp
qed

lemma demo_heap: "heap demo + 4096 = heap_max demo"
  using demo_facts(1,4) by (auto simp: fresh_def layout_def)

lemma demo_room: "length bs < 1000 \<Longrightarrow> has_room demo_runtime (String_block bs) demo"
  using demo_block [of bs] demo_heap demo_runtime_ok by (simp add: has_room_def)

lemma demo_added:
  "\<exists>s. master_rel 2 s [get_hash demo_key \<mapsto> Some (encode demo_runtime (String_block [7]))]
     \<and> has_room demo_runtime (String_block []) s"
proof -
  have A: "ht_rel 2 demo Map.empty" "hcounter demo < hashtbl_size demo" using demo_ht by simp_all
  obtain s where s: "ht_rel 2 s [get_hash demo_key \<mapsto> Some (encode demo_runtime (String_block [7]))]" "same_config demo s"
    "heap s = heap demo + block_size (fst (encode demo_runtime (String_block [7])))"
    using hh_add_fresh [OF A(1) demo_keys(1) _ demo_runtime_ok, of "String_block [7]"] demo_facts(8) A(2)
      demo_block [of "[7]"] demo_heap by fastforce
  then show ?thesis using demo_block [of "[7]"] demo_block [of "[]"] demo_heap demo_runtime_ok demo_facts
    by (intro exI [of _ s]) (auto simp: master_rel_def has_room_def same_config_def)
qed

lemma demo_ht_full:
  "\<exists>s. ht_rel 2 s [1 \<mapsto> None, 2 \<mapsto> None, 3 \<mapsto> None, 4 \<mapsto> None] \<and> hcounter s = hashtbl_size s"
proof -
  have step: "\<exists>s'. ht_rel 2 s' (T(h \<mapsto> None))" if R: "ht_rel 2 s T" and T: "T h = None" "h \<noteq> 0" and c: "card (dom T) < 4" for s T h
  proof -
    have room: "hcounter s < hashtbl_size s" using room_iff [OF R] c by simp
    then obtain q where "htp.first_stop 2 (ht_view s) h q" "ht_hash s q = 0" using scan_absent [OF R T] by blast
    then show ?thesis using claim_slot [OF R T(2) _ _ room] by blast
  qed
  obtain s1 where 1: "ht_rel 2 s1 [1 \<mapsto> None]" using step [OF demo_ht(1), of 1] by auto
  obtain s2 where 2: "ht_rel 2 s2 [1 \<mapsto> None, 2 \<mapsto> None]" using step [OF 1, of 2] by auto
  obtain s3 where 3: "ht_rel 2 s3 [1 \<mapsto> None, 2 \<mapsto> None, 3 \<mapsto> None]" using step [OF 2, of 3] by auto
  obtain s4 where 4: "ht_rel 2 s4 [1 \<mapsto> None, 2 \<mapsto> None, 3 \<mapsto> None, 4 \<mapsto> None]" using step [OF 3, of 4] by auto
  have "unat (hcounter s4) = unat (hashtbl_size s4)"
    using ht_rel_card [OF 4] ht_sizedD(4) [of 2 s4] 4 by (simp add: ht_rel_def)
  then show ?thesis using 4 by (auto simp: word_unat_eq_iff)
qed

lemma tiny_heap: "\<exists>s. master_rel 2 s Map.empty \<and> heap s = heap_max s"
proof -
  let ?cfg = "demo_config\<lparr>c_heap_size := Val_long 0\<rparr>"
  have "startable demo_os ?cfg SHARED_MEM_INIT"
    by (simp add: startable_def segment_size_def demo_os_def demo_config_def Long_val_Val_long SHARED_MEM_INIT_def)
  then obtain s where s: "fresh s" "ht_slots s = 2 ^ unat (Long_val (c_hash_table_pow ?cfg))" "heap_size s = Long_val (c_heap_size ?cfg)"
    "my_pid s = getpid demo_os" "master_pid s = getpid demo_os" "allow_removes s"
    "allow_hashtable_writes_by_current_process s = allow_hashtable_writes_by_current_process hh_start"
    using shared_init_runs [of demo_os ?cfg SHARED_MEM_INIT hh_start] by blast
  have "hashtbl_size s = 4" using s(2) by (simp add: demo_config_def Long_val_Val_long word_unat_eq_iff)
  then have "ht_rel 2 s Map.empty" using fresh_ht_rel [OF s(1), of 2] by simp
  moreover have "heap s = heap_max s" using s(1,3) by (auto simp: fresh_def layout_def Long_val_Val_long)
  ultimately show ?thesis using s by (auto simp: master_rel_def hh_start_def)
qed

lemma ht_rel_my_pid: "ht_rel p (s\<lparr>my_pid := x\<rparr>) T = ht_rel p s T"
proof -
  let ?s = "s\<lparr>my_pid := x\<rparr>"
  have c: "ht_hash ?s = ht_hash s" "ht_addr ?s = ht_addr s" "slot_entry ?s = slot_entry s"
    by (auto simp: ht_hash_def ht_addr_def helt_addr_field_def slot_entry_def entry_at_def fun_eq_iff)
  then have "ht_view ?s = ht_view s" "live p ?s = live p s" by (auto simp: ht_view_def live_def fun_eq_iff)
  then show ?thesis by (simp add: ht_rel_def ht_sized_def layout_def slots_ok_def heap_inv_def table_rel_def c)
qed

text \<open>C3: \<open>hh_add\<close> implements the abstract insertion. On a state related to the table \<open>T\<close> (in the master, with a
  key whose hash is not 0) it returns when table and heap have room; for a key that is absent or was removed it binds the hash to the
  encoded value, keeps the invariant, and reports the stored and the original size; for a key that is
  bound it changes nothing.\<close>

theorem hh_add_refines:
  assumes "master_rel p s T" and "legal_key key" and "card (dom T) < 2 ^ p" and "has_room rt data s"
  shows "case T (get_hash key) of
     Some (Some e) \<Rightarrow> hh_add rt key data s = Some (Inr (Min_long, Min_long), s)
   | _ \<Rightarrow> \<exists>s' al os. hh_add rt key data s = Some (Inr (Val_long al, Val_long os), s')
            \<and> master_rel p s' (T(get_hash key \<mapsto> Some (encode rt data)))
            \<and> unat al = length (snd (encode rt data)) \<and> unat os = length (fst (stored_form rt data)) \<and> al \<le> os"
proof -
  have A: "ht_rel p s T" "hcounter s < hashtbl_size s" "get_hash key \<noteq> 0" "runtime_ok rt" "fits rt data"
    "allow_hashtable_writes_by_current_process s" "heap s + block_size (fst (encode rt data)) \<le> heap_max s"
    "my_pid s = master_pid s" "allow_removes s"
    using assms room_iff [of p s T] by (auto simp: master_rel_def legal_key_def has_room_def)
  have "\<exists>s' al os. hh_add rt key data s = Some (Inr (Val_long al, Val_long os), s')
            \<and> master_rel p s' (T(get_hash key \<mapsto> Some (encode rt data)))
            \<and> unat al = length (snd (encode rt data)) \<and> unat os = length (fst (stored_form rt data)) \<and> al \<le> os"
    if "T (get_hash key) = None \<or> T (get_hash key) = Some None"
    using hh_add_fresh [OF A(1,3) that A(4,5,6,2,7)] A(6,8,9) unfolding master_rel_def same_config_def by metis
  then show ?thesis using hh_add_again [OF A(1) _ A(2)] by (auto split: option.splits)
qed

theorem hh_add_refines_witness:
  "\<exists>s' al os. hh_add demo_runtime demo_key (String_block [7]) demo = Some (Inr (Val_long al, Val_long os), s')
     \<and> master_rel 2 s' [get_hash demo_key \<mapsto> Some (encode demo_runtime (String_block [7]))]"
  using hh_add_refines [OF demo_ht(4), of demo_key demo_runtime "String_block [7]"] demo_room [of "[7]"] by auto

text \<open>C4: Adding a value under a new or removed key (whose hash is not 0, with room in table and heap) and reading
  the key returns the value, marshalled or string, compressed or not.\<close>

theorem hh_add_get:
  assumes "master_rel p s T" and "legal_key key" and "T (get_hash key) = None \<or> T (get_hash key) = Some None"
    and "card (dom T) < 2 ^ p" and "has_room rt data s"
  shows "\<exists>r s'. hh_add rt key data s = Some (Inr r, s') \<and> hh_get_and_deserialize rt key s' = Some (Inr data, s')"
  using hht.add_get [OF assms(1) _ assms(4,5)] assms(2,3,5) unfolding hht.new_key_def has_room_def by blast

theorem hh_add_get_witness:
  "\<exists>r s'. hh_add demo_runtime demo_key (String_block [0, 0, 0]) demo = Some (Inr r, s')
     \<and> hh_get_and_deserialize demo_runtime demo_key s' = Some (Inr (String_block [0, 0, 0]), s')"
  using hh_add_get [OF demo_ht(4), of demo_key demo_runtime "String_block [0, 0, 0]"] demo_room [of "[0, 0, 0]"] by simp

text \<open>C17: The first writer wins: in a table that still has room after the first \<open>hh_add\<close> (and a heap with room for
  the first value), a second \<open>hh_add\<close> under the same key returns without changing the state, and reading the key
  still gives the first value.\<close>

theorem hh_add_first_writer_wins:
  assumes "master_rel p s T" and "legal_key key" and "T (get_hash key) = None \<or> T (get_hash key) = Some None"
    and "card (dom T) + 1 < 2 ^ p" and "finite (dom T)" and "has_room rt data s"
  shows "\<exists>r r' s'. op_bind (hh_add rt key data) (\<lambda>_. hh_add rt key data') s = Some (Inr r', s')
     \<and> hh_add rt key data s = Some (Inr r, s') \<and> hh_get_and_deserialize rt key s' = Some (Inr data, s')"
  using hht.first_writer_wins [OF assms(1) _ assms(4,5,6)] assms(2,3,6) unfolding hht.new_key_def has_room_def by blast

theorem hh_add_first_writer_wins_witness:
  "\<exists>r r' s'. op_bind (hh_add demo_runtime demo_key (String_block [7])) (\<lambda>_. hh_add demo_runtime demo_key (String_block [8])) demo = Some (Inr r', s')
     \<and> hh_add demo_runtime demo_key (String_block [7]) demo = Some (Inr r, s')
     \<and> hh_get_and_deserialize demo_runtime demo_key s' = Some (Inr (String_block [7]), s')"
  using hh_add_first_writer_wins [OF demo_ht(4), of demo_key demo_runtime "String_block [7]" "String_block [8]"]
    demo_room [of "[7]"] by simp

text \<open>C16: For a key whose hash is not 0, in a table that is not full or knows the key, \<open>hh_mem_status\<close> reports the
  abstract table: 1 for a bound key, -2 for a removed one, -1 for an unknown one; \<open>hh_mem\<close> is true exactly for a bound key. Neither changes the state nor waits.\<close>

theorem hh_mem_refines:
  assumes "ht_rel p s T" and "legal_key key" and "card (dom T) < 2 ^ p \<or> T (get_hash key) \<noteq> None"
  shows "hh_mem_status time key s = Some (Inr (Val_long (word_of_int (status_of (T (get_hash key))))), s)
     \<and> hh_mem time key s = Some (Inr (Val_bool (\<exists>e. T (get_hash key) = Some (Some e))), s)"
proof -
  have r: "hh_mem_inner time key s = Some (Inr (status_of (T (get_hash key))), s)"
    using hh_mem_inner_ok [OF assms(1), of key time] assms room_iff [OF assms(1)] by (auto simp: legal_key_def)
  have "status_of x = 1 \<or> status_of x = -1 \<or> status_of x = -2" "status_of x = 1 \<longleftrightarrow> (\<exists>e. x = Some (Some e))" for x
    by (auto simp: status_of_def split: option.splits)
  then show ?thesis using r by (simp add: hh_mem_status_def hh_mem_def op_simps)
qed

theorem hh_mem_refines_witness: "hh_mem (\<lambda>j. 5) demo_key demo = Some (Inr (Val_bool False), demo)"
  using hh_mem_refines [OF demo_ht(1), of demo_key "\<lambda>j. 5"] by simp

text \<open>C9: \<open>hh_remove\<close> implements the abstract removal for the master: the key becomes removed (its hash
  stays), every other key keeps its value, exactly the block size that was allocated for the entry is
  added to the wasted bytes, and the heap itself does not change.\<close>

theorem hh_remove_refines:
  assumes "master_rel p s T" and "T (get_hash key) = Some (Some e)"
  shows "\<exists>s'. hh_remove key s = Some (Inr (), s') \<and> master_rel p s' (T(get_hash key \<mapsto> None))
     \<and> unat (wasted_heap_size s') = unat (wasted_heap_size s) + block_size (fst e)
     \<and> removed_count s' = removed_count s + 1 \<and> heap s' = heap s"
proof -
  have A: "ht_rel p s T" "my_pid s = master_pid s" "allow_removes s" using assms(1) by (auto simp: master_rel_def)
  obtain s' where s': "hh_remove key s = Some (Inr (), s')" "ht_rel p s' (T(get_hash key \<mapsto> None))"
    "wasted_heap_size s' = wasted_heap_size s + ALIGNED (Heap_entry_total_size (fst e))"
    "removed_count s' = removed_count s + 1" "heap s' = heap s" "same_config s s'"
    using hh_remove_ok [OF A(1) assms(2) A(2,3)] by blast
  have "unat (wasted_heap_size s') = unat (wasted_heap_size s) + block_size (fst e)"
    unfolding s'(3) by (rule wasted_grows [OF A(1)])
  then show ?thesis using s' assms(1) by (auto simp: master_rel_def same_config_def)
qed

theorem hh_remove_refines_witness:
  "\<exists>s s'. hh_remove demo_key s = Some (Inr (), s') \<and> master_rel 2 s' [get_hash demo_key \<mapsto> None]"
  using demo_added hh_remove_refines [of 2 _ "[get_hash demo_key \<mapsto> Some (encode demo_runtime (String_block [7]))]" demo_key]
  by fastforce

text \<open>C18: A removed key can be added again while table and heap have room: after \<open>hh_remove\<close> the status is "removed", \<open>hh_add\<close> stores the
  new value, and reading the key returns it.\<close>

theorem hh_remove_add_get:
  assumes "master_rel p s T" and "T (get_hash key) = Some (Some e)" and "legal_key key" and "card (dom T) < 2 ^ p"
    and "finite (dom T)" and "has_room rt data s"
  shows "\<exists>s' r s''. hh_remove key s = Some (Inr (), s') \<and> hh_mem_inner time key s' = Some (Inr (-2), s')
     \<and> hh_add rt key data s' = Some (Inr r, s'') \<and> hh_mem_inner time key s'' = Some (Inr 1, s'')
     \<and> hh_get_and_deserialize rt key s'' = Some (Inr data, s'')"
proof (rule hht.removed_then_added [OF assms(1-5)])
  show "runtime_ok rt \<and> fits rt data" using assms(6) by (simp add: has_room_def)
  show "has_room rt data s'" if "hh_remove key s = Some (Inr (), s')" for s'
    using hh_remove_ok [of p s T key e] assms that by (auto simp: master_rel_def has_room_def same_config_def)
qed

theorem hh_remove_add_get_witness:
  "\<exists>s s' r s''. hh_remove demo_key s = Some (Inr (), s') \<and> hh_add demo_runtime demo_key (String_block []) s' = Some (Inr r, s'')
     \<and> hh_get_and_deserialize demo_runtime demo_key s'' = Some (Inr (String_block []), s'')"
proof -
  obtain s where s: "master_rel 2 s [get_hash demo_key \<mapsto> Some (encode demo_runtime (String_block [7]))]"
    "has_room demo_runtime (String_block []) s" using demo_added by blast
  show ?thesis using hh_remove_add_get [OF s(1) _ _ _ _ s(2), of demo_key _ "\<lambda>j. 5"] by fastforce
qed

text \<open>C10: \<open>hh_move\<close> transfers the value: afterwards the second key has the value of the first, which is
  removed, and no heap byte was allocated or wasted.\<close>

theorem hh_move_refines:
  assumes "master_rel p s T" and "T (get_hash key1) = Some x" and "T (get_hash key2) = None \<or> T (get_hash key2) = Some None"
    and "legal_key key2" and "get_hash key1 \<noteq> get_hash key2" and "card (dom T) < 2 ^ p"
  shows "\<exists>s'. hh_move key1 key2 s = Some (Inr (), s') \<and> master_rel p s' (T(get_hash key2 \<mapsto> x, get_hash key1 \<mapsto> None))
     \<and> heap s' = heap s \<and> wasted_heap_size s' = wasted_heap_size s"
  using hh_move_ok [of p s T key1 x key2] assms room_iff [of p s T]
  unfolding master_rel_def legal_key_def same_config_def by (elim conjE) metis

theorem hh_move_refines_witness:
  "\<exists>s s'. hh_move demo_key demo_key2 s = Some (Inr (), s')
     \<and> master_rel 2 s' [get_hash demo_key2 \<mapsto> Some (encode demo_runtime (String_block [7])), get_hash demo_key \<mapsto> None]"
proof -
  let ?x = "Some (encode demo_runtime (String_block [7]))"
  obtain s where s: "master_rel 2 s [get_hash demo_key \<mapsto> ?x]" using demo_added by blast
  obtain s' where "hh_move demo_key demo_key2 s = Some (Inr (), s')"
    "master_rel 2 s' ([get_hash demo_key \<mapsto> ?x](get_hash demo_key2 \<mapsto> ?x, get_hash demo_key \<mapsto> None))"
    using hh_move_refines [OF s, of demo_key ?x demo_key2] by auto
  moreover have "[get_hash demo_key \<mapsto> ?x](get_hash demo_key2 \<mapsto> ?x, get_hash demo_key \<mapsto> None)
      = [get_hash demo_key2 \<mapsto> ?x, get_hash demo_key \<mapsto> None]" by (auto simp: fun_eq_iff)
  ultimately show ?thesis by metis
qed

text \<open>C26: On a full table adding or looking up an unknown key (whose hash is not 0) raises \<open>Hash_table_full\<close> and changes
  nothing.\<close>

theorem hash_table_full_raised:
  assumes "ht_rel p s T" and "legal_key key" and "T (get_hash key) = None" and "hcounter s = hashtbl_size s"
  shows "hh_add rt key data s = Some (Inl Hash_table_full, s) \<and> find_slot key s = Some (Inl Hash_table_full, s)
     \<and> hh_mem time key s = Some (Inl Hash_table_full, s)"
  using hh_add_full [OF assms(1) _ assms(3,4)] find_slot_full [OF assms(1,3) _ assms(4)] assms(2)
  by (simp add: legal_key_def hh_mem_def hh_mem_inner_def op_simps)

theorem hash_table_full_raised_witness:
  "\<exists>s. hh_add demo_runtime demo_key (String_block [7]) s = Some (Inl Hash_table_full, s)"
  using demo_ht_full hash_table_full_raised [of 2 _ "[1 \<mapsto> None, 2 \<mapsto> None, 3 \<mapsto> None, 4 \<mapsto> None]" demo_key demo_runtime "String_block [7]" "\<lambda>j. 5"]
  by (auto simp: demo_hash_large)

text \<open>C27: In a table that is not full, reading a removed key, its size, or removing it again dereferences NULL; the
  same operations on an unknown key (whose hash is not 0) raise an assertion failure.\<close>

theorem hh_get_errors:
  assumes "master_rel p s T" and "legal_key key" and "card (dom T) < 2 ^ p" and "\<And>e. T (get_hash key) \<noteq> Some (Some e)"
  shows "if T (get_hash key) = None
     then hh_get_and_deserialize rt key s = Some (Inl (C_assertion_failure (LOCATION HH_SHARED_C 1482)), s)
        \<and> hh_get_size key s = Some (Inl (C_assertion_failure (LOCATION HH_SHARED_C 1495)), s)
        \<and> hh_remove key s = Some (Inl (C_assertion_failure (LOCATION HH_SHARED_C 1533)), s)
     else hh_get_and_deserialize rt key s = Some (Inl Invalid_access, s)
        \<and> hh_get_size key s = Some (Inl Invalid_access, s) \<and> hh_remove key s = Some (Inl Invalid_access, s)"
proof -
  have A: "ht_rel p s T" "my_pid s = master_pid s" "allow_removes s" "hcounter s < hashtbl_size s" "get_hash key \<noteq> 0"
    using assms room_iff [of p s T] by (auto simp: master_rel_def legal_key_def)
  have "T (get_hash key) = Some None" if "T (get_hash key) \<noteq> None" using that assms(4) by (metis option.exhaust)
  then show ?thesis using hh_get_removed [OF A(1)] hh_get_absent [OF A(1) _ A(5,4)] A(2,3) by auto
qed

theorem hh_get_errors_witness:
  "hh_get_and_deserialize demo_runtime demo_key demo = Some (Inl (C_assertion_failure (LOCATION HH_SHARED_C 1482)), demo)"
  using hh_get_errors [OF demo_ht(4), of demo_key demo_runtime] by simp

text \<open>\<open>hh_remove\<close> of a known key raises, without any effect, when the caller is not the master or when
  removal is not allowed.\<close>

lemma hh_remove_guarded:
  assumes "ht_rel p s T" and "legal_key key" and "T (get_hash key) \<noteq> None" and "my_pid s \<noteq> master_pid s \<or> \<not> allow_removes s"
  shows "hh_remove key s = Some (Inl (C_assertion_failure (LOCATION HH_SHARED_C (if my_pid s \<noteq> master_pid s then 700 else 708))), s)"
  using removal_guards [OF assms(1) _ assms(3)] assms(2,4) by (auto simp: legal_key_def)

lemma hh_remove_guarded_witness:
  "\<exists>s. hh_remove demo_key s = Some (Inl (C_assertion_failure (LOCATION HH_SHARED_C 700)), s)"
proof -
  obtain s where "ht_rel 2 s [get_hash demo_key \<mapsto> Some (encode demo_runtime (String_block [7]))]"
    using demo_added by (auto simp: master_rel_def)
  then have "ht_rel 2 (s\<lparr>my_pid := master_pid s + 1\<rparr>) [get_hash demo_key \<mapsto> Some (encode demo_runtime (String_block [7]))]"
    by (simp add: ht_rel_my_pid)
  from hh_remove_guarded [OF this, of demo_key] show ?thesis by auto
qed

text \<open>\<open>hh_get_size\<close> does not return the size as an OCaml integer: it decodes instead of encoding, so
  for a bound key the returned word is half the entry's size, which is not the immediate of the size.\<close>

lemma hh_get_size_miscoded:
  assumes "ht_rel p s T" and "T (get_hash key) = Some (Some e)"
  shows "hh_get_size key s = Some (Inr (drop_bit 1 (Entry_size (fst e))), s)
     \<and> drop_bit 1 (Entry_size (fst e)) \<noteq> Val_long (Entry_size (fst e))"
  using hh_get_size_value [OF assms] by blast

lemma hh_get_size_miscoded_witness:
  "\<exists>s (e :: entry). hh_get_size demo_key s = Some (Inr (drop_bit 1 (Entry_size (fst e))), s)
     \<and> drop_bit 1 (Entry_size (fst e)) \<noteq> Val_long (Entry_size (fst e))"
proof -
  let ?e = "encode demo_runtime (String_block [7])"
  obtain s where R: "ht_rel 2 s [get_hash demo_key \<mapsto> Some ?e]" using demo_added by (auto simp: master_rel_def)
  show ?thesis using hh_get_size_miscoded [OF R, of demo_key ?e] by (metis fun_upd_same)
qed

text \<open>C28: \<open>hh_hash_used_slots\<close> returns the number of slots with an address and the number of hashes in
  the abstract table; its internal consistency check never fails on related states.\<close>

theorem hh_hash_used_slots_counts:
  assumes "ht_rel p s T"
  shows "hh_hash_used_slots s = Some (Inr (Val_long (word_of_nat (card {h. \<exists>e. T h = Some (Some e)})),
     Val_long (word_of_nat (card (dom T)))), s)"
proof -
  note S = assms [unfolded ht_rel_def]
  have "{h. \<exists>e. T h = Some (Some e)} = ht_hash s ` {i. i < 2 ^ p \<and> ht_addr s i \<noteq> 0}"
  proof (intro equalityI subsetI)
    fix h assume "h \<in> {h. \<exists>e. T h = Some (Some e)}"
    then obtain e i where "i < 2 ^ p" "ht_hash s i = h" "slot_entry s i = Some e" using scan_present [OF assms] by blast
    then show "h \<in> ht_hash s ` {i. i < 2 ^ p \<and> ht_addr s i \<noteq> 0}" by (auto simp: slot_entry_def split: if_splits)
  next
    fix h assume "h \<in> ht_hash s ` {i. i < 2 ^ p \<and> ht_addr s i \<noteq> 0}"
    then obtain i where i: "i < 2 ^ p" "ht_addr s i \<noteq> 0" "h = ht_hash s i" by auto
    then have "ht_hash s i \<noteq> 0" using S by (auto simp: slots_ok_def)
    then show "h \<in> {h. \<exists>e. T h = Some (Some e)}" using i S by (auto simp: table_rel_def slot_entry_def)
  qed
  moreover have "inj_on (ht_hash s) {i. i < 2 ^ p \<and> ht_addr s i \<noteq> 0}"
  proof (rule inj_onI)
    fix i j assume ij: "i \<in> {i. i < 2 ^ p \<and> ht_addr s i \<noteq> 0}" "j \<in> {i. i < 2 ^ p \<and> ht_addr s i \<noteq> 0}" "ht_hash s i = ht_hash s j"
    then have "ht_hash s i \<noteq> 0" using S by (auto simp: slots_ok_def)
    then show "i = j" using ij htp.searchable_unique [of p "ht_view s" i j "ht_hash s i"] S by (auto simp: slots_ok_def ht_view_def)
  qed
  ultimately have "card {h. \<exists>e. T h = Some (Some e)} = card {i. i < 2 ^ p \<and> ht_addr s i \<noteq> 0}" by (simp add: card_image)
  then show ?thesis using get_slots_stats_ok [of p s] S ht_rel_card [OF assms] by (simp add: hh_hash_used_slots_def op_simps)
qed

theorem hh_hash_used_slots_counts_witness: "hh_hash_used_slots demo = Some (Inr (Val_long 0, Val_long 0), demo)"
  using hh_hash_used_slots_counts [OF demo_ht(1)] by simp

end
