(* ===== verification/Hh_Collect.thy ===== *)
theory Hh_Collect
  imports Hh_Table
begin

text \<open>
  The garbage collector \<open>hh_collect\<close>: the marking pass, which swaps the header of every entry in use
  with the address in its slot, and the compacting pass, which walks the heap, moves the marked
  entries to the left and swaps back. The main result: the collector returns, the abstract table is
  unchanged, and exactly the wasted bytes are reclaimed.
\<close>

subsection \<open>Operations\<close>

definition mark_slot :: "nat \<Rightarrow> unit hh_op" where
  "mark_slot i s =
     (if ht_addr s i = NULL then Some (Inr (), s)
      else op_seq (c_assert 1048 (\<lambda>s. ht_addr s i \<noteq> HASHTBL_WRITE_IN_PROGRESS))
        (modify (\<lambda>s. let hashtbl_addr = helt_addr_field s i; heap_addr = unat (ht_addr s i);
                         header = load64 (mem s) heap_addr
           in s\<lparr>mem := store64 (store64 (mem s) hashtbl_addr header) heap_addr (word_of_nat hashtbl_addr)\<rparr>)) s)"

definition collect_body :: "nat \<times> nat \<times> hh \<Rightarrow> (nat \<times> hh) + (nat \<times> nat \<times> hh)" where
  "collect_body = (\<lambda>(src, dest, s).
     if src < heap s then
       if load64 (mem s) src AND 1 \<noteq> 0 then
         (let header = load64 (mem s) src;
              aligned_size = unat (ALIGNED (Heap_entry_total_size header))
          in Inr (src + aligned_size, dest, s))
       else
         (let hashtbl_addr = unat (load64 (mem s) src);
              header = load64 (mem s) hashtbl_addr;
              aligned_size = unat (ALIGNED (Heap_entry_total_size header));
              m = memmove (store64 (store64 (mem s) hashtbl_addr (word_of_nat dest)) src header) dest src aligned_size
          in Inr (src + aligned_size, dest + aligned_size, s\<lparr>mem := m\<rparr>))
     else Inl (dest, s))"

definition hh_collect :: "ocaml_value hh_op" where
  "hh_collect =
     op_seq assert_master
    (op_seq assert_allow_removes
    (op_seq (\<lambda>s. for_each [0..<ht_slots s] mark_slot s)
    (\<lambda>s. map_option (\<lambda>(dest, s). (Inr Val_unit, s\<lparr>heap := dest, wasted_heap_size := 0\<rparr>))
           (while1 collect_body (heap_init s, heap_init s, s)))))"

subsection \<open>The compacting pass\<close>

text \<open>Where compaction puts the live blocks.\<close>

fun relocate :: "memory \<Rightarrow> nat set \<Rightarrow> nat \<Rightarrow> nat list \<Rightarrow> (nat \<times> nat) list" where
  "relocate m L dest [] = []"
| "relocate m L dest (b # bs) =
     (if b \<in> L then (b, dest) # relocate m L (dest + block_size (load64 m b)) bs else relocate m L dest bs)"

definition live_size :: "memory \<Rightarrow> nat set \<Rightarrow> nat list \<Rightarrow> nat" where
  "live_size m L bs = (\<Sum>b\<leftarrow>filter (\<lambda>b. b \<in> L) bs. block_size (load64 m b))"

lemma relocate_fst: "fst ` set (relocate m L d bs) = set bs \<inter> L"
  by (induction bs arbitrary: d) auto

text \<open>A block as the compaction pass finds it: a live one has the address of its slot where its header
  was, and its header in the slot.\<close>

definition marked_block :: "memory \<Rightarrow> nat set \<Rightarrow> (nat \<Rightarrow> nat) \<Rightarrow> memory \<Rightarrow> nat \<Rightarrow> bool" where
  "marked_block m0 L fld m b \<longleftrightarrow>
     (if b \<in> L then load64 m b = word_of_nat (fld b) \<and> load64 m (fld b) = load64 m0 b
        \<and> (\<forall>x. b + 8 \<le> x \<longrightarrow> x < b + block_size (load64 m0 b) \<longrightarrow> m x = m0 x)
      else (\<forall>x. b \<le> x \<longrightarrow> x < b + block_size (load64 m0 b) \<longrightarrow> m x = m0 x))"

definition relocated :: "memory \<Rightarrow> (nat \<Rightarrow> nat) \<Rightarrow> memory \<Rightarrow> nat \<times> nat \<Rightarrow> bool" where
  "relocated m0 fld m = (\<lambda>(b, b'). load64 m (fld b) = word_of_nat b'
     \<and> (\<forall>i<block_size (load64 m0 b). m (b' + i) = m0 (b + i)))"

lemma odd_iff: "(w::u64) AND 1 \<noteq> 0 \<longleftrightarrow> bit w 0"
  by (simp add: and_one_eq odd_iff_mod_2_eq_one bit_0)

lemma even_word: "even n \<Longrightarrow> n < 2 ^ 62 \<Longrightarrow> \<not> bit (word_of_nat n :: u64) 0"
  by (simp add: bit_0)

lemma compact:
  assumes "tiled m0 src (heap s) bs" and "dest \<le> src" and "base \<le> dest" and "heap s < 2 ^ 62"
    and "\<And>b. b \<in> set bs \<Longrightarrow> marked_block m0 L fld (mem s) b"
    and "\<And>b. b \<in> set bs \<Longrightarrow> b \<in> L \<Longrightarrow> fld b + 8 \<le> base \<and> even (fld b)"
    and "\<And>b c. b \<in> set bs \<Longrightarrow> c \<in> set bs \<Longrightarrow> b \<in> L \<Longrightarrow> c \<in> L \<Longrightarrow> b \<noteq> c \<Longrightarrow> fld b + 8 \<le> fld c \<or> fld c + 8 \<le> fld b"
  shows "\<exists>m. while1 collect_body (src, dest, s) = Some (dest + live_size m0 L bs, s\<lparr>mem := m\<rparr>)
     \<and> (\<forall>x<base. (\<forall>b\<in>set bs \<inter> L. x < fld b \<or> fld b + 8 \<le> x) \<longrightarrow> m x = mem s x)
     \<and> (\<forall>x. base \<le> x \<longrightarrow> x < dest \<longrightarrow> m x = mem s x)
     \<and> (\<forall>r\<in>set (relocate m0 L dest bs). relocated m0 fld m r)
     \<and> tiled m dest (dest + live_size m0 L bs) (map snd (relocate m0 L dest bs))"
  using assms
proof (induction bs arbitrary: src dest s)
  case Nil
  have "while1 collect_body (src, dest, s) = Some (dest, s)"
    using Nil(1) by (intro while1_Inl) (simp add: collect_body_def)
  then show ?case by (intro exI [of _ "mem s"]) (simp add: live_size_def)
next
  case (Cons b bs)
  let ?h = "load64 m0 b"
  let ?n = "block_size ?h"
  have b: "src = b" "bit ?h 0" "b + ?n \<le> heap s" "tiled m0 (b + ?n) (heap s) bs" using Cons.prems(1) by auto
  have n64: "64 \<le> ?n" by (rule block_size_pos)
  have here: "marked_block m0 L fld (mem s) b" using Cons.prems(5) by simp
  have later: "b + ?n \<le> c \<and> c + block_size (load64 m0 c) \<le> heap s" if "c \<in> set bs" for c using tiled_in [OF b(4) that] by blast
  show ?case
  proof (cases "b \<in> L")
    case False
    have "load64 (mem s) b = ?h" using here False n64 by (intro load64_cong) (simp add: marked_block_def)
    then have "collect_body (src, dest, s) = Inr (b + ?n, dest, s)"
      using b n64 by (simp add: collect_body_def odd_iff Let_def flip: block_size_def)
    then have step: "while1 collect_body (src, dest, s) = while1 collect_body (b + ?n, dest, s)" by (rule while1_Inr)
    have "\<exists>m. while1 collect_body (b + ?n, dest, s) = Some (dest + live_size m0 L bs, s\<lparr>mem := m\<rparr>)
     \<and> (\<forall>x<base. (\<forall>b\<in>set bs \<inter> L. x < fld b \<or> fld b + 8 \<le> x) \<longrightarrow> m x = mem s x)
     \<and> (\<forall>x. base \<le> x \<longrightarrow> x < dest \<longrightarrow> m x = mem s x)
     \<and> (\<forall>r\<in>set (relocate m0 L dest bs). relocated m0 fld m r)
     \<and> tiled m dest (dest + live_size m0 L bs) (map snd (relocate m0 L dest bs))"
      using Cons.prems b by (intro Cons.IH) auto
    then show ?thesis using False step by (simp add: live_size_def)
  next
    case True
    note mk = here [unfolded marked_block_def, simplified True if_True]
    have f: "fld b + 8 \<le> base" "even (fld b)" using Cons.prems(6) True by auto
    have fb: "fld b + 8 \<le> dest" using f Cons.prems(3) by simp
    have un: "unat (word_of_nat (fld b) :: u64) = fld b" using f Cons.prems b by (simp add: unat_of_nat)
    define m2 where "m2 = store64 (store64 (mem s) (fld b) (word_of_nat dest)) b ?h"
    define m3 where "m3 = memmove m2 dest b ?n"
    have "load64 (mem s) b AND 1 = 0"
      using mk even_word [of "fld b"] f Cons.prems b odd_iff [of "load64 (mem s) b"] by auto
    then have "collect_body (src, dest, s) = Inr (b + ?n, dest + ?n, s\<lparr>mem := m3\<rparr>)"
      using b n64 mk un by (simp add: collect_body_def Let_def m2_def m3_def flip: block_size_def)
    then have step: "while1 collect_body (src, dest, s) = while1 collect_body (b + ?n, dest + ?n, s\<lparr>mem := m3\<rparr>)" by (rule while1_Inr)
    have copied: "m2 x = m0 x" if "b \<le> x" "x < b + ?n" for x
    proof (cases "x < b + 8")
      case True
      then have "m2 x = m0 (b + (x - b))" using that by (simp only: m2_def store64_def load64_def byte_of_word_of_bytes simp_thms if_True)
      then show ?thesis using that(1) by simp
    next
      case False
      then show ?thesis using that mk fb Cons.prems(2) b(1) by (simp add: m2_def store64_other)
    qed
    have moved: "m3 (dest + i) = m0 (b + i)" if "i < ?n" for i
      using that copied [of "b + i"] by (simp add: m3_def memmove_def)
    have above: "m3 x = mem s x" if "b + ?n \<le> x" for x
      using that Cons.prems(2) b(1) fb n64 by (simp add: m3_def memmove_def m2_def store64_other)
    have below: "m3 x = mem s x" if "x < dest" "x < fld b \<or> fld b + 8 \<le> x" for x
      using that Cons.prems(2) b(1) by (auto simp: m3_def memmove_def m2_def store64_other)
    have cell: "load64 m3 (fld b) = word_of_nat dest"
    proof -
      have "load64 m3 (fld b) = load64 m2 (fld b)"
        by (rule load64_cong) (use fb in \<open>simp add: m3_def memmove_def\<close>)
      then show ?thesis using fb Cons.prems(2) b(1) by (simp add: m2_def)
    qed
    have apart: "fld b + 8 \<le> fld c \<or> fld c + 8 \<le> fld b" if "c \<in> set bs" "c \<in> L" for c
      using Cons.prems(7) [of b c] that True later [OF that(1)] n64 by auto
    have mks: "marked_block m0 L fld (mem (s\<lparr>mem := m3\<rparr>)) c" if c: "c \<in> set bs" for c
    proof -
      have old: "marked_block m0 L fld (mem s) c" using Cons.prems(5) c by simp
      have hi: "m3 x = mem s x" if "c \<le> x" for x using above later [OF c] that by simp
      have "load64 m3 c = load64 (mem s) c" by (rule load64_cong) (simp add: hi)
      moreover have "load64 m3 (fld c) = load64 (mem s) (fld c)" if "c \<in> L"
      proof (rule load64_cong)
        fix i :: nat assume "i < 8"
        moreover have "fld c + 8 \<le> dest" using Cons.prems(3,6) c that by (meson le_trans list.set_intros(2))
        ultimately show "m3 (fld c + i) = mem s (fld c + i)" using apart [OF c that] by (intro below) auto
      qed
      ultimately show ?thesis using old hi by (auto simp: marked_block_def)
    qed
    have "\<exists>m. while1 collect_body (b + ?n, dest + ?n, s\<lparr>mem := m3\<rparr>) = Some (dest + ?n + live_size m0 L bs, s\<lparr>mem := m3, mem := m\<rparr>)
     \<and> (\<forall>x<base. (\<forall>b\<in>set bs \<inter> L. x < fld b \<or> fld b + 8 \<le> x) \<longrightarrow> m x = mem (s\<lparr>mem := m3\<rparr>) x)
     \<and> (\<forall>x. base \<le> x \<longrightarrow> x < dest + ?n \<longrightarrow> m x = mem (s\<lparr>mem := m3\<rparr>) x)
     \<and> (\<forall>r\<in>set (relocate m0 L (dest + ?n) bs). relocated m0 fld m r)
     \<and> tiled m (dest + ?n) (dest + ?n + live_size m0 L bs) (map snd (relocate m0 L (dest + ?n) bs))"
      by (rule Cons.IH) (use Cons.prems b mks in auto)
    then obtain m where m: "while1 collect_body (b + ?n, dest + ?n, s\<lparr>mem := m3\<rparr>) = Some (dest + ?n + live_size m0 L bs, s\<lparr>mem := m\<rparr>)"
      "\<And>x. x < base \<Longrightarrow> (\<And>b. b \<in> set bs \<Longrightarrow> b \<in> L \<Longrightarrow> x < fld b \<or> fld b + 8 \<le> x) \<Longrightarrow> m x = m3 x"
      "\<And>x. base \<le> x \<Longrightarrow> x < dest + ?n \<Longrightarrow> m x = m3 x"
      "\<forall>r\<in>set (relocate m0 L (dest + ?n) bs). relocated m0 fld m r"
      "tiled m (dest + ?n) (dest + ?n + live_size m0 L bs) (map snd (relocate m0 L (dest + ?n) bs))"
      by auto
    have size: "live_size m0 L (b # bs) = ?n + live_size m0 L bs" using True by (simp add: live_size_def)
    have mcell: "load64 m (fld b) = word_of_nat dest"
    proof -
      have "load64 m (fld b) = load64 m3 (fld b)"
      proof (rule load64_cong)
        fix i :: nat assume "i < 8"
        then show "m (fld b + i) = m3 (fld b + i)" using f apart by (intro m(2)) fastforce+
      qed
      then show ?thesis using cell by simp
    qed
    have mmoved: "m (dest + i) = m0 (b + i)" if "i < ?n" for i
      using that moved [OF that] m(3) [of "dest + i"] Cons.prems(3) by simp
    have "load64 m dest = ?h" using mmoved n64 by (intro load64_cong) auto
    then have "tiled m dest (dest + live_size m0 L (b # bs)) (map snd (relocate m0 L dest (b # bs)))"
      using m(5) b(2) True size by (simp add: add.assoc)
    moreover have "\<forall>r\<in>set (relocate m0 L dest (b # bs)). relocated m0 fld m r"
      using m(4) True mcell mmoved by (simp add: relocated_def)
    moreover have "m x = mem s x" if "x < base" "\<forall>c\<in>set (b # bs) \<inter> L. x < fld c \<or> fld c + 8 \<le> x" for x
      using that m(2) [of x] below [of x] True Cons.prems(3) by auto
    moreover have "m x = mem s x" if "base \<le> x" "x < dest" for x
      using that m(3) [of x] below [of x] f by simp
    ultimately show ?thesis using m(1) step size by (intro exI [of _ m]) (simp add: add.assoc)
  qed
qed

subsection \<open>The marking pass\<close>

definition marked :: "nat \<Rightarrow> nat \<Rightarrow> hh \<Rightarrow> memory \<Rightarrow> bool" where
  "marked p k s m \<longleftrightarrow>
     (\<forall>i<2 ^ p. load64 m (helt_addr_field s i) =
        (if i < k \<and> ht_addr s i \<noteq> 0 then load64 (mem s) (unat (ht_addr s i)) else ht_addr s i))
   \<and> (\<forall>i<2 ^ p. ht_addr s i \<noteq> 0 \<longrightarrow> load64 m (unat (ht_addr s i)) =
        (if i < k then word_of_nat (helt_addr_field s i) else load64 (mem s) (unat (ht_addr s i))))
   \<and> (\<forall>x. heap_init s \<le> x \<longrightarrow> (\<forall>i<2 ^ p. ht_addr s i \<noteq> 0 \<longrightarrow> x < unat (ht_addr s i) \<or> unat (ht_addr s i) + 8 \<le> x) \<longrightarrow> m x = mem s x)
   \<and> (\<forall>x<heap_init s. (\<forall>i<2 ^ p. ht_addr s i \<noteq> 0 \<longrightarrow> x < helt_addr_field s i \<or> helt_addr_field s i + 8 \<le> x) \<longrightarrow> m x = mem s x)"

lemma field_apart: "i \<noteq> j \<Longrightarrow> helt_addr_field s i + 8 \<le> helt_addr_field s j \<or> helt_addr_field s j + 8 \<le> helt_addr_field s i"
  unfolding helt_addr_field_def using row16_hi.apart' by blast

lemma field_below: "layout s \<Longrightarrow> i < ht_slots s \<Longrightarrow> helt_addr_field s i + 8 \<le> heap_init s \<and> hashtbl s + 8 \<le> helt_addr_field s i"
  by (simp add: layout_def helt_addr_field_def)

lemma live_apart:
  assumes H: "heap_inv p s bs" and ok: "slots_ok p s" and i: "i < 2 ^ p" "ht_addr s i \<noteq> 0" and j: "j < 2 ^ p" "ht_addr s j \<noteq> 0" and ne: "i \<noteq> j"
  shows "unat (ht_addr s i) + 8 \<le> unat (ht_addr s j) \<or> unat (ht_addr s j) + 8 \<le> unat (ht_addr s i)"
proof -
  have "unat (ht_addr s i) \<noteq> unat (ht_addr s j)"
    using ok ne i j by (auto simp: slots_ok_def inj_on_def word_unat_eq_iff)
  then show ?thesis
    using tiled_apart [of "mem s" "heap_init s" "heap s" bs "unat (ht_addr s i)" "unat (ht_addr s j)"]
      live_entry(1) [OF H i] live_entry(1) [OF H j] H block_size_pos [of "load64 (mem s) (unat (ht_addr s i))"]
      block_size_pos [of "load64 (mem s) (unat (ht_addr s j))"] by (auto simp: heap_inv_def)
qed

lemma marked_0: "marked p 0 s (mem s)"
  by (simp add: marked_def ht_addr_def)

lemma mark_pass:
  assumes R: "ht_rel p s T"
  shows "k \<le> 2 ^ p \<Longrightarrow> \<exists>m. for_each [0..<k] mark_slot s = Some (Inr (), s\<lparr>mem := m\<rparr>) \<and> marked p k s m"
proof (induction k)
  case 0
  then show ?case using marked_0 by (intro exI [of _ "mem s"]) (simp add: op_simps)
next
  case (Suc k)
  then obtain m where run: "for_each [0..<k] mark_slot s = Some (Inr (), s\<lparr>mem := m\<rparr>)" and M: "marked p k s m" by auto
  have k: "k < 2 ^ p" using Suc by simp
  note S = R [unfolded ht_rel_def]
  then obtain bs where H: "heap_inv p s bs" by blast
  have D: "layout s" "ht_slots s = 2 ^ p" using S ht_sizedD by blast+
  let ?s = "s\<lparr>mem := m\<rparr>"
  have seq: "for_each [0..<Suc k] mark_slot s = mark_slot k ?s"
    by (simp only: upt_Suc_append le0 for_each_snoc) (simp add: op_simps run)
  have addr: "ht_addr ?s k = ht_addr s k" using M k by (simp add: marked_def ht_addr_def helt_addr_field_def)
  show ?case
  proof (cases "ht_addr s k = 0")
    case True
    then have "marked p (Suc k) s m" using M unfolding marked_def by (auto simp: less_Suc_eq)
    moreover have "mark_slot k ?s = Some (Inr (), ?s)" using addr True by (simp add: mark_slot_def NULL_def)
    ultimately show ?thesis using seq by auto
  next
    case False
    let ?a = "unat (ht_addr s k)" and ?f = "helt_addr_field s k"
    let ?h = "load64 (mem s) ?a"
    have f: "?f + 8 \<le> heap_init s" using field_below [OF D(1)] k D(2) by simp
    have a: "heap_init s \<le> ?a" using live_entry(2) [OF H k False] .
    define m' where "m' = store64 (store64 m ?f ?h) ?a (word_of_nat ?f)"
    have h: "load64 m ?a = ?h" using M k False by (simp add: marked_def)
    have r: "mark_slot k ?s = Some (Inr (), s\<lparr>mem := m'\<rparr>)"
      using addr False live_not_marker(1) [OF R k] h
      by (simp add: mark_slot_def op_simps NULL_def Let_def m'_def helt_addr_field_def)
    have "marked p (Suc k) s m'"
      unfolding marked_def
    proof (intro conjI allI impI)
      fix i :: nat assume i: "i < 2 ^ p"
      have fi: "helt_addr_field s i + 8 \<le> heap_init s" using field_below [OF D(1)] i D(2) by simp
      have "load64 m' (helt_addr_field s i) = (if i = k then ?h else load64 m (helt_addr_field s i))"
        using fi a field_apart [of i k s] by (auto simp: m'_def)
      then show "load64 m' (helt_addr_field s i) =
        (if i < Suc k \<and> ht_addr s i \<noteq> 0 then load64 (mem s) (unat (ht_addr s i)) else ht_addr s i)"
        using M i False by (auto simp: marked_def less_Suc_eq)
    next
      fix i :: nat assume i: "i < 2 ^ p" "ht_addr s i \<noteq> 0"
      have ai: "heap_init s \<le> unat (ht_addr s i)" using live_entry(2) [OF H i] .
      have "load64 m' (unat (ht_addr s i)) = (if i = k then word_of_nat ?f else load64 m (unat (ht_addr s i)))"
        using ai f live_apart [OF H _ i k False] S by (auto simp: m'_def)
      then show "load64 m' (unat (ht_addr s i)) =
        (if i < Suc k then word_of_nat (helt_addr_field s i) else load64 (mem s) (unat (ht_addr s i)))"
        using M i by (auto simp: marked_def less_Suc_eq)
    next
      fix x assume x: "heap_init s \<le> x" "\<forall>i<2 ^ p. ht_addr s i \<noteq> 0 \<longrightarrow> x < unat (ht_addr s i) \<or> unat (ht_addr s i) + 8 \<le> x"
      then have "m' x = m x" using k False f by (auto simp: m'_def store64_other)
      then show "m' x = mem s x" using M x by (simp add: marked_def)
    next
      fix x assume x: "x < heap_init s" "\<forall>i<2 ^ p. ht_addr s i \<noteq> 0 \<longrightarrow> x < helt_addr_field s i \<or> helt_addr_field s i + 8 \<le> x"
      then have "m' x = m x" using k False a by (auto simp: m'_def store64_other)
      then show "m' x = mem s x" using M x by (simp add: marked_def)
    qed
    then show ?thesis using seq r by auto
  qed
qed

subsection \<open>The collection\<close>

text \<open>The slot that holds a live block.\<close>

definition slot_of :: "nat \<Rightarrow> hh \<Rightarrow> nat \<Rightarrow> nat" where
  "slot_of p s = inv_into {i. i < 2 ^ p \<and> ht_addr s i \<noteq> 0} (\<lambda>i. unat (ht_addr s i))"

lemma slot_of:
  assumes ok: "slots_ok p s"
  shows "i < 2 ^ p \<Longrightarrow> ht_addr s i \<noteq> 0 \<Longrightarrow> slot_of p s (unat (ht_addr s i)) = i"
    and "b \<in> live p s \<Longrightarrow> slot_of p s b < 2 ^ p \<and> ht_addr s (slot_of p s b) \<noteq> 0 \<and> unat (ht_addr s (slot_of p s b)) = b"
proof -
  let ?I = "{i. i < 2 ^ p \<and> ht_addr s i \<noteq> 0}"
  have "inj_on (\<lambda>i. unat (ht_addr s i)) ?I"
    using ok by (auto simp: slots_ok_def inj_on_def word_unat_eq_iff)
  then show "i < 2 ^ p \<Longrightarrow> ht_addr s i \<noteq> 0 \<Longrightarrow> slot_of p s (unat (ht_addr s i)) = i"
    unfolding slot_of_def by (intro inv_into_f_f) auto
  show "b \<in> live p s \<Longrightarrow> slot_of p s b < 2 ^ p \<and> ht_addr s (slot_of p s b) \<noteq> 0 \<and> unat (ht_addr s (slot_of p s b)) = b"
    using inv_into_into [of b "\<lambda>i. unat (ht_addr s i)" ?I] f_inv_into_f [of b "\<lambda>i. unat (ht_addr s i)" ?I]
    unfolding live_def slot_of_def by auto
qed

lemma marked_blocks:
  assumes R: "ht_rel p s T" and H: "heap_inv p s bs" and M: "marked p (2 ^ p) s m" and b: "b \<in> set bs"
  shows "marked_block (mem s) (live p s) (\<lambda>b. helt_addr_field s (slot_of p s b)) m b"
proof -
  have ok: "slots_ok p s" and t: "tiled (mem s) (heap_init s) (heap s) bs" using R H by (auto simp: ht_rel_def heap_inv_def)
  note tb = tiled_in [OF t b]
  have same: "m x = mem s x"
    if x: "b \<le> x" "x < b + block_size (load64 (mem s) b)" "b \<in> live p s \<Longrightarrow> b + 8 \<le> x" for x
  proof -
    have "x < unat (ht_addr s i) \<or> unat (ht_addr s i) + 8 \<le> x" if i: "i < 2 ^ p" "ht_addr s i \<noteq> 0" for i
    proof (cases "unat (ht_addr s i) = b")
      case True
      then have "b \<in> live p s" using i by (auto simp: live_def)
      then show ?thesis using x(3) True by simp
    next
      case False
      then show ?thesis using tiled_apart [OF t b live_entry(1) [OF H i]] x
          block_size_pos [of "load64 (mem s) (unat (ht_addr s i))"] by auto
    qed
    then show ?thesis using M x tb by (simp add: marked_def)
  qed
  show ?thesis
  proof (cases "b \<in> live p s")
    case True
    note sl = slot_of(2) [OF ok True]
    then have "load64 m b = word_of_nat (helt_addr_field s (slot_of p s b))"
      "load64 m (helt_addr_field s (slot_of p s b)) = load64 (mem s) b"
      using M unfolding marked_def by metis+
    then show ?thesis using True same by (simp add: marked_block_def)
  qed (use same in \<open>simp add: marked_block_def\<close>)
qed

lemma collect_run:
  assumes R: "ht_rel p s T" and H: "heap_inv p s bs" and perm: "my_pid s = master_pid s" "allow_removes s"
    and L: "L = live p s" and F: "fld = (\<lambda>b. helt_addr_field s (slot_of p s b))" and D: "d = heap_init s + live_size (mem s) L bs"
  shows "\<exists>m. hh_collect s = Some (Inr Val_unit, s\<lparr>mem := m, heap := d, wasted_heap_size := 0\<rparr>)
     \<and> (\<forall>x<heap_init s. (\<forall>i<2 ^ p. ht_addr s i \<noteq> 0 \<longrightarrow> x < helt_addr_field s i \<or> helt_addr_field s i + 8 \<le> x) \<longrightarrow> m x = mem s x)
     \<and> (\<forall>i<2 ^ p. ht_addr s i = 0 \<longrightarrow> load64 m (helt_addr_field s i) = 0)
     \<and> (\<forall>r\<in>set (relocate (mem s) L (heap_init s) bs). relocated (mem s) fld m r)
     \<and> tiled m (heap_init s) d (map snd (relocate (mem s) L (heap_init s) bs))"
proof -
  note S = R [unfolded ht_rel_def]
  have ok: "slots_ok p s" using S by simp
  have lay: "layout s" "ht_slots s = 2 ^ p" using S ht_sizedD by blast+
  have t: "tiled (mem s) (heap_init s) (heap s) bs" using H by (simp add: heap_inv_def)
  obtain m1 where m1: "for_each [0..<2 ^ p] mark_slot s = Some (Inr (), s\<lparr>mem := m1\<rparr>)" "marked p (2 ^ p) s m1"
    using mark_pass [OF R, of "2 ^ p"] by auto
  have fb: "fld b + 8 \<le> heap_init s \<and> even (fld b)" if "b \<in> L" for b
  proof -
    have "slot_of p s b < ht_slots s" using slot_of(2) [OF ok] that L lay(2) by simp
    moreover have "even (hashtbl s)" using lay(1) by (auto simp: layout_def elim: dvd_trans [rotated])
    ultimately show ?thesis using field_below [OF lay(1)] F by (simp add: helt_addr_field_def)
  qed
  have "\<exists>m. while1 collect_body (heap_init s, heap_init s, s\<lparr>mem := m1\<rparr>) = Some (heap_init s + live_size (mem s) L bs, s\<lparr>mem := m1, mem := m\<rparr>)
     \<and> (\<forall>x<heap_init s. (\<forall>b\<in>set bs \<inter> L. x < fld b \<or> fld b + 8 \<le> x) \<longrightarrow> m x = mem (s\<lparr>mem := m1\<rparr>) x)
     \<and> (\<forall>x. heap_init s \<le> x \<longrightarrow> x < heap_init s \<longrightarrow> m x = mem (s\<lparr>mem := m1\<rparr>) x)
     \<and> (\<forall>r\<in>set (relocate (mem s) L (heap_init s) bs). relocated (mem s) fld m r)
     \<and> tiled m (heap_init s) (heap_init s + live_size (mem s) L bs) (map snd (relocate (mem s) L (heap_init s) bs))"
  proof (rule compact)
    show "marked_block (mem s) L fld (mem (s\<lparr>mem := m1\<rparr>)) b" if "b \<in> set bs" for b
      using marked_blocks [OF R H m1(2) that] by (simp add: L F)
    show "fld b + 8 \<le> fld c \<or> fld c + 8 \<le> fld b" if "b \<in> L" "c \<in> L" "b \<noteq> c" for b c
    proof -
      have "slot_of p s b \<noteq> slot_of p s c" using slot_of(2) [OF ok] that L by metis
      then show ?thesis unfolding F by (rule field_apart)
    qed
    show "heap (s\<lparr>mem := m1\<rparr>) < 2 ^ 62" using H lay(1) by (simp add: heap_inv_def layout_def)
  qed (use t fb in auto)
  then obtain m where m: "while1 collect_body (heap_init s, heap_init s, s\<lparr>mem := m1\<rparr>) = Some (d, s\<lparr>mem := m\<rparr>)"
    "\<And>x. x < heap_init s \<Longrightarrow> (\<And>b. b \<in> set bs \<Longrightarrow> b \<in> L \<Longrightarrow> x < fld b \<or> fld b + 8 \<le> x) \<Longrightarrow> m x = m1 x"
    "\<forall>r\<in>set (relocate (mem s) L (heap_init s) bs). relocated (mem s) fld m r"
    "tiled m (heap_init s) d (map snd (relocate (mem s) L (heap_init s) bs))"
    unfolding D by auto
  have run: "hh_collect s = Some (Inr Val_unit, s\<lparr>mem := m, heap := d, wasted_heap_size := 0\<rparr>)"
    using perm m1(1) m(1) lay(2) by (simp add: hh_collect_def op_simps)
  have outside: "m x = m1 x"
    if x: "x < heap_init s" "\<forall>i<2 ^ p. ht_addr s i \<noteq> 0 \<longrightarrow> x < helt_addr_field s i \<or> helt_addr_field s i + 8 \<le> x" for x
    using x slot_of(2) [OF ok] by (intro m(2)) (auto simp: F L)
  have "load64 m (helt_addr_field s i) = 0" if i: "i < 2 ^ p" "ht_addr s i = 0" for i
  proof -
    have "load64 m (helt_addr_field s i) = load64 m1 (helt_addr_field s i)"
    proof (rule load64_cong, rule outside)
      fix j :: nat assume j: "j < 8"
      show "helt_addr_field s i + j < heap_init s" using field_below [OF lay(1), of i] i lay(2) j by simp
      show "\<forall>i'<2 ^ p. ht_addr s i' \<noteq> 0 \<longrightarrow> helt_addr_field s i + j < helt_addr_field s i' \<or> helt_addr_field s i' + 8 \<le> helt_addr_field s i + j"
        using field_apart [of i _ s] i j by fastforce
    qed
    then show ?thesis using m1(2) i by (simp add: marked_def)
  qed
  moreover have "m x = mem s x"
    if x: "x < heap_init s" "\<forall>i<2 ^ p. ht_addr s i \<noteq> 0 \<longrightarrow> x < helt_addr_field s i \<or> helt_addr_field s i + 8 \<le> x" for x
    using outside [OF x] m1(2) x by (simp add: marked_def)
  ultimately show ?thesis using run m(3,4) by blast
qed

lemma live_size_wasted:
  assumes H: "heap_inv p s bs"
  shows "live_size (mem s) (live p s) bs + unat (wasted_heap_size s) + heap_init s = heap s"
proof -
  have t: "tiled (mem s) (heap_init s) (heap s) bs" using H by (simp add: heap_inv_def)
  have d: "distinct bs" using t by (rule tiled_distinct)
  have "live_size (mem s) (live p s) bs = (\<Sum>b\<in>set bs \<inter> live p s. block_size (load64 (mem s) b))"
    unfolding live_size_def using d by (subst sum_list_distinct_conv_sum_set) (auto intro: sum.cong)
  moreover have "(\<Sum>b\<in>set bs. block_size (load64 (mem s) b))
      = (\<Sum>b\<in>set bs \<inter> live p s. block_size (load64 (mem s) b)) + (\<Sum>b\<in>set bs - live p s. block_size (load64 (mem s) b))"
    by (subst sum.union_disjoint [symmetric]) (auto intro: arg_cong2 [where f = sum])
  moreover have "(\<Sum>b\<leftarrow>bs. block_size (load64 (mem s) b)) = (\<Sum>b\<in>set bs. block_size (load64 (mem s) b))"
    using d by (simp add: sum_list_distinct_conv_sum_set)
  ultimately show ?thesis using H tiled_sum [OF t] by (simp add: heap_inv_def)
qed

lemma entry_at_moved:
  assumes "\<And>i. i < block_size (load64 (mem s) b) \<Longrightarrow> mem w (b' + i) = mem s (b + i)"
  shows "entry_at w b' = entry_at s b"
proof -
  have h: "load64 (mem w) b' = load64 (mem s) b"
    using assms block_size_pos [of "load64 (mem s) b"] by (intro load64_cong) auto
  moreover have "read_bytes (mem w) (b' + 8) (unat (Entry_size (load64 (mem s) b)))
     = read_bytes (mem s) (b + 8) (unat (Entry_size (load64 (mem s) b)))"
    using assms [of "8 + _"] block_size_bounds(1) [of "load64 (mem s) b"] by (intro read_bytes_cong) (simp add: add.assoc)
  ultimately show ?thesis by (simp add: entry_at_def)
qed

lemma collect_ok:
  assumes R: "ht_rel p s T" and perm: "my_pid s = master_pid s" "allow_removes s"
  shows "\<exists>w. hh_collect s = Some (Inr Val_unit, w) \<and> ht_rel p w T \<and> heap w + unat (wasted_heap_size s) = heap s
     \<and> wasted_heap_size w = 0 \<and> same_config s w"
proof -
  note S = R [unfolded ht_rel_def]
  then obtain bs where H: "heap_inv p s bs" by blast
  have ok: "slots_ok p s" using S by simp
  have lay: "layout s" "ht_slots s = 2 ^ p" using S ht_sizedD by blast+
  define L fld where "L = live p s" and "fld = (\<lambda>b. helt_addr_field s (slot_of p s b))"
  define d where "d = heap_init s + live_size (mem s) L bs"
  define rel where "rel = relocate (mem s) L (heap_init s) bs"
  obtain m where run: "hh_collect s = Some (Inr Val_unit, s\<lparr>mem := m, heap := d, wasted_heap_size := 0\<rparr>)"
    and frame: "\<And>x. x < heap_init s \<Longrightarrow> \<forall>i<2 ^ p. ht_addr s i \<noteq> 0 \<longrightarrow> x < helt_addr_field s i \<or> helt_addr_field s i + 8 \<le> x \<Longrightarrow> m x = mem s x"
    and null: "\<And>i. i < 2 ^ p \<Longrightarrow> ht_addr s i = 0 \<Longrightarrow> load64 m (helt_addr_field s i) = 0"
    and moved: "\<forall>r\<in>set rel. relocated (mem s) fld m r" and tl: "tiled m (heap_init s) d (map snd rel)"
    using collect_run [OF R H perm L_def fld_def d_def] unfolding rel_def by blast
  define w where "w = s\<lparr>mem := m, heap := d, wasted_heap_size := 0\<rparr>"
  have sel: "mem w = m" "heap w = d" "heap_init w = heap_init s" "heap_max w = heap_max s" "hcounter w = hcounter s"
    "wasted_heap_size w = 0" "ht_sized p w = ht_sized p s" "helt_addr_field w = helt_addr_field s" "layout w = layout s"
    by (auto simp: w_def ht_sized_def helt_addr_field_def fun_eq_iff)
  have size: "d + unat (wasted_heap_size s) = heap s" using live_size_wasted [OF H] by (simp add: d_def L_def)
  have hash: "ht_hash w i = ht_hash s i" if "i < 2 ^ p" for i
  proof -
    have "m (hashtbl s + 16 * i + j) = mem s (hashtbl s + 16 * i + j)" if j: "j < 8" for j
    proof (rule frame)
      show "hashtbl s + 16 * i + j < heap_init s" using lay \<open>i < 2 ^ p\<close> j by (simp add: layout_def)
      have "hashtbl s + 16 * i + j < hashtbl s + 16 * i' + 8 \<or> hashtbl s + 16 * i' + 8 + 8 \<le> hashtbl s + 16 * i + j" for i'
        using j by presburger
      then show "\<forall>i'<2 ^ p. ht_addr s i' \<noteq> 0 \<longrightarrow> hashtbl s + 16 * i + j < helt_addr_field s i' \<or> helt_addr_field s i' + 8 \<le> hashtbl s + 16 * i + j"
        unfolding helt_addr_field_def by blast
    qed
    then show ?thesis unfolding ht_hash_def w_def by (intro load64_cong) auto
  qed
  have L: "L \<subseteq> set bs" using H by (simp add: L_def heap_inv_def)
  have new: "\<exists>b'. (unat (ht_addr s i), b') \<in> set rel" if i: "i < 2 ^ p" "ht_addr s i \<noteq> 0" for i
  proof -
    have "unat (ht_addr s i) \<in> fst ` set rel"
      using relocate_fst [of "mem s" L "heap_init s" bs] L i by (auto simp: rel_def L_def live_def)
    then show ?thesis by auto
  qed
  have old: "\<exists>i<2 ^ p. ht_addr s i \<noteq> 0 \<and> unat (ht_addr s i) = b" if "(b, b') \<in> set rel" for b b'
  proof -
    have "b \<in> L" using relocate_fst [of "mem s" L "heap_init s" bs] that by (force simp: rel_def)
    then show ?thesis using slot_of(2) [OF ok, of b] L_def by auto
  qed
  have at: "ht_addr w i = word_of_nat b'" "b' < 2 ^ 62" "unat (ht_addr w i) = b'" "ht_addr w i \<noteq> 0" "entry_at w b' = entry_at s (unat (ht_addr s i))"
    if i: "i < 2 ^ p" "ht_addr s i \<noteq> 0" and b': "(unat (ht_addr s i), b') \<in> set rel" for i b'
  proof -
    have r: "relocated (mem s) fld m (unat (ht_addr s i), b')" using moved b' by blast
    show a: "ht_addr w i = word_of_nat b'"
      using r slot_of(1) [OF ok i] by (simp add: relocated_def fld_def ht_addr_def sel)
    have "b' \<in> set (map snd rel)" using b' by force
    then have bb: "heap_init s \<le> b' \<and> b' \<le> d" using tiled_in [OF tl, of b'] by auto
    then show lt: "b' < 2 ^ 62" using size H lay(1) by (simp add: heap_inv_def layout_def)
    then show u: "unat (ht_addr w i) = b'" using a by (simp add: unat_of_nat)
    then show "ht_addr w i \<noteq> 0" using bb layout_heap_init [OF lay(1)] by auto
    show "entry_at w b' = entry_at s (unat (ht_addr s i))"
      using r by (intro entry_at_moved) (simp add: relocated_def sel)
  qed
  have zero: "ht_addr w i = 0" if "i < 2 ^ p" "ht_addr s i = 0" for i
    using null [OF that] by (simp add: ht_addr_def sel)
  have nz: "ht_addr w i \<noteq> 0 \<longleftrightarrow> ht_addr s i \<noteq> 0" if "i < 2 ^ p" for i
    using zero [OF that] at(4) [OF that] new [OF that] by blast
  have inj: "inj_on snd (set rel)" using tiled_distinct [OF tl] by (simp add: distinct_map)
  have "slots_ok p w"
  proof (rule slots_ok_cong [OF ok hash])
    show "ht_addr w j = 0" if "j < 2 ^ p" "ht_hash s j = 0" for j
      using zero [OF that(1)] ok that by (auto simp: slots_ok_def)
    show "inj_on (ht_addr w) {i. i < 2 ^ p \<and> ht_addr w i \<noteq> 0}"
    proof (rule inj_onI)
      fix i j assume ij: "i \<in> {i. i < 2 ^ p \<and> ht_addr w i \<noteq> 0}" "j \<in> {i. i < 2 ^ p \<and> ht_addr w i \<noteq> 0}" "ht_addr w i = ht_addr w j"
      then have i: "i < 2 ^ p" "ht_addr s i \<noteq> 0" and j: "j < 2 ^ p" "ht_addr s j \<noteq> 0" using nz [of i] nz [of j] by auto
      obtain b c where b: "(unat (ht_addr s i), b) \<in> set rel" and c: "(unat (ht_addr s j), c) \<in> set rel" using new i j by blast
      have "b = c" using at(3) [OF i b] at(3) [OF j c] ij(3) by simp
      then have "unat (ht_addr s i) = unat (ht_addr s j)" using inj_onD [OF inj _ b c] by simp
      then show "i = j" using slot_of(1) [OF ok i] slot_of(1) [OF ok j] by metis
    qed
  qed (auto intro: sel(5))
  moreover have live: "live p w = set (map snd rel)"
  proof (intro equalityI subsetI)
    fix x assume "x \<in> live p w"
    then obtain i where i: "i < 2 ^ p" "ht_addr w i \<noteq> 0" "x = unat (ht_addr w i)" by (auto simp: live_def)
    then obtain b where "(unat (ht_addr s i), b) \<in> set rel" using new nz by blast
    then show "x \<in> set (map snd rel)" using at(3) [of i b] i nz by force
  next
    fix x assume "x \<in> set (map snd rel)"
    then obtain b where b: "(b, x) \<in> set rel" by auto
    then obtain i where i: "i < 2 ^ p" "ht_addr s i \<noteq> 0" "unat (ht_addr s i) = b" using old by blast
    then show "x \<in> live p w" using at(3,4) [OF i(1,2), of x] b by (force simp: live_def)
  qed
  moreover have "heap_inv p w (map snd rel)"
    unfolding heap_inv_def live using tl size H by (simp add: sel heap_inv_def)
  moreover have "table_rel p w T"
  proof -
    have "slot_entry w i = slot_entry s i" if i: "i < 2 ^ p" for i
    proof (cases "ht_addr s i = 0")
      case False
      then obtain b where "(unat (ht_addr s i), b) \<in> set rel" using new i by blast
      then show ?thesis using at [OF i False] False by (auto simp: slot_entry_def)
    qed (use zero [OF i] in \<open>simp add: slot_entry_def\<close>)
    then show ?thesis using S hash unfolding table_rel_def by metis
  qed
  moreover have "m x = mem s x" if "x < hashtbl s" for x
  proof (rule frame)
    show "x < heap_init s" using that lay by (simp add: layout_def)
    show "\<forall>i<2 ^ p. ht_addr s i \<noteq> 0 \<longrightarrow> x < helt_addr_field s i \<or> helt_addr_field s i + 8 \<le> x"
      using that by (simp add: helt_addr_field_def)
  qed
  then have "same_config s w" by (simp add: same_config_def deps_kept_def w_def)
  ultimately show ?thesis using run S size sel lay(1) unfolding ht_rel_def w_def [symmetric]
    by (intro exI [of _ w]) auto
qed

subsection \<open>A slot whose writer gave up\<close>

lemma for_each_append: "for_each (xs @ ys) f = op_seq (for_each xs f) (for_each ys f)"
  by (induction xs) (simp_all add: op_seq_assoc)

text \<open>The marking pass reaches the slot with the marker and leaves it as it is.\<close>

lemma mark_up_to:
  assumes R: "ht_rel p c T" and s: "s = (set_ht_addr i HASHTBL_WRITE_IN_PROGRESS c)\<lparr>heap := hp\<rparr>" and i: "i < 2 ^ p"
  shows "k \<le> i \<Longrightarrow> \<exists>m. for_each [0..<k] mark_slot s = Some (Inr (), s\<lparr>mem := m\<rparr>)
     \<and> (\<forall>j. k \<le> j \<longrightarrow> j < 2 ^ p \<longrightarrow> ht_addr (s\<lparr>mem := m\<rparr>) j = ht_addr s j)"
proof (induction k)
  case 0
  then show ?case by (intro exI [of _ "mem s"]) (simp add: op_simps)
next
  case (Suc k)
  then obtain m where run: "for_each [0..<k] mark_slot s = Some (Inr (), s\<lparr>mem := m\<rparr>)"
    and keep: "\<And>j. k \<le> j \<Longrightarrow> j < 2 ^ p \<Longrightarrow> ht_addr (s\<lparr>mem := m\<rparr>) j = ht_addr s j" by auto
  let ?t = "s\<lparr>mem := m\<rparr>"
  have k: "k < 2 ^ p" "k \<noteq> i" using Suc.prems i by simp_all
  have L: "layout c" "ht_slots c = 2 ^ p" using R ht_sizedD [of p c] by (auto simp: ht_rel_def)
  obtain bs where H: "heap_inv p c bs" using R by (auto simp: ht_rel_def)
  have a: "ht_addr ?t k = ht_addr c k" using keep [of k] k by (simp add: s)
  have seq: "for_each [0..<Suc k] mark_slot s = mark_slot k ?t"
    by (simp only: upt_Suc_append le0 for_each_snoc) (simp add: op_simps run)
  show ?case
  proof (cases "ht_addr c k = 0")
    case True
    then have "mark_slot k ?t = Some (Inr (), ?t)" using a by (simp add: mark_slot_def NULL_def)
    then show ?thesis using seq keep by (intro exI [of _ m]) simp
  next
    case False
    let ?f = "helt_addr_field s k" and ?a = "unat (ht_addr c k)"
    define m' where "m' = store64 (store64 m ?f (load64 m ?a)) ?a (word_of_nat ?f)"
    have "mark_slot k ?t = Some (Inr (), s\<lparr>mem := m'\<rparr>)"
      using a False live_not_marker(1) [OF R k(1)]
      by (simp add: mark_slot_def op_simps NULL_def Let_def m'_def helt_addr_field_def)
    moreover have "ht_addr (s\<lparr>mem := m'\<rparr>) j = ht_addr s j" if j: "Suc k \<le> j" "j < 2 ^ p" for j
    proof -
      have f: "helt_addr_field s x = helt_addr_field c x" for x by (simp add: s helt_addr_field_def set_ht_addr_def)
      have "helt_addr_field c j + 8 \<le> ?a" using field_below [OF L(1), of j] L(2) j live_entry(2) [OF H k(1) False] by simp
      then have "load64 m' (helt_addr_field s j) = load64 m (helt_addr_field s j)"
        using j field_apart [of k j s] f by (auto simp: m'_def)
      then show ?thesis using keep [of j] j by (simp add: ht_addr_def helt_addr_field_def)
    qed
    ultimately show ?thesis using seq by auto
  qed
qed

lemma collect_blocked:
  assumes W: "wedged p key i c s" and m: "my_pid s = master_pid s" "allow_removes s"
  shows "\<exists>s''. hh_collect s = Some (Inl (C_assertion_failure (LOCATION HH_SHARED_C 1048)), s'')
     \<and> ht_addr s'' i = HASHTBL_WRITE_IN_PROGRESS"
proof -
  obtain T top where c: "ht_rel p c T" "s = (set_ht_addr i HASHTBL_WRITE_IN_PROGRESS c)\<lparr>heap := top\<rparr>" "i < 2 ^ p"
    using W by (auto simp: wedged_def)
  obtain m' where run: "for_each [0..<i] mark_slot s = Some (Inr (), s\<lparr>mem := m'\<rparr>)"
    and keep: "ht_addr (s\<lparr>mem := m'\<rparr>) i = ht_addr s i" using mark_up_to [OF c, of i] c(3) by blast
  have mark: "ht_addr (s\<lparr>mem := m'\<rparr>) i = HASHTBL_WRITE_IN_PROGRESS" using keep c(2) by simp
  have slots: "ht_slots s = 2 ^ p" using c(1,2) ht_sizedD(4) [of p c] by (simp add: ht_rel_def)
  have split: "[0..<ht_slots s] = [0..<i] @ i # [Suc i..<ht_slots s]"
    using c(3) upt_add_eq_append [of 0 i "ht_slots s - i"] upt_conv_Cons [of i "ht_slots s"] by (simp add: slots)
  have "for_each [0..<ht_slots s] mark_slot s
      = Some (Inl (C_assertion_failure (LOCATION HH_SHARED_C 1048)), s\<lparr>mem := m'\<rparr>)"
    unfolding split for_each_append using run mark by (simp add: op_simps mark_slot_def HASHTBL_WRITE_IN_PROGRESS_def NULL_def)
  then show ?thesis using m mark by (simp add: hh_collect_def op_simps)
qed

subsection \<open>Properties\<close>

text \<open>C5: The collector, called by the master, always returns; every key keeps its status and its
  entry byte for byte, the heap shrinks by exactly the wasted bytes, nothing is wasted afterwards,
  and no byte below the hashtable changes.\<close>

theorem hh_collect_refines:
  assumes "master_rel p s T"
  shows "\<exists>s'. hh_collect s = Some (Inr Val_unit, s') \<and> master_rel p s' T
     \<and> heap s' + unat (wasted_heap_size s) = heap s \<and> wasted_heap_size s' = 0 \<and> (\<forall>x<hashtbl s. mem s' x = mem s x)"
  using collect_ok [of p s T] assms unfolding master_rel_def same_config_def deps_kept_def by metis

theorem hh_collect_refines_witness:
  "\<exists>s s' s''. hh_remove demo_key s = Some (Inr (), s') \<and> hh_collect s' = Some (Inr Val_unit, s'')
     \<and> master_rel 2 s'' [get_hash demo_key \<mapsto> None] \<and> heap s'' < heap s'"
proof -
  let ?e = "encode demo_runtime (String_block [7])"
  obtain s where s: "master_rel 2 s [get_hash demo_key \<mapsto> Some ?e]" using demo_added by blast
  then obtain s' where s': "hh_remove demo_key s = Some (Inr (), s')" "ht_rel 2 s' [get_hash demo_key \<mapsto> None]"
    "wasted_heap_size s' = wasted_heap_size s + ALIGNED (Heap_entry_total_size (fst ?e))" "same_config s s'"
    using hh_remove_ok [of 2 s "[get_hash demo_key \<mapsto> Some ?e]" demo_key ?e] by (auto simp: master_rel_def)
  have m: "master_rel 2 s' [get_hash demo_key \<mapsto> None]" using s s' by (auto simp: master_rel_def same_config_def)
  have "unat (wasted_heap_size s') = unat (wasted_heap_size s) + block_size (fst ?e)"
    unfolding s'(3) using s wasted_grows by (auto simp: master_rel_def)
  then have "0 < unat (wasted_heap_size s')" using block_size_pos [of "fst ?e"] by simp
  moreover obtain s'' where "hh_collect s' = Some (Inr Val_unit, s'')" "master_rel 2 s'' [get_hash demo_key \<mapsto> None]"
    "heap s'' + unat (wasted_heap_size s') = heap s'" using hh_collect_refines [OF m] by blast
  ultimately show ?thesis using s'(1) by (intro exI [of _ s] exI [of _ s'] exI [of _ s'']) simp
qed

text \<open>C36: A heap that is full during \<open>hh_add\<close> raises \<open>Heap_full\<close> after the slot was claimed, and leaves the
  write-in-progress marker in the key's slot. From then on a lookup of the key (\<open>hh_mem\<close>) spins while the
  clock is at most 60 seconds past its first reading, for ever if the clock stays there, and fails with the time-out message as soon as
  it is further; another \<open>hh_add\<close> of the key reports that someone else has stored it and changes nothing (while
  the table has room); \<open>hh_get\<close> and \<open>hh_remove\<close> dereference the marker; and \<open>hh_collect\<close> fails its assertion
  at line 1048, with the marker still in the slot. So none of these operations clears the slot.\<close>

theorem hh_add_heap_full_wedges:
  assumes "master_rel p s T" and "legal_key key" and "T (get_hash key) = None \<or> T (get_hash key) = Some None"
    and "runtime_ok rt" and "fits rt data" and "card (dom T) < 2 ^ p"
    and "heap_max s < heap s + block_size (fst (encode rt data))"
  shows "\<exists>s' i. hh_add rt key data s = Some (Inl Heap_full, s') \<and> i < ht_slots s'
     \<and> ht_hash s' i = get_hash key \<and> ht_addr s' i = HASHTBL_WRITE_IN_PROGRESS
     \<and> (\<forall>time. 0 < time 0 \<longrightarrow> mono time \<longrightarrow> (\<forall>j. time j \<le> time 0 + 60) \<longrightarrow> hh_mem_inner time key s' = None)
     \<and> (\<forall>time j. 0 < time 0 \<longrightarrow> mono time \<longrightarrow> time 0 + 60 < time j \<longrightarrow>
          hh_mem_inner time key s' = Some (Inl (Failure ''hh_mem busy-wait loop stuck for 60s''), s'))
     \<and> (card (dom T) + 1 < 2 ^ p \<longrightarrow> (\<forall>data'. hh_add rt key data' s' = Some (Inr (Min_long, Min_long), s')))
     \<and> hh_get_and_deserialize rt key s' = Some (Inl Invalid_access, s')
     \<and> hh_remove key s' = Some (Inl Invalid_access, s')
     \<and> (\<exists>s''. hh_collect s' = Some (Inl (C_assertion_failure (LOCATION HH_SHARED_C 1048)), s'')
          \<and> ht_addr s'' i = HASHTBL_WRITE_IN_PROGRESS)"
proof -
  have R: "ht_rel p s T" and M: "my_pid s = master_pid s" "allow_removes s" "allow_hashtable_writes_by_current_process s"
    using assms(1) by (simp_all add: master_rel_def)
  have h: "get_hash key \<noteq> 0" using assms(2) by (simp add: legal_key_def)
  have room: "hcounter s < hashtbl_size s" using room_iff [OF R] assms(6) by simp
  obtain c s' i where run: "hh_add rt key data s = Some (Inl Heap_full, s')" and W: "wedged p key i c s'"
    and c: "c = s \<or> c = (set_ht_hash i (get_hash key) s)\<lparr>hcounter := hcounter s + 1\<rparr>"
    using hh_add_heap_full [OF R h assms(3-5) M(3) room assms(7)] by blast
  obtain top where s': "s' = (set_ht_addr i HASHTBL_WRITE_IN_PROGRESS c)\<lparr>heap := top\<rparr>" using W by (auto simp: wedged_def)
  have m: "my_pid s' = master_pid s'" "allow_removes s'" using c M unfolding s' by auto
  have r: "hcounter s' < hashtbl_size s'" if "card (dom T) + 1 < 2 ^ p"
  proof -
    have "unat (hcounter s) + 1 < unat (hashtbl_size s)"
      using that ht_rel_card [OF R] ht_sizedD(4) [of p s] R by (simp add: ht_rel_def)
    then have "hcounter s + 1 < hashtbl_size s" using unat_plus_1_less [OF room] by (simp add: word_less_nat_alt)
    then show ?thesis using c room unfolding s' by auto
  qed
  have 1: "\<forall>time. 0 < time 0 \<longrightarrow> mono time \<longrightarrow> (\<forall>j. time j \<le> time 0 + 60) \<longrightarrow> hh_mem_inner time key s' = None"
    using wedged_calls(1) [OF W h] by blast
  have 2: "\<forall>time j. 0 < time 0 \<longrightarrow> mono time \<longrightarrow> time 0 + 60 < time j \<longrightarrow>
      hh_mem_inner time key s' = Some (Inl (Failure ''hh_mem busy-wait loop stuck for 60s''), s')"
    using wedged_calls(2) [OF W h] by blast
  have 3: "card (dom T) + 1 < 2 ^ p \<longrightarrow> (\<forall>data'. hh_add rt key data' s' = Some (Inr (Min_long, Min_long), s'))"
    using r wedged_calls(5) [OF W h] by blast
  show ?thesis
    using run wedged_slot(2-4) [OF W h] 1 2 3 wedged_calls(3) [OF W h] wedged_calls(4) [OF W h m] collect_blocked [OF W m]
    by blast
qed

theorem hh_add_heap_full_wedges_witness:
  "\<exists>s s'. hh_add demo_runtime demo_key (String_block [7]) s = Some (Inl Heap_full, s')
     \<and> hh_mem_inner (\<lambda>j. 5 + int j) demo_key s' = Some (Inl (Failure ''hh_mem busy-wait loop stuck for 60s''), s')
     \<and> hh_mem_inner (\<lambda>j. 65) demo_key s' = None"
proof -
  obtain s where s: "master_rel 2 s Map.empty" "heap s = heap_max s" using tiny_heap by blast
  have "heap_max s < heap s + block_size (fst (encode demo_runtime (String_block [7])))"
    using s(2) block_size_pos [of "fst (encode demo_runtime (String_block [7]))"] by simp
  then obtain s' where s': "hh_add demo_runtime demo_key (String_block [7]) s = Some (Inl Heap_full, s')"
    "\<forall>time. 0 < time 0 \<longrightarrow> mono time \<longrightarrow> (\<forall>j. time j \<le> time 0 + 60) \<longrightarrow> hh_mem_inner time demo_key s' = None"
    "\<forall>time j. 0 < time 0 \<longrightarrow> mono time \<longrightarrow> time 0 + 60 < time j \<longrightarrow>
       hh_mem_inner time demo_key s' = Some (Inl (Failure ''hh_mem busy-wait loop stuck for 60s''), s')"
    using hh_add_heap_full_wedges [OF s(1) demo_keys(2) _ demo_runtime_ok demo_block(2) [of "[7]"]] by auto
  have "mono (\<lambda>j. 5 + int j)" "mono (\<lambda>j :: nat. 65 :: int)" by (simp_all add: mono_def)
  then show ?thesis using s'(1) s'(2) [rule_format, of "\<lambda>j. 65"] s'(3) [rule_format, of "\<lambda>j. 5 + int j" 61] by auto
qed

text \<open>The collector refuses to run, without any effect, in a process that is not the master, and in
  the master when removal is not allowed.\<close>

lemma hh_collect_guarded:
  assumes "my_pid s \<noteq> master_pid s \<or> \<not> allow_removes s"
  shows "hh_collect s = Some (Inl (C_assertion_failure (LOCATION HH_SHARED_C (if my_pid s \<noteq> master_pid s then 700 else 708))), s)"
  using assms by (auto simp: hh_collect_def op_simps)

lemma hh_collect_guarded_witness:
  "hh_collect (demo\<lparr>allow_removes := False\<rparr>)
     = Some (Inl (C_assertion_failure (LOCATION HH_SHARED_C 708)), demo\<lparr>allow_removes := False\<rparr>)"
  using hh_collect_guarded [of "demo\<lparr>allow_removes := False\<rparr>"] demo_facts(5) by simp

end
