(* ===== verification/Hh_Session.thy ===== *)
theory Hh_Session
  imports Hh_Deptbl Hh_Collect
begin

text \<open>
  The operations of the master process as one abstract machine. Its state has the table, the edges of the
  dependency graph, the bytes the heap has left and the bytes it wastes; a command is a call of
  \<open>hh_add\<close>, \<open>hh_remove\<close>, \<open>hh_move\<close>, \<open>hh_collect\<close> or \<open>hh_add_dep\<close>. The segment implements the machine:
  a simulation, command by command, so for every sequence of commands.
\<close>

subsection \<open>Simulations\<close>

fun all_allowed :: "('c \<Rightarrow> 'a \<Rightarrow> bool) \<Rightarrow> ('c \<Rightarrow> 'a \<Rightarrow> 'a) \<Rightarrow> 'c list \<Rightarrow> 'a \<Rightarrow> bool" where
  "all_allowed allowed spec [] a = True"
| "all_allowed allowed spec (c # cs) a = (allowed c a \<and> all_allowed allowed spec cs (spec c a))"

locale simulation =
  fixes rel :: "'a \<Rightarrow> 's \<Rightarrow> bool" and allowed :: "'c \<Rightarrow> 'a \<Rightarrow> bool" and spec :: "'c \<Rightarrow> 'a \<Rightarrow> 'a"
    and impl :: "'c \<Rightarrow> ('s, unit) op"
  assumes step: "rel a s \<Longrightarrow> allowed c a \<Longrightarrow> \<exists>s'. impl c s = Some (Inr (), s') \<and> rel (spec c a) s'"
begin

lemma run:
  "rel a s \<Longrightarrow> all_allowed allowed spec cs a \<Longrightarrow> \<exists>s'. for_each cs impl s = Some (Inr (), s') \<and> rel (fold spec cs a) s'"
proof (induction cs arbitrary: a s)
  case (Cons c cs)
  then obtain s' where "impl c s = Some (Inr (), s')" "rel (spec c a) s'" "all_allowed allowed spec cs (spec c a)"
    using step by fastforce
  with Cons.IH show ?case by (auto simp: op_simps)
qed (simp add: op_simps)

end

subsection \<open>Two tables in one segment\<close>

text \<open>What changes one table leaves the other alone.\<close>

lemma dep_rel_kept:
  assumes R: "dep_rel d s E" and K: "deps_kept s s'" and lay: "layout s'"
  shows "dep_rel d s' E"
proof -
  note S = R [unfolded dep_rel_def]
  have D: "layout s" "dep_slots s = 2 ^ d" using S sizedD [of d s] by simp_all
  have sz: "sized d s'" using S lay K by (simp add: sized_def deps_kept_def)
  have cell: "\<forall>i<2 ^ d. dep_cell s' i = dep_cell s i" "\<forall>i<2 ^ d. binding s' i = binding s i"
    using D K by (auto simp: dep_cell_def binding_def deps_kept_def layout_def intro!: load64_cong)
  moreover have "{i. i < 2 ^ d \<and> dep_cell s' i \<noteq> 0} = {i. i < 2 ^ d \<and> dep_cell s i \<noteq> 0}" using cell by auto
  moreover have "dcounter s' = dcounter s" using K by (simp add: deps_kept_def)
  ultimately show ?thesis using S sz bindings_rel_cong [OF cell(2)] lists_rel_cong [OF cell(1)]
    unfolding dep_rel_def by simp
qed

lemma deps_only_sel:
  assumes "deps_only s s'"
  shows "hashtbl s' = hashtbl s" "hashtbl_size s' = hashtbl_size s" "heap_init s' = heap_init s" "heap_max s' = heap_max s"
    "heap s' = heap s" "hcounter s' = hcounter s" "wasted_heap_size s' = wasted_heap_size s" "my_pid s' = my_pid s"
    "master_pid s' = master_pid s" "allow_removes s' = allow_removes s"
    "allow_hashtable_writes_by_current_process s' = allow_hashtable_writes_by_current_process s"
proof -
  have e: "s' = s\<lparr>mem := mem s', dcounter := dcounter s'\<rparr>" using assms by (simp only: deps_only_def)
  show "hashtbl s' = hashtbl s" "hashtbl_size s' = hashtbl_size s" "heap_init s' = heap_init s" "heap_max s' = heap_max s"
    "heap s' = heap s" "hcounter s' = hcounter s" "wasted_heap_size s' = wasted_heap_size s" "my_pid s' = my_pid s"
    "master_pid s' = master_pid s" "allow_removes s' = allow_removes s"
    "allow_hashtable_writes_by_current_process s' = allow_hashtable_writes_by_current_process s"
    by (subst e, simp)+
qed

lemma master_rel_kept:
  assumes "master_rel p s T" and "deps_only s s'" and "layout s'"
  shows "master_rel p s' T"
proof -
  note E = deps_only_sel [OF assms(2)]
  have "ht_rel p s' T"
    by (rule ht_rel_transfer [of p s]) (use assms E in \<open>auto simp: master_rel_def deps_only_def\<close>)
  then show ?thesis using assms(1) E by (simp add: master_rel_def)
qed

subsection \<open>The machine\<close>

datatype 'v command =
    Add "u8 list" "'v caml"
  | Remove "u8 list"
  | Move "u8 list" "u8 list"
  | Collect
  | Add_dep u32 u32

record machine =
  entries :: table
  edges :: "(u32 \<times> u32) set"
  free_bytes :: nat
  wasted_bytes :: nat

fun call_of :: "'v runtime \<Rightarrow> 'v command \<Rightarrow> unit hh_op" where
  "call_of rt (Add key data) = op_bind (hh_add rt key data) (\<lambda>_. ret ())"
| "call_of rt (Remove key) = hh_remove key"
| "call_of rt (Move key1 key2) = hh_move key1 key2"
| "call_of rt Collect = op_bind hh_collect (\<lambda>_. ret ())"
| "call_of rt (Add_dep k v) = hh_add_dep (Val_long (pack k v))"

fun effect :: "'v runtime \<Rightarrow> 'v command \<Rightarrow> machine \<Rightarrow> machine" where
  "effect rt (Add key data) a = (case entries a (get_hash key) of
       Some (Some e) \<Rightarrow> a
     | _ \<Rightarrow> a\<lparr>entries := (entries a)(get_hash key \<mapsto> Some (encode rt data)),
             free_bytes := free_bytes a - block_size (fst (encode rt data))\<rparr>)"
| "effect rt (Remove key) a = (case entries a (get_hash key) of
       Some (Some e) \<Rightarrow> a\<lparr>entries := (entries a)(get_hash key \<mapsto> None), wasted_bytes := wasted_bytes a + block_size (fst e)\<rparr>
     | _ \<Rightarrow> a)"
| "effect rt (Move key1 key2) a = (case entries a (get_hash key1) of
       Some x \<Rightarrow> a\<lparr>entries := (entries a)(get_hash key2 \<mapsto> x, get_hash key1 \<mapsto> None)\<rparr>
     | None \<Rightarrow> a)"
| "effect rt Collect a = a\<lparr>free_bytes := free_bytes a + wasted_bytes a, wasted_bytes := 0\<rparr>"
| "effect rt (Add_dep k v) a = a\<lparr>edges := insert (k, v) (edges a)\<rparr>"

fun permitted :: "'v runtime \<Rightarrow> nat \<Rightarrow> nat \<Rightarrow> 'v command \<Rightarrow> machine \<Rightarrow> bool" where
  "permitted rt p d (Add key data) a \<longleftrightarrow> legal_key key \<and> card (dom (entries a)) < 2 ^ p \<and> fits rt data
     \<and> block_size (fst (encode rt data)) \<le> free_bytes a"
| "permitted rt p d (Remove key) a \<longleftrightarrow> (\<exists>e. entries a (get_hash key) = Some (Some e))"
| "permitted rt p d (Move key1 key2) a \<longleftrightarrow> get_hash key1 \<in> dom (entries a) \<and> legal_key key2 \<and> get_hash key1 \<noteq> get_hash key2
     \<and> (entries a (get_hash key2) = None \<or> entries a (get_hash key2) = Some None) \<and> card (dom (entries a)) < 2 ^ p"
| "permitted rt p d Collect a \<longleftrightarrow> True"
| "permitted rt p d (Add_dep k v) a \<longleftrightarrow> edge31 (k, v) \<and> card (edges a) < 2 ^ d"

definition represents :: "nat \<Rightarrow> nat \<Rightarrow> machine \<Rightarrow> hh \<Rightarrow> bool" where
  "represents p d a s \<longleftrightarrow> master_rel p s (entries a) \<and> dep_rel d s (edges a)
     \<and> heap s + free_bytes a = heap_max s \<and> unat (wasted_heap_size s) = wasted_bytes a"

lemma effect_add:
  "effect rt (Add key data) a = (if \<exists>e. entries a (get_hash key) = Some (Some e) then a
     else a\<lparr>entries := (entries a)(get_hash key \<mapsto> Some (encode rt data)),
            free_bytes := free_bytes a - block_size (fst (encode rt data))\<rparr>)"
  by (auto split: option.splits)

lemma represents_add:
  assumes R: "represents p d a s" and P: "permitted rt p d (Add key data) a" and rt: "runtime_ok rt"
  shows "\<exists>s'. call_of rt (Add key data) s = Some (Inr (), s') \<and> represents p d (effect rt (Add key data) a) s'"
proof -
  let ?h = "get_hash key" and ?e = "encode rt data" and ?T = "entries a"
  have A: "ht_rel p s ?T" "my_pid s = master_pid s" "allow_removes s" "allow_hashtable_writes_by_current_process s"
    "dep_rel d s (edges a)" "heap s + free_bytes a = heap_max s" "unat (wasted_heap_size s) = wasted_bytes a"
    using R by (simp_all add: represents_def master_rel_def)
  have P': "?h \<noteq> 0" "hcounter s < hashtbl_size s" "fits rt data" "heap s + block_size (fst ?e) \<le> heap_max s"
    "block_size (fst ?e) \<le> free_bytes a"
    using P A(6) room_iff [OF A(1)] by (auto simp: legal_key_def)
  show ?thesis
  proof (cases "\<exists>e. ?T ?h = Some (Some e)")
    case True
    then obtain e where "?T ?h = Some (Some e)" by blast
    from hh_add_again [OF A(1) this P'(2), of rt data] show ?thesis using R True unfolding effect_add by (simp add: op_simps)
  next
    case False
    then have "?T ?h = None \<or> ?T ?h = Some None" by (metis not_None_eq)
    from hh_add_fresh [OF A(1) P'(1) this rt P'(3) A(4) P'(2,4)]
    obtain s' al os where s': "hh_add rt key data s = Some (Inr (Val_long al, Val_long os), s')"
      "ht_rel p s' (?T(?h \<mapsto> Some ?e))" "same_config s s'" "heap s' = heap s + block_size (fst ?e)"
      "wasted_heap_size s' = wasted_heap_size s" by blast
    have "layout s'" using s'(2) by (simp add: ht_rel_def ht_sized_def)
    then have "dep_rel d s' (edges a)" using dep_rel_kept [OF A(5)] s'(3) by (simp add: same_config_def)
    then show ?thesis using False s' A P'(5) unfolding effect_add
      by (intro exI [of _ s']) (auto simp: represents_def master_rel_def same_config_def op_simps)
  qed
qed

lemma represents_remove:
  assumes R: "represents p d a s" and e: "entries a (get_hash key) = Some (Some e)"
  shows "\<exists>s'. hh_remove key s = Some (Inr (), s') \<and> represents p d
     (a\<lparr>entries := (entries a)(get_hash key \<mapsto> None), wasted_bytes := wasted_bytes a + block_size (fst e)\<rparr>) s'"
proof -
  have A: "ht_rel p s (entries a)" "my_pid s = master_pid s" "allow_removes s" using R by (simp_all add: represents_def master_rel_def)
  obtain s' where s': "hh_remove key s = Some (Inr (), s')" "ht_rel p s' ((entries a)(get_hash key \<mapsto> None))"
    "wasted_heap_size s' = wasted_heap_size s + ALIGNED (Heap_entry_total_size (fst e))" "heap s' = heap s" "same_config s s'"
    using hh_remove_ok [OF A(1) e A(2,3)] by blast
  have "layout s'" using s'(2) by (simp add: ht_rel_def ht_sized_def)
  then have "dep_rel d s' (edges a)" using dep_rel_kept [of d s "edges a" s'] R s'(5) by (simp add: represents_def same_config_def)
  moreover have "unat (wasted_heap_size s') = unat (wasted_heap_size s) + block_size (fst e)"
    unfolding s'(3) by (rule wasted_grows [OF A(1)])
  ultimately show ?thesis using s' R by (intro exI [of _ s']) (auto simp: represents_def master_rel_def same_config_def)
qed

lemma represents_move:
  assumes R: "represents p d a s" and P: "permitted rt p d (Move key1 key2) a" and x: "entries a (get_hash key1) = Some x"
  shows "\<exists>s'. hh_move key1 key2 s = Some (Inr (), s') \<and> represents p d
     (a\<lparr>entries := (entries a)(get_hash key2 \<mapsto> x, get_hash key1 \<mapsto> None)\<rparr>) s'"
proof -
  have A: "ht_rel p s (entries a)" "my_pid s = master_pid s" "allow_removes s" using R by (simp_all add: represents_def master_rel_def)
  have P': "get_hash key2 \<noteq> 0" "get_hash key1 \<noteq> get_hash key2" "hcounter s < hashtbl_size s"
    "entries a (get_hash key2) = None \<or> entries a (get_hash key2) = Some None"
    using P room_iff [OF A(1)] by (simp_all add: legal_key_def)
  obtain s' where s': "hh_move key1 key2 s = Some (Inr (), s')"
    "ht_rel p s' ((entries a)(get_hash key2 \<mapsto> x, get_hash key1 \<mapsto> None))" "heap s' = heap s"
    "wasted_heap_size s' = wasted_heap_size s" "same_config s s'"
    using hh_move_ok [OF A(1) x P'(4,1,2) A(2,3) P'(3)] by blast
  have "layout s'" using s'(2) by (simp add: ht_rel_def ht_sized_def)
  then have "dep_rel d s' (edges a)" using dep_rel_kept [of d s "edges a" s'] R s'(5) by (simp add: represents_def same_config_def)
  then show ?thesis using s' R by (intro exI [of _ s']) (simp add: represents_def master_rel_def same_config_def)
qed

lemma represents_collect:
  assumes R: "represents p d a s"
  shows "\<exists>s'. hh_collect s = Some (Inr Val_unit, s') \<and> represents p d (effect rt Collect a) s'"
proof -
  have A: "ht_rel p s (entries a)" "my_pid s = master_pid s" "allow_removes s" using R by (simp_all add: represents_def master_rel_def)
  obtain s' where s': "hh_collect s = Some (Inr Val_unit, s')" "ht_rel p s' (entries a)"
    "heap s' + unat (wasted_heap_size s) = heap s" "wasted_heap_size s' = 0" "same_config s s'"
    using collect_ok [OF A] by blast
  have "layout s'" using s'(2) by (simp add: ht_rel_def ht_sized_def)
  then have "dep_rel d s' (edges a)" using dep_rel_kept [of d s "edges a" s'] R s'(5) by (simp add: represents_def same_config_def)
  then show ?thesis using s' R by (intro exI [of _ s']) (simp add: represents_def master_rel_def same_config_def)
qed

lemma represents_add_dep:
  assumes R: "represents p d a s" and P: "permitted rt p d (Add_dep k v) a"
  shows "\<exists>s'. call_of rt (Add_dep k v) s = Some (Inr (), s') \<and> represents p d (effect rt (Add_dep k v) a) s'"
proof -
  have D: "dep_rel d s (edges a)" "master_rel p s (entries a)" "edge31 (k, v)" "card (edges a) < 2 ^ d"
    using R P by (simp_all add: represents_def)
  then have "unat (dcounter s) < unat (dep_size s)"
    using dep_used_slots_eq(2) [OF D(1)] sizedD(4) [of d s] by (simp add: dep_rel_def)
  then have room: "dcounter s < dep_size s" by (simp add: word_less_nat_alt)
  obtain s' where s': "add_dep k v s = Some (Inr (), s')" "dep_rel d s' (insert (k, v) (edges a))" "deps_only s s'"
    using add_dep_ok [OF D(1) room D(3)] by blast
  have "layout s'" using s'(2) by (simp add: dep_rel_def sized_def)
  then have "master_rel p s' (entries a)" by (rule master_rel_kept [OF D(2) s'(3)])
  then show ?thesis using s' R hh_add_dep_pack [OF D(3)] deps_only_sel [OF s'(3)]
    by (intro exI [of _ s']) (simp add: represents_def)
qed

interpretation seg: simulation "\<lambda>a s. runtime_ok rt \<and> represents p d a s" "permitted rt p d" "effect rt" "call_of rt" for rt p d
proof
  fix a s and c :: "'a command"
  assume R: "runtime_ok rt \<and> represents p d a s" and P: "permitted rt p d c a"
  then show "\<exists>s'. call_of rt c s = Some (Inr (), s') \<and> runtime_ok rt \<and> represents p d (effect rt c a) s'"
  proof (cases c)
    case (Remove key)
    then obtain e where "entries a (get_hash key) = Some (Some e)" using P by auto
    then show ?thesis using R Remove represents_remove [of p d a s key e] by simp
  next
    case (Move key1 key2)
    then obtain x where "entries a (get_hash key1) = Some x" using P by auto
    then show ?thesis using R P Move represents_move [of p d a s rt key1 key2 x] by simp
  next
    case Collect
    then show ?thesis using R represents_collect [of p d a s rt] by (auto simp: op_simps)
  qed (use R P represents_add represents_add_dep in blast)+
qed

subsection \<open>Properties\<close>

definition empty_machine :: "hh \<Rightarrow> machine" where
  "empty_machine s = \<lparr>entries = Map.empty, edges = {}, free_bytes = unat (heap_size s), wasted_bytes = 0\<rparr>"

text \<open>C1: From a fresh segment, every sequence of calls of the master (adding, removing, moving, collecting,
  adding dependencies) in which each call meets its precondition in the abstract machine returns, and
  the segment represents the machine's final state: the table with its values byte for byte, the edges
  of the dependency graph, the bytes left and the bytes wasted. In particular no operation on one
  table disturbs the other, and the collector gives back exactly what removal wasted.\<close>

theorem session_refines:
  assumes "fresh s" and "hashtbl_size s = 2 ^ p" and "p \<le> 32" and "dep_size s = 2 ^ d" and "d \<le> 31"
    and "my_pid s = master_pid s" and "allow_removes s" and "allow_hashtable_writes_by_current_process s"
    and "runtime_ok rt" and "all_allowed (permitted rt p d) (effect rt) cs (empty_machine s)"
  shows "\<exists>s'. for_each cs (call_of rt) s = Some (Inr (), s') \<and> represents p d (fold (effect rt) cs (empty_machine s)) s'"
proof -
  have "represents p d (empty_machine s) s"
    using assms(1-8) fresh_ht_rel [of s p] fresh_dep_rel [of s d]
    by (simp add: represents_def empty_machine_def master_rel_def fresh_def layout_def)
  then show ?thesis using seg.run [of rt p d "empty_machine s" s cs] assms(9,10) by blast
qed

theorem session_refines_witness:
  "\<exists>s'. for_each [Add demo_key (String_block [7]), Add_dep 1 2, Remove demo_key, Collect] (call_of demo_runtime) demo = Some (Inr (), s')
     \<and> represents 2 2 \<lparr>entries = [get_hash demo_key \<mapsto> None], edges = {(1, 2)}, free_bytes = 4096, wasted_bytes = 0\<rparr> s'"
proof -
  let ?cs = "[Add demo_key (String_block [7]), Add_dep 1 2, Remove demo_key, Collect]"
  have s: "hashtbl_size demo = 2 ^ 2" "dep_size demo = 2 ^ 2" "unat (heap_size demo) = 4096"
    using demo_ht(2) demo_dep(2) demo_facts(4) by simp_all
  note b = demo_block [of "[7]", simplified]
  have "all_allowed (permitted demo_runtime 2 2) (effect demo_runtime) ?cs (empty_machine demo)"
    using b by (auto simp: empty_machine_def s(3) edge31_def)
  from session_refines [OF demo_facts(1) s(1) _ s(2) _ _ _ _ demo_runtime_ok this]
  show ?thesis using b demo_ht(4) by (simp add: empty_machine_def s(3) master_rel_def)
qed

end
