(* ===== verification/Hh_Save.thy ===== *)
theory Hh_Save
  imports Hh_Collect
begin

text \<open>
  Saving and loading the shared table without SQLite: \<open>hh_save_table\<close> writes a version header and the
  segment from the hashtable to the top of the heap in LZ4-compressed chunks, \<open>hh_load_table\<close> reads
  it back.
\<close>

subsection \<open>Files\<close>

text \<open>Machine words as they are written to and read from a file.\<close>

definition bytes64 :: "u64 \<Rightarrow> u8 list" where
  "bytes64 v = map (byte_of v) [0..<8]"

definition bytes32 :: "u32 \<Rightarrow> u8 list" where
  "bytes32 v = map (byte_of (ucast v)) [0..<4]"

definition word64 :: "u8 list \<Rightarrow> u64" where
  "word64 bs = word_of_bytes (\<lambda>i. bs ! i)"

definition word32 :: "u8 list \<Rightarrow> u32" where
  "word32 bs = ucast (word_of_bytes (\<lambda>i. if i < 4 then bs ! i else 0))"

text \<open>
  A file being written, with the number of bytes the device still takes, and a file being read, with
  the bytes not read yet and the number of \<open>read\<close> calls so far. \<open>hh_save_table\<close> does not check the
  result of \<open>fopen\<close>; the model starts with the opened file.
\<close>

record wio =
  w_shm :: hh
  w_file :: "u8 list"
  w_space :: nat

record rio =
  r_shm :: hh
  r_rest :: "u8 list"
  r_calls :: nat

text \<open>The three calls of the LZ4 library: the bound, the compressor (an empty output is the failure
  code 0) and the decompressor, which writes the given number of bytes.\<close>

record lz4 =
  LZ4_compressBound :: "nat \<Rightarrow> nat"
  LZ4_compress_default :: "u8 list \<Rightarrow> nat \<Rightarrow> u8 list"
  LZ4_decompress_fast :: "u8 list \<Rightarrow> nat \<Rightarrow> u8 list"

definition LZ4_MAX_INPUT_SIZE :: nat where "LZ4_MAX_INPUT_SIZE = 0x7E000000"

definition fwrite_no_fail :: "nat \<Rightarrow> nat \<Rightarrow> u8 list \<Rightarrow> (wio, unit) op" where
  "fwrite_no_fail sz nmemb bytes =
     op_bind (gets (\<lambda>w. if sz = 0 then 0 else min nmemb (w_space w div sz))) (\<lambda>nmemb_written.
     op_seq (modify (\<lambda>w. w\<lparr>w_file := w_file w @ take (w_space w) bytes, w_space := w_space w - length bytes\<rparr>))
     (c_assert 1548 (\<lambda>_. nmemb_written = nmemb)))"

text \<open>
  \<open>read(2)\<close>: the kernel decides, for the \<open>j\<close>-th call, the number of bytes requested and the number of
  bytes left in the file, what the call returns (-1 is an error). \<open>read_all\<close> requests the whole size in
  every round; bytes beyond the buffer are an invalid access.
\<close>

type_synonym kernel_read = "nat \<Rightarrow> nat \<Rightarrow> nat \<Rightarrow> int"

definition read :: "kernel_read \<Rightarrow> nat \<Rightarrow> (rio, int \<times> u8 list) op" where
  "read kr sz r =
     (let n = kr (r_calls r) sz (length (r_rest r)) in
      Some (Inr (n, take (nat n) (r_rest r)), r\<lparr>r_rest := drop (nat n) (r_rest r), r_calls := r_calls r + 1\<rparr>))"

definition read_all :: "kernel_read \<Rightarrow> nat \<Rightarrow> (rio, u8 list) op" where
  "read_all kr sz = op_while (\<lambda>buf.
     op_bind (read kr sz) (\<lambda>(bytes_read, bytes).
     op_seq (c_assert 1560 (\<lambda>_. bytes_read \<noteq> -1 \<and> bytes_read \<noteq> 0))
     (let buf' = buf @ bytes in
      if sz < length buf' then throw Invalid_access
      else if length buf' < sz then ret (Inr buf')
      else ret (Inl buf')))) []"

definition fwrite_header :: "u8 list \<Rightarrow> (wio, unit) op" where
  "fwrite_header BuildInfo_kRevision =
     op_seq (fwrite_no_fail 8 1 (bytes64 MAGIC_CONSTANT))
    (let revlen = length BuildInfo_kRevision in
     op_seq (fwrite_no_fail 8 1 (bytes64 (word_of_nat revlen)))
            (fwrite_no_fail 1 revlen BuildInfo_kRevision))"

text \<open>\<open>strncmp(a, b, n) == 0\<close> on NUL-terminated or long enough buffers.\<close>

fun strncmp_eq :: "u8 list \<Rightarrow> u8 list \<Rightarrow> nat \<Rightarrow> bool" where
  "strncmp_eq as bs 0 = True"
| "strncmp_eq (a # as) (b # bs) (Suc n) = (a = b \<and> (a = 0 \<or> strncmp_eq as bs n))"
| "strncmp_eq as bs (Suc n) = False"

definition c_chars :: "u8 list \<Rightarrow> string" where
  "c_chars bs = map (\<lambda>b. char_of (unat b)) (takeWhile (\<lambda>b. b \<noteq> 0) bs)"

definition version_message :: "u8 list \<Rightarrow> u8 list \<Rightarrow> string" where
  "version_message revision BuildInfo_kRevision =
     (let pre = ''Binary version `''; mid = ''` that saved the shared memory must be the same as the current binary version `'';
          post = ''` that is loading it'';
          message_length = length pre + 2 + length mid + 2 + length post - 4 + length revision * 2 + 1
      in take (message_length - 1) (pre @ c_chars revision @ mid @ c_chars BuildInfo_kRevision @ post))"

definition fread_header :: "kernel_read \<Rightarrow> u8 list \<Rightarrow> (rio, unit) op" where
  "fread_header kr BuildInfo_kRevision =
     op_bind (read_all kr 8) (\<lambda>magic.
     op_seq (c_assert 1576 (\<lambda>_. word64 magic = MAGIC_CONSTANT))
    (op_bind (read_all kr 8) (\<lambda>len.
     let revlen = unat (word64 len) in
     if 0 < revlen then
       op_bind (read_all kr revlen) (\<lambda>revision.
       if strncmp_eq revision (BuildInfo_kRevision @ [0]) revlen then ret ()
       else throw (C_assertion_failure (MESSAGE (version_message revision BuildInfo_kRevision))))
     else ret ())))"

definition save_start :: "hh \<Rightarrow> nat" where
  "save_start s = hashtbl s"

definition save_chunk :: "lz4 \<Rightarrow> nat \<Rightarrow> (wio, unit + nat) op" where
  "save_chunk lz chunk_start =
     (\<lambda>w. if chunk_start < heap (w_shm w) then
        (let remaining = heap (w_shm w) - chunk_start;
             chunk_size = (if LZ4_MAX_INPUT_SIZE < remaining then LZ4_MAX_INPUT_SIZE else remaining);
             max_compression_size = LZ4_compressBound lz chunk_size;
             compressed = LZ4_compress_default lz (read_bytes (mem (w_shm w)) chunk_start chunk_size) max_compression_size;
             compressed_size = length compressed
         in op_seq (c_assert 1633 (\<lambda>_. 0 < compressed_size))
           (op_seq (fwrite_no_fail 4 1 (bytes32 (word_of_nat compressed_size)))
           (op_seq (fwrite_no_fail 8 1 (bytes64 (word_of_nat chunk_size)))
           (op_seq (fwrite_no_fail 1 compressed_size compressed)
           (ret (Inr (chunk_start + chunk_size)))))) w)
      else ret (Inl ()) w)"

definition hh_save_table :: "lz4 \<Rightarrow> u8 list \<Rightarrow> (wio, unit) op" where
  "hh_save_table lz BuildInfo_kRevision =
     op_seq (fwrite_header BuildInfo_kRevision)
    (op_bind (gets (\<lambda>w. save_start (w_shm w))) (\<lambda>chunk_start.
     op_seq (op_while (save_chunk lz) chunk_start)
     (fwrite_no_fail 4 1 (bytes32 0))))"

definition load_chunk :: "lz4 \<Rightarrow> kernel_read \<Rightarrow> nat \<times> u32 \<Rightarrow> (rio, nat + (nat \<times> u32)) op" where
  "load_chunk lz kr = (\<lambda>(chunk_start, compressed_size).
     if 0 < sint compressed_size then
       op_bind (read_all kr 8) (\<lambda>chunk_size_b.
       let chunk_size = unat (word64 chunk_size_b) in
       op_bind (read_all kr (unat compressed_size)) (\<lambda>compressed.
       op_seq (modify (\<lambda>r. r\<lparr>r_shm := (r_shm r)\<lparr>mem := memcpy (mem (r_shm r)) chunk_start
                 (LZ4_decompress_fast lz compressed chunk_size)\<rparr>\<rparr>))
      (op_bind (read_all kr 4) (\<lambda>next_size.
       ret (Inr (chunk_start + chunk_size, word32 next_size))))))
     else ret (Inl chunk_start))"

definition hh_load_table :: "lz4 \<Rightarrow> kernel_read \<Rightarrow> u8 list \<Rightarrow> bool \<Rightarrow> (rio, unit) op" where
  "hh_load_table lz kr BuildInfo_kRevision fopen_ok =
     (if \<not> fopen_ok then throw (Failure ''Failed to open file'')
      else op_seq (fread_header kr BuildInfo_kRevision)
     (op_bind (read_all kr 4) (\<lambda>compressed_size.
      op_bind (gets (\<lambda>r. save_start (r_shm r))) (\<lambda>chunk_start.
      op_bind (op_while (load_chunk lz kr) (chunk_start, word32 compressed_size)) (\<lambda>chunk_end.
      modify (\<lambda>r. r\<lparr>r_shm := (r_shm r)\<lparr>heap := chunk_end\<rparr>\<rparr>))))))"

subsection \<open>Byte codecs\<close>

lemma length_bytes [simp]: "length (bytes64 v) = 8" "length (bytes32 w) = 4"
  by (simp_all add: bytes64_def bytes32_def)

lemma word64_bytes64 [simp]: "word64 (bytes64 v) = v"
proof -
  have "word64 (bytes64 v) = word_of_bytes (byte_of v)"
    unfolding word64_def by (rule word_of_bytes_cong) (simp add: bytes64_def)
  then show ?thesis by simp
qed

lemma word32_bytes32 [simp]: "word32 (bytes32 v) = v"
proof -
  have "word_of_bytes (\<lambda>i. if i < 4 then bytes32 v ! i else 0) = word_of_bytes (byte_of (ucast v))"
  proof (rule word_of_bytes_cong)
    fix i :: nat assume "i < 8"
    show "(if i < 4 then bytes32 v ! i else 0) = byte_of (ucast v) i"
    proof (cases "i < 4")
      case False
      then have "byte_of (ucast v) i = 0"
        by (intro bit_word_eqI) (auto simp: byte_of_def bit_simps dest: bit_imp_le_length)
      then show ?thesis using False by simp
    qed (simp add: bytes32_def)
  qed
  then show ?thesis by (simp add: word32_def ucast_ucast_32)
qed

text \<open>A kr that never returns less than it can.\<close>

definition full_reads :: "kernel_read \<Rightarrow> bool" where
  "full_reads kr \<longleftrightarrow> (\<forall>j n a. kr j n a = int (min n a))"

lemma read_all_full:
  assumes k: "full_reads kr" and n: "0 < n" "length bs = n" and rest: "r_rest r = bs @ zs"
  shows "\<exists>c. read_all kr n r = Some (Inr bs, r\<lparr>r_rest := zs, r_calls := c\<rparr>)"
proof -
  have "min n (length (r_rest r)) = n" using n rest by simp
  then have "read kr n r = Some (Inr (int n, bs), r\<lparr>r_rest := zs, r_calls := r_calls r + 1\<rparr>)"
    using k n rest by (simp add: read_def full_reads_def Let_def)
  then show ?thesis using n unfolding read_all_def
    by (intro exI [of _ "r_calls r + 1"] op_while_leave) (simp add: op_simps Let_def)
qed

lemma fwrite_ok:
  assumes "length bytes = sz * nmemb" "0 < sz" "length bytes \<le> w_space w"
  shows "fwrite_no_fail sz nmemb bytes w = Some (Inr (), w\<lparr>w_file := w_file w @ bytes, w_space := w_space w - length bytes\<rparr>)"
proof -
  have "nmemb \<le> w_space w div sz" using assms by (simp add: less_eq_div_iff_mult_less_eq mult.commute)
  then show ?thesis using assms by (simp add: fwrite_no_fail_def op_simps min_def)
qed

subsection \<open>The saved file\<close>

text \<open>What the documentation of LZ4 promises: up to \<open>LZ4_MAX_INPUT_SIZE\<close> bytes and with a destination of
  \<open>LZ4_compressBound\<close> bytes compression succeeds, its output is a positive \<open>int\<close> number of bytes, and
  decompressing it to the original size gives the source back.\<close>

definition lz4_ok :: "lz4 \<Rightarrow> bool" where
  "lz4_ok lz \<longleftrightarrow> (\<forall>src. 0 < length src \<longrightarrow> length src \<le> LZ4_MAX_INPUT_SIZE \<longrightarrow>
     (let dst = LZ4_compress_default lz src (LZ4_compressBound lz (length src))
      in 0 < length dst \<and> length dst < 2 ^ 31 \<and> LZ4_decompress_fast lz dst (length src) = src))"

definition chunk_size_at :: "nat \<Rightarrow> nat \<Rightarrow> nat" where
  "chunk_size_at a e = (if LZ4_MAX_INPUT_SIZE < e - a then LZ4_MAX_INPUT_SIZE else e - a)"

lemma chunk_size_at: "a < e \<Longrightarrow> 0 < chunk_size_at a e" "a < e \<Longrightarrow> a + chunk_size_at a e \<le> e" "chunk_size_at a e \<le> LZ4_MAX_INPUT_SIZE"
  by (auto simp: chunk_size_at_def LZ4_MAX_INPUT_SIZE_def)

definition chunk_bytes :: "lz4 \<Rightarrow> memory \<Rightarrow> nat \<Rightarrow> nat \<Rightarrow> u8 list" where
  "chunk_bytes lz m a n = LZ4_compress_default lz (read_bytes m a n) (LZ4_compressBound lz n)"

text \<open>The compressed section of a saved file.\<close>

function chunks :: "lz4 \<Rightarrow> memory \<Rightarrow> nat \<Rightarrow> nat \<Rightarrow> u8 list" where
  "chunks lz m a e =
     (if a < e then
        (let n = chunk_size_at a e; c = chunk_bytes lz m a n
         in bytes32 (word_of_nat (length c)) @ bytes64 (word_of_nat n) @ c @ chunks lz m (a + n) e)
      else bytes32 0)"
  by pat_completeness auto

termination
  by (relation "measure (\<lambda>(lz, m, a, e). e - a)") (auto simp: chunk_size_at_def LZ4_MAX_INPUT_SIZE_def)

declare chunks.simps [simp del]

lemma chunk_ok:
  assumes "lz4_ok lz" and "a < e"
  shows "0 < length (chunk_bytes lz m a (chunk_size_at a e))" "length (chunk_bytes lz m a (chunk_size_at a e)) < 2 ^ 31"
    "LZ4_decompress_fast lz (chunk_bytes lz m a (chunk_size_at a e)) (chunk_size_at a e) = read_bytes m a (chunk_size_at a e)"
  using assms chunk_size_at [of a e] unfolding lz4_ok_def chunk_bytes_def
  by (metis (no_types, lifting) length_read_bytes)+

lemma save_chunks:
  "lz4_ok lz \<Longrightarrow> heap (w_shm w) = e \<Longrightarrow> mem (w_shm w) = m \<Longrightarrow> length (chunks lz m a e) \<le> w_space w \<Longrightarrow>
     op_seq (op_while (save_chunk lz) a) (fwrite_no_fail 4 1 (bytes32 0)) w =
     Some (Inr (), w\<lparr>w_file := w_file w @ chunks lz m a e, w_space := w_space w - length (chunks lz m a e)\<rparr>)"
proof (induction lz m a e arbitrary: w rule: chunks.induct)
  case (1 lz m a e)
  show ?case
  proof (cases "a < e")
    case False
    then have "chunks lz m a e = bytes32 0" by (simp add: chunks.simps)
    moreover have "op_while (save_chunk lz) a w = Some (Inr (), w)"
      by (rule op_while_leave) (use False 1 in \<open>simp add: save_chunk_def op_simps\<close>)
    ultimately show ?thesis using 1 fwrite_ok [of "bytes32 0" 4 1 w] by (simp add: op_seq_def op_bind_def)
  next
    case True
    let ?n = "chunk_size_at a e"
    let ?c = "chunk_bytes lz m a ?n"
    let ?h1 = "bytes32 (word_of_nat (length ?c))" and ?h2 = "bytes64 (word_of_nat ?n)"
    have eq: "chunks lz m a e = ?h1 @ ?h2 @ ?c @ chunks lz m (a + ?n) e" using True by (subst chunks.simps) (simp add: Let_def)
    then have sp: "12 + length ?c + length (chunks lz m (a + ?n) e) \<le> w_space w" using 1(5) by simp
    define w' where "w' = w\<lparr>w_file := w_file w @ ?h1 @ ?h2 @ ?c, w_space := w_space w - (12 + length ?c)\<rparr>"
    have "save_chunk lz a w = Some (Inr (Inr (a + ?n)), w')"
    proof -
      have c: "LZ4_compress_default lz (read_bytes (mem (w_shm w)) a ?n) (LZ4_compressBound lz ?n) = ?c"
        using 1(4) by (simp add: chunk_bytes_def)
      let ?w1 = "w\<lparr>w_file := w_file w @ ?h1, w_space := w_space w - 4\<rparr>"
      let ?w2 = "w\<lparr>w_file := w_file w @ ?h1 @ ?h2, w_space := w_space w - 12\<rparr>"
      have "fwrite_no_fail 4 1 ?h1 w = Some (Inr (), ?w1)" "fwrite_no_fail 8 1 ?h2 ?w1 = Some (Inr (), ?w2)"
        "fwrite_no_fail 1 (length ?c) ?c ?w2 = Some (Inr (), w')"
        using fwrite_ok [of ?h1 4 1 w] fwrite_ok [of ?h2 8 1 ?w1] fwrite_ok [of ?c 1 "length ?c" ?w2] sp by (simp_all add: w'_def)
      then show ?thesis using True 1(3) chunk_ok(1) [OF 1(2) True, of m]
        by (simp add: save_chunk_def Let_def op_simps flip: chunk_size_at_def) (simp add: c op_simps)
    qed
    then have step: "op_while (save_chunk lz) a w = op_while (save_chunk lz) (a + ?n) w'" by (rule op_while_round)
    have "op_seq (op_while (save_chunk lz) (a + ?n)) (fwrite_no_fail 4 1 (bytes32 0)) w' =
       Some (Inr (), w'\<lparr>w_file := w_file w' @ chunks lz m (a + ?n) e, w_space := w_space w' - length (chunks lz m (a + ?n) e)\<rparr>)"
      using sp 1(2-4) by (intro 1(1) [OF True refl refl]) (simp_all add: w'_def)
    then show ?thesis unfolding eq using step by (simp add: op_seq_def op_bind_def w'_def)
  qed
qed


lemma sint_pos: "0 < n \<Longrightarrow> n < 2 ^ 31 \<Longrightarrow> 0 < sint (word_of_nat n :: u32)"
  by (simp add: signed_of_nat signed_take_bit_int_eq_self)

lemma unat_u32: "n < 2 ^ 31 \<Longrightarrow> unat (word_of_nat n :: u32) = n"
  by (simp add: unat_of_nat)

lemma memcpy_read_append:
  "memcpy (memcpy M a (read_bytes m a n)) (a + n) (read_bytes m (a + n) k) = memcpy M a (read_bytes m a (n + k))"
  by (rule ext) (auto simp: memcpy_def nth_append read_bytes_append)


lemma chunks_head: "\<exists>h t. chunks lz m a e = h @ t \<and> length h = 4"
proof -
  have "4 \<le> length (chunks lz m a e)" by (subst chunks.simps) (simp add: Let_def)
  then show ?thesis by (intro exI [of _ "take 4 (chunks lz m a e)"] exI [of _ "drop 4 (chunks lz m a e)"]) simp
qed

lemma load_chunks:
  "lz4_ok lz \<Longrightarrow> full_reads kr \<Longrightarrow> a \<le> e \<Longrightarrow> e < 2 ^ 62 \<Longrightarrow> r_rest r = chunks lz m a e @ zs \<Longrightarrow>
   \<exists>c. op_bind (read_all kr 4) (\<lambda>b. op_while (load_chunk lz kr) (a, word32 b)) r =
     Some (Inr e, r\<lparr>r_shm := (r_shm r)\<lparr>mem := memcpy (mem (r_shm r)) a (read_bytes m a (e - a))\<rparr>, r_rest := zs, r_calls := c\<rparr>)"
proof (induction lz m a e arbitrary: r rule: chunks.induct)
  case (1 lz m a e)
  note lz = 1(2) and kr = 1(3) and ae = 1(4) and top = 1(5) and rest = 1(6)
  show ?case
  proof (cases "a < e")
    case False
    then have "a = e" using ae by simp
    have "chunks lz m a e = bytes32 0" using False by (simp add: chunks.simps)
    then obtain c where r: "read_all kr 4 r = Some (Inr (bytes32 0), r\<lparr>r_rest := zs, r_calls := c\<rparr>)"
      using read_all_full [OF kr, of 4 "bytes32 0" r zs] rest by auto
    have "op_while (load_chunk lz kr) (a, 0) (r\<lparr>r_rest := zs, r_calls := c\<rparr>) = Some (Inr a, r\<lparr>r_rest := zs, r_calls := c\<rparr>)"
      by (rule op_while_leave) (simp add: load_chunk_def op_simps)
    moreover have "memcpy M a (read_bytes m a 0) = M" for M by (rule ext) (auto simp: memcpy_def)
    ultimately show ?thesis using r \<open>a = e\<close> by (intro exI [of _ c]) (simp add: op_bind_def)
  next
    case True
    let ?n = "chunk_size_at a e"
    let ?c = "chunk_bytes lz m a ?n"
    let ?cs = "word_of_nat (length ?c) :: u32"
    note C = chunk_ok [OF lz True, of m] and N = chunk_size_at [of a e]
    have eq: "chunks lz m a e = bytes32 ?cs @ bytes64 (word_of_nat ?n) @ ?c @ chunks lz m (a + ?n) e"
      using True by (subst chunks.simps) (simp add: Let_def)
    obtain c1 where r1: "read_all kr 4 r = Some (Inr (bytes32 ?cs),
        r\<lparr>r_rest := bytes64 (word_of_nat ?n) @ ?c @ chunks lz m (a + ?n) e @ zs, r_calls := c1\<rparr>)" (is "_ = Some (_, ?r1)")
      using read_all_full [OF kr, of 4 "bytes32 ?cs" r] rest eq by fastforce
    obtain c2 where r2: "read_all kr 8 ?r1 = Some (Inr (bytes64 (word_of_nat ?n)),
        ?r1\<lparr>r_rest := ?c @ chunks lz m (a + ?n) e @ zs, r_calls := c2\<rparr>)" (is "_ = Some (_, ?r2)")
      using read_all_full [OF kr, of 8 "bytes64 (word_of_nat ?n)" ?r1] by fastforce
    obtain c3 where r3: "read_all kr (length ?c) ?r2 = Some (Inr ?c,
        ?r2\<lparr>r_rest := chunks lz m (a + ?n) e @ zs, r_calls := c3\<rparr>)" (is "_ = Some (_, ?r3)")
      using read_all_full [OF kr C(1) refl, of ?r2] by fastforce
    let ?r4 = "?r3\<lparr>r_shm := (r_shm r)\<lparr>mem := memcpy (mem (r_shm r)) a (read_bytes m a ?n)\<rparr>\<rparr>"
    obtain h t where ht: "chunks lz m (a + ?n) e = h @ t" "length h = 4" using chunks_head by blast
    obtain c5 where r5: "read_all kr 4 ?r4 = Some (Inr h, ?r4\<lparr>r_rest := t @ zs, r_calls := c5\<rparr>)" (is "_ = Some (_, ?r5)")
      using read_all_full [OF kr, of 4 h ?r4 "t @ zs"] ht by auto
    have un: "unat (word_of_nat ?n :: u64) = ?n" using N(3) by (simp add: unat_of_nat LZ4_MAX_INPUT_SIZE_def)
    have "load_chunk lz kr (a, ?cs) ?r1 = Some (Inr (Inr (a + ?n, word32 h)), ?r5)"
      using r2 r3 r5 C sint_pos [OF C(1,2)] unat_u32 [OF C(2)] un by (simp add: load_chunk_def op_simps Let_def)
    then have "op_while (load_chunk lz kr) (a, ?cs) ?r1 = op_while (load_chunk lz kr) (a + ?n, word32 h) ?r5"
      by (rule op_while_round)
    also have "\<dots> = op_bind (read_all kr 4) (\<lambda>b. op_while (load_chunk lz kr) (a + ?n, word32 b)) ?r4"
      using r5 by (simp add: op_bind_def)
    finally have step: "op_bind (read_all kr 4) (\<lambda>b. op_while (load_chunk lz kr) (a, word32 b)) r = \<dots>"
      using r1 by (simp add: op_bind_def)
    have "\<exists>c. op_bind (read_all kr 4) (\<lambda>b. op_while (load_chunk lz kr) (a + ?n, word32 b)) ?r4 =
       Some (Inr e, ?r4\<lparr>r_shm := (r_shm ?r4)\<lparr>mem := memcpy (mem (r_shm ?r4)) (a + ?n) (read_bytes m (a + ?n) (e - (a + ?n)))\<rparr>, r_rest := zs, r_calls := c\<rparr>)"
      using N True lz kr top by (intro 1(1) [OF True refl refl]) simp_all
    moreover have "?n + (e - (a + ?n)) = e - a" using N(2) True by simp
    ultimately show ?thesis unfolding step using memcpy_read_append [of "mem (r_shm r)" a m ?n "e - (a + ?n)"] by simp
  qed
qed

definition header_bytes :: "u8 list \<Rightarrow> u8 list" where
  "header_bytes rv = bytes64 MAGIC_CONSTANT @ bytes64 (word_of_nat (length rv)) @ rv"

definition saved_file :: "lz4 \<Rightarrow> u8 list \<Rightarrow> hh \<Rightarrow> u8 list" where
  "saved_file lz rv s = header_bytes rv @ chunks lz (mem s) (hashtbl s) (heap s)"

lemma save_table_run:
  assumes lz: "lz4_ok lz" and sp: "length (saved_file lz rv (w_shm w)) \<le> w_space w"
  shows "hh_save_table lz rv w = Some (Inr (), w\<lparr>w_file := w_file w @ saved_file lz rv (w_shm w),
     w_space := w_space w - length (saved_file lz rv (w_shm w))\<rparr>)"
proof -
  let ?c = "chunks lz (mem (w_shm w)) (hashtbl (w_shm w)) (heap (w_shm w))"
  have len: "16 + length rv + length ?c \<le> w_space w" using sp by (simp add: saved_file_def header_bytes_def)
  let ?w1 = "w\<lparr>w_file := w_file w @ bytes64 MAGIC_CONSTANT, w_space := w_space w - 8\<rparr>"
  let ?w2 = "w\<lparr>w_file := w_file w @ bytes64 MAGIC_CONSTANT @ bytes64 (word_of_nat (length rv)), w_space := w_space w - 16\<rparr>"
  let ?w3 = "w\<lparr>w_file := w_file w @ header_bytes rv, w_space := w_space w - (16 + length rv)\<rparr>"
  have "fwrite_no_fail 8 1 (bytes64 MAGIC_CONSTANT) w = Some (Inr (), ?w1)"
    "fwrite_no_fail 8 1 (bytes64 (word_of_nat (length rv))) ?w1 = Some (Inr (), ?w2)"
    "fwrite_no_fail 1 (length rv) rv ?w2 = Some (Inr (), ?w3)"
    using fwrite_ok [of "bytes64 MAGIC_CONSTANT" 8 1 w] fwrite_ok [of "bytes64 (word_of_nat (length rv))" 8 1 ?w1]
      fwrite_ok [of rv 1 "length rv" ?w2] len by (simp_all add: header_bytes_def)
  then have "fwrite_header rv w = Some (Inr (), ?w3)" by (simp add: fwrite_header_def Let_def op_simps)
  moreover have "op_seq (op_while (save_chunk lz) (hashtbl (w_shm w))) (fwrite_no_fail 4 1 (bytes32 0)) ?w3
     = Some (Inr (), ?w3\<lparr>w_file := w_file ?w3 @ ?c, w_space := w_space ?w3 - length ?c\<rparr>)"
    using len by (intro save_chunks [OF lz]) simp_all
  ultimately show ?thesis using len
    by (simp add: hh_save_table_def saved_file_def header_bytes_def) (simp add: op_simps save_start_def)
qed

lemma strncmp_refl: "strncmp_eq rv (rv @ zs) (length rv)"
  by (induction rv) auto

lemma strncmp_prefix:
  "\<forall>b\<in>set rv. b \<noteq> 0 \<Longrightarrow> strncmp_eq rv (cur @ [0]) (length rv) \<longleftrightarrow> take (length rv) cur = rv"
proof (induction rv arbitrary: cur)
  case (Cons a rv)
  then show ?case by (cases cur) auto
qed simp

lemma fread_header_run:
  assumes kr: "full_reads kr" and rest: "r_rest r = header_bytes rv @ zs" and len: "length rv < 2 ^ 62"
  shows "\<exists>c. fread_header kr cur r = Some
     (if strncmp_eq rv (cur @ [0]) (length rv) then Inr () else Inl (C_assertion_failure (MESSAGE (version_message rv cur))),
      r\<lparr>r_rest := zs, r_calls := c\<rparr>)"
proof -
  let ?l = "word_of_nat (length rv) :: u64"
  have un: "unat ?l = length rv" using len by (simp add: unat_of_nat)
  obtain c1 where 1: "read_all kr 8 r = Some (Inr (bytes64 MAGIC_CONSTANT), r\<lparr>r_rest := bytes64 ?l @ rv @ zs, r_calls := c1\<rparr>)" (is "_ = Some (_, ?r1)")
    using read_all_full [OF kr, of 8 "bytes64 MAGIC_CONSTANT" r] rest by (auto simp: header_bytes_def)
  obtain c2 where 2: "read_all kr 8 ?r1 = Some (Inr (bytes64 ?l), ?r1\<lparr>r_rest := rv @ zs, r_calls := c2\<rparr>)" (is "_ = Some (_, ?r2)")
    using read_all_full [OF kr, of 8 "bytes64 ?l" ?r1] by auto
  show ?thesis
  proof (cases "rv = []")
    case True
    then show ?thesis using 1 2 un by (intro exI [of _ c2]) (simp add: fread_header_def op_simps Let_def)
  next
    case False
    then obtain c3 where 3: "read_all kr (length rv) ?r2 = Some (Inr rv, ?r2\<lparr>r_rest := zs, r_calls := c3\<rparr>)"
      using read_all_full [OF kr, of "length rv" rv ?r2 zs] by auto
    then show ?thesis using 1 2 un False by (intro exI [of _ c3]) (simp add: fread_header_def op_simps Let_def)
  qed
qed

lemma load_table_run:
  assumes lz: "lz4_ok lz" and kr: "full_reads kr" and rest: "r_rest r = saved_file lz rv s @ zs"
    and len: "length rv < 2 ^ 62" and s: "hashtbl s \<le> heap s" "heap s < 2 ^ 62" "hashtbl (r_shm r) = hashtbl s"
  shows "\<exists>c. hh_load_table lz kr rv True r = Some (Inr (),
     r\<lparr>r_shm := (r_shm r)\<lparr>mem := memcpy (mem (r_shm r)) (hashtbl s) (read_bytes (mem s) (hashtbl s) (heap s - hashtbl s)), heap := heap s\<rparr>,
       r_rest := zs, r_calls := c\<rparr>)"
proof -
  let ?c = "chunks lz (mem s) (hashtbl s) (heap s)"
  obtain c1 where 1: "fread_header kr rv r = Some (Inr (), r\<lparr>r_rest := ?c @ zs, r_calls := c1\<rparr>)" (is "_ = Some (_, ?r1)")
    using fread_header_run [OF kr, of r rv "?c @ zs" rv] rest len strncmp_refl [of rv "[0]"] by (auto simp: saved_file_def)
  obtain c2 where 2: "op_bind (read_all kr 4) (\<lambda>b. op_while (load_chunk lz kr) (hashtbl s, word32 b)) ?r1 =
     Some (Inr (heap s), ?r1\<lparr>r_shm := (r_shm ?r1)\<lparr>mem := memcpy (mem (r_shm ?r1)) (hashtbl s) (read_bytes (mem s) (hashtbl s) (heap s - hashtbl s))\<rparr>, r_rest := zs, r_calls := c2\<rparr>)"
    using load_chunks [OF lz kr s(1,2), of ?r1 "mem s" zs] by auto
  have "hh_load_table lz kr rv True r = op_bind (read_all kr 4) (\<lambda>b.
      op_bind (op_while (load_chunk lz kr) (hashtbl s, word32 b)) (\<lambda>e. modify (\<lambda>r. r\<lparr>r_shm := (r_shm r)\<lparr>heap := e\<rparr>\<rparr>))) ?r1"
  proof -
    have keep: "save_start (r_shm x) = hashtbl s" if "read_all kr 4 ?r1 = Some (Inr b, x)" for b x
    proof -
      obtain h t where "?c = h @ t" "length h = 4" using chunks_head by blast
      then obtain c where "read_all kr 4 ?r1 = Some (Inr h, ?r1\<lparr>r_rest := t @ zs, r_calls := c\<rparr>)"
        using read_all_full [OF kr, of 4 h ?r1 "t @ zs"] by auto
      then show ?thesis using that s(3) by (simp add: save_start_def)
    qed
    show ?thesis using 1 keep by (auto simp: hh_load_table_def op_simps split: option.splits prod.splits sum.splits)
  qed
  also have "\<dots> = op_bind (op_bind (read_all kr 4) (\<lambda>b. op_while (load_chunk lz kr) (hashtbl s, word32 b))) (\<lambda>e. modify (\<lambda>r. r\<lparr>r_shm := (r_shm r)\<lparr>heap := e\<rparr>\<rparr>)) ?r1"
    by (auto simp: op_bind_def split: option.splits prod.splits sum.splits)
  finally show ?thesis using 2 by (intro exI [of _ c2]) (simp add: op_bind_def [of "op_bind _ _"] modify_def)
qed

text \<open>The relation to the abstract table depends on the segment from the hashtable to the top of the heap
  and on two counters.\<close>

lemma save_load:
  assumes lz: "lz4_ok lz" and kr: "full_reads kr" and len: "length rv < 2 ^ 62" and R: "ht_rel p (w_shm w) T"
    and w: "w_file w = []" "length (saved_file lz rv (w_shm w)) \<le> w_space w"
    and t: "layout t" "hashtbl t = hashtbl (w_shm w)" "hashtbl_size t = hashtbl_size (w_shm w)"
      "heap_init t = heap_init (w_shm w)" "heap_max t = heap_max (w_shm w)"
  shows "\<exists>w' r'. hh_save_table lz rv w = Some (Inr (), w') \<and> w_shm w' = w_shm w
     \<and> hh_load_table lz kr rv True \<lparr>r_shm = t, r_rest = w_file w', r_calls = 0\<rparr> = Some (Inr (), r')
     \<and> heap (r_shm r') = heap (w_shm w) \<and> hcounter (r_shm r') = hcounter t \<and> wasted_heap_size (r_shm r') = wasted_heap_size t
     \<and> ht_rel p ((r_shm r')\<lparr>hcounter := hcounter (w_shm w), wasted_heap_size := wasted_heap_size (w_shm w)\<rparr>) T"
proof -
  let ?s = "w_shm w"
  note S = R [unfolded ht_rel_def]
  then obtain bs where H: "heap_inv p ?s bs" by blast
  have lay: "layout ?s" using S ht_sizedD by blast
  have top: "hashtbl ?s \<le> heap ?s" "heap ?s < 2 ^ 62"
    using H lay tiled_le [of "mem ?s" "heap_init ?s" "heap ?s" bs] by (auto simp: heap_inv_def layout_def)
  let ?r = "\<lparr>r_shm = t, r_rest = saved_file lz rv ?s, r_calls = 0\<rparr>"
  let ?m = "memcpy (mem t) (hashtbl ?s) (read_bytes (mem ?s) (hashtbl ?s) (heap ?s - hashtbl ?s))"
  obtain c where run: "hh_load_table lz kr rv True ?r = Some (Inr (), ?r\<lparr>r_shm := t\<lparr>mem := ?m, heap := heap ?s\<rparr>, r_rest := [], r_calls := c\<rparr>)"
    using load_table_run [OF lz kr _ len top, of ?r "[]"] t(2) by auto
  have "ht_rel p (t\<lparr>mem := ?m, heap := heap ?s, hcounter := hcounter ?s, wasted_heap_size := wasted_heap_size ?s\<rparr>) T"
    by (rule ht_rel_transfer [OF R]) (use t in \<open>auto simp: memcpy_def\<close>)
  then show ?thesis using save_table_run [OF lz w(2)] run w(1) by simp
qed

lemma stale_counter:
  assumes R: "ht_rel p (t\<lparr>hcounter := c, wasted_heap_size := n\<rparr>) T" and ne: "hcounter t \<noteq> c"
  shows "hh_hash_used_slots t = Some (Inl (C_assertion_failure (LOCATION HH_SHARED_C 426)), t)"
proof -
  let ?t = "t\<lparr>hcounter := c, wasted_heap_size := n\<rparr>"
  have S: "ht_sized p ?t" "slots_ok p ?t" using R by (auto simp: ht_rel_def)
  have h: "ht_hash ?t = ht_hash t" by (simp add: ht_hash_def fun_eq_iff)
  have "word_of_nat (card {i. i < 2 ^ p \<and> ht_hash t i \<noteq> 0}) = c" using S(2) unfolding slots_ok_def h by simp
  moreover have "ht_slots t = 2 ^ p" using ht_sizedD(4) [OF S(1)] by simp
  ultimately show ?thesis using ne unfolding hh_hash_used_slots_def get_slots_stats_def stats_fold by (simp add: op_simps)
qed

text \<open>A short read makes \<open>read_all\<close> ask for too much.\<close>

lemma read_all_overrun:
  assumes "0 < k" "k < n" "k + n \<le> length (r_rest r)" and "kr (r_calls r) n (length (r_rest r)) = int k"
    and "kr (r_calls r + 1) n (length (r_rest r) - k) = int n"
  shows "\<exists>r'. read_all kr n r = Some (Inl Invalid_access, r')"
proof -
  let ?r1 = "r\<lparr>r_rest := drop k (r_rest r), r_calls := r_calls r + 1\<rparr>"
  have 1: "read kr n r = Some (Inr (int k, take k (r_rest r)), ?r1)" using assms by (simp add: read_def Let_def)
  let ?r2 = "?r1\<lparr>r_rest := drop (n + k) (r_rest r), r_calls := r_calls r + 2\<rparr>"
  have 2: "read kr n ?r1 = Some (Inr (int n, take n (drop k (r_rest r))), ?r2)"
    using assms by (simp add: read_def Let_def add.commute)
  let ?body = "\<lambda>buf. op_bind (read kr n) (\<lambda>(bytes_read, bytes).
     op_seq (c_assert 1560 (\<lambda>_. bytes_read \<noteq> -1 \<and> bytes_read \<noteq> 0))
     (let buf' = buf @ bytes in
      if n < length buf' then throw Invalid_access
      else if length buf' < n then ret (Inr buf')
      else ret (Inl buf')))"
  have "op_while ?body [] r = op_while ?body (take k (r_rest r)) ?r1"
    using assms 1 by (intro op_while_round) (simp add: op_simps Let_def)
  moreover have "op_while ?body (take k (r_rest r)) ?r1 = Some (Inl Invalid_access, ?r2)"
    using assms 2 by (intro op_while_raise) (simp add: op_simps Let_def)
  ultimately show ?thesis unfolding read_all_def by auto
qed

subsection \<open>Properties\<close>

definition demo_lz4 :: lz4 where
  "demo_lz4 = \<lparr>LZ4_compressBound = (\<lambda>n. n + 16), LZ4_compress_default = (\<lambda>src cap. src), LZ4_decompress_fast = (\<lambda>dst n. take n dst)\<rparr>"

definition demo_read :: kernel_read where
  "demo_read = (\<lambda>j n a. int (min n a))"

lemma demo_codecs: "lz4_ok demo_lz4" "full_reads demo_read"
  by (simp_all add: lz4_ok_def demo_lz4_def full_reads_def demo_read_def LZ4_MAX_INPUT_SIZE_def)

definition demo_wio :: wio where
  "demo_wio = \<lparr>w_shm = demo, w_file = [], w_space = length (saved_file demo_lz4 [65] demo)\<rparr>"

text \<open>C8: Saving the table and loading the file into a segment with the same layout restores it, when the file
  has space and every read of the loader is an uninterrupted full read of a regular file (\<open>full_reads\<close>): both
  return, saving does not change the segment, and the loaded hashtable and heap represent the same
  abstract table as the saved ones (with the two counters that are not part of the file).\<close>

theorem save_load_table:
  assumes "lz4_ok lz" and "full_reads kr" and "length rv < 2 ^ 62" and "ht_rel p (w_shm w) T"
    and "w_file w = []" and "length (saved_file lz rv (w_shm w)) \<le> w_space w"
    and "layout t" and "hashtbl t = hashtbl (w_shm w)" and "hashtbl_size t = hashtbl_size (w_shm w)"
    and "heap_init t = heap_init (w_shm w)" and "heap_max t = heap_max (w_shm w)"
  shows "\<exists>w' r'. hh_save_table lz rv w = Some (Inr (), w') \<and> w_shm w' = w_shm w
     \<and> hh_load_table lz kr rv True \<lparr>r_shm = t, r_rest = w_file w', r_calls = 0\<rparr> = Some (Inr (), r')
     \<and> heap (r_shm r') = heap (w_shm w)
     \<and> ht_rel p ((r_shm r')\<lparr>hcounter := hcounter (w_shm w), wasted_heap_size := wasted_heap_size (w_shm w)\<rparr>) T"
  using save_load [OF assms] by blast

theorem save_load_table_witness:
  "\<exists>w' r'. hh_save_table demo_lz4 [65] demo_wio = Some (Inr (), w')
     \<and> hh_load_table demo_lz4 demo_read [65] True \<lparr>r_shm = demo, r_rest = w_file w', r_calls = 0\<rparr> = Some (Inr (), r')
     \<and> ht_rel 2 ((r_shm r')\<lparr>hcounter := 0, wasted_heap_size := 0\<rparr>) Map.empty"
  using save_load_table [OF demo_codecs, of "[65]" 2 demo_wio Map.empty demo] demo_ht(1,3) demo_facts(1)
  by (auto simp: demo_wio_def fresh_def)

text \<open>C37: Loading restores neither \<open>hcounter\<close> nor the wasted bytes: after the load both have the values they had
  in the loading process, and when its counter differs from the saved one, \<open>hh_hash_used_slots\<close> fails its own
  assertion on the loaded table (uninterrupted full reads of a regular file: \<open>full_reads\<close>).\<close>

theorem load_table_stale_counter:
  assumes "lz4_ok lz" and "full_reads kr" and "length rv < 2 ^ 62" and "ht_rel p (w_shm w) T"
    and "w_file w = []" and "length (saved_file lz rv (w_shm w)) \<le> w_space w"
    and "layout t" and "hashtbl t = hashtbl (w_shm w)" and "hashtbl_size t = hashtbl_size (w_shm w)"
    and "heap_init t = heap_init (w_shm w)" and "heap_max t = heap_max (w_shm w)" and "hcounter t \<noteq> hcounter (w_shm w)"
  shows "\<exists>w' r'. hh_save_table lz rv w = Some (Inr (), w')
     \<and> hh_load_table lz kr rv True \<lparr>r_shm = t, r_rest = w_file w', r_calls = 0\<rparr> = Some (Inr (), r')
     \<and> hcounter (r_shm r') = hcounter t \<and> wasted_heap_size (r_shm r') = wasted_heap_size t
     \<and> hh_hash_used_slots (r_shm r') = Some (Inl (C_assertion_failure (LOCATION HH_SHARED_C 426)), r_shm r')"
proof -
  obtain w' r' where wr: "hh_save_table lz rv w = Some (Inr (), w')"
    "hh_load_table lz kr rv True \<lparr>r_shm = t, r_rest = w_file w', r_calls = 0\<rparr> = Some (Inr (), r')"
    "hcounter (r_shm r') = hcounter t" "wasted_heap_size (r_shm r') = wasted_heap_size t"
    "ht_rel p ((r_shm r')\<lparr>hcounter := hcounter (w_shm w), wasted_heap_size := wasted_heap_size (w_shm w)\<rparr>) T"
    using save_load [OF assms(1-11)] by blast
  then show ?thesis using stale_counter [OF wr(5)] assms(12) by auto
qed

theorem load_table_stale_counter_witness:
  "\<exists>w' r'. hh_save_table demo_lz4 [65] demo_wio = Some (Inr (), w')
     \<and> hh_load_table demo_lz4 demo_read [65] True \<lparr>r_shm = demo\<lparr>hcounter := 1\<rparr>, r_rest = w_file w', r_calls = 0\<rparr> = Some (Inr (), r')
     \<and> hcounter (r_shm r') = 1
     \<and> hh_hash_used_slots (r_shm r') = Some (Inl (C_assertion_failure (LOCATION HH_SHARED_C 426)), r_shm r')"
  using load_table_stale_counter [OF demo_codecs, of "[65]" 2 demo_wio Map.empty "demo\<lparr>hcounter := 1\<rparr>"] demo_ht(1,3) demo_facts(1)
  by (auto simp: demo_wio_def fresh_def)

text \<open>C38: The version check compares only as many bytes as the file's revision has: under uninterrupted full reads
  of a regular file with a well-formed header (\<open>full_reads\<close>), a file whose revision is
  a prefix of the running binary's is accepted, any other revision raises the assertion with the
  version message; the segment does not change either way.\<close>

theorem fread_header_version:
  assumes "full_reads kr" and "r_rest r = header_bytes rv @ zs" and "length rv < 2 ^ 62" and "\<forall>b\<in>set rv. b \<noteq> 0"
  shows "\<exists>r'. fread_header kr cur r = Some
     (if take (length rv) cur = rv then Inr () else Inl (C_assertion_failure (MESSAGE (version_message rv cur))), r')
     \<and> r_shm r' = r_shm r \<and> r_rest r' = zs"
  using fread_header_run [OF assms(1-3), of cur] strncmp_prefix [OF assms(4)] by auto

theorem fread_header_version_witness:
  "\<exists>r'. fread_header demo_read [65, 66] \<lparr>r_shm = demo, r_rest = header_bytes [65], r_calls = 0\<rparr> = Some (Inr (), r')"
  using fread_header_version [OF demo_codecs(2), of "\<lparr>r_shm = demo, r_rest = header_bytes [65], r_calls = 0\<rparr>" "[65]" "[]" "[65, 66]"]
  by auto

text \<open>C39: \<open>read_all\<close> asks for the full size again after a short read: when the kernel returns fewer bytes
  once and then, from a file that goes on for at least that long, as many as requested, the second read runs past
  the end of the buffer.\<close>

theorem read_all_overruns:
  assumes "0 < k" and "k < n" and "k + n \<le> length (r_rest r)" and "kr (r_calls r) n (length (r_rest r)) = int k"
    and "kr (r_calls r + 1) n (length (r_rest r) - k) = int n"
  shows "\<exists>r'. read_all kr n r = Some (Inl Invalid_access, r')"
  using assms by (rule read_all_overrun)

theorem read_all_overruns_witness:
  "\<exists>r'. read_all (\<lambda>j n a. if j = 0 then 3 else int (min n a)) 8 \<lparr>r_shm = demo, r_rest = replicate 100 7, r_calls = 0\<rparr> = Some (Inl Invalid_access, r')"
  using read_all_overruns [of 3 8 "\<lparr>r_shm = demo, r_rest = replicate 100 7, r_calls = 0\<rparr>" "\<lambda>j n a. if j = 0 then 3 else int (min n a)"] by simp

end
