(* ===== verification/Hh_Sqlite.thy ===== *)
theory Hh_Sqlite
  imports Hh_Deptbl Hh_Save
begin

text \<open>
  The SQLite side: \<open>hh_shared_sqlite.c\<close> (tables, error check, the file-info database) and the SQLite
  section of \<open>hh_shared.c\<close> (saving and reading the dependency table and the hashtable). SQLite itself is
  a parameter: the record \<open>sqlite\<close> has one field per call the code makes, over an arbitrary world of
  databases; connections and statements are handles, 0 is NULL.
\<close>

subsection \<open>SQLite and the state\<close>

type_synonym handle = nat

record 'w sqlite =
  sqlite3_open :: "u8 list \<Rightarrow> 'w \<Rightarrow> int \<times> handle \<times> 'w"
  sqlite3_open_readonly :: "u8 list \<Rightarrow> 'w \<Rightarrow> int \<times> handle \<times> 'w"
  sqlite3_exec :: "handle \<Rightarrow> string \<Rightarrow> 'w \<Rightarrow> int \<times> 'w"
  sqlite3_prepare_v2 :: "handle \<Rightarrow> string \<Rightarrow> 'w \<Rightarrow> int \<times> handle \<times> 'w"
  sqlite3_bind_int :: "handle \<Rightarrow> nat \<Rightarrow> u32 \<Rightarrow> 'w \<Rightarrow> int \<times> 'w"
  sqlite3_bind_int64 :: "handle \<Rightarrow> nat \<Rightarrow> u64 \<Rightarrow> 'w \<Rightarrow> int \<times> 'w"
  sqlite3_bind_text :: "handle \<Rightarrow> nat \<Rightarrow> u8 list \<Rightarrow> 'w \<Rightarrow> int \<times> 'w"
  sqlite3_bind_blob :: "handle \<Rightarrow> nat \<Rightarrow> u8 list \<Rightarrow> 'w \<Rightarrow> int \<times> 'w"
  sqlite3_step :: "handle \<Rightarrow> 'w \<Rightarrow> int \<times> 'w"
  sqlite3_column_int64 :: "handle \<Rightarrow> nat \<Rightarrow> 'w \<Rightarrow> u64"
  sqlite3_column_text :: "handle \<Rightarrow> nat \<Rightarrow> 'w \<Rightarrow> u8 list"
  sqlite3_column_blob :: "handle \<Rightarrow> nat \<Rightarrow> 'w \<Rightarrow> u8 list option"
  sqlite3_clear_bindings :: "handle \<Rightarrow> 'w \<Rightarrow> int \<times> 'w"
  sqlite3_reset :: "handle \<Rightarrow> 'w \<Rightarrow> int \<times> 'w"
  sqlite3_finalize :: "handle \<Rightarrow> 'w \<Rightarrow> int \<times> 'w"
  sqlite3_close :: "handle \<Rightarrow> 'w \<Rightarrow> int \<times> 'w"

definition SQLITE_OK :: int where "SQLITE_OK = 0"
definition SQLITE_ROW :: int where "SQLITE_ROW = 100"
definition SQLITE_DONE :: int where "SQLITE_DONE = 101"

text \<open>The globals of both files, the shared segment, the databases and the environment variable
  \<open>FILE_INFO_ON_DISK_PATH\<close>.\<close>

record 'w sq =
  q_shm :: hh
  world :: 'w
  g_db :: handle
  hashtable_db :: handle
  g_get_dep_select_stmt :: handle
  get_select_stmt :: handle
  hhfi_db :: handle
  env_path :: "u8 list option"

type_synonym ('w, 'a) sq_op = "('w sq, 'a) op"

definition lift_hh :: "'a hh_op \<Rightarrow> ('w, 'a) sq_op" where
  [op_simps]: "lift_hh m s = (case m (q_shm s) of None \<Rightarrow> None | Some (r, t) \<Rightarrow> Some (r, s\<lparr>q_shm := t\<rparr>))"

definition call :: "('w \<Rightarrow> int \<times> 'w) \<Rightarrow> ('w, int) sq_op" where
  [op_simps]: "call f s = (case f (world s) of (rc, w) \<Rightarrow> Some (Inr rc, s\<lparr>world := w\<rparr>))"

definition call_out :: "('w \<Rightarrow> int \<times> handle \<times> 'w) \<Rightarrow> ('w, int \<times> handle) sq_op" where
  [op_simps]: "call_out f s = (case f (world s) of (rc, h, w) \<Rightarrow> Some (Inr (rc, h), s\<lparr>world := w\<rparr>))"

definition assert_sql :: "int \<Rightarrow> int \<Rightarrow> ('s, unit) op" where
  [op_simps]: "assert_sql result correct_result =
     (if result = correct_result then ret () else throw (Sql_assertion_failure result))"

definition sql :: "('w \<Rightarrow> int \<times> 'w) \<Rightarrow> int \<Rightarrow> ('w, unit) sq_op" where
  "sql f correct_result = op_bind (call f) (\<lambda>result. assert_sql result correct_result)"

definition prepare :: "'w sqlite \<Rightarrow> handle \<Rightarrow> string \<Rightarrow> ('w, handle) sq_op" where
  "prepare q db text = op_bind (call_out (sqlite3_prepare_v2 q db text)) (\<lambda>(rc, stmt).
     op_seq (assert_sql rc SQLITE_OK) (ret stmt))"

subsection \<open>\<open>hh_shared_sqlite.c\<close>\<close>

abbreviation s_assert :: "nat \<Rightarrow> ('s \<Rightarrow> bool) \<Rightarrow> ('s, unit) op" where
  "s_assert \<equiv> assert_at HH_SHARED_SQLITE_C"

definition create_tables_sql :: "string list" where
  "create_tables_sql =
    [''CREATE TABLE IF NOT EXISTS HEADER(    MAGIC_CONSTANT INTEGER PRIMARY KEY NOT NULL,    BUILDINFO TEXT NOT NULL);'',
     ''CREATE TABLE IF NOT EXISTS NAME_INFO(    HASH INTEGER PRIMARY KEY NOT NULL,    NAME TEXT NOT NULL,    NKIND INTEGER NOT NULL,    FILESPEC TEXT NOT NULL);'',
     ''CREATE TABLE IF NOT EXISTS DEPTABLE(    KEY_VERTEX INT PRIMARY KEY NOT NULL,    VALUE_VERTEX BLOB NOT NULL);'']"

definition make_all_tables :: "'w sqlite \<Rightarrow> handle \<Rightarrow> ('w, unit) sq_op" where
  "make_all_tables q db =
     op_seq (s_assert 47 (\<lambda>_. db \<noteq> 0))
    (for_each create_tables_sql (\<lambda>text. sql (sqlite3_exec q db text) SQLITE_OK))"

definition hhfi_insert_row_sql :: string where
  "hhfi_insert_row_sql = ''INSERT INTO NAME_INFO (HASH, NAME, NKIND, FILESPEC) VALUES (?, ?, ?, ?);''"

definition hhfi_insert_row :: "'w sqlite \<Rightarrow> handle \<Rightarrow> u64 \<Rightarrow> u8 list \<Rightarrow> u64 \<Rightarrow> u8 list \<Rightarrow> ('w, unit) sq_op" where
  "hhfi_insert_row q db hash name kind filespec =
     op_seq (s_assert 82 (\<lambda>_. db \<noteq> 0))
    (op_bind (prepare q db hhfi_insert_row_sql) (\<lambda>stmt.
     op_seq (sql (sqlite3_bind_int64 q stmt 1 hash) SQLITE_OK)
    (op_seq (sql (sqlite3_bind_text q stmt 2 name) SQLITE_OK)
    (op_seq (sql (sqlite3_bind_int64 q stmt 3 kind) SQLITE_OK)
    (op_seq (sql (sqlite3_bind_text q stmt 4 filespec) SQLITE_OK)
    (op_seq (sql (sqlite3_step q stmt) SQLITE_DONE)
    (sql (sqlite3_finalize q stmt) SQLITE_OK)))))))"

definition hhfi_get_filespec_sql :: string where
  "hhfi_get_filespec_sql = ''SELECT FILESPEC FROM NAME_INFO WHERE (HASH = (?));''"

definition hhfi_get_filespec :: "'w sqlite \<Rightarrow> handle \<Rightarrow> u64 \<Rightarrow> ('w, u8 list option) sq_op" where
  "hhfi_get_filespec q db hash =
     op_seq (s_assert 110 (\<lambda>_. db \<noteq> 0))
    (op_bind (prepare q db hhfi_get_filespec_sql) (\<lambda>stmt.
     op_seq (sql (sqlite3_bind_int64 q stmt 1 hash) SQLITE_OK)
    (op_bind (call (sqlite3_step q stmt)) (\<lambda>sqlerr.
     op_bind
      (if sqlerr = SQLITE_DONE then ret None
       else if sqlerr = SQLITE_ROW then
         op_bind (gets (\<lambda>s. sqlite3_column_text q stmt 0 (world s))) (\<lambda>out.
         op_seq (sql (sqlite3_step q stmt) SQLITE_DONE) (ret (Some out)))
       else op_seq (s_assert 126 (\<lambda>_. False)) (ret None)) (\<lambda>out.
     op_bind (call (sqlite3_finalize q stmt)) (\<lambda>_. ret out)))))) "

definition hhfi_init_db :: "'w sqlite \<Rightarrow> u8 list \<Rightarrow> ('w, unit) sq_op" where
  "hhfi_init_db q path =
     op_seq (s_assert 133 (\<lambda>s. hhfi_db s = 0))
    (op_bind (call_out (sqlite3_open q path)) (\<lambda>(rc, db).
     op_seq (modify (\<lambda>s. s\<lparr>hhfi_db := db\<rparr>))
    (op_seq (assert_sql rc SQLITE_OK)
    (sql (sqlite3_exec q db ''BEGIN TRANSACTION;'') SQLITE_OK))))"

definition hhfi_free_db :: "'w sqlite \<Rightarrow> ('w, unit) sq_op" where
  "hhfi_free_db q =
     op_seq (s_assert 140 (\<lambda>s. hhfi_db s \<noteq> 0))
    (op_bind (gets hhfi_db) (\<lambda>db.
     op_seq (sql (sqlite3_exec q db ''END TRANSACTION;'') SQLITE_OK)
    (sql (sqlite3_close q db) SQLITE_OK)))"

definition hhfi_get_db :: "('w, handle) sq_op" where
  "hhfi_get_db = op_seq (s_assert 147 (\<lambda>s. hhfi_db s \<noteq> 0)) (gets hhfi_db)"

subsection \<open>File names, environment, headers\<close>

text \<open>What C sees of an OCaml string through \<open>String_val\<close>: the bytes before the first NUL.\<close>

definition String_val :: "u8 list \<Rightarrow> u8 list" where
  "String_val = takeWhile (\<lambda>b. b \<noteq> 0)"

definition hh_cleanup_sqlite :: "os \<Rightarrow> unit hh_op" where
  "hh_cleanup_sqlite os = modify (\<lambda>s. s\<lparr>mem := memset0 (db_filename s) (getpagesize os) (mem s)\<rparr>)"

definition hh_hashtable_cleanup_sqlite :: "os \<Rightarrow> unit hh_op" where
  "hh_hashtable_cleanup_sqlite os = modify (\<lambda>s. s\<lparr>mem := memset0 (hashtable_db_filename s) (getpagesize os) (mem s)\<rparr>)"

definition get_file_info_on_disk :: "('w, ocaml_value) sq_op" where
  "get_file_info_on_disk =
     op_seq (c_assert 1729 (\<lambda>s. env_path s \<noteq> None))
     (gets (\<lambda>s. Val_bool (case env_path s of Some var \<Rightarrow> 0 < length var | None \<Rightarrow> False)))"

definition set_file_info_on_disk_path :: "u8 list \<Rightarrow> ('w, ocaml_value) sq_op" where
  "set_file_info_on_disk_path ml_str =
     op_seq (modify (\<lambda>s. s\<lparr>env_path := Some (String_val ml_str)\<rparr>)) (ret Val_unit)"

definition get_file_info_on_disk_path :: "('w, u8 list) sq_op" where
  "get_file_info_on_disk_path =
     op_seq (c_assert 1746 (\<lambda>s. env_path s \<noteq> None)) (gets (\<lambda>s. the (env_path s)))"

definition open_file_info_db :: "'w sqlite \<Rightarrow> ('w, ocaml_value) sq_op" where
  "open_file_info_db q =
     op_seq (c_assert 1754 (\<lambda>s. env_path s \<noteq> None))
    (op_seq (c_assert 1755 (\<lambda>s. 0 < length (the (env_path s))))
    (op_bind (gets g_db) (\<lambda>db.
     if db \<noteq> 0 then ret Val_unit
     else op_bind (gets (\<lambda>s. the (env_path s))) (\<lambda>path.
       op_bind (call_out (sqlite3_open_readonly q path)) (\<lambda>(rc, h).
       op_seq (modify (\<lambda>s. s\<lparr>g_db := h\<rparr>))
      (op_seq (assert_sql rc SQLITE_OK)
      (ret Val_unit)))))))"

definition write_sqlite_header :: "'w sqlite \<Rightarrow> handle \<Rightarrow> u8 list \<Rightarrow> ('w, unit) sq_op" where
  "write_sqlite_header q db buildInfo =
     op_bind (prepare q db ''INSERT OR REPLACE INTO HEADER (MAGIC_CONSTANT, BUILDINFO) VALUES (?,?)'') (\<lambda>insert_stmt.
     op_seq (sql (sqlite3_bind_int64 q insert_stmt 1 MAGIC_CONSTANT) SQLITE_OK)
    (op_seq (sql (sqlite3_bind_text q insert_stmt 2 buildInfo) SQLITE_OK)
    (op_seq (sql (sqlite3_step q insert_stmt) SQLITE_DONE)
    (sql (sqlite3_finalize q insert_stmt) SQLITE_OK))))"

definition verify_sqlite_header :: "'w sqlite \<Rightarrow> u8 list \<Rightarrow> handle \<Rightarrow> bool \<Rightarrow> ('w, unit) sq_op" where
  "verify_sqlite_header q BuildInfo_kRevision db ignore_hh_version =
     op_bind (prepare q db ''SELECT * FROM HEADER;'') (\<lambda>select_stmt.
     op_bind (call (sqlite3_step q select_stmt)) (\<lambda>rc.
     op_seq
      (if rc = SQLITE_ROW then
         op_seq (c_assert 1789 (\<lambda>s. sqlite3_column_int64 q select_stmt 0 (world s) = MAGIC_CONSTANT))
        (if \<not> ignore_hh_version
         then c_assert 1791 (\<lambda>s. sqlite3_column_text q select_stmt 1 (world s) = BuildInfo_kRevision)
         else ret ())
       else ret ())
     (sql (sqlite3_finalize q select_stmt) SQLITE_OK)))"

subsection \<open>The dependency table in SQLite\<close>

text \<open>The list walk that counts, and the one that collects (in list order).\<close>

definition count_body :: "hh \<Rightarrow> deptbl_entry_t \<times> nat \<Rightarrow> (hh_error + nat) + (deptbl_entry_t \<times> nat)" where
  "count_body s = (\<lambda>(slotval, count).
     if t_tag (e_next slotval) = TAG_NEXT then
       (if ucast (t_num (e_next slotval)) < dep_size s
        then Inr (entry_of_raw (dep_cell s (unat (t_num (e_next slotval)))), count + 1)
        else Inl (Inl (C_assertion_failure (LOCATION HH_SHARED_C 1808))))
     else Inl (Inr (count + 1)))"

definition deptbl_entry_count_for_slot :: "nat \<Rightarrow> nat hh_op" where
  "deptbl_entry_count_for_slot slot =
     op_seq (c_assert 1801 (\<lambda>s. slot < dep_slots s))
     (\<lambda>s. let slotval = entry_of_raw (dep_cell s slot) in
        if dep_cell s slot \<noteq> 0 \<and> t_tag (e_key slotval) = TAG_KEY
        then map_option (\<lambda>r. (r, s)) (while1 (count_body s) (slotval, 0))
        else Some (Inr 0, s))"

definition collect_values_body :: "hh \<Rightarrow> deptbl_entry_t \<times> u32 list \<Rightarrow> (hh_error + u32 list) + (deptbl_entry_t \<times> u32 list)" where
  "collect_values_body s = (\<lambda>(slotval, values).
     if t_tag (e_next slotval) = TAG_NEXT then
       (if ucast (t_num (e_next slotval)) < dep_size s
        then (let slotval' = entry_of_raw (dep_cell s (unat (t_num (e_next slotval))))
              in Inr (slotval', values @ [t_num (e_key slotval')]))
        else Inl (Inl (C_assertion_failure (LOCATION HH_SHARED_C 1929))))
     else Inl (Inr (values @ [t_num (e_next slotval)])))"

definition connect_and_create_dep_table_helper :: "'w sqlite \<Rightarrow> u8 list \<Rightarrow> ('w, handle) sq_op" where
  "connect_and_create_dep_table_helper q out_filename =
     op_seq (lift_hh assert_master)
    (op_bind (call_out (sqlite3_open q out_filename)) (\<lambda>(rc, db_out).
     op_seq (assert_sql rc SQLITE_OK)
    (op_seq (make_all_tables q db_out)
    (ret db_out))))"

text \<open>\<open>query_result_t\<close>: the size and the blob of a row, \<open>(0, None)\<close> when there is none. The call returns
  the statement it prepared or reused.\<close>

definition get_dep_sqlite_blob ::
  "'w sqlite \<Rightarrow> handle \<Rightarrow> u64 \<Rightarrow> handle \<Rightarrow> ('w, (nat \<times> u8 list option) \<times> handle) sq_op" where
  "get_dep_sqlite_blob q db key64 select_stmt =
     (let key = (ucast key64 :: u32) in
      op_seq (c_assert 2141 (\<lambda>_. ucast (key AND 0x7FFFFFFF) = key64))
     (op_bind
       (if select_stmt = 0 then
          op_bind (prepare q db ''SELECT VALUE_VERTEX FROM DEPTABLE WHERE KEY_VERTEX=?;'') (\<lambda>stmt.
          op_seq (c_assert 2146 (\<lambda>_. stmt \<noteq> 0)) (ret stmt))
        else
          op_seq (sql (sqlite3_clear_bindings q select_stmt) SQLITE_OK)
         (op_seq (sql (sqlite3_reset q select_stmt) SQLITE_OK)
         (ret select_stmt))) (\<lambda>stmt.
      op_seq (sql (sqlite3_bind_int q stmt 1 key) SQLITE_OK)
     (op_bind (call (sqlite3_step q stmt)) (\<lambda>err_num.
      if err_num = SQLITE_ROW then
        op_bind (gets (\<lambda>s. sqlite3_column_blob q stmt 0 (world s))) (\<lambda>blob.
        ret ((case blob of None \<Rightarrow> 0 | Some b \<Rightarrow> length b, blob), stmt))
      else if err_num = SQLITE_DONE then ret ((0, None), stmt)
      else op_seq (assert_sql err_num SQLITE_ROW) (ret ((0, None), stmt)))))))"

definition destroy_prepared_stmt :: "'w sqlite \<Rightarrow> handle \<Rightarrow> ('w, unit) sq_op" where
  "destroy_prepared_stmt q stmt =
     (if stmt = 0 then ret ()
      else op_seq (sql (sqlite3_clear_bindings q stmt) SQLITE_OK)
          (op_seq (sql (sqlite3_reset q stmt) SQLITE_OK)
          (sql (sqlite3_finalize q stmt) SQLITE_OK)))"

text \<open>Blobs are arrays of \<open>uint32_t\<close>.\<close>

definition u32_bytes :: "u32 list \<Rightarrow> u8 list" where
  "u32_bytes vs = concat (map bytes32 vs)"

fun bytes_u32 :: "u8 list \<Rightarrow> u32 list" where
  "bytes_u32 (a # b # c # d # bs) = word32 [a, b, c, d] # bytes_u32 bs"
| "bytes_u32 _ = []"

text \<open>One round of the row loop. The loop variables: the select statement, the capacity of the \<open>values\<close>
  buffer (\<open>prev_count\<close>) and the edges added so far. A write past the capacity is an invalid access.\<close>

record dep_loop =
  d_stmt :: handle
  d_prev_count :: nat
  d_edges_added :: u64

definition write_dep_row ::
  "'w sqlite \<Rightarrow> handle \<Rightarrow> deptbl_entry_t \<Rightarrow> nat \<Rightarrow> u8 list option \<Rightarrow> nat \<Rightarrow> ('w, nat) sq_op" where
  "write_dep_row q insert_stmt slotval existing_count blob prev_count =
     op_seq (sql (sqlite3_bind_int q insert_stmt 1 (t_num (e_key slotval))) SQLITE_OK)
    (op_bind (lift_hh (\<lambda>s. map_option (\<lambda>r. (r, s)) (while1 (collect_values_body s) (slotval, [])))) (\<lambda>new_values.
     op_seq (c_assert 1939 (\<lambda>_. 0 < existing_count \<longrightarrow> blob \<noteq> None))
    (let values = new_values @ (if 0 < existing_count then take existing_count (bytes_u32 (the blob)) else [])
     in if prev_count < length values then throw Invalid_access
        else op_seq (sql (sqlite3_bind_blob q insert_stmt 2 (u32_bytes values)) SQLITE_OK)
            (op_seq (sql (sqlite3_step q insert_stmt) SQLITE_DONE)
            (op_seq (sql (sqlite3_clear_bindings q insert_stmt) SQLITE_OK)
            (op_seq (sql (sqlite3_reset q insert_stmt) SQLITE_OK)
            (ret (length values))))))))"

definition update_dep_row :: "'w sqlite \<Rightarrow> handle \<Rightarrow> handle \<Rightarrow> nat \<Rightarrow> dep_loop \<Rightarrow> ('w, dep_loop) sq_op" where
  "update_dep_row q db_out insert_stmt slot l =
     op_bind (lift_hh (deptbl_entry_count_for_slot slot)) (\<lambda>count.
     if count = 0 then ret l
     else op_bind (gets (\<lambda>s. dep_cell (q_shm s) slot)) (\<lambda>raw.
       let slotval = entry_of_raw raw in
       op_bind (get_dep_sqlite_blob q db_out (ucast (t_num (e_key slotval))) (d_stmt l)) (\<lambda>((sz, blob), stmt).
       op_seq (c_assert 1912 (\<lambda>_. sz mod 4 = 0))
      (let existing_count = sz div 4;
           prev_count = (if d_prev_count l < count + existing_count then count + existing_count else d_prev_count l)
       in op_seq (c_assert 1919 (\<lambda>_. prev_count \<noteq> 0))
      (op_bind
        (if raw \<noteq> 0 \<and> t_tag (e_key slotval) = TAG_KEY
         then write_dep_row q insert_stmt slotval existing_count blob prev_count else ret 0) (\<lambda>iter.
       ret \<lparr>d_stmt = stmt, d_prev_count = prev_count,
            d_edges_added = d_edges_added l + (word_of_nat iter - word_of_nat existing_count)\<rparr>))))))"

fun for_fold :: "'x list \<Rightarrow> ('x \<Rightarrow> 'a \<Rightarrow> ('s, 'a) op) \<Rightarrow> 'a \<Rightarrow> ('s, 'a) op" where
  "for_fold [] f a = ret a"
| "for_fold (x # xs) f a = op_bind (f x a) (for_fold xs f)"

definition hh_update_dep_table_helper :: "'w sqlite \<Rightarrow> handle \<Rightarrow> u8 list \<Rightarrow> ('w, u64) sq_op" where
  "hh_update_dep_table_helper q db_out build_info =
     op_seq (write_sqlite_header q db_out build_info)
    (op_seq (sql (sqlite3_exec q db_out ''PRAGMA synchronous = OFF'') SQLITE_OK)
    (op_seq (sql (sqlite3_exec q db_out ''PRAGMA journal_mode = MEMORY'') SQLITE_OK)
    (op_seq (sql (sqlite3_exec q db_out ''BEGIN TRANSACTION'') SQLITE_OK)
    (op_bind (prepare q db_out ''INSERT OR REPLACE INTO DEPTABLE (KEY_VERTEX, VALUE_VERTEX) VALUES (?,?)'') (\<lambda>insert_stmt.
     op_bind (gets (\<lambda>s. [0..<dep_slots (q_shm s)])) (\<lambda>slots.
     op_bind (for_fold slots (update_dep_row q db_out insert_stmt) \<lparr>d_stmt = 0, d_prev_count = 0, d_edges_added = 0\<rparr>) (\<lambda>l.
     op_seq (sql (sqlite3_finalize q insert_stmt) SQLITE_OK)
    (op_seq (sql (sqlite3_exec q db_out ''END TRANSACTION'') SQLITE_OK)
    (op_seq (destroy_prepared_stmt q (d_stmt l))
    (op_seq (sql (sqlite3_close q db_out) SQLITE_OK)
    (ret (d_edges_added l))))))))))))"

definition hh_save_dep_table_helper_sqlite :: "'w sqlite \<Rightarrow> u8 list \<Rightarrow> u8 list \<Rightarrow> ('w, u64) sq_op" where
  "hh_save_dep_table_helper_sqlite q out_filename build_info =
     op_seq (lift_hh assert_master)
    (op_bind (connect_and_create_dep_table_helper q out_filename) (\<lambda>db_out.
     hh_update_dep_table_helper q db_out build_info))"

definition hh_save_dep_table_sqlite :: "'w sqlite \<Rightarrow> u8 list \<Rightarrow> u8 list \<Rightarrow> ('w, ocaml_value) sq_op" where
  "hh_save_dep_table_sqlite q out_filename build_revision =
     op_bind (hh_save_dep_table_helper_sqlite q (String_val out_filename) (String_val build_revision)) (\<lambda>edges_added.
     ret (Val_long edges_added))"

definition hh_update_dep_table_sqlite :: "'w sqlite \<Rightarrow> u8 list \<Rightarrow> u8 list \<Rightarrow> ('w, ocaml_value) sq_op" where
  "hh_update_dep_table_sqlite q out_filename build_revision =
     op_seq (lift_hh assert_master)
    (op_bind (call_out (sqlite3_open q (String_val out_filename))) (\<lambda>(rc, db_out).
     op_seq (assert_sql rc SQLITE_OK)
    (op_bind (hh_update_dep_table_helper q db_out (String_val build_revision)) (\<lambda>edges_added.
     ret (Val_long edges_added)))))"

definition hh_save_file_info_init :: "'w sqlite \<Rightarrow> u8 list \<Rightarrow> ('w, ocaml_value) sq_op" where
  "hh_save_file_info_init q path =
     op_seq (hhfi_init_db q (String_val path))
    (op_bind hhfi_get_db (\<lambda>db. op_seq (make_all_tables q db) (ret Val_unit)))"

definition hh_save_file_info_free :: "'w sqlite \<Rightarrow> ('w, ocaml_value) sq_op" where
  "hh_save_file_info_free q = op_seq (hhfi_free_db q) (ret Val_unit)"

definition hh_save_file_info_sqlite ::
  "'w sqlite \<Rightarrow> u8 list \<Rightarrow> u8 list \<Rightarrow> ocaml_value \<Rightarrow> u8 list \<Rightarrow> ('w, ocaml_value) sq_op" where
  "hh_save_file_info_sqlite q ml_hash name ml_kind filespec =
     op_seq (lift_hh assert_master)
    (op_bind hhfi_get_db (\<lambda>db.
     op_seq (hhfi_insert_row q db (get_hash ml_hash) (String_val name) (Long_val ml_kind) (String_val filespec))
    (ret Val_unit)))"

text \<open>The C string in a file-name buffer (one page, ended by a NUL).\<close>

definition c_string_at :: "os \<Rightarrow> nat \<Rightarrow> hh \<Rightarrow> u8 list" where
  "c_string_at os a s = String_val (read_bytes (mem s) a (getpagesize os))"

definition hh_get_loaded_dep_table_filename :: "os \<Rightarrow> u8 list hh_op" where
  "hh_get_loaded_dep_table_filename os =
     op_seq (c_assert 2065 (\<lambda>s. db_filename s \<noteq> 0))
     (gets (\<lambda>s. if mem s (db_filename s) = 0 then [] else c_string_at os (db_filename s) s))"

text \<open>\<open>memcpy\<close> of the name and its terminating NUL into a buffer.\<close>

definition set_filename :: "nat \<Rightarrow> u8 list \<Rightarrow> hh \<Rightarrow> hh" where
  "set_filename buf filename s = s\<lparr>mem := memcpy (memcpy (mem s) buf filename) (buf + length filename) [0]\<rparr>"

definition hh_load_dep_table_sqlite ::
  "'w sqlite \<Rightarrow> os \<Rightarrow> u8 list \<Rightarrow> u64 \<Rightarrow> u8 list \<Rightarrow> ocaml_value \<Rightarrow> ('w, ocaml_value) sq_op" where
  "hh_load_dep_table_sqlite q os BuildInfo_kRevision secs in_filename ignore_hh_version =
     op_seq (lift_hh assert_master)
    (op_seq (c_assert 2092 (\<lambda>_. length (String_val in_filename) < getpagesize os))
    (op_seq (lift_hh (modify (\<lambda>s. set_filename (db_filename s) (String_val in_filename) s)))
    (op_bind (gets (\<lambda>s. c_string_at os (db_filename (q_shm s)) (q_shm s))) (\<lambda>path.
     op_bind (call_out (sqlite3_open_readonly q path)) (\<lambda>(rc, db).
     op_seq (modify (\<lambda>s. s\<lparr>g_db := db\<rparr>))
    (op_seq (assert_sql rc SQLITE_OK)
    (op_seq (verify_sqlite_header q BuildInfo_kRevision db (Bool_val ignore_hh_version))
    (ret (Val_long secs)))))))))"

definition hh_get_dep_sqlite :: "'w sqlite \<Rightarrow> os \<Rightarrow> ocaml_value \<Rightarrow> ('w, ocaml_value list) sq_op" where
  "hh_get_dep_sqlite q os ocaml_key =
     op_seq (c_assert 2190 (\<lambda>s. db_filename (q_shm s) \<noteq> 0))
    (op_bind (gets (\<lambda>s. mem (q_shm s) (db_filename (q_shm s)) = 0)) (\<lambda>not_sql.
     if not_sql then ret []
     else op_seq
       (op_bind (gets g_db) (\<lambda>db.
        if db \<noteq> 0 then ret ()
        else op_seq (lift_hh assert_not_master)
            (op_bind (gets (\<lambda>s. c_string_at os (db_filename (q_shm s)) (q_shm s))) (\<lambda>path.
             op_bind (call_out (sqlite3_open_readonly q path)) (\<lambda>(rc, h).
             op_seq (modify (\<lambda>s. s\<lparr>g_db := h\<rparr>))
            (op_seq (assert_sql rc SQLITE_OK)
            (c_assert 2208 (\<lambda>s. g_db s \<noteq> 0))))))))
      (op_bind (gets (\<lambda>s. (g_db s, g_get_dep_select_stmt s))) (\<lambda>(db, sel).
       op_bind (get_dep_sqlite_blob q db (Long_val ocaml_key) sel) (\<lambda>((sz, blob), stmt).
       op_seq (modify (\<lambda>s. s\<lparr>g_get_dep_select_stmt := stmt\<rparr>))
      (op_seq (c_assert 2217 (\<lambda>_. sz mod 4 = 0))
      (op_seq (c_assert 2221 (\<lambda>_. 0 < sz div 4 \<longrightarrow> blob \<noteq> None))
      (ret (fold (\<lambda>v result. Val_long (ucast v) # result)
              (if 0 < sz div 4 then take (sz div 4) (bytes_u32 (the blob)) else []) []))))))))) "

subsection \<open>The hashtable in SQLite\<close>

definition hashtable_sql :: string where
  "hashtable_sql = ''CREATE TABLE IF NOT EXISTS HASHTABLE(KEY_VERTEX INT PRIMARY KEY NOT NULL,VALUE_VERTEX BLOB NOT NULL);''"

definition hashtable_keys_sql :: string where
  "hashtable_keys_sql = ''CREATE TABLE IF NOT EXISTS HASHTABLE(  KEY_VERTEX INT PRIMARY KEY NOT NULL,  VALUE_VERTEX BLOB NOT NULL);''"

definition insert_hashtable_sql :: string where
  "insert_hashtable_sql = ''INSERT INTO HASHTABLE (KEY_VERTEX, VALUE_VERTEX) VALUES (?,?)''"

definition insert_blob :: "'w sqlite \<Rightarrow> handle \<Rightarrow> u64 \<Rightarrow> u8 list \<Rightarrow> ('w, unit) sq_op" where
  "insert_blob q insert_stmt slot_hash value =
     op_seq (sql (sqlite3_bind_int64 q insert_stmt 1 slot_hash) SQLITE_OK)
    (op_seq (sql (sqlite3_bind_blob q insert_stmt 2 value) SQLITE_OK)
    (op_seq (sql (sqlite3_step q insert_stmt) SQLITE_DONE)
    (op_seq (sql (sqlite3_clear_bindings q insert_stmt) SQLITE_OK)
    (sql (sqlite3_reset q insert_stmt) SQLITE_OK))))"

text \<open>The blob of a slot: from the header (\<open>hh_save_table_sqlite\<close>), and from the data on, with the size
  that includes the header (\<open>hh_save_table_keys_sqlite\<close>).\<close>

definition entry_blob :: "hh \<Rightarrow> u64 \<Rightarrow> u8 list" where
  "entry_blob s addr = read_bytes (mem s) (unat addr) (unat (Heap_entry_total_size (load64 (mem s) (unat addr))))"

definition data_blob :: "hh \<Rightarrow> u64 \<Rightarrow> u8 list" where
  "data_blob s addr = read_bytes (mem s) (unat addr + 8) (unat (Heap_entry_total_size (load64 (mem s) (unat addr))))"

definition save_slot :: "'w sqlite \<Rightarrow> handle \<Rightarrow> (hh \<Rightarrow> u64 \<Rightarrow> u8 list) \<Rightarrow> nat \<Rightarrow> ('w, unit) sq_op" where
  "save_slot q insert_stmt blob slot =
     op_bind (gets (\<lambda>s. (ht_hash (q_shm s) slot, ht_addr (q_shm s) slot))) (\<lambda>(slot_hash, addr).
     if slot_hash = 0 \<or> addr = NULL then ret ()
     else op_bind (lift_hh (deref_header addr)) (\<lambda>_.
          op_bind (gets (\<lambda>s. blob (q_shm s) addr)) (\<lambda>value. insert_blob q insert_stmt slot_hash value)))"

definition hh_save_table_sqlite :: "'w sqlite \<Rightarrow> u8 list \<Rightarrow> u64 \<Rightarrow> u8 list \<Rightarrow> ('w, ocaml_value) sq_op" where
  "hh_save_table_sqlite q BuildInfo_kRevision secs out_filename =
     op_seq (lift_hh assert_master)
    (op_bind (call_out (sqlite3_open q (String_val out_filename))) (\<lambda>(rc, db_out).
     op_seq (assert_sql rc SQLITE_OK)
    (op_seq (make_all_tables q db_out)
    (op_seq (write_sqlite_header q db_out BuildInfo_kRevision)
    (op_seq (sql (sqlite3_exec q db_out hashtable_sql) SQLITE_OK)
    (op_seq (sql (sqlite3_exec q db_out ''PRAGMA synchronous = OFF'') SQLITE_OK)
    (op_seq (sql (sqlite3_exec q db_out ''PRAGMA journal_mode = MEMORY'') SQLITE_OK)
    (op_seq (sql (sqlite3_exec q db_out ''BEGIN TRANSACTION'') SQLITE_OK)
    (op_bind (prepare q db_out insert_hashtable_sql) (\<lambda>insert_stmt.
     op_bind (gets (\<lambda>s. [0..<ht_slots (q_shm s)])) (\<lambda>slots.
     op_seq (for_each slots (save_slot q insert_stmt entry_blob))
    (op_seq (sql (sqlite3_finalize q insert_stmt) SQLITE_OK)
    (op_seq (sql (sqlite3_exec q db_out ''END TRANSACTION'') SQLITE_OK)
    (op_seq (sql (sqlite3_close q db_out) SQLITE_OK)
    (ret (Val_long secs))))))))))))))))"

definition hh_save_table_keys_sqlite :: "'w sqlite \<Rightarrow> u8 list \<Rightarrow> u64 \<Rightarrow> u8 list \<Rightarrow> u8 list list \<Rightarrow> ('w, ocaml_value) sq_op" where
  "hh_save_table_keys_sqlite q BuildInfo_kRevision secs out_filename keys =
     op_seq (lift_hh assert_master)
    (op_bind (call_out (sqlite3_open q (String_val out_filename))) (\<lambda>(rc, db_out).
     op_seq (assert_sql rc SQLITE_OK)
    (op_seq (make_all_tables q db_out)
    (op_seq (write_sqlite_header q db_out BuildInfo_kRevision)
    (op_seq (sql (sqlite3_exec q db_out hashtable_keys_sql) SQLITE_OK)
    (op_seq (sql (sqlite3_exec q db_out ''PRAGMA synchronous = OFF'') SQLITE_OK)
    (op_seq (sql (sqlite3_exec q db_out ''PRAGMA journal_mode = MEMORY'') SQLITE_OK)
    (op_seq (sql (sqlite3_exec q db_out ''BEGIN TRANSACTION'') SQLITE_OK)
    (op_bind (prepare q db_out insert_hashtable_sql) (\<lambda>insert_stmt.
     op_seq (for_each keys (\<lambda>key. op_bind (lift_hh (find_slot key)) (\<lambda>slot.
               save_slot q insert_stmt data_blob (unat slot))))
    (op_seq (sql (sqlite3_finalize q insert_stmt) SQLITE_OK)
    (op_seq (sql (sqlite3_exec q db_out ''END TRANSACTION'') SQLITE_OK)
    (op_seq (sql (sqlite3_close q db_out) SQLITE_OK)
    (ret (Val_long secs)))))))))))))))"

definition hh_load_table_sqlite ::
  "'w sqlite \<Rightarrow> os \<Rightarrow> u8 list \<Rightarrow> u64 \<Rightarrow> u8 list \<Rightarrow> ocaml_value \<Rightarrow> ('w, ocaml_value) sq_op" where
  "hh_load_table_sqlite q os BuildInfo_kRevision secs in_filename verify =
     op_seq (lift_hh assert_master)
    (op_seq (c_assert 2391 (\<lambda>_. length (String_val in_filename) < getpagesize os))
    (op_seq (lift_hh (modify (\<lambda>s. set_filename (hashtable_db_filename s) (String_val in_filename) s)))
    (op_bind (gets (\<lambda>s. c_string_at os (hashtable_db_filename (q_shm s)) (q_shm s))) (\<lambda>path.
     op_bind (call_out (sqlite3_open_readonly q path)) (\<lambda>(rc, db).
     op_seq (modify (\<lambda>s. s\<lparr>hashtable_db := db\<rparr>))
    (op_seq (assert_sql rc SQLITE_OK)
    (op_seq (if Bool_val verify then verify_sqlite_header q BuildInfo_kRevision db False else ret ())
    (ret (Val_long secs)))))))))"

text \<open>\<open>hh_deserialize\<close> on a blob in SQLite's memory: an entry that claims more bytes than the blob has is
  read past its end.\<close>

definition deserialize_blob :: "'v runtime \<Rightarrow> u8 list option \<Rightarrow> ('s, 'v caml) op" where
  "deserialize_blob rt blob =
     (case blob of None \<Rightarrow> throw Invalid_access
      | Some b \<Rightarrow>
          if length b < 8 then throw Invalid_access
          else (let header = word64 (take 8 b); n = unat (Entry_size header) in
                if length b < 8 + n then throw Invalid_access
                else deserialize_entry rt header (take n (drop 8 b))))"

definition hh_get_sqlite :: "'w sqlite \<Rightarrow> os \<Rightarrow> 'v runtime \<Rightarrow> u8 list \<Rightarrow> ('w, 'v caml option) sq_op" where
  "hh_get_sqlite q os rt ocaml_key =
     op_seq (c_assert 2419 (\<lambda>s. hashtable_db_filename (q_shm s) \<noteq> 0))
    (op_bind (gets (\<lambda>s. mem (q_shm s) (hashtable_db_filename (q_shm s)) = 0)) (\<lambda>not_sql.
     if not_sql then ret None
     else op_seq
       (op_bind (gets hashtable_db) (\<lambda>db.
        if db \<noteq> 0 then ret ()
        else op_seq (lift_hh assert_not_master)
            (op_bind (gets (\<lambda>s. c_string_at os (hashtable_db_filename (q_shm s)) (q_shm s))) (\<lambda>path.
             op_bind (call_out (sqlite3_open_readonly q path)) (\<lambda>(rc, h).
             op_seq (modify (\<lambda>s. s\<lparr>hashtable_db := h\<rparr>))
            (op_seq (assert_sql rc SQLITE_OK)
            (c_assert 2438 (\<lambda>s. hashtable_db s \<noteq> 0))))))))
      (op_seq
       (op_bind (gets get_select_stmt) (\<lambda>stmt.
        if stmt \<noteq> 0 then ret ()
        else op_bind (gets hashtable_db) (\<lambda>db.
             op_bind (call_out (sqlite3_prepare_v2 q db ''SELECT VALUE_VERTEX FROM HASHTABLE WHERE KEY_VERTEX=?;'')) (\<lambda>(rc, h).
             op_seq (modify (\<lambda>s. s\<lparr>get_select_stmt := h\<rparr>))
            (op_seq (assert_sql rc SQLITE_OK)
            (c_assert 2449 (\<lambda>s. get_select_stmt s \<noteq> 0)))))))
      (op_bind (gets get_select_stmt) (\<lambda>stmt.
       op_seq (sql (sqlite3_bind_int64 q stmt 1 (get_hash ocaml_key)) SQLITE_OK)
      (op_bind (call (sqlite3_step q stmt)) (\<lambda>err_num.
       op_bind
        (if err_num = SQLITE_ROW then
           op_bind (gets (\<lambda>s. sqlite3_column_blob q stmt 0 (world s))) (\<lambda>blob.
           op_bind (deserialize_blob rt blob) (\<lambda>v. ret (Some v)))
         else if err_num \<noteq> SQLITE_DONE then op_seq (assert_sql err_num SQLITE_ROW) (ret None)
         else ret None) (\<lambda>result.
       op_seq (sql (sqlite3_clear_bindings q stmt) SQLITE_OK)
      (op_seq (sql (sqlite3_reset q stmt) SQLITE_OK)
      (ret result))))))))))"

subsection \<open>Walking the lists\<close>

lemma chain_next_less: "sized d s \<Longrightarrow> unat (t_num t) < 2 ^ d \<Longrightarrow> ucast (t_num t) < dep_size s"
  using sizedD(4) [of d s] by (simp add: word_less_nat_alt unat_ucast_64)

lemma count_chain:
  assumes s: "sized d s" and "chain (dep_cell s) (2 ^ d) t vs"
  shows "e_next e = t \<Longrightarrow> while1 (count_body s) (e, n) = Some (Inr (n + length vs))"
  using assms(2)
proof (induction arbitrary: e n rule: chain.induct)
  case (chain_last t)
  then show ?case by (intro while1_Inl) (simp add: count_body_def TAG_VAL_def TAG_NEXT_def)
next
  case (chain_node t vs)
  then have "count_body s (e, n) = Inr (entry_of_raw (dep_cell s (unat (t_num t))), n + 1)"
    using chain_next_less [OF s chain_node.hyps(2)] by (simp add: count_body_def)
  then show ?case using chain_node.IH by (simp add: while1_Inr)
qed

lemma collect_chain:
  assumes s: "sized d s" and "chain (dep_cell s) (2 ^ d) t vs"
  shows "e_next e = t \<Longrightarrow> while1 (collect_values_body s) (e, acc) = Some (Inr (acc @ vs))"
  using assms(2)
proof (induction arbitrary: e acc rule: chain.induct)
  case (chain_last t)
  then show ?case by (intro while1_Inl) (simp add: collect_values_body_def TAG_VAL_def TAG_NEXT_def)
next
  case (chain_node t vs)
  then have "collect_values_body s (e, acc) = Inr (entry_of_raw (dep_cell s (unat (t_num t))),
       acc @ [t_num (e_key (entry_of_raw (dep_cell s (unat (t_num t)))))])"
    using chain_next_less [OF s chain_node.hyps(2)] by (simp add: collect_values_body_def Let_def)
  then show ?case using chain_node.IH by (simp add: while1_Inr)
qed

lemma head_slot: "dep_view s i = Keyed k \<longleftrightarrow> dep_cell s i \<noteq> 0 \<and> t_tag (e_key (entry_of_raw (dep_cell s i))) = TAG_KEY
    \<and> t_num (e_key (entry_of_raw (dep_cell s i))) = k"
  by (auto simp: dep_view_def slot_of_cell_def)

lemma slot_values:
  assumes R: "dep_rel d s E" and i: "i < 2 ^ d" and k: "dep_view s i = Keyed k"
  shows "\<exists>vs. deptbl_entry_count_for_slot i s = Some (Inr (length vs), s) \<and> distinct vs \<and> set vs = {v. (k, v) \<in> E} \<and> vs \<noteq> []
     \<and> while1 (collect_values_body s) (entry_of_raw (dep_cell s i), []) = Some (Inr vs)"
proof -
  have S: "sized d s" "lists_rel d s E" using R by (auto simp: dep_rel_def)
  obtain vs where vs: "chain (dep_cell s) (2 ^ d) (e_next (entry_of_raw (dep_cell s i))) vs" "distinct vs" "set vs = {v. (k, v) \<in> E}"
    by (rule lists_rel_chain [OF S(2) i k])
  have "deptbl_entry_count_for_slot i s = Some (Inr (length vs), s)"
    using count_chain [OF S(1) vs(1) refl, of 0] k i sizedD(4) [OF S(1)]
    by (simp add: deptbl_entry_count_for_slot_def op_simps head_slot Let_def)
  then show ?thesis using collect_chain [OF S(1) vs(1) refl, of "[]"] vs chain_nonempty [OF vs(1)] by auto
qed

lemma slot_count_0:
  assumes "dep_rel d s E" and "i < 2 ^ d" and "\<And>k. dep_view s i \<noteq> Keyed k"
  shows "deptbl_entry_count_for_slot i s = Some (Inr 0, s)"
proof -
  have "sized d s" using assms(1) by (simp add: dep_rel_def)
  then show ?thesis using assms(2,3) sizedD(4) [of d s]
    by (auto simp: deptbl_entry_count_for_slot_def op_simps head_slot Let_def)
qed

subsection \<open>Memory safety of the row buffer\<close>

text \<open>\<open>good_at m s\<close>: from \<open>s\<close>, \<open>m\<close> ends, makes no invalid access and leaves the shared segment as it is;
  \<open>tame m\<close>: it does so from every state.\<close>

definition good_at :: "('w, 'a) sq_op \<Rightarrow> 'w sq \<Rightarrow> bool" where
  "good_at m s \<longleftrightarrow> (\<exists>r t. m s = Some (r, t) \<and> q_shm t = q_shm s \<and> r \<noteq> Inl Invalid_access)"

definition tame :: "('w, 'a) sq_op \<Rightarrow> bool" where
  "tame m \<longleftrightarrow> (\<forall>s. good_at m s)"

named_theorems tame_intros

lemma good_bind:
  assumes m: "good_at m s" and f: "\<And>x t. m s = Some (Inr x, t) \<Longrightarrow> q_shm t = q_shm s \<Longrightarrow> good_at (f x) t"
  shows "good_at (op_bind m f) s"
proof -
  obtain r t where m: "m s = Some (r, t)" "q_shm t = q_shm s" "r \<noteq> Inl Invalid_access" using m by (auto simp: good_at_def)
  show ?thesis
  proof (cases r)
    case (Inl e) then show ?thesis using m by (simp add: good_at_def op_bind_def)
  next
    case (Inr x) then show ?thesis using f [of x t] m by (simp add: good_at_def op_bind_def)
  qed
qed

lemma good_seq: "good_at m s \<Longrightarrow> (\<And>t. q_shm t = q_shm s \<Longrightarrow> good_at n t) \<Longrightarrow> good_at (op_seq m n) s"
  unfolding op_seq_def by (rule good_bind)

lemma tame_good [tame_intros]: "tame m \<Longrightarrow> good_at m s"
  by (simp add: tame_def)

lemma tame_basic [tame_intros]:
  "tame (ret x)" "tame (gets f)" "tame (assert_at file line P)" "tame (assert_sql a b)" "tame (call g)" "tame (call_out h)"
  by (auto simp: tame_def good_at_def op_simps split: prod.splits if_splits)

lemma tame_bind [tame_intros]: "tame m \<Longrightarrow> (\<And>x. tame (f x)) \<Longrightarrow> tame (op_bind m f)"
  unfolding tame_def by (intro allI good_bind) auto

lemma tame_seq [tame_intros]: "tame m \<Longrightarrow> tame n \<Longrightarrow> tame (op_seq m n)"
  unfolding op_seq_def by (rule tame_bind)

lemma tame_if [tame_intros]: "tame m \<Longrightarrow> tame n \<Longrightarrow> tame (if b then m else n)"
  by simp

lemma tame_prod [tame_intros]: "(\<And>a b. tame (f a b)) \<Longrightarrow> tame (case p of (a, b) \<Rightarrow> f a b)"
  by (simp split: prod.splits)

lemma tame_sql [tame_intros]: "tame (sql g rc)" "tame (prepare q db text)"
  unfolding sql_def prepare_def by (intro tame_intros)+

lemma tame_stmts [tame_intros]:
  "tame (get_dep_sqlite_blob q db key stmt)" "tame (write_sqlite_header q db info)" "tame (destroy_prepared_stmt q stmt)"
  unfolding get_dep_sqlite_blob_def write_sqlite_header_def destroy_prepared_stmt_def Let_def by (intro tame_intros)+

lemma good_for_fold:
  assumes "\<And>x a t. x \<in> set xs \<Longrightarrow> q_shm t = q_shm s \<Longrightarrow> good_at (f x a) t"
  shows "q_shm t = q_shm s \<Longrightarrow> good_at (for_fold xs f a) t"
  using assms
proof (induction xs arbitrary: a t)
  case Nil then show ?case by (auto intro: tame_intros)
next
  case (Cons x xs) then show ?case by (auto intro!: good_bind)
qed

lemma bind_lift: "m (q_shm s) = Some (Inr x, q_shm s) \<Longrightarrow> op_bind (lift_hh m) f s = f x s"
  by (simp add: op_simps)

lemma write_dep_row_good:
  assumes vs: "while1 (collect_values_body (q_shm s)) (e, []) = Some (Inr vs)" and cap: "length vs + n \<le> prev_count"
  shows "good_at (write_dep_row q ins e n blob prev_count) s"
  unfolding write_dep_row_def
proof (rule good_seq [OF tame_good [OF tame_sql(1)]])
  fix t :: "'a sq" assume t: "q_shm t = q_shm s"
  let ?vals = "vs @ (if 0 < n then take n (bytes_u32 (the blob)) else [])"
  have fits: "\<not> prev_count < length ?vals" using cap by auto
  have coll: "op_bind (lift_hh (\<lambda>z. map_option (\<lambda>r. (r, z)) (while1 (collect_values_body z) (e, [])))) f t = f vs t" for f
    using t vs by (intro bind_lift) simp
  show "good_at (op_bind (lift_hh (\<lambda>s. map_option (\<lambda>r. (r, s)) (while1 (collect_values_body s) (e, [])))) (\<lambda>new_values.
     op_seq (c_assert 1939 (\<lambda>_. 0 < n \<longrightarrow> blob \<noteq> None))
    (let values = new_values @ (if 0 < n then take n (bytes_u32 (the blob)) else [])
     in if prev_count < length values then throw Invalid_access
        else op_seq (sql (sqlite3_bind_blob q ins 2 (u32_bytes values)) SQLITE_OK)
            (op_seq (sql (sqlite3_step q ins) SQLITE_DONE)
            (op_seq (sql (sqlite3_clear_bindings q ins) SQLITE_OK)
            (op_seq (sql (sqlite3_reset q ins) SQLITE_OK)
            (ret (length values)))))))) t"
    unfolding good_at_def coll Let_def if_not_P [OF fits]
    by (rule tame_good [unfolded good_at_def]) (intro tame_intros)
qed

lemma update_dep_row_good:
  assumes R: "dep_rel d (q_shm s) E" and i: "i < 2 ^ d"
  shows "good_at (update_dep_row q db ins i l) s"
proof (cases "\<exists>k. dep_view (q_shm s) i = Keyed k")
  case False
  then have "update_dep_row q db ins i l s = ret l s"
    using slot_count_0 [OF R i] unfolding update_dep_row_def by (subst bind_lift) auto
  then show ?thesis by (simp add: good_at_def ret_def)
next
  case True
  then obtain k vs where k: "dep_view (q_shm s) i = Keyed k"
    and vs: "deptbl_entry_count_for_slot i (q_shm s) = Some (Inr (length vs), q_shm s)" "vs \<noteq> []"
    "while1 (collect_values_body (q_shm s)) (entry_of_raw (dep_cell (q_shm s) i), []) = Some (Inr vs)"
    using slot_values [OF R i] by blast
  define raw where "raw = dep_cell (q_shm s) i"
  define f where "f = (\<lambda>((sz, blob), stmt).
       op_seq (c_assert 1912 (\<lambda>_. sz mod 4 = 0))
      (let existing_count = sz div 4;
           prev_count = (if d_prev_count l < length vs + existing_count then length vs + existing_count else d_prev_count l)
       in op_seq (c_assert 1919 (\<lambda>_. prev_count \<noteq> 0))
      (op_bind (write_dep_row q ins (entry_of_raw raw) existing_count blob prev_count) (\<lambda>iter.
       ret \<lparr>d_stmt = stmt, d_prev_count = prev_count,
            d_edges_added = d_edges_added l + (word_of_nat iter - word_of_nat existing_count)\<rparr>))))"
  have raw: "raw \<noteq> 0" "t_tag (e_key (entry_of_raw raw)) = TAG_KEY" using k by (auto simp: raw_def head_slot)
  have "update_dep_row q db ins i l s =
      op_bind (get_dep_sqlite_blob q db (ucast (t_num (e_key (entry_of_raw raw)))) (d_stmt l)) f s"
    unfolding update_dep_row_def f_def using vs(1,2) raw
    by (subst bind_lift) (auto simp: op_bind_def [of "gets _"] gets_def raw_def Let_def)
  moreover have "good_at (op_bind (get_dep_sqlite_blob q db (ucast (t_num (e_key (entry_of_raw raw)))) (d_stmt l)) f) s"
    unfolding f_def Let_def
    by (rule good_bind [OF tame_good [OF tame_stmts(1)]], clarify, intro good_seq good_bind write_dep_row_good tame_intros)
      (use vs(3) in \<open>auto simp: raw_def\<close>)
  ultimately show ?thesis by (simp add: good_at_def)
qed

lemma hh_update_dep_table_helper_good:
  assumes R: "dep_rel d (q_shm s) E"
  shows "good_at (hh_update_dep_table_helper q db info) s"
proof -
  have n: "dep_slots (q_shm s) = 2 ^ d" using R by (simp add: dep_rel_def sizedD(4))
  have row: "good_at (update_dep_row q db ins i l) t" if "i < 2 ^ d" "q_shm t = q_shm s" for t ins l i
    using that R update_dep_row_good [of d t E i] by simp
  have loop: "good_at (for_fold [0..<2 ^ d] (update_dep_row q db ins) l) t" if "q_shm t = q_shm s" for t ins l
    using that by (intro good_for_fold [of _ s]) (auto intro: row)
  show ?thesis unfolding hh_update_dep_table_helper_def
    by (intro good_seq good_bind) (auto simp: gets_def n intro: loop tame_intros)
qed

lemma tame_for_each [tame_intros]: "(\<And>x. tame (f x)) \<Longrightarrow> tame (for_each xs f)"
  by (induction xs) (auto intro!: tame_intros)

lemma tame_lift_assert [tame_intros]: "tame (lift_hh assert_master)" "tame (lift_hh assert_not_master)"
  by (auto simp: tame_def good_at_def op_simps)

lemma tame_connect [tame_intros]: "tame (connect_and_create_dep_table_helper q name)"
  unfolding connect_and_create_dep_table_helper_def make_all_tables_def by (intro tame_intros)

subsection \<open>Blobs and file names\<close>

lemma entry_blob_eq:
  "entry_blob s a = bytes64 (load64 (mem s) (unat a)) @ snd (entry_at s (unat a))"
proof -
  have "unat (Heap_entry_total_size (load64 (mem s) (unat a))) = 8 + unat (Entry_size (load64 (mem s) (unat a)))"
    using Entry_size_less [of "load64 (mem s) (unat a)"] unfolding Heap_entry_total_size_def
    by (intro unat_plus_less [THEN trans]) (simp_all add: word_less_nat_alt)
  moreover have "read_bytes (mem s) (unat a) 8 = bytes64 (load64 (mem s) (unat a))"
    by (rule nth_equalityI) (simp_all add: bytes64_def load64_def byte_of_word_of_bytes)
  ultimately show ?thesis by (simp add: entry_blob_def read_bytes_append entry_at_def)
qed

lemma deserialize_entry_blob:
  assumes "runtime_ok rt" "fits rt data" "entry_at s (unat a) = encode rt data"
  shows "deserialize_blob rt (Some (entry_blob s a)) x = Some (Inr data, x)"
proof -
  have "load64 (mem s) (unat a) = fst (encode rt data)" using arg_cong [OF assms(3), of fst] by (simp add: entry_at_def)
  then have b: "entry_blob s a = bytes64 (fst (encode rt data)) @ snd (encode rt data)"
    using assms(3) by (simp add: entry_blob_eq)
  show ?thesis unfolding b
    using entry_size_encode [OF assms(1,2)] deserialize_encode [OF assms(1,2)]
    by (simp add: deserialize_blob_def Let_def)
qed

lemma bytes_u32_bytes [simp]: "bytes_u32 (u32_bytes ws) = ws"
proof (induction ws)
  case (Cons w ws)
  obtain a b c d where "bytes32 w = [a, b, c, d]" by (simp add: bytes32_def upt_rec)
  then show ?case using Cons word32_bytes32 [of w] by (simp add: u32_bytes_def)
qed (simp add: u32_bytes_def)

lemma String_val_free: "0 \<notin> set (String_val bs)"
  by (auto simp: String_val_def dest: set_takeWhileD)

lemma c_string_at_set:
  assumes "0 \<notin> set bs" and "length bs < getpagesize os"
  shows "c_string_at os a (set_filename a bs s) = bs"
proof -
  let ?m = "memcpy (memcpy (mem s) a bs) (a + length bs) [0]"
  obtain k where k: "getpagesize os = length bs + Suc k" using assms(2) less_iff_Suc_add by auto
  have "read_bytes ?m a (length bs) = bs"
    by (rule nth_equalityI) (simp_all add: memcpy_def)
  moreover have "read_bytes ?m (a + length bs) (Suc k) = 0 # read_bytes ?m (a + length bs + 1) k"
    using read_bytes_append [of ?m "a + length bs" 1 k] by (simp add: read_bytes_def memcpy_def)
  moreover have "takeWhile (\<lambda>b. b \<noteq> 0) (bs @ 0 # zs) = bs" for zs
    using assms(1) by (subst takeWhile_append2) auto
  ultimately show ?thesis
    unfolding c_string_at_def String_val_def set_filename_def k read_bytes_append by simp
qed

lemma tame_modify [tame_intros]: "(\<And>s. q_shm (f s) = q_shm s) \<Longrightarrow> tame (modify f)"
  by (simp add: tame_def good_at_def op_simps)

lemma tame_verify [tame_intros]: "tame (verify_sqlite_header q rv db ign)"
  unfolding verify_sqlite_header_def by (intro tame_intros)

lemma load_dep_filename:
  assumes "hh_load_dep_table_sqlite q os rv secs name ign s = Some (Inr v, t)"
  shows "length (String_val name) < getpagesize os"
    and "q_shm t = set_filename (db_filename (q_shm s)) (String_val name) (q_shm s)"
proof -
  define R :: "('a, ocaml_value) sq_op" where "R = (op_bind (gets (\<lambda>s. c_string_at os (db_filename (q_shm s)) (q_shm s))) (\<lambda>path.
     op_bind (call_out (sqlite3_open_readonly q path)) (\<lambda>(rc, db).
     op_seq (modify (\<lambda>s. s\<lparr>g_db := db\<rparr>))
    (op_seq (assert_sql rc SQLITE_OK)
    (op_seq (verify_sqlite_header q rv db (Bool_val ign))
    (ret (Val_long secs)))))))"
  let ?s1 = "s\<lparr>q_shm := set_filename (db_filename (q_shm s)) (String_val name) (q_shm s)\<rparr>"
  have "tame R" unfolding R_def by (intro tame_intros) simp
  then obtain r0 t0 where "R ?s1 = Some (r0, t0)" "q_shm t0 = q_shm ?s1" unfolding tame_def good_at_def by blast
  then have "q_shm t' = q_shm ?s1" if "R ?s1 = Some (r, t')" for r t' using that by simp
  moreover have "length (String_val name) < getpagesize os \<and> R ?s1 = Some (Inr v, t)"
    using assms unfolding hh_load_dep_table_sqlite_def R_def [symmetric]
    by (simp add: op_seq_def op_bind_def lift_hh_def modify_def assert_master_def assert_at_def ret_def throw_def split: if_splits)
  ultimately show "length (String_val name) < getpagesize os"
    and "q_shm t = set_filename (db_filename (q_shm s)) (String_val name) (q_shm s)" by simp_all
qed

definition demo_sqlite :: "nat sqlite" where
  "demo_sqlite = \<lparr>sqlite3_open = (\<lambda>p w. (0, 1, w)), sqlite3_open_readonly = (\<lambda>p w. (0, 1, w)), sqlite3_exec = (\<lambda>h t w. (0, w)),
     sqlite3_prepare_v2 = (\<lambda>h t w. (0, 2, w)), sqlite3_bind_int = (\<lambda>h n v w. (0, w)), sqlite3_bind_int64 = (\<lambda>h n v w. (0, w)),
     sqlite3_bind_text = (\<lambda>h n v w. (0, w)), sqlite3_bind_blob = (\<lambda>h n v w. (0, w + length v)), sqlite3_step = (\<lambda>h w. (101, w)),
     sqlite3_column_int64 = (\<lambda>h n w. 0), sqlite3_column_text = (\<lambda>h n w. []), sqlite3_column_blob = (\<lambda>h n w. None),
     sqlite3_clear_bindings = (\<lambda>h w. (0, w)), sqlite3_reset = (\<lambda>h w. (0, w)), sqlite3_finalize = (\<lambda>h w. (0, w)),
     sqlite3_close = (\<lambda>h w. (0, w))\<rparr>"

definition demo_sq :: "hh \<Rightarrow> nat sq" where
  "demo_sq s = \<lparr>q_shm = s, world = 0, g_db = 0, hashtable_db = 0, g_get_dep_select_stmt = 0, get_select_stmt = 0,
     hhfi_db = 0, env_path = None\<rparr>"

subsection \<open>Properties\<close>

text \<open>C23: Saving the dependency table to SQLite, or adding it to an existing database, ends, never writes
  past the \<open>values\<close> buffer (whose size is the count of a first walk over the slot's list, plus the length of the
  stored blob) and leaves the shared segment as it was, whatever SQLite answers.\<close>

theorem hh_save_dep_table_sqlite_safe:
  assumes R: "dep_rel d (q_shm s) E"
  shows "(\<exists>r t. hh_save_dep_table_sqlite q out rv s = Some (r, t) \<and> q_shm t = q_shm s \<and> r \<noteq> Inl Invalid_access)
     \<and> (\<exists>r t. hh_update_dep_table_sqlite q out rv s = Some (r, t) \<and> q_shm t = q_shm s \<and> r \<noteq> Inl Invalid_access)"
proof -
  have h: "good_at (hh_update_dep_table_helper q db info) t" if "q_shm t = q_shm s" for t db info
    using that R hh_update_dep_table_helper_good [of d t E] by simp
  have "good_at (hh_save_dep_table_sqlite q out rv) s"
    unfolding hh_save_dep_table_sqlite_def hh_save_dep_table_helper_sqlite_def
    by (intro good_seq good_bind) (auto intro: h tame_intros)
  moreover have "good_at (hh_update_dep_table_sqlite q out rv) s"
    unfolding hh_update_dep_table_sqlite_def
    by (intro good_seq good_bind) (auto intro!: h good_bind good_seq intro: tame_intros)
  ultimately show ?thesis by (simp add: good_at_def)
qed

theorem hh_save_dep_table_sqlite_safe_witness:
  "\<exists>s r t. dep_rel 2 s {(1, 2), (1, 3), (2, 3), (4, 5)}
     \<and> hh_save_dep_table_sqlite demo_sqlite [65] [66] (demo_sq s) = Some (r, t) \<and> q_shm t = s \<and> r \<noteq> Inl Invalid_access"
proof -
  obtain s where s: "dep_rel 2 s {(1, 2), (1, 3), (2, 3), (4, 5)}" using demo_dep_full by blast
  then show ?thesis using hh_save_dep_table_sqlite_safe [of 2 "demo_sq s" _ demo_sqlite "[65]" "[66]"]
    by (auto simp: demo_sq_def)
qed

text \<open>C24: The row written for the head slot of a key lists exactly the key's successors, each once, followed by
  the values the database already had for the key.\<close>

theorem dep_row_values:
  assumes R: "dep_rel d (q_shm s) E" and i: "i < 2 ^ d" and k: "dep_view (q_shm s) i = Keyed k"
  shows "\<exists>vs. distinct vs \<and> set vs = {v. (k, v) \<in> E}
     \<and> deptbl_entry_count_for_slot i (q_shm s) = Some (Inr (card {v. (k, v) \<in> E}), q_shm s)
     \<and> write_dep_row q stmt (entry_of_raw (dep_cell (q_shm s) i)) (length ws) (Some (u32_bytes ws)) (length vs + length ws) s
       = op_seq (sql (sqlite3_bind_int q stmt 1 k) SQLITE_OK)
        (op_seq (sql (sqlite3_bind_blob q stmt 2 (u32_bytes (vs @ ws))) SQLITE_OK)
        (op_seq (sql (sqlite3_step q stmt) SQLITE_DONE)
        (op_seq (sql (sqlite3_clear_bindings q stmt) SQLITE_OK)
        (op_seq (sql (sqlite3_reset q stmt) SQLITE_OK)
        (ret (length vs + length ws)))))) s"
proof -
  obtain vs where vs: "deptbl_entry_count_for_slot i (q_shm s) = Some (Inr (length vs), q_shm s)" "distinct vs" "set vs = {v. (k, v) \<in> E}"
    "while1 (collect_values_body (q_shm s)) (entry_of_raw (dep_cell (q_shm s) i), []) = Some (Inr vs)"
    using slot_values [OF R i k] by blast
  have "t_num (e_key (entry_of_raw (dep_cell (q_shm s) i))) = k" using k by (simp add: head_slot)
  moreover have "card {v. (k, v) \<in> E} = length vs" using vs(2,3) distinct_card by metis
  moreover have "vs @ (if 0 < length ws then take (length ws) ws else []) = vs @ ws" by simp
  ultimately show ?thesis using vs
    by (intro exI [of _ vs]) (simp add: write_dep_row_def op_simps sql_def Let_def split: prod.splits)
qed

theorem dep_row_values_witness:
  "\<exists>s i. \<exists>vs :: u32 list. dep_rel 2 s {(1, 2), (1, 3), (2, 3), (4, 5)} \<and> distinct vs \<and> set vs = {2, 3}
     \<and> deptbl_entry_count_for_slot i s = Some (Inr 2, s)"
proof -
  let ?E = "{(1, 2), (1, 3), (2, 3), (4, 5)} :: (u32 \<times> u32) set"
  obtain s where s: "dep_rel 2 s ?E" using demo_dep_full by blast
  have "(1, 2) \<in> ?E" by simp
  then obtain i where i: "i < 2 ^ 2" "dep_view s i = Keyed 1"
    using s unfolding dep_rel_def lists_rel_def by blast
  have v: "{v. (1, v) \<in> ?E} = {2, 3}" by auto
  have c: "card {2, 3 :: u32} = 2" by simp
  have "q_shm (demo_sq s) = s" by (simp add: demo_sq_def)
  then show ?thesis using dep_row_values [of 2 "demo_sq s" ?E i 1 demo_sqlite 0 "[]"] s i unfolding v c by metis
qed

text \<open>C25: The blob \<open>hh_save_table_sqlite\<close> stores for a bound key is what \<open>hh_get_sqlite\<close> turns back into
  the key's value.\<close>

theorem save_slot_roundtrip:
  assumes "ht_rel p (q_shm s) T" and "i < 2 ^ p" and "T (ht_hash (q_shm s) i) = Some (Some (encode rt data))"
    and "runtime_ok rt" and "fits rt data"
  shows "\<exists>blob. save_slot q stmt entry_blob i s = insert_blob q stmt (ht_hash (q_shm s) i) blob s
     \<and> deserialize_blob rt (Some blob) x = Some (Inr data, x)"
proof -
  let ?s = "q_shm s"
  have h: "ht_hash ?s i \<noteq> 0" "slot_entry ?s i = Some (encode rt data)"
    using assms(1-3) by (auto simp: ht_rel_def table_rel_def)
  then have a: "ht_addr ?s i \<noteq> 0" "entry_at ?s (unat (ht_addr ?s i)) = encode rt data"
    by (auto simp: slot_entry_def split: if_splits)
  have "ht_addr ?s i \<noteq> HASHTBL_WRITE_IN_PROGRESS" using live_not_marker [OF assms(1,2)] by blast
  then have "save_slot q stmt entry_blob i s = insert_blob q stmt (ht_hash ?s i) (entry_blob ?s (ht_addr ?s i)) s"
    using h(1) a(1) by (simp add: save_slot_def op_simps NULL_def deref_live)
  moreover have "deserialize_blob rt (Some (entry_blob ?s (ht_addr ?s i))) x = Some (Inr data, x)"
    by (rule deserialize_entry_blob [OF assms(4,5) a(2)])
  ultimately show ?thesis by blast
qed

theorem save_slot_roundtrip_witness:
  "\<exists>s i blob. save_slot demo_sqlite 2 entry_blob i (demo_sq s) = insert_blob demo_sqlite 2 (get_hash demo_key) blob (demo_sq s)
     \<and> deserialize_blob demo_runtime (Some blob) () = Some (Inr (String_block [7]), ())"
proof -
  let ?T = "[get_hash demo_key \<mapsto> Some (encode demo_runtime (String_block [7]))]"
  obtain s where s: "ht_rel 2 s ?T" using demo_added by (auto simp: master_rel_def)
  then obtain i where i: "i < 2 ^ 2" "ht_hash s i = get_hash demo_key"
    unfolding ht_rel_def table_rel_def by (metis fun_upd_same option.distinct(1))
  show ?thesis
    using save_slot_roundtrip [of 2 "demo_sq s" ?T i demo_runtime "String_block [7]" demo_sqlite 2 "()"] s i demo_runtime_ok
    by (auto simp: demo_sq_def fits_def stored_form_def)
qed

text \<open>After \<open>hh_load_dep_table_sqlite\<close> every process sees the name of the loaded file.\<close>

lemma loaded_filename:
  assumes "hh_load_dep_table_sqlite q os rv secs name ign s = Some (Inr v, t)" and "db_filename (q_shm s) \<noteq> 0"
  shows "hh_get_loaded_dep_table_filename os (q_shm t) = Some (Inr (String_val name), q_shm t)"
proof -
  let ?n = "String_val name" and ?s = "q_shm s"
  have len: "length ?n < getpagesize os" and t: "q_shm t = set_filename (db_filename ?s) ?n ?s"
    using load_dep_filename [OF assms(1)] by auto
  have c: "c_string_at os (db_filename (q_shm t)) (q_shm t) = ?n" "db_filename (q_shm t) = db_filename ?s"
    using c_string_at_set [OF String_val_free len] by (simp_all add: t set_filename_def)
  moreover have "?n = []" if "mem (q_shm t) (db_filename (q_shm t)) = 0"
    using that c len by (cases "getpagesize os") (auto simp: c_string_at_def String_val_def read_bytes_def upt_conv_Cons simp del: upt_Suc)
  ultimately show ?thesis using assms(2) by (auto simp: hh_get_loaded_dep_table_filename_def op_simps)
qed

lemma loaded_filename_witness:
  "\<exists>t. hh_load_dep_table_sqlite demo_sqlite demo_os [] 0 [65, 66, 0, 67] (Val_bool True) (demo_sq demo) = Some (Inr (Val_long 0), t)
     \<and> hh_get_loaded_dep_table_filename demo_os (q_shm t) = Some (Inr [65, 66], q_shm t)"
proof -
  have n: "db_filename demo \<noteq> 0" using demo_facts(1) by (auto simp: fresh_def layout_def)
  have "\<exists>t. hh_load_dep_table_sqlite demo_sqlite demo_os [] 0 [65, 66, 0, 67] (Val_bool True) (demo_sq demo) = Some (Inr (Val_long 0), t)"
    using demo_facts(5) by (simp add: hh_load_dep_table_sqlite_def verify_sqlite_header_def prepare_def op_simps sql_def
      demo_sqlite_def demo_sq_def SQLITE_OK_def SQLITE_DONE_def SQLITE_ROW_def String_val_def demo_os_def)
  then show ?thesis using loaded_filename [of demo_sqlite demo_os "[]" 0 "[65, 66, 0, 67]" "Val_bool True" "demo_sq demo"] n
    by (auto simp: demo_sq_def String_val_def)
qed

text \<open>The file-info database can be opened only once per process: \<open>hhfi_free_db\<close> closes the connection and
  keeps the handle, so a later \<open>hhfi_init_db\<close> fails its assertion.\<close>

lemma hhfi_reopen_fails:
  assumes "hhfi_free_db q s = Some (Inr (), t)"
  shows "hhfi_init_db q path t = Some (Inl (C_assertion_failure (LOCATION HH_SHARED_SQLITE_C 133)), t)"
proof -
  have "hhfi_db t \<noteq> 0" using assms
    by (auto simp: hhfi_free_db_def op_simps sql_def split: prod.splits if_splits option.splits sum.splits)
  then show ?thesis by (simp add: hhfi_init_db_def op_simps)
qed

lemma hhfi_reopen_fails_witness:
  "\<exists>t. op_seq (hhfi_init_db demo_sqlite [65]) (hhfi_free_db demo_sqlite) (demo_sq demo) = Some (Inr (), t)
     \<and> hhfi_init_db demo_sqlite [65] t = Some (Inl (C_assertion_failure (LOCATION HH_SHARED_SQLITE_C 133)), t)"
proof -
  let ?t = "(demo_sq demo)\<lparr>hhfi_db := 1\<rparr>"
  have i: "hhfi_init_db demo_sqlite [65] (demo_sq demo) = Some (Inr (), ?t)"
    by (simp add: hhfi_init_db_def op_simps sql_def demo_sqlite_def demo_sq_def SQLITE_OK_def)
  have f: "hhfi_free_db demo_sqlite ?t = Some (Inr (), ?t)"
    by (simp add: hhfi_free_db_def op_simps sql_def demo_sqlite_def demo_sq_def SQLITE_OK_def)
  show ?thesis using hhfi_reopen_fails [OF f, of "[65]"] i f by (simp add: op_seq_def op_bind_def)
qed

end
