(* ===== verification/Interleaving.thy ===== *)
theory Interleaving
  imports Hh_Prelude
begin

text \<open>
  Processes that share a state. Each of \<open>n\<close> calls is at a program counter; one step of the system is one
  step of one call that has not finished. The order of the steps is arbitrary, and a call may stop
  for ever (its process was killed).
\<close>

record ('s, 'pc) conc =
  shm :: 's
  pcs :: "nat \<Rightarrow> 'pc"

inductive interleave ::
  "nat \<Rightarrow> ('pc \<Rightarrow> bool) \<Rightarrow> (nat \<Rightarrow> 'pc \<Rightarrow> 's \<Rightarrow> 'pc \<times> 's) \<Rightarrow> ('s, 'pc) conc \<Rightarrow> ('s, 'pc) conc \<Rightarrow> bool"
  for n fin step where
  call: "w < n \<Longrightarrow> \<not> fin (pcs c w) \<Longrightarrow> step w (pcs c w) (shm c) = (pc', s') \<Longrightarrow>
     interleave n fin step c \<lparr>shm = s', pcs = (pcs c)(w := pc')\<rparr>"

inductive_cases interleaveE: "interleave n fin step c c'"

inductive reachable ::
  "nat \<Rightarrow> ('pc \<Rightarrow> bool) \<Rightarrow> (nat \<Rightarrow> 'pc \<Rightarrow> 's \<Rightarrow> 'pc \<times> 's) \<Rightarrow> ('s, 'pc) conc \<Rightarrow> ('s, 'pc) conc \<Rightarrow> bool"
  for n fin step c0 where
  start: "reachable n fin step c0 c0"
| step: "reachable n fin step c0 c \<Longrightarrow> interleave n fin step c c' \<Longrightarrow> reachable n fin step c0 c'"

lemma interleave_ex:
  assumes "w < n" and "\<not> fin (pcs c w)"
  shows "\<exists>c'. interleave n fin step c c'"
proof -
  obtain pc' s' where "step w (pcs c w) (shm c) = (pc', s')" by (cases "step w (pcs c w) (shm c)")
  with assms show ?thesis by (blast intro: interleave.call)
qed

text \<open>An invariant under which every step decreases a well-founded rank: no run is infinite, and from
  every reachable state the calls can finish.\<close>

locale progress =
  fixes n :: nat and fin :: "'pc \<Rightarrow> bool" and step :: "nat \<Rightarrow> 'pc \<Rightarrow> 's \<Rightarrow> 'pc \<times> 's"
    and inv :: "('s, 'pc) conc \<Rightarrow> bool" and rank :: "('s, 'pc) conc \<Rightarrow> 'r" and less :: "('r \<times> 'r) set"
  assumes wf_less: "wf less"
    and kept: "inv c \<Longrightarrow> interleave n fin step c c' \<Longrightarrow> inv c'"
    and decreases: "inv c \<Longrightarrow> interleave n fin step c c' \<Longrightarrow> (rank c', rank c) \<in> less"
begin

lemma reachable_inv: "reachable n fin step c0 c \<Longrightarrow> inv c0 \<Longrightarrow> inv c"
  by (induction rule: reachable.induct) (auto dest: kept)

lemma finishes: "inv c \<Longrightarrow> reachable n fin step c0 c \<Longrightarrow> \<exists>c'. reachable n fin step c0 c' \<and> (\<forall>w<n. fin (pcs c' w))"
proof (induction "rank c" arbitrary: c rule: wf_induct_rule [OF wf_less])
  case (1 c)
  show ?case
  proof (cases "\<forall>w<n. fin (pcs c w)")
    case False
    then obtain w where w: "w < n" "\<not> fin (pcs c w)" by blast
    obtain c' where c': "interleave n fin step c c'" using interleave_ex [of w n fin c step] w by blast
    show ?thesis
      using 1(1) [OF decreases [OF 1(2) c'] kept [OF 1(2) c']] reachable.step [OF 1(3) c'] by blast
  qed (use 1(3) in blast)
qed

lemma no_infinite_run: "inv (f 0) \<Longrightarrow> \<exists>i. \<not> interleave n fin step (f i) (f (Suc i))"
proof (rule ccontr)
  assume i: "inv (f 0)" and "\<nexists>i. \<not> interleave n fin step (f i) (f (Suc i))"
  then have run: "interleave n fin step (f i) (f (Suc i))" for i by blast
  have "inv (f i)" for i by (induction i) (use i kept [OF _ run] in auto)
  then have "\<forall>i. (rank (f (Suc i)), rank (f i)) \<in> less" using decreases run by blast
  then have "\<exists>g. \<forall>i. (g (Suc i), g i) \<in> less" by (rule exI [of _ "\<lambda>i. rank (f i)"])
  then show False using wf_less unfolding wf_iff_no_infinite_down_chain by blast
qed

end

subsection \<open>Schedules\<close>

text \<open>A run as the list of the calls that take its steps: \<open>turn\<close> is one step of one call, \<open>execute\<close> the
  state after a schedule, and in a \<open>legal\<close> schedule only calls that have not finished take a step.\<close>

definition turn :: "(nat \<Rightarrow> 'pc \<Rightarrow> 's \<Rightarrow> 'pc \<times> 's) \<Rightarrow> nat \<Rightarrow> ('s, 'pc) conc \<Rightarrow> ('s, 'pc) conc" where
  "turn step w c = (case step w (pcs c w) (shm c) of (pc', s') \<Rightarrow> \<lparr>shm = s', pcs = (pcs c)(w := pc')\<rparr>)"

definition execute :: "(nat \<Rightarrow> 'pc \<Rightarrow> 's \<Rightarrow> 'pc \<times> 's) \<Rightarrow> nat list \<Rightarrow> ('s, 'pc) conc \<Rightarrow> ('s, 'pc) conc" where
  "execute step ws c = fold (turn step) ws c"

fun legal :: "nat \<Rightarrow> ('pc \<Rightarrow> bool) \<Rightarrow> (nat \<Rightarrow> 'pc \<Rightarrow> 's \<Rightarrow> 'pc \<times> 's) \<Rightarrow> nat list \<Rightarrow> ('s, 'pc) conc \<Rightarrow> bool" where
  "legal n fin step [] c \<longleftrightarrow> True"
| "legal n fin step (w # ws) c \<longleftrightarrow> w < n \<and> \<not> fin (pcs c w) \<and> legal n fin step ws (turn step w c)"

lemma execute_simps [simp]:
  "execute step [] c = c" "execute step (w # ws) c = execute step ws (turn step w c)"
  "execute step (ws @ vs) c = execute step vs (execute step ws c)"
  by (simp_all add: execute_def)

lemma turn_other: "v \<noteq> w \<Longrightarrow> pcs (turn step w c) v = pcs c v"
  by (simp add: turn_def split: prod.splits)

lemma turn_interleave: "w < n \<Longrightarrow> \<not> fin (pcs c w) \<Longrightarrow> interleave n fin step c (turn step w c)"
  by (auto simp: turn_def split: prod.splits intro: interleave.call)

lemma interleave_turn: "interleave n fin step c c' \<longleftrightarrow> (\<exists>w<n. \<not> fin (pcs c w) \<and> c' = turn step w c)"
  using turn_interleave [of _ n fin c step] by (auto simp: turn_def elim!: interleaveE)

lemma legal_append: "legal n fin step (ws @ vs) c \<longleftrightarrow> legal n fin step ws c \<and> legal n fin step vs (execute step ws c)"
  by (induction ws arbitrary: c) auto

text \<open>Legal schedules and runs are the same thing.\<close>

lemma legal_run: "legal n fin step ws c \<Longrightarrow> (interleave n fin step ^^ length ws) c (execute step ws c)"
proof (induction ws arbitrary: c)
  case (Cons w ws)
  then have "interleave n fin step c (turn step w c)" by (simp add: turn_interleave)
  then show ?case using Cons relpowp_Suc_I2 [of "interleave n fin step"] by simp
qed simp

lemma run_legal: "reachable n fin step c0 c \<longleftrightarrow> (\<exists>ws. legal n fin step ws c0 \<and> c = execute step ws c0)"
proof
  assume "reachable n fin step c0 c"
  then show "\<exists>ws. legal n fin step ws c0 \<and> c = execute step ws c0"
  proof (induction rule: reachable.induct)
    case start
    show ?case by (rule exI [of _ "[]"]) simp
  next
    case (step c c')
    then obtain ws w where "legal n fin step ws c0" "c = execute step ws c0" "w < n" "\<not> fin (pcs c w)" "c' = turn step w c"
      by (auto simp: interleave_turn)
    then show ?case by (intro exI [of _ "ws @ [w]"]) (simp add: legal_append)
  qed
next
  assume "\<exists>ws. legal n fin step ws c0 \<and> c = execute step ws c0"
  then obtain ws where "legal n fin step ws c0" "c = execute step ws c0" by blast
  then show "reachable n fin step c0 c"
  proof (induction ws arbitrary: c rule: rev_induct)
    case (snoc w ws)
    then show ?case by (auto simp: legal_append intro: reachable.step turn_interleave)
  qed (simp add: reachable.start)
qed

text \<open>When the rank of a call decreases with each of its own steps and no other call changes it, the rank at
  the start bounds the number of steps of that call, whatever the others do.\<close>

locale bounded_calls =
  fixes fin :: "'pc \<Rightarrow> bool" and step :: "nat \<Rightarrow> 'pc \<Rightarrow> 's \<Rightarrow> 'pc \<times> 's"
    and ok :: "'s \<Rightarrow> bool" and call_rank :: "nat \<Rightarrow> 'pc \<Rightarrow> nat"
  assumes rank_step: "ok s \<Longrightarrow> \<not> fin pc \<Longrightarrow> step w pc s = (pc', s') \<Longrightarrow> call_rank w pc' < call_rank w pc"
    and ok_step: "ok s \<Longrightarrow> \<not> fin pc \<Longrightarrow> step w pc s = (pc', s') \<Longrightarrow> ok s'"
begin

lemma own_steps:
  assumes "legal n fin step ws c" and "ok (shm c)"
  shows "count_list ws w + call_rank w (pcs (execute step ws c) w) \<le> call_rank w (pcs c w)"
  using assms
proof (induction ws arbitrary: c)
  case (Cons v ws)
  obtain pc' s' where st: "step v (pcs c v) (shm c) = (pc', s')" by (cases "step v (pcs c v) (shm c)")
  have nf: "\<not> fin (pcs c v)" using Cons.prems by simp
  have "ok (shm (turn step v c))" using ok_step [OF Cons.prems(2) nf st] st by (simp add: turn_def)
  then have IH: "count_list ws w + call_rank w (pcs (execute step ws (turn step v c)) w) \<le> call_rank w (pcs (turn step v c) w)"
    using Cons by simp
  show ?case
  proof (cases "v = w")
    case True
    then show ?thesis using IH rank_step [OF Cons.prems(2) nf st] st by (simp add: turn_def)
  next
    case False
    then show ?thesis using IH turn_other [of w v step c] by simp
  qed
qed simp

lemma stuck_never: "legal n fin step ws c \<Longrightarrow> w < n \<Longrightarrow> fin (pcs (execute step ws c) w) \<or> legal n fin step (ws @ [w]) c"
  by (auto simp: legal_append)

end

end
