(* ===== verification/Hh_Concurrent.thy ===== *)
theory Hh_Concurrent
  imports Hh_Table Interleaving
begin

text \<open>
  Several processes call \<open>hh_add\<close> at the same time. A call is a program counter with its local variables;
  one step of a call is one access to shared memory as \<open>hh_add\<close>, \<open>write_at\<close>, \<open>hh_alloc\<close> and
  \<open>hh_store_ocaml\<close> make it: reading a hash, reading \<open>*hcounter\<close>, each compare-and-swap, each
  fetch-and-add, writing the header, copying the data, publishing the address. The processor is taken to be
  sequentially consistent, as the source does ("isn't safe on any arch that requires memory barriers").
  A process that dies is a call that makes no further step. What a call computes without shared memory
  (hash, marshalled and compressed bytes) is its job.

  The invariant relates a concurrent state to a sequential one, the view, in which the slots in progress are
  empty and their blocks are already written, as waste. Every step is a step of the view that the
  sequential theory knows, or none: claiming a slot, allocating a block, publishing it.
\<close>

subsection \<open>Calls and steps\<close>

text \<open>Where a call stands, by the lines of \<open>hh_shared.c\<close> it executes next. In \<open>hh_add\<close>: \<open>Scan\<close> reads
  \<open>hashtbl[slot].hash\<close> (1293-1297), \<open>Check\<close> compares \<open>*hcounter\<close> with the size and looks at the hash it
  read (1299-1304), \<open>Claim\<close> is the compare-and-swap of the hash (1306), \<open>Count\<close> the fetch-and-add and the
  sanity check (1307-1309), \<open>Recheck\<close> the second read (1319-1327), each with its exit to \<open>write_at\<close>. In
  \<open>write_at\<close>: \<open>Grab\<close> is the compare-and-swap of the address (1249-1250), \<open>Alloc\<close> the permission check
  (1251) and the fetch-and-add of \<open>hh_alloc\<close> (1143-1146), \<open>Header\<close> and \<open>Copy\<close> the writes of
  \<open>hh_store_ocaml\<close> (1147, 1212), \<open>Publish\<close> the assignment of the address (1254). In
  \<open>raise_hash_table_full\<close> a call first runs \<open>get_slots_stats\<close>, over a table that the others keep writing to:
  \<open>Stats_hash\<close> reads \<open>hashtbl[i].hash\<close> (418-420), \<open>Stats_addr\<close> reads \<open>hashtbl[i].addr\<close> (421-424), both with
  the counts so far, and \<open>Stats_check\<close> compares the count with \<open>*hcounter\<close> (426). A call ends in \<open>Returned\<close>
  (with what \<open>write_at\<close> reports), in \<open>Full\<close> (Hash_table_full, 1276), in \<open>Aborted\<close> (the assertion of
  \<open>get_slots_stats\<close>) or in \<open>Raised\<close> (an error of \<open>hh_add\<close> or \<open>write_at\<close> with the slot taken).\<close>

datatype add_pc =
    Scan u32
  | Check u32 u64
  | Claim u32
  | Recheck u32
  | Count u32
  | Grab u32
  | Alloc u32
  | Header u32 nat
  | Copy u32 nat
  | Publish u32 nat
  | Returned u32 bool
  | Stats_hash nat u64 u64
  | Stats_addr nat u64 u64
  | Stats_check u64 u64
  | Full
  | Aborted hh_error
  | Raised u32 hh_error

type_synonym job = "u64 \<times> entry"

text \<open>The loop of \<open>get_slots_stats\<close> at index \<open>i\<close> (417), with the non-empty and the filled slots counted so far.\<close>

definition stats_at :: "nat \<Rightarrow> u64 \<Rightarrow> u64 \<Rightarrow> hh \<Rightarrow> add_pc" where
  "stats_at i nonempty filled s = (if i < ht_slots s then Stats_hash i nonempty filled else Stats_check nonempty filled)"

text \<open>The next slot of the scan, or \<open>raise_hash_table_full\<close> when it is back at its first slot (1331-1335).\<close>

definition advance :: "u64 \<Rightarrow> u32 \<Rightarrow> hh \<Rightarrow> add_pc" where
  "advance hash slot s = (if next_slot s slot = hash_slot s hash then stats_at 0 0 0 s else Scan (next_slot s slot))"

fun call_step :: "job \<Rightarrow> add_pc \<Rightarrow> hh \<Rightarrow> add_pc \<times> hh" where
  "call_step (hash, e) (Scan slot) s =
     (if ht_hash s (unat slot) = hash then (Grab slot, s) else (Check slot (ht_hash s (unat slot)), s))"
| "call_step (hash, e) (Check slot slot_hash) s =
     (if hashtbl_size s \<le> hcounter s then (stats_at 0 0 0 s, s)
      else if slot_hash = 0 then (Claim slot, s)
      else (advance hash slot s, s))"
| "call_step (hash, e) (Claim slot) s =
     (if ht_hash s (unat slot) = 0 then (Count slot, set_ht_hash (unat slot) hash s) else (Recheck slot, s))"
| "call_step (hash, e) (Recheck slot) s =
     (if ht_hash s (unat slot) = hash then (Grab slot, s) else (advance hash slot s, s))"
| "call_step (hash, e) (Count slot) s =
     (if hcounter s < hashtbl_size s then Grab slot else Raised slot (C_assertion_failure (LOCATION HH_SHARED_C 1309)),
      s\<lparr>hcounter := hcounter s + 1\<rparr>)"
| "call_step (hash, e) (Grab slot) s =
     (if ht_addr s (unat slot) = NULL then (Alloc slot, set_ht_addr (unat slot) HASHTBL_WRITE_IN_PROGRESS s)
      else (Returned slot False, s))"
| "call_step (hash, e) (Alloc slot) s =
     (if \<not> allow_hashtable_writes_by_current_process s then (Raised slot (C_assertion_failure (LOCATION HH_SHARED_C 712)), s)
      else let chunk = heap s; top = (chunk + block_size (fst e)) mod 2 ^ 64; s' = s\<lparr>heap := top\<rparr> in
           if heap_max s < top then (Raised slot Heap_full, s') else (Header slot chunk, s'))"
| "call_step (hash, e) (Header slot chunk) s = (Copy slot chunk, s\<lparr>mem := store64 (mem s) chunk (fst e)\<rparr>)"
| "call_step (hash, e) (Copy slot chunk) s = (Publish slot chunk, s\<lparr>mem := memcpy (mem s) (chunk + 8) (snd e)\<rparr>)"
| "call_step (hash, e) (Publish slot chunk) s = (Returned slot True, set_ht_addr (unat slot) (word_of_nat chunk) s)"
| "call_step (hash, e) (Stats_hash i nonempty filled) s =
     (Stats_addr i (if ht_hash s i \<noteq> 0 then nonempty + 1 else nonempty) filled, s)"
| "call_step (hash, e) (Stats_addr i nonempty filled) s =
     (stats_at (i + 1) nonempty (if ht_addr s i = NULL then filled else filled + 1) s, s)"
| "call_step (hash, e) (Stats_check nonempty filled) s =
     (if nonempty = hcounter s then Full else Aborted (C_assertion_failure (LOCATION HH_SHARED_C 426)), s)"
| "call_step (hash, e) (Returned slot stored) s = (Returned slot stored, s)"
| "call_step (hash, e) Full s = (Full, s)"
| "call_step (hash, e) (Aborted err) s = (Aborted err, s)"
| "call_step (hash, e) (Raised slot err) s = (Raised slot err, s)"

fun finished :: "add_pc \<Rightarrow> bool" where
  "finished (Returned slot stored) = True"
| "finished Full = True"
| "finished (Aborted err) = True"
| "finished (Raised slot err) = True"
| "finished _ = False"

text \<open>The concurrent states, one step of one unfinished call among \<open>n\<close>, and the states reachable when all
  \<open>n\<close> calls start in the shared state \<open>s0\<close>.\<close>

type_synonym add_conc = "(hh, add_pc) conc"

abbreviation add_step :: "nat \<Rightarrow> (nat \<Rightarrow> job) \<Rightarrow> add_conc \<Rightarrow> add_conc \<Rightarrow> bool" where
  "add_step n job \<equiv> interleave n finished (\<lambda>w. call_step (job w))"

abbreviation add_run :: "nat \<Rightarrow> (nat \<Rightarrow> job) \<Rightarrow> hh \<Rightarrow> add_conc \<Rightarrow> bool" where
  "add_run n job s0 \<equiv> reachable n finished (\<lambda>w. call_step (job w)) \<lparr>shm = s0, pcs = (\<lambda>w. Scan (hash_slot s0 (fst (job w))))\<rparr>"

subsection \<open>The sequential view of a concurrent state\<close>

fun owned :: "add_pc \<Rightarrow> nat option" where
  "owned (Alloc slot) = Some (unat slot)"
| "owned (Header slot chunk) = Some (unat slot)"
| "owned (Copy slot chunk) = Some (unat slot)"
| "owned (Publish slot chunk) = Some (unat slot)"
| "owned (Raised slot err) = Some (unat slot)"
| "owned _ = None"

fun pending :: "add_pc \<Rightarrow> nat option" where
  "pending (Header slot chunk) = Some chunk"
| "pending (Copy slot chunk) = Some chunk"
| "pending (Publish slot chunk) = Some chunk"
| "pending _ = None"

fun unwritten :: "entry \<Rightarrow> add_pc \<Rightarrow> nat set" where
  "unwritten e (Header slot chunk) = {chunk..<chunk + 8 + length (snd e)}"
| "unwritten e (Copy slot chunk) = {chunk + 8..<chunk + 8 + length (snd e)}"
| "unwritten e _ = {}"

fun counting :: "add_pc \<Rightarrow> bool" where
  "counting (Count slot) = True"
| "counting _ = False"

fun allocated :: "add_pc \<Rightarrow> bool" where
  "allocated (Header slot chunk) = True"
| "allocated (Copy slot chunk) = True"
| "allocated (Publish slot chunk) = True"
| "allocated (Returned slot stored) = True"
| "allocated (Stats_hash i nonempty filled) = True"
| "allocated (Stats_addr i nonempty filled) = True"
| "allocated (Stats_check nonempty filled) = True"
| "allocated Full = True"
| "allocated (Aborted err) = True"
| "allocated (Raised slot err) = True"
| "allocated _ = False"

abbreviation passed :: "nat \<Rightarrow> hh \<Rightarrow> u64 \<Rightarrow> nat \<Rightarrow> bool" where
  "passed p s h \<equiv> htp.passed p (ht_view s) h"

fun pc_ok :: "nat \<Rightarrow> hh \<Rightarrow> u64 \<Rightarrow> add_pc \<Rightarrow> bool" where
  "pc_ok p s h (Scan slot) = passed p s h (unat slot)"
| "pc_ok p s h (Check slot g) = (passed p s h (unat slot) \<and> g \<noteq> h \<and> (g \<noteq> 0 \<longrightarrow> ht_hash s (unat slot) = g))"
| "pc_ok p s h (Claim slot) = passed p s h (unat slot)"
| "pc_ok p s h (Recheck slot) = (passed p s h (unat slot) \<and> ht_hash s (unat slot) \<noteq> 0)"
| "pc_ok p s h (Returned slot stored) = (unat slot < 2 ^ p \<and> ht_hash s (unat slot) = h \<and> ht_addr s (unat slot) \<noteq> 0)"
| "pc_ok p s h (Stats_hash i nonempty filled) = True"
| "pc_ok p s h (Stats_addr i nonempty filled) = True"
| "pc_ok p s h (Stats_check nonempty filled) = True"
| "pc_ok p s h Full = True"
| "pc_ok p s h (Aborted err) = (err = C_assertion_failure (LOCATION HH_SHARED_C 426))"
| "pc_ok p s h (Raised slot err) = False"
| "pc_ok p s h (Count slot) = (unat slot < 2 ^ p \<and> ht_hash s (unat slot) = h)"
| "pc_ok p s h (Grab slot) = (unat slot < 2 ^ p \<and> ht_hash s (unat slot) = h)"
| "pc_ok p s h (Alloc slot) = (unat slot < 2 ^ p \<and> ht_hash s (unat slot) = h)"
| "pc_ok p s h (Header slot chunk) = (unat slot < 2 ^ p \<and> ht_hash s (unat slot) = h)"
| "pc_ok p s h (Copy slot chunk) = (unat slot < 2 ^ p \<and> ht_hash s (unat slot) = h)"
| "pc_ok p s h (Publish slot chunk) = (unat slot < 2 ^ p \<and> ht_hash s (unat slot) = h)"

definition pend_size :: "nat \<Rightarrow> (nat \<Rightarrow> job) \<Rightarrow> add_conc \<Rightarrow> nat" where
  "pend_size n job c = (\<Sum>w | w < n \<and> pending (pcs c w) \<noteq> None. block_size (fst (snd (job w))))"

definition todo_size :: "nat \<Rightarrow> (nat \<Rightarrow> job) \<Rightarrow> add_conc \<Rightarrow> nat" where
  "todo_size n job c = (\<Sum>w | w < n \<and> \<not> allocated (pcs c w). block_size (fst (snd (job w))))"

definition jobs_ok :: "nat \<Rightarrow> (nat \<Rightarrow> job) \<Rightarrow> bool" where
  "jobs_ok n job \<longleftrightarrow> (\<forall>w<n. fst (job w) \<noteq> 0 \<and> unat (Entry_size (fst (snd (job w)))) = length (snd (snd (job w)))
     \<and> bit (fst (snd (job w))) 0)"

text \<open>Control: who holds the marker of a slot, where every call stands, and the space left.\<close>

definition control :: "nat \<Rightarrow> nat \<Rightarrow> (nat \<Rightarrow> job) \<Rightarrow> add_conc \<Rightarrow> bool" where
  "control p n job c \<longleftrightarrow>
     (\<forall>w<n. pc_ok p (shm c) (fst (job w)) (pcs c w))
   \<and> (\<forall>i<2 ^ p. ht_addr (shm c) i = HASHTBL_WRITE_IN_PROGRESS \<longleftrightarrow> (\<exists>w<n. owned (pcs c w) = Some i))
   \<and> (\<forall>w<n. \<forall>w'<n. owned (pcs c w) \<noteq> None \<longrightarrow> owned (pcs c w) = owned (pcs c w') \<longrightarrow> w = w')
   \<and> heap (shm c) + todo_size n job c \<le> heap_max (shm c)
   \<and> allow_hashtable_writes_by_current_process (shm c)"

text \<open>The view: the state in which the blocks of the calls in progress are written and count as waste, their
  slots are empty and the counter is up to date.\<close>

definition frame :: "hh \<Rightarrow> hh \<Rightarrow> bool" where
  "frame s v \<longleftrightarrow> v = s\<lparr>mem := mem v, hcounter := hcounter v, wasted_heap_size := wasted_heap_size v\<rparr>"

definition view :: "nat \<Rightarrow> nat \<Rightarrow> (nat \<Rightarrow> job) \<Rightarrow> add_conc \<Rightarrow> hh \<Rightarrow> bool" where
  "view p n job c v \<longleftrightarrow>
     frame (shm c) v
   \<and> unat (hcounter v) = unat (hcounter (shm c)) + card {w. w < n \<and> counting (pcs c w)}
   \<and> unat (wasted_heap_size v) = unat (wasted_heap_size (shm c)) + pend_size n job c
   \<and> (\<forall>i<2 ^ p. ht_hash v i = ht_hash (shm c) i)
   \<and> (\<forall>i<2 ^ p. ht_addr v i = (if ht_addr (shm c) i = HASHTBL_WRITE_IN_PROGRESS then 0 else ht_addr (shm c) i))
   \<and> (\<forall>x. heap_init (shm c) \<le> x \<longrightarrow> (\<forall>w<n. x \<notin> unwritten (snd (job w)) (pcs c w)) \<longrightarrow> mem v x = mem (shm c) x)"

definition blocks_ok :: "nat \<Rightarrow> nat \<Rightarrow> (nat \<Rightarrow> job) \<Rightarrow> add_conc \<Rightarrow> hh \<Rightarrow> nat list \<Rightarrow> bool" where
  "blocks_ok p n job c v bs \<longleftrightarrow> heap_inv p v bs
   \<and> (\<forall>w<n. \<forall>chunk. pending (pcs c w) = Some chunk \<longrightarrow>
        chunk \<in> set bs \<and> chunk \<notin> live p v \<and> entry_at v chunk = snd (job w))
   \<and> (\<forall>w<n. \<forall>w'<n. pending (pcs c w) \<noteq> None \<longrightarrow> pending (pcs c w) = pending (pcs c w') \<longrightarrow> w = w')"

definition winners :: "nat \<Rightarrow> (nat \<Rightarrow> job) \<Rightarrow> add_conc \<Rightarrow> table \<Rightarrow> bool" where
  "winners n job c T \<longleftrightarrow>
     (\<forall>w<n. \<forall>slot. pcs c w = Returned slot True \<longrightarrow> T (fst (job w)) = Some (Some (snd (job w))))
   \<and> (\<forall>w<n. \<forall>w'<n. \<forall>slot slot'. pcs c w = Returned slot True \<longrightarrow> pcs c w' = Returned slot' True \<longrightarrow>
        fst (job w) = fst (job w') \<longrightarrow> w = w')"

definition sim :: "nat \<Rightarrow> nat \<Rightarrow> (nat \<Rightarrow> job) \<Rightarrow> add_conc \<Rightarrow> hh \<Rightarrow> nat list \<Rightarrow> table \<Rightarrow> bool" where
  "sim p n job c v bs T \<longleftrightarrow> jobs_ok n job \<and> control p n job c \<and> view p n job c v \<and> blocks_ok p n job c v bs
     \<and> ht_rel p v T \<and> winners n job c T"

text \<open>What a step may do to the abstract table.\<close>

inductive table_step :: "nat \<Rightarrow> (nat \<Rightarrow> job) \<Rightarrow> table \<Rightarrow> table \<Rightarrow> bool" for n job where
  same: "table_step n job T T"
| register: "w < n \<Longrightarrow> T (fst (job w)) = None \<Longrightarrow> table_step n job T (T(fst (job w) \<mapsto> None))"
| bind: "w < n \<Longrightarrow> T (fst (job w)) = Some None \<Longrightarrow> table_step n job T (T(fst (job w) \<mapsto> Some (snd (job w))))"

subsection \<open>Sums and assertions under a step of one call\<close>

lemma sum_filter_join:
  fixes g :: "nat \<Rightarrow> nat"
  assumes "w < n" and "\<not> P w" and "P' w" and "\<And>x. x \<noteq> w \<Longrightarrow> P' x = P x"
  shows "(\<Sum>x | x < n \<and> P' x. g x) = (\<Sum>x | x < n \<and> P x. g x) + g w"
proof -
  have "{x. x < n \<and> P' x} = insert w {x. x < n \<and> P x}" using assms by (auto, metis+)
  then show ?thesis using assms by (simp add: add.commute)
qed

lemma passed_keep:
  assumes "passed p s h i" and "h \<noteq> 0" and "\<And>i. i < 2 ^ p \<Longrightarrow> ht_hash s i \<noteq> 0 \<Longrightarrow> ht_hash s' i = ht_hash s i"
  shows "passed p s' h i"
  using assms(1) by (rule htp.passed_mono) (use assms(3) in \<open>auto simp: ht_view_def split: if_splits\<close>)

lemma pc_ok_mono:
  assumes "pc_ok p s h pc" and "h \<noteq> 0" and "\<And>i. i < 2 ^ p \<Longrightarrow> ht_hash s i \<noteq> 0 \<Longrightarrow> ht_hash s' i = ht_hash s i"
    and "\<And>i. i < 2 ^ p \<Longrightarrow> ht_addr s i \<noteq> 0 \<Longrightarrow> ht_addr s' i \<noteq> 0"
  shows "pc_ok p s' h pc"
proof -
  note [simp] = passed_keep [OF _ assms(2,3)]
  show ?thesis using assms by (cases pc) (auto dest: htp.passed_less)
qed

lemma advance_ok:
  assumes s: "ht_sized p s" and j: "passed p s h (unat slot)" "\<not> htp.stop (ht_view s) h (unat slot)"
  shows "pc_ok p s h (advance h slot s)"
  using htp.passed_next [OF j] unat_next_slot [OF s, of slot] by (simp add: advance_def stats_at_def)

subsection \<open>Steps that leave the memory alone\<close>

lemma simD:
  assumes "sim p n job c v bs T"
  shows "jobs_ok n job" "control p n job c" "view p n job c v" "blocks_ok p n job c v bs" "ht_rel p v T" "winners n job c T"
  using assms by (simp_all add: sim_def)

lemma view_sized:
  assumes "view p n job c v" and "ht_rel p v T"
  shows "ht_sized p (shm c)" "ht_sized p v" "heap v = heap (shm c)" "heap_init v = heap_init (shm c)" "heap_max v = heap_max (shm c)"
    "hashtbl_size v = hashtbl_size (shm c)" "ht_slots v = 2 ^ p" "layout v" "layout (shm c)" "ht_slots (shm c) = 2 ^ p"
proof -
  have v: "v = (shm c)\<lparr>mem := mem v, hcounter := hcounter v, wasted_heap_size := wasted_heap_size v\<rparr>"
    using assms(1) by (simp add: view_def frame_def)
  show z: "ht_sized p v" using assms(2) by (simp add: ht_rel_def)
  show "heap v = heap (shm c)" by (subst v) simp
  show "heap_init v = heap_init (shm c)" by (subst v) simp
  show "heap_max v = heap_max (shm c)" by (subst v) simp
  show h: "hashtbl_size v = hashtbl_size (shm c)" by (subst v) simp
  have l: "layout v = layout (shm c)" by (subst v) simp
  show "ht_sized p (shm c)" using z h l by (simp add: ht_sized_def)
  then show "ht_slots v = 2 ^ p" "layout v" "layout (shm c)" "ht_slots (shm c) = 2 ^ p" using z ht_sizedD by blast+
qed

lemma control_keep:
  assumes C: "control p n job c" and own: "\<And>x. owned (pcs c' x) = owned (pcs c x)"
    and addr: "\<And>i. i < 2 ^ p \<Longrightarrow> ht_addr (shm c') i = HASHTBL_WRITE_IN_PROGRESS \<longleftrightarrow> ht_addr (shm c) i = HASHTBL_WRITE_IN_PROGRESS"
    and ok: "\<And>w. w < n \<Longrightarrow> pc_ok p (shm c') (fst (job w)) (pcs c' w)"
    and room: "heap (shm c') + todo_size n job c' \<le> heap_max (shm c')"
    and perm: "allow_hashtable_writes_by_current_process (shm c') = allow_hashtable_writes_by_current_process (shm c)"
  shows "control p n job c'"
  using C addr ok room perm unfolding control_def own by auto

lemma sim_local:
  assumes S: "sim p n job c v bs T" and s: "shm c' = shm c"
    and same: "\<And>w. owned (pcs c' w) = owned (pcs c w)" "\<And>w. pending (pcs c' w) = pending (pcs c w)"
      "\<And>w. counting (pcs c' w) = counting (pcs c w)" "\<And>w e. unwritten e (pcs c' w) = unwritten e (pcs c w)"
      "\<And>w slot. pcs c' w = Returned slot True \<longleftrightarrow> pcs c w = Returned slot True"
    and ok: "\<And>w. w < n \<Longrightarrow> pc_ok p (shm c) (fst (job w)) (pcs c' w)"
    and alloc: "\<And>w. allocated (pcs c w) \<Longrightarrow> allocated (pcs c' w)"
  shows "sim p n job c' v bs T"
proof -
  have "todo_size n job c' \<le> todo_size n job c"
    unfolding todo_size_def using alloc by (intro sum_mono2) auto
  moreover have "pend_size n job c' = pend_size n job c" by (simp add: pend_size_def same)
  ultimately show ?thesis
    using S ok unfolding sim_def control_def view_def blocks_ok_def winners_def s same by auto
qed

lemma frame_keep:
  assumes "frame s v" and "v' = v\<lparr>mem := mem v', heap := k, hcounter := hcounter v', wasted_heap_size := wasted_heap_size v'\<rparr>"
    and "s' = s\<lparr>mem := mem s', heap := k, hcounter := hcounter s', wasted_heap_size := wasted_heap_size s'\<rparr>"
  shows "frame s' v'"
proof -
  let ?f = "\<lambda>z. z\<lparr>mem := mem v', heap := k, hcounter := hcounter v', wasted_heap_size := wasted_heap_size v'\<rparr>"
  have "v' = ?f v" by (rule assms(2))
  also have "\<dots> = ?f s" using arg_cong [OF assms(1) [unfolded frame_def], of ?f] by simp
  also have "\<dots> = s'\<lparr>mem := mem v', hcounter := hcounter v', wasted_heap_size := wasted_heap_size v'\<rparr>"
    using arg_cong [OF assms(3), of "\<lambda>z. z\<lparr>mem := mem v', hcounter := hcounter v', wasted_heap_size := wasted_heap_size v'\<rparr>"] by simp
  finally show ?thesis by (simp only: frame_def)
qed

lemma sim_quiet:
  assumes S: "sim p n job c v bs T" and w: "w < n"
    and old: "owned (pcs c w) = None" "pending (pcs c w) = None" "\<not> counting (pcs c w)" "\<not> finished (pcs c w)"
    and new: "owned pc = None" "pending pc = None" "\<not> counting pc" "\<And>slot. pc \<noteq> Returned slot True" "pc_ok p (shm c) (fst (job w)) pc"
    and alloc: "allocated (pcs c w) \<Longrightarrow> allocated pc"
  shows "sim p n job \<lparr>shm = shm c, pcs = (pcs c)(w := pc)\<rparr> v bs T"
proof (rule sim_local [OF S])
  have u: "unwritten e q = {}" if "pending q = None" for e q using that by (cases q) auto
  let ?c = "\<lparr>shm = shm c, pcs = (pcs c)(w := pc)\<rparr>"
  show "unwritten e (pcs ?c x) = unwritten e (pcs c x)" for x e using u old new by simp
  show "allocated (pcs ?c x)" if "allocated (pcs c x)" for x
    using that alloc by (cases "x = w") auto
  show "pcs ?c x = Returned slot True \<longleftrightarrow> pcs c x = Returned slot True" for x slot using new(4) old(4) by auto
  show "pc_ok p (shm c) (fst (job x)) (pcs ?c x)" if "x < n" for x
    using that new(5) simD(2) [OF S] by (simp add: control_def)
qed (use old new in auto)

subsection \<open>Steps on the table\<close>

lemma pend_bounds:
  assumes "blocks_ok p n job c v bs" and "w < n" and "pending (pcs c w) = Some chunk"
  shows "heap_init v \<le> chunk" "chunk + block_size (fst (snd (job w))) \<le> heap v" "load64 (mem v) chunk = fst (snd (job w))"
    "chunk \<in> set bs" "chunk \<notin> live p v" "entry_at v chunk = snd (job w)"
proof -
  have B: "heap_inv p v bs" and c: "chunk \<in> set bs" "chunk \<notin> live p v" "entry_at v chunk = snd (job w)"
    using assms by (auto simp: blocks_ok_def)
  show hd: "load64 (mem v) chunk = fst (snd (job w))" using arg_cong [OF c(3), of fst] by (simp add: entry_at_def)
  have "tiled (mem v) (heap_init v) (heap v) bs" using B by (simp add: heap_inv_def)
  from tiled_in [OF this c(1)] show "heap_init v \<le> chunk" "chunk + block_size (fst (snd (job w))) \<le> heap v" by (simp_all add: hd)
qed (use assms in \<open>auto simp: blocks_ok_def\<close>)

lemma blocks_cong:
  assumes B: "blocks_ok p n job c v bs" and pend: "\<And>w. w < n \<Longrightarrow> pending (pcs c' w) = pending (pcs c w)"
    and same: "heap_init v' = heap_init v" "heap v' = heap v" "heap_max v' = heap_max v" "wasted_heap_size v' = wasted_heap_size v"
      "live p v' = live p v"
    and m: "\<And>x. heap_init v \<le> x \<Longrightarrow> x < heap v \<Longrightarrow> mem v' x = mem v x"
  shows "blocks_ok p n job c' v' bs"
proof -
  have "heap_inv p v' bs" using B heap_inv_cong [OF _ same m] by (simp add: blocks_ok_def)
  moreover have "entry_at v' chunk = entry_at v chunk" if "w < n" "pending (pcs c w) = Some chunk" for w chunk
    by (rule entry_at_cong) (use pend_bounds [OF B that] m in auto)
  moreover have "\<forall>w<n. \<forall>w'<n. pending (pcs c' w) \<noteq> None \<longrightarrow> pending (pcs c' w) = pending (pcs c' w') \<longrightarrow> w = w'"
    using B pend unfolding blocks_ok_def by metis
  ultimately show ?thesis using B pend same(5) unfolding blocks_ok_def by auto
qed

lemma sim_claim:
  assumes S: "sim p n job c v bs T" and w: "w < n" "pcs c w = Claim slot" and free: "ht_hash (shm c) (unat slot) = 0"
  defines "h \<equiv> fst (job w)" and "q \<equiv> unat slot"
  shows "\<exists>v'. sim p n job \<lparr>shm = set_ht_hash q h (shm c), pcs = (pcs c)(w := Count slot)\<rparr> v' bs (T(h \<mapsto> None)) \<and> T h = None"
proof -
  note D = simD [OF S] and Z = view_sized [OF simD(3,5) [OF S]]
  let ?s = "shm c" and ?v' = "(set_ht_hash q h v)\<lparr>hcounter := hcounter v + 1\<rparr>"
  let ?c' = "\<lparr>shm = set_ht_hash q h ?s, pcs = (pcs c)(w := Count slot)\<rparr>"
  have h0: "h \<noteq> 0" using D(1) w by (simp add: jobs_ok_def h_def)
  have P: "passed p ?s h q" using D(2) w by (force simp: control_def h_def q_def)
  have qn: "q < 2 ^ p" using P by (rule htp.passed_less)
  have hv: "ht_hash v i = ht_hash ?s i" if "i < 2 ^ p" for i using D(3) that by (simp add: view_def)
  have q0: "ht_hash v q = 0" using hv [OF qn] free by (simp add: q_def)
  have stop: "htp.first_stop p (ht_view v) h q"
    using htp.passed_stop [OF passed_keep [OF P h0, of v]] hv q0 stop_iff [OF h0] by simp
  have room: "hcounter v < hashtbl_size v"
  proof -
    have "card {i. i < 2 ^ p \<and> ht_hash v i \<noteq> 0} < 2 ^ p"
      using psubset_card_mono [of "{..<2 ^ p}" "{i. i < 2 ^ p \<and> ht_hash v i \<noteq> 0}"] qn q0 by auto
    then show ?thesis using D(5) Z(7) by (simp add: ht_rel_def slots_ok_def word_less_nat_alt)
  qed
  have R': "ht_rel p ?v' (T(h \<mapsto> None))" using claim_slot [OF D(5) h0 stop q0 room] .
  have Th: "T h = None"
  proof (rule ccontr)
    assume "T h \<noteq> None"
    then obtain i where "i < 2 ^ p" "ht_hash v i = h" using D(5) by (auto simp: ht_rel_def table_rel_def)
    then show False using htp.first_stop_absent [OF _ stop, of i] D(5) q0 h0 by (auto simp: ht_rel_def slots_ok_def ht_view_def)
  qed
  have m: "mem ?v' x = mem v x" "mem (set_ht_hash q h ?s) x = mem ?s x" if "heap_init ?s \<le> x" for x
    using ht_write_mem(2) [OF Z(8), of q x h] ht_write_mem(2) [OF Z(9), of q x h] that qn Z by simp_all
  have "control p n job ?c'"
  proof -
    have "pc_ok p (set_ht_hash q h ?s) (fst (job x)) (((pcs c)(w := Count slot)) x)" if x: "x < n" for x
    proof (cases "x = w")
      case False
      have "pc_ok p ?s (fst (job x)) (pcs c x)" "fst (job x) \<noteq> 0" using D(1,2) x by (auto simp: control_def jobs_ok_def)
      then show ?thesis using False free by (auto intro!: pc_ok_mono [of p ?s] simp: q_def)
    qed (use qn in \<open>simp add: q_def h_def\<close>)
    moreover have "todo_size n job ?c' = todo_size n job c" unfolding todo_size_def using w by (intro sum.cong) auto
    moreover have "heap ?s + todo_size n job c \<le> heap_max ?s" using D(2) by (simp add: control_def)
    ultimately show ?thesis by (intro control_keep [OF D(2)]) (use w in auto)
  qed
  moreover have "view p n job ?c' ?v'"
  proof -
    have "frame (set_ht_hash q h ?s) ?v'"
      by (rule frame_keep [of ?s v _ "heap ?s"]) (use D(3) Z(3) in \<open>simp_all add: view_def set_ht_hash_def\<close>)
    moreover have "card {x. x < n \<and> counting (((pcs c)(w := Count slot)) x)} = Suc (card {x. x < n \<and> counting (pcs c x)})"
      by (rule card_fill [of w]) (use w in auto)
    moreover have "unat (hcounter v + 1) = Suc (unat (hcounter v))" using room by (rule unat_plus_1_less)
    moreover have "pend_size n job ?c' = pend_size n job c" unfolding pend_size_def using w by (intro sum.cong) auto
    moreover have "unwritten e (((pcs c)(w := Count slot)) x) = unwritten e (pcs c x)" for e x using w by simp
    ultimately show ?thesis using D(3) m by (auto simp: view_def)
  qed
  moreover have "blocks_ok p n job ?c' ?v' bs"
    by (rule blocks_cong [OF D(4)]) (use w m Z(4) in \<open>auto simp: live_def\<close>)
  moreover have "winners n job ?c' (T(h \<mapsto> None))" using D(6) Th unfolding winners_def by (auto simp: h_def)
  ultimately show ?thesis using D(1) R' Th unfolding sim_def by blast
qed

lemma sim_count:
  assumes S: "sim p n job c v bs T" and w: "w < n" "pcs c w = Count slot"
  shows "hcounter (shm c) < hashtbl_size (shm c)"
    and "sim p n job \<lparr>shm = (shm c)\<lparr>hcounter := hcounter (shm c) + 1\<rparr>, pcs = (pcs c)(w := Grab slot)\<rparr> v bs T"
proof -
  note D = simD [OF S] and Z = view_sized [OF simD(3,5) [OF S]]
  let ?s = "shm c" and ?c' = "\<lparr>shm = (shm c)\<lparr>hcounter := hcounter (shm c) + 1\<rparr>, pcs = (pcs c)(w := Grab slot)\<rparr>"
  have cnt: "unat (hcounter v) = unat (hcounter ?s) + card {x. x < n \<and> counting (pcs c x)}" using D(3) by (simp add: view_def)
  have less: "card {x. x < n \<and> counting (pcs c x)} = Suc (card {x. x < n \<and> counting (((pcs c)(w := Grab slot)) x)})"
    by (rule card_fill [of w]) (use w in auto)
  have "card {i. i < 2 ^ p \<and> ht_hash v i \<noteq> 0} \<le> 2 ^ p" using card_mono [of "{..<2 ^ p}" "{i. i < 2 ^ p \<and> ht_hash v i \<noteq> 0}"] by auto
  then have "unat (hcounter v) \<le> 2 ^ p" using D(5) by (simp add: ht_rel_def slots_ok_def)
  then show room: "hcounter ?s < hashtbl_size ?s" using cnt less Z(10) by (simp add: word_less_nat_alt)
  have "pc_ok p ?s (fst (job x)) (pcs c x)" if "x < n" for x using D(2) that by (simp add: control_def)
  then have "control p n job ?c'"
  proof -
    have "pc_ok p (?s\<lparr>hcounter := hcounter ?s + 1\<rparr>) (fst (job x)) (((pcs c)(w := Grab slot)) x)" if "x < n" for x
    proof -
      have "pc_ok p ?s (fst (job x)) (pcs c x)" "fst (job x) \<noteq> 0" using D(1,2) that by (auto simp: control_def jobs_ok_def)
      then have "pc_ok p (?s\<lparr>hcounter := hcounter ?s + 1\<rparr>) (fst (job x)) (pcs c x)" by (auto intro!: pc_ok_mono [of p ?s])
      then show ?thesis using w by auto
    qed
    moreover have "todo_size n job ?c' = todo_size n job c" unfolding todo_size_def using w by (intro sum.cong) auto
    moreover have "heap ?s + todo_size n job c \<le> heap_max ?s" using D(2) by (simp add: control_def)
    ultimately show ?thesis by (intro control_keep [OF D(2)]) (use w in auto)
  qed
  moreover have "view p n job ?c' v"
  proof -
    have "frame (?s\<lparr>hcounter := hcounter ?s + 1\<rparr>) v"
      by (rule frame_keep [of ?s v _ "heap ?s"]) (use D(3) Z(3) in \<open>simp_all add: view_def\<close>)
    moreover have "unat (hcounter ?s + 1) = Suc (unat (hcounter ?s))" using room by (rule unat_plus_1_less)
    moreover have "pend_size n job ?c' = pend_size n job c" unfolding pend_size_def using w by (intro sum.cong) auto
    moreover have "unwritten e (((pcs c)(w := Grab slot)) x) = unwritten e (pcs c x)" for e x using w by simp
    ultimately show ?thesis using D(3) cnt less unfolding view_def by simp
  qed
  moreover have "blocks_ok p n job ?c' v bs" by (rule blocks_cong [OF D(4)]) (use w in auto)
  moreover have "winners n job ?c' T" using D(6) unfolding winners_def by auto
  ultimately show "sim p n job ?c' v bs T" using D unfolding sim_def by blast
qed

lemma marker: "HASHTBL_WRITE_IN_PROGRESS \<noteq> 0" "HASHTBL_WRITE_IN_PROGRESS \<noteq> NULL"
  by (simp_all add: HASHTBL_WRITE_IN_PROGRESS_def NULL_def)

lemma sim_grab:
  assumes S: "sim p n job c v bs T" and w: "w < n" "pcs c w = Grab slot" and free: "ht_addr (shm c) (unat slot) = NULL"
  defines "q \<equiv> unat slot"
  shows "sim p n job \<lparr>shm = set_ht_addr q HASHTBL_WRITE_IN_PROGRESS (shm c), pcs = (pcs c)(w := Alloc slot)\<rparr> v bs T"
proof -
  note D = simD [OF S] and Z = view_sized [OF simD(3,5) [OF S]]
  let ?s = "shm c" and ?c' = "\<lparr>shm = set_ht_addr q HASHTBL_WRITE_IN_PROGRESS (shm c), pcs = (pcs c)(w := Alloc slot)\<rparr>"
  have q: "q < 2 ^ p" "ht_hash ?s q = fst (job w)" "ht_addr ?s q = 0"
    using D(2) w free by (force simp: control_def q_def NULL_def)+
  have none: "owned (pcs c x) \<noteq> Some q" if "x < n" for x
    using D(2) q that marker by (metis control_def)
  have m: "mem (set_ht_addr q HASHTBL_WRITE_IN_PROGRESS ?s) x = mem ?s x" if "heap_init ?s \<le> x" for x
    using ht_write_mem(1) [OF Z(9) _ that] q Z by simp
  have "control p n job ?c'"
    unfolding control_def
  proof (intro conjI allI impI)
    fix x assume x: "x < n"
    have "pc_ok p ?s (fst (job x)) (pcs c x)" "fst (job x) \<noteq> 0" using D(1,2) x by (auto simp: control_def jobs_ok_def)
    then have "pc_ok p (shm ?c') (fst (job x)) (pcs c x)" using marker by (auto intro!: pc_ok_mono [of p ?s] split: if_splits)
    then show "pc_ok p (shm ?c') (fst (job x)) (pcs ?c' x)" using w by auto
  next
    fix i assume i: "i < (2::nat) ^ p"
    have old: "ht_addr ?s i = HASHTBL_WRITE_IN_PROGRESS \<longleftrightarrow> (\<exists>x<n. owned (pcs c x) = Some i)" using D(2) i by (simp add: control_def)
    show "ht_addr (shm ?c') i = HASHTBL_WRITE_IN_PROGRESS \<longleftrightarrow> (\<exists>x<n. owned (pcs ?c' x) = Some i)"
    proof (cases "i = q")
      case True
      then show ?thesis using w by (auto simp: q_def)
    next
      case False
      have "owned (pcs ?c' x) = Some i \<longleftrightarrow> owned (pcs c x) = Some i" for x using False w by (auto simp: q_def)
      then show ?thesis using old False by simp
    qed
  next
    fix x y assume xy: "x < n" "y < n" "owned (pcs ?c' x) \<noteq> None" "owned (pcs ?c' x) = owned (pcs ?c' y)"
    show "x = y"
    proof (cases "x = w \<or> y = w")
      case True
      then show ?thesis using xy none [OF xy(1)] none [OF xy(2)] by (auto simp: q_def split: if_splits)
    next
      case False
      then show ?thesis using xy D(2) by (simp add: control_def)
    qed
  next
    have "todo_size n job ?c' = todo_size n job c" unfolding todo_size_def using w by (intro sum.cong) auto
    then show "heap (shm ?c') + todo_size n job ?c' \<le> heap_max (shm ?c')" using D(2) by (simp add: control_def)
  qed (use D(2) in \<open>simp add: control_def\<close>)
  moreover have "view p n job ?c' v"
  proof -
    have "frame (set_ht_addr q HASHTBL_WRITE_IN_PROGRESS ?s) v"
      by (rule frame_keep [of ?s v _ "heap ?s"]) (use D(3) Z(3) in \<open>simp_all add: view_def set_ht_addr_def\<close>)
    moreover have "counting (((pcs c)(w := Alloc slot)) x) = counting (pcs c x)" for x using w by simp
    moreover have "pend_size n job ?c' = pend_size n job c" unfolding pend_size_def using w by (intro sum.cong) auto
    moreover have "unwritten e (((pcs c)(w := Alloc slot)) x) = unwritten e (pcs c x)" for e x using w by simp
    ultimately show ?thesis using D(3) q m unfolding view_def by auto
  qed
  moreover have "blocks_ok p n job ?c' v bs" by (rule blocks_cong [OF D(4)]) (use w in auto)
  moreover have "winners n job ?c' T" using D(6) unfolding winners_def by auto
  ultimately show ?thesis using D unfolding sim_def by blast
qed

text \<open>A call writes a part of its block: the bytes it writes are those the view has there.\<close>

lemma sim_write:
  assumes S: "sim p n job c v bs T" and w: "w < n" "pending (pcs c w) = Some chunk"
    and same: "owned pc = owned (pcs c w)" "pending pc = Some chunk"
    and ok: "pc_ok p (shm c) (fst (job w)) pc"
    and low: "\<And>x. x < chunk \<Longrightarrow> m x = mem (shm c) x"
    and out: "\<And>x. x \<notin> unwritten (snd (job w)) (pcs c w) \<Longrightarrow> m x = mem (shm c) x"
    and rest: "\<And>x. x \<in> unwritten (snd (job w)) (pcs c w) \<Longrightarrow> x \<notin> unwritten (snd (job w)) pc \<Longrightarrow> m x = mem v x"
    and sub: "unwritten (snd (job w)) pc \<subseteq> unwritten (snd (job w)) (pcs c w)"
  shows "sim p n job \<lparr>shm = (shm c)\<lparr>mem := m\<rparr>, pcs = (pcs c)(w := pc)\<rparr> v bs T"
proof -
  note D = simD [OF S] and Z = view_sized [OF simD(3,5) [OF S]]
  let ?s = "shm c" and ?c' = "\<lparr>shm = (shm c)\<lparr>mem := m\<rparr>, pcs = (pcs c)(w := pc)\<rparr>"
  have ci: "heap_init ?s \<le> chunk" using pend_bounds(1) [OF D(4) w] Z by simp
  have cells: "ht_addr (?s\<lparr>mem := m\<rparr>) i = ht_addr ?s i" "ht_hash (?s\<lparr>mem := m\<rparr>) i = ht_hash ?s i" if "i < 2 ^ p" for i
    using heap_write_cells [OF Z(9), of m i] low ci that Z by simp_all
  have kind: "\<not> counting z" "allocated z" "\<not> finished z" if "pending z = Some chunk" for z using that by (cases z; simp)+
  have "control p n job ?c'"
  proof (rule control_keep [OF D(2)])
    show "owned (pcs ?c' x) = owned (pcs c x)" for x using same by simp
    show "pc_ok p (shm ?c') (fst (job x)) (pcs ?c' x)" if x: "x < n" for x
    proof -
      have "pc_ok p ?s (fst (job x)) (pcs ?c' x)" and "fst (job x) \<noteq> 0" using D(1,2) x ok by (auto simp: control_def jobs_ok_def)
      then show ?thesis by (rule pc_ok_mono) (simp_all add: cells)
    qed
    have "todo_size n job ?c' = todo_size n job c" unfolding todo_size_def using w same kind by (intro sum.cong) auto
    then show "heap (shm ?c') + todo_size n job ?c' \<le> heap_max (shm ?c')" using D(2) by (simp add: control_def)
  qed (use cells in simp_all)
  moreover have "view p n job ?c' v"
  proof -
    have "frame (?s\<lparr>mem := m\<rparr>) v"
      by (rule frame_keep [of ?s v _ "heap ?s"]) (use D(3) Z(3) in \<open>simp_all add: view_def\<close>)
    moreover have "counting (((pcs c)(w := pc)) x) = counting (pcs c x)" for x using w same kind by simp
    moreover have "pend_size n job ?c' = pend_size n job c" unfolding pend_size_def using w same by (intro sum.cong) auto
    moreover have "mem v x = m x" if x: "heap_init ?s \<le> x" "\<forall>y<n. x \<notin> unwritten (snd (job y)) (((pcs c)(w := pc)) y)" for x
    proof (cases "x \<in> unwritten (snd (job w)) (pcs c w)")
      case True
      have "x \<notin> unwritten (snd (job w)) pc" using x(2) w(1) by auto
      then show ?thesis using rest [OF True] by simp
    next
      case False
      have "x \<notin> unwritten (snd (job y)) (pcs c y)" if "y < n" for y
        using x(2) [rule_format, OF that] False by (cases "y = w") auto
      then have "mem v x = mem ?s x" using D(3) x(1) unfolding view_def by blast
      then show ?thesis using out [OF False] by simp
    qed
    ultimately show ?thesis using D(3) cells unfolding view_def by auto
  qed
  moreover have "blocks_ok p n job ?c' v bs" by (rule blocks_cong [OF D(4)]) (use w same in auto)
  moreover have "winners n job ?c' T" using D(6) same(2) unfolding winners_def by auto
  ultimately show ?thesis using D unfolding sim_def by blast
qed

lemma sim_header:
  assumes S: "sim p n job c v bs T" and w: "w < n" "pcs c w = Header slot chunk"
  shows "sim p n job \<lparr>shm = (shm c)\<lparr>mem := store64 (mem (shm c)) chunk (fst (snd (job w)))\<rparr>, pcs = (pcs c)(w := Copy slot chunk)\<rparr> v bs T"
proof (rule sim_write [OF S w(1)])
  note D = simD [OF S]
  let ?e = "snd (job w)"
  have "store64 (mem v) chunk (fst ?e) = mem v"
    using pend_bounds(3) [OF D(4) w(1), of chunk] w(2) store64_load64 [of "mem v" chunk] by simp
  moreover have "store64 (mem (shm c)) chunk (fst ?e) x = store64 (mem v) chunk (fst ?e) x" if "chunk \<le> x" "x < chunk + 8" for x
    using that by (simp add: store64_def)
  ultimately show "store64 (mem (shm c)) chunk (fst ?e) x = mem v x"
    if "x \<in> unwritten ?e (pcs c w)" "x \<notin> unwritten ?e (Copy slot chunk)" for x using that w(2) by auto
  have "pc_ok p (shm c) (fst (job w)) (pcs c w)" using D(2) w(1) by (simp add: control_def)
  then show "pc_ok p (shm c) (fst (job w)) (Copy slot chunk)" using w(2) by simp
qed (use w in \<open>auto simp: store64_other\<close>)

lemma sim_copy:
  assumes S: "sim p n job c v bs T" and w: "w < n" "pcs c w = Copy slot chunk"
  shows "sim p n job \<lparr>shm = (shm c)\<lparr>mem := memcpy (mem (shm c)) (chunk + 8) (snd (snd (job w)))\<rparr>, pcs = (pcs c)(w := Publish slot chunk)\<rparr> v bs T"
proof (rule sim_write [OF S w(1)])
  note D = simD [OF S]
  let ?e = "snd (job w)"
  have B: "entry_at v chunk = ?e" using pend_bounds(6) [OF D(4) w(1), of chunk] w(2) by simp
  have data: "read_bytes (mem v) (chunk + 8) (length (snd ?e)) = snd ?e"
    using arg_cong [OF B, of snd] by (metis entry_at_def length_read_bytes snd_conv)
  show "memcpy (mem (shm c)) (chunk + 8) (snd ?e) x = mem v x"
    if "x \<in> unwritten ?e (pcs c w)" "x \<notin> unwritten ?e (Publish slot chunk)" for x
  proof -
    have x: "chunk + 8 \<le> x" "x < chunk + 8 + length (snd ?e)" using that w(2) by auto
    then have "snd ?e ! (x - (chunk + 8)) = mem v x"
      using arg_cong [OF data, of "\<lambda>l. l ! (x - (chunk + 8))"] by simp
    then show ?thesis using x by (simp add: memcpy_def)
  qed
  have "pc_ok p (shm c) (fst (job w)) (pcs c w)" using D(2) w(1) by (simp add: control_def)
  then show "pc_ok p (shm c) (fst (job w)) (Publish slot chunk)" using w(2) by simp
qed (use w in \<open>auto simp: memcpy_other\<close>)

subsection \<open>Allocation and publication\<close>

lemma sim_alloc:
  assumes S: "sim p n job c v bs T" and w: "w < n" "pcs c w = Alloc slot"
  defines "sz \<equiv> block_size (fst (snd (job w)))" and "chunk \<equiv> heap (shm c)"
  shows "chunk + sz \<le> heap_max (shm c)" and "allow_hashtable_writes_by_current_process (shm c)"
    and "\<exists>v' bs'. sim p n job \<lparr>shm = (shm c)\<lparr>heap := chunk + sz\<rparr>, pcs = (pcs c)(w := Header slot chunk)\<rparr> v' bs' T"
proof -
  note D = simD [OF S] and Z = view_sized [OF simD(3,5) [OF S]]
  let ?s = "shm c" and ?e = "snd (job w)"
  let ?c' = "\<lparr>shm = ?s\<lparr>heap := chunk + sz\<rparr>, pcs = (pcs c)(w := Header slot chunk)\<rparr>"
  have todo: "todo_size n job c = todo_size n job ?c' + sz"
    unfolding todo_size_def sz_def by (rule sum_filter_join) (use w in auto)
  then show room: "chunk + sz \<le> heap_max ?s" using D(2) by (simp add: control_def chunk_def)
  show "allow_hashtable_writes_by_current_process ?s" using D(2) by (simp add: control_def)
  have e: "unat (Entry_size (fst ?e)) = length (snd ?e)" "bit (fst ?e) 0" using D(1) w by (simp_all add: jobs_ok_def)
  define v' where "v' = (put_entry ?e v)\<lparr>wasted_heap_size := wasted_heap_size v + word_of_nat (block_size (fst ?e))\<rparr>"
  have H: "heap_inv p v bs" using D(4) by (simp add: blocks_ok_def)
  have r: "heap v + block_size (fst ?e) \<le> heap_max v" using room Z by (simp add: sz_def chunk_def)
  note A = alloc_block [OF D(5) H e r v'_def]
  have hi: "heap_init v \<le> heap v" using H tiled_le by (auto simp: heap_inv_def)
  have cells: "ht_addr v' i = ht_addr v i" "ht_hash v' i = ht_hash v i" if "i < 2 ^ p" for i
    using put_entry_cells [OF Z(8) hi, of i ?e] that Z by (simp_all add: v'_def)
  have below: "mem v' x = mem v x" if "x < heap v" for x using that by (simp add: v'_def put_entry_below)
  have "control p n job ?c'"
  proof (rule control_keep [OF D(2)])
    show "owned (pcs ?c' x) = owned (pcs c x)" for x using w by simp
    show "pc_ok p (shm ?c') (fst (job x)) (pcs ?c' x)" if x: "x < n" for x
    proof -
      have "pc_ok p ?s (fst (job x)) (pcs c x)" using D(2) x by (simp add: control_def)
      then have "pc_ok p ?s (fst (job x)) (pcs ?c' x)" using w by auto
      moreover have "fst (job x) \<noteq> 0" using D(1) x by (simp add: jobs_ok_def)
      ultimately show ?thesis by (rule pc_ok_mono) simp_all
    qed
    show "heap (shm ?c') + todo_size n job ?c' \<le> heap_max (shm ?c')" using D(2) todo by (simp add: control_def chunk_def)
  qed simp_all
  moreover have "view p n job ?c' v'"
  proof -
    have "frame (?s\<lparr>heap := chunk + sz\<rparr>) v'"
      by (rule frame_keep [of ?s v _ "chunk + sz"]) (use D(3) Z(3) in \<open>simp_all add: view_def v'_def put_entry_def chunk_def sz_def\<close>)
    moreover have "counting (((pcs c)(w := Header slot chunk)) x) = counting (pcs c x)" for x using w by simp
    moreover have "pend_size n job ?c' = pend_size n job c + sz"
      unfolding pend_size_def sz_def by (rule sum_filter_join) (use w in auto)
    moreover have "mem v' x = mem ?s x"
      if x: "heap_init ?s \<le> x" "\<forall>y<n. x \<notin> unwritten (snd (job y)) (((pcs c)(w := Header slot chunk)) y)" for x
    proof -
      have "x \<notin> {chunk..<chunk + 8 + length (snd ?e)}" using x(2) w(1) by auto
      then have "mem v' x = mem v x" using Z by (auto simp: v'_def put_entry_def chunk_def memcpy_def store64_def)
      moreover have "x \<notin> unwritten (snd (job y)) (pcs c y)" if "y < n" for y
        using x(2) [rule_format, OF that] w(2) by (cases "y = w") auto
      then have "mem v x = mem ?s x" using D(3) x(1) unfolding view_def by blast
      ultimately show ?thesis by simp
    qed
    moreover have "hcounter v' = hcounter v" by (simp add: v'_def)
    ultimately show ?thesis using D(3) cells A(6) unfolding view_def by (auto simp: sz_def)
  qed
  moreover have "blocks_ok p n job ?c' v' (bs @ [heap v])"
    unfolding blocks_ok_def
  proof (intro conjI allI impI)
    show "heap_inv p v' (bs @ [heap v])" by (rule A(2))
    fix x k assume x: "x < n" "pending (pcs ?c' x) = Some k"
    have "k \<in> set (bs @ [heap v]) \<and> k \<notin> live p v' \<and> entry_at v' k = snd (job x)"
    proof (cases "x = w")
      case True
      then show ?thesis using x A(3,5) Z(3) by (simp add: chunk_def)
    next
      case False
      then have k: "pending (pcs c x) = Some k" using x by simp
      have "entry_at v' k = entry_at v k" by (rule entry_at_cong) (use pend_bounds [OF D(4) x(1) k] below in auto)
      then show ?thesis using pend_bounds [OF D(4) x(1) k] A(7) by simp
    qed
    then show "k \<in> set (bs @ [heap v])" "k \<notin> live p v'" "entry_at v' k = snd (job x)" by blast+
  next
    fix x y assume xy: "x < n" "y < n" "pending (pcs ?c' x) \<noteq> None" "pending (pcs ?c' x) = pending (pcs ?c' y)"
    have new: "pending (pcs c z) \<noteq> Some (heap v)" if "z < n" for z using pend_bounds(4) [OF D(4) that] A(4) by blast
    show "x = y"
    proof (cases "x = w \<or> y = w")
      case True
      then show ?thesis using xy new [OF xy(1)] new [OF xy(2)] Z(3) by (auto simp: chunk_def split: if_splits)
    next
      case False
      then show ?thesis using xy D(4) by (simp add: blocks_ok_def)
    qed
  qed
  moreover have "winners n job ?c' T" using D(6) unfolding winners_def by auto
  ultimately show "\<exists>v' bs'. sim p n job ?c' v' bs' T" using D(1) A(1) unfolding sim_def by blast
qed

lemma sim_publish:
  assumes S: "sim p n job c v bs T" and w: "w < n" "pcs c w = Publish slot chunk"
  defines "h \<equiv> fst (job w)" and "q \<equiv> unat slot"
  shows "\<exists>v'. sim p n job \<lparr>shm = set_ht_addr q (word_of_nat chunk) (shm c), pcs = (pcs c)(w := Returned slot True)\<rparr> v' bs
           (T(h \<mapsto> Some (snd (job w)))) \<and> T h = Some None"
proof -
  note D = simD [OF S] and Z = view_sized [OF simD(3,5) [OF S]]
  let ?s = "shm c" and ?e = "snd (job w)" and ?T = "T(h \<mapsto> Some (snd (job w)))"
  let ?c' = "\<lparr>shm = set_ht_addr q (word_of_nat chunk) ?s, pcs = (pcs c)(w := Returned slot True)\<rparr>"
  have pend: "pending (pcs c w) = Some chunk" using w by simp
  note B = pend_bounds [OF D(4) w(1) pend]
  have h0: "h \<noteq> 0" using D(1) w by (simp add: jobs_ok_def h_def)
  have "pc_ok p ?s h (pcs c w)" using D(2) w(1) by (simp add: control_def h_def)
  then have q: "q < 2 ^ p" "ht_hash ?s q = h" using w(2) by (simp_all add: q_def)
  have own: "owned (pcs c w) = Some q" using w by (simp add: q_def)
  then have wip: "ht_addr ?s q = HASHTBL_WRITE_IN_PROGRESS" using D(2) q(1) w(1) by (auto simp: control_def)
  have qv: "ht_hash v q = h" "ht_addr v q = 0" using D(3) q wip by (simp_all add: view_def)
  have H: "heap_inv p v bs" using D(4) by (simp add: blocks_ok_def)
  define v' where "v' = set_ht_addr q (word_of_nat chunk) (v\<lparr>wasted_heap_size := wasted_heap_size v - word_of_nat (block_size (load64 (mem v) chunk))\<rparr>)"
  note P = publish_slot [OF D(5) H B(4,5) q(1) qv(1) h0 qv(2) v'_def]
  have "16 \<le> heap_init v" "heap v < 2 ^ 62" using Z(8) H layout_heap_init by (auto simp: heap_inv_def layout_def)
  then have "unat (word_of_nat chunk :: u64) = chunk" "1 < chunk" using B(1,2) by (auto simp: unat_of_nat)
  then have c0: "(word_of_nat chunk :: u64) \<noteq> 0" "(word_of_nat chunk :: u64) \<noteq> HASHTBL_WRITE_IN_PROGRESS"
    by (auto simp: HASHTBL_WRITE_IN_PROGRESS_def word_unat_eq_iff)
  have Th: "T h = Some None"
    using D(5) q(1) qv h0 by (auto simp: ht_rel_def table_rel_def slot_entry_def)
  have m: "mem v' x = mem v x" "mem (shm ?c') x = mem ?s x" if "heap_init ?s \<le> x" for x
    using ht_write_mem(1) [of "v\<lparr>wasted_heap_size := wasted_heap_size v - word_of_nat (block_size (load64 (mem v) chunk))\<rparr>" q x]
      ht_write_mem(1) [OF Z(9), of q x] that q Z by (simp_all add: v'_def)
  have "control p n job ?c'"
    unfolding control_def
  proof (intro conjI allI impI)
    fix x assume x: "x < n"
    have "pc_ok p ?s (fst (job x)) (pcs c x)" and "fst (job x) \<noteq> 0" using D(1,2) x by (auto simp: control_def jobs_ok_def)
    then have "pc_ok p (shm ?c') (fst (job x)) (pcs c x)" by (rule pc_ok_mono) (use c0 in auto)
    then show "pc_ok p (shm ?c') (fst (job x)) (pcs ?c' x)" using w q c0 by (auto simp: q_def h_def)
  next
    fix i assume i: "i < (2::nat) ^ p"
    have old: "ht_addr ?s i = HASHTBL_WRITE_IN_PROGRESS \<longleftrightarrow> (\<exists>x<n. owned (pcs c x) = Some i)" using D(2) i by (simp add: control_def)
    have uniq: "x = w" if "x < n" "owned (pcs c x) = Some q" for x using D(2) that w(1) own by (auto simp: control_def)
    show "ht_addr (shm ?c') i = HASHTBL_WRITE_IN_PROGRESS \<longleftrightarrow> (\<exists>x<n. owned (pcs ?c' x) = Some i)"
    proof (cases "i = q")
      case True
      then show ?thesis using uniq c0 by auto
    next
      case False
      have "owned (pcs ?c' x) = Some i \<longleftrightarrow> owned (pcs c x) = Some i" for x using False w by (auto simp: q_def)
      then show ?thesis using old False by simp
    qed
  next
    fix x y assume xy: "x < n" "y < n" "owned (pcs ?c' x) \<noteq> None" "owned (pcs ?c' x) = owned (pcs ?c' y)"
    then have "x \<noteq> w" "y \<noteq> w" by auto
    then show "x = y" using xy D(2) by (simp add: control_def)
  next
    have "todo_size n job ?c' = todo_size n job c" unfolding todo_size_def using w by (intro sum.cong) auto
    then show "heap (shm ?c') + todo_size n job ?c' \<le> heap_max (shm ?c')" using D(2) by (simp add: control_def)
  qed (use D(2) in \<open>simp add: control_def\<close>)
  moreover have "view p n job ?c' v'"
  proof -
    have "frame (shm ?c') v'"
      by (rule frame_keep [of ?s v _ "heap ?s"]) (use D(3) Z(3) in \<open>simp_all add: view_def v'_def set_ht_addr_def\<close>)
    moreover have "counting (((pcs c)(w := Returned slot True)) x) = counting (pcs c x)" for x using w by simp
    moreover have "pend_size n job c = pend_size n job ?c' + block_size (fst ?e)"
      unfolding pend_size_def by (rule sum_filter_join) (use w in auto)
    moreover have "unwritten e (((pcs c)(w := Returned slot True)) x) = unwritten e (pcs c x)" for e x using w by simp
    moreover have "hcounter v' = hcounter v" by (simp add: v'_def)
    moreover have "ht_hash v' i = ht_hash v i" "ht_addr v' i = (if i = q then word_of_nat chunk else ht_addr v i)" for i
      by (simp_all add: v'_def)
    ultimately show ?thesis using D(3) P(4) B(3) m c0 unfolding view_def by auto
  qed
  moreover have "blocks_ok p n job ?c' v' bs"
    unfolding blocks_ok_def
  proof (intro conjI allI impI)
    show "heap_inv p v' bs" by (rule P(2))
    fix x k assume x: "x < n" "pending (pcs ?c' x) = Some k"
    then have xw: "x \<noteq> w" and k: "pending (pcs c x) = Some k" by (auto split: if_splits)
    have "k \<noteq> chunk" using D(4) x(1) w(1) k pend xw by (auto simp: blocks_ok_def)
    moreover have "entry_at v' k = entry_at v k" by (rule entry_at_cong) (use pend_bounds [OF D(4) x(1) k] m Z in auto)
    ultimately show "k \<in> set bs" "k \<notin> live p v'" "entry_at v' k = snd (job x)"
      using pend_bounds [OF D(4) x(1) k] P(3) by simp_all
  next
    fix x y assume xy: "x < n" "y < n" "pending (pcs ?c' x) \<noteq> None" "pending (pcs ?c' x) = pending (pcs ?c' y)"
    then have "x \<noteq> w" "y \<noteq> w" by auto
    then show "x = y" using xy D(4) by (simp add: blocks_ok_def)
  qed
  moreover have "winners n job ?c' ?T"
  proof -
    have other: "fst (job x) \<noteq> fst (job w)" if "x < n" "pcs c x = Returned s' True" for x s'
      using D(6) that Th by (auto simp: winners_def h_def)
    show ?thesis unfolding winners_def
    proof (intro conjI allI impI)
      fix x j assume "x < n" "pcs ?c' x = Returned j True"
      then show "?T (fst (job x)) = Some (Some (snd (job x)))"
        using D(6) other [of x j] by (auto simp: winners_def h_def split: if_splits)
    next
      fix x y j k assume xy: "x < n" "y < n" "pcs ?c' x = Returned j True" "pcs ?c' y = Returned k True" "fst (job x) = fst (job y)"
      then show "x = y" using D(6) other [of x j] other [of y k] by (auto simp: winners_def split: if_splits)
    qed
  qed
  ultimately show ?thesis using D(1) P(1) B(6) Th unfolding sim_def by auto
qed

subsection \<open>Every step simulates\<close>

lemma advance_quiet:
  "owned (advance h slot s) = None" "pending (advance h slot s) = None" "\<not> counting (advance h slot s)" "advance h slot s \<noteq> Returned j True"
  by (simp_all add: advance_def stats_at_def)

lemma stats_at_quiet:
  "owned (stats_at i k f s) = None" "pending (stats_at i k f s) = None" "\<not> counting (stats_at i k f s)"
  "stats_at i k f s \<noteq> Returned j True" "allocated (stats_at i k f s)" "pc_ok p s' h (stats_at i k f s)"
  by (simp_all add: stats_at_def)

lemma sim_step:
  assumes S: "sim p n job c v bs T" and step: "add_step n job c c'"
  shows "\<exists>v' bs' T'. sim p n job c' v' bs' T' \<and> table_step n job T T'"
  using step
proof (rule interleaveE)
  fix w pc' s' assume w: "w < n" "\<not> finished (pcs c w)" and st: "call_step (job w) (pcs c w) (shm c) = (pc', s')"
    and c': "c' = \<lparr>shm = s', pcs = (pcs c)(w := pc')\<rparr>"
  note D = simD [OF S] and Z = view_sized [OF simD(3,5) [OF S]]
  obtain h e where he: "job w = (h, e)" by (cases "job w")
  have h0: "h \<noteq> 0" using D(1) w(1) he by (auto simp: jobs_ok_def)
  have ok: "pc_ok p (shm c) h (pcs c w)" using D(2) w(1) he by (auto simp: control_def)
  have quiet: ?thesis if "s' = shm c" "owned (pcs c w) = None" "pending (pcs c w) = None" "\<not> counting (pcs c w)"
    "owned pc' = None" "pending pc' = None" "\<not> counting pc'" "\<And>slot. pc' \<noteq> Returned slot True" "pc_ok p (shm c) h pc'"
    "allocated (pcs c w) \<Longrightarrow> allocated pc'"
    using sim_quiet [OF S w(1) that(2-4) w(2) that(5-8)] that(1,9,10) he c' by (auto intro: table_step.same)
  have adv: "pc_ok p (shm c) h (advance h slot (shm c))"
    if "passed p (shm c) h (unat slot)" "ht_hash (shm c) (unat slot) \<noteq> 0" "ht_hash (shm c) (unat slot) \<noteq> h" for slot
    using advance_ok [OF Z(1) that(1)] that(2,3) stop_iff [OF h0] by simp
  show ?thesis
  proof (cases "pcs c w")
    case (Scan slot)
    then show ?thesis using st he ok by (intro quiet) (auto dest: htp.passed_less split: if_splits)
  next
    case (Check slot g)
    then show ?thesis using st he ok adv [of slot] by (intro quiet) (auto simp: advance_quiet stats_at_quiet split: if_splits)
  next
    case (Claim slot)
    show ?thesis
    proof (cases "ht_hash (shm c) (unat slot) = 0")
      case True
      then have "c' = \<lparr>shm = set_ht_hash (unat slot) (fst (job w)) (shm c), pcs = (pcs c)(w := Count slot)\<rparr>"
        using st he Claim c' by simp
      then show ?thesis using sim_claim [OF S w(1) Claim True] table_step.register [OF w(1), of T job] by blast
    next
      case False
      then show ?thesis using Claim st he ok by (intro quiet) auto
    qed
  next
    case (Recheck slot)
    then show ?thesis using st he ok adv [of slot] by (intro quiet) (auto simp: advance_quiet dest: htp.passed_less split: if_splits)
  next
    case (Count slot)
    then show ?thesis using sim_count [OF S w(1) Count] st he c' by (auto intro: table_step.same)
  next
    case (Grab slot)
    show ?thesis
    proof (cases "ht_addr (shm c) (unat slot) = NULL")
      case True
      then show ?thesis using sim_grab [OF S w(1) Grab] st he Grab c' by (auto intro: table_step.same)
    next
      case False
      then show ?thesis using Grab st he ok by (intro quiet) (auto simp: NULL_def)
    qed
  next
    case (Alloc slot)
    have "heap (shm c) + block_size (fst e) < 2 ^ 64"
      using sim_alloc(1) [OF S w(1) Alloc] Z(9) he by (simp add: layout_def)
    then show ?thesis using sim_alloc [OF S w(1) Alloc] st he c' Alloc by (auto simp: Let_def intro: table_step.same)
  next
    case (Header slot chunk)
    then show ?thesis using sim_header [OF S w(1) Header] st he c' by (auto intro: table_step.same)
  next
    case (Copy slot chunk)
    then show ?thesis using sim_copy [OF S w(1) Copy] st he c' by (auto intro: table_step.same)
  next
    case (Publish slot chunk)
    then have "c' = \<lparr>shm = set_ht_addr (unat slot) (word_of_nat chunk) (shm c), pcs = (pcs c)(w := Returned slot True)\<rparr>"
      using st he c' by simp
    then show ?thesis using sim_publish [OF S w(1) Publish] table_step.bind [OF w(1), of T job] by blast
  next
    case (Stats_hash i nonempty filled)
    then show ?thesis using st he ok by (intro quiet) auto
  next
    case (Stats_addr i nonempty filled)
    then show ?thesis using st he ok by (intro quiet) (auto simp: stats_at_quiet)
  next
    case (Stats_check nonempty filled)
    then show ?thesis using st he ok by (intro quiet) (auto split: if_splits)
  qed (use w(2) in auto)
qed

end
