(* ===== verification/Hh_Interleaving.thy ===== *)
theory Hh_Interleaving
  imports Hh_Concurrent
begin

text \<open>
  Whole runs of concurrent adds: what the table holds when the calls have returned, that no sanity check of
  \<open>hh_add\<close> fails and no two calls own a slot, that every call ends after a bounded number of its own steps, that
  a call that runs alone does what the sequential \<open>hh_add\<close> does, and what running out of slots looks like
  while another call is counting.
\<close>

subsection \<open>Runs\<close>

lemma sim_start:
  assumes R: "ht_rel p s T" and j: "jobs_ok n job" and perm: "allow_hashtable_writes_by_current_process s"
    and room: "heap s + (\<Sum>w<n. block_size (fst (snd (job w)))) \<le> heap_max s"
  shows "\<exists>bs. sim p n job \<lparr>shm = s, pcs = (\<lambda>w. Scan (hash_slot s (fst (job w))))\<rparr> s bs T"
proof -
  let ?c = "\<lparr>shm = s, pcs = (\<lambda>w. Scan (hash_slot s (fst (job w))))\<rparr>"
  obtain bs where H: "heap_inv p s bs" using R by (auto simp: ht_rel_def)
  have "passed p s h (unat (hash_slot s h))" for h
    using unat_hash_slot [of p s h] R htp.passed_start by (simp add: ht_rel_def)
  moreover have "ht_addr s i \<noteq> HASHTBL_WRITE_IN_PROGRESS" if "i < 2 ^ p" for i using live_not_marker(1) [OF R that] .
  moreover have "todo_size n job ?c = (\<Sum>w<n. block_size (fst (snd (job w))))"
    by (simp add: todo_size_def lessThan_def)
  ultimately have "control p n job ?c" using perm room by (auto simp: control_def)
  moreover have "view p n job ?c s"
    using live_not_marker(1) [OF R] by (auto simp: view_def frame_def pend_size_def)
  moreover have "blocks_ok p n job ?c s bs" using H by (simp add: blocks_ok_def)
  moreover have "winners n job ?c T" by (simp add: winners_def)
  ultimately show ?thesis using R j unfolding sim_def by blast
qed

text \<open>What a run of abstract steps can do: bound keys keep their entry, and every new key and entry is that of
  a call.\<close>

definition grown :: "nat \<Rightarrow> (nat \<Rightarrow> job) \<Rightarrow> table \<Rightarrow> table \<Rightarrow> bool" where
  "grown n job T0 T \<longleftrightarrow> (\<forall>h e. T0 h = Some (Some e) \<longrightarrow> T h = Some (Some e)) \<and> dom T0 \<subseteq> dom T
   \<and> (\<forall>h e. T h = Some (Some e) \<longrightarrow> T0 h = Some (Some e) \<or> (\<exists>w<n. job w = (h, e)))
   \<and> (\<forall>h \<in> dom T. h \<in> dom T0 \<or> (\<exists>w<n. fst (job w) = h))"

lemma grown_step:
  assumes "grown n job T0 T" and "table_step n job T T'"
  shows "grown n job T0 T'"
  using assms(2)
proof cases
  case same
  then show ?thesis using assms(1) by simp
next
  case (register w)
  then show ?thesis using assms(1) unfolding grown_def by (auto split: if_splits)
next
  case (bind w)
  obtain h e where "job w = (h, e)" by (cases "job w")
  then show ?thesis using assms(1) bind unfolding grown_def by (auto split: if_splits)
qed

lemma grown_steps: "(table_step n job)\<^sup>*\<^sup>* T0 T \<Longrightarrow> grown n job T0 T"
  by (induction rule: rtranclp_induct) (auto intro: grown_step simp: grown_def [of n job T0 T0])

lemma run_sim:
  assumes "add_run n job s0 c" and "ht_rel p s0 T0" and "jobs_ok n job" and "allow_hashtable_writes_by_current_process s0"
    and "heap s0 + (\<Sum>w<n. block_size (fst (snd (job w)))) \<le> heap_max s0"
  shows "\<exists>v bs T. sim p n job c v bs T \<and> (table_step n job)\<^sup>*\<^sup>* T0 T"
  using assms(1)
proof (induction rule: reachable.induct)
  case start
  then show ?case using sim_start [OF assms(2-5)] by blast
next
  case (step c c')
  then show ?case using sim_step by (meson rtranclp.rtrancl_into_rtrancl)
qed

lemma sim_quiescent:
  assumes S: "sim p n job c v bs T" and fin: "\<And>w. w < n \<Longrightarrow> finished (pcs c w)"
  shows "ht_rel p (shm c) T"
proof -
  note D = simD [OF S] and Z = view_sized [OF simD(3,5) [OF S]]
  have ok: "pc_ok p (shm c) (fst (job w)) (pcs c w)" if "w < n" for w using D(2) that by (simp add: control_def)
  have idle: "owned (pcs c w) = None" "pending (pcs c w) = None" "\<not> counting (pcs c w)" "unwritten e (pcs c w) = {}" if "w < n" for w e
    using fin [OF that] ok [OF that] by (cases "pcs c w"; simp)+
  have "ht_addr (shm c) i \<noteq> HASHTBL_WRITE_IN_PROGRESS" if "i < 2 ^ p" for i
    using D(2) that idle(1) unfolding control_def by (metis option.distinct(1))
  moreover have "{w. w < n \<and> counting (pcs c w)} = {}" using idle(3) by auto
  moreover have "pend_size n job c = 0" unfolding pend_size_def using idle(2) by (intro sum.neutral) auto
  ultimately have "hcounter v = hcounter (shm c)" "wasted_heap_size v = wasted_heap_size (shm c)"
    "\<And>i. i < 2 ^ p \<Longrightarrow> ht_hash v i = ht_hash (shm c) i" "\<And>i. i < 2 ^ p \<Longrightarrow> ht_addr v i = ht_addr (shm c) i"
    using D(3) by (simp_all add: view_def word_unat_eq_iff)
  moreover have "mem v x = mem (shm c) x" if "heap_init (shm c) \<le> x" for x
    using D(3) that idle(4) unfolding view_def by blast
  ultimately show ?thesis using Z by (intro ht_rel_cong [OF D(5)]) auto
qed

subsection \<open>Every call ends\<close>

text \<open>How far a call has to go: the slots left to scan (counted from the slot to the start of the scan,
  around the table), two reads for every slot that the statistics still have to count, then the stages.\<close>

definition slots_left :: "nat \<Rightarrow> u64 \<Rightarrow> u32 \<Rightarrow> nat" where
  "slots_left p h slot = 2 ^ p - (unat slot + 2 ^ p - unat h mod 2 ^ p) mod 2 ^ p"

fun rank :: "nat \<Rightarrow> u64 \<Rightarrow> add_pc \<Rightarrow> nat" where
  "rank p h (Scan slot) = 4 * slots_left p h slot + 2 * 2 ^ p + 3"
| "rank p h (Check slot g) = 4 * slots_left p h slot + 2 * 2 ^ p + 2"
| "rank p h (Claim slot) = 4 * slots_left p h slot + 2 * 2 ^ p + 1"
| "rank p h (Recheck slot) = 4 * slots_left p h slot + 2 * 2 ^ p"
| "rank p h (Count slot) = 6"
| "rank p h (Grab slot) = 5"
| "rank p h (Alloc slot) = 4"
| "rank p h (Header slot chunk) = 3"
| "rank p h (Copy slot chunk) = 2"
| "rank p h (Publish slot chunk) = 1"
| "rank p h (Stats_hash i nonempty filled) = 2 * (2 ^ p - i) + 3"
| "rank p h (Stats_addr i nonempty filled) = 2 * (2 ^ p - i) + 2"
| "rank p h (Stats_check nonempty filled) = 1"
| "rank p h _ = 0"

lemma slots_left_pos: "0 < slots_left p h slot"
  by (simp add: slots_left_def)

lemma scan_longer: "5 < 4 * slots_left p h slot + 2 * 2 ^ p"
proof -
  have "(1 :: nat) \<le> 2 ^ p" by simp
  then show ?thesis using slots_left_pos [of p h slot] by linarith
qed

lemma offset_zero:
  fixes a b m :: nat
  assumes "a < m" and "b < m" and "(a + m - b) mod m = 0"
  shows "a = b"
proof (cases "b \<le> a")
  case True
  then have "(a + m - b) mod m = a - b" using assms(1) by (simp add: mod_if)
  then show ?thesis using assms(3) True by simp
qed (use assms in auto)

lemma slots_left_next:
  assumes s: "ht_sized p s" and n: "next_slot s slot \<noteq> hash_slot s h"
  shows "slots_left p h slot = Suc (slots_left p h (next_slot s slot))"
proof -
  let ?N = "2 ^ p :: nat" and ?h = "unat h mod 2 ^ p"
  define d where "d = (unat slot + ?N - ?h) mod ?N"
  have hl: "?h < ?N" by simp
  have next_eq: "unat (next_slot s slot) = (unat slot + 1) mod ?N" by (rule unat_next_slot [OF s])
  have "(unat (next_slot s slot) + ?N - ?h) mod ?N = ((unat slot + 1) mod ?N + (?N - ?h)) mod ?N" using hl by (simp add: next_eq)
  also have "\<dots> = (unat slot + 1 + (?N - ?h)) mod ?N" by (rule mod_add_left_eq)
  also have "\<dots> = Suc (unat slot + ?N - ?h) mod ?N" using hl by simp
  also have "\<dots> = Suc d mod ?N" by (simp add: d_def mod_Suc_eq)
  finally have e: "(unat (next_slot s slot) + ?N - ?h) mod ?N = Suc d mod ?N" .
  have dl: "d < ?N" by (simp add: d_def)
  have "Suc d \<noteq> ?N"
  proof
    assume "Suc d = ?N"
    then have "unat (next_slot s slot) = ?h" using e by (intro offset_zero [OF _ hl]) (simp_all add: next_eq)
    then show False using n unat_hash_slot [OF s, of h] by (metis word_unat_eq_iff)
  qed
  then have "Suc d < ?N" using dl by simp
  then show ?thesis using e by (simp add: slots_left_def d_def [symmetric])
qed

lemma stats_rank:
  assumes "ht_sized p s"
  shows "rank p h (stats_at i k f s) \<le> 2 * (2 ^ p - i) + 3" and "rank p h (stats_at (Suc i) k f s) < 2 * (2 ^ p - i) + 2"
  using ht_sizedD(4) [OF assms] by (auto simp: stats_at_def)

lemma advance_rank:
  assumes "ht_sized p s"
  shows "rank p h (advance h slot s) < 4 * slots_left p h slot + 2 * 2 ^ p"
proof (cases "next_slot s slot = hash_slot s h")
  case True
  then show ?thesis using stats_rank(1) [OF assms, of h 0 0 0] slots_left_pos [of p h slot] by (simp add: advance_def)
next
  case False
  then show ?thesis using slots_left_next [OF assms, of slot h] by (auto simp: advance_def)
qed

lemma call_rank:
  assumes s: "ht_sized p s" and "\<not> finished pc" and "call_step (h, e) pc s = (pc', s')"
  shows "rank p h pc' < rank p h pc" and "ht_sized p s'"
proof -
  show "rank p h pc' < rank p h pc"
  proof (cases pc)
    case (Scan slot)
    then show ?thesis using assms(3) scan_longer [of p h slot] by (auto split: if_splits)
  next
    case (Check slot g)
    then show ?thesis using assms(3) advance_rank [OF s, of h slot] stats_rank(1) [OF s, of h 0 0 0] slots_left_pos [of p h slot]
      by (auto split: if_splits)
  next
    case (Claim slot)
    then show ?thesis using assms(3) scan_longer [of p h slot] by (auto split: if_splits)
  next
    case (Recheck slot)
    then show ?thesis using assms(3) advance_rank [OF s, of h slot] scan_longer [of p h slot] by (auto split: if_splits)
  next
    case (Stats_addr i nonempty filled)
    then show ?thesis using assms(3) stats_rank(2) [OF s, of h i] by (auto split: if_splits)
  qed (use assms(2,3) in \<open>auto simp: Let_def split: if_splits\<close>)
  show "ht_sized p s'"
    using assms by (cases pc) (auto simp: Let_def ht_sized_def split: if_splits)
qed

lemma step_rank:
  assumes s: "ht_sized p (shm c)" and step: "add_step n job c c'"
  shows "(\<Sum>w<n. rank p (fst (job w)) (pcs c' w)) < (\<Sum>w<n. rank p (fst (job w)) (pcs c w))" and "ht_sized p (shm c')"
proof -
  obtain w pc' s' where w: "w < n" "\<not> finished (pcs c w)" and st: "call_step (job w) (pcs c w) (shm c) = (pc', s')"
    and c': "c' = \<lparr>shm = s', pcs = (pcs c)(w := pc')\<rparr>" using step by (rule interleaveE)
  have r: "rank p (fst (job w)) pc' < rank p (fst (job w)) (pcs c w)" "ht_sized p s'"
    using call_rank [OF s w(2), of "fst (job w)" "snd (job w)"] st by simp_all
  show "(\<Sum>x<n. rank p (fst (job x)) (pcs c' x)) < (\<Sum>x<n. rank p (fst (job x)) (pcs c x))"
    by (rule sum_strict_mono_ex1) (use r w c' in auto)
  show "ht_sized p (shm c')" using r(2) c' by simp
qed

lemma runs_rank:
  assumes "ht_sized p (shm c)" and "(add_step n job ^^ k) c c'"
  shows "k + (\<Sum>w<n. rank p (fst (job w)) (pcs c' w)) \<le> (\<Sum>w<n. rank p (fst (job w)) (pcs c w)) \<and> ht_sized p (shm c')"
  using assms(2)
proof (induction k arbitrary: c')
  case (Suc k)
  then obtain d where d: "(add_step n job ^^ k) c d" "add_step n job d c'" by auto
  then show ?case using Suc.IH [OF d(1)] step_rank [of p d n job c'] by auto
qed (use assms(1) in simp)

interpretation add_calls: bounded_calls finished "\<lambda>w. call_step (job w)" "ht_sized p" "\<lambda>w. rank p (fst (job w))" for job p
proof
  show "rank p (fst (job w)) pc' < rank p (fst (job w)) pc" "ht_sized p s'"
    if "ht_sized p s" "\<not> finished pc" "call_step (job w) pc s = (pc', s')" for s pc w pc' s'
    using call_rank [OF that(1,2), of "fst (job w)" "snd (job w)"] that(3) by simp_all
qed

interpretation adds: progress n finished "\<lambda>w. call_step (job w)" "\<lambda>c. ht_sized p (shm c)"
  "\<lambda>c. \<Sum>w<n. rank p (fst (job w)) (pcs c w)" less_than for n job p
  by unfold_locales (auto dest: step_rank)

subsection \<open>A call that runs alone\<close>

definition call_steps :: "job \<Rightarrow> nat \<Rightarrow> add_pc \<times> hh \<Rightarrow> add_pc \<times> hh" where
  "call_steps j k = (\<lambda>(pc, s). call_step j pc s) ^^ k"

lemma call_steps_simps:
  "call_steps j 0 c = c" "call_steps j (Suc k) (pc, s) = call_steps j k (call_step j pc s)"
  "call_steps j (k + l) c = call_steps j l (call_steps j k c)"
proof -
  show "call_steps j 0 c = c" "call_steps j (Suc k) (pc, s) = call_steps j k (call_step j pc s)"
    by (simp_all add: call_steps_def funpow_swap1)
  show "call_steps j (k + l) c = call_steps j l (call_steps j k c)"
    by (subst add.commute) (simp add: call_steps_def funpow_add)
qed

lemma solo_scan:
  assumes s: "ht_sized p s" and room: "hcounter s < hashtbl_size s" and h: "h \<noteq> 0"
    and k: "k < 2 ^ p" "\<And>i. i < k \<Longrightarrow> \<not> htp.stop (ht_view s) h ((unat h mod 2 ^ p + i) mod 2 ^ p)"
  shows "\<exists>slot. unat slot = (unat h mod 2 ^ p + k) mod 2 ^ p
     \<and> call_steps (h, e) (2 * k) (Scan (hash_slot s h), s) = (Scan slot, s)"
  using k
proof (induction k)
  case 0
  then show ?case using unat_hash_slot [OF s, of h] by (auto simp: call_steps_simps)
next
  case (Suc k)
  then obtain slot where slot: "unat slot = (unat h mod 2 ^ p + k) mod 2 ^ p"
    "call_steps (h, e) (2 * k) (Scan (hash_slot s h), s) = (Scan slot, s)" by auto
  have go: "ht_hash s (unat slot) \<noteq> h" "ht_hash s (unat slot) \<noteq> 0"
    using Suc.prems(2) [of k] stop_iff [OF h] slot(1) by auto
  have n: "unat (next_slot s slot) = (unat h mod 2 ^ p + Suc k) mod 2 ^ p"
    using unat_next_slot [OF s, of slot] slot(1) by (simp add: mod_Suc_eq)
  have "next_slot s slot \<noteq> hash_slot s h"
  proof
    assume "next_slot s slot = hash_slot s h"
    then have "(unat h mod 2 ^ p + Suc k) mod 2 ^ p = (unat h mod 2 ^ p + 0) mod 2 ^ p" using n unat_hash_slot [OF s, of h] by simp
    then show False using htp.offset_inj [of "Suc k" p 0 h] Suc.prems(1) by simp
  qed
  then have "call_steps (h, e) 2 (Scan slot, s) = (Scan (next_slot s slot), s)"
    using go linorder_not_le [THEN iffD2, OF room] by (simp add: call_steps_simps numeral_2_eq_2 advance_def)
  then show ?case using slot(2) n call_steps_simps(3) [of "(h, e)" "2 * k" 2] by auto
qed

lemma solo_store:
  assumes "ht_addr s (unat slot) = NULL" and "allow_hashtable_writes_by_current_process s"
    and "layout s" and "heap s + block_size (fst e) \<le> heap_max s"
  shows "call_steps (h, e) 5 (Grab slot, s) = (Returned slot True,
     set_ht_addr (unat slot) (word_of_nat (heap s)) (put_entry e (set_ht_addr (unat slot) HASHTBL_WRITE_IN_PROGRESS s)))"
proof -
  have five: "call_steps (h, e) 5 = call_steps (h, e) (Suc (Suc (Suc (Suc (Suc 0)))))" by (simp add: eval_nat_numeral)
  have "heap s + block_size (fst e) < 2 ^ 64" using assms(3,4) by (simp add: layout_def)
  then show ?thesis unfolding five using assms by (simp add: call_steps_simps Let_def put_entry_def)
qed

lemma write_at_state:
  assumes "runtime_ok rt" and "fits rt data" and "allow_hashtable_writes_by_current_process s" and "layout s"
    and "heap s + block_size (fst (encode rt data)) \<le> heap_max s" and "ht_addr s (unat slot) = NULL"
  shows "\<exists>r. write_at rt slot data s = Some (Inr r, set_ht_addr (unat slot) (word_of_nat (heap s))
     (put_entry (encode rt data) (set_ht_addr (unat slot) HASHTBL_WRITE_IN_PROGRESS s)))"
proof -
  let ?s = "set_ht_addr (unat slot) HASHTBL_WRITE_IN_PROGRESS s"
  have "heap ?s < 2 ^ 63" using assms(4,5) by (simp add: layout_def)
  then show ?thesis
    using store_ocaml_eq [OF assms(1,2), of ?s] assms by (auto simp: write_at_def op_simps)
qed

lemma solo_hh_add:
  assumes R: "ht_rel p s T" and h: "get_hash key \<noteq> 0" and room: "hcounter s < hashtbl_size s"
    and rt: "runtime_ok rt" "fits rt data" and perm: "allow_hashtable_writes_by_current_process s"
    and heap: "heap s + block_size (fst (encode rt data)) \<le> heap_max s"
  shows "\<exists>k slot stored r s'. hh_add rt key data s = Some (Inr r, s')
     \<and> call_steps (get_hash key, encode rt data) k (Scan (hash_slot s (get_hash key)), s) = (Returned slot stored, s')"
proof -
  let ?h = "get_hash key" and ?e = "encode rt data"
  note S = R [unfolded ht_rel_def]
  have sz: "ht_sized p s" using S by blast
  obtain i where "i < 2 ^ p" "ht_hash s i = 0" using room_free_slot [OF sz _ room] S by blast
  then obtain q where q: "htp.first_stop p (ht_view s) ?h q" using htp.first_stop_ex [of i p "ht_view s" ?h] stop_iff [OF h] by blast
  then obtain k where k: "k < 2 ^ p" "q = (unat ?h mod 2 ^ p + k) mod 2 ^ p"
    "\<And>i. i < k \<Longrightarrow> \<not> htp.stop (ht_view s) ?h ((unat ?h mod 2 ^ p + i) mod 2 ^ p)"
    unfolding htp.first_stop_def by blast
  obtain slot where slot: "unat slot = q" "call_steps (?h, ?e) (2 * k) (Scan (hash_slot s ?h), s) = (Scan slot, s)"
    using solo_scan [OF sz room h k(1,3), of ?e] k(2) by auto
  define s1 where "s1 = (if ht_hash s q = ?h then s else (set_ht_hash q ?h s)\<lparr>hcounter := hcounter s + 1\<rparr>)"
  have add: "hh_add rt key data s = write_at rt slot data s1"
  proof -
    obtain y where y: "unat y = q" "hh_add rt key data s = (if ht_hash s q = ?h then write_at rt y data s
        else write_at rt y data ((set_ht_hash q ?h s)\<lparr>hcounter := hcounter s + 1\<rparr>))"
      using hh_add_at [OF sz q h room, of rt data] by blast
    then have "y = slot" using slot(1) by (simp add: word_unat_eq_iff)
    then show ?thesis using y(2) by (simp add: s1_def)
  qed
  have "ht_hash s q = 0 \<or> ht_hash s q = ?h" using htp.first_stop_stop [OF q] stop_iff [OF h] by blast
  then obtain k1 where k1: "call_steps (?h, ?e) k1 (Scan slot, s) = (Grab slot, s1)"
  proof
    assume "ht_hash s q = ?h"
    then have "call_steps (?h, ?e) 1 (Scan slot, s) = (Grab slot, s1)" using slot(1) by (simp add: call_steps_simps s1_def)
    then show thesis by (rule that)
  next
    assume "ht_hash s q = 0"
    then have "call_steps (?h, ?e) 4 (Scan slot, s) = (Grab slot, s1)"
      using slot(1) h room linorder_not_le [THEN iffD2, OF room] by (simp add: call_steps_simps s1_def eval_nat_numeral)
    then show thesis by (rule that)
  qed
  have s1: "allow_hashtable_writes_by_current_process s1" "heap s1 = heap s" "heap_max s1 = heap_max s" "layout s1"
    using perm sz by (auto simp: s1_def ht_sized_def)
  have "\<exists>k2 stored r s'. write_at rt slot data s1 = Some (Inr r, s') \<and> call_steps (?h, ?e) k2 (Grab slot, s1) = (Returned slot stored, s')"
  proof (cases "ht_addr s1 (unat slot) = NULL")
    case True
    have r: "heap s1 + block_size (fst ?e) \<le> heap_max s1" using heap s1 by simp
    show ?thesis using write_at_state [OF rt s1(1,4) r True] solo_store [OF True s1(1,4) r, of ?h] by blast
  next
    case False
    then have "call_steps (?h, ?e) 1 (Grab slot, s1) = (Returned slot False, s1)" by (simp add: call_steps_simps)
    moreover have "write_at rt slot data s1 = Some (Inr (Min_long, Min_long), s1)" using False by (simp add: write_at_def)
    ultimately show ?thesis by blast
  qed
  then obtain k2 stored r s' where "write_at rt slot data s1 = Some (Inr r, s')"
    and k2: "call_steps (?h, ?e) k2 (Grab slot, s1) = (Returned slot stored, s')" by blast
  moreover have "call_steps (?h, ?e) (2 * k + k1 + k2) (Scan (hash_slot s ?h), s) = (Returned slot stored, s')"
    by (simp add: call_steps_simps(3) slot(2) k1 k2)
  ultimately show ?thesis unfolding add by blast
qed

subsection \<open>With room in the table no call gives up\<close>

lemma sim_room:
  assumes S: "sim p n job c v bs T" and G: "grown n job T0 T" and f: "finite (dom T0)" and room: "card (dom T0) + n < 2 ^ p"
  shows "hcounter (shm c) < hashtbl_size (shm c)" and "\<exists>i<2 ^ p. ht_hash (shm c) i = 0"
proof -
  note D = simD [OF S] and Z = view_sized [OF simD(3,5) [OF S]]
  have "dom T \<subseteq> dom T0 \<union> (\<lambda>w. fst (job w)) ` {..<n}" using G by (auto simp: grown_def)
  then have "card (dom T) \<le> card (dom T0 \<union> (\<lambda>w. fst (job w)) ` {..<n})" using f by (intro card_mono) auto
  also have "\<dots> \<le> card (dom T0) + n"
    using card_Un_le [of "dom T0" "(\<lambda>w. fst (job w)) ` {..<n}"] card_image_le [of "{..<n}" "\<lambda>w. fst (job w)"] by simp
  finally have "unat (hcounter v) < 2 ^ p" using room ht_rel_card [OF D(5)] by simp
  then have r: "hcounter v < hashtbl_size v" using Z(7) by (simp add: word_less_nat_alt)
  moreover have "unat (hcounter (shm c)) \<le> unat (hcounter v)" using D(3) by (simp add: view_def)
  ultimately show "hcounter (shm c) < hashtbl_size (shm c)" using Z(6) by (simp add: word_less_nat_alt)
  obtain i where "i < 2 ^ p" "ht_hash v i = 0" using room_free_slot [of p v] D(5) r by (auto simp: ht_rel_def)
  then show "\<exists>i<2 ^ p. ht_hash (shm c) i = 0" using D(3) by (auto simp: view_def)
qed

text \<open>A call that has given up: it is in \<open>raise_hash_table_full\<close>, or has left it.\<close>

fun gives_up :: "add_pc \<Rightarrow> bool" where
  "gives_up (Stats_hash i nonempty filled) = True"
| "gives_up (Stats_addr i nonempty filled) = True"
| "gives_up (Stats_check nonempty filled) = True"
| "gives_up Full = True"
| "gives_up (Aborted err) = True"
| "gives_up _ = False"

lemma advance_room:
  assumes s: "ht_sized p s" and h: "h \<noteq> 0" and j: "passed p s h (unat slot)" "\<not> htp.stop (ht_view s) h (unat slot)"
    and free: "i < 2 ^ p" "ht_hash s i = 0"
  shows "\<not> gives_up (advance h slot s)"
proof
  assume "gives_up (advance h slot s)"
  then have home: "next_slot s slot = hash_slot s h" by (simp add: advance_def split: if_splits)
  obtain k where k: "unat slot = (unat h mod 2 ^ p + k) mod 2 ^ p"
    "\<forall>k'<k. \<not> htp.stop (ht_view s) h ((unat h mod 2 ^ p + k') mod 2 ^ p)" using j(1) by (auto simp: htp.passed_def)
  have before: "\<not> htp.stop (ht_view s) h ((unat h mod 2 ^ p + k') mod 2 ^ p)" if "k' < Suc k" for k'
    using that k j(2) less_Suc_eq by metis
  have "(unat h mod 2 ^ p + Suc k) mod 2 ^ p = (unat h mod 2 ^ p + 0) mod 2 ^ p"
    using home unat_next_slot [OF s, of slot] unat_hash_slot [OF s, of h] k(1) by (simp add: mod_Suc_eq)
  then have "2 ^ p \<le> Suc k" using htp.offset_inj [of "Suc k" p 0 h] by (auto simp: not_less [symmetric])
  moreover obtain k' where "k' < 2 ^ p" "(unat h mod 2 ^ p + k') mod 2 ^ p = i" using htp.offset_ex [OF free(1), of h] by blast
  moreover have "htp.stop (ht_view s) h i" using free(2) stop_iff [OF h] by simp
  ultimately show False using before [of k'] by simp
qed

lemma sim_not_full:
  assumes S: "sim p n job c v bs T" and G: "grown n job T0 T" and f: "finite (dom T0)" and room: "card (dom T0) + n < 2 ^ p"
    and step: "add_step n job c c'" and no: "\<And>w. w < n \<Longrightarrow> \<not> gives_up (pcs c w)" and x: "x < n"
  shows "\<not> gives_up (pcs c' x)"
  using step
proof (rule interleaveE)
  fix w pc' s' assume w: "w < n" "\<not> finished (pcs c w)" and st: "call_step (job w) (pcs c w) (shm c) = (pc', s')"
    and c': "c' = \<lparr>shm = s', pcs = (pcs c)(w := pc')\<rparr>"
  note D = simD [OF S] and Z = view_sized [OF simD(3,5) [OF S]] and M = sim_room [OF S G f room]
  obtain h e where he: "job w = (h, e)" by (cases "job w")
  have h0: "h \<noteq> 0" using D(1) w(1) he by (auto simp: jobs_ok_def)
  have ok: "pc_ok p (shm c) h (pcs c w)" using D(2) w(1) he by (auto simp: control_def)
  have adv: "\<not> gives_up (advance h slot (shm c))"
    if "passed p (shm c) h (unat slot)" "ht_hash (shm c) (unat slot) \<noteq> 0" "ht_hash (shm c) (unat slot) \<noteq> h" for slot
    using advance_room [OF Z(1) h0 that(1)] M(2) that(2,3) stop_iff [OF h0] by auto
  have "\<not> gives_up pc'"
    using st he ok M(1) adv w(2) no [OF w(1)] by (cases "pcs c w") (auto simp: Let_def split: if_splits)
  then show ?thesis using no [OF x] c' by simp
qed

lemma run_room:
  assumes "add_run n job s0 c" and R: "ht_rel p s0 T0" "jobs_ok n job" "allow_hashtable_writes_by_current_process s0"
    "heap s0 + (\<Sum>w<n. block_size (fst (snd (job w)))) \<le> heap_max s0"
    and f: "finite (dom T0)" "card (dom T0) + n < 2 ^ p"
  shows "w < n \<Longrightarrow> \<not> gives_up (pcs c w)"
  using assms(1)
proof (induction arbitrary: w rule: reachable.induct)
  case (step c c')
  obtain v bs T where "sim p n job c v bs T" "grown n job T0 T" using run_sim [OF step.hyps(1) R] grown_steps by blast
  then show ?case using sim_not_full [OF _ _ f step.hyps(2)] step by blast
qed simp

subsection \<open>Giving up while another call is counting\<close>

text \<open>One call can take any number of its steps while the others stand still.\<close>

lemma solo_run:
  assumes "add_run n job s0 c" and "w < n" and "call_steps (job w) k (pcs c w, shm c) = (pc', s')"
  shows "add_run n job s0 \<lparr>shm = s', pcs = (pcs c)(w := pc')\<rparr>"
  using assms
proof (induction k arbitrary: c)
  case 0
  then have "s' = shm c" "pc' = pcs c w" by (simp_all add: call_steps_simps)
  then have same: "\<lparr>shm = s', pcs = (pcs c)(w := pc')\<rparr> = c" by simp
  show ?case unfolding same by (rule 0)
next
  case (Suc k)
  show ?case
  proof (cases "finished (pcs c w)")
    case True
    obtain h e where "job w = (h, e)" by (cases "job w")
    then have "call_step (job w) (pcs c w) (shm c) = (pcs c w, shm c)" using True by (cases "pcs c w") simp_all
    then show ?thesis using Suc by (simp add: call_steps_simps)
  next
    case False
    obtain q s1 where q: "call_step (job w) (pcs c w) (shm c) = (q, s1)" by (cases "call_step (job w) (pcs c w) (shm c)")
    have r: "add_run n job s0 \<lparr>shm = s1, pcs = (pcs c)(w := q)\<rparr>"
      using interleave.call [of w n finished c "\<lambda>w. call_step (job w)", OF Suc.prems(2) False q]
      by (rule reachable.step [OF Suc.prems(1)])
    have "call_steps (job w) k (pcs \<lparr>shm = s1, pcs = (pcs c)(w := q)\<rparr> w, shm \<lparr>shm = s1, pcs = (pcs c)(w := q)\<rparr>) = (pc', s')"
      using Suc.prems(3) q by (simp add: call_steps_simps)
    from Suc.IH [OF r Suc.prems(2) this] show ?thesis by (simp only: conc.simps fun_upd_upd)
  qed
qed

lemma solo_stats:
  assumes s: "ht_sized p s" and full: "\<And>i. i < 2 ^ p \<Longrightarrow> ht_hash s i \<noteq> 0" and "i \<le> 2 ^ p"
  shows "\<exists>filled. call_steps j (2 * i) (stats_at 0 0 0 s, s) = (stats_at i (word_of_nat i) filled s, s)"
  using assms(3)
proof (induction i)
  case (Suc i)
  obtain h e where j: "j = (h, e)" by (cases j)
  obtain f where f: "call_steps j (2 * i) (stats_at 0 0 0 s, s) = (stats_at i (word_of_nat i) f s, s)" using Suc by auto
  have "\<exists>f'. call_steps j 2 (stats_at i (word_of_nat i) f s, s) = (stats_at (Suc i) (word_of_nat (Suc i)) f' s, s)"
    using Suc.prems full [of i] ht_sizedD(4) [OF s]
    by (cases "ht_addr s i = NULL") (auto simp: stats_at_def [of i] j call_steps_simps numeral_2_eq_2 add.commute)
  then show ?case using f call_steps_simps(3) [of j "2 * i" 2] by auto
qed (auto simp: call_steps_simps)

text \<open>In a table without a free slot that does not hold the key, a call gives up; it fails the assertion when
  the counter is behind the hashes.\<close>

lemma solo_full:
  assumes s: "ht_sized p s" and h: "h \<noteq> 0" and full: "\<And>i. i < 2 ^ p \<Longrightarrow> ht_hash s i \<noteq> 0 \<and> ht_hash s i \<noteq> h"
    and behind: "hcounter s < hashtbl_size s"
  shows "\<exists>k. call_steps (h, e) k (Scan (hash_slot s h), s) = (Aborted (C_assertion_failure (LOCATION HH_SHARED_C 426)), s)"
proof -
  let ?j = "(h, e)" and ?k = "2 ^ p - 1 :: nat" and ?home = "unat h mod 2 ^ p"
  have "\<not> htp.stop (ht_view s) h ((?home + i) mod 2 ^ p)" for i using full [of "(?home + i) mod 2 ^ p"] stop_iff [OF h] by simp
  then obtain slot where slot: "unat slot = (?home + ?k) mod 2 ^ p" "call_steps ?j (2 * ?k) (Scan (hash_slot s h), s) = (Scan slot, s)"
    using solo_scan [OF s behind h, of ?k e] by auto
  have "unat (next_slot s slot) = (?home + ?k + 1) mod 2 ^ p" using unat_next_slot [OF s, of slot] slot(1) by (simp add: mod_Suc_eq)
  then have "unat (next_slot s slot) = unat (hash_slot s h)" using unat_hash_slot [OF s, of h] by simp
  then have home: "next_slot s slot = hash_slot s h" by (simp add: word_unat_eq_iff)
  have "unat slot < 2 ^ p" using slot(1) by simp
  then have up: "call_steps ?j 2 (Scan slot, s) = (stats_at 0 0 0 s, s)"
    using full [of "unat slot"] linorder_not_le [THEN iffD2, OF behind] home
    by (simp add: call_steps_simps numeral_2_eq_2 advance_def)
  obtain f where st: "call_steps ?j (2 * 2 ^ p) (stats_at 0 0 0 s, s) = (stats_at (2 ^ p) (word_of_nat (2 ^ p)) f s, s)"
    using solo_stats [OF s, of "2 ^ p" ?j] full by auto
  have "hashtbl_size s = word_of_nat (2 ^ p)" using arg_cong [OF ht_sizedD(4) [OF s], of "word_of_nat :: nat \<Rightarrow> u64"] by simp
  then have "word_of_nat (2 ^ p) \<noteq> hcounter s" using behind by auto
  then have "call_steps ?j 1 (stats_at (2 ^ p) (word_of_nat (2 ^ p)) f s, s) = (Aborted (C_assertion_failure (LOCATION HH_SHARED_C 426)), s)"
    using ht_sizedD(4) [OF s] by (simp add: stats_at_def call_steps_simps)
  then have "call_steps ?j (2 * ?k + 2 + 2 * 2 ^ p + 1) (Scan (hash_slot s h), s) = (Aborted (C_assertion_failure (LOCATION HH_SHARED_C 426)), s)"
    by (simp only: call_steps_simps(3) slot(2) up st)
  then show ?thesis by blast
qed

text \<open>A call for a new key claims the only free slot, and stops before it has counted it.\<close>

lemma solo_claim:
  assumes R: "ht_rel p s T" and h: "h \<noteq> 0" "T h = None" and last: "unat (hcounter s) + 1 = 2 ^ p"
  shows "\<exists>k slot. call_steps (h, e) k (Scan (hash_slot s h), s) = (Count slot, set_ht_hash (unat slot) h s)
     \<and> unat slot < 2 ^ p \<and> (\<forall>i<2 ^ p. ht_hash s i = 0 \<longleftrightarrow> i = unat slot)"
proof -
  note S = R [unfolded ht_rel_def]
  have sz: "ht_sized p s" using S by blast
  have room: "hcounter s < hashtbl_size s" using last ht_sizedD(4) [OF sz] by (simp add: word_less_nat_alt)
  obtain i where "i < 2 ^ p" "ht_hash s i = 0" using room_free_slot [OF sz _ room] S by blast
  then obtain q where q: "htp.first_stop p (ht_view s) h q" using htp.first_stop_ex [of i p "ht_view s" h] stop_iff [OF h(1)] by blast
  then obtain k where k: "k < 2 ^ p" "q = (unat h mod 2 ^ p + k) mod 2 ^ p"
    "\<And>i. i < k \<Longrightarrow> \<not> htp.stop (ht_view s) h ((unat h mod 2 ^ p + i) mod 2 ^ p)"
    unfolding htp.first_stop_def by blast
  obtain slot where slot: "unat slot = q" "call_steps (h, e) (2 * k) (Scan (hash_slot s h), s) = (Scan slot, s)"
    using solo_scan [OF sz room h(1) k(1,3), of e] k(2) by auto
  have ql: "q < 2 ^ p" using k(2) by simp
  have "ht_hash s q \<noteq> h" using S ql h unfolding table_rel_def by fastforce
  then have q0: "ht_hash s q = 0" using htp.first_stop_stop [OF q] stop_iff [OF h(1)] by blast
  then have "call_steps (h, e) 3 (Scan slot, s) = (Count slot, set_ht_hash (unat slot) h s)"
    using slot(1) h(1) linorder_not_le [THEN iffD2, OF room] by (simp add: call_steps_simps eval_nat_numeral)
  then have "call_steps (h, e) (2 * k + 3) (Scan (hash_slot s h), s) = (Count slot, set_ht_hash (unat slot) h s)"
    by (simp add: call_steps_simps(3) slot(2))
  moreover have "{i. i < 2 ^ p \<and> ht_hash s i \<noteq> 0} = {..<2 ^ p} - {q}"
  proof (rule card_subset_eq)
    show "{i. i < 2 ^ p \<and> ht_hash s i \<noteq> 0} \<subseteq> {..<2 ^ p} - {q}" using q0 by auto
    have "card {i. i < 2 ^ p \<and> ht_hash s i \<noteq> 0} = unat (hcounter s)" using S by (simp add: slots_ok_def)
    then show "card {i. i < 2 ^ p \<and> ht_hash s i \<noteq> 0} = card ({..<2 ^ p :: nat} - {q})" using last ql by simp
  qed simp
  then have "\<forall>i<2 ^ p. ht_hash s i = 0 \<longleftrightarrow> i = unat slot" unfolding slot(1) by blast
  ultimately show ?thesis using ql slot(1) by blast
qed

subsection \<open>Properties\<close>

text \<open>The calls \<open>hh_add(keys w, datas w)\<close>, for \<open>w < n\<close>.\<close>

definition calls :: "'v runtime \<Rightarrow> (nat \<Rightarrow> u8 list) \<Rightarrow> (nat \<Rightarrow> 'v caml) \<Rightarrow> nat \<Rightarrow> job" where
  "calls rt keys datas w = (get_hash (keys w), encode rt (datas w))"

lemma calls_ok: "runtime_ok rt \<Longrightarrow> (\<And>w. w < n \<Longrightarrow> legal_key (keys w) \<and> fits rt (datas w)) \<Longrightarrow> jobs_ok n (calls rt keys datas)"
  using entry_size_encode by (fastforce simp: jobs_ok_def calls_def legal_key_def)

text \<open>C2: Concurrent adds, in every interleaving: once all calls have returned, the shared table is again
  in the relation of the sequential theory; what was bound stays bound to the same entry; every key that
  was added is bound, to the value of one of the calls that added it; for every key at most one call
  reports that it stored, and reading the key gives the value of that call.\<close>

theorem hh_add_interleaved:
  assumes R: "ht_rel p s0 T0" and perm: "allow_hashtable_writes_by_current_process s0"
    and rt: "runtime_ok rt" "\<And>w. w < n \<Longrightarrow> legal_key (keys w) \<and> fits rt (datas w)"
    and heap: "heap s0 + (\<Sum>w<n. block_size (fst (encode rt (datas w)))) \<le> heap_max s0"
    and f: "finite (dom T0)" "card (dom T0) + n < 2 ^ p"
    and run: "add_run n (calls rt keys datas) s0 c" and fin: "\<And>w. w < n \<Longrightarrow> finished (pcs c w)"
  shows "\<exists>T. ht_rel p (shm c) T
     \<and> (\<forall>h e. T0 h = Some (Some e) \<longrightarrow> T h = Some (Some e))
     \<and> (\<forall>w<n. \<exists>slot stored. pcs c w = Returned slot stored)
     \<and> (\<forall>w<n. \<exists>e. T (get_hash (keys w)) = Some (Some e)
          \<and> (T0 (get_hash (keys w)) = Some (Some e) \<or> (\<exists>w'<n. get_hash (keys w') = get_hash (keys w) \<and> e = encode rt (datas w'))))
     \<and> (\<forall>w<n. \<forall>slot. pcs c w = Returned slot True \<longrightarrow> hh_get_and_deserialize rt (keys w) (shm c) = Some (Inr (datas w), shm c))
     \<and> (\<forall>w<n. \<forall>w'<n. \<forall>slot slot'. pcs c w = Returned slot True \<longrightarrow> pcs c w' = Returned slot' True \<longrightarrow>
          get_hash (keys w) = get_hash (keys w') \<longrightarrow> w = w')"
proof -
  let ?j = "calls rt keys datas"
  have j: "jobs_ok n ?j" by (rule calls_ok [OF rt])
  have hp: "heap s0 + (\<Sum>w<n. block_size (fst (snd (?j w)))) \<le> heap_max s0" using heap by (simp add: calls_def)
  obtain v bs T where S: "sim p n ?j c v bs T" and G: "grown n ?j T0 T" using run_sim [OF run R j perm hp] grown_steps by blast
  note D = simD [OF S]
  have T: "ht_rel p (shm c) T" by (rule sim_quiescent [OF S fin])
  have ok: "pc_ok p (shm c) (get_hash (keys w)) (pcs c w)" if "w < n" for w using D(2) that by (simp add: control_def calls_def)
  have ret: "\<exists>slot stored. pcs c w = Returned slot stored" if "w < n" for w
    using fin [OF that] ok [OF that] run_room [OF run R j perm hp f that] by (cases "pcs c w") auto
  have bound: "\<exists>e. T (get_hash (keys w)) = Some (Some e)" if w: "w < n" for w
  proof -
    obtain slot stored where "pcs c w = Returned slot stored" using ret [OF w] by blast
    then have i: "unat slot < 2 ^ p" "ht_hash (shm c) (unat slot) = get_hash (keys w)" "ht_addr (shm c) (unat slot) \<noteq> 0"
      using ok [OF w] by auto
    moreover have "get_hash (keys w) \<noteq> 0" using rt(2) [OF w] by (simp add: legal_key_def)
    ultimately have "T (get_hash (keys w)) = Some (slot_entry (shm c) (unat slot))" using T unfolding ht_rel_def table_rel_def by metis
    then show ?thesis using i(3) by (simp add: slot_entry_def)
  qed
  have origin: "T0 h = Some (Some e) \<or> (\<exists>w'<n. get_hash (keys w') = h \<and> e = encode rt (datas w'))" if "T h = Some (Some e)" for h e
  proof -
    have "T0 h = Some (Some e) \<or> (\<exists>w'<n. ?j w' = (h, e))" using G that unfolding grown_def by blast
    then show ?thesis by (auto simp: calls_def)
  qed
  have read: "hh_get_and_deserialize rt (keys w) (shm c) = Some (Inr (datas w), shm c)" if "w < n" "pcs c w = Returned slot True" for w slot
    using hh_get_ok [OF T _ rt(1)] rt(2) [OF that(1)] D(6) that by (simp add: winners_def calls_def)
  have one: "w = w'" if "w < n" "w' < n" "pcs c w = Returned slot True" "pcs c w' = Returned slot' True"
    "get_hash (keys w) = get_hash (keys w')" for w w' slot slot'
    using D(6) that by (simp add: winners_def calls_def)
  have keep: "\<forall>h e. T0 h = Some (Some e) \<longrightarrow> T h = Some (Some e)" using G by (simp add: grown_def)
  have "\<forall>w<n. \<exists>e. T (get_hash (keys w)) = Some (Some e)
      \<and> (T0 (get_hash (keys w)) = Some (Some e) \<or> (\<exists>w'<n. get_hash (keys w') = get_hash (keys w) \<and> e = encode rt (datas w')))"
    using bound origin by blast
  with T keep show ?thesis using ret read one by (intro exI [of _ T] conjI) auto
qed

lemma demo_calls:
  defines "datas \<equiv> \<lambda>w. String_block [word_of_nat w]"
  shows "heap demo + (\<Sum>w<2. block_size (fst (encode demo_runtime (datas w)))) \<le> heap_max demo"
    and "legal_key demo_key \<and> fits demo_runtime (datas w)"
    and "\<exists>c. add_run 2 (calls demo_runtime (\<lambda>w. demo_key) datas) demo c \<and> (\<forall>w<2. finished (pcs c w))"
proof -
  have b: "block_size (fst (encode demo_runtime (datas w))) < 1100" "fits demo_runtime (datas w)" for w
    using demo_block [of "[word_of_nat w]"] by (simp_all add: datas_def)
  have "(\<Sum>w<2. block_size (fst (encode demo_runtime (datas w)))) < 2200"
  proof -
    have "{..<2 :: nat} = {0, 1}" by auto
    then show ?thesis using b(1) [of 0] b(1) [of 1] by simp
  qed
  then show "heap demo + (\<Sum>w<2. block_size (fst (encode demo_runtime (datas w)))) \<le> heap_max demo" using demo_heap by simp
  show "legal_key demo_key \<and> fits demo_runtime (datas w)" using b by simp
  have "ht_sized 2 demo" using demo_ht(1) by (simp add: ht_rel_def)
  then show "\<exists>c. add_run 2 (calls demo_runtime (\<lambda>w. demo_key) datas) demo c \<and> (\<forall>w<2. finished (pcs c w))"
    using adds.finishes [OF _ reachable.start, where p = 2] by simp
qed

theorem hh_add_interleaved_witness:
  "\<exists>c T e. add_run 2 (calls demo_runtime (\<lambda>w. demo_key) (\<lambda>w. String_block [word_of_nat w])) demo c
     \<and> ht_rel 2 (shm c) T \<and> T (get_hash demo_key) = Some (Some e)"
proof -
  obtain c where c: "add_run 2 (calls demo_runtime (\<lambda>w. demo_key) (\<lambda>w. String_block [word_of_nat w])) demo c" "\<And>w. w < 2 \<Longrightarrow> finished (pcs c w)"
    using demo_calls(3) by blast
  have "card (dom (Map.empty :: table)) + 2 < 2 ^ 2" "finite (dom (Map.empty :: table))" by simp_all
  from hh_add_interleaved [OF demo_ht(1) demo_facts(8) demo_runtime_ok demo_calls(2) demo_calls(1) this(2,1) c]
  show ?thesis using c(1) zero_less_numeral [of "num.Bit0 num.One"] by blast
qed

text \<open>C13: In every reachable state of concurrent adds, given room in the heap for all their entries: no
  call is in \<open>Raised\<close> (the sanity check on \<open>hcounter\<close> at line 1309 holds, the permission check holds, no
  allocation fails); the in-progress marker of a slot belongs to exactly one call; no slot without a hash has
  an address. When the table has a slot for every key besides one that stays free, no call ever enters
  \<open>raise_hash_table_full\<close> either. Without that room a call can give up: it ends in Hash_table_full or in the
  assertion of \<open>get_slots_stats\<close> at line 426, and in no other error.\<close>

theorem hh_add_no_race:
  assumes R: "ht_rel p s0 T0" and perm: "allow_hashtable_writes_by_current_process s0"
    and rt: "runtime_ok rt" "\<And>w. w < n \<Longrightarrow> legal_key (keys w) \<and> fits rt (datas w)"
    and heap: "heap s0 + (\<Sum>w<n. block_size (fst (encode rt (datas w)))) \<le> heap_max s0"
    and run: "add_run n (calls rt keys datas) s0 c"
  shows "(\<forall>w<n. \<forall>slot err. pcs c w \<noteq> Raised slot err)
     \<and> (\<forall>i<2 ^ p. ht_addr (shm c) i = HASHTBL_WRITE_IN_PROGRESS \<longrightarrow> (\<exists>!w. w < n \<and> owned (pcs c w) = Some i))
     \<and> (\<forall>i<2 ^ p. ht_hash (shm c) i = 0 \<longrightarrow> ht_addr (shm c) i = 0)
     \<and> (card (dom T0) + n < 2 ^ p \<longrightarrow> (\<forall>w<n. \<not> gives_up (pcs c w)))
     \<and> (\<forall>w<n. \<forall>err. pcs c w = Aborted err \<longrightarrow> err = C_assertion_failure (LOCATION HH_SHARED_C 426))"
proof -
  let ?j = "calls rt keys datas"
  have j: "jobs_ok n ?j" by (rule calls_ok [OF rt])
  have hp: "heap s0 + (\<Sum>w<n. block_size (fst (snd (?j w)))) \<le> heap_max s0" using heap by (simp add: calls_def)
  obtain v bs T where S: "sim p n ?j c v bs T" using run_sim [OF run R j perm hp] by blast
  note D = simD [OF S]
  have ok: "pc_ok p (shm c) (get_hash (keys w)) (pcs c w)" if "w < n" for w using D(2) that by (simp add: control_def calls_def)
  have "pcs c w \<noteq> Raised slot err" if "w < n" for w slot err using ok [OF that] by auto
  moreover have own: "\<exists>!w. w < n \<and> owned (pcs c w) = Some i" if i: "i < 2 ^ p" "ht_addr (shm c) i = HASHTBL_WRITE_IN_PROGRESS" for i
    using D(2) i unfolding control_def by (metis option.distinct(1))
  moreover have "ht_addr (shm c) i = 0" if i: "i < 2 ^ p" "ht_hash (shm c) i = 0" for i
  proof (cases "ht_addr (shm c) i = HASHTBL_WRITE_IN_PROGRESS")
    case True
    then obtain w where w: "w < n" "owned (pcs c w) = Some i" using own [OF i(1)] by blast
    then have "ht_hash (shm c) i = get_hash (keys w)" using ok [OF w(1)] by (cases "pcs c w") auto
    then show ?thesis using i(2) rt(2) [OF w(1)] by (simp add: legal_key_def)
  next
    case False
    then have "ht_addr v i = ht_addr (shm c) i" "ht_hash v i = 0" using D(3) i by (simp_all add: view_def)
    then show ?thesis using D(5) i(1) by (auto simp: ht_rel_def slots_ok_def)
  qed
  moreover have "\<not> gives_up (pcs c w)" if "card (dom T0) + n < 2 ^ p" "w < n" for w
    using run_room [OF run R j perm hp ht_rel_finite [OF R] that(1,2)] .
  moreover have "err = C_assertion_failure (LOCATION HH_SHARED_C 426)" if "w < n" "pcs c w = Aborted err" for w err
    using ok [OF that(1)] that(2) by simp
  ultimately show ?thesis by blast
qed

theorem hh_add_no_race_witness:
  "\<exists>c. add_run 2 (calls demo_runtime (\<lambda>w. demo_key) (\<lambda>w. String_block [word_of_nat w])) demo c
     \<and> (\<forall>w<2. \<forall>slot err. pcs c w \<noteq> Raised slot err) \<and> (\<forall>w<2. finished (pcs c w) \<and> \<not> gives_up (pcs c w))"
proof -
  obtain c where c: "add_run 2 (calls demo_runtime (\<lambda>w. demo_key) (\<lambda>w. String_block [word_of_nat w])) demo c"
    "\<And>w. w < 2 \<Longrightarrow> finished (pcs c w)"
    using demo_calls(3) by blast
  have "card (dom (Map.empty :: table)) + 2 < 2 ^ 2" by simp
  then show ?thesis
    using hh_add_no_race [OF demo_ht(1) demo_facts(8) demo_runtime_ok demo_calls(2) demo_calls(1) c(1)] c by blast
qed

text \<open>C14: Adding is wait-free: in every schedule of \<open>n\<close> calls, whatever the table holds and whatever the other
  calls do, a call takes at most \<open>6 * 2^p + 3\<close> steps of its own (two reads per slot and the compare-and-swap
  with its second read for the scan, two reads per slot for the statistics when it gives up); a call that has
  not finished has taken fewer, and it can always take its next step.\<close>

theorem hh_add_wait_free:
  fixes n p ws job s0
  defines "c0 \<equiv> \<lparr>shm = s0, pcs = (\<lambda>w. Scan (hash_slot s0 (fst (job w))))\<rparr>" and "step \<equiv> \<lambda>w. call_step (job w)"
  assumes s: "ht_sized p s0" and ws: "legal n finished step ws c0" and w: "w < n"
  shows "count_list ws w \<le> 6 * 2 ^ p + 3
     \<and> (finished (pcs (execute step ws c0) w) \<or> (count_list ws w < 6 * 2 ^ p + 3 \<and> legal n finished step (ws @ [w]) c0))"
proof -
  let ?pc = "pcs (execute step ws c0) w"
  have "count_list ws w + rank p (fst (job w)) ?pc \<le> rank p (fst (job w)) (pcs c0 w)"
    using add_calls.own_steps [of n job ws c0 p w] ws s by (simp add: c0_def step_def)
  also have "\<dots> \<le> 6 * 2 ^ p + 3" by (simp add: c0_def slots_left_def)
  finally have b: "count_list ws w + rank p (fst (job w)) ?pc \<le> 6 * 2 ^ p + 3" .
  have "0 < rank p (fst (job w)) ?pc" if "\<not> finished ?pc" using that slots_left_pos by (cases ?pc) auto
  then show ?thesis using b add_calls.stuck_never [of n job ws c0 w] ws w by (auto simp: step_def)
qed

theorem hh_add_wait_free_witness:
  "legal 2 finished (\<lambda>w. call_step (5, (1, []))) [0, 1, 0] \<lparr>shm = demo, pcs = (\<lambda>w. Scan (hash_slot demo 5))\<rparr>"
proof -
  let ?j = "(\<lambda>w. (5, (1, []))) :: nat \<Rightarrow> job" and ?c0 = "\<lparr>shm = demo, pcs = (\<lambda>w. Scan (hash_slot demo 5))\<rparr>"
  have s: "ht_sized 2 demo" using demo_ht(1) by (simp add: ht_rel_def)
  have l: "legal 2 finished (\<lambda>w. call_step (?j w)) [0, 1] ?c0" by (simp add: turn_def split: prod.split)
  have "\<not> finished (pcs (execute (\<lambda>w. call_step (?j w)) [0, 1] ?c0) 0)" by (simp add: turn_def split: prod.split)
  then show ?thesis using hh_add_wait_free [OF s, of 2 ?j "[0, 1]" 0] l by simp
qed

text \<open>C40: Running out of slots is reported wrongly under concurrency: in a table with exactly one free slot let
  two processes add two different new keys. One claims the slot; before it increments \<open>*hcounter\<close> (1306-1307) the
  other scans the whole table, enters \<open>raise_hash_table_full\<close> and, instead of raising Hash_table_full, dies in the
  assertion \<open>nonempty_slots == *hcounter\<close> of \<open>get_slots_stats\<close> (426), because the table shows one more hash than
  the counter.\<close>

theorem hh_add_full_race:
  assumes R: "ht_rel p s T" and last: "unat (hcounter s) + 1 = 2 ^ p"
    and keys: "\<And>w. w < 2 \<Longrightarrow> legal_key (keys w) \<and> T (get_hash (keys w)) = None" "get_hash (keys 0) \<noteq> get_hash (keys 1)"
  shows "\<exists>c slot. add_run 2 (calls rt keys datas) s c \<and> pcs c 0 = Count slot
     \<and> pcs c 1 = Aborted (C_assertion_failure (LOCATION HH_SHARED_C 426))"
proof -
  let ?j = "calls rt keys datas" and ?c0 = "\<lparr>shm = s, pcs = (\<lambda>w. Scan (hash_slot s (fst (calls rt keys datas w))))\<rparr>"
  have k: "get_hash (keys w) \<noteq> 0" "T (get_hash (keys w)) = None" if "w < 2" for w using keys(1) [OF that] by (simp_all add: legal_key_def)
  obtain k0 slot where c: "call_steps (?j 0) k0 (Scan (hash_slot s (get_hash (keys 0))), s)
       = (Count slot, set_ht_hash (unat slot) (get_hash (keys 0)) s)"
     and free: "unat slot < 2 ^ p" "\<forall>i<2 ^ p. ht_hash s i = 0 \<longleftrightarrow> i = unat slot"
    using solo_claim [OF R k [of 0] last, of "encode rt (datas 0)"] by (auto simp: calls_def)
  let ?s = "set_ht_hash (unat slot) (get_hash (keys 0)) s" and ?pcs = "(pcs ?c0)(0 := Count slot)"
  have start: "add_run 2 ?j s ?c0" by (rule reachable.start)
  have r: "add_run 2 ?j s \<lparr>shm = ?s, pcs = ?pcs\<rparr>"
    using solo_run [OF start, of 0 k0] c by (simp add: calls_def)
  have sz: "ht_sized p ?s" using R by (simp add: ht_rel_def ht_sized_def)
  have "ht_hash s i \<noteq> get_hash (keys 1)" if "i < 2 ^ p" for i
    using R k [of 1] that unfolding ht_rel_def table_rel_def by fastforce
  then have "ht_hash ?s i \<noteq> 0 \<and> ht_hash ?s i \<noteq> get_hash (keys 1)" if "i < 2 ^ p" for i
    using free that k(1) [of 0] keys(2) by auto
  moreover have "hcounter ?s < hashtbl_size ?s"
    using last R ht_sizedD(4) [of p s] by (simp add: ht_rel_def word_less_nat_alt)
  ultimately obtain k1 where "call_steps (?j 1) k1 (Scan (hash_slot ?s (get_hash (keys 1))), ?s)
      = (Aborted (C_assertion_failure (LOCATION HH_SHARED_C 426)), ?s)"
    using solo_full [OF sz k(1) [of 1], of "encode rt (datas 1)"] by (auto simp: calls_def)
  then have "call_steps (?j 1) k1 (pcs \<lparr>shm = ?s, pcs = ?pcs\<rparr> 1, shm \<lparr>shm = ?s, pcs = ?pcs\<rparr>)
      = (Aborted (C_assertion_failure (LOCATION HH_SHARED_C 426)), ?s)" by (simp add: hash_slot_def calls_def)
  from solo_run [OF r _ this] show ?thesis by fastforce
qed

theorem hh_add_full_race_witness:
  "\<exists>s c slot. hashtbl_size s = 1 \<and> add_run 2 (calls demo_runtime (\<lambda>w. if w = 0 then demo_key else demo_key2) (\<lambda>w. String_block [7])) s c
     \<and> pcs c 0 = Count slot \<and> pcs c 1 = Aborted (C_assertion_failure (LOCATION HH_SHARED_C 426))"
proof -
  let ?config = "demo_config\<lparr>c_hash_table_pow := Val_long 0\<rparr>"
  have "startable demo_os ?config SHARED_MEM_INIT" 
    by (simp add: startable_def segment_size_def demo_os_def demo_config_def Long_val_Val_long SHARED_MEM_INIT_def)
  then obtain s where s: "fresh s" "ht_slots s = 2 ^ unat (Long_val (c_hash_table_pow ?config))"
    using shared_init_runs by blast
  then have one: "hashtbl_size s = 2 ^ 0" "hcounter s = 0" by (simp_all add: Long_val_Val_long word_unat_eq_iff fresh_def)
  have R: "ht_rel 0 s Map.empty" using fresh_ht_rel [OF s(1) _ one(1)] by simp
  show ?thesis
    using hh_add_full_race [OF R, of "\<lambda>w. if w = 0 then demo_key else demo_key2" demo_runtime "\<lambda>w. String_block [7]"] one
    by (intro exI [of _ s]) auto
qed

text \<open>C15: The steps are those of \<open>hh_add\<close>: a call that runs alone returns in the very state that the
  sequential \<open>hh_add\<close> returns.\<close>

theorem hh_add_solo:
  assumes "ht_rel p s T" and "legal_key key" and "hcounter s < hashtbl_size s" and "has_room rt data s"
    and "allow_hashtable_writes_by_current_process s"
  shows "\<exists>k slot stored r s'. hh_add rt key data s = Some (Inr r, s')
     \<and> call_steps (get_hash key, encode rt data) k (Scan (hash_slot s (get_hash key)), s) = (Returned slot stored, s')"
  by (rule solo_hh_add [OF assms(1) _ assms(3) _ _ assms(5)]) (use assms(2,4) in \<open>auto simp: legal_key_def has_room_def\<close>)

theorem hh_add_solo_witness:
  "\<exists>k slot stored r s'. hh_add demo_runtime demo_key (String_block [7]) demo = Some (Inr r, s')
     \<and> call_steps (get_hash demo_key, encode demo_runtime (String_block [7])) k (Scan (hash_slot demo (get_hash demo_key)), demo) = (Returned slot stored, s')"
  by (rule hh_add_solo [of 2 demo Map.empty]) (use demo_ht demo_room [of "[7]"] demo_facts in auto)

end
