(* ===== verification/Hh_Concurrent_Deps.thy ===== *)
theory Hh_Concurrent_Deps
  imports Hh_Deptbl Interleaving
begin

text \<open>
  Several processes call \<open>add_dep\<close> at the same time, without locks. As for \<open>hh_add\<close>, a call is a program
  counter with its local variables and a step is one access to shared memory. Two arrays are involved: the
  winner of the compare-and-swap in \<open>deptbl_bindings\<close> links the edge into a list of \<open>deptbl\<close>, either by
  claiming a free slot as a new list head or by allocating a node, pointing it to the current list and
  swinging the head to it, again and again until no other call has changed the head in between.

  The invariant: the bindings are those of a set \<open>B\<close> of edges; the lists are those of a subset \<open>L\<close>; the
  difference is what the calls between the two stages are about to link, each edge by one call. A node
  that is allocated and not yet linked is private: nothing reachable points to it.
\<close>

subsection \<open>Calls and steps\<close>

text \<open>Where a call stands, by the lines of \<open>hh_shared.c\<close> it executes next. In \<open>add_binding\<close>: \<open>Bind_read\<close> (801-806)
  reads the slot, \<open>Bind_check\<close> (808-813) the counter, \<open>Bind_claim\<close> (815) is the compare-and-swap, \<open>Bind_count\<close>
  (816-819) the fetch-and-add with its sanity check, \<open>Bind_recheck\<close> (822) the second read. In
  \<open>prepend_to_deptbl_list\<close>: \<open>Head_read\<close> (877) reads the slot, \<open>Head_claim\<close> (883) is the compare-and-swap of a free
  slot, \<open>Link\<close> (911) writes the \<open>next\<close> field of the new node, \<open>Swing\<close> (915-917) is the compare-and-swap of the head. In
  \<open>alloc_deptbl_node\<close>: \<open>Node_read\<close> (857) reads the slot, \<open>Node_claim\<close> (858) is the compare-and-swap. The parameters
  are \<open>slot\<close>, \<open>slotval\<close> (raw), and \<open>list_slot\<close>.\<close>

datatype dep_pc =
    Bind_read u64
  | Bind_check u64 u64
  | Bind_claim u64
  | Bind_recheck u64
  | Bind_count
  | Head_read u64
  | Head_claim u64
  | Node_read u64 u64 u32
  | Node_claim u64 u64 u32
  | Link u64 u64 u32
  | Swing u64 u64 u32
  | Added
  | Table_full
  | Failed hh_error

definition slot_after :: "hh \<Rightarrow> u64 \<Rightarrow> u64" where
  "slot_after s slot = (slot + 1) AND (dep_size s - 1)"

definition node_slot :: "hh \<Rightarrow> u32 \<Rightarrow> u32" where
  "node_slot s slot = ucast ((ucast slot :: u64) AND (dep_size s - 1))"

text \<open>What \<open>prepend_to_deptbl_list\<close> does with a non-empty slot (893-905).\<close>

definition try_slot :: "u32 \<times> u32 \<Rightarrow> u64 \<Rightarrow> u64 \<Rightarrow> hh \<Rightarrow> dep_pc" where
  "try_slot e slot slotval s =
     (if t_num (e_key (entry_of_raw slotval)) = fst e \<and> t_tag (e_key (entry_of_raw slotval)) = TAG_KEY
      then Node_read slot slotval (node_slot s (ucast (hash_uint64 (pack (fst e) (snd e)))))
      else Head_read (slot_after s slot))"

fun dep_step :: "u32 \<times> u32 \<Rightarrow> dep_pc \<Rightarrow> hh \<Rightarrow> dep_pc \<times> hh" where
  "dep_step (key, val) (Bind_read slot) s =
     (if binding s (unat slot) = pack key val then (Added, s) else (Bind_check slot (binding s (unat slot)), s))"
| "dep_step (key, val) (Bind_check slot slot_val) s =
     (if dep_size s \<le> dcounter s then (Table_full, s)
      else if slot_val = 0 then (Bind_claim slot, s)
      else (Bind_read (slot_after s slot), s))"
| "dep_step (key, val) (Bind_claim slot) s =
     (if binding s (unat slot) = 0 then (Bind_count, set_binding (unat slot) (pack key val) s) else (Bind_recheck slot, s))"
| "dep_step (key, val) (Bind_recheck slot) s =
     (if binding s (unat slot) = pack key val then (Added, s) else (Bind_read (slot_after s slot), s))"
| "dep_step (key, val) Bind_count s =
     (if dcounter s \<le> dep_size s then Head_read (hash_uint64 (ucast key) AND (dep_size s - 1))
      else Failed (C_assertion_failure (LOCATION HH_SHARED_C 818)),
      s\<lparr>dcounter := dcounter s + 1\<rparr>)"
| "dep_step (key, val) (Head_read slot) s =
     (if dep_cell s (unat slot) = 0 then Head_claim slot else try_slot (key, val) slot (dep_cell s (unat slot)) s, s)"
| "dep_step (key, val) (Head_claim slot) s =
     (if dep_cell s (unat slot) = 0
      then (Added, set_dep_cell (unat slot) (raw \<lparr>e_key = tagged key TAG_KEY, e_next = tagged val TAG_VAL\<rparr>) s)
      else (try_slot (key, val) slot (dep_cell s (unat slot)) s, s))"
| "dep_step (key, val) (Node_read slot slotval list_slot) s =
     (if dep_cell s (unat list_slot) = 0 then Node_claim slot slotval list_slot
      else Node_read slot slotval (node_slot s (list_slot + 1)), s)"
| "dep_step (key, val) (Node_claim slot slotval list_slot) s =
     (if dep_cell s (unat list_slot) = 0
      then (Link slot slotval list_slot,
            set_dep_cell (unat list_slot) (raw \<lparr>e_key = tagged val TAG_VAL, e_next = tagged (NOT 0) TAG_NEXT\<rparr>) s)
      else (Node_read slot slotval (node_slot s (list_slot + 1)), s))"
| "dep_step (key, val) (Link slot slotval list_slot) s =
     (Swing slot slotval list_slot,
      set_dep_cell (unat list_slot)
        (raw ((entry_of_raw (dep_cell s (unat list_slot)))\<lparr>e_next := e_next (entry_of_raw slotval)\<rparr>)) s)"
| "dep_step (key, val) (Swing slot slotval list_slot) s =
     (if dep_cell s (unat slot) = slotval
      then (Added, set_dep_cell (unat slot) (raw \<lparr>e_key = tagged key TAG_KEY, e_next = tagged list_slot TAG_NEXT\<rparr>) s)
      else (Link slot (dep_cell s (unat slot)) list_slot, s))"
| "dep_step (key, val) Added s = (Added, s)"
| "dep_step (key, val) Table_full s = (Table_full, s)"
| "dep_step (key, val) (Failed err) s = (Failed err, s)"

fun dep_finished :: "dep_pc \<Rightarrow> bool" where
  "dep_finished Added = True"
| "dep_finished Table_full = True"
| "dep_finished (Failed err) = True"
| "dep_finished _ = False"

type_synonym dep_conc = "(hh, dep_pc) conc"

definition dep_start :: "u32 \<times> u32 \<Rightarrow> hh \<Rightarrow> dep_pc" where
  "dep_start e s = Bind_read (hash_uint64 (pack (fst e) (snd e)) AND (dep_size s - 1))"

abbreviation dep_interleave :: "nat \<Rightarrow> (nat \<Rightarrow> u32 \<times> u32) \<Rightarrow> dep_conc \<Rightarrow> dep_conc \<Rightarrow> bool" where
  "dep_interleave n job \<equiv> interleave n dep_finished (\<lambda>w. dep_step (job w))"

abbreviation dep_run :: "nat \<Rightarrow> (nat \<Rightarrow> u32 \<times> u32) \<Rightarrow> hh \<Rightarrow> dep_conc \<Rightarrow> bool" where
  "dep_run n job s0 \<equiv> reachable n dep_finished (\<lambda>w. dep_step (job w)) \<lparr>shm = s0, pcs = (\<lambda>w. dep_start (job w) s0)\<rparr>"

subsection \<open>The invariant\<close>

fun own_node :: "dep_pc \<Rightarrow> nat option" where
  "own_node (Link slot slotval list_slot) = Some (unat list_slot)"
| "own_node (Swing slot slotval list_slot) = Some (unat list_slot)"
| "own_node _ = None"

fun binding_stage :: "dep_pc \<Rightarrow> bool" where
  "binding_stage (Bind_read slot) = True"
| "binding_stage (Bind_check slot slot_val) = True"
| "binding_stage (Bind_claim slot) = True"
| "binding_stage (Bind_recheck slot) = True"
| "binding_stage _ = False"

definition linking :: "dep_pc \<Rightarrow> bool" where
  "linking pc \<longleftrightarrow> \<not> dep_finished pc \<and> \<not> binding_stage pc"

definition privates :: "nat \<Rightarrow> dep_conc \<Rightarrow> nat set" where
  "privates n c = {q. \<exists>w<n. own_node (pcs c w) = Some q}"

text \<open>A value that was read from the head of the list of \<open>k\<close>, maybe not the current one: when it ends the list,
  it holds a successor of \<open>k\<close>.\<close>

definition seen_head :: "(u32 \<times> u32) set \<Rightarrow> u32 \<Rightarrow> u64 \<Rightarrow> bool" where
  "seen_head L k x \<longleftrightarrow> (t_tag (e_next (entry_of_raw x)) = TAG_VAL \<longrightarrow> (k, t_num (e_next (entry_of_raw x))) \<in> L)"

definition at_head :: "nat \<Rightarrow> hh \<Rightarrow> (u32 \<times> u32) set \<Rightarrow> u32 \<Rightarrow> u64 \<Rightarrow> u64 \<Rightarrow> bool" where
  "at_head d s L k slot x \<longleftrightarrow> unat slot < 2 ^ d \<and> dep_view s (unat slot) = Keyed k \<and> seen_head L k x"

definition node_at :: "nat \<Rightarrow> hh \<Rightarrow> u32 \<Rightarrow> u32 \<Rightarrow> tagged_uint_t \<Rightarrow> bool" where
  "node_at d s v q t \<longleftrightarrow> unat q < 2 ^ d \<and> dep_cell s (unat q) \<noteq> 0 \<and> entry31 \<lparr>e_key = tagged v TAG_VAL, e_next = t\<rparr>
     \<and> dep_cell s (unat q) = raw \<lparr>e_key = tagged v TAG_VAL, e_next = t\<rparr>"

fun dep_pc_ok :: "nat \<Rightarrow> hh \<Rightarrow> (u32 \<times> u32) set \<Rightarrow> (u32 \<times> u32) set \<Rightarrow> u32 \<Rightarrow> u32 \<Rightarrow> dep_pc \<Rightarrow> bool" where
  "dep_pc_ok d s B L k v (Bind_read slot) = bnd.passed d (bnd_view s) (pack k v) (unat slot)"
| "dep_pc_ok d s B L k v (Bind_check slot g) = (bnd.passed d (bnd_view s) (pack k v) (unat slot) \<and> g \<noteq> pack k v
     \<and> (g \<noteq> 0 \<longrightarrow> binding s (unat slot) = g))"
| "dep_pc_ok d s B L k v (Bind_claim slot) = bnd.passed d (bnd_view s) (pack k v) (unat slot)"
| "dep_pc_ok d s B L k v (Bind_recheck slot) = (bnd.passed d (bnd_view s) (pack k v) (unat slot) \<and> binding s (unat slot) \<noteq> 0)"
| "dep_pc_ok d s B L k v Bind_count = True"
| "dep_pc_ok d s B L k v (Head_read slot) = dpt.passed d (dep_view s) k (unat slot)"
| "dep_pc_ok d s B L k v (Head_claim slot) = dpt.passed d (dep_view s) k (unat slot)"
| "dep_pc_ok d s B L k v (Node_read slot x q) = (at_head d s L k slot x \<and> unat q < 2 ^ d)"
| "dep_pc_ok d s B L k v (Node_claim slot x q) = (at_head d s L k slot x \<and> unat q < 2 ^ d)"
| "dep_pc_ok d s B L k v (Link slot x q) = (at_head d s L k slot x \<and> (\<exists>t. node_at d s v q t))"
| "dep_pc_ok d s B L k v (Swing slot x q) = (at_head d s L k slot x \<and> node_at d s v q (e_next (entry_of_raw x)))"
| "dep_pc_ok d s B L k v Added = ((k, v) \<in> B)"
| "dep_pc_ok d s B L k v Table_full = True"
| "dep_pc_ok d s B L k v (Failed err) = False"

definition dep_memory :: "nat \<Rightarrow> nat \<Rightarrow> dep_conc \<Rightarrow> (u32 \<times> u32) set \<Rightarrow> (u32 \<times> u32) set \<Rightarrow> bool" where
  "dep_memory d n c B L \<longleftrightarrow> sized d (shm c)
   \<and> bindings_rel d ((shm c)\<lparr>dcounter := word_of_nat (card B)\<rparr>) B
   \<and> unat (dcounter (shm c)) + card {w. w < n \<and> pcs c w = Bind_count} = card B
   \<and> lists_over d (privates n c) (shm c) L
   \<and> card {i. i < 2 ^ d \<and> dep_cell (shm c) i \<noteq> 0} = card L + card {w. w < n \<and> own_node (pcs c w) \<noteq> None}"

abbreviation linkers :: "nat \<Rightarrow> dep_conc \<Rightarrow> nat set" where
  "linkers n c \<equiv> {w. w < n \<and> linking (pcs c w)}"

definition dep_control :: "nat \<Rightarrow> nat \<Rightarrow> (nat \<Rightarrow> u32 \<times> u32) \<Rightarrow> dep_conc \<Rightarrow> (u32 \<times> u32) set \<Rightarrow> (u32 \<times> u32) set \<Rightarrow> bool" where
  "dep_control d n job c B L \<longleftrightarrow>
     (\<forall>w<n. edge31 (job w) \<and> dep_pc_ok d (shm c) B L (fst (job w)) (snd (job w)) (pcs c w))
   \<and> B = L \<union> job ` linkers n c \<and> L \<inter> job ` linkers n c = {} \<and> inj_on job (linkers n c)
   \<and> (\<forall>w<n. \<forall>w'<n. own_node (pcs c w) \<noteq> None \<longrightarrow> own_node (pcs c w) = own_node (pcs c w') \<longrightarrow> w = w')"

definition dep_sim :: "nat \<Rightarrow> nat \<Rightarrow> (nat \<Rightarrow> u32 \<times> u32) \<Rightarrow> dep_conc \<Rightarrow> (u32 \<times> u32) set \<Rightarrow> (u32 \<times> u32) set \<Rightarrow> bool" where
  "dep_sim d n job c B L \<longleftrightarrow> dep_memory d n c B L \<and> dep_control d n job c B L"

subsection \<open>What a step of one call leaves of the others\<close>

lemma dep_pc_ok_mono:
  assumes ok: "dep_pc_ok d s B L k v pc" and sets: "B \<subseteq> B'" "L \<subseteq> L'"
    and bnd: "\<And>i. i < 2 ^ d \<Longrightarrow> binding s i \<noteq> 0 \<Longrightarrow> binding s' i = binding s i"
    and dep: "\<And>i. i < 2 ^ d \<Longrightarrow> dep_view s i \<noteq> Free \<Longrightarrow> dep_view s' i = dep_view s i"
    and own: "\<And>q. own_node pc = Some q \<Longrightarrow> dep_cell s' q = dep_cell s q"
  shows "dep_pc_ok d s' B' L' k v pc"
proof -
  have b: "bnd.passed d (bnd_view s') x i" if "bnd.passed d (bnd_view s) x i" for x i
    using that by (rule bnd.passed_mono) (use bnd in \<open>auto simp: bnd_view_def split: if_splits\<close>)
  have h: "dpt.passed d (dep_view s') x i" if "dpt.passed d (dep_view s) x i" for x i
    using that by (rule dpt.passed_mono) (use dep in auto)
  have a: "at_head d s' L' x slot y" if "at_head d s L x slot y" for x slot y
    using that dep sets(2) by (auto simp: at_head_def seen_head_def)
  have m: "node_at d s' v q t" if "own_node pc = Some (unat q)" "node_at d s v q t" for q t
    using that(2) unfolding node_at_def own [OF that(1)] .
  show ?thesis
  proof (cases pc)
    case (Link slot x q)
    then obtain t where "node_at d s v q t" "at_head d s L k slot x" using ok by auto
    then show ?thesis using m [of q t] a Link by auto
  qed (use ok sets bnd b h a m in \<open>auto dest: bnd.passed_less\<close>)
qed

lemma dep_control_step:
  assumes C: "dep_control d n job c B L" and w: "w < n"
    and bnd: "\<And>i. i < 2 ^ d \<Longrightarrow> binding (shm c) i \<noteq> 0 \<Longrightarrow> binding s' i = binding (shm c) i"
    and dep: "\<And>i. i < 2 ^ d \<Longrightarrow> dep_view (shm c) i \<noteq> Free \<Longrightarrow> dep_view s' i = dep_view (shm c) i"
    and own: "\<And>x q. x < n \<Longrightarrow> x \<noteq> w \<Longrightarrow> own_node (pcs c x) = Some q \<Longrightarrow> dep_cell s' q = dep_cell (shm c) q"
    and sub: "B \<subseteq> B'" "L \<subseteq> L'" and ok: "dep_pc_ok d s' B' L' (fst (job w)) (snd (job w)) pc'"
    and sets: "B' = L' \<union> job ` linkers n \<lparr>shm = s', pcs = (pcs c)(w := pc')\<rparr>"
      "L' \<inter> job ` linkers n \<lparr>shm = s', pcs = (pcs c)(w := pc')\<rparr> = {}"
      "inj_on job (linkers n \<lparr>shm = s', pcs = (pcs c)(w := pc')\<rparr>)"
    and mine: "\<And>x q. x < n \<Longrightarrow> x \<noteq> w \<Longrightarrow> own_node pc' = Some q \<Longrightarrow> own_node (pcs c x) \<noteq> Some q"
  shows "dep_control d n job \<lparr>shm = s', pcs = (pcs c)(w := pc')\<rparr> B' L'"
proof -
  let ?c = "\<lparr>shm = s', pcs = (pcs c)(w := pc')\<rparr>"
  have "dep_pc_ok d s' B' L' (fst (job x)) (snd (job x)) (pcs ?c x)" if x: "x < n" for x
  proof (cases "x = w")
    case False
    have "dep_pc_ok d (shm c) B L (fst (job x)) (snd (job x)) (pcs c x)" using C x unfolding dep_control_def by blast
    then have "dep_pc_ok d s' B' L' (fst (job x)) (snd (job x)) (pcs c x)"
      by (rule dep_pc_ok_mono) (use sub bnd dep own x False in auto)
    then show ?thesis using False by simp
  qed (use ok in simp)
  moreover have "x = y" if "x < n" "y < n" "own_node (pcs ?c x) \<noteq> None" "own_node (pcs ?c x) = own_node (pcs ?c y)" for x y
  proof -
    have "x = y" if "x \<noteq> w" "y \<noteq> w"
      using that \<open>x < n\<close> \<open>y < n\<close> \<open>own_node (pcs ?c x) \<noteq> None\<close> \<open>own_node (pcs ?c x) = own_node (pcs ?c y)\<close> C
      unfolding dep_control_def by simp
    moreover have "False" if "x = w" "y \<noteq> w"
      using mine [of y] that \<open>y < n\<close> \<open>own_node (pcs ?c x) \<noteq> None\<close> \<open>own_node (pcs ?c x) = own_node (pcs ?c y)\<close> by auto
    moreover have "False" if "x \<noteq> w" "y = w"
      using mine [of x] that \<open>x < n\<close> \<open>own_node (pcs ?c x) \<noteq> None\<close> \<open>own_node (pcs ?c x) = own_node (pcs ?c y)\<close> by auto
    ultimately show ?thesis by blast
  qed
  moreover have "\<forall>x<n. edge31 (job x)" using C unfolding dep_control_def by blast
  ultimately show ?thesis unfolding dep_control_def using sets by (intro conjI) (simp, blast+)
qed

lemma linkers_same: "linking pc' = linking (pcs c w) \<Longrightarrow> linkers n \<lparr>shm = s', pcs = (pcs c)(w := pc')\<rparr> = linkers n c"
  by auto

lemma linkers_in: "w < n \<Longrightarrow> linking pc' \<Longrightarrow> linkers n \<lparr>shm = s', pcs = (pcs c)(w := pc')\<rparr> = insert w (linkers n c)"
  by auto

lemma linkers_out: "\<not> linking pc' \<Longrightarrow> linkers n \<lparr>shm = s', pcs = (pcs c)(w := pc')\<rparr> = linkers n c - {w}"
  by auto

lemma privates_step:
  assumes "\<And>x. x < n \<Longrightarrow> x \<noteq> w \<Longrightarrow> own_node (pcs c w) \<noteq> None \<Longrightarrow> own_node (pcs c x) \<noteq> own_node (pcs c w)" and "w < n"
  shows "privates n \<lparr>shm = s', pcs = (pcs c)(w := pc')\<rparr> =
     (privates n c - set_option (own_node (pcs c w))) \<union> set_option (own_node pc')"
proof -
  have "q \<in> privates n \<lparr>shm = s', pcs = (pcs c)(w := pc')\<rparr> \<longleftrightarrow>
     (\<exists>x<n. x \<noteq> w \<and> own_node (pcs c x) = Some q) \<or> own_node pc' = Some q" for q
    using assms(2) by (auto simp: privates_def)
  moreover have "q \<in> privates n c - set_option (own_node (pcs c w)) \<longleftrightarrow> (\<exists>x<n. x \<noteq> w \<and> own_node (pcs c x) = Some q)" for q
  proof -
    have "own_node (pcs c w) \<noteq> Some q" if "x < n" "x \<noteq> w" "own_node (pcs c x) = Some q" for x
      using assms(1) [OF that(1,2)] that(3) by auto
    then show ?thesis unfolding privates_def by auto
  qed
  ultimately show ?thesis unfolding set_eq_iff Un_iff elem_set by blast
qed

lemma dep_simD:
  assumes "dep_sim d n job c B L"
  shows "dep_memory d n c B L" "dep_control d n job c B L" "sized d (shm c)" "lists_over d (privates n c) (shm c) L"
    "bindings_rel d ((shm c)\<lparr>dcounter := word_of_nat (card B)\<rparr>) B"
    "unat (dcounter (shm c)) + card {w. w < n \<and> pcs c w = Bind_count} = card B"
    "card {i. i < 2 ^ d \<and> dep_cell (shm c) i \<noteq> 0} = card L + card {w. w < n \<and> own_node (pcs c w) \<noteq> None}"
  using assms by (simp_all add: dep_sim_def dep_memory_def)

lemma dep_simC:
  assumes "dep_sim d n job c B L"
  shows "w < n \<Longrightarrow> edge31 (job w)" "w < n \<Longrightarrow> dep_pc_ok d (shm c) B L (fst (job w)) (snd (job w)) (pcs c w)"
    "B = L \<union> job ` linkers n c" "L \<inter> job ` linkers n c = {}" "inj_on job (linkers n c)"
    "w < n \<Longrightarrow> w' < n \<Longrightarrow> own_node (pcs c w) = Some q \<Longrightarrow> own_node (pcs c w') = Some q \<Longrightarrow> w = w'"
  using assms unfolding dep_sim_def dep_control_def by (blast, blast, blast, blast, blast, metis option.distinct(1))

lemma dep_sim_card:
  assumes "dep_sim d n job c B L"
  shows "card B \<le> 2 ^ d" "unat (word_of_nat (card B) :: u64) = card B" "card B = card L + card (linkers n c)"
proof -
  let ?s = "(shm c)\<lparr>dcounter := word_of_nat (card B)\<rparr>"
  have R: "bindings_rel d ?s B" using assms by (rule dep_simD)
  show e: "unat (word_of_nat (card B) :: u64) = card B" using bindings_card [OF R] by simp
  have "card {i. i < 2 ^ d \<and> binding ?s i \<noteq> 0} \<le> card {..<2 ^ d :: nat}" by (intro card_mono) auto
  moreover have "card {i. i < 2 ^ d \<and> binding ?s i \<noteq> 0} = card B" using R e by (simp add: bindings_rel_def)
  ultimately show "card B \<le> 2 ^ d" by simp
  have "card B = card (L \<union> job ` linkers n c)" using dep_simC(3) [OF assms] by (rule arg_cong)
  also have "\<dots> = card L + card (job ` linkers n c)" using dep_simC(4) [OF assms] by (intro card_Un_disjoint) auto
  finally show "card B = card L + card (linkers n c)" using dep_simC(5) [OF assms] by (simp add: card_image)
qed

lemma own_cell:
  assumes S: "dep_sim d n job c B L" and x: "x < n" "own_node (pcs c x) = Some q"
  shows "q < 2 ^ d" "slot_of_cell (dep_cell (shm c) q) = Opaque" "q \<in> privates n c"
proof -
  have ok: "dep_pc_ok d (shm c) B L (fst (job x)) (snd (job x)) (pcs c x)" using S x(1) by (rule dep_simC)
  obtain r t where "q = unat r" "node_at d (shm c) (snd (job x)) r t" using ok x(2) by (cases "pcs c x") auto
  then show "q < 2 ^ d" "slot_of_cell (dep_cell (shm c) q) = Opaque"
    using slot_of_cell_raw(2) [of "\<lparr>e_key = tagged (snd (job x)) TAG_VAL, e_next = t\<rparr>"] by (auto simp: node_at_def)
  show "q \<in> privates n c" using x by (auto simp: privates_def)
qed

lemma private_opaque: "dep_sim d n job c B L \<Longrightarrow> q \<in> privates n c \<Longrightarrow> slot_of_cell (dep_cell (shm c) q) = Opaque"
  using own_cell(2) unfolding privates_def by blast

text \<open>The effect of a step on the sets of calls that the invariant counts.\<close>

lemma private_sets:
  assumes S: "dep_sim d n job c B L" and w: "w < n"
  shows "privates n \<lparr>shm = s', pcs = (pcs c)(w := pc')\<rparr> = (privates n c - set_option (own_node (pcs c w))) \<union> set_option (own_node pc')"
proof (rule privates_step [OF _ w])
  show "own_node (pcs c x) \<noteq> own_node (pcs c w)" if "x < n" "x \<noteq> w" "own_node (pcs c w) \<noteq> None" for x
    using dep_simC(6) [OF S that(1) w] that(2,3) by auto
qed

lemma count_same:
  "P pc' = P (pcs' w) \<Longrightarrow> {x::nat. x < n \<and> P ((pcs'(w := pc')) x)} = {x. x < n \<and> P (pcs' x)}"
  by auto

lemma count_in:
  "(w::nat) < n \<Longrightarrow> \<not> P (pcs' w) \<Longrightarrow> P pc' \<Longrightarrow> card {x. x < n \<and> P ((pcs'(w := pc')) x)} = Suc (card {x. x < n \<and> P (pcs' x)})"
  by (rule card_fill [of w]) auto

lemma count_out:
  "(w::nat) < n \<Longrightarrow> P (pcs' w) \<Longrightarrow> \<not> P pc' \<Longrightarrow> Suc (card {x. x < n \<and> P ((pcs'(w := pc')) x)}) = card {x. x < n \<and> P (pcs' x)}"
  by (rule card_fill [of w, symmetric]) auto

lemma dep_quiet:
  assumes S: "dep_sim d n job c B L" and w: "w < n" and own: "own_node pc' = own_node (pcs c w)"
    and lnk: "linking pc' = linking (pcs c w)" and cnt: "(pc' = Bind_count) = (pcs c w = Bind_count)"
    and ok: "dep_pc_ok d (shm c) B L (fst (job w)) (snd (job w)) pc'"
  shows "dep_sim d n job \<lparr>shm = shm c, pcs = (pcs c)(w := pc')\<rparr> B L"
proof -
  let ?c = "\<lparr>shm = shm c, pcs = (pcs c)(w := pc')\<rparr>"
  have o: "own_node (pcs ?c x) = own_node (pcs c x)" for x using own by simp
  have "privates n ?c = privates n c" by (simp only: privates_def o)
  moreover have "{x. x < n \<and> own_node (pcs ?c x) \<noteq> None} = {x. x < n \<and> own_node (pcs c x) \<noteq> None}"
    by (simp only: o)
  moreover have "{x. x < n \<and> pcs ?c x = Bind_count} = {x. x < n \<and> pcs c x = Bind_count}"
    unfolding conc.simps by (rule count_same) (rule cnt)
  ultimately have "dep_memory d n ?c B L" using dep_simD [OF S] by (simp add: dep_memory_def)
  moreover have "dep_control d n job ?c B L"
  proof (rule dep_control_step [OF dep_simD(2) [OF S] w])
    show "own_node (pcs c x) \<noteq> Some q" if "x < n" "x \<noteq> w" "own_node pc' = Some q" for x q
      using dep_simC(6) [OF S that(1) w] that(2,3) own by auto
    show "B = L \<union> job ` linkers n ?c" "L \<inter> job ` linkers n ?c = {}" "inj_on job (linkers n ?c)"
      unfolding linkers_same [of _ c w, OF lnk] using S by (rule dep_simC)+
  qed (use ok in auto)
  ultimately show ?thesis unfolding dep_sim_def by blast
qed

subsection \<open>The steps that write\<close>

lemma not_linked:
  assumes S: "dep_sim d n job c B L" and w: "w < n" "linking (pcs c w)"
  shows "job w \<notin> L" "job w \<in> B" "insert (job w) L \<inter> job ` (linkers n c - {w}) = {}" "B = insert (job w) L \<union> job ` (linkers n c - {w})"
proof -
  note C = dep_simC [OF S]
  show a: "job w \<notin> L" "job w \<in> B" using C(3,4) w by auto
  have "job w \<notin> job ` (linkers n c - {w})" using C(5) w by (auto simp: inj_on_def)
  then show "insert (job w) L \<inter> job ` (linkers n c - {w}) = {}" using C(4) by auto
  show "B = insert (job w) L \<union> job ` (linkers n c - {w})" using C(3) w a(2) by auto
qed

lemma dep_claim:
  assumes S: "dep_sim d n job c B L" and w: "w < n" "pcs c w = Bind_claim slot" and free: "binding (shm c) (unat slot) = 0"
  shows "dep_sim d n job \<lparr>shm = set_binding (unat slot) (pack (fst (job w)) (snd (job w))) (shm c), pcs = (pcs c)(w := Bind_count)\<rparr>
     (insert (job w) B) L" and "job w \<notin> B"
proof -
  let ?b = "pack (fst (job w)) (snd (job w))" and ?s = "shm c" and ?p = "unat slot"
  let ?s' = "set_binding ?p ?b ?s" and ?B = "insert (job w) B"
  let ?c = "\<lparr>shm = ?s', pcs = (pcs c)(w := Bind_count)\<rparr>"
  note D = dep_simD [OF S] and C = dep_simC [OF S] and Z = sizedD [OF dep_simD(3) [OF S]] and N = dep_sim_card [OF S]
  have e: "edge31 (fst (job w), snd (job w))" using C(1) w(1) by simp
  have pass: "bnd.passed d (bnd_view ?s) ?b ?p" using C(2) [OF w(1)] w(2) by simp
  have pn: "?p < 2 ^ d" using pass by (rule bnd.passed_less)
  have stop: "bnd.first_stop d (bnd_view ?s) ?b ?p"
    by (rule bnd.passed_stop [OF pass]) (simp add: bnd.stop_def bnd_view_def free)
  let ?v = "?s\<lparr>dcounter := word_of_nat (card B)\<rparr>"
  have "bnd_view ?v = bnd_view ?s" by (auto simp: bnd_view_def fun_eq_iff)
  then have stop': "bnd.first_stop d (bnd_view ?v) ?b ?p" using stop by simp
  have "card B < 2 ^ 64 - 1" using N(1) Z(2) power_increasing [of d 31 "2::nat"] by simp
  then have u: "unat (word_of_nat (Suc (card B)) :: u64) = Suc (unat (dcounter ?v))" using N(2) by (simp add: unat_of_nat del: of_nat_Suc)
  have ins: "bindings_rel d ((set_binding ?p ?b ?v)\<lparr>dcounter := word_of_nat (Suc (card B))\<rparr>) (insert (fst (job w), snd (job w)) B)"
    and new': "(fst (job w), snd (job w)) \<notin> B"
    using bindings_insert [OF D(5) e stop' _ u] free by simp_all
  show new: "job w \<notin> B" using new' by simp
  have card': "card ?B = Suc (card B)" using new by simp
  have "(set_binding ?p ?b ?v)\<lparr>dcounter := word_of_nat (Suc (card B))\<rparr> = ?s'\<lparr>dcounter := word_of_nat (card ?B)\<rparr>"
    by (simp add: set_binding_def binding_def card' del: of_nat_Suc)
  then have ins: "bindings_rel d (?s'\<lparr>dcounter := word_of_nat (card ?B)\<rparr>) ?B" using ins by simp
  have cell: "dep_cell ?s' i = dep_cell ?s i" if "i < 2 ^ d" for i using that pn Z by simp
  have sets: "{i. i < 2 ^ d \<and> dep_cell ?s' i \<noteq> 0} = {i. i < 2 ^ d \<and> dep_cell ?s i \<noteq> 0}" using cell by auto
  have own: "own_node (pcs c w) = None" "own_node Bind_count = None" "\<not> linking (pcs c w)" "linking Bind_count" "pcs c w \<noteq> Bind_count"
    using w(2) by (simp_all add: linking_def)
  have "dep_memory d n ?c ?B L" unfolding dep_memory_def
  proof (intro conjI)
    show "unat (dcounter (shm ?c)) + card {x. x < n \<and> pcs ?c x = Bind_count} = card ?B"
      using count_in [where P = "\<lambda>pc. pc = Bind_count" and pcs' = "pcs c", OF w(1)] D(6) own card' by simp
    show "lists_over d (privates n ?c) (shm ?c) L"
      using lists_over_cong [OF D(4), of ?s'] cell private_sets [OF S w(1), of ?s' Bind_count] own by simp
    show "card {i. i < 2 ^ d \<and> dep_cell (shm ?c) i \<noteq> 0} = card L + card {x. x < n \<and> own_node (pcs ?c x) \<noteq> None}"
      using D(7) count_same [where P = "\<lambda>pc. own_node pc \<noteq> None" and pcs' = "pcs c" and w = w] own sets by simp
  qed (use D(3) ins in simp_all)
  moreover have "dep_control d n job ?c ?B L"
  proof (rule dep_control_step [OF D(2) w(1)])
    show "binding ?s' i = binding ?s i" if "binding ?s i \<noteq> 0" for i using that free by auto
    show "dep_view ?s' i = dep_view ?s i" if "i < 2 ^ d" for i using cell that by (simp add: dep_view_def)
    show "dep_cell ?s' q = dep_cell ?s q" if "x < n" "own_node (pcs c x) = Some q" for x q
      using cell own_cell(1) [OF S that] by blast
    show "?B = L \<union> job ` linkers n ?c" "L \<inter> job ` linkers n ?c = {}" "inj_on job (linkers n ?c)"
      unfolding linkers_in [of w n Bind_count ?s' c, OF w(1) own(4)] using C(3,4,5) new by auto
  qed auto
  ultimately show "dep_sim d n job ?c ?B L" unfolding dep_sim_def by blast
qed

lemma dep_count:
  assumes S: "dep_sim d n job c B L" and w: "w < n" "pcs c w = Bind_count"
  shows "dep_sim d n job \<lparr>shm = (shm c)\<lparr>dcounter := dcounter (shm c) + 1\<rparr>,
     pcs = (pcs c)(w := Head_read (hash_uint64 (ucast (fst (job w))) AND (dep_size (shm c) - 1)))\<rparr> B L"
    and "dcounter (shm c) \<le> dep_size (shm c)"
proof -
  let ?s = "shm c" and ?s' = "(shm c)\<lparr>dcounter := dcounter (shm c) + 1\<rparr>"
  let ?pc = "Head_read (hash_uint64 (ucast (fst (job w))) AND (dep_size ?s - 1))"
  let ?c = "\<lparr>shm = ?s', pcs = (pcs c)(w := ?pc)\<rparr>"
  note D = dep_simD [OF S] and C = dep_simC [OF S] and Z = sizedD [OF dep_simD(3) [OF S]] and N = dep_sim_card [OF S]
  have out: "Suc (card {x. x < n \<and> pcs ?c x = Bind_count}) = card {x. x < n \<and> pcs c x = Bind_count}"
    using count_out [where P = "\<lambda>pc. pc = Bind_count" and pcs' = "pcs c" and pc' = ?pc, OF w(1)] w(2) by simp
  have less: "unat (dcounter ?s) < 2 ^ d" using D(6) N(1) out by simp
  then show "dcounter ?s \<le> dep_size ?s" using Z by (simp add: word_le_nat_alt)
  have "(2::nat) ^ d \<le> 2 ^ 31" using Z(2) by (rule power_increasing) simp
  then have u: "unat (dcounter ?s + 1) = Suc (unat (dcounter ?s))" using less unat_plus_less [of "dcounter ?s" 1] by simp
  have own: "own_node (pcs c w) = None" "own_node ?pc = None" "linking ?pc = linking (pcs c w)" using w(2) by (simp_all add: linking_def)
  have "dep_memory d n ?c B L" unfolding dep_memory_def
  proof (intro conjI)
    show "unat (dcounter (shm ?c)) + card {x. x < n \<and> pcs ?c x = Bind_count} = card B" using D(6) out u by simp
    show "lists_over d (privates n ?c) (shm ?c) L"
      using lists_over_cong [OF D(4), of ?s'] private_sets [OF S w(1), of ?s' ?pc] own by simp
    show "card {i. i < 2 ^ d \<and> dep_cell (shm ?c) i \<noteq> 0} = card L + card {x. x < n \<and> own_node (pcs ?c x) \<noteq> None}"
      using D(7) count_same [where P = "\<lambda>pc. own_node pc \<noteq> None" and pcs' = "pcs c" and w = w] own by simp
  qed (use D(3,5) in \<open>simp_all add: sized_def\<close>)
  moreover have "dep_control d n job ?c B L"
  proof (rule dep_control_step [OF D(2) w(1)])
    have v: "dep_view ?s' = dep_view ?s" by (simp add: dep_view_def fun_eq_iff)
    then show "dep_view ?s' i = dep_view ?s i" for i by simp
    show "dep_pc_ok d ?s' B L (fst (job w)) (snd (job w)) ?pc"
      using dpt.passed_start [of d "dep_view ?s" "fst (job w)"] v Z by (simp add: unat_and_mask)
    show "B = L \<union> job ` linkers n ?c" "L \<inter> job ` linkers n ?c = {}" "inj_on job (linkers n ?c)"
      unfolding linkers_same [of _ c w, OF own(3)] using C(3-5) by auto
  qed auto
  ultimately show "dep_sim d n job ?c B L" unfolding dep_sim_def by blast
qed

text \<open>A write to \<open>deptbl\<close> that leaves every used slot its kind: what is left to show of the invariant.\<close>

lemma dep_write:
  assumes S: "dep_sim d n job c B L" and w: "w < n" and q: "q < 2 ^ d"
    and keep: "dep_view (shm c) q \<noteq> Free \<longrightarrow> slot_of_cell y = dep_view (shm c) q"
    and mine: "\<And>x r. x < n \<Longrightarrow> x \<noteq> w \<Longrightarrow> own_node (pcs c x) = Some r \<Longrightarrow> r \<noteq> q"
    and cnt: "pcs c w \<noteq> Bind_count" "pc' \<noteq> Bind_count" and own: "own_node pc' = None \<or> own_node pc' = own_node (pcs c w) \<or> own_node pc' = Some q"
    and lists: "lists_over d ((privates n c - set_option (own_node (pcs c w))) \<union> set_option (own_node pc')) (set_dep_cell q y (shm c)) L'"
    and sub: "L \<subseteq> L'" and ok: "dep_pc_ok d (set_dep_cell q y (shm c)) B L' (fst (job w)) (snd (job w)) pc'"
    and sets: "B = L' \<union> job ` linkers n \<lparr>shm = set_dep_cell q y (shm c), pcs = (pcs c)(w := pc')\<rparr>"
      "L' \<inter> job ` linkers n \<lparr>shm = set_dep_cell q y (shm c), pcs = (pcs c)(w := pc')\<rparr> = {}"
      "inj_on job (linkers n \<lparr>shm = set_dep_cell q y (shm c), pcs = (pcs c)(w := pc')\<rparr>)"
    and count: "card {i. i < 2 ^ d \<and> dep_cell (set_dep_cell q y (shm c)) i \<noteq> 0}
       = card L' + card {x. x < n \<and> own_node (((pcs c)(w := pc')) x) \<noteq> None}"
  shows "dep_sim d n job \<lparr>shm = set_dep_cell q y (shm c), pcs = (pcs c)(w := pc')\<rparr> B L'"
proof -
  let ?s = "shm c" and ?s' = "set_dep_cell q y (shm c)"
  let ?c = "\<lparr>shm = ?s', pcs = (pcs c)(w := pc')\<rparr>"
  note D = dep_simD [OF S] and C = dep_simC [OF S] and Z = sizedD [OF dep_simD(3) [OF S]]
  have "dep_memory d n ?c B L'" unfolding dep_memory_def
  proof (intro conjI)
    show "unat (dcounter (shm ?c)) + card {x. x < n \<and> pcs ?c x = Bind_count} = card B"
      using D(6) count_same [where P = "\<lambda>pc. pc = Bind_count" and pcs' = "pcs c" and w = w and pc' = pc'] cnt by simp
    show "lists_over d (privates n ?c) (shm ?c) L'" using lists private_sets [OF S w, of ?s' pc'] by simp
    have "bindings_rel d (?s'\<lparr>dcounter := word_of_nat (card B)\<rparr>) B = bindings_rel d (?s\<lparr>dcounter := word_of_nat (card B)\<rparr>) B"
      by (rule bindings_rel_cong) (use q Z in auto)
    then show "bindings_rel d ((shm ?c)\<lparr>dcounter := word_of_nat (card B)\<rparr>) B" using D(5) by simp
  qed (use D(3) count in simp_all)
  moreover have "dep_control d n job ?c B L'"
  proof (rule dep_control_step [OF D(2) w _ _ _ _ sub ok])
    show "binding ?s' i = binding ?s i" if "i < 2 ^ d" for i using that q Z by simp
    show "dep_view ?s' i = dep_view ?s i" if "dep_view ?s i \<noteq> Free" for i using that keep by (auto simp: dep_view_set)
    show "dep_cell ?s' r = dep_cell ?s r" if "x < n" "x \<noteq> w" "own_node (pcs c x) = Some r" for x r
      using mine [OF that] by simp
    show "own_node (pcs c x) \<noteq> Some r" if "x < n" "x \<noteq> w" "own_node pc' = Some r" for x r
    proof
      assume x: "own_node (pcs c x) = Some r"
      then have "own_node (pcs c w) \<noteq> Some r" using C(6) [OF that(1) w] that(2) by blast
      then show False using own mine [OF that(1,2) x] that(3) by auto
    qed
  qed (use sets in auto)
  ultimately show ?thesis unfolding dep_sim_def by blast
qed

lemma dep_head:
  assumes S: "dep_sim d n job c B L" and w: "w < n" "pcs c w = Head_claim slot" and free: "dep_cell (shm c) (unat slot) = 0"
  shows "dep_sim d n job \<lparr>shm = set_dep_cell (unat slot)
       (raw \<lparr>e_key = tagged (fst (job w)) TAG_KEY, e_next = tagged (snd (job w)) TAG_VAL\<rparr>) (shm c), pcs = (pcs c)(w := Added)\<rparr>
     B (insert (job w) L)"
proof -
  let ?h = "raw \<lparr>e_key = tagged (fst (job w)) TAG_KEY, e_next = tagged (snd (job w)) TAG_VAL\<rparr>"
  let ?s = "shm c" and ?p = "unat slot" let ?s' = "set_dep_cell ?p ?h ?s"
  note D = dep_simD [OF S] and C = dep_simC [OF S]
  have own: "own_node (pcs c w) = None" "\<not> linking Added" "linking (pcs c w)" using w(2) by (simp_all add: linking_def)
  note new = not_linked [OF S w(1) own(3)]
  have kv: "fst (job w) < 0x80000000" "snd (job w) < 0x80000000" using C(1) w(1) by (simp_all add: edge31_def)
  have pass: "dpt.passed d (dep_view ?s) (fst (job w)) ?p" using C(2) [OF w(1)] w(2) by simp
  have pn: "?p < 2 ^ d" using pass by (rule dpt.passed_less)
  have fview: "dep_view ?s ?p = Free" by (simp add: dep_view_def slot_of_cell_def free)
  then have stop: "dpt.first_stop d (dep_view ?s) (fst (job w)) ?p" using dpt.passed_stop [OF pass] by (simp add: dpt.stop_def)
  have hnz: "?h \<noteq> 0" using slot_of_cell_raw(1) [of "\<lparr>e_key = tagged (fst (job w)) TAG_KEY, e_next = tagged (snd (job w)) TAG_VAL\<rparr>"] kv
    by (auto simp: slot_of_cell_def)
  show ?thesis
  proof (rule dep_write [OF S w(1) pn])
    show "r \<noteq> ?p" if "y < n" "own_node (pcs c y) = Some r" for y r
      using own_cell(2) [OF S that] opaque_nonzero free by auto
    show "lists_over d ((privates n c - set_option (own_node (pcs c w))) \<union> set_option (own_node Added)) ?s' (insert (job w) L)"
      using lists_over_head [OF D(4) stop free kv] own by simp
    have "card {i. i < 2 ^ d \<and> dep_cell ?s' i \<noteq> 0} = Suc (card {i. i < 2 ^ d \<and> dep_cell ?s i \<noteq> 0})"
      by (rule card_fill [of ?p]) (use pn free hnz in auto)
    then show "card {i. i < 2 ^ d \<and> dep_cell ?s' i \<noteq> 0} = card (insert (job w) L) + card {y. y < n \<and> own_node (((pcs c)(w := Added)) y) \<noteq> None}"
      using D(7) count_same [where P = "\<lambda>pc. own_node pc \<noteq> None" and pcs' = "pcs c" and w = w and pc' = Added] own new(1) by simp
    show "B = insert (job w) L \<union> job ` linkers n \<lparr>shm = ?s', pcs = (pcs c)(w := Added)\<rparr>"
      "insert (job w) L \<inter> job ` linkers n \<lparr>shm = ?s', pcs = (pcs c)(w := Added)\<rparr> = {}"
      "inj_on job (linkers n \<lparr>shm = ?s', pcs = (pcs c)(w := Added)\<rparr>)"
      unfolding linkers_out [of _ n _ c w, OF own(2)] using new(3,4) C(5) by (auto intro: inj_on_subset)
  qed (use fview w(2) new(2) in auto)
qed

lemma dep_node:
  assumes S: "dep_sim d n job c B L" and w: "w < n" "pcs c w = Node_claim slot x q" and free: "dep_cell (shm c) (unat q) = 0"
  shows "dep_sim d n job \<lparr>shm = set_dep_cell (unat q)
       (raw \<lparr>e_key = tagged (snd (job w)) TAG_VAL, e_next = tagged (NOT 0) TAG_NEXT\<rparr>) (shm c), pcs = (pcs c)(w := Link slot x q)\<rparr> B L"
proof -
  let ?t = "\<lparr>e_key = tagged (snd (job w)) TAG_VAL, e_next = tagged (NOT 0) TAG_NEXT\<rparr>"
  let ?s = "shm c" and ?s' = "set_dep_cell (unat q) (raw ?t) (shm c)"
  note D = dep_simD [OF S] and C = dep_simC [OF S]
  have v: "snd (job w) < 0x80000000" using C(1) w(1) by (simp add: edge31_def)
  have ok: "at_head d ?s L (fst (job w)) slot x" "unat q < 2 ^ d" using C(2) [OF w(1)] w(2) by simp_all
  have nz: "raw ?t \<noteq> 0" unfolding raw_eq_0_iff [OF entry31_tagged] by (simp add: tagged_def TAG_NEXT_def TAG_VAL_def)
  have opq: "slot_of_cell (raw ?t) = Opaque" using slot_of_cell_raw(2) [of ?t] nz v by simp
  have fview: "dep_view ?s (unat q) = Free" by (simp add: dep_view_def slot_of_cell_def free)
  have own: "own_node (pcs c w) = None" "linking (Link slot x q) = linking (pcs c w)" using w(2) by (simp_all add: linking_def)
  show ?thesis
  proof (rule dep_write [OF S w(1) ok(2)])
    show "r \<noteq> unat q" if "y < n" "y \<noteq> w" "own_node (pcs c y) = Some r" for y r
      using own_cell(2) [OF S that(1,3)] opaque_nonzero free by auto
    show "lists_over d ((privates n c - set_option (own_node (pcs c w))) \<union> set_option (own_node (Link slot x q))) ?s' L"
      using lists_over_claim [OF D(4) free opq] own by simp
    have "dep_view ?s' (unat slot) = dep_view ?s (unat slot)" using ok(1) fview by (auto simp: at_head_def dep_view_set)
    then show "dep_pc_ok d ?s' B L (fst (job w)) (snd (job w)) (Link slot x q)"
      using ok nz v by (auto simp: at_head_def node_at_def intro!: exI [of _ "tagged (NOT 0) TAG_NEXT"])
    have "card {i. i < 2 ^ d \<and> dep_cell ?s' i \<noteq> 0} = Suc (card {i. i < 2 ^ d \<and> dep_cell ?s i \<noteq> 0})"
      by (rule card_fill [of "unat q"]) (use ok(2) free nz in auto)
    then show "card {i. i < 2 ^ d \<and> dep_cell ?s' i \<noteq> 0} = card L + card {y. y < n \<and> own_node (((pcs c)(w := Link slot x q)) y) \<noteq> None}"
      using D(7) count_in [where P = "\<lambda>pc. own_node pc \<noteq> None" and pcs' = "pcs c" and pc' = "Link slot x q", OF w(1)] own by simp
  qed (use fview w(2) C(3-5) linkers_same [of _ c w, OF own(2)] in auto)
qed

lemma dep_link:
  assumes S: "dep_sim d n job c B L" and w: "w < n" "pcs c w = Link slot x q"
  shows "dep_sim d n job \<lparr>shm = set_dep_cell (unat q)
       (raw ((entry_of_raw (dep_cell (shm c) (unat q)))\<lparr>e_next := e_next (entry_of_raw x)\<rparr>)) (shm c), pcs = (pcs c)(w := Swing slot x q)\<rparr> B L"
proof -
  let ?t = "\<lparr>e_key = tagged (snd (job w)) TAG_VAL, e_next = e_next (entry_of_raw x)\<rparr>"
  let ?s = "shm c" and ?s' = "set_dep_cell (unat q) (raw ?t) (shm c)"
  note D = dep_simD [OF S] and C = dep_simC [OF S]
  have v: "snd (job w) < 0x80000000" using C(1) w(1) by (simp add: edge31_def)
  have own: "own_node (pcs c w) = Some (unat q)" "linking (Swing slot x q) = linking (pcs c w)" "linking (pcs c w)"
    using w(2) by (simp_all add: linking_def)
  note O = own_cell [OF S w(1) own(1)]
  obtain t where ok: "at_head d ?s L (fst (job w)) slot x" and t: "node_at d ?s (snd (job w)) q t"
    using C(2) [OF w(1)] w(2) by auto
  have eq: "(entry_of_raw (dep_cell ?s (unat q)))\<lparr>e_next := e_next (entry_of_raw x)\<rparr> = ?t" using t by (simp add: node_at_def)
  have t31: "entry31 ?t" using entry31_of_raw [of x] unfolding entry31_def by (simp add: tagged_def)
  have nz: "raw ?t \<noteq> 0"
    by (rule node_nonzero [OF t31 v]) (use ok not_linked(1) [OF S w(1) own(3)] in \<open>auto simp: at_head_def seen_head_def\<close>)
  have opq: "slot_of_cell (raw ?t) = Opaque" using slot_of_cell_raw(2) [OF t31] nz v by simp
  have view: "dep_view ?s' = dep_view ?s" using O(2) opq by (auto simp: dep_view_set dep_view_def fun_eq_iff)
  show ?thesis unfolding eq
  proof (rule dep_write [OF S w(1) O(1)])
    show "r \<noteq> unat q" if "y < n" "y \<noteq> w" "own_node (pcs c y) = Some r" for y r
      using C(6) [OF that(1) w(1) that(3)] own(1) that(2) by auto
    show "lists_over d ((privates n c - set_option (own_node (pcs c w))) \<union> set_option (own_node (Swing slot x q))) ?s' L"
      using lists_over_write [OF D(4) O(3,2) opq] own(1) O(3) by (simp add: insert_absorb)
    show "dep_pc_ok d ?s' B L (fst (job w)) (snd (job w)) (Swing slot x q)"
      using ok nz t31 t by (simp add: at_head_def node_at_def view)
    have "{i. i < 2 ^ d \<and> dep_cell ?s' i \<noteq> 0} = {i. i < 2 ^ d \<and> dep_cell ?s i \<noteq> 0}" using nz opaque_nonzero [OF O(2)] by auto
    then show "card {i. i < 2 ^ d \<and> dep_cell ?s' i \<noteq> 0} = card L + card {y. y < n \<and> own_node (((pcs c)(w := Swing slot x q)) y) \<noteq> None}"
      using D(7) count_same [where P = "\<lambda>pc. own_node pc \<noteq> None" and pcs' = "pcs c" and w = w and pc' = "Swing slot x q"] own by simp
  qed (use O(2) opq w(2) own(1) C(3-5) linkers_same [of _ c w, OF own(2)] in \<open>auto simp: dep_view_def\<close>)
qed

lemma dep_swing:
  assumes S: "dep_sim d n job c B L" and w: "w < n" "pcs c w = Swing slot x q" and same: "dep_cell (shm c) (unat slot) = x"
  shows "dep_sim d n job \<lparr>shm = set_dep_cell (unat slot)
       (raw \<lparr>e_key = tagged (fst (job w)) TAG_KEY, e_next = tagged q TAG_NEXT\<rparr>) (shm c), pcs = (pcs c)(w := Added)\<rparr> B (insert (job w) L)"
proof -
  let ?h = "raw \<lparr>e_key = tagged (fst (job w)) TAG_KEY, e_next = tagged q TAG_NEXT\<rparr>"
  let ?s = "shm c" and ?p = "unat slot" let ?s' = "set_dep_cell ?p ?h ?s"
  note D = dep_simD [OF S] and C = dep_simC [OF S]
  have kv: "fst (job w) < 0x80000000" "snd (job w) < 0x80000000" using C(1) w(1) by (simp_all add: edge31_def)
  have own: "own_node (pcs c w) = Some (unat q)" "\<not> linking Added" "linking (pcs c w)" using w(2) by (simp_all add: linking_def)
  note O = own_cell [OF S w(1) own(1)] and new = not_linked [OF S w(1) own(3)]
  have ok: "unat slot < 2 ^ d" "dep_view ?s ?p = Keyed (fst (job w))" "node_at d ?s (snd (job w)) q (e_next (entry_of_raw x))"
    using C(2) [OF w(1)] w(2) by (simp_all add: at_head_def)
  have pP: "?p \<notin> privates n c" using private_opaque [OF S, of ?p] ok(2) by (auto simp: dep_view_def)
  have hview: "slot_of_cell ?h = Keyed (fst (job w))" using kv by (simp add: slot_of_cell_raw)
  have nz: "dep_cell ?s ?p \<noteq> 0" "?h \<noteq> 0" using ok(2) hview by (auto simp: dep_view_def slot_of_cell_def)
  show ?thesis
  proof (rule dep_write [OF S w(1) ok(1)])
    show "r \<noteq> ?p" if "y < n" "own_node (pcs c y) = Some r" for y r
      using own_cell(3) [OF S that] pP by auto
    have "lists_over d (privates n c - {unat q}) ?s' (insert (fst (job w), snd (job w)) L)"
      by (rule lists_over_swing [OF D(3,4) ok(1,2) kv _ O(1)]) (use new(1) ok(3) same O(3) pP in \<open>auto simp: node_at_def\<close>)
    then show "lists_over d ((privates n c - set_option (own_node (pcs c w))) \<union> set_option (own_node Added)) ?s' (insert (job w) L)"
      using own by simp
    have "{i. i < 2 ^ d \<and> dep_cell ?s' i \<noteq> 0} = {i. i < 2 ^ d \<and> dep_cell ?s i \<noteq> 0}" using nz by auto
    then show "card {i. i < 2 ^ d \<and> dep_cell ?s' i \<noteq> 0} = card (insert (job w) L) + card {y. y < n \<and> own_node (((pcs c)(w := Added)) y) \<noteq> None}"
      using D(7) count_out [where P = "\<lambda>pc. own_node pc \<noteq> None" and pcs' = "pcs c" and pc' = Added, OF w(1)] own(1) new(1) by simp
    show "B = insert (job w) L \<union> job ` linkers n \<lparr>shm = ?s', pcs = (pcs c)(w := Added)\<rparr>"
      "insert (job w) L \<inter> job ` linkers n \<lparr>shm = ?s', pcs = (pcs c)(w := Added)\<rparr> = {}"
      "inj_on job (linkers n \<lparr>shm = ?s', pcs = (pcs c)(w := Added)\<rparr>)"
      unfolding linkers_out [of _ n _ c w, OF own(2)] using new(3,4) C(5) by (auto intro: inj_on_subset)
  qed (use ok(2) hview w(2) new(2) in auto)
qed

subsection \<open>Every step keeps the invariant\<close>

lemma slot_after:
  assumes "sized d s"
  shows "unat (slot_after s slot) = (unat slot + 1) mod 2 ^ d" and "unat (node_slot s r) < 2 ^ d"
    and "unat (node_slot s (r + 1)) = (unat r + 1) mod 2 ^ d"
  using sizedD(2,3) [OF assms] unat_plus_1_mod(2) [of d r] by (simp_all add: slot_after_def node_slot_def unat_and_mask_Suc unat_mask_32)

lemma bind_advance:
  assumes "sized d s" and "bnd.passed d (bnd_view s) b (unat slot)" and "binding s (unat slot) \<noteq> 0" and "binding s (unat slot) \<noteq> b"
  shows "bnd.passed d (bnd_view s) b (unat (slot_after s slot))"
  unfolding slot_after(1) [OF assms(1)] by (rule bnd.passed_next [OF assms(2)]) (use assms(3,4) in \<open>simp add: bnd.stop_def bnd_view_def\<close>)

lemma try_slot_ok:
  assumes s: "sized d s" and L: "lists_over d P s L" and pass: "dpt.passed d (dep_view s) (fst e) (unat slot)"
    and nz: "dep_cell s (unat slot) \<noteq> 0"
  shows "dep_pc_ok d s B L (fst e) (snd e) (try_slot e slot (dep_cell s (unat slot)) s)"
proof (cases "dpt.stop (dep_view s) (fst e) (unat slot)")
  case True
  then have k: "dep_view s (unat slot) = Keyed (fst e)" using nz by (auto simp: dpt.stop_def dep_view_def slot_of_cell_def split: if_splits)
  then have "seen_head L (fst e) (dep_cell s (unat slot))"
    using lists_over_last [OF L dpt.passed_less [OF pass]] by (simp add: seen_head_def)
  moreover have "t_num (e_key (entry_of_raw (dep_cell s (unat slot)))) = fst e \<and> t_tag (e_key (entry_of_raw (dep_cell s (unat slot)))) = TAG_KEY"
    using True nz not_stop_iff by blast
  ultimately show ?thesis using k dpt.passed_less [OF pass] slot_after(2) [OF s] by (simp add: try_slot_def at_head_def)
next
  case False
  then have "\<not> (t_num (e_key (entry_of_raw (dep_cell s (unat slot)))) = fst e \<and> t_tag (e_key (entry_of_raw (dep_cell s (unat slot)))) = TAG_KEY)"
    using nz not_stop_iff by blast
  moreover have "dpt.passed d (dep_view s) (fst e) (unat (slot_after s slot))"
    unfolding slot_after(1) [OF s] by (rule dpt.passed_next [OF pass False])
  ultimately show ?thesis unfolding try_slot_def by (simp only: if_False dep_pc_ok.simps)
qed

lemma try_slot_kind: "own_node (try_slot e slot x s) = None" "linking (try_slot e slot x s)" "try_slot e slot x s \<noteq> Bind_count"
  by (simp_all add: try_slot_def linking_def)

lemma bound_edge:
  assumes S: "dep_sim d n job c B L" and w: "w < n" and p: "i < 2 ^ d" "binding (shm c) i = pack (fst (job w)) (snd (job w))"
  shows "job w \<in> B"
  using edge_of_binding [OF dep_simD(5) [OF S], of "fst (job w)" "snd (job w)" i] dep_simC(1) [OF S w] p by simp

lemma dep_sim_step:
  assumes S: "dep_sim d n job c B L" and step: "dep_interleave n job c c'"
  shows "\<exists>B' L'. dep_sim d n job c' B' L' \<and> (B' = B \<or>
     (\<exists>w<n. binding_stage (pcs c w) \<and> linking (pcs c' w) \<and> job w \<notin> B \<and> B' = insert (job w) B))"
  using step
proof (rule interleaveE)
  fix w pc' s' assume w: "w < n" "\<not> dep_finished (pcs c w)" and st: "dep_step (job w) (pcs c w) (shm c) = (pc', s')"
    and c': "c' = \<lparr>shm = s', pcs = (pcs c)(w := pc')\<rparr>"
  obtain k v where kv: "job w = (k, v)" by (cases "job w")
  note D = dep_simD [OF S] and ok = dep_simC(2) [OF S w(1)] and adv = bind_advance [OF dep_simD(3) [OF S]]
  have quiet: ?thesis
    if "s' = shm c" "own_node pc' = own_node (pcs c w)" "linking pc' = linking (pcs c w)"
      "pc' \<noteq> Bind_count" "pcs c w \<noteq> Bind_count" "dep_pc_ok d (shm c) B L k v pc'"
    using dep_quiet [OF S w(1), of pc'] that c' kv by auto
  have bound: "(k, v) \<in> B" if "unat slot < 2 ^ d" "binding (shm c) (unat slot) = pack k v" for slot :: u64
    using bound_edge [OF S w(1) that(1)] that(2) kv by simp
  show ?thesis
  proof (cases "pcs c w")
    case (Bind_read slot)
    then show ?thesis using st ok kv bound [of slot]
      by (intro quiet) (auto simp: linking_def dest: bnd.passed_less split: if_splits)
  next
    case (Bind_check slot g)
    then show ?thesis using st ok kv adv [of "pack k v" slot]
      by (intro quiet) (auto simp: linking_def split: if_splits)
  next
    case (Bind_claim slot)
    then show ?thesis
    proof (cases "binding (shm c) (unat slot) = 0")
      case True
      then have "c' = \<lparr>shm = set_binding (unat slot) (pack (fst (job w)) (snd (job w))) (shm c), pcs = (pcs c)(w := Bind_count)\<rparr>"
        using st c' kv Bind_claim by simp
      then have "dep_sim d n job c' (insert (job w) B) L" "job w \<notin> B" "linking (pcs c' w)"
        using dep_claim [OF S w(1) Bind_claim True] by (simp_all add: linking_def)
      then show ?thesis using w(1) Bind_claim by (intro exI [of _ "insert (job w) B"] exI [of _ L]) auto
    next
      case False
      then show ?thesis using st ok kv Bind_claim by (intro quiet) (auto simp: linking_def)
    qed
  next
    case (Bind_recheck slot)
    then show ?thesis using st ok kv adv [of "pack k v" slot] bound [of slot]
      by (intro quiet) (auto simp: linking_def dest: bnd.passed_less split: if_splits)
  next
    case Bind_count
    then have "dcounter (shm c) \<le> dep_size (shm c)" by (rule dep_count(2) [OF S w(1)])
    then have "c' = \<lparr>shm = (shm c)\<lparr>dcounter := dcounter (shm c) + 1\<rparr>,
       pcs = (pcs c)(w := Head_read (hash_uint64 (ucast (fst (job w))) AND (dep_size (shm c) - 1)))\<rparr>"
      using st c' kv Bind_count by simp
    then show ?thesis using dep_count(1) [OF S w(1) Bind_count] by blast
  next
    case (Head_read slot)
    then show ?thesis using st ok kv try_slot_ok [OF D(3,4), of "job w" slot B] try_slot_kind
      by (intro quiet) (auto simp: linking_def split: if_splits)
  next
    case (Head_claim slot)
    then show ?thesis
    proof (cases "dep_cell (shm c) (unat slot) = 0")
      case True
      then have "c' = \<lparr>shm = set_dep_cell (unat slot)
         (raw \<lparr>e_key = tagged (fst (job w)) TAG_KEY, e_next = tagged (snd (job w)) TAG_VAL\<rparr>) (shm c), pcs = (pcs c)(w := Added)\<rparr>"
        using st c' kv Head_claim by simp
      then show ?thesis using dep_head [OF S w(1) Head_claim True] by blast
    next
      case False
      then show ?thesis using st ok kv try_slot_ok [OF D(3,4), of "job w" slot B] try_slot_kind Head_claim
        by (intro quiet) (auto simp: linking_def)
    qed
  next
    case (Node_read slot x q)
    then show ?thesis using st ok kv slot_after(2) [OF D(3)] by (intro quiet) (auto simp: linking_def split: if_splits)
  next
    case (Node_claim slot x q)
    then show ?thesis
    proof (cases "dep_cell (shm c) (unat q) = 0")
      case True
      then have "c' = \<lparr>shm = set_dep_cell (unat q)
         (raw \<lparr>e_key = tagged (snd (job w)) TAG_VAL, e_next = tagged (NOT 0) TAG_NEXT\<rparr>) (shm c), pcs = (pcs c)(w := Link slot x q)\<rparr>"
        using st c' kv Node_claim by simp
      then show ?thesis using dep_node [OF S w(1) Node_claim True] by blast
    next
      case False
      then show ?thesis using st ok kv slot_after(2) [OF D(3)] Node_claim by (intro quiet) (auto simp: linking_def)
    qed
  next
    case (Link slot x q)
    then have "c' = \<lparr>shm = set_dep_cell (unat q)
       (raw ((entry_of_raw (dep_cell (shm c) (unat q)))\<lparr>e_next := e_next (entry_of_raw x)\<rparr>)) (shm c), pcs = (pcs c)(w := Swing slot x q)\<rparr>"
      using st c' kv by simp
    then show ?thesis using dep_link [OF S w(1) Link] by blast
  next
    case (Swing slot x q)
    then show ?thesis
    proof (cases "dep_cell (shm c) (unat slot) = x")
      case True
      then have "c' = \<lparr>shm = set_dep_cell (unat slot)
         (raw \<lparr>e_key = tagged (fst (job w)) TAG_KEY, e_next = tagged q TAG_NEXT\<rparr>) (shm c), pcs = (pcs c)(w := Added)\<rparr>"
        using st c' kv Swing by simp
      then show ?thesis using dep_swing [OF S w(1) Swing True] by blast
    next
      case False
      have "seen_head L k (dep_cell (shm c) (unat slot))"
        using lists_over_last [OF D(4), of "unat slot" k] ok Swing kv by (auto simp: at_head_def seen_head_def)
      then show ?thesis using False st ok kv Swing by (intro quiet) (auto simp: linking_def at_head_def)
    qed
  qed (use w(2) in simp_all)
qed

end
