(* ===== verification/Hh_Interleaving_Deps.thy ===== *)
theory Hh_Interleaving_Deps
  imports Hh_Concurrent_Deps
begin

text \<open>
  What follows from the invariant of concurrent insertions: from a sequential start it holds in every
  reachable state; when all calls have finished it is the relation \<open>dep_rel\<close> of the sequential theory; and with
  room in the table every step decreases a rank (first the stages of the calls, then how far their
  scans have to go and whether the head they read is still the current one), so every run ends.
\<close>

subsection \<open>From start to end\<close>

text \<open>How a call moves between the stages, and what it leaves alone.\<close>

lemma dep_step_stage:
  assumes "dep_step e pc s = (pc', s')"
  shows "binding_stage pc' \<Longrightarrow> binding_stage pc"
    and "linking pc \<or> pc = Added \<Longrightarrow> linking pc' \<or> pc' = Added \<or> (\<exists>err. pc' = Failed err)"
  using assms by (cases e; cases pc; auto simp: linking_def try_slot_def split: if_splits)+

lemma dep_step_frame:
  assumes s: "sized d s" and ok: "dep_pc_ok d s B L k v pc" and st: "dep_step (k, v) pc s = (pc', s')"
  shows "deps_only s s'"
proof -
  note Z = sizedD [OF s]
  have c: "deps_only s (s\<lparr>dcounter := x\<rparr>)" for x by (simp add: deps_only_def)
  show ?thesis using deps_only_writes [OF Z(1)] c ok st Z(4)
    by (cases pc) (auto simp: at_head_def node_at_def dest: bnd.passed_less dpt.passed_less split: if_splits)
qed

lemma dep_sim_start:
  assumes R: "dep_rel d s E" and e: "\<And>w. w < n \<Longrightarrow> edge31 (job w)"
  shows "dep_sim d n job \<lparr>shm = s, pcs = (\<lambda>w. dep_start (job w) s)\<rparr> E E"
proof -
  let ?c = "\<lparr>shm = s, pcs = (\<lambda>w. dep_start (job w) s)\<rparr>"
  note S = R [unfolded dep_rel_def]
  have card: "card E = unat (dcounter s)" using S bindings_card by blast
  have none: "own_node (pcs ?c w) = None" "\<not> linking (pcs ?c w)" "pcs ?c w \<noteq> Bind_count" for w
    by (simp_all add: dep_start_def linking_def)
  have "privates n ?c = {}" "{w. w < n \<and> own_node (pcs ?c w) \<noteq> None} = {}" "{w. w < n \<and> pcs ?c w = Bind_count} = {}"
    using none by (auto simp: privates_def dep_start_def)
  then have "dep_memory d n ?c E E" unfolding dep_memory_def using S card by (simp add: lists_over_empty)
  moreover have "dep_pc_ok d s E E k v (dep_start (k, v) s)" for k v
    using bnd.passed_start [of d "bnd_view s" "pack k v"] sizedD [of d s] S by (simp add: dep_start_def unat_and_mask)
  moreover have "linkers n ?c = {}" using none(2) by simp
  ultimately show ?thesis using e none(1) unfolding dep_sim_def dep_control_def by (metis (no_types, lifting) Int_empty_right Un_empty_right image_empty inj_on_empty conc.select_convs prod.collapse)
qed

lemma dep_sim_quiescent:
  assumes S: "dep_sim d n job c B L" and fin: "\<And>w. w < n \<Longrightarrow> dep_finished (pcs c w)"
  shows "dep_rel d (shm c) B"
proof -
  note D = dep_simD [OF S] and N = dep_sim_card [OF S]
  have none: "own_node (pcs c w) = None" "\<not> linking (pcs c w)" "pcs c w \<noteq> Bind_count" if "w < n" for w
    using fin [OF that] by (cases "pcs c w"; simp add: linking_def)+
  have Z: "linkers n c = {}" "{w. w < n \<and> own_node (pcs c w) \<noteq> None} = {}" "{w. w < n \<and> pcs c w = Bind_count} = {}" "privates n c = {}"
    using none by (auto simp: privates_def)
  have B: "B = L" using dep_simC(3) [OF S] unfolding Z(1) by simp
  have cnt: "unat (dcounter (shm c)) = card B" using D(6) unfolding Z(3) by simp
  have "lists_rel d (shm c) L" using D(4) unfolding Z(4) lists_over_empty .
  moreover have "card {i. i < 2 ^ d \<and> dep_cell (shm c) i \<noteq> 0} = card L" using D(7) unfolding Z(2) by simp
  moreover have "word_of_nat (card B) = dcounter (shm c)" unfolding cnt [symmetric] by simp
  then have "bindings_rel d (shm c) B" using D(5) by simp
  ultimately show ?thesis using B cnt D(3) unfolding dep_rel_def by simp
qed

subsection \<open>Runs\<close>

text \<open>The calls that hold or have added their edge account for every new binding.\<close>

definition done_or_linking :: "nat \<Rightarrow> dep_conc \<Rightarrow> nat set" where
  "done_or_linking n c = {w. w < n \<and> (linking (pcs c w) \<or> pcs c w = Added)}"

lemma done_or_linking_step:
  assumes S': "dep_sim d n job c' B' L'" and step: "dep_interleave n job c c'"
  shows "done_or_linking n c \<subseteq> done_or_linking n c'"
  using step
proof (rule interleaveE)
  fix w pc' s' assume w: "w < n" and st: "dep_step (job w) (pcs c w) (shm c) = (pc', s')"
    and c': "c' = \<lparr>shm = s', pcs = (pcs c)(w := pc')\<rparr>"
  have "dep_pc_ok d (shm c') B' L' (fst (job w)) (snd (job w)) (pcs c' w)" by (rule dep_simC(2) [OF S' w])
  then have "pc' \<noteq> Failed err" for err using c' by auto
  then have "linking (pcs c w) \<or> pcs c w = Added \<Longrightarrow> linking pc' \<or> pc' = Added" using dep_step_stage(2) [OF st] by blast
  then show ?thesis using c' by (auto simp: done_or_linking_def)
qed

lemma dep_run_sim:
  assumes "dep_run n job s0 c" and R: "dep_rel d s0 E" and e: "\<And>w. w < n \<Longrightarrow> edge31 (job w)"
  shows "\<exists>B L. dep_sim d n job c B L \<and> E \<subseteq> B \<and> B \<subseteq> E \<union> job ` done_or_linking n c \<and> deps_only s0 (shm c)"
  using assms(1)
proof (induction rule: reachable.induct)
  case start
  have "dep_sim d n job \<lparr>shm = s0, pcs = (\<lambda>w. dep_start (job w) s0)\<rparr> E E" by (rule dep_sim_start [OF R e])
  then show ?case by (intro exI [of _ E] exI [of _ E]) auto
next
  case (step c c')
  then obtain B L where S: "dep_sim d n job c B L" and B: "E \<subseteq> B" "B \<subseteq> E \<union> job ` done_or_linking n c" and F: "deps_only s0 (shm c)"
    by blast
  obtain B' L' where S': "dep_sim d n job c' B' L'" and B': "B' = B \<or>
     (\<exists>w<n. binding_stage (pcs c w) \<and> linking (pcs c' w) \<and> job w \<notin> B \<and> B' = insert (job w) B)"
    using dep_sim_step [OF S step.hyps(2)] by blast
  have "done_or_linking n c \<subseteq> done_or_linking n c'" by (rule done_or_linking_step [OF S' step.hyps(2)])
  moreover have "B' \<subseteq> B \<union> job ` done_or_linking n c'" using B' by (auto simp: done_or_linking_def)
  ultimately have "B' \<subseteq> E \<union> job ` done_or_linking n c'" using B(2) by blast
  moreover have "deps_only (shm c) (shm c')" using step.hyps(2)
  proof (rule interleaveE)
    fix w pc' s' assume w: "w < n" and st: "dep_step (job w) (pcs c w) (shm c) = (pc', s')"
      and c': "c' = \<lparr>shm = s', pcs = (pcs c)(w := pc')\<rparr>"
    show "deps_only (shm c) (shm c')"
      using dep_step_frame [OF dep_simD(3) [OF S] dep_simC(2) [OF S w], of pc' s'] st c' by simp
  qed
  ultimately show ?case using S' B(1) B' deps_only_trans [OF F] by blast
qed

subsection \<open>With room in the table every run ends, and every edge is added\<close>

abbreviation binders :: "nat \<Rightarrow> dep_conc \<Rightarrow> nat set" where
  "binders n c \<equiv> {w. w < n \<and> binding_stage (pcs c w)}"

definition dep_room :: "nat \<Rightarrow> nat \<Rightarrow> (nat \<Rightarrow> u32 \<times> u32) \<Rightarrow> dep_conc \<Rightarrow> bool" where
  "dep_room d n job c \<longleftrightarrow> (\<exists>B L. dep_sim d n job c B L \<and> card B + card (binders n c) \<le> 2 ^ d)"

lemma dep_room_step:
  assumes R: "dep_room d n job c" and step: "dep_interleave n job c c'"
  shows "dep_room d n job c'"
  using step
proof (rule interleaveE)
  fix w pc' s' assume w: "w < n" and st: "dep_step (job w) (pcs c w) (shm c) = (pc', s')"
    and c': "c' = \<lparr>shm = s', pcs = (pcs c)(w := pc')\<rparr>"
  obtain B L where S: "dep_sim d n job c B L" and room: "card B + card (binders n c) \<le> 2 ^ d" using R by (auto simp: dep_room_def)
  obtain B' L' where S': "dep_sim d n job c' B' L'" and B': "B' = B \<or>
     (\<exists>w<n. binding_stage (pcs c w) \<and> linking (pcs c' w) \<and> job w \<notin> B \<and> B' = insert (job w) B)"
    using dep_sim_step [OF S step] by blast
  have sub: "binders n c' \<subseteq> binders n c" using dep_step_stage(1) [OF st] c' by auto
  have "card B' + card (binders n c') \<le> card B + card (binders n c)"
    using B'
  proof
    assume "\<exists>w<n. binding_stage (pcs c w) \<and> linking (pcs c' w) \<and> job w \<notin> B \<and> B' = insert (job w) B"
    then obtain x where x: "x < n" "binding_stage (pcs c x)" "linking (pcs c' x)" "job x \<notin> B" "B' = insert (job x) B" by blast
    then have "x \<in> binders n c" "x \<notin> binders n c'" by (auto simp: linking_def)
    then have "card (binders n c') < card (binders n c)" using sub by (intro psubset_card_mono) auto
    then show ?thesis using x(4,5) by simp
  qed (use sub in \<open>simp add: card_mono\<close>)
  then show ?thesis using S' room unfolding dep_room_def by (meson le_trans)
qed

lemma dep_room_free:
  assumes S: "dep_sim d n job c B L" and room: "card B + card (binders n c) \<le> 2 ^ d" and w: "w < n"
  shows "binding_stage (pcs c w) \<Longrightarrow> dcounter (shm c) < dep_size (shm c)"
    and "binding_stage (pcs c w) \<Longrightarrow> \<exists>i<2 ^ d. binding (shm c) i = 0"
    and "linking (pcs c w) \<Longrightarrow> own_node (pcs c w) = None \<Longrightarrow> \<exists>i<2 ^ d. dep_cell (shm c) i = 0"
proof -
  note D = dep_simD [OF S] and N = dep_sim_card [OF S] and Z = sizedD [OF dep_simD(3) [OF S]]
  {
    assume b: "binding_stage (pcs c w)"
    then have "w \<in> binders n c" using w by simp
    then have "0 < card (binders n c)" by (intro card_gt_0_iff [THEN iffD2] conjI) auto
    then have less: "card B < 2 ^ d" using room by simp
    then show "dcounter (shm c) < dep_size (shm c)" using D(6) Z(4) by (simp add: word_less_nat_alt)
    have "card {i. i < 2 ^ d \<and> binding (shm c) i \<noteq> 0} = card B" using D(5) N(2) by (simp add: bindings_rel_def)
    then show "\<exists>i<2 ^ d. binding (shm c) i = 0" using less card_less_free [of "2 ^ d" "\<lambda>i. binding (shm c) i \<noteq> 0"] by simp
  next
    assume l: "linking (pcs c w)" "own_node (pcs c w) = None"
    have "{x. x < n \<and> own_node (pcs c x) \<noteq> None} \<subset> linkers n c"
    proof
      show "{x. x < n \<and> own_node (pcs c x) \<noteq> None} \<subseteq> linkers n c"
      proof
        fix x assume "x \<in> {x. x < n \<and> own_node (pcs c x) \<noteq> None}"
        then show "x \<in> linkers n c" by (cases "pcs c x") (auto simp: linking_def)
      qed
      show "{x. x < n \<and> own_node (pcs c x) \<noteq> None} \<noteq> linkers n c" using l w by blast
    qed
    then have "card {x. x < n \<and> own_node (pcs c x) \<noteq> None} < card (linkers n c)" by (intro psubset_card_mono) auto
    then have "card {i. i < 2 ^ d \<and> dep_cell (shm c) i \<noteq> 0} < 2 ^ d" using D(7) N(1,3) by simp
    then show "\<exists>i<2 ^ d. dep_cell (shm c) i = 0" using card_less_free [of "2 ^ d" "\<lambda>i. dep_cell (shm c) i \<noteq> 0"] by simp
  }
qed

lemma dep_room_not_full:
  assumes R: "dep_room d n job c" and step: "dep_interleave n job c c'" and no: "\<And>w. w < n \<Longrightarrow> pcs c w \<noteq> Table_full" and x: "x < n"
  shows "pcs c' x \<noteq> Table_full"
  using step
proof (rule interleaveE)
  fix w pc' s' assume w: "w < n" and st: "dep_step (job w) (pcs c w) (shm c) = (pc', s')"
    and c': "c' = \<lparr>shm = s', pcs = (pcs c)(w := pc')\<rparr>"
  obtain B L where S: "dep_sim d n job c B L" and room: "card B + card (binders n c) \<le> 2 ^ d" using R by (auto simp: dep_room_def)
  have "pc' \<noteq> Table_full"
    using st dep_room_free(1) [OF S room w] no [OF w]
    by (cases "job w"; cases "pcs c w") (auto simp: try_slot_def split: if_splits)
  then show ?thesis using no [OF x] c' by simp
qed

text \<open>How far a call has to go: its stage, then within the stage the slots up to where its scan stops, and
  whether the head it read is still the current one.\<close>

definition gap :: "nat \<Rightarrow> (nat \<Rightarrow> bool) \<Rightarrow> nat \<Rightarrow> nat" where
  "gap m f x = (LEAST j. f ((x + j) mod m))"

lemma gap_next:
  assumes "x < m" and "\<not> f x" and "i < m" and "f i"
  shows "gap m f x = Suc (gap m f ((x + 1) mod m))"
proof -
  have "(x + (i + m - x)) mod m = i" using assms by simp
  then have ex: "f ((x + (i + m - x)) mod m)" using assms(4) by simp
  have "(LEAST j. f ((x + j) mod m)) = Suc (LEAST j. f ((x + Suc j) mod m))"
    by (rule Least_Suc [of "\<lambda>j. f ((x + j) mod m)", OF ex]) (use assms(1,2) in simp)
  then show ?thesis by (simp add: gap_def mod_add_left_eq)
qed

lemma gap_cong: "0 < m \<Longrightarrow> (\<And>i. i < m \<Longrightarrow> f i = g i) \<Longrightarrow> gap m f x = gap m g x"
  by (simp add: gap_def)

fun stage :: "dep_pc \<Rightarrow> nat" where
  "stage (Bind_read slot) = 5"
| "stage (Bind_check slot g) = 5"
| "stage (Bind_claim slot) = 5"
| "stage (Bind_recheck slot) = 5"
| "stage Bind_count = 4"
| "stage (Head_read slot) = 3"
| "stage (Head_claim slot) = 3"
| "stage (Node_read slot x q) = 2"
| "stage (Node_claim slot x q) = 2"
| "stage (Link slot x q) = 1"
| "stage (Swing slot x q) = 1"
| "stage _ = 0"

fun distance :: "nat \<Rightarrow> hh \<Rightarrow> u32 \<times> u32 \<Rightarrow> dep_pc \<Rightarrow> nat" where
  "distance d s e (Bind_read slot) = 4 * gap (2 ^ d) (bnd.stop (bnd_view s) (pack (fst e) (snd e))) (unat slot) + 3"
| "distance d s e (Bind_check slot g) = 4 * gap (2 ^ d) (bnd.stop (bnd_view s) (pack (fst e) (snd e))) (unat slot) + 2"
| "distance d s e (Bind_claim slot) = 4 * gap (2 ^ d) (bnd.stop (bnd_view s) (pack (fst e) (snd e))) (unat slot) + 1"
| "distance d s e (Bind_recheck slot) = 4 * gap (2 ^ d) (bnd.stop (bnd_view s) (pack (fst e) (snd e))) (unat slot)"
| "distance d s e (Head_read slot) = 2 * gap (2 ^ d) (dpt.stop (dep_view s) (fst e)) (unat slot) + 1"
| "distance d s e (Head_claim slot) = 2 * gap (2 ^ d) (dpt.stop (dep_view s) (fst e)) (unat slot)"
| "distance d s e (Node_read slot x q) = 2 * gap (2 ^ d) (\<lambda>i. dep_view s i = Free) (unat q) + 1"
| "distance d s e (Node_claim slot x q) = 2 * gap (2 ^ d) (\<lambda>i. dep_view s i = Free) (unat q)"
| "distance d s e (Link slot x q) = (if dep_cell s (unat slot) = x then 1 else 3)"
| "distance d s e (Swing slot x q) = (if dep_cell s (unat slot) = x then 0 else 2)"
| "distance d s e _ = 0"

lemma dep_stage:
  assumes "dep_step e pc s = (pc', s')" and "\<not> dep_finished pc"
  shows "stage pc' < stage pc \<or> stage pc' = stage pc \<and> (s' = s \<or> (\<exists>slot x q. pc = Link slot x q))"
  using assms by (cases e; cases pc) (auto simp: try_slot_def split: if_splits)

lemma free_view: "dep_view s i = Free \<longleftrightarrow> dep_cell s i = 0"
  by (simp add: dep_view_def slot_of_cell_def)

lemma dep_nearer:
  assumes S: "dep_sim d n job c B L" and room: "card B + card (binders n c) \<le> 2 ^ d" and w: "w < n" "\<not> dep_finished (pcs c w)"
    and st: "dep_step (job w) (pcs c w) (shm c) = (pc', s')" and same: "stage pc' = stage (pcs c w)"
  shows "distance d s' (job w) pc' < distance d (shm c) (job w) (pcs c w)"
proof -
  obtain k v where kv: "job w = (k, v)" by (cases "job w")
  let ?s = "shm c" and ?b = "pack k v"
  note D = dep_simD [OF S] and F = dep_room_free [OF S room w(1)] and A = slot_after [OF dep_simD(3) [OF S]]
  have ok: "dep_pc_ok d ?s B L k v (pcs c w)" using dep_simC(2) [OF S w(1)] kv by simp
  have bnd: "gap (2 ^ d) (bnd.stop (bnd_view ?s) ?b) (unat slot) = Suc (gap (2 ^ d) (bnd.stop (bnd_view ?s) ?b) (unat (slot_after ?s slot)))"
    if a: "binding_stage (pcs c w)" "unat slot < 2 ^ d" "binding ?s (unat slot) \<noteq> 0" "binding ?s (unat slot) \<noteq> ?b" for slot
  proof -
    obtain i where "i < 2 ^ d" "binding ?s i = 0" using F(2) a(1) by blast
    then show ?thesis unfolding A(1) using a by (intro gap_next [of _ _ _ i]) (auto simp: bnd.stop_def bnd_view_def)
  qed
  have head: "gap (2 ^ d) (dpt.stop (dep_view ?s) k) (unat slot) = Suc (gap (2 ^ d) (dpt.stop (dep_view ?s) k) (unat (slot_after ?s slot)))"
    if a: "linking (pcs c w)" "own_node (pcs c w) = None" "unat slot < 2 ^ d" "dep_cell ?s (unat slot) \<noteq> 0"
      "\<not> (t_num (e_key (entry_of_raw (dep_cell ?s (unat slot)))) = k \<and> t_tag (e_key (entry_of_raw (dep_cell ?s (unat slot)))) = TAG_KEY)" for slot
  proof -
    obtain i where i: "i < 2 ^ d" "dep_cell ?s i = 0" using F(3) a(1,2) by blast
    have "\<not> dpt.stop (dep_view ?s) k (unat slot)" using a(4,5) unfolding not_stop_iff by blast
    then show ?thesis unfolding A(1) using a(3) i by (intro gap_next [of _ _ _ i]) (auto simp: dpt.stop_def free_view)
  qed
  have node: "gap (2 ^ d) (\<lambda>i. dep_view ?s i = Free) (unat q) = Suc (gap (2 ^ d) (\<lambda>i. dep_view ?s i = Free) (unat (node_slot ?s (q + 1))))"
    if a: "linking (pcs c w)" "own_node (pcs c w) = None" "unat q < 2 ^ d" "dep_cell ?s (unat q) \<noteq> 0" for q
  proof -
    obtain i where i: "i < 2 ^ d" "dep_cell ?s i = 0" using F(3) a(1,2) by blast
    then show ?thesis unfolding A(3) using a by (intro gap_next [of _ _ _ i]) (auto simp: free_view)
  qed
  show ?thesis
  proof (cases "pcs c w")
    case (Bind_read slot)
    then show ?thesis using st same kv by (auto split: if_splits)
  next
    case (Bind_check slot g)
    then show ?thesis using st same kv ok bnd [of slot] by (auto dest: bnd.passed_less split: if_splits)
  next
    case (Bind_claim slot)
    then show ?thesis using st same kv by (auto split: if_splits)
  next
    case (Bind_recheck slot)
    then show ?thesis using st same kv ok bnd [of slot] by (auto dest: bnd.passed_less split: if_splits)
  next
    case Bind_count
    then show ?thesis using st same kv by (auto split: if_splits)
  next
    case (Head_read slot)
    have p: "unat slot < 2 ^ d" using ok Head_read dpt.passed_less by simp
    show ?thesis using st same kv p head [of slot] Head_read by (auto simp: try_slot_def linking_def split: if_splits)
  next
    case (Head_claim slot)
    have p: "unat slot < 2 ^ d" using ok Head_claim dpt.passed_less by simp
    show ?thesis using st same kv p head [of slot] Head_claim by (auto simp: try_slot_def linking_def split: if_splits)
  next
    case (Node_read slot x q)
    then show ?thesis using st same kv ok node [of q] by (auto simp: linking_def split: if_splits)
  next
    case (Node_claim slot x q)
    then show ?thesis using st same kv ok node [of q] by (auto simp: linking_def split: if_splits)
  next
    case (Link slot x q)
    have "slot_of_cell (dep_cell ?s (unat q)) = Opaque" by (rule own_cell(2) [OF S w(1)]) (simp add: Link)
    then have "unat slot \<noteq> unat q" using ok Link by (auto simp: at_head_def dep_view_def)
    then show ?thesis using st kv Link by (auto split: if_splits)
  next
    case (Swing slot x q)
    then show ?thesis using st same kv by (auto split: if_splits)
  qed (use w(2) in simp_all)
qed

lemma dep_others:
  assumes S: "dep_sim d n job c B L" and w: "w < n" "pcs c w = Link slot x q" and y: "y < n" "y \<noteq> w"
    and st: "dep_step (job w) (pcs c w) (shm c) = (pc', s')"
  shows "distance d s' (job y) (pcs c y) = distance d (shm c) (job y) (pcs c y)"
proof -
  let ?s = "shm c"
  note Z = sizedD [OF dep_simD(3) [OF S]]
  have own: "own_node (pcs c w) = Some (unat q)" using w(2) by simp
  note O = own_cell [OF S w(1) own]
  have s': "s' = set_dep_cell (unat q) (raw ((entry_of_raw (dep_cell ?s (unat q)))\<lparr>e_next := e_next (entry_of_raw x)\<rparr>)) ?s"
    using st w(2) by (cases "job w") simp
  have "dep_sim d n job \<lparr>shm = s', pcs = (pcs c)(w := Swing slot x q)\<rparr> B L" unfolding s' by (rule dep_link [OF S w])
  then have "slot_of_cell (dep_cell s' (unat q)) = Opaque" using own_cell(2) [of d n job _ B L w "unat q"] w(1) by fastforce
  then have view: "dep_view s' = dep_view ?s" using O(2) unfolding s' by (auto simp: dep_view_def fun_eq_iff)
  have "binding s' i = binding ?s i" if "i < 2 ^ d" for i using that O(1) Z unfolding s' by simp
  then have "bnd.stop (bnd_view s') b i = bnd.stop (bnd_view ?s) b i" if "i < 2 ^ d" for b i
    using that by (simp add: bnd.stop_def bnd_view_def)
  then have "gap (2 ^ d) (bnd.stop (bnd_view s') b) i = gap (2 ^ d) (bnd.stop (bnd_view ?s) b) i" for b i by (intro gap_cong) auto
  moreover have "dep_cell s' i = dep_cell ?s i" if "dep_view ?s i = Keyed k" for i k
    using that O(2) unfolding s' by (auto simp: dep_view_def)
  moreover have "dep_pc_ok d ?s B L (fst (job y)) (snd (job y)) (pcs c y)" using dep_simC(2) [OF S y(1)] .
  ultimately show ?thesis unfolding view by (cases "pcs c y") (auto simp: view at_head_def)
qed

definition dep_rank :: "nat \<Rightarrow> nat \<Rightarrow> (nat \<Rightarrow> u32 \<times> u32) \<Rightarrow> dep_conc \<Rightarrow> nat \<times> nat" where
  "dep_rank d n job c = (\<Sum>w<n. stage (pcs c w), \<Sum>w<n. distance d (shm c) (job w) (pcs c w))"

lemma dep_rank_step:
  assumes R: "dep_room d n job c" and step: "dep_interleave n job c c'"
  shows "(dep_rank d n job c', dep_rank d n job c) \<in> less_than <*lex*> less_than"
  using step
proof (rule interleaveE)
  fix w pc' s' assume w: "w < n" "\<not> dep_finished (pcs c w)" and st: "dep_step (job w) (pcs c w) (shm c) = (pc', s')"
    and c': "c' = \<lparr>shm = s', pcs = (pcs c)(w := pc')\<rparr>"
  obtain B L where S: "dep_sim d n job c B L" and room: "card B + card (binders n c) \<le> 2 ^ d" using R by (auto simp: dep_room_def)
  consider "stage pc' < stage (pcs c w)" | "stage pc' = stage (pcs c w)" "s' = shm c \<or> (\<exists>slot x q. pcs c w = Link slot x q)"
    using dep_stage [OF st w(2)] by blast
  then show ?thesis
  proof cases
    case 1
    have "(\<Sum>x<n. stage (pcs c' x)) < (\<Sum>x<n. stage (pcs c x))"
      by (rule sum_strict_mono_ex1) (use 1 w(1) c' in auto)
    then show ?thesis by (simp add: dep_rank_def)
  next
    case 2
    have "distance d s' (job x) (pcs c x) = distance d (shm c) (job x) (pcs c x)" if "x < n" "x \<noteq> w" for x
      using 2(2) dep_others [OF S w(1) _ that st] by auto
    then have "(\<Sum>x<n. distance d (shm c') (job x) (pcs c' x)) < (\<Sum>x<n. distance d (shm c) (job x) (pcs c x))"
      using dep_nearer [OF S room w st 2(1)] w(1) c' by (intro sum_strict_mono_ex1) (auto intro: less_imp_le)
    moreover have "(\<Sum>x<n. stage (pcs c' x)) = (\<Sum>x<n. stage (pcs c x))" using 2(1) c' by (intro sum.cong) auto
    ultimately show ?thesis by (simp add: dep_rank_def)
  qed
qed

interpretation deps: progress n dep_finished "\<lambda>w. dep_step (job w)" "dep_room d n job" "dep_rank d n job" "less_than <*lex*> less_than"
  for n job d
  by unfold_locales (auto intro: dep_room_step dep_rank_step)

lemma dep_room_start:
  assumes "dep_rel d s E" and "\<And>w. w < n \<Longrightarrow> edge31 (job w)" and "card E + n \<le> 2 ^ d"
  shows "dep_room d n job \<lparr>shm = s, pcs = (\<lambda>w. dep_start (job w) s)\<rparr>"
proof -
  let ?c = "\<lparr>shm = s, pcs = (\<lambda>w. dep_start (job w) s)\<rparr>"
  have "dep_sim d n job ?c E E" by (rule dep_sim_start [OF assms(1,2)])
  moreover have "card E + card (binders n ?c) \<le> 2 ^ d" using assms(3) by (simp add: dep_start_def)
  ultimately show ?thesis unfolding dep_room_def by blast
qed

lemma dep_room_run:
  assumes "reachable n dep_finished (\<lambda>w. dep_step (job w)) c0 c" and "dep_room d n job c0" and "\<And>w. w < n \<Longrightarrow> pcs c0 w \<noteq> Table_full"
  shows "dep_room d n job c \<and> (\<forall>w<n. pcs c w \<noteq> Table_full)"
  using assms(1)
proof (induction rule: reachable.induct)
  case (step c c')
  then have "dep_room d n job c'" "pcs c' w \<noteq> Table_full" if "w < n" for w
    using dep_room_step [of d n job c c'] dep_room_not_full [of d n job c c'] that by blast+
  then show ?case using step dep_room_step by blast
qed (use assms(2,3) in blast)

lemma dep_room_added:
  assumes "dep_room d n job c" and "pcs c w \<noteq> Table_full" and "dep_finished (pcs c w)" and "w < n"
  shows "pcs c w = Added"
proof -
  obtain B L where "dep_pc_ok d (shm c) B L (fst (job w)) (snd (job w)) (pcs c w)"
    using assms(1,4) dep_simC(2) unfolding dep_room_def by blast
  then show ?thesis using assms(2,3) by (cases "pcs c w") auto
qed

lemma dep_finish:
  assumes "dep_room d n job c" and "\<And>w. w < n \<Longrightarrow> pcs c w \<noteq> Table_full"
  shows "\<exists>c'. reachable n dep_finished (\<lambda>w. dep_step (job w)) c c' \<and> (\<forall>w<n. pcs c' w = Added)"
proof -
  obtain c' where c': "reachable n dep_finished (\<lambda>w. dep_step (job w)) c c'" "\<forall>w<n. dep_finished (pcs c' w)"
    using deps.finishes [OF assms(1) reachable.start] by blast
  then show ?thesis using dep_room_run [OF c'(1) assms] dep_room_added [of d n job c'] by blast
qed

subsection \<open>Properties\<close>

text \<open>C11: Concurrent insertions into the dependency graph, in every interleaving of their accesses to shared
  memory: when all calls have finished, each has added its edge or found the table full, none has
  failed a sanity check, the two arrays and the counter represent exactly the old edges and the edges
  of the calls that added theirs (each once, however many calls inserted it), and no byte of memory before or behind
  the two arrays and no other variable than the counter has changed.\<close>

theorem hh_add_dep_interleaved:
  assumes "dep_rel d s0 E" and "\<And>w. w < n \<Longrightarrow> edge31 (job w)"
    and "dep_run n job s0 c" and "\<And>w. w < n \<Longrightarrow> dep_finished (pcs c w)"
  shows "dep_rel d (shm c) (E \<union> job ` {w. w < n \<and> pcs c w = Added}) \<and> (\<forall>w<n. pcs c w = Added \<or> pcs c w = Table_full)
     \<and> deps_only s0 (shm c)"
proof -
  obtain B L where S: "dep_sim d n job c B L" and B: "E \<subseteq> B" "B \<subseteq> E \<union> job ` done_or_linking n c" and F: "deps_only s0 (shm c)"
    using dep_run_sim [OF assms(3,1,2)] by blast
  have ok: "dep_pc_ok d (shm c) B L (fst (job w)) (snd (job w)) (pcs c w)" if "w < n" for w by (rule dep_simC(2) [OF S that])
  have fin: "pcs c w = Added \<or> pcs c w = Table_full" if "w < n" for w
    using assms(4) [OF that] ok [OF that] by (cases "pcs c w") auto
  then have "done_or_linking n c = {w. w < n \<and> pcs c w = Added}" using assms(4) by (auto simp: done_or_linking_def linking_def)
  moreover have "job w \<in> B" if "w < n" "pcs c w = Added" for w using ok [OF that(1)] that(2) by simp
  ultimately have "B = E \<union> job ` {w. w < n \<and> pcs c w = Added}" using B by auto
  then show ?thesis using dep_sim_quiescent [OF S assms(4)] fin F by simp
qed

lemma demo_dep_calls:
  "\<exists>c. dep_run 2 (\<lambda>w. (1, 2 + word_of_nat w)) demo c \<and> (\<forall>w<2. pcs c w = Added)" "edge31 (1, 2 + word_of_nat w)" if "w < 2" for w :: nat
proof -
  have e: "edge31 (1, 2 + word_of_nat w)" if "w < 2" for w :: nat using that by (auto simp: edge31_def less_2_cases_iff)
  have r: "dep_room 2 2 (\<lambda>w. (1, 2 + word_of_nat w)) \<lparr>shm = demo, pcs = (\<lambda>w. dep_start (1, 2 + word_of_nat w) demo)\<rparr>"
    using dep_room_start [OF demo_dep(1), of 2 "\<lambda>w. (1, 2 + word_of_nat w)"] e by simp
  show "\<exists>c. dep_run 2 (\<lambda>w. (1, 2 + word_of_nat w)) demo c \<and> (\<forall>w<2. pcs c w = Added)"
    by (rule dep_finish [OF r]) (simp add: dep_start_def)
  show "edge31 (1, 2 + word_of_nat w)" using e that .
qed

theorem hh_add_dep_interleaved_witness:
  "\<exists>c. dep_run 2 (\<lambda>w. (1, 2 + word_of_nat w)) demo c \<and> dep_rel 2 (shm c) {(1, 2), (1, 3)}"
proof -
  obtain c where c: "dep_run 2 (\<lambda>w. (1, 2 + word_of_nat w)) demo c" "\<forall>w<2. pcs c w = Added" using demo_dep_calls(1) [of 0] by auto
  let ?j = "\<lambda>w. (1 :: u32, 2 + word_of_nat w :: u32)"
  have "dep_rel 2 (shm c) ({} \<union> ?j ` {w. w < 2 \<and> pcs c w = Added})"
    using hh_add_dep_interleaved [OF demo_dep(1) demo_dep_calls(2) c(1)] c(2) by simp
  moreover have "?j ` {w. w < 2 \<and> pcs c w = Added} = {(1, 2), (1, 3)}"
  proof -
    have "{w. w < 2 \<and> pcs c w = Added} = {0, 1}" using c(2) by auto
    then show ?thesis by simp
  qed
  ultimately show ?thesis using c(1) by (intro exI [of _ c] conjI) simp_all
qed

text \<open>C12: Insertion is lock-free while the table has a slot for every call: in every reachable state no call has
  found the table full, no run from there is infinite (whichever call the scheduler picks), and some
  run ends with every edge added. In particular the compare-and-swap loops on a list head and the scans
  for a free slot cannot go round for ever.\<close>

theorem hh_add_dep_lock_free:
  assumes "dep_rel d s0 E" and "\<And>w. w < n \<Longrightarrow> edge31 (job w)" and "card E + n \<le> 2 ^ d" and "dep_run n job s0 c"
  shows "(\<forall>w<n. pcs c w \<noteq> Table_full) \<and> (\<forall>f. f 0 = c \<longrightarrow> (\<exists>i. \<not> dep_interleave n job (f i) (f (Suc i))))
     \<and> (\<exists>c'. reachable n dep_finished (\<lambda>w. dep_step (job w)) c c' \<and> (\<forall>w<n. pcs c' w = Added))"
proof -
  have "dep_room d n job \<lparr>shm = s0, pcs = (\<lambda>w. dep_start (job w) s0)\<rparr>" by (rule dep_room_start [OF assms(1-3)])
  then have R: "dep_room d n job c" "\<forall>w<n. pcs c w \<noteq> Table_full"
    using dep_room_run [OF assms(4), of d] by (auto simp: dep_start_def)
  then show ?thesis using deps.no_infinite_run dep_finish [OF R(1)] by blast
qed

theorem hh_add_dep_lock_free_witness:
  "\<exists>c. dep_run 2 (\<lambda>w. (1, 2 + word_of_nat w)) demo c \<and> (\<forall>w<2. pcs c w = Added)"
  using hh_add_dep_lock_free [OF demo_dep(1) demo_dep_calls(2) _ reachable.start, of 2] by auto

end
