(* ===== verification/Spec2Isabelle.thy ===== *)
theory Spec2Isabelle
  imports Hh_Session Hh_Sqlite Hh_Interleaving Hh_Interleaving_Deps
begin

text \<open>
  \<^bold>\<open>The shared memory of Pysa.\<close>

  Pysa analyses Python programs with many processes. They share their results through one memory
  segment that a small C library manages, in \<open>src/source/hack_parallel/hack_parallel/heap/\<close>:
  \<open>hh_shared.c\<close> (the library), \<open>hh_shared_sqlite.c\<close> (its file-info database), \<open>hh_assert.c\<close> (failing
  assertions as OCaml exceptions), \<open>dictionary_compression_data.c\<close> (the dictionary its compression
  is primed with). This development models that C code and proves it correct. The OCaml code that
  calls it is not part of the development.

  \<^bold>\<open>The program.\<close> The master maps the segment (\<open>hh_shared_init\<close>) and workers inherit it. The segment holds, in
  this order, a page of small objects (heap pointer, counters, flags) and file names, the
  dependency table (\<open>deptbl\<close>, \<open>deptbl_bindings\<close>), the hashtable (\<open>hashtbl\<close>) and the heap. Workers add values
  (\<open>hh_add\<close>: claim a slot, allocate a block, copy the serialised and compressed value, publish the
  address) and edges (\<open>hh_add_dep\<close>), and everybody reads (\<open>hh_mem\<close>, \<open>hh_get_and_deserialize\<close>,
  \<open>hh_get_dep\<close>). Only the master removes (\<open>hh_remove\<close>, \<open>hh_move\<close>), compacts the heap (\<open>hh_collect\<close>), resets
  (\<open>pyre_reset\<close>), and saves or loads: the tables as a compressed file (\<open>hh_save_table\<close>,
  \<open>hh_load_table\<close>) or in SQLite databases.

  \<^bold>\<open>State.\<close> \<^typ>\<open>hh\<close> (theory \<open>Hh_State\<close>) has one field per static variable of \<open>hh_shared.c\<close>, the memory as a
  function from addresses to bytes, and the small objects as fields (their addresses are
  \<open>small_object_addr\<close>). Integers have their C width: \<open>u64\<close>, \<open>u32\<close>, \<open>u8\<close> are words that wrap. An
  operation maps a state to \<open>None\<close> (it does not return), or to a result and a state, where the
  result is an exception (\<open>Inl\<close>, with the source line of a failing assertion) or a value (\<open>Inr\<close>). An
  exception keeps the effects made before it. Loops are \<open>while1\<close>, a \<open>partial_function (option)\<close>
  iterating a body, so a loop that runs forever is \<open>None\<close> and a statement that an operation returns
  says \<open>Some\<close>.

  \<^bold>\<open>Theories.\<close>
  \<^item> \<open>Hh_Prelude\<close>: operations and loops, bytes and words in memory, lemmas on words and counting.
  \<^item> \<open>Linear_Probing\<close>: the locale \<open>linear_probing\<close>, the search along a circular table for any hash function;
    its lemmas (a key is found where it was put, filling the first free slot keeps everything
    findable, a full scan ends) carry all four probe loops of the program by interpretation.
  \<^item> \<open>Hh_State\<close>, \<open>Hh_Header\<close>, \<open>Hh_Cells\<close>, \<open>Hh_Init\<close>: globals and guards, the header word of a heap entry, the
    arrays as cells of the memory (locale \<open>cell_array\<close>) with the layout of the segment,
    start-up, reset and counters. Start-up hands the compression dictionary to ZSTD; start-up and reset establish
    the empty segment; the small objects are on different cache lines, before the file names.
  \<^item> \<open>Hh_Deptbl\<close>: \<open>add_binding\<close>, \<open>alloc_deptbl_node\<close>, \<open>prepend_to_deptbl_list\<close>, \<open>add_dep\<close>, \<open>hh_add_dep\<close>, \<open>hh_get_dep\<close>.
    \<open>dep_rel d s E\<close> says that the two arrays of \<open>2^d\<close> slots represent the edge set \<open>E\<close>: the hash set, the
    lists threaded through the array, and one used slot per edge. Insertion and lookup refine the
    set operations; what happens in a full table (also to edges that it holds) and for the edge \<open>(0, 0)\<close> is
    stated exactly.
  \<^item> \<open>Hh_Heap\<close>: \<open>hh_alloc\<close>, \<open>hh_store_ocaml\<close>, \<open>hh_deserialize\<close>; storing and reading gives the value back.
    \<open>process_runtime\<close> is the codec of a process, over the ZSTD contexts that start-up prepared; it satisfies \<open>runtime_ok\<close>.
  \<^item> \<open>Hh_Hashtbl\<close>: the operations of the hashtable and the relation \<open>ht_rel p s T\<close> between a segment of \<open>2^p\<close>
    slots and a partial map \<open>T\<close> from hashes to removed or bound entries: searchable slots, exact counters,
    a heap tiled by blocks, distinct blocks for distinct slots, exact wasted bytes.
  \<^item> \<open>Hh_Table\<close>: the contract of the table as the locale \<open>shared_table\<close>, its interpretation on the
    model, and the properties of add, get, mem, remove, move, with the full table, the full
    heap and missing permissions.
  \<^item> \<open>Hh_Collect\<close>: the collector, which reverses the pointers of live entries and slides blocks down;
    it keeps the table and gives back exactly the wasted bytes. It also holds what a slot whose writer ran out
    of heap does to every later operation (\<open>wedged\<close>).
  \<^item> \<open>Hh_Session\<close>: an abstract machine for the master (table, edges, free and wasted bytes), the locale
    \<open>simulation\<close>, and its interpretation: every permitted sequence of calls runs as the machine says.
  \<^item> \<open>Interleaving\<close>: calls of several processes on a shared state, one step of one call at a time, the same runs as
    schedules, and two locales: \<open>progress\<close> (an invariant and a well-founded rank give termination), interpreted by both
    of the next groups, and \<open>bounded_calls\<close> (a rank of the single call bounds its own steps), interpreted for \<open>hh_add\<close>.
  \<^item> \<open>Hh_Concurrent_Deps\<close>, \<open>Hh_Interleaving_Deps\<close>: any number of simultaneous \<open>add_dep\<close> calls, lock-free, one access to
    shared memory per step. The invariant \<open>dep_sim\<close> has the set of bound edges, the set of linked edges
    and the calls in between; nodes that are allocated and not linked are hidden from the lists. From it: when
    all calls have finished, the table represents exactly the old and the added edges; with room for
    the calls every run ends with every edge added.
  \<^item> \<open>Hh_Concurrent\<close>, \<open>Hh_Interleaving\<close>: any number of simultaneous \<open>hh_add\<close> calls as a step relation whose
    steps are single accesses to shared memory. The invariant \<open>sim\<close> relates a state to a sequential
    view; from it: when all calls have returned the table holds for each key what one of the calls wanted to
    store; no sanity check of \<open>hh_add\<close> fails, no block is shared; each call ends within \<open>6 * 2^p + 3\<close> steps of its own
    whatever the others do; a call alone does what the sequential \<open>hh_add\<close> does. The scan of \<open>raise_hash_table_full\<close>
    is part of the steps; in a table without room its assertion can fail while another call is counting.
  \<^item> \<open>Hh_Save\<close>: \<open>hh_save_table\<close> and \<open>hh_load_table\<close> over byte streams; loading what was saved restores the table.
  \<^item> \<open>Hh_Sqlite\<close>: the SQLite part of \<open>hh_shared.c\<close> and \<open>hh_shared_sqlite.c\<close>, as programs over the calls of SQLite.
  \<^item> \<open>Hh_Dictionary\<close>: the bytes of the compression dictionary and their number, used by \<open>init_zstd_compression\<close>.

  \<^bold>\<open>Parameters.\<close> Code that is not in the repository's sources is an argument: the operating system (page size, mmap,
  pid), the OCaml marshaller and ZSTD (record \<open>runtime\<close>, with \<open>runtime_ok\<close>: decoding inverts encoding; record \<open>zstd\<close>,
  with \<open>zstd_ok\<close>: it does so for equal dictionaries), LZ4
  and the C stream functions, SQLite (record of the results of its calls), the clock. Each property with such a hypothesis has a witness that
  instantiates it by concrete functions.

  \<^bold>\<open>Bounds.\<close> \<open>layout\<close> bounds the tables (\<open>2^31\<close> dependency slots, \<open>2^32\<close> hash slots, slot numbers being 32 bits
  with a tag in the first case) and the addresses (below \<open>2^62\<close>, so a pointer to a hash cell is even and small); start-up
  establishes it. No fuel is used.

  \<^bold>\<open>Memory model.\<close> Concurrent steps interleave on a sequentially consistent memory, which is what the comments in
  \<open>hh_add\<close> require of the processor.

  \<^bold>\<open>Not modelled.\<close> The Windows branches; the constant bodies used when SQLite is compiled out (\<open>hh_shared.c\<close> from line
  2474); the timing wrapper of \<open>get_dep_sqlite_blob\<close>; messages printed to stderr. \<open>hh_shared.h\<close> only
  declares. The OCaml and Python parts of Pysa and the vendored libraries are outside.

  \<^bold>\<open>Next.\<close> SQLite as a store with laws, for the round trip of the saved dependency table; readers that run
  beside writers (\<open>hh_mem_inner\<close>, \<open>hh_get_dep\<close>).
\<close>

end
